(* ===== verification/Prelude.thy ===== *)
theory Prelude
  imports Main "HOL-Library.Word" "HOL-Library.Monad_Syntax"
begin

text \<open>
  Vocabulary shared by every component: the fixed-width integers of the C code,
  pointers, the result codes, the C division on signed words, and the facts on
  words, options and lists that the component theories use.

  A C function that may run into undefined behaviour (a read or a write through
  a pointer to memory that is not allocated) is modelled by a function to
  \<^verbatim>\<open>option\<close>; \<^verbatim>\<open>None\<close> is that undefined behaviour.  C pointers are natural
  numbers, with \<^verbatim>\<open>0\<close> for the null pointer.
\<close>

unbundle bit_operations_syntax

type_synonym u8 = "8 word"
type_synonym u16 = "16 word"
type_synonym u32 = "32 word"
type_synonym i32 = "32 word"
type_synonym addr = nat

named_theorems heap_simps \<open>evaluation of reads and writes through a pointer\<close>
named_theorems fsm_simps \<open>evaluation of the state machines\<close>

section \<open>Options\<close>

lemma bind_Some_iff: "Option.bind x f = Some y \<longleftrightarrow> (\<exists>z. x = Some z \<and> f z = Some y)"
  by (cases x) auto

lemma bind_None_iff: "Option.bind x f = None \<longleftrightarrow> x = None \<or> (\<exists>z. x = Some z \<and> f z = None)"
  by (cases x) auto

section \<open>Lists\<close>

lemma in_set_tlD: "x \<in> set (tl xs) \<Longrightarrow> x \<in> set xs"
  by (cases xs) auto

lemma last_notin_butlast: "distinct xs \<Longrightarrow> xs \<noteq> [] \<Longrightarrow> last xs \<notin> set (butlast xs)"
  by (induction xs) auto

lemma hd_notin_tl: "distinct xs \<Longrightarrow> xs \<noteq> [] \<Longrightarrow> hd xs \<notin> set (tl xs)"
  by (cases xs) auto

section \<open>Unsigned words\<close>

lemma unat_u8: "unat (c :: u8) < 256"
  using unsigned_less [of c, where ?'a = nat] by simp

lemma unat_u16: "unat (c :: u16) < 65536"
  using unsigned_less [of c, where ?'a = nat] by simp

lemma unat_u32: "unat (c :: u32) < 4294967296"
  using unsigned_less [of c, where ?'a = nat] by simp

lemma and_not_mask_eq: "x AND NOT (mask k) = push_bit k (drop_bit k x)" for x :: u32
  by (rule bit_word_eqI) (auto simp: bit_simps)

lemma unat_u32_of_nat: "n < 2 ^ 32 \<Longrightarrow> unat (of_nat n :: u32) = n"
  by (simp add: unat_of_nat)

lemma unat_u32_add: "unat a + unat b < 2 ^ 32 \<Longrightarrow> unat (a + b) = unat a + unat b" for a b :: u32
  using unat_add_lem [of a b] by simp

lemma unat_u32_mult: "unat a * unat b < 2 ^ 32 \<Longrightarrow> unat (a * b) = unat a * unat b" for a b :: u32
  using unat_mult_lem [of a b] by simp

section \<open>Signed words\<close>

text \<open>Division of two \<^verbatim>\<open>int32_t\<close> values: C rounds towards zero.\<close>

definition c_quot :: "int \<Rightarrow> int \<Rightarrow> int" where
  "c_quot a b = sgn a * sgn b * (\<bar>a\<bar> div \<bar>b\<bar>)"

definition i32_div :: "i32 \<Rightarrow> i32 \<Rightarrow> i32" where
  "i32_div a b = word_of_int (c_quot (sint a) (sint b))"

lemma sint_small: "unat x < 2 ^ 31 \<Longrightarrow> sint x = int (unat x)" for x :: u32
proof -
  assume "unat x < 2 ^ 31"
  then have "int (unat x) < int (2 ^ 31)" by (simp only: of_nat_less_iff)
  then have "uint x < 2 ^ 31" by (simp only: uint_nat) simp
  moreover have "- (2 ^ 31) \<le> uint x" by (rule order_trans [OF _ uint_ge_0]) simp
  ultimately have "sint x = uint x" unfolding sint_uint by (intro signed_take_bit_int_eq_self) simp_all
  then show ?thesis by simp
qed

lemma i32_div_nat:
  assumes "unat x < 2 ^ 31" "0 < b" "b < 2 ^ 31"
  shows "unat (i32_div x (of_nat b)) = unat x div b"
proof -
  have b: "unat (of_nat b :: u32) = b" using assms(3) by (intro unat_u32_of_nat) simp
  have sb: "sint (of_nat b :: u32) = int b" using sint_small [of "of_nat b"] b assms(3) by simp
  then have "i32_div x (of_nat b) = word_of_int (int (unat x div b))"
    using assms(2) unfolding i32_div_def c_quot_def sint_small [OF assms(1)] sb by (simp add: zdiv_int sgn_if)
  then have "i32_div x (of_nat b) = of_nat (unat x div b)" by simp
  moreover have "unat x div b < 2 ^ 32" by (rule le_less_trans [OF div_le_dividend]) (use assms(1) in simp)
  ultimately show ?thesis using unat_u32_of_nat by metis
qed

end
