(* ===== verification/CamTypes.thy ===== *)
theory CamTypes
  imports Prelude
begin

text \<open>
  The data the camera stack passes around, from
  \<^verbatim>\<open>camera/QCamera2/stack/common/cam_types.h\<close>, \<^verbatim>\<open>cam_intf.h\<close>,
  \<^verbatim>\<open>mm_camera_interface.h\<close> and \<^verbatim>\<open>mm-camera-interface/inc/mm_camera.h\<close>.

  C unions with a type field are datatypes.  The four Bayer orders of a raw format, which the code
  always lists together, are one constructor with the order as its argument.  A frame buffer
  is passed by its descriptor: the descriptor array belongs to the stream and an entry is
  rewritten only when its buffer comes back from the kernel.
\<close>

definition MAX_STREAM_NUM_IN_BUNDLE :: nat where "MAX_STREAM_NUM_IN_BUNDLE = 4"
definition MM_CAMERA_STREAM_BUF_CB_MAX :: nat where "MM_CAMERA_STREAM_BUF_CB_MAX = 4"
definition MM_CAMERA_MAX_NUM_FRAMES :: nat where "MM_CAMERA_MAX_NUM_FRAMES = 24"

datatype bayer = GBRG | GRBG | RGGB | BGGR

datatype cam_format =
    CAM_FORMAT_JPEG
  | CAM_FORMAT_YUV_420_NV12
  | CAM_FORMAT_YUV_420_NV21
  | CAM_FORMAT_YUV_420_NV21_ADRENO
  | CAM_FORMAT_YUV_420_YV12
  | CAM_FORMAT_YUV_422_NV16
  | CAM_FORMAT_YUV_422_NV61
  | CAM_FORMAT_YUV_420_NV12_VENUS
  | CAM_FORMAT_YUV_RAW_8BIT_YUYV
  | CAM_FORMAT_YUV_RAW_8BIT_YVYU
  | CAM_FORMAT_YUV_RAW_8BIT_UYVY
  | CAM_FORMAT_YUV_RAW_8BIT_VYUY
  | CAM_FORMAT_BAYER_QCOM_RAW_8BPP bayer
  | CAM_FORMAT_BAYER_QCOM_RAW_10BPP bayer
  | CAM_FORMAT_BAYER_QCOM_RAW_12BPP bayer
  | CAM_FORMAT_BAYER_MIPI_RAW_8BPP bayer
  | CAM_FORMAT_BAYER_MIPI_RAW_10BPP bayer
  | CAM_FORMAT_BAYER_MIPI_RAW_12BPP bayer
  | CAM_FORMAT_BAYER_IDEAL_RAW_QCOM_8BPP bayer
  | CAM_FORMAT_BAYER_IDEAL_RAW_QCOM_10BPP bayer
  | CAM_FORMAT_BAYER_IDEAL_RAW_QCOM_12BPP bayer
  | CAM_FORMAT_BAYER_IDEAL_RAW_MIPI_8BPP bayer
  | CAM_FORMAT_BAYER_IDEAL_RAW_MIPI_10BPP bayer
  | CAM_FORMAT_BAYER_IDEAL_RAW_MIPI_12BPP bayer
  | CAM_FORMAT_BAYER_IDEAL_RAW_PLAIN8_8BPP bayer
  | CAM_FORMAT_BAYER_IDEAL_RAW_PLAIN16_8BPP bayer
  | CAM_FORMAT_BAYER_IDEAL_RAW_PLAIN16_10BPP bayer
  | CAM_FORMAT_BAYER_IDEAL_RAW_PLAIN16_12BPP bayer
  | CAM_FORMAT_JPEG_RAW_8BIT
  | CAM_FORMAT_META_RAW_8BIT
  | CAM_FORMAT_MAX

datatype cam_stream_type =
    CAM_STREAM_TYPE_DEFAULT
  | CAM_STREAM_TYPE_PREVIEW
  | CAM_STREAM_TYPE_POSTVIEW
  | CAM_STREAM_TYPE_SNAPSHOT
  | CAM_STREAM_TYPE_VIDEO
  | CAM_STREAM_TYPE_IMPL_DEFINED
  | CAM_STREAM_TYPE_YUV
  | CAM_STREAM_TYPE_METADATA
  | CAM_STREAM_TYPE_RAW
  | CAM_STREAM_TYPE_OFFLINE_PROC
  | CAM_STREAM_TYPE_MAX

datatype cam_mapping_buf_type =
    CAM_MAPPING_BUF_TYPE_CAPABILITY
  | CAM_MAPPING_BUF_TYPE_PARM_BUF
  | CAM_MAPPING_BUF_TYPE_STREAM_BUF
  | CAM_MAPPING_BUF_TYPE_STREAM_INFO
  | CAM_MAPPING_BUF_TYPE_OFFLINE_INPUT_BUF
  | CAM_MAPPING_BUF_TYPE_MAX

record cam_dimension =
  dim_width :: i32
  dim_height :: i32

datatype mm_jpeg_color_format =
    MM_JPEG_COLOR_FORMAT_YCRCBLP_H2V2
  | MM_JPEG_COLOR_FORMAT_YCBCRLP_H2V2
  | MM_JPEG_COLOR_FORMAT_YCRCBLP_H2V1
  | MM_JPEG_COLOR_FORMAT_YCBCRLP_H2V1
  | MM_JPEG_COLOR_FORMAT_YCRCBLP_H1V2
  | MM_JPEG_COLOR_FORMAT_YCBCRLP_H1V2
  | MM_JPEG_COLOR_FORMAT_YCRCBLP_H1V1
  | MM_JPEG_COLOR_FORMAT_YCBCRLP_H1V1
  | MM_JPEG_COLOR_FORMAT_BITSTREAM_H2V2
  | MM_JPEG_COLOR_FORMAT_BITSTREAM_H2V1
  | MM_JPEG_COLOR_FORMAT_BITSTREAM_H1V2
  | MM_JPEG_COLOR_FORMAT_BITSTREAM_H1V1
  | MM_JPEG_COLOR_FORMAT_MAX

section \<open>Frame buffers\<close>

record mm_camera_buf_def =
  bd_stream_id :: u32
  bd_stream_type :: cam_stream_type
  bd_buf_idx :: u8
  bd_is_uv_subsampled :: u8
  bd_ts :: "i32 \<times> i32"
  bd_frame_idx :: u32
  bd_num_planes :: u8
  bd_planes :: "u32 list"
  bd_fd :: i32
  bd_buffer :: addr
  bd_frame_len :: u32

record mm_camera_buf_info =
  bi_stream_id :: u32
  bi_frame_idx :: u32
  bi_buf :: "mm_camera_buf_def option"

text \<open>A slot zeroed by \<^verbatim>\<open>memset\<close>.\<close>

definition buf_info_zero :: mm_camera_buf_info where
  "buf_info_zero = \<lparr>bi_stream_id = 0, bi_frame_idx = 0, bi_buf = None\<rparr>"

record mm_camera_super_buf =
  sbf_camera_handle :: u32
  sbf_ch_id :: u32
  sbf_bufs :: "mm_camera_buf_def option list"

datatype mm_camera_super_buf_notify_mode =
    MM_CAMERA_SUPER_BUF_NOTIFY_BURST
  | MM_CAMERA_SUPER_BUF_NOTIFY_CONTINUOUS
  | MM_CAMERA_SUPER_BUF_NOTIFY_MAX

record mm_camera_channel_attr =
  notify_mode :: mm_camera_super_buf_notify_mode
  water_mark :: u8
  look_back :: u8
  post_frame_skip :: u8
  max_unmatched_frames :: u8

section \<open>Metadata\<close>

datatype cam_prep_snapshot_state = DO_NOT_NEED_FUTURE_FRAME | NEED_FUTURE_FRAME

text \<open>The members of \<^verbatim>\<open>cam_metadata_info_t\<close> the library reads.\<close>

record cam_metadata_info =
  is_prep_snapshot_done_valid :: bool
  prep_snapshot_done_state :: cam_prep_snapshot_state
  is_good_frame_idx_range_valid :: bool
  good_min_frame_idx :: u32

section \<open>Commands of the worker threads\<close>

definition CAM_EVENT_TYPE_DAEMON_DIED :: u32 where "CAM_EVENT_TYPE_DAEMON_DIED = 8"

record mm_camera_event =
  server_event_type :: u32
  evt_status :: u32

datatype mm_camera_cmdcb =
    CMD_DATA_CB mm_camera_buf_info
  | CMD_EVT_CB mm_camera_event
  | CMD_EXIT
  | CMD_REQ_DATA_CB u32
  | CMD_SUPER_BUF_DATA_CB mm_camera_super_buf
  | CMD_CONFIG_NOTIFY mm_camera_super_buf_notify_mode
  | CMD_FLUSH_QUEUE u32
  | CMD_TYPE_MAX

end
