(* ===== verification/World.thy ===== *)
theory World
  imports CamTypes
begin

text \<open>
  The world outside the library: the kernel driver, the allocator, the callbacks of the
  application.  A call is a value of \<^verbatim>\<open>syscall\<close>; the world is the trace of the calls made so far,
  and the environment \<^verbatim>\<open>env\<close> answers each call from that trace, so that it may remember
  anything and every answer is possible.  Answers: \<^verbatim>\<open>e_ret\<close> is the \<^verbatim>\<open>int\<close> result (for an allocation
  0 is the null pointer), the other members are the data a call fills in; \<^verbatim>\<open>e_eio\<close> says whether \<^verbatim>\<open>errno\<close> is
  \<^verbatim>\<open>EIO\<close>, \<^verbatim>\<open>e_notify\<close> lists the notifications the event thread stores while a thread waits for one, and
  \<^verbatim>\<open>e_status_success\<close> is the kernel's \<^verbatim>\<open>MSM_CAMERA_STATUS_SUCCESS\<close>.

  Three entries of the trace are no calls.  \<^verbatim>\<open>UndefinedBehaviour\<close> marks a step at which the code
  dereferences a null pointer or indexes an array out of its bounds, \<^verbatim>\<open>BlockedForever\<close> one at which it
  waits for a thread that never ends; what follows such a mark has no meaning.  \<^verbatim>\<open>ChannelQbuf\<close> marks the
  entry of \<^verbatim>\<open>mm_channel_qbuf\<close>, so that the buffers a channel hands back can be counted.
\<close>

datatype cid = CAM_PRIV_STREAM_INFO_SYNC | CAM_PRIV_STREAM_PARM | CAM_PRIV_PARM | CAM_PRIV_DO_AUTO_FOCUS
  | CAM_PRIV_CANCEL_AUTO_FOCUS | CAM_PRIV_PREPARE_SNAPSHOT | CAM_PRIV_START_ZSL_SNAPSHOT | CAM_PRIV_STOP_ZSL_SNAPSHOT

record sock_packet =
  pk_mapping :: bool
  pk_type :: cam_mapping_buf_type
  pk_stream_id :: u32
  pk_frame_idx :: u32
  pk_plane_idx :: i32
  pk_fd :: i32
  pk_size :: u32

record fmt_request =
  fr_width :: i32
  fr_height :: i32
  fr_fmt :: cam_format
  fr_plane_sizes :: "u32 list"

datatype pipe_cmd = MM_CAMERA_PIPE_CMD_POLL_ENTRIES_UPDATED | MM_CAMERA_PIPE_CMD_EXIT

datatype sock_type = MM_CAMERA_SOCK_TYPE_UDP | MM_CAMERA_SOCK_TYPE_TCP

text \<open>A dequeued V4L2 event: a camera notification with its command and status, or anything else.\<close>

datatype v4l2_event =
    MapUnmapDone u32
  | PrivShutdown
  | OtherEvent

datatype syscall =
    Open u32
  | Close i32
  | StreamOn i32
  | StreamOff i32
  | Dqbuf i32 u8
  | Qbuf i32 u8 u8 "u32 list"
  | Reqbufs i32 u32
  | SParm i32
  | SFmt i32 fmt_request
  | SCtrl i32 cid i32
  | GCtrl i32 cid
  | SendMsg sock_packet i32
  | PipeOpen
  | PipeWrite i32 pipe_cmd
  | ThreadJoin
  | Malloc
  | GetBufs u8
  | PutBufs
  | InvalidateBuf u8
  | CleanInvalidateBuf u8
  | Socket sock_type
  | Connect i32 u32
  | SockSend i32 sock_packet "i32 option"
  | SubscribeEvent i32
  | UnsubscribeEvent i32
  | Dqevent i32
  | QueryCap i32
  | Usleep u32
  | EventCallback u32 nat mm_camera_event
  | FrameCallback nat mm_camera_super_buf
  | SuperBufCallback mm_camera_super_buf
  | ChannelQbuf mm_camera_buf_def
  | UndefinedBehaviour
  | BlockedForever

type_synonym world = "syscall list"

record dq_reply =
  dq_index :: u8
  dq_sequence :: u32
  dq_ts :: "i32 \<times> i32"
  dq_uv :: bool

record bufs_reply =
  br_bufs :: "mm_camera_buf_def list"
  br_reg_flags :: "bool list"

record env =
  e_ret :: "world \<Rightarrow> syscall \<Rightarrow> i32"
  e_dq :: "world \<Rightarrow> dq_reply"
  e_ext_mode :: "world \<Rightarrow> u32"
  e_bufs :: "world \<Rightarrow> bufs_reply"
  e_metadata :: "world \<Rightarrow> mm_camera_buf_def \<Rightarrow> cam_metadata_info option"
  e_has_op :: "syscall \<Rightarrow> bool"
  e_eio :: "world \<Rightarrow> bool"
  e_event :: "world \<Rightarrow> v4l2_event"
  e_notify :: "world \<Rightarrow> mm_camera_event list"
  e_status_success :: u32

definition call :: "env \<Rightarrow> syscall \<Rightarrow> world \<Rightarrow> world \<times> i32" where
  "call e c w = (w @ [c], e_ret e w c)"

definition malloc_ok :: "env \<Rightarrow> world \<Rightarrow> world \<times> bool" where
  "malloc_ok e w = (w @ [Malloc], e_ret e w Malloc \<noteq> 0)"

lemma call_trace [simp]: "fst (call e c w) = w @ [c]" "snd (call e c w) = e_ret e w c"
  by (simp_all add: call_def)

end
