(* ===== verification/Handle.thy ===== *)
theory Handle
  imports Prelude
begin

text \<open>
  Object handles: \<^verbatim>\<open>mm_camera_util_generate_handler\<close> and its siblings of
  \<^verbatim>\<open>mm_camera_interface.c\<close>, and the same pair of \<^verbatim>\<open>mm_jpeg_interface.c\<close>.  The 16-bit
  counter \<^verbatim>\<open>g_handler_history_count\<close> is threaded as state; a handle carries the
  counter in its bits 8 to 23 and the index of the object in its low byte.
\<close>

section \<open>mm_camera_interface.c\<close>

text \<open>\<^verbatim>\<open>gen cnt index\<close> returns the new counter and the handle.\<close>

definition mm_camera_util_generate_handler :: "u16 \<Rightarrow> u8 \<Rightarrow> u16 \<times> u32" where
  "mm_camera_util_generate_handler cnt index =
     (let cnt = cnt + 1;
          cnt = (if cnt = 0 then cnt + 1 else cnt);
          handler = (ucast cnt :: u32);
          handler = push_bit 8 handler OR ucast index
      in (cnt, handler))"

definition mm_camera_util_get_index_by_handler :: "u32 \<Rightarrow> u8" where
  "mm_camera_util_get_index_by_handler handler = ucast (handler AND 0x000000ff)"

section \<open>mm_jpeg_interface.c\<close>

definition mm_jpeg_util_generate_handler :: "u16 \<Rightarrow> u8 \<Rightarrow> u16 \<times> u32" where
  "mm_jpeg_util_generate_handler cnt index =
     (let cnt = cnt + 1;
          cnt = (if cnt = 0 then cnt + 1 else cnt);
          handler = (ucast cnt :: u32);
          handler = push_bit 8 handler OR ucast index
      in (cnt, handler))"

definition mm_jpeg_util_get_index_by_handler :: "u32 \<Rightarrow> u8" where
  "mm_jpeg_util_get_index_by_handler handler = ucast (handler AND 0x000000ff)"

section \<open>Facts\<close>

lemma low_byte_mask: "(0xff :: u32) = mask 8"
  by (simp add: mask_eq_exp_minus_1)

lemma hdl_index: "ucast ((push_bit 8 (ucast c :: u32) OR ucast i) AND 0xff) = i"
  for c :: u16 and i :: u8
  unfolding low_byte_mask by (rule bit_word_eqI) (auto simp: bit_simps)

lemma hdl_count: "drop_bit 8 (push_bit 8 (ucast c :: u32) OR ucast i) = ucast c"
  for c :: u16 and i :: u8
  by (rule bit_word_eqI) (auto simp: bit_simps dest: bit_imp_le_length)

lemma ucast_u16_inj: "(ucast c :: u32) = ucast d \<longleftrightarrow> c = d" for c d :: u16
proof
  assume e: "(ucast c :: u32) = ucast d"
  have "bit x n = bit (ucast x :: u32) n" if "n < 16" for x :: u16 and n
    using that by (simp add: bit_simps)
  then show "c = d" by (intro bit_word_eqI) (simp add: e)
qed simp

lemma hdl_eq_iff:
  "(push_bit 8 (ucast c :: u32) OR ucast i) = (push_bit 8 (ucast d) OR ucast j) \<longleftrightarrow> c = d \<and> i = j"
  for c d :: u16 and i j :: u8
  using hdl_index [of c i] hdl_index [of d j] hdl_count [of c i] hdl_count [of d j] ucast_u16_inj [of c d]
  by metis

text \<open>The counter runs through 1 to 65535 and skips 0 when it wraps.\<close>

lemma next_count:
  fixes c :: u16
  shows "unat (if c + 1 = 0 then c + 1 + 1 else c + 1) = unat c mod 65535 + 1"
proof -
  have u: "unat (c + 1) = (unat c + 1) mod 65536" by (simp add: unat_word_ariths)
  have lt: "unat c < 65536" by (rule unat_u16)
  show ?thesis
  proof (cases "c + 1 = 0")
    case True
    then have "(unat c + 1) mod 65536 = 0" using u by simp
    then have "unat c = 65535" using lt by (simp add: mod_if split: if_splits)
    then show ?thesis using True by simp
  next
    case False
    then have "unat (c + 1) \<noteq> 0" unfolding unsigned_eq_0_iff .
    then have "unat c < 65535" using u lt by (cases "unat c = 65535") auto
    then show ?thesis using u False by simp
  qed
qed

text \<open>The handles a process generates, one call per entry of the list of indices.\<close>

fun generate_handlers :: "u16 \<Rightarrow> u8 list \<Rightarrow> u32 list" where
  "generate_handlers cnt [] = []"
| "generate_handlers cnt (i # is) =
     (let (cnt, h) = mm_camera_util_generate_handler cnt i in h # generate_handlers cnt is)"

definition count_at :: "u16 \<Rightarrow> nat \<Rightarrow> u16" where
  "count_at c k = of_nat ((unat c + k) mod 65535 + 1)"

lemma unat_count_at: "unat (count_at c k) = (unat c + k) mod 65535 + 1"
proof -
  have "(unat c + k) mod 65535 + 1 < 2 ^ 16" using mod_less_divisor [of 65535 "unat c + k"] by simp
  then show ?thesis unfolding count_at_def unat_of_nat by simp
qed

lemma count_at_step: "(if c + 1 = 0 then c + 1 + 1 else c + 1) = count_at c 0"
  by (rule iffD2 [OF word_unat_eq_iff]) (simp only: next_count unat_count_at add_0_right)

lemma count_at_shift: "count_at (count_at c 0) k = count_at c (Suc k)"
  unfolding count_at_def [of "count_at c 0"] count_at_def [of c "Suc k"] unat_count_at
  by (metis Suc_eq_plus1 add_0_right add_Suc add_Suc_right mod_Suc_eq mod_add_left_eq)

lemma generate_handlers_nth:
  "k < length is \<Longrightarrow> generate_handlers c is ! k = push_bit 8 (ucast (count_at c k)) OR ucast (is ! k)"
proof (induction "is" arbitrary: c k)
  case (Cons i "is")
  have h: "mm_camera_util_generate_handler c i = (count_at c 0, push_bit 8 (ucast (count_at c 0)) OR ucast i)"
    unfolding mm_camera_util_generate_handler_def Let_def count_at_step ..
  show ?case using Cons by (cases k) (simp_all add: h count_at_shift)
qed simp

lemma generate_handlers_length [simp]: "length (generate_handlers c is) = length is"
  by (induction "is" arbitrary: c) (auto simp: split_beta)

lemma count_at_inj: "j < 65535 \<Longrightarrow> k < 65535 \<Longrightarrow> count_at c j = count_at c k \<Longrightarrow> j = k"
proof -
  assume jk: "j < 65535" "k < 65535" and "count_at c j = count_at c k"
  then have "(unat c + j) mod 65535 = (unat c + k) mod 65535"
    using unat_count_at [of c j] unat_count_at [of c k] by simp
  then have e: "(unat c mod 65535 + j) mod 65535 = (unat c mod 65535 + k) mod 65535"
    by (simp add: mod_add_left_eq)
  have m: "(a + i) mod n = (if a + i < n then a + i else a + i - n)" if "a < n" "i < n" for a i n :: nat
    using that by (simp add: mod_if)
  have a: "unat c mod 65535 < 65535" by simp
  show "j = k"
    using e a jk unfolding m [OF a jk(1)] m [OF a jk(2)] by (simp split: if_splits)
qed

lemma handler_nonzero: "push_bit 8 (ucast (count_at c k) :: u32) OR ucast (i :: u8) \<noteq> 0"
proof
  assume "push_bit 8 (ucast (count_at c k) :: u32) OR ucast i = 0"
  then have "(ucast (count_at c k) :: u32) = ucast (0 :: u16)"
    using hdl_count [of "count_at c k" i] by simp
  then have "count_at c k = 0" unfolding ucast_u16_inj .
  then show False using unat_count_at [of c k] by simp
qed

text \<open>whatever the counter's value, the handles of up to 65535 consecutive calls of the handle
  generator are pairwise different even across the wrap-around of the 16-bit counter, none is the
  invalid handle 0, and each gives back the index it was made for.\<close>

theorem handlers_unique:
  assumes "length is \<le> 65535"
  shows "distinct (generate_handlers cnt is) \<and> 0 \<notin> set (generate_handlers cnt is)
     \<and> map mm_camera_util_get_index_by_handler (generate_handlers cnt is) = is"
proof (intro conjI)
  show "distinct (generate_handlers cnt is)"
    unfolding distinct_conv_nth using assms count_at_inj [of _ _ cnt]
    by (auto simp: generate_handlers_nth hdl_eq_iff)
  show "0 \<notin> set (generate_handlers cnt is)"
    by (auto simp: in_set_conv_nth generate_handlers_nth handler_nonzero)
  show "map mm_camera_util_get_index_by_handler (generate_handlers cnt is) = is"
    by (rule nth_equalityI)
      (auto simp: generate_handlers_nth mm_camera_util_get_index_by_handler_def hdl_index)
qed

theorem handlers_unique_witness:
  "distinct (generate_handlers (-1) [3, 3, 0]) \<and> 0 \<notin> set (generate_handlers (-1) [3, 3, 0])
     \<and> map mm_camera_util_get_index_by_handler (generate_handlers (-1) [3, 3, 0]) = [3, 3, 0]"
  using handlers_unique [of "[3, 3, 0]" "-1"] by simp

end
