(* ===== verification/PollThread.thy ===== *)
theory PollThread
  imports World Handle
begin

text \<open>
  The poll thread, first half of
  \<^verbatim>\<open>camera/QCamera2/stack/mm-camera-interface/src/mm_camera_thread.c\<close>: a thread that polls a pipe
  and up to four file descriptors and calls the callback registered for the descriptor that
  became ready.  The array \<^verbatim>\<open>poll_fds\<close> handed to \<^verbatim>\<open>poll\<close> is rebuilt from \<^verbatim>\<open>poll_entries\<close> when a
  command arrives on the pipe; entry \<open>i\<close> is polled at index \<open>i + 1\<close>.

  A command is a handshake: the sender writes to the pipe and waits until the thread has
  processed it, so \<^verbatim>\<open>mm_camera_poll_sig\<close> runs \<^verbatim>\<open>mm_camera_poll_proc_pipe\<close>.  When the pipe cannot be
  written the sender does not wait and reports success.  A callback with its \<^verbatim>\<open>user_data\<close> is a
  value of the type \<^verbatim>\<open>'n\<close>.
\<close>

datatype poll_thread_type = MM_CAMERA_POLL_TYPE_EVT | MM_CAMERA_POLL_TYPE_DATA | MM_CAMERA_POLL_TYPE_MAX

datatype poll_task_state = MM_CAMERA_POLL_TASK_STATE_STOPPED | MM_CAMERA_POLL_TASK_STATE_POLL

record 'n mm_camera_poll_entry =
  pe_fd :: i32
  pe_notify_cb :: "'n option"
  pe_handler :: u32

record pollfd =
  pf_fd :: i32
  pf_events :: bool

record 'n mm_camera_poll_thread =
  poll_type :: poll_thread_type
  poll_entries :: "'n mm_camera_poll_entry list"
  pfds :: "i32 \<times> i32"
  poll_state :: poll_task_state
  timeoutms :: i32
  poll_fds :: "pollfd list"
  num_fds :: nat

definition poll_thread_zero :: "'n mm_camera_poll_thread" where
  "poll_thread_zero = \<lparr>poll_type = MM_CAMERA_POLL_TYPE_EVT,
     poll_entries = replicate MAX_STREAM_NUM_IN_BUNDLE \<lparr>pe_fd = 0, pe_notify_cb = None, pe_handler = 0\<rparr>,
     pfds = (0, 0), poll_state = MM_CAMERA_POLL_TASK_STATE_STOPPED, timeoutms = 0,
     poll_fds = replicate (MAX_STREAM_NUM_IN_BUNDLE + 1) \<lparr>pf_fd = 0, pf_events = False\<rparr>, num_fds = 0\<rparr>"

section \<open>The pipe\<close>

definition put_pollfd :: "pollfd \<Rightarrow> 'n mm_camera_poll_thread \<Rightarrow> 'n mm_camera_poll_thread" where
  "put_pollfd f p = p\<lparr>poll_fds := (poll_fds p)[num_fds p := f], num_fds := num_fds p + 1\<rparr>"

definition mm_camera_poll_set_state :: "'n mm_camera_poll_thread \<Rightarrow> poll_task_state \<Rightarrow> 'n mm_camera_poll_thread" where
  "mm_camera_poll_set_state p st = p\<lparr>poll_state := st\<rparr>"

definition mm_camera_poll_proc_pipe :: "pipe_cmd \<Rightarrow> 'n mm_camera_poll_thread \<Rightarrow> 'n mm_camera_poll_thread" where
  "mm_camera_poll_proc_pipe cmd p = (case cmd of
     MM_CAMERA_PIPE_CMD_POLL_ENTRIES_UPDATED \<Rightarrow>
       (let p = put_pollfd \<lparr>pf_fd = fst (pfds p), pf_events = True\<rparr> (p\<lparr>num_fds := 0\<rparr>) in
        case poll_type p of
          MM_CAMERA_POLL_TYPE_EVT \<Rightarrow>
            (if 0 <s pe_fd (poll_entries p ! 0)
             then put_pollfd \<lparr>pf_fd = pe_fd (poll_entries p ! 0), pf_events = True\<rparr> p else p)
        | MM_CAMERA_POLL_TYPE_DATA \<Rightarrow>
            fold (\<lambda>i p. if 0 <s pe_fd (poll_entries p ! i)
                        then put_pollfd \<lparr>pf_fd = pe_fd (poll_entries p ! i), pf_events = True\<rparr> p
                        else put_pollfd \<lparr>pf_fd = -1, pf_events = False\<rparr> p)
              [0 ..< MAX_STREAM_NUM_IN_BUNDLE] p
        | MM_CAMERA_POLL_TYPE_MAX \<Rightarrow> p)
   | MM_CAMERA_PIPE_CMD_EXIT \<Rightarrow> mm_camera_poll_set_state p MM_CAMERA_POLL_TASK_STATE_STOPPED)"

definition mm_camera_poll_sig ::
    "env \<Rightarrow> pipe_cmd \<Rightarrow> 'n mm_camera_poll_thread \<Rightarrow> world \<Rightarrow> 'n mm_camera_poll_thread \<times> world \<times> i32" where
  "mm_camera_poll_sig e cmd p w =
     (case call e (PipeWrite (snd (pfds p)) cmd) w of (w, len) \<Rightarrow>
        if len <s 1 then (p, w, 0) else (mm_camera_poll_proc_pipe cmd p, w, 0))"

section \<open>Registering descriptors\<close>

definition poll_entry_idx :: "'n mm_camera_poll_thread \<Rightarrow> u32 \<Rightarrow> nat" where
  "poll_entry_idx p handler = (if poll_type p = MM_CAMERA_POLL_TYPE_DATA
     then unat (mm_camera_util_get_index_by_handler handler) else 0)"

definition mm_camera_poll_thread_notify_entries_updated ::
    "env \<Rightarrow> 'n mm_camera_poll_thread \<Rightarrow> world \<Rightarrow> 'n mm_camera_poll_thread \<times> world \<times> i32" where
  "mm_camera_poll_thread_notify_entries_updated e p w =
     mm_camera_poll_sig e MM_CAMERA_PIPE_CMD_POLL_ENTRIES_UPDATED p w"

definition mm_camera_poll_thread_add_poll_fd ::
    "env \<Rightarrow> u32 \<Rightarrow> i32 \<Rightarrow> 'n option \<Rightarrow> 'n mm_camera_poll_thread \<Rightarrow> world \<Rightarrow> 'n mm_camera_poll_thread \<times> world \<times> i32" where
  "mm_camera_poll_thread_add_poll_fd e handler fd notify_cb p w =
     (let idx = poll_entry_idx p handler in
      if idx < MAX_STREAM_NUM_IN_BUNDLE then
        mm_camera_poll_sig e MM_CAMERA_PIPE_CMD_POLL_ENTRIES_UPDATED
          (p\<lparr>poll_entries := (poll_entries p)[idx :=
               \<lparr>pe_fd = fd, pe_notify_cb = notify_cb, pe_handler = handler\<rparr>]\<rparr>) w
      else (p, w, -1))"

definition mm_camera_poll_thread_del_poll_fd ::
    "env \<Rightarrow> u32 \<Rightarrow> 'n mm_camera_poll_thread \<Rightarrow> world \<Rightarrow> 'n mm_camera_poll_thread \<times> world \<times> i32" where
  "mm_camera_poll_thread_del_poll_fd e handler p w =
     (let idx = poll_entry_idx p handler in
      if idx < MAX_STREAM_NUM_IN_BUNDLE \<and> handler = pe_handler (poll_entries p ! idx) then
        mm_camera_poll_sig e MM_CAMERA_PIPE_CMD_POLL_ENTRIES_UPDATED
          (p\<lparr>poll_entries := (poll_entries p)[idx := \<lparr>pe_fd = -1, pe_notify_cb = None, pe_handler = 0\<rparr>]\<rparr>) w
      else (p, w, -1))"

section \<open>Launch and release\<close>

text \<open>The launcher waits until the thread runs: it has put the pipe into the first free slot and
  entered the polling state.  The descriptors of the new pipe are an argument.\<close>

definition poll_thread_main :: "'n mm_camera_poll_thread \<Rightarrow> 'n mm_camera_poll_thread" where
  "poll_thread_main p =
     mm_camera_poll_set_state
       (p\<lparr>poll_fds := (poll_fds p)[num_fds p := (poll_fds p ! num_fds p)\<lparr>pf_fd := fst (pfds p)\<rparr>],
          num_fds := num_fds p + 1\<rparr>) MM_CAMERA_POLL_TASK_STATE_POLL"

definition mm_camera_poll_thread_launch ::
    "env \<Rightarrow> i32 \<times> i32 \<Rightarrow> poll_thread_type \<Rightarrow> 'n mm_camera_poll_thread \<Rightarrow> world \<Rightarrow> 'n mm_camera_poll_thread \<times> world \<times> i32" where
  "mm_camera_poll_thread_launch e newpipe ty p w =
     (let p = p\<lparr>poll_type := ty, pfds := (0, 0)\<rparr> in
      case call e PipeOpen w of (w, rc) \<Rightarrow>
        if rc <s 0 then (p, w, -1)
        else (poll_thread_main (p\<lparr>pfds := newpipe, timeoutms := -1\<rparr>), w, rc))"

definition mm_camera_poll_thread_release ::
    "env \<Rightarrow> 'n mm_camera_poll_thread \<Rightarrow> world \<Rightarrow> 'n mm_camera_poll_thread \<times> world \<times> i32" where
  "mm_camera_poll_thread_release e p w =
     (if poll_state p = MM_CAMERA_POLL_TASK_STATE_STOPPED then (p, w, 0)
      else
        (case mm_camera_poll_sig e MM_CAMERA_PIPE_CMD_EXIT p w of (p, w, _) \<Rightarrow>
         let w = w @ [ThreadJoin];
             w = (if fst (pfds p) \<noteq> 0 then w @ [Close (fst (pfds p))] else w);
             w = (if snd (pfds p) \<noteq> 0 then w @ [Close (snd (pfds p))] else w)
         in (poll_thread_zero, w, 0)))"

section \<open>One round of the polling loop\<close>

record revents =
  r_in :: bool
  r_rdnorm :: bool
  r_pri :: bool

text \<open>The result of a round: nothing, the command read from the pipe, or the callbacks run.\<close>

datatype 'n poll_round = PollError | PollPipe | PollNotify "'n list"

definition poll_slot_fires :: "'n mm_camera_poll_thread \<Rightarrow> revents \<Rightarrow> bool" where
  "poll_slot_fires p r \<longleftrightarrow> (poll_type p = MM_CAMERA_POLL_TYPE_EVT \<and> r_pri r)
     \<or> (poll_type p = MM_CAMERA_POLL_TYPE_DATA \<and> r_in r \<and> r_rdnorm r)"

definition mm_camera_poll_fn_round :: "i32 \<Rightarrow> revents list \<Rightarrow> 'n mm_camera_poll_thread \<Rightarrow> 'n poll_round" where
  "mm_camera_poll_fn_round rc revs p =
     (if 0 <s rc then
        (if r_in (revs ! 0) \<and> r_rdnorm (revs ! 0) then PollPipe
         else PollNotify (List.map_filter
                (\<lambda>i. if poll_slot_fires p (revs ! i) then pe_notify_cb (poll_entries p ! (i - 1)) else None)
                [1 ..< num_fds p]))
      else PollError)"

section \<open>The polled array follows the entries\<close>

definition poll_wf :: "'n mm_camera_poll_thread \<Rightarrow> bool" where
  "poll_wf p \<longleftrightarrow> length (poll_entries p) = MAX_STREAM_NUM_IN_BUNDLE \<and> length (poll_fds p) = MAX_STREAM_NUM_IN_BUNDLE + 1"

text \<open>The descriptor polled for an entry: its own when it is valid, -1 (ignored by \<^verbatim>\<open>poll\<close>) otherwise.\<close>

definition polled_fd :: "'n mm_camera_poll_entry \<Rightarrow> i32" where
  "polled_fd en = (if 0 <s pe_fd en then pe_fd en else -1)"

definition poll_synced :: "'n mm_camera_poll_thread \<Rightarrow> bool" where
  "poll_synced p \<longleftrightarrow> map pf_fd (take (num_fds p) (poll_fds p)) = fst (pfds p) # map polled_fd (poll_entries p)"

lemma put_pollfd_simps [simp]:
  "poll_type (put_pollfd f p) = poll_type p" "poll_entries (put_pollfd f p) = poll_entries p"
  "pfds (put_pollfd f p) = pfds p" "poll_state (put_pollfd f p) = poll_state p"
  "num_fds (put_pollfd f p) = Suc (num_fds p)" "length (poll_fds (put_pollfd f p)) = length (poll_fds p)"
  by (simp_all add: put_pollfd_def)

lemma put_pollfd_take:
  "num_fds p < length (poll_fds p) \<Longrightarrow>
   take (Suc (num_fds p)) (poll_fds (put_pollfd f p)) = take (num_fds p) (poll_fds p) @ [f]"
  by (simp add: put_pollfd_def take_Suc_conv_app_nth)

lemma rebuild_data:
  fixes p :: "'n mm_camera_poll_thread"
  assumes "num_fds p + length is \<le> length (poll_fds p)"
  defines "p' \<equiv> fold (\<lambda>i p. if 0 <s pe_fd (poll_entries p ! i)
       then put_pollfd \<lparr>pf_fd = pe_fd (poll_entries p ! i), pf_events = True\<rparr> p
       else put_pollfd \<lparr>pf_fd = -1, pf_events = False\<rparr> p) is p"
  shows "map pf_fd (take (num_fds p') (poll_fds p')) =
      map pf_fd (take (num_fds p) (poll_fds p)) @ map (\<lambda>i. polled_fd (poll_entries p ! i)) is"
    and "num_fds p' = num_fds p + length is" and "length (poll_fds p') = length (poll_fds p)"
    and "poll_entries p' = poll_entries p" and "poll_type p' = poll_type p" and "pfds p' = pfds p"
    and "poll_state p' = poll_state p"
  using assms(1) unfolding p'_def
proof (induction "is" arbitrary: p)
  case (Cons i "is")
  { case 1 then show ?case using Cons.IH(1) by (simp add: put_pollfd_take polled_fd_def) }
  { case 2 then show ?case using Cons.IH(2) by simp }
  { case 3 then show ?case using Cons.IH(3) by simp }
  { case 4 then show ?case using Cons.IH(4) by simp }
  { case 5 then show ?case using Cons.IH(5) by simp }
  { case 6 then show ?case using Cons.IH(6) by simp }
  { case 7 then show ?case using Cons.IH(7) by simp }
qed simp_all

lemma proc_pipe_synced:
  assumes "poll_wf p" "poll_type p = MM_CAMERA_POLL_TYPE_DATA"
  defines "p' \<equiv> mm_camera_poll_proc_pipe MM_CAMERA_PIPE_CMD_POLL_ENTRIES_UPDATED p"
  shows "poll_synced p'" and "num_fds p' = MAX_STREAM_NUM_IN_BUNDLE + 1" and "poll_wf p'"
    and "poll_entries p' = poll_entries p" and "poll_type p' = poll_type p" and "pfds p' = pfds p"
    and "poll_state p' = poll_state p"
proof -
  let ?q = "put_pollfd \<lparr>pf_fd = fst (pfds p), pf_events = True\<rparr> (p\<lparr>num_fds := 0\<rparr>)"
  have l: "num_fds ?q + length [0 ..< MAX_STREAM_NUM_IN_BUNDLE] \<le> length (poll_fds ?q)"
    using assms(1) by (simp add: poll_wf_def)
  have p': "p' = fold (\<lambda>i p. if 0 <s pe_fd (poll_entries p ! i)
       then put_pollfd \<lparr>pf_fd = pe_fd (poll_entries p ! i), pf_events = True\<rparr> p
       else put_pollfd \<lparr>pf_fd = -1, pf_events = False\<rparr> p) [0 ..< MAX_STREAM_NUM_IN_BUNDLE] ?q"
    using assms(2) by (simp add: p'_def mm_camera_poll_proc_pipe_def Let_def)
  note rb = rebuild_data [OF l, folded p']
  have e: "map (\<lambda>i. polled_fd (poll_entries p ! i)) [0 ..< MAX_STREAM_NUM_IN_BUNDLE] = map polled_fd (poll_entries p)"
    using assms(1) by (auto simp: poll_wf_def intro: nth_equalityI)
  have t: "take (Suc 0) (poll_fds ?q) = [\<lparr>pf_fd = fst (pfds p), pf_events = True\<rparr>]"
    using assms(1) put_pollfd_take [of "p\<lparr>num_fds := 0\<rparr>"] by (simp add: poll_wf_def)
  show "poll_synced p'"
    using rb(1,4,6) e t by (simp add: poll_synced_def)
  show "num_fds p' = MAX_STREAM_NUM_IN_BUNDLE + 1" "poll_wf p'" "poll_entries p' = poll_entries p"
    "poll_type p' = poll_type p" "pfds p' = pfds p" "poll_state p' = poll_state p"
    using rb assms(1) by (simp_all add: poll_wf_def)
qed

lemma map_filter_single:
  assumes "k \<in> set xs" "distinct xs" "f k = Some v" "\<And>x. x \<in> set xs \<Longrightarrow> x \<noteq> k \<Longrightarrow> f x = None"
  shows "List.map_filter f xs = [v]"
  using assms
proof (induction xs)
  case (Cons x xs)
  have none: "List.map_filter f ys = []" if "\<And>y. y \<in> set ys \<Longrightarrow> f y = None" for ys
    using that by (induction ys) (auto simp: List.map_filter_def)
  show ?case
  proof (cases "x = k")
    case True
    then have "List.map_filter f xs = []" using Cons.prems by (intro none) auto
    then show ?thesis using True Cons.prems(3) by (simp add: List.map_filter_def)
  next
    case False
    then have "List.map_filter f xs = [v]" using Cons by auto
    then show ?thesis using False Cons.prems(4) [of x] by (simp add: List.map_filter_def)
  qed
qed simp

text \<open>registering a stream's descriptor with a data poll thread whose pipe can be written makes
  the polled array describe exactly the registered entries (the pipe first, then entry \<open>i\<close> at
  index \<open>i + 1\<close>, -1 for an entry without a descriptor), puts the new descriptor at the index of
  its handle, and from then on a round in which only that descriptor is readable runs exactly the
  callback that was registered with it.\<close>

theorem poll_fd_demultiplexed:
  assumes wf: "poll_wf p" and ty: "poll_type p = MM_CAMERA_POLL_TYPE_DATA"
    and idx: "unat (mm_camera_util_get_index_by_handler handler) = idx" "idx < MAX_STREAM_NUM_IN_BUNDLE"
    and fd: "0 <s fd"
    and wr: "\<not> e_ret e w (PipeWrite (snd (pfds p)) MM_CAMERA_PIPE_CMD_POLL_ENTRIES_UPDATED) <s 1"
    and add: "mm_camera_poll_thread_add_poll_fd e handler fd (Some cb) p w = (p', w', rc)"
    and silent: "\<not> (r_in (revs ! 0) \<and> r_rdnorm (revs ! 0))"
    and ready: "r_in (revs ! Suc idx)" "r_rdnorm (revs ! Suc idx)"
    and others: "\<And>i. i \<le> MAX_STREAM_NUM_IN_BUNDLE \<Longrightarrow> i \<noteq> Suc idx \<Longrightarrow> \<not> (r_in (revs ! i) \<and> r_rdnorm (revs ! i))"
  shows "rc = 0 \<and> poll_synced p' \<and> pf_fd (poll_fds p' ! Suc idx) = fd
     \<and> mm_camera_poll_fn_round 1 revs p' = PollNotify [cb]"
proof -
  let ?en = "\<lparr>pe_fd = fd, pe_notify_cb = Some cb, pe_handler = handler\<rparr>"
  let ?p = "p\<lparr>poll_entries := (poll_entries p)[idx := ?en]\<rparr>"
  have wf1: "poll_wf ?p" "poll_type ?p = MM_CAMERA_POLL_TYPE_DATA" using wf ty by (simp_all add: poll_wf_def)
  have p': "p' = mm_camera_poll_proc_pipe MM_CAMERA_PIPE_CMD_POLL_ENTRIES_UPDATED ?p" "rc = 0"
    using add wr idx ty
    by (simp_all add: mm_camera_poll_thread_add_poll_fd_def poll_entry_idx_def mm_camera_poll_sig_def call_def)
  note sy = proc_pipe_synced [OF wf1, folded p'(1)]
  have en: "poll_entries p' ! idx = ?en"
    using sy(4) idx(2) wf by (simp add: poll_wf_def)
  have "map pf_fd (take (num_fds p') (poll_fds p')) ! Suc idx = polled_fd ?en"
    using sy(1,3) idx(2) en by (simp add: poll_synced_def poll_wf_def)
  then have fdx: "pf_fd (poll_fds p' ! Suc idx) = fd"
    using sy(2,3) idx(2) fd by (simp add: polled_fd_def poll_wf_def)
  have "List.map_filter (\<lambda>i. if poll_slot_fires p' (revs ! i) then pe_notify_cb (poll_entries p' ! (i - 1)) else None)
      [1 ..< num_fds p'] = [cb]"
    by (rule map_filter_single [of "Suc idx"])
      (use sy(2,5) wf1(2) idx(2) ready others en in \<open>auto simp: poll_slot_fires_def\<close>)
  then show ?thesis
    using p'(2) sy(1) fdx silent by (auto simp: mm_camera_poll_fn_round_def word_sless_alt)
qed

text \<open>A running data poll thread with pipe (8, 9) and no stream, and a quiet environment.\<close>

definition ex_poll :: "nat mm_camera_poll_thread" where
  "ex_poll = poll_thread_zero\<lparr>poll_type := MM_CAMERA_POLL_TYPE_DATA, pfds := (8, 9),
     poll_state := MM_CAMERA_POLL_TASK_STATE_POLL, num_fds := 1\<rparr>"

definition ex_env :: env where
  "ex_env = \<lparr>e_ret = (\<lambda>w c. case c of PipeWrite fd cmd \<Rightarrow> 1 | Open u \<Rightarrow> 5 | Socket t \<Rightarrow> 6 | SockSend fd p sfd \<Rightarrow> 16 | Malloc \<Rightarrow> 1 | _ \<Rightarrow> 0),
     e_dq = (\<lambda>w. \<lparr>dq_index = 0, dq_sequence = 7, dq_ts = (0, 0), dq_uv = False\<rparr>),
     e_ext_mode = (\<lambda>w. 3), e_bufs = (\<lambda>w. \<lparr>br_bufs = [], br_reg_flags = []\<rparr>),
     e_metadata = (\<lambda>w b. None), e_has_op = (\<lambda>c. False),
     e_eio = (\<lambda>w. False), e_event = (\<lambda>w. OtherEvent),
     e_notify = (\<lambda>w. [\<lparr>server_event_type = 1, evt_status = 2\<rparr>]), e_status_success = 2\<rparr>"

definition r_none :: revents where "r_none = \<lparr>r_in = False, r_rdnorm = False, r_pri = False\<rparr>"
definition r_data :: revents where "r_data = \<lparr>r_in = True, r_rdnorm = True, r_pri = False\<rparr>"

theorem poll_fd_demultiplexed_witness:
  "\<exists>p' w'. mm_camera_poll_thread_add_poll_fd ex_env 0x102 5 (Some 77) ex_poll [] = (p', w', 0)
     \<and> pf_fd (poll_fds p' ! 3) = 5
     \<and> mm_camera_poll_fn_round 1 [r_none, r_none, r_none, r_data, r_none] p' = PollNotify [77]"
proof -
  obtain p' w' rc where add: "mm_camera_poll_thread_add_poll_fd ex_env 0x102 5 (Some (77 :: nat)) ex_poll [] = (p', w', rc)"
    by (metis prod_cases3)
  have quiet: "\<not> (r_in ([r_none, r_none, r_none, r_data, r_none] ! i) \<and> r_rdnorm ([r_none, r_none, r_none, r_data, r_none] ! i))"
    if "i \<le> MAX_STREAM_NUM_IN_BUNDLE" "i \<noteq> Suc 2" for i
    using that by (auto simp: MAX_STREAM_NUM_IN_BUNDLE_def le_Suc_eq numeral_eq_Suc r_none_def)
  have "rc = 0 \<and> poll_synced p' \<and> pf_fd (poll_fds p' ! Suc 2) = 5 \<and>
      mm_camera_poll_fn_round 1 [r_none, r_none, r_none, r_data, r_none] p' = PollNotify [77]"
    by (rule poll_fd_demultiplexed [OF _ _ _ _ _ _ add _ _ _ quiet])
      (simp_all add: ex_poll_def ex_env_def poll_wf_def poll_thread_zero_def MAX_STREAM_NUM_IN_BUNDLE_def
        mm_camera_util_get_index_by_handler_def word_sless_alt r_none_def r_data_def)
  then show ?thesis using add by auto
qed

end
