(* ===== verification/Fifo.thy ===== *)
theory Fifo
  imports Prelude
begin

text \<open>
  The interface the command threads and the jpeg job manager rely on: a FIFO of
  non-null pointers with an \<^verbatim>\<open>enq\<close> that reports an allocation failure and a \<^verbatim>\<open>deq\<close>
  that returns the null pointer when the queue is empty.  The locale
  \<^verbatim>\<open>fifo_queue\<close> names the laws; the clients' facts (a sequence of calls behaves
  as on a list, the drain loop of a worker visits every entry once, in order)
  are proved once from them.
\<close>

text \<open>One call; the flag of \<^verbatim>\<open>Enq\<close> says whether \<^verbatim>\<open>malloc\<close> succeeds.\<close>

datatype qop = Enq bool addr | Deq

datatype qres = Status i32 | Data addr

section \<open>A sequence of calls\<close>

fun queue_run :: "('s \<Rightarrow> addr) \<Rightarrow> (addr option \<Rightarrow> addr \<Rightarrow> 's \<Rightarrow> ('s \<times> i32) option) \<Rightarrow> ('s \<Rightarrow> ('s \<times> addr) option)
    \<Rightarrow> qop list \<Rightarrow> 's \<Rightarrow> ('s \<times> qres list) option" where
  "queue_run new enq deq [] s = Some (s, [])"
| "queue_run new enq deq (Enq ok d # ops) s = do {
     (s, r) \<leftarrow> enq (if ok then Some (new s) else None) d s;
     (s, rs) \<leftarrow> queue_run new enq deq ops s;
     Some (s, Status r # rs)
   }"
| "queue_run new enq deq (Deq # ops) s = do {
     (s, d) \<leftarrow> deq s;
     (s, rs) \<leftarrow> queue_run new enq deq ops s;
     Some (s, Data d # rs)
   }"

text \<open>The same calls on a list.\<close>

fun list_run :: "qop list \<Rightarrow> addr list \<Rightarrow> addr list \<times> qres list" where
  "list_run [] xs = (xs, [])"
| "list_run (Enq ok d # ops) xs =
     (let (ys, rs) = list_run ops (if ok then xs @ [d] else xs) in (ys, Status (if ok then 0 else -1) # rs))"
| "list_run (Deq # ops) xs =
     (let (ys, rs) = list_run ops (tl xs) in (ys, Data (case xs of [] \<Rightarrow> 0 | x # _ \<Rightarrow> x) # rs))"

section \<open>The drain loop of a worker thread\<close>

partial_function (option) queue_drain :: "('s \<Rightarrow> ('s \<times> addr) option) \<Rightarrow> 's \<Rightarrow> ('s \<times> addr list) option" where
  "queue_drain deq s = do {
     (s, node) \<leftarrow> deq s;
     if node = 0 then Some (s, []) else do {
       (s, ds) \<leftarrow> queue_drain deq s;
       Some (s, node # ds)
     }
   }"

section \<open>The interface\<close>

locale fifo_queue =
  fixes holds :: "'s \<Rightarrow> addr list \<Rightarrow> bool"
    and fresh :: "'s \<Rightarrow> addr \<Rightarrow> bool"
    and enq :: "addr option \<Rightarrow> addr \<Rightarrow> 's \<Rightarrow> ('s \<times> i32) option"
    and deq :: "'s \<Rightarrow> ('s \<times> addr) option"
  assumes enq_ok: "holds s xs \<Longrightarrow> fresh s a \<Longrightarrow> \<exists>s'. enq (Some a) d s = Some (s', 0) \<and> holds s' (xs @ [d])"
    and enq_null: "enq None d s = Some (s, -1)"
    and deq_cons: "holds s (x # xs) \<Longrightarrow> \<exists>s'. deq s = Some (s', x) \<and> holds s' xs"
    and deq_nil: "holds s [] \<Longrightarrow> deq s = Some (s, 0)"
begin

lemma run_refines:
  assumes "holds s xs" and new: "\<And>s xs. holds s xs \<Longrightarrow> fresh s (new s)"
  shows "\<exists>s'. queue_run new enq deq ops s = Some (s', snd (list_run ops xs)) \<and> holds s' (fst (list_run ops xs))"
  using assms(1)
proof (induction ops arbitrary: s xs)
  case (Cons op ops)
  show ?case
  proof (cases op)
    case (Enq ok d)
    obtain s1 where s1: "enq (if ok then Some (new s) else None) d s = Some (s1, if ok then 0 else -1)"
        "holds s1 (if ok then xs @ [d] else xs)"
      using enq_ok [OF Cons.prems new [OF Cons.prems], of d] enq_null [of d s] Cons.prems by (cases ok) auto
    from Cons.IH [OF s1(2)] show ?thesis
      using s1(1) Enq by (auto simp: split_beta)
  next
    case Deq
    obtain s1 where s1: "deq s = Some (s1, case xs of [] \<Rightarrow> 0 | x # _ \<Rightarrow> x)" "holds s1 (tl xs)"
      using Cons.prems deq_cons deq_nil by (cases xs) fastforce+
    from Cons.IH [OF s1(2)] show ?thesis
      using s1(1) Deq by (auto simp: split_beta)
  qed
qed auto

lemma drain_all:
  assumes "holds s xs" "0 \<notin> set xs"
  shows "\<exists>s'. queue_drain deq s = Some (s', xs) \<and> holds s' []"
  using assms
proof (induction xs arbitrary: s)
  case Nil
  then show ?case by (subst queue_drain.simps) (simp add: deq_nil)
next
  case (Cons x xs)
  obtain s1 where s1: "deq s = Some (s1, x)" "holds s1 xs"
    using deq_cons [OF Cons.prems(1)] by blast
  from Cons.IH [OF s1(2)] Cons.prems(2) obtain s2 where "queue_drain deq s1 = Some (s2, xs)" "holds s2 []"
    by auto
  then show ?case using s1(1) Cons.prems(2) by (subst queue_drain.simps) auto
qed

end

end
