(* ===== verification/CmdThread.thy ===== *)
theory CmdThread
  imports World Fifo
begin

text \<open>
  The command thread, second half of
  \<^verbatim>\<open>camera/QCamera2/stack/mm-camera-interface/src/mm_camera_thread.c\<close>, with the counting
  semaphore of \<^verbatim>\<open>camera/QCamera2/stack/common/cam_semaphore.h\<close>.

  Producers append a command to the queue and then post the semaphore, in two steps; the worker
  waits for the semaphore, then takes and runs commands until the queue is empty, and leaves
  its outer loop when one of them was \<^verbatim>\<open>EXIT\<close>.  The threads are interleaved by the step relation
  \<^verbatim>\<open>cmd_step\<close> over the critical sections of the queue's mutex and of the semaphore's mutex.
  \<^verbatim>\<open>pthread_cond_wait\<close> returns 0, as documented for valid arguments.

  The second part gives the operations as the stream and the channel call them, sequentially:
  a thread that is launched owns a queue; the queue of a thread that was destroyed is zeroed
  memory, and enqueueing there dereferences its null links (\<^verbatim>\<open>None\<close>).
\<close>

section \<open>The interleaved model\<close>

datatype worker_pc = AtSemWait | AtDequeue | HasNode mm_camera_cmdcb | Exited

record cmd_sys =
  cs_queue :: "mm_camera_cmdcb list"
  cs_sem :: nat
  cs_unposted :: nat
  cs_pc :: worker_pc
  cs_running :: bool
  cs_handled :: "mm_camera_cmdcb list"
  cs_sent :: "mm_camera_cmdcb list"

definition cmd_sys_init :: cmd_sys where
  "cmd_sys_init = \<lparr>cs_queue = [], cs_sem = 0, cs_unposted = 0, cs_pc = AtSemWait, cs_running = True,
     cs_handled = [], cs_sent = []\<rparr>"

text \<open>The commands the worker passes to the callback; the others end the outer loop.\<close>

fun stops_thread :: "mm_camera_cmdcb \<Rightarrow> bool" where
  "stops_thread CMD_EXIT = True"
| "stops_thread CMD_TYPE_MAX = True"
| "stops_thread _ = False"

text \<open>The steps of the worker, \<^verbatim>\<open>mm_camera_cmd_thread\<close>.\<close>

definition worker_step :: "cmd_sys \<Rightarrow> cmd_sys option" where
  "worker_step s = (case cs_pc s of
     AtSemWait \<Rightarrow> if cs_sem s = 0 then None
                  else Some (s\<lparr>cs_sem := cs_sem s - 1, cs_pc := AtDequeue\<rparr>)
   | AtDequeue \<Rightarrow> (case cs_queue s of
        [] \<Rightarrow> Some (s\<lparr>cs_pc := (if cs_running s then AtSemWait else Exited)\<rparr>)
      | c # q \<Rightarrow> Some (s\<lparr>cs_queue := q, cs_pc := HasNode c\<rparr>))
   | HasNode c \<Rightarrow> Some (s\<lparr>cs_pc := AtDequeue, cs_running := (if stops_thread c then False else cs_running s),
                            cs_handled := cs_handled s @ [c]\<rparr>)
   | Exited \<Rightarrow> None)"

inductive cmd_step :: "cmd_sys \<Rightarrow> cmd_sys \<Rightarrow> bool" where
  enqueue: "cmd_step s (s\<lparr>cs_queue := cs_queue s @ [c], cs_unposted := cs_unposted s + 1, cs_sent := cs_sent s @ [c]\<rparr>)"
| post: "0 < cs_unposted s \<Longrightarrow> cmd_step s (s\<lparr>cs_unposted := cs_unposted s - 1, cs_sem := cs_sem s + 1\<rparr>)"
| worker: "worker_step s = Some s' \<Longrightarrow> cmd_step s s'"

inductive cmd_reachable :: "cmd_sys \<Rightarrow> bool" where
  start: "cmd_reachable cmd_sys_init"
| step: "cmd_reachable s \<Longrightarrow> cmd_step s s' \<Longrightarrow> cmd_reachable s'"

inductive_cases cmd_stepE: "cmd_step s s'"

text \<open>The command the worker holds.\<close>

definition in_hand :: "cmd_sys \<Rightarrow> mm_camera_cmdcb list" where
  "in_hand s = (case cs_pc s of HasNode c \<Rightarrow> [c] | _ \<Rightarrow> [])"

definition cmd_inv :: "cmd_sys \<Rightarrow> bool" where
  "cmd_inv s \<longleftrightarrow> cs_sent s = cs_handled s @ in_hand s @ cs_queue s
     \<and> (cs_pc s = AtSemWait \<longrightarrow> length (cs_queue s) \<le> cs_sem s + cs_unposted s \<and> cs_running s)
     \<and> (cs_running s \<longleftrightarrow> list_all (\<lambda>c. \<not> stops_thread c) (cs_handled s))
     \<and> (cs_pc s = Exited \<longrightarrow> \<not> cs_running s)"

lemma cmd_inv_init: "cmd_inv cmd_sys_init"
  by (simp add: cmd_inv_def cmd_sys_init_def in_hand_def)

lemma cmd_inv_worker: "cmd_inv s \<Longrightarrow> worker_step s = Some s' \<Longrightarrow> cmd_inv s'"
  by (auto simp: cmd_inv_def worker_step_def in_hand_def split: worker_pc.splits list.splits if_splits)

lemma cmd_inv_step: "cmd_step s s' \<Longrightarrow> cmd_inv s \<Longrightarrow> cmd_inv s'"
proof (induction rule: cmd_step.induct)
  case (worker s s')
  then show ?case by (rule cmd_inv_worker [rotated])
qed (auto simp: cmd_inv_def in_hand_def split: worker_pc.splits)

lemma cmd_reachable_inv: "cmd_reachable s \<Longrightarrow> cmd_inv s"
  by (induction rule: cmd_reachable.induct) (auto intro: cmd_inv_init cmd_inv_step)

section \<open>The worker on its own\<close>

fun worker_run :: "nat \<Rightarrow> cmd_sys \<Rightarrow> cmd_sys" where
  "worker_run 0 s = s"
| "worker_run (Suc k) s = (case worker_step s of None \<Rightarrow> s | Some s' \<Rightarrow> worker_run k s')"

text \<open>A bound on the steps the worker can make without a producer.\<close>

definition worker_work :: "cmd_sys \<Rightarrow> nat" where
  "worker_work s = 2 * length (cs_queue s) + 2 * cs_sem s +
     (case cs_pc s of AtSemWait \<Rightarrow> 0 | AtDequeue \<Rightarrow> 1 | HasNode _ \<Rightarrow> 2 | Exited \<Rightarrow> 0)"

lemma worker_step_decreases: "worker_step s = Some s' \<Longrightarrow> worker_work s' < worker_work s"
  by (auto simp: worker_step_def worker_work_def split: worker_pc.splits list.splits if_splits)

lemma worker_step_keeps: "worker_step s = Some s' \<Longrightarrow> cs_sent s' = cs_sent s \<and> cs_unposted s' = cs_unposted s"
  by (auto simp: worker_step_def split: worker_pc.splits list.splits if_splits)

lemma worker_run_stuck:
  "cmd_inv s \<Longrightarrow> worker_work s \<le> k \<Longrightarrow>
   worker_step (worker_run k s) = None \<and> cmd_inv (worker_run k s)
     \<and> cs_sent (worker_run k s) = cs_sent s \<and> cs_unposted (worker_run k s) = cs_unposted s"
proof (induction k arbitrary: s)
  case 0
  then have "worker_step s = None" using worker_step_decreases [of s] by (cases "worker_step s") auto
  then show ?case using 0 by simp
next
  case (Suc k)
  show ?case
  proof (cases "worker_step s")
    case (Some s')
    then show ?thesis
      using Suc.IH [of s'] Suc.prems cmd_inv_worker [OF Suc.prems(1) Some] worker_step_decreases [OF Some]
        worker_step_keeps [OF Some] by simp
  qed (use Suc.prems in simp)
qed

lemma worker_stuck_iff: "worker_step s = None \<longleftrightarrow> cs_pc s = Exited \<or> (cs_pc s = AtSemWait \<and> cs_sem s = 0)"
  by (auto simp: worker_step_def split: worker_pc.splits list.splits)

lemma exited_empty:
  "cs_pc s = Exited \<longrightarrow> cs_queue s = [] \<Longrightarrow> cs_pc (worker_run k s) = Exited \<Longrightarrow> cs_queue (worker_run k s) = []"
proof (induction k arbitrary: s)
  case (Suc k)
  have "cs_pc s' = Exited \<longrightarrow> cs_queue s' = []" if "worker_step s = Some s'" for s'
    using that by (auto simp: worker_step_def split: worker_pc.splits list.splits if_splits)
  then show ?case using Suc by (auto split: option.splits)
qed simp

text \<open>in every interleaving of the producers with the worker, the commands handed to the worker's
  callback, the one it holds and those still queued are together exactly the commands sent, in
  the order they were sent: none is lost, duplicated or overtaken.\<close>

theorem cmd_thread_fifo:
  assumes "cmd_reachable s"
  shows "cs_sent s = cs_handled s @ in_hand s @ cs_queue s"
  using cmd_reachable_inv [OF assms] by (simp add: cmd_inv_def)

definition ex_sent :: "mm_camera_cmdcb list \<Rightarrow> cmd_sys" where
  "ex_sent cs = \<lparr>cs_queue = cs, cs_sem = 0, cs_unposted = length cs, cs_pc = AtSemWait, cs_running = True,
     cs_handled = [], cs_sent = cs\<rparr>"

lemma ex_sent_reachable: "cmd_reachable (ex_sent [CMD_REQ_DATA_CB 2, CMD_EXIT])"
proof -
  have "cmd_step cmd_sys_init (ex_sent [CMD_REQ_DATA_CB 2])"
    using cmd_step.enqueue [of cmd_sys_init "CMD_REQ_DATA_CB 2"] by (simp add: ex_sent_def cmd_sys_init_def)
  moreover have "cmd_step (ex_sent [CMD_REQ_DATA_CB 2]) (ex_sent [CMD_REQ_DATA_CB 2, CMD_EXIT])"
    using cmd_step.enqueue [of "ex_sent [CMD_REQ_DATA_CB 2]" CMD_EXIT] by (simp add: ex_sent_def)
  ultimately show ?thesis by (blast intro: cmd_reachable.intros)
qed

theorem cmd_thread_fifo_witness:
  "cs_sent (ex_sent [CMD_REQ_DATA_CB 2, CMD_EXIT]) = [] @ [] @ [CMD_REQ_DATA_CB 2, CMD_EXIT]"
  using cmd_thread_fifo [OF ex_sent_reachable] by (simp add: ex_sent_def in_hand_def)

text \<open>C13: no wake-up is lost and the thread can always be stopped: from every reachable state in which
  all producers have posted and an exit command has been sent, the worker alone, within a number
  of steps bounded by the commands and posts outstanding, handles every command that was sent
  (those queued behind the exit command included) and exits.\<close>

theorem cmd_thread_stops:
  assumes "cmd_reachable s" "cs_unposted s = 0" "\<exists>c\<in>set (cs_sent s). stops_thread c"
  shows "cs_pc (worker_run (worker_work s) s) = Exited
    \<and> cs_handled (worker_run (worker_work s) s) @ cs_queue (worker_run (worker_work s) s) = cs_sent s
    \<and> (cs_pc s \<noteq> Exited \<longrightarrow> cs_handled (worker_run (worker_work s) s) = cs_sent s)"
proof -
  define t where "t = worker_run (worker_work s) s"
  have t: "worker_step t = None" "cmd_inv t" "cs_sent t = cs_sent s" "cs_unposted t = 0"
    using worker_run_stuck [OF cmd_reachable_inv [OF assms(1)] order_refl] assms(2) unfolding t_def by auto
  have sent: "cs_sent s = cs_handled t @ in_hand t @ cs_queue t"
    using t(2,3) by (simp add: cmd_inv_def)
  have ex: "cs_pc t = Exited"
  proof (rule ccontr)
    assume "cs_pc t \<noteq> Exited"
    then have w: "cs_pc t = AtSemWait" "cs_sem t = 0" using t(1) by (auto simp: worker_stuck_iff)
    then have q: "cs_queue t = []" "list_all (\<lambda>c. \<not> stops_thread c) (cs_handled t)"
      using t(2,4) by (auto simp: cmd_inv_def)
    moreover have "in_hand t = []" using w by (simp add: in_hand_def)
    ultimately show False using assms(3) sent by (auto simp: list_all_iff)
  qed
  then have "in_hand t = []" by (simp add: in_hand_def)
  moreover have "cs_queue t = []" if "cs_pc s \<noteq> Exited"
    unfolding t_def by (rule exited_empty) (use that ex t_def in blast)+
  ultimately show ?thesis using ex sent unfolding t_def [symmetric] by simp
qed

definition ex_posted :: "mm_camera_cmdcb list \<Rightarrow> cmd_sys" where
  "ex_posted cs = (ex_sent cs)\<lparr>cs_unposted := 0, cs_sem := length cs\<rparr>"

lemma ex_posted_reachable: "cmd_reachable (ex_posted [CMD_EXIT, CMD_REQ_DATA_CB 2])"
proof -
  let ?a = "ex_sent [CMD_EXIT]" and ?b = "ex_sent [CMD_EXIT, CMD_REQ_DATA_CB 2]"
  have 1: "cmd_step cmd_sys_init ?a"
    using cmd_step.enqueue [of cmd_sys_init CMD_EXIT] by (simp add: ex_sent_def cmd_sys_init_def)
  have 2: "cmd_step ?a ?b"
    using cmd_step.enqueue [of ?a "CMD_REQ_DATA_CB 2"] by (simp add: ex_sent_def)
  have 3: "cmd_step ?b (?b\<lparr>cs_unposted := 1, cs_sem := 1\<rparr>)"
    using cmd_step.post [of ?b] by (simp add: ex_sent_def)
  have 4: "cmd_step (?b\<lparr>cs_unposted := 1, cs_sem := 1\<rparr>) (ex_posted [CMD_EXIT, CMD_REQ_DATA_CB 2])"
    using cmd_step.post [of "?b\<lparr>cs_unposted := 1, cs_sem := 1\<rparr>"] by (simp add: ex_sent_def ex_posted_def)
  show ?thesis
    by (rule cmd_reachable.step [OF cmd_reachable.step [OF cmd_reachable.step [OF cmd_reachable.step
      [OF cmd_reachable.start 1] 2] 3] 4])
qed

theorem cmd_thread_stops_witness:
  "\<exists>t. cs_pc t = Exited \<and> cs_handled t = [CMD_EXIT, CMD_REQ_DATA_CB 2]
     \<and> t = worker_run (worker_work (ex_posted [CMD_EXIT, CMD_REQ_DATA_CB 2])) (ex_posted [CMD_EXIT, CMD_REQ_DATA_CB 2])"
  using cmd_thread_stops [OF ex_posted_reachable] by (simp add: ex_posted_def ex_sent_def)

section \<open>The operations of the stream and the channel\<close>

record cmd_thread =
  th_queue :: "mm_camera_cmdcb list option"
  th_sem :: nat

definition cmd_thread_zero :: cmd_thread where
  "cmd_thread_zero = \<lparr>th_queue = None, th_sem = 0\<rparr>"

text \<open>\<^verbatim>\<open>malloc\<close> of the command, \<^verbatim>\<open>cam_queue_enq\<close> (which allocates a list node and whose result the callers
  ignore) and \<^verbatim>\<open>cam_sem_post\<close>; the flag says whether the command was allocated.\<close>

definition cmd_thread_send :: "env \<Rightarrow> mm_camera_cmdcb \<Rightarrow> cmd_thread \<Rightarrow> world \<Rightarrow> cmd_thread \<times> world \<times> bool" where
  "cmd_thread_send e c t w =
     (case malloc_ok e w of (w, ok) \<Rightarrow>
        if \<not> ok then (t, w, False)
        else (case malloc_ok e w of (w, ok2) \<Rightarrow>
           (if \<not> ok2 then (t\<lparr>th_sem := th_sem t + 1\<rparr>, w, True)
            else (case th_queue t of
                    None \<Rightarrow> (t, w @ [UndefinedBehaviour], True)
                  | Some q \<Rightarrow> (t\<lparr>th_queue := Some (q @ [c]), th_sem := th_sem t + 1\<rparr>, w, True)))))"

definition mm_camera_cmd_thread_launch :: "cmd_thread \<Rightarrow> cmd_thread \<times> i32" where
  "mm_camera_cmd_thread_launch t = (t\<lparr>th_queue := Some [], th_sem := 0\<rparr>, 0)"

text \<open>The worker's part of a stop: the commands still queued run before the thread ends.\<close>

definition cmd_thread_finish :: "(mm_camera_cmdcb \<Rightarrow> 's \<Rightarrow> 's) \<Rightarrow> mm_camera_cmdcb list \<Rightarrow> 's \<Rightarrow> 's" where
  "cmd_thread_finish cb cs s = fold (\<lambda>c s. if stops_thread c then s else cb c s) cs s"

definition mm_camera_cmd_thread_stop ::
    "(mm_camera_cmdcb \<Rightarrow> 's \<times> world \<Rightarrow> 's \<times> world) \<Rightarrow> env \<Rightarrow> cmd_thread \<Rightarrow> 's \<times> world
       \<Rightarrow> cmd_thread \<times> ('s \<times> world) \<times> i32" where
  "mm_camera_cmd_thread_stop cb e t sw =
     (case malloc_ok e (snd sw) of (w, ok) \<Rightarrow>
        if \<not> ok then (t, (fst sw, w), -1)
        else (case malloc_ok e w of (w, ok2) \<Rightarrow>
           (case th_queue t of
              None \<Rightarrow> (t, (fst sw, w @ [UndefinedBehaviour]), 0)
            | Some q \<Rightarrow>
                if \<not> ok2 then (t, (fst sw, w @ [BlockedForever]), 0)
                else (case cmd_thread_finish cb q (fst sw, w) of (s, w) \<Rightarrow>
                        (t\<lparr>th_queue := Some [], th_sem := 0\<rparr>, (s, w @ [ThreadJoin]), 0)))))"

definition mm_camera_cmd_thread_destroy :: "cmd_thread \<Rightarrow> cmd_thread \<times> i32" where
  "mm_camera_cmd_thread_destroy t = (cmd_thread_zero, 0)"

definition mm_camera_cmd_thread_release ::
    "(mm_camera_cmdcb \<Rightarrow> 's \<times> world \<Rightarrow> 's \<times> world) \<Rightarrow> env \<Rightarrow> cmd_thread \<Rightarrow> 's \<times> world
       \<Rightarrow> cmd_thread \<times> ('s \<times> world) \<times> i32" where
  "mm_camera_cmd_thread_release cb e t sw =
     (case mm_camera_cmd_thread_stop cb e t sw of (t, sw, rc) \<Rightarrow>
        if rc = 0 then (case mm_camera_cmd_thread_destroy t of (t, rc) \<Rightarrow> (t, sw, rc)) else (t, sw, rc))"

end
