(* ===== verification/StreamOffset.thy ===== *)
theory StreamOffset
  imports CamTypes
begin

text \<open>
  Plane layout of a frame:
  \<^verbatim>\<open>camera/QCamera2/stack/mm-camera-interface/src/mm_camera_stream.c\<close> lines 1595 to 2699.  For each
  stream type and pixel format the routines compute stride, scanline, length and offset of every
  plane and the length of the frame buffer.

  All quantities are 32-bit words as in C; \<^verbatim>\<open>PAD_TO_SIZE\<close> and products have the same bits for signed
  and unsigned operands, and signed division rounds towards zero.  The layout macros of the Venus
  encoder are not part of the repository: a build with \<^verbatim>\<open>VENUS_PRESENT\<close> passes them in the record
  \<^verbatim>\<open>venus\<close>, a build without it passes \<^verbatim>\<open>None\<close>.  \<^verbatim>\<open>mm_camera_util_chip_is_a_family\<close> is the flag \<^verbatim>\<open>afam\<close>.
  Blocks that the code repeats word for word for preview and postview are one definition.
\<close>

record cam_mp_len_offset =
  mp_len :: u32
  mp_offset :: u32
  mp_offset_x :: i32
  mp_offset_y :: i32
  mp_stride :: i32
  mp_scanline :: i32
  mp_width :: i32
  mp_height :: i32

record cam_frame_len_offset =
  fl_num_planes :: nat
  fl_mp :: "cam_mp_len_offset list"
  fl_frame_len :: u32

record cam_padding_info =
  width_padding :: u32
  height_padding :: u32
  plane_padding :: u32

definition VIDEO_MAX_PLANES :: nat where "VIDEO_MAX_PLANES = 8"

definition PAD_TO_SIZE :: "u32 \<Rightarrow> u32 \<Rightarrow> u32" where
  "PAD_TO_SIZE sz padding = (sz + padding - 1) AND NOT (padding - 1)"

record venus =
  venus_y_stride :: "i32 \<Rightarrow> i32"
  venus_y_scanlines :: "i32 \<Rightarrow> i32"
  venus_uv_stride :: "i32 \<Rightarrow> i32"
  venus_uv_scanlines :: "i32 \<Rightarrow> i32"
  venus_buffer_size :: "i32 \<Rightarrow> i32 \<Rightarrow> u32"

text \<open>The eight assignments to a plane that every block makes.\<close>

definition plane :: "u32 \<Rightarrow> u32 \<Rightarrow> i32 \<Rightarrow> i32 \<Rightarrow> i32 \<Rightarrow> i32 \<Rightarrow> i32 \<Rightarrow> i32 \<Rightarrow> cam_mp_len_offset" where
  "plane len off offset_x offset_y stride scanline width height =
     \<lparr>mp_len = len, mp_offset = off, mp_offset_x = offset_x, mp_offset_y = offset_y,
      mp_stride = stride, mp_scanline = scanline, mp_width = width, mp_height = height\<rparr>"

definition set_mp :: "nat \<Rightarrow> cam_mp_len_offset \<Rightarrow> cam_frame_len_offset \<Rightarrow> cam_frame_len_offset" where
  "set_mp i pl bp = bp\<lparr>fl_mp := (fl_mp bp)[i := pl]\<rparr>"

definition two_planes :: "cam_mp_len_offset \<Rightarrow> cam_mp_len_offset \<Rightarrow> u32 \<Rightarrow> cam_frame_len_offset \<Rightarrow> cam_frame_len_offset" where
  "two_planes p0 p1 len bp = (set_mp 1 p1 (set_mp 0 p0 (bp\<lparr>fl_num_planes := 2\<rparr>)))\<lparr>fl_frame_len := len\<rparr>"

definition three_planes :: "cam_mp_len_offset \<Rightarrow> cam_mp_len_offset \<Rightarrow> cam_mp_len_offset \<Rightarrow> u32 \<Rightarrow>
    cam_frame_len_offset \<Rightarrow> cam_frame_len_offset" where
  "three_planes p0 p1 p2 len bp =
     (set_mp 2 p2 (set_mp 1 p1 (set_mp 0 p0 (bp\<lparr>fl_num_planes := 3\<rparr>))))\<lparr>fl_frame_len := len\<rparr>"

definition one_plane :: "cam_mp_len_offset \<Rightarrow> u32 \<Rightarrow> cam_frame_len_offset \<Rightarrow> cam_frame_len_offset" where
  "one_plane p0 len bp = (set_mp 0 p0 (bp\<lparr>fl_num_planes := 1\<rparr>))\<lparr>fl_frame_len := len\<rparr>"

section \<open>Preview and postview\<close>

text \<open>NV12 and NV21 with the paddings of the width and of the height.\<close>

definition offset_nv12 :: "u32 \<Rightarrow> u32 \<Rightarrow> cam_dimension \<Rightarrow> cam_frame_len_offset \<Rightarrow> cam_frame_len_offset" where
  "offset_nv12 wpad hpad dim bp =
     (let stride = PAD_TO_SIZE (dim_width dim) wpad;
          scanline = PAD_TO_SIZE (dim_height dim) hpad;
          p0 = plane (stride * scanline) 0 0 0 stride scanline (dim_width dim) (dim_height dim);
          stride = PAD_TO_SIZE (dim_width dim) wpad;
          scanline = PAD_TO_SIZE (i32_div (dim_height dim) 2) hpad;
          p1 = plane (stride * scanline) 0 0 0 stride scanline (dim_width dim) (i32_div (dim_height dim) 2)
      in two_planes p0 p1 (PAD_TO_SIZE (mp_len p0 + mp_len p1) 4096) bp)"

definition offset_nv21_adreno :: "cam_dimension \<Rightarrow> cam_frame_len_offset \<Rightarrow> cam_frame_len_offset" where
  "offset_nv21_adreno dim bp =
     (let stride = PAD_TO_SIZE (dim_width dim) 32;
          scanline = PAD_TO_SIZE (dim_height dim) 32;
          p0 = plane (PAD_TO_SIZE (stride * scanline) 4096) 0 0 0 stride scanline (dim_width dim) (dim_height dim);
          stride = PAD_TO_SIZE (i32_div (dim_width dim) 2) 32 * 2;
          scanline = PAD_TO_SIZE (i32_div (dim_height dim) 2) 32;
          p1 = plane (PAD_TO_SIZE (stride * scanline) 4096) 0 0 0 stride scanline (dim_width dim) (i32_div (dim_height dim) 2)
      in two_planes p0 p1 (PAD_TO_SIZE (mp_len p0 + mp_len p1) 4096) bp)"

definition offset_yv12 :: "cam_dimension \<Rightarrow> cam_frame_len_offset \<Rightarrow> cam_frame_len_offset" where
  "offset_yv12 dim bp =
     (let stride = PAD_TO_SIZE (dim_width dim) 16;
          scanline = PAD_TO_SIZE (dim_height dim) 2;
          p0 = plane (stride * scanline) 0 0 0 stride scanline (dim_width dim) (dim_height dim);
          stride = PAD_TO_SIZE (i32_div stride 2) 16;
          scanline = i32_div scanline 2;
          p1 = plane (stride * scanline) 0 0 0 stride scanline (i32_div (dim_width dim) 2) (i32_div (dim_height dim) 2);
          p2 = plane (stride * scanline) 0 0 0 stride scanline (i32_div (dim_width dim) 2) (i32_div (dim_height dim) 2)
      in three_planes p0 p1 p2 (PAD_TO_SIZE (mp_len p0 + mp_len p1 + mp_len p2) 4096) bp)"

definition offset_nv16 :: "cam_dimension \<Rightarrow> cam_frame_len_offset \<Rightarrow> cam_frame_len_offset" where
  "offset_nv16 dim bp =
     (let stride = PAD_TO_SIZE (dim_width dim) 16;
          scanline = dim_height dim;
          p0 = plane (stride * scanline) 0 0 0 stride scanline (dim_width dim) (dim_height dim);
          p1 = plane (stride * scanline) 0 0 0 stride scanline (dim_width dim) (dim_height dim)
      in two_planes p0 p1 (PAD_TO_SIZE (mp_len p0 + mp_len p1) 4096) bp)"

definition offset_venus :: "venus \<Rightarrow> cam_dimension \<Rightarrow> cam_frame_len_offset \<Rightarrow> cam_frame_len_offset" where
  "offset_venus v dim bp =
     (let stride = venus_y_stride v (dim_width dim);
          scanline = venus_y_scanlines v (dim_height dim);
          frame_len = venus_buffer_size v (dim_width dim) (dim_height dim);
          p0 = plane (stride * scanline) 0 0 0 stride scanline (dim_width dim) (dim_height dim);
          stride = venus_uv_stride v (dim_width dim);
          scanline = venus_uv_scanlines v (dim_height dim);
          p1 = plane (frame_len - mp_len p0) 0 0 0 stride scanline (dim_width dim) (dim_height dim)
      in two_planes p0 p1 frame_len bp)"

definition mm_stream_calc_offset_preview ::
    "venus option \<Rightarrow> cam_format \<Rightarrow> cam_dimension \<Rightarrow> cam_frame_len_offset \<Rightarrow> cam_frame_len_offset \<times> i32" where
  "mm_stream_calc_offset_preview v fmt dim bp = (case fmt of
     CAM_FORMAT_YUV_420_NV12 \<Rightarrow> (offset_nv12 16 2 dim bp, 0)
   | CAM_FORMAT_YUV_420_NV21 \<Rightarrow> (offset_nv12 16 2 dim bp, 0)
   | CAM_FORMAT_YUV_420_NV21_ADRENO \<Rightarrow> (offset_nv21_adreno dim bp, 0)
   | CAM_FORMAT_YUV_420_YV12 \<Rightarrow> (offset_yv12 dim bp, 0)
   | CAM_FORMAT_YUV_422_NV16 \<Rightarrow> (offset_nv16 dim bp, 0)
   | CAM_FORMAT_YUV_422_NV61 \<Rightarrow> (offset_nv16 dim bp, 0)
   | CAM_FORMAT_YUV_420_NV12_VENUS \<Rightarrow> (case v of Some v \<Rightarrow> (offset_venus v dim bp, 0) | None \<Rightarrow> (bp, -1))
   | _ \<Rightarrow> (bp, -1))"

definition mm_stream_calc_offset_post_view ::
    "venus option \<Rightarrow> cam_format \<Rightarrow> cam_dimension \<Rightarrow> cam_frame_len_offset \<Rightarrow> cam_frame_len_offset \<times> i32" where
  "mm_stream_calc_offset_post_view v fmt dim bp = (case fmt of
     CAM_FORMAT_YUV_420_NV12 \<Rightarrow> (offset_nv12 64 64 dim bp, 0)
   | CAM_FORMAT_YUV_420_NV21 \<Rightarrow> (offset_nv12 64 64 dim bp, 0)
   | CAM_FORMAT_YUV_420_NV21_ADRENO \<Rightarrow> (offset_nv21_adreno dim bp, 0)
   | CAM_FORMAT_YUV_420_YV12 \<Rightarrow> (offset_yv12 dim bp, 0)
   | CAM_FORMAT_YUV_422_NV16 \<Rightarrow> (offset_nv16 dim bp, 0)
   | CAM_FORMAT_YUV_422_NV61 \<Rightarrow> (offset_nv16 dim bp, 0)
   | CAM_FORMAT_YUV_420_NV12_VENUS \<Rightarrow> (case v of Some v \<Rightarrow> (offset_venus v dim bp, 0) | None \<Rightarrow> (bp, -1))
   | _ \<Rightarrow> (bp, -1))"

section \<open>Snapshot\<close>

text \<open>Stride, scanline and the offsets of the first pixel.\<close>

definition snapshot_geometry :: "bool \<Rightarrow> cam_dimension \<Rightarrow> cam_padding_info \<Rightarrow> i32 \<times> i32 \<times> i32 \<times> i32" where
  "snapshot_geometry afam dim padding =
     (if afam then
        (let stride = dim_width dim;
             scanline = PAD_TO_SIZE (dim_height dim) 16;
             offset_y = scanline - dim_height dim
         in (stride, scanline + offset_y, 0, offset_y))
      else (PAD_TO_SIZE (dim_width dim) (width_padding padding), PAD_TO_SIZE (dim_height dim) (height_padding padding), 0, 0))"

definition snapshot_nv12 ::
    "i32 \<times> i32 \<times> i32 \<times> i32 \<Rightarrow> cam_dimension \<Rightarrow> cam_padding_info \<Rightarrow> cam_frame_len_offset \<Rightarrow> cam_frame_len_offset" where
  "snapshot_nv12 g dim padding bp = (case g of (stride, scanline, offset_x, offset_y) \<Rightarrow>
     (let pad = plane_padding padding;
          off = PAD_TO_SIZE (offset_x + stride * offset_y) pad;
          p0 = plane (PAD_TO_SIZE (stride * scanline) pad) off offset_x offset_y stride scanline (dim_width dim) (dim_height dim);
          scanline = i32_div scanline 2;
          p1 = plane (PAD_TO_SIZE (stride * scanline) pad) off offset_x offset_y stride scanline
                 (dim_width dim) (i32_div (dim_height dim) 2)
      in two_planes p0 p1 (PAD_TO_SIZE (mp_len p0 + mp_len p1) 4096) bp))"

definition snapshot_yv12 ::
    "i32 \<times> i32 \<times> i32 \<times> i32 \<Rightarrow> cam_dimension \<Rightarrow> cam_padding_info \<Rightarrow> cam_frame_len_offset \<Rightarrow> cam_frame_len_offset" where
  "snapshot_yv12 g dim padding bp = (case g of (stride, scanline, offset_x, offset_y) \<Rightarrow>
     (let pad = plane_padding padding;
          p0 = plane (PAD_TO_SIZE (stride * scanline) pad) (PAD_TO_SIZE (offset_x + stride * offset_y) pad)
                 offset_x offset_y stride scanline (dim_width dim) (dim_height dim);
          stride = PAD_TO_SIZE (i32_div stride 2) 16;
          scanline = i32_div scanline 2;
          p1 = plane (PAD_TO_SIZE (stride * scanline) pad) (PAD_TO_SIZE (offset_x + stride * offset_y) pad)
                 offset_x offset_y stride scanline (i32_div (dim_width dim) 2) (i32_div (dim_height dim) 2);
          p2 = plane (PAD_TO_SIZE (stride * scanline) pad) (PAD_TO_SIZE (offset_x + stride * offset_y) pad)
                 offset_x offset_y stride scanline (i32_div (dim_width dim) 2) (i32_div (dim_height dim) 2)
      in three_planes p0 p1 p2 (PAD_TO_SIZE (mp_len p0 + mp_len p1 + mp_len p2) 4096) bp))"

definition snapshot_nv16 ::
    "i32 \<times> i32 \<times> i32 \<times> i32 \<Rightarrow> cam_dimension \<Rightarrow> cam_padding_info \<Rightarrow> cam_frame_len_offset \<Rightarrow> cam_frame_len_offset" where
  "snapshot_nv16 g dim padding bp = (case g of (stride, scanline, offset_x, offset_y) \<Rightarrow>
     (let pad = plane_padding padding;
          p = plane (PAD_TO_SIZE (stride * scanline) pad) (PAD_TO_SIZE (offset_x + stride * offset_y) pad)
                 offset_x offset_y stride scanline (dim_width dim) (dim_height dim)
      in two_planes p p (PAD_TO_SIZE (mp_len p + mp_len p) 4096) bp))"

definition mm_stream_calc_offset_snapshot ::
    "bool \<Rightarrow> cam_format \<Rightarrow> cam_dimension \<Rightarrow> cam_padding_info \<Rightarrow> cam_frame_len_offset \<Rightarrow> cam_frame_len_offset \<times> i32" where
  "mm_stream_calc_offset_snapshot afam fmt dim padding bp =
     (let g = snapshot_geometry afam dim padding in
      case fmt of
        CAM_FORMAT_YUV_420_NV12 \<Rightarrow> (snapshot_nv12 g dim padding bp, 0)
      | CAM_FORMAT_YUV_420_NV21 \<Rightarrow> (snapshot_nv12 g dim padding bp, 0)
      | CAM_FORMAT_YUV_420_YV12 \<Rightarrow> (snapshot_yv12 g dim padding bp, 0)
      | CAM_FORMAT_YUV_422_NV16 \<Rightarrow> (snapshot_nv16 g dim padding bp, 0)
      | CAM_FORMAT_YUV_422_NV61 \<Rightarrow> (snapshot_nv16 g dim padding bp, 0)
      | _ \<Rightarrow> (bp, -1))"

section \<open>Raw formats\<close>

text \<open>The single plane of a raw format: the stride in pixels or bytes and the bytes before padding.\<close>

definition raw_plane :: "i32 \<Rightarrow> i32 \<Rightarrow> u32 \<Rightarrow> cam_padding_info \<Rightarrow> cam_frame_len_offset \<Rightarrow> cam_frame_len_offset" where
  "raw_plane stride scanline bytes padding bp =
     (let len = PAD_TO_SIZE bytes (plane_padding padding)
      in one_plane (plane len 0 0 0 stride scanline len 1) (PAD_TO_SIZE len 4096) bp)"

definition raw_yuv_8bit :: "cam_dimension \<Rightarrow> cam_padding_info \<Rightarrow> cam_frame_len_offset \<Rightarrow> cam_frame_len_offset" where
  "raw_yuv_8bit dim padding bp =
     (let stride = PAD_TO_SIZE (dim_width dim) 16; scanline = dim_height dim
      in raw_plane stride scanline (stride * scanline * 2) padding bp)"

definition raw_8bpp :: "cam_dimension \<Rightarrow> cam_padding_info \<Rightarrow> cam_frame_len_offset \<Rightarrow> cam_frame_len_offset" where
  "raw_8bpp dim padding bp =
     (let stride = PAD_TO_SIZE (dim_width dim) 16; scanline = dim_height dim
      in raw_plane stride scanline (stride * scanline) padding bp)"

definition raw_qcom_10bpp :: "cam_dimension \<Rightarrow> cam_padding_info \<Rightarrow> cam_frame_len_offset \<Rightarrow> cam_frame_len_offset" where
  "raw_qcom_10bpp dim padding bp =
     (let stride = i32_div (dim_width dim + 11) 12 * 12; scanline = dim_height dim
      in raw_plane stride scanline (i32_div (stride * scanline * 8) 6) padding bp)"

definition raw_qcom_12bpp :: "cam_dimension \<Rightarrow> cam_padding_info \<Rightarrow> cam_frame_len_offset \<Rightarrow> cam_frame_len_offset" where
  "raw_qcom_12bpp dim padding bp =
     (let stride = i32_div (dim_width dim + 9) 10 * 10; scanline = dim_height dim
      in raw_plane stride scanline (i32_div (stride * scanline * 8) 5) padding bp)"

definition raw_mipi_10bpp :: "cam_dimension \<Rightarrow> cam_padding_info \<Rightarrow> cam_frame_len_offset \<Rightarrow> cam_frame_len_offset" where
  "raw_mipi_10bpp dim padding bp =
     (let stride = PAD_TO_SIZE (i32_div (dim_width dim * 5) 4) 8; scanline = dim_height dim
      in raw_plane stride scanline (stride * scanline) padding bp)"

definition raw_mipi_12bpp :: "cam_dimension \<Rightarrow> cam_padding_info \<Rightarrow> cam_frame_len_offset \<Rightarrow> cam_frame_len_offset" where
  "raw_mipi_12bpp dim padding bp =
     (let stride = PAD_TO_SIZE (dim_width dim) 32; scanline = dim_height dim
      in raw_plane stride scanline (i32_div (stride * scanline * 3) 2) padding bp)"

definition raw_plain16 :: "cam_dimension \<Rightarrow> cam_padding_info \<Rightarrow> cam_frame_len_offset \<Rightarrow> cam_frame_len_offset" where
  "raw_plain16 dim padding bp =
     (let stride = PAD_TO_SIZE (dim_width dim) 8; scanline = dim_height dim
      in raw_plane stride scanline (stride * scanline * 2) padding bp)"

definition mm_stream_calc_offset_raw ::
    "cam_format \<Rightarrow> cam_dimension \<Rightarrow> cam_padding_info \<Rightarrow> cam_frame_len_offset \<Rightarrow> cam_frame_len_offset \<times> i32" where
  "mm_stream_calc_offset_raw fmt dim padding bp = (case fmt of
     CAM_FORMAT_YUV_RAW_8BIT_YUYV \<Rightarrow> (raw_yuv_8bit dim padding bp, 0)
   | CAM_FORMAT_YUV_RAW_8BIT_YVYU \<Rightarrow> (raw_yuv_8bit dim padding bp, 0)
   | CAM_FORMAT_YUV_RAW_8BIT_UYVY \<Rightarrow> (raw_yuv_8bit dim padding bp, 0)
   | CAM_FORMAT_YUV_RAW_8BIT_VYUY \<Rightarrow> (raw_yuv_8bit dim padding bp, 0)
   | CAM_FORMAT_JPEG_RAW_8BIT \<Rightarrow> (raw_yuv_8bit dim padding bp, 0)
   | CAM_FORMAT_META_RAW_8BIT \<Rightarrow> (raw_yuv_8bit dim padding bp, 0)
   | CAM_FORMAT_BAYER_QCOM_RAW_8BPP _ \<Rightarrow> (raw_8bpp dim padding bp, 0)
   | CAM_FORMAT_BAYER_MIPI_RAW_8BPP _ \<Rightarrow> (raw_8bpp dim padding bp, 0)
   | CAM_FORMAT_BAYER_IDEAL_RAW_QCOM_8BPP _ \<Rightarrow> (raw_8bpp dim padding bp, 0)
   | CAM_FORMAT_BAYER_IDEAL_RAW_MIPI_8BPP _ \<Rightarrow> (raw_8bpp dim padding bp, 0)
   | CAM_FORMAT_BAYER_IDEAL_RAW_PLAIN8_8BPP _ \<Rightarrow> (raw_8bpp dim padding bp, 0)
   | CAM_FORMAT_BAYER_QCOM_RAW_10BPP _ \<Rightarrow> (raw_qcom_10bpp dim padding bp, 0)
   | CAM_FORMAT_BAYER_IDEAL_RAW_QCOM_10BPP _ \<Rightarrow> (raw_qcom_10bpp dim padding bp, 0)
   | CAM_FORMAT_BAYER_QCOM_RAW_12BPP _ \<Rightarrow> (raw_qcom_12bpp dim padding bp, 0)
   | CAM_FORMAT_BAYER_IDEAL_RAW_QCOM_12BPP _ \<Rightarrow> (raw_qcom_12bpp dim padding bp, 0)
   | CAM_FORMAT_BAYER_MIPI_RAW_10BPP _ \<Rightarrow> (raw_mipi_10bpp dim padding bp, 0)
   | CAM_FORMAT_BAYER_IDEAL_RAW_MIPI_10BPP _ \<Rightarrow> (raw_mipi_10bpp dim padding bp, 0)
   | CAM_FORMAT_BAYER_MIPI_RAW_12BPP _ \<Rightarrow> (raw_mipi_12bpp dim padding bp, 0)
   | CAM_FORMAT_BAYER_IDEAL_RAW_MIPI_12BPP _ \<Rightarrow> (raw_mipi_12bpp dim padding bp, 0)
   | CAM_FORMAT_BAYER_IDEAL_RAW_PLAIN16_8BPP _ \<Rightarrow> (raw_plain16 dim padding bp, 0)
   | CAM_FORMAT_BAYER_IDEAL_RAW_PLAIN16_10BPP _ \<Rightarrow> (raw_plain16 dim padding bp, 0)
   | CAM_FORMAT_BAYER_IDEAL_RAW_PLAIN16_12BPP _ \<Rightarrow> (raw_plain16 dim padding bp, 0)
   | _ \<Rightarrow> (bp, -1))"

section \<open>Video and metadata\<close>

text \<open>The build without Venus: the second block writes the width and height of plane 0 again and
  never those of plane 1, which keep what the caller's structure held.\<close>

definition video_plain :: "cam_dimension \<Rightarrow> cam_frame_len_offset \<Rightarrow> cam_frame_len_offset" where
  "video_plain dim bp =
     (let w = dim_width dim; h = dim_height dim; h2 = i32_div (dim_height dim) 2;
          p0 = plane (PAD_TO_SIZE (w * h) 2048) 0 0 0 w h w h;
          old = fl_mp bp ! 1;
          p1 = plane (PAD_TO_SIZE (w * h2) 2048) 0 0 0 w h2 (mp_width old) (mp_height old);
          p0 = p0\<lparr>mp_width := w, mp_height := h2\<rparr>
      in two_planes p0 p1 (PAD_TO_SIZE (mp_len p0 + mp_len p1) 4096) bp)"

definition mm_stream_calc_offset_video ::
    "venus option \<Rightarrow> cam_dimension \<Rightarrow> cam_frame_len_offset \<Rightarrow> cam_frame_len_offset \<times> i32" where
  "mm_stream_calc_offset_video v dim bp = (case v of
     Some v \<Rightarrow> (offset_venus v dim bp, 0)
   | None \<Rightarrow> (video_plain dim bp, 0))"

definition mm_stream_calc_offset_metadata ::
    "cam_dimension \<Rightarrow> cam_padding_info \<Rightarrow> cam_frame_len_offset \<Rightarrow> cam_frame_len_offset \<times> i32" where
  "mm_stream_calc_offset_metadata dim padding bp =
     (let len = PAD_TO_SIZE (dim_width dim * dim_height dim) (plane_padding padding)
      in (one_plane (plane len 0 0 0 (dim_width dim) (dim_height dim) (dim_width dim) (dim_height dim)) len bp, 0))"

section \<open>The stream's description and the dispatch\<close>

datatype cam_rotation = ROTATE_0 | ROTATE_90 | ROTATE_180 | ROTATE_270

definition CAM_QCOM_FEATURE_ROTATION :: u32 where "CAM_QCOM_FEATURE_ROTATION = 8"

datatype cam_stream_reproc_config =
    REPROC_ONLINE cam_stream_type
  | REPROC_OFFLINE cam_frame_len_offset

record cam_stream_info =
  stream_svr_id :: u32
  stream_type :: cam_stream_type
  si_fmt :: cam_format
  si_dim :: cam_dimension
  buf_planes :: cam_frame_len_offset
  pp_feature_mask :: u32
  pp_rotation :: cam_rotation
  reprocess_config :: cam_stream_reproc_config

definition mm_stream_calc_offset_postproc ::
    "venus option \<Rightarrow> bool \<Rightarrow> cam_stream_info \<Rightarrow> cam_padding_info \<Rightarrow> cam_frame_len_offset \<Rightarrow> cam_frame_len_offset \<times> i32" where
  "mm_stream_calc_offset_postproc v afam si padding bp = (case reprocess_config si of
     REPROC_OFFLINE input \<Rightarrow> (if fl_frame_len bp = 0 then (input, 0) else (bp, 0))
   | REPROC_ONLINE t \<Rightarrow> (case t of
        CAM_STREAM_TYPE_PREVIEW \<Rightarrow> mm_stream_calc_offset_preview v (si_fmt si) (si_dim si) bp
      | CAM_STREAM_TYPE_POSTVIEW \<Rightarrow> mm_stream_calc_offset_post_view v (si_fmt si) (si_dim si) bp
      | CAM_STREAM_TYPE_SNAPSHOT \<Rightarrow> mm_stream_calc_offset_snapshot afam (si_fmt si) (si_dim si) padding bp
      | CAM_STREAM_TYPE_VIDEO \<Rightarrow> mm_stream_calc_offset_video v (si_dim si) bp
      | CAM_STREAM_TYPE_RAW \<Rightarrow> mm_stream_calc_offset_raw (si_fmt si) (si_dim si) padding bp
      | CAM_STREAM_TYPE_METADATA \<Rightarrow> mm_stream_calc_offset_metadata (si_dim si) padding bp
      | _ \<Rightarrow> (bp, -1)))"

definition rotated_dim :: "cam_stream_info \<Rightarrow> cam_dimension" where
  "rotated_dim si =
     (if pp_feature_mask si AND CAM_QCOM_FEATURE_ROTATION \<noteq> 0
         \<and> (pp_rotation si = ROTATE_90 \<or> pp_rotation si = ROTATE_270)
      then \<lparr>dim_width = dim_height (si_dim si), dim_height = dim_width (si_dim si)\<rparr>
      else si_dim si)"

text \<open>The planes of \<^verbatim>\<open>mm_stream_calc_offset\<close>; the caller stores them in the stream's info and copies
  them to its \<^verbatim>\<open>frame_offset\<close>.\<close>

definition calc_offset_planes ::
    "venus option \<Rightarrow> bool \<Rightarrow> cam_stream_info \<Rightarrow> cam_padding_info \<Rightarrow> cam_frame_len_offset \<times> i32" where
  "calc_offset_planes v afam si padding =
     (let dim = rotated_dim si; bp = buf_planes si in
      case stream_type si of
        CAM_STREAM_TYPE_PREVIEW \<Rightarrow> mm_stream_calc_offset_preview v (si_fmt si) dim bp
      | CAM_STREAM_TYPE_POSTVIEW \<Rightarrow> mm_stream_calc_offset_preview v (si_fmt si) dim bp
      | CAM_STREAM_TYPE_SNAPSHOT \<Rightarrow> mm_stream_calc_offset_snapshot afam (si_fmt si) dim padding bp
      | CAM_STREAM_TYPE_OFFLINE_PROC \<Rightarrow> mm_stream_calc_offset_postproc v afam si padding bp
      | CAM_STREAM_TYPE_VIDEO \<Rightarrow> mm_stream_calc_offset_video v dim bp
      | CAM_STREAM_TYPE_RAW \<Rightarrow> mm_stream_calc_offset_raw (si_fmt si) dim padding bp
      | CAM_STREAM_TYPE_METADATA \<Rightarrow> mm_stream_calc_offset_metadata dim padding bp
      | _ \<Rightarrow> (bp, -1))"

section \<open>The driver's pixel formats\<close>

datatype v4l2_fmt = V4L2_NONE | V4L2_PIX_FMT_NV12 | V4L2_PIX_FMT_NV21 | V4L2_PIX_FMT_SBGGR10 | V4L2_PIX_FMT_NV61
  | V4L2_PIX_FMT_YUYV | V4L2_PIX_FMT_YVYU | V4L2_PIX_FMT_UYVY | V4L2_PIX_FMT_VYUY | V4L2_PIX_FMT_NV16

definition mm_stream_get_v4l2_fmt :: "cam_format \<Rightarrow> v4l2_fmt" where
  "mm_stream_get_v4l2_fmt fmt = (case fmt of
     CAM_FORMAT_YUV_420_NV12 \<Rightarrow> V4L2_PIX_FMT_NV12
   | CAM_FORMAT_YUV_420_NV12_VENUS \<Rightarrow> V4L2_PIX_FMT_NV12
   | CAM_FORMAT_YUV_420_NV21 \<Rightarrow> V4L2_PIX_FMT_NV21
   | CAM_FORMAT_BAYER_QCOM_RAW_10BPP _ \<Rightarrow> V4L2_PIX_FMT_SBGGR10
   | CAM_FORMAT_YUV_422_NV61 \<Rightarrow> V4L2_PIX_FMT_NV61
   | CAM_FORMAT_YUV_RAW_8BIT_YUYV \<Rightarrow> V4L2_PIX_FMT_YUYV
   | CAM_FORMAT_YUV_RAW_8BIT_YVYU \<Rightarrow> V4L2_PIX_FMT_YVYU
   | CAM_FORMAT_YUV_RAW_8BIT_UYVY \<Rightarrow> V4L2_PIX_FMT_UYVY
   | CAM_FORMAT_YUV_RAW_8BIT_VYUY \<Rightarrow> V4L2_PIX_FMT_VYUY
   | CAM_FORMAT_YUV_420_YV12 \<Rightarrow> V4L2_PIX_FMT_NV12
   | CAM_FORMAT_YUV_422_NV16 \<Rightarrow> V4L2_PIX_FMT_NV16
   | _ \<Rightarrow> V4L2_NONE)"

section \<open>Rounding up\<close>

lemma unat_pad:
  assumes "unat x + 2 ^ k \<le> 2 ^ 32" "k < 32"
  shows "unat (PAD_TO_SIZE x (2 ^ k)) = (unat x + 2 ^ k - 1) div 2 ^ k * 2 ^ k"
proof -
  have m: "(2::u32) ^ k - 1 = mask k" by (simp add: mask_eq_exp_minus_1)
  have lt: "(2::nat) ^ k - 1 < 2 ^ 32" using assms by simp
  have "mask k = (of_nat (2 ^ k - 1) :: u32)" by (simp add: of_nat_diff mask_eq_exp_minus_1)
  then have "unat (mask k :: u32) = 2 ^ k - 1" using unat_u32_of_nat [OF lt] by simp
  then have "unat (x + mask k) = unat x + 2 ^ k - 1"
    using assms(1) by (subst unat_u32_add) auto
  then have a: "unat (x + 2 ^ k - 1) = unat x + 2 ^ k - 1" by (simp add: m [symmetric] add_diff_eq)
  have tb: "take_bit 32 (unat (x + 2 ^ k - 1)) = unat (x + 2 ^ k - 1)"
    by (rule take_bit_nat_eq_self) (use unat_u32 in simp)
  have "unat (PAD_TO_SIZE x (2 ^ k)) = unat (push_bit k (drop_bit k (x + 2 ^ k - 1)))"
    unfolding PAD_TO_SIZE_def m and_not_mask_eq by simp
  also have "\<dots> = take_bit 32 (push_bit k (drop_bit k (unat (x + 2 ^ k - 1))))"
    by (simp add: unsigned_push_bit_eq unsigned_drop_bit_eq tb)
  also have "\<dots> = (unat x + 2 ^ k - 1) div 2 ^ k * 2 ^ k"
  proof -
    have "(unat x + 2 ^ k - 1) div 2 ^ k * 2 ^ k \<le> unat x + 2 ^ k - 1" by simp
    also have "\<dots> < 2 ^ 32" using assms(1) by simp
    finally show ?thesis unfolding a by (simp add: push_bit_eq_mult drop_bit_eq_div take_bit_eq_mod)
  qed
  finally show ?thesis .
qed

lemma pad_bounds:
  assumes "unat x + 2 ^ k \<le> 2 ^ 32" "k < 32"
  shows "unat x \<le> unat (PAD_TO_SIZE x (2 ^ k))" "unat (PAD_TO_SIZE x (2 ^ k)) < unat x + 2 ^ k"
    "2 ^ k dvd unat (PAD_TO_SIZE x (2 ^ k))"
proof -
  let ?n = "unat x" and ?d = "(2::nat) ^ k"
  have p: "unat (PAD_TO_SIZE x (2 ^ k)) = (?n + ?d - 1) div ?d * ?d" by (rule unat_pad [OF assms])
  have d: "(?n + ?d - 1) div ?d * ?d + (?n + ?d - 1) mod ?d = ?n + ?d - 1" by (rule div_mult_mod_eq)
  have m: "(?n + ?d - 1) mod ?d < ?d" by simp
  show "?n \<le> unat (PAD_TO_SIZE x (2 ^ k))" unfolding p using d m by linarith
  have "0 < ?d" by simp
  then show "unat (PAD_TO_SIZE x (2 ^ k)) < ?n + ?d" unfolding p using d by linarith
  show "?d dvd unat (PAD_TO_SIZE x (2 ^ k))" unfolding p by simp
qed

lemmas pad_2 = pad_bounds [where k = 1, simplified]
lemmas pad_16 = pad_bounds [where k = 4, simplified]
lemmas pad_32 = pad_bounds [where k = 5, simplified]
lemmas pad_64 = pad_bounds [where k = 6, simplified]
lemmas pad_4k = pad_bounds [where k = 12, simplified]

lemma half_nat: "unat x \<le> 16448 \<Longrightarrow> unat (i32_div x 2) = unat x div 2"
  using i32_div_nat [of x 2] by simp

section \<open>Frames are large enough for their planes\<close>

text \<open>Every plane has room for its rows; the planes fit into the frame, which is a whole number of
  pages and less than a page larger.\<close>

definition plane_fits :: "cam_mp_len_offset \<Rightarrow> bool" where
  "plane_fits p \<longleftrightarrow> unat (mp_stride p) * unat (mp_scanline p) \<le> unat (mp_len p)
     \<and> unat (mp_width p) \<le> unat (mp_stride p) \<and> unat (mp_height p) \<le> unat (mp_scanline p)"

definition used_planes :: "cam_frame_len_offset \<Rightarrow> cam_mp_len_offset list" where
  "used_planes bp = take (fl_num_planes bp) (fl_mp bp)"

definition frame_fits :: "cam_frame_len_offset \<Rightarrow> bool" where
  "frame_fits bp \<longleftrightarrow> used_planes bp \<noteq> [] \<and> list_all plane_fits (used_planes bp)
     \<and> sum_list (map (\<lambda>p. unat (mp_len p)) (used_planes bp)) \<le> unat (fl_frame_len bp)
     \<and> unat (fl_frame_len bp) < sum_list (map (\<lambda>p. unat (mp_len p)) (used_planes bp)) + 4096
     \<and> 4096 dvd unat (fl_frame_len bp)"

lemma used_two: "length (fl_mp bp) = VIDEO_MAX_PLANES \<Longrightarrow> used_planes (two_planes p0 p1 l bp) = [p0, p1]"
  by (auto simp: used_planes_def two_planes_def set_mp_def VIDEO_MAX_PLANES_def numeral_eq_Suc length_Suc_conv)

lemma used_three: "length (fl_mp bp) = VIDEO_MAX_PLANES \<Longrightarrow> used_planes (three_planes p0 p1 p2 l bp) = [p0, p1, p2]"
  by (auto simp: used_planes_def three_planes_def set_mp_def VIDEO_MAX_PLANES_def numeral_eq_Suc length_Suc_conv)

lemma two_planes_fit:
  assumes "length (fl_mp bp) = VIDEO_MAX_PLANES" "plane_fits p0" "plane_fits p1"
    "unat (mp_len p0) \<le> 2 ^ 30" "unat (mp_len p1) \<le> 2 ^ 30"
  shows "frame_fits (two_planes p0 p1 (PAD_TO_SIZE (mp_len p0 + mp_len p1) 4096) bp)"
proof -
  have a: "unat (mp_len p0 + mp_len p1) = unat (mp_len p0) + unat (mp_len p1)"
    using assms(4,5) by (intro unat_u32_add) simp
  have "fl_frame_len (two_planes p0 p1 l bp) = l" for l by (simp add: two_planes_def)
  then show ?thesis
    using assms pad_4k [of "mp_len p0 + mp_len p1"] unfolding frame_fits_def used_two [OF assms(1)] a by simp
qed

lemma three_planes_fit:
  assumes "length (fl_mp bp) = VIDEO_MAX_PLANES" "plane_fits p0" "plane_fits p1" "plane_fits p2"
    "unat (mp_len p0) \<le> 2 ^ 30" "unat (mp_len p1) \<le> 2 ^ 30" "unat (mp_len p2) \<le> 2 ^ 30"
  shows "frame_fits (three_planes p0 p1 p2 (PAD_TO_SIZE (mp_len p0 + mp_len p1 + mp_len p2) 4096) bp)"
proof -
  have a: "unat (mp_len p0 + mp_len p1 + mp_len p2) = unat (mp_len p0) + unat (mp_len p1) + unat (mp_len p2)"
    using assms(5-7) by (simp add: unat_u32_add)
  have "fl_frame_len (three_planes p0 p1 p2 l bp) = l" for l by (simp add: three_planes_def)
  then show ?thesis
    using assms pad_4k [of "mp_len p0 + mp_len p1 + mp_len p2"]
    unfolding frame_fits_def used_three [OF assms(1)] a by simp
qed

text \<open>A plane of unpadded length fits when stride and scanline are not too large.\<close>

lemma area_nat:
  fixes s l :: u32
  assumes "unat s \<le> 16448" "unat l \<le> 16448"
  shows "unat (s * l) = unat s * unat l" "unat (s * l) \<le> 270536704"
proof -
  have "unat s * unat l \<le> 16448 * 16448" using assms by (rule mult_le_mono)
  then have "unat s * unat l < 2 ^ 32" by simp
  then show "unat (s * l) = unat s * unat l" by (rule unat_u32_mult)
  then show "unat (s * l) \<le> 270536704" using \<open>unat s * unat l \<le> 16448 * 16448\<close> by simp
qed

lemma plane_unpadded:
  assumes "unat s \<le> 16448" "unat l \<le> 16448" "unat w \<le> unat s" "unat h \<le> unat l"
  shows "plane_fits (plane (s * l) 0 0 0 s l w h) \<and> unat (mp_len (plane (s * l) 0 0 0 s l w h)) \<le> 2 ^ 30"
  using assms area_nat [OF assms(1,2)] by (simp add: plane_def plane_fits_def)

lemma plane_padded:
  assumes "unat s \<le> 16448" "unat l \<le> 16448" "unat w \<le> unat s" "unat h \<le> unat l"
  shows "plane_fits (plane (PAD_TO_SIZE (s * l) 4096) 0 0 0 s l w h)
     \<and> unat (mp_len (plane (PAD_TO_SIZE (s * l) 4096) 0 0 0 s l w h)) \<le> 2 ^ 30"
  using assms area_nat [OF assms(1,2)] pad_4k [of "s * l"] by (simp add: plane_def plane_fits_def)

definition dim_ok :: "cam_dimension \<Rightarrow> bool" where
  "dim_ok dim \<longleftrightarrow> unat (dim_width dim) \<le> 16384 \<and> unat (dim_height dim) \<le> 16384 \<and> even (unat (dim_width dim))"

lemma nv12_fits:
  assumes "length (fl_mp bp) = VIDEO_MAX_PLANES" "dim_ok dim"
  shows "frame_fits (offset_nv12 16 2 dim bp)" and "frame_fits (offset_nv12 64 64 dim bp)"
proof -
  let ?w = "dim_width dim" and ?h = "dim_height dim" and ?h2 = "i32_div (dim_height dim) 2"
  have d: "unat ?w \<le> 16384" "unat ?h \<le> 16384" "unat ?h2 = unat ?h div 2"
    using assms(2) half_nat [of ?h] by (auto simp: dim_ok_def)
  then have h2: "unat ?h2 \<le> 16384" by linarith
  have 1: "unat (PAD_TO_SIZE ?w 16) \<le> 16448" "unat (PAD_TO_SIZE ?h 2) \<le> 16448" "unat (PAD_TO_SIZE ?h2 2) \<le> 16448"
    "unat ?w \<le> unat (PAD_TO_SIZE ?w 16)" "unat ?h \<le> unat (PAD_TO_SIZE ?h 2)" "unat ?h2 \<le> unat (PAD_TO_SIZE ?h2 2)"
    using d(1,2) h2 pad_16 [of ?w] pad_2 [of ?h] pad_2 [of ?h2] by simp_all
  have 2: "unat (PAD_TO_SIZE ?w 64) \<le> 16448" "unat (PAD_TO_SIZE ?h 64) \<le> 16448" "unat (PAD_TO_SIZE ?h2 64) \<le> 16448"
    "unat ?w \<le> unat (PAD_TO_SIZE ?w 64)" "unat ?h \<le> unat (PAD_TO_SIZE ?h 64)" "unat ?h2 \<le> unat (PAD_TO_SIZE ?h2 64)"
    using d(1,2) h2 pad_64 [of ?w] pad_64 [of ?h] pad_64 [of ?h2] by simp_all
  show "frame_fits (offset_nv12 16 2 dim bp)"
    unfolding offset_nv12_def Let_def
    by (rule two_planes_fit [OF assms(1)]) (use 1 plane_unpadded in blast)+
  show "frame_fits (offset_nv12 64 64 dim bp)"
    unfolding offset_nv12_def Let_def
    by (rule two_planes_fit [OF assms(1)]) (use 2 plane_unpadded in blast)+
qed

lemma adreno_fits:
  assumes "length (fl_mp bp) = VIDEO_MAX_PLANES" "dim_ok dim"
  shows "frame_fits (offset_nv21_adreno dim bp)"
proof -
  let ?w = "dim_width dim" and ?h = "dim_height dim"
    and ?w2 = "i32_div (dim_width dim) 2" and ?h2 = "i32_div (dim_height dim) 2"
  have d: "unat ?w \<le> 16384" "unat ?h \<le> 16384" "unat ?h2 = unat ?h div 2" "unat ?w2 = unat ?w div 2" "even (unat ?w)"
    using assms(2) half_nat [of ?h] half_nat [of ?w] by (auto simp: dim_ok_def)
  then have h2: "unat ?h2 \<le> 16384" "unat ?w2 \<le> 8192" by linarith+
  have p: "unat (PAD_TO_SIZE ?w 32) \<le> 16448" "unat (PAD_TO_SIZE ?h 32) \<le> 16448" "unat (PAD_TO_SIZE ?h2 32) \<le> 16448"
    "unat ?w \<le> unat (PAD_TO_SIZE ?w 32)" "unat ?h \<le> unat (PAD_TO_SIZE ?h 32)" "unat ?h2 \<le> unat (PAD_TO_SIZE ?h2 32)"
    using d(1,2) h2 pad_32 [of ?w] pad_32 [of ?h] pad_32 [of ?h2] by simp_all
  have q: "unat (PAD_TO_SIZE ?w2 32) < 8224" "unat ?w2 \<le> unat (PAD_TO_SIZE ?w2 32)"
    using h2 pad_32 [of ?w2] by simp_all
  have m: "unat (PAD_TO_SIZE ?w2 32 * 2) = 2 * unat (PAD_TO_SIZE ?w2 32)"
    using q(1) unat_u32_mult [of "PAD_TO_SIZE ?w2 32" 2] by simp
  have r: "unat (PAD_TO_SIZE ?w2 32 * 2) \<le> 16448" "unat ?w \<le> unat (PAD_TO_SIZE ?w2 32 * 2)"
    using q d(4,5) unfolding m by auto
  show ?thesis
    unfolding offset_nv21_adreno_def Let_def
    by (rule two_planes_fit [OF assms(1)]) (use p r plane_padded in blast)+
qed

lemma yv12_fits:
  assumes "length (fl_mp bp) = VIDEO_MAX_PLANES" "dim_ok dim"
  shows "frame_fits (offset_yv12 dim bp)"
proof -
  let ?w = "dim_width dim" and ?h = "dim_height dim"
    and ?w2 = "i32_div (dim_width dim) 2" and ?h2 = "i32_div (dim_height dim) 2"
  let ?s = "PAD_TO_SIZE ?w 16" and ?l = "PAD_TO_SIZE ?h 2"
  let ?s2 = "PAD_TO_SIZE (i32_div ?s 2) 16" and ?l2 = "i32_div ?l 2"
  have d: "unat ?w \<le> 16384" "unat ?h \<le> 16384" "unat ?h2 = unat ?h div 2" "unat ?w2 = unat ?w div 2"
    using assms(2) half_nat [of ?h] half_nat [of ?w] by (auto simp: dim_ok_def)
  have p: "unat ?s \<le> 16448" "unat ?l \<le> 16448" "unat ?w \<le> unat ?s" "unat ?h \<le> unat ?l" "unat ?s \<le> 16400"
    using d pad_16 [of ?w] pad_2 [of ?h] by simp_all
  have h: "unat (i32_div ?s 2) = unat ?s div 2" "unat ?l2 = unat ?l div 2"
    using p half_nat by blast+
  have b: "unat (i32_div ?s 2) \<le> 8200" using h(1) p(5) by linarith
  have q1: "unat ?s2 \<le> 16448" "unat (i32_div ?s 2) \<le> unat ?s2"
    using b pad_16 [of "i32_div ?s 2"] by simp_all
  have q: "unat ?s2 \<le> 16448" "unat ?l2 \<le> 16448" "unat ?w2 \<le> unat ?s2" "unat ?h2 \<le> unat ?l2"
    using q1 d(3,4) p(2) h div_le_mono [OF p(3), of 2] div_le_mono [OF p(4), of 2] by linarith+
  show ?thesis
    unfolding offset_yv12_def Let_def
    by (rule three_planes_fit [OF assms(1)]) (use p q plane_unpadded in blast)+
qed

lemma nv16_fits:
  assumes "length (fl_mp bp) = VIDEO_MAX_PLANES" "dim_ok dim"
  shows "frame_fits (offset_nv16 dim bp)"
proof -
  let ?w = "dim_width dim" and ?h = "dim_height dim"
  have p: "unat (PAD_TO_SIZE ?w 16) \<le> 16448" "unat ?h \<le> 16448" "unat ?w \<le> unat (PAD_TO_SIZE ?w 16)"
    using assms(2) pad_16 [of ?w] by (auto simp: dim_ok_def)
  show ?thesis
    unfolding offset_nv16_def Let_def
    by (rule two_planes_fit [OF assms(1)]) (use p order_refl plane_unpadded in blast)+
qed

text \<open>C23: for every pixel format of preview and postview that does not need the Venus macros, an
  accepted configuration of at most 16384 by 16384 pixels with an even width gets a frame that is
  large enough: every plane has room for all its rows at the computed stride and covers the
  plane's width and height, the planes together fit into \<^verbatim>\<open>frame_len\<close>, and \<^verbatim>\<open>frame_len\<close> is a whole
  number of 4 KiB pages less than a page above that sum; no 32-bit product or sum wraps.\<close>

theorem preview_frame_fits:
  assumes "mm_stream_calc_offset_preview None fmt dim bp = (bp1, 0)" "mm_stream_calc_offset_post_view None fmt dim bp = (bp2, 0)"
    and "length (fl_mp bp) = VIDEO_MAX_PLANES" "dim_ok dim"
  shows "frame_fits bp1 \<and> frame_fits bp2"
  using assms(1,2) nv12_fits [OF assms(3,4)] adreno_fits [OF assms(3,4)] yv12_fits [OF assms(3,4)] nv16_fits [OF assms(3,4)]
  unfolding mm_stream_calc_offset_preview_def mm_stream_calc_offset_post_view_def
  by (cases fmt) auto

definition fl_zero :: cam_frame_len_offset where
  "fl_zero = \<lparr>fl_num_planes = 0, fl_mp = replicate VIDEO_MAX_PLANES (plane 0 0 0 0 0 0 0 0), fl_frame_len = 0\<rparr>"

theorem preview_frame_fits_witness:
  "frame_fits (fst (mm_stream_calc_offset_preview None CAM_FORMAT_YUV_420_YV12 \<lparr>dim_width = 1000, dim_height = 751\<rparr> fl_zero))"
proof -
  let ?d = "\<lparr>dim_width = 1000, dim_height = 751\<rparr>"
  have "mm_stream_calc_offset_preview None CAM_FORMAT_YUV_420_YV12 ?d fl_zero = (offset_yv12 ?d fl_zero, 0)"
    "mm_stream_calc_offset_post_view None CAM_FORMAT_YUV_420_YV12 ?d fl_zero = (offset_yv12 ?d fl_zero, 0)"
    by (simp_all add: mm_stream_calc_offset_preview_def mm_stream_calc_offset_post_view_def)
  from preview_frame_fits [OF this] show ?thesis
    by (simp add: mm_stream_calc_offset_preview_def fl_zero_def dim_ok_def)
qed

end
