(* ===== verification/Stream.thy ===== *)
theory Stream
  imports PollThread CmdThread StreamOffset
begin

text \<open>
  A stream object,
  \<^verbatim>\<open>camera/QCamera2/stack/mm-camera-interface/src/mm_camera_stream.c\<close>: its state machine
  (not used, inited, acquired, configured, buffers allocated, buffers registered, active), the driver
  calls each transition makes, the reference counts of its buffers and the delivery of frames.

  Every operation takes the environment, the stream, the part of the parent channel it touches
  (record \<^verbatim>\<open>stream_ctx\<close>: the data poll thread, the channel's command thread, the handles) and the
  world, and returns them updated with its result code.  A locked region is one step of the model.
\<close>

datatype mm_stream_state =
    MM_STREAM_STATE_NOTUSED
  | MM_STREAM_STATE_INITED
  | MM_STREAM_STATE_ACQUIRED
  | MM_STREAM_STATE_CFG
  | MM_STREAM_STATE_BUFFED
  | MM_STREAM_STATE_REG
  | MM_STREAM_STATE_ACTIVE

record mm_stream_data_cb =
  cb_fn :: "nat option"
  cb_count :: u8

record mm_stream_buf_status =
  buf_refcnt :: u8
  initial_reg_flag :: bool
  in_kernel :: bool

record mem_vtbl =
  has_invalidate :: bool
  has_clean_invalidate :: bool

record mm_camera_stream_config =
  cfg_stream_info :: cam_stream_info
  cfg_padding :: cam_padding_info
  cfg_mem_vtbl :: mem_vtbl
  cfg_stream_cb :: "nat option"

record mm_stream =
  my_hdl :: u32
  server_stream_id :: u32
  st_fd :: i32
  st_state :: mm_stream_state
  stream_info :: "cam_stream_info option"
  padding_info :: cam_padding_info
  frame_offset :: cam_frame_len_offset
  st_cmd_thread :: cmd_thread
  buf_cb :: "mm_stream_data_cb list"
  buf_num :: u8
  st_buf :: "mm_camera_buf_def list option"
  buf_status :: "mm_stream_buf_status list option"
  ch_linked :: bool
  is_bundled :: bool
  st_mem_vtbl :: mem_vtbl

record stream_ctx =
  cx_poll :: "u32 mm_camera_poll_thread"
  cx_cmd_thread :: cmd_thread
  cx_cam_hdl :: u32
  cx_ch_hdl :: u32

definition no_cb :: mm_stream_data_cb where
  "no_cb = \<lparr>cb_fn = None, cb_count = 0\<rparr>"

text \<open>A zeroed stream object.\<close>

definition mm_stream_zero :: mm_stream where
  "mm_stream_zero = \<lparr>my_hdl = 0, server_stream_id = 0, st_fd = 0, st_state = MM_STREAM_STATE_NOTUSED,
     stream_info = None, padding_info = \<lparr>width_padding = 0, height_padding = 0, plane_padding = 0\<rparr>,
     frame_offset = fl_zero, st_cmd_thread = cmd_thread_zero,
     buf_cb = replicate MM_CAMERA_STREAM_BUF_CB_MAX no_cb, buf_num = 0, st_buf = None, buf_status = None,
     ch_linked = False, is_bundled = False,
     st_mem_vtbl = \<lparr>has_invalidate = False, has_clean_invalidate = False\<rparr>\<rparr>"

type_synonym stream_res = "mm_stream \<times> stream_ctx \<times> world \<times> i32"

section \<open>Buffer status\<close>

text \<open>\<^verbatim>\<open>buf_status[idx]\<close> for an \<^verbatim>\<open>int8_t\<close> index: \<^verbatim>\<open>None\<close> outside the array, which negative indices are.\<close>

definition status_of :: "mm_stream \<Rightarrow> nat \<Rightarrow> mm_stream_buf_status option" where
  "status_of s i = (case buf_status s of None \<Rightarrow> None
     | Some st \<Rightarrow> if i < length st \<and> i < 128 then Some (st ! i) else None)"

definition set_status :: "nat \<Rightarrow> mm_stream_buf_status \<Rightarrow> mm_stream \<Rightarrow> mm_stream" where
  "set_status i b s = s\<lparr>buf_status := map_option (\<lambda>st. st[i := b]) (buf_status s)\<rparr>"

section \<open>Driver calls\<close>

definition mm_stream_set_ext_mode :: "env \<Rightarrow> mm_stream \<Rightarrow> world \<Rightarrow> mm_stream \<times> world \<times> i32" where
  "mm_stream_set_ext_mode e s w =
     (case call e (SParm (st_fd s)) w of (w', rc) \<Rightarrow>
        (if rc = 0 then s\<lparr>server_stream_id := e_ext_mode e w\<rparr> else s, w', rc))"

definition mm_stream_set_parm :: "env \<Rightarrow> bool \<Rightarrow> mm_stream \<Rightarrow> world \<Rightarrow> world \<times> i32" where
  "mm_stream_set_parm e present s w =
     (if present then call e (SCtrl (st_fd s) CAM_PRIV_STREAM_PARM 0) w else (w, -1))"

definition mm_stream_get_parm :: "env \<Rightarrow> bool \<Rightarrow> mm_stream \<Rightarrow> world \<Rightarrow> world \<times> i32" where
  "mm_stream_get_parm e present s w =
     (if present then call e (GCtrl (st_fd s) CAM_PRIV_STREAM_PARM) w else (w, -1))"

definition mm_stream_do_action :: "env \<Rightarrow> bool \<Rightarrow> mm_stream \<Rightarrow> world \<Rightarrow> world \<times> i32" where
  "mm_stream_do_action e present s w =
     (if present then call e (SCtrl (st_fd s) CAM_PRIV_STREAM_PARM 0) w else (w, -1))"

definition mm_stream_qbuf :: "env \<Rightarrow> mm_camera_buf_def \<Rightarrow> mm_stream \<Rightarrow> world \<Rightarrow> world \<times> i32" where
  "mm_stream_qbuf e b s w =
     (let q = Qbuf (st_fd s) (bd_buf_idx b) (bd_num_planes b) (bd_planes b) in
      if has_invalidate (st_mem_vtbl s) then
        (case call e (InvalidateBuf (bd_buf_idx b)) w of (w, rc) \<Rightarrow>
           if rc <s 0 then (w, rc) else call e q w)
      else call e q w)"

definition mm_stream_request_buf :: "env \<Rightarrow> mm_stream \<Rightarrow> world \<Rightarrow> world \<times> i32" where
  "mm_stream_request_buf e s w =
     (if unat (buf_num s) > MM_CAMERA_MAX_NUM_FRAMES then (w, -1)
      else call e (Reqbufs (st_fd s) (ucast (buf_num s))) w)"

definition mm_stream_map_buf ::
    "env \<Rightarrow> cam_mapping_buf_type \<Rightarrow> u32 \<Rightarrow> i32 \<Rightarrow> i32 \<Rightarrow> u32 \<Rightarrow> mm_stream \<Rightarrow> world \<Rightarrow> world \<times> i32" where
  "mm_stream_map_buf e ty frame_idx plane_idx fd sz s w =
     (if \<not> ch_linked s then (w, -1)
      else call e (SendMsg \<lparr>pk_mapping = True, pk_type = ty, pk_stream_id = server_stream_id s,
        pk_frame_idx = frame_idx, pk_plane_idx = plane_idx, pk_fd = fd, pk_size = sz\<rparr> fd) w)"

definition mm_stream_unmap_buf ::
    "env \<Rightarrow> cam_mapping_buf_type \<Rightarrow> u32 \<Rightarrow> i32 \<Rightarrow> mm_stream \<Rightarrow> world \<Rightarrow> world \<times> i32" where
  "mm_stream_unmap_buf e ty frame_idx plane_idx s w =
     (if \<not> ch_linked s then (w, -1)
      else call e (SendMsg \<lparr>pk_mapping = False, pk_type = ty, pk_stream_id = server_stream_id s,
        pk_frame_idx = frame_idx, pk_plane_idx = plane_idx, pk_fd = 0, pk_size = 0\<rparr> 0) w)"

definition mm_stream_map_buf_ops :: "env \<Rightarrow> u32 \<Rightarrow> i32 \<Rightarrow> i32 \<Rightarrow> u32 \<Rightarrow> mm_stream \<Rightarrow> world \<Rightarrow> world \<times> i32" where
  "mm_stream_map_buf_ops e frame_idx plane_idx fd sz s w =
     mm_stream_map_buf e CAM_MAPPING_BUF_TYPE_STREAM_BUF frame_idx plane_idx fd sz s w"

definition mm_stream_unmap_buf_ops :: "env \<Rightarrow> u32 \<Rightarrow> i32 \<Rightarrow> mm_stream \<Rightarrow> world \<Rightarrow> world \<times> i32" where
  "mm_stream_unmap_buf_ops e frame_idx plane_idx s w =
     mm_stream_unmap_buf e CAM_MAPPING_BUF_TYPE_STREAM_BUF frame_idx plane_idx s w"

section \<open>Configuration\<close>

definition mm_stream_calc_offset :: "venus option \<Rightarrow> bool \<Rightarrow> mm_stream \<Rightarrow> world \<Rightarrow> mm_stream \<times> world \<times> i32" where
  "mm_stream_calc_offset v afam s w = (case stream_info s of
     None \<Rightarrow> (s, w @ [UndefinedBehaviour], -1)
   | Some si \<Rightarrow> (case calc_offset_planes v afam si (padding_info s) of (bp, rc) \<Rightarrow>
       (s\<lparr>stream_info := Some (si\<lparr>buf_planes := bp\<rparr>), frame_offset := bp\<rparr>, w, rc)))"

definition mm_stream_sync_info ::
    "env \<Rightarrow> venus option \<Rightarrow> bool \<Rightarrow> mm_stream \<Rightarrow> world \<Rightarrow> mm_stream \<times> world \<times> i32" where
  "mm_stream_sync_info e v afam s w =
     (let s = s\<lparr>stream_info := map_option (\<lambda>si. si\<lparr>stream_svr_id := server_stream_id s\<rparr>) (stream_info s)\<rparr> in
      case mm_stream_calc_offset v afam s w of (s, w, rc) \<Rightarrow>
        if rc = 0 then
          (case call e (SCtrl (st_fd s) CAM_PRIV_STREAM_INFO_SYNC 0) w of (w, rc) \<Rightarrow> (s, w, rc))
        else (s, w, rc))"

definition mm_stream_set_fmt :: "env \<Rightarrow> mm_stream \<Rightarrow> world \<Rightarrow> world \<times> i32" where
  "mm_stream_set_fmt e s w = (case stream_info s of
     None \<Rightarrow> (w @ [UndefinedBehaviour], -1)
   | Some si \<Rightarrow>
       if dim_width (si_dim si) = 0 \<or> dim_height (si_dim si) = 0 then (w, -1)
       else call e (SFmt (st_fd s) \<lparr>fr_width = dim_width (si_dim si), fr_height = dim_height (si_dim si),
              fr_fmt = si_fmt si, fr_plane_sizes = map mp_len (used_planes (frame_offset s))\<rparr>) w)"

definition mm_stream_config ::
    "env \<Rightarrow> venus option \<Rightarrow> bool \<Rightarrow> mm_camera_stream_config \<Rightarrow> mm_stream \<Rightarrow> world \<Rightarrow> mm_stream \<times> world \<times> i32" where
  "mm_stream_config e v afam cfg s w =
     (let s = s\<lparr>stream_info := Some (cfg_stream_info cfg), buf_num := 0, st_mem_vtbl := cfg_mem_vtbl cfg,
               padding_info := cfg_padding cfg,
               buf_cb := (buf_cb s)[0 := \<lparr>cb_fn = cfg_stream_cb cfg, cb_count = -1\<rparr>]\<rparr> in
      case mm_stream_sync_info e v afam s w of (s, w, rc) \<Rightarrow>
        if rc = 0 then (case mm_stream_set_fmt e s w of (w, rc) \<Rightarrow> (s, w, rc)) else (s, w, rc))"

definition mm_stream_release :: "env \<Rightarrow> mm_stream \<Rightarrow> world \<Rightarrow> mm_stream \<times> world \<times> i32" where
  "mm_stream_release e s w =
     (mm_stream_zero, if 0 <s st_fd s then w @ [Close (st_fd s)] else w, 0)"

section \<open>Buffers\<close>

definition mm_stream_deinit_bufs :: "env \<Rightarrow> mm_stream \<Rightarrow> world \<Rightarrow> mm_stream \<times> world \<times> i32" where
  "mm_stream_deinit_bufs e s w =
     (if st_buf s = None then (s, w, 0)
      else (case call e PutBufs w of (w, rc) \<Rightarrow> (s\<lparr>st_buf := None, buf_status := None\<rparr>, w, rc)))"

definition mm_stream_init_bufs :: "env \<Rightarrow> mm_stream \<Rightarrow> world \<Rightarrow> mm_stream \<times> world \<times> i32" where
  "mm_stream_init_bufs e s w =
     (let (s, w) = (if st_buf s \<noteq> None then (case mm_stream_deinit_bufs e s w of (s, w, _) \<Rightarrow> (s, w)) else (s, w));
          r = e_bufs e w in
      case call e (GetBufs (buf_num s)) w of (w, rc) \<Rightarrow>
        if rc \<noteq> 0 then (s, w, rc)
        else
          (let s = s\<lparr>buf_num := of_nat (length (br_bufs r)), st_buf := Some (br_bufs r)\<rparr> in
           case malloc_ok e w of (w, ok) \<Rightarrow>
             if \<not> ok then (case mm_stream_deinit_bufs e s w of (s, w, _) \<Rightarrow> (s, w, -1))
             else (case stream_info s of
                     None \<Rightarrow> (s, w @ [UndefinedBehaviour], -1)
                   | Some si \<Rightarrow>
                       (s\<lparr>st_buf := Some (map (\<lambda>b. b\<lparr>bd_stream_id := my_hdl s, bd_stream_type := stream_type si\<rparr>) (br_bufs r)),
                          buf_status := Some (map (\<lambda>f. \<lparr>buf_refcnt = 0, initial_reg_flag = f, in_kernel = False\<rparr>) (br_reg_flags r))\<rparr>,
                        w, 0))))"

text \<open>The loop of \<^verbatim>\<open>mm_stream_reg_buf\<close> over the buffers from index \<^verbatim>\<open>i\<close> on, \<^verbatim>\<open>k\<close> of them left.\<close>

fun reg_buf_loop :: "env \<Rightarrow> nat \<Rightarrow> nat \<Rightarrow> mm_stream \<Rightarrow> world \<Rightarrow> mm_stream \<times> world \<times> i32" where
  "reg_buf_loop e i 0 s w = (s, w, 0)"
| "reg_buf_loop e i (Suc k) s w = (case (status_of s i, st_buf s) of
     (Some b, Some bufs) \<Rightarrow>
       if initial_reg_flag b then
         (case mm_stream_qbuf e (bufs ! i) s w of (w, rc) \<Rightarrow>
            if rc \<noteq> 0 then (s, w, rc)
            else reg_buf_loop e (Suc i) k (set_status i (b\<lparr>buf_refcnt := 0, in_kernel := True\<rparr>) s) w)
       else reg_buf_loop e (Suc i) k (set_status i (b\<lparr>buf_refcnt := 1, in_kernel := False\<rparr>) s) w
   | _ \<Rightarrow> (s, w @ [UndefinedBehaviour], -1))"

definition mm_stream_reg_buf :: "env \<Rightarrow> mm_stream \<Rightarrow> world \<Rightarrow> mm_stream \<times> world \<times> i32" where
  "mm_stream_reg_buf e s w =
     (case mm_stream_request_buf e s w of (w, rc) \<Rightarrow>
        if rc \<noteq> 0 then (s, w, rc) else reg_buf_loop e 0 (unat (buf_num s)) s w)"

definition mm_stream_unreg_buf :: "env \<Rightarrow> mm_stream \<Rightarrow> world \<Rightarrow> mm_stream \<times> world \<times> i32" where
  "mm_stream_unreg_buf e s w =
     (case call e (Reqbufs (st_fd s) 0) w of (w, rc) \<Rightarrow>
        (s\<lparr>buf_status := map_option (map (\<lambda>b. b\<lparr>buf_refcnt := 0, in_kernel := False\<rparr>)) (buf_status s)\<rparr>, w, rc))"

definition mm_stream_buf_done :: "env \<Rightarrow> mm_camera_buf_def \<Rightarrow> mm_stream \<Rightarrow> world \<Rightarrow> mm_stream \<times> world \<times> i32" where
  "mm_stream_buf_done e frame s w =
     (let i = unat (bd_buf_idx frame) in
      case status_of s i of
        None \<Rightarrow> (s, w @ [UndefinedBehaviour], -1)
      | Some b \<Rightarrow>
          if buf_refcnt b = 0 then (s, w, -1)
          else
            (let b = b\<lparr>buf_refcnt := buf_refcnt b - 1\<rparr>; s = set_status i b s in
             if buf_refcnt b = 0 then
               (case mm_stream_qbuf e frame s w of (w, rc) \<Rightarrow>
                  if rc <s 0 then (s, w, rc) else (set_status i (b\<lparr>in_kernel := True\<rparr>) s, w, rc))
             else (s, w, 0)))"

section \<open>Streaming\<close>

definition mm_stream_streamon :: "env \<Rightarrow> mm_stream \<Rightarrow> stream_ctx \<Rightarrow> world \<Rightarrow> stream_ctx \<times> world \<times> i32" where
  "mm_stream_streamon e s c w =
     (case mm_camera_poll_thread_add_poll_fd e (my_hdl s) (st_fd s) (Some (my_hdl s)) (cx_poll c) w of (p, w, rc) \<Rightarrow>
        (let c = c\<lparr>cx_poll := p\<rparr> in
         if rc <s 0 then (c, w, rc)
         else (case call e (StreamOn (st_fd s)) w of (w, rc) \<Rightarrow>
           if rc <s 0 then
             (case mm_camera_poll_thread_del_poll_fd e (my_hdl s) (cx_poll c) w of (p, w, _) \<Rightarrow>
                (c\<lparr>cx_poll := p\<rparr>, w, rc))
           else (c, w, rc))))"

definition mm_stream_streamoff :: "env \<Rightarrow> mm_stream \<Rightarrow> stream_ctx \<Rightarrow> world \<Rightarrow> stream_ctx \<times> world \<times> i32" where
  "mm_stream_streamoff e s c w =
     (case mm_camera_poll_thread_del_poll_fd e (my_hdl s) (cx_poll c) w of (p, w, _) \<Rightarrow>
        (case call e (StreamOff (st_fd s)) w of (w, rc) \<Rightarrow> (c\<lparr>cx_poll := p\<rparr>, w, rc)))"

text \<open>Take a filled frame from the driver; the descriptor of the buffer is updated in place.\<close>

definition mm_stream_read_msm_frame ::
    "env \<Rightarrow> u8 \<Rightarrow> mm_stream \<Rightarrow> world \<Rightarrow> mm_stream \<times> world \<times> mm_camera_buf_info \<times> i32" where
  "mm_stream_read_msm_frame e num_planes s w =
     (let r = e_dq e w in
      case call e (Dqbuf (st_fd s) num_planes) w of (w, rc) \<Rightarrow>
        if rc <s 0 then (s, w, buf_info_zero, rc)
        else
          (let idx = unat (dq_index r) in
           case st_buf s of
             None \<Rightarrow> (s, w @ [UndefinedBehaviour], buf_info_zero, -1)
           | Some bufs \<Rightarrow>
               if idx \<ge> length bufs \<or> idx \<ge> 128 then (s, w @ [UndefinedBehaviour], buf_info_zero, -1)
               else
                 (let b = (bufs ! idx)\<lparr>bd_stream_id := my_hdl s, bd_buf_idx := dq_index r, bd_frame_idx := dq_sequence r,
                            bd_ts := (fst (dq_ts r), snd (dq_ts r) * 1000),
                            bd_is_uv_subsampled := (if dq_uv r then 1 else 0)\<rparr>;
                      s = s\<lparr>st_buf := Some (bufs[idx := b])\<rparr>;
                      info = \<lparr>bi_stream_id = my_hdl s, bi_frame_idx = dq_sequence r, bi_buf = Some b\<rparr>
                  in if has_clean_invalidate (st_mem_vtbl s) then
                       (case call e (CleanInvalidateBuf (dq_index r)) w of (w, rc) \<Rightarrow> (s, w, info, rc))
                     else (s, w, info, rc))))"

definition has_stream_cb :: "mm_stream \<Rightarrow> bool" where
  "has_stream_cb s \<longleftrightarrow> list_ex (\<lambda>cb. cb_fn cb \<noteq> None) (buf_cb s)"

definition mm_stream_handle_rcvd_buf ::
    "env \<Rightarrow> mm_camera_buf_info \<Rightarrow> bool \<Rightarrow> mm_stream \<Rightarrow> stream_ctx \<Rightarrow> world \<Rightarrow> mm_stream \<times> stream_ctx \<times> world" where
  "mm_stream_handle_rcvd_buf e info has_cb s c w =
     (let (c, w) = (if is_bundled s then
                      (case cmd_thread_send e (CMD_DATA_CB info) (cx_cmd_thread c) w of (t, w, _) \<Rightarrow>
                         (c\<lparr>cx_cmd_thread := t\<rparr>, w))
                    else (c, w))
      in if has_cb then
           (case cmd_thread_send e (CMD_DATA_CB info) (st_cmd_thread s) w of (t, w, _) \<Rightarrow>
              (s\<lparr>st_cmd_thread := t\<rparr>, c, w))
         else (s, c, w))"

definition mm_stream_data_notify :: "env \<Rightarrow> mm_stream \<Rightarrow> stream_ctx \<Rightarrow> world \<Rightarrow> mm_stream \<times> stream_ctx \<times> world" where
  "mm_stream_data_notify e s c w =
     (if st_state s \<noteq> MM_STREAM_STATE_ACTIVE then (s, c, w)
      else
        (case mm_stream_read_msm_frame e (of_nat (fl_num_planes (frame_offset s))) s w of (s, w, info, rc) \<Rightarrow>
           if rc \<noteq> 0 then (s, c, w)
           else
             (let has_cb = has_stream_cb s;
                  idx = (case bi_buf info of Some b \<Rightarrow> unat (bd_buf_idx b) | None \<Rightarrow> 0)
              in case status_of s idx of
                   None \<Rightarrow> (s, c, w @ [UndefinedBehaviour])
                 | Some b \<Rightarrow>
                     (let n = buf_refcnt b + (if is_bundled s then 1 else 0) + (if has_cb then 1 else 0);
                          s = set_status idx (b\<lparr>in_kernel := False, buf_refcnt := n\<rparr>) s
                      in mm_stream_handle_rcvd_buf e info has_cb s c w))))"

text \<open>One slot of the callback table in \<^verbatim>\<open>mm_stream_dispatch_app_data\<close>.\<close>

definition dispatch_slot ::
    "mm_camera_super_buf \<Rightarrow> nat \<Rightarrow> nat \<Rightarrow> mm_stream \<times> world \<Rightarrow> mm_stream \<times> world" where
  "dispatch_slot sb idx i sw =
     (let (s, w) = sw; cb = buf_cb s ! i in
      case cb_fn cb of
        None \<Rightarrow> (s, w)
      | Some f \<Rightarrow>
          (let (s, w) = (if cb_count cb \<noteq> 0 then
                           (case status_of s idx of
                              None \<Rightarrow> (s, w @ [UndefinedBehaviour])
                            | Some b \<Rightarrow> (set_status idx (b\<lparr>buf_refcnt := buf_refcnt b + 1\<rparr>) s, w @ [FrameCallback f sb]))
                         else (s, w));
               s = (if 0 <s cb_count cb then
                      (let cb = cb\<lparr>cb_count := cb_count cb - 1\<rparr>;
                           cb = (if cb_count cb = 0 then no_cb else cb)
                       in s\<lparr>buf_cb := (buf_cb s)[i := cb]\<rparr>)
                    else s)
           in (s, w)))"

definition mm_stream_dispatch_app_data ::
    "env \<Rightarrow> mm_camera_cmdcb \<Rightarrow> mm_stream \<Rightarrow> stream_ctx \<Rightarrow> world \<Rightarrow> mm_stream \<times> stream_ctx \<times> world" where
  "mm_stream_dispatch_app_data e cmd s c w = (case cmd of
     CMD_DATA_CB info \<Rightarrow>
       (case bi_buf info of
          None \<Rightarrow> (s, c, w @ [UndefinedBehaviour])
        | Some b \<Rightarrow>
            (let sb = \<lparr>sbf_camera_handle = cx_cam_hdl c, sbf_ch_id = cx_ch_hdl c, sbf_bufs = [Some b]\<rparr>;
                 (s, w) = fold (dispatch_slot sb (unat (bd_buf_idx b))) [0 ..< MM_CAMERA_STREAM_BUF_CB_MAX] (s, w)
             in case mm_stream_buf_done e b s w of (s, w, _) \<Rightarrow> (s, c, w)))
   | _ \<Rightarrow> (s, c, w))"

text \<open>The stream's command thread runs \<^verbatim>\<open>mm_stream_dispatch_app_data\<close>.\<close>

definition stream_cmd_cb :: "env \<Rightarrow> mm_camera_cmdcb \<Rightarrow> (mm_stream \<times> stream_ctx) \<times> world \<Rightarrow> (mm_stream \<times> stream_ctx) \<times> world" where
  "stream_cmd_cb e cmd scw = (case scw of ((s, c), w) \<Rightarrow>
     (case mm_stream_dispatch_app_data e cmd s c w of (s, c, w) \<Rightarrow> ((s, c), w)))"

definition release_stream_thread :: "env \<Rightarrow> mm_stream \<Rightarrow> stream_ctx \<Rightarrow> world \<Rightarrow> mm_stream \<times> stream_ctx \<times> world" where
  "release_stream_thread e s c w =
     (case mm_camera_cmd_thread_release (stream_cmd_cb e) e (st_cmd_thread s) ((s, c), w) of (t, ((s, c), w), _) \<Rightarrow>
        (s\<lparr>st_cmd_thread := t\<rparr>, c, w))"

definition mm_stream_reg_buf_cb :: "mm_stream_data_cb \<Rightarrow> mm_stream \<Rightarrow> mm_stream \<times> i32" where
  "mm_stream_reg_buf_cb val s =
     (case List.find (\<lambda>i. cb_fn (buf_cb s ! i) = None) [0 ..< MM_CAMERA_STREAM_BUF_CB_MAX] of
        Some i \<Rightarrow> (s\<lparr>buf_cb := (buf_cb s)[i := val]\<rparr>, 0)
      | None \<Rightarrow> (s, -1))"

section \<open>The state machine\<close>

datatype mm_stream_evt =
    MM_STREAM_EVT_ACQUIRE
  | MM_STREAM_EVT_RELEASE
  | MM_STREAM_EVT_SET_FMT mm_camera_stream_config
  | MM_STREAM_EVT_GET_BUF
  | MM_STREAM_EVT_PUT_BUF
  | MM_STREAM_EVT_REG_BUF
  | MM_STREAM_EVT_UNREG_BUF
  | MM_STREAM_EVT_START
  | MM_STREAM_EVT_STOP
  | MM_STREAM_EVT_QBUF mm_camera_buf_def
  | MM_STREAM_EVT_SET_PARM bool
  | MM_STREAM_EVT_GET_PARM bool
  | MM_STREAM_EVT_DO_ACTION bool

text \<open>The build and the chip: the Venus macros and the A-family flag.\<close>

record build =
  bld_venus :: "venus option"
  bld_afam :: bool

definition mm_stream_fsm_inited :: "env \<Rightarrow> mm_stream_evt \<Rightarrow> mm_stream \<Rightarrow> stream_ctx \<Rightarrow> world \<Rightarrow> stream_res" where
  "mm_stream_fsm_inited e evt s c w = (case evt of
     MM_STREAM_EVT_ACQUIRE \<Rightarrow>
       if \<not> ch_linked s then (s, c, w, -1)
       else (case call e (Open (cx_cam_hdl c)) w of (w, fd) \<Rightarrow>
         (let s = s\<lparr>st_fd := fd\<rparr> in
          if fd \<le>s 0 then (s, c, w, -1)
          else (case mm_stream_set_ext_mode e s w of (s, w, rc) \<Rightarrow>
            if rc = 0 then (s\<lparr>st_state := MM_STREAM_STATE_ACQUIRED\<rparr>, c, w, rc)
            else (s\<lparr>st_fd := 0\<rparr>, c, w @ [Close (st_fd s)], rc))))
   | _ \<Rightarrow> (s, c, w, 0))"

definition mm_stream_fsm_acquired ::
    "env \<Rightarrow> build \<Rightarrow> mm_stream_evt \<Rightarrow> mm_stream \<Rightarrow> stream_ctx \<Rightarrow> world \<Rightarrow> stream_res" where
  "mm_stream_fsm_acquired e bld evt s c w = (case evt of
     MM_STREAM_EVT_SET_FMT cfg \<Rightarrow>
       (case mm_stream_config e (bld_venus bld) (bld_afam bld) cfg s w of (s, w, rc) \<Rightarrow>
          (s\<lparr>st_state := MM_STREAM_STATE_CFG\<rparr>, c, w, rc))
   | MM_STREAM_EVT_RELEASE \<Rightarrow>
       (case mm_stream_release e s w of (s, w, rc) \<Rightarrow> (s\<lparr>st_state := MM_STREAM_STATE_NOTUSED\<rparr>, c, w, rc))
   | MM_STREAM_EVT_SET_PARM p \<Rightarrow> (case mm_stream_set_parm e p s w of (w, rc) \<Rightarrow> (s, c, w, rc))
   | MM_STREAM_EVT_GET_PARM p \<Rightarrow> (case mm_stream_get_parm e p s w of (w, rc) \<Rightarrow> (s, c, w, rc))
   | _ \<Rightarrow> (s, c, w, 0))"

definition mm_stream_fsm_cfg ::
    "env \<Rightarrow> build \<Rightarrow> mm_stream_evt \<Rightarrow> mm_stream \<Rightarrow> stream_ctx \<Rightarrow> world \<Rightarrow> stream_res" where
  "mm_stream_fsm_cfg e bld evt s c w = (case evt of
     MM_STREAM_EVT_SET_FMT cfg \<Rightarrow>
       (case mm_stream_config e (bld_venus bld) (bld_afam bld) cfg s w of (s, w, rc) \<Rightarrow>
          (s\<lparr>st_state := MM_STREAM_STATE_CFG\<rparr>, c, w, rc))
   | MM_STREAM_EVT_RELEASE \<Rightarrow>
       (case mm_stream_release e s w of (s, w, rc) \<Rightarrow> (s\<lparr>st_state := MM_STREAM_STATE_NOTUSED\<rparr>, c, w, rc))
   | MM_STREAM_EVT_SET_PARM p \<Rightarrow> (case mm_stream_set_parm e p s w of (w, rc) \<Rightarrow> (s, c, w, rc))
   | MM_STREAM_EVT_GET_PARM p \<Rightarrow> (case mm_stream_get_parm e p s w of (w, rc) \<Rightarrow> (s, c, w, rc))
   | MM_STREAM_EVT_GET_BUF \<Rightarrow>
       (case mm_stream_init_bufs e s w of (s, w, rc) \<Rightarrow>
          (if rc = 0 then s\<lparr>st_state := MM_STREAM_STATE_BUFFED\<rparr> else s, c, w, rc))
   | _ \<Rightarrow> (s, c, w, 0))"

definition mm_stream_fsm_buffed :: "env \<Rightarrow> mm_stream_evt \<Rightarrow> mm_stream \<Rightarrow> stream_ctx \<Rightarrow> world \<Rightarrow> stream_res" where
  "mm_stream_fsm_buffed e evt s c w = (case evt of
     MM_STREAM_EVT_PUT_BUF \<Rightarrow>
       (case mm_stream_deinit_bufs e s w of (s, w, rc) \<Rightarrow> (s\<lparr>st_state := MM_STREAM_STATE_CFG\<rparr>, c, w, rc))
   | MM_STREAM_EVT_REG_BUF \<Rightarrow>
       (case mm_stream_reg_buf e s w of (s, w, rc) \<Rightarrow>
          (if rc = 0 then s\<lparr>st_state := MM_STREAM_STATE_REG\<rparr> else s, c, w, rc))
   | MM_STREAM_EVT_SET_PARM p \<Rightarrow> (case mm_stream_set_parm e p s w of (w, rc) \<Rightarrow> (s, c, w, rc))
   | MM_STREAM_EVT_GET_PARM p \<Rightarrow> (case mm_stream_get_parm e p s w of (w, rc) \<Rightarrow> (s, c, w, rc))
   | _ \<Rightarrow> (s, c, w, 0))"

text \<open>Starting: the command thread is launched when a callback is registered and released again when
  the driver refuses.\<close>

definition stream_start :: "env \<Rightarrow> mm_stream \<Rightarrow> stream_ctx \<Rightarrow> world \<Rightarrow> stream_res" where
  "stream_start e s c w =
     (let has_cb = has_stream_cb s;
          s = (if has_cb then s\<lparr>st_cmd_thread := fst (mm_camera_cmd_thread_launch (st_cmd_thread s))\<rparr> else s);
          s = s\<lparr>st_state := MM_STREAM_STATE_ACTIVE\<rparr>
      in case mm_stream_streamon e s c w of (c, w, rc) \<Rightarrow>
           if rc \<noteq> 0 then
             (let (s, c, w) = (if has_cb then release_stream_thread e s c w else (s, c, w))
              in (s\<lparr>st_state := MM_STREAM_STATE_REG\<rparr>, c, w, rc))
           else (s, c, w, rc))"

definition mm_stream_fsm_reg :: "env \<Rightarrow> mm_stream_evt \<Rightarrow> mm_stream \<Rightarrow> stream_ctx \<Rightarrow> world \<Rightarrow> stream_res" where
  "mm_stream_fsm_reg e evt s c w = (case evt of
     MM_STREAM_EVT_UNREG_BUF \<Rightarrow>
       (case mm_stream_unreg_buf e s w of (s, w, rc) \<Rightarrow> (s\<lparr>st_state := MM_STREAM_STATE_BUFFED\<rparr>, c, w, rc))
   | MM_STREAM_EVT_START \<Rightarrow> stream_start e s c w
   | MM_STREAM_EVT_SET_PARM p \<Rightarrow> (case mm_stream_set_parm e p s w of (w, rc) \<Rightarrow> (s, c, w, rc))
   | MM_STREAM_EVT_GET_PARM p \<Rightarrow> (case mm_stream_get_parm e p s w of (w, rc) \<Rightarrow> (s, c, w, rc))
   | _ \<Rightarrow> (s, c, w, 0))"

definition stream_stop :: "env \<Rightarrow> mm_stream \<Rightarrow> stream_ctx \<Rightarrow> world \<Rightarrow> stream_res" where
  "stream_stop e s c w =
     (case mm_stream_streamoff e s c w of (c, w, rc) \<Rightarrow>
        (let (s, c, w) = (if has_stream_cb s then release_stream_thread e s c w else (s, c, w))
         in (s\<lparr>st_state := MM_STREAM_STATE_REG\<rparr>, c, w, rc)))"

definition mm_stream_fsm_active :: "env \<Rightarrow> mm_stream_evt \<Rightarrow> mm_stream \<Rightarrow> stream_ctx \<Rightarrow> world \<Rightarrow> stream_res" where
  "mm_stream_fsm_active e evt s c w = (case evt of
     MM_STREAM_EVT_QBUF b \<Rightarrow> (case mm_stream_buf_done e b s w of (s, w, rc) \<Rightarrow> (s, c, w, rc))
   | MM_STREAM_EVT_STOP \<Rightarrow> stream_stop e s c w
   | MM_STREAM_EVT_SET_PARM p \<Rightarrow> (case mm_stream_set_parm e p s w of (w, rc) \<Rightarrow> (s, c, w, rc))
   | MM_STREAM_EVT_GET_PARM p \<Rightarrow> (case mm_stream_get_parm e p s w of (w, rc) \<Rightarrow> (s, c, w, rc))
   | MM_STREAM_EVT_DO_ACTION p \<Rightarrow> (case mm_stream_do_action e p s w of (w, rc) \<Rightarrow> (s, c, w, rc))
   | _ \<Rightarrow> (s, c, w, 0))"

definition mm_stream_fsm_fn ::
    "env \<Rightarrow> build \<Rightarrow> mm_stream_evt \<Rightarrow> mm_stream \<Rightarrow> stream_ctx \<Rightarrow> world \<Rightarrow> stream_res" where
  "mm_stream_fsm_fn e bld evt s c w = (case st_state s of
     MM_STREAM_STATE_NOTUSED \<Rightarrow> (s, c, w, -1)
   | MM_STREAM_STATE_INITED \<Rightarrow> mm_stream_fsm_inited e evt s c w
   | MM_STREAM_STATE_ACQUIRED \<Rightarrow> mm_stream_fsm_acquired e bld evt s c w
   | MM_STREAM_STATE_CFG \<Rightarrow> mm_stream_fsm_cfg e bld evt s c w
   | MM_STREAM_STATE_BUFFED \<Rightarrow> mm_stream_fsm_buffed e evt s c w
   | MM_STREAM_STATE_REG \<Rightarrow> mm_stream_fsm_reg e evt s c w
   | MM_STREAM_STATE_ACTIVE \<Rightarrow> mm_stream_fsm_active e evt s c w)"

lemmas stream_fsm_defs = mm_stream_fsm_fn_def mm_stream_fsm_inited_def mm_stream_fsm_acquired_def mm_stream_fsm_cfg_def
  mm_stream_fsm_buffed_def mm_stream_fsm_reg_def mm_stream_fsm_active_def

section \<open>The status array\<close>

lemma status_of_set:
  "status_of s i = Some b0 \<Longrightarrow> status_of (set_status i b s) j = (if j = i then Some b else status_of s j)"
  by (auto simp: status_of_def set_status_def split: option.splits if_splits)

lemma status_of_cong: "buf_status s' = buf_status s \<Longrightarrow> status_of s' i = status_of s i"
  by (simp add: status_of_def)

lemma set_status_simps [simp]:
  "my_hdl (set_status i b s) = my_hdl s" "st_state (set_status i b s) = st_state s"
  "st_fd (set_status i b s) = st_fd s" "buf_cb (set_status i b s) = buf_cb s" "st_buf (set_status i b s) = st_buf s"
  "st_cmd_thread (set_status i b s) = st_cmd_thread s" "is_bundled (set_status i b s) = is_bundled s"
  "st_mem_vtbl (set_status i b s) = st_mem_vtbl s" "buf_num (set_status i b s) = buf_num s"
  "stream_info (set_status i b s) = stream_info s" "frame_offset (set_status i b s) = frame_offset s"
  by (simp_all add: set_status_def)

section \<open>Returning a reference\<close>

text \<open>The calls that hand buffer \<^verbatim>\<open>b\<close> to the driver.\<close>

definition qbuf_calls :: "mm_stream \<Rightarrow> mm_camera_buf_def \<Rightarrow> world" where
  "qbuf_calls s b = (if has_invalidate (st_mem_vtbl s) then [InvalidateBuf (bd_buf_idx b)] else [])
     @ [Qbuf (st_fd s) (bd_buf_idx b) (bd_num_planes b) (bd_planes b)]"

lemma qbuf_trace:
  "mm_stream_qbuf e b s w = (w', rc) \<Longrightarrow>
     (w' = w @ qbuf_calls s b) \<or> (rc <s 0 \<and> w' = w @ [InvalidateBuf (bd_buf_idx b)])"
  by (auto simp: mm_stream_qbuf_def qbuf_calls_def call_def Let_def split: if_splits)

lemma qbuf_cong: "st_fd s' = st_fd s \<Longrightarrow> st_mem_vtbl s' = st_mem_vtbl s \<Longrightarrow> mm_stream_qbuf e b s' w = mm_stream_qbuf e b s w"
  by (simp add: mm_stream_qbuf_def)

text \<open>The three outcomes of \<^verbatim>\<open>buf_done\<close>.\<close>

lemma buf_done_none: "status_of s (unat (bd_buf_idx b)) = Some st \<Longrightarrow> buf_refcnt st = 0 \<Longrightarrow> mm_stream_buf_done e b s w = (s, w, -1)"
  by (simp add: mm_stream_buf_done_def)

lemma buf_done_more:
  "status_of s (unat (bd_buf_idx b)) = Some st \<Longrightarrow> unat (buf_refcnt st) > 1 \<Longrightarrow>
   mm_stream_buf_done e b s w = (set_status (unat (bd_buf_idx b)) (st\<lparr>buf_refcnt := buf_refcnt st - 1\<rparr>) s, w, 0)"
proof -
  assume a: "status_of s (unat (bd_buf_idx b)) = Some st" "unat (buf_refcnt st) > 1"
  then have "buf_refcnt st \<noteq> 0" "buf_refcnt st - 1 \<noteq> 0" by auto
  then show ?thesis using a(1) by (simp add: mm_stream_buf_done_def)
qed

lemma buf_done_last:
  "status_of s (unat (bd_buf_idx b)) = Some st \<Longrightarrow> buf_refcnt st = 1 \<Longrightarrow>
   mm_stream_qbuf e b s w = (w', rc) \<Longrightarrow>
   mm_stream_buf_done e b s w =
     (let s1 = set_status (unat (bd_buf_idx b)) (st\<lparr>buf_refcnt := 0\<rparr>) s
      in (if rc <s 0 then s1 else set_status (unat (bd_buf_idx b)) (st\<lparr>buf_refcnt := 0, in_kernel := True\<rparr>) s1, w', rc))"
  using qbuf_cong [of "set_status (unat (bd_buf_idx b)) (st\<lparr>buf_refcnt := 0\<rparr>) s" s e b w]
  by (simp add: mm_stream_buf_done_def Let_def)

lemma refcnt_cases:
  fixes n :: u8
  obtains "n = 0" | "n = 1" | "unat n > 1"
  by (metis less_one linorder_neqE_nat unat_1 unsigned_eq_0_iff unsigned_word_eqI)

lemma buf_done_frame:
  assumes "mm_stream_buf_done e b s w = (s', w', rc)"
  shows "st_state s' = st_state s" "buf_cb s' = buf_cb s" "st_cmd_thread s' = st_cmd_thread s" "st_fd s' = st_fd s"
    "is_bundled s' = is_bundled s" "st_buf s' = st_buf s" "my_hdl s' = my_hdl s" "st_mem_vtbl s' = st_mem_vtbl s"
    "frame_offset s' = frame_offset s" "stream_info s' = stream_info s"
  using assms by (auto simp: mm_stream_buf_done_def Let_def split: option.splits if_splits prod.splits)

section \<open>The state machine follows its diagram\<close>

definition stream_next :: "mm_stream_state \<Rightarrow> mm_stream_evt \<Rightarrow> bool \<Rightarrow> mm_stream_state" where
  "stream_next st evt ok = (case (st, evt) of
     (MM_STREAM_STATE_INITED, MM_STREAM_EVT_ACQUIRE) \<Rightarrow> if ok then MM_STREAM_STATE_ACQUIRED else st
   | (MM_STREAM_STATE_ACQUIRED, MM_STREAM_EVT_SET_FMT _) \<Rightarrow> MM_STREAM_STATE_CFG
   | (MM_STREAM_STATE_ACQUIRED, MM_STREAM_EVT_RELEASE) \<Rightarrow> MM_STREAM_STATE_NOTUSED
   | (MM_STREAM_STATE_CFG, MM_STREAM_EVT_SET_FMT _) \<Rightarrow> MM_STREAM_STATE_CFG
   | (MM_STREAM_STATE_CFG, MM_STREAM_EVT_RELEASE) \<Rightarrow> MM_STREAM_STATE_NOTUSED
   | (MM_STREAM_STATE_CFG, MM_STREAM_EVT_GET_BUF) \<Rightarrow> if ok then MM_STREAM_STATE_BUFFED else st
   | (MM_STREAM_STATE_BUFFED, MM_STREAM_EVT_PUT_BUF) \<Rightarrow> MM_STREAM_STATE_CFG
   | (MM_STREAM_STATE_BUFFED, MM_STREAM_EVT_REG_BUF) \<Rightarrow> if ok then MM_STREAM_STATE_REG else st
   | (MM_STREAM_STATE_REG, MM_STREAM_EVT_UNREG_BUF) \<Rightarrow> MM_STREAM_STATE_BUFFED
   | (MM_STREAM_STATE_REG, MM_STREAM_EVT_START) \<Rightarrow> if ok then MM_STREAM_STATE_ACTIVE else st
   | (MM_STREAM_STATE_ACTIVE, MM_STREAM_EVT_STOP) \<Rightarrow> MM_STREAM_STATE_REG
   | _ \<Rightarrow> st)"

lemma set_ext_mode_state: "mm_stream_set_ext_mode e s w = (s', w', rc) \<Longrightarrow> st_state s' = st_state s"
  by (auto simp: mm_stream_set_ext_mode_def call_def split: if_splits)

lemma deinit_state: "mm_stream_deinit_bufs e s w = (s', w', rc) \<Longrightarrow> st_state s' = st_state s"
  by (auto simp: mm_stream_deinit_bufs_def call_def split: if_splits)

lemma init_state: "mm_stream_init_bufs e s w = (s', w', rc) \<Longrightarrow> st_state s' = st_state s"
  by (auto simp: mm_stream_init_bufs_def call_def malloc_ok_def Let_def dest!: deinit_state
      split: if_splits prod.splits option.splits)

lemma reg_loop_state: "reg_buf_loop e i k s w = (s', w', rc) \<Longrightarrow> st_state s' = st_state s"
  by (induction e i k s w rule: reg_buf_loop.induct) (auto split: option.splits if_splits prod.splits)

lemma reg_state: "mm_stream_reg_buf e s w = (s', w', rc) \<Longrightarrow> st_state s' = st_state s"
  by (auto simp: mm_stream_reg_buf_def dest: reg_loop_state split: prod.splits if_splits)

lemma start_state: "stream_start e s c w = (s', c', w', rc) \<Longrightarrow>
    st_state s' = (if rc = 0 then MM_STREAM_STATE_ACTIVE else MM_STREAM_STATE_REG)"
  by (auto simp: stream_start_def Let_def split: prod.splits if_splits)

lemma stop_state: "stream_stop e s c w = (s', c', w', rc) \<Longrightarrow> st_state s' = MM_STREAM_STATE_REG"
  by (auto simp: stream_stop_def Let_def split: prod.splits if_splits)

lemmas fsm_state_facts = set_ext_mode_state deinit_state init_state reg_state start_state stop_state buf_done_frame(1)

text \<open>C19: the stream state machine moves exactly along its diagram: an event changes the state only
  from the states that list it, acquire, get-buffer, register and start only when they succeed (a
  failed start falls back to registered), set-format, put-buffer, unregister, stop and release
  whatever their result; every other event leaves the state alone, in particular no event revives
  an unused stream and buffers are queued to the driver only when registered or active.\<close>

theorem stream_fsm_follows_diagram:
  assumes "mm_stream_fsm_fn e bld evt s c w = (s', c', w', rc)"
  shows "st_state s' = stream_next (st_state s) evt (rc = 0)"
proof (cases "st_state s")
  case MM_STREAM_STATE_NOTUSED
  then show ?thesis using assms by (simp add: mm_stream_fsm_fn_def stream_next_def)
next
  case MM_STREAM_STATE_INITED
  then show ?thesis
    using assms by (cases evt)
      (auto simp: mm_stream_fsm_fn_def mm_stream_fsm_inited_def stream_next_def Let_def
        dest!: fsm_state_facts split: prod.splits if_splits)
next
  case MM_STREAM_STATE_ACQUIRED
  then show ?thesis
    using assms by (cases evt)
      (auto simp: mm_stream_fsm_fn_def mm_stream_fsm_acquired_def stream_next_def split: prod.splits)
next
  case MM_STREAM_STATE_CFG
  then show ?thesis
    using assms by (cases evt)
      (auto simp: mm_stream_fsm_fn_def mm_stream_fsm_cfg_def stream_next_def
        dest!: fsm_state_facts split: prod.splits if_splits)
next
  case MM_STREAM_STATE_BUFFED
  then show ?thesis
    using assms by (cases evt)
      (auto simp: mm_stream_fsm_fn_def mm_stream_fsm_buffed_def stream_next_def
        dest!: fsm_state_facts split: prod.splits if_splits)
next
  case MM_STREAM_STATE_REG
  then show ?thesis
    using assms by (cases evt)
      (auto simp: mm_stream_fsm_fn_def mm_stream_fsm_reg_def stream_next_def
        dest!: fsm_state_facts split: prod.splits if_splits)
next
  case MM_STREAM_STATE_ACTIVE
  then show ?thesis
    using assms by (cases evt)
      (auto simp: mm_stream_fsm_fn_def mm_stream_fsm_active_def stream_next_def
        dest!: fsm_state_facts split: prod.splits if_splits)
qed

text \<open>A stream on channel 0x201 of camera 0x100, freshly initialised, and its context.\<close>

definition ex_stream :: mm_stream where
  "ex_stream = mm_stream_zero\<lparr>my_hdl := 0x301, st_state := MM_STREAM_STATE_INITED, ch_linked := True\<rparr>"

definition ex_ctx :: stream_ctx where
  "ex_ctx = \<lparr>cx_poll = poll_thread_zero\<lparr>poll_type := MM_CAMERA_POLL_TYPE_DATA, pfds := (8, 9),
       poll_state := MM_CAMERA_POLL_TASK_STATE_POLL, num_fds := 1\<rparr>,
     cx_cmd_thread = \<lparr>th_queue = Some [], th_sem = 0\<rparr>, cx_cam_hdl = 0x100, cx_ch_hdl = 0x201\<rparr>"

definition ex_build :: build where "ex_build = \<lparr>bld_venus = None, bld_afam = False\<rparr>"

theorem stream_fsm_follows_diagram_witness:
  "\<exists>s' c' w'. mm_stream_fsm_fn ex_env ex_build MM_STREAM_EVT_ACQUIRE ex_stream ex_ctx [] = (s', c', w', 0)
     \<and> st_state s' = MM_STREAM_STATE_ACQUIRED"
proof -
  obtain s' c' w' rc where r: "mm_stream_fsm_fn ex_env ex_build MM_STREAM_EVT_ACQUIRE ex_stream ex_ctx [] = (s', c', w', rc)"
    by (metis prod_cases4)
  moreover have "rc = 0"
    using r by (simp add: mm_stream_fsm_fn_def mm_stream_fsm_inited_def ex_stream_def ex_env_def ex_ctx_def call_def
        mm_stream_set_ext_mode_def word_sle_eq)
  ultimately show ?thesis
    using stream_fsm_follows_diagram [OF r] by (simp add: ex_stream_def stream_next_def)
qed

end
