(* ===== verification/Superbuf.thy ===== *)
theory Superbuf
  imports CamTypes "HOL-Library.Multiset"
begin

text \<open>
  The super-buffer queue of a channel,
  \<^verbatim>\<open>camera/QCamera2/stack/mm-camera-interface/src/mm_camera_channel.c\<close> lines 1422 to 1947:
  frames of the bundled streams are collected by frame index into nodes; a node with a frame
  of every stream is matched; matched nodes are dispatched in order, unmatched ones that fall
  behind are released.

  The linked list of nodes is the list it represents (theory \<^verbatim>\<open>CamList\<close> justifies
  \<^verbatim>\<open>insert_before\<close>, \<^verbatim>\<open>add_tail\<close> and \<^verbatim>\<open>del_node\<close>); a list pointer is an index.  What the queue
  does to the rest of the channel (return a buffer to its stream, look a stream up, allocate,
  set the LED flag) goes through the record \<^verbatim>\<open>chan_ops\<close>, whose state \<^verbatim>\<open>'s\<close> is the channel.
  A loop whose exit the code does not make evident is a partial function into \<^verbatim>\<open>option\<close>,
  \<^verbatim>\<open>None\<close> meaning that it never returns.
\<close>

datatype stream_view = NoStream | NoStreamInfo | StreamOf cam_stream_type

record 's chan_ops =
  op_qbuf :: "mm_camera_buf_def option \<Rightarrow> 's \<Rightarrow> 's"
  op_stream :: "u32 \<Rightarrow> 's \<Rightarrow> stream_view"
  op_metadata :: "mm_camera_buf_def option \<Rightarrow> 's \<Rightarrow> cam_metadata_info option"
  op_alloc :: "'s \<Rightarrow> bool \<times> 's"
  op_set_led :: "bool \<Rightarrow> 's \<Rightarrow> 's"

record mm_channel_queue_node =
  num_of_bufs :: nat
  super_buf :: "mm_camera_buf_info list"
  matched :: bool
  nd_frame_idx :: u32

record mm_channel_queue =
  que :: "mm_channel_queue_node list"
  que_size :: u32
  num_streams :: u8
  bundled_streams :: "u32 list"
  attr :: mm_camera_channel_attr
  expected_frame_id :: u32
  match_cnt :: u32

section \<open>Initialisation and comparison\<close>

definition mm_channel_superbuf_queue_init :: "mm_channel_queue \<Rightarrow> mm_channel_queue" where
  "mm_channel_superbuf_queue_init q = q\<lparr>que := [], que_size := 0\<rparr>"

definition mm_channel_superbuf_queue_deinit :: "mm_channel_queue \<Rightarrow> mm_channel_queue" where
  "mm_channel_superbuf_queue_deinit q = q\<lparr>que := [], que_size := 0\<rparr>"

definition mm_channel_util_seq_comp_w_rollover :: "u32 \<Rightarrow> u32 \<Rightarrow> int" where
  "mm_channel_util_seq_comp_w_rollover v1 v2 = (if v1 > v2 then 1 else if v1 < v2 then -1 else 0)"

section \<open>Dequeue\<close>

definition mm_channel_superbuf_dequeue_internal ::
    "mm_channel_queue \<Rightarrow> bool \<Rightarrow> mm_channel_queue \<times> mm_channel_queue_node option" where
  "mm_channel_superbuf_dequeue_internal q matched_only = (case que q of
     [] \<Rightarrow> (q, None)
   | sb # rest \<Rightarrow>
       if matched_only \<and> \<not> matched sb then (q, None)
       else (q\<lparr>que := rest, que_size := que_size q - 1,
               match_cnt := (if matched sb then match_cnt q - 1 else match_cnt q)\<rparr>, Some sb))"

definition mm_channel_superbuf_dequeue :: "mm_channel_queue \<Rightarrow> mm_channel_queue \<times> mm_channel_queue_node option" where
  "mm_channel_superbuf_dequeue q = mm_channel_superbuf_dequeue_internal q True"

section \<open>Returning the buffers of a node\<close>

text \<open>The loop \<^verbatim>\<open>for (i = 0; i < num_of_bufs; i++) if (NULL != super_buf[i].buf) qbuf\<close>.\<close>

definition release_held :: "'s chan_ops \<Rightarrow> mm_channel_queue_node \<Rightarrow> 's \<Rightarrow> 's" where
  "release_held ops n s =
     fold (\<lambda>b s. if bi_buf b \<noteq> None then op_qbuf ops (bi_buf b) s else s) (take (num_of_bufs n) (super_buf n)) s"

text \<open>The loop guarded by \<^verbatim>\<open>super_buf[i].frame_idx != 0\<close>.\<close>

definition release_nonzero :: "'s chan_ops \<Rightarrow> mm_channel_queue_node \<Rightarrow> 's \<Rightarrow> 's" where
  "release_nonzero ops n s =
     fold (\<lambda>b s. if bi_frame_idx b \<noteq> 0 then op_qbuf ops (bi_buf b) s else s) (take (num_of_bufs n) (super_buf n)) s"

section \<open>Overflow, skip and flush\<close>

partial_function (option) bufdone_overflow_loop ::
    "'s chan_ops \<Rightarrow> 's \<Rightarrow> mm_channel_queue \<Rightarrow> ('s \<times> mm_channel_queue) option" where
  "bufdone_overflow_loop ops s q =
     (if match_cnt q > ucast (water_mark (attr q)) then
        (let (q, sb) = mm_channel_superbuf_dequeue_internal q True in
         case sb of
           Some n \<Rightarrow> bufdone_overflow_loop ops (release_held ops n s) q
         | None \<Rightarrow> bufdone_overflow_loop ops s q)
      else Some (s, q))"

definition mm_channel_superbuf_bufdone_overflow ::
    "'s chan_ops \<Rightarrow> 's \<Rightarrow> mm_channel_queue \<Rightarrow> ('s \<times> mm_channel_queue \<times> i32) option" where
  "mm_channel_superbuf_bufdone_overflow ops s q =
     (if notify_mode (attr q) = MM_CAMERA_SUPER_BUF_NOTIFY_CONTINUOUS then Some (s, q, 0)
      else map_option (\<lambda>(s, q). (s, q, 0)) (bufdone_overflow_loop ops s q))"

partial_function (option) superbuf_skip_loop ::
    "'s chan_ops \<Rightarrow> 's \<Rightarrow> mm_channel_queue \<Rightarrow> ('s \<times> mm_channel_queue) option" where
  "superbuf_skip_loop ops s q =
     (if match_cnt q > ucast (look_back (attr q)) then
        (let (q, sb) = mm_channel_superbuf_dequeue_internal q True in
         case sb of
           Some n \<Rightarrow> superbuf_skip_loop ops (release_held ops n s) q
         | None \<Rightarrow> superbuf_skip_loop ops s q)
      else Some (s, q))"

definition mm_channel_superbuf_skip ::
    "'s chan_ops \<Rightarrow> 's \<Rightarrow> mm_channel_queue \<Rightarrow> ('s \<times> mm_channel_queue \<times> i32) option" where
  "mm_channel_superbuf_skip ops s q =
     (if notify_mode (attr q) = MM_CAMERA_SUPER_BUF_NOTIFY_CONTINUOUS then Some (s, q, 0)
      else map_option (\<lambda>(s, q). (s, q, 0)) (superbuf_skip_loop ops s q))"

function mm_channel_superbuf_flush :: "'s chan_ops \<Rightarrow> 's \<Rightarrow> mm_channel_queue \<Rightarrow> 's \<times> mm_channel_queue" where
  "mm_channel_superbuf_flush ops s q =
     (case mm_channel_superbuf_dequeue_internal q False of
        (q', Some n) \<Rightarrow> mm_channel_superbuf_flush ops (release_held ops n s) q'
      | (q', None) \<Rightarrow> (s, q'))"
  by pat_completeness auto
termination
  by (relation "measure (\<lambda>(ops, s, q). length (que q))")
    (auto simp: mm_channel_superbuf_dequeue_internal_def split: list.splits)

declare mm_channel_superbuf_flush.simps [simp del]

section \<open>Metadata frames\<close>

definition mm_channel_handle_metadata ::
    "'s chan_ops \<Rightarrow> 's \<Rightarrow> mm_channel_queue \<Rightarrow> mm_camera_buf_info \<Rightarrow> 's \<times> mm_channel_queue \<times> i32" where
  "mm_channel_handle_metadata ops s q b = (case op_stream ops (bi_stream_id b) s of
     NoStream \<Rightarrow> (s, q, -1)
   | NoStreamInfo \<Rightarrow> (s, q, -1)
   | StreamOf t \<Rightarrow>
       if t = CAM_STREAM_TYPE_METADATA then
         (case op_metadata ops (bi_buf b) s of
            None \<Rightarrow> (s, q, -1)
          | Some md \<Rightarrow>
              if is_prep_snapshot_done_valid md \<and> is_good_frame_idx_range_valid md then (s, q, -1)
              else if is_prep_snapshot_done_valid md then
                (if prep_snapshot_done_state md = NEED_FUTURE_FRAME then
                   (let (s, q) = mm_channel_superbuf_flush ops s (q\<lparr>expected_frame_id := expected_frame_id q + 100\<rparr>)
                    in (op_set_led ops True s, q, 0))
                 else (op_set_led ops False s, q, 0))
              else if is_good_frame_idx_range_valid md then
                (s, q\<lparr>expected_frame_id := good_min_frame_idx md\<rparr>, 0)
              else (s, q, 0))
       else (s, q, 0))"

section \<open>Matching an incoming frame\<close>

text \<open>The slot of the stream in the bundle: the first loop; \<^verbatim>\<open>None\<close> when the stream is not bundled.\<close>

fun bundle_slot :: "u32 \<Rightarrow> u32 list \<Rightarrow> nat \<Rightarrow> nat option" where
  "bundle_slot sid [] k = None"
| "bundle_slot sid (h # hs) k = (if sid = h then Some k else bundle_slot sid hs (Suc k))"

text \<open>The search loop: the index of an unmatched node of the same frame, the number of unmatched
  nodes seen, the first older and the first newer unmatched node.\<close>

record scan_result =
  sc_found :: "nat option"
  sc_unmatched :: u8
  sc_last_buf :: "nat option"
  sc_insert_before :: "nat option"

fun superbuf_scan :: "u32 \<Rightarrow> nat \<Rightarrow> mm_channel_queue_node list \<Rightarrow> scan_result \<Rightarrow> scan_result" where
  "superbuf_scan f pos [] r = r"
| "superbuf_scan f pos (n # ns) r =
     (if matched n then superbuf_scan f (Suc pos) ns r
      else if f = nd_frame_idx n then r\<lparr>sc_found := Some pos\<rparr>
      else superbuf_scan f (Suc pos) ns
        (r\<lparr>sc_unmatched := sc_unmatched r + 1,
           sc_last_buf := (if sc_last_buf r = None \<and> nd_frame_idx n < f then Some pos else sc_last_buf r),
           sc_insert_before := (if sc_insert_before r = None \<and> nd_frame_idx n > f then Some pos
                                else sc_insert_before r)\<rparr>))"

definition scan_start :: scan_result where
  "scan_start = \<lparr>sc_found = None, sc_unmatched = 0, sc_last_buf = None, sc_insert_before = None\<rparr>"

text \<open>Release the nodes from index \<^verbatim>\<open>from\<close> up to, not including, index \<^verbatim>\<open>to\<close>.\<close>

definition release_older ::
    "'s chan_ops \<Rightarrow> nat \<Rightarrow> nat \<Rightarrow> 's \<Rightarrow> mm_channel_queue \<Rightarrow> 's \<times> mm_channel_queue" where
  "release_older ops from to s q =
     (fold (release_nonzero ops) (drop from (take to (que q))) s,
      q\<lparr>que := take from (que q) @ drop to (que q), que_size := que_size q - of_nat (to - from)\<rparr>)"

text \<open>The branch for an unmatched node of the same frame.\<close>

definition enqueue_found ::
    "'s chan_ops \<Rightarrow> 's \<Rightarrow> mm_channel_queue \<Rightarrow> nat \<Rightarrow> scan_result \<Rightarrow> nat \<Rightarrow> mm_camera_buf_info \<Rightarrow> 's \<times> mm_channel_queue" where
  "enqueue_found ops s q slot r pos b =
     (let n = que q ! pos;
          n = n\<lparr>super_buf := (super_buf n)[slot := b]\<rparr>;
          n = n\<lparr>matched := (\<forall>x\<in>set (take (num_of_bufs n) (super_buf n)). bi_frame_idx x \<noteq> 0)\<rparr>;
          q = q\<lparr>que := (que q)[pos := n]\<rparr>
      in if matched n then
           (let q = q\<lparr>expected_frame_id := bi_frame_idx b + ucast (post_frame_skip (attr q)),
                      match_cnt := match_cnt q + 1\<rparr>
            in case sc_last_buf r of
                 Some lb \<Rightarrow> release_older ops lb pos s q
               | None \<Rightarrow> (s, q))
         else (s, q))"

text \<open>The branch that inserts a new node, at an index of the list after the oldest unmatched node
  may have been released.\<close>

definition insert_node ::
    "'s chan_ops \<Rightarrow> 's \<Rightarrow> mm_channel_queue \<Rightarrow> nat \<Rightarrow> nat option \<Rightarrow> mm_camera_buf_info \<Rightarrow> 's \<times> mm_channel_queue" where
  "insert_node ops s q slot before b =
     (case op_alloc ops s of (ok, s) \<Rightarrow>
        if ok then
          (let n = \<lparr>num_of_bufs = unat (num_streams q),
                    super_buf = (replicate MAX_STREAM_NUM_IN_BUNDLE buf_info_zero)[slot := b],
                    matched = (num_streams q = 1), nd_frame_idx = bi_frame_idx b\<rparr>;
               at = (case before of Some p \<Rightarrow> p | None \<Rightarrow> length (que q));
               q = q\<lparr>que := take at (que q) @ n # drop at (que q), que_size := que_size q + 1\<rparr>
           in if num_streams q = 1 then
                (s, q\<lparr>expected_frame_id := bi_frame_idx b + ucast (post_frame_skip (attr q)),
                      match_cnt := match_cnt q + 1\<rparr>)
              else (s, q))
        else (op_qbuf ops (bi_buf b) s, q))"

text \<open>An index of the list after the removal of the node at \<^verbatim>\<open>lb\<close>.\<close>

definition after_del :: "nat \<Rightarrow> nat option \<Rightarrow> nat option" where
  "after_del lb = map_option (\<lambda>p. if lb < p then p - 1 else p)"

definition enqueue_new ::
    "'s chan_ops \<Rightarrow> 's \<Rightarrow> mm_channel_queue \<Rightarrow> nat \<Rightarrow> scan_result \<Rightarrow> mm_camera_buf_info \<Rightarrow> 's \<times> mm_channel_queue" where
  "enqueue_new ops s q slot r b =
     (if max_unmatched_frames (attr q) < sc_unmatched r then
        (case sc_last_buf r of
           None \<Rightarrow> (op_qbuf ops (bi_buf b) s, q)
         | Some lb \<Rightarrow>
             (let (s, q) = release_older ops lb (Suc lb) s q
              in insert_node ops s q slot (after_del lb (sc_insert_before r)) b))
      else insert_node ops s q slot (sc_insert_before r) b)"

definition mm_channel_superbuf_comp_and_enqueue ::
    "'s chan_ops \<Rightarrow> 's \<Rightarrow> mm_channel_queue \<Rightarrow> mm_camera_buf_info \<Rightarrow> 's \<times> mm_channel_queue \<times> i32" where
  "mm_channel_superbuf_comp_and_enqueue ops s q b =
     (case bundle_slot (bi_stream_id b) (take (unat (num_streams q)) (bundled_streams q)) 0 of
        None \<Rightarrow> (s, q, -1)
      | Some slot \<Rightarrow>
          (case mm_channel_handle_metadata ops s q b of (s, q, rc) \<Rightarrow>
             if rc <s 0 then (s, q, -1)
             else if mm_channel_util_seq_comp_w_rollover (bi_frame_idx b) (expected_frame_id q) < 0 then
               (op_qbuf ops (bi_buf b) s, q, 0)
             else
               (let r = superbuf_scan (bi_frame_idx b) 0 (que q) scan_start;
                    (s, q) = (case sc_found r of
                                Some pos \<Rightarrow> enqueue_found ops s q slot r pos b
                              | None \<Rightarrow> enqueue_new ops s q slot r b)
                in (s, q, 0))))"

section \<open>The well-formed queue\<close>

text \<open>Matched nodes come first; the unmatched ones follow in strictly ascending frame order; the
  two counters count; every node has a slot per stream.\<close>

definition node_ok :: "u8 \<Rightarrow> mm_channel_queue_node \<Rightarrow> bool" where
  "node_ok k n \<longleftrightarrow> num_of_bufs n = unat k \<and> length (super_buf n) = MAX_STREAM_NUM_IN_BUNDLE"

definition queue_split :: "mm_channel_queue_node list \<Rightarrow> mm_channel_queue_node list \<Rightarrow> mm_channel_queue_node list \<Rightarrow> bool" where
  "queue_split ns ms us \<longleftrightarrow> ns = ms @ us \<and> list_all matched ms \<and> list_all (\<lambda>n. \<not> matched n) us
     \<and> sorted_wrt (<) (map nd_frame_idx us)"

definition superbuf_inv :: "mm_channel_queue \<Rightarrow> bool" where
  "superbuf_inv q \<longleftrightarrow> 0 < num_streams q \<and> unat (num_streams q) \<le> MAX_STREAM_NUM_IN_BUNDLE
     \<and> list_all (node_ok (num_streams q)) (que q)
     \<and> que_size q = of_nat (length (que q))
     \<and> (\<exists>ms us. queue_split (que q) ms us \<and> match_cnt q = of_nat (length ms) \<and> (num_streams q = 1 \<longrightarrow> us = []))"

lemma superbuf_invE:
  assumes "superbuf_inv q"
  obtains ms us where "que q = ms @ us" "queue_split (que q) ms us" "match_cnt q = of_nat (length ms)"
    "num_streams q = 1 \<Longrightarrow> us = []" "list_all (node_ok (num_streams q)) (que q)" "que_size q = of_nat (length (que q))"
    "0 < num_streams q" "unat (num_streams q) \<le> MAX_STREAM_NUM_IN_BUNDLE"
  using assms unfolding superbuf_inv_def queue_split_def by (metis that queue_split_def)

lemma bundle_slot_Some: "bundle_slot sid hs k = Some j \<Longrightarrow> k \<le> j \<and> j < k + length hs \<and> hs ! (j - k) = sid"
  by (induction sid hs k rule: bundle_slot.induct) (auto split: if_splits simp: nth_Cons')

section \<open>Draining loops\<close>

lemma dequeue_matched_inv:
  assumes "superbuf_inv q" "match_cnt q > w"
  obtains n q' where "mm_channel_superbuf_dequeue_internal q True = (q', Some n)" "matched n"
    "que q = n # que q'" "superbuf_inv q'" "match_cnt q' = match_cnt q - 1" "attr q' = attr q"
    "num_streams q' = num_streams q" "bundled_streams q' = bundled_streams q" "expected_frame_id q' = expected_frame_id q"
proof -
  obtain ms us where q: "que q = ms @ us" "queue_split (que q) ms us" "match_cnt q = of_nat (length ms)"
      "num_streams q = 1 \<Longrightarrow> us = []" "list_all (node_ok (num_streams q)) (que q)" "que_size q = of_nat (length (que q))"
      "0 < num_streams q" "unat (num_streams q) \<le> MAX_STREAM_NUM_IN_BUNDLE"
    using superbuf_invE [OF assms(1)] by metis
  have "ms \<noteq> []" using q(3) assms(2) by (cases ms) auto
  then obtain n ms' where ms: "ms = n # ms'" by (cases ms) auto
  let ?q = "q\<lparr>que := ms' @ us, que_size := que_size q - 1, match_cnt := match_cnt q - 1\<rparr>"
  have m: "matched n" using q(2) ms by (simp add: queue_split_def)
  have d: "mm_channel_superbuf_dequeue_internal q True = (?q, Some n)"
    using q(1) ms m by (simp add: mm_channel_superbuf_dequeue_internal_def)
  have "superbuf_inv ?q"
    unfolding superbuf_inv_def using q ms by (auto simp: queue_split_def)
  then show ?thesis using that [OF d m] q(1) ms by simp
qed

lemma overflow_loop_terminates:
  "superbuf_inv q \<Longrightarrow> \<exists>s' q' k. bufdone_overflow_loop ops s q = Some (s', q') \<and> superbuf_inv q'
     \<and> match_cnt q' \<le> ucast (water_mark (attr q)) \<and> attr q' = attr q \<and> num_streams q' = num_streams q
     \<and> bundled_streams q' = bundled_streams q \<and> que q' = drop k (que q) \<and> list_all matched (take k (que q)) \<and> s' = fold (release_held ops) (take k (que q)) s"
proof (induction "length (que q)" arbitrary: q s rule: less_induct)
  case less
  show ?case
  proof (cases "match_cnt q > ucast (water_mark (attr q))")
    case True
    obtain n q1 where q1: "mm_channel_superbuf_dequeue_internal q True = (q1, Some n)" "matched n"
        "que q = n # que q1" "superbuf_inv q1" "attr q1 = attr q" "num_streams q1 = num_streams q"
        "bundled_streams q1 = bundled_streams q"
      using dequeue_matched_inv [OF less.prems True] by metis
    obtain s' q' k where "bufdone_overflow_loop ops (release_held ops n s) q1 = Some (s', q')"
        "superbuf_inv q'" "match_cnt q' \<le> ucast (water_mark (attr q))" "attr q' = attr q"
        "num_streams q' = num_streams q" "bundled_streams q' = bundled_streams q" "que q' = drop k (que q1)" "list_all matched (take k (que q1))"
        "s' = fold (release_held ops) (take k (que q1)) (release_held ops n s)"
      using less.hyps [of q1 "release_held ops n s"] q1 by auto
    then show ?thesis
      using True q1 by (subst bufdone_overflow_loop.simps) (auto intro!: exI [of _ "Suc k"])
  next
    case False
    then show ?thesis
      using less.prems by (subst bufdone_overflow_loop.simps) (auto intro!: exI [of _ 0] simp: not_less)
  qed
qed

lemma skip_loop_terminates:
  "superbuf_inv q \<Longrightarrow> \<exists>s' q' k. superbuf_skip_loop ops s q = Some (s', q') \<and> superbuf_inv q'
     \<and> match_cnt q' \<le> ucast (look_back (attr q)) \<and> attr q' = attr q \<and> num_streams q' = num_streams q
     \<and> bundled_streams q' = bundled_streams q \<and> que q' = drop k (que q) \<and> list_all matched (take k (que q)) \<and> s' = fold (release_held ops) (take k (que q)) s"
proof (induction "length (que q)" arbitrary: q s rule: less_induct)
  case less
  show ?case
  proof (cases "match_cnt q > ucast (look_back (attr q))")
    case True
    obtain n q1 where q1: "mm_channel_superbuf_dequeue_internal q True = (q1, Some n)" "matched n"
        "que q = n # que q1" "superbuf_inv q1" "attr q1 = attr q" "num_streams q1 = num_streams q"
        "bundled_streams q1 = bundled_streams q"
      using dequeue_matched_inv [OF less.prems True] by metis
    obtain s' q' k where "superbuf_skip_loop ops (release_held ops n s) q1 = Some (s', q')"
        "superbuf_inv q'" "match_cnt q' \<le> ucast (look_back (attr q))" "attr q' = attr q"
        "num_streams q' = num_streams q" "bundled_streams q' = bundled_streams q" "que q' = drop k (que q1)" "list_all matched (take k (que q1))"
        "s' = fold (release_held ops) (take k (que q1)) (release_held ops n s)"
      using less.hyps [of q1 "release_held ops n s"] q1 by auto
    then show ?thesis
      using True q1 by (subst superbuf_skip_loop.simps) (auto intro!: exI [of _ "Suc k"])
  next
    case False
    then show ?thesis
      using less.prems by (subst superbuf_skip_loop.simps) (auto intro!: exI [of _ 0] simp: not_less)
  qed
qed

lemma flush_all:
  "mm_channel_superbuf_flush ops s q =
     (fold (release_held ops) (que q) s,
      q\<lparr>que := [], que_size := que_size q - of_nat (length (que q)),
        match_cnt := match_cnt q - of_nat (length (filter matched (que q)))\<rparr>)"
proof (induction "length (que q)" arbitrary: q s)
  case 0
  then show ?case
    by (subst mm_channel_superbuf_flush.simps) (simp add: mm_channel_superbuf_dequeue_internal_def)
next
  case (Suc k)
  then obtain n ns where q: "que q = n # ns" by (cases "que q") auto
  let ?q = "q\<lparr>que := ns, que_size := que_size q - 1,
    match_cnt := (if matched n then match_cnt q - 1 else match_cnt q)\<rparr>"
  have "mm_channel_superbuf_flush ops s q = mm_channel_superbuf_flush ops (release_held ops n s) ?q"
    using q by (subst mm_channel_superbuf_flush.simps) (simp add: mm_channel_superbuf_dequeue_internal_def)
  moreover have "k = length (que ?q)" using Suc.hyps(2) q by simp
  ultimately show ?case
    using Suc.hyps(1) [of ?q "release_held ops n s"] q by (simp add: algebra_simps)
qed

lemma queue_split_matched_count: "queue_split ns ms us \<Longrightarrow> length (filter matched ns) = length ms"
  by (auto simp: queue_split_def list_all_iff filter_id_conv filter_empty_conv)

lemma flush_inv:
  assumes "superbuf_inv q" "mm_channel_superbuf_flush ops s q = (s', q')"
  shows "superbuf_inv q'" "que q' = []" "match_cnt q' = 0"
proof -
  obtain ms us where q: "queue_split (que q) ms us" "match_cnt q = of_nat (length ms)"
      "que_size q = of_nat (length (que q))" "0 < num_streams q" "unat (num_streams q) \<le> MAX_STREAM_NUM_IN_BUNDLE"
    using superbuf_invE [OF assms(1)] by metis
  have "q' = q\<lparr>que := [], que_size := 0, match_cnt := 0\<rparr>"
    using assms(2) unfolding flush_all queue_split_matched_count [OF q(1)] by (simp add: q(2,3))
  then show "superbuf_inv q'" "que q' = []" "match_cnt q' = 0"
    using q(4,5) by (simp_all add: superbuf_inv_def queue_split_def)
qed

section \<open>The search loop on a well-formed queue\<close>

lemma scan_skip_matched:
  "list_all matched ms \<Longrightarrow> superbuf_scan f pos (ms @ ns) r = superbuf_scan f (pos + length ms) ns r"
  by (induction ms arbitrary: pos) auto

lemma scan_older:
  "list_all (\<lambda>n. \<not> matched n \<and> nd_frame_idx n < f) lo \<Longrightarrow>
   superbuf_scan f pos (lo @ ns) r = superbuf_scan f (pos + length lo) ns
     (r\<lparr>sc_unmatched := sc_unmatched r + of_nat (length lo),
        sc_last_buf := (if sc_last_buf r = None \<and> lo \<noteq> [] then Some pos else sc_last_buf r)\<rparr>)"
proof (induction lo arbitrary: pos r)
  case (Cons n lo)
  then have "\<not> matched n" "nd_frame_idx n < f" "f \<noteq> nd_frame_idx n" "\<not> f < nd_frame_idx n" by auto
  then show ?case using Cons by (simp add: algebra_simps)
qed simp

lemma scan_newer:
  "list_all (\<lambda>n. \<not> matched n \<and> nd_frame_idx n > f) hi \<Longrightarrow>
   superbuf_scan f pos hi r =
     r\<lparr>sc_unmatched := sc_unmatched r + of_nat (length hi),
        sc_insert_before := (if sc_insert_before r = None \<and> hi \<noteq> [] then Some pos else sc_insert_before r)\<rparr>"
proof (induction hi arbitrary: pos r)
  case (Cons n hi)
  then have "\<not> matched n" "f < nd_frame_idx n" "f \<noteq> nd_frame_idx n" "\<not> nd_frame_idx n < f" by auto
  then show ?case using Cons by (simp add: algebra_simps)
qed simp

lemma sorted_cut:
  fixes f :: u32
  assumes "sorted_wrt (<) (map nd_frame_idx us)"
  obtains lo hi where "us = lo @ hi" "list_all (\<lambda>n. nd_frame_idx n < f) lo" "list_all (\<lambda>n. nd_frame_idx n \<ge> f) hi"
  using assms
proof (induction us arbitrary: thesis)
  case (Cons n us)
  show ?case
  proof (cases "nd_frame_idx n < f")
    case True
    obtain lo hi where "us = lo @ hi" "list_all (\<lambda>n. nd_frame_idx n < f) lo" "list_all (\<lambda>n. nd_frame_idx n \<ge> f) hi"
      using Cons by auto
    then show ?thesis using Cons.prems(1) [of "n # lo" hi] True by simp
  next
    case False
    then have "list_all (\<lambda>n. nd_frame_idx n \<ge> f) (n # us)"
      using Cons.prems(2) by (fastforce simp: list_all_iff not_less)
    then show ?thesis using Cons.prems(1) [of "[]" "n # us"] by simp
  qed
qed simp

text \<open>What the loop computes: \<^verbatim>\<open>lo\<close> are the older unmatched nodes; then either the node of this frame
  comes next, or only newer ones follow.\<close>

lemma scan_split:
  assumes "queue_split ns ms us"
  obtains (found) lo n hi where "us = lo @ n # hi" "nd_frame_idx n = f"
      "list_all (\<lambda>n. nd_frame_idx n < f) lo" "list_all (\<lambda>n. nd_frame_idx n > f) hi"
      "sc_found (superbuf_scan f 0 ns scan_start) = Some (length ms + length lo)"
      "sc_last_buf (superbuf_scan f 0 ns scan_start) = (if lo = [] then None else Some (length ms))"
  | (new) lo hi where "us = lo @ hi"
      "list_all (\<lambda>n. nd_frame_idx n < f) lo" "list_all (\<lambda>n. nd_frame_idx n > f) hi"
      "superbuf_scan f 0 ns scan_start =
         \<lparr>sc_found = None, sc_unmatched = of_nat (length us),
          sc_last_buf = (if lo = [] then None else Some (length ms)),
          sc_insert_before = (if hi = [] then None else Some (length ms + length lo))\<rparr>"
proof -
  have ns: "ns = ms @ us" "list_all matched ms" "list_all (\<lambda>n. \<not> matched n) us"
      and so: "sorted_wrt (<) (map nd_frame_idx us)"
    using assms by (auto simp: queue_split_def)
  obtain lo hi where cut: "us = lo @ hi" "list_all (\<lambda>n. nd_frame_idx n < f) lo" "list_all (\<lambda>n. nd_frame_idx n \<ge> f) hi"
    using sorted_cut [OF so] by metis
  have lo: "list_all (\<lambda>n. \<not> matched n \<and> nd_frame_idx n < f) lo" using ns(3) cut by (auto simp: list_all_iff)
  have sc: "superbuf_scan f 0 ns scan_start = superbuf_scan f (length ms + length lo) hi
      \<lparr>sc_found = None, sc_unmatched = of_nat (length lo),
       sc_last_buf = (if lo = [] then None else Some (length ms)), sc_insert_before = None\<rparr>"
    unfolding ns(1) cut(1) scan_skip_matched [OF ns(2)] scan_older [OF lo] by (simp add: scan_start_def)
  show ?thesis
  proof (cases hi)
    case Nil
    then show ?thesis using new [of lo hi] cut sc by simp
  next
    case (Cons n hi')
    have hi': "list_all (\<lambda>n. nd_frame_idx n > nd_frame_idx (hd hi)) hi'"
      using so cut(1) Cons by (auto simp: sorted_wrt_append list_all_iff)
    have um: "list_all (\<lambda>n. \<not> matched n) hi" using ns(3) cut(1) by simp
    show ?thesis
    proof (cases "nd_frame_idx n = f")
      case True
      then show ?thesis using found [of lo n hi'] cut Cons sc hi' um by simp
    next
      case False
      have "f \<le> nd_frame_idx n" using cut(3) Cons by simp
      with False have gt: "f < nd_frame_idx n" by (simp add: order_less_le)
      then have h: "list_all (\<lambda>n. \<not> matched n \<and> nd_frame_idx n > f) hi"
        using hi' um Cons by (fastforce simp: list_all_iff)
      then have "list_all (\<lambda>n. nd_frame_idx n > f) hi" by (auto simp: list_all_iff)
      with cut(1,2) show ?thesis
        by (rule new) (unfold sc scan_newer [OF h], use Cons in \<open>simp add: cut(1)\<close>)
    qed
  qed
qed

section \<open>The effect of each branch\<close>

lemma after_lists:
  "length xs = p \<Longrightarrow> take p (xs @ ys) = xs" "length xs = p \<Longrightarrow> drop p (xs @ ys) = ys"
  by auto

definition node_with :: "mm_channel_queue_node \<Rightarrow> nat \<Rightarrow> mm_camera_buf_info \<Rightarrow> mm_channel_queue_node" where
  "node_with n slot b = (let n = n\<lparr>super_buf := (super_buf n)[slot := b]\<rparr>
     in n\<lparr>matched := (\<forall>x\<in>set (take (num_of_bufs n) (super_buf n)). bi_frame_idx x \<noteq> 0)\<rparr>)"

lemma node_with_simps [simp]:
  "num_of_bufs (node_with n slot b) = num_of_bufs n"
  "super_buf (node_with n slot b) = (super_buf n)[slot := b]"
  "nd_frame_idx (node_with n slot b) = nd_frame_idx n"
  by (simp_all add: node_with_def)

definition new_node :: "mm_channel_queue \<Rightarrow> nat \<Rightarrow> mm_camera_buf_info \<Rightarrow> mm_channel_queue_node" where
  "new_node q slot b = \<lparr>num_of_bufs = unat (num_streams q),
     super_buf = (replicate MAX_STREAM_NUM_IN_BUNDLE buf_info_zero)[slot := b],
     matched = (num_streams q = 1), nd_frame_idx = bi_frame_idx b\<rparr>"

lemma enqueue_found_effect:
  assumes "que q = ms @ lo @ n # hi" "sc_last_buf r = (if lo = [] then None else Some (length ms))"
  shows "enqueue_found ops s q slot r (length ms + length lo) b =
    (if matched (node_with n slot b) then
       (fold (release_nonzero ops) lo s,
        q\<lparr>que := ms @ node_with n slot b # hi, que_size := que_size q - of_nat (length lo),
          expected_frame_id := bi_frame_idx b + ucast (post_frame_skip (attr q)), match_cnt := match_cnt q + 1\<rparr>)
     else (s, q\<lparr>que := ms @ lo @ node_with n slot b # hi\<rparr>))"
proof -
  let ?p = "length ms + length lo"
  have nth: "que q ! ?p = n" using assms(1) by (simp add: nth_append)
  have upd: "(que q)[?p := x] = (ms @ lo) @ x # hi" for x
    using assms(1) by (simp add: list_update_append)
  show ?thesis
    using assms(2) unfolding enqueue_found_def nth upd node_with_def
    by (auto simp: Let_def release_older_def)
qed

lemma insert_node_effect:
  assumes "op_alloc ops s = (ok, s1)" "que q = xs @ ys"
    "before = (if ys = [] then None else Some (length xs))"
  shows "insert_node ops s q slot before b =
    (if ok then
       (s1, if num_streams q = 1
            then q\<lparr>que := xs @ new_node q slot b # ys, que_size := que_size q + 1,
                   expected_frame_id := bi_frame_idx b + ucast (post_frame_skip (attr q)), match_cnt := match_cnt q + 1\<rparr>
            else q\<lparr>que := xs @ new_node q slot b # ys, que_size := que_size q + 1\<rparr>)
     else (op_qbuf ops (bi_buf b) s1, q))"
  using assms by (auto simp: insert_node_def new_node_def Let_def split: option.splits)

text \<open>The oldest unmatched node is released when too many are waiting and the frame is newer.\<close>

definition evict :: "mm_channel_queue \<Rightarrow> mm_channel_queue_node list \<Rightarrow> bool" where
  "evict q us \<longleftrightarrow> max_unmatched_frames (attr q) < of_nat (length us)"

lemma enqueue_new_effect:
  assumes "que q = ms @ lo @ hi"
    and r: "r = \<lparr>sc_found = None, sc_unmatched = of_nat (length (lo @ hi)),
          sc_last_buf = (if lo = [] then None else Some (length ms)),
          sc_insert_before = (if hi = [] then None else Some (length ms + length lo))\<rparr>"
  shows "enqueue_new ops s q slot r b =
    (if evict q (lo @ hi) then
       (case lo of
          [] \<Rightarrow> (op_qbuf ops (bi_buf b) s, q)
        | n # lo' \<Rightarrow> insert_node ops (release_nonzero ops n s)
             (q\<lparr>que := (ms @ lo') @ hi, que_size := que_size q - 1\<rparr>) slot
             (if hi = [] then None else Some (length (ms @ lo'))) b)
     else insert_node ops s q slot (if hi = [] then None else Some (length (ms @ lo))) b)"
proof (cases lo)
  case (Cons n lo')
  then show ?thesis
    using assms by (simp add: enqueue_new_def evict_def release_older_def after_del_def)
qed (use assms in \<open>simp add: enqueue_new_def evict_def\<close>)

section \<open>The invariant is kept\<close>

lemma superbuf_invI:
  assumes "que q = ms @ us" "list_all matched ms" "list_all (\<lambda>n. \<not> matched n) us"
    "sorted_wrt (<) (map nd_frame_idx us)" "match_cnt q = of_nat (length ms)" "num_streams q = 1 \<longrightarrow> us = []"
    "list_all (node_ok (num_streams q)) (que q)" "que_size q = of_nat (length (que q))"
    "0 < num_streams q" "unat (num_streams q) \<le> MAX_STREAM_NUM_IN_BUNDLE"
  shows "superbuf_inv q"
  unfolding superbuf_inv_def queue_split_def using assms by metis

lemma node_with_ok: "node_ok k n \<Longrightarrow> node_ok k (node_with n slot b)"
  by (simp add: node_ok_def)

lemma new_node_ok: "node_ok (num_streams q) (new_node q slot b)"
  by (simp add: node_ok_def new_node_def)

lemma found_inv:
  assumes q: "superbuf_inv q" "queue_split (que q) ms us" "us = lo @ n # hi"
    and r: "sc_last_buf r = (if lo = [] then None else Some (length ms))"
    and e: "enqueue_found ops s q slot r (length ms + length lo) b = (s', q')"
  shows "superbuf_inv q'"
proof -
  obtain ms1 us1 where i: "queue_split (que q) ms1 us1" "match_cnt q = of_nat (length ms1)" "num_streams q = 1 \<Longrightarrow> us1 = []"
      "list_all (node_ok (num_streams q)) (que q)" "que_size q = of_nat (length (que q))"
      "0 < num_streams q" "unat (num_streams q) \<le> MAX_STREAM_NUM_IN_BUNDLE"
    using superbuf_invE [OF q(1)] by metis
  have l: "length ms1 = length ms" "ms1 = ms \<and> us1 = us"
    using queue_split_matched_count [OF i(1)] queue_split_matched_count [OF q(2)] i(1) q(2)
    by (auto simp: queue_split_def)
  have qs: "que q = ms @ lo @ n # hi" using q(2,3) by (simp add: queue_split_def)
  have s: "list_all matched ms" "list_all (\<lambda>n. \<not> matched n) (lo @ n # hi)"
      "sorted_wrt (<) (map nd_frame_idx (lo @ n # hi))"
    using q(2,3) by (simp_all add: queue_split_def)
  have one: "num_streams q \<noteq> 1" using i(3) l q(3) by auto
  show ?thesis
  proof (cases "matched (node_with n slot b)")
    case True
    then have "q' = q\<lparr>que := ms @ node_with n slot b # hi, que_size := que_size q - of_nat (length lo),
        expected_frame_id := bi_frame_idx b + ucast (post_frame_skip (attr q)), match_cnt := match_cnt q + 1\<rparr>"
      using e unfolding enqueue_found_effect [OF qs r] by simp
    then show ?thesis
      using i l qs s one True
      by (intro superbuf_invI [of _ "ms @ [node_with n slot b]" hi]) (auto simp: node_with_ok sorted_wrt_append)
  next
    case False
    then have "q' = q\<lparr>que := ms @ lo @ node_with n slot b # hi\<rparr>"
      using e unfolding enqueue_found_effect [OF qs r] by simp
    then show ?thesis
      using i l qs s one False
      by (intro superbuf_invI [of _ ms "lo @ node_with n slot b # hi"]) (auto simp: node_with_ok sorted_wrt_append)
  qed
qed

lemma insert_inv:
  assumes q: "superbuf_inv q" "queue_split (que q) ms (lo @ hi)"
    and lo: "list_all (\<lambda>n. nd_frame_idx n < bi_frame_idx b) lo" and hi: "list_all (\<lambda>n. nd_frame_idx n > bi_frame_idx b) hi"
    and e: "insert_node ops s q slot (if hi = [] then None else Some (length (ms @ lo))) b = (s', q')"
  shows "superbuf_inv q'"
proof -
  obtain ms1 us1 where i: "queue_split (que q) ms1 us1" "match_cnt q = of_nat (length ms1)" "num_streams q = 1 \<Longrightarrow> us1 = []"
      "list_all (node_ok (num_streams q)) (que q)" "que_size q = of_nat (length (que q))"
      "0 < num_streams q" "unat (num_streams q) \<le> MAX_STREAM_NUM_IN_BUNDLE"
    using superbuf_invE [OF q(1)] by metis
  have l: "length ms1 = length ms" "ms1 = ms \<and> us1 = lo @ hi"
    using queue_split_matched_count [OF i(1)] queue_split_matched_count [OF q(2)] i(1) q(2)
    by (auto simp: queue_split_def)
  have qs: "que q = (ms @ lo) @ hi" using q(2) by (simp add: queue_split_def)
  have s: "list_all matched ms" "list_all (\<lambda>n. \<not> matched n) (lo @ hi)"
      "sorted_wrt (<) (map nd_frame_idx (lo @ hi))"
    using q(2) by (simp_all add: queue_split_def)
  have idx: "nd_frame_idx (new_node q slot b) = bi_frame_idx b" "matched (new_node q slot b) = (num_streams q = 1)"
    by (simp_all add: new_node_def)
  obtain ok s1 where a: "op_alloc ops s = (ok, s1)" by fastforce
  show ?thesis
  proof (cases ok)
    case False
    then show ?thesis using e q(1) unfolding insert_node_effect [OF a qs refl] by auto
  next
    case True
    let ?ns = "ms @ lo @ new_node q slot b # hi"
    show ?thesis
    proof (cases "num_streams q = 1")
      case one: True
      then have "lo = []" "hi = []" using i(3) l by auto
      moreover have "q' = q\<lparr>que := ?ns, que_size := que_size q + 1,
          expected_frame_id := bi_frame_idx b + ucast (post_frame_skip (attr q)), match_cnt := match_cnt q + 1\<rparr>"
        using e True one unfolding insert_node_effect [OF a qs refl] by simp
      ultimately show ?thesis
        using i l qs s idx one new_node_ok [of q slot b]
        by (intro superbuf_invI [of _ "ms @ [new_node q slot b]" "[]"]) auto
    next
      case False
      then have "q' = q\<lparr>que := ?ns, que_size := que_size q + 1\<rparr>"
        using e True unfolding insert_node_effect [OF a qs refl] by simp
      then show ?thesis
        using i l qs s idx False lo hi new_node_ok [of q slot b]
        by (intro superbuf_invI [of _ ms "lo @ new_node q slot b # hi"])
          (auto simp: sorted_wrt_append list_all_iff)
    qed
  qed
qed

lemma evict_inv:
  assumes q: "superbuf_inv q" "queue_split (que q) ms (n # us)"
  shows "superbuf_inv (q\<lparr>que := ms @ us, que_size := que_size q - 1\<rparr>)"
    and "queue_split (ms @ us) ms us"
proof -
  obtain ms1 us1 where i: "queue_split (que q) ms1 us1" "match_cnt q = of_nat (length ms1)" "num_streams q = 1 \<Longrightarrow> us1 = []"
      "list_all (node_ok (num_streams q)) (que q)" "que_size q = of_nat (length (que q))"
      "0 < num_streams q" "unat (num_streams q) \<le> MAX_STREAM_NUM_IN_BUNDLE"
    using superbuf_invE [OF q(1)] by metis
  have l: "length ms1 = length ms" "ms1 = ms \<and> us1 = n # us"
    using queue_split_matched_count [OF i(1)] queue_split_matched_count [OF q(2)] i(1) q(2)
    by (auto simp: queue_split_def)
  show "superbuf_inv (q\<lparr>que := ms @ us, que_size := que_size q - 1\<rparr>)"
    using i l q(2) by (intro superbuf_invI [of _ ms us]) (auto simp: queue_split_def)
  show "queue_split (ms @ us) ms us" using q(2) by (auto simp: queue_split_def)
qed

lemma handle_metadata_inv:
  assumes "superbuf_inv q" "mm_channel_handle_metadata ops s q b = (s', q', rc)"
  shows "superbuf_inv q' \<and> num_streams q' = num_streams q \<and> bundled_streams q' = bundled_streams q \<and> attr q' = attr q"
proof -
  have *: "superbuf_inv (q\<lparr>expected_frame_id := x\<rparr>)" for x
    using assms(1) by (auto simp: superbuf_inv_def)
  have "superbuf_inv q2 \<and> num_streams q2 = num_streams q \<and> bundled_streams q2 = bundled_streams q \<and> attr q2 = attr q"
    if "mm_channel_superbuf_flush ops s (q\<lparr>expected_frame_id := x\<rparr>) = (s2, q2)" for s2 q2 x
    using flush_inv(1) [OF * that] that unfolding flush_all by auto
  then show ?thesis
    using assms * unfolding mm_channel_handle_metadata_def
    by (auto split: stream_view.splits option.splits if_splits prod.splits)
qed

lemma comp_and_enqueue_inv:
  assumes "superbuf_inv q" "mm_channel_superbuf_comp_and_enqueue ops s q b = (s', q', rc)"
  shows "superbuf_inv q'"
proof (cases "bundle_slot (bi_stream_id b) (take (unat (num_streams q)) (bundled_streams q)) 0")
  case None
  then show ?thesis using assms by (simp add: mm_channel_superbuf_comp_and_enqueue_def)
next
  case (Some slot)
  obtain s1 q1 rc1 where md: "mm_channel_handle_metadata ops s q b = (s1, q1, rc1)"
    by (metis prod_cases3)
  note i1 = handle_metadata_inv [OF assms(1) md, THEN conjunct1]
  let ?r = "superbuf_scan (bi_frame_idx b) 0 (que q1) scan_start"
  show ?thesis
  proof (cases "rc1 <s 0 \<or> mm_channel_util_seq_comp_w_rollover (bi_frame_idx b) (expected_frame_id q1) < 0")
    case True
    then show ?thesis
      using assms(2) i1 Some md by (auto simp: mm_channel_superbuf_comp_and_enqueue_def split: if_splits)
  next
    case False
    then have step: "(s', q') = (case sc_found ?r of Some pos \<Rightarrow> enqueue_found ops s1 q1 slot ?r pos b
        | None \<Rightarrow> enqueue_new ops s1 q1 slot ?r b)"
      using assms(2) Some md by (auto simp: mm_channel_superbuf_comp_and_enqueue_def Let_def split: prod.splits)
    obtain ms us where sp: "queue_split (que q1) ms us" using i1 by (auto simp: superbuf_inv_def)
    from sp show ?thesis
    proof (cases rule: scan_split [of "que q1" ms us "bi_frame_idx b"])
      case (found lo n hi)
      then show ?thesis using step found_inv [OF i1 sp found(1,6), of ops s1 slot b s' q'] by simp
    next
      case (new lo hi)
      have qs: "que q1 = ms @ lo @ hi" using sp new(1) by (simp add: queue_split_def)
      note sp' = sp [unfolded new(1)]
      show ?thesis
      proof (cases "evict q1 (lo @ hi)")
        case False
        then have "insert_node ops s1 q1 slot (if hi = [] then None else Some (length (ms @ lo))) b = (s', q')"
          using step new enqueue_new_effect [OF qs, of ?r ops s1 slot b] by simp
        then show ?thesis by (rule insert_inv [OF i1 sp' new(2,3)])
      next
        case True
        show ?thesis
        proof (cases lo)
          case Nil
          then show ?thesis
            using True step new i1 enqueue_new_effect [OF qs, of ?r ops s1 slot b] by simp
        next
          case (Cons n lo')
          let ?q = "q1\<lparr>que := (ms @ lo') @ hi, que_size := que_size q1 - 1\<rparr>"
          have e: "insert_node ops (release_nonzero ops n s1) ?q slot
              (if hi = [] then None else Some (length (ms @ lo'))) b = (s', q')"
            using True step new Cons enqueue_new_effect [OF qs, of ?r ops s1 slot b] by simp
          have "superbuf_inv ?q" "queue_split (que ?q) ms (lo' @ hi)"
            using evict_inv [OF i1, of ms n "lo' @ hi"] sp' Cons by simp_all
          then show ?thesis using insert_inv e new(2,3) Cons by (auto intro: insert_inv)
        qed
      qed
    qed
  qed
qed

section \<open>Conservation of buffers\<close>

text \<open>Every slot is either zeroed or holds a frame of the node's index.\<close>

definition slot_ok :: "u32 \<Rightarrow> mm_camera_buf_info \<Rightarrow> bool" where
  "slot_ok f x \<longleftrightarrow> x = buf_info_zero \<or> (bi_buf x \<noteq> None \<and> bi_frame_idx x = f \<and> f \<noteq> 0)"

definition node_slots_ok :: "mm_channel_queue_node \<Rightarrow> bool" where
  "node_slots_ok n \<longleftrightarrow> list_all (slot_ok (nd_frame_idx n)) (super_buf n)"

definition slots_held :: "mm_camera_buf_info list \<Rightarrow> mm_camera_buf_def multiset" where
  "slots_held xs = mset (List.map_filter bi_buf xs)"

definition node_held :: "mm_channel_queue_node \<Rightarrow> mm_camera_buf_def multiset" where
  "node_held n = slots_held (take (num_of_bufs n) (super_buf n))"

definition nodes_held :: "mm_channel_queue_node list \<Rightarrow> mm_camera_buf_def multiset" where
  "nodes_held ns = sum_list (map node_held ns)"

lemma nodes_held_simps [simp]:
  "nodes_held [] = {#}" "nodes_held (n # ns) = node_held n + nodes_held ns"
  "nodes_held (ns @ ks) = nodes_held ns + nodes_held ks"
  by (simp_all add: nodes_held_def)

lemma slots_held_simps [simp]:
  "slots_held [] = {#}"
  "slots_held (x # xs) = (case bi_buf x of None \<Rightarrow> slots_held xs | Some d \<Rightarrow> add_mset d (slots_held xs))"
  by (auto simp: slots_held_def List.map_filter_def split: option.splits)

lemma slots_held_update:
  "k < length xs \<Longrightarrow> bi_buf (xs ! k) = None \<Longrightarrow> bi_buf b = Some d \<Longrightarrow>
   slots_held (xs[k := b]) = add_mset d (slots_held xs)"
proof (induction xs arbitrary: k)
  case (Cons x xs)
  then show ?case by (cases k) (auto split: option.splits simp: add_mset_commute)
qed simp

lemma slots_held_zero: "slots_held (replicate k buf_info_zero) = {#}"
  by (induction k) (auto simp: buf_info_zero_def)

lemma node_with_held:
  assumes "slot < num_of_bufs n" "num_of_bufs n \<le> length (super_buf n)" "bi_buf (super_buf n ! slot) = None" "bi_buf b = Some d"
  shows "node_held (node_with n slot b) = add_mset d (node_held n)"
  using assms slots_held_update [of slot "take (num_of_bufs n) (super_buf n)" b d]
  by (simp add: node_held_def take_update_swap)

lemma new_node_held:
  assumes "slot < unat (num_streams q)" "unat (num_streams q) \<le> MAX_STREAM_NUM_IN_BUNDLE" "bi_buf b = Some d"
  shows "node_held (new_node q slot b) = {#d#}"
  using assms slots_held_update [of slot "replicate (unat (num_streams q)) buf_info_zero" b d]
  by (simp add: node_held_def new_node_def take_update_swap slots_held_zero min_def) (simp add: buf_info_zero_def)

lemma node_with_slots:
  assumes "node_slots_ok n" "slot_ok (nd_frame_idx n) b"
  shows "node_slots_ok (node_with n slot b)"
  using assms set_update_subset_insert [of "super_buf n" slot b]
  by (auto simp: node_slots_ok_def list_all_iff)

lemma new_node_slots:
  assumes "slot_ok (bi_frame_idx b) b"
  shows "node_slots_ok (new_node q slot b)"
  using assms set_update_subset_insert [of "replicate MAX_STREAM_NUM_IN_BUNDLE buf_info_zero" slot b]
  by (auto simp: node_slots_ok_def list_all_iff new_node_def slot_ok_def split: if_splits)

text \<open>The channel as the queue sees it: \<^verbatim>\<open>ret\<close> counts the buffers handed back.\<close>

locale buffer_sink =
  fixes ops :: "'s chan_ops" and ret :: "'s \<Rightarrow> mm_camera_buf_def multiset"
  assumes ret_qbuf: "ret (op_qbuf ops (Some d) s) = add_mset d (ret s)"
    and ret_alloc: "op_alloc ops s = (ok, s') \<Longrightarrow> ret s' = ret s"
    and ret_led: "ret (op_set_led ops v s) = ret s"
begin

lemma ret_release_held: "ret (release_held ops n s) = ret s + node_held n"
proof -
  have "ret (fold (\<lambda>b s. if bi_buf b \<noteq> None then op_qbuf ops (bi_buf b) s else s) xs s) = ret s + slots_held xs" for xs
    by (induction xs arbitrary: s) (auto split: option.splits simp: ret_qbuf)
  then show ?thesis by (simp add: release_held_def node_held_def)
qed

lemma ret_release_nonzero:
  assumes "node_slots_ok n"
  shows "ret (release_nonzero ops n s) = ret s + node_held n"
proof -
  have "list_all (slot_ok (nd_frame_idx n)) xs \<Longrightarrow>
      ret (fold (\<lambda>b s. if bi_frame_idx b \<noteq> 0 then op_qbuf ops (bi_buf b) s else s) xs s) = ret s + slots_held xs" for xs
    by (induction xs arbitrary: s) (auto split: option.splits simp: ret_qbuf slot_ok_def buf_info_zero_def)
  moreover have "list_all (slot_ok (nd_frame_idx n)) (take (num_of_bufs n) (super_buf n))"
    using assms by (auto simp: node_slots_ok_def list_all_iff dest: in_set_takeD)
  ultimately show ?thesis by (simp add: release_nonzero_def node_held_def)
qed

lemma ret_fold_held: "ret (fold (release_held ops) ns s) = ret s + nodes_held ns"
  by (induction ns arbitrary: s) (auto simp: ret_release_held)

lemma ret_fold_nonzero: "list_all node_slots_ok ns \<Longrightarrow> ret (fold (release_nonzero ops) ns s) = ret s + nodes_held ns"
  by (induction ns arbitrary: s) (auto simp: ret_release_nonzero)

lemma overflow_conserves:
  assumes "superbuf_inv q"
  shows "\<exists>s' q'. mm_channel_superbuf_bufdone_overflow ops s q = Some (s', q', 0) \<and> superbuf_inv q'
    \<and> (notify_mode (attr q) \<noteq> MM_CAMERA_SUPER_BUF_NOTIFY_CONTINUOUS \<longrightarrow> match_cnt q' \<le> ucast (water_mark (attr q)))
    \<and> ret s' + nodes_held (que q') = ret s + nodes_held (que q)
    \<and> (\<exists>k. que q' = drop k (que q) \<and> list_all matched (take k (que q)))"
proof (cases "notify_mode (attr q) = MM_CAMERA_SUPER_BUF_NOTIFY_CONTINUOUS")
  case True
  then show ?thesis
    using assms by (auto simp: mm_channel_superbuf_bufdone_overflow_def intro!: exI [of _ "0::nat"])
next
  case False
  obtain s' q' k where l: "bufdone_overflow_loop ops s q = Some (s', q')" "superbuf_inv q'"
      "match_cnt q' \<le> ucast (water_mark (attr q))" "que q' = drop k (que q)" "list_all matched (take k (que q))"
      "s' = fold (release_held ops) (take k (que q)) s"
    using overflow_loop_terminates [OF assms] by metis
  have "nodes_held (que q) = nodes_held (take k (que q)) + nodes_held (drop k (que q))"
    by (metis append_take_drop_id nodes_held_simps(3))
  then show ?thesis
    using False l by (auto simp: mm_channel_superbuf_bufdone_overflow_def ret_fold_held)
qed

lemma skip_conserves:
  assumes "superbuf_inv q"
  shows "\<exists>s' q'. mm_channel_superbuf_skip ops s q = Some (s', q', 0) \<and> superbuf_inv q'
    \<and> (notify_mode (attr q) \<noteq> MM_CAMERA_SUPER_BUF_NOTIFY_CONTINUOUS \<longrightarrow> match_cnt q' \<le> ucast (look_back (attr q)))
    \<and> ret s' + nodes_held (que q') = ret s + nodes_held (que q)
    \<and> (\<exists>k. que q' = drop k (que q) \<and> list_all matched (take k (que q)))"
proof (cases "notify_mode (attr q) = MM_CAMERA_SUPER_BUF_NOTIFY_CONTINUOUS")
  case True
  then show ?thesis
    using assms by (auto simp: mm_channel_superbuf_skip_def intro!: exI [of _ "0::nat"])
next
  case False
  obtain s' q' k where l: "superbuf_skip_loop ops s q = Some (s', q')" "superbuf_inv q'"
      "match_cnt q' \<le> ucast (look_back (attr q))" "que q' = drop k (que q)" "list_all matched (take k (que q))"
      "s' = fold (release_held ops) (take k (que q)) s"
    using skip_loop_terminates [OF assms] by metis
  have "nodes_held (que q) = nodes_held (take k (que q)) + nodes_held (drop k (que q))"
    by (metis append_take_drop_id nodes_held_simps(3))
  then show ?thesis
    using False l by (auto simp: mm_channel_superbuf_skip_def ret_fold_held)
qed

lemma flush_conserves:
  "mm_channel_superbuf_flush ops s q = (s', q') \<Longrightarrow> ret s' = ret s + nodes_held (que q) \<and> que q' = []"
  by (auto simp: flush_all ret_fold_held)

lemma metadata_conserves:
  assumes "mm_channel_handle_metadata ops s q b = (s', q', rc)"
  shows "ret s' + nodes_held (que q') = ret s + nodes_held (que q) \<and> (que q' = que q \<or> que q' = [])"
proof -
  have f: "ret s2 = ret s + nodes_held (que q) \<and> que q2 = []"
    if "mm_channel_superbuf_flush ops s (q\<lparr>expected_frame_id := x\<rparr>) = (s2, q2)" for s2 q2 x
    using flush_conserves [OF that] by simp
  show ?thesis
    using assms f unfolding mm_channel_handle_metadata_def
    by (auto simp: ret_led split: stream_view.splits option.splits if_splits prod.splits)
qed

lemma insert_conserves:
  assumes "que q = xs @ ys" "list_all node_slots_ok (que q)" "before = (if ys = [] then None else Some (length xs))"
    and slot: "slot < unat (num_streams q)" "unat (num_streams q) \<le> MAX_STREAM_NUM_IN_BUNDLE"
    and b: "bi_buf b = Some d" "bi_frame_idx b \<noteq> 0"
    and e: "insert_node ops s q slot before b = (s', q')"
  shows "ret s' + nodes_held (que q') = add_mset d (ret s + nodes_held (que q)) \<and> list_all node_slots_ok (que q')"
proof -
  obtain ok s1 where a: "op_alloc ops s = (ok, s1)" by fastforce
  have n: "node_held (new_node q slot b) = {#d#}" "node_slots_ok (new_node q slot b)"
    using new_node_held [OF slot b(1)] new_node_slots [of b q slot] b by (auto simp: slot_ok_def)
  show ?thesis
    using e assms(1,2) n ret_alloc [OF a] b(1)
    unfolding insert_node_effect [OF a assms(1,3)] by (auto simp: ret_qbuf split: if_splits)
qed

lemma enqueue_conserves:
  assumes inv: "superbuf_inv q" and ok: "list_all node_slots_ok (que q)"
    and slot: "slot < unat (num_streams q)"
    and b: "bi_buf b = Some d" "bi_frame_idx b \<noteq> 0"
    and free: "\<And>n. n \<in> set (que q) \<Longrightarrow> \<not> matched n \<Longrightarrow> nd_frame_idx n = bi_frame_idx b \<Longrightarrow> bi_buf (super_buf n ! slot) = None"
    and r: "r = superbuf_scan (bi_frame_idx b) 0 (que q) scan_start"
    and e: "(s', q') = (case sc_found r of Some pos \<Rightarrow> enqueue_found ops s q slot r pos b
        | None \<Rightarrow> enqueue_new ops s q slot r b)"
  shows "ret s' + nodes_held (que q') = add_mset d (ret s + nodes_held (que q)) \<and> list_all node_slots_ok (que q')"
proof -
  obtain ms us where sp: "queue_split (que q) ms us" and nok: "list_all (node_ok (num_streams q)) (que q)"
      and le: "unat (num_streams q) \<le> MAX_STREAM_NUM_IN_BUNDLE"
    using superbuf_invE [OF inv] by metis
  from sp show ?thesis
  proof (cases rule: scan_split [of "que q" ms us "bi_frame_idx b"])
    case (found lo n hi)
    have qs: "que q = ms @ lo @ n # hi" using sp found(1) by (simp add: queue_split_def)
    have n: "node_ok (num_streams q) n" "node_slots_ok n" "\<not> matched n"
      using nok ok qs sp found(1) by (auto simp: queue_split_def)
    have h: "node_held (node_with n slot b) = add_mset d (node_held n)"
      by (rule node_with_held) (use n slot le free [of n] qs found(2) b in \<open>auto simp: node_ok_def\<close>)
    have k: "node_slots_ok (node_with n slot b)"
      by (rule node_with_slots) (use n found(2) b in \<open>auto simp: slot_ok_def\<close>)
    have lo: "list_all node_slots_ok lo" using ok qs by simp
    have "(s', q') = enqueue_found ops s q slot r (length ms + length lo) b"
      using e found(5) unfolding r [symmetric] by simp
    then show ?thesis
      using enqueue_found_effect [OF qs, of r ops s slot b] found(6) unfolding r [symmetric]
      using h k ok qs ret_fold_nonzero [OF lo, of s] by (auto split: if_splits)
  next
    case (new lo hi)
    have qs: "que q = ms @ lo @ hi" using sp new(1) by (simp add: queue_split_def)
    have step: "(s', q') = enqueue_new ops s q slot r b"
      using e new(4) unfolding r [symmetric] by simp
    note eff = enqueue_new_effect [OF qs new(4) [folded r, unfolded new(1)], of ops s slot b]
    show ?thesis
    proof (cases "evict q (lo @ hi)")
      case False
      then have "insert_node ops s q slot (if hi = [] then None else Some (length (ms @ lo))) b = (s', q')"
        using step eff by simp
      then show ?thesis
        using insert_conserves [of q "ms @ lo" hi _ slot b d s s' q'] qs ok slot le b by simp
    next
      case True
      show ?thesis
      proof (cases lo)
        case Nil
        then show ?thesis using True step eff ok b by (simp add: ret_qbuf)
      next
        case (Cons n lo')
        let ?q = "q\<lparr>que := (ms @ lo') @ hi, que_size := que_size q - 1\<rparr>"
        have "insert_node ops (release_nonzero ops n s) ?q slot
            (if hi = [] then None else Some (length (ms @ lo'))) b = (s', q')"
          using True step eff Cons by simp
        moreover have "list_all node_slots_ok (que ?q)" "node_slots_ok n" using ok qs Cons by simp_all
        ultimately show ?thesis
          using insert_conserves [of ?q "ms @ lo'" hi _ slot b d "release_nonzero ops n s" s' q'] qs slot le b Cons
          by (simp add: ret_release_nonzero)
      qed
    qed
  qed
qed

lemma comp_and_enqueue_conserves:
  assumes inv: "superbuf_inv q" and ok: "list_all node_slots_ok (que q)"
    and b: "bi_buf b = Some d" "bi_frame_idx b \<noteq> 0"
    and free: "\<And>n slot. n \<in> set (que q) \<Longrightarrow> \<not> matched n \<Longrightarrow> nd_frame_idx n = bi_frame_idx b \<Longrightarrow>
       bundle_slot (bi_stream_id b) (take (unat (num_streams q)) (bundled_streams q)) 0 = Some slot \<Longrightarrow>
       bi_buf (super_buf n ! slot) = None"
    and e: "mm_channel_superbuf_comp_and_enqueue ops s q b = (s', q', rc)"
  shows "ret s' + nodes_held (que q') = ret s + nodes_held (que q) + (if rc = 0 then {#d#} else {#})
     \<and> list_all node_slots_ok (que q') \<and> (rc = 0 \<or> rc = -1)"
proof (cases "bundle_slot (bi_stream_id b) (take (unat (num_streams q)) (bundled_streams q)) 0")
  case None
  then show ?thesis using e ok by (auto simp: mm_channel_superbuf_comp_and_enqueue_def)
next
  case (Some slot)
  have sl: "slot < unat (num_streams q)" using bundle_slot_Some [OF Some] by simp
  obtain s1 q1 rc1 where md: "mm_channel_handle_metadata ops s q b = (s1, q1, rc1)"
    by (metis prod_cases3)
  have m: "ret s1 + nodes_held (que q1) = ret s + nodes_held (que q)" "que q1 = que q \<or> que q1 = []"
    using metadata_conserves [OF md] by auto
  have i1: "superbuf_inv q1" "num_streams q1 = num_streams q" using handle_metadata_inv [OF inv md] by auto
  have ok1: "list_all node_slots_ok (que q1)" using m(2) ok by auto
  show ?thesis
  proof (cases "rc1 <s 0 \<or> mm_channel_util_seq_comp_w_rollover (bi_frame_idx b) (expected_frame_id q1) < 0")
    case True
    then show ?thesis
      using e Some md m ok1 b
      by (auto simp: mm_channel_superbuf_comp_and_enqueue_def ret_qbuf split: if_splits)
  next
    case False
    let ?r = "superbuf_scan (bi_frame_idx b) 0 (que q1) scan_start"
    have step: "(s', q') = (case sc_found ?r of Some pos \<Rightarrow> enqueue_found ops s1 q1 slot ?r pos b
        | None \<Rightarrow> enqueue_new ops s1 q1 slot ?r b)" and "rc = 0"
      using e False Some md by (auto simp: mm_channel_superbuf_comp_and_enqueue_def Let_def split: prod.splits)
    moreover have "bi_buf (super_buf n ! slot) = None"
      if "n \<in> set (que q1)" "\<not> matched n" "nd_frame_idx n = bi_frame_idx b" for n
      using that m(2) free [OF _ _ _ Some] by auto
    ultimately show ?thesis
      using enqueue_conserves [OF i1(1) ok1 _ b _ refl step] sl i1(2) m(1) by simp
  qed
qed

end

end
