(* ===== verification/SuperbufProps.thy ===== *)
theory SuperbufProps
  imports Superbuf
begin

text \<open>
  What the super-buffer queue (theory \<^verbatim>\<open>Superbuf\<close>) promises, over every sequence of its
  operations: the structure of the queue, that a dispatched super buffer is a complete bundle of frames
  with one index, the bound on waiting incomplete bundles, termination of the draining loops.
\<close>

section \<open>Properties of single nodes\<close>

text \<open>A property of nodes that the filling of a slot and a fresh node have is kept by an enqueue.\<close>

lemma insert_nodes:
  assumes "list_all P (xs @ ys)" "que q = xs @ ys" "P (new_node q slot b)"
    and "insert_node ops s q slot (if ys = [] then None else Some (length xs)) b = (s', q')"
  shows "list_all P (que q')" "bundled_streams q' = bundled_streams q" "num_streams q' = num_streams q" "attr q' = attr q"
proof -
  obtain ok s1 where a: "op_alloc ops s = (ok, s1)" by fastforce
  show "list_all P (que q')" "bundled_streams q' = bundled_streams q" "num_streams q' = num_streams q" "attr q' = attr q"
    using assms unfolding insert_node_effect [OF a assms(2) refl] by (auto split: if_splits)
qed

lemma step_nodes:
  assumes inv: "superbuf_inv q" and p: "list_all P (que q)"
    and fill: "\<And>n. P n \<Longrightarrow> node_ok (num_streams q) n \<Longrightarrow> nd_frame_idx n = bi_frame_idx b \<Longrightarrow> P (node_with n slot b)"
    and new: "\<And>q1. num_streams q1 = num_streams q \<Longrightarrow> P (new_node q1 slot b)"
    and e: "(s', q') = (let r = superbuf_scan (bi_frame_idx b) 0 (que q) scan_start
        in case sc_found r of Some pos \<Rightarrow> enqueue_found ops s q slot r pos b | None \<Rightarrow> enqueue_new ops s q slot r b)"
  shows "list_all P (que q') \<and> bundled_streams q' = bundled_streams q \<and> num_streams q' = num_streams q \<and> attr q' = attr q"
proof -
  obtain ms us where sp: "queue_split (que q) ms us" and nok: "list_all (node_ok (num_streams q)) (que q)"
    using superbuf_invE [OF inv] by metis
  let ?r = "superbuf_scan (bi_frame_idx b) 0 (que q) scan_start"
  from sp show ?thesis
  proof (cases rule: scan_split [of "que q" ms us "bi_frame_idx b"])
    case (found lo n hi)
    have qs: "que q = ms @ lo @ n # hi" using sp found(1) by (simp add: queue_split_def)
    have "P (node_with n slot b)" by (rule fill) (use p nok qs found(2) in auto)
    then show ?thesis
      using e found(5) p enqueue_found_effect [OF qs found(6), of ops s slot b] by (auto simp: qs Let_def split: if_splits)
  next
    case (new lo hi)
    have qs: "que q = ms @ lo @ hi" using sp new(1) by (simp add: queue_split_def)
    have step: "(s', q') = enqueue_new ops s q slot ?r b" using e new(4) by (simp add: Let_def)
    note eff = enqueue_new_effect [OF qs new(4) [unfolded new(1)], of ops s slot b]
    show ?thesis
    proof (cases "evict q (lo @ hi)")
      case False
      then have i: "insert_node ops s q slot (if hi = [] then None else Some (length (ms @ lo))) b = (s', q')"
        using step eff by simp
      show ?thesis
        using insert_nodes [OF _ _ _ i, of P] p qs assms(4) [OF refl] by simp
    next
      case True
      show ?thesis
      proof (cases lo)
        case Nil
        then show ?thesis using True step eff p by simp
      next
        case (Cons n lo')
        let ?q = "q\<lparr>que := (ms @ lo') @ hi, que_size := que_size q - 1\<rparr>"
        have i: "insert_node ops (release_nonzero ops n s) ?q slot
            (if hi = [] then None else Some (length (ms @ lo'))) b = (s', q')"
          using True step eff Cons by simp
        show ?thesis
          using insert_nodes [OF _ _ _ i, of P] p qs Cons assms(4) [of ?q] by simp
      qed
    qed
  qed
qed

lemma enqueue_nodes:
  assumes inv: "superbuf_inv q" and p: "list_all P (que q)"
    and fill: "\<And>n slot. P n \<Longrightarrow> node_ok (num_streams q) n \<Longrightarrow> nd_frame_idx n = bi_frame_idx b \<Longrightarrow>
      bundle_slot (bi_stream_id b) (take (unat (num_streams q)) (bundled_streams q)) 0 = Some slot \<Longrightarrow> P (node_with n slot b)"
    and new: "\<And>q1 slot. num_streams q1 = num_streams q \<Longrightarrow>
      bundle_slot (bi_stream_id b) (take (unat (num_streams q)) (bundled_streams q)) 0 = Some slot \<Longrightarrow> P (new_node q1 slot b)"
    and e: "mm_channel_superbuf_comp_and_enqueue ops s q b = (s', q', rc)"
  shows "list_all P (que q') \<and> bundled_streams q' = bundled_streams q \<and> num_streams q' = num_streams q \<and> attr q' = attr q"
proof (cases "bundle_slot (bi_stream_id b) (take (unat (num_streams q)) (bundled_streams q)) 0")
  case None
  then show ?thesis using e p by (simp add: mm_channel_superbuf_comp_and_enqueue_def)
next
  case (Some slot)
  obtain s1 q1 rc1 where md: "mm_channel_handle_metadata ops s q b = (s1, q1, rc1)" by (metis prod_cases3)
  note i1 = handle_metadata_inv [OF inv md]
  have "que q1 = que q \<or> que q1 = []"
    using md unfolding mm_channel_handle_metadata_def flush_all
    by (auto simp: flush_all split: stream_view.splits option.splits if_splits)
  then have p1: "list_all P (que q1)" using p by auto
  show ?thesis
  proof (cases "rc1 <s 0 \<or> mm_channel_util_seq_comp_w_rollover (bi_frame_idx b) (expected_frame_id q1) < 0")
    case True
    then show ?thesis
      using e Some md p1 i1 by (auto simp: mm_channel_superbuf_comp_and_enqueue_def split: if_splits)
  next
    case False
    then have "(s', q') = (let r = superbuf_scan (bi_frame_idx b) 0 (que q1) scan_start
        in case sc_found r of Some pos \<Rightarrow> enqueue_found ops s1 q1 slot r pos b | None \<Rightarrow> enqueue_new ops s1 q1 slot r b)"
      using e Some md by (auto simp: mm_channel_superbuf_comp_and_enqueue_def Let_def split: prod.splits)
    from step_nodes [OF _ p1 _ _ this] i1 fill new Some show ?thesis by auto
  qed
qed

section \<open>What the operations do to the channel\<close>

text \<open>Whatever relation between states each single operation of the channel respects, the queue's
  operations respect.\<close>

locale ops_keep =
  fixes ops :: "'s chan_ops" and R :: "'s \<Rightarrow> 's \<Rightarrow> bool"
  assumes keep_refl: "R s s"
    and keep_trans: "R s t \<Longrightarrow> R t u \<Longrightarrow> R s u"
    and keep_qbuf: "R s (op_qbuf ops b s)"
    and keep_alloc: "R s (snd (op_alloc ops s))"
    and keep_led: "R s (op_set_led ops v s)"
begin

lemma keep_fold:
  assumes "\<And>a s. R s (f a s)"
  shows "R s (fold f xs s)"
proof (induction xs arbitrary: s)
  case (Cons a xs)
  show ?case using keep_trans [OF assms Cons.IH] by simp
qed (simp add: keep_refl)

lemma keep_release: "R s (release_held ops n s)" "R s (release_nonzero ops n s)"
  unfolding release_held_def release_nonzero_def by (rule keep_fold, simp add: keep_qbuf keep_refl)+

lemma keep_overflow_loop:
  assumes "bufdone_overflow_loop ops s q = Some (s', q')"
  shows "R s s'"
proof -
  have "ops = ops \<longrightarrow> R s (fst (s', q'))"
  proof (rule bufdone_overflow_loop.raw_induct [where P = "\<lambda>ops' s q y. ops' = ops \<longrightarrow> R s (fst y)", OF _ assms], rule impI)
    fix loop ops' s q y
    assume ih: "\<And>ops' s q y. loop ops' s q = Some y \<Longrightarrow> ops' = ops \<longrightarrow> R s (fst y)" and "ops' = ops"
      and "(if ucast (water_mark (attr q)) < match_cnt q
        then let (q, sb) = mm_channel_superbuf_dequeue_internal q True
             in case sb of None \<Rightarrow> loop ops' s q | Some n \<Rightarrow> loop ops' (release_held ops' n s) q
        else Some (s, q)) = Some y"
    then show "R s (fst y)"
      by (auto simp: Let_def keep_refl dest!: ih intro: keep_trans [OF keep_release(1)]
          split: if_splits option.splits prod.splits)
  qed
  then show ?thesis by simp
qed

lemma keep_skip_loop:
  assumes "superbuf_skip_loop ops s q = Some (s', q')"
  shows "R s s'"
proof -
  have "ops = ops \<longrightarrow> R s (fst (s', q'))"
  proof (rule superbuf_skip_loop.raw_induct [where P = "\<lambda>ops' s q y. ops' = ops \<longrightarrow> R s (fst y)", OF _ assms], rule impI)
    fix loop ops' s q y
    assume ih: "\<And>ops' s q y. loop ops' s q = Some y \<Longrightarrow> ops' = ops \<longrightarrow> R s (fst y)" and "ops' = ops"
      and "(if ucast (look_back (attr q)) < match_cnt q
        then let (q, sb) = mm_channel_superbuf_dequeue_internal q True
             in case sb of None \<Rightarrow> loop ops' s q | Some n \<Rightarrow> loop ops' (release_held ops' n s) q
        else Some (s, q)) = Some y"
    then show "R s (fst y)"
      by (auto simp: Let_def keep_refl dest!: ih intro: keep_trans [OF keep_release(1)]
          split: if_splits option.splits prod.splits)
  qed
  then show ?thesis by simp
qed

lemma keep_overflow: "mm_channel_superbuf_bufdone_overflow ops s q = Some (s', q', rc) \<Longrightarrow> R s s'"
  by (auto simp: mm_channel_superbuf_bufdone_overflow_def keep_refl dest: keep_overflow_loop split: if_splits)

lemma keep_skip: "mm_channel_superbuf_skip ops s q = Some (s', q', rc) \<Longrightarrow> R s s'"
  by (auto simp: mm_channel_superbuf_skip_def keep_refl dest: keep_skip_loop split: if_splits)

lemma keep_flush: "mm_channel_superbuf_flush ops s q = (s', q') \<Longrightarrow> R s s'"
  by (auto simp: flush_all intro: keep_fold keep_release(1))

lemma keep_metadata: "mm_channel_handle_metadata ops s q b = (s', q', rc) \<Longrightarrow> R s s'"
  unfolding mm_channel_handle_metadata_def
  by (auto simp: keep_refl keep_led Let_def intro: keep_trans [OF keep_flush keep_led]
      split: stream_view.splits option.splits if_splits prod.splits)

lemma keep_insert: "insert_node ops s q slot before b = (s', q') \<Longrightarrow> R s s'"
  using keep_alloc [of s]
  by (auto simp: insert_node_def Let_def intro: keep_trans [OF _ keep_qbuf] split: prod.splits if_splits)

lemma keep_release_older: "release_older ops i j s q = (s', q') \<Longrightarrow> R s s'"
  by (auto simp: release_older_def intro: keep_fold keep_release(2))

lemma keep_enqueue:
  assumes "mm_channel_superbuf_comp_and_enqueue ops s q b = (s', q', rc)"
  shows "R s s'"
proof -
  have found: "R s1 s2" if "enqueue_found ops s1 q1 slot r pos b = (s2, q2)" for s1 q1 slot r pos s2 q2
    using that by (auto simp: enqueue_found_def Let_def keep_refl dest: keep_release_older split: if_splits option.splits)
  have new: "R s1 s2" if "enqueue_new ops s1 q1 slot r b = (s2, q2)" for s1 q1 slot r s2 q2
    using that by (auto simp: enqueue_new_def Let_def keep_qbuf intro: keep_insert keep_trans [OF keep_release_older keep_insert]
        split: if_splits option.splits prod.splits)
  show ?thesis
    using assms by (auto simp: mm_channel_superbuf_comp_and_enqueue_def Let_def keep_refl
        dest!: keep_metadata intro: keep_trans [OF _ keep_qbuf] keep_trans [OF _ found] keep_trans [OF _ new]
        split: option.splits prod.splits if_splits)
qed

end

section \<open>Sequences of operations\<close>

text \<open>The queue as the start of a channel leaves it, and the operations the channel's threads make on it.\<close>

definition queue_started :: "mm_channel_queue \<Rightarrow> bool" where
  "queue_started q \<longleftrightarrow> que q = [] \<and> que_size q = 0 \<and> match_cnt q = 0 \<and> 0 < num_streams q \<and> unat (num_streams q) \<le> MAX_STREAM_NUM_IN_BUNDLE"

inductive sb_reachable :: "'s chan_ops \<Rightarrow> mm_channel_queue \<Rightarrow> bool" for ops where
  start: "queue_started q \<Longrightarrow> sb_reachable ops q"
| enqueue: "sb_reachable ops q \<Longrightarrow> mm_channel_superbuf_comp_and_enqueue ops s q b = (s', q', rc) \<Longrightarrow> sb_reachable ops q'"
| dequeue: "sb_reachable ops q \<Longrightarrow> mm_channel_superbuf_dequeue q = (q', n) \<Longrightarrow> sb_reachable ops q'"
| overflow: "sb_reachable ops q \<Longrightarrow> mm_channel_superbuf_bufdone_overflow ops s q = Some (s', q', rc) \<Longrightarrow> sb_reachable ops q'"
| skip: "sb_reachable ops q \<Longrightarrow> mm_channel_superbuf_skip ops s q = Some (s', q', rc) \<Longrightarrow> sb_reachable ops q'"
| flush: "sb_reachable ops q \<Longrightarrow> mm_channel_superbuf_flush ops s q = (s', q') \<Longrightarrow> sb_reachable ops q'"
| notify: "sb_reachable ops q \<Longrightarrow> sb_reachable ops (q\<lparr>attr := (attr q)\<lparr>notify_mode := m\<rparr>\<rparr>)"

text \<open>A node of a bundle: every slot is empty or holds the frame of its stream with the index of the
  node; in a matched node none is empty; with several streams a matched node's index is not 0.\<close>

definition filled :: "u32 list \<Rightarrow> mm_channel_queue_node \<Rightarrow> nat \<Rightarrow> bool" where
  "filled sids n i \<longleftrightarrow> bi_frame_idx (super_buf n ! i) = nd_frame_idx n \<and> bi_stream_id (super_buf n ! i) = sids ! i"

definition coherent :: "u32 list \<Rightarrow> u8 \<Rightarrow> mm_channel_queue_node \<Rightarrow> bool" where
  "coherent sids k n \<longleftrightarrow> node_ok k n \<and> (\<forall>i<num_of_bufs n. super_buf n ! i = buf_info_zero \<or> filled sids n i)
     \<and> (matched n \<longrightarrow> (\<forall>i<num_of_bufs n. filled sids n i)) \<and> (matched n \<and> k \<noteq> 1 \<longrightarrow> nd_frame_idx n \<noteq> 0)"

lemma slot_facts:
  assumes "bundle_slot sid (take k sids) 0 = Some slot"
  shows "slot < k" "sids ! slot = sid" "slot < length sids"
  using bundle_slot_Some [OF assms] by auto

lemma node_with_coherent:
  assumes n: "coherent sids k n" and f: "nd_frame_idx n = bi_frame_idx b"
    and slot: "bundle_slot (bi_stream_id b) (take (unat k) sids) 0 = Some slot" and le: "unat k \<le> MAX_STREAM_NUM_IN_BUNDLE"
  shows "coherent sids k (node_with n slot b)"
proof -
  note sf = slot_facts [OF slot]
  have ok: "num_of_bufs n = unat k" "length (super_buf n) = MAX_STREAM_NUM_IN_BUNDLE" using n by (auto simp: coherent_def node_ok_def)
  let ?n = "node_with n slot b"
  have fill: "super_buf ?n ! i = buf_info_zero \<or> filled sids ?n i" if "i < unat k" for i
    using n that sf ok le f by (cases "i = slot") (auto simp: coherent_def filled_def nth_list_update)
  have m: "bi_frame_idx (super_buf ?n ! i) \<noteq> 0" if "matched ?n" "i < unat k" for i
  proof -
    have "super_buf ?n ! i \<in> set (take (unat k) (super_buf ?n))"
      using that ok le by (auto simp: in_set_conv_nth intro!: exI [of _ i])
    then show ?thesis using that(1) ok by (simp add: node_with_def)
  qed
  have "filled sids ?n i" if "matched ?n" "i < unat k" for i
    using fill [OF that(2)] m [OF that] by (auto simp: buf_info_zero_def)
  moreover have "nd_frame_idx ?n \<noteq> 0" if "matched ?n"
    using m [OF that sf(1)] sf ok le f by simp
  ultimately show ?thesis
    using fill n ok unfolding coherent_def by (simp add: node_ok_def)
qed

lemma new_node_simps:
  "num_of_bufs (new_node q slot b) = unat (num_streams q)" "matched (new_node q slot b) \<longleftrightarrow> num_streams q = 1"
  "length (super_buf (new_node q slot b)) = MAX_STREAM_NUM_IN_BUNDLE" "nd_frame_idx (new_node q slot b) = bi_frame_idx b"
  by (simp_all add: new_node_def)

lemma new_node_coherent:
  assumes slot: "bundle_slot (bi_stream_id b) (take (unat (num_streams q)) sids) 0 = Some slot" and le: "unat (num_streams q) \<le> MAX_STREAM_NUM_IN_BUNDLE"
  shows "coherent sids (num_streams q) (new_node q slot b)"
proof -
  note sf = slot_facts [OF slot]
  have sb: "super_buf (new_node q slot b) ! i = (if i = slot then b else buf_info_zero)" if "i < unat (num_streams q)" for i
    using that le by (simp add: new_node_def nth_list_update)
  have fs: "filled sids (new_node q slot b) slot"
    using sf le by (simp add: filled_def new_node_def)
  have "matched (new_node q slot b) \<Longrightarrow> i < unat (num_streams q) \<Longrightarrow> i = slot" for i
    using sf(1) by (simp add: new_node_simps)
  then show ?thesis
    using sb fs by (auto simp: coherent_def node_ok_def new_node_simps)
qed

text \<open>The invariant of a started queue.\<close>

definition bundle_inv :: "mm_channel_queue \<Rightarrow> bool" where
  "bundle_inv q \<longleftrightarrow> superbuf_inv q \<and> list_all (coherent (bundled_streams q) (num_streams q)) (que q)"

lemma dequeue_bundle_inv:
  assumes "bundle_inv q" "mm_channel_superbuf_dequeue q = (q', n)"
  shows "bundle_inv q' \<and> attr q' = attr q \<and> (que q' = que q \<or> (\<exists>m. que q = m # que q' \<and> n = Some m \<and> matched m))"
proof (cases "que q")
  case Nil
  then show ?thesis using assms by (auto simp: mm_channel_superbuf_dequeue_def mm_channel_superbuf_dequeue_internal_def)
next
  case (Cons m ns)
  show ?thesis
  proof (cases "matched m")
    case True
    obtain ms us where s: "queue_split (que q) ms us" "match_cnt q = of_nat (length ms)" "num_streams q = 1 \<Longrightarrow> us = []"
      "list_all (node_ok (num_streams q)) (que q)" "que_size q = of_nat (length (que q))"
      "0 < num_streams q" "unat (num_streams q) \<le> MAX_STREAM_NUM_IN_BUNDLE"
      using assms(1) superbuf_invE unfolding bundle_inv_def by metis
    have "m # ns = ms @ us" "list_all (\<lambda>n. \<not> matched n) us" using s(1) Cons by (auto simp: queue_split_def)
    then obtain ms' where ms: "ms = m # ms'" "ns = ms' @ us"
      using True by (cases ms) auto
    let ?q = "q\<lparr>que := ns, que_size := que_size q - 1, match_cnt := match_cnt q - 1\<rparr>"
    have "superbuf_inv ?q"
      unfolding superbuf_inv_def using s ms Cons by (auto simp: queue_split_def)
    moreover have "q' = ?q" "n = Some m"
      using assms(2) Cons True by (auto simp: mm_channel_superbuf_dequeue_def mm_channel_superbuf_dequeue_internal_def)
    ultimately show ?thesis using assms(1) Cons True by (simp add: bundle_inv_def)
  next
    case False
    then show ?thesis
      using assms Cons by (auto simp: mm_channel_superbuf_dequeue_def mm_channel_superbuf_dequeue_internal_def)
  qed
qed

lemma enqueue_bundle_inv:
  assumes "bundle_inv q" "mm_channel_superbuf_comp_and_enqueue ops s q b = (s', q', rc)"
  shows "bundle_inv q' \<and> attr q' = attr q \<and> num_streams q' = num_streams q"
proof -
  let ?P = "coherent (bundled_streams q) (num_streams q)"
  have i: "superbuf_inv q" "list_all ?P (que q)" "unat (num_streams q) \<le> MAX_STREAM_NUM_IN_BUNDLE"
    using assms(1) by (auto simp: bundle_inv_def superbuf_inv_def)
  have "list_all ?P (que q') \<and> bundled_streams q' = bundled_streams q \<and> num_streams q' = num_streams q \<and> attr q' = attr q"
  proof (rule enqueue_nodes [OF i(1,2) _ _ assms(2)])
    fix q1 :: mm_channel_queue and slot
    assume n: "num_streams q1 = num_streams q"
      and sl: "bundle_slot (bi_stream_id b) (take (unat (num_streams q)) (bundled_streams q)) 0 = Some slot"
    show "?P (new_node q1 slot b)"
      using new_node_coherent [of b q1 "bundled_streams q" slot] n sl i(3) by simp
  qed (simp add: node_with_coherent i(3))
  then show ?thesis using comp_and_enqueue_inv [OF i(1) assms(2)] by (simp add: bundle_inv_def)
qed

lemma bundle_inv_cut:
  "superbuf_inv q' \<Longrightarrow> bundle_inv q \<Longrightarrow> que q' = drop k (que q) \<Longrightarrow> bundled_streams q' = bundled_streams q \<Longrightarrow>
   num_streams q' = num_streams q \<Longrightarrow> bundle_inv q'"
  unfolding bundle_inv_def by (auto simp: list_all_iff dest: in_set_dropD)

lemma overflow_returns:
  assumes "bundle_inv q"
  shows "\<exists>s' q' k. mm_channel_superbuf_bufdone_overflow ops s q = Some (s', q', 0) \<and> bundle_inv q' \<and> attr q' = attr q
    \<and> que q' = drop k (que q) \<and> list_all matched (take k (que q)) \<and> s' = fold (release_held ops) (take k (que q)) s
    \<and> (notify_mode (attr q) \<noteq> MM_CAMERA_SUPER_BUF_NOTIFY_CONTINUOUS \<longrightarrow> match_cnt q' \<le> ucast (water_mark (attr q)))"
proof (cases "notify_mode (attr q) = MM_CAMERA_SUPER_BUF_NOTIFY_CONTINUOUS")
  case True
  then show ?thesis
    using assms by (auto simp: mm_channel_superbuf_bufdone_overflow_def intro!: exI [of _ "0::nat"])
next
  case False
  have i: "superbuf_inv q" using assms by (simp add: bundle_inv_def)
  obtain s' q' k where l: "bufdone_overflow_loop ops s q = Some (s', q')" "superbuf_inv q'" "attr q' = attr q"
      "match_cnt q' \<le> ucast (water_mark (attr q))" "que q' = drop k (que q)" "list_all matched (take k (que q))"
      "s' = fold (release_held ops) (take k (que q)) s" "num_streams q' = num_streams q" "bundled_streams q' = bundled_streams q"
    using overflow_loop_terminates [OF i] by metis
  then show ?thesis
    using False bundle_inv_cut [OF l(2) assms l(5,9,8)] by (auto simp: mm_channel_superbuf_bufdone_overflow_def)
qed

lemma skip_returns:
  assumes "bundle_inv q"
  shows "\<exists>s' q' k. mm_channel_superbuf_skip ops s q = Some (s', q', 0) \<and> bundle_inv q' \<and> attr q' = attr q
    \<and> que q' = drop k (que q) \<and> list_all matched (take k (que q)) \<and> s' = fold (release_held ops) (take k (que q)) s
    \<and> (notify_mode (attr q) \<noteq> MM_CAMERA_SUPER_BUF_NOTIFY_CONTINUOUS \<longrightarrow> match_cnt q' \<le> ucast (look_back (attr q)))"
proof (cases "notify_mode (attr q) = MM_CAMERA_SUPER_BUF_NOTIFY_CONTINUOUS")
  case True
  then show ?thesis
    using assms by (auto simp: mm_channel_superbuf_skip_def intro!: exI [of _ "0::nat"])
next
  case False
  have i: "superbuf_inv q" using assms by (simp add: bundle_inv_def)
  obtain s' q' k where l: "superbuf_skip_loop ops s q = Some (s', q')" "superbuf_inv q'" "attr q' = attr q"
      "match_cnt q' \<le> ucast (look_back (attr q))" "que q' = drop k (que q)" "list_all matched (take k (que q))"
      "s' = fold (release_held ops) (take k (que q)) s" "num_streams q' = num_streams q" "bundled_streams q' = bundled_streams q"
    using skip_loop_terminates [OF i] by metis
  then show ?thesis
    using False bundle_inv_cut [OF l(2) assms l(5,9,8)] by (auto simp: mm_channel_superbuf_skip_def)
qed

lemma flush_bundle_inv:
  assumes "bundle_inv q" "mm_channel_superbuf_flush ops s q = (s', q')"
  shows "bundle_inv q' \<and> attr q' = attr q \<and> que q' = []"
proof -
  have i: "superbuf_inv q" using assms(1) by (simp add: bundle_inv_def)
  have "attr q' = attr q" using assms(2) unfolding flush_all by auto
  then show ?thesis using flush_inv [OF i assms(2)] by (simp add: bundle_inv_def)
qed

lemma sb_reachable_inv: "sb_reachable ops q \<Longrightarrow> bundle_inv q"
proof (induction rule: sb_reachable.induct)
  case (start q)
  then show ?case by (simp add: queue_started_def bundle_inv_def superbuf_inv_def queue_split_def)
next
  case (enqueue q s b s' q' rc)
  show ?case using enqueue_bundle_inv [OF enqueue.IH enqueue.hyps(2)] by simp
next
  case (dequeue q q' n)
  show ?case using dequeue_bundle_inv [OF dequeue.IH dequeue.hyps(2)] by simp
next
  case (overflow q s s' q' rc)
  then show ?case using overflow_returns [of q ops s] by auto
next
  case (skip q s s' q' rc)
  then show ?case using skip_returns [of q ops s] by auto
next
  case (flush q s s' q')
  show ?case using flush_bundle_inv [OF flush.IH flush.hyps(2)] by simp
next
  case (notify q m)
  then show ?case by (simp add: bundle_inv_def superbuf_inv_def)
qed

section \<open>The bound on waiting bundles\<close>

definition waiting :: "mm_channel_queue_node list \<Rightarrow> nat" where
  "waiting ns = length (filter (\<lambda>n. \<not> matched n) ns)"

lemma waiting_simps [simp]:
  "waiting [] = 0" "waiting (n # ns) = (if matched n then 0 else 1) + waiting ns" "waiting (xs @ ys) = waiting xs + waiting ys"
  by (simp_all add: waiting_def)

lemma waiting_split: "queue_split ns ms us \<Longrightarrow> waiting ns = length us"
  by (auto simp: queue_split_def waiting_def list_all_iff filter_id_conv filter_empty_conv)

lemma insert_waiting:
  assumes "que q = xs @ ys" "insert_node ops s q slot (if ys = [] then None else Some (length xs)) b = (s', q')"
  shows "waiting (que q') \<le> Suc (waiting (que q))"
proof -
  obtain ok s1 where a: "op_alloc ops s = (ok, s1)" by fastforce
  show ?thesis
    using assms unfolding insert_node_effect [OF a assms(1) refl] by (auto split: if_splits)
qed

lemma step_waiting:
  assumes inv: "superbuf_inv q" and m: "unat (max_unmatched_frames (attr q)) < 255"
    and le: "waiting (que q) \<le> Suc (unat (max_unmatched_frames (attr q)))"
    and e: "(s', q') = (let r = superbuf_scan (bi_frame_idx b) 0 (que q) scan_start
        in case sc_found r of Some pos \<Rightarrow> enqueue_found ops s q slot r pos b | None \<Rightarrow> enqueue_new ops s q slot r b)"
  shows "waiting (que q') \<le> Suc (unat (max_unmatched_frames (attr q)))"
proof -
  obtain ms us where sp: "queue_split (que q) ms us" using superbuf_invE [OF inv] by metis
  note wq = waiting_split [OF sp]
  let ?r = "superbuf_scan (bi_frame_idx b) 0 (que q) scan_start"
  from sp show ?thesis
  proof (cases rule: scan_split [of "que q" ms us "bi_frame_idx b"])
    case (found lo n hi)
    have qs: "que q = ms @ lo @ n # hi" and "\<not> matched n" using sp found(1) by (simp_all add: queue_split_def)
    then show ?thesis
      using e found(5) le enqueue_found_effect [OF qs found(6), of ops s slot b] by (auto simp: Let_def split: if_splits)
  next
    case (new lo hi)
    have qs: "que q = ms @ lo @ hi" using sp new(1) by (simp add: queue_split_def)
    have step: "(s', q') = enqueue_new ops s q slot ?r b" using e new(4) by (simp add: Let_def)
    note eff = enqueue_new_effect [OF qs new(4) [unfolded new(1)], of ops s slot b]
    have "unat (of_nat (length us) :: u8) = length us" using le m wq by (simp add: unat_of_nat)
    then have ev: "evict q (lo @ hi) \<longleftrightarrow> unat (max_unmatched_frames (attr q)) < length us"
      using new(1) by (simp add: evict_def word_less_nat_alt)
    show ?thesis
    proof (cases "evict q (lo @ hi)")
      case False
      then have i: "insert_node ops s q slot (if hi = [] then None else Some (length (ms @ lo))) b = (s', q')"
        using step eff by simp
      show ?thesis using insert_waiting [OF _ i] False ev wq qs by simp
    next
      case True
      show ?thesis
      proof (cases lo)
        case Nil
        then show ?thesis using True step eff le by simp
      next
        case (Cons n lo')
        let ?q = "q\<lparr>que := (ms @ lo') @ hi, que_size := que_size q - 1\<rparr>"
        have i: "insert_node ops (release_nonzero ops n s) ?q slot
            (if hi = [] then None else Some (length (ms @ lo'))) b = (s', q')"
          using True step eff Cons by simp
        have "\<not> matched n" using sp new(1) Cons by (simp add: queue_split_def)
        then show ?thesis using insert_waiting [OF _ i] le qs Cons by simp
      qed
    qed
  qed
qed

lemma enqueue_waiting:
  assumes inv: "superbuf_inv q" and m: "unat (max_unmatched_frames (attr q)) < 255"
    and le: "waiting (que q) \<le> Suc (unat (max_unmatched_frames (attr q)))"
    and e: "mm_channel_superbuf_comp_and_enqueue ops s q b = (s', q', rc)"
  shows "waiting (que q') \<le> Suc (unat (max_unmatched_frames (attr q)))"
proof (cases "bundle_slot (bi_stream_id b) (take (unat (num_streams q)) (bundled_streams q)) 0")
  case None
  then show ?thesis using e le by (simp add: mm_channel_superbuf_comp_and_enqueue_def)
next
  case (Some slot)
  obtain s1 q1 rc1 where md: "mm_channel_handle_metadata ops s q b = (s1, q1, rc1)" by (metis prod_cases3)
  note i1 = handle_metadata_inv [OF inv md]
  have "que q1 = que q \<or> que q1 = []"
    using md unfolding mm_channel_handle_metadata_def flush_all
    by (auto simp: flush_all split: stream_view.splits option.splits if_splits)
  then have le1: "waiting (que q1) \<le> Suc (unat (max_unmatched_frames (attr q1)))" using le i1 by auto
  show ?thesis
  proof (cases "rc1 <s 0 \<or> mm_channel_util_seq_comp_w_rollover (bi_frame_idx b) (expected_frame_id q1) < 0")
    case True
    then show ?thesis
      using e Some md le1 i1 by (auto simp: mm_channel_superbuf_comp_and_enqueue_def split: if_splits)
  next
    case False
    then have "(s', q') = (let r = superbuf_scan (bi_frame_idx b) 0 (que q1) scan_start
        in case sc_found r of Some pos \<Rightarrow> enqueue_found ops s1 q1 slot r pos b | None \<Rightarrow> enqueue_new ops s1 q1 slot r b)"
      using e Some md by (auto simp: mm_channel_superbuf_comp_and_enqueue_def Let_def split: prod.splits)
    from step_waiting [OF _ _ le1 this] i1 m show ?thesis by auto
  qed
qed

lemma waiting_drop: "waiting (drop k ns) \<le> waiting ns"
  by (metis append_take_drop_id le_add2 waiting_simps(3))

section \<open>The properties\<close>

text \<open>C4: after any sequence of operations the queue is well formed: matched bundles stand before the
  unmatched ones, the unmatched ones in strictly ascending frame order; \<^verbatim>\<open>match_cnt\<close> is the number of matched
  bundles and \<^verbatim>\<open>que.size\<close> the number of all.\<close>

theorem superbuf_queue_structure:
  assumes "sb_reachable ops q"
  shows "\<exists>ms us. que q = ms @ us \<and> list_all matched ms \<and> list_all (\<lambda>n. \<not> matched n) us
    \<and> sorted_wrt (<) (map nd_frame_idx us) \<and> match_cnt q = of_nat (length ms) \<and> que_size q = of_nat (length (que q))"
  using sb_reachable_inv [OF assms] unfolding bundle_inv_def superbuf_inv_def queue_split_def by blast

text \<open>C3: a super buffer handed out is a complete bundle: after any sequence of operations, every slot of the
  dequeued node holds a frame of the stream bundled at that slot, and all frames have the same index.\<close>

theorem superbuf_dequeued_complete:
  assumes "sb_reachable ops q" "mm_channel_superbuf_dequeue q = (q', Some n)"
  shows "num_of_bufs n = unat (num_streams q) \<and> (\<forall>i<num_of_bufs n.
    bi_frame_idx (super_buf n ! i) = nd_frame_idx n \<and> bi_stream_id (super_buf n ! i) = bundled_streams q ! i)"
proof -
  note inv = sb_reachable_inv [OF assms(1)]
  have "que q = n # que q' \<and> matched n"
    using assms(2) by (auto simp: mm_channel_superbuf_dequeue_def mm_channel_superbuf_dequeue_internal_def
        split: list.splits if_splits)
  then show ?thesis using inv by (auto simp: bundle_inv_def coherent_def node_ok_def filled_def)
qed


text \<open>frame index 0 doubles as the mark of an empty slot: in a bundle of several streams a bundle of frame 0
  is never matched, whatever frames arrive, and when it is given up none of its buffers goes back
  to its stream.\<close>

theorem superbuf_frame_zero_lost:
  assumes "sb_reachable ops q" "num_streams q \<noteq> 1" "n \<in> set (que q)" "nd_frame_idx n = 0"
  shows "\<not> matched n \<and> release_nonzero ops n s = s"
proof -
  have n: "coherent (bundled_streams q) (num_streams q) n" and "unat (num_streams q) \<le> MAX_STREAM_NUM_IN_BUNDLE"
    using sb_reachable_inv [OF assms(1)] assms(3) by (auto simp: bundle_inv_def superbuf_inv_def list_all_iff)
  then have z: "bi_frame_idx x = 0" if "x \<in> set (take (num_of_bufs n) (super_buf n))" for x
    using that assms(4) by (auto simp: coherent_def in_set_conv_nth filled_def buf_info_zero_def)
  have "fold (\<lambda>b s. if bi_frame_idx b \<noteq> 0 then op_qbuf ops (bi_buf b) s else s) xs s = s"
    if "\<forall>x\<in>set xs. bi_frame_idx x = 0" for xs
    using that by (induction xs) auto
  then show ?thesis using z n assms(2,4) by (auto simp: release_nonzero_def coherent_def)
qed

text \<open>C22: as long as the configured number of unmatched frames is below 255, at most one more bundle than that
  ever waits for its missing frames, whatever frames the streams deliver.\<close>

theorem superbuf_waiting_bounded:
  assumes "sb_reachable ops q" "unat (max_unmatched_frames (attr q)) < 255"
  shows "length (filter (\<lambda>n. \<not> matched n) (que q)) \<le> unat (max_unmatched_frames (attr q)) + 1"
proof -
  have "unat (max_unmatched_frames (attr q)) < 255 \<longrightarrow> waiting (que q) \<le> Suc (unat (max_unmatched_frames (attr q)))"
    using assms(1)
  proof (induction rule: sb_reachable.induct)
    case (start q)
    then show ?case by (simp add: queue_started_def)
  next
    case (enqueue q s b s' q' rc)
    note i = sb_reachable_inv [OF enqueue.hyps(1)]
    show ?case
      using enqueue_waiting [OF _ _ _ enqueue.hyps(2)] enqueue_bundle_inv [OF i enqueue.hyps(2)] enqueue.IH i
      by (simp add: bundle_inv_def)
  next
    case (dequeue q q' n)
    show ?case
      using dequeue_bundle_inv [OF sb_reachable_inv [OF dequeue.hyps(1)] dequeue.hyps(2)] dequeue.IH by auto
  next
    case (overflow q s s' q' rc)
    then show ?case
      using overflow_returns [OF sb_reachable_inv [OF overflow.hyps(1)], of ops s]
      by (auto intro: le_trans [OF waiting_drop])
  next
    case (skip q s s' q' rc)
    then show ?case
      using skip_returns [OF sb_reachable_inv [OF skip.hyps(1)], of ops s]
      by (auto intro: le_trans [OF waiting_drop])
  next
    case (flush q s s' q')
    show ?case using flush_bundle_inv [OF sb_reachable_inv [OF flush.hyps(1)] flush.hyps(2)] by simp
  next
    case (notify q m)
    then show ?case by simp
  qed
  then show ?thesis using assms(2) by (simp add: waiting_def)
qed

text \<open>A channel of two streams; its state is the list of the buffers given back.\<close>

definition ex_ops :: "mm_camera_buf_def option list chan_ops" where
  "ex_ops = \<lparr>op_qbuf = (\<lambda>b s. s @ [b]), op_stream = (\<lambda>h s. StreamOf CAM_STREAM_TYPE_PREVIEW), op_metadata = (\<lambda>b s. None),
     op_alloc = (\<lambda>s. (True, s)), op_set_led = (\<lambda>v s. s)\<rparr>"

definition ex_info :: "u32 \<Rightarrow> u32 \<Rightarrow> mm_camera_buf_info" where
  "ex_info sid f = \<lparr>bi_stream_id = sid, bi_frame_idx = f, bi_buf = None\<rparr>"

definition ex_bundle_queue :: mm_channel_queue where
  "ex_bundle_queue = \<lparr>que = [], que_size = 0, num_streams = 2, bundled_streams = [0x301, 0x402, 0, 0],
     attr = \<lparr>notify_mode = MM_CAMERA_SUPER_BUF_NOTIFY_BURST, water_mark = 0, look_back = 1, post_frame_skip = 1,
       max_unmatched_frames = 1\<rparr>, expected_frame_id = 0, match_cnt = 0\<rparr>"

definition ex_feed :: "mm_camera_buf_info list \<Rightarrow> mm_channel_queue" where
  "ex_feed bs = fold (\<lambda>b q. fst (snd (mm_channel_superbuf_comp_and_enqueue ex_ops [] q b))) bs ex_bundle_queue"

lemma ex_feed_reachable: "sb_reachable ex_ops (ex_feed bs)"
proof (induction bs rule: rev_induct)
  case Nil
  have "queue_started ex_bundle_queue" by (simp add: queue_started_def ex_bundle_queue_def MAX_STREAM_NUM_IN_BUNDLE_def)
  then show ?case by (simp add: ex_feed_def sb_reachable.start)
next
  case (snoc b bs)
  obtain s' q' rc where "mm_channel_superbuf_comp_and_enqueue ex_ops [] (ex_feed bs) b = (s', q', rc)" by (metis prod_cases3)
  then show ?case using sb_reachable.enqueue [OF snoc] by (simp add: ex_feed_def)
qed

text \<open>Frame 6 of the first stream, then frame 7 of both: frame 7 is matched and frame 6 given up.\<close>

definition ex_pair :: mm_channel_queue where
  "ex_pair = ex_feed [ex_info 0x301 6, ex_info 0x301 7, ex_info 0x402 7]"

lemma ex_pair_que: "map (\<lambda>n. (matched n, nd_frame_idx n, map bi_frame_idx (super_buf n))) (que ex_pair) = [(True, 7, [7, 7, 0, 0])]"
  "match_cnt ex_pair = 1" "attr ex_pair = attr ex_bundle_queue" "num_streams ex_pair = 2"
  by code_simp+

lemmas ex_reachable_pair = ex_feed_reachable [of "[ex_info 0x301 6, ex_info 0x301 7, ex_info 0x402 7]", folded ex_pair_def]

theorem superbuf_queue_structure_witness:
  "length (que ex_pair) = 1 \<and> match_cnt ex_pair = 1 \<and> que_size ex_pair = 1"
proof -
  have "length (que ex_pair) = 1" using arg_cong [OF ex_pair_que(1), of length] by simp
  then show ?thesis using superbuf_queue_structure [OF ex_reachable_pair] ex_pair_que(2) by auto
qed

theorem superbuf_dequeued_complete_witness:
  "\<exists>q' n. mm_channel_superbuf_dequeue ex_pair = (q', Some n) \<and> bi_frame_idx (super_buf n ! 0) = 7
     \<and> bi_frame_idx (super_buf n ! 1) = 7 \<and> bi_stream_id (super_buf n ! 1) = bundled_streams ex_pair ! 1"
proof -
  obtain n where n: "que ex_pair = [n]" "matched n" "nd_frame_idx n = 7" using ex_pair_que(1) by auto
  obtain q' where d: "mm_channel_superbuf_dequeue ex_pair = (q', Some n)"
    using n by (simp add: mm_channel_superbuf_dequeue_def mm_channel_superbuf_dequeue_internal_def)
  from superbuf_dequeued_complete [OF ex_reachable_pair this] show ?thesis using d n ex_pair_que(4) by auto
qed


definition ex_zero :: mm_channel_queue where
  "ex_zero = ex_feed [ex_info 0x301 0, ex_info 0x402 0]"

lemma ex_zero_que: "map (\<lambda>n. (matched n, nd_frame_idx n)) (que ex_zero) = [(False, 0)]" "num_streams ex_zero = 2"
  by code_simp+

theorem superbuf_frame_zero_lost_witness:
  "\<exists>n. que ex_zero = [n] \<and> nd_frame_idx n = 0 \<and> \<not> matched n \<and> release_nonzero ex_ops n [] = []"
proof -
  obtain n where n: "que ex_zero = [n]" "nd_frame_idx n = 0" using ex_zero_que(1) by auto
  have "\<not> matched n \<and> release_nonzero ex_ops n [] = []"
    by (rule superbuf_frame_zero_lost [OF ex_feed_reachable [of "[ex_info 0x301 0, ex_info 0x402 0]", folded ex_zero_def]])
      (use n ex_zero_que(2) in auto)
  then show ?thesis using n by blast
qed

theorem superbuf_waiting_bounded_witness:
  "length (filter (\<lambda>n. \<not> matched n) (que (ex_feed [ex_info 0x301 6, ex_info 0x301 7, ex_info 0x301 8, ex_info 0x301 9]))) \<le> 2"
proof -
  have "attr (ex_feed [ex_info 0x301 6, ex_info 0x301 7, ex_info 0x301 8, ex_info 0x301 9]) = attr ex_bundle_queue" by code_simp
  with superbuf_waiting_bounded [OF ex_feed_reachable [of "[ex_info 0x301 6, ex_info 0x301 7, ex_info 0x301 8, ex_info 0x301 9]"]]
  show ?thesis by (simp add: ex_bundle_queue_def)
qed

end
