(* ===== verification/Channel.thy ===== *)
theory Channel
  imports Stream SuperbufProps
begin

text \<open>
  A channel, \<^verbatim>\<open>camera/QCamera2/stack/mm-camera-interface/src/mm_camera_channel.c\<close> lines 126 to 1408:
  up to four streams, the data poll thread, the command thread that bundles frames into super buffers,
  the callback thread that hands them to the application, and the channel's state machine.

  The state of an operation is the channel together with the world.  The super-buffer queue of theory
  \<^verbatim>\<open>Superbuf\<close> runs on this state through \<^verbatim>\<open>channel_ops\<close>; it is taken out of the channel for the call and put
  back after it, which is faithful because nothing the queue calls touches the bundle.  A stream is named by its index
  in \<^verbatim>\<open>streams\<close>.  When a draining loop never returns, the trace gets the mark \<^verbatim>\<open>BlockedForever\<close>.
\<close>

datatype mm_channel_state =
    MM_CHANNEL_STATE_NOTUSED
  | MM_CHANNEL_STATE_STOPPED
  | MM_CHANNEL_STATE_ACTIVE
  | MM_CHANNEL_STATE_PAUSED

record mm_channel_bundle =
  is_active :: bool
  superbuf_queue :: mm_channel_queue
  super_buf_notify_cb :: "nat option"

record mm_channel =
  ch_my_hdl :: u32
  ch_state :: mm_channel_state
  ch_bundle :: mm_channel_bundle
  pending_cnt :: u32
  ch_cmd_thread :: cmd_thread
  cb_thread :: cmd_thread
  ch_poll :: "u32 mm_camera_poll_thread"
  streams :: "mm_stream list"
  cam_my_hdl :: u32
  cam_ctrl_fd :: i32
  startZSlSnapshotCalled :: bool
  needLEDFlash :: bool

type_synonym chan = "mm_channel \<times> world"

definition attr_zero :: mm_camera_channel_attr where
  "attr_zero = \<lparr>notify_mode = MM_CAMERA_SUPER_BUF_NOTIFY_BURST, water_mark = 0, look_back = 0, post_frame_skip = 0,
     max_unmatched_frames = 0\<rparr>"

definition bundle_zero :: mm_channel_bundle where
  "bundle_zero = \<lparr>is_active = False,
     superbuf_queue = \<lparr>que = [], que_size = 0, num_streams = 0, bundled_streams = replicate MAX_STREAM_NUM_IN_BUNDLE 0,
       attr = attr_zero, expected_frame_id = 0, match_cnt = 0\<rparr>, super_buf_notify_cb = None\<rparr>"

definition ctx_of :: "mm_channel \<Rightarrow> stream_ctx" where
  "ctx_of ch = \<lparr>cx_poll = ch_poll ch, cx_cmd_thread = ch_cmd_thread ch, cx_cam_hdl = cam_my_hdl ch, cx_ch_hdl = ch_my_hdl ch\<rparr>"

definition put_ctx :: "stream_ctx \<Rightarrow> mm_channel \<Rightarrow> mm_channel" where
  "put_ctx c ch = ch\<lparr>ch_poll := cx_poll c, ch_cmd_thread := cx_cmd_thread c\<rparr>"

definition set_queue :: "mm_channel_queue \<Rightarrow> mm_channel \<Rightarrow> mm_channel" where
  "set_queue q ch = ch\<lparr>ch_bundle := (ch_bundle ch)\<lparr>superbuf_queue := q\<rparr>\<rparr>"

section \<open>The streams of the channel\<close>

definition mm_channel_util_get_stream_by_handler :: "mm_channel \<Rightarrow> u32 \<Rightarrow> nat option" where
  "mm_channel_util_get_stream_by_handler ch handler =
     List.find (\<lambda>i. st_state (streams ch ! i) \<noteq> MM_STREAM_STATE_NOTUSED \<and> handler = my_hdl (streams ch ! i))
       [0 ..< MAX_STREAM_NUM_IN_BUNDLE]"

text \<open>Run the state machine of stream \<^verbatim>\<open>i\<close>.\<close>

definition run_stream :: "env \<Rightarrow> build \<Rightarrow> nat \<Rightarrow> mm_stream_evt \<Rightarrow> chan \<Rightarrow> chan \<times> i32" where
  "run_stream e bld i evt chw = (case chw of (ch, w) \<Rightarrow>
     (case mm_stream_fsm_fn e bld evt (streams ch ! i) (ctx_of ch) w of (s, c, w, rc) \<Rightarrow>
        (((put_ctx c ch)\<lparr>streams := (streams ch)[i := s]\<rparr>, w), rc)))"

definition mm_channel_qbuf :: "env \<Rightarrow> build \<Rightarrow> mm_camera_buf_def option \<Rightarrow> chan \<Rightarrow> chan \<times> i32" where
  "mm_channel_qbuf e bld buf chw = (case chw of (ch, w) \<Rightarrow>
     (case buf of
        None \<Rightarrow> ((ch, w @ [UndefinedBehaviour]), -1)
      | Some b \<Rightarrow>
          (let w = w @ [ChannelQbuf b] in
           case mm_channel_util_get_stream_by_handler ch (bd_stream_id b) of
             Some i \<Rightarrow> run_stream e bld i (MM_STREAM_EVT_QBUF b) (ch, w)
           | None \<Rightarrow> ((ch, w), -1))))"

text \<open>What the super-buffer queue uses of the channel.\<close>

definition channel_ops :: "env \<Rightarrow> build \<Rightarrow> chan chan_ops" where
  "channel_ops e bld = \<lparr>
     op_qbuf = (\<lambda>b chw. fst (mm_channel_qbuf e bld b chw)),
     op_stream = (\<lambda>h (ch, w). case mm_channel_util_get_stream_by_handler ch h of
        None \<Rightarrow> NoStream
      | Some i \<Rightarrow> (case stream_info (streams ch ! i) of None \<Rightarrow> NoStreamInfo | Some si \<Rightarrow> StreamOf (stream_type si))),
     op_metadata = (\<lambda>b (ch, w). case b of None \<Rightarrow> None | Some d \<Rightarrow> e_metadata e w d),
     op_alloc = (\<lambda>(ch, w). case malloc_ok e w of (w, ok) \<Rightarrow> (ok, (ch, w))),
     op_set_led = (\<lambda>v (ch, w). (ch\<lparr>needLEDFlash := v\<rparr>, w))\<rparr>"

section \<open>The callback thread\<close>

definition mm_channel_dispatch_super_buf :: "mm_camera_cmdcb \<Rightarrow> chan \<Rightarrow> chan" where
  "mm_channel_dispatch_super_buf cmd chw = (case chw of (ch, w) \<Rightarrow>
     (case cmd of
        CMD_SUPER_BUF_DATA_CB sb \<Rightarrow>
          (if super_buf_notify_cb (ch_bundle ch) \<noteq> None then (ch, w @ [SuperBufCallback sb]) else (ch, w))
      | _ \<Rightarrow> (ch, w)))"

section \<open>The command thread\<close>

text \<open>The camera object sends a control to the driver; the stop control passes an uninitialised value,
  here 0.\<close>

definition mm_camera_start_zsl_snapshot :: "env \<Rightarrow> mm_channel \<Rightarrow> world \<Rightarrow> world" where
  "mm_camera_start_zsl_snapshot e ch w = fst (call e (SCtrl (cam_ctrl_fd ch) CAM_PRIV_START_ZSL_SNAPSHOT 0) w)"

definition mm_camera_stop_zsl_snapshot :: "env \<Rightarrow> mm_channel \<Rightarrow> world \<Rightarrow> world" where
  "mm_camera_stop_zsl_snapshot e ch w = fst (call e (SCtrl (cam_ctrl_fd ch) CAM_PRIV_STOP_ZSL_SNAPSHOT 0) w)"

text \<open>Return every buffer of a node, null pointers included.\<close>

definition release_all :: "env \<Rightarrow> build \<Rightarrow> mm_channel_queue_node \<Rightarrow> chan \<Rightarrow> chan" where
  "release_all e bld node chw =
     fold (\<lambda>b chw. fst (mm_channel_qbuf e bld (bi_buf b) chw)) (take (num_of_bufs node) (super_buf node)) chw"

definition node_superbuf :: "mm_channel \<Rightarrow> mm_channel_queue_node \<Rightarrow> mm_camera_super_buf" where
  "node_superbuf ch node = \<lparr>sbf_camera_handle = cam_my_hdl ch, sbf_ch_id = ch_my_hdl ch,
     sbf_bufs = map bi_buf (take (num_of_bufs node) (super_buf node))\<rparr>"

text \<open>The body of the dispatch loop for a dequeued node.\<close>

definition count_dispatch :: "env \<Rightarrow> mm_camera_super_buf_notify_mode \<Rightarrow> chan \<Rightarrow> chan" where
  "count_dispatch e m chw = (case chw of (ch, w) \<Rightarrow>
     if m = MM_CAMERA_SUPER_BUF_NOTIFY_BURST then
       (let ch = ch\<lparr>pending_cnt := pending_cnt ch - 1\<rparr> in
        if pending_cnt ch = 0 \<and> startZSlSnapshotCalled ch
        then (ch\<lparr>startZSlSnapshotCalled := False\<rparr>, mm_camera_stop_zsl_snapshot e ch w)
        else (ch, w))
     else (ch, w))"

definition dispatch_node ::
    "env \<Rightarrow> build \<Rightarrow> mm_camera_super_buf_notify_mode \<Rightarrow> mm_channel_queue_node \<Rightarrow> chan \<Rightarrow> chan" where
  "dispatch_node e bld m node chw = (case count_dispatch e m chw of (ch, w) \<Rightarrow>
     if super_buf_notify_cb (ch_bundle ch) \<noteq> None then
       (case cmd_thread_send e (CMD_SUPER_BUF_DATA_CB (node_superbuf ch node)) (cb_thread ch) w of (t, w, ok) \<Rightarrow>
          if ok then (ch\<lparr>cb_thread := t\<rparr>, w) else release_all e bld node (ch, w))
     else release_all e bld node (ch, w))"

lemma run_stream_bundle [simp]: "ch_bundle (fst (fst (run_stream e bld i evt chw))) = ch_bundle (fst chw)"
  by (simp add: run_stream_def put_ctx_def split: prod.splits)

lemma qbuf_bundle [simp]: "ch_bundle (fst (fst (mm_channel_qbuf e bld b chw))) = ch_bundle (fst chw)"
  by (auto simp: mm_channel_qbuf_def Let_def split: prod.splits option.splits)

lemma release_all_bundle [simp]: "ch_bundle (fst (release_all e bld n chw)) = ch_bundle (fst chw)"
proof -
  have "ch_bundle (fst (fold (\<lambda>b chw. fst (mm_channel_qbuf e bld (bi_buf b) chw)) xs chw)) = ch_bundle (fst chw)" for xs
    by (induction xs arbitrary: chw) auto
  then show ?thesis by (simp add: release_all_def)
qed

lemma dispatch_node_bundle [simp]: "ch_bundle (fst (dispatch_node e bld m n chw)) = ch_bundle (fst chw)"
  by (auto simp: dispatch_node_def count_dispatch_def Let_def split: prod.splits)

function dispatch_loop :: "env \<Rightarrow> build \<Rightarrow> mm_camera_super_buf_notify_mode \<Rightarrow> chan \<Rightarrow> chan" where
  "dispatch_loop e bld m chw =
     (if pending_cnt (fst chw) > 0 \<or> m = MM_CAMERA_SUPER_BUF_NOTIFY_CONTINUOUS then
        (case mm_channel_superbuf_dequeue (superbuf_queue (ch_bundle (fst chw))) of
           (q, Some node) \<Rightarrow> dispatch_loop e bld m (dispatch_node e bld m node (set_queue q (fst chw), snd chw))
         | (q, None) \<Rightarrow> chw)
      else chw)"
  by pat_completeness auto
termination
  by (relation "measure (\<lambda>(e, bld, m, chw). length (que (superbuf_queue (ch_bundle (fst chw)))))")
    (auto simp: mm_channel_superbuf_dequeue_def mm_channel_superbuf_dequeue_internal_def set_queue_def split: list.splits if_splits)

declare dispatch_loop.simps [simp del]

text \<open>The part of \<^verbatim>\<open>mm_channel_process_stream_buf\<close> after the commands: drop what overflows, then dispatch.\<close>

definition process_tail :: "env \<Rightarrow> build \<Rightarrow> chan \<Rightarrow> chan" where
  "process_tail e bld chw = (case chw of (ch, w) \<Rightarrow>
     (let m = notify_mode (attr (superbuf_queue (ch_bundle ch))) in
      case mm_channel_superbuf_bufdone_overflow (channel_ops e bld) (ch, w) (superbuf_queue (ch_bundle ch)) of
        None \<Rightarrow> (ch, w @ [BlockedForever])
      | Some ((ch, w), q, _) \<Rightarrow> dispatch_loop e bld m (set_queue q ch, w)))"

definition zsl_request :: "env \<Rightarrow> chan \<Rightarrow> chan" where
  "zsl_request e chw = (case chw of (ch, w) \<Rightarrow>
     if pending_cnt ch > 0 \<and> needLEDFlash ch then
       (ch\<lparr>startZSlSnapshotCalled := True, needLEDFlash := False\<rparr>, mm_camera_start_zsl_snapshot e ch w)
     else if pending_cnt ch = 0 \<and> startZSlSnapshotCalled ch then
       (ch\<lparr>startZSlSnapshotCalled := False, needLEDFlash := False\<rparr>, mm_camera_stop_zsl_snapshot e ch w)
     else (ch, w))"

definition mm_channel_process_stream_buf :: "env \<Rightarrow> build \<Rightarrow> mm_camera_cmdcb \<Rightarrow> chan \<Rightarrow> chan" where
  "mm_channel_process_stream_buf e bld cmd chw = (case chw of (ch, w) \<Rightarrow>
     (case cmd of
        CMD_DATA_CB info \<Rightarrow>
          (case mm_channel_superbuf_comp_and_enqueue (channel_ops e bld) (ch, w) (superbuf_queue (ch_bundle ch)) info of
             ((ch, w), q, _) \<Rightarrow> process_tail e bld (set_queue q ch, w))
      | CMD_REQ_DATA_CB n \<Rightarrow>
          (let ch = ch\<lparr>pending_cnt := n\<rparr> in
           case mm_channel_superbuf_skip (channel_ops e bld) (ch, w) (superbuf_queue (ch_bundle ch)) of
             None \<Rightarrow> (ch, w @ [BlockedForever])
           | Some ((ch, w), q, _) \<Rightarrow> process_tail e bld (zsl_request e (set_queue q ch, w)))
      | CMD_CONFIG_NOTIFY m \<Rightarrow>
          (let q = superbuf_queue (ch_bundle ch) in
           process_tail e bld (set_queue (q\<lparr>attr := (attr q)\<lparr>notify_mode := m\<rparr>\<rparr>) ch, w))
      | CMD_FLUSH_QUEUE idx \<Rightarrow>
          (case mm_channel_superbuf_flush (channel_ops e bld) (ch, w)
                  ((superbuf_queue (ch_bundle ch))\<lparr>expected_frame_id := idx\<rparr>) of
             ((ch, w), q) \<Rightarrow> (set_queue q ch, w))
      | _ \<Rightarrow> process_tail e bld (ch, w)))"

section \<open>Life of a channel\<close>

text \<open>\<^verbatim>\<open>pipe\<close> is the pair of descriptors of the poll thread's new pipe.\<close>

definition mm_channel_init ::
    "env \<Rightarrow> i32 \<times> i32 \<Rightarrow> mm_camera_channel_attr option \<Rightarrow> nat option \<Rightarrow> chan \<Rightarrow> chan \<times> i32" where
  "mm_channel_init e newpipe at channel_cb chw = (case chw of (ch, w) \<Rightarrow>
     (let b = (ch_bundle ch)\<lparr>super_buf_notify_cb := channel_cb\<rparr>;
          b = (case at of Some a \<Rightarrow> b\<lparr>superbuf_queue := (superbuf_queue b)\<lparr>attr := a\<rparr>\<rparr> | None \<Rightarrow> b) in
      case mm_camera_poll_thread_launch e newpipe MM_CAMERA_POLL_TYPE_DATA (ch_poll ch) w of (p, w, _) \<Rightarrow>
        ((ch\<lparr>ch_bundle := b, ch_poll := p, ch_state := MM_CHANNEL_STATE_STOPPED\<rparr>, w), 0)))"

definition mm_channel_release :: "env \<Rightarrow> chan \<Rightarrow> chan" where
  "mm_channel_release e chw = (case chw of (ch, w) \<Rightarrow>
     (case mm_camera_poll_thread_release e (ch_poll ch) w of (p, w, _) \<Rightarrow>
        (ch\<lparr>ch_poll := p, ch_state := MM_CHANNEL_STATE_NOTUSED\<rparr>, w)))"

text \<open>The handle counter is threaded through.\<close>

definition mm_channel_add_stream :: "env \<Rightarrow> build \<Rightarrow> u16 \<Rightarrow> chan \<Rightarrow> u16 \<times> chan \<times> u32" where
  "mm_channel_add_stream e bld cnt chw = (case chw of (ch, w) \<Rightarrow>
     (case List.find (\<lambda>i. st_state (streams ch ! i) = MM_STREAM_STATE_NOTUSED) [0 ..< MAX_STREAM_NUM_IN_BUNDLE] of
        None \<Rightarrow> (cnt, (ch, w), 0)
      | Some idx \<Rightarrow>
          (case mm_camera_util_generate_handler cnt (of_nat idx) of (cnt, hdl) \<Rightarrow>
             (let s = mm_stream_zero\<lparr>my_hdl := hdl, ch_linked := True, st_state := MM_STREAM_STATE_INITED\<rparr>;
                  ch = ch\<lparr>streams := (streams ch)[idx := s]\<rparr> in
              case run_stream e bld idx MM_STREAM_EVT_ACQUIRE (ch, w) of ((ch, w), rc) \<Rightarrow>
                if rc = 0 then (cnt, (ch, w), hdl)
                else (cnt, (ch\<lparr>streams := (streams ch)[idx := mm_stream_zero]\<rparr>, w), 0)))))"

definition mm_channel_del_stream :: "env \<Rightarrow> build \<Rightarrow> u32 \<Rightarrow> chan \<Rightarrow> chan \<times> i32" where
  "mm_channel_del_stream e bld stream_id chw =
     (case mm_channel_util_get_stream_by_handler (fst chw) stream_id of
        None \<Rightarrow> (chw, -1) | Some i \<Rightarrow> run_stream e bld i MM_STREAM_EVT_RELEASE chw)"

definition mm_channel_config_stream :: "env \<Rightarrow> build \<Rightarrow> u32 \<Rightarrow> mm_camera_stream_config \<Rightarrow> chan \<Rightarrow> chan \<times> i32" where
  "mm_channel_config_stream e bld stream_id config chw =
     (case mm_channel_util_get_stream_by_handler (fst chw) stream_id of
        None \<Rightarrow> (chw, -1) | Some i \<Rightarrow> run_stream e bld i (MM_STREAM_EVT_SET_FMT config) chw)"

section \<open>Starting and stopping\<close>

text \<open>The indices of the streams in use, in the order of the table.  A stream whose configuration is
  missing has no \<^verbatim>\<open>stream_info\<close> to look at.\<close>

definition used_streams :: "mm_channel \<Rightarrow> nat list" where
  "used_streams ch = List.map_filter
     (\<lambda>i. if my_hdl (streams ch ! i) > 0 then mm_channel_util_get_stream_by_handler ch (my_hdl (streams ch ! i)) else None)
     [0 ..< MAX_STREAM_NUM_IN_BUNDLE]"

definition is_meta :: "mm_channel \<Rightarrow> nat \<Rightarrow> bool" where
  "is_meta ch i \<longleftrightarrow> (case stream_info (streams ch ! i) of Some si \<Rightarrow> stream_type si = CAM_STREAM_TYPE_METADATA | None \<Rightarrow> False)"

text \<open>The position of the last metadata stream among them, 0 when there is none.\<close>

definition meta_stream_idx :: "mm_channel \<Rightarrow> nat" where
  "meta_stream_idx ch = fold (\<lambda>(k, i) m. if is_meta ch i then k else m) (zip [0 ..< length (used_streams ch)] (used_streams ch)) 0"

definition swap :: "nat \<Rightarrow> nat \<Rightarrow> 'a list \<Rightarrow> 'a list" where
  "swap i j xs = xs[i := xs ! j, j := xs ! i]"

definition start_order :: "mm_channel \<Rightarrow> nat list" where
  "start_order ch = (let os = used_streams ch; m = meta_stream_idx ch in if m > 0 then swap 0 m os else os)"

definition stop_order :: "mm_channel \<Rightarrow> nat list" where
  "stop_order ch = (let os = used_streams ch; m = meta_stream_idx ch in
     if int m < int (length os) - 1 then swap (length os - 1) m os else os)"

record cam_bundle_config =
  bundle_id :: u32
  stream_ids :: "u32 list"

definition bundle_config_zero :: cam_bundle_config where
  "bundle_config_zero = \<lparr>bundle_id = 0, stream_ids = []\<rparr>"

definition mm_channel_get_bundle_info :: "chan \<Rightarrow> chan \<times> cam_bundle_config \<times> i32" where
  "mm_channel_get_bundle_info chw = (case chw of (ch, w) \<Rightarrow>
     (let hs = filter (\<lambda>i. my_hdl (streams ch ! i) > 0) [0 ..< MAX_STREAM_NUM_IN_BUNDLE];
          os = map (\<lambda>i. mm_channel_util_get_stream_by_handler ch (my_hdl (streams ch ! i))) hs;
          found = takeWhile (\<lambda>i. i \<noteq> None) os
      in if list_ex (\<lambda>i. stream_info (streams ch ! the i) = None) found
         then ((ch, w @ [UndefinedBehaviour]), bundle_config_zero, -1)
         else if length found < length os then ((ch, w), bundle_config_zero, -1)
         else ((ch, w), \<lparr>bundle_id = ch_my_hdl ch,
                 stream_ids = map (\<lambda>i. server_stream_id (streams ch ! the i)) (filter (\<lambda>i. \<not> is_meta ch (the i)) found)\<rparr>, 0)))"

definition mark_bundled :: "nat list \<Rightarrow> mm_stream list \<Rightarrow> mm_stream list" where
  "mark_bundled os ss = fold (\<lambda>i ss. ss[i := (ss ! i)\<lparr>is_bundled := True\<rparr>]) os ss"

definition bundle_handles :: "mm_channel \<Rightarrow> nat list \<Rightarrow> u32 list \<Rightarrow> u32 list" where
  "bundle_handles ch os hs = fold (\<lambda>(k, i) hs. hs[k := my_hdl (streams ch ! i)]) (zip [0 ..< length os] os) hs"

text \<open>The bundle of a channel with a callback: reset queue, flags on the streams, both threads.\<close>

definition start_bundle :: "nat list \<Rightarrow> mm_channel \<Rightarrow> mm_channel" where
  "start_bundle os ch =
     (let q = mm_channel_superbuf_queue_init (superbuf_queue (ch_bundle ch));
          q = q\<lparr>num_streams := of_nat (length os), expected_frame_id := 0,
                bundled_streams := bundle_handles ch os (bundled_streams q)\<rparr>
      in ch\<lparr>streams := mark_bundled os (streams ch),
            cb_thread := fst (mm_camera_cmd_thread_launch (cb_thread ch)),
            ch_cmd_thread := fst (mm_camera_cmd_thread_launch (ch_cmd_thread ch)),
            ch_bundle := (ch_bundle ch)\<lparr>superbuf_queue := q, is_active := True\<rparr>\<rparr>)"

text \<open>The loop over the streams returns how many were passed before it ended or failed.\<close>

fun start_loop :: "env \<Rightarrow> build \<Rightarrow> nat list \<Rightarrow> nat \<Rightarrow> chan \<Rightarrow> chan \<times> i32 \<times> nat" where
  "start_loop e bld [] i chw = (chw, 0, i)"
| "start_loop e bld (k # ks) i chw =
     (if st_state (streams (fst chw) ! k) = MM_STREAM_STATE_ACTIVE then (chw, -1, i)
      else (case run_stream e bld k MM_STREAM_EVT_GET_BUF chw of (chw, rc) \<Rightarrow>
        if rc \<noteq> 0 then (chw, rc, i)
        else (case run_stream e bld k MM_STREAM_EVT_REG_BUF chw of (chw, rc) \<Rightarrow>
          if rc \<noteq> 0 then (chw, rc, i)
          else (case run_stream e bld k MM_STREAM_EVT_START chw of (chw, rc) \<Rightarrow>
            if rc \<noteq> 0 then (chw, rc, i) else start_loop e bld ks (Suc i) chw))))"

definition undo_stream :: "env \<Rightarrow> build \<Rightarrow> nat \<Rightarrow> chan \<Rightarrow> chan" where
  "undo_stream e bld k chw =
     fold (\<lambda>evt chw. fst (run_stream e bld k evt chw)) [MM_STREAM_EVT_STOP, MM_STREAM_EVT_UNREG_BUF, MM_STREAM_EVT_PUT_BUF] chw"

definition mm_channel_start :: "env \<Rightarrow> build \<Rightarrow> chan \<Rightarrow> chan \<times> i32" where
  "mm_channel_start e bld chw = (case chw of (ch, w) \<Rightarrow>
     if list_ex (\<lambda>i. stream_info (streams ch ! i) = None) (used_streams ch) then ((ch, w @ [UndefinedBehaviour]), -1)
     else
       (let os = start_order ch;
            ch = (if super_buf_notify_cb (ch_bundle ch) \<noteq> None then start_bundle os ch else ch)
        in case start_loop e bld os 0 (ch, w) of (chw, rc, i) \<Rightarrow>
             if rc \<noteq> 0 then (fold (undo_stream e bld) (take (Suc i) os) chw, rc) else (chw, rc)))"

definition release_bundle :: "env \<Rightarrow> build \<Rightarrow> chan \<Rightarrow> chan" where
  "release_bundle e bld chw = (case chw of (ch, w) \<Rightarrow>
     if is_active (ch_bundle ch) then
       (case mm_camera_cmd_thread_release (mm_channel_process_stream_buf e bld) e (ch_cmd_thread ch) (ch, w) of (t, (ch, w), _) \<Rightarrow>
          (let ch = ch\<lparr>ch_cmd_thread := t\<rparr> in
           case mm_camera_cmd_thread_release mm_channel_dispatch_super_buf e (cb_thread ch) (ch, w) of (t, (ch, w), _) \<Rightarrow>
             (ch\<lparr>cb_thread := t, ch_bundle := bundle_zero\<rparr>, w)))
     else (ch, w))"

definition mm_channel_stop :: "env \<Rightarrow> build \<Rightarrow> chan \<Rightarrow> chan \<times> i32" where
  "mm_channel_stop e bld chw = (case chw of (ch, w) \<Rightarrow>
     if list_ex (\<lambda>i. stream_info (streams ch ! i) = None) (used_streams ch) then ((ch, w @ [UndefinedBehaviour]), -1)
     else
       (let os = stop_order ch;
            chw = fold (\<lambda>k chw. fold (\<lambda>evt chw. fst (run_stream e bld k evt chw)) [MM_STREAM_EVT_STOP, MM_STREAM_EVT_UNREG_BUF] chw)
                    os (ch, w);
            chw = release_bundle e bld chw
        in (fold (\<lambda>k chw. fst (run_stream e bld k MM_STREAM_EVT_PUT_BUF chw)) os chw, 0)))"

section \<open>Requests to the command thread\<close>

definition chan_send :: "env \<Rightarrow> mm_camera_cmdcb \<Rightarrow> chan \<Rightarrow> chan \<times> i32" where
  "chan_send e cmd chw = (case chw of (ch, w) \<Rightarrow>
     (case cmd_thread_send e cmd (ch_cmd_thread ch) w of (t, w, ok) \<Rightarrow>
        ((ch\<lparr>ch_cmd_thread := t\<rparr>, w), if ok then 0 else -1)))"

definition mm_channel_request_super_buf :: "env \<Rightarrow> u32 \<Rightarrow> chan \<Rightarrow> chan \<times> i32" where
  "mm_channel_request_super_buf e n chw = chan_send e (CMD_REQ_DATA_CB n) chw"

definition mm_channel_cancel_super_buf_request :: "env \<Rightarrow> chan \<Rightarrow> chan \<times> i32" where
  "mm_channel_cancel_super_buf_request e chw = mm_channel_request_super_buf e 0 chw"

definition mm_channel_flush_super_buf_queue :: "env \<Rightarrow> u32 \<Rightarrow> chan \<Rightarrow> chan \<times> i32" where
  "mm_channel_flush_super_buf_queue e frame_idx chw = chan_send e (CMD_FLUSH_QUEUE frame_idx) chw"

definition mm_channel_config_notify_mode :: "env \<Rightarrow> mm_camera_super_buf_notify_mode \<Rightarrow> chan \<Rightarrow> chan \<times> i32" where
  "mm_channel_config_notify_mode e m chw = chan_send e (CMD_CONFIG_NOTIFY m) chw"

section \<open>Operations of one stream\<close>

definition on_stream :: "env \<Rightarrow> build \<Rightarrow> u32 \<Rightarrow> mm_stream_evt \<Rightarrow> chan \<Rightarrow> chan \<times> i32" where
  "on_stream e bld stream_id evt chw =
     (case mm_channel_util_get_stream_by_handler (fst chw) stream_id of
        Some i \<Rightarrow> run_stream e bld i evt chw | None \<Rightarrow> (chw, -1))"

definition mm_channel_set_stream_parm :: "env \<Rightarrow> build \<Rightarrow> u32 \<Rightarrow> bool \<Rightarrow> chan \<Rightarrow> chan \<times> i32" where
  "mm_channel_set_stream_parm e bld sid p chw = on_stream e bld sid (MM_STREAM_EVT_SET_PARM p) chw"

definition mm_channel_get_stream_parm :: "env \<Rightarrow> build \<Rightarrow> u32 \<Rightarrow> bool \<Rightarrow> chan \<Rightarrow> chan \<times> i32" where
  "mm_channel_get_stream_parm e bld sid p chw = on_stream e bld sid (MM_STREAM_EVT_GET_PARM p) chw"

definition mm_channel_do_stream_action :: "env \<Rightarrow> build \<Rightarrow> u32 \<Rightarrow> bool \<Rightarrow> chan \<Rightarrow> chan \<times> i32" where
  "mm_channel_do_stream_action e bld sid p chw = on_stream e bld sid (MM_STREAM_EVT_DO_ACTION p) chw"

record map_payload =
  mpl_stream_id :: u32
  mpl_buf_type :: cam_mapping_buf_type
  mpl_buf_idx :: u32
  mpl_plane_idx :: i32
  mpl_fd :: i32
  mpl_size :: u32

definition mm_channel_map_stream_buf :: "env \<Rightarrow> map_payload \<Rightarrow> chan \<Rightarrow> chan \<times> i32" where
  "mm_channel_map_stream_buf e p chw = (case chw of (ch, w) \<Rightarrow>
     (case mm_channel_util_get_stream_by_handler ch (mpl_stream_id p) of
        Some i \<Rightarrow> (case mm_stream_map_buf e (mpl_buf_type p) (mpl_buf_idx p) (mpl_plane_idx p) (mpl_fd p) (mpl_size p) (streams ch ! i) w of
           (w, rc) \<Rightarrow> ((ch, w), rc))
      | None \<Rightarrow> ((ch, w), -1)))"

definition mm_channel_unmap_stream_buf :: "env \<Rightarrow> map_payload \<Rightarrow> chan \<Rightarrow> chan \<times> i32" where
  "mm_channel_unmap_stream_buf e p chw = (case chw of (ch, w) \<Rightarrow>
     (case mm_channel_util_get_stream_by_handler ch (mpl_stream_id p) of
        Some i \<Rightarrow> (case mm_stream_unmap_buf e (mpl_buf_type p) (mpl_buf_idx p) (mpl_plane_idx p) (streams ch ! i) w of
           (w, rc) \<Rightarrow> ((ch, w), rc))
      | None \<Rightarrow> ((ch, w), -1)))"

section \<open>The state machine\<close>

datatype mm_channel_evt =
    MM_CHANNEL_EVT_ADD_STREAM
  | MM_CHANNEL_EVT_DEL_STREAM u32
  | MM_CHANNEL_EVT_CONFIG_STREAM u32 mm_camera_stream_config
  | MM_CHANNEL_EVT_GET_BUNDLE_INFO
  | MM_CHANNEL_EVT_START
  | MM_CHANNEL_EVT_STOP
  | MM_CHANNEL_EVT_PAUSE
  | MM_CHANNEL_EVT_RESUME
  | MM_CHANNEL_EVT_REQUEST_SUPER_BUF u32
  | MM_CHANNEL_EVT_CANCEL_REQUEST_SUPER_BUF
  | MM_CHANNEL_EVT_FLUSH_SUPER_BUF_QUEUE u32
  | MM_CHANNEL_EVT_CONFIG_NOTIFY_MODE mm_camera_super_buf_notify_mode
  | MM_CHANNEL_EVT_MAP_STREAM_BUF map_payload
  | MM_CHANNEL_EVT_UNMAP_STREAM_BUF map_payload
  | MM_CHANNEL_EVT_SET_STREAM_PARM u32 bool
  | MM_CHANNEL_EVT_GET_STREAM_PARM u32 bool
  | MM_CHANNEL_EVT_DO_STREAM_ACTION u32 bool
  | MM_CHANNEL_EVT_DELETE

text \<open>What an event returns through its output pointer.\<close>

datatype chan_out = NoOut | OutHandle u32 | OutBundle cam_bundle_config

text \<open>The result of an event: the handle counter, the channel and the world, the output and \<^verbatim>\<open>rc\<close>.\<close>

type_synonym chan_res = "u16 \<times> chan \<times> chan_out \<times> i32"

definition plain :: "u16 \<Rightarrow> chan \<times> i32 \<Rightarrow> chan_res" where
  "plain cnt r = (case r of (chw, rc) \<Rightarrow> (cnt, chw, NoOut, rc))"

definition set_ch_state :: "mm_channel_state \<Rightarrow> chan \<Rightarrow> chan" where
  "set_ch_state st chw = ((fst chw)\<lparr>ch_state := st\<rparr>, snd chw)"

definition mm_channel_fsm_fn_notused :: "env \<Rightarrow> build \<Rightarrow> mm_channel_evt \<Rightarrow> u16 \<Rightarrow> chan \<Rightarrow> chan_res" where
  "mm_channel_fsm_fn_notused e bld evt cnt chw = (cnt, chw, NoOut, -1)"

definition mm_channel_fsm_fn_stopped :: "env \<Rightarrow> build \<Rightarrow> mm_channel_evt \<Rightarrow> u16 \<Rightarrow> chan \<Rightarrow> chan_res" where
  "mm_channel_fsm_fn_stopped e bld evt cnt chw = (case evt of
     MM_CHANNEL_EVT_ADD_STREAM \<Rightarrow>
       (case mm_channel_add_stream e bld cnt chw of (cnt, chw, s_hdl) \<Rightarrow> (cnt, chw, OutHandle s_hdl, 0))
   | MM_CHANNEL_EVT_DEL_STREAM s_id \<Rightarrow> plain cnt (mm_channel_del_stream e bld s_id chw)
   | MM_CHANNEL_EVT_START \<Rightarrow>
       (case mm_channel_start e bld chw of (chw, rc) \<Rightarrow>
          (cnt, if rc = 0 then set_ch_state MM_CHANNEL_STATE_ACTIVE chw else chw, NoOut, rc))
   | MM_CHANNEL_EVT_CONFIG_STREAM s_id config \<Rightarrow> plain cnt (mm_channel_config_stream e bld s_id config chw)
   | MM_CHANNEL_EVT_GET_BUNDLE_INFO \<Rightarrow>
       (case mm_channel_get_bundle_info chw of (chw, info, rc) \<Rightarrow> (cnt, chw, OutBundle info, rc))
   | MM_CHANNEL_EVT_DELETE \<Rightarrow> (cnt, mm_channel_release e chw, NoOut, 0)
   | MM_CHANNEL_EVT_SET_STREAM_PARM sid p \<Rightarrow> plain cnt (mm_channel_set_stream_parm e bld sid p chw)
   | MM_CHANNEL_EVT_GET_STREAM_PARM sid p \<Rightarrow> plain cnt (mm_channel_get_stream_parm e bld sid p chw)
   | MM_CHANNEL_EVT_DO_STREAM_ACTION sid p \<Rightarrow> plain cnt (mm_channel_do_stream_action e bld sid p chw)
   | MM_CHANNEL_EVT_MAP_STREAM_BUF p \<Rightarrow> plain cnt (mm_channel_map_stream_buf e p chw)
   | MM_CHANNEL_EVT_UNMAP_STREAM_BUF p \<Rightarrow> plain cnt (mm_channel_unmap_stream_buf e p chw)
   | _ \<Rightarrow> (cnt, chw, NoOut, 0))"

definition mm_channel_fsm_fn_active :: "env \<Rightarrow> build \<Rightarrow> mm_channel_evt \<Rightarrow> u16 \<Rightarrow> chan \<Rightarrow> chan_res" where
  "mm_channel_fsm_fn_active e bld evt cnt chw = (case evt of
     MM_CHANNEL_EVT_STOP \<Rightarrow>
       (case mm_channel_stop e bld chw of (chw, rc) \<Rightarrow> (cnt, set_ch_state MM_CHANNEL_STATE_STOPPED chw, NoOut, rc))
   | MM_CHANNEL_EVT_REQUEST_SUPER_BUF n \<Rightarrow> plain cnt (mm_channel_request_super_buf e n chw)
   | MM_CHANNEL_EVT_CANCEL_REQUEST_SUPER_BUF \<Rightarrow> plain cnt (mm_channel_cancel_super_buf_request e chw)
   | MM_CHANNEL_EVT_FLUSH_SUPER_BUF_QUEUE idx \<Rightarrow> plain cnt (mm_channel_flush_super_buf_queue e idx chw)
   | MM_CHANNEL_EVT_CONFIG_NOTIFY_MODE m \<Rightarrow> plain cnt (mm_channel_config_notify_mode e m chw)
   | MM_CHANNEL_EVT_SET_STREAM_PARM sid p \<Rightarrow> plain cnt (mm_channel_set_stream_parm e bld sid p chw)
   | MM_CHANNEL_EVT_GET_STREAM_PARM sid p \<Rightarrow> plain cnt (mm_channel_get_stream_parm e bld sid p chw)
   | MM_CHANNEL_EVT_DO_STREAM_ACTION sid p \<Rightarrow> plain cnt (mm_channel_do_stream_action e bld sid p chw)
   | MM_CHANNEL_EVT_MAP_STREAM_BUF p \<Rightarrow>
       (if mpl_buf_type p = CAM_MAPPING_BUF_TYPE_OFFLINE_INPUT_BUF
        then plain cnt (mm_channel_map_stream_buf e p chw) else (cnt, chw, NoOut, 0))
   | MM_CHANNEL_EVT_UNMAP_STREAM_BUF p \<Rightarrow>
       (if mpl_buf_type p = CAM_MAPPING_BUF_TYPE_OFFLINE_INPUT_BUF
        then plain cnt (mm_channel_unmap_stream_buf e p chw) else (cnt, chw, NoOut, 0))
   | _ \<Rightarrow> (cnt, chw, NoOut, 0))"

definition mm_channel_fsm_fn_paused :: "env \<Rightarrow> build \<Rightarrow> mm_channel_evt \<Rightarrow> u16 \<Rightarrow> chan \<Rightarrow> chan_res" where
  "mm_channel_fsm_fn_paused e bld evt cnt chw = (cnt, chw, NoOut, 0)"

definition mm_channel_fsm_fn :: "env \<Rightarrow> build \<Rightarrow> mm_channel_evt \<Rightarrow> u16 \<Rightarrow> chan \<Rightarrow> chan_res" where
  "mm_channel_fsm_fn e bld evt cnt chw = (case ch_state (fst chw) of
     MM_CHANNEL_STATE_NOTUSED \<Rightarrow> mm_channel_fsm_fn_notused e bld evt cnt chw
   | MM_CHANNEL_STATE_STOPPED \<Rightarrow> mm_channel_fsm_fn_stopped e bld evt cnt chw
   | MM_CHANNEL_STATE_ACTIVE \<Rightarrow> mm_channel_fsm_fn_active e bld evt cnt chw
   | MM_CHANNEL_STATE_PAUSED \<Rightarrow> mm_channel_fsm_fn_paused e bld evt cnt chw)"

lemmas channel_fsm_defs = mm_channel_fsm_fn_def mm_channel_fsm_fn_notused_def mm_channel_fsm_fn_stopped_def
  mm_channel_fsm_fn_active_def mm_channel_fsm_fn_paused_def plain_def

section \<open>What an operation leaves alone\<close>

text \<open>The members of the channel no stream operation and no queue operation touches.\<close>

definition same_chan :: "chan \<Rightarrow> chan \<Rightarrow> bool" where
  "same_chan x y \<longleftrightarrow> ch_state (fst y) = ch_state (fst x) \<and> ch_my_hdl (fst y) = ch_my_hdl (fst x)
     \<and> cam_my_hdl (fst y) = cam_my_hdl (fst x) \<and> cam_ctrl_fd (fst y) = cam_ctrl_fd (fst x)
     \<and> super_buf_notify_cb (ch_bundle (fst y)) = super_buf_notify_cb (ch_bundle (fst x))
     \<and> is_active (ch_bundle (fst y)) = is_active (ch_bundle (fst x))
     \<and> length (streams (fst y)) = length (streams (fst x))"

lemma same_chan_refl [intro!]: "same_chan x x" by (simp add: same_chan_def)

lemma same_chan_trans: "same_chan x y \<Longrightarrow> same_chan y z \<Longrightarrow> same_chan x z" by (simp add: same_chan_def)

lemma same_fold:
  assumes "\<And>a x. same_chan x (f a x)"
  shows "same_chan x (fold f xs x)"
proof (induction xs arbitrary: x)
  case (Cons a xs)
  show ?case using same_chan_trans [OF assms Cons.IH] by simp
qed auto

lemma same_run: "same_chan chw (fst (run_stream e bld i evt chw))"
  by (simp add: run_stream_def put_ctx_def same_chan_def split: prod.splits)

lemma same_qbuf: "same_chan chw (fst (mm_channel_qbuf e bld b chw))"
proof -
  obtain ch w where c: "chw = (ch, w)" by fastforce
  have "same_chan (ch, w) (ch, w')" for w' by (simp add: same_chan_def)
  then show ?thesis
    using same_run [of "(ch, w @ [ChannelQbuf (the b)])"]
    by (auto simp: c mm_channel_qbuf_def Let_def same_chan_def split: option.splits)
qed

lemma same_release_all: "same_chan chw (release_all e bld n chw)"
  unfolding release_all_def by (rule same_fold) (rule same_qbuf)

lemma same_dispatch_node: "same_chan chw (dispatch_node e bld m n chw)"
proof -
  have c: "same_chan chw (count_dispatch e m chw)"
    by (auto simp: count_dispatch_def Let_def same_chan_def split: prod.splits)
  obtain ch w where cd: "count_dispatch e m chw = (ch, w)" by fastforce
  have w: "same_chan (ch, w) (ch\<lparr>cb_thread := t\<rparr>, w')" "same_chan (ch, w) (ch, w')" for t w' by (simp_all add: same_chan_def)
  show ?thesis
    using c cd same_chan_trans [OF w(2) same_release_all] same_release_all [of "(ch, w)" e bld n]
    by (auto simp: dispatch_node_def intro: same_chan_trans w split: prod.splits)
qed

lemma same_dispatch_loop: "same_chan chw (dispatch_loop e bld m chw)"
proof (induction e bld m chw rule: dispatch_loop.induct)
  case (1 e bld m chw)
  have q: "same_chan chw (set_queue q (fst chw), snd chw)" for q by (simp add: same_chan_def set_queue_def)
  show ?case
  proof (cases "pending_cnt (fst chw) > 0 \<or> m = MM_CAMERA_SUPER_BUF_NOTIFY_CONTINUOUS")
    case True
    obtain q n where d: "mm_channel_superbuf_dequeue (superbuf_queue (ch_bundle (fst chw))) = (q, n)" by fastforce
    show ?thesis
    proof (cases n)
      case None
      then show ?thesis using d by (subst dispatch_loop.simps) auto
    next
      case (Some node)
      note ih = "1.IH" [OF True d [symmetric] Some]
      show ?thesis
        using d Some True same_chan_trans [OF q [of q] same_chan_trans [OF same_dispatch_node ih]] by (subst dispatch_loop.simps) simp
    qed
  qed (subst dispatch_loop.simps, auto)
qed

lemma same_start_loop: "start_loop e bld ks i chw = (chw', rc, k) \<Longrightarrow> same_chan chw chw'"
proof (induction e bld ks i chw rule: start_loop.induct)
  case (2 e bld k ks i chw)
  note run = same_run [of _ e bld k]
  show ?case
    using 2 run [of chw MM_STREAM_EVT_GET_BUF] run [of _ MM_STREAM_EVT_REG_BUF] run [of _ MM_STREAM_EVT_START]
    by (auto split: if_splits prod.splits) (metis fst_conv same_chan_trans)+
qed auto

lemma same_undo: "same_chan chw (undo_stream e bld k chw)"
  unfolding undo_stream_def by (rule same_fold) (rule same_run)

lemma start_state_kept:
  assumes "mm_channel_start e bld chw = (chw', rc)"
  shows "ch_state (fst chw') = ch_state (fst chw)"
    and "super_buf_notify_cb (ch_bundle (fst chw')) = super_buf_notify_cb (ch_bundle (fst chw))"
    and "is_active (ch_bundle (fst chw')) \<longleftrightarrow> is_active (ch_bundle (fst chw)) \<or>
      (super_buf_notify_cb (ch_bundle (fst chw)) \<noteq> None \<and> list_all (\<lambda>i. stream_info (streams (fst chw) ! i) \<noteq> None) (used_streams (fst chw)))"
proof -
  obtain ch w where c: "chw = (ch, w)" by fastforce
  let ?bad = "list_ex (\<lambda>i. stream_info (streams ch ! i) = None) (used_streams ch)"
  have bad: "?bad \<longleftrightarrow> \<not> list_all (\<lambda>i. stream_info (streams ch ! i) \<noteq> None) (used_streams ch)"
    by (auto simp: list_ex_iff list_all_iff)
  have "ch_state (fst chw') = ch_state ch \<and> super_buf_notify_cb (ch_bundle (fst chw')) = super_buf_notify_cb (ch_bundle ch)
    \<and> (is_active (ch_bundle (fst chw')) \<longleftrightarrow> is_active (ch_bundle ch) \<or> (super_buf_notify_cb (ch_bundle ch) \<noteq> None \<and> \<not> ?bad))"
  proof (cases ?bad)
    case True
    then show ?thesis using assms by (auto simp: mm_channel_start_def c)
  next
    case False
    let ?ch = "if super_buf_notify_cb (ch_bundle ch) \<noteq> None then start_bundle (start_order ch) ch else ch"
    obtain chw1 rc1 i where l: "start_loop e bld (start_order ch) 0 (?ch, w) = (chw1, rc1, i)" by (metis prod_cases3)
    have "same_chan chw1 chw'"
      using assms False l same_fold [OF same_undo, of chw1] by (auto simp: mm_channel_start_def c Let_def split: if_splits)
    then have "same_chan (?ch, w) chw'" using same_start_loop [OF l] same_chan_trans by blast
    then show ?thesis using False by (auto simp: same_chan_def start_bundle_def Let_def split: if_splits)
  qed
  then show "ch_state (fst chw') = ch_state (fst chw)"
    "super_buf_notify_cb (ch_bundle (fst chw')) = super_buf_notify_cb (ch_bundle (fst chw))"
    "is_active (ch_bundle (fst chw')) \<longleftrightarrow> is_active (ch_bundle (fst chw)) \<or>
      (super_buf_notify_cb (ch_bundle (fst chw)) \<noteq> None \<and> list_all (\<lambda>i. stream_info (streams (fst chw) ! i) \<noteq> None) (used_streams (fst chw)))"
    using bad by (simp_all add: c)
qed

end
