(* ===== verification/StreamBufs.thy ===== *)
theory StreamBufs
  imports Stream
begin

text \<open>
  The life of the buffers of an active stream
  (\<^verbatim>\<open>mm_stream_data_notify\<close>, \<^verbatim>\<open>mm_stream_handle_rcvd_buf\<close>, \<^verbatim>\<open>mm_stream_dispatch_app_data\<close> and
  \<^verbatim>\<open>mm_stream_buf_done\<close> of theory \<^verbatim>\<open>Stream\<close>) as a protocol between the driver, the poll thread, the
  stream's command thread, the channel's command thread and the application: which party holds
  references to a buffer, and that \<^verbatim>\<open>buf_refcnt\<close> is the number of references held.
\<close>

section \<open>References\<close>

fun cmd_idx :: "mm_camera_cmdcb \<Rightarrow> nat option" where
  "cmd_idx (CMD_DATA_CB info) = map_option (\<lambda>b. unat (bd_buf_idx b)) (bi_buf info)"
| "cmd_idx _ = None"

definition queued :: "cmd_thread \<Rightarrow> mm_camera_cmdcb list" where
  "queued t = (case th_queue t of None \<Rightarrow> [] | Some q \<Rightarrow> q)"

definition refs_in :: "mm_camera_cmdcb list \<Rightarrow> nat \<Rightarrow> nat" where
  "refs_in q i = length (filter (\<lambda>c. cmd_idx c = Some i) q)"

lemma refs_in_simps [simp]:
  "refs_in [] i = 0" "refs_in (c # q) i = (if cmd_idx c = Some i then 1 else 0) + refs_in q i"
  "refs_in (q @ r) i = refs_in q i + refs_in r i"
  by (simp_all add: refs_in_def)

text \<open>The callbacks \<^verbatim>\<open>mm_stream_dispatch_app_data\<close> runs for a frame: each gets a reference.\<close>

definition slot_fires :: "mm_stream \<Rightarrow> nat \<Rightarrow> bool" where
  "slot_fires s i \<longleftrightarrow> cb_fn (buf_cb s ! i) \<noteq> None \<and> cb_count (buf_cb s ! i) \<noteq> 0"

definition fired :: "mm_stream \<Rightarrow> nat" where
  "fired s = length (filter (slot_fires s) [0 ..< MM_CAMERA_STREAM_BUF_CB_MAX])"

lemma fired_le: "fired s \<le> 4"
proof -
  have "fired s \<le> length [0 ..< MM_CAMERA_STREAM_BUF_CB_MAX]" unfolding fired_def by (rule length_filter_le)
  then show ?thesis by (simp add: MM_CAMERA_STREAM_BUF_CB_MAX_def)
qed

section \<open>The protocol\<close>

record proto =
  ps :: mm_stream
  pc :: stream_ctx
  pw :: world
  held :: "nat \<Rightarrow> nat"

definition pop_cmd :: "cmd_thread \<Rightarrow> cmd_thread" where
  "pop_cmd t = t\<lparr>th_queue := map_option tl (th_queue t)\<rparr>"

text \<open>\<^verbatim>\<open>deliver\<close>: the poll thread takes a frame the driver holds; \<^verbatim>\<open>dispatch\<close>: the stream's command thread
  runs the callbacks, each of which leaves the application with a reference; \<^verbatim>\<open>collect\<close>: the channel's
  command thread takes over the reference of a bundled frame; \<^verbatim>\<open>give_back\<close>: a holder returns a buffer.\<close>

inductive proto_step :: "env \<Rightarrow> proto \<Rightarrow> proto \<Rightarrow> bool" for e where
  deliver: "st_state (ps x) = MM_STREAM_STATE_ACTIVE \<Longrightarrow>
    status_of (ps x) (unat (dq_index (e_dq e (pw x)))) = Some b \<Longrightarrow> in_kernel b \<Longrightarrow>
    mm_stream_data_notify e (ps x) (pc x) (pw x) = (s', c', w') \<Longrightarrow>
    proto_step e x (x\<lparr>ps := s', pc := c', pw := w'\<rparr>)"
| dispatch: "queued (st_cmd_thread (ps x)) = cmd # q \<Longrightarrow> cmd_idx cmd = Some i \<Longrightarrow>
    mm_stream_dispatch_app_data e cmd ((ps x)\<lparr>st_cmd_thread := pop_cmd (st_cmd_thread (ps x))\<rparr>) (pc x) (pw x) = (s', c', w') \<Longrightarrow>
    proto_step e x (x\<lparr>ps := s', pc := c', pw := w', held := (held x)(i := held x i + fired (ps x))\<rparr>)"
| collect: "queued (cx_cmd_thread (pc x)) = cmd # q \<Longrightarrow> cmd_idx cmd = Some i \<Longrightarrow>
    proto_step e x (x\<lparr>pc := (pc x)\<lparr>cx_cmd_thread := pop_cmd (cx_cmd_thread (pc x))\<rparr>, held := (held x)(i := held x i + 1)\<rparr>)"
| give_back: "0 < held x (unat (bd_buf_idx b)) \<Longrightarrow> mm_stream_buf_done e b (ps x) (pw x) = (s', w', rc) \<Longrightarrow>
    proto_step e x (x\<lparr>ps := s', pw := w', held := (held x)(unat (bd_buf_idx b) := held x (unat (bd_buf_idx b)) - 1)\<rparr>)"

inductive_cases proto_stepE: "proto_step e x x'"

text \<open>The accounts of buffer \<^verbatim>\<open>i\<close> balance: references queued at the stream, queued at the channel and held.\<close>

definition balance :: "mm_stream_buf_status \<Rightarrow> nat \<Rightarrow> nat \<Rightarrow> nat \<Rightarrow> bool" where
  "balance b qs qc h \<longleftrightarrow> unat (buf_refcnt b) = qs + qc + h \<and> (in_kernel b \<longrightarrow> buf_refcnt b = 0)
     \<and> qs \<le> 1 \<and> (if qs = 1 then qc + h \<le> 1 else qc + h \<le> 5)"

definition cmds_ok :: "mm_stream \<Rightarrow> mm_camera_cmdcb list \<Rightarrow> bool" where
  "cmds_ok s q \<longleftrightarrow> list_all (\<lambda>c. \<exists>i. cmd_idx c = Some i \<and> status_of s i \<noteq> None) q"

definition proto_inv :: "proto \<Rightarrow> bool" where
  "proto_inv x \<longleftrightarrow>
     (\<forall>i b. status_of (ps x) i = Some b \<longrightarrow>
        balance b (refs_in (queued (st_cmd_thread (ps x))) i) (refs_in (queued (cx_cmd_thread (pc x))) i) (held x i))
     \<and> (\<forall>i. status_of (ps x) i = None \<longrightarrow> held x i = 0)
     \<and> cmds_ok (ps x) (queued (st_cmd_thread (ps x))) \<and> cmds_ok (ps x) (queued (cx_cmd_thread (pc x)))
     \<and> length (buf_cb (ps x)) = MM_CAMERA_STREAM_BUF_CB_MAX
     \<and> (has_stream_cb (ps x) \<longrightarrow> th_queue (st_cmd_thread (ps x)) \<noteq> None)
     \<and> (is_bundled (ps x) \<longrightarrow> th_queue (cx_cmd_thread (pc x)) \<noteq> None)"

definition alloc_ok :: "env \<Rightarrow> bool" where
  "alloc_ok e \<longleftrightarrow> (\<forall>w. e_ret e w Malloc \<noteq> 0)"

section \<open>Dispatching to the callbacks\<close>

lemma list_ex_update: "list_ex P (xs[i := y]) \<Longrightarrow> P (xs ! i) \<Longrightarrow> list_ex P xs"
  by (cases "i < length xs") (auto simp: list_ex_iff list_update_beyond)

lemma dispatch_slot_effect:
  assumes "status_of s idx = Some b" "dispatch_slot sb idx i (s, w) = (s', w')"
  shows "status_of s' j = (if j = idx then Some (b\<lparr>buf_refcnt := buf_refcnt b + (if slot_fires s i then 1 else 0)\<rparr>) else status_of s j)"
    and "\<And>k. k \<noteq> i \<Longrightarrow> buf_cb s' ! k = buf_cb s ! k" and "length (buf_cb s') = length (buf_cb s)"
    and "st_cmd_thread s' = st_cmd_thread s" "is_bundled s' = is_bundled s" "st_fd s' = st_fd s"
    and "st_mem_vtbl s' = st_mem_vtbl s" "st_state s' = st_state s" "has_stream_cb s' \<Longrightarrow> has_stream_cb s"
proof -
  have A: "status_of (s\<lparr>buf_cb := x\<rparr>) j = status_of s j" for s x j
    by (rule status_of_cong) simp
  note d = assms(2) [unfolded dispatch_slot_def Let_def prod.case]
  show "status_of s' j = (if j = idx then Some (b\<lparr>buf_refcnt := buf_refcnt b + (if slot_fires s i then 1 else 0)\<rparr>) else status_of s j)"
    using d assms(1)
    by (auto simp: slot_fires_def status_of_set [OF assms(1)] A split: option.splits if_splits)
  show "\<And>k. k \<noteq> i \<Longrightarrow> buf_cb s' ! k = buf_cb s ! k" "length (buf_cb s') = length (buf_cb s)"
    "st_cmd_thread s' = st_cmd_thread s" "is_bundled s' = is_bundled s" "st_fd s' = st_fd s"
    "st_mem_vtbl s' = st_mem_vtbl s" "st_state s' = st_state s"
    using d by (auto split: option.splits if_splits)
  have "buf_cb s' = buf_cb s \<or> (\<exists>y. buf_cb s' = (buf_cb s)[i := y]) \<and> cb_fn (buf_cb s ! i) \<noteq> None"
    using d by (auto split: option.splits if_splits)
  then show "has_stream_cb s' \<Longrightarrow> has_stream_cb s"
    unfolding has_stream_cb_def by (auto intro: list_ex_update)
qed

lemma dispatch_fold_effect:
  assumes "distinct ks" "status_of s idx = Some b" "fold (dispatch_slot sb idx) ks (s, w) = (s', w')"
  shows "status_of s' j = (if j = idx then Some (b\<lparr>buf_refcnt := buf_refcnt b + of_nat (length (filter (slot_fires s) ks))\<rparr>) else status_of s j)"
    and "length (buf_cb s') = length (buf_cb s)"
    and "st_cmd_thread s' = st_cmd_thread s" "is_bundled s' = is_bundled s" "st_fd s' = st_fd s"
    and "st_mem_vtbl s' = st_mem_vtbl s" "st_state s' = st_state s" "has_stream_cb s' \<Longrightarrow> has_stream_cb s"
proof -
  have "status_of s' j = (if j = idx then Some (b\<lparr>buf_refcnt := buf_refcnt b + of_nat (length (filter (slot_fires s) ks))\<rparr>) else status_of s j)
     \<and> length (buf_cb s') = length (buf_cb s) \<and> st_cmd_thread s' = st_cmd_thread s \<and> is_bundled s' = is_bundled s
     \<and> st_fd s' = st_fd s \<and> st_mem_vtbl s' = st_mem_vtbl s \<and> st_state s' = st_state s \<and> (has_stream_cb s' \<longrightarrow> has_stream_cb s)"
    using assms
  proof (induction ks arbitrary: s w b)
    case (Cons k ks)
    obtain s1 w1 where k: "dispatch_slot sb idx k (s, w) = (s1, w1)" by fastforce
    note d = dispatch_slot_effect [OF Cons.prems(2) k]
    have f: "filter (slot_fires s1) ks = filter (slot_fires s) ks"
    proof (rule filter_cong [OF refl])
      fix x assume "x \<in> set ks"
      then have "x \<noteq> k" using Cons.prems(1) by auto
      then show "slot_fires s1 x = slot_fires s x" using d(2) [of x] by (simp add: slot_fires_def)
    qed
    have "status_of s1 idx = Some (b\<lparr>buf_refcnt := buf_refcnt b + (if slot_fires s k then 1 else 0)\<rparr>)"
      using d(1) [of idx] by simp
    from Cons.IH [OF _ this, of w1] Cons.prems(1,3) k d show ?case
      by (auto simp: f d(1) algebra_simps)
  qed simp
  then show "status_of s' j = (if j = idx then Some (b\<lparr>buf_refcnt := buf_refcnt b + of_nat (length (filter (slot_fires s) ks))\<rparr>) else status_of s j)"
    "length (buf_cb s') = length (buf_cb s)" "st_cmd_thread s' = st_cmd_thread s" "is_bundled s' = is_bundled s"
    "st_fd s' = st_fd s" "st_mem_vtbl s' = st_mem_vtbl s" "st_state s' = st_state s" "has_stream_cb s' \<Longrightarrow> has_stream_cb s"
    by blast+
qed

lemma dispatch_effect:
  assumes "cmd_idx cmd = Some i" "status_of s i = Some b"
    and "mm_stream_dispatch_app_data e cmd s c w = (s', c', w')"
  shows "\<exists>d s1 w1 rc. cmd = CMD_DATA_CB d \<and> (\<exists>f. bi_buf d = Some f \<and> unat (bd_buf_idx f) = i
      \<and> mm_stream_buf_done e f s1 w1 = (s', w', rc)) \<and> c' = c
      \<and> (\<forall>j. status_of s1 j = (if j = i then Some (b\<lparr>buf_refcnt := buf_refcnt b + of_nat (fired s)\<rparr>) else status_of s j))
      \<and> length (buf_cb s1) = length (buf_cb s) \<and> st_cmd_thread s1 = st_cmd_thread s \<and> is_bundled s1 = is_bundled s
      \<and> (has_stream_cb s1 \<longrightarrow> has_stream_cb s)"
proof -
  obtain d f where cmd: "cmd = CMD_DATA_CB d" "bi_buf d = Some f" "unat (bd_buf_idx f) = i"
    using assms(1) by (cases cmd) auto
  let ?sb = "\<lparr>sbf_camera_handle = cx_cam_hdl c, sbf_ch_id = cx_ch_hdl c, sbf_bufs = [Some f]\<rparr>"
  obtain s1 w1 where f: "fold (dispatch_slot ?sb i) [0 ..< MM_CAMERA_STREAM_BUF_CB_MAX] (s, w) = (s1, w1)" by fastforce
  obtain s2 w2 rc where bd: "mm_stream_buf_done e f s1 w1 = (s2, w2, rc)" by (metis prod_cases3)
  have r: "s' = s2" "c' = c" "w' = w2"
    using assms(3) cmd f bd by (auto simp: mm_stream_dispatch_app_data_def)
  note ef = dispatch_fold_effect [OF distinct_upt assms(2) f]
  show ?thesis
    using cmd bd r ef by (intro exI [of _ d] exI [of _ s1] exI [of _ w1] exI [of _ rc]) (auto simp: fired_def)
qed

section \<open>The accounts balance\<close>

text \<open>What \<^verbatim>\<open>buf_done\<close> does to the accounts.\<close>

lemma buf_done_effect:
  assumes "status_of s (unat (bd_buf_idx f)) = Some b" "buf_refcnt b \<noteq> 0" "mm_stream_buf_done e f s w = (s', w', rc)"
  shows "\<exists>b'. (\<forall>j. status_of s' j = (if j = unat (bd_buf_idx f) then Some b' else status_of s j))
     \<and> unat (buf_refcnt b') = unat (buf_refcnt b) - 1
     \<and> (in_kernel b' \<longrightarrow> in_kernel b \<or> buf_refcnt b' = 0)"
proof (cases rule: refcnt_cases [of "buf_refcnt b"])
  case 1
  then show ?thesis using assms(2) by simp
next
  case 2
  let ?i = "unat (bd_buf_idx f)"
  obtain w1 rc1 where q: "mm_stream_qbuf e f s w = (w1, rc1)" by fastforce
  let ?s1 = "set_status ?i (b\<lparr>buf_refcnt := 0\<rparr>) s"
  have s1: "status_of ?s1 ?i = Some (b\<lparr>buf_refcnt := 0\<rparr>)" using status_of_set [OF assms(1)] by simp
  have "s' = (if rc1 <s 0 then ?s1 else set_status ?i (b\<lparr>buf_refcnt := 0, in_kernel := True\<rparr>) ?s1)"
    using buf_done_last [OF assms(1) 2 q] assms(3) by (simp add: Let_def)
  then show ?thesis
    using 2 by (cases "rc1 <s 0") (auto simp: status_of_set [OF assms(1)] status_of_set [OF s1]
      intro: exI [of _ "b\<lparr>buf_refcnt := 0\<rparr>"] exI [of _ "b\<lparr>buf_refcnt := 0, in_kernel := True\<rparr>"])
next
  case 3
  have "unat (buf_refcnt b - 1) = unat (buf_refcnt b) - 1"
    using 3 by (metis assms(2) unat_minus_one)
  then show ?thesis
    using buf_done_more [OF assms(1) 3, of e w] assms(3) by (auto simp: status_of_set [OF assms(1)])
qed

lemma send_ok:
  "alloc_ok e \<Longrightarrow> th_queue t = Some q \<Longrightarrow> \<exists>w'. cmd_thread_send e c t w = (t\<lparr>th_queue := Some (q @ [c]), th_sem := th_sem t + 1\<rparr>, w', True)"
  by (simp add: cmd_thread_send_def malloc_ok_def alloc_ok_def)

lemma read_frame_effect:
  assumes "mm_stream_read_msm_frame e n s w = (s', w', info, rc)"
  shows "buf_status s' = buf_status s" "buf_cb s' = buf_cb s" "st_cmd_thread s' = st_cmd_thread s" "is_bundled s' = is_bundled s"
    and "st_state s' = st_state s" "rc = 0 \<Longrightarrow> \<exists>f. bi_buf info = Some f \<and> bd_buf_idx f = dq_index (e_dq e w)"
  using assms by (auto simp: mm_stream_read_msm_frame_def call_def Let_def buf_info_zero_def split: if_splits option.splits)

text \<open>A delivery either leaves the accounts alone or takes the frame out of the driver and queues one
  reference for each party that asked for it.\<close>

definition delivered :: "mm_stream \<Rightarrow> stream_ctx \<Rightarrow> nat \<Rightarrow> mm_stream_buf_status \<Rightarrow> mm_camera_buf_info \<Rightarrow> mm_stream \<Rightarrow> stream_ctx \<Rightarrow> bool" where
  "delivered s c i b info s' c' \<longleftrightarrow>
     (\<forall>j. status_of s' j = (if j = i then Some (b\<lparr>in_kernel := False,
          buf_refcnt := buf_refcnt b + (if is_bundled s then 1 else 0) + (if has_stream_cb s then 1 else 0)\<rparr>) else status_of s j))
     \<and> queued (st_cmd_thread s') = queued (st_cmd_thread s) @ (if has_stream_cb s then [CMD_DATA_CB info] else [])
     \<and> queued (cx_cmd_thread c') = queued (cx_cmd_thread c) @ (if is_bundled s then [CMD_DATA_CB info] else [])
     \<and> cmd_idx (CMD_DATA_CB info) = Some i"

lemma data_notify_effect:
  assumes "alloc_ok e" "status_of s i = Some b" "i = unat (dq_index (e_dq e w))"
    and "has_stream_cb s \<longrightarrow> th_queue (st_cmd_thread s) \<noteq> None" "is_bundled s \<longrightarrow> th_queue (cx_cmd_thread c) \<noteq> None"
    and "mm_stream_data_notify e s c w = (s', c', w')"
  shows "buf_cb s' = buf_cb s \<and> is_bundled s' = is_bundled s
     \<and> (th_queue (st_cmd_thread s) \<noteq> None \<longrightarrow> th_queue (st_cmd_thread s') \<noteq> None)
     \<and> (th_queue (cx_cmd_thread c) \<noteq> None \<longrightarrow> th_queue (cx_cmd_thread c') \<noteq> None)
     \<and> ((buf_status s' = buf_status s \<and> st_cmd_thread s' = st_cmd_thread s \<and> c' = c)
        \<or> (\<exists>info. delivered s c i b info s' c'))"
proof (cases "st_state s \<noteq> MM_STREAM_STATE_ACTIVE")
  case True
  then show ?thesis using assms(6) by (simp add: mm_stream_data_notify_def)
next
  case False
  obtain s1 w1 info rc where r: "mm_stream_read_msm_frame e (of_nat (fl_num_planes (frame_offset s))) s w = (s1, w1, info, rc)"
    by (metis prod_cases4)
  note rd = read_frame_effect [OF r]
  have cb: "has_stream_cb s1 = has_stream_cb s" using rd(2) by (simp add: has_stream_cb_def)
  show ?thesis
  proof (cases "rc = 0")
    case False
    then show ?thesis using assms(6) r rd \<open>\<not> _ \<noteq> MM_STREAM_STATE_ACTIVE\<close> by (simp add: mm_stream_data_notify_def)
  next
    case True
    obtain f where f: "bi_buf info = Some f" "bd_buf_idx f = dq_index (e_dq e w)" using rd(6) True by blast
    have st1: "status_of s1 i = Some b" using assms(2) status_of_cong [OF rd(1)] by simp
    let ?s2 = "set_status i (b\<lparr>in_kernel := False,
          buf_refcnt := buf_refcnt b + (if is_bundled s then 1 else 0) + (if has_stream_cb s then 1 else 0)\<rparr>) s1"
    have h: "mm_stream_handle_rcvd_buf e info (has_stream_cb s) ?s2 c w1 = (s', c', w')"
      using assms(6) r True f st1 \<open>\<not> _ \<noteq> MM_STREAM_STATE_ACTIVE\<close> assms(3)
      by (simp add: mm_stream_data_notify_def rd(4) cb Let_def)
    have st: "status_of ?s2 j = (if j = i then Some (b\<lparr>in_kernel := False,
          buf_refcnt := buf_refcnt b + (if is_bundled s then 1 else 0) + (if has_stream_cb s then 1 else 0)\<rparr>) else status_of s j)" for j
      using status_of_set [OF st1] status_of_cong [OF rd(1)] by simp
    have idx: "cmd_idx (CMD_DATA_CB info) = Some i" using f assms(3) by simp
    obtain c1 w2 where B: "(if is_bundled s then
          (case cmd_thread_send e (CMD_DATA_CB info) (cx_cmd_thread c) w1 of (t, w, _) \<Rightarrow> (c\<lparr>cx_cmd_thread := t\<rparr>, w))
        else (c, w1)) = (c1, w2)" by fastforce
    have c1: "queued (cx_cmd_thread c1) = queued (cx_cmd_thread c) @ (if is_bundled s then [CMD_DATA_CB info] else [])"
      "th_queue (cx_cmd_thread c) \<noteq> None \<longrightarrow> th_queue (cx_cmd_thread c1) \<noteq> None"
      using B assms(5) send_ok [OF assms(1), of "cx_cmd_thread c" _ "CMD_DATA_CB info" w1]
      by (auto simp: queued_def split: if_splits)
    obtain t w3 ok where S: "cmd_thread_send e (CMD_DATA_CB info) (st_cmd_thread s) w2 = (t, w3, ok)" by (metis prod_cases3)
    have t: "has_stream_cb s \<Longrightarrow> queued t = queued (st_cmd_thread s) @ [CMD_DATA_CB info] \<and> th_queue t \<noteq> None"
      using S assms(4) send_ok [OF assms(1), of "st_cmd_thread s" _ "CMD_DATA_CB info" w2] by (auto simp: queued_def)
    have res: "c' = c1" "s' = (if has_stream_cb s then ?s2\<lparr>st_cmd_thread := t\<rparr> else ?s2)"
      using h B S by (auto simp: mm_stream_handle_rcvd_buf_def rd(3,4) Let_def split: if_splits)
    have st': "status_of s' j = status_of ?s2 j" for j
      by (rule status_of_cong) (simp add: res)
    have "delivered s c i b info s' c'"
      unfolding delivered_def using st st' idx c1 t res rd(3) by simp
    moreover have "buf_cb s' = buf_cb s \<and> is_bundled s' = is_bundled s" using res rd by simp
    ultimately show ?thesis using c1(2) t res rd(3) by auto
  qed
qed

text \<open>What the invariant says of one buffer, and how it is rebuilt after a step on buffer \<^verbatim>\<open>i\<close>.\<close>

lemma invD: "proto_inv x \<Longrightarrow> status_of (ps x) i = Some b \<Longrightarrow>
    balance b (refs_in (queued (st_cmd_thread (ps x))) i) (refs_in (queued (cx_cmd_thread (pc x))) i) (held x i)"
  by (simp add: proto_inv_def)

lemma cmds_ok_cong: "(\<And>j. status_of s' j = None \<longleftrightarrow> status_of s j = None) \<Longrightarrow> cmds_ok s' q = cmds_ok s q"
  by (simp add: cmds_ok_def)

lemma cmds_ok_append: "cmds_ok s (q @ r) \<longleftrightarrow> cmds_ok s q \<and> cmds_ok s r"
  by (simp add: cmds_ok_def)

lemma cmds_ok_Cons: "cmds_ok s (c # q) \<longleftrightarrow> (\<exists>i. cmd_idx c = Some i \<and> status_of s i \<noteq> None) \<and> cmds_ok s q"
  by (simp add: cmds_ok_def)

lemma cmds_ok_Nil: "cmds_ok s []"
  by (simp add: cmds_ok_def)

lemma queued_pop: "queued t = c # q \<Longrightarrow> queued (pop_cmd t) = q" "queued t = c # q \<Longrightarrow> th_queue (pop_cmd t) \<noteq> None"
  by (auto simp: queued_def pop_cmd_def split: option.splits)

lemma proto_deliver:
  assumes inv: "proto_inv x" "alloc_ok e" and st: "status_of (ps x) i = Some b" "i = unat (dq_index (e_dq e (pw x)))"
    and k: "in_kernel b" and d: "mm_stream_data_notify e (ps x) (pc x) (pw x) = (s', c', w')"
  shows "proto_inv (x\<lparr>ps := s', pc := c', pw := w'\<rparr>)"
proof -
  let ?q = "queued (st_cmd_thread (ps x))" and ?r = "queued (cx_cmd_thread (pc x))"
  have q: "has_stream_cb (ps x) \<longrightarrow> th_queue (st_cmd_thread (ps x)) \<noteq> None"
    "is_bundled (ps x) \<longrightarrow> th_queue (cx_cmd_thread (pc x)) \<noteq> None"
    using inv(1) by (auto simp: proto_inv_def)
  note ef = data_notify_effect [OF inv(2) st q d]
  have cb: "has_stream_cb s' = has_stream_cb (ps x)" using ef by (simp add: has_stream_cb_def)
  show ?thesis
  proof (cases "buf_status s' = buf_status (ps x) \<and> st_cmd_thread s' = st_cmd_thread (ps x) \<and> c' = pc x")
    case True
    then have "status_of s' j = status_of (ps x) j" for j by (intro status_of_cong) simp
    moreover have "cmds_ok s' y = cmds_ok (ps x) y" for y using calculation by (intro cmds_ok_cong) simp
    ultimately show ?thesis using inv(1) ef True cb by (simp add: proto_inv_def)
  next
    case False
    then obtain info where dl: "delivered (ps x) (pc x) i b info s' c'" using ef by blast
    then have sq: "\<And>j. status_of s' j = (if j = i then Some (b\<lparr>in_kernel := False,
          buf_refcnt := buf_refcnt b + (if is_bundled (ps x) then 1 else 0) + (if has_stream_cb (ps x) then 1 else 0)\<rparr>) else status_of (ps x) j)"
      "queued (st_cmd_thread s') = ?q @ (if has_stream_cb (ps x) then [CMD_DATA_CB info] else [])"
      "queued (cx_cmd_thread c') = ?r @ (if is_bundled (ps x) then [CMD_DATA_CB info] else [])"
      "cmd_idx (CMD_DATA_CB info) = Some i"
      by (simp_all add: delivered_def)
    have none: "status_of s' j = None \<longleftrightarrow> status_of (ps x) j = None" for j using sq(1) st(1) by simp
    note ok = cmds_ok_cong [OF none]
    have b0: "refs_in ?q i = 0" "refs_in ?r i = 0" "held x i = 0" "buf_refcnt b = 0"
      using invD [OF inv(1) st(1)] k by (auto simp: balance_def)
    have "balance b' (refs_in (queued (st_cmd_thread s')) j) (refs_in (queued (cx_cmd_thread c')) j) (held x j)"
      if b': "status_of s' j = Some b'" for j b'
    proof (cases "j = i")
      case True
      then have "b' = b\<lparr>in_kernel := False,
          buf_refcnt := buf_refcnt b + (if is_bundled (ps x) then 1 else 0) + (if has_stream_cb (ps x) then 1 else 0)\<rparr>"
        using b' sq(1) by simp
      then show ?thesis using True b0 sq(2-) by (simp add: balance_def)
    next
      case False
      then have "status_of (ps x) j = Some b'" using b' sq(1) by simp
      moreover have "refs_in (queued (st_cmd_thread s')) j = refs_in ?q j" "refs_in (queued (cx_cmd_thread c')) j = refs_in ?r j"
        using sq(2-) False by auto
      ultimately show ?thesis using invD [OF inv(1)] by simp
    qed
    moreover have "cmds_ok (ps x) ?q" "cmds_ok (ps x) ?r" "\<forall>j. status_of (ps x) j = None \<longrightarrow> held x j = 0"
      using inv(1) by (simp_all add: proto_inv_def)
    ultimately show ?thesis
      using inv(1) ef cb none sq(2-) st(1) by (auto simp: proto_inv_def ok cmds_ok_append cmds_ok_Cons cmds_ok_Nil)
  qed
qed

lemma proto_back:
  assumes inv: "proto_inv x" and h: "0 < held x (unat (bd_buf_idx f))" and d: "mm_stream_buf_done e f (ps x) (pw x) = (s', w', rc)"
  shows "proto_inv (x\<lparr>ps := s', pw := w', held := (held x)(unat (bd_buf_idx f) := held x (unat (bd_buf_idx f)) - 1)\<rparr>)"
proof -
  let ?i = "unat (bd_buf_idx f)"
  obtain b where b: "status_of (ps x) ?i = Some b" using inv h by (cases "status_of (ps x) ?i") (auto simp: proto_inv_def)
  note bal = invD [OF inv b]
  then have "unat (buf_refcnt b) \<noteq> 0" using h by (simp add: balance_def)
  then have n0: "buf_refcnt b \<noteq> 0" by auto
  obtain b' where ef: "\<And>j. status_of s' j = (if j = ?i then Some b' else status_of (ps x) j)"
    "unat (buf_refcnt b') = unat (buf_refcnt b) - 1" "in_kernel b' \<longrightarrow> in_kernel b \<or> buf_refcnt b' = 0"
    using buf_done_effect [OF b n0 d] by blast
  note fr = buf_done_frame [OF d]
  have none: "status_of s' j = None \<longleftrightarrow> status_of (ps x) j = None" for j using ef(1) b by simp
  have "balance b' (refs_in (queued (st_cmd_thread (ps x))) ?i) (refs_in (queued (cx_cmd_thread (pc x))) ?i) (held x ?i - 1)"
    using bal ef(2,3) h n0 by (auto simp: balance_def split: if_splits)
  then show ?thesis
    using inv ef(1) fr none b by (simp add: proto_inv_def cmds_ok_cong [OF none] has_stream_cb_def)
qed

lemma proto_collect:
  assumes inv: "proto_inv x" and q: "queued (cx_cmd_thread (pc x)) = cmd # q" "cmd_idx cmd = Some i"
  shows "proto_inv (x\<lparr>pc := (pc x)\<lparr>cx_cmd_thread := pop_cmd (cx_cmd_thread (pc x))\<rparr>, held := (held x)(i := held x i + 1)\<rparr>)"
proof -
  let ?x = "x\<lparr>pc := (pc x)\<lparr>cx_cmd_thread := pop_cmd (cx_cmd_thread (pc x))\<rparr>, held := (held x)(i := held x i + 1)\<rparr>"
  have c: "status_of (ps x) i \<noteq> None" "cmds_ok (ps x) q"
    using inv q by (auto simp: proto_inv_def cmds_ok_Cons)
  have "balance b (refs_in (queued (st_cmd_thread (ps x))) j) (refs_in q j) (held ?x j)" if "status_of (ps x) j = Some b" for j b
    using invD [OF inv that] q by (auto simp: balance_def split: if_splits)
  then show ?thesis
    using inv c queued_pop [OF q(1)] by (auto simp: proto_inv_def)
qed

lemma proto_dispatch:
  assumes inv: "proto_inv x" and q: "queued (st_cmd_thread (ps x)) = cmd # q" "cmd_idx cmd = Some i"
    and d: "mm_stream_dispatch_app_data e cmd ((ps x)\<lparr>st_cmd_thread := pop_cmd (st_cmd_thread (ps x))\<rparr>) (pc x) (pw x) = (s', c', w')"
  shows "proto_inv (x\<lparr>ps := s', pc := c', pw := w', held := (held x)(i := held x i + fired (ps x))\<rparr>)"
proof -
  let ?s = "(ps x)\<lparr>st_cmd_thread := pop_cmd (st_cmd_thread (ps x))\<rparr>"
  have st: "status_of ?s j = status_of (ps x) j" for j by (rule status_of_cong) simp
  have "slot_fires ?s = slot_fires (ps x)" by (rule ext) (simp add: slot_fires_def)
  then have fire: "fired ?s = fired (ps x)" by (simp add: fired_def)
  have c: "status_of (ps x) i \<noteq> None" "cmds_ok (ps x) q"
    using inv q by (auto simp: proto_inv_def cmds_ok_Cons)
  then obtain b where b: "status_of (ps x) i = Some b" by auto
  have bi: "status_of ?s i = Some b" using b st by simp
  obtain d' s1 w1 rc f where E: "unat (bd_buf_idx f) = i" "mm_stream_buf_done e f s1 w1 = (s', w', rc)" "c' = pc x"
    "\<And>j. status_of s1 j = (if j = i then Some (b\<lparr>buf_refcnt := buf_refcnt b + of_nat (fired (ps x))\<rparr>) else status_of (ps x) j)"
    "length (buf_cb s1) = length (buf_cb ?s)" "st_cmd_thread s1 = st_cmd_thread ?s" "is_bundled s1 = is_bundled ?s"
    "has_stream_cb s1 \<longrightarrow> has_stream_cb ?s"
    using dispatch_effect [OF q(2) bi d] by (auto simp: st fire)
  note bal = invD [OF inv b]
  have qs: "refs_in q i = 0" "refs_in (queued (cx_cmd_thread (pc x))) i + held x i \<le> 1"
    "unat (buf_refcnt b) = 1 + refs_in (queued (cx_cmd_thread (pc x))) i + held x i"
    using bal q by (simp_all add: balance_def split: if_splits)
  have k: "\<not> in_kernel b" using bal qs(3) by (auto simp: balance_def)
  have ref: "unat (buf_refcnt b + of_nat (fired (ps x))) = unat (buf_refcnt b) + fired (ps x)"
  proof -
    have "unat (of_nat (fired (ps x)) :: u8) = fired (ps x)" using fired_le [of "ps x"] by (simp add: unat_of_nat)
    then show ?thesis using qs fired_le [of "ps x"] by (simp add: unat_word_ariths)
  qed
  let ?b1 = "b\<lparr>buf_refcnt := buf_refcnt b + of_nat (fired (ps x))\<rparr>"
  have b1: "status_of s1 (unat (bd_buf_idx f)) = Some ?b1" using E(1,4) by simp
  have "unat (buf_refcnt ?b1) \<noteq> 0" using ref qs(3) by simp
  then have n0: "buf_refcnt ?b1 \<noteq> 0" by (metis unat_0)
  obtain b' where ef: "\<And>j. status_of s' j = (if j = i then Some b' else status_of s1 j)"
    "unat (buf_refcnt b') = unat (buf_refcnt ?b1) - 1" "in_kernel b' \<longrightarrow> in_kernel ?b1 \<or> buf_refcnt b' = 0"
    using buf_done_effect [OF b1 n0 E(2)] E(1) by blast
  note fr = buf_done_frame [OF E(2)]
  have stj: "status_of s' j = (if j = i then Some b' else status_of (ps x) j)" for j using ef(1) E(4) by simp
  then have none: "status_of s' j = None \<longleftrightarrow> status_of (ps x) j = None" for j using b by simp
  have "balance b' 0 (refs_in (queued (cx_cmd_thread (pc x))) i) (held x i + fired (ps x))"
    using ef(2,3) ref qs k fired_le [of "ps x"] by (auto simp: balance_def)
  moreover have "balance b'' (refs_in q j) (refs_in (queued (cx_cmd_thread (pc x))) j) (held x j)"
    if "j \<noteq> i" "status_of (ps x) j = Some b''" for j b''
    using invD [OF inv that(2)] q that(1) by simp
  moreover have "has_stream_cb s' \<longrightarrow> has_stream_cb (ps x)" using E(8) fr(2) by (simp add: has_stream_cb_def)
  ultimately show ?thesis
    using inv c b stj fr E(3,5,6,7) queued_pop [OF q(1)] qs(1)
    by (auto simp: proto_inv_def cmds_ok_cong [OF none])
qed

lemma proto_step_inv:
  assumes "proto_step e x x'" "alloc_ok e" "proto_inv x"
  shows "proto_inv x'"
  using assms(1)
proof cases
  case (deliver b s' c' w')
  then show ?thesis using proto_deliver [OF assms(3,2) deliver(3) refl] by simp
next
  case (dispatch cmd q i s' c' w')
  then show ?thesis using proto_dispatch [OF assms(3)] by simp
next
  case (collect cmd q i)
  then show ?thesis using proto_collect [OF assms(3)] by simp
next
  case (give_back b s' w' rc)
  then show ?thesis using proto_back [OF assms(3)] by simp
qed

section \<open>From registration on\<close>

text \<open>Registering the buffers and starting the stream; a buffer that is not handed to the driver at once
  belongs to the application.\<close>

definition proto_start :: "env \<Rightarrow> mm_stream \<Rightarrow> stream_ctx \<Rightarrow> world \<Rightarrow> proto option" where
  "proto_start e s c w = (case mm_stream_reg_buf e s w of (s1, w1, rc) \<Rightarrow>
     if rc \<noteq> 0 then None
     else (case stream_start e s1 c w1 of (s2, c2, w2, rc2) \<Rightarrow>
       if rc2 \<noteq> 0 then None
       else Some \<lparr>ps = s2, pc = c2, pw = w2,
         held = (\<lambda>i. case status_of s i of None \<Rightarrow> 0 | Some b \<Rightarrow> if initial_reg_flag b then 0 else 1)\<rparr>))"

definition idle :: "mm_stream \<Rightarrow> stream_ctx \<Rightarrow> bool" where
  "idle s c \<longleftrightarrow> length (buf_cb s) = MM_CAMERA_STREAM_BUF_CB_MAX \<and> queued (st_cmd_thread s) = []
     \<and> queued (cx_cmd_thread c) = [] \<and> (is_bundled s \<longrightarrow> th_queue (cx_cmd_thread c) \<noteq> None)
     \<and> (\<exists>st. buf_status s = Some st \<and> length st = unat (buf_num s))"

inductive proto_reachable :: "env \<Rightarrow> proto \<Rightarrow> bool" for e where
  start: "idle s c \<Longrightarrow> proto_start e s c w = Some x \<Longrightarrow> proto_reachable e x"
| step: "proto_reachable e x \<Longrightarrow> proto_step e x x' \<Longrightarrow> proto_reachable e x'"

lemma reg_loop_frame:
  "reg_buf_loop e i k s w = (s', w', rc) \<Longrightarrow>
     buf_cb s' = buf_cb s \<and> st_cmd_thread s' = st_cmd_thread s \<and> is_bundled s' = is_bundled s"
  by (induction e i k s w rule: reg_buf_loop.induct) (auto split: option.splits if_splits prod.splits)

lemma reg_loop_effect:
  "reg_buf_loop e i k s w = (s', w', 0) \<Longrightarrow>
     status_of s' j = (if i \<le> j \<and> j < i + k
       then map_option (\<lambda>b. b\<lparr>buf_refcnt := if initial_reg_flag b then 0 else 1, in_kernel := initial_reg_flag b\<rparr>) (status_of s j)
       else status_of s j)"
proof (induction e i k s w rule: reg_buf_loop.induct)
  case (2 e i k s w)
  obtain b bufs where b: "status_of s i = Some b" "st_buf s = Some bufs"
    using 2(3) by (auto split: option.splits)
  note st = status_of_set [OF b(1)]
  show ?case
  proof (cases "initial_reg_flag b")
    case True
    then show ?thesis
      using 2(1) [OF refl b True] 2(3) b st by (cases "j = i") (auto split: prod.splits if_splits)
  next
    case False
    then show ?thesis
      using 2(2) [OF refl b False] 2(3) b st by (cases "j = i") auto
  qed
qed auto

lemma streamon_frame:
  "mm_stream_streamon e s c w = (c', w', rc) \<Longrightarrow> cx_cmd_thread c' = cx_cmd_thread c"
  by (auto simp: mm_stream_streamon_def Let_def split: prod.splits if_splits)

lemma start_frame:
  assumes "stream_start e s c w = (s', c', w', 0)"
  shows "buf_status s' = buf_status s" "buf_cb s' = buf_cb s" "is_bundled s' = is_bundled s"
    and "cx_cmd_thread c' = cx_cmd_thread c" "st_state s' = MM_STREAM_STATE_ACTIVE"
    and "if has_stream_cb s then th_queue (st_cmd_thread s') = Some [] else st_cmd_thread s' = st_cmd_thread s"
  using assms streamon_frame
  by (auto simp: stream_start_def Let_def mm_camera_cmd_thread_launch_def split: prod.splits if_splits)

lemma proto_start_inv:
  assumes "idle s c" "proto_start e s c w = Some x"
  shows "proto_inv x"
proof -
  obtain s1 w1 where r: "mm_stream_reg_buf e s w = (s1, w1, 0)"
    using assms(2) by (auto simp: proto_start_def split: prod.splits if_splits)
  obtain s2 c2 w2 where t: "stream_start e s1 c w1 = (s2, c2, w2, 0)"
    and x: "x = \<lparr>ps = s2, pc = c2, pw = w2,
         held = (\<lambda>i. case status_of s i of None \<Rightarrow> 0 | Some b \<Rightarrow> if initial_reg_flag b then 0 else 1)\<rparr>"
    using assms(2) r by (auto simp: proto_start_def split: prod.splits if_splits)
  obtain w0 where l: "reg_buf_loop e 0 (unat (buf_num s)) s w0 = (s1, w1, 0)"
    using r by (auto simp: mm_stream_reg_buf_def split: prod.splits if_splits)
  note fr = reg_loop_frame [OF l] and sf = start_frame [OF t]
  have "status_of s j = None" if "\<not> j < unat (buf_num s)" for j
    using assms(1) that by (auto simp: idle_def status_of_def)
  then have st: "status_of s2 j = map_option (\<lambda>b. b\<lparr>buf_refcnt := if initial_reg_flag b then 0 else 1, in_kernel := initial_reg_flag b\<rparr>) (status_of s j)" for j
    using reg_loop_effect [OF l, of j] status_of_cong [OF sf(1)] by (cases "j < unat (buf_num s)") auto
  have q: "queued (st_cmd_thread s2) = []"
    using sf(6) fr assms(1) by (auto simp: queued_def idle_def split: if_splits)
  have cb: "has_stream_cb s2 = has_stream_cb s1" using sf(2) by (simp add: has_stream_cb_def)
  have "balance b 0 0 (held x j)" if "status_of s2 j = Some b" for b j
    using that st [of j] x by (auto simp: balance_def)
  moreover have "status_of s2 j = None \<longrightarrow> held x j = 0" for j using st [of j] x by simp
  ultimately show ?thesis
    using assms(1) fr sf q x cb
    by (auto simp: proto_inv_def idle_def cmds_ok_def refs_in_def split: if_splits)
qed

lemma proto_reachable_inv: "proto_reachable e x \<Longrightarrow> alloc_ok e \<Longrightarrow> proto_inv x"
  by (induction rule: proto_reachable.induct) (blast intro: proto_start_inv proto_step_inv)+

text \<open>C2: reference counts are exact.  From a successful registration and start on, in every interleaving of frame
  deliveries, callback dispatches, the channel collecting bundled frames and holders giving buffers
  back, and as long as allocations succeed, the reference count of every buffer is the number of references queued
  for the stream's callbacks, queued for the channel and held by their recipients, it never reaches
  the point where the 8-bit counter could wrap, and a buffer the driver owns has no reference left.\<close>

theorem buffer_refcount_exact:
  assumes "proto_reachable e x" "alloc_ok e" "status_of (ps x) i = Some b"
  shows "unat (buf_refcnt b) = refs_in (queued (st_cmd_thread (ps x))) i + refs_in (queued (cx_cmd_thread (pc x))) i + held x i
    \<and> unat (buf_refcnt b) \<le> 5 \<and> (in_kernel b \<longrightarrow> buf_refcnt b = 0)"
  using invD [OF proto_reachable_inv [OF assms(1,2)] assms(3)] by (auto simp: balance_def split: if_splits)

text \<open>giving a reference back: without an outstanding reference the call fails and changes nothing;
  while others remain only the counter drops and the driver is not called; with the last one the
  buffer is queued to the driver and, if the driver takes it, marked as the driver's.\<close>

theorem buf_done_requeues_last:
  assumes "status_of s (unat (bd_buf_idx f)) = Some b" "mm_stream_buf_done e f s w = (s', w', rc)"
  shows "(buf_refcnt b = 0 \<longrightarrow> s' = s \<and> w' = w \<and> rc = -1)
    \<and> (1 < buf_refcnt b \<longrightarrow> w' = w \<and> rc = 0 \<and> status_of s' (unat (bd_buf_idx f)) = Some (b\<lparr>buf_refcnt := buf_refcnt b - 1\<rparr>))
    \<and> (buf_refcnt b = 1 \<and> 0 \<le>s rc \<longrightarrow> w' = w @ qbuf_calls s f
         \<and> status_of s' (unat (bd_buf_idx f)) = Some (b\<lparr>buf_refcnt := 0, in_kernel := True\<rparr>))
    \<and> (buf_refcnt b = 1 \<and> rc <s 0 \<longrightarrow> status_of s' (unat (bd_buf_idx f)) = Some (b\<lparr>buf_refcnt := 0\<rparr>))"
proof (cases rule: refcnt_cases [of "buf_refcnt b"])
  case 1
  then show ?thesis using buf_done_none [OF assms(1), of e w] assms(2) by simp
next
  case 2
  obtain w1 rc1 where q: "mm_stream_qbuf e f s w = (w1, rc1)" by fastforce
  have s1: "status_of (set_status (unat (bd_buf_idx f)) (b\<lparr>buf_refcnt := 0\<rparr>) s) (unat (bd_buf_idx f)) = Some (b\<lparr>buf_refcnt := 0\<rparr>)"
    using status_of_set [OF assms(1)] by simp
  have "rc1 <s 0 \<longleftrightarrow> \<not> 0 \<le>s rc1" by (simp add: word_sle_eq word_sless_alt not_le)
  then show ?thesis
    using 2 buf_done_last [OF assms(1) 2 q] assms(2) s1 status_of_set [OF s1] qbuf_trace [OF q]
    by (auto simp: Let_def split: if_splits)
next
  case 3
  then have "buf_refcnt b \<noteq> 0" "buf_refcnt b \<noteq> 1" by auto
  then show ?thesis using buf_done_more [OF assms(1) 3, of e w] assms(2) status_of_set [OF assms(1)] by simp
qed

text \<open>One buffer, a registered callback, a bundled stream; the driver fills the buffer and the frame is delivered.\<close>

definition ex_frame :: "u8 \<Rightarrow> mm_camera_buf_def" where
  "ex_frame i = \<lparr>bd_stream_id = 0x301, bd_stream_type = CAM_STREAM_TYPE_PREVIEW, bd_buf_idx = i, bd_is_uv_subsampled = 0,
     bd_ts = (0, 0), bd_frame_idx = 7, bd_num_planes = 2, bd_planes = [0, 0], bd_fd = 30, bd_buffer = 1, bd_frame_len = 64\<rparr>"

definition ex_reg :: mm_stream where
  "ex_reg = ex_stream\<lparr>st_state := MM_STREAM_STATE_REG, is_bundled := True, buf_num := 1, st_buf := Some [ex_frame 0],
     buf_status := Some [\<lparr>buf_refcnt = 0, initial_reg_flag = True, in_kernel = False\<rparr>],
     buf_cb := (replicate MM_CAMERA_STREAM_BUF_CB_MAX no_cb)[0 := \<lparr>cb_fn = Some 42, cb_count = -1\<rparr>]\<rparr>"

definition ex_proto0 :: proto where "ex_proto0 = the (proto_start ex_env ex_reg ex_ctx [])"

definition ex_proto1 :: proto where
  "ex_proto1 = (case mm_stream_data_notify ex_env (ps ex_proto0) (pc ex_proto0) (pw ex_proto0) of
     (s, c, w) \<Rightarrow> ex_proto0\<lparr>ps := s, pc := c, pw := w\<rparr>)"

lemmas ex_proto_defs = ex_proto0_def ex_proto1_def ex_reg_def ex_stream_def ex_ctx_def ex_env_def ex_frame_def

lemma ex_start: "\<not> Option.is_none (proto_start ex_env ex_reg ex_ctx [])"
  "st_state (ps ex_proto0) = MM_STREAM_STATE_ACTIVE"
  "status_of (ps ex_proto0) 0 = Some \<lparr>buf_refcnt = 0, initial_reg_flag = True, in_kernel = True\<rparr>"
  "unat (dq_index (e_dq ex_env (pw ex_proto0))) = 0"
  by code_simp+

lemma ex_delivered: "status_of (ps ex_proto1) 0 = Some \<lparr>buf_refcnt = 2, initial_reg_flag = True, in_kernel = False\<rparr>"
  "refs_in (queued (st_cmd_thread (ps ex_proto1))) 0 = 1" "refs_in (queued (cx_cmd_thread (pc ex_proto1))) 0 = 1"
  "held ex_proto1 0 = 0"
  by code_simp+

lemma ex_reachable: "proto_reachable ex_env ex_proto1" "alloc_ok ex_env"
proof -
  have "idle ex_reg ex_ctx"
    by (simp add: idle_def ex_reg_def ex_stream_def ex_ctx_def mm_stream_zero_def queued_def cmd_thread_zero_def)
  then have 0: "proto_reachable ex_env ex_proto0"
    using ex_start(1) unfolding ex_proto0_def Option.is_none_def by (auto intro: proto_reachable.start)
  obtain s c w where n: "mm_stream_data_notify ex_env (ps ex_proto0) (pc ex_proto0) (pw ex_proto0) = (s, c, w)"
    by (metis prod_cases3)
  have "proto_step ex_env ex_proto0 ex_proto1"
    unfolding ex_proto1_def n prod.case using ex_start by (auto intro: proto_step.deliver [OF _ _ _ n])
  with 0 show "proto_reachable ex_env ex_proto1" by (rule proto_reachable.step)
  show "alloc_ok ex_env" by (simp add: alloc_ok_def ex_env_def)
qed

theorem buffer_refcount_exact_witness:
  "\<exists>b. status_of (ps ex_proto1) 0 = Some b \<and> unat (buf_refcnt b) = 2 \<and> \<not> in_kernel b"
  using buffer_refcount_exact [OF ex_reachable ex_delivered(1)] ex_delivered by simp

theorem buf_done_requeues_last_witness:
  "\<exists>s' w'. mm_stream_buf_done ex_env (ex_frame 0)
       (set_status 0 \<lparr>buf_refcnt = 1, initial_reg_flag = True, in_kernel = False\<rparr> ex_reg) [] = (s', w', 0)
     \<and> w' = [Qbuf 0 0 2 [0, 0]] \<and> status_of s' 0 = Some \<lparr>buf_refcnt = 0, initial_reg_flag = True, in_kernel = True\<rparr>"
proof -
  let ?s = "set_status 0 \<lparr>buf_refcnt = 1, initial_reg_flag = True, in_kernel = False\<rparr> ex_reg"
  have st: "status_of ?s (unat (bd_buf_idx (ex_frame 0))) = Some \<lparr>buf_refcnt = 1, initial_reg_flag = True, in_kernel = False\<rparr>"
    by code_simp
  obtain s' w' rc where r: "mm_stream_buf_done ex_env (ex_frame 0) ?s [] = (s', w', rc)" by (metis prod_cases3)
  moreover have "rc = 0" using r st by (simp add: mm_stream_buf_done_def mm_stream_qbuf_def call_def ex_env_def ex_reg_def
      ex_stream_def mm_stream_zero_def Let_def word_sless_alt)
  ultimately show ?thesis
    using buf_done_requeues_last [OF st r]
    by (simp add: qbuf_calls_def ex_reg_def ex_stream_def mm_stream_zero_def ex_frame_def word_sle_eq)
qed

section \<open>When an allocation fails\<close>

text \<open>the counts are exact only as long as allocations succeed: the references are counted before the
  commands are allocated, so a frame received while \<^verbatim>\<open>malloc\<close> fails is charged one reference per recipient and
  handed to none of them; the buffer can never return to the driver.\<close>

theorem data_notify_malloc_failure_leaks:
  assumes "\<forall>w. e_ret e w Malloc = 0" "status_of s i = Some b" "i = unat (dq_index (e_dq e w))"
    and "st_state s = MM_STREAM_STATE_ACTIVE"
    and "mm_stream_read_msm_frame e (of_nat (fl_num_planes (frame_offset s))) s w = (s1, w1, info, 0)"
    and "mm_stream_data_notify e s c w = (s', c', w')"
  shows "status_of s' i = Some (b\<lparr>in_kernel := False,
      buf_refcnt := buf_refcnt b + (if is_bundled s then 1 else 0) + (if has_stream_cb s then 1 else 0)\<rparr>)
    \<and> st_cmd_thread s' = st_cmd_thread s \<and> c' = c"
proof -
  note rd = read_frame_effect [OF assms(5)]
  obtain f where f: "bi_buf info = Some f" "bd_buf_idx f = dq_index (e_dq e w)" using rd(6) by blast
  have st1: "status_of s1 i = Some b" using assms(2) status_of_cong [OF rd(1)] by simp
  have send: "cmd_thread_send e m t w = (t, w @ [Malloc], False)" for m t w
    using assms(1) by (simp add: cmd_thread_send_def malloc_ok_def)
  have "has_stream_cb s1 = has_stream_cb s" using rd(2) by (simp add: has_stream_cb_def)
  then have "\<exists>w''. mm_stream_handle_rcvd_buf e info (has_stream_cb s) (set_status i (b\<lparr>in_kernel := False,
      buf_refcnt := buf_refcnt b + (if is_bundled s then 1 else 0) + (if has_stream_cb s then 1 else 0)\<rparr>) s1) c w1
      = (s', c', w'')"
    using assms(3-6) f st1 by (simp add: mm_stream_data_notify_def rd(4) Let_def)
  then have "s' = set_status i (b\<lparr>in_kernel := False,
      buf_refcnt := buf_refcnt b + (if is_bundled s then 1 else 0) + (if has_stream_cb s then 1 else 0)\<rparr>) s1 \<and> c' = c"
    by (auto simp: mm_stream_handle_rcvd_buf_def send rd(3) Let_def split: if_splits)
  then show ?thesis using status_of_set [OF st1] rd(3) by simp
qed

definition low_env :: env where
  "low_env = ex_env\<lparr>e_ret := (\<lambda>w c. 0)\<rparr>"

definition ex_active :: mm_stream where
  "ex_active = ex_reg\<lparr>st_state := MM_STREAM_STATE_ACTIVE,
     buf_status := Some [\<lparr>buf_refcnt = 0, initial_reg_flag = True, in_kernel = True\<rparr>]\<rparr>"

theorem data_notify_malloc_failure_leaks_witness:
  "\<exists>s' c' w'. mm_stream_data_notify low_env ex_active ex_ctx [] = (s', c', w')
     \<and> status_of s' 0 = Some \<lparr>buf_refcnt = 2, initial_reg_flag = True, in_kernel = False\<rparr>
     \<and> queued (cx_cmd_thread c') = []"
proof -
  obtain s' c' w' where n: "mm_stream_data_notify low_env ex_active ex_ctx [] = (s', c', w')" by (metis prod_cases3)
  obtain s1 w1 info rc where r: "mm_stream_read_msm_frame low_env (of_nat (fl_num_planes (frame_offset ex_active))) ex_active [] = (s1, w1, info, rc)"
    by (metis prod_cases4)
  have "snd (snd (snd (mm_stream_read_msm_frame low_env (of_nat (fl_num_planes (frame_offset ex_active))) ex_active []))) = 0"
    by code_simp
  then have rc: "rc = 0" by (simp add: r)
  have "has_stream_cb ex_active" "is_bundled ex_active" by code_simp+
  with data_notify_malloc_failure_leaks [OF _ _ _ _ r [unfolded rc] n, of 0 "\<lparr>buf_refcnt = 0, initial_reg_flag = True, in_kernel = True\<rparr>"]
  show ?thesis using n
    by (simp add: low_env_def ex_env_def ex_active_def ex_reg_def status_of_def ex_ctx_def queued_def)
qed

end
