(* ===== verification/ChannelProps.thy ===== *)
theory ChannelProps
  imports Channel StreamBufs
begin

text \<open>
  The properties of a channel (theory \<^verbatim>\<open>Channel\<close>): its state machine, the order in which streams are started and
  stopped, what a failed start and a stop leave behind, exact dispatch of requested super buffers, and, through
  an interpretation of the locale \<^verbatim>\<open>buffer_sink\<close>, the conservation of buffers.
\<close>

section \<open>The state machine follows its diagram\<close>

definition chan_next :: "mm_channel_state \<Rightarrow> mm_channel_evt \<Rightarrow> bool \<Rightarrow> mm_channel_state" where
  "chan_next st evt ok = (case (st, evt) of
     (MM_CHANNEL_STATE_STOPPED, MM_CHANNEL_EVT_START) \<Rightarrow> if ok then MM_CHANNEL_STATE_ACTIVE else st
   | (MM_CHANNEL_STATE_STOPPED, MM_CHANNEL_EVT_DELETE) \<Rightarrow> MM_CHANNEL_STATE_NOTUSED
   | (MM_CHANNEL_STATE_ACTIVE, MM_CHANNEL_EVT_STOP) \<Rightarrow> MM_CHANNEL_STATE_STOPPED
   | _ \<Rightarrow> st)"

lemma run_state: "run_stream e bld i evt chw = (chw', rc) \<Longrightarrow> ch_state (fst chw') = ch_state (fst chw)"
  using same_run [of chw e bld i evt] by (simp add: same_chan_def)

lemma on_stream_state: "on_stream e bld sid evt chw = (chw', rc) \<Longrightarrow> ch_state (fst chw') = ch_state (fst chw)"
  by (auto simp: on_stream_def dest: run_state split: option.splits)

lemma add_stream_state: "mm_channel_add_stream e bld cnt chw = (cnt', chw', h) \<Longrightarrow> ch_state (fst chw') = ch_state (fst chw)"
  by (auto simp: mm_channel_add_stream_def Let_def dest!: run_state split: prod.splits option.splits if_splits)

lemma del_stream_state: "mm_channel_del_stream e bld sid chw = (chw', rc) \<Longrightarrow> ch_state (fst chw') = ch_state (fst chw)"
  by (auto simp: mm_channel_del_stream_def dest: run_state split: option.splits)

lemma config_stream_state: "mm_channel_config_stream e bld sid c chw = (chw', rc) \<Longrightarrow> ch_state (fst chw') = ch_state (fst chw)"
  by (auto simp: mm_channel_config_stream_def dest: run_state split: option.splits)

lemma bundle_info_state: "mm_channel_get_bundle_info chw = (chw', i, rc) \<Longrightarrow> ch_state (fst chw') = ch_state (fst chw)"
  by (auto simp: mm_channel_get_bundle_info_def Let_def split: prod.splits if_splits)

lemma send_state: "chan_send e cmd chw = (chw', rc) \<Longrightarrow> ch_state (fst chw') = ch_state (fst chw)"
  by (auto simp: chan_send_def split: prod.splits)

lemma map_state: "mm_channel_map_stream_buf e p chw = (chw', rc) \<Longrightarrow> ch_state (fst chw') = ch_state (fst chw)"
  "mm_channel_unmap_stream_buf e p chw = (chw', rc) \<Longrightarrow> ch_state (fst chw') = ch_state (fst chw)"
  by (auto simp: mm_channel_map_stream_buf_def mm_channel_unmap_stream_buf_def split: prod.splits option.splits)

lemmas chan_op_defs = mm_channel_set_stream_parm_def mm_channel_get_stream_parm_def mm_channel_do_stream_action_def
  mm_channel_request_super_buf_def mm_channel_cancel_super_buf_request_def mm_channel_flush_super_buf_queue_def
  mm_channel_config_notify_mode_def

lemmas chan_state_facts = on_stream_state add_stream_state del_stream_state config_stream_state bundle_info_state send_state
  map_state start_state_kept(1)

lemma release_state: "ch_state (fst (mm_channel_release e chw)) = MM_CHANNEL_STATE_NOTUSED"
  by (simp add: mm_channel_release_def split: prod.splits)

text \<open>the channel state machine moves exactly along its diagram: a successful start takes a stopped channel to
  active, stop takes an active one to stopped whatever happens, delete takes a stopped one out of use; every other event,
  and any event in the unused and paused states, leaves the state alone.\<close>

theorem channel_fsm_follows_diagram:
  assumes "mm_channel_fsm_fn e bld evt cnt chw = (cnt', chw', out, rc)"
  shows "ch_state (fst chw') = chan_next (ch_state (fst chw)) evt (rc = 0)"
proof (cases "ch_state (fst chw)")
  case MM_CHANNEL_STATE_STOPPED
  then show ?thesis
    using assms by (cases evt)
      (auto simp: mm_channel_fsm_fn_def mm_channel_fsm_fn_stopped_def plain_def chan_next_def set_ch_state_def release_state chan_op_defs
        dest!: chan_state_facts split: prod.splits if_splits)
next
  case MM_CHANNEL_STATE_ACTIVE
  then show ?thesis
    using assms by (cases evt)
      (auto simp: mm_channel_fsm_fn_def mm_channel_fsm_fn_active_def plain_def chan_next_def set_ch_state_def chan_op_defs
        dest!: chan_state_facts split: prod.splits if_splits)
qed (use assms in \<open>auto simp: channel_fsm_defs chan_next_def\<close>)

section \<open>The channel provides what its queue relies on\<close>

interpretation chk: ops_keep "channel_ops e bld" same_chan
proof
  show "same_chan s (op_qbuf (channel_ops e bld) b s)" for b s by (simp add: channel_ops_def same_qbuf)
  show "same_chan s (snd (op_alloc (channel_ops e bld) s))" for s by (simp add: channel_ops_def same_chan_def malloc_ok_def split: prod.splits)
  show "same_chan s (op_set_led (channel_ops e bld) v s)" for v s by (simp add: channel_ops_def same_chan_def split: prod.splits)
qed (auto intro: same_chan_trans)

text \<open>The buffers given back through \<^verbatim>\<open>mm_channel_qbuf\<close>, read off the trace.\<close>

definition qbuf_mark :: "syscall \<Rightarrow> mm_camera_buf_def option" where
  "qbuf_mark c = (case c of ChannelQbuf b \<Rightarrow> Some b | _ \<Rightarrow> None)"

definition returned :: "chan \<Rightarrow> mm_camera_buf_def multiset" where
  "returned chw = mset (List.map_filter qbuf_mark (snd chw))"

lemma map_filter_append: "List.map_filter f (xs @ ys) = List.map_filter f xs @ List.map_filter f ys"
  by (simp add: List.map_filter_def)

lemma returned_step: "returned (ch, w @ ys) = returned (ch', w) + mset (List.map_filter qbuf_mark ys)"
  by (simp add: returned_def map_filter_append)

lemma mark_simps [simp]: "List.map_filter qbuf_mark [] = []"
  "List.map_filter qbuf_mark (c # cs) = (case qbuf_mark c of Some b \<Rightarrow> [b] | None \<Rightarrow> []) @ List.map_filter qbuf_mark cs"
  by (simp_all add: List.map_filter_def split: option.split)

lemma buf_done_marks: "mm_stream_buf_done e b s w = (s', w', rc) \<Longrightarrow> returned (ch', w') = returned (ch, w)"
  by (auto simp: mm_stream_buf_done_def mm_stream_qbuf_def call_def Let_def returned_step [of ch' w _ ch] qbuf_mark_def
      returned_def map_filter_append split: option.splits if_splits prod.splits)

lemma run_qbuf_marks: "returned (fst (run_stream e bld i (MM_STREAM_EVT_QBUF b) (ch, w))) = returned (ch, w)"
proof -
  obtain s c w' rc where r: "mm_stream_fsm_fn e bld (MM_STREAM_EVT_QBUF b) (streams ch ! i) (ctx_of ch) w = (s, c, w', rc)"
    by (metis prod_cases4)
  have "returned (ch'', w') = returned (ch, w)" for ch''
    using r buf_done_marks [of e b "streams ch ! i" w _ w' _ ch'' ch]
    by (auto simp: stream_fsm_defs returned_def split: mm_stream_state.splits prod.splits)
  then show ?thesis by (simp add: run_stream_def r)
qed

interpretation chs: buffer_sink "channel_ops e bld" returned
proof
  show "returned (op_qbuf (channel_ops e bld) (Some d) s) = add_mset d (returned s)" for d s
  proof (cases s)
    case (Pair ch w)
    have "returned (ch, w @ [ChannelQbuf d]) = add_mset d (returned (ch, w))"
      by (simp add: returned_step [of ch w _ ch] qbuf_mark_def)
    then show ?thesis
      by (auto simp: Pair channel_ops_def mm_channel_qbuf_def Let_def run_qbuf_marks split: option.splits)
  qed
  show "returned s' = returned s" if "op_alloc (channel_ops e bld) s = (ok, s')" for s ok s'
    using that by (auto simp: channel_ops_def malloc_ok_def returned_def map_filter_append qbuf_mark_def split: prod.splits)
  show "returned (op_set_led (channel_ops e bld) v s) = returned s" for v s
    by (auto simp: channel_ops_def returned_def split: prod.splits)
qed

section \<open>Dispatching super buffers\<close>

text \<open>The bundle is active: a callback is registered and the callback thread runs.\<close>

definition bundle_live :: "mm_channel \<Rightarrow> bool" where
  "bundle_live ch \<longleftrightarrow> super_buf_notify_cb (ch_bundle ch) \<noteq> None \<and> th_queue (cb_thread ch) \<noteq> None"

lemma dispatch_node_effect:
  assumes "alloc_ok e" "bundle_live ch" "dispatch_node e bld m n (ch, w) = (ch', w')"
  shows "queued (cb_thread ch') = queued (cb_thread ch) @ [CMD_SUPER_BUF_DATA_CB (node_superbuf ch n)] \<and> bundle_live ch'
    \<and> ch_bundle ch' = ch_bundle ch \<and> streams ch' = streams ch \<and> cam_my_hdl ch' = cam_my_hdl ch \<and> ch_my_hdl ch' = ch_my_hdl ch
    \<and> pending_cnt ch' = (if m = MM_CAMERA_SUPER_BUF_NOTIFY_BURST then pending_cnt ch - 1 else pending_cnt ch)
    \<and> ch_cmd_thread ch' = ch_cmd_thread ch \<and> returned (ch', w') = returned (ch, w)"
proof -
  obtain ch1 w1 where c: "count_dispatch e m (ch, w) = (ch1, w1)" by fastforce
  have c1: "cb_thread ch1 = cb_thread ch" "ch_bundle ch1 = ch_bundle ch" "streams ch1 = streams ch" "cam_my_hdl ch1 = cam_my_hdl ch"
    "ch_my_hdl ch1 = ch_my_hdl ch" "ch_cmd_thread ch1 = ch_cmd_thread ch"
    "pending_cnt ch1 = (if m = MM_CAMERA_SUPER_BUF_NOTIFY_BURST then pending_cnt ch - 1 else pending_cnt ch)"
    "returned (x, w1) = returned (ch, w)" for x
    using c by (auto simp: count_dispatch_def Let_def mm_camera_stop_zsl_snapshot_def returned_def map_filter_append qbuf_mark_def split: if_splits)
  obtain cq where q: "th_queue (cb_thread ch) = Some cq" using assms(2) by (auto simp: bundle_live_def)
  let ?cmd = "CMD_SUPER_BUF_DATA_CB (node_superbuf ch1 n)"
  have nsb: "node_superbuf ch1 n = node_superbuf ch n" using c1 by (simp add: node_superbuf_def)
  have send: "cmd_thread_send e ?cmd (cb_thread ch1) w1 =
      ((cb_thread ch)\<lparr>th_queue := Some (cq @ [?cmd]), th_sem := th_sem (cb_thread ch) + 1\<rparr>, w1 @ [Malloc, Malloc], True)"
    using assms(1) q c1 by (simp add: cmd_thread_send_def malloc_ok_def alloc_ok_def)
  have r: "returned (x, w1 @ [Malloc, Malloc]) = returned (ch, w)" for x
    using c1(8) [of x] by (simp add: returned_step [of x w1 _ x] qbuf_mark_def)
  have "ch' = ch1\<lparr>cb_thread := (cb_thread ch)\<lparr>th_queue := Some (cq @ [?cmd]), th_sem := th_sem (cb_thread ch) + 1\<rparr>\<rparr>"
    "w' = w1 @ [Malloc, Malloc]"
    using assms(2,3) c c1 send by (auto simp: dispatch_node_def bundle_live_def)
  then show ?thesis using assms(2) c1 q nsb r by (simp add: queued_def bundle_live_def)
qed

text \<open>The nodes the loop dispatches: all matched ones in continuous mode, at most the pending number in burst mode.\<close>

definition dispatch_count :: "mm_camera_super_buf_notify_mode \<Rightarrow> u32 \<Rightarrow> mm_channel_queue_node list \<Rightarrow> nat" where
  "dispatch_count m pending ns = (let k = length (takeWhile matched ns) in
     if m = MM_CAMERA_SUPER_BUF_NOTIFY_CONTINUOUS then k else min (unat pending) k)"

lemma dispatch_loop_effect:
  assumes "alloc_ok e" "bundle_live (fst chw)" "m \<noteq> MM_CAMERA_SUPER_BUF_NOTIFY_MAX" "dispatch_loop e bld m chw = chw'"
    and "k = dispatch_count m (pending_cnt (fst chw)) (que (superbuf_queue (ch_bundle (fst chw))))"
  shows "que (superbuf_queue (ch_bundle (fst chw'))) = drop k (que (superbuf_queue (ch_bundle (fst chw))))
    \<and> queued (cb_thread (fst chw')) = queued (cb_thread (fst chw)) @
        map (\<lambda>n. CMD_SUPER_BUF_DATA_CB (node_superbuf (fst chw) n)) (take k (que (superbuf_queue (ch_bundle (fst chw)))))
    \<and> pending_cnt (fst chw') = (if m = MM_CAMERA_SUPER_BUF_NOTIFY_BURST then pending_cnt (fst chw) - of_nat k else pending_cnt (fst chw))
    \<and> bundle_live (fst chw') \<and> streams (fst chw') = streams (fst chw) \<and> ch_cmd_thread (fst chw') = ch_cmd_thread (fst chw)
    \<and> returned chw' = returned chw"
  using assms
proof (induction e bld m chw arbitrary: chw' k rule: dispatch_loop.induct)
  case (1 e bld m chw)
  obtain ch w where c: "chw = (ch, w)" by fastforce
  let ?q = "superbuf_queue (ch_bundle ch)"
  have k: "k = dispatch_count m (pending_cnt ch) (que ?q)" using 1(6) by (simp add: c)
  show ?case
  proof (cases "(pending_cnt ch > 0 \<or> m = MM_CAMERA_SUPER_BUF_NOTIFY_CONTINUOUS) \<and> (\<exists>n ns. que ?q = n # ns \<and> matched n)")
    case False
    then have "k = 0" using k by (cases "que ?q") (auto simp: dispatch_count_def Let_def word_gt_0)
    moreover have "dispatch_loop e bld m chw = chw"
      using False by (subst dispatch_loop.simps)
        (auto simp: c mm_channel_superbuf_dequeue_def mm_channel_superbuf_dequeue_internal_def split: list.splits)
    ultimately show ?thesis using 1(3,5) by simp
  next
    case True
    then obtain n ns where n: "que ?q = n # ns" "matched n" and g: "pending_cnt (fst chw) > 0 \<or> m = MM_CAMERA_SUPER_BUF_NOTIFY_CONTINUOUS"
      by (auto simp: c)
    obtain q where d: "mm_channel_superbuf_dequeue ?q = (q, Some n)" and q: "que q = ns"
      using n by (auto simp: mm_channel_superbuf_dequeue_def mm_channel_superbuf_dequeue_internal_def)
    obtain ch1 w1 where dn: "dispatch_node e bld m n (set_queue q ch, w) = (ch1, w1)" by fastforce
    have d': "mm_channel_superbuf_dequeue (superbuf_queue (ch_bundle (fst chw))) = (q, Some n)"
      and dn': "dispatch_node e bld m n (set_queue q (fst chw), snd chw) = (ch1, w1)" using d dn by (simp_all add: c)
    have live: "bundle_live (set_queue q ch)" using 1(3) by (simp add: c bundle_live_def set_queue_def)
    note ef = dispatch_node_effect [OF 1(2) live dn]
    have lp: "dispatch_loop e bld m (ch1, w1) = chw'"
      using 1(5) True d dn by (subst (asm) dispatch_loop.simps) (auto simp: c)
    have q1: "que (superbuf_queue (ch_bundle ch1)) = ns" using ef q by (simp add: set_queue_def)
    have sb: "node_superbuf (set_queue q ch) = node_superbuf ch" "node_superbuf ch1 = node_superbuf ch"
      using ef by (auto simp: node_superbuf_def set_queue_def)
    let ?k1 = "dispatch_count m (pending_cnt ch1) (que (superbuf_queue (ch_bundle ch1)))"
    have IH: "que (superbuf_queue (ch_bundle (fst chw'))) = drop ?k1 ns
        \<and> queued (cb_thread (fst chw')) = queued (cb_thread ch1) @ map (\<lambda>n. CMD_SUPER_BUF_DATA_CB (node_superbuf ch n)) (take ?k1 ns)
        \<and> pending_cnt (fst chw') = (if m = MM_CAMERA_SUPER_BUF_NOTIFY_BURST then pending_cnt ch1 - of_nat ?k1 else pending_cnt ch1)
        \<and> bundle_live (fst chw') \<and> streams (fst chw') = streams ch1 \<and> ch_cmd_thread (fst chw') = ch_cmd_thread ch1
        \<and> returned chw' = returned (ch1, w1)"
      using 1(1) [OF g d' [symmetric] refl, unfolded dn' fst_conv, OF 1(2) _ 1(4) lp refl] ef q1 sb by simp
    have kk: "k = Suc ?k1"
    proof (cases m)
      case MM_CAMERA_SUPER_BUF_NOTIFY_BURST
      then have p: "pending_cnt ch > 0" using True by simp
      then have "unat (pending_cnt ch - 1) = unat (pending_cnt ch) - 1" "unat (pending_cnt ch) > 0"
        by (metis less_irrefl unat_minus_one, simp add: word_less_nat_alt)
      then have "unat (pending_cnt ch1) = unat (pending_cnt ch) - 1" "0 < unat (pending_cnt ch)"
        using ef MM_CAMERA_SUPER_BUF_NOTIFY_BURST by (simp_all add: set_queue_def)
      then show ?thesis
        using k n q1 MM_CAMERA_SUPER_BUF_NOTIFY_BURST by (auto simp: dispatch_count_def Let_def min_def)
    next
      case MM_CAMERA_SUPER_BUF_NOTIFY_CONTINUOUS
      then show ?thesis using k n q1 by (simp add: dispatch_count_def Let_def)
    qed (use 1(4) in simp)
    have r: "returned (set_queue q ch, w) = returned (ch, w)" by (simp add: returned_def)
    show ?thesis
      using IH ef n kk sb r by (auto simp: c set_queue_def)
  qed
qed

lemma dispatch_loop_inv:
  assumes "bundle_inv (superbuf_queue (ch_bundle (fst chw)))"
  shows "bundle_inv (superbuf_queue (ch_bundle (fst (dispatch_loop e bld m chw))))"
  using assms
proof (induction e bld m chw rule: dispatch_loop.induct)
  case (1 e bld m chw)
  show ?case
  proof (cases "pending_cnt (fst chw) > 0 \<or> m = MM_CAMERA_SUPER_BUF_NOTIFY_CONTINUOUS")
    case True
    obtain q n where d: "mm_channel_superbuf_dequeue (superbuf_queue (ch_bundle (fst chw))) = (q, n)" by fastforce
    have i: "bundle_inv q" using dequeue_bundle_inv [OF 1(2) d] by simp
    show ?thesis
    proof (cases n)
      case None
      then show ?thesis using d 1(2) by (subst dispatch_loop.simps) auto
    next
      case (Some node)
      have "bundle_inv (superbuf_queue (ch_bundle (fst (dispatch_node e bld m node (set_queue q (fst chw), snd chw)))))"
        using i by (simp add: set_queue_def)
      from 1(1) [OF True d [symmetric] Some this] show ?thesis
        using d Some True by (subst dispatch_loop.simps) simp
    qed
  qed (subst dispatch_loop.simps, use 1(2) in auto)
qed

section \<open>Conservation of buffers\<close>

definition same_bundle :: "chan \<Rightarrow> chan \<Rightarrow> bool" where
  "same_bundle x y \<longleftrightarrow> ch_bundle (fst y) = ch_bundle (fst x) \<and> cb_thread (fst y) = cb_thread (fst x) \<and> pending_cnt (fst y) = pending_cnt (fst x)"

lemma same_bundle_qbuf: "same_bundle s (fst (mm_channel_qbuf e bld b s))"
  by (auto simp: same_bundle_def mm_channel_qbuf_def run_stream_def put_ctx_def Let_def split: prod.splits option.splits)

interpretation chb: ops_keep "channel_ops e bld" same_bundle
proof
  show "same_bundle s (op_qbuf (channel_ops e bld) b s)" for b s by (simp add: channel_ops_def same_bundle_qbuf)
qed (auto simp: channel_ops_def same_bundle_def malloc_ok_def split: prod.splits)

text \<open>The buffers in the super buffers queued for the callback thread.\<close>

definition cmd_bufs :: "mm_camera_cmdcb \<Rightarrow> mm_camera_buf_def multiset" where
  "cmd_bufs c = (case c of CMD_SUPER_BUF_DATA_CB sb \<Rightarrow> mset (List.map_filter id (sbf_bufs sb)) | _ \<Rightarrow> {#})"

definition handed :: "mm_channel \<Rightarrow> mm_camera_buf_def multiset" where
  "handed ch = sum_list (map cmd_bufs (queued (cb_thread ch)))"

lemma node_superbuf_bufs: "cmd_bufs (CMD_SUPER_BUF_DATA_CB (node_superbuf ch n)) = node_held n"
  by (simp add: cmd_bufs_def node_superbuf_def node_held_def slots_held_def List.map_filter_def comp_def filter_map)

lemma handed_append:
  "queued (cb_thread ch') = queued (cb_thread ch) @ map (\<lambda>n. CMD_SUPER_BUF_DATA_CB (node_superbuf ch0 n)) ns \<Longrightarrow>
   handed ch' = handed ch + nodes_held ns"
  by (simp add: handed_def comp_def node_superbuf_bufs nodes_held_def)

text \<open>All buffers the channel answers for: given back, collected in the queue, handed to the callback thread.\<close>

definition accounts :: "chan \<Rightarrow> mm_camera_buf_def multiset" where
  "accounts chw = returned chw + nodes_held (que (superbuf_queue (ch_bundle (fst chw)))) + handed (fst chw)"

lemma process_tail_accounts:
  assumes "alloc_ok e" "bundle_live ch" "notify_mode (attr (superbuf_queue (ch_bundle ch))) \<noteq> MM_CAMERA_SUPER_BUF_NOTIFY_MAX"
    and "bundle_inv (superbuf_queue (ch_bundle ch))" "list_all node_slots_ok (que (superbuf_queue (ch_bundle ch)))"
    and "process_tail e bld (ch, w) = chw'"
  shows "accounts chw' = accounts (ch, w) \<and> bundle_inv (superbuf_queue (ch_bundle (fst chw')))
    \<and> list_all node_slots_ok (que (superbuf_queue (ch_bundle (fst chw')))) \<and> bundle_live (fst chw')"
proof -
  let ?q = "superbuf_queue (ch_bundle ch)" and ?ops = "channel_ops e bld"
  obtain ch1 w1 q1 k where o: "mm_channel_superbuf_bufdone_overflow ?ops (ch, w) ?q = Some ((ch1, w1), q1, 0)"
    "bundle_inv q1" "attr q1 = attr ?q" "que q1 = drop k (que ?q)" "(ch1, w1) = fold (release_held ?ops) (take k (que ?q)) (ch, w)"
    using overflow_returns [OF assms(4), of ?ops "(ch, w)"] by (metis surj_pair)
  have b: "same_bundle (ch, w) (ch1, w1)" using chb.keep_overflow [OF o(1)] .
  have live: "bundle_live (set_queue q1 ch1)" using assms(2) b by (simp add: bundle_live_def same_bundle_def set_queue_def)
  have r1: "returned (ch1, w1) = returned (ch, w) + nodes_held (take k (que ?q))"
    using chs.ret_fold_held [of e bld "take k (que ?q)" "(ch, w)"] o(5) by simp
  have h: "nodes_held (que ?q) = nodes_held (take k (que ?q)) + nodes_held (que q1)"
    unfolding o(4) by (metis append_take_drop_id nodes_held_simps(3))
  have hd1: "handed ch1 = handed ch" using b by (simp add: handed_def same_bundle_def)
  let ?m = "notify_mode (attr ?q)"
  have res: "dispatch_loop e bld ?m (set_queue q1 ch1, w1) = chw'"
    using assms(6) o(1) by (simp add: process_tail_def)
  let ?j = "dispatch_count ?m (pending_cnt ch1) (que q1)"
  have q1: "superbuf_queue (ch_bundle (set_queue q1 ch1)) = q1" "pending_cnt (set_queue q1 ch1) = pending_cnt ch1"
    "cb_thread (set_queue q1 ch1) = cb_thread ch1" by (simp_all add: set_queue_def)
  have ef: "que (superbuf_queue (ch_bundle (fst chw'))) = drop ?j (que q1)"
    "queued (cb_thread (fst chw')) = queued (cb_thread ch1) @ map (\<lambda>n. CMD_SUPER_BUF_DATA_CB (node_superbuf (set_queue q1 ch1) n)) (take ?j (que q1))"
    "bundle_live (fst chw')" "returned chw' = returned (set_queue q1 ch1, w1)"
    using dispatch_loop_effect [OF assms(1) _ assms(3) res refl] live q1 by simp_all
  have "returned (set_queue q1 ch1, w1) = returned (ch1, w1)" by (simp add: returned_def)
  moreover have "nodes_held (que q1) = nodes_held (take ?j (que q1)) + nodes_held (drop ?j (que q1))"
    by (metis append_take_drop_id nodes_held_simps(3))
  ultimately have "accounts chw' = accounts (ch, w)"
    using r1 h hd1 handed_append [OF ef(2)] ef by (simp add: accounts_def)
  moreover have "list_all node_slots_ok (que (superbuf_queue (ch_bundle (fst chw'))))"
    using assms(5) ef(1) o(4) by (auto simp: list_all_iff dest!: in_set_dropD)
  moreover have "bundle_inv (superbuf_queue (ch_bundle (fst chw')))"
    using dispatch_loop_inv [of "(set_queue q1 ch1, w1)" e bld ?m] res q1 o(2) by simp
  ultimately show ?thesis using ef(3) by simp
qed


section \<open>Requests\<close>

lemma node_superbuf_cong: "same_chan (ch, w) (ch', w') \<Longrightarrow> node_superbuf ch' n = node_superbuf ch n"
  by (simp add: node_superbuf_def same_chan_def)

lemma process_tail_dispatch:
  assumes "alloc_ok e" "bundle_live ch" "notify_mode (attr (superbuf_queue (ch_bundle ch))) = MM_CAMERA_SUPER_BUF_NOTIFY_BURST"
    and "bundle_inv (superbuf_queue (ch_bundle ch))" and "process_tail e bld (ch, w) = chw'"
  shows "\<exists>k j. list_all matched (take k (que (superbuf_queue (ch_bundle ch))))
    \<and> j = min (unat (pending_cnt ch)) (length (takeWhile matched (drop k (que (superbuf_queue (ch_bundle ch))))))
    \<and> que (superbuf_queue (ch_bundle (fst chw'))) = drop (k + j) (que (superbuf_queue (ch_bundle ch)))
    \<and> queued (cb_thread (fst chw')) = queued (cb_thread ch) @
        map (\<lambda>n. CMD_SUPER_BUF_DATA_CB (node_superbuf ch n)) (take j (drop k (que (superbuf_queue (ch_bundle ch)))))
    \<and> pending_cnt (fst chw') = pending_cnt ch - of_nat j"
proof -
  let ?q = "superbuf_queue (ch_bundle ch)" and ?ops = "channel_ops e bld"
  obtain ch1 w1 q1 k where o: "mm_channel_superbuf_bufdone_overflow ?ops (ch, w) ?q = Some ((ch1, w1), q1, 0)"
    "que q1 = drop k (que ?q)" "list_all matched (take k (que ?q))"
    using overflow_returns [OF assms(4), of ?ops "(ch, w)"] by (metis surj_pair)
  have b: "same_bundle (ch, w) (ch1, w1)" using chb.keep_overflow [OF o(1)] .
  have sc: "same_chan (ch, w) (ch1, w1)" using chk.keep_overflow [OF o(1)] .
  let ?c = "set_queue q1 ch1"
  have live: "bundle_live ?c" using assms(2) b by (simp add: bundle_live_def same_bundle_def set_queue_def)
  have sb: "node_superbuf ?c n = node_superbuf ch n" for n
    using node_superbuf_cong [OF sc, of n] by (simp add: set_queue_def node_superbuf_def)
  have res: "dispatch_loop e bld MM_CAMERA_SUPER_BUF_NOTIFY_BURST (?c, w1) = chw'"
    using assms(3,5) o(1) by (simp add: process_tail_def)
  have f: "superbuf_queue (ch_bundle ?c) = q1" "pending_cnt ?c = pending_cnt ch" "cb_thread ?c = cb_thread ch"
    using b by (simp_all add: set_queue_def same_bundle_def)
  show ?thesis
    using dispatch_loop_effect [OF assms(1) _ _ res refl] live o(2,3) sb f
    by (intro exI [of _ k] exI [of _ "dispatch_count MM_CAMERA_SUPER_BUF_NOTIFY_BURST (pending_cnt ch) (que q1)"])
      (simp add: dispatch_count_def add.commute)
qed

text \<open>C8: a request for \<open>n\<close> super buffers in burst mode: after dropping some of the oldest matched bundles as skipped or
  overflowed, the command thread hands the callback thread exactly the next \<open>n\<close> matched bundles, or all there are
  when there are fewer, each once and in the order of the queue, and what is missing stays pending.\<close>

theorem request_dispatches_next:
  assumes "alloc_ok e" "bundle_live ch" "notify_mode (attr (superbuf_queue (ch_bundle ch))) = MM_CAMERA_SUPER_BUF_NOTIFY_BURST"
    and "bundle_inv (superbuf_queue (ch_bundle ch))"
    and "mm_channel_process_stream_buf e bld (CMD_REQ_DATA_CB n) (ch, w) = chw'"
  shows "\<exists>k j. list_all matched (take k (que (superbuf_queue (ch_bundle ch))))
    \<and> j = min (unat n) (length (takeWhile matched (drop k (que (superbuf_queue (ch_bundle ch))))))
    \<and> que (superbuf_queue (ch_bundle (fst chw'))) = drop (k + j) (que (superbuf_queue (ch_bundle ch)))
    \<and> queued (cb_thread (fst chw')) = queued (cb_thread ch) @
        map (\<lambda>n. CMD_SUPER_BUF_DATA_CB (node_superbuf ch n)) (take j (drop k (que (superbuf_queue (ch_bundle ch)))))
    \<and> pending_cnt (fst chw') = n - of_nat j"
proof -
  let ?q = "superbuf_queue (ch_bundle ch)" and ?ops = "channel_ops e bld" and ?c0 = "ch\<lparr>pending_cnt := n\<rparr>"
  obtain ch1 w1 q1 k1 where o: "mm_channel_superbuf_skip ?ops (?c0, w) ?q = Some ((ch1, w1), q1, 0)"
    "que q1 = drop k1 (que ?q)" "list_all matched (take k1 (que ?q))" "bundle_inv q1" "attr q1 = attr ?q"
    using skip_returns [OF assms(4), of ?ops "(?c0, w)"] by (metis surj_pair)
  have b: "same_bundle (?c0, w) (ch1, w1)" using chb.keep_skip [OF o(1)] .
  have sc: "same_chan (?c0, w) (ch1, w1)" using chk.keep_skip [OF o(1)] .
  obtain ch2 w2 where z: "zsl_request e (set_queue q1 ch1, w1) = (ch2, w2)" by fastforce
  have f: "superbuf_queue (ch_bundle ch2) = q1" "pending_cnt ch2 = n" "cb_thread ch2 = cb_thread ch" "bundle_live ch2"
    using z b assms(2) by (auto simp: zsl_request_def set_queue_def same_bundle_def bundle_live_def split: if_splits)
  have sb: "node_superbuf ch2 x = node_superbuf ch x" for x
    using z sc by (auto simp: zsl_request_def set_queue_def same_chan_def node_superbuf_def split: if_splits)
  have "process_tail e bld (ch2, w2) = chw'" using assms(5) o(1) z by (simp add: mm_channel_process_stream_buf_def)
  from process_tail_dispatch [OF assms(1) f(4) _ _ this] f(1-3) sb o(2-5) assms(3)
  obtain k j where "list_all matched (take k (drop k1 (que ?q)))"
      "j = min (unat n) (length (takeWhile matched (drop k (drop k1 (que ?q)))))"
      "que (superbuf_queue (ch_bundle (fst chw'))) = drop (k + j) (drop k1 (que ?q))"
      "queued (cb_thread (fst chw')) = queued (cb_thread ch) @
        map (\<lambda>n. CMD_SUPER_BUF_DATA_CB (node_superbuf ch n)) (take j (drop k (drop k1 (que ?q))))"
      "pending_cnt (fst chw') = n - of_nat j" by auto
  then show ?thesis
    using o(3) by (intro exI [of _ "k1 + k"] exI [of _ j]) (simp add: take_add add_ac)
qed

section \<open>The order of the streams\<close>

text \<open>The fold finds the last position at which \<^verbatim>\<open>P\<close> holds.\<close>

lemma fold_last:
  assumes "m = fold (\<lambda>(k, i) m. if P i then k else m) (zip [0 ..< length os] os) 0"
  shows "(list_ex P os \<longrightarrow> m < length os \<and> P (os ! m)) \<and> (\<not> list_ex P os \<longrightarrow> m = 0)"
  using assms
proof (induction os arbitrary: m rule: rev_induct)
  case (snoc x os)
  have "zip [0 ..< length (os @ [x])] (os @ [x]) = zip [0 ..< length os] os @ [(length os, x)]" by simp
  then have "m = (if P x then length os else fold (\<lambda>(k, i) m. if P i then k else m) (zip [0 ..< length os] os) 0)"
    using snoc.prems by simp
  then show ?case using snoc.IH [OF refl] by (auto simp: nth_append list_ex_iff)
qed simp

lemma swap_mset: "i < length xs \<Longrightarrow> j < length xs \<Longrightarrow> mset (swap i j xs) = mset xs"
  unfolding swap_def by (rule mset_swap)

lemma meta_idx: "(list_ex (is_meta ch) (used_streams ch) \<longrightarrow> meta_stream_idx ch < length (used_streams ch) \<and> is_meta ch (used_streams ch ! meta_stream_idx ch))
    \<and> (\<not> list_ex (is_meta ch) (used_streams ch) \<longrightarrow> meta_stream_idx ch = 0)"
  by (rule fold_last) (simp add: meta_stream_idx_def)

text \<open>both orders run over exactly the streams in use; when one of them carries metadata, a metadata stream is
  started first and stopped last.\<close>

theorem metadata_starts_first_stops_last:
  "mset (start_order ch) = mset (used_streams ch) \<and> mset (stop_order ch) = mset (used_streams ch)
   \<and> (list_ex (is_meta ch) (used_streams ch) \<longrightarrow> is_meta ch (hd (start_order ch)) \<and> is_meta ch (last (stop_order ch)))"
proof -
  let ?os = "used_streams ch" and ?m = "meta_stream_idx ch"
  have m: "list_ex (is_meta ch) ?os \<Longrightarrow> ?m < length ?os \<and> is_meta ch (?os ! ?m)" "\<not> list_ex (is_meta ch) ?os \<Longrightarrow> ?m = 0"
    using meta_idx [of ch] by auto
  have len: "0 < ?m \<Longrightarrow> ?m < length ?os" using m by (cases "list_ex (is_meta ch) ?os") auto
  have "mset (start_order ch) = mset ?os"
    using len by (auto simp: start_order_def Let_def intro!: swap_mset)
  moreover have "mset (stop_order ch) = mset ?os"
    by (auto simp: stop_order_def Let_def intro!: swap_mset)
  moreover have "is_meta ch (hd (start_order ch)) \<and> is_meta ch (last (stop_order ch))" if ex: "list_ex (is_meta ch) ?os"
  proof
    have ne: "?os \<noteq> []" and mm: "?m < length ?os" "is_meta ch (?os ! ?m)" using ex m(1) by auto
    show "is_meta ch (hd (start_order ch))"
      using mm ne by (auto simp: start_order_def Let_def swap_def hd_conv_nth nth_list_update)
    have "last (swap (length ?os - 1) ?m ?os) = ?os ! ?m" if "int ?m < int (length ?os) - 1"
      using that mm ne by (auto simp: swap_def last_conv_nth nth_list_update)
    moreover have "?m = length ?os - 1" if "\<not> int ?m < int (length ?os) - 1"
      using that mm by linarith
    ultimately show "is_meta ch (last (stop_order ch))"
      using mm ne by (auto simp: stop_order_def Let_def last_conv_nth)
  qed
  ultimately show ?thesis by blast
qed

section \<open>A failed start, and a stop\<close>

text \<open>a start that fails after the bundle was set up does not take the bundle down: the channel is left in the stopped
  state with \<^verbatim>\<open>is_active\<close> set and its threads running, and in that state a stop request does nothing, so they are
  never released.\<close>

theorem failed_start_leaves_threads:
  assumes "ch_state ch = MM_CHANNEL_STATE_STOPPED" "super_buf_notify_cb (ch_bundle ch) \<noteq> None"
    and "list_all (\<lambda>i. stream_info (streams ch ! i) \<noteq> None) (used_streams ch)"
    and "mm_channel_fsm_fn e bld MM_CHANNEL_EVT_START cnt (ch, w) = (cnt', chw', out, rc)" "rc \<noteq> 0"
  shows "ch_state (fst chw') = MM_CHANNEL_STATE_STOPPED \<and> is_active (ch_bundle (fst chw'))
    \<and> mm_channel_fsm_fn e' bld MM_CHANNEL_EVT_STOP cnt' chw' = (cnt', chw', NoOut, 0)"
proof -
  have s: "mm_channel_start e bld (ch, w) = (chw', rc)"
    using assms(1,4,5) by (auto simp: mm_channel_fsm_fn_def mm_channel_fsm_fn_stopped_def split: prod.splits)
  then show ?thesis
    using start_state_kept [OF s] assms(1-3) by (simp add: mm_channel_fsm_fn_def mm_channel_fsm_fn_stopped_def)
qed



text \<open>Which events leave the \<^verbatim>\<open>is_bundled\<close> flag of a stream alone.\<close>

lemma dispatch_slot_bundled: "is_bundled (fst (dispatch_slot sb idx i sw)) = is_bundled (fst sw)"
  by (auto simp: dispatch_slot_def Let_def split: prod.splits option.splits)

lemma dispatch_app_bundled: "mm_stream_dispatch_app_data e cmd s c w = (s', c', w') \<Longrightarrow> is_bundled s' = is_bundled s \<and> c' = c"
proof -
  assume a: "mm_stream_dispatch_app_data e cmd s c w = (s', c', w')"
  have "is_bundled (fst (fold (dispatch_slot sb idx) ks (s, w))) = is_bundled s" for sb idx ks s w
  proof (induction ks arbitrary: s w)
    case (Cons k ks)
    obtain s1 w1 where k: "dispatch_slot sb idx k (s, w) = (s1, w1)" by fastforce
    show ?case using Cons.IH [of s1 w1] dispatch_slot_bundled [of sb idx k "(s, w)"] k by simp
  qed simp
  then show ?thesis
    using a buf_done_frame(5)
    by (auto simp: mm_stream_dispatch_app_data_def Let_def split: mm_camera_cmdcb.splits option.splits prod.splits)
      (metis fst_conv)+
qed

lemma finish_keeps:
  assumes "\<And>c s w s' w'. cb c (s, w) = (s', w') \<Longrightarrow> P s \<Longrightarrow> P s'" "P s" "cmd_thread_finish cb cs (s, w) = (s', w')"
  shows "P s'"
  using assms(2,3)
proof (induction cs arbitrary: s w)
  case (Cons c cs)
  obtain s1 w1 where c: "(if stops_thread c then (s, w) else cb c (s, w)) = (s1, w1)" by fastforce
  then have "P s1" using Cons.prems(1) assms(1) [of c s w s1 w1] by (auto split: if_splits)
  moreover have "cmd_thread_finish cb cs (s1, w1) = (s', w')" using Cons.prems(2) c by (simp add: cmd_thread_finish_def)
  ultimately show ?case by (rule Cons.IH)
qed (simp add: cmd_thread_finish_def)

lemma thread_release_keeps:
  assumes "\<And>c s w s' w'. cb c (s, w) = (s', w') \<Longrightarrow> P s \<Longrightarrow> P s'" "P s" "mm_camera_cmd_thread_release cb e t (s, w) = (t', (s', w'), rc)"
  shows "P s'" "alloc_ok e \<Longrightarrow> t' = cmd_thread_zero"
proof -
  have f: "P s2" if "cmd_thread_finish cb q (s, w1) = (s2, w2)" for q w1 s2 w2
    by (rule finish_keeps [where cb = cb and P = P, OF assms(1,2) that])
  show "P s'" "alloc_ok e \<Longrightarrow> t' = cmd_thread_zero"
    using assms(2,3) f
    by (auto simp: mm_camera_cmd_thread_release_def mm_camera_cmd_thread_stop_def mm_camera_cmd_thread_destroy_def malloc_ok_def alloc_ok_def
        split: prod.splits option.splits if_splits)
qed

lemma stream_release_bundled: "release_stream_thread e s c w = (s', c', w') \<Longrightarrow> is_bundled s' = is_bundled s \<and> c' = c"
proof -
  assume r: "release_stream_thread e s c w = (s', c', w')"
  obtain t s1 c1 w1 rc where x: "mm_camera_cmd_thread_release (stream_cmd_cb e) e (st_cmd_thread s) ((s, c), w) = (t, ((s1, c1), w1), rc)"
    by (metis prod_cases5 surj_pair)
  have "is_bundled (fst (s1, c1)) = is_bundled s \<and> snd (s1, c1) = c"
    by (rule thread_release_keeps(1) [where P = "\<lambda>x. is_bundled (fst x) = is_bundled s \<and> snd x = c", OF _ _ x])
      (auto simp: stream_cmd_cb_def dest!: dispatch_app_bundled split: prod.splits)
  then show ?thesis using r x by (auto simp: release_stream_thread_def)
qed

lemma fsm_bundled:
  assumes "mm_stream_fsm_fn e bld evt s c w = (s', c', w', rc)"
    "evt \<in> {MM_STREAM_EVT_STOP, MM_STREAM_EVT_UNREG_BUF, MM_STREAM_EVT_PUT_BUF} \<or> (\<exists>b. evt = MM_STREAM_EVT_QBUF b)"
  shows "is_bundled s' = is_bundled s" "evt = MM_STREAM_EVT_PUT_BUF \<Longrightarrow> c' = c"
  using assms
  by (auto simp: stream_fsm_defs stream_stop_def mm_stream_deinit_bufs_def mm_stream_unreg_buf_def Let_def
      dest!: stream_release_bundled buf_done_frame(5) split: mm_stream_state.splits prod.splits if_splits)

definition same_flags :: "chan \<Rightarrow> chan \<Rightarrow> bool" where
  "same_flags x y \<longleftrightarrow> map is_bundled (streams (fst y)) = map is_bundled (streams (fst x))"

lemma map_update_same: "f y = f (xs ! i) \<Longrightarrow> map f (xs[i := y]) = map f xs"
proof (rule nth_equalityI)
  fix k assume "f y = f (xs ! i)" "k < length (map f (xs[i := y]))"
  then show "map f (xs[i := y]) ! k = map f xs ! k" by (cases "k = i") simp_all
qed simp

lemma flags_run:
  assumes "evt \<in> {MM_STREAM_EVT_STOP, MM_STREAM_EVT_UNREG_BUF, MM_STREAM_EVT_PUT_BUF} \<or> (\<exists>b. evt = MM_STREAM_EVT_QBUF b)"
  shows "same_flags chw (fst (run_stream e bld i evt chw))"
proof -
  obtain ch w where c: "chw = (ch, w)" by fastforce
  obtain s c' w' rc where r: "mm_stream_fsm_fn e bld evt (streams ch ! i) (ctx_of ch) w = (s, c', w', rc)" by (metis prod_cases4)
  have "map is_bundled ((streams ch)[i := s]) = map is_bundled (streams ch)"
    by (rule map_update_same) (rule fsm_bundled(1) [OF r assms])
  then show ?thesis by (simp add: c run_stream_def r same_flags_def put_ctx_def)
qed

interpretation chf: ops_keep "channel_ops e bld" same_flags
proof
  show "same_flags s (op_qbuf (channel_ops e bld) b s)" for b s
    using flags_run [of "MM_STREAM_EVT_QBUF _"]
    by (cases s) (auto simp: channel_ops_def mm_channel_qbuf_def Let_def same_flags_def split: option.splits)
qed (auto simp: channel_ops_def same_flags_def malloc_ok_def split: prod.splits)

lemma flags_refl: "same_flags x x" and flags_trans: "same_flags x y \<Longrightarrow> same_flags y z \<Longrightarrow> same_flags x z"
  by (simp_all add: same_flags_def)

lemma flags_fold:
  assumes "\<And>a x. a \<in> set xs \<Longrightarrow> same_flags x (f a x)"
  shows "same_flags x (fold f xs x)"
  using assms
proof (induction xs arbitrary: x)
  case (Cons a xs)
  show ?case using flags_trans [OF Cons.prems Cons.IH] Cons.prems by simp
qed (simp add: flags_refl)

lemma flags_set_queue: "same_flags x (set_queue q (fst x), snd x)"
  by (simp add: same_flags_def set_queue_def)

lemma flags_qbuf: "same_flags x (fst (mm_channel_qbuf e bld b x))"
  using chf.keep_qbuf [of x e bld b] by (simp add: channel_ops_def)

lemma flags_dispatch_node: "same_flags x (dispatch_node e bld m n x)"
proof -
  have r: "same_flags y (release_all e bld n y)" for y
    unfolding release_all_def by (rule flags_fold) (rule flags_qbuf)
  obtain ch1 w1 where c: "count_dispatch e m x = (ch1, w1)" by fastforce
  then have "same_flags x (ch1, w')" for w'
    by (auto simp: count_dispatch_def Let_def same_flags_def split: prod.splits if_splits)
  then show ?thesis
    using c r by (auto simp: dispatch_node_def same_flags_def split: prod.splits)
qed

lemma flags_dispatch_loop: "same_flags x (dispatch_loop e bld m x)"
proof (induction e bld m x rule: dispatch_loop.induct)
  case (1 e bld m chw)
  show ?case
  proof (cases "pending_cnt (fst chw) > 0 \<or> m = MM_CAMERA_SUPER_BUF_NOTIFY_CONTINUOUS")
    case True
    obtain q n where d: "mm_channel_superbuf_dequeue (superbuf_queue (ch_bundle (fst chw))) = (q, n)" by fastforce
    show ?thesis
    proof (cases n)
      case (Some node)
      show ?thesis
        using d Some True flags_trans [OF flags_set_queue flags_trans [OF flags_dispatch_node "1.IH" [OF True d [symmetric] Some]]]
        by (subst dispatch_loop.simps) simp
    qed (use d in \<open>subst dispatch_loop.simps, auto simp: flags_refl\<close>)
  qed (subst dispatch_loop.simps, auto simp: flags_refl)
qed

lemma flags_tail: "same_flags x (process_tail e bld x)"
proof -
  obtain ch w where c: "x = (ch, w)" by fastforce
  show ?thesis
    using flags_trans [OF chf.keep_overflow flags_trans [OF flags_set_queue flags_dispatch_loop]]
    by (fastforce simp: c process_tail_def Let_def same_flags_def split: option.splits prod.splits)
qed

lemma flags_process: "same_flags x (mm_channel_process_stream_buf e bld cmd x)"
proof -
  obtain ch w where c: "x = (ch, w)" by fastforce
  have t: "same_flags x (process_tail e bld y)" if "same_flags x y" for y by (rule flags_trans [OF that flags_tail])
  have z: "same_flags y (zsl_request e y)" for y
    by (auto simp: zsl_request_def same_flags_def split: prod.splits)
  show ?thesis
  proof (cases cmd)
    case (CMD_DATA_CB info)
    obtain s1 q1 rc where e: "mm_channel_superbuf_comp_and_enqueue (channel_ops e bld) (ch, w) (superbuf_queue (ch_bundle ch)) info = (s1, q1, rc)"
      by (metis prod_cases3)
    have "same_flags x s1" using chf.keep_enqueue [OF e] by (simp add: c)
    then have "same_flags x (set_queue q1 (fst s1), snd s1)" by (rule flags_trans [OF _ flags_set_queue])
    then show ?thesis using e CMD_DATA_CB t by (cases s1) (simp add: c mm_channel_process_stream_buf_def)
  next
    case (CMD_REQ_DATA_CB n)
    show ?thesis
    proof (cases "mm_channel_superbuf_skip (channel_ops e bld) (ch\<lparr>pending_cnt := n\<rparr>, w) (superbuf_queue (ch_bundle ch))")
      case None
      then show ?thesis using CMD_REQ_DATA_CB by (simp add: c mm_channel_process_stream_buf_def same_flags_def)
    next
      case (Some r)
      obtain s1 q1 rc where r: "r = (s1, q1, rc)" by (metis prod_cases3)
      have "same_flags x s1" using chf.keep_skip [OF Some [unfolded r]] by (simp add: c same_flags_def)
      then have "same_flags x (zsl_request e (set_queue q1 (fst s1), snd s1))"
        by (rule flags_trans [OF _ flags_trans [OF flags_set_queue z]])
      then show ?thesis using Some r CMD_REQ_DATA_CB t by (cases s1) (simp add: c mm_channel_process_stream_buf_def)
    qed
  next
    case (CMD_FLUSH_QUEUE idx)
    obtain s1 q1 where f: "mm_channel_superbuf_flush (channel_ops e bld) (ch, w) ((superbuf_queue (ch_bundle ch))\<lparr>expected_frame_id := idx\<rparr>) = (s1, q1)"
      by fastforce
    show ?thesis
      using chf.keep_flush [OF f] f CMD_FLUSH_QUEUE
      by (auto simp: c mm_channel_process_stream_buf_def same_flags_def set_queue_def split: prod.splits)
  next
    case (CMD_CONFIG_NOTIFY m)
    have "same_flags x (set_queue q ch, w)" for q using flags_set_queue [of x q] by (simp add: c)
    then show ?thesis using CMD_CONFIG_NOTIFY t by (simp add: c mm_channel_process_stream_buf_def Let_def)
  qed (use t [OF flags_refl] in \<open>simp_all add: c mm_channel_process_stream_buf_def\<close>)
qed

lemma flags_release_bundle:
  assumes "alloc_ok e" "is_active (ch_bundle ch)" "release_bundle e bld (ch, w) = (ch', w')"
  shows "same_flags (ch, w) (ch', w')" "ch_bundle ch' = bundle_zero" "ch_cmd_thread ch' = cmd_thread_zero"
proof -
  obtain t1 ch1 w1 rc1 where r1: "mm_camera_cmd_thread_release (mm_channel_process_stream_buf e bld) e (ch_cmd_thread ch) (ch, w) = (t1, (ch1, w1), rc1)"
    by (metis prod_cases3 surj_pair)
  let ?ch = "ch1\<lparr>ch_cmd_thread := t1\<rparr>"
  obtain t2 ch2 w2 rc2 where r2: "mm_camera_cmd_thread_release mm_channel_dispatch_super_buf e (cb_thread ?ch) (?ch, w1) = (t2, (ch2, w2), rc2)"
    by (metis prod_cases3 surj_pair)
  have "map is_bundled (streams ch1) = map is_bundled (streams ch)"
  proof (rule thread_release_keeps(1) [where P = "\<lambda>c. map is_bundled (streams c) = map is_bundled (streams ch)", OF _ refl r1])
    fix cmd s x s' x'
    assume "mm_channel_process_stream_buf e bld cmd (s, x) = (s', x')" "map is_bundled (streams s) = map is_bundled (streams ch)"
    then show "map is_bundled (streams s') = map is_bundled (streams ch)"
      using flags_process [of "(s, x)" e bld cmd] by (simp add: same_flags_def)
  qed
  moreover have "t1 = cmd_thread_zero" by (rule thread_release_keeps(2) [where P = "\<lambda>_. True", OF _ TrueI r1 assms(1)]) simp
  moreover have "ch2 = ?ch"
    by (rule thread_release_keeps(1) [where P = "\<lambda>c. c = ?ch", OF _ refl r2])
      (auto simp: mm_channel_dispatch_super_buf_def split: mm_camera_cmdcb.splits if_splits)
  ultimately show "same_flags (ch, w) (ch', w')" "ch_bundle ch' = bundle_zero" "ch_cmd_thread ch' = cmd_thread_zero"
    using assms(2,3) r1 r2 by (auto simp: release_bundle_def same_flags_def Let_def)
qed

lemma put_keeps: "same_chan x y \<Longrightarrow> ch_bundle (fst (fst (run_stream e bld k MM_STREAM_EVT_PUT_BUF y))) = ch_bundle (fst y)
    \<and> ch_cmd_thread (fst (fst (run_stream e bld k MM_STREAM_EVT_PUT_BUF y))) = ch_cmd_thread (fst y)"
  using fsm_bundled(2) [of e bld MM_STREAM_EVT_PUT_BUF "streams (fst y) ! k" "ctx_of (fst y)" "snd y"]
  by (auto simp: run_stream_def put_ctx_def ctx_of_def split: prod.splits)

text \<open>a stop erases the bundle with the callback it was created with, but not the flags that make the streams
  deliver to it: afterwards no callback is registered, so the next start launches no threads, every stream that was
  bundled still is, and the first frame such a stream sends to the channel's command thread is
  enqueued on a destroyed queue, through a null pointer.\<close>

theorem stop_leaves_streams_bundled:
  assumes "alloc_ok e" "is_active (ch_bundle ch)" "list_all (\<lambda>i. stream_info (streams ch ! i) \<noteq> None) (used_streams ch)"
    and "mm_channel_stop e bld (ch, w) = ((ch', w'), rc)"
  shows "map is_bundled (streams ch') = map is_bundled (streams ch) \<and> super_buf_notify_cb (ch_bundle ch') = None
    \<and> cmd_thread_send e (CMD_DATA_CB info) (ch_cmd_thread ch') v = (cmd_thread_zero, v @ [Malloc, Malloc, UndefinedBehaviour], True)"
proof -
  have info: "\<not> list_ex (\<lambda>i. stream_info (streams ch ! i) = None) (used_streams ch)"
    using assms(3) by (auto simp: list_ex_iff list_all_iff)
  let ?stop = "\<lambda>k chw. fold (\<lambda>evt chw. fst (run_stream e bld k evt chw)) [MM_STREAM_EVT_STOP, MM_STREAM_EVT_UNREG_BUF] chw"
  let ?put = "\<lambda>k chw. fst (run_stream e bld k MM_STREAM_EVT_PUT_BUF chw)"
  obtain ch1 w1 where 1: "fold ?stop (stop_order ch) (ch, w) = (ch1, w1)" by fastforce
  obtain ch2 w2 where 2: "release_bundle e bld (ch1, w1) = (ch2, w2)" by fastforce
  have 3: "fold ?put (stop_order ch) (ch2, w2) = (ch', w')" using assms(4) info 1 2 by (simp add: mm_channel_stop_def Let_def comp_def)
  have f1: "same_flags (ch, w) (ch1, w1)"
    unfolding 1 [symmetric] by (rule flags_fold, rule flags_fold) (auto intro: flags_run)
  have "same_chan (ch, w) (ch1, w1)"
    unfolding 1 [symmetric] by (rule same_fold, rule same_fold, rule same_run)
  then have "is_active (ch_bundle ch1)" using assms(2) by (simp add: same_chan_def)
  note r = flags_release_bundle [OF assms(1) this 2]
  have f3: "same_flags (ch2, w2) (ch', w')"
    unfolding 3 [symmetric] by (rule flags_fold) (auto intro: flags_run)
  have "ch_bundle (fst (fold ?put ks y)) = ch_bundle (fst y) \<and> ch_cmd_thread (fst (fold ?put ks y)) = ch_cmd_thread (fst y)" for ks y
    by (induction ks arbitrary: y) (use put_keeps [OF same_chan_refl] in simp_all)
  from this [of "stop_order ch" "(ch2, w2)"] have "ch_bundle ch' = bundle_zero" "ch_cmd_thread ch' = cmd_thread_zero"
    using 3 r(2,3) by simp_all
  moreover have "same_flags (ch, w) (ch', w')" using flags_trans [OF f1 flags_trans [OF r(1) f3]] .
  ultimately show ?thesis
    using assms(1) by (simp add: same_flags_def bundle_zero_def cmd_thread_send_def malloc_ok_def alloc_ok_def cmd_thread_zero_def)
qed

section \<open>A concrete channel\<close>

text \<open>A stopped channel with a configured preview stream and a configured metadata stream and a callback.\<close>

definition ex_si :: "cam_stream_type \<Rightarrow> cam_stream_info" where
  "ex_si t = \<lparr>stream_svr_id = 3, stream_type = t, si_fmt = CAM_FORMAT_YUV_420_NV21,
     si_dim = \<lparr>dim_width = 640, dim_height = 480\<rparr>, buf_planes = fl_zero, pp_feature_mask = 0,
     pp_rotation = ROTATE_0, reprocess_config = REPROC_OFFLINE fl_zero\<rparr>"

definition ex_cfg_stream :: "u32 \<Rightarrow> cam_stream_type \<Rightarrow> mm_stream" where
  "ex_cfg_stream h t = mm_stream_zero\<lparr>my_hdl := h, st_fd := 5, ch_linked := True, st_state := MM_STREAM_STATE_CFG,
     stream_info := Some (ex_si t)\<rparr>"

definition ex_chan :: mm_channel where
  "ex_chan = \<lparr>ch_my_hdl = 0x201, ch_state = MM_CHANNEL_STATE_STOPPED,
     ch_bundle = bundle_zero\<lparr>super_buf_notify_cb := Some 9,
       superbuf_queue := (superbuf_queue bundle_zero)\<lparr>attr := attr_zero\<lparr>water_mark := 2, look_back := 2\<rparr>\<rparr>\<rparr>,
     pending_cnt = 0, ch_cmd_thread = cmd_thread_zero, cb_thread = cmd_thread_zero, ch_poll = cx_poll ex_ctx,
     streams = [ex_cfg_stream 0x300 CAM_STREAM_TYPE_PREVIEW, ex_cfg_stream 0x401 CAM_STREAM_TYPE_METADATA, mm_stream_zero, mm_stream_zero],
     cam_my_hdl = 0x100, cam_ctrl_fd = 4, startZSlSnapshotCalled = False, needLEDFlash = False\<rparr>"

definition ex_started :: mm_channel where
  "ex_started = fst (fst (snd (mm_channel_fsm_fn ex_env ex_build MM_CHANNEL_EVT_START 7 (ex_chan, []))))"

lemma ex_started_facts:
  "snd (snd (snd (mm_channel_fsm_fn ex_env ex_build MM_CHANNEL_EVT_START 7 (ex_chan, [])))) = 0"
  "queued (cb_thread ex_started) = []" "que (superbuf_queue (ch_bundle ex_started)) = []"
  "num_streams (superbuf_queue (ch_bundle ex_started)) = 2" "match_cnt (superbuf_queue (ch_bundle ex_started)) = 0"
  "que_size (superbuf_queue (ch_bundle ex_started)) = 0" "is_active (ch_bundle ex_started)"
  "notify_mode (attr (superbuf_queue (ch_bundle ex_started))) = MM_CAMERA_SUPER_BUF_NOTIFY_BURST"
  "map is_bundled (streams ex_started) = [True, True, False, False]"
  "bundled_streams (superbuf_queue (ch_bundle ex_started)) = [0x401, 0x300, 0, 0]"
  by code_simp+

lemma ex_started_live: "bundle_live ex_started"
  unfolding bundle_live_def not_None_eq [symmetric] by code_simp

theorem channel_fsm_follows_diagram_witness:
  "ch_state ex_started = MM_CHANNEL_STATE_ACTIVE"
proof -
  obtain cnt chw out rc where r: "mm_channel_fsm_fn ex_env ex_build MM_CHANNEL_EVT_START 7 (ex_chan, []) = (cnt, chw, out, rc)"
    by (metis prod_cases4)
  then have "fst chw = ex_started" "rc = 0" using ex_started_facts(1) by (simp_all add: ex_started_def)
  then show ?thesis using channel_fsm_follows_diagram [OF r] by (simp add: chan_next_def ex_chan_def)
qed

lemma ex_started_bundle: "bundle_inv (superbuf_queue (ch_bundle ex_started))"
  by (rule sb_reachable_inv [OF sb_reachable.start [of _ ex_ops]])
    (use ex_started_facts in \<open>simp add: queue_started_def MAX_STREAM_NUM_IN_BUNDLE_def\<close>)

text \<open>A frame of the preview stream arrives at the started channel.\<close>

definition ex_arrival :: mm_camera_buf_info where
  "ex_arrival = \<lparr>bi_stream_id = 0x300, bi_frame_idx = 7, bi_buf = Some (ex_frame 0)\<rparr>"

lemma ex_arrival_taken:
  "snd (snd (mm_channel_superbuf_comp_and_enqueue (channel_ops ex_env ex_build) (ex_started, [])
     (superbuf_queue (ch_bundle ex_started)) ex_arrival)) = 0"
  by code_simp


text \<open>The started channel with one matched bundle in its queue; two super buffers are requested.\<close>

definition ex_full :: mm_channel where
  "ex_full = set_queue (ex_pair\<lparr>attr := attr (superbuf_queue (ch_bundle ex_started))\<rparr>) ex_started"

lemma ex_full_facts: "bundle_live ex_full" "bundle_inv (superbuf_queue (ch_bundle ex_full))"
  "map matched (que (superbuf_queue (ch_bundle ex_full))) = [True]" "queued (cb_thread ex_full) = []"
  "notify_mode (attr (superbuf_queue (ch_bundle ex_full))) = MM_CAMERA_SUPER_BUF_NOTIFY_BURST"
proof -
  show "bundle_live ex_full" using ex_started_live by (simp add: ex_full_def bundle_live_def set_queue_def)
  show "bundle_inv (superbuf_queue (ch_bundle ex_full))"
    using sb_reachable_inv [OF ex_reachable_pair] by (simp add: ex_full_def set_queue_def bundle_inv_def superbuf_inv_def)
  show "map matched (que (superbuf_queue (ch_bundle ex_full))) = [True]"
    using arg_cong [OF ex_pair_que(1), of "map fst"] by (simp add: ex_full_def set_queue_def comp_def)
qed (simp_all add: ex_full_def set_queue_def ex_started_facts)

theorem request_dispatches_next_witness:
  "\<exists>k j. k + j \<le> 1 \<and> pending_cnt (fst (mm_channel_process_stream_buf ex_env ex_build (CMD_REQ_DATA_CB 2) (ex_full, []))) = 2 - of_nat j
     \<and> length (queued (cb_thread (fst (mm_channel_process_stream_buf ex_env ex_build (CMD_REQ_DATA_CB 2) (ex_full, []))))) = j"
proof -
  obtain n where n: "que (superbuf_queue (ch_bundle ex_full)) = [n]" "matched n" using ex_full_facts(3) by auto
  obtain k j where "j = min (unat (2 :: u32)) (length (takeWhile matched (drop k [n])))"
    "queued (cb_thread (fst (mm_channel_process_stream_buf ex_env ex_build (CMD_REQ_DATA_CB 2) (ex_full, [])))) =
       map (\<lambda>n. CMD_SUPER_BUF_DATA_CB (node_superbuf ex_full n)) (take j (drop k [n]))"
    "pending_cnt (fst (mm_channel_process_stream_buf ex_env ex_build (CMD_REQ_DATA_CB 2) (ex_full, []))) = 2 - of_nat j"
    using request_dispatches_next [where bld = ex_build and n = 2 and w = "[]", OF ex_reachable(2) ex_full_facts(1,5,2) refl]
      n(1) ex_full_facts(4) by auto
  then show ?thesis
    using n(2) by (cases k) (auto intro: exI [of _ "0::nat"] exI [of _ "1::nat"])
qed

text \<open>The driver refuses to hand out buffers.\<close>

definition no_buf_env :: env where
  "no_buf_env = ex_env\<lparr>e_ret := (\<lambda>w c. case c of GetBufs n \<Rightarrow> -1 | _ \<Rightarrow> e_ret ex_env w c)\<rparr>"

lemma ex_chan_configured: "list_all (\<lambda>i. \<not> Option.is_none (stream_info (streams ex_chan ! i))) (used_streams ex_chan)"
  "snd (snd (snd (mm_channel_fsm_fn no_buf_env ex_build MM_CHANNEL_EVT_START 7 (ex_chan, [])))) = -1"
  "list_all (\<lambda>i. \<not> Option.is_none (stream_info (streams ex_started ! i))) (used_streams ex_started)"
  by code_simp+

theorem failed_start_leaves_threads_witness:
  "\<exists>cnt ch w. mm_channel_fsm_fn no_buf_env ex_build MM_CHANNEL_EVT_START 7 (ex_chan, []) = (cnt, (ch, w), NoOut, -1)
     \<and> ch_state ch = MM_CHANNEL_STATE_STOPPED \<and> is_active (ch_bundle ch)"
proof -
  obtain cnt ch w out rc where r: "mm_channel_fsm_fn no_buf_env ex_build MM_CHANNEL_EVT_START 7 (ex_chan, []) = (cnt, (ch, w), out, rc)"
    by (metis prod_cases4 surj_pair)
  then have rc: "rc = -1" using ex_chan_configured(2) by simp
  have "out = NoOut" using r by (auto simp: mm_channel_fsm_fn_def ex_chan_def mm_channel_fsm_fn_stopped_def split: prod.splits)
  moreover have "ch_state ch = MM_CHANNEL_STATE_STOPPED \<and> is_active (ch_bundle ch)"
    using failed_start_leaves_threads [OF _ _ _ r] ex_chan_configured(1) rc
    by (simp add: Option.is_none_def) (simp add: ex_chan_def)
  ultimately show ?thesis using r rc by auto
qed

theorem stop_leaves_streams_bundled_witness:
  "map is_bundled (streams (fst (fst (mm_channel_stop ex_env ex_build (ex_started, []))))) = [True, True, False, False]
     \<and> super_buf_notify_cb (ch_bundle (fst (fst (mm_channel_stop ex_env ex_build (ex_started, []))))) = None"
proof -
  obtain ch w rc where r: "mm_channel_stop ex_env ex_build (ex_started, []) = ((ch, w), rc)" by (metis surj_pair)
  show ?thesis
    using stop_leaves_streams_bundled [OF ex_reachable(2) ex_started_facts(7) _ r] ex_chan_configured(3) ex_started_facts(9) r
    by (simp add: Option.is_none_def)
qed

end
