(* ===== verification/ChannelStart.thy ===== *)
theory ChannelStart
  imports ChannelProps
begin

text \<open>
  What a successful start of a channel does to the driver: the streams are switched on one after the other in the order of
  \<^verbatim>\<open>start_order\<close>, each exactly once.  The trace is filtered for the calls that switch streams on.
\<close>

definition is_on :: "syscall \<Rightarrow> bool" where
  "is_on c = (case c of StreamOn fd \<Rightarrow> True | _ \<Rightarrow> False)"

definition ons :: "world \<Rightarrow> world" where
  "ons w = filter is_on w"

lemma ons_simps [simp]: "ons [] = []" "ons (w @ v) = ons w @ ons v" "ons (c # w) = (if is_on c then [c] else []) @ ons w"
  by (simp_all add: ons_def)

lemma is_on_simps [simp]:
  "is_on (StreamOn fd)" "\<not> is_on (Qbuf fd i n p)" "\<not> is_on (InvalidateBuf i)" "\<not> is_on (GetBufs n)" "\<not> is_on PutBufs"
  "\<not> is_on Malloc" "\<not> is_on UndefinedBehaviour" "\<not> is_on (Reqbufs fd m)" "\<not> is_on (PipeWrite fd c)"
  by (simp_all add: is_on_def)

lemma qbuf_ons: "mm_stream_qbuf e b s w = (w', rc) \<Longrightarrow> ons w' = ons w"
  by (auto simp: mm_stream_qbuf_def call_def Let_def split: if_splits)

lemma deinit_ons: "mm_stream_deinit_bufs e s w = (s', w', rc) \<Longrightarrow> ons w' = ons w \<and> st_fd s' = st_fd s"
  by (auto simp: mm_stream_deinit_bufs_def call_def split: if_splits)

lemma init_ons: "mm_stream_init_bufs e s w = (s', w', rc) \<Longrightarrow> ons w' = ons w \<and> st_fd s' = st_fd s"
  by (auto simp: mm_stream_init_bufs_def call_def malloc_ok_def Let_def dest!: deinit_ons split: if_splits prod.splits option.splits)

lemma reg_loop_ons: "reg_buf_loop e i k s w = (s', w', rc) \<Longrightarrow> ons w' = ons w \<and> st_fd s' = st_fd s"
  by (induction e i k s w rule: reg_buf_loop.induct) (auto dest!: qbuf_ons split: option.splits if_splits prod.splits)

lemma reg_ons: "mm_stream_reg_buf e s w = (s', w', rc) \<Longrightarrow> ons w' = ons w \<and> st_fd s' = st_fd s"
  by (auto simp: mm_stream_reg_buf_def mm_stream_request_buf_def call_def dest!: reg_loop_ons split: prod.splits if_splits)

lemma poll_add_ons: "mm_camera_poll_thread_add_poll_fd e h fd cb p w = (p', w', rc) \<Longrightarrow> ons w' = ons w"
  by (auto simp: mm_camera_poll_thread_add_poll_fd_def mm_camera_poll_sig_def call_def Let_def split: if_splits)

lemma streamon_ons: "mm_stream_streamon e s c w = (c', w', rc) \<Longrightarrow> rc = 0 \<Longrightarrow> ons w' = ons w @ [StreamOn (st_fd s)]"
  by (auto simp: mm_stream_streamon_def call_def Let_def word_sless_alt dest!: poll_add_ons split: prod.splits if_splits)

lemma start_ons: "stream_start e s c w = (s', c', w', rc) \<Longrightarrow> rc = 0 \<Longrightarrow> ons w' = ons w @ [StreamOn (st_fd s)]"
  by (auto simp: stream_start_def Let_def dest!: streamon_ons split: prod.splits if_splits)

text \<open>The three events of the start loop on a configured stream.\<close>

lemma run_get_buf:
  assumes "run_stream e bld k MM_STREAM_EVT_GET_BUF (ch, w) = ((ch', w'), rc)" "rc = 0" "st_state (streams ch ! k) = MM_STREAM_STATE_CFG"
  shows "\<exists>s. streams ch' = (streams ch)[k := s] \<and> st_state s = MM_STREAM_STATE_BUFFED \<and> st_fd s = st_fd (streams ch ! k) \<and> ons w' = ons w"
  using assms by (auto simp: run_stream_def mm_stream_fsm_fn_def mm_stream_fsm_cfg_def put_ctx_def dest!: init_ons split: prod.splits)

lemma run_reg_buf:
  assumes "run_stream e bld k MM_STREAM_EVT_REG_BUF (ch, w) = ((ch', w'), rc)" "rc = 0" "st_state (streams ch ! k) = MM_STREAM_STATE_BUFFED"
  shows "\<exists>s. streams ch' = (streams ch)[k := s] \<and> st_state s = MM_STREAM_STATE_REG \<and> st_fd s = st_fd (streams ch ! k) \<and> ons w' = ons w"
  using assms by (auto simp: run_stream_def mm_stream_fsm_fn_def mm_stream_fsm_buffed_def put_ctx_def dest!: reg_ons split: prod.splits)

lemma run_start:
  assumes "run_stream e bld k MM_STREAM_EVT_START (ch, w) = ((ch', w'), rc)" "rc = 0" "st_state (streams ch ! k) = MM_STREAM_STATE_REG"
  shows "\<exists>s. streams ch' = (streams ch)[k := s] \<and> ons w' = ons w @ [StreamOn (st_fd (streams ch ! k))]"
  using assms by (auto simp: run_stream_def mm_stream_fsm_fn_def mm_stream_fsm_reg_def put_ctx_def dest!: start_ons split: prod.splits)

lemma start_loop_ons:
  assumes "distinct ks" "\<forall>k\<in>set ks. k < length (streams ch) \<and> st_state (streams ch ! k) = MM_STREAM_STATE_CFG"
    and "start_loop e bld ks i (ch, w) = ((ch', w'), 0, j)"
  shows "ons w' = ons w @ map (\<lambda>k. StreamOn (st_fd (streams ch ! k))) ks"
  using assms
proof (induction ks arbitrary: ch w i)
  case (Cons k ks)
  let ?s = "streams ch ! k"
  have k: "k < length (streams ch)" "st_state ?s = MM_STREAM_STATE_CFG" "k \<notin> set ks" using Cons.prems(1,2) by auto
  obtain ch1 w1 rc1 where r1: "run_stream e bld k MM_STREAM_EVT_GET_BUF (ch, w) = ((ch1, w1), rc1)" by (metis surj_pair)
  obtain ch2 w2 rc2 where r2: "run_stream e bld k MM_STREAM_EVT_REG_BUF (ch1, w1) = ((ch2, w2), rc2)" by (metis surj_pair)
  obtain ch3 w3 rc3 where r3: "run_stream e bld k MM_STREAM_EVT_START (ch2, w2) = ((ch3, w3), rc3)" by (metis surj_pair)
  have l: "rc1 = 0" "rc2 = 0" "rc3 = 0" "start_loop e bld ks (Suc i) (ch3, w3) = ((ch', w'), 0, j)"
    using Cons.prems(3) r1 r2 r3 k by (auto split: if_splits)
  obtain s1 where s1: "streams ch1 = (streams ch)[k := s1]" "st_state s1 = MM_STREAM_STATE_BUFFED" "st_fd s1 = st_fd ?s" "ons w1 = ons w"
    using run_get_buf [OF r1 l(1) k(2)] by blast
  obtain s2 where s2: "streams ch2 = (streams ch)[k := s2]" "st_state s2 = MM_STREAM_STATE_REG" "st_fd s2 = st_fd ?s" "ons w2 = ons w"
    using run_reg_buf [OF r2 l(2)] s1 k(1) by auto
  obtain s3 where s3: "streams ch3 = (streams ch)[k := s3]" "ons w3 = ons w @ [StreamOn (st_fd ?s)]"
    using run_start [OF r3 l(3)] s2 k(1) by auto
  have same: "streams ch3 ! x = streams ch ! x" if "x \<in> set ks" for x using s3(1) k(3) that by (cases "x = k") auto
  have "ons w' = ons w3 @ map (\<lambda>x. StreamOn (st_fd (streams ch3 ! x))) ks"
    by (rule Cons.IH [OF _ _ l(4)]) (use Cons.prems(1,2) s3(1) same in auto)
  also have "map (\<lambda>x. StreamOn (st_fd (streams ch3 ! x))) ks = map (\<lambda>x. StreamOn (st_fd (streams ch ! x))) ks"
    using same by simp
  finally show ?case using s3(2) by simp
qed simp

lemma mark_bundled_fields:
  "length (mark_bundled os ss) = length ss"
  "st_state (mark_bundled os ss ! k) = st_state (ss ! k) \<and> st_fd (mark_bundled os ss ! k) = st_fd (ss ! k)"
proof -
  have "length (mark_bundled os ss) = length ss \<and>
      (st_state (mark_bundled os ss ! k) = st_state (ss ! k) \<and> st_fd (mark_bundled os ss ! k) = st_fd (ss ! k))"
  proof (induction os arbitrary: ss)
    case (Cons i os)
    let ?ss = "ss[i := (ss ! i)\<lparr>is_bundled := True\<rparr>]"
    have "mark_bundled (i # os) ss = mark_bundled os ?ss" by (simp add: mark_bundled_def)
    moreover have "st_state (?ss ! k) = st_state (ss ! k) \<and> st_fd (?ss ! k) = st_fd (ss ! k)"
      by (cases "k = i"; cases "i < length ss") (simp_all add: list_update_beyond)
    ultimately show ?case using Cons.IH [of ?ss] by simp
  qed (simp add: mark_bundled_def)
  then show "length (mark_bundled os ss) = length ss"
    "st_state (mark_bundled os ss ! k) = st_state (ss ! k) \<and> st_fd (mark_bundled os ss ! k) = st_fd (ss ! k)" by blast+
qed

lemma start_order_mset: "mset (start_order ch) = mset (used_streams ch)"
proof -
  have "0 < meta_stream_idx ch \<Longrightarrow> meta_stream_idx ch < length (used_streams ch)"
    using meta_idx [of ch] by (cases "list_ex (is_meta ch) (used_streams ch)") auto
  then show ?thesis by (auto simp: start_order_def Let_def intro!: swap_mset)
qed

text \<open>C20: a successful start of a channel whose streams are all configured switches every stream in use on exactly once, in
  the order \<^verbatim>\<open>start_order\<close>, so the metadata stream before the others.\<close>

theorem start_switches_on_in_order:
  assumes "distinct (used_streams ch)"
    and "\<forall>k\<in>set (used_streams ch). k < length (streams ch) \<and> st_state (streams ch ! k) = MM_STREAM_STATE_CFG \<and> stream_info (streams ch ! k) \<noteq> None"
    and "mm_channel_start e bld (ch, w) = ((ch', w'), 0)"
  shows "filter is_on w' = filter is_on w @ map (\<lambda>k. StreamOn (st_fd (streams ch ! k))) (start_order ch)"
proof -
  have info: "\<not> list_ex (\<lambda>i. stream_info (streams ch ! i) = None) (used_streams ch)"
    using assms(2) by (auto simp: list_ex_iff)
  let ?ch = "if super_buf_notify_cb (ch_bundle ch) \<noteq> None then start_bundle (start_order ch) ch else ch"
  have fl: "st_state (streams ?ch ! k) = st_state (streams ch ! k)" "st_fd (streams ?ch ! k) = st_fd (streams ch ! k)"
    "length (streams ?ch) = length (streams ch)" for k
    using mark_bundled_fields by (auto simp: start_bundle_def Let_def)
  obtain ch1 w1 rc i where l: "start_loop e bld (start_order ch) 0 (?ch, w) = ((ch1, w1), rc, i)" by (metis prod_cases3 surj_pair)
  have "rc = 0" "(ch1, w1) = (ch', w')"
    using assms(3) info l by (auto simp: mm_channel_start_def Let_def split: if_splits)
  moreover have "distinct (start_order ch)" "set (start_order ch) = set (used_streams ch)"
    using start_order_mset [of ch] assms(1) mset_eq_setD by (auto dest: mset_eq_imp_distinct_iff)
  ultimately have "ons w' = ons w @ map (\<lambda>k. StreamOn (st_fd (streams ?ch ! k))) (start_order ch)"
    using start_loop_ons [of "start_order ch" ?ch e bld 0 w ch' w' i] l assms(2) fl by simp
  then show ?thesis using fl by (simp add: ons_def)
qed

lemma ex_chan_used: "used_streams ex_chan = [0, 1]" "start_order ex_chan = [1, 0]"
  "map st_state (streams ex_chan) = [MM_STREAM_STATE_CFG, MM_STREAM_STATE_CFG, MM_STREAM_STATE_NOTUSED, MM_STREAM_STATE_NOTUSED]"
  "snd (mm_channel_start ex_env ex_build (ex_chan, [])) = 0"
  by code_simp+

theorem start_switches_on_in_order_witness:
  "filter is_on (snd (fst (mm_channel_start ex_env ex_build (ex_chan, [])))) = [StreamOn 5, StreamOn 5]"
proof -
  obtain ch w rc where r: "mm_channel_start ex_env ex_build (ex_chan, []) = ((ch, w), rc)" by (metis surj_pair)
  then have "rc = 0" using ex_chan_used(4) by simp
  moreover have "\<forall>k\<in>set (used_streams ex_chan). k < length (streams ex_chan) \<and> st_state (streams ex_chan ! k) = MM_STREAM_STATE_CFG
      \<and> stream_info (streams ex_chan ! k) \<noteq> None"
    by (simp add: ex_chan_used) (simp add: ex_chan_def ex_cfg_stream_def)
  ultimately show ?thesis
    using start_switches_on_in_order [of ex_chan ex_env ex_build "[]" ch w] r ex_chan_used(1,2)
    by (simp add: ex_chan_def ex_cfg_stream_def)
qed

theorem metadata_starts_first_stops_last_witness:
  "mset (start_order ex_chan) = {#0, 1#} \<and> is_meta ex_chan (hd (start_order ex_chan)) \<and> is_meta ex_chan (last (stop_order ex_chan))"
proof -
  have "list_ex (is_meta ex_chan) (used_streams ex_chan)" by code_simp
  then show ?thesis using metadata_starts_first_stops_last [of ex_chan] by (simp add: ex_chan_used)
qed

end
