(* ===== verification/Camera.thy ===== *)
theory Camera
  imports ChannelProps
begin

text \<open>
  The camera object, \<^verbatim>\<open>camera/QCamera2/stack/mm-camera-interface/src/mm_camera.c\<close>: the control descriptor
  and the domain socket of an opened camera, its table of channels, the callbacks registered for
  events, and the event thread.  The channels run by theory \<^verbatim>\<open>Channel\<close>.

  Mutexes.  The calling thread's mutex operations are recorded in \<^verbatim>\<open>cw_locks\<close>, in the order the code
  makes them; theory \<^verbatim>\<open>CameraProps\<close> checks that record.  \<^verbatim>\<open>mm_channel_fsm_fn\<close> gives up the channel's mutex
  at its end (line 342 of \<^verbatim>\<open>mm_camera_channel.c\<close>); here that is the last step of \<^verbatim>\<open>on_channel\<close>.  The mutexes of
  single streams, which are taken and released within one stream operation, are not recorded, nor is the
  mutex that a wait gives up and takes back.  After a mark \<^verbatim>\<open>BlockedForever\<close> the record has no meaning either.

  Waiting.  A thread that waits for a notification consumes those the event thread stores in the meantime,
  \<^verbatim>\<open>e_notify\<close>; when none of them matches it blocks.
\<close>

definition MM_CAMERA_CHANNEL_MAX :: nat where "MM_CAMERA_CHANNEL_MAX = 16"
definition MM_CAMERA_EVT_ENTRY_MAX :: nat where "MM_CAMERA_EVT_ENTRY_MAX = 4"
definition MM_CAMERA_DEV_OPEN_TRIES :: nat where "MM_CAMERA_DEV_OPEN_TRIES = 2"
definition MM_CAMERA_DEV_NAME_LEN :: nat where "MM_CAMERA_DEV_NAME_LEN = 32"
definition CAM_EVENT_TYPE_MAP_UNMAP_DONE :: u32 where "CAM_EVENT_TYPE_MAP_UNMAP_DONE = 1"

section \<open>State\<close>

text \<open>Mutexes, named by the handle of their camera and the index of their channel.\<close>

datatype mutex = IntfLock | CamLock u32 | ChLock u32 nat | MsgLock u32 | EvtLock u32 | CbLock u32

datatype lock_evt = Lock mutex | Unlock mutex

record cam_world =
  cw_trace :: world
  cw_locks :: "lock_evt list"
  cw_cnt :: u16

definition pthread_mutex_lock :: "mutex \<Rightarrow> cam_world \<Rightarrow> cam_world" where
  "pthread_mutex_lock m s = s\<lparr>cw_locks := cw_locks s @ [Lock m]\<rparr>"

definition pthread_mutex_unlock :: "mutex \<Rightarrow> cam_world \<Rightarrow> cam_world" where
  "pthread_mutex_unlock m s = s\<lparr>cw_locks := cw_locks s @ [Unlock m]\<rparr>"

record evt_entry =
  ee_cb :: "nat option"
  ee_user_data :: addr

record mm_camera_obj =
  co_my_hdl :: u32
  co_ref_count :: i32
  co_ctrl_fd :: i32
  co_ds_fd :: i32
  co_ch :: "mm_channel list"
  co_evt :: "evt_entry list"
  co_reg_count :: i32
  co_evt_poll :: "unit mm_camera_poll_thread"
  co_evt_thread :: cmd_thread
  co_evt_rcvd :: mm_camera_event

definition event_zero :: mm_camera_event where
  "event_zero = \<lparr>server_event_type = 0, evt_status = 0\<rparr>"

definition mm_channel_zero :: mm_channel where
  "mm_channel_zero = \<lparr>ch_my_hdl = 0, ch_state = MM_CHANNEL_STATE_NOTUSED, ch_bundle = bundle_zero, pending_cnt = 0,
     ch_cmd_thread = cmd_thread_zero, cb_thread = cmd_thread_zero, ch_poll = poll_thread_zero,
     streams = replicate MAX_STREAM_NUM_IN_BUNDLE mm_stream_zero, cam_my_hdl = 0, cam_ctrl_fd = 0,
     startZSlSnapshotCalled = False, needLEDFlash = False\<rparr>"

definition mm_camera_obj_zero :: mm_camera_obj where
  "mm_camera_obj_zero = \<lparr>co_my_hdl = 0, co_ref_count = 0, co_ctrl_fd = 0, co_ds_fd = 0,
     co_ch = replicate MM_CAMERA_CHANNEL_MAX mm_channel_zero,
     co_evt = replicate MM_CAMERA_EVT_ENTRY_MAX \<lparr>ee_cb = None, ee_user_data = 0\<rparr>, co_reg_count = 0,
     co_evt_poll = poll_thread_zero, co_evt_thread = cmd_thread_zero, co_evt_rcvd = event_zero\<rparr>"

section \<open>The domain socket\<close>

definition mm_camera_socket_create :: "env \<Rightarrow> u32 \<Rightarrow> sock_type \<Rightarrow> world \<Rightarrow> world \<times> i32" where
  "mm_camera_socket_create e cam_id ty w =
     (case call e (Socket ty) w of (w, fd) \<Rightarrow>
        if fd <s 0 then (w, fd)
        else (case call e (Connect fd cam_id) w of (w, rc) \<Rightarrow>
                if rc \<noteq> 0 then (w @ [Close fd], -1) else (w, fd)))"

definition mm_camera_socket_close :: "i32 \<Rightarrow> world \<Rightarrow> world" where
  "mm_camera_socket_close fd w = (if 0 <s fd then w @ [Close fd] else w)"

definition mm_camera_socket_sendmsg :: "env \<Rightarrow> i32 \<Rightarrow> sock_packet \<Rightarrow> i32 \<Rightarrow> world \<Rightarrow> world \<times> i32" where
  "mm_camera_socket_sendmsg e fd msg sendfd w = call e (SockSend fd msg (if 0 <s sendfd then Some sendfd else None)) w"

section \<open>Events\<close>

text \<open>The callback of the event thread.\<close>

definition mm_camera_dispatch_app_event :: "mm_camera_cmdcb \<Rightarrow> mm_camera_obj \<times> world \<Rightarrow> mm_camera_obj \<times> world" where
  "mm_camera_dispatch_app_event cmd ow = (case ow of (ob, w) \<Rightarrow>
     (case cmd of
        CMD_EVT_CB event \<Rightarrow>
          (ob, w @ List.map_filter
             (\<lambda>en. map_option (\<lambda>cb. EventCallback (co_my_hdl ob) cb event) (ee_cb en)) (co_evt ob))
      | _ \<Rightarrow> (ob, w)))"

definition mm_camera_enqueue_evt :: "env \<Rightarrow> mm_camera_event \<Rightarrow> mm_camera_obj \<Rightarrow> world \<Rightarrow> mm_camera_obj \<times> world \<times> i32" where
  "mm_camera_enqueue_evt e event ob w =
     (case cmd_thread_send e (CMD_EVT_CB event) (co_evt_thread ob) w of (t, w, ok) \<Rightarrow>
        (ob\<lparr>co_evt_thread := t\<rparr>, w, if ok then 0 else -1))"

definition mm_camera_event_notify :: "env \<Rightarrow> mm_camera_obj \<Rightarrow> world \<Rightarrow> mm_camera_obj \<times> world" where
  "mm_camera_event_notify e ob w =
     (case call e (Dqevent (co_ctrl_fd ob)) w of (w, rc) \<Rightarrow>
        if 0 \<le>s rc then
          (case e_event e w of
             MapUnmapDone st \<Rightarrow>
               (ob\<lparr>co_evt_rcvd := \<lparr>server_event_type = CAM_EVENT_TYPE_MAP_UNMAP_DONE, evt_status = st\<rparr>\<rparr>, w)
           | PrivShutdown \<Rightarrow>
               (case mm_camera_enqueue_evt e (event_zero\<lparr>server_event_type := CAM_EVENT_TYPE_DAEMON_DIED\<rparr>) ob w of
                  (ob, w, _) \<Rightarrow> (ob, w))
           | OtherEvent \<Rightarrow> (ob, w))
        else (ob, w))"

definition mm_camera_evt_sub :: "env \<Rightarrow> bool \<Rightarrow> mm_camera_obj \<Rightarrow> world \<Rightarrow> mm_camera_obj \<times> world \<times> i32" where
  "mm_camera_evt_sub e reg_flag ob w =
     (if \<not> reg_flag then
        (case call e (UnsubscribeEvent (co_ctrl_fd ob)) w of (w, rc) \<Rightarrow>
           if rc <s 0 then (ob, w, rc)
           else (case mm_camera_poll_thread_del_poll_fd e (co_my_hdl ob) (co_evt_poll ob) w of (p, w, rc) \<Rightarrow>
                   (ob\<lparr>co_evt_poll := p\<rparr>, w, rc)))
      else
        (case call e (SubscribeEvent (co_ctrl_fd ob)) w of (w, rc) \<Rightarrow>
           if rc <s 0 then (ob, w, rc)
           else (case mm_camera_poll_thread_add_poll_fd e (co_my_hdl ob) (co_ctrl_fd ob) (Some ()) (co_evt_poll ob) w of
                   (p, w, rc) \<Rightarrow> (ob\<lparr>co_evt_poll := p\<rparr>, w, rc))))"

text \<open>Registration: an entry is free when its user data is the null pointer.\<close>

definition mm_camera_register_event_notify_internal ::
    "nat option \<Rightarrow> addr \<Rightarrow> mm_camera_obj \<Rightarrow> cam_world \<Rightarrow> mm_camera_obj \<times> cam_world \<times> i32" where
  "mm_camera_register_event_notify_internal evt_cb user_data ob s =
     (let s = pthread_mutex_lock (CbLock (co_my_hdl ob)) s;
          (ob, rc) =
            (if evt_cb \<noteq> None then
               (case List.find (\<lambda>i. ee_user_data (co_evt ob ! i) = 0) [0 ..< MM_CAMERA_EVT_ENTRY_MAX] of
                  Some i \<Rightarrow> (ob\<lparr>co_evt := (co_evt ob)[i := \<lparr>ee_cb = evt_cb, ee_user_data = user_data\<rparr>],
                              co_reg_count := co_reg_count ob + 1\<rparr>, 0)
                | None \<Rightarrow> (ob, -1))
             else
               (case List.find (\<lambda>i. ee_user_data (co_evt ob ! i) = user_data) [0 ..< MM_CAMERA_EVT_ENTRY_MAX] of
                  Some i \<Rightarrow> (ob\<lparr>co_evt := (co_evt ob)[i := \<lparr>ee_cb = None, ee_user_data = 0\<rparr>],
                              co_reg_count := co_reg_count ob - 1\<rparr>, 0)
                | None \<Rightarrow> (ob, -1)))
      in (ob, pthread_mutex_unlock (CbLock (co_my_hdl ob)) s, rc))"

definition mm_camera_register_event_notify ::
    "nat option \<Rightarrow> addr \<Rightarrow> mm_camera_obj \<Rightarrow> cam_world \<Rightarrow> mm_camera_obj \<times> cam_world \<times> i32" where
  "mm_camera_register_event_notify evt_cb user_data ob s =
     (case mm_camera_register_event_notify_internal evt_cb user_data ob s of (ob, s, rc) \<Rightarrow>
        (ob, pthread_mutex_unlock (CamLock (co_my_hdl ob)) s, rc))"

section \<open>Opening and closing\<close>

text \<open>The number of the device: \<^verbatim>\<open>sscanf\<close> with \<^verbatim>\<open>/dev/video%u\<close> on the device path, which \<^verbatim>\<open>snprintf\<close> cuts to the
  buffer; it stays 0 when the path does not match.  A missing name prints as \<^verbatim>\<open>(null)\<close>.\<close>

definition dev_path :: "string option \<Rightarrow> string" where
  "dev_path name = take (MM_CAMERA_DEV_NAME_LEN - 1) (''/dev/'' @ (case name of Some n \<Rightarrow> n | None \<Rightarrow> ''(null)''))"

definition is_digit :: "char \<Rightarrow> bool" where
  "is_digit c \<longleftrightarrow> 48 \<le> (of_char c :: nat) \<and> (of_char c :: nat) \<le> 57"

definition digits_value :: "string \<Rightarrow> nat" where
  "digits_value ds = fold (\<lambda>c n. 10 * n + (of_char c - 48)) ds 0"

definition cam_idx_of :: "string option \<Rightarrow> u32" where
  "cam_idx_of name =
     (let path = dev_path name; pre = ''/dev/video'' in
      if take (length pre) path = pre then of_nat (digits_value (takeWhile is_digit (drop (length pre) path))) else 0)"

text \<open>The loops around \<^verbatim>\<open>open\<close> and the creation of the socket; the argument is \<^verbatim>\<open>n_try\<close> after its decrement.\<close>

fun open_ctrl :: "env \<Rightarrow> u32 \<Rightarrow> nat \<Rightarrow> world \<Rightarrow> world \<times> i32" where
  "open_ctrl e hdl 0 w = call e (Open hdl) w"
| "open_ctrl e hdl (Suc n_try) w =
     (case call e (Open hdl) w of (w, fd) \<Rightarrow>
        if 0 <s fd \<or> \<not> e_eio e w then (w, fd) else open_ctrl e hdl n_try (w @ [Usleep 20000]))"

fun open_socket :: "env \<Rightarrow> u32 \<Rightarrow> nat \<Rightarrow> world \<Rightarrow> world \<times> i32" where
  "open_socket e cam_idx 0 w = mm_camera_socket_create e cam_idx MM_CAMERA_SOCK_TYPE_UDP w"
| "open_socket e cam_idx (Suc n_try) w =
     (case mm_camera_socket_create e cam_idx MM_CAMERA_SOCK_TYPE_UDP w of (w, fd) \<Rightarrow>
        if 0 <s fd then (w, fd) else open_socket e cam_idx n_try (w @ [Usleep 20000]))"

definition open_on_error :: "mm_camera_obj \<Rightarrow> world \<Rightarrow> mm_camera_obj \<times> world \<times> i32" where
  "open_on_error ob w =
     (let (ob, w) = (if 0 <s co_ctrl_fd ob then (ob\<lparr>co_ctrl_fd := 0\<rparr>, w @ [Close (co_ctrl_fd ob)]) else (ob, w));
          (ob, w) = (if 0 <s co_ds_fd ob then (ob\<lparr>co_ds_fd := 0\<rparr>, mm_camera_socket_close (co_ds_fd ob) w) else (ob, w))
      in (ob, w, -1))"

text \<open>The results of the launches and of the subscription are ignored.\<close>

definition mm_camera_open ::
    "env \<Rightarrow> i32 \<times> i32 \<Rightarrow> string option \<Rightarrow> mm_camera_obj \<Rightarrow> world \<Rightarrow> mm_camera_obj \<times> world \<times> i32" where
  "mm_camera_open e newpipe name ob w =
     (case open_ctrl e (co_my_hdl ob) (MM_CAMERA_DEV_OPEN_TRIES - 1) w of (w, fd) \<Rightarrow>
        let ob = ob\<lparr>co_ctrl_fd := fd\<rparr> in
        if fd \<le>s 0 then open_on_error ob w
        else
          (case open_socket e (cam_idx_of name) (MM_CAMERA_DEV_OPEN_TRIES - 1) w of (w, ds) \<Rightarrow>
             let ob = ob\<lparr>co_ds_fd := ds\<rparr> in
             if ds \<le>s 0 then open_on_error ob w
             else
               (let ob = ob\<lparr>co_evt_thread := fst (mm_camera_cmd_thread_launch (co_evt_thread ob))\<rparr> in
                case mm_camera_poll_thread_launch e newpipe MM_CAMERA_POLL_TYPE_EVT (co_evt_poll ob) w of (p, w, _) \<Rightarrow>
                case mm_camera_evt_sub e True (ob\<lparr>co_evt_poll := p\<rparr>) w of (ob, w, _) \<Rightarrow> (ob, w, 0))))"

definition mm_camera_close :: "env \<Rightarrow> mm_camera_obj \<Rightarrow> cam_world \<Rightarrow> mm_camera_obj \<times> cam_world \<times> i32" where
  "mm_camera_close e ob s =
     (case mm_camera_evt_sub e False ob (cw_trace s) of (ob, w, _) \<Rightarrow>
      case mm_camera_poll_thread_release e (co_evt_poll ob) w of (p, w, _) \<Rightarrow>
      case mm_camera_cmd_thread_release mm_camera_dispatch_app_event e (co_evt_thread ob) (ob\<lparr>co_evt_poll := p\<rparr>, w) of (t, (ob, w), _) \<Rightarrow>
        let ob = ob\<lparr>co_evt_thread := t\<rparr>;
            (ob, w) = (if 0 <s co_ctrl_fd ob then (ob\<lparr>co_ctrl_fd := 0\<rparr>, w @ [Close (co_ctrl_fd ob)]) else (ob, w));
            (ob, w) = (if 0 <s co_ds_fd ob then (ob\<lparr>co_ds_fd := 0\<rparr>, mm_camera_socket_close (co_ds_fd ob) w) else (ob, w))
        in (ob, pthread_mutex_unlock (CamLock (co_my_hdl ob)) (s\<lparr>cw_trace := w\<rparr>), 0))"

section \<open>Controls\<close>

definition mm_camera_util_s_ctrl :: "env \<Rightarrow> i32 \<Rightarrow> cid \<Rightarrow> i32 \<Rightarrow> world \<Rightarrow> world \<times> i32" where
  "mm_camera_util_s_ctrl e fd ctl value w = (case call e (SCtrl fd ctl value) w of (w, rc) \<Rightarrow> (w, if 0 \<le>s rc then 0 else -1))"

definition mm_camera_util_g_ctrl :: "env \<Rightarrow> i32 \<Rightarrow> cid \<Rightarrow> world \<Rightarrow> world \<times> i32" where
  "mm_camera_util_g_ctrl e fd ctl w = (case call e (GCtrl fd ctl) w of (w, rc) \<Rightarrow> (w, if 0 \<le>s rc then 0 else -1))"

text \<open>Run an operation on the trace and give up the camera's mutex.\<close>

definition then_unlock_cam :: "(world \<Rightarrow> world \<times> 'r) \<Rightarrow> mm_camera_obj \<Rightarrow> cam_world \<Rightarrow> mm_camera_obj \<times> cam_world \<times> 'r" where
  "then_unlock_cam f ob s = (case f (cw_trace s) of (w, rc) \<Rightarrow>
     (ob, pthread_mutex_unlock (CamLock (co_my_hdl ob)) (s\<lparr>cw_trace := w\<rparr>), rc))"

definition mm_camera_query_capability :: "env \<Rightarrow> mm_camera_obj \<Rightarrow> cam_world \<Rightarrow> mm_camera_obj \<times> cam_world \<times> i32" where
  "mm_camera_query_capability e ob s = then_unlock_cam (call e (QueryCap (co_ctrl_fd ob))) ob s"

definition mm_camera_set_parms :: "env \<Rightarrow> bool \<Rightarrow> mm_camera_obj \<Rightarrow> cam_world \<Rightarrow> mm_camera_obj \<times> cam_world \<times> i32" where
  "mm_camera_set_parms e parms ob s = then_unlock_cam
     (\<lambda>w. if parms then mm_camera_util_s_ctrl e (co_ctrl_fd ob) CAM_PRIV_PARM 0 w else (w, -1)) ob s"

definition mm_camera_get_parms :: "env \<Rightarrow> bool \<Rightarrow> mm_camera_obj \<Rightarrow> cam_world \<Rightarrow> mm_camera_obj \<times> cam_world \<times> i32" where
  "mm_camera_get_parms e parms ob s = then_unlock_cam
     (\<lambda>w. if parms then mm_camera_util_g_ctrl e (co_ctrl_fd ob) CAM_PRIV_PARM w else (w, -1)) ob s"

definition mm_camera_do_auto_focus :: "env \<Rightarrow> mm_camera_obj \<Rightarrow> cam_world \<Rightarrow> mm_camera_obj \<times> cam_world \<times> i32" where
  "mm_camera_do_auto_focus e ob s =
     then_unlock_cam (mm_camera_util_s_ctrl e (co_ctrl_fd ob) CAM_PRIV_DO_AUTO_FOCUS 0) ob s"

definition mm_camera_cancel_auto_focus :: "env \<Rightarrow> mm_camera_obj \<Rightarrow> cam_world \<Rightarrow> mm_camera_obj \<times> cam_world \<times> i32" where
  "mm_camera_cancel_auto_focus e ob s =
     then_unlock_cam (mm_camera_util_s_ctrl e (co_ctrl_fd ob) CAM_PRIV_CANCEL_AUTO_FOCUS 0) ob s"

definition mm_camera_prepare_snapshot :: "env \<Rightarrow> i32 \<Rightarrow> mm_camera_obj \<Rightarrow> cam_world \<Rightarrow> mm_camera_obj \<times> cam_world \<times> i32" where
  "mm_camera_prepare_snapshot e do_af_flag ob s =
     then_unlock_cam (mm_camera_util_s_ctrl e (co_ctrl_fd ob) CAM_PRIV_PREPARE_SNAPSHOT do_af_flag) ob s"

section \<open>Messages over the socket\<close>

text \<open>\<^verbatim>\<open>evs\<close> are the notifications stored while waiting; the result is the status, what is left in the slot
  being cleared, or that no notification ends the wait.\<close>

fun mm_camera_util_wait_for_event :: "u32 \<Rightarrow> mm_camera_event \<Rightarrow> mm_camera_event list \<Rightarrow> u32 option" where
  "mm_camera_util_wait_for_event evt_mask rcvd evs =
     (if server_event_type rcvd AND evt_mask \<noteq> 0 then Some (evt_status rcvd)
      else (case evs of [] \<Rightarrow> None | ev # evs \<Rightarrow> mm_camera_util_wait_for_event evt_mask ev evs))"

declare mm_camera_util_wait_for_event.simps [simp del]

definition mm_camera_util_sendmsg ::
    "env \<Rightarrow> sock_packet \<Rightarrow> i32 \<Rightarrow> mm_camera_obj \<Rightarrow> cam_world \<Rightarrow> mm_camera_obj \<times> cam_world \<times> i32" where
  "mm_camera_util_sendmsg e msg sendfd ob s =
     (let s = pthread_mutex_lock (MsgLock (co_my_hdl ob)) s in
      case mm_camera_socket_sendmsg e (co_ds_fd ob) msg sendfd (cw_trace s) of (w, n) \<Rightarrow>
        let s = s\<lparr>cw_trace := w\<rparr>;
            (ob, s, rc) =
              (if 0 <s n then
                 (let s = pthread_mutex_lock (EvtLock (co_my_hdl ob)) s in
                  case mm_camera_util_wait_for_event CAM_EVENT_TYPE_MAP_UNMAP_DONE (co_evt_rcvd ob) (e_notify e w) of
                    None \<Rightarrow> (ob, s\<lparr>cw_trace := cw_trace s @ [BlockedForever]\<rparr>, -1)
                  | Some status \<Rightarrow>
                      (ob\<lparr>co_evt_rcvd := event_zero\<rparr>, pthread_mutex_unlock (EvtLock (co_my_hdl ob)) s,
                       if status = e_status_success e then 0 else -1))
               else (ob, s, -1))
        in (ob, pthread_mutex_unlock (MsgLock (co_my_hdl ob)) s, rc))"

definition mm_camera_map_buf ::
    "env \<Rightarrow> cam_mapping_buf_type \<Rightarrow> i32 \<Rightarrow> u32 \<Rightarrow> mm_camera_obj \<Rightarrow> cam_world \<Rightarrow> mm_camera_obj \<times> cam_world \<times> i32" where
  "mm_camera_map_buf e buf_type fd sz ob s =
     (case mm_camera_util_sendmsg e
        \<lparr>pk_mapping = True, pk_type = buf_type, pk_stream_id = 0, pk_frame_idx = 0, pk_plane_idx = 0, pk_fd = fd, pk_size = sz\<rparr>
        fd ob s of (ob, s, rc) \<Rightarrow> (ob, pthread_mutex_unlock (CamLock (co_my_hdl ob)) s, rc))"

definition mm_camera_unmap_buf ::
    "env \<Rightarrow> cam_mapping_buf_type \<Rightarrow> mm_camera_obj \<Rightarrow> cam_world \<Rightarrow> mm_camera_obj \<times> cam_world \<times> i32" where
  "mm_camera_unmap_buf e buf_type ob s =
     (case mm_camera_util_sendmsg e
        \<lparr>pk_mapping = False, pk_type = buf_type, pk_stream_id = 0, pk_frame_idx = 0, pk_plane_idx = 0, pk_fd = 0, pk_size = 0\<rparr>
        0 ob s of (ob, s, rc) \<Rightarrow> (ob, pthread_mutex_unlock (CamLock (co_my_hdl ob)) s, rc))"

section \<open>Channels\<close>

definition mm_camera_util_get_channel_by_handler :: "mm_camera_obj \<Rightarrow> u32 \<Rightarrow> nat option" where
  "mm_camera_util_get_channel_by_handler ob handler =
     List.find (\<lambda>i. handler = ch_my_hdl (co_ch ob ! i)) [0 ..< MM_CAMERA_CHANNEL_MAX]"

text \<open>Run the state machine of channel \<^verbatim>\<open>i\<close>: its mutex is taken while the camera's is still held.\<close>

definition run_channel ::
    "env \<Rightarrow> build \<Rightarrow> nat \<Rightarrow> mm_channel_evt \<Rightarrow> mm_camera_obj \<Rightarrow> cam_world \<Rightarrow> mm_camera_obj \<times> cam_world \<times> chan_out \<times> i32" where
  "run_channel e bld i evt ob s =
     (let s = pthread_mutex_lock (ChLock (co_my_hdl ob) i) s;
          s = pthread_mutex_unlock (CamLock (co_my_hdl ob)) s
      in case mm_channel_fsm_fn e bld evt (cw_cnt s) (co_ch ob ! i, cw_trace s) of (cnt, (ch, w), out, rc) \<Rightarrow>
           (ob\<lparr>co_ch := (co_ch ob)[i := ch]\<rparr>,
            pthread_mutex_unlock (ChLock (co_my_hdl ob) i) (s\<lparr>cw_cnt := cnt, cw_trace := w\<rparr>), out, rc))"

text \<open>The frame of the operations on a channel; \<^verbatim>\<open>bad\<close> is the result when the handle is unknown.\<close>

definition on_channel ::
    "env \<Rightarrow> build \<Rightarrow> u32 \<Rightarrow> mm_channel_evt \<Rightarrow> i32 \<Rightarrow> mm_camera_obj \<Rightarrow> cam_world \<Rightarrow> mm_camera_obj \<times> cam_world \<times> chan_out \<times> i32" where
  "on_channel e bld ch_id evt bad ob s =
     (case mm_camera_util_get_channel_by_handler ob ch_id of
        Some i \<Rightarrow> run_channel e bld i evt ob s
      | None \<Rightarrow> (ob, pthread_mutex_unlock (CamLock (co_my_hdl ob)) s, NoOut, bad))"

definition drop_out :: "mm_camera_obj \<times> cam_world \<times> chan_out \<times> i32 \<Rightarrow> mm_camera_obj \<times> cam_world \<times> i32" where
  "drop_out r = (case r of (ob, s, _, rc) \<Rightarrow> (ob, s, rc))"

definition mm_camera_qbuf ::
    "env \<Rightarrow> build \<Rightarrow> u32 \<Rightarrow> mm_camera_buf_def option \<Rightarrow> mm_camera_obj \<Rightarrow> cam_world \<Rightarrow> mm_camera_obj \<times> cam_world \<times> i32" where
  "mm_camera_qbuf e bld ch_id buf ob s =
     (let s = pthread_mutex_unlock (CamLock (co_my_hdl ob)) s in
      case mm_camera_util_get_channel_by_handler ob ch_id of
        Some i \<Rightarrow> (case mm_channel_qbuf e bld buf (co_ch ob ! i, cw_trace s) of ((ch, w), rc) \<Rightarrow>
                     (ob\<lparr>co_ch := (co_ch ob)[i := ch]\<rparr>, s\<lparr>cw_trace := w\<rparr>, rc))
      | None \<Rightarrow> (ob, s, -1))"

definition mm_camera_add_channel ::
    "env \<Rightarrow> i32 \<times> i32 \<Rightarrow> mm_camera_channel_attr option \<Rightarrow> nat option \<Rightarrow> mm_camera_obj \<Rightarrow> cam_world \<Rightarrow> mm_camera_obj \<times> cam_world \<times> u32" where
  "mm_camera_add_channel e newpipe at channel_cb ob s =
     (let (ob, s, ch_hdl) =
        (case List.find (\<lambda>i. ch_state (co_ch ob ! i) = MM_CHANNEL_STATE_NOTUSED) [0 ..< MM_CAMERA_CHANNEL_MAX] of
           None \<Rightarrow> (ob, s, 0)
         | Some ch_idx \<Rightarrow>
             (case mm_camera_util_generate_handler (cw_cnt s) (of_nat ch_idx) of (cnt, ch_hdl) \<Rightarrow>
                let ch = mm_channel_zero\<lparr>ch_my_hdl := ch_hdl, ch_state := MM_CHANNEL_STATE_STOPPED,
                           cam_my_hdl := co_my_hdl ob, cam_ctrl_fd := co_ctrl_fd ob\<rparr>
                in case mm_channel_init e newpipe at channel_cb (ch, cw_trace s) of ((ch, w), _) \<Rightarrow>
                     (ob\<lparr>co_ch := (co_ch ob)[ch_idx := ch]\<rparr>, s\<lparr>cw_cnt := cnt, cw_trace := w\<rparr>, ch_hdl)))
      in (ob, pthread_mutex_unlock (CamLock (co_my_hdl ob)) s, ch_hdl))"

definition mm_camera_del_channel :: "env \<Rightarrow> build \<Rightarrow> u32 \<Rightarrow> mm_camera_obj \<Rightarrow> cam_world \<Rightarrow> mm_camera_obj \<times> cam_world \<times> i32" where
  "mm_camera_del_channel e bld ch_id ob s =
     (case mm_camera_util_get_channel_by_handler ob ch_id of
        Some i \<Rightarrow> (case run_channel e bld i MM_CHANNEL_EVT_DELETE ob s of (ob, s, _, rc) \<Rightarrow>
                     (ob\<lparr>co_ch := (co_ch ob)[i := mm_channel_zero]\<rparr>, s, rc))
      | None \<Rightarrow> (ob, pthread_mutex_unlock (CamLock (co_my_hdl ob)) s, -1))"

definition mm_camera_get_bundle_info ::
    "env \<Rightarrow> build \<Rightarrow> u32 \<Rightarrow> mm_camera_obj \<Rightarrow> cam_world \<Rightarrow> mm_camera_obj \<times> cam_world \<times> chan_out \<times> i32" where
  "mm_camera_get_bundle_info e bld ch_id ob s = on_channel e bld ch_id MM_CHANNEL_EVT_GET_BUNDLE_INFO (-1) ob s"

definition mm_camera_add_stream :: "env \<Rightarrow> build \<Rightarrow> u32 \<Rightarrow> mm_camera_obj \<Rightarrow> cam_world \<Rightarrow> mm_camera_obj \<times> cam_world \<times> u32" where
  "mm_camera_add_stream e bld ch_id ob s =
     (case on_channel e bld ch_id MM_CHANNEL_EVT_ADD_STREAM 0 ob s of (ob, s, out, _) \<Rightarrow>
        (ob, s, case out of OutHandle s_hdl \<Rightarrow> s_hdl | _ \<Rightarrow> 0))"

definition mm_camera_del_stream :: "env \<Rightarrow> build \<Rightarrow> u32 \<Rightarrow> u32 \<Rightarrow> mm_camera_obj \<Rightarrow> cam_world \<Rightarrow> mm_camera_obj \<times> cam_world \<times> i32" where
  "mm_camera_del_stream e bld ch_id stream_id ob s = drop_out (on_channel e bld ch_id (MM_CHANNEL_EVT_DEL_STREAM stream_id) (-1) ob s)"

definition mm_camera_config_stream ::
    "env \<Rightarrow> build \<Rightarrow> u32 \<Rightarrow> u32 \<Rightarrow> mm_camera_stream_config \<Rightarrow> mm_camera_obj \<Rightarrow> cam_world \<Rightarrow> mm_camera_obj \<times> cam_world \<times> i32" where
  "mm_camera_config_stream e bld ch_id stream_id config ob s =
     drop_out (on_channel e bld ch_id (MM_CHANNEL_EVT_CONFIG_STREAM stream_id config) (-1) ob s)"

definition mm_camera_start_channel :: "env \<Rightarrow> build \<Rightarrow> u32 \<Rightarrow> mm_camera_obj \<Rightarrow> cam_world \<Rightarrow> mm_camera_obj \<times> cam_world \<times> i32" where
  "mm_camera_start_channel e bld ch_id ob s = drop_out (on_channel e bld ch_id MM_CHANNEL_EVT_START (-1) ob s)"

text \<open>Stopping an unknown channel succeeds.\<close>

definition mm_camera_stop_channel :: "env \<Rightarrow> build \<Rightarrow> u32 \<Rightarrow> mm_camera_obj \<Rightarrow> cam_world \<Rightarrow> mm_camera_obj \<times> cam_world \<times> i32" where
  "mm_camera_stop_channel e bld ch_id ob s = drop_out (on_channel e bld ch_id MM_CHANNEL_EVT_STOP 0 ob s)"

definition mm_camera_request_super_buf ::
    "env \<Rightarrow> build \<Rightarrow> u32 \<Rightarrow> u32 \<Rightarrow> mm_camera_obj \<Rightarrow> cam_world \<Rightarrow> mm_camera_obj \<times> cam_world \<times> i32" where
  "mm_camera_request_super_buf e bld ch_id n ob s = drop_out (on_channel e bld ch_id (MM_CHANNEL_EVT_REQUEST_SUPER_BUF n) (-1) ob s)"

definition mm_camera_cancel_super_buf_request ::
    "env \<Rightarrow> build \<Rightarrow> u32 \<Rightarrow> mm_camera_obj \<Rightarrow> cam_world \<Rightarrow> mm_camera_obj \<times> cam_world \<times> i32" where
  "mm_camera_cancel_super_buf_request e bld ch_id ob s =
     drop_out (on_channel e bld ch_id MM_CHANNEL_EVT_CANCEL_REQUEST_SUPER_BUF (-1) ob s)"

definition mm_camera_flush_super_buf_queue ::
    "env \<Rightarrow> build \<Rightarrow> u32 \<Rightarrow> u32 \<Rightarrow> mm_camera_obj \<Rightarrow> cam_world \<Rightarrow> mm_camera_obj \<times> cam_world \<times> i32" where
  "mm_camera_flush_super_buf_queue e bld ch_id frame_idx ob s =
     drop_out (on_channel e bld ch_id (MM_CHANNEL_EVT_FLUSH_SUPER_BUF_QUEUE frame_idx) (-1) ob s)"

definition mm_camera_config_channel_notify ::
    "env \<Rightarrow> build \<Rightarrow> u32 \<Rightarrow> mm_camera_super_buf_notify_mode \<Rightarrow> mm_camera_obj \<Rightarrow> cam_world \<Rightarrow> mm_camera_obj \<times> cam_world \<times> i32" where
  "mm_camera_config_channel_notify e bld ch_id m ob s =
     drop_out (on_channel e bld ch_id (MM_CHANNEL_EVT_CONFIG_NOTIFY_MODE m) (-1) ob s)"

definition mm_camera_set_stream_parms ::
    "env \<Rightarrow> build \<Rightarrow> u32 \<Rightarrow> u32 \<Rightarrow> bool \<Rightarrow> mm_camera_obj \<Rightarrow> cam_world \<Rightarrow> mm_camera_obj \<times> cam_world \<times> i32" where
  "mm_camera_set_stream_parms e bld ch_id s_id parms ob s =
     drop_out (on_channel e bld ch_id (MM_CHANNEL_EVT_SET_STREAM_PARM s_id parms) (-1) ob s)"

definition mm_camera_get_stream_parms ::
    "env \<Rightarrow> build \<Rightarrow> u32 \<Rightarrow> u32 \<Rightarrow> bool \<Rightarrow> mm_camera_obj \<Rightarrow> cam_world \<Rightarrow> mm_camera_obj \<times> cam_world \<times> i32" where
  "mm_camera_get_stream_parms e bld ch_id s_id parms ob s =
     drop_out (on_channel e bld ch_id (MM_CHANNEL_EVT_GET_STREAM_PARM s_id parms) (-1) ob s)"

definition mm_camera_do_stream_action ::
    "env \<Rightarrow> build \<Rightarrow> u32 \<Rightarrow> u32 \<Rightarrow> bool \<Rightarrow> mm_camera_obj \<Rightarrow> cam_world \<Rightarrow> mm_camera_obj \<times> cam_world \<times> i32" where
  "mm_camera_do_stream_action e bld ch_id stream_id actions ob s =
     drop_out (on_channel e bld ch_id (MM_CHANNEL_EVT_DO_STREAM_ACTION stream_id actions) (-1) ob s)"

definition mm_camera_map_stream_buf ::
    "env \<Rightarrow> build \<Rightarrow> u32 \<Rightarrow> map_payload \<Rightarrow> mm_camera_obj \<Rightarrow> cam_world \<Rightarrow> mm_camera_obj \<times> cam_world \<times> i32" where
  "mm_camera_map_stream_buf e bld ch_id payload ob s =
     drop_out (on_channel e bld ch_id (MM_CHANNEL_EVT_MAP_STREAM_BUF payload) (-1) ob s)"

definition mm_camera_unmap_stream_buf ::
    "env \<Rightarrow> build \<Rightarrow> u32 \<Rightarrow> map_payload \<Rightarrow> mm_camera_obj \<Rightarrow> cam_world \<Rightarrow> mm_camera_obj \<times> cam_world \<times> i32" where
  "mm_camera_unmap_stream_buf e bld ch_id payload ob s =
     drop_out (on_channel e bld ch_id (MM_CHANNEL_EVT_UNMAP_STREAM_BUF payload) (-1) ob s)"

end
