(* ===== verification/CameraIntf.thy ===== *)
theory CameraIntf
  imports Camera
begin

text \<open>
  The interface of the library, \<^verbatim>\<open>camera/QCamera2/stack/mm-camera-interface/src/mm_camera_interface.c\<close>: the table
  of cameras, its reference counts, and the operations of the table \<^verbatim>\<open>mm_camera_ops\<close>.

  Every operation looks its camera up under the global mutex, takes the camera's mutex and gives the global one
  up (\<^verbatim>\<open>with_camera\<close>); the operation of theory \<^verbatim>\<open>Camera\<close> gives up the camera's mutex.  A pointer to a
  camera object is the index of its slot, the only place that holds one.  The tables have
  \<^verbatim>\<open>MM_CAMERA_MAX_NUM_SENSORS\<close> slots, a constant of the kernel headers: the length of the lists.
\<close>

record mm_camera_ctrl =
  num_cam :: "8 word"
  video_dev_name :: "string list"
  cam_obj :: "mm_camera_obj option list"

type_synonym intf = "mm_camera_ctrl \<times> cam_world"

definition mm_camera_util_get_dev_name :: "mm_camera_ctrl \<Rightarrow> u32 \<Rightarrow> string option" where
  "mm_camera_util_get_dev_name g cam_handle =
     (let cam_idx = unat (mm_camera_util_get_index_by_handler cam_handle) in
      if cam_idx < length (video_dev_name g) then Some (video_dev_name g ! cam_idx) else None)"

definition mm_camera_util_get_camera_by_handler :: "mm_camera_ctrl \<Rightarrow> u32 \<Rightarrow> nat option" where
  "mm_camera_util_get_camera_by_handler g cam_handle =
     (let cam_idx = unat (mm_camera_util_get_index_by_handler cam_handle) in
      if cam_idx < length (cam_obj g) then
        (case cam_obj g ! cam_idx of
           None \<Rightarrow> None
         | Some ob \<Rightarrow> if cam_handle = co_my_hdl ob then Some cam_idx else None)
      else None)"

definition with_camera ::
    "u32 \<Rightarrow> 'r \<Rightarrow> (mm_camera_obj \<Rightarrow> cam_world \<Rightarrow> mm_camera_obj \<times> cam_world \<times> 'r) \<Rightarrow> intf \<Rightarrow> intf \<times> 'r" where
  "with_camera camera_handle bad f gs = (case gs of (g, s) \<Rightarrow>
     (let s = pthread_mutex_lock IntfLock s in
      case mm_camera_util_get_camera_by_handler g camera_handle of
        None \<Rightarrow> ((g, pthread_mutex_unlock IntfLock s), bad)
      | Some i \<Rightarrow>
          (let ob = the (cam_obj g ! i);
               s = pthread_mutex_lock (CamLock (co_my_hdl ob)) s;
               s = pthread_mutex_unlock IntfLock s
           in case f ob s of (ob, s, rc) \<Rightarrow> ((g\<lparr>cam_obj := (cam_obj g)[i := Some ob]\<rparr>, s), rc))))"

section \<open>The operations of the table\<close>

definition mm_camera_intf_query_capability ::
    "env \<Rightarrow> u32 \<Rightarrow> intf \<Rightarrow> intf \<times> i32" where
  "mm_camera_intf_query_capability e camera_handle gs = with_camera camera_handle (-1) (mm_camera_query_capability e) gs"

definition mm_camera_intf_set_parms ::
    "env \<Rightarrow> bool \<Rightarrow> u32 \<Rightarrow> intf \<Rightarrow> intf \<times> i32" where
  "mm_camera_intf_set_parms e parms camera_handle gs = with_camera camera_handle (-1) (mm_camera_set_parms e parms) gs"

definition mm_camera_intf_get_parms ::
    "env \<Rightarrow> bool \<Rightarrow> u32 \<Rightarrow> intf \<Rightarrow> intf \<times> i32" where
  "mm_camera_intf_get_parms e parms camera_handle gs = with_camera camera_handle (-1) (mm_camera_get_parms e parms) gs"

definition mm_camera_intf_do_auto_focus ::
    "env \<Rightarrow> u32 \<Rightarrow> intf \<Rightarrow> intf \<times> i32" where
  "mm_camera_intf_do_auto_focus e camera_handle gs = with_camera camera_handle (-1) (mm_camera_do_auto_focus e) gs"

definition mm_camera_intf_cancel_auto_focus ::
    "env \<Rightarrow> u32 \<Rightarrow> intf \<Rightarrow> intf \<times> i32" where
  "mm_camera_intf_cancel_auto_focus e camera_handle gs = with_camera camera_handle (-1) (mm_camera_cancel_auto_focus e) gs"

definition mm_camera_intf_prepare_snapshot ::
    "env \<Rightarrow> i32 \<Rightarrow> u32 \<Rightarrow> intf \<Rightarrow> intf \<times> i32" where
  "mm_camera_intf_prepare_snapshot e do_af_flag camera_handle gs = with_camera camera_handle (-1) (mm_camera_prepare_snapshot e do_af_flag) gs"

definition mm_camera_intf_add_channel ::
    "env \<Rightarrow> (i32 \<times> i32) \<Rightarrow> (mm_camera_channel_attr option) \<Rightarrow> (nat option) \<Rightarrow> u32 \<Rightarrow> intf \<Rightarrow> intf \<times> u32" where
  "mm_camera_intf_add_channel e newpipe at channel_cb camera_handle gs = with_camera camera_handle 0 (mm_camera_add_channel e newpipe at channel_cb) gs"

definition mm_camera_intf_del_channel ::
    "env \<Rightarrow> build \<Rightarrow> u32 \<Rightarrow> u32 \<Rightarrow> intf \<Rightarrow> intf \<times> i32" where
  "mm_camera_intf_del_channel e bld ch_id camera_handle gs = with_camera camera_handle (-1) (mm_camera_del_channel e bld ch_id) gs"

definition mm_camera_intf_get_bundle_info ::
    "env \<Rightarrow> build \<Rightarrow> u32 \<Rightarrow> u32 \<Rightarrow> intf \<Rightarrow> intf \<times> (chan_out \<times> i32)" where
  "mm_camera_intf_get_bundle_info e bld ch_id camera_handle gs = with_camera camera_handle (NoOut, -1) (mm_camera_get_bundle_info e bld ch_id) gs"

definition mm_camera_intf_register_event_notify ::
    "(nat option) \<Rightarrow> addr \<Rightarrow> u32 \<Rightarrow> intf \<Rightarrow> intf \<times> i32" where
  "mm_camera_intf_register_event_notify evt_cb user_data camera_handle gs = with_camera camera_handle (-1) (mm_camera_register_event_notify evt_cb user_data) gs"

definition mm_camera_intf_qbuf ::
    "env \<Rightarrow> build \<Rightarrow> u32 \<Rightarrow> (mm_camera_buf_def option) \<Rightarrow> u32 \<Rightarrow> intf \<Rightarrow> intf \<times> i32" where
  "mm_camera_intf_qbuf e bld ch_id buf camera_handle gs = with_camera camera_handle (-1) (mm_camera_qbuf e bld ch_id buf) gs"

definition mm_camera_intf_add_stream ::
    "env \<Rightarrow> build \<Rightarrow> u32 \<Rightarrow> u32 \<Rightarrow> intf \<Rightarrow> intf \<times> u32" where
  "mm_camera_intf_add_stream e bld ch_id camera_handle gs = with_camera camera_handle 0 (mm_camera_add_stream e bld ch_id) gs"

definition mm_camera_intf_del_stream ::
    "env \<Rightarrow> build \<Rightarrow> u32 \<Rightarrow> u32 \<Rightarrow> u32 \<Rightarrow> intf \<Rightarrow> intf \<times> i32" where
  "mm_camera_intf_del_stream e bld ch_id stream_id camera_handle gs = with_camera camera_handle (-1) (mm_camera_del_stream e bld ch_id stream_id) gs"

definition mm_camera_intf_config_stream ::
    "env \<Rightarrow> build \<Rightarrow> u32 \<Rightarrow> u32 \<Rightarrow> mm_camera_stream_config \<Rightarrow> u32 \<Rightarrow> intf \<Rightarrow> intf \<times> i32" where
  "mm_camera_intf_config_stream e bld ch_id stream_id config camera_handle gs = with_camera camera_handle (-1) (mm_camera_config_stream e bld ch_id stream_id config) gs"

definition mm_camera_intf_start_channel ::
    "env \<Rightarrow> build \<Rightarrow> u32 \<Rightarrow> u32 \<Rightarrow> intf \<Rightarrow> intf \<times> i32" where
  "mm_camera_intf_start_channel e bld ch_id camera_handle gs = with_camera camera_handle (-1) (mm_camera_start_channel e bld ch_id) gs"

definition mm_camera_intf_stop_channel ::
    "env \<Rightarrow> build \<Rightarrow> u32 \<Rightarrow> u32 \<Rightarrow> intf \<Rightarrow> intf \<times> i32" where
  "mm_camera_intf_stop_channel e bld ch_id camera_handle gs = with_camera camera_handle (-1) (mm_camera_stop_channel e bld ch_id) gs"

definition mm_camera_intf_request_super_buf ::
    "env \<Rightarrow> build \<Rightarrow> u32 \<Rightarrow> u32 \<Rightarrow> u32 \<Rightarrow> intf \<Rightarrow> intf \<times> i32" where
  "mm_camera_intf_request_super_buf e bld ch_id n camera_handle gs = with_camera camera_handle (-1) (mm_camera_request_super_buf e bld ch_id n) gs"

definition mm_camera_intf_cancel_super_buf_request ::
    "env \<Rightarrow> build \<Rightarrow> u32 \<Rightarrow> u32 \<Rightarrow> intf \<Rightarrow> intf \<times> i32" where
  "mm_camera_intf_cancel_super_buf_request e bld ch_id camera_handle gs = with_camera camera_handle (-1) (mm_camera_cancel_super_buf_request e bld ch_id) gs"

definition mm_camera_intf_flush_super_buf_queue ::
    "env \<Rightarrow> build \<Rightarrow> u32 \<Rightarrow> u32 \<Rightarrow> u32 \<Rightarrow> intf \<Rightarrow> intf \<times> i32" where
  "mm_camera_intf_flush_super_buf_queue e bld ch_id frame_idx camera_handle gs = with_camera camera_handle (-1) (mm_camera_flush_super_buf_queue e bld ch_id frame_idx) gs"

definition mm_camera_intf_configure_notify_mode ::
    "env \<Rightarrow> build \<Rightarrow> u32 \<Rightarrow> mm_camera_super_buf_notify_mode \<Rightarrow> u32 \<Rightarrow> intf \<Rightarrow> intf \<times> i32" where
  "mm_camera_intf_configure_notify_mode e bld ch_id m camera_handle gs = with_camera camera_handle (-1) (mm_camera_config_channel_notify e bld ch_id m) gs"

definition mm_camera_intf_map_buf ::
    "env \<Rightarrow> cam_mapping_buf_type \<Rightarrow> i32 \<Rightarrow> u32 \<Rightarrow> u32 \<Rightarrow> intf \<Rightarrow> intf \<times> i32" where
  "mm_camera_intf_map_buf e buf_type fd sz camera_handle gs = with_camera camera_handle (-1) (mm_camera_map_buf e buf_type fd sz) gs"

definition mm_camera_intf_unmap_buf ::
    "env \<Rightarrow> cam_mapping_buf_type \<Rightarrow> u32 \<Rightarrow> intf \<Rightarrow> intf \<times> i32" where
  "mm_camera_intf_unmap_buf e buf_type camera_handle gs = with_camera camera_handle (-1) (mm_camera_unmap_buf e buf_type) gs"

definition mm_camera_intf_set_stream_parms ::
    "env \<Rightarrow> build \<Rightarrow> u32 \<Rightarrow> u32 \<Rightarrow> bool \<Rightarrow> u32 \<Rightarrow> intf \<Rightarrow> intf \<times> i32" where
  "mm_camera_intf_set_stream_parms e bld ch_id s_id parms camera_handle gs = with_camera camera_handle (-1) (mm_camera_set_stream_parms e bld ch_id s_id parms) gs"

definition mm_camera_intf_get_stream_parms ::
    "env \<Rightarrow> build \<Rightarrow> u32 \<Rightarrow> u32 \<Rightarrow> bool \<Rightarrow> u32 \<Rightarrow> intf \<Rightarrow> intf \<times> i32" where
  "mm_camera_intf_get_stream_parms e bld ch_id s_id parms camera_handle gs = with_camera camera_handle (-1) (mm_camera_get_stream_parms e bld ch_id s_id parms) gs"

definition mm_camera_intf_map_stream_buf ::
    "env \<Rightarrow> build \<Rightarrow> u32 \<Rightarrow> map_payload \<Rightarrow> u32 \<Rightarrow> intf \<Rightarrow> intf \<times> i32" where
  "mm_camera_intf_map_stream_buf e bld ch_id payload camera_handle gs = with_camera camera_handle (-1) (mm_camera_map_stream_buf e bld ch_id payload) gs"

definition mm_camera_intf_unmap_stream_buf ::
    "env \<Rightarrow> build \<Rightarrow> u32 \<Rightarrow> map_payload \<Rightarrow> u32 \<Rightarrow> intf \<Rightarrow> intf \<times> i32" where
  "mm_camera_intf_unmap_stream_buf e bld ch_id payload camera_handle gs = with_camera camera_handle (-1) (mm_camera_unmap_stream_buf e bld ch_id payload) gs"

section \<open>Opening, closing and discovery\<close>

text \<open>The result is the handle in the table of operations, or nothing.  \<^verbatim>\<open>num_cam\<close> is signed, the index is not.\<close>

definition camera_open :: "env \<Rightarrow> i32 \<times> i32 \<Rightarrow> u8 \<Rightarrow> intf \<Rightarrow> intf \<times> u32 option" where
  "camera_open e newpipe camera_idx gs = (case gs of (g, s) \<Rightarrow>
     let i = unat camera_idx in
     if int i \<ge> sint (num_cam g) then ((g, s), None)
     else
       (let s = pthread_mutex_lock IntfLock s in
        case cam_obj g ! i of
          Some ob \<Rightarrow>
            (let ob = ob\<lparr>co_ref_count := co_ref_count ob + 1\<rparr> in
             ((g\<lparr>cam_obj := (cam_obj g)[i := Some ob]\<rparr>, pthread_mutex_unlock IntfLock s), Some (co_my_hdl ob)))
        | None \<Rightarrow>
            (case malloc_ok e (cw_trace s) of (w, ok) \<Rightarrow>
               if \<not> ok then ((g, pthread_mutex_unlock IntfLock (s\<lparr>cw_trace := w\<rparr>)), None)
               else
                 (case mm_camera_util_generate_handler (cw_cnt s) camera_idx of (cnt, hdl) \<Rightarrow>
                  let ob = mm_camera_obj_zero\<lparr>co_ref_count := 1, co_my_hdl := hdl\<rparr> in
                  case mm_camera_open e newpipe (mm_camera_util_get_dev_name g hdl) ob w of (ob, w, rc) \<Rightarrow>
                    let s = s\<lparr>cw_cnt := cnt, cw_trace := w\<rparr> in
                    if rc \<noteq> 0 then ((g\<lparr>cam_obj := (cam_obj g)[i := None]\<rparr>, pthread_mutex_unlock IntfLock s), None)
                    else ((g\<lparr>cam_obj := (cam_obj g)[i := Some ob]\<rparr>, pthread_mutex_unlock IntfLock s), Some hdl)))))"

definition mm_camera_intf_close :: "env \<Rightarrow> u32 \<Rightarrow> intf \<Rightarrow> intf \<times> i32" where
  "mm_camera_intf_close e camera_handle gs = (case gs of (g, s) \<Rightarrow>
     (let s = pthread_mutex_lock IntfLock s in
      case mm_camera_util_get_camera_by_handler g camera_handle of
        None \<Rightarrow> ((g, pthread_mutex_unlock IntfLock s), -1)
      | Some i \<Rightarrow>
          (let ob = the (cam_obj g ! i); ob = ob\<lparr>co_ref_count := co_ref_count ob - 1\<rparr> in
           if 0 <s co_ref_count ob then
             ((g\<lparr>cam_obj := (cam_obj g)[i := Some ob]\<rparr>, pthread_mutex_unlock IntfLock s), 0)
           else
             (let g = g\<lparr>cam_obj := (cam_obj g)[unat (ucast (camera_handle AND 0xff) :: u8) := None]\<rparr>;
                  s = pthread_mutex_lock (CamLock (co_my_hdl ob)) s;
                  s = pthread_mutex_unlock IntfLock s
              in case mm_camera_close e ob s of (_, s, rc) \<Rightarrow> ((g, s), rc)))))"

text \<open>A media device: \<^verbatim>\<open>None\<close> when its description cannot be read, otherwise whether it is the camera's and
  its entities in order, each with the test for a camera video node and its name.  The list ends where a device
  cannot be opened.  Names are written at the next free slot; a slot past the table is undefined.\<close>

type_synonym media_device = "(bool \<times> (bool \<times> string) list) option"

fun scan_media :: "media_device list \<Rightarrow> string list \<Rightarrow> u8 \<Rightarrow> (string list \<times> u8) option" where
  "scan_media [] names num = Some (names, num)"
| "scan_media (None # ds) names num = Some (names, 0)"
| "scan_media (Some (is_cam, ents) # ds) names num =
     (if \<not> is_cam then scan_media ds names num
      else
        (case List.find fst ents of
           None \<Rightarrow> scan_media ds names (num + 1)
         | Some (_, name) \<Rightarrow>
             if unat num < length names then scan_media ds (names[unat num := name]) (num + 1) else None))"

definition get_num_of_cameras :: "media_device list \<Rightarrow> intf \<Rightarrow> (intf \<times> u8) option" where
  "get_num_of_cameras devs gs = (case gs of (g, s) \<Rightarrow>
     (let s = pthread_mutex_lock IntfLock s in
      case scan_media devs (video_dev_name g) 0 of
        None \<Rightarrow> None
      | Some (names, num) \<Rightarrow>
          Some ((g\<lparr>video_dev_name := names, num_cam := num\<rparr>, pthread_mutex_unlock IntfLock s), num)))"

end
