(* ===== verification/CameraProps.thy ===== *)
theory CameraProps
  imports CameraIntf
begin

text \<open>
  The interface as a whole: any sequence of calls of its operations by one thread.  The checks on the mutexes
  (every mutex taken is given up, and mutexes are taken in one fixed order), the reference counts of the cameras,
  what happens to a handle after its camera was closed, that an operation on a channel touches no other one,
  and the error paths of opening, registering and deleting.
\<close>

section \<open>Sequences of calls\<close>

datatype intf_op =
    OpOpen u8
  | OpClose u32
  | OpQueryCapability u32
  | OpSetParms u32 bool
  | OpGetParms u32 bool
  | OpDoAutoFocus u32
  | OpCancelAutoFocus u32
  | OpPrepareSnapshot u32 i32
  | OpAddChannel u32 "mm_camera_channel_attr option" "nat option"
  | OpDelChannel u32 u32
  | OpGetBundleInfo u32 u32
  | OpRegisterEventNotify u32 "nat option" addr
  | OpQbuf u32 u32 "mm_camera_buf_def option"
  | OpAddStream u32 u32
  | OpDelStream u32 u32 u32
  | OpConfigStream u32 u32 u32 mm_camera_stream_config
  | OpStartChannel u32 u32
  | OpStopChannel u32 u32
  | OpRequestSuperBuf u32 u32 u32
  | OpCancelSuperBufRequest u32 u32
  | OpFlushSuperBufQueue u32 u32 u32
  | OpConfigureNotifyMode u32 u32 mm_camera_super_buf_notify_mode
  | OpMapBuf u32 cam_mapping_buf_type i32 u32
  | OpUnmapBuf u32 cam_mapping_buf_type
  | OpSetStreamParms u32 u32 u32 bool
  | OpGetStreamParms u32 u32 u32 bool
  | OpMapStreamBuf u32 u32 map_payload
  | OpUnmapStreamBuf u32 u32 map_payload

definition intf_step :: "env \<Rightarrow> build \<Rightarrow> i32 \<times> i32 \<Rightarrow> intf_op \<Rightarrow> intf \<Rightarrow> intf \<times> 32 word" where
  "intf_step e bld newpipe op gs = (case op of
     OpOpen idx \<Rightarrow> (case camera_open e newpipe idx gs of (gs, r) \<Rightarrow> (gs, case r of Some h \<Rightarrow> h | None \<Rightarrow> 0))
   | OpClose h \<Rightarrow> mm_camera_intf_close e h gs
   | OpQueryCapability h \<Rightarrow> mm_camera_intf_query_capability e h gs
   | OpSetParms h parms \<Rightarrow> mm_camera_intf_set_parms e parms h gs
   | OpGetParms h parms \<Rightarrow> mm_camera_intf_get_parms e parms h gs
   | OpDoAutoFocus h \<Rightarrow> mm_camera_intf_do_auto_focus e h gs
   | OpCancelAutoFocus h \<Rightarrow> mm_camera_intf_cancel_auto_focus e h gs
   | OpPrepareSnapshot h do_af_flag \<Rightarrow> mm_camera_intf_prepare_snapshot e do_af_flag h gs
   | OpAddChannel h at channel_cb \<Rightarrow> mm_camera_intf_add_channel e newpipe at channel_cb h gs
   | OpDelChannel h ch_id \<Rightarrow> mm_camera_intf_del_channel e bld ch_id h gs
   | OpGetBundleInfo h ch_id \<Rightarrow> (case mm_camera_intf_get_bundle_info e bld ch_id h gs of (gs, _, rc) \<Rightarrow> (gs, rc))
   | OpRegisterEventNotify h evt_cb user_data \<Rightarrow> mm_camera_intf_register_event_notify evt_cb user_data h gs
   | OpQbuf h ch_id buf \<Rightarrow> mm_camera_intf_qbuf e bld ch_id buf h gs
   | OpAddStream h ch_id \<Rightarrow> mm_camera_intf_add_stream e bld ch_id h gs
   | OpDelStream h ch_id stream_id \<Rightarrow> mm_camera_intf_del_stream e bld ch_id stream_id h gs
   | OpConfigStream h ch_id stream_id config \<Rightarrow> mm_camera_intf_config_stream e bld ch_id stream_id config h gs
   | OpStartChannel h ch_id \<Rightarrow> mm_camera_intf_start_channel e bld ch_id h gs
   | OpStopChannel h ch_id \<Rightarrow> mm_camera_intf_stop_channel e bld ch_id h gs
   | OpRequestSuperBuf h ch_id n \<Rightarrow> mm_camera_intf_request_super_buf e bld ch_id n h gs
   | OpCancelSuperBufRequest h ch_id \<Rightarrow> mm_camera_intf_cancel_super_buf_request e bld ch_id h gs
   | OpFlushSuperBufQueue h ch_id frame_idx \<Rightarrow> mm_camera_intf_flush_super_buf_queue e bld ch_id frame_idx h gs
   | OpConfigureNotifyMode h ch_id m \<Rightarrow> mm_camera_intf_configure_notify_mode e bld ch_id m h gs
   | OpMapBuf h buf_type fd sz \<Rightarrow> mm_camera_intf_map_buf e buf_type fd sz h gs
   | OpUnmapBuf h buf_type \<Rightarrow> mm_camera_intf_unmap_buf e buf_type h gs
   | OpSetStreamParms h ch_id s_id parms \<Rightarrow> mm_camera_intf_set_stream_parms e bld ch_id s_id parms h gs
   | OpGetStreamParms h ch_id s_id parms \<Rightarrow> mm_camera_intf_get_stream_parms e bld ch_id s_id parms h gs
   | OpMapStreamBuf h ch_id payload \<Rightarrow> mm_camera_intf_map_stream_buf e bld ch_id payload h gs
   | OpUnmapStreamBuf h ch_id payload \<Rightarrow> mm_camera_intf_unmap_stream_buf e bld ch_id payload h gs)"

definition op_handle :: "intf_op \<Rightarrow> u32" where
  "op_handle op = (case op of OpOpen idx \<Rightarrow> 0 | OpClose h \<Rightarrow> h
   | OpQueryCapability h \<Rightarrow> h
   | OpSetParms h _ \<Rightarrow> h
   | OpGetParms h _ \<Rightarrow> h
   | OpDoAutoFocus h \<Rightarrow> h
   | OpCancelAutoFocus h \<Rightarrow> h
   | OpPrepareSnapshot h _ \<Rightarrow> h
   | OpAddChannel h _ _ \<Rightarrow> h
   | OpDelChannel h _ \<Rightarrow> h
   | OpGetBundleInfo h _ \<Rightarrow> h
   | OpRegisterEventNotify h _ _ \<Rightarrow> h
   | OpQbuf h _ _ \<Rightarrow> h
   | OpAddStream h _ \<Rightarrow> h
   | OpDelStream h _ _ \<Rightarrow> h
   | OpConfigStream h _ _ _ \<Rightarrow> h
   | OpStartChannel h _ \<Rightarrow> h
   | OpStopChannel h _ \<Rightarrow> h
   | OpRequestSuperBuf h _ _ \<Rightarrow> h
   | OpCancelSuperBufRequest h _ \<Rightarrow> h
   | OpFlushSuperBufQueue h _ _ \<Rightarrow> h
   | OpConfigureNotifyMode h _ _ \<Rightarrow> h
   | OpMapBuf h _ _ _ \<Rightarrow> h
   | OpUnmapBuf h _ \<Rightarrow> h
   | OpSetStreamParms h _ _ _ \<Rightarrow> h
   | OpGetStreamParms h _ _ _ \<Rightarrow> h
   | OpMapStreamBuf h _ _ \<Rightarrow> h
   | OpUnmapStreamBuf h _ _ \<Rightarrow> h)"

definition op_channel :: "intf_op \<Rightarrow> u32 option" where
  "op_channel op = (case op of
     OpDelChannel h ch_id \<Rightarrow> Some ch_id
   | OpGetBundleInfo h ch_id \<Rightarrow> Some ch_id
   | OpQbuf h ch_id buf \<Rightarrow> Some ch_id
   | OpAddStream h ch_id \<Rightarrow> Some ch_id
   | OpDelStream h ch_id stream_id \<Rightarrow> Some ch_id
   | OpConfigStream h ch_id stream_id config \<Rightarrow> Some ch_id
   | OpStartChannel h ch_id \<Rightarrow> Some ch_id
   | OpStopChannel h ch_id \<Rightarrow> Some ch_id
   | OpRequestSuperBuf h ch_id n \<Rightarrow> Some ch_id
   | OpCancelSuperBufRequest h ch_id \<Rightarrow> Some ch_id
   | OpFlushSuperBufQueue h ch_id frame_idx \<Rightarrow> Some ch_id
   | OpConfigureNotifyMode h ch_id m \<Rightarrow> Some ch_id
   | OpSetStreamParms h ch_id s_id parms \<Rightarrow> Some ch_id
   | OpGetStreamParms h ch_id s_id parms \<Rightarrow> Some ch_id
   | OpMapStreamBuf h ch_id payload \<Rightarrow> Some ch_id
   | OpUnmapStreamBuf h ch_id payload \<Rightarrow> Some ch_id
   | _ \<Rightarrow> None)"

text \<open>A sequence of calls with the list of what they returned.  A blocked thread makes no further call.\<close>

fun intf_run :: "env \<Rightarrow> build \<Rightarrow> i32 \<times> i32 \<Rightarrow> intf_op list \<Rightarrow> intf \<Rightarrow> intf \<times> (intf_op \<times> 32 word) list" where
  "intf_run e bld newpipe [] gs = (gs, [])"
| "intf_run e bld newpipe (op # ops) gs =
     (case intf_step e bld newpipe op gs of (gs, rc) \<Rightarrow>
        if BlockedForever \<in> set (cw_trace (snd gs)) then (gs, [(op, rc)])
        else (case intf_run e bld newpipe ops gs of (gs, rcs) \<Rightarrow> (gs, (op, rc) # rcs)))"

text \<open>What an operation returns for a handle it does not know.\<close>

definition op_fail :: "intf_op \<Rightarrow> 32 word" where
  "op_fail op = (case op of OpAddChannel _ _ _ \<Rightarrow> 0 | OpAddStream _ _ \<Rightarrow> 0 | _ \<Rightarrow> -1)"

definition is_open_close :: "intf_op \<Rightarrow> bool" where
  "is_open_close op = (case op of OpOpen _ \<Rightarrow> True | OpClose _ \<Rightarrow> True | _ \<Rightarrow> False)"

section \<open>Mutexes\<close>

fun mutex_rank :: "mutex \<Rightarrow> nat" where
  "mutex_rank IntfLock = 0"
| "mutex_rank (CamLock h) = 1"
| "mutex_rank (ChLock h i) = 2"
| "mutex_rank (MsgLock h) = 3"
| "mutex_rank (EvtLock h) = 4"
| "mutex_rank (CbLock h) = 5"

text \<open>Replay a record from the mutexes held: a mutex may be taken only above all those held, in particular never
  twice, and only a mutex that is held may be given up.\<close>

fun lock_run :: "lock_evt list \<Rightarrow> mutex list \<Rightarrow> mutex list option" where
  "lock_run [] hs = Some hs"
| "lock_run (Lock m # evs) hs =
     (if list_all (\<lambda>h. mutex_rank h < mutex_rank m) hs then lock_run evs (m # hs) else None)"
| "lock_run (Unlock m # evs) hs = (if m \<in> set hs then lock_run evs (remove1 m hs) else None)"

lemma lock_run_append: "lock_run (xs @ ys) hs = Option.bind (lock_run xs hs) (lock_run ys)"
  by (induction xs hs rule: lock_run.induct) auto

text \<open>The contract of an operation on a camera: it starts with the camera's mutex held and ends with none, keeps the
  handle and the reference count, and, unless it blocks, respects the order.\<close>

definition gives_up :: "mutex list \<Rightarrow> cam_world \<Rightarrow> cam_world \<Rightarrow> bool" where
  "gives_up hs s s' \<longleftrightarrow> (\<exists>ls. cw_locks s' = cw_locks s @ ls \<and> lock_run ls hs = Some [])"

definition cam_op :: "(mm_camera_obj \<Rightarrow> cam_world \<Rightarrow> mm_camera_obj \<times> cam_world \<times> 'r) \<Rightarrow> bool" where
  "cam_op f \<longleftrightarrow> (\<forall>ob s ob' s' r. f ob s = (ob', s', r) \<longrightarrow>
     co_my_hdl ob' = co_my_hdl ob \<and> co_ref_count ob' = co_ref_count ob
     \<and> (BlockedForever \<notin> set (cw_trace s') \<longrightarrow> gives_up [CamLock (co_my_hdl ob)] s s'))"

lemmas mutex_defs = pthread_mutex_lock_def pthread_mutex_unlock_def gives_up_def

named_theorems cam_ops

lemma then_unlock_op [cam_ops]: "cam_op (\<lambda>ob. then_unlock_cam (f ob) ob)"
  by (auto simp: cam_op_def then_unlock_cam_def mutex_defs split: prod.splits)

lemma run_channel_op: "run_channel e bld i evt ob s = (ob', s', out, rc) \<Longrightarrow>
    co_my_hdl ob' = co_my_hdl ob \<and> co_ref_count ob' = co_ref_count ob \<and> gives_up [CamLock (co_my_hdl ob)] s s'"
  by (auto simp: run_channel_def Let_def mutex_defs split: prod.splits)

lemma on_channel_op [cam_ops]: "cam_op (on_channel e bld c evt bad)"
  by (auto simp: cam_op_def on_channel_def mutex_defs dest: run_channel_op split: option.splits)

lemma cam_opD:
  assumes "cam_op f" "f ob s = (ob', s', r)"
  shows "co_my_hdl ob' = co_my_hdl ob" "co_ref_count ob' = co_ref_count ob"
    "BlockedForever \<notin> set (cw_trace s') \<Longrightarrow> gives_up [CamLock (co_my_hdl ob)] s s'"
  using assms unfolding cam_op_def by blast+

lemma cam_op_map: "cam_op f \<Longrightarrow> cam_op (\<lambda>ob s. case f ob s of (ob, s, x) \<Rightarrow> (ob, s, g x))"
  by (auto simp: cam_op_def split: prod.splits)

lemma drop_out_op [cam_ops]: "cam_op (\<lambda>ob s. drop_out (on_channel e bld c evt bad ob s))"
  using on_channel_op [of e bld c evt bad] by (auto simp: cam_op_def drop_out_def split: prod.splits)

lemma add_stream_op [cam_ops]: "cam_op (mm_camera_add_stream e bld c)"
  unfolding mm_camera_add_stream_def cam_op_def by (auto split: prod.splits dest: cam_opD [OF on_channel_op])

lemma del_channel_op [cam_ops]: "cam_op (mm_camera_del_channel e bld c)"
  by (auto simp: cam_op_def mm_camera_del_channel_def mutex_defs dest!: run_channel_op split: option.splits prod.splits)

lemma qbuf_op [cam_ops]: "cam_op (mm_camera_qbuf e bld c b)"
  by (auto simp: cam_op_def mm_camera_qbuf_def Let_def mutex_defs split: option.splits prod.splits)

lemma add_channel_op [cam_ops]: "cam_op (mm_camera_add_channel e newpipe at cb)"
  by (auto simp: cam_op_def mm_camera_add_channel_def Let_def mutex_defs split: option.splits prod.splits)

lemma register_op [cam_ops]: "cam_op (mm_camera_register_event_notify cb d)"
  by (auto simp: cam_op_def mm_camera_register_event_notify_def mm_camera_register_event_notify_internal_def Let_def mutex_defs
      split: option.splits prod.splits if_splits)

lemma map_buf_op [cam_ops]: "cam_op (mm_camera_map_buf e ty fd sz)" "cam_op (mm_camera_unmap_buf e ty)"
  by (auto simp: cam_op_def mm_camera_map_buf_def mm_camera_unmap_buf_def mm_camera_util_sendmsg_def Let_def mutex_defs
      split: option.splits prod.splits if_splits)

section \<open>The frame of the interface\<close>

text \<open>An operation other than open and close runs an operation of the camera object; an operation on a channel touches
  only that channel.\<close>

definition only_channel :: "u32 \<Rightarrow> (mm_camera_obj \<Rightarrow> cam_world \<Rightarrow> mm_camera_obj \<times> cam_world \<times> 'r) \<Rightarrow> bool" where
  "only_channel c f \<longleftrightarrow> (\<forall>ob s ob' s' r k. f ob s = (ob', s', r) \<longrightarrow>
     mm_camera_util_get_channel_by_handler ob c \<noteq> Some k \<longrightarrow> co_ch ob' ! k = co_ch ob ! k)"

named_theorems only_ch

lemma on_channel_only [only_ch]: "only_channel c (on_channel e bld c evt bad)"
  by (auto simp: only_channel_def on_channel_def run_channel_def Let_def split: option.splits prod.splits)

lemma drop_out_only [only_ch]: "only_channel c (\<lambda>ob s. drop_out (on_channel e bld c evt bad ob s))"
  using on_channel_only [of c e bld evt bad] by (auto simp: only_channel_def drop_out_def split: prod.splits)

lemma add_stream_only [only_ch]: "only_channel c (mm_camera_add_stream e bld c)"
  using on_channel_only [of c e bld MM_CHANNEL_EVT_ADD_STREAM 0]
  by (auto simp: only_channel_def mm_camera_add_stream_def split: prod.splits)

lemma del_channel_only [only_ch]: "only_channel c (mm_camera_del_channel e bld c)"
  by (auto simp: only_channel_def mm_camera_del_channel_def run_channel_def Let_def split: option.splits prod.splits)

lemma qbuf_only [only_ch]: "only_channel c (mm_camera_qbuf e bld c b)"
  by (auto simp: only_channel_def mm_camera_qbuf_def Let_def split: option.splits prod.splits)

lemma with_camera_map: "(case with_camera h bad f gs of (gs, x) \<Rightarrow> (gs, g x)) =
    with_camera h (g bad) (\<lambda>ob s. case f ob s of (ob, s, x) \<Rightarrow> (ob, s, g x)) gs"
  by (auto simp: with_camera_def Let_def split: option.splits prod.splits)

lemmas intf_defs = mm_camera_intf_query_capability_def mm_camera_intf_set_parms_def mm_camera_intf_get_parms_def
  mm_camera_intf_do_auto_focus_def mm_camera_intf_cancel_auto_focus_def mm_camera_intf_prepare_snapshot_def
  mm_camera_intf_add_channel_def mm_camera_intf_del_channel_def mm_camera_intf_get_bundle_info_def
  mm_camera_intf_register_event_notify_def mm_camera_intf_qbuf_def mm_camera_intf_add_stream_def mm_camera_intf_del_stream_def
  mm_camera_intf_config_stream_def mm_camera_intf_start_channel_def mm_camera_intf_stop_channel_def
  mm_camera_intf_request_super_buf_def mm_camera_intf_cancel_super_buf_request_def mm_camera_intf_flush_super_buf_queue_def
  mm_camera_intf_configure_notify_mode_def mm_camera_intf_map_buf_def mm_camera_intf_unmap_buf_def
  mm_camera_intf_set_stream_parms_def mm_camera_intf_get_stream_parms_def mm_camera_intf_map_stream_buf_def
  mm_camera_intf_unmap_stream_buf_def

lemma ctrl_ops [cam_ops]:
  "cam_op (mm_camera_query_capability e)"
  "cam_op (mm_camera_set_parms e p)"
  "cam_op (mm_camera_get_parms e p)"
  "cam_op (mm_camera_do_auto_focus e)"
  "cam_op (mm_camera_cancel_auto_focus e)"
  "cam_op (mm_camera_prepare_snapshot e v)"
  by (auto simp: cam_op_def then_unlock_cam_def mutex_defs mm_camera_query_capability_def mm_camera_set_parms_def mm_camera_get_parms_def mm_camera_do_auto_focus_def mm_camera_cancel_auto_focus_def mm_camera_prepare_snapshot_def split: prod.splits)

lemma via_on_channel:
  assumes "\<And>ob s. f ob s = drop_out (on_channel e bld c evt bad ob s)"
  shows "cam_op f" "only_channel c f"
proof -
  have "f = (\<lambda>ob s. drop_out (on_channel e bld c evt bad ob s))" using assms by blast
  then show "cam_op f" "only_channel c f" using drop_out_op drop_out_only by auto
qed

lemmas channel_ops_frame [cam_ops, only_ch] =
  via_on_channel [OF mm_camera_del_stream_def]
  via_on_channel [OF mm_camera_config_stream_def]
  via_on_channel [OF mm_camera_start_channel_def]
  via_on_channel [OF mm_camera_stop_channel_def]
  via_on_channel [OF mm_camera_request_super_buf_def]
  via_on_channel [OF mm_camera_cancel_super_buf_request_def]
  via_on_channel [OF mm_camera_flush_super_buf_queue_def]
  via_on_channel [OF mm_camera_config_channel_notify_def]
  via_on_channel [OF mm_camera_set_stream_parms_def]
  via_on_channel [OF mm_camera_get_stream_parms_def]
  via_on_channel [OF mm_camera_map_stream_buf_def]
  via_on_channel [OF mm_camera_unmap_stream_buf_def]

definition framed :: "env \<Rightarrow> build \<Rightarrow> i32 \<times> i32 \<Rightarrow> intf_op \<Rightarrow> bool" where
  "framed e bld newpipe op \<longleftrightarrow> (\<exists>f. (\<forall>gs. intf_step e bld newpipe op gs = with_camera (op_handle op) (op_fail op) f gs)
     \<and> cam_op f \<and> (\<forall>c. op_channel op = Some c \<longrightarrow> only_channel c f))"

lemma framedI:
  assumes "\<And>gs. intf_step e bld newpipe op gs = with_camera h bad f gs" "op_handle op = h" "op_fail op = bad" "cam_op f"
    and "\<And>c. op_channel op = Some c \<Longrightarrow> only_channel c f"
  shows "framed e bld newpipe op"
  using assms unfolding framed_def by blast

lemma framed_bundle_info: "framed e bld newpipe (OpGetBundleInfo h c)"
proof (rule framedI)
  let ?f = "\<lambda>ob s. case mm_camera_get_bundle_info e bld c ob s of (ob, s, x) \<Rightarrow> (ob, s, snd x)"
  show "intf_step e bld newpipe (OpGetBundleInfo h c) gs = with_camera h (-1) ?f gs" for gs
    using with_camera_map [where h = h and bad = "(NoOut, -1)" and f = "mm_camera_get_bundle_info e bld c" and g = snd]
    by (simp add: intf_step_def mm_camera_intf_get_bundle_info_def split_def)
  show "cam_op ?f"
    using cam_op_map [OF on_channel_op [of e bld c MM_CHANNEL_EVT_GET_BUNDLE_INFO "-1"], of snd]
    by (simp add: mm_camera_get_bundle_info_def)
  show "only_channel c' ?f" if "op_channel (OpGetBundleInfo h c) = Some c'" for c'
    using that on_channel_only [of c e bld MM_CHANNEL_EVT_GET_BUNDLE_INFO "-1"]
    by (auto simp: only_channel_def mm_camera_get_bundle_info_def op_channel_def split: prod.splits)
qed (simp_all add: op_handle_def op_fail_def)

lemma step_framed:
  assumes "\<not> is_open_close op"
  shows "framed e bld newpipe op"
proof (cases op)
  case (OpOpen idx)
  then show ?thesis using assms by (simp add: is_open_close_def)
next
  case (OpClose h)
  then show ?thesis using assms by (simp add: is_open_close_def)
next
  case (OpGetBundleInfo h c)
  then show ?thesis by (simp add: framed_bundle_info)
qed (hypsubst, rule framedI, simp only: intf_step_def intf_op.case intf_defs, simp only: op_handle_def intf_op.case,
     simp only: op_fail_def intf_op.case, rule cam_ops,
     (auto simp only: op_channel_def intf_op.case option.inject option.distinct intro: only_ch; fail))+

lemma camera_found: "mm_camera_util_get_camera_by_handler g h = Some i \<longleftrightarrow>
    i = unat (mm_camera_util_get_index_by_handler h) \<and> i < length (cam_obj g) \<and> (\<exists>ob. cam_obj g ! i = Some ob \<and> co_my_hdl ob = h)"
proof (cases "cam_obj g ! unat (mm_camera_util_get_index_by_handler h)")
  case (Some ob)
  then show ?thesis
    unfolding mm_camera_util_get_camera_by_handler_def Let_def by (cases "co_my_hdl ob = h") auto
next
  case None
  then show ?thesis unfolding mm_camera_util_get_camera_by_handler_def Let_def by auto
qed


lemma wc_none: "mm_camera_util_get_camera_by_handler g h = None \<Longrightarrow> with_camera h bad f (g, s) =
   ((g, pthread_mutex_unlock IntfLock (pthread_mutex_lock IntfLock s)), bad)"
  by (simp add: with_camera_def)
lemma wc_some: "mm_camera_util_get_camera_by_handler g h = Some i \<Longrightarrow> cam_obj g ! i = Some ob \<Longrightarrow> co_my_hdl ob = h \<Longrightarrow> 
   f ob (pthread_mutex_unlock IntfLock (pthread_mutex_lock (CamLock h) (pthread_mutex_lock IntfLock s))) = (ob', s', r) \<Longrightarrow>
  with_camera h bad f (g, s) =
   ((g\<lparr>cam_obj := (cam_obj g)[i := Some ob']\<rparr>, s'), r)"
  by (simp add: with_camera_def)
lemma with_camera_cases:
  assumes w: "with_camera h bad f (g, s) = ((g', s'), r)"
  obtains (unknown) "mm_camera_util_get_camera_by_handler g h = None" "g' = g" "r = bad"
      "s' = pthread_mutex_unlock IntfLock (pthread_mutex_lock IntfLock s)"
  | (known) i ob ob' where "mm_camera_util_get_camera_by_handler g h = Some i" "cam_obj g ! i = Some ob" "i < length (cam_obj g)"
      "co_my_hdl ob = h" "i = unat (mm_camera_util_get_index_by_handler h)"
      "f ob (pthread_mutex_unlock IntfLock (pthread_mutex_lock (CamLock h) (pthread_mutex_lock IntfLock s))) = (ob', s', r)"
      "g' = g\<lparr>cam_obj := (cam_obj g)[i := Some ob']\<rparr>"
proof (cases "mm_camera_util_get_camera_by_handler g h")
  case None
  show ?thesis by (rule unknown) (use w wc_none [OF None, of bad f s] None in simp_all)
next
  case (Some i)
  then obtain ob where ob: "i = unat (mm_camera_util_get_index_by_handler h)" "i < length (cam_obj g)" "cam_obj g ! i = Some ob"
      "co_my_hdl ob = h"
    unfolding camera_found by (elim conjE exE)
  let ?s = "pthread_mutex_unlock IntfLock (pthread_mutex_lock (CamLock h) (pthread_mutex_lock IntfLock s))"
  obtain ob' s2 r2 where f: "f ob ?s = (ob', s2, r2)" by (cases "f ob ?s")
  have "s2 = s'" "r2 = r" "g' = g\<lparr>cam_obj := (cam_obj g)[i := Some ob']\<rparr>"
    using w wc_some [where f = f, OF Some ob(3,4) f, of bad] by simp_all
  then show ?thesis using known [OF Some ob(3,2,4,1)] f by simp
qed

lemma with_camera_locks:
  assumes "cam_op f" "with_camera h bad f (g, s) = ((g', s'), r)" "BlockedForever \<notin> set (cw_trace s')"
  shows "gives_up [] s s'"
  using assms(2)
proof (cases rule: with_camera_cases)
  case unknown
  then show ?thesis by (simp add: mutex_defs)
next
  case (known i ob ob')
  show ?thesis using cam_opD(3) [OF assms(1) known(6) assms(3)] known(4) by (auto simp: mutex_defs)
qed

lemma open_locks: "camera_open e newpipe idx (g, s) = ((g', s'), r) \<Longrightarrow> gives_up [] s s'"
  by (auto simp: camera_open_def Let_def mutex_defs malloc_ok_def split: option.splits prod.splits if_splits)

lemma dispatch_keeps: "fst (mm_camera_dispatch_app_event c x) = fst x"
  by (auto simp: mm_camera_dispatch_app_event_def split: prod.splits mm_camera_cmdcb.splits)

lemma dispatch_finish_keeps: "fst (cmd_thread_finish mm_camera_dispatch_app_event cs x) = fst x"
proof -
  have "fst (fold (\<lambda>c s. if stops_thread c then s else mm_camera_dispatch_app_event c s) cs x) = fst x"
    by (induction cs arbitrary: x) (auto simp: dispatch_keeps)
  then show ?thesis by (simp add: cmd_thread_finish_def)
qed

lemma release_keeps: "mm_camera_cmd_thread_release mm_camera_dispatch_app_event e t (ob, w) = (t', (ob', w'), rc) \<Longrightarrow> ob' = ob"
  using dispatch_finish_keeps [of _ "(ob, _)"]
  by (auto simp: mm_camera_cmd_thread_release_def mm_camera_cmd_thread_stop_def malloc_ok_def split: prod.splits option.splits if_splits)
    (metis fst_conv)+

lemma evt_sub_keeps: "mm_camera_evt_sub e reg ob w = (ob', w', rc) \<Longrightarrow> co_my_hdl ob' = co_my_hdl ob \<and> co_ref_count ob' = co_ref_count ob"
  by (auto simp: mm_camera_evt_sub_def split: prod.splits if_splits)

lemma close_op: "mm_camera_close e ob s = (ob', s', rc) \<Longrightarrow> rc = 0 \<and> cw_locks s' = cw_locks s @ [Unlock (CamLock (co_my_hdl ob))]"
  by (auto simp: mm_camera_close_def Let_def mutex_defs dest!: release_keeps evt_sub_keeps split: prod.splits if_splits)

lemma close_locks: "mm_camera_intf_close e h (g, s) = ((g', s'), r) \<Longrightarrow> gives_up [] s s'"
  by (auto simp: mm_camera_intf_close_def Let_def mutex_defs dest!: close_op split: option.splits prod.splits if_splits)

lemma step_locks:
  assumes "intf_step e bld newpipe op (g, s) = ((g', s'), rc)" "BlockedForever \<notin> set (cw_trace s')"
  shows "gives_up [] s s'"
proof (cases "is_open_close op")
  case True
  then show ?thesis
    using assms(1) by (auto simp: is_open_close_def intf_step_def dest: open_locks close_locks split: intf_op.splits prod.splits)
next
  case False
  then obtain f where f: "intf_step e bld newpipe op (g, s) = with_camera (op_handle op) (op_fail op) f (g, s)" "cam_op f"
    using step_framed unfolding framed_def by blast
  show ?thesis by (rule with_camera_locks [OF f(2) f(1) [symmetric, THEN trans, OF assms(1)] assms(2)])
qed

lemma gives_up_run: "gives_up [] s s' \<Longrightarrow> lock_run (cw_locks s) [] = Some [] \<Longrightarrow> lock_run (cw_locks s') [] = Some []"
  by (auto simp: gives_up_def lock_run_append)


section \<open>Reference counts\<close>

definition opened :: "nat \<Rightarrow> (intf_op \<times> 32 word) list \<Rightarrow> nat" where
  "opened i rcs = length (filter (\<lambda>(op, rc). case op of OpOpen idx \<Rightarrow> unat idx = i \<and> rc \<noteq> 0 | _ \<Rightarrow> False) rcs)"

definition closed :: "nat \<Rightarrow> (intf_op \<times> 32 word) list \<Rightarrow> nat" where
  "closed i rcs = length (filter (\<lambda>(op, rc). case op of
     OpClose h \<Rightarrow> unat (mm_camera_util_get_index_by_handler h) = i \<and> rc = 0 | _ \<Rightarrow> False) rcs)"

lemma opened_Cons: "opened i (x # rcs) = opened i [x] + opened i rcs" and closed_Cons: "closed i (x # rcs) = closed i [x] + closed i rcs"
  by (simp_all add: opened_def closed_def)

definition slot_refs :: "mm_camera_ctrl \<Rightarrow> nat \<Rightarrow> nat" where
  "slot_refs g i = (case cam_obj g ! i of None \<Rightarrow> 0 | Some ob \<Rightarrow> unat (co_ref_count ob))"

definition cam_slot_ok :: "mm_camera_ctrl \<Rightarrow> nat \<Rightarrow> bool" where
  "cam_slot_ok g i \<longleftrightarrow> (case cam_obj g ! i of None \<Rightarrow> True
     | Some ob \<Rightarrow> 0 < unat (co_ref_count ob) \<and> co_my_hdl ob \<noteq> 0 \<and> unat (mm_camera_util_get_index_by_handler (co_my_hdl ob)) = i)"

lemma ref_dec:
  assumes "0 < unat (x :: i32)" "unat x < 2 ^ 31"
  shows "0 <s x - 1 \<longleftrightarrow> 1 < unat x" "unat (x - 1) = unat x - 1"
proof -
  have "x \<noteq> 0" using assms(1) by auto
  then show u: "unat (x - 1) = unat x - 1" by (simp add: unat_minus_one)
  then have "sint (x - 1) = int (unat x - 1)" using assms sint_small [of "x - 1"] by simp
  then show "0 <s x - 1 \<longleftrightarrow> 1 < unat x" by (simp add: word_sless_alt)
qed

lemma generated_handle:
  assumes "mm_camera_util_generate_handler cnt idx = (cnt', h)"
  shows "h \<noteq> 0" "mm_camera_util_get_index_by_handler h = idx"
proof -
  have h: "cnt' \<noteq> 0" "h = push_bit 8 (ucast cnt') OR ucast idx"
    using assms by (auto simp: mm_camera_util_generate_handler_def Let_def split: if_splits)
  then show "mm_camera_util_get_index_by_handler h = idx" by (simp add: mm_camera_util_get_index_by_handler_def hdl_index)
  have "drop_bit 8 h = ucast cnt'" unfolding h(2) by (rule hdl_count)
  moreover have "(ucast cnt' :: u32) \<noteq> ucast (0 :: u16)" using h(1) unfolding ucast_u16_inj .
  ultimately show "h \<noteq> 0" by auto
qed

lemma open_keeps: "mm_camera_open e newpipe name ob w = (ob', w', rc) \<Longrightarrow> co_my_hdl ob' = co_my_hdl ob \<and> co_ref_count ob' = co_ref_count ob"
  by (auto simp: mm_camera_open_def open_on_error_def Let_def dest!: evt_sub_keeps split: prod.splits if_splits)

text \<open>One call: what it opened and closed is what the reference counts changed by.\<close>

definition refs_step :: "intf_op \<Rightarrow> 32 word \<Rightarrow> mm_camera_ctrl \<Rightarrow> mm_camera_ctrl \<Rightarrow> bool" where
  "refs_step op rc g g' \<longleftrightarrow> num_cam g' = num_cam g \<and> length (cam_obj g') = length (cam_obj g)
     \<and> (\<forall>i<length (cam_obj g). cam_slot_ok g' i \<and> slot_refs g' i + closed i [(op, rc)] = slot_refs g i + opened i [(op, rc)])"

lemma refs_stepI:
  assumes "\<forall>i<length (cam_obj g). cam_slot_ok g i" "j < length (cam_obj g)"
    and "cam_slot_ok (g\<lparr>cam_obj := (cam_obj g)[j := c]\<rparr>) j"
    and "slot_refs (g\<lparr>cam_obj := (cam_obj g)[j := c]\<rparr>) j + closed j [(op, rc)] = slot_refs g j + opened j [(op, rc)]"
    and "\<And>i. i \<noteq> j \<Longrightarrow> closed i [(op, rc)] = 0 \<and> opened i [(op, rc)] = 0"
  shows "refs_step op rc g (g\<lparr>cam_obj := (cam_obj g)[j := c]\<rparr>)"
  unfolding refs_step_def
proof (intro conjI allI impI)
  fix i assume i: "i < length (cam_obj g)"
  show "cam_slot_ok (g\<lparr>cam_obj := (cam_obj g)[j := c]\<rparr>) i"
    using assms(1,3) i by (cases "i = j") (auto simp: cam_slot_ok_def)
  show "slot_refs (g\<lparr>cam_obj := (cam_obj g)[j := c]\<rparr>) i + closed i [(op, rc)] = slot_refs g i + opened i [(op, rc)]"
    using assms(4) assms(5) [of i] by (cases "i = j") (auto simp: slot_refs_def)
qed simp_all

lemma refs_same: "\<forall>i<length (cam_obj g). cam_slot_ok g i \<Longrightarrow> (\<And>i. closed i [(op, rc)] = 0 \<and> opened i [(op, rc)] = 0) \<Longrightarrow> refs_step op rc g g"
  by (simp add: refs_step_def)

lemma other_op_counts: "\<not> is_open_close op \<Longrightarrow> closed i [(op, rc)] = 0 \<and> opened i [(op, rc)] = 0"
  by (cases op) (simp_all add: is_open_close_def closed_def opened_def)

lemma with_camera_refs:
  assumes "cam_op f" "with_camera h bad f (g, s) = ((g', s'), rc)" "\<forall>i<length (cam_obj g). cam_slot_ok g i" "\<not> is_open_close op"
  shows "refs_step op rc g g'"
  using assms(2)
proof (cases rule: with_camera_cases)
  case unknown
  then show ?thesis using refs_same [OF assms(3) other_op_counts [OF assms(4)]] by simp
next
  case (known i ob ob')
  note k = cam_opD(1,2) [OF assms(1) known(6)]
  have "cam_slot_ok g i" using assms(3) known(3) by blast
  then have "refs_step op rc g (g\<lparr>cam_obj := (cam_obj g)[i := Some ob']\<rparr>)"
    using known(2,3) k other_op_counts [OF assms(4)] by (intro refs_stepI [OF assms(3)]) (simp_all add: cam_slot_ok_def slot_refs_def)
  then show ?thesis using known(7) by simp
qed

lemma camera_open_refs:
  assumes "camera_open e newpipe idx (g, s) = ((g', s'), r)" "\<forall>i<length (cam_obj g). cam_slot_ok g i"
    and "\<forall>i<length (cam_obj g). slot_refs g i + 1 < 2 ^ 31" "sint (num_cam g) \<le> int (length (cam_obj g))"
  shows "refs_step (OpOpen idx) (case r of Some h \<Rightarrow> h | None \<Rightarrow> 0) g g'"
proof -
  let ?i = "unat idx"
  have none: "refs_step (OpOpen idx) 0 g g" by (rule refs_same [OF assms(2)]) (simp add: closed_def opened_def)
  show ?thesis
  proof (cases "int ?i \<ge> sint (num_cam g)")
    case True
    then show ?thesis using assms(1) none by (auto simp: camera_open_def)
  next
    case False
    then have i: "?i < length (cam_obj g)" using assms(4) by linarith
    show ?thesis
    proof (cases "cam_obj g ! ?i")
      case (Some ob)
      have ok: "co_my_hdl ob \<noteq> 0" "unat (mm_camera_util_get_index_by_handler (co_my_hdl ob)) = ?i" "unat (co_ref_count ob) + 1 < 2 ^ 31"
        using assms(2,3) i Some by (auto simp: cam_slot_ok_def slot_refs_def)
      then have u: "unat (co_ref_count ob + 1) = unat (co_ref_count ob) + 1" using unat_u32_add [of "co_ref_count ob" 1] by simp
      have "r = Some (co_my_hdl ob)" "g' = g\<lparr>cam_obj := (cam_obj g)[?i := Some (ob\<lparr>co_ref_count := co_ref_count ob + 1\<rparr>)]\<rparr>"
        using assms(1) False Some by (auto simp: camera_open_def Let_def)
      then show ?thesis
        using i Some ok u by (auto intro!: refs_stepI [OF assms(2)] simp: cam_slot_ok_def slot_refs_def opened_def closed_def)
    next
      case None
      obtain cnt hdl where h: "mm_camera_util_generate_handler (cw_cnt s) idx = (cnt, hdl)" by (cases "mm_camera_util_generate_handler (cw_cnt s) idx")
      have same: "g\<lparr>cam_obj := (cam_obj g)[?i := None]\<rparr> = g"
        using None i by (cases g) (metis list_update_id mm_camera_ctrl.select_convs(3) mm_camera_ctrl.update_convs(3))
      have "(r = None \<and> g' = g) \<or> (\<exists>ob. r = Some hdl \<and> co_my_hdl ob = hdl \<and> co_ref_count ob = 1 \<and> g' = g\<lparr>cam_obj := (cam_obj g)[?i := Some ob]\<rparr>)"
        using assms(1) False None h same
        by (auto simp: camera_open_def Let_def pthread_mutex_lock_def dest!: open_keeps split: prod.splits if_splits)
      then show ?thesis
        using none i None generated_handle [OF h]
        by (auto intro!: refs_stepI [OF assms(2)] simp: cam_slot_ok_def slot_refs_def opened_def closed_def)
    qed
  qed
qed

lemma intf_close_refs:
  assumes "mm_camera_intf_close e h (g, s) = ((g', s'), rc)" "\<forall>i<length (cam_obj g). cam_slot_ok g i"
    and "\<forall>i<length (cam_obj g). slot_refs g i + 1 < 2 ^ 31"
  shows "refs_step (OpClose h) rc g g'"
proof (cases "mm_camera_util_get_camera_by_handler g h")
  case None
  then have "rc = -1" "g' = g" using assms(1) by (auto simp: mm_camera_intf_close_def)
  then show ?thesis using refs_same [OF assms(2), of "OpClose h" "-1"] by (simp add: closed_def opened_def)
next
  case (Some i)
  then obtain ob where ob: "i = unat (mm_camera_util_get_index_by_handler h)" "i < length (cam_obj g)" "cam_obj g ! i = Some ob"
      "co_my_hdl ob = h"
    unfolding camera_found by (elim conjE exE)
  have rf: "0 < unat (co_ref_count ob)" "unat (co_ref_count ob) < 2 ^ 31" "h \<noteq> 0"
    using assms(2,3) ob by (auto simp: cam_slot_ok_def slot_refs_def)
  have idx: "unat (ucast (h AND 0xff) :: u8) = i" by (simp add: ob(1) mm_camera_util_get_index_by_handler_def)
  let ?ob = "ob\<lparr>co_ref_count := co_ref_count ob - 1\<rparr>"
  have "rc = 0 \<and> g' = g\<lparr>cam_obj := (cam_obj g)[i := if 1 < unat (co_ref_count ob) then Some ?ob else None]\<rparr>"
    using assms(1) Some ob(3) ref_dec(1) [OF rf(1,2)] idx
    by (auto simp: mm_camera_intf_close_def Let_def dest!: close_op split: prod.splits if_splits)
  then show ?thesis
    using ob rf ref_dec(2) [OF rf(1,2)]
    by (auto intro!: refs_stepI [OF assms(2)] simp: cam_slot_ok_def slot_refs_def opened_def closed_def)
qed

lemma step_refs:
  assumes "intf_step e bld newpipe op (g, s) = ((g', s'), rc)" "\<forall>i<length (cam_obj g). cam_slot_ok g i"
    and "\<forall>i<length (cam_obj g). slot_refs g i + 1 < 2 ^ 31" "sint (num_cam g) \<le> int (length (cam_obj g))"
  shows "refs_step op rc g g'"
proof (cases "is_open_close op")
  case True
  then show ?thesis
    using assms(1) camera_open_refs [OF _ assms(2-4), of e newpipe] intf_close_refs [OF _ assms(2,3)]
    by (cases op; cases newpipe) (auto simp: is_open_close_def intf_step_def split: prod.splits)
next
  case False
  then obtain f where f: "intf_step e bld newpipe op (g, s) = with_camera (op_handle op) (op_fail op) f (g, s)" "cam_op f"
    using step_framed unfolding framed_def by blast
  show ?thesis by (rule with_camera_refs [OF f(2) f(1) [symmetric, THEN trans, OF assms(1)] assms(2) False])
qed

lemma run_refs:
  assumes "intf_run e bld newpipe ops (g, s) = ((g', s'), rcs)" "\<forall>i<length (cam_obj g). cam_slot_ok g i"
    and "\<forall>i<length (cam_obj g). slot_refs g i + length ops < 2 ^ 31" "sint (num_cam g) \<le> int (length (cam_obj g))"
  shows "length (cam_obj g') = length (cam_obj g) \<and> (\<forall>i<length (cam_obj g). cam_slot_ok g' i \<and> slot_refs g' i + closed i rcs = slot_refs g i + opened i rcs)"
  using assms
proof (induction ops arbitrary: g s rcs)
  case Nil
  then show ?case by (simp add: closed_def opened_def)
next
  case (Cons op ops)
  obtain g1 s1 rc where st: "intf_step e bld newpipe op (g, s) = ((g1, s1), rc)" by (metis prod.collapse)
  have r: "refs_step op rc g g1" using Cons.prems(3) by (intro step_refs [OF st Cons.prems(2) _ Cons.prems(4)]) auto
  show ?case
  proof (cases "BlockedForever \<in> set (cw_trace s1)")
    case True
    then show ?thesis using Cons.prems(1) st r by (auto simp: refs_step_def)
  next
    case False
    then obtain rcs' where run: "intf_run e bld newpipe ops (g1, s1) = ((g', s'), rcs')" "rcs = (op, rc) # rcs'"
      using Cons.prems(1) st by (auto split: prod.splits)
    have le: "opened i [(op, rc)] \<le> 1" for i unfolding opened_def by (rule order_trans [OF length_filter_le]) simp
    have "\<forall>i<length (cam_obj g1). slot_refs g1 i + length ops < 2 ^ 31"
    proof (intro allI impI)
      fix i assume "i < length (cam_obj g1)"
      then have "slot_refs g1 i + closed i [(op, rc)] = slot_refs g i + opened i [(op, rc)]" "slot_refs g i + Suc (length ops) < 2 ^ 31"
        using r Cons.prems(3) by (auto simp: refs_step_def)
      then show "slot_refs g1 i + length ops < 2 ^ 31" using le [of i] by linarith
    qed
    then have "length (cam_obj g') = length (cam_obj g1) \<and>
        (\<forall>i<length (cam_obj g1). cam_slot_ok g' i \<and> slot_refs g' i + closed i rcs' = slot_refs g1 i + opened i rcs')"
      using r Cons.prems(4) by (intro Cons.IH [OF run(1)]) (auto simp: refs_step_def)
    moreover have "slot_refs g' i + closed i rcs = slot_refs g i + opened i rcs"
      if "slot_refs g' i + closed i rcs' = slot_refs g1 i + opened i rcs'"
        "slot_refs g1 i + closed i [(op, rc)] = slot_refs g i + opened i [(op, rc)]" for i
      using that unfolding run(2) closed_Cons [of i "(op, rc)" rcs'] opened_Cons [of i "(op, rc)" rcs'] by linarith
    ultimately show ?thesis using r by (simp add: refs_step_def)
  qed
qed

text \<open>C10: reference counts are exact.  Starting with no camera open, after any sequence of fewer than \<open>2\<^sup>3\<^sup>1\<close> calls of the
  interface a camera's slot is empty exactly when every successful open of it was matched by a successful close, and
  otherwise holds an object whose reference count is the number of opens without a close and whose handle leads back to
  the slot.\<close>

theorem camera_references_exact:
  assumes "intf_run e bld newpipe ops (g, s) = ((g', s'), rcs)" "length ops < 2 ^ 31"
    and "list_all Option.is_none (cam_obj g)" "sint (num_cam g) \<le> int (length (cam_obj g))" "i < length (cam_obj g)"
  shows "case cam_obj g' ! i of
      None \<Rightarrow> opened i rcs = closed i rcs
    | Some ob \<Rightarrow> opened i rcs = closed i rcs + unat (co_ref_count ob) \<and> closed i rcs < opened i rcs
        \<and> mm_camera_util_get_camera_by_handler g' (co_my_hdl ob) = Some i"
proof -
  have none: "cam_obj g ! i = None" if "i < length (cam_obj g)" for i
    using assms(3) that by (auto simp: list_all_length Option.is_none_def)
  have "length (cam_obj g') = length (cam_obj g) \<and>
      (\<forall>i<length (cam_obj g). cam_slot_ok g' i \<and> slot_refs g' i + closed i rcs = slot_refs g i + opened i rcs)"
    by (rule run_refs [OF assms(1) _ _ assms(4)]) (use none assms(2) in \<open>auto simp: cam_slot_ok_def slot_refs_def\<close>)
  then have "length (cam_obj g') = length (cam_obj g)" "cam_slot_ok g' i" "slot_refs g' i + closed i rcs = opened i rcs"
    using assms(5) none by (auto simp: slot_refs_def)
  then show ?thesis
    using assms(5) by (auto simp: cam_slot_ok_def slot_refs_def camera_found split: option.splits)
qed

section \<open>Stale handles and other objects\<close>

lemma with_camera_unknown:
  assumes "mm_camera_util_get_camera_by_handler g h = None"
  shows "with_camera h bad f (g, s) = ((g, pthread_mutex_unlock IntfLock (pthread_mutex_lock IntfLock s)), bad)"
  by (rule wc_none [OF assms])

lemma unknown_step:
  assumes "mm_camera_util_get_camera_by_handler g (op_handle op) = None" "\<And>idx. op \<noteq> OpOpen idx"
  shows "intf_step e bld newpipe op (g, s) = ((g, pthread_mutex_unlock IntfLock (pthread_mutex_lock IntfLock s)), op_fail op)"
proof (cases "is_open_close op")
  case True
  then obtain h where "op = OpClose h" using assms(2) by (cases op) (auto simp: is_open_close_def)
  then show ?thesis using assms(1) by (simp add: intf_step_def mm_camera_intf_close_def op_handle_def op_fail_def)
next
  case False
  then obtain f :: "mm_camera_obj \<Rightarrow> cam_world \<Rightarrow> mm_camera_obj \<times> cam_world \<times> 32 word"
    where "intf_step e bld newpipe op (g, s) = with_camera (op_handle op) (op_fail op) f (g, s)"
    using step_framed unfolding framed_def by blast
  then show ?thesis using with_camera_unknown [OF assms(1)] by simp
qed

text \<open>closing the last reference kills the handle: afterwards every operation called with it, a second close included, returns
  its failure value, makes no system call and leaves the table of cameras as it is.\<close>

theorem closed_handle_is_dead:
  assumes "mm_camera_util_get_camera_by_handler g h = Some i" "cam_obj g ! i = Some ob" "co_ref_count ob = 1"
    and "mm_camera_intf_close e h (g, s) = ((g', s'), rc)"
    and "op_handle op = h" "\<And>idx. op \<noteq> OpOpen idx"
  shows "rc = 0 \<and> (\<exists>s''. intf_step e bld newpipe op (g', s') = ((g', s''), op_fail op) \<and> cw_trace s'' = cw_trace s')"
proof -
  have i: "i = unat (mm_camera_util_get_index_by_handler h)" "i < length (cam_obj g)" "co_my_hdl ob = h"
    using assms(1,2) unfolding camera_found by auto
  have idx: "unat (ucast (h AND 0xff) :: u8) = i" by (simp add: i(1) mm_camera_util_get_index_by_handler_def)
  have "rc = 0 \<and> g' = g\<lparr>cam_obj := (cam_obj g)[i := None]\<rparr>"
    using assms(4) assms(1-3) idx by (auto simp: mm_camera_intf_close_def Let_def dest!: close_op split: prod.splits)
  moreover from this have "mm_camera_util_get_camera_by_handler g' h = None"
    using i by (simp add: mm_camera_util_get_camera_by_handler_def)
  ultimately show ?thesis
    using unknown_step [of g' op e bld newpipe s'] assms(5,6) by (auto simp: mutex_defs)
qed


section \<open>Event callbacks\<close>

text \<open>The callbacks an event runs.\<close>

definition callbacks_of :: "mm_camera_obj \<Rightarrow> nat list" where
  "callbacks_of ob = List.map_filter ee_cb (co_evt ob)"

lemma dispatch_callbacks:
  "snd (mm_camera_dispatch_app_event (CMD_EVT_CB ev) (ob, w)) = w @ map (\<lambda>cb. EventCallback (co_my_hdl ob) cb ev) (callbacks_of ob)"
proof -
  have "List.map_filter (\<lambda>en. map_option (\<lambda>cb. EventCallback (co_my_hdl ob) cb ev) (ee_cb en)) ens =
      map (\<lambda>cb. EventCallback (co_my_hdl ob) cb ev) (List.map_filter ee_cb ens)" for ens
    by (induction ens) (auto simp: List.map_filter_simps split: option.splits)
  then show ?thesis by (simp add: mm_camera_dispatch_app_event_def callbacks_of_def)
qed

text \<open>A table of callbacks is well formed when an entry without user data has no callback.\<close>

definition evt_wf :: "mm_camera_obj \<Rightarrow> bool" where
  "evt_wf ob \<longleftrightarrow> length (co_evt ob) = MM_CAMERA_EVT_ENTRY_MAX \<and> list_all (\<lambda>en. ee_user_data en = 0 \<longrightarrow> ee_cb en = None) (co_evt ob)"

lemma find_first:
  assumes "List.find P [0 ..< n] = Some i"
  shows "i < n" "P i" "\<And>j. j < i \<Longrightarrow> \<not> P j"
  using assms by (auto simp: find_Some_iff)

lemma map_filter_split:
  "mset (List.map_filter f (xs @ y # ys)) = mset (List.map_filter f xs) + mset (List.map_filter f ys) + (case f y of None \<Rightarrow> {#} | Some c \<Rightarrow> {#c#})"
  by (auto simp: List.map_filter_def split: option.splits)

text \<open>registering a callback under fresh, non-null user data makes every later event run it exactly once more, and unregistering the
  same user data restores the table of callbacks and its counter exactly.\<close>

theorem event_registration_roundtrip:
  assumes "evt_wf ob" "d \<noteq> 0" "\<forall>en\<in>set (co_evt ob). ee_user_data en \<noteq> d"
    and "mm_camera_register_event_notify_internal (Some cb) d ob s = (ob1, s1, 0)"
    and "mm_camera_register_event_notify_internal None d ob1 s1 = (ob2, s2, rc)"
  shows "mset (callbacks_of ob1) = mset (callbacks_of ob) + {#cb#} \<and> rc = 0 \<and> ob2 = ob"
proof -
  obtain i where i: "List.find (\<lambda>i. ee_user_data (co_evt ob ! i) = 0) [0 ..< MM_CAMERA_EVT_ENTRY_MAX] = Some i"
    "ob1 = ob\<lparr>co_evt := (co_evt ob)[i := \<lparr>ee_cb = Some cb, ee_user_data = d\<rparr>], co_reg_count := co_reg_count ob + 1\<rparr>"
    using assms(4) by (auto simp: mm_camera_register_event_notify_internal_def Let_def split: option.splits)
  note f = find_first [OF i(1)]
  have il: "i < length (co_evt ob)" using f(1) assms(1) by (simp add: evt_wf_def)
  have free: "co_evt ob ! i = \<lparr>ee_cb = None, ee_user_data = 0\<rparr>"
    using assms(1) f(2) il by (cases "co_evt ob ! i") (auto simp: evt_wf_def list_all_length)
  have other: "ee_user_data (co_evt ob ! j) \<noteq> d" if "j < length (co_evt ob)" for j using assms(3) that by simp
  have find: "List.find (\<lambda>k. ee_user_data (co_evt ob1 ! k) = d) [0 ..< MM_CAMERA_EVT_ENTRY_MAX] = Some i"
    unfolding find_Some_iff using f(1) il i(2) other assms(1)
    by (intro exI [of _ i]) (auto simp: evt_wf_def nth_list_update)
  have "co_evt ob1 = take i (co_evt ob) @ \<lparr>ee_cb = Some cb, ee_user_data = d\<rparr> # drop (Suc i) (co_evt ob)"
    "co_evt ob = take i (co_evt ob) @ \<lparr>ee_cb = None, ee_user_data = 0\<rparr> # drop (Suc i) (co_evt ob)"
    using il i(2) free id_take_nth_drop [OF il] by (simp_all add: upd_conv_take_nth_drop)
  then have "mset (callbacks_of ob1) = mset (callbacks_of ob) + {#cb#}"
    unfolding callbacks_of_def using map_filter_split [of ee_cb "take i (co_evt ob)" _ "drop (Suc i) (co_evt ob)"]
    by (metis (no_types, lifting) add.right_neutral evt_entry.select_convs(1) option.simps(4,5))
  moreover have "rc = 0 \<and> ob2 = ob"
    using assms(5) find i(2) free il list_update_id [of "co_evt ob" i]
    by (auto simp: mm_camera_register_event_notify_internal_def Let_def)
  ultimately show ?thesis by blast
qed

section \<open>Error paths\<close>

definition opens_fd :: "syscall \<Rightarrow> bool" where
  "opens_fd c = (case c of Open h \<Rightarrow> True | Socket ty \<Rightarrow> True | _ \<Rightarrow> False)"

text \<open>Every positive descriptor the calls of the list \<^verbatim>\<open>v\<close> obtain is closed later in the list.\<close>

fun closes_all :: "env \<Rightarrow> world \<Rightarrow> world \<Rightarrow> bool" where
  "closes_all e w [] = True"
| "closes_all e w (c # v) = ((opens_fd c \<longrightarrow> 0 <s e_ret e w c \<longrightarrow> Close (e_ret e w c) \<in> set v) \<and> closes_all e (w @ [c]) v)"

lemma closes_all_append: "closes_all e w v1 \<Longrightarrow> closes_all e (w @ v1) v2 \<Longrightarrow> closes_all e w (v1 @ v2)"
  by (induction v1 arbitrary: w) auto

lemma opens_fd_simps [simp]: "opens_fd (Open h)" "opens_fd (Socket ty)" "\<not> opens_fd (Close fd)" "\<not> opens_fd (Connect fd i)" "\<not> opens_fd (Usleep n)"
  by (simp_all add: opens_fd_def)

lemma open_ctrl_trace:
  assumes "open_ctrl e h n w = (w', fd)"
  obtains v where "w' = w @ v @ [Open h]" "closes_all e w v" "fd = e_ret e (w @ v) (Open h)" "length (filter opens_fd v) \<le> n"
proof -
  have "\<exists>v. w' = w @ v @ [Open h] \<and> closes_all e w v \<and> fd = e_ret e (w @ v) (Open h) \<and> length (filter opens_fd v) \<le> n"
    using assms
  proof (induction n arbitrary: w)
    case 0
    then show ?case by (auto simp: call_def)
  next
    case (Suc n)
    let ?fd = "e_ret e w (Open h)"
    show ?case
    proof (cases "0 <s ?fd \<or> \<not> e_eio e (w @ [Open h])")
      case True
      then show ?thesis using Suc.prems by (auto simp: call_def)
    next
      case False
      then have "open_ctrl e h n (w @ [Open h, Usleep 20000]) = (w', fd)" using Suc.prems by (auto simp: call_def)
      from Suc.IH [OF this] obtain v where v: "w' = (w @ [Open h, Usleep 20000]) @ v @ [Open h]"
        "closes_all e (w @ [Open h, Usleep 20000]) v" "fd = e_ret e ((w @ [Open h, Usleep 20000]) @ v) (Open h)" "length (filter opens_fd v) \<le> n"
        by blast
      then show ?thesis using False by (intro exI [of _ "[Open h, Usleep 20000] @ v"]) auto
    qed
  qed
  then show ?thesis using that by blast
qed

lemma socket_create_trace:
  assumes "mm_camera_socket_create e i ty w = (w', fd)" "\<not> 0 <s fd"
  shows "\<exists>v. w' = w @ v \<and> closes_all e w v \<and> length (filter opens_fd v) \<le> 1"
  using assms by (auto simp: mm_camera_socket_create_def call_def split: if_splits)

lemma open_socket_trace:
  assumes "open_socket e i n w = (w', fd)" "\<not> 0 <s fd"
  shows "\<exists>v. w' = w @ v \<and> closes_all e w v \<and> length (filter opens_fd v) \<le> Suc n"
  using assms
proof (induction n arbitrary: w)
  case 0
  then show ?case using socket_create_trace by simp
next
  case (Suc n)
  obtain w1 fd1 where c: "mm_camera_socket_create e i MM_CAMERA_SOCK_TYPE_UDP w = (w1, fd1)" by fastforce
  then have n: "\<not> 0 <s fd1" "open_socket e i n (w1 @ [Usleep 20000]) = (w', fd)" using Suc.prems by (auto split: if_splits)
  obtain v1 where v1: "w1 = w @ v1" "closes_all e w v1" "length (filter opens_fd v1) \<le> 1" using socket_create_trace [OF c n(1)] by blast
  obtain v2 where v2: "w' = (w1 @ [Usleep 20000]) @ v2" "closes_all e (w1 @ [Usleep 20000]) v2" "length (filter opens_fd v2) \<le> Suc n"
    using Suc.IH [OF n(2) Suc.prems(2)] by blast
  have "closes_all e w (v1 @ [Usleep 20000] @ v2)" using v1 v2(2) by (intro closes_all_append) auto
  then show ?case using v1(1,3) v2(1,3) by (intro exI [of _ "v1 @ [Usleep 20000] @ v2"]) auto
qed

text \<open>an open that fails leaks nothing: it makes at most two attempts on the device and two on the socket, and every positive
  descriptor one of them returned has been closed when it returns.\<close>

theorem failed_open_closes_descriptors:
  assumes "mm_camera_open e newpipe name ob w = (ob', w', rc)" "rc \<noteq> 0" "co_ds_fd ob = 0"
  shows "rc = -1 \<and> \<not> 0 <s co_ctrl_fd ob' \<and> \<not> 0 <s co_ds_fd ob' \<and> (\<exists>v. w' = w @ v \<and> closes_all e w v \<and> length (filter opens_fd v) \<le> 4)"
proof -
  obtain w1 fd where o: "open_ctrl e (co_my_hdl ob) (MM_CAMERA_DEV_OPEN_TRIES - 1) w = (w1, fd)" by fastforce
  then obtain v where v: "w1 = w @ v @ [Open (co_my_hdl ob)]" "closes_all e w v" "fd = e_ret e (w @ v) (Open (co_my_hdl ob))"
      "length (filter opens_fd v) \<le> 1"
    unfolding MM_CAMERA_DEV_OPEN_TRIES_def by (elim open_ctrl_trace) simp
  show ?thesis
  proof (cases "fd \<le>s 0")
    case True
    then have n: "\<not> 0 <s fd" by (simp add: word_sless_alt word_sle_eq)
    have "closes_all e w (v @ [Open (co_my_hdl ob)])" using v n by (intro closes_all_append) auto
    then show ?thesis using assms o True n v(1,4) by (auto simp: mm_camera_open_def open_on_error_def)
  next
    case False
    obtain w2 ds where c: "open_socket e (cam_idx_of name) (MM_CAMERA_DEV_OPEN_TRIES - 1) w1 = (w2, ds)" by fastforce
    have ds: "ds \<le>s 0" using assms(1,2) o False c by (auto simp: mm_camera_open_def Let_def split: prod.splits if_splits)
    then have n: "\<not> 0 <s ds" by (simp add: word_sless_alt word_sle_eq)
    obtain v2 where v2: "w2 = w1 @ v2" "closes_all e w1 v2" "length (filter opens_fd v2) \<le> 2"
      using open_socket_trace [OF c n] unfolding MM_CAMERA_DEV_OPEN_TRIES_def by auto
    have fd: "0 <s fd" using False by (simp add: word_sless_alt word_sle_eq)
    have r: "rc = -1 \<and> ob' = ob\<lparr>co_ctrl_fd := 0, co_ds_fd := ds\<rparr> \<and> w' = w2 @ [Close fd]"
      using assms(1) o False c ds n fd by (auto simp: mm_camera_open_def open_on_error_def Let_def)
    have mono: "closes_all e u x \<Longrightarrow> closes_all e u (x @ [Close fd])" for u x by (induction x arbitrary: u) auto
    have "closes_all e w (v @ Open (co_my_hdl ob) # v2 @ [Close fd])"
      using v(1,2,3) mono [OF v2(2)] by (intro closes_all_append) auto
    then show ?thesis
      using r n v(1,4) v2(1,3) by (intro conjI exI [of _ "v @ Open (co_my_hdl ob) # v2 @ [Close fd]"]) (auto simp: word_sless_alt)
  qed
qed

text \<open>deleting a channel that is streaming succeeds without stopping it: no driver call is made, no thread is released, and
  the channel object with its streams is wiped, so that its handle no longer leads to it.\<close>

theorem delete_active_channel_leaks:
  assumes "mm_camera_util_get_channel_by_handler ob c = Some i" "ch_state (co_ch ob ! i) = MM_CHANNEL_STATE_ACTIVE" "i < length (co_ch ob)"
    and "mm_camera_del_channel e bld c ob s = (ob', s', rc)"
  shows "rc = 0 \<and> cw_trace s' = cw_trace s \<and> co_ch ob' ! i = mm_channel_zero"
  using assms
  by (auto simp: mm_camera_del_channel_def run_channel_def mm_channel_fsm_fn_def mm_channel_fsm_fn_active_def mutex_defs Let_def)

text \<open>when the kernel refuses the subscription to its notifications, opening the camera still succeeds, with an event thread that
  watches no descriptor; a buffer mapped through it then waits for a notification nobody will store.\<close>

theorem unsubscribed_camera_blocks:
  assumes "mm_camera_open e newpipe name ob w = (ob', w', rc)" "rc = 0" "\<forall>w fd. e_ret e w (SubscribeEvent fd) <s 0"
    and "co_evt_poll ob = poll_thread_zero" "co_evt_rcvd ob = event_zero"
    and "\<forall>w p fd. 0 <s e_ret e w (SockSend (co_ds_fd ob') p fd)" "\<forall>w. e_notify e w = []"
  shows "list_all (\<lambda>en. pe_notify_cb en = None) (poll_entries (co_evt_poll ob'))
    \<and> BlockedForever \<in> set (cw_trace (fst (snd (mm_camera_map_buf e ty fd sz ob' s))))"
proof -
  have z: "list_all (\<lambda>en. pe_notify_cb en = None) (poll_entries (poll_thread_zero :: unit mm_camera_poll_thread))"
    by (simp add: poll_thread_zero_def list_all_iff)
  have l: "mm_camera_poll_thread_launch e newpipe ty p w = (p', w', rc) \<Longrightarrow> poll_entries p' = poll_entries p"
    for ty and p p' :: "unit mm_camera_poll_thread" and w w' rc
    by (auto simp: mm_camera_poll_thread_launch_def poll_thread_main_def mm_camera_poll_set_state_def Let_def split: prod.splits if_splits)
  have o: "co_evt_rcvd ob' = event_zero \<and> list_all (\<lambda>en. pe_notify_cb en = None) (poll_entries (co_evt_poll ob'))"
    using assms(1-5) z
    by (auto simp: mm_camera_open_def open_on_error_def mm_camera_evt_sub_def call_def Let_def dest!: l split: prod.splits if_splits)
  moreover have "mm_camera_util_wait_for_event CAM_EVENT_TYPE_MAP_UNMAP_DONE event_zero [] = None"
    by (subst mm_camera_util_wait_for_event.simps) (simp add: event_zero_def)
  ultimately show ?thesis
    using assms(6,7)
    by (auto simp: mm_camera_map_buf_def mm_camera_util_sendmsg_def mm_camera_socket_sendmsg_def call_def mutex_defs Let_def split: prod.splits)
qed

section \<open>Examples\<close>

text \<open>One camera, named video0, not open.\<close>

definition ex_ctrl :: mm_camera_ctrl where
  "ex_ctrl = \<lparr>num_cam = 1, video_dev_name = [''video0''], cam_obj = [None]\<rparr>"

definition ex_cw :: cam_world where
  "ex_cw = \<lparr>cw_trace = [], cw_locks = [], cw_cnt = 0\<rparr>"

definition ex_calls :: "intf_op list" where
  "ex_calls = [OpOpen 0, OpOpen 0, OpAddChannel 0x100 None (Some 3), OpAddStream 0x100 0x200, OpMapBuf 0x100 CAM_MAPPING_BUF_TYPE_CAPABILITY 4 64,
     OpClose 0x100]"

lemma ex_calls_run:
  "BlockedForever \<notin> set (cw_trace (snd (fst (intf_run ex_env ex_build (8, 9) ex_calls (ex_ctrl, ex_cw)))))"
  "map snd (snd (intf_run ex_env ex_build (8, 9) ex_calls (ex_ctrl, ex_cw))) = [0x100, 0x100, 0x200, 0x300, 0, 0]"
  by code_simp+


lemma ex_calls_counts:
  "opened 0 (snd (intf_run ex_env ex_build (8, 9) ex_calls (ex_ctrl, ex_cw))) = 2"
  "closed 0 (snd (intf_run ex_env ex_build (8, 9) ex_calls (ex_ctrl, ex_cw))) = 1"
  by code_simp+

theorem camera_references_exact_witness:
  "\<exists>ob. cam_obj (fst (fst (intf_run ex_env ex_build (8, 9) ex_calls (ex_ctrl, ex_cw)))) ! 0 = Some ob \<and> unat (co_ref_count ob) = 1"
proof -
  obtain g s rcs where r: "intf_run ex_env ex_build (8, 9) ex_calls (ex_ctrl, ex_cw) = ((g, s), rcs)" by (metis prod.collapse)
  have "length ex_calls < 2 ^ 31" by (simp add: ex_calls_def)
  then show ?thesis
    using camera_references_exact [OF r, of 0] r ex_calls_counts
    by (auto simp: ex_ctrl_def Option.is_none_def split: option.splits)
qed

definition ex_open :: intf where
  "ex_open = fst (intf_run ex_env ex_build (8, 9) [OpOpen 0, OpAddChannel 0x100 None None, OpAddChannel 0x100 None None] (ex_ctrl, ex_cw))"

lemma ex_open_facts:
  "mm_camera_util_get_camera_by_handler (fst ex_open) 0x100 = Some 0"
  "map_option co_ref_count (cam_obj (fst ex_open) ! 0) = Some 1"
  "map_option (\<lambda>ob. mm_camera_util_get_channel_by_handler ob 0x200) (cam_obj (fst ex_open) ! 0) = Some (Some 0)"
  by code_simp+

theorem closed_handle_is_dead_witness:
  "\<exists>g s s'. mm_camera_intf_close ex_env 0x100 ex_open = ((g, s), 0)
     \<and> intf_step ex_env ex_build (8, 9) (OpStartChannel 0x100 0x200) (g, s) = ((g, s'), -1) \<and> cw_trace s' = cw_trace s"
proof -
  obtain g0 s0 where o: "ex_open = (g0, s0)" by fastforce
  obtain g s rc where c: "mm_camera_intf_close ex_env 0x100 (g0, s0) = ((g, s), rc)" by (metis prod.collapse)
  obtain ob where "cam_obj g0 ! 0 = Some ob" "co_ref_count ob = 1" using ex_open_facts(2) unfolding o by auto
  then have "rc = 0 \<and> (\<exists>s''. intf_step ex_env ex_build (8, 9) (OpStartChannel 0x100 0x200) (g, s) =
      ((g, s''), op_fail (OpStartChannel 0x100 0x200)) \<and> cw_trace s'' = cw_trace s)"
    using ex_open_facts(1) [unfolded o] by (intro closed_handle_is_dead [OF _ _ _ c, of 0 ob]) (simp_all add: op_handle_def)
  then show ?thesis using o c by (auto simp: op_fail_def)
qed


lemma ex_register:
  "mm_camera_register_event_notify_internal (Some 3) 7 mm_camera_obj_zero ex_cw =
     (mm_camera_obj_zero\<lparr>co_evt := (co_evt mm_camera_obj_zero)[0 := \<lparr>ee_cb = Some 3, ee_user_data = 7\<rparr>], co_reg_count := 1\<rparr>,
      ex_cw\<lparr>cw_locks := [Lock (CbLock 0), Unlock (CbLock 0)]\<rparr>, 0)"
  by (simp add: mm_camera_register_event_notify_internal_def mm_camera_obj_zero_def MM_CAMERA_EVT_ENTRY_MAX_def upt_rec mutex_defs ex_cw_def)

theorem event_registration_roundtrip_witness:
  "\<exists>ob s ob' s'. mm_camera_register_event_notify_internal (Some 3) 7 mm_camera_obj_zero ex_cw = (ob, s, 0)
     \<and> mset (callbacks_of ob) = {#3#}
     \<and> mm_camera_register_event_notify_internal None 7 ob s = (ob', s', 0) \<and> ob' = mm_camera_obj_zero"
proof -
  obtain ob s where 1: "mm_camera_register_event_notify_internal (Some 3) 7 mm_camera_obj_zero ex_cw = (ob, s, 0)"
    using ex_register by blast
  obtain ob' s' rc where 2: "mm_camera_register_event_notify_internal None 7 ob s = (ob', s', rc)" by (metis prod_cases3)
  have "mset (callbacks_of ob) = mset (callbacks_of mm_camera_obj_zero) + {#3#} \<and> rc = 0 \<and> ob' = mm_camera_obj_zero"
    by (rule event_registration_roundtrip [OF _ _ _ 1 2]) (auto simp: evt_wf_def mm_camera_obj_zero_def list_all_iff)
  moreover have "callbacks_of mm_camera_obj_zero = []"
    by (simp add: callbacks_of_def mm_camera_obj_zero_def MM_CAMERA_EVT_ENTRY_MAX_def numeral_eq_Suc List.map_filter_simps)
  ultimately show ?thesis using 1 2 by auto
qed

text \<open>A server that refuses connections.\<close>

definition refusing_env :: env where
  "refusing_env = ex_env\<lparr>e_ret := (\<lambda>w c. case c of Connect fd i \<Rightarrow> -1 | _ \<Rightarrow> e_ret ex_env w c)\<rparr>"

lemma refusing_open: "snd (snd (mm_camera_open refusing_env (8, 9) (Some ''video0'') mm_camera_obj_zero [])) = -1"
  by code_simp

theorem failed_open_closes_descriptors_witness:
  "closes_all refusing_env [] (fst (snd (mm_camera_open refusing_env (8, 9) (Some ''video0'') mm_camera_obj_zero [])))"
proof -
  obtain ob w rc where r: "mm_camera_open refusing_env (8, 9) (Some ''video0'') mm_camera_obj_zero [] = (ob, w, rc)" by (metis prod_cases3)
  have "rc = -1" using refusing_open r by simp
  then show ?thesis using failed_open_closes_descriptors [OF r] r by (auto simp: mm_camera_obj_zero_def)
qed

text \<open>A camera whose first channel streams.\<close>

definition ex_streaming :: mm_camera_obj where
  "ex_streaming = mm_camera_obj_zero\<lparr>co_ch := ex_started # replicate 15 mm_channel_zero\<rparr>"

lemma ex_started_active: "ch_state ex_started = MM_CHANNEL_STATE_ACTIVE"
  by code_simp

theorem delete_active_channel_leaks_witness:
  "snd (snd (mm_camera_del_channel ex_env ex_build 0x201 ex_streaming ex_cw)) = 0
     \<and> cw_trace (fst (snd (mm_camera_del_channel ex_env ex_build 0x201 ex_streaming ex_cw))) = []"
proof -
  obtain ob s rc where r: "mm_camera_del_channel ex_env ex_build 0x201 ex_streaming ex_cw = (ob, s, rc)" by (metis prod_cases3)
  have "mm_camera_util_get_channel_by_handler ex_streaming 0x201 = Some 0" by code_simp
  then show ?thesis
    using delete_active_channel_leaks [OF _ _ _ r, of 0] ex_started_active r by (simp add: ex_streaming_def ex_cw_def mm_camera_obj_zero_def)
qed

text \<open>A kernel that refuses the subscription and a server that takes every message.\<close>

definition mute_env :: env where
  "mute_env = ex_env\<lparr>e_ret := (\<lambda>w c. case c of SubscribeEvent fd \<Rightarrow> -1 | _ \<Rightarrow> e_ret ex_env w c), e_notify := (\<lambda>w. [])\<rparr>"

lemma mute_open: "snd (snd (mm_camera_open mute_env (8, 9) (Some ''video0'') mm_camera_obj_zero [])) = 0"
  by code_simp

theorem unsubscribed_camera_blocks_witness:
  "\<exists>ob w. mm_camera_open mute_env (8, 9) (Some ''video0'') mm_camera_obj_zero [] = (ob, w, 0)
     \<and> BlockedForever \<in> set (cw_trace (fst (snd (mm_camera_map_buf mute_env CAM_MAPPING_BUF_TYPE_CAPABILITY 4 64 ob ex_cw))))"
proof -
  obtain ob w rc where r: "mm_camera_open mute_env (8, 9) (Some ''video0'') mm_camera_obj_zero [] = (ob, w, rc)" by (metis prod_cases3)
  have "rc = 0" using mute_open r by simp
  then show ?thesis
    using unsubscribed_camera_blocks [OF r, of CAM_MAPPING_BUF_TYPE_CAPABILITY 4 64 ex_cw] r
    by (auto simp: mute_env_def ex_env_def mm_camera_obj_zero_def word_sless_alt)
qed

end
