(* ===== verification/CamList.thy ===== *)
theory CamList
  imports Prelude
begin

text \<open>
  \<^verbatim>\<open>camera/QCamera2/stack/common/cam_list.h\<close>: the intrusive, circular,
  doubly linked list under every queue of the camera and jpeg stacks.

  A \<^verbatim>\<open>struct cam_list\<close> is the first member of the structures it links, so those
  structures are record extensions of \<^verbatim>\<open>cam_list\<close> and \<^verbatim>\<open>member_of\<close> is the identity
  on addresses.  Memory is a partial map from addresses to such structures.  Each
  C statement is one read or one write of the heap, in the order of the code.
  \<^verbatim>\<open>clist m h xs\<close> states that the ring anchored at the dummy head \<^verbatim>\<open>h\<close> links
  exactly the nodes \<^verbatim>\<open>xs\<close>, in this order, in both directions.
\<close>

record cam_list =
  list_next :: addr
  list_prev :: addr

type_synonym 'a lheap = "addr \<rightharpoonup> 'a cam_list_scheme"

section \<open>Reads and writes through a list pointer\<close>

definition get_next :: "'a lheap \<Rightarrow> addr \<Rightarrow> addr option" where
  "get_next m p = map_option list_next (m p)"

definition get_prev :: "'a lheap \<Rightarrow> addr \<Rightarrow> addr option" where
  "get_prev m p = map_option list_prev (m p)"

definition set_next :: "'a lheap \<Rightarrow> addr \<Rightarrow> addr \<Rightarrow> 'a lheap option" where
  "set_next m p v = map_option (\<lambda>c. m(p \<mapsto> c\<lparr>list_next := v\<rparr>)) (m p)"

definition set_prev :: "'a lheap \<Rightarrow> addr \<Rightarrow> addr \<Rightarrow> 'a lheap option" where
  "set_prev m p v = map_option (\<lambda>c. m(p \<mapsto> c\<lparr>list_prev := v\<rparr>)) (m p)"

section \<open>The operations of cam_list.h\<close>

definition cam_list_init :: "'a lheap \<Rightarrow> addr \<Rightarrow> 'a lheap option" where
  "cam_list_init m ptr = do {
     m \<leftarrow> set_next m ptr ptr;
     set_prev m ptr ptr
   }"

definition cam_list_add_tail_node :: "'a lheap \<Rightarrow> addr \<Rightarrow> addr \<Rightarrow> 'a lheap option" where
  "cam_list_add_tail_node m item head = do {
     prev \<leftarrow> get_prev m head;
     m \<leftarrow> set_prev m head item;
     m \<leftarrow> set_next m item head;
     m \<leftarrow> set_prev m item prev;
     set_next m prev item
   }"

definition cam_list_insert_before_node :: "'a lheap \<Rightarrow> addr \<Rightarrow> addr \<Rightarrow> 'a lheap option" where
  "cam_list_insert_before_node m item node = do {
     m \<leftarrow> set_next m item node;
     np \<leftarrow> get_prev m node;
     m \<leftarrow> set_prev m item np;
     ip \<leftarrow> get_prev m item;
     m \<leftarrow> set_next m ip item;
     set_prev m node item
   }"

definition cam_list_del_node :: "'a lheap \<Rightarrow> addr \<Rightarrow> 'a lheap option" where
  "cam_list_del_node m ptr = do {
     prev \<leftarrow> get_prev m ptr;
     next \<leftarrow> get_next m ptr;
     pp \<leftarrow> get_prev m ptr;
     m \<leftarrow> set_prev m next pp;
     pn \<leftarrow> get_next m ptr;
     m \<leftarrow> set_next m prev pn;
     m \<leftarrow> set_next m ptr ptr;
     set_prev m ptr ptr
   }"

section \<open>The list a heap represents\<close>

definition joined :: "'a lheap \<Rightarrow> addr \<Rightarrow> addr \<Rightarrow> bool" where
  "joined m a b \<longleftrightarrow> get_next m a = Some b \<and> get_prev m b = Some a"

fun seg :: "'a lheap \<Rightarrow> addr list \<Rightarrow> bool" where
  "seg m (x # y # zs) \<longleftrightarrow> joined m x y \<and> seg m (y # zs)"
| "seg m _ \<longleftrightarrow> True"

definition clist :: "'a lheap \<Rightarrow> addr \<Rightarrow> addr list \<Rightarrow> bool" where
  "clist m h xs \<longleftrightarrow> distinct (h # xs) \<and> seg m (h # xs @ [h])"

text \<open>What follows the links in a cell, the contents of the linked structure.\<close>

definition get_more :: "'a lheap \<Rightarrow> addr \<Rightarrow> 'a option" where
  "get_more m p = map_option cam_list.more (m p)"

lemma dom_get_more: "dom (get_more m) = dom m"
  by (auto simp: get_more_def dom_def)

lemma lheap_eqI:
  assumes "get_next m a = get_next m' a" "get_prev m a = get_prev m' a" "get_more m a = get_more m' a"
  shows "m a = m' a"
  using assms
  by (cases "m a"; cases "m' a") (auto simp: get_next_def get_prev_def get_more_def)

section \<open>Segments\<close>

lemma seg_glue:
  "xs \<noteq> [] \<Longrightarrow> ys \<noteq> [] \<Longrightarrow> seg m (xs @ ys) \<longleftrightarrow> seg m xs \<and> joined m (last xs) (hd ys) \<and> seg m ys"
proof (induction xs rule: induct_list012)
  case (2 x)
  then show ?case by (cases ys) auto
qed auto

lemma seg_cong:
  assumes "\<forall>x\<in>set (butlast zs). get_next m' x = get_next m x"
    and "\<forall>x\<in>set (tl zs). get_prev m' x = get_prev m x"
  shows "seg m' zs = seg m zs"
  using assms by (induction zs rule: induct_list012) (auto simp: joined_def)

lemma get_next_dom: "get_next m x = Some y \<Longrightarrow> x \<in> dom m"
  by (auto simp: get_next_def)

lemma get_prev_dom: "get_prev m x = Some y \<Longrightarrow> x \<in> dom m"
  by (auto simp: get_prev_def)

lemma seg_butlast_dom: "seg m zs \<Longrightarrow> set (butlast zs) \<subseteq> dom m"
  by (induction zs rule: induct_list012) (auto simp: joined_def dest: get_next_dom)

lemma clist_dom: "clist m h xs \<Longrightarrow> set (h # xs) \<subseteq> dom m"
  using seg_butlast_dom [of m "h # xs @ [h]"] by (auto simp: clist_def butlast_append)

lemma clist_cong:
  assumes "\<And>x. x \<in> set (h # xs) \<Longrightarrow> m' x = m x"
  shows "clist m' h xs = clist m h xs"
proof -
  have "seg m' (h # xs @ [h]) = seg m (h # xs @ [h])"
    by (rule seg_cong) (use assms in \<open>auto simp: butlast_append get_next_def get_prev_def\<close>)
  then show ?thesis by (simp add: clist_def)
qed

section \<open>What each operation writes\<close>

text \<open>The writes as total functions, on cells known to be allocated.\<close>

definition put_next :: "'a lheap \<Rightarrow> addr \<Rightarrow> addr \<Rightarrow> 'a lheap" where
  "put_next m p v = m(p := map_option (\<lambda>c. c\<lparr>list_next := v\<rparr>) (m p))"

definition put_prev :: "'a lheap \<Rightarrow> addr \<Rightarrow> addr \<Rightarrow> 'a lheap" where
  "put_prev m p v = m(p := map_option (\<lambda>c. c\<lparr>list_prev := v\<rparr>) (m p))"

lemma set_next_put [heap_simps]: "p \<in> dom m \<Longrightarrow> set_next m p v = Some (put_next m p v)"
  by (auto simp: set_next_def put_next_def)

lemma set_prev_put [heap_simps]: "p \<in> dom m \<Longrightarrow> set_prev m p v = Some (put_prev m p v)"
  by (auto simp: set_prev_def put_prev_def)

lemma dom_put [heap_simps]: "dom (put_next m p v) = dom m" "dom (put_prev m p v) = dom m"
  by (auto simp: put_next_def put_prev_def)

lemma get_next_put [heap_simps]:
  "p \<in> dom m \<Longrightarrow> get_next (put_next m p v) = (get_next m)(p \<mapsto> v)"
  "get_next (put_prev m p v) = get_next m"
  by (auto simp: get_next_def put_next_def put_prev_def fun_eq_iff option.map_comp comp_def)

lemma get_prev_put [heap_simps]:
  "p \<in> dom m \<Longrightarrow> get_prev (put_prev m p v) = (get_prev m)(p \<mapsto> v)"
  "get_prev (put_next m p v) = get_prev m"
  by (auto simp: get_prev_def put_next_def put_prev_def fun_eq_iff option.map_comp comp_def)

lemma get_more_put [heap_simps]:
  "get_more (put_next m p v) = get_more m" "get_more (put_prev m p v) = get_more m"
  by (auto simp: get_more_def put_next_def put_prev_def fun_eq_iff option.map_comp comp_def)

lemma insert_before_writes:
  assumes "item \<in> dom m" "get_prev m node = Some p" "p \<in> dom m" "item \<noteq> node" "item \<noteq> p"
  shows "\<exists>m'. cam_list_insert_before_node m item node = Some m'
     \<and> get_next m' = (get_next m)(item \<mapsto> node, p \<mapsto> item)
     \<and> get_prev m' = (get_prev m)(item \<mapsto> p, node \<mapsto> item) \<and> get_more m' = get_more m"
  using assms get_prev_dom [OF assms(2)]
  by (simp add: cam_list_insert_before_node_def heap_simps)

lemma add_tail_writes:
  assumes "item \<in> dom m" "get_prev m head = Some p" "p \<in> dom m" "item \<noteq> head" "item \<noteq> p"
  shows "\<exists>m'. cam_list_add_tail_node m item head = Some m'
     \<and> get_next m' = (get_next m)(item \<mapsto> head, p \<mapsto> item)
     \<and> get_prev m' = (get_prev m)(item \<mapsto> p, head \<mapsto> item) \<and> get_more m' = get_more m"
  using assms get_prev_dom [OF assms(2)]
  by (simp add: cam_list_add_tail_node_def heap_simps fun_upd_twist)

lemma del_node_writes:
  assumes "get_prev m x = Some p" "get_next m x = Some n" "p \<in> dom m" "n \<in> dom m" "x \<noteq> p" "x \<noteq> n"
  shows "\<exists>m'. cam_list_del_node m x = Some m'
     \<and> get_next m' = (get_next m)(p \<mapsto> n, x \<mapsto> x)
     \<and> get_prev m' = (get_prev m)(n \<mapsto> p, x \<mapsto> x) \<and> get_more m' = get_more m"
  using assms get_prev_dom [OF assms(1)]
  by (simp add: cam_list_del_node_def heap_simps)

lemma init_writes:
  assumes "h \<in> dom m"
  shows "\<exists>m'. cam_list_init m h = Some m'
     \<and> get_next m' = (get_next m)(h \<mapsto> h) \<and> get_prev m' = (get_prev m)(h \<mapsto> h) \<and> get_more m' = get_more m"
  using assms by (simp add: cam_list_init_def heap_simps)

section \<open>Each operation on the represented list\<close>

lemma clist_init:
  assumes "h \<in> dom m"
  shows "\<exists>m'. cam_list_init m h = Some m' \<and> clist m' h [] \<and> get_more m' = get_more m"
  using init_writes [OF assms] by (auto simp: clist_def joined_def)

lemma clist_split:
  "clist m h (xs @ ys) \<longleftrightarrow>
     distinct (h # xs @ ys) \<and> seg m (h # xs) \<and> joined m (last (h # xs)) (hd (ys @ [h])) \<and> seg m (ys @ [h])"
  using seg_glue [of "h # xs" "ys @ [h]" m] by (simp add: clist_def)

lemma clist_edge:
  assumes "clist m h (xs @ ys)"
  shows "get_prev m (hd (ys @ [h])) = Some (last (h # xs))"
    and "get_next m (last (h # xs)) = Some (hd (ys @ [h]))"
  using assms unfolding clist_split joined_def by simp_all

text \<open>Writes to a node outside the ring and to the two ends of one edge keep the rest.\<close>

lemma seg_frame:
  assumes d: "distinct (h # xs @ ys)" and x: "x \<notin> set (h # xs @ ys)"
    and gn: "\<And>a. a \<noteq> x \<Longrightarrow> a \<noteq> last (h # xs) \<Longrightarrow> get_next m' a = get_next m a"
    and gp: "\<And>a. a \<noteq> x \<Longrightarrow> a \<noteq> hd (ys @ [h]) \<Longrightarrow> get_prev m' a = get_prev m a"
  shows "seg m' (h # xs) = seg m (h # xs)" and "seg m' (ys @ [h]) = seg m (ys @ [h])"
proof -
  have n1: "last (h # xs) \<notin> set (butlast (h # xs))"
    using d by (intro last_notin_butlast) auto
  have n2: "last (h # xs) \<notin> set ys"
    using d last_in_set [of "h # xs"] by auto
  have n3: "hd (ys @ [h]) \<notin> set xs"
    using d by (cases ys) auto
  have n4: "hd (ys @ [h]) \<notin> set (tl (ys @ [h]))"
    using d by (intro hd_notin_tl) auto
  show "seg m' (h # xs) = seg m (h # xs)"
  proof (rule seg_cong)
    show "\<forall>a\<in>set (butlast (h # xs)). get_next m' a = get_next m a"
      using gn n1 x by (metis Un_iff append_Cons in_set_butlastD set_append)
    show "\<forall>a\<in>set (tl (h # xs)). get_prev m' a = get_prev m a"
      using gp n3 x by (metis Un_iff append_Cons in_set_tlD list.sel(3) set_append)
  qed
  show "seg m' (ys @ [h]) = seg m (ys @ [h])"
  proof (rule seg_cong)
    show "\<forall>a\<in>set (butlast (ys @ [h])). get_next m' a = get_next m a"
      using gn n2 x by (metis Un_iff append_Cons butlast_snoc list.set_intros(2) set_append)
    show "\<forall>a\<in>set (tl (ys @ [h])). get_prev m' a = get_prev m a"
      using gp n4 x by (metis Un_iff append_Cons in_set_tlD list.set_intros(1) set_ConsD set_append append_is_Nil_conv list.discI set_empty2 empty_iff list.set_intros(2))
  qed
qed

lemma clist_add_node:
  assumes c: "clist m h (xs @ ys)" and x: "x \<notin> set (h # xs @ ys)"
    and gn: "get_next m' = (get_next m)(x \<mapsto> hd (ys @ [h]), last (h # xs) \<mapsto> x)"
    and gp: "get_prev m' = (get_prev m)(x \<mapsto> last (h # xs), hd (ys @ [h]) \<mapsto> x)"
  shows "clist m' h (xs @ x # ys)"
proof -
  have d: "distinct (h # xs @ ys)" using c by (simp add: clist_def)
  have "last (h # xs) \<in> set (h # xs)" "hd (ys @ [h]) \<in> set (h # ys)"
    by (simp, cases ys) auto
  then have ne: "x \<noteq> last (h # xs)" "x \<noteq> hd (ys @ [h])" using x by (metis Un_iff append_Cons set_append, auto)
  have "seg m' (h # xs)" "seg m' (ys @ [h])"
    using c seg_frame [OF d x, of m' m] unfolding clist_split by (auto simp: gn gp)
  moreover have "joined m' (last (h # xs)) x" "joined m' x (hd (ys @ [h]))"
    using ne by (auto simp: joined_def gn gp)
  ultimately show ?thesis
    using d x unfolding clist_split by (cases ys) auto
qed

lemma clist_drop_node:
  assumes c: "clist m h (xs @ x # ys)"
    and gn: "get_next m' = (get_next m)(last (h # xs) \<mapsto> hd (ys @ [h]), x \<mapsto> x)"
    and gp: "get_prev m' = (get_prev m)(hd (ys @ [h]) \<mapsto> last (h # xs), x \<mapsto> x)"
  shows "clist m' h (xs @ ys)"
proof -
  have d: "distinct (h # xs @ ys)" and x: "x \<notin> set (h # xs @ ys)" using c by (auto simp: clist_def)
  have "last (h # xs) \<in> set (h # xs)" "hd (ys @ [h]) \<in> set (h # ys)"
    by (simp, cases ys) auto
  then have ne: "x \<noteq> last (h # xs)" "x \<noteq> hd (ys @ [h])" using x by (metis Un_iff append_Cons set_append, auto)
  have "seg m' (h # xs)" "seg m' (ys @ [h])"
    using c seg_frame [OF d x, of m' m] unfolding clist_split
    by (cases ys; auto simp: gn gp)+
  moreover have "joined m' (last (h # xs)) (hd (ys @ [h]))"
    using ne by (auto simp: joined_def gn gp)
  ultimately show ?thesis
    using d unfolding clist_split by auto
qed

lemma clist_insert_before:
  assumes "clist m h (xs @ ys)" "x \<in> dom m" "x \<notin> set (h # xs @ ys)"
  shows "\<exists>m'. cam_list_insert_before_node m x (hd (ys @ [h])) = Some m'
     \<and> clist m' h (xs @ x # ys) \<and> get_more m' = get_more m"
proof -
  have l: "last (h # xs) \<in> set (h # xs @ ys)" "hd (ys @ [h]) \<in> set (h # xs @ ys)"
    by (simp, cases ys) auto
  have pd: "last (h # xs) \<in> dom m"
    using clist_edge(2) [OF assms(1)] by (rule get_next_dom)
  have ne: "x \<noteq> hd (ys @ [h])" "x \<noteq> last (h # xs)"
    using l assms(3) by metis+
  obtain m' where "cam_list_insert_before_node m x (hd (ys @ [h])) = Some m'"
      "get_next m' = (get_next m)(x \<mapsto> hd (ys @ [h]), last (h # xs) \<mapsto> x)"
      "get_prev m' = (get_prev m)(x \<mapsto> last (h # xs), hd (ys @ [h]) \<mapsto> x)" "get_more m' = get_more m"
    using insert_before_writes [OF assms(2) clist_edge(1) [OF assms(1)] pd ne] by blast
  then show ?thesis using clist_add_node [OF assms(1,3)] by blast
qed

lemma clist_add_tail:
  assumes "clist m h xs" "x \<in> dom m" "x \<notin> set (h # xs)"
  shows "\<exists>m'. cam_list_add_tail_node m x h = Some m' \<and> clist m' h (xs @ [x]) \<and> get_more m' = get_more m
     \<and> (\<forall>a. a \<notin> set (h # xs @ [x]) \<longrightarrow> m' a = m a)"
proof -
  have c: "clist m h (xs @ [])" and x: "x \<notin> set (h # xs @ [])"
    using assms by simp_all
  have e: "get_prev m h = Some (last (h # xs))" "get_next m (last (h # xs)) = Some h"
    using clist_edge [OF c] by simp_all
  have ne: "x \<noteq> h" "x \<noteq> last (h # xs)"
    using assms(3) last_in_set [of "h # xs"] by (auto split: if_splits)
  obtain m' where m': "cam_list_add_tail_node m x h = Some m'"
      "get_next m' = (get_next m)(x \<mapsto> h, last (h # xs) \<mapsto> x)"
      "get_prev m' = (get_prev m)(x \<mapsto> last (h # xs), h \<mapsto> x)" "get_more m' = get_more m"
    using add_tail_writes [OF assms(2) e(1) get_next_dom [OF e(2)] ne] by blast
  then have "clist m' h (xs @ [x])"
    using clist_add_node [OF c x, of m'] by simp
  moreover have "\<forall>a. a \<notin> set (h # xs @ [x]) \<longrightarrow> m' a = m a"
    using last_in_set [of "h # xs"] by (intro allI impI lheap_eqI) (auto simp: m')
  ultimately show ?thesis using m' by blast
qed

lemma clist_del:
  assumes "clist m h (xs @ x # ys)"
  shows "\<exists>m'. cam_list_del_node m x = Some m' \<and> clist m' h (xs @ ys) \<and> get_more m' = get_more m
     \<and> get_next m' x = Some x \<and> (\<forall>a. a \<notin> set (h # xs @ x # ys) \<longrightarrow> m' a = m a)"
proof -
  let ?p = "last (h # xs)" and ?n = "hd (ys @ [h])"
  have e1: "get_prev m x = Some ?p" "get_next m ?p = Some x"
    using clist_edge [OF assms] by simp_all
  have e2: "get_next m x = Some ?n" "get_prev m ?n = Some x"
    using clist_edge [of m h "xs @ [x]" ys] assms by simp_all
  have l: "?p \<in> set (h # xs)" "?n \<in> set (h # ys)"
    by (simp, cases ys) auto
  have x: "x \<notin> set (h # xs)" "x \<notin> set (h # ys)" using assms by (auto simp: clist_def)
  have ne: "x \<noteq> ?p" "x \<noteq> ?n" using l x by metis+
  obtain m' where m': "cam_list_del_node m x = Some m'"
      "get_next m' = (get_next m)(?p \<mapsto> ?n, x \<mapsto> x)"
      "get_prev m' = (get_prev m)(?n \<mapsto> ?p, x \<mapsto> x)" "get_more m' = get_more m"
    using del_node_writes [OF e1(1) e2(1) get_next_dom [OF e1(2)] get_prev_dom [OF e2(2)] ne] by blast
  moreover have "\<forall>a. a \<notin> set (h # xs @ x # ys) \<longrightarrow> m' a = m a"
    using l by (intro allI impI lheap_eqI) (auto simp: m' split: if_splits)
  ultimately show ?thesis
    using clist_drop_node [OF assms m'(2,3)] by auto
qed

end
