(* ===== verification/CamQueue.thy ===== *)
theory CamQueue
  imports CamList Fifo
begin

text \<open>
  The two lock-protected FIFO queues built on \<^verbatim>\<open>cam_list.h\<close>: the header-only
  \<^verbatim>\<open>camera/QCamera2/stack/common/cam_queue.h\<close> used by the command threads and
  \<^verbatim>\<open>camera/QCamera2/stack/mm-jpeg-interface/src/mm_jpeg_queue.c\<close> used by the
  jpeg job manager.

  The world of a queue is the heap of list nodes together with the set of the
  payload blocks the process has allocated.  \<^verbatim>\<open>malloc\<close> is an argument of the
  operations that call it: \<^verbatim>\<open>None\<close> is the null result, \<^verbatim>\<open>Some a\<close> the address of the new
  block.  \<^verbatim>\<open>free\<close> of a block that is not allocated, and every access to a freed
  node, is undefined behaviour (\<^verbatim>\<open>None\<close>).  Each operation is one critical section
  of the queue's mutex, hence one function here.
\<close>

section \<open>The data\<close>

record cam_node_t = cam_list +
  node_data :: addr

record cam_queue_t =
  q_head :: addr
  q_size :: u32

record qworld =
  nodes :: "addr \<rightharpoonup> cam_node_t"
  blocks :: "addr set"

definition node_zero :: "cam_node_t" where
  "node_zero = \<lparr>list_next = 0, list_prev = 0, node_data = 0\<rparr>"

definition get_data :: "(addr \<rightharpoonup> cam_node_t) \<Rightarrow> addr \<Rightarrow> addr option" where
  "get_data m p = map_option node_data (m p)"

definition free_node :: "(addr \<rightharpoonup> cam_node_t) \<Rightarrow> addr \<Rightarrow> (addr \<rightharpoonup> cam_node_t) option" where
  "free_node m p = (if p \<in> dom m then Some (m(p := None)) else None)"

definition free_block :: "addr set \<Rightarrow> addr \<Rightarrow> addr set option" where
  "free_block B p = (if p \<in> B then Some (B - {p}) else None)"

section \<open>cam_queue.h\<close>

definition cam_queue_init :: "cam_queue_t \<Rightarrow> qworld \<Rightarrow> (cam_queue_t \<times> qworld \<times> i32) option" where
  "cam_queue_init q w = do {
     m \<leftarrow> cam_list_init (nodes w) (q_head q);
     Some (q\<lparr>q_size := 0\<rparr>, w\<lparr>nodes := m\<rparr>, 0)
   }"

definition cam_queue_enq :: "addr option \<Rightarrow> addr \<Rightarrow> cam_queue_t \<Rightarrow> qworld \<Rightarrow> (cam_queue_t \<times> qworld \<times> i32) option" where
  "cam_queue_enq malloc data q w = (case malloc of
     None \<Rightarrow> Some (q, w, -1)
   | Some node \<Rightarrow> do {
       m \<leftarrow> cam_list_add_tail_node ((nodes w)(node \<mapsto> node_zero\<lparr>node_data := data\<rparr>)) node (q_head q);
       Some (q\<lparr>q_size := q_size q + 1\<rparr>, w\<lparr>nodes := m\<rparr>, 0)
     })"

definition cam_queue_deq :: "cam_queue_t \<Rightarrow> qworld \<Rightarrow> (cam_queue_t \<times> qworld \<times> addr) option" where
  "cam_queue_deq q w = do {
     pos \<leftarrow> get_next (nodes w) (q_head q);
     if pos \<noteq> q_head q then do {
       m \<leftarrow> cam_list_del_node (nodes w) pos;
       data \<leftarrow> get_data m pos;
       m \<leftarrow> free_node m pos;
       Some (q\<lparr>q_size := q_size q - 1\<rparr>, w\<lparr>nodes := m\<rparr>, data)
     } else Some (q, w, 0)
   }"

partial_function (option) cam_queue_flush_loop :: "addr \<Rightarrow> cam_queue_t \<Rightarrow> qworld \<Rightarrow> (cam_queue_t \<times> qworld) option" where
  "cam_queue_flush_loop pos q w =
     (if pos \<noteq> q_head q then do {
        next \<leftarrow> get_next (nodes w) pos;
        m \<leftarrow> cam_list_del_node (nodes w) pos;
        data \<leftarrow> get_data m pos;
        B \<leftarrow> (if data \<noteq> 0 then free_block (blocks w) data else Some (blocks w));
        m \<leftarrow> free_node m pos;
        cam_queue_flush_loop next (q\<lparr>q_size := q_size q - 1\<rparr>) (w\<lparr>nodes := m, blocks := B\<rparr>)
      } else Some (q, w))"

definition cam_queue_flush :: "cam_queue_t \<Rightarrow> qworld \<Rightarrow> (cam_queue_t \<times> qworld \<times> i32) option" where
  "cam_queue_flush q w = do {
     pos \<leftarrow> get_next (nodes w) (q_head q);
     (q, w) \<leftarrow> cam_queue_flush_loop pos q w;
     Some (q\<lparr>q_size := 0\<rparr>, w, 0)
   }"

definition cam_queue_deinit :: "cam_queue_t \<Rightarrow> qworld \<Rightarrow> (cam_queue_t \<times> qworld \<times> i32) option" where
  "cam_queue_deinit q w = do {
     (q, w, r) \<leftarrow> cam_queue_flush q w;
     Some (q, w, 0)
   }"

section \<open>mm_jpeg_queue.c\<close>

type_synonym mm_jpeg_queue_t = cam_queue_t

definition mm_jpeg_queue_init :: "mm_jpeg_queue_t \<Rightarrow> qworld \<Rightarrow> (mm_jpeg_queue_t \<times> qworld \<times> i32) option" where
  "mm_jpeg_queue_init q w = do {
     m \<leftarrow> cam_list_init (nodes w) (q_head q);
     Some (q\<lparr>q_size := 0\<rparr>, w\<lparr>nodes := m\<rparr>, 0)
   }"

definition mm_jpeg_queue_enq :: "addr option \<Rightarrow> addr \<Rightarrow> mm_jpeg_queue_t \<Rightarrow> qworld \<Rightarrow> (mm_jpeg_queue_t \<times> qworld \<times> i32) option" where
  "mm_jpeg_queue_enq malloc data q w = (case malloc of
     None \<Rightarrow> Some (q, w, -1)
   | Some node \<Rightarrow> do {
       m \<leftarrow> cam_list_add_tail_node ((nodes w)(node \<mapsto> node_zero\<lparr>node_data := data\<rparr>)) node (q_head q);
       Some (q\<lparr>q_size := q_size q + 1\<rparr>, w\<lparr>nodes := m\<rparr>, 0)
     })"

definition mm_jpeg_queue_deq :: "mm_jpeg_queue_t \<Rightarrow> qworld \<Rightarrow> (mm_jpeg_queue_t \<times> qworld \<times> addr) option" where
  "mm_jpeg_queue_deq q w = do {
     pos \<leftarrow> get_next (nodes w) (q_head q);
     if pos \<noteq> q_head q then do {
       m \<leftarrow> cam_list_del_node (nodes w) pos;
       data \<leftarrow> get_data m pos;
       m \<leftarrow> free_node m pos;
       Some (q\<lparr>q_size := q_size q - 1\<rparr>, w\<lparr>nodes := m\<rparr>, data)
     } else Some (q, w, 0)
   }"

definition mm_jpeg_queue_get_size :: "mm_jpeg_queue_t \<Rightarrow> u32" where
  "mm_jpeg_queue_get_size q = q_size q"

partial_function (option) mm_jpeg_queue_flush_loop :: "addr \<Rightarrow> mm_jpeg_queue_t \<Rightarrow> qworld \<Rightarrow> (mm_jpeg_queue_t \<times> qworld) option" where
  "mm_jpeg_queue_flush_loop pos q w =
     (if pos \<noteq> q_head q then do {
        m \<leftarrow> cam_list_del_node (nodes w) pos;
        data \<leftarrow> get_data m pos;
        B \<leftarrow> (if data \<noteq> 0 then free_block (blocks w) data else Some (blocks w));
        m \<leftarrow> free_node m pos;
        next \<leftarrow> get_next m pos;
        mm_jpeg_queue_flush_loop next (q\<lparr>q_size := q_size q - 1\<rparr>) (w\<lparr>nodes := m, blocks := B\<rparr>)
      } else Some (q, w))"

definition mm_jpeg_queue_flush :: "mm_jpeg_queue_t \<Rightarrow> qworld \<Rightarrow> (mm_jpeg_queue_t \<times> qworld \<times> i32) option" where
  "mm_jpeg_queue_flush q w = do {
     pos \<leftarrow> get_next (nodes w) (q_head q);
     (q, w) \<leftarrow> mm_jpeg_queue_flush_loop pos q w;
     Some (q\<lparr>q_size := 0\<rparr>, w, 0)
   }"

definition mm_jpeg_queue_deinit :: "mm_jpeg_queue_t \<Rightarrow> qworld \<Rightarrow> (mm_jpeg_queue_t \<times> qworld \<times> i32) option" where
  "mm_jpeg_queue_deinit q w = do {
     (q, w, r) \<leftarrow> mm_jpeg_queue_flush q w;
     Some (q, w, 0)
   }"

definition mm_jpeg_queue_peek :: "mm_jpeg_queue_t \<Rightarrow> qworld \<Rightarrow> addr option" where
  "mm_jpeg_queue_peek q w = do {
     pos \<leftarrow> get_next (nodes w) (q_head q);
     if pos \<noteq> q_head q then get_data (nodes w) pos else Some 0
   }"

section \<open>The queue a heap represents\<close>

definition queue_of :: "cam_queue_t \<Rightarrow> qworld \<Rightarrow> addr list \<Rightarrow> bool" where
  "queue_of q w ds \<longleftrightarrow> finite (dom (nodes w)) \<and> q_size q = of_nat (length ds) \<and>
     (\<exists>ns. clist (nodes w) (q_head q) ns \<and> map (get_data (nodes w)) ns = map Some ds)"

lemma node_data_more: "cam_list.more c = cam_list.more c' \<Longrightarrow> node_data c = node_data c'"
  for c c' :: cam_node_t
  by (cases c; cases c') simp

lemma get_data_more: "get_more m' = get_more m \<Longrightarrow> get_data m' = get_data m"
proof (rule ext)
  fix a
  assume "get_more m' = get_more m"
  then have "get_more m' a = get_more m a" by simp
  then show "get_data m' a = get_data m a"
    by (cases "m a"; cases "m' a") (auto simp: get_more_def get_data_def intro: node_data_more)
qed

lemma dom_more: "get_more m' = get_more m \<Longrightarrow> dom m' = dom m"
  by (metis dom_get_more)

lemma queue_of_init:
  assumes "finite (dom (nodes w))" "q_head q \<in> dom (nodes w)"
  shows "\<exists>q' w'. cam_queue_init q w = Some (q', w', 0) \<and> queue_of q' w' []"
  using clist_init [OF assms(2)] assms(1) dom_more
  by (fastforce simp: cam_queue_init_def queue_of_def)

lemma queue_of_enq:
  assumes "queue_of q w ds" "a \<notin> dom (nodes w)"
  shows "\<exists>q' w'. cam_queue_enq (Some a) d q w = Some (q', w', 0) \<and> queue_of q' w' (ds @ [d])
     \<and> q_head q' = q_head q \<and> blocks w' = blocks w \<and> dom (nodes w') = insert a (dom (nodes w))"
proof -
  let ?m = "(nodes w)(a \<mapsto> node_zero\<lparr>node_data := d\<rparr>)"
  obtain ns where ns: "clist (nodes w) (q_head q) ns" "map (get_data (nodes w)) ns = map Some ds"
      and f: "finite (dom (nodes w))" "q_size q = of_nat (length ds)"
    using assms(1) by (auto simp: queue_of_def)
  have a: "a \<notin> set (q_head q # ns)" using clist_dom [OF ns(1)] assms(2) by auto
  have c: "clist ?m (q_head q) ns" using ns(1) a by (subst clist_cong [of _ _ _ "nodes w"]) auto
  obtain m' where m': "cam_list_add_tail_node ?m a (q_head q) = Some m'" "clist m' (q_head q) (ns @ [a])"
      "get_more m' = get_more ?m"
    using clist_add_tail [OF c _ a] by auto
  have "get_data m' = (get_data (nodes w))(a \<mapsto> d)"
    using get_data_more [OF m'(3)] by (auto simp: get_data_def fun_eq_iff)
  then have "map (get_data m') (ns @ [a]) = map Some (ds @ [d])"
    using ns(2) a by simp
  then show ?thesis
    using m' f dom_more [OF m'(3)] by (auto simp: cam_queue_enq_def queue_of_def)
qed

lemma queue_of_enq_null: "cam_queue_enq None d q w = Some (q, w, -1)"
  by (simp add: cam_queue_enq_def)

lemma queue_of_deq_nil:
  assumes "queue_of q w []"
  shows "cam_queue_deq q w = Some (q, w, 0)"
  using assms by (auto simp: queue_of_def clist_def joined_def cam_queue_deq_def)

text \<open>The step that \<^verbatim>\<open>deq\<close> and the flush loop share: unlink the first node and free it.\<close>

lemma unlink_first:
  assumes "clist m h (n # ns)" "map (get_data m) (n # ns) = map Some (d # ds)" "finite (dom m)"
  shows "\<exists>m' m1. get_next m h = Some n \<and> n \<noteq> h \<and> get_next m n = Some (hd (ns @ [h])) \<and>
     cam_list_del_node m n = Some m' \<and> get_data m' n = Some d \<and> free_node m' n = Some m1 \<and>
     clist m1 h ns \<and> map (get_data m1) ns = map Some ds \<and> dom m1 = dom m - {n} \<and> m1 n = None"
proof -
  have e: "get_next m h = Some n" "get_next m n = Some (hd (ns @ [h]))"
    using clist_edge(2) [of m h "[]" "n # ns"] clist_edge(2) [of m h "[n]" ns] assms(1) by simp_all
  obtain m' where m': "cam_list_del_node m n = Some m'" "clist m' h ns" "get_more m' = get_more m"
    using clist_del [of m h "[]" n ns] assms(1) by auto
  have gd: "get_data m' = get_data m" and dm: "dom m' = dom m"
    using get_data_more [OF m'(3)] dom_more [OF m'(3)] by auto
  have n: "n \<notin> set (h # ns)" "n \<in> dom m'"
    using assms(1) clist_dom [OF assms(1)] dm by (auto simp: clist_def)
  have c: "clist (m'(n := None)) h ns"
    using m'(2) n by (subst clist_cong [of _ _ _ m']) auto
  have "get_data (m'(n := None)) = (get_data m)(n := None)"
    using gd by (auto simp: get_data_def fun_eq_iff)
  then have "map (get_data (m'(n := None))) ns = map Some ds"
    using assms(2) n by simp
  moreover have "free_node m' n = Some (m'(n := None))" "dom (m'(n := None)) = dom m - {n}" "n \<noteq> h"
    using n dm by (auto simp: free_node_def)
  ultimately show ?thesis
    using e m'(1) c gd assms(2) by (intro exI [of _ m'] exI [of _ "m'(n := None)"]) simp
qed

lemma queue_of_deq_cons:
  assumes "queue_of q w (d # ds)"
  shows "\<exists>q' w'. cam_queue_deq q w = Some (q', w', d) \<and> queue_of q' w' ds
     \<and> q_head q' = q_head q \<and> blocks w' = blocks w"
proof -
  obtain n ns where ns: "clist (nodes w) (q_head q) (n # ns)"
      "map (get_data (nodes w)) (n # ns) = map Some (d # ds)"
      and f: "finite (dom (nodes w))" "q_size q = of_nat (length (d # ds))"
    using assms by (auto simp: queue_of_def Cons_eq_map_conv)
  from unlink_first [OF ns f(1)] f show ?thesis
    by (auto simp: cam_queue_deq_def queue_of_def)
qed

text \<open>Flushing: every node is unlinked and freed once, every payload is freed once.\<close>

lemma flush_loop_all:
  assumes "clist (nodes w) (q_head q) ns" "map (get_data (nodes w)) ns = map Some ds" "finite (dom (nodes w))"
    and "distinct (filter (\<lambda>d. d \<noteq> 0) ds)" "set ds - {0} \<subseteq> blocks w" "0 \<notin> blocks w"
  shows "\<exists>q' w'. cam_queue_flush_loop (hd (ns @ [q_head q])) q w = Some (q', w') \<and> q_head q' = q_head q
     \<and> clist (nodes w') (q_head q) [] \<and> dom (nodes w') = dom (nodes w) - set ns \<and> blocks w' = blocks w - set ds"
  using assms
proof (induction ns arbitrary: q w ds)
  case Nil
  then show ?case by (subst cam_queue_flush_loop.simps) auto
next
  case (Cons n ns)
  obtain d ds' where ds: "ds = d # ds'" using Cons.prems(2) by (cases ds) auto
  obtain m' m1 where m': "n \<noteq> q_head q" "get_next (nodes w) n = Some (hd (ns @ [q_head q]))"
      "cam_list_del_node (nodes w) n = Some m'" "get_data m' n = Some d" "free_node m' n = Some m1"
      and m1: "clist m1 (q_head q) ns" "map (get_data m1) ns = map Some ds'" "dom m1 = dom (nodes w) - {n}"
    using unlink_first [OF Cons.prems(1) Cons.prems(2) [unfolded ds] Cons.prems(3)] by blast
  let ?B = "blocks w - {d}"
  let ?q = "q\<lparr>q_size := q_size q - 1\<rparr>" and ?w = "w\<lparr>nodes := m1, blocks := ?B\<rparr>"
  have B: "(if d \<noteq> 0 then free_block (blocks w) d else Some (blocks w)) = Some ?B"
    using Cons.prems(5,6) ds by (auto simp: free_block_def)
  have "cam_queue_flush_loop (hd ((n # ns) @ [q_head q])) q w = cam_queue_flush_loop (hd (ns @ [q_head q])) ?q ?w"
    using B by (subst cam_queue_flush_loop.simps) (cases "d = 0"; simp add: m')
  moreover have "distinct (filter (\<lambda>d. d \<noteq> 0) ds')" "set ds' - {0} \<subseteq> ?B"
    using Cons.prems(4,5) ds by (auto split: if_splits)
  moreover have "finite (dom m1)" using m1(3) Cons.prems(3) by simp
  ultimately show ?case
    using Cons.IH [of ?w ?q ds'] m1 Cons.prems(6) ds by auto
qed

lemma cam_queue_flush_ok:
  assumes "clist (nodes w) (q_head q) ns" "map (get_data (nodes w)) ns = map Some ds" "finite (dom (nodes w))"
    and "distinct (filter (\<lambda>d. d \<noteq> 0) ds)" "set ds - {0} \<subseteq> blocks w" "0 \<notin> blocks w"
  shows "\<exists>q' w'. cam_queue_flush q w = Some (q', w', 0) \<and> queue_of q' w' []
     \<and> dom (nodes w') = dom (nodes w) - set ns \<and> blocks w' = blocks w - set ds"
proof -
  have "get_next (nodes w) (q_head q) = Some (hd (ns @ [q_head q]))"
    using clist_edge(2) [of "nodes w" "q_head q" "[]" ns] assms(1) by simp
  then show ?thesis
    using flush_loop_all [OF assms] assms(3) by (auto simp: cam_queue_flush_def queue_of_def)
qed

text \<open>The jpeg queue reads \<^verbatim>\<open>pos->next\<close> after freeing the node \<^verbatim>\<open>pos\<close> points to.\<close>

lemma mm_jpeg_queue_flush_ub:
  assumes "clist (nodes w) (q_head q) (n # ns)" "map (get_data (nodes w)) (n # ns) = map Some ds"
    "finite (dom (nodes w))"
  shows "mm_jpeg_queue_flush q w = None"
proof -
  obtain d ds' where ds: "ds = d # ds'" using assms(2) by (cases ds) auto
  obtain m' m1 where m': "get_next (nodes w) (q_head q) = Some n" "n \<noteq> q_head q"
      "cam_list_del_node (nodes w) n = Some m'" "get_data m' n = Some d" "free_node m' n = Some m1" "m1 n = None"
    using unlink_first [OF assms(1) assms(2) [unfolded ds] assms(3)] by blast
  have "get_next m1 n = None" using m'(6) by (simp add: get_next_def)
  then have "mm_jpeg_queue_flush_loop n q w = None"
    by (subst mm_jpeg_queue_flush_loop.simps)
      (cases "(if d \<noteq> 0 then free_block (blocks w) d else Some (blocks w))"; simp add: m')
  then show ?thesis using m'(1) by (simp add: mm_jpeg_queue_flush_def)
qed

lemma queue_of_peek:
  assumes "queue_of q w ds"
  shows "mm_jpeg_queue_peek q w = Some (case ds of [] \<Rightarrow> 0 | d # _ \<Rightarrow> d)"
proof -
  obtain ns where ns: "clist (nodes w) (q_head q) ns" "map (get_data (nodes w)) ns = map Some ds"
    using assms by (auto simp: queue_of_def)
  have "get_next (nodes w) (q_head q) = Some (hd (ns @ [q_head q]))"
    using clist_edge(2) [of "nodes w" "q_head q" "[]" ns] ns(1) by simp
  then show ?thesis
    using ns by (cases ns; cases ds) (auto simp: mm_jpeg_queue_peek_def clist_def)
qed

section \<open>Both queues provide the FIFO interface\<close>

definition cam_enq :: "addr option \<Rightarrow> addr \<Rightarrow> cam_queue_t \<times> qworld \<Rightarrow> ((cam_queue_t \<times> qworld) \<times> i32) option" where
  "cam_enq malloc d s = map_option (\<lambda>(q, w, r). ((q, w), r)) (cam_queue_enq malloc d (fst s) (snd s))"

definition cam_deq :: "cam_queue_t \<times> qworld \<Rightarrow> ((cam_queue_t \<times> qworld) \<times> addr) option" where
  "cam_deq s = map_option (\<lambda>(q, w, r). ((q, w), r)) (cam_queue_deq (fst s) (snd s))"

definition jpeg_enq :: "addr option \<Rightarrow> addr \<Rightarrow> mm_jpeg_queue_t \<times> qworld \<Rightarrow> ((mm_jpeg_queue_t \<times> qworld) \<times> i32) option" where
  "jpeg_enq malloc d s = map_option (\<lambda>(q, w, r). ((q, w), r)) (mm_jpeg_queue_enq malloc d (fst s) (snd s))"

definition jpeg_deq :: "mm_jpeg_queue_t \<times> qworld \<Rightarrow> ((mm_jpeg_queue_t \<times> qworld) \<times> addr) option" where
  "jpeg_deq s = map_option (\<lambda>(q, w, r). ((q, w), r)) (mm_jpeg_queue_deq (fst s) (snd s))"

definition queue_holds :: "cam_queue_t \<times> qworld \<Rightarrow> addr list \<Rightarrow> bool" where
  "queue_holds s ds = queue_of (fst s) (snd s) ds"

definition node_fresh :: "cam_queue_t \<times> qworld \<Rightarrow> addr \<Rightarrow> bool" where
  "node_fresh s a = (a \<notin> dom (nodes (snd s)))"

text \<open>An allocator: the address after the last node.\<close>

definition node_new :: "cam_queue_t \<times> qworld \<Rightarrow> addr" where
  "node_new s = Suc (Max (insert 0 (dom (nodes (snd s)))))"

lemma node_new_fresh: "queue_holds s ds \<Longrightarrow> node_fresh s (node_new s)"
proof -
  assume "queue_holds s ds"
  then have "finite (insert 0 (dom (nodes (snd s))))" by (simp add: queue_holds_def queue_of_def)
  then show ?thesis
    unfolding node_fresh_def node_new_def by (metis Max_ge Suc_n_not_le_n insertCI)
qed

interpretation cq: fifo_queue queue_holds node_fresh cam_enq cam_deq
proof
  fix s xs a d assume "queue_holds s xs" "node_fresh s a"
  then show "\<exists>s'. cam_enq (Some a) d s = Some (s', 0) \<and> queue_holds s' (xs @ [d])"
    using queue_of_enq [of "fst s" "snd s" xs a d] by (auto simp: queue_holds_def node_fresh_def cam_enq_def)
next
  fix s x xs assume "queue_holds s (x # xs)"
  then show "\<exists>s'. cam_deq s = Some (s', x) \<and> queue_holds s' xs"
    using queue_of_deq_cons [of "fst s" "snd s" x xs] by (auto simp: queue_holds_def cam_deq_def)
qed (auto simp: cam_enq_def cam_deq_def queue_holds_def queue_of_enq_null queue_of_deq_nil)

lemma jpeg_enq_cam: "jpeg_enq = cam_enq"
  by (intro ext) (simp add: jpeg_enq_def cam_enq_def mm_jpeg_queue_enq_def cam_queue_enq_def)

lemma jpeg_deq_cam: "jpeg_deq = cam_deq"
  by (intro ext) (simp add: jpeg_deq_def cam_deq_def mm_jpeg_queue_deq_def cam_queue_deq_def)

interpretation jq: fifo_queue queue_holds node_fresh jpeg_enq jpeg_deq
  unfolding jpeg_enq_cam jpeg_deq_cam by (rule cq.fifo_queue_axioms)

text \<open>A queue with two entries on a heap of three nodes, for the concrete checks.\<close>

definition ex_queue :: cam_queue_t where
  "ex_queue = \<lparr>q_head = 10, q_size = 2\<rparr>"

definition ex_world :: qworld where
  "ex_world = \<lparr>nodes = [10 \<mapsto> \<lparr>list_next = 20, list_prev = 30, node_data = 0\<rparr>,
                        20 \<mapsto> \<lparr>list_next = 30, list_prev = 10, node_data = 5\<rparr>,
                        30 \<mapsto> \<lparr>list_next = 10, list_prev = 20, node_data = 7\<rparr>], blocks = {5, 7, 9}\<rparr>"

lemma ex_clist: "clist (nodes ex_world) 10 [20, 30]"
  by (simp add: ex_world_def clist_def joined_def get_next_def get_prev_def)

lemma ex_data: "map (get_data (nodes ex_world)) [20, 30] = map Some [5, 7]"
  by (simp add: ex_world_def get_data_def)

lemma ex_holds: "queue_holds (ex_queue, ex_world) [5, 7]"
  unfolding queue_holds_def queue_of_def fst_conv snd_conv
  using ex_clist ex_data by (auto simp: ex_queue_def ex_world_def)

text \<open>C15: any sequence of enqueue and dequeue calls on the pointer-level camera command queue
  (\<^verbatim>\<open>cam_queue.h\<close>), with any pattern of allocation failures, never touches unallocated memory,
  returns exactly what the same calls on a list return (\<open>0\<close> or \<open>-1\<close> for an enqueue, the oldest
  payload or the null pointer for a dequeue), and leaves a heap that represents the resulting list
  with the right size field.\<close>

theorem cam_queue_is_fifo:
  assumes "queue_holds (q, w) xs" "\<And>s ys. queue_holds s ys \<Longrightarrow> node_fresh s (new s)"
  shows "\<exists>q' w'. queue_run new cam_enq cam_deq ops (q, w) = Some ((q', w'), snd (list_run ops xs))
     \<and> queue_of q' w' (fst (list_run ops xs))"
  using cq.run_refines [of "(q, w)" xs new ops, OF assms] by (auto simp: queue_holds_def)

theorem cam_queue_is_fifo_witness:
  "\<exists>q' w'. queue_run node_new cam_enq cam_deq [Enq True 9, Enq False 4, Deq, Deq, Deq, Deq] (ex_queue, ex_world)
     = Some ((q', w'), [Status 0, Status (-1), Data 5, Data 7, Data 9, Data 0]) \<and> queue_of q' w' []"
  using cam_queue_is_fifo [OF ex_holds node_new_fresh, where ops = "[Enq True 9, Enq False 4, Deq, Deq, Deq, Deq]"]
  by simp

text \<open>flushing the camera queue terminates from every heap that represents a queue whose
  non-null payloads are distinct allocated blocks: every list node is unlinked and freed exactly
  once, every payload block is freed exactly once, no other node or block is freed, no freed memory
  is read, and the result is an empty, well-formed queue of size 0.\<close>

theorem cam_queue_flush_frees_all:
  assumes "clist (nodes w) (q_head q) ns" "map (get_data (nodes w)) ns = map Some ds" "finite (dom (nodes w))"
    and "distinct (filter (\<lambda>d. d \<noteq> 0) ds)" "set ds - {0} \<subseteq> blocks w" "0 \<notin> blocks w"
  shows "\<exists>q' w'. cam_queue_flush q w = Some (q', w', 0) \<and> queue_of q' w' []
     \<and> dom (nodes w') = dom (nodes w) - set ns \<and> blocks w' = blocks w - set ds"
  by (rule cam_queue_flush_ok [OF assms])

theorem cam_queue_flush_frees_all_witness:
  "\<exists>q' w'. cam_queue_flush ex_queue ex_world = Some (q', w', 0) \<and> queue_of q' w' []
     \<and> dom (nodes w') = {10} \<and> blocks w' = {9}"
proof -
  have "dom (nodes ex_world) - set [20, 30] = {10}" "blocks ex_world - set [5, 7] = {9}"
    by (auto simp: ex_world_def)
  then show ?thesis
    using cam_queue_flush_frees_all [of ex_world ex_queue "[20, 30]" "[5, 7]"] ex_clist ex_data
    by (simp add: ex_queue_def) (simp add: ex_world_def)
qed

text \<open>flushing the jpeg queue when it holds at least one entry reads the \<^verbatim>\<open>next\<close> link of the
  node it has just freed, whatever the payloads: the behaviour is undefined.  (The camera queue's
  flush advances before it frees.)\<close>

theorem mm_jpeg_queue_flush_use_after_free:
  assumes "queue_of q w ds" "ds \<noteq> []"
  shows "mm_jpeg_queue_flush q w = None"
proof -
  obtain ns where ns: "clist (nodes w) (q_head q) ns" "map (get_data (nodes w)) ns = map Some ds"
      "finite (dom (nodes w))"
    using assms(1) by (auto simp: queue_of_def)
  then show ?thesis
    using assms(2) mm_jpeg_queue_flush_ub by (cases ns) auto
qed

theorem mm_jpeg_queue_flush_use_after_free_witness:
  "mm_jpeg_queue_flush ex_queue ex_world = None"
  using mm_jpeg_queue_flush_use_after_free [of ex_queue ex_world "[5, 7]"] ex_holds
  by (simp add: queue_holds_def)

end
