(* ===== verification/ParmBatch.thy ===== *)
theory ParmBatch
  imports Prelude
begin

text \<open>
  The parameter buffer that the HAL sends to the camera server, \<^verbatim>\<open>initBatchUpdate\<close>,
  \<^verbatim>\<open>AddSetParmEntryToBatch\<close> and \<^verbatim>\<open>AddGetParmEntryToBatch\<close> of
  \<^verbatim>\<open>camera/QCamera2/HAL/QCameraParameters.cpp\<close>: a table with one entry per parameter, whose flagged
  entries are threaded on a list in ascending order through the byte \<^verbatim>\<open>next_flagged_entry\<close>.  The size of
  an entry, \<^verbatim>\<open>sizeof(parm_type_t)\<close>, is the argument \<^verbatim>\<open>sz\<close>.  An index outside the table is undefined behaviour,
  \<^verbatim>\<open>None\<close>; so is a search that does not end.
\<close>

definition CAM_INTF_PARM_MAX :: nat where "CAM_INTF_PARM_MAX = 105"
definition CAM_INTF_PARM_HAL_VERSION :: nat where "CAM_INTF_PARM_HAL_VERSION = 0"
definition CAM_HAL_V1 :: i32 where "CAM_HAL_V1 = 1"

text \<open>The status codes of Android's \<^verbatim>\<open>utils/Errors.h\<close>: negated \<^verbatim>\<open>errno\<close> values and \<^verbatim>\<open>INT32_MIN\<close>.\<close>

definition NO_ERROR :: i32 where "NO_ERROR = 0"
definition NAME_NOT_FOUND :: i32 where "NAME_NOT_FOUND = - 2"
definition NO_MEMORY :: i32 where "NO_MEMORY = - 12"
definition BAD_VALUE :: i32 where "BAD_VALUE = - 22"
definition INVALID_OPERATION :: i32 where "INVALID_OPERATION = - 38"
definition UNKNOWN_ERROR :: i32 where "UNKNOWN_ERROR = 0x80000000"

text \<open>The bytes of an \<^verbatim>\<open>int32_t\<close> in memory, least significant first.\<close>

definition le_bytes :: "i32 \<Rightarrow> u8 list" where
  "le_bytes v = [ucast v, ucast (drop_bit 8 v), ucast (drop_bit 16 v), ucast (drop_bit 24 v)]"

record parm_buffer =
  first_flagged_entry :: u8
  next_flagged_entry :: "u8 list"
  entry_data :: "u8 list list"

definition GET_NEXT_PARAM_ID :: "nat \<Rightarrow> parm_buffer \<Rightarrow> nat option" where
  "GET_NEXT_PARAM_ID c p = (if c < length (next_flagged_entry p) then Some (unat (next_flagged_entry p ! c)) else None)"

definition SET_NEXT_PARAM_ID :: "nat \<Rightarrow> parm_buffer \<Rightarrow> nat \<Rightarrow> parm_buffer option" where
  "SET_NEXT_PARAM_ID c p n = (if c < length (next_flagged_entry p)
     then Some (p\<lparr>next_flagged_entry := (next_flagged_entry p)[c := of_nat n]\<rparr>) else None)"

text \<open>The search for the position in the list.\<close>

partial_function (option) find_slot :: "parm_buffer \<Rightarrow> nat \<Rightarrow> nat \<Rightarrow> nat option" where
  "find_slot p position current =
     Option.bind (GET_NEXT_PARAM_ID current p) (\<lambda>n. if n < position then find_slot p position n else Some current)"

definition link_entry :: "parm_buffer \<Rightarrow> nat \<Rightarrow> parm_buffer option" where
  "link_entry p position =
     (let current = unat (first_flagged_entry p) in
      if position = current then Some p
      else if position < current then
        Option.bind (SET_NEXT_PARAM_ID position p current) (\<lambda>p'. Some (p'\<lparr>first_flagged_entry := of_nat position\<rparr>))
      else Option.bind (find_slot p position current) (\<lambda>c.
        Option.bind (GET_NEXT_PARAM_ID c p) (\<lambda>n.
          if position = n then Some p
          else Option.bind (SET_NEXT_PARAM_ID c p position) (\<lambda>p'. SET_NEXT_PARAM_ID position p' n))))"

definition AddSetParmEntryToBatch :: "nat \<Rightarrow> parm_buffer \<Rightarrow> nat \<Rightarrow> u8 list \<Rightarrow> (parm_buffer \<times> i32) option" where
  "AddSetParmEntryToBatch sz p paramType v =
     Option.bind (link_entry p paramType) (\<lambda>p'.
       if sz < length v then Some (p', BAD_VALUE)
       else if paramType < length (entry_data p') then
         Some (p'\<lparr>entry_data := (entry_data p')[paramType := v @ drop (length v) (entry_data p' ! paramType)]\<rparr>, NO_ERROR)
       else None)"

definition AddGetParmEntryToBatch :: "parm_buffer \<Rightarrow> nat \<Rightarrow> (parm_buffer \<times> i32) option" where
  "AddGetParmEntryToBatch p paramType = Option.bind (link_entry p paramType) (\<lambda>p'. Some (p', NO_ERROR))"

text \<open>\<^verbatim>\<open>memset\<close> of the whole table, then the first entry; the other effect of \<^verbatim>\<open>initBatchUpdate\<close>, to clear the
  map of pending strings, is in theory \<^verbatim>\<open>HalParams\<close>.\<close>

definition init_batch :: "nat \<Rightarrow> parm_buffer option" where
  "init_batch sz =
     (let p = \<lparr>first_flagged_entry = of_nat CAM_INTF_PARM_MAX,
               next_flagged_entry = replicate CAM_INTF_PARM_MAX 0,
               entry_data = replicate CAM_INTF_PARM_MAX (replicate sz 0)\<rparr> in
      Option.bind (AddSetParmEntryToBatch sz p CAM_INTF_PARM_HAL_VERSION (le_bytes CAM_HAL_V1)) (\<lambda>(p', rc). Some p'))"

fun add_all :: "nat \<Rightarrow> (nat \<times> u8 list) list \<Rightarrow> parm_buffer \<Rightarrow> parm_buffer option" where
  "add_all sz [] p = Some p"
| "add_all sz ((t, v) # tvs) p =
     Option.bind (AddSetParmEntryToBatch sz p t v) (\<lambda>(p', rc). add_all sz tvs p')"

section \<open>The list of flagged entries\<close>

fun linked :: "u8 list \<Rightarrow> nat \<Rightarrow> nat list \<Rightarrow> bool" where
  "linked ns c [] \<longleftrightarrow> c = CAM_INTF_PARM_MAX"
| "linked ns c (i # is) \<longleftrightarrow> c = i \<and> i < CAM_INTF_PARM_MAX \<and> linked ns (unat (ns ! i)) is"

definition batch_ok :: "parm_buffer \<Rightarrow> nat list \<Rightarrow> bool" where
  "batch_ok p ids \<longleftrightarrow> sorted_wrt (<) ids \<and> length (next_flagged_entry p) = CAM_INTF_PARM_MAX \<and>
     linked (next_flagged_entry p) (unat (first_flagged_entry p)) ids"

lemma linked_cong: "linked ns c is \<Longrightarrow> (\<And>i. i \<in> set is \<Longrightarrow> ms ! i = ns ! i) \<Longrightarrow> linked ms c is"
  by (induction "is" arbitrary: c) auto

lemma unat_of_nat_parm: "t \<le> CAM_INTF_PARM_MAX \<Longrightarrow> unat (of_nat t :: u8) = t"
  by (simp add: CAM_INTF_PARM_MAX_def unat_of_nat)

lemma linked_bound: "linked ns c is \<Longrightarrow> c \<le> CAM_INTF_PARM_MAX"
  by (cases "is") auto

text \<open>The search ends at the last entry below the new one, and the two writes put the new one behind it.\<close>

definition after_links :: "u8 list \<Rightarrow> nat \<Rightarrow> nat \<Rightarrow> u8 list" where
  "after_links ns d t = (if unat (ns ! d) = t then ns else ns[d := of_nat t, t := ns ! d])"

lemma after_links_other: "i \<noteq> d \<Longrightarrow> i \<noteq> t \<Longrightarrow> after_links ns d t ! i = ns ! i"
  by (simp add: after_links_def nth_list_update)

lemma after_links_at:
  assumes "d < t" "t < CAM_INTF_PARM_MAX" "length ns = CAM_INTF_PARM_MAX" "unat (ns ! d) \<noteq> t"
  shows "unat (after_links ns d t ! d) = t" "after_links ns d t ! t = ns ! d"
  using assms by (simp_all add: after_links_def nth_list_update unat_of_nat_parm)

lemma insort_insert_cons: "i < t \<Longrightarrow> insort_insert t (i # is) = i # insort_insert t is" for t :: nat
  by (simp add: insort_insert_key_def)

lemma find_slot_links:
  assumes "linked (next_flagged_entry p) c (c # is)" "sorted_wrt (<) (c # is)" "c < t" "t < CAM_INTF_PARM_MAX"
    and "length (next_flagged_entry p) = CAM_INTF_PARM_MAX"
  shows "\<exists>d. find_slot p t c = Some d \<and> c \<le> d \<and> d < t \<and> t \<le> unat (next_flagged_entry p ! d) \<and>
    linked (after_links (next_flagged_entry p) d t) c (insort_insert t (c # is))"
  using assms
proof (induction "is" arbitrary: c)
  case Nil
  let ?ns = "next_flagged_entry p"
  have nx: "unat (?ns ! c) = CAM_INTF_PARM_MAX" using Nil by simp
  then have "find_slot p t c = Some c"
    using Nil.prems by (subst find_slot.simps) (simp add: GET_NEXT_PARAM_ID_def)
  then show ?case using Nil.prems nx after_links_at [of c t ?ns]
    by (intro exI [of _ c]) (simp add: insort_insert_cons insort_insert_key_def)
next
  case (Cons i "is")
  let ?ns = "next_flagged_entry p"
  have nx: "unat (?ns ! c) = i" "i < CAM_INTF_PARM_MAX" "c < i" "linked ?ns i (i # is)" "sorted_wrt (<) (i # is)"
    using Cons.prems(1,2) by auto
  have c: "c < CAM_INTF_PARM_MAX" using Cons.prems by simp
  show ?case
  proof (cases "i < t")
    case True
    from Cons.IH [OF nx(4,5) True Cons.prems(4,5)] obtain d where d: "find_slot p t i = Some d" "i \<le> d" "d < t"
      "t \<le> unat (?ns ! d)" "linked (after_links ?ns d t) i (insort_insert t (i # is))" by blast
    have "find_slot p t c = Some d"
      using Cons.prems(5) c nx(1) True d(1) by (subst find_slot.simps) (simp add: GET_NEXT_PARAM_ID_def)
    moreover have "after_links ?ns d t ! c = ?ns ! c"
      using nx(3) d(2) Cons.prems(3) by (intro after_links_other) simp_all
    then have "linked (after_links ?ns d t) c (c # insort_insert t (i # is))" using d(5) nx(1) c by simp
    ultimately show ?thesis using d(2-4) nx(3) insort_insert_cons [OF Cons.prems(3)]
      by (intro exI [of _ d]) simp
  next
    case False
    have find: "find_slot p t c = Some c"
      using Cons.prems(5) c nx(1) False by (subst find_slot.simps) (simp add: GET_NEXT_PARAM_ID_def)
    have "linked (after_links ?ns c t) c (insort_insert t (c # i # is))"
    proof (cases "i = t")
      case True
      then show ?thesis using nx(1) Cons.prems(1) insort_insert_cons [OF Cons.prems(3)]
        by (simp add: after_links_def insort_insert_key_def)
    next
      case ne: False
      have lt: "t < j" "c < j" if "j \<in> set (i # is)" for j using that ne False nx(3,5) by auto
      have "linked (after_links ?ns c t) i (i # is)"
        using nx(4) by (rule linked_cong) (use lt in \<open>fastforce intro: after_links_other\<close>)
      moreover have "insort_insert t (i # is) = t # i # is"
        using lt by (auto simp: insort_insert_key_def less_imp_le)
      ultimately show ?thesis
        using after_links_at [OF Cons.prems(3-5)] nx(1) ne c Cons.prems(4) insort_insert_cons [OF Cons.prems(3)]
        by simp
    qed
    then show ?thesis using find False nx(1) Cons.prems(3) by (intro exI [of _ c]) simp
  qed
qed

lemma strict_sorted_insort_insert: "sorted_wrt (<) ids \<Longrightarrow> sorted_wrt (<) (insort_insert t ids)" for t :: nat
  by (simp add: strict_sorted_iff sorted_insort_insert distinct_insort_insert)

lemma link_entry_ok:
  assumes "batch_ok p ids" "t < CAM_INTF_PARM_MAX"
  shows "\<exists>p'. link_entry p t = Some p' \<and> batch_ok p' (insort_insert t ids) \<and> entry_data p' = entry_data p"
proof -
  let ?ns = "next_flagged_entry p" and ?c = "unat (first_flagged_entry p)"
  have ok: "sorted_wrt (<) ids" "length ?ns = CAM_INTF_PARM_MAX" "linked ?ns ?c ids"
    using assms(1) by (simp_all add: batch_ok_def)
  note st = strict_sorted_insort_insert [OF ok(1)]
  consider "t = ?c" | "t < ?c" | "?c < t" by linarith
  then show ?thesis
  proof cases
    case 1
    then obtain "is" where "ids = t # is" using ok(3) assms(2) by (cases ids) simp_all
    then have "insort_insert t ids = ids" by (simp add: insort_insert_key_def)
    then show ?thesis using 1 assms(1) by (simp add: link_entry_def)
  next
    case 2
    have lt: "t < i" if "i \<in> set ids" for i
    proof -
      have "hd ids \<le> i" using that ok(1) by (cases ids) (auto intro: less_imp_le)
      moreover have "?c = hd ids" using that ok(3) by (cases ids) simp_all
      ultimately show ?thesis using 2 by simp
    qed
    have ins: "insort_insert t ids = t # ids" using lt by (cases ids) (auto simp: insort_insert_key_def less_imp_le)
    have "linked (?ns[t := of_nat ?c]) ?c ids"
      by (rule linked_cong [OF ok(3)]) (simp add: less_imp_neq [OF lt])
    moreover have "?c \<le> CAM_INTF_PARM_MAX" using linked_bound [OF ok(3)] .
    moreover have "link_entry p t =
        Some (p\<lparr>next_flagged_entry := ?ns[t := of_nat ?c], first_flagged_entry := of_nat t\<rparr>)"
      using 2 ok(2) assms(2) by (simp add: link_entry_def SET_NEXT_PARAM_ID_def)
    ultimately show ?thesis using ok(1,2) assms(2) lt ins by (simp add: batch_ok_def unat_of_nat_parm)
  next
    case 3
    then obtain "is" where ids: "ids = ?c # is" using ok(3) assms(2) by (cases ids) simp_all
    have "linked ?ns ?c (?c # is)" "sorted_wrt (<) (?c # is)" using ok(1,3) by (simp_all only: ids)
    from find_slot_links [OF this 3 assms(2) ok(2)] obtain d where
      d: "find_slot p t ?c = Some d" "d < t" "linked (after_links ?ns d t) ?c (insort_insert t (?c # is))"
      by blast
    have "link_entry p t = Some (p\<lparr>next_flagged_entry := after_links ?ns d t\<rparr>)"
      using 3 d(1,2) ok(2) assms(2)
      by (simp add: link_entry_def SET_NEXT_PARAM_ID_def GET_NEXT_PARAM_ID_def after_links_def)
    moreover have "length (after_links ?ns d t) = CAM_INTF_PARM_MAX" using ok(2) by (simp add: after_links_def)
    ultimately show ?thesis using d(3) st unfolding ids by (simp add: batch_ok_def)
  qed
qed

section \<open>The table as a map\<close>

definition batch_refines :: "nat \<Rightarrow> parm_buffer \<Rightarrow> (nat \<rightharpoonup> u8 list) \<Rightarrow> bool" where
  "batch_refines sz p m \<longleftrightarrow> dom m \<subseteq> {..< CAM_INTF_PARM_MAX} \<and> batch_ok p (sorted_list_of_set (dom m)) \<and>
     entry_data p = map (\<lambda>t. case m t of None \<Rightarrow> replicate sz 0 | Some v \<Rightarrow> v) [0 ..< CAM_INTF_PARM_MAX]"

definition map_add_parm :: "nat \<Rightarrow> nat \<times> u8 list \<Rightarrow> (nat \<rightharpoonup> u8 list) \<Rightarrow> (nat \<rightharpoonup> u8 list)" where
  "map_add_parm sz = (\<lambda>(t, v) m. m(t \<mapsto> v @ drop (length v) (case m t of None \<Rightarrow> replicate sz 0 | Some w \<Rightarrow> w)))"

lemma AddSet_refines:
  assumes "batch_refines sz p m" "t < CAM_INTF_PARM_MAX" "length v \<le> sz"
  shows "\<exists>p'. AddSetParmEntryToBatch sz p t v = Some (p', NO_ERROR) \<and> batch_refines sz p' (map_add_parm sz (t, v) m)"
proof -
  let ?f = "\<lambda>m t. case m t of None \<Rightarrow> replicate sz 0 | Some v \<Rightarrow> v"
  have fin: "finite (dom m)" using assms(1) finite_subset [of "dom m"] by (auto simp: batch_refines_def)
  from assms link_entry_ok [of p "sorted_list_of_set (dom m)" t] obtain p' where
    p': "link_entry p t = Some p'" "batch_ok p' (insort_insert t (sorted_list_of_set (dom m)))"
      "entry_data p' = map (?f m) [0 ..< CAM_INTF_PARM_MAX]"
    by (auto simp: batch_refines_def)
  have ids: "insort_insert t (sorted_list_of_set (dom m)) = sorted_list_of_set (insert t (dom m))"
    using fin by (cases "t \<in> dom m") (simp_all add: insort_insert_key_def insert_absorb sorted_list_of_set_insert)
  have data: "(map (?f m) [0 ..< CAM_INTF_PARM_MAX])[t := v @ drop (length v) (?f m t)] =
      map (?f (map_add_parm sz (t, v) m)) [0 ..< CAM_INTF_PARM_MAX]"
    by (rule nth_equalityI) (auto simp: nth_list_update map_add_parm_def)
  have "AddSetParmEntryToBatch sz p t v = Some (p'\<lparr>entry_data := map (?f (map_add_parm sz (t, v) m)) [0 ..< CAM_INTF_PARM_MAX]\<rparr>, NO_ERROR)"
    using p' assms(2,3) data by (simp add: AddSetParmEntryToBatch_def)
  moreover have "batch_refines sz (p'\<lparr>entry_data := map (?f (map_add_parm sz (t, v) m)) [0 ..< CAM_INTF_PARM_MAX]\<rparr>) (map_add_parm sz (t, v) m)"
    using p'(2) ids assms(1,2) by (auto simp: batch_refines_def batch_ok_def map_add_parm_def)
  ultimately show ?thesis by blast
qed

lemma init_batch_refines:
  assumes "4 \<le> sz"
  shows "\<exists>p. init_batch sz = Some p \<and> batch_refines sz p (map_add_parm sz (CAM_INTF_PARM_HAL_VERSION, le_bytes CAM_HAL_V1) Map.empty)"
proof -
  let ?p = "\<lparr>first_flagged_entry = of_nat CAM_INTF_PARM_MAX, next_flagged_entry = replicate CAM_INTF_PARM_MAX 0,
             entry_data = replicate CAM_INTF_PARM_MAX (replicate sz 0)\<rparr>"
  have "batch_refines sz ?p Map.empty"
    by (simp add: batch_refines_def batch_ok_def map_replicate_const unat_of_nat_parm)
  from AddSet_refines [OF this, of CAM_INTF_PARM_HAL_VERSION "le_bytes CAM_HAL_V1"] assms show ?thesis
    by (auto simp: init_batch_def Let_def CAM_INTF_PARM_HAL_VERSION_def CAM_INTF_PARM_MAX_def le_bytes_def)
qed

lemma add_all_refines:
  assumes "batch_refines sz p m" "list_all (\<lambda>(t, v). t < CAM_INTF_PARM_MAX \<and> length v \<le> sz) tvs"
  shows "\<exists>p'. add_all sz tvs p = Some p' \<and> batch_refines sz p' (fold (map_add_parm sz) tvs m)"
  using assms
proof (induction tvs arbitrary: p m)
  case (Cons tv tvs)
  obtain t v where tv: "tv = (t, v)" by (cases tv)
  with AddSet_refines [of sz p m t v] Cons.prems obtain p' where
    "AddSetParmEntryToBatch sz p t v = Some (p', NO_ERROR)" "batch_refines sz p' (map_add_parm sz (t, v) m)" by auto
  with Cons.IH [of p'] Cons.prems tv show ?case by simp
qed simp

text \<open>A batch of parameters, from its initialisation, is a map.  Whatever parameters are set, in any order
  and any number of times, no index leaves the table and every search for the position in the list ends; the list
  of flagged entries then holds exactly the parameters that were set and the HAL version, in ascending order, and
  each entry holds the value last set.\<close>

theorem parameter_batch_is_sorted_map:
  assumes "4 \<le> sz" "list_all (\<lambda>(t, v). t < CAM_INTF_PARM_MAX \<and> length v \<le> sz) tvs"
  shows "\<exists>p p'. init_batch sz = Some p \<and> add_all sz tvs p = Some p' \<and>
    batch_refines sz p' (fold (map_add_parm sz) ((CAM_INTF_PARM_HAL_VERSION, le_bytes CAM_HAL_V1) # tvs) Map.empty)"
  using init_batch_refines [OF assms(1)] add_all_refines [OF _ assms(2)] by fastforce

theorem parameter_batch_is_sorted_map_witness:
  "\<exists>p p'. init_batch 4 = Some p \<and> add_all 4 [(40, [1, 0, 0, 0]), (7, [3]), (40, [0])] p = Some p' \<and>
    batch_refines 4 p' (fold (map_add_parm 4)
      ((CAM_INTF_PARM_HAL_VERSION, le_bytes CAM_HAL_V1) # [(40, [1, 0, 0, 0]), (7, [3]), (40, [0])]) Map.empty)"
  by (rule parameter_batch_is_sorted_map) (simp_all add: CAM_INTF_PARM_MAX_def)

end
