(* ===== verification/CString.thy ===== *)
theory CString
  imports Prelude
begin

text \<open>
  What the camera HAL uses of the C string library.  A C string is the list of its characters before the
  terminating zero, so no list contains \<^verbatim>\<open>CHR 0x00\<close>.  The target is 32-bit ARM
  (\<^verbatim>\<open>BoardConfigCommon.mk\<close>): \<^verbatim>\<open>long\<close> has 32 bits, and \<^verbatim>\<open>strtol\<close> saturates there.
\<close>

section \<open>Numbers\<close>

definition digit_char :: "int \<Rightarrow> char" where
  "digit_char d = char_of (48 + d)"

text \<open>The digits of a number that is not negative.\<close>

function show_pos :: "int \<Rightarrow> string" where
  "show_pos n = (if n < 10 then [digit_char n] else show_pos (n div 10) @ [digit_char (n mod 10)])"
  by pat_completeness auto
termination by (relation "measure nat") (auto simp: nat_mono_iff intro!: int_div_less_self)

declare show_pos.simps [simp del]

text \<open>The conversion \<^verbatim>\<open>%d\<close>.\<close>

definition show_int :: "int \<Rightarrow> string" where
  "show_int i = (if i < 0 then CHR ''-'' # show_pos (- i) else show_pos i)"

definition show_i32 :: "i32 \<Rightarrow> string" where
  "show_i32 v = show_int (sint v)"

definition is_digit :: "char \<Rightarrow> bool" where
  "is_digit c \<longleftrightarrow> 48 \<le> (of_char c :: int) \<and> (of_char c :: int) \<le> 57"

definition is_space :: "char \<Rightarrow> bool" where
  "is_space c \<longleftrightarrow> (of_char c :: int) = 32 \<or> 9 \<le> (of_char c :: int) \<and> (of_char c :: int) \<le> 13"

definition digits_value :: "string \<Rightarrow> int" where
  "digits_value = foldl (\<lambda>n c. 10 * n + (of_char c - 48)) 0"

text \<open>The optional sign of a number: whether it is a minus, and what follows.\<close>

fun take_sign :: "string \<Rightarrow> bool \<times> string" where
  "take_sign [] = (False, [])"
| "take_sign (c # s) = (if c = CHR ''-'' then (True, s) else if c = CHR ''+'' then (False, s) else (False, c # s))"

definition LONG_MAX :: int where "LONG_MAX = 2147483647"
definition LONG_MIN :: int where "LONG_MIN = - 2147483648"

text \<open>\<^verbatim>\<open>strtol(s, &end, 10)\<close>: the number and the rest of the string; without a digit the rest is the whole string.\<close>

definition strtol10 :: "string \<Rightarrow> i32 \<times> string" where
  "strtol10 s =
     (let (neg, u) = take_sign (dropWhile is_space s);
          ds = takeWhile is_digit u;
          v = (if neg then - digits_value ds else digits_value ds) in
      if ds = [] then (0, s)
      else (word_of_int (max LONG_MIN (min LONG_MAX v)), dropWhile is_digit u))"

definition atoi :: "string \<Rightarrow> i32" where
  "atoi s = fst (strtol10 s)"

section \<open>Buffers and searches\<close>

text \<open>\<^verbatim>\<open>snprintf(buf, n, ...)\<close> and \<^verbatim>\<open>strlcpy(buf, s, n)\<close> keep what fits before the terminating zero.\<close>

definition fit :: "nat \<Rightarrow> string \<Rightarrow> string" where
  "fit n s = take (n - 1) s"

text \<open>\<^verbatim>\<open>strchr(s, c)\<close>: the rest of the string from the first \<^verbatim>\<open>c\<close> on.\<close>

definition strchr :: "char \<Rightarrow> string \<Rightarrow> string option" where
  "strchr c s = (let r = dropWhile (\<lambda>x. x \<noteq> c) s in if r = [] then None else Some r)"

text \<open>The number of tokens that \<^verbatim>\<open>strtok_r(s, d, &saveptr)\<close> yields.\<close>

fun count_tokens :: "char \<Rightarrow> bool \<Rightarrow> string \<Rightarrow> nat" where
  "count_tokens d inside [] = (if inside then 1 else 0)"
| "count_tokens d inside (c # s) =
     (if c = d then (if inside then Suc (count_tokens d False s) else count_tokens d False s) else count_tokens d True s)"

section \<open>Facts\<close>

lemma of_digit_char: "0 \<le> d \<Longrightarrow> d < 10 \<Longrightarrow> (of_char (digit_char d) :: int) = 48 + d"
  by (simp add: digit_char_def)

lemma is_digit_char: "0 \<le> d \<Longrightarrow> d < 10 \<Longrightarrow> is_digit (digit_char d)"
  by (simp add: is_digit_def of_digit_char)

lemma show_pos_digits: "0 \<le> n \<Longrightarrow> c \<in> set (show_pos n) \<Longrightarrow> is_digit c"
proof (induction n rule: show_pos.induct)
  case (1 n)
  then show ?case by (subst (asm) (2) show_pos.simps) (auto simp: is_digit_char split: if_splits)
qed

lemma show_pos_not_Nil [simp]: "show_pos n \<noteq> []"
  by (subst show_pos.simps) simp

lemma digits_value_snoc: "digits_value (s @ [c]) = 10 * digits_value s + (of_char c - 48)"
  by (simp add: digits_value_def)

lemma digits_value_show: "0 \<le> n \<Longrightarrow> digits_value (show_pos n) = n"
proof (induction n rule: show_pos.induct)
  case (1 n)
  show ?case
  proof (cases "n < 10")
    case True
    then show ?thesis using 1(2) by (subst show_pos.simps) (simp add: digits_value_def of_digit_char)
  next
    case False
    then show ?thesis using 1 by (subst show_pos.simps) (simp add: digits_value_snoc of_digit_char)
  qed
qed

lemma show_pos_length: "n < 10 ^ k \<Longrightarrow> 0 < k \<Longrightarrow> length (show_pos n) \<le> k"
proof (induction n arbitrary: k rule: show_pos.induct)
  case (1 n)
  show ?case
  proof (cases "n < 10")
    case True
    then show ?thesis using 1 by (subst show_pos.simps) simp
  next
    case False
    then obtain j where k: "k = Suc j" "0 < j" using 1(2,3) by (cases k; cases "k - 1") auto
    have "n div 10 < 10 ^ j" using 1(2) k by simp
    then have "length (show_pos (n div 10)) \<le> j" using 1(1) False k(2) by blast
    then show ?thesis using False k by (subst show_pos.simps) simp
  qed
qed

lemma digit_not_special: "is_digit c \<Longrightarrow> \<not> is_space c" "is_digit c \<Longrightarrow> c \<noteq> CHR ''-''" "is_digit c \<Longrightarrow> c \<noteq> CHR ''+''"
  by (auto simp: is_digit_def is_space_def)

lemma not_digit_chars [simp]: "\<not> is_digit CHR '',''" "\<not> is_digit CHR ''x''" "\<not> is_digit CHR '')''" "\<not> is_digit CHR ''(''"
  "\<not> is_digit CHR '' ''" "\<not> is_digit CHR ''-''"
  by (simp_all add: is_digit_def)

lemma sint_i32_bounds: "- 2147483648 \<le> sint (v :: i32)" "sint (v :: i32) \<le> 2147483647"
  using sint_ge [of v] sint_less [of v] by simp_all

lemma show_i32_length: "length (show_i32 v) \<le> 11"
proof -
  have "length (show_pos \<bar>sint v\<bar>) \<le> 10"
    by (rule show_pos_length) (use sint_i32_bounds [of v] in auto)
  then show ?thesis using sint_i32_bounds [of v] by (auto simp: show_i32_def show_int_def split: if_splits)
qed

lemma takeWhile_digits:
  assumes "0 \<le> n" "r = [] \<or> \<not> is_digit (hd r)"
  shows "takeWhile is_digit (show_pos n @ r) = show_pos n" "dropWhile is_digit (show_pos n @ r) = r"
proof -
  have d: "\<And>c. c \<in> set (show_pos n) \<Longrightarrow> is_digit c" by (rule show_pos_digits [OF assms(1)])
  have "takeWhile is_digit r = []" "dropWhile is_digit r = r" using assms(2) by (cases r; auto)+
  with d show "takeWhile is_digit (show_pos n @ r) = show_pos n" "dropWhile is_digit (show_pos n @ r) = r"
    by (simp_all add: takeWhile_append2 dropWhile_append2)
qed

lemma show_pos_start: "0 \<le> n \<Longrightarrow> \<exists>c s. show_pos n @ r = c # s \<and> is_digit c"
  using show_pos_digits [of n "hd (show_pos n)"] by (cases "show_pos n") auto

lemma take_sign_show: "0 \<le> n \<Longrightarrow> take_sign (dropWhile is_space (show_pos n @ r)) = (False, show_pos n @ r)"
  using show_pos_start [of n r] by (auto simp: digit_not_special)

text \<open>Reading back a printed number.\<close>

lemma strtol10_show:
  assumes "r = [] \<or> \<not> is_digit (hd r)"
  shows "strtol10 (show_i32 v @ r) = (v, r)"
proof -
  note b = sint_i32_bounds [of v]
  have minus: "\<not> is_space CHR ''-''" by (simp add: is_space_def)
  show ?thesis
  proof (cases "sint v < 0")
    case True
    then have n: "0 \<le> - sint v" by simp
    show ?thesis using True b
      by (simp add: strtol10_def show_i32_def show_int_def minus takeWhile_digits [OF n assms] digits_value_show [OF n] Let_def
          LONG_MIN_def LONG_MAX_def)
  next
    case False
    then have n: "0 \<le> sint v" by simp
    show ?thesis using False b
      by (simp add: strtol10_def show_i32_def show_int_def take_sign_show [OF n] takeWhile_digits [OF n assms]
          digits_value_show [OF n] Let_def LONG_MIN_def LONG_MAX_def)
  qed
qed

lemma atoi_show: "atoi (show_i32 v) = v"
  using strtol10_show [of "[]" v] by (simp add: atoi_def)

lemma strtol10_shorter: "length (snd (strtol10 s)) \<le> length s"
proof -
  have "length (snd (take_sign u)) \<le> length u" for u by (cases u) auto
  then have "length (dropWhile is_digit (snd (take_sign (dropWhile is_space s)))) \<le> length s"
    by (meson length_dropWhile_le order_trans)
  then show ?thesis by (auto simp: strtol10_def split_beta Let_def)
qed

lemma strchr_Some: "strchr c s = Some r \<Longrightarrow> \<exists>u. s = u @ r \<and> c \<notin> set u \<and> r \<noteq> [] \<and> hd r = c"
proof -
  assume a: "strchr c s = Some r"
  then have r: "r = dropWhile (\<lambda>x. x \<noteq> c) s" "r \<noteq> []" by (auto simp: strchr_def Let_def split: if_splits)
  have "s = takeWhile (\<lambda>x. x \<noteq> c) s @ r" using r(1) by simp
  moreover have "c \<notin> set (takeWhile (\<lambda>x. x \<noteq> c) s)" using set_takeWhileD by fastforce
  moreover have "hd r = c" using r hd_dropWhile [of "\<lambda>x. x \<noteq> c" s] by simp
  ultimately show ?thesis using r(2) by blast
qed

lemma strchr_shorter: "strchr c s = Some r \<Longrightarrow> length r \<le> length s"
  using strchr_Some by fastforce

lemma strchr_append: "c \<notin> set u \<Longrightarrow> strchr c (u @ c # r) = Some (c # r)"
  by (induction u) (auto simp: strchr_def Let_def)

lemma strchr_None: "c \<notin> set s \<Longrightarrow> strchr c s = None"
  by (auto simp: strchr_def Let_def dropWhile_eq_Nil_conv)

end
