(* ===== verification/ParmTypes.thy ===== *)
theory ParmTypes
  imports Complex_Main ParmBatch CamTypes CString
begin

text \<open>
  What the parameters of the HAL are made of: the keys and strings of the parameter map, the capabilities of the
  camera (\<^verbatim>\<open>cam_capability_t\<close>, \<^verbatim>\<open>cam_intf.h\<close>; a table and its count are one list), and the code that is not in
  the repository: Android's class \<^verbatim>\<open>CameraParameters\<close> with the strings it declares, the system properties, and the
  rounding of \<^verbatim>\<open>float\<close> and \<^verbatim>\<open>double\<close> arithmetic.  A \<^verbatim>\<open>float\<close> is the rational number it stands for; an operation
  rounds the exact result with \<^verbatim>\<open>pe_flt\<close>, one on \<^verbatim>\<open>double\<close> with \<^verbatim>\<open>pe_dbl\<close>.
\<close>

section \<open>Keys\<close>

type_synonym parm_string = string

text \<open>A key that the source spells out is its string, \<^verbatim>\<open>QC\<close>; a key that the class \<^verbatim>\<open>CameraParameters\<close> declares is the name of
  the constant, \<^verbatim>\<open>FW\<close>.  The keys of the modes that the HAL itself reads have constructors of their own.\<close>

datatype parm_key =
    KEY_QC_ZSL | KEY_RECORDING_HINT | KEY_QC_NO_DISPLAY_MODE | KEY_QC_CAMERA_MODE
  | KEY_QC_AUTO_EXPOSURE | KEY_QC_ISO_MODE | KEY_AUTO_EXPOSURE_LOCK | KEY_AUTO_WHITEBALANCE_LOCK
  | KEY_QC_MEMORY_COLOR_ENHANCEMENT | KEY_QC_DIS | KEY_QC_VIDEO_HIGH_FRAME_RATE | KEY_QC_LENSSHADE
  | KEY_QC_SELECTABLE_ZONE_AF | KEY_QC_REDEYE_REDUCTION | KEY_QC_VIDEO_HDR
  | KEY_QC_PREVIEW_FLIP | KEY_QC_VIDEO_FLIP | KEY_QC_SNAPSHOT_PICTURE_FLIP
  | QC string | FW string

type_synonym parm_map = "parm_key \<rightharpoonup> parm_string"

section \<open>Capabilities\<close>

record cam_fps_range =
  min_fps :: rat
  max_fps :: rat

record cam_hfr_info =
  hfr_mode :: i32
  hfr_dim :: cam_dimension
  hfr_livesnapshot_sizes_tbl :: "cam_dimension list"

record cam_control_range =
  min_value :: i32
  max_value :: i32
  def_value :: i32
  step_value :: i32

record cam_exp_bracketing =
  eb_mode :: i32
  eb_values :: "u8 list"

record cam_capability =
  supported_iso_modes :: "i32 list"
  supported_flash_modes :: "i32 list"
  zoom_ratio_tbl :: "i32 list"
  supported_effects :: "i32 list"
  supported_scene_modes :: "i32 list"
  supported_aec_modes :: "i32 list"
  fps_ranges_tbl :: "cam_fps_range list"
  supported_antibandings :: "i32 list"
  supported_white_balances :: "i32 list"
  supported_focus_modes :: "i32 list"
  exposure_compensation_min :: i32
  exposure_compensation_max :: i32
  exposure_compensation_default :: i32
  exposure_compensation_step :: rat
  video_stablization_supported :: bool
  focal_length :: rat
  hor_view_angle :: rat
  ver_view_angle :: rat
  preview_sizes_tbl :: "cam_dimension list"
  video_sizes_tbl :: "cam_dimension list"
  picture_sizes_tbl :: "cam_dimension list"
  livesnapshot_sizes_tbl :: "cam_dimension list"
  hfr_tbl :: "cam_hfr_info list"
  supported_preview_fmts :: "i32 list"
  raw_dim :: cam_dimension
  supported_raw_fmts :: "i32 list"
  supported_focus_algos :: "i32 list"
  auto_wb_lock_supported :: bool
  zoom_supported :: bool
  smooth_zoom_supported :: bool
  auto_exposure_lock_supported :: bool
  video_snapshot_supported :: bool
  max_num_roi :: nat
  max_num_focus_areas :: nat
  max_num_metering_areas :: nat
  brightness_ctrl :: cam_control_range
  sharpness_ctrl :: cam_control_range
  contrast_ctrl :: cam_control_range
  saturation_ctrl :: cam_control_range
  sce_ctrl :: cam_control_range
  hdr_num_frames :: u32
  hdr_exp_val :: cam_exp_bracketing
  qcom_supported_feature_mask :: u32
  min_num_pp_bufs :: "8 word"

section \<open>What is not in the repository\<close>

datatype thermal_level = QCAMERA_THERMAL_NO_ADJUSTMENT | QCAMERA_THERMAL_SLIGHT_ADJUSTMENT
  | QCAMERA_THERMAL_BIG_ADJUSTMENT | QCAMERA_THERMAL_SHUTDOWN

text \<open>The methods of \<^verbatim>\<open>CameraParameters\<close> read and print the strings of the map: \<^verbatim>\<open>getInt\<close>, \<^verbatim>\<open>set(key, int)\<close>,
  the sizes, the range of frame rates, and floats.  \<^verbatim>\<open>pe_fw\<close> is the string of a constant of the class.\<close>

record parm_env =
  pe_cap :: cam_capability
  pe_adjust :: "thermal_level option"
  pe_fw :: "string \<Rightarrow> parm_string"
  fw_int :: "parm_string \<Rightarrow> i32"
  fw_show_int :: "i32 \<Rightarrow> parm_string"
  fw_size :: "parm_string \<Rightarrow> cam_dimension"
  fw_show_size :: "cam_dimension \<Rightarrow> parm_string"
  fw_fps_range :: "parm_string \<Rightarrow> i32 \<times> i32"
  fw_float :: "parm_string \<Rightarrow> rat"
  fw_show_float :: "rat \<Rightarrow> parm_string"
  pe_prop :: "string \<Rightarrow> parm_string option"
  pe_prop_max :: nat
  pe_flt :: "rat \<Rightarrow> rat"
  pe_dbl :: "rat \<Rightarrow> rat"
  pe_flt_bytes :: "rat \<Rightarrow> i32"
  pe_malloc :: "nat \<Rightarrow> bool"

text \<open>\<^verbatim>\<open>property_get(name, value, def)\<close>.\<close>

definition property_get :: "parm_env \<Rightarrow> string \<Rightarrow> parm_string \<Rightarrow> parm_string" where
  "property_get e name d = (case pe_prop e name of None \<Rightarrow> d | Some v \<Rightarrow> v)"

text \<open>\<^verbatim>\<open>getInt\<close> answers \<^verbatim>\<open>-1\<close> for a key that is not there, and so do the two parts of a size or a range.\<close>

definition getInt :: "parm_env \<Rightarrow> parm_map \<Rightarrow> parm_key \<Rightarrow> i32" where
  "getInt e m k = (case m k of None \<Rightarrow> - 1 | Some v \<Rightarrow> fw_int e v)"

definition getSize :: "parm_env \<Rightarrow> parm_map \<Rightarrow> parm_key \<Rightarrow> cam_dimension" where
  "getSize e m k = (case m k of None \<Rightarrow> \<lparr>dim_width = - 1, dim_height = - 1\<rparr> | Some v \<Rightarrow> fw_size e v)"

definition getRange :: "parm_env \<Rightarrow> parm_map \<Rightarrow> parm_key \<Rightarrow> i32 \<times> i32" where
  "getRange e m k = (case m k of None \<Rightarrow> (- 1, - 1) | Some v \<Rightarrow> fw_fps_range e v)"

definition getFloat :: "parm_env \<Rightarrow> parm_map \<Rightarrow> parm_key \<Rightarrow> rat" where
  "getFloat e m k = (case m k of None \<Rightarrow> - 1 | Some v \<Rightarrow> fw_float e v)"

text \<open>The conversion of a floating-point number to \<^verbatim>\<open>int\<close> drops the fraction.\<close>

definition trunc_int :: "rat \<Rightarrow> int" where
  "trunc_int r = (if 0 \<le> r then \<lfloor>r\<rfloor> else \<lceil>r\<rceil>)"

definition conv_int :: "rat \<Rightarrow> i32" where
  "conv_int r = word_of_int (trunc_int r)"

definition of_i32 :: "i32 \<Rightarrow> rat" where
  "of_i32 v = of_int (sint v)"

end
