(* ===== verification/ParmTables.thy ===== *)
theory ParmTables
  imports ParmTypes
begin

text \<open>
  The tables of names of \<^verbatim>\<open>camera/QCamera2/HAL/QCameraParameters.cpp\<close>, the look-ups in them, and the functions that
  print lists of supported values and parse lists of sizes.  A table entry is a string and the value of the enum that
  it stands for (\<^verbatim>\<open>cam_types.h\<close>); the strings that the class \<^verbatim>\<open>CameraParameters\<close> declares are \<^verbatim>\<open>fw\<close> of their name.
\<close>

type_synonym name_table = "(parm_string \<times> i32) list"

section \<open>Tables of names\<close>

definition AUTO_EXPOSURE_MAP :: name_table where
  "AUTO_EXPOSURE_MAP = [(''frame-average'', 0), (''center-weighted'', 1), (''spot-metering'', 2),
     (''smart-metering'', 3), (''user-metering'', 4), (''spot-metering-adv'', 5),
     (''center-weighted-adv'', 6)]"

definition PREVIEW_FORMATS_MAP :: "(string \<Rightarrow> parm_string) \<Rightarrow> name_table" where
  "PREVIEW_FORMATS_MAP fw = [(fw ''PIXEL_FORMAT_YUV420SP'', 2), (fw ''PIXEL_FORMAT_YUV420P'', 4), (''yuv420sp-adreno'', 3),
     (''yuv420p'', 4), (''nv12'', 1), (''nv12-venus'', 7)]"

definition PICTURE_TYPES_MAP :: "(string \<Rightarrow> parm_string) \<Rightarrow> name_table" where
  "PICTURE_TYPES_MAP fw = [(fw ''PIXEL_FORMAT_JPEG'', 0), (fw ''PIXEL_FORMAT_YUV422SP'', 5), (''yuv-raw8-yuyv'', 8), (''yuv-raw8-yvyu'', 9),
     (''yuv-raw8-uyvy'', 10), (''yuv-raw8-vyuy'', 11), (''bayer-qcom-8gbrg'', 12), (''bayer-qcom-8grbg'', 13),
     (''bayer-qcom-8rggb'', 14), (''bayer-qcom-8bggr'', 15), (''bayer-qcom-10gbrg'', 16), (''bayer-qcom-10grbg'', 17),
     (''bayer-qcom-10rggb'', 18), (''bayer-qcom-10bggr'', 19), (''bayer-qcom-12gbrg'', 20), (''bayer-qcom-12grbg'', 21),
     (''bayer-qcom-12rggb'', 22), (''bayer-qcom-12bggr'', 23), (''bayer-mipi-8gbrg'', 24), (''bayer-mipi-8grbg'', 25),
     (''bayer-mipi-8rggb'', 26), (''bayer-mipi-8bggr'', 27), (''bayer-mipi-10gbrg'', 28), (''bayer-mipi-10grbg'', 29),
     (''bayer-mipi-10rggb'', 30), (''bayer-mipi-10bggr'', 31), (''bayer-mipi-12gbrg'', 32), (''bayer-mipi-12grbg'', 33),
     (''bayer-mipi-12rggb'', 34), (''bayer-mipi-12bggr'', 35), (''bayer-ideal-qcom-8gbrg'', 36), (''bayer-ideal-qcom-8grbg'', 37),
     (''bayer-ideal-qcom-8rggb'', 38), (''bayer-ideal-qcom-8bggr'', 39), (''bayer-ideal-qcom-10gbrg'', 40), (''bayer-ideal-qcom-10grbg'', 41),
     (''bayer-ideal-qcom-10rggb'', 42), (''bayer-ideal-qcom-10bggr'', 43), (''bayer-ideal-qcom-12gbrg'', 44), (''bayer-ideal-qcom-12grbg'', 45),
     (''bayer-ideal-qcom-12rggb'', 46), (''bayer-ideal-qcom-12bggr'', 47), (''bayer-ideal-mipi-8gbrg'', 48), (''bayer-ideal-mipi-8grbg'', 49),
     (''bayer-ideal-mipi-8rggb'', 50), (''bayer-ideal-mipi-8bggr'', 51), (''bayer-ideal-mipi-10gbrg'', 52), (''bayer-ideal-mipi-10grbg'', 53),
     (''bayer-ideal-mipi-10rggb'', 54), (''bayer-ideal-mipi-10bggr'', 55), (''bayer-ideal-mipi-12gbrg'', 56), (''bayer-ideal-mipi-12grbg'', 57),
     (''bayer-ideal-mipi-12rggb'', 58), (''bayer-ideal-mipi-12bggr'', 59), (''bayer-ideal-plain8-8gbrg'', 60), (''bayer-ideal-plain8-8grbg'', 61),
     (''bayer-ideal-plain8-8rggb'', 62), (''bayer-ideal-plain8-8bggr'', 63), (''bayer-ideal-plain16-8gbrg'', 64), (''bayer-ideal-plain16-8grbg'', 65),
     (''bayer-ideal-plain16-8rggb'', 66), (''bayer-ideal-plain16-8bggr'', 67), (''bayer-ideal-plain16-10gbrg'', 68), (''bayer-ideal-plain16-10grbg'', 69),
     (''bayer-ideal-plain16-10rggb'', 70), (''bayer-ideal-plain16-10bggr'', 71), (''bayer-ideal-plain16-12gbrg'', 72), (''bayer-ideal-plain16-12grbg'', 73),
     (''bayer-ideal-plain16-12rggb'', 74), (''bayer-ideal-plain16-12bggr'', 75)]"

definition FOCUS_MODES_MAP :: "(string \<Rightarrow> parm_string) \<Rightarrow> name_table" where
  "FOCUS_MODES_MAP fw = [(fw ''FOCUS_MODE_AUTO'', 0), (fw ''FOCUS_MODE_INFINITY'', 1),
     (fw ''FOCUS_MODE_MACRO'', 2), (fw ''FOCUS_MODE_FIXED'', 3),
     (fw ''FOCUS_MODE_EDOF'', 4), (fw ''FOCUS_MODE_CONTINUOUS_PICTURE'', 6),
     (fw ''FOCUS_MODE_CONTINUOUS_VIDEO'', 5)]"

definition EFFECT_MODES_MAP :: "(string \<Rightarrow> parm_string) \<Rightarrow> name_table" where
  "EFFECT_MODES_MAP fw = [(fw ''EFFECT_NONE'', 0), (fw ''EFFECT_MONO'', 1), (fw ''EFFECT_NEGATIVE'', 2),
     (fw ''EFFECT_SOLARIZE'', 3), (fw ''EFFECT_SEPIA'', 4), (fw ''EFFECT_POSTERIZE'', 5),
     (fw ''EFFECT_WHITEBOARD'', 6), (fw ''EFFECT_BLACKBOARD'', 7), (fw ''EFFECT_AQUA'', 8),
     (''emboss'', 9), (''sketch'', 10), (''neon'', 11)]"

definition SCENE_MODES_MAP :: "(string \<Rightarrow> parm_string) \<Rightarrow> name_table" where
  "SCENE_MODES_MAP fw = [(fw ''SCENE_MODE_AUTO'', 0), (fw ''SCENE_MODE_ACTION'', 17), (fw ''SCENE_MODE_PORTRAIT'', 7),
     (fw ''SCENE_MODE_LANDSCAPE'', 2), (fw ''SCENE_MODE_NIGHT'', 6), (fw ''SCENE_MODE_NIGHT_PORTRAIT'', 15),
     (fw ''SCENE_MODE_THEATRE'', 16), (fw ''SCENE_MODE_BEACH'', 4), (fw ''SCENE_MODE_SNOW'', 3),
     (fw ''SCENE_MODE_SUNSET'', 5), (fw ''SCENE_MODE_STEADYPHOTO'', 10), (fw ''SCENE_MODE_FIREWORKS'', 13),
     (fw ''SCENE_MODE_SPORTS'', 9), (fw ''SCENE_MODE_PARTY'', 14), (fw ''SCENE_MODE_CANDLELIGHT'', 12),
     (''asd'', 1), (''backlight'', 8), (''flowers'', 11),
     (''AR'', 18), (''hdr'', 21)]"

definition FLASH_MODES_MAP :: "(string \<Rightarrow> parm_string) \<Rightarrow> name_table" where
  "FLASH_MODES_MAP fw = [(fw ''FLASH_MODE_OFF'', 0), (fw ''FLASH_MODE_AUTO'', 1),
     (fw ''FLASH_MODE_ON'', 2), (fw ''FLASH_MODE_TORCH'', 3)]"

definition FOCUS_ALGO_MAP :: name_table where
  "FOCUS_ALGO_MAP = [(''auto'', 0), (''spot-metering'', 1),
     (''center-weighted'', 2), (''frame-average'', 3)]"

definition WHITE_BALANCE_MODES_MAP :: "(string \<Rightarrow> parm_string) \<Rightarrow> name_table" where
  "WHITE_BALANCE_MODES_MAP fw = [(fw ''WHITE_BALANCE_AUTO'', 0), (fw ''WHITE_BALANCE_INCANDESCENT'', 2),
     (fw ''WHITE_BALANCE_FLUORESCENT'', 3), (fw ''WHITE_BALANCE_WARM_FLUORESCENT'', 4),
     (fw ''WHITE_BALANCE_DAYLIGHT'', 5), (fw ''WHITE_BALANCE_CLOUDY_DAYLIGHT'', 6),
     (fw ''WHITE_BALANCE_TWILIGHT'', 7), (fw ''WHITE_BALANCE_SHADE'', 8)]"

definition ANTIBANDING_MODES_MAP :: "(string \<Rightarrow> parm_string) \<Rightarrow> name_table" where
  "ANTIBANDING_MODES_MAP fw = [(fw ''ANTIBANDING_OFF'', 0), (fw ''ANTIBANDING_50HZ'', 2),
     (fw ''ANTIBANDING_60HZ'', 1), (fw ''ANTIBANDING_AUTO'', 3)]"

definition ISO_MODES_MAP :: name_table where
  "ISO_MODES_MAP = [(''auto'', 0), (''ISO_HJR'', 1), (''ISO100'', 2), (''ISO200'', 3),
     (''ISO400'', 4), (''ISO800'', 5), (''ISO1600'', 6)]"

definition HFR_MODES_MAP :: name_table where
  "HFR_MODES_MAP = [(''off'', 0), (''60'', 1), (''90'', 2), (''120'', 3), (''150'', 4)]"

definition BRACKETING_MODES_MAP :: name_table where
  "BRACKETING_MODES_MAP = [(''Off'', 0), (''AE-Bracket'', 1)]"

definition ON_OFF_MODES_MAP :: name_table where
  "ON_OFF_MODES_MAP = [(''off'', 0), (''on'', 1)]"

definition TOUCH_AF_AEC_MODES_MAP :: name_table where
  "TOUCH_AF_AEC_MODES_MAP = [(''touch-off'', 0), (''touch-on'', 1)]"

definition ENABLE_DISABLE_MODES_MAP :: name_table where
  "ENABLE_DISABLE_MODES_MAP = [(''enable'', 1), (''disable'', 0)]"

definition DENOISE_ON_OFF_MODES_MAP :: name_table where
  "DENOISE_ON_OFF_MODES_MAP = [(''denoise-off'', 0), (''denoise-on'', 1)]"

definition TRUE_FALSE_MODES_MAP :: name_table where
  "TRUE_FALSE_MODES_MAP = [(''false'', 0), (''true'', 1)]"

definition FLIP_MODES_MAP :: name_table where
  "FLIP_MODES_MAP = [(''off'', 0), (''flip-v'', 2), (''flip-h'', 1), (''flip-vh'', 3)]"

definition THUMBNAIL_SIZES_MAP :: "cam_dimension list" where
  "THUMBNAIL_SIZES_MAP = map (\<lambda>(w, h). \<lparr>dim_width = w, dim_height = h\<rparr>)
     [(512, 288), (480, 288), (256, 154), (432, 288), (320, 240), (176, 144), (0, 0)]"

section \<open>Look-ups\<close>

fun lookupAttr :: "name_table \<Rightarrow> parm_string option \<Rightarrow> i32" where
  "lookupAttr arr None = NAME_NOT_FOUND"
| "lookupAttr [] (Some name) = NAME_NOT_FOUND"
| "lookupAttr ((desc, v) # arr) (Some name) = (if desc = name then v else lookupAttr arr (Some name))"

fun lookupNameByValue :: "name_table \<Rightarrow> i32 \<Rightarrow> parm_string option" where
  "lookupNameByValue [] value = None"
| "lookupNameByValue ((desc, v) # arr) value = (if v = value then Some desc else lookupNameByValue arr value)"

text \<open>\<^verbatim>\<open>lookupAttr\<close> called with the length of another table: the entries that it may read.  \<^verbatim>\<open>None\<close>: it reads past the
  end of the table.\<close>

definition lookupAttr_len :: "name_table \<Rightarrow> nat \<Rightarrow> parm_string option \<Rightarrow> i32 option" where
  "lookupAttr_len arr len name =
     (case name of None \<Rightarrow> Some NAME_NOT_FOUND
      | Some s \<Rightarrow> if s \<in> set (map fst (take len arr)) then Some (lookupAttr (take len arr) name)
                  else if len \<le> length arr then Some NAME_NOT_FOUND else None)"

section \<open>Printing\<close>

text \<open>\<^verbatim>\<open>snprintf\<close> of \<^verbatim>\<open>"%dx%d"\<close> and its like into a buffer of 32 bytes.\<close>

definition print_pair :: "string \<Rightarrow> string \<Rightarrow> string \<Rightarrow> i32 \<Rightarrow> i32 \<Rightarrow> string" where
  "print_pair pre mid post a b = fit 32 (pre @ show_i32 a @ mid @ show_i32 b @ post)"

definition print_size :: "string \<Rightarrow> cam_dimension \<Rightarrow> string" where
  "print_size pre d = print_pair pre ''x'' [] (dim_width d) (dim_height d)"

fun createSizesString :: "cam_dimension list \<Rightarrow> string" where
  "createSizesString [] = []"
| "createSizesString (d # ds) = print_size [] d @ concat (map (print_size '','') ds)"

text \<open>The loops over a table: the first entry with the value, and the comma in front of all but the first name.\<close>

fun add_names :: "nat \<Rightarrow> i32 list \<Rightarrow> name_table \<Rightarrow> string" where
  "add_names count [] tbl = []"
| "add_names count (v # vs) tbl =
     (case lookupNameByValue tbl v of
        None \<Rightarrow> add_names count vs tbl
      | Some desc \<Rightarrow> (if 0 < count then '','' else []) @ desc @ add_names (Suc count) vs tbl)"

definition createValuesString :: "i32 list \<Rightarrow> name_table \<Rightarrow> string" where
  "createValuesString values tbl = add_names 0 values tbl"

definition createHfrValuesString :: "cam_hfr_info list \<Rightarrow> name_table \<Rightarrow> string" where
  "createHfrValuesString values tbl = add_names 0 (map hfr_mode values) tbl"

fun add_descs :: "nat \<Rightarrow> name_table \<Rightarrow> string" where
  "add_descs i [] = []"
| "add_descs i ((desc, v) # tbl) = (if 0 < i then '','' else []) @ desc @ add_descs (Suc i) tbl"

definition createValuesStringFromMap :: "name_table \<Rightarrow> string" where
  "createValuesStringFromMap tbl = add_descs 0 tbl"

fun createZoomRatioValuesString :: "i32 list \<Rightarrow> string" where
  "createZoomRatioValuesString [] = []"
| "createZoomRatioValuesString (z # zs) = fit 32 (show_i32 z) @ concat (map (\<lambda>z. fit 32 ('','' @ show_i32 z)) zs)"

definition createHfrSizesString :: "cam_hfr_info list \<Rightarrow> string" where
  "createHfrSizesString values = createSizesString (map hfr_dim values)"

text \<open>The whole frame rates of a range.  The second correction of the code never applies: truncation does not raise a
  positive rate.\<close>

definition createFpsString :: "cam_fps_range \<Rightarrow> string" where
  "createFpsString fps =
     (let lo = trunc_int (min_fps fps); hi = trunc_int (max_fps fps);
          lo = (if of_int lo < min_fps fps then lo + 1 else lo);
          hi = (if of_int hi > max_fps fps then hi - 1 else hi) in
      (if lo \<le> hi then fit 32 (show_int lo) else []) @ concat (map (\<lambda>i. fit 32 ('','' @ show_int i)) [lo + 1..hi]))"

definition milli :: "parm_env \<Rightarrow> rat \<Rightarrow> i32" where
  "milli e f = conv_int (pe_flt e (f * 1000))"

text \<open>The printed ranges and the index of the widest one, with its width.\<close>

fun fps_ranges :: "parm_env \<Rightarrow> nat \<Rightarrow> cam_fps_range list \<Rightarrow> i32 \<Rightarrow> nat \<Rightarrow> string \<times> nat" where
  "fps_ranges e i [] max_range idx = ([], idx)"
| "fps_ranges e i (r # rs) max_range idx =
     (let lo = milli e (min_fps r); hi = milli e (max_fps r);
          (max_range, idx) = (if sint max_range < sint (hi - lo) then (hi - lo, i) else (max_range, idx));
          (str, idx) = fps_ranges e (Suc i) rs max_range idx in
      (print_pair '',('' '','' '')'' lo hi @ str, idx))"

fun createFpsRangeString :: "parm_env \<Rightarrow> cam_fps_range list \<Rightarrow> nat \<Rightarrow> string \<times> nat" where
  "createFpsRangeString e [] idx = ([], idx)"
| "createFpsRangeString e (r # rs) idx =
     (let lo = milli e (min_fps r); hi = milli e (max_fps r);
          (str, idx) = fps_ranges e 1 rs (hi - lo) 0 in
      (print_pair ''('' '','' '')'' lo hi @ str, idx))"

section \<open>Parsing\<close>

text \<open>\<^verbatim>\<open>parse_pair\<close>: the two numbers and the rest of the string, or the error.\<close>

definition parse_pair :: "string \<Rightarrow> char \<Rightarrow> i32 + i32 \<times> i32 \<times> string" where
  "parse_pair str delim =
     (let (w, r) = strtol10 str in
      case r of [] \<Rightarrow> Inl BAD_VALUE
      | c # r \<Rightarrow> if c \<noteq> delim then Inl BAD_VALUE else (let (h, r) = strtol10 r in Inr (w, h, r)))"

text \<open>\<^verbatim>\<open>parseSizesList\<close> tests the status against \<^verbatim>\<open>-1\<close>, which \<^verbatim>\<open>parse_pair\<close> never returns: after a failure it goes on
  with the position where it was, and with width and height that were never written, \<^verbatim>\<open>None\<close> in the list.\<close>

function parseSizesList :: "string \<Rightarrow> cam_dimension option list" where
  "parseSizesList s =
     (let (sz, s') = (case parse_pair s CHR ''x'' of
                        Inl _ \<Rightarrow> (None, s)
                      | Inr (w, h, r) \<Rightarrow> (Some \<lparr>dim_width = w, dim_height = h\<rparr>, r)) in
      case s' of
        [] \<Rightarrow> [sz]
      | c # t \<Rightarrow> if c \<noteq> CHR '','' then [] else sz # parseSizesList t)"
  by pat_completeness auto

lemma parse_pair_shorter: "parse_pair s d = Inr (w, h, r) \<Longrightarrow> length r < length s"
proof -
  assume a: "parse_pair s d = Inr (w, h, r)"
  obtain w' r1 where 1: "strtol10 s = (w', r1)" by force
  with a obtain t where t: "r1 = d # t" "strtol10 t = (h, r)"
    by (auto simp: parse_pair_def split: list.splits if_splits prod.splits)
  have "length r1 \<le> length s" "length r \<le> length t" using strtol10_shorter [of s] strtol10_shorter [of t] 1 t by simp_all
  then show ?thesis using t(1) by simp
qed

termination parseSizesList
proof (relation "measure length")
  fix s :: string and x sz s' c t
  assume a: "x = (case parse_pair s CHR ''x'' of Inl _ \<Rightarrow> (None, s) | Inr (w, h, r) \<Rightarrow> (Some \<lparr>dim_width = w, dim_height = h\<rparr>, r))"
    "(sz, s') = x" "s' = c # t" "\<not> c \<noteq> CHR '',''"
  then have "length s' \<le> length s"
    using parse_pair_shorter [of s "CHR ''x''"] by (auto split: sum.splits prod.splits intro: less_imp_le)
  with a(3) show "(t, s) \<in> measure length" by simp
qed simp

declare parseSizesList.simps [simp del]

definition getSupportedHfrSizes :: "parm_map \<Rightarrow> parm_key \<Rightarrow> cam_dimension option list" where
  "getSupportedHfrSizes m k = (case m k of None \<Rightarrow> [] | Some s \<Rightarrow> parseSizesList s)"

end
