(* ===== verification/HalBase.thy ===== *)
theory HalBase
  imports ParmTables
begin

text \<open>
  The state of the camera HAL (\<^verbatim>\<open>QCamera2HardwareInterface\<close>, \<^verbatim>\<open>camera/QCamera2/HAL/QCamera2HWI.cpp\<close> and
  the objects it owns), its events, and the calls it makes to the layers below.  Those calls are recorded in
  \<^verbatim>\<open>hal_trace\<close>; what they return is the environment's choice, \<^verbatim>\<open>he_ret\<close>, and may depend on everything that was
  called before.
\<close>

section \<open>Events of the state machine\<close>

datatype cam_focus_state = CAM_AF_SCANNING | CAM_AF_FOCUSED | CAM_AF_NOT_FOCUSED

datatype thermal_mode = QCAMERA_THERMAL_ADJUST_FPS | QCAMERA_THERMAL_ADJUST_FRAMESKIP

text \<open>The numbers of the frame skip patterns come from a header of the kernel.\<close>

datatype skip_pattern = NO_SKIP | EVERY_2FRAME | EVERY_4FRAME | MAX_SKIP

datatype internal_evt =
    QCAMERA_INTERNAL_EVT_FOCUS_UPDATE cam_focus_state
  | QCAMERA_INTERNAL_EVT_PREP_SNAPSHOT_DONE cam_prep_snapshot_state
  | QCAMERA_INTERNAL_EVT_FACE_DETECT_RESULT addr
  | QCAMERA_INTERNAL_EVT_HISTOGRAM_STATS addr
  | QCAMERA_INTERNAL_EVT_CROP_INFO addr
  | QCAMERA_INTERNAL_EVT_MAX

record hal_callbacks =
  notify_cb :: addr
  data_cb :: addr
  data_cb_timestamp :: addr
  get_memory :: addr
  cb_user :: addr

text \<open>An event with its payload: the C++ code passes a number and an untyped pointer, which each handler casts
  to the type that belongs to the number.\<close>

datatype sm_evt =
    SET_PREVIEW_WINDOW addr | SET_CALLBACKS hal_callbacks | ENABLE_MSG_TYPE i32 | DISABLE_MSG_TYPE i32
  | MSG_TYPE_ENABLED i32 | SET_PARAMS "(parm_key \<times> parm_string) list" | GET_PARAMS | PUT_PARAMS addr
  | START_PREVIEW | START_NODISPLAY_PREVIEW | STOP_PREVIEW | PREVIEW_ENABLED
  | STORE_METADATA_IN_BUFS i32 | START_RECORDING | STOP_RECORDING | RECORDING_ENABLED
  | RELEASE_RECORIDNG_FRAME addr | PREPARE_SNAPSHOT | TAKE_PICTURE | CANCEL_PICTURE
  | START_AUTO_FOCUS | STOP_AUTO_FOCUS | SEND_COMMAND i32 i32 i32 | RELEASE | DUMP i32
  | REG_FACE_IMAGE addr addr
  | EVT_INTERNAL internal_evt | EVT_NOTIFY u32 | JPEG_EVT_NOTIFY addr | SNAPSHOT_DONE
  | THERMAL_NOTIFY thermal_level

fun evt_code :: "sm_evt \<Rightarrow> nat" where
  "evt_code (SET_PREVIEW_WINDOW _) = 1" | "evt_code (SET_CALLBACKS _) = 2" | "evt_code (ENABLE_MSG_TYPE _) = 3"
| "evt_code (DISABLE_MSG_TYPE _) = 4" | "evt_code (MSG_TYPE_ENABLED _) = 5" | "evt_code (SET_PARAMS _) = 6"
| "evt_code GET_PARAMS = 7" | "evt_code (PUT_PARAMS _) = 8" | "evt_code START_PREVIEW = 9"
| "evt_code START_NODISPLAY_PREVIEW = 10" | "evt_code STOP_PREVIEW = 11" | "evt_code PREVIEW_ENABLED = 12"
| "evt_code (STORE_METADATA_IN_BUFS _) = 13" | "evt_code START_RECORDING = 14" | "evt_code STOP_RECORDING = 15"
| "evt_code RECORDING_ENABLED = 16" | "evt_code (RELEASE_RECORIDNG_FRAME _) = 17" | "evt_code PREPARE_SNAPSHOT = 18"
| "evt_code TAKE_PICTURE = 19" | "evt_code CANCEL_PICTURE = 20" | "evt_code START_AUTO_FOCUS = 21"
| "evt_code STOP_AUTO_FOCUS = 22" | "evt_code (SEND_COMMAND _ _ _) = 23" | "evt_code RELEASE = 24"
| "evt_code (DUMP _) = 25" | "evt_code (REG_FACE_IMAGE _ _) = 26" | "evt_code (EVT_INTERNAL _) = 27"
| "evt_code (EVT_NOTIFY _) = 28" | "evt_code (JPEG_EVT_NOTIFY _) = 29" | "evt_code SNAPSHOT_DONE = 30"
| "evt_code (THERMAL_NOTIFY _) = 31"

definition is_api :: "sm_evt \<Rightarrow> bool" where
  "is_api evt \<longleftrightarrow> evt_code evt \<le> 26"

datatype result_type = RESULT_DEF | RESULT_ENABLE_FLAG i32 | RESULT_PARAMS addr | RESULT_HANDLE i32

record api_result =
  ar_status :: i32
  request_api :: nat
  ar_value :: result_type

definition api_result_zero :: api_result where
  "api_result_zero = \<lparr>ar_status = 0, request_api = 0, ar_value = RESULT_DEF\<rparr>"

section \<open>Calls to the layers below\<close>

datatype ch_type = QCAMERA_CH_TYPE_ZSL | QCAMERA_CH_TYPE_CAPTURE | QCAMERA_CH_TYPE_PREVIEW
  | QCAMERA_CH_TYPE_VIDEO | QCAMERA_CH_TYPE_SNAPSHOT | QCAMERA_CH_TYPE_RAW | QCAMERA_CH_TYPE_METADATA

datatype dev_call =
    Set_parms "(nat \<times> u8 list) list"
  | Add_channel "mm_camera_channel_attr option"
  | Delete_channel u32
  | Get_bundle_info u32
  | Start_channel u32
  | Stop_channel u32
  | Stream_info_buf cam_stream_type
  | Add_stream u32
  | Map_stream_info u32 u32
  | Unmap_stream_info u32 u32
  | Config_stream u32 u32 cam_stream_type
  | Delete_stream u32 u32
  | Stream_thread_start u32 u32
  | Stream_thread_stop u32 u32
  | Stream_set_bundle u32 u32
  | Stream_set_flip u32 u32
  | Stream_zoom_done u32 u32 addr
  | Stream_buf_done u32 u32 addr bool
  | Request_super_buf u32 u8
  | Cancel_super_buf_request u32
  | Prepare_snapshot i32
  | Do_auto_focus
  | Cancel_auto_focus
  | Postproc_start u32
  | Postproc_stop
  | Postproc_jpeg_evt addr
  | Notify_set_callbacks hal_callbacks
  | Notify_callback i32 i32 i32
  | Send_face_detect addr
  | Send_histogram addr
  | Register_face_image addr addr
  | Get_params_string
  | Free_params_string addr
  | Map_parm_buf
  | Unmap_parm_buf

section \<open>State\<close>

text \<open>\<^verbatim>\<open>m_overrun\<close> is no field of the code: it records that a setter has written past a buffer, after which the program is
  undefined; the model goes on as if the setter had failed.\<close>

record parameters =
  p_map :: parm_map
  m_tempMap :: parm_map
  m_pParamBuf :: "(nat \<times> u8 list) list"
  m_bZslMode :: bool
  m_bZslMode_new :: bool
  m_bRecordingHint :: bool
  m_bRecordingHint_new :: bool
  m_bNeedRestart :: bool
  m_bNoDisplayMode :: bool
  m_bHistogramEnabled :: bool
  m_nFaceProcMask :: i32
  m_bNeedLockCAF :: bool
  m_bCAFLocked :: bool
  m_bAFRunning :: bool
  m_bPreviewFlipChanged :: bool
  m_bVideoFlipChanged :: bool
  m_bSnapshotFlipChanged :: bool
  m_bUpdateEffects :: bool
  m_bSceneTransitionAuto :: bool
  m_bHDREnabled :: bool
  m_HDRSceneEnabled :: bool
  m_bHDR1xFrameEnabled :: bool
  m_bHDR1xExtraBufferNeeded :: bool
  m_bHDRThumbnailProcessNeeded :: bool
  mPreviewFormat :: nat
  mPictureFormat :: nat
  mFocusMode :: nat
  m_bWNROn :: bool
  m_bDebugFps :: bool
  m_bInited :: bool
  m_bFixedFrameRateSet :: bool
  m_nBurstNum :: i32
  m_AEBracketingClient :: cam_exp_bracketing
  m_LiveSnapshotSize :: cam_dimension
  m_ThermalMode :: thermal_mode
  m_pParamHeap :: bool
  m_overrun :: bool

text \<open>A stream of a channel: its handle and its type.\<close>

type_synonym hal_stream = "u32 \<times> cam_stream_type"

record hal_channel =
  hc_handle :: u32
  hc_active :: bool
  hc_streams :: "hal_stream list"

datatype qcamera_state =
    QCAMERA_SM_STATE_PREVIEW_STOPPED | QCAMERA_SM_STATE_PREVIEW_READY | QCAMERA_SM_STATE_PREVIEWING
  | QCAMERA_SM_STATE_PREPARE_SNAPSHOT | QCAMERA_SM_STATE_PIC_TAKING | QCAMERA_SM_STATE_RECORDING
  | QCAMERA_SM_STATE_VIDEO_PIC_TAKING | QCAMERA_SM_STATE_PREVIEW_PIC_TAKING

record hal =
  m_state :: qcamera_state
  m_channels :: "ch_type \<Rightarrow> hal_channel option"
  mPreviewWindow :: addr
  mMsgEnabled :: i32
  mStoreMetaDataInFrame :: i32
  m_callbacks :: hal_callbacks
  m_currentFocusState :: cam_focus_state
  mThermalLevel :: thermal_level
  mParameters :: parameters
  api_signals :: "api_result list"
  evt_signals :: "api_result list"
  hal_trace :: "dev_call list"

datatype setter =
    SetPreviewSize | SetVideoSize | SetPictureSize | SetPreviewFormat | SetPictureFormat | SetJpegThumbnailSize
  | SetJpegQuality | SetOrientation | SetRotation | SetNoDisplayMode | SetZslMode | SetZslAttributes
  | SetCameraMode | SetRecordingHint | SetPreviewFrameRate | SetPreviewFpsRange | SetAutoExposure | SetEffect
  | SetBrightness | SetZoom | SetSharpness | SetSaturation | SetContrast | SetFocusMode | SetISOValue
  | SetSkinToneEnhancement | SetFlash | SetAecLock | SetAwbLock | SetLensShadeValue | SetMCEValue | SetDISValue
  | SetHighFrameRate | SetAntibanding | SetExposureCompensation | SetWhiteBalance | SetSceneMode | SetFocusAreas
  | SetMeteringAreas | SetSelectableZoneAf | SetRedeyeReduction | SetAEBracket | SetGpsLocation
  | SetWaveletDenoise | SetFaceRecognition | SetFlip | SetVideoHDR | SetBurstNum | SetLiveSnapshotSize

text \<open>The commands of \<^verbatim>\<open>send_command\<close>; their numbers come from a header of the platform.\<close>

datatype hal_cmd = CAMERA_CMD_HISTOGRAM_ON | CAMERA_CMD_HISTOGRAM_OFF | CAMERA_CMD_START_FACE_DETECTION
  | CAMERA_CMD_STOP_FACE_DETECTION | CAMERA_CMD_OTHER

record hal_env =
  he_ret :: "dev_call list \<Rightarrow> dev_call \<Rightarrow> i32"
  he_parm :: parm_env
  he_face_id :: "dev_call list \<Rightarrow> i32"
  he_new_fails :: "dev_call list \<Rightarrow> bool"
  he_bundle :: "dev_call list \<Rightarrow> nat list"
  he_cmd :: "i32 \<Rightarrow> hal_cmd"
  he_skip_pattern :: "skip_pattern \<Rightarrow> i32"

definition dev :: "hal_env \<Rightarrow> dev_call \<Rightarrow> hal \<Rightarrow> hal \<times> i32" where
  "dev e c s = (s\<lparr>hal_trace := hal_trace s @ [c]\<rparr>, he_ret e (hal_trace s) c)"

text \<open>A call whose result the code ignores.\<close>

definition dev' :: "hal_env \<Rightarrow> dev_call \<Rightarrow> hal \<Rightarrow> hal" where
  "dev' e c s = fst (dev e c s)"

text \<open>The range of frame rates is adjusted to the thermal level of the HAL, \<^verbatim>\<open>m_AdjustFPS\<close>.\<close>

definition adjusting :: "hal_env \<Rightarrow> hal \<Rightarrow> parm_env" where
  "adjusting e s = (he_parm e)\<lparr>pe_adjust := Some (mThermalLevel s)\<rparr>"

definition signalAPIResult :: "api_result \<Rightarrow> hal \<Rightarrow> hal" where
  "signalAPIResult r s = s\<lparr>api_signals := api_signals s @ [r]\<rparr>"

definition signalEvtResult :: "api_result \<Rightarrow> hal \<Rightarrow> hal" where
  "signalEvtResult r s = s\<lparr>evt_signals := evt_signals s @ [r]\<rparr>"

end
