(* ===== verification/HalParams.thy ===== *)
theory HalParams
  imports HalBase
begin

text \<open>
  The parameters of the HAL, \<^verbatim>\<open>camera/QCamera2/HAL/QCameraParameters.cpp\<close>: the batch of entries, the strings that
  take effect at once and those that stay pending in \<^verbatim>\<open>m_tempMap\<close>, the setters of the modes that are looked up in a
  table, and the functions that send one entry at once.  The other setters are in the theories \<^verbatim>\<open>ParmSize\<close>,
  \<^verbatim>\<open>ParmControl\<close> and \<^verbatim>\<open>ParmArea\<close>.  \<^verbatim>\<open>m_pParamBuf\<close> is the list of the entries added
  since the last \<^verbatim>\<open>initBatchUpdate\<close>; theory \<^verbatim>\<open>ParmBatch\<close> shows what the table built from such a list holds, and
  theory \<^verbatim>\<open>ParmFrame\<close> that every entry fits into it.
\<close>

definition CAM_INTF_PARM_ANTIBANDING :: nat where "CAM_INTF_PARM_ANTIBANDING = 1"
definition CAM_INTF_PARM_EXPOSURE_COMPENSATION :: nat where "CAM_INTF_PARM_EXPOSURE_COMPENSATION = 2"
definition CAM_INTF_PARM_WHITE_BALANCE :: nat where "CAM_INTF_PARM_WHITE_BALANCE = 6"
definition CAM_INTF_PARM_EFFECT :: nat where "CAM_INTF_PARM_EFFECT = 7"
definition CAM_INTF_PARM_BESTSHOT_MODE :: nat where "CAM_INTF_PARM_BESTSHOT_MODE = 8"
definition CAM_INTF_PARM_LED_MODE :: nat where "CAM_INTF_PARM_LED_MODE = 10"
definition CAM_INTF_PARM_SHARPNESS :: nat where "CAM_INTF_PARM_SHARPNESS = 16"
definition CAM_INTF_PARM_CONTRAST :: nat where "CAM_INTF_PARM_CONTRAST = 17"
definition CAM_INTF_PARM_SATURATION :: nat where "CAM_INTF_PARM_SATURATION = 18"
definition CAM_INTF_PARM_BRIGHTNESS :: nat where "CAM_INTF_PARM_BRIGHTNESS = 19"
definition CAM_INTF_PARM_ZOOM :: nat where "CAM_INTF_PARM_ZOOM = 21"
definition CAM_INTF_PARM_AEC_ROI :: nat where "CAM_INTF_PARM_AEC_ROI = 26"
definition CAM_INTF_PARM_AF_ROI :: nat where "CAM_INTF_PARM_AF_ROI = 27"
definition CAM_INTF_PARM_FOCUS_MODE :: nat where "CAM_INTF_PARM_FOCUS_MODE = 28"
definition CAM_INTF_PARM_SCE_FACTOR :: nat where "CAM_INTF_PARM_SCE_FACTOR = 29"
definition CAM_INTF_PARM_WAVELET_DENOISE :: nat where "CAM_INTF_PARM_WAVELET_DENOISE = 34"
definition CAM_INTF_PARM_ASD_ENABLE :: nat where "CAM_INTF_PARM_ASD_ENABLE = 36"
definition CAM_INTF_PARM_HDR_NEED_1X :: nat where "CAM_INTF_PARM_HDR_NEED_1X = 41"
definition CAM_INTF_PARM_AEC_LOCK :: nat where "CAM_INTF_PARM_AEC_LOCK = 3"
definition CAM_INTF_PARM_FPS_RANGE :: nat where "CAM_INTF_PARM_FPS_RANGE = 4"
definition CAM_INTF_PARM_AWB_LOCK :: nat where "CAM_INTF_PARM_AWB_LOCK = 5"
definition CAM_INTF_PARM_DIS_ENABLE :: nat where "CAM_INTF_PARM_DIS_ENABLE = 9"
definition CAM_INTF_PARM_ISO :: nat where "CAM_INTF_PARM_ISO = 20"
definition CAM_INTF_PARM_ROLLOFF :: nat where "CAM_INTF_PARM_ROLLOFF = 22"
definition CAM_INTF_PARM_AEC_ALGO_TYPE :: nat where "CAM_INTF_PARM_AEC_ALGO_TYPE = 24"
definition CAM_INTF_PARM_FOCUS_ALGO_TYPE :: nat where "CAM_INTF_PARM_FOCUS_ALGO_TYPE = 25"
definition CAM_INTF_PARM_FD :: nat where "CAM_INTF_PARM_FD = 30"
definition CAM_INTF_PARM_MCE :: nat where "CAM_INTF_PARM_MCE = 31"
definition CAM_INTF_PARM_HFR :: nat where "CAM_INTF_PARM_HFR = 32"
definition CAM_INTF_PARM_REDEYE_REDUCTION :: nat where "CAM_INTF_PARM_REDEYE_REDUCTION = 33"
definition CAM_INTF_PARM_HISTOGRAM :: nat where "CAM_INTF_PARM_HISTOGRAM = 35"
definition CAM_INTF_PARM_RECORDING_HINT :: nat where "CAM_INTF_PARM_RECORDING_HINT = 37"
definition CAM_INTF_PARM_HDR :: nat where "CAM_INTF_PARM_HDR = 38"
definition CAM_INTF_PARM_FRAMESKIP :: nat where "CAM_INTF_PARM_FRAMESKIP = 39"
definition CAM_INTF_PARM_ZSL_MODE :: nat where "CAM_INTF_PARM_ZSL_MODE = 40"
definition CAM_INTF_PARM_LOCK_CAF :: nat where "CAM_INTF_PARM_LOCK_CAF = 42"
definition CAM_INTF_PARM_VIDEO_HDR :: nat where "CAM_INTF_PARM_VIDEO_HDR = 43"

section \<open>The batch and the pending strings\<close>

definition initBatchUpdate :: "parameters \<Rightarrow> parameters" where
  "initBatchUpdate p = p\<lparr>m_tempMap := Map.empty, m_pParamBuf := [(CAM_INTF_PARM_HAL_VERSION, le_bytes CAM_HAL_V1)]\<rparr>"

definition add_parm :: "nat \<Rightarrow> u8 list \<Rightarrow> parameters \<Rightarrow> parameters \<times> i32" where
  "add_parm t v p = (p\<lparr>m_pParamBuf := m_pParamBuf p @ [(t, v)]\<rparr>, NO_ERROR)"

definition updateParamEntry :: "parm_key \<Rightarrow> parm_string \<Rightarrow> parameters \<Rightarrow> parameters" where
  "updateParamEntry k v p = p\<lparr>m_tempMap := (m_tempMap p)(k \<mapsto> v)\<rparr>"

definition set_parm :: "parm_key \<Rightarrow> parm_string \<Rightarrow> parameters \<Rightarrow> parameters" where
  "set_parm k v p = p\<lparr>p_map := (p_map p)(k \<mapsto> v)\<rparr>"

definition remove_parm :: "parm_key \<Rightarrow> parameters \<Rightarrow> parameters" where
  "remove_parm k p = p\<lparr>p_map := (p_map p)(k := None)\<rparr>"

definition commitParamChanges :: "parameters \<Rightarrow> parameters" where
  "commitParamChanges p = p\<lparr>p_map := p_map p ++ m_tempMap p, m_tempMap := Map.empty,
     m_bRecordingHint := m_bRecordingHint_new p, m_bZslMode := m_bZslMode_new p,
     m_bUpdateEffects := (m_bSceneTransitionAuto p \<or> m_bUpdateEffects p), m_bSceneTransitionAuto := False\<rparr>"

text \<open>The table always holds the HAL version, so the condition that it is not empty is always met.\<close>

definition commitSetBatch :: "hal_env \<Rightarrow> hal \<Rightarrow> hal \<times> i32" where
  "commitSetBatch e s =
     (let (s, rc) = (if m_pParamBuf (mParameters s) \<noteq> [] then dev e (Set_parms (m_pParamBuf (mParameters s))) s else (s, NO_ERROR)) in
      if rc = NO_ERROR then (s\<lparr>mParameters := commitParamChanges (mParameters s)\<rparr>, rc) else (s, rc))"

definition commitParameters :: "hal_env \<Rightarrow> hal \<Rightarrow> hal \<times> i32" where
  "commitParameters e s = commitSetBatch e s"

text \<open>The pattern of the functions that send one entry at once: a fresh batch, one entry, commit.\<close>

definition send_parm :: "hal_env \<Rightarrow> nat \<Rightarrow> u8 list \<Rightarrow> hal \<Rightarrow> hal \<times> i32" where
  "send_parm e t v s =
     (let (p, rc) = add_parm t v (initBatchUpdate (mParameters s)); s = s\<lparr>mParameters := p\<rparr> in
      if rc \<noteq> NO_ERROR then (s, rc) else commitSetBatch e s)"

section \<open>Setters\<close>

definition if_changed :: "parm_key \<Rightarrow> (parm_string \<Rightarrow> parameters \<Rightarrow> parameters \<times> i32) \<Rightarrow> parm_map \<Rightarrow> parameters \<Rightarrow> parameters \<times> i32" where
  "if_changed k f params p =
     (case params k of None \<Rightarrow> (p, NO_ERROR) | Some str \<Rightarrow> if p_map p k = Some str then (p, NO_ERROR) else f str p)"

definition set_mode :: "parm_key \<Rightarrow> name_table \<Rightarrow> nat \<Rightarrow> parm_string \<Rightarrow> parameters \<Rightarrow> parameters \<times> i32" where
  "set_mode k tbl t str p =
     (let value = lookupAttr tbl (Some str) in
      if value \<noteq> NAME_NOT_FOUND then add_parm t (le_bytes value) (updateParamEntry k str p) else (p, BAD_VALUE))"

definition setAutoExposure_value :: "parm_string \<Rightarrow> parameters \<Rightarrow> parameters \<times> i32" where
  "setAutoExposure_value = set_mode KEY_QC_AUTO_EXPOSURE AUTO_EXPOSURE_MAP CAM_INTF_PARM_AEC_ALGO_TYPE"

definition setAutoExposure :: "parm_map \<Rightarrow> parameters \<Rightarrow> parameters \<times> i32" where
  "setAutoExposure = if_changed KEY_QC_AUTO_EXPOSURE setAutoExposure_value"

definition setISOValue_value :: "parm_string \<Rightarrow> parameters \<Rightarrow> parameters \<times> i32" where
  "setISOValue_value = set_mode KEY_QC_ISO_MODE ISO_MODES_MAP CAM_INTF_PARM_ISO"

definition setISOValue :: "parm_map \<Rightarrow> parameters \<Rightarrow> parameters \<times> i32" where
  "setISOValue = if_changed KEY_QC_ISO_MODE setISOValue_value"

definition setAecLock_value :: "parm_string \<Rightarrow> parameters \<Rightarrow> parameters \<times> i32" where
  "setAecLock_value = set_mode KEY_AUTO_EXPOSURE_LOCK TRUE_FALSE_MODES_MAP CAM_INTF_PARM_AEC_LOCK"

definition setAecLock :: "parm_map \<Rightarrow> parameters \<Rightarrow> parameters \<times> i32" where
  "setAecLock = if_changed KEY_AUTO_EXPOSURE_LOCK setAecLock_value"

definition setAwbLock_value :: "parm_string \<Rightarrow> parameters \<Rightarrow> parameters \<times> i32" where
  "setAwbLock_value = set_mode KEY_AUTO_WHITEBALANCE_LOCK TRUE_FALSE_MODES_MAP CAM_INTF_PARM_AWB_LOCK"

definition setAwbLock :: "parm_map \<Rightarrow> parameters \<Rightarrow> parameters \<times> i32" where
  "setAwbLock = if_changed KEY_AUTO_WHITEBALANCE_LOCK setAwbLock_value"

definition setMCEValue_value :: "parm_string \<Rightarrow> parameters \<Rightarrow> parameters \<times> i32" where
  "setMCEValue_value = set_mode KEY_QC_MEMORY_COLOR_ENHANCEMENT ENABLE_DISABLE_MODES_MAP CAM_INTF_PARM_MCE"

definition setMCEValue :: "parm_map \<Rightarrow> parameters \<Rightarrow> parameters \<times> i32" where
  "setMCEValue = if_changed KEY_QC_MEMORY_COLOR_ENHANCEMENT setMCEValue_value"

definition setDISValue_value :: "parm_string \<Rightarrow> parameters \<Rightarrow> parameters \<times> i32" where
  "setDISValue_value = set_mode KEY_QC_DIS ENABLE_DISABLE_MODES_MAP CAM_INTF_PARM_DIS_ENABLE"

definition setDISValue :: "parm_map \<Rightarrow> parameters \<Rightarrow> parameters \<times> i32" where
  "setDISValue = if_changed KEY_QC_DIS setDISValue_value"

definition setLensShadeValue_value :: "parm_string \<Rightarrow> parameters \<Rightarrow> parameters \<times> i32" where
  "setLensShadeValue_value = set_mode KEY_QC_LENSSHADE ENABLE_DISABLE_MODES_MAP CAM_INTF_PARM_ROLLOFF"

definition setLensShadeValue :: "parm_map \<Rightarrow> parameters \<Rightarrow> parameters \<times> i32" where
  "setLensShadeValue = if_changed KEY_QC_LENSSHADE setLensShadeValue_value"

definition setSelectableZoneAf_value :: "parm_string \<Rightarrow> parameters \<Rightarrow> parameters \<times> i32" where
  "setSelectableZoneAf_value = set_mode KEY_QC_SELECTABLE_ZONE_AF FOCUS_ALGO_MAP CAM_INTF_PARM_FOCUS_ALGO_TYPE"

definition setSelectableZoneAf :: "parm_map \<Rightarrow> parameters \<Rightarrow> parameters \<times> i32" where
  "setSelectableZoneAf = if_changed KEY_QC_SELECTABLE_ZONE_AF setSelectableZoneAf_value"

definition setRedeyeReduction_value :: "parm_string \<Rightarrow> parameters \<Rightarrow> parameters \<times> i32" where
  "setRedeyeReduction_value = set_mode KEY_QC_REDEYE_REDUCTION ENABLE_DISABLE_MODES_MAP CAM_INTF_PARM_REDEYE_REDUCTION"

definition setRedeyeReduction :: "parm_map \<Rightarrow> parameters \<Rightarrow> parameters \<times> i32" where
  "setRedeyeReduction = if_changed KEY_QC_REDEYE_REDUCTION setRedeyeReduction_value"

definition setVideoHDR_value :: "parm_string \<Rightarrow> parameters \<Rightarrow> parameters \<times> i32" where
  "setVideoHDR_value = set_mode KEY_QC_VIDEO_HDR ON_OFF_MODES_MAP CAM_INTF_PARM_VIDEO_HDR"

definition setVideoHDR :: "parm_map \<Rightarrow> parameters \<Rightarrow> parameters \<times> i32" where
  "setVideoHDR = if_changed KEY_QC_VIDEO_HDR setVideoHDR_value"

definition setHighFrameRate_value :: "parm_string \<Rightarrow> parameters \<Rightarrow> parameters \<times> i32" where
  "setHighFrameRate_value str p =
     (let value = lookupAttr HFR_MODES_MAP (Some str) in
      if value \<noteq> NAME_NOT_FOUND then
        add_parm CAM_INTF_PARM_HFR (le_bytes value)
          (updateParamEntry KEY_QC_VIDEO_HIGH_FRAME_RATE str (p\<lparr>m_bNeedRestart := True\<rparr>))
      else (p, BAD_VALUE))"

definition setHighFrameRate :: "parm_map \<Rightarrow> parameters \<Rightarrow> parameters \<times> i32" where
  "setHighFrameRate = if_changed KEY_QC_VIDEO_HIGH_FRAME_RATE setHighFrameRate_value"

definition setZslMode :: "parm_map \<Rightarrow> parameters \<Rightarrow> parameters \<times> i32" where
  "setZslMode = if_changed KEY_QC_ZSL (\<lambda>str p.
     (let value = lookupAttr ON_OFF_MODES_MAP (Some str) in
      if value \<noteq> NAME_NOT_FOUND then
        add_parm CAM_INTF_PARM_ZSL_MODE (le_bytes value)
          ((set_parm KEY_QC_ZSL str p)\<lparr>m_bZslMode_new := 0 < sint value, m_bNeedRestart := True\<rparr>)
      else (p, BAD_VALUE)))"

definition setRecordingHintValue :: "i32 \<Rightarrow> parameters \<Rightarrow> parameters \<times> i32" where
  "setRecordingHintValue value p =
     (let newValue = (0 < sint value);
          p = (if m_bRecordingHint p \<noteq> newValue then p\<lparr>m_bNeedRestart := True, m_bRecordingHint_new := newValue\<rparr>
               else p\<lparr>m_bRecordingHint_new := m_bRecordingHint p\<rparr>) in
      add_parm CAM_INTF_PARM_RECORDING_HINT (le_bytes value) p)"

definition setRecordingHint :: "parm_map \<Rightarrow> parameters \<Rightarrow> parameters \<times> i32" where
  "setRecordingHint = if_changed KEY_RECORDING_HINT (\<lambda>str p.
     (let value = lookupAttr TRUE_FALSE_MODES_MAP (Some str) in
      if value \<noteq> NAME_NOT_FOUND then
        (fst (setRecordingHintValue value (updateParamEntry KEY_RECORDING_HINT str p)), NO_ERROR)
      else (p, BAD_VALUE)))"

definition setNoDisplayMode :: "parm_map \<Rightarrow> parameters \<Rightarrow> parameters \<times> i32" where
  "setNoDisplayMode params p =
     (case params KEY_QC_NO_DISPLAY_MODE of
        None \<Rightarrow> (p\<lparr>m_bNoDisplayMode := False\<rparr>, NO_ERROR)
      | Some str \<Rightarrow>
          if str = [] then (p\<lparr>m_bNoDisplayMode := False\<rparr>, NO_ERROR)
          else if p_map p KEY_QC_NO_DISPLAY_MODE = Some str then (p, NO_ERROR)
          else ((set_parm KEY_QC_NO_DISPLAY_MODE str (p\<lparr>m_bNoDisplayMode := atoi str \<noteq> 0\<rparr>))\<lparr>m_bNeedRestart := True\<rparr>, NO_ERROR))"

definition setCameraMode :: "parm_map \<Rightarrow> parameters \<Rightarrow> parameters \<times> i32" where
  "setCameraMode params p =
     (case params KEY_QC_CAMERA_MODE of
        None \<Rightarrow> (remove_parm KEY_QC_CAMERA_MODE p, NO_ERROR)
      | Some str \<Rightarrow> (set_parm KEY_QC_CAMERA_MODE str p, NO_ERROR))"

definition CAM_QCOM_FEATURE_FLIP :: u32 where "CAM_QCOM_FEATURE_FLIP = 0x10"

definition set_flip :: "parm_key \<Rightarrow> (parameters \<Rightarrow> parameters) \<Rightarrow> parm_map \<Rightarrow> parameters \<Rightarrow> parameters" where
  "set_flip k mark params p =
     (case params k of
        None \<Rightarrow> p
      | Some str \<Rightarrow> if p_map p k \<noteq> Some str \<and> lookupAttr FLIP_MODES_MAP (Some str) \<noteq> NAME_NOT_FOUND
                    then mark (set_parm k str p) else p)"

definition setFlip :: "parm_env \<Rightarrow> parm_map \<Rightarrow> parameters \<Rightarrow> parameters \<times> i32" where
  "setFlip e params p =
     (if qcom_supported_feature_mask (pe_cap e) AND CAM_QCOM_FEATURE_FLIP = 0 then (p, NO_ERROR)
      else
        (let p = set_flip KEY_QC_PREVIEW_FLIP (m_bPreviewFlipChanged_update (\<lambda>_. True)) params p;
             p = set_flip KEY_QC_VIDEO_FLIP (m_bVideoFlipChanged_update (\<lambda>_. True)) params p;
             p = set_flip KEY_QC_SNAPSHOT_PICTURE_FLIP (m_bSnapshotFlipChanged_update (\<lambda>_. True)) params p in
         (p, NO_ERROR)))"

section \<open>Sending one entry\<close>

definition updateRecordingHintValue :: "hal_env \<Rightarrow> i32 \<Rightarrow> hal \<Rightarrow> hal \<times> i32" where
  "updateRecordingHintValue e value s =
     (let (p, rc) = setRecordingHintValue value (initBatchUpdate (mParameters s)); s = s\<lparr>mParameters := p\<rparr> in
      if rc \<noteq> NO_ERROR then (s, rc) else commitSetBatch e s)"

definition parms_setHistogram :: "hal_env \<Rightarrow> bool \<Rightarrow> hal \<Rightarrow> hal \<times> i32" where
  "parms_setHistogram e enabled s =
     (if m_bHistogramEnabled (mParameters s) = enabled then (s, NO_ERROR)
      else
        (let (s, rc) = send_parm e CAM_INTF_PARM_HISTOGRAM (le_bytes (if enabled then 1 else 0)) s in
         if rc \<noteq> NO_ERROR then (s, rc)
         else (s\<lparr>mParameters := (mParameters s)\<lparr>m_bHistogramEnabled := enabled\<rparr>\<rparr>, rc)))"

abbreviation KEY_QC_MAX_NUM_REQUESTED_FACES :: parm_key where
  "KEY_QC_MAX_NUM_REQUESTED_FACES \<equiv> QC ''qc-max-num-requested-faces''"

definition CAM_FACE_PROCESS_MASK_DETECTION :: i32 where "CAM_FACE_PROCESS_MASK_DETECTION = 1"

definition parms_setFaceDetection :: "hal_env \<Rightarrow> bool \<Rightarrow> hal \<Rightarrow> hal \<times> i32" where
  "parms_setFaceDetection e enabled s =
     (let faceProcMask = (if enabled then m_nFaceProcMask (mParameters s) OR CAM_FACE_PROCESS_MASK_DETECTION
                          else m_nFaceProcMask (mParameters s) AND NOT CAM_FACE_PROCESS_MASK_DETECTION) in
      if m_nFaceProcMask (mParameters s) = faceProcMask then (s, NO_ERROR)
      else
        (let (s, rc) = send_parm e CAM_INTF_PARM_FD
               (le_bytes faceProcMask @ le_bytes (getInt (he_parm e) (p_map (mParameters s)) KEY_QC_MAX_NUM_REQUESTED_FACES)) s in
         if rc \<noteq> NO_ERROR then (s, rc)
         else (s\<lparr>mParameters := (mParameters s)\<lparr>m_nFaceProcMask := faceProcMask\<rparr>\<rparr>, rc)))"

definition setLockCAF :: "hal_env \<Rightarrow> bool \<Rightarrow> hal \<Rightarrow> hal \<times> i32" where
  "setLockCAF e bLock s =
     (let (s, rc) = send_parm e CAM_INTF_PARM_LOCK_CAF (le_bytes (if bLock then 1 else 0)) s in
      if rc \<noteq> NO_ERROR then (s, rc)
      else (s\<lparr>mParameters := (mParameters s)\<lparr>m_bCAFLocked := bLock\<rparr>\<rparr>, NO_ERROR))"

definition NO_INIT :: i32 where "NO_INIT = - 19"

definition fps_bytes :: "parm_env \<Rightarrow> cam_fps_range \<Rightarrow> u8 list" where
  "fps_bytes e r = le_bytes (pe_flt_bytes e (min_fps r)) @ le_bytes (pe_flt_bytes e (max_fps r))"

definition adjustPreviewFpsRange :: "hal_env \<Rightarrow> cam_fps_range \<Rightarrow> hal \<Rightarrow> hal \<times> i32" where
  "adjustPreviewFpsRange e fpsRange s =
     (if \<not> m_pParamHeap (mParameters s) then (s, NO_INIT)
      else send_parm e CAM_INTF_PARM_FPS_RANGE (fps_bytes (he_parm e) fpsRange) s)"

definition setFrameSkip :: "hal_env \<Rightarrow> i32 \<Rightarrow> hal \<Rightarrow> hal \<times> i32" where
  "setFrameSkip e pattern s =
     (if \<not> m_pParamHeap (mParameters s) then (s, NO_INIT) else send_parm e CAM_INTF_PARM_FRAMESKIP (le_bytes pattern) s)"

definition bracket_bytes :: "cam_exp_bracketing \<Rightarrow> u8 list" where
  "bracket_bytes b = le_bytes (eb_mode b) @ eb_values b"

definition setHDRAEBracket :: "hal_env \<Rightarrow> cam_exp_bracketing \<Rightarrow> hal \<Rightarrow> hal \<times> i32" where
  "setHDRAEBracket e hdrBracket s = send_parm e CAM_INTF_PARM_HDR (bracket_bytes hdrBracket) s"

definition restoreAEBracket :: "hal_env \<Rightarrow> hal \<Rightarrow> hal \<times> i32" where
  "restoreAEBracket e s = setHDRAEBracket e (m_AEBracketingClient (mParameters s)) s"

end
