(* ===== verification/ParmSize.thy ===== *)
theory ParmSize
  imports HalParams
begin

text \<open>
  The setters of \<^verbatim>\<open>QCameraParameters.cpp\<close> for sizes, formats and frame rates, and what the thermal level of the HAL
  (\<^verbatim>\<open>calcThermalLevel\<close> and \<^verbatim>\<open>recalcFPSRange\<close> of \<^verbatim>\<open>QCamera2HWI.cpp\<close>) makes of a range of frame rates.
\<close>

abbreviation "KEY_PREVIEW_SIZE \<equiv> FW ''KEY_PREVIEW_SIZE''"
abbreviation "KEY_PICTURE_SIZE \<equiv> FW ''KEY_PICTURE_SIZE''"
abbreviation "KEY_VIDEO_SIZE \<equiv> FW ''KEY_VIDEO_SIZE''"
abbreviation "KEY_PREVIEW_FORMAT \<equiv> FW ''KEY_PREVIEW_FORMAT''"
abbreviation "KEY_PICTURE_FORMAT \<equiv> FW ''KEY_PICTURE_FORMAT''"
abbreviation "KEY_JPEG_THUMBNAIL_WIDTH \<equiv> FW ''KEY_JPEG_THUMBNAIL_WIDTH''"
abbreviation "KEY_JPEG_THUMBNAIL_HEIGHT \<equiv> FW ''KEY_JPEG_THUMBNAIL_HEIGHT''"
abbreviation "KEY_PREVIEW_FPS_RANGE \<equiv> FW ''KEY_PREVIEW_FPS_RANGE''"
abbreviation "KEY_PREVIEW_FRAME_RATE \<equiv> FW ''KEY_PREVIEW_FRAME_RATE''"

section \<open>Sizes\<close>

text \<open>A new size is searched in the table of the capabilities; \<^verbatim>\<open>restart\<close> says whether a change of it stops the preview.\<close>

definition set_size :: "parm_env \<Rightarrow> parm_key \<Rightarrow> cam_dimension list \<Rightarrow> bool \<Rightarrow> cam_dimension \<Rightarrow> parameters \<Rightarrow> parameters \<times> i32" where
  "set_size e k tbl restart d p =
     (if d \<in> set tbl then
        (let p = (if restart \<and> d \<noteq> getSize e (p_map p) k then p\<lparr>m_bNeedRestart := True\<rparr> else p) in
         (set_parm k (fw_show_size e d) p, NO_ERROR))
      else (p, BAD_VALUE))"

definition setPreviewSize :: "parm_env \<Rightarrow> parm_map \<Rightarrow> parameters \<Rightarrow> parameters \<times> i32" where
  "setPreviewSize e params p =
     set_size e KEY_PREVIEW_SIZE (preview_sizes_tbl (pe_cap e)) True (getSize e params KEY_PREVIEW_SIZE) p"

definition setPictureSize :: "parm_env \<Rightarrow> parm_map \<Rightarrow> parameters \<Rightarrow> parameters \<times> i32" where
  "setPictureSize e params p =
     set_size e KEY_PICTURE_SIZE (picture_sizes_tbl (pe_cap e)) (m_bZslMode p \<or> m_bRecordingHint p)
       (getSize e params KEY_PICTURE_SIZE) p"

definition setVideoSize :: "parm_env \<Rightarrow> parm_map \<Rightarrow> parameters \<Rightarrow> parameters \<times> i32" where
  "setVideoSize e params p =
     (let d = (if params KEY_VIDEO_SIZE = None then getSize e params KEY_PREVIEW_SIZE else getSize e params KEY_VIDEO_SIZE) in
      set_size e KEY_VIDEO_SIZE (video_sizes_tbl (pe_cap e)) (m_bRecordingHint p) d p)"

text \<open>Two sizes have the same aspect ratio, up to \<^verbatim>\<open>ASPECT_TOLERANCE\<close>.  A height of zero makes the quotient infinite or
  not a number, and the comparison false.\<close>

definition aspect_close :: "parm_env \<Rightarrow> cam_dimension \<Rightarrow> cam_dimension \<Rightarrow> bool" where
  "aspect_close e a b \<longleftrightarrow> dim_height a \<noteq> 0 \<and> dim_height b \<noteq> 0 \<and>
     \<bar>pe_dbl e (pe_dbl e (of_i32 (dim_width a) / of_i32 (dim_height a)) - pe_dbl e (of_i32 (dim_width b) / of_i32 (dim_height b)))\<bar>
       \<le> pe_dbl e (1 / 1000)"

text \<open>The table of live snapshot sizes: that of the high frame rate mode which the request asks for, if the camera has it.\<close>

definition livesnapshot_tbl :: "parm_env \<Rightarrow> parm_map \<Rightarrow> cam_dimension list \<times> i32" where
  "livesnapshot_tbl e params =
     (let value = lookupAttr HFR_MODES_MAP (params KEY_QC_VIDEO_HIGH_FRAME_RATE) in
      if value \<noteq> NAME_NOT_FOUND \<and> 0 < sint value then
        (case find (\<lambda>h. hfr_mode h = value) (hfr_tbl (pe_cap e)) of
           None \<Rightarrow> (livesnapshot_sizes_tbl (pe_cap e), 0)
         | Some h \<Rightarrow> (hfr_livesnapshot_sizes_tbl h, hfr_mode h))
      else (livesnapshot_sizes_tbl (pe_cap e), 0))"

definition livesnapshot_size :: "parm_env \<Rightarrow> parm_map \<Rightarrow> cam_dimension" where
  "livesnapshot_size e params =
     (let useOptimal = (0 < sint (atoi (property_get e ''persist.camera.opt.livepic'' ''1'')));
          pic = getSize e params KEY_PICTURE_SIZE;
          (tbl, hfrMode) = livesnapshot_tbl e params in
      if (useOptimal \<or> hfrMode \<noteq> 0) \<and> pic \<notin> set tbl then
        (let pv = getSize e params KEY_PREVIEW_SIZE in
         case find (aspect_close e pv) tbl of
           Some d \<Rightarrow> d
         | None \<Rightarrow>
             if hfrMode \<noteq> 0 then
               (let v = getSize e params KEY_VIDEO_SIZE in
                if sint (dim_width v) < sint (dim_width pv) \<and> sint (dim_height v) < sint (dim_height pv) then pv else v)
             else pic)
      else pic)"

definition setLiveSnapshotSize :: "parm_env \<Rightarrow> parm_map \<Rightarrow> parameters \<Rightarrow> parameters \<times> i32" where
  "setLiveSnapshotSize e params p = (p\<lparr>m_LiveSnapshotSize := livesnapshot_size e params\<rparr>, NO_ERROR)"

text \<open>The widest thumbnail with the aspect ratio of the picture.\<close>

definition best_thumbnail :: "parm_env \<Rightarrow> cam_dimension \<Rightarrow> cam_dimension" where
  "best_thumbnail e pic =
     fold (\<lambda>t best. if dim_height t = 0 \<or> \<not> aspect_close e t pic then best
                     else if sint (dim_width best) < sint (dim_width t) then t else best)
       THUMBNAIL_SIZES_MAP \<lparr>dim_width = 0, dim_height = 0\<rparr>"

definition setJpegThumbnailSize :: "parm_env \<Rightarrow> parm_map \<Rightarrow> parameters \<Rightarrow> parameters \<times> i32" where
  "setJpegThumbnailSize e params p =
     (let width = getInt e params KEY_JPEG_THUMBNAIL_WIDTH; height = getInt e params KEY_JPEG_THUMBNAIL_HEIGHT;
          pic = getSize e params KEY_PICTURE_SIZE in
      if dim_height pic = 0 then (p, BAD_VALUE)
      else
        (let best = (if width \<noteq> 0 \<or> height \<noteq> 0 then best_thumbnail e pic else \<lparr>dim_width = 0, dim_height = 0\<rparr>) in
         (set_parm KEY_JPEG_THUMBNAIL_HEIGHT (fw_show_int e (dim_height best))
            (set_parm KEY_JPEG_THUMBNAIL_WIDTH (fw_show_int e (dim_width best)) p), NO_ERROR)))"

section \<open>Formats\<close>

definition setPreviewFormat :: "parm_env \<Rightarrow> parm_map \<Rightarrow> parameters \<Rightarrow> parameters \<times> i32" where
  "setPreviewFormat e params p =
     (let previewFormat = lookupAttr (PREVIEW_FORMATS_MAP (pe_fw e)) (params KEY_PREVIEW_FORMAT) in
      if previewFormat \<noteq> NAME_NOT_FOUND then
        (set_parm KEY_PREVIEW_FORMAT (the (params KEY_PREVIEW_FORMAT)) (p\<lparr>mPreviewFormat := unat previewFormat\<rparr>), NO_ERROR)
      else (p, BAD_VALUE))"

definition setPictureFormat :: "parm_env \<Rightarrow> parm_map \<Rightarrow> parameters \<Rightarrow> parameters \<times> i32" where
  "setPictureFormat e params p =
     (let pictureFormat = lookupAttr (PICTURE_TYPES_MAP (pe_fw e)) (params KEY_PICTURE_FORMAT) in
      if pictureFormat \<noteq> NAME_NOT_FOUND then
        (set_parm KEY_PICTURE_FORMAT (the (params KEY_PICTURE_FORMAT)) (p\<lparr>mPictureFormat := unat pictureFormat\<rparr>), NO_ERROR)
      else (p, BAD_VALUE))"

section \<open>Frame rates\<close>

text \<open>\<^verbatim>\<open>x / 1000.0f\<close> for an \<^verbatim>\<open>int\<close>.\<close>

definition thousandth :: "parm_env \<Rightarrow> i32 \<Rightarrow> rat" where
  "thousandth e x = pe_flt e (pe_flt e (of_i32 x) / 1000)"

definition slower :: "parm_env \<Rightarrow> i32 \<Rightarrow> i32 \<Rightarrow> rat" where
  "slower e fps d = (let f = thousandth e (i32_div fps d) in if f < 1 then 1 else f)"

definition calcThermalLevel :: "parm_env \<Rightarrow> thermal_level \<Rightarrow> i32 \<Rightarrow> i32 \<Rightarrow> cam_fps_range \<times> skip_pattern" where
  "calcThermalLevel e level minFPS maxFPS =
     (case level of
        QCAMERA_THERMAL_NO_ADJUSTMENT \<Rightarrow> (\<lparr>min_fps = thousandth e minFPS, max_fps = thousandth e maxFPS\<rparr>, NO_SKIP)
      | QCAMERA_THERMAL_SLIGHT_ADJUSTMENT \<Rightarrow> (\<lparr>min_fps = slower e minFPS 2, max_fps = slower e maxFPS 2\<rparr>, EVERY_2FRAME)
      | QCAMERA_THERMAL_BIG_ADJUSTMENT \<Rightarrow> (\<lparr>min_fps = slower e minFPS 4, max_fps = slower e maxFPS 4\<rparr>, EVERY_4FRAME)
      | QCAMERA_THERMAL_SHUTDOWN \<Rightarrow>
          (fold (\<lambda>r a. if min_fps r < min_fps a then \<lparr>min_fps = min_fps r, max_fps = min_fps r\<rparr> else a)
             (fps_ranges_tbl (pe_cap e)) \<lparr>min_fps = thousandth e minFPS, max_fps = thousandth e minFPS\<rparr>, MAX_SKIP))"

text \<open>The adjusted rates are written back into the \<^verbatim>\<open>int\<close> arguments: frames per second without the fraction.\<close>

definition recalcFPSRange :: "parm_env \<Rightarrow> thermal_level \<Rightarrow> i32 \<Rightarrow> i32 \<Rightarrow> i32 \<times> i32" where
  "recalcFPSRange e level minFPS maxFPS =
     (let (r, _) = calcThermalLevel e level minFPS maxFPS in (conv_int (min_fps r), conv_int (max_fps r)))"

definition setPreviewFpsRange_value :: "parm_env \<Rightarrow> i32 \<Rightarrow> i32 \<Rightarrow> parameters \<Rightarrow> parameters \<times> i32" where
  "setPreviewFpsRange_value e minFPS maxFPS p =
     (let r = (case pe_adjust e of
                 None \<Rightarrow> \<lparr>min_fps = thousandth e minFPS, max_fps = thousandth e maxFPS\<rparr>
               | Some level \<Rightarrow> (let (lo, hi) = recalcFPSRange e level minFPS maxFPS in
                   \<lparr>min_fps = pe_flt e (of_i32 lo), max_fps = pe_flt e (of_i32 hi)\<rparr>)) in
      add_parm CAM_INTF_PARM_FPS_RANGE (fps_bytes e r)
        (updateParamEntry KEY_PREVIEW_FPS_RANGE (print_pair [] '','' [] minFPS maxFPS) p))"

definition range_within :: "parm_env \<Rightarrow> i32 \<Rightarrow> i32 \<Rightarrow> cam_fps_range \<Rightarrow> bool" where
  "range_within e lo hi r \<longleftrightarrow> pe_flt e (min_fps r * 1000) \<le> pe_flt e (of_i32 lo) \<and>
     pe_flt e (of_i32 hi) \<le> pe_flt e (max_fps r * 1000)"

definition use_range :: "parm_env \<Rightarrow> i32 \<Rightarrow> i32 \<Rightarrow> parameters \<Rightarrow> parameters \<times> i32" where
  "use_range e lo hi p =
     (if list_ex (range_within e lo hi) (fps_ranges_tbl (pe_cap e))
      then (fst (setPreviewFpsRange_value e lo hi p), NO_ERROR) else (p, BAD_VALUE))"

definition setPreviewFpsRange :: "parm_env \<Rightarrow> parm_map \<Rightarrow> parameters \<Rightarrow> parameters \<times> i32" where
  "setPreviewFpsRange e params p =
     (let (lo, hi) = getRange e params KEY_PREVIEW_FPS_RANGE in
      if (lo, hi) = getRange e (p_map p) KEY_PREVIEW_FPS_RANGE then
        (if m_bFixedFrameRateSet p then
           (let fps = getInt e params KEY_PREVIEW_FRAME_RATE * 1000 in use_range e fps fps (p\<lparr>m_bFixedFrameRateSet := False\<rparr>))
         else (p, NO_ERROR))
      else use_range e lo hi p)"

definition setPreviewFrameRate :: "parm_map \<Rightarrow> parameters \<Rightarrow> parameters \<times> i32" where
  "setPreviewFrameRate params p =
     (case (params KEY_PREVIEW_FRAME_RATE, p_map p KEY_PREVIEW_FRAME_RATE) of
        (Some str, Some prev) \<Rightarrow>
          if str \<noteq> prev then ((updateParamEntry KEY_PREVIEW_FRAME_RATE str p)\<lparr>m_bFixedFrameRateSet := True\<rparr>, NO_ERROR)
          else (p, NO_ERROR)
      | _ \<Rightarrow> (p, NO_ERROR))"

end
