(* ===== verification/ParmControl.thy ===== *)
theory ParmControl
  imports ParmSize
begin

text \<open>
  The other setters of \<^verbatim>\<open>QCameraParameters.cpp\<close>: modes whose names the class \<^verbatim>\<open>CameraParameters\<close> declares, numbers
  with a range, the scene modes, bracketing and HDR, the location, and the settings that come from system properties.
  A method that takes the value itself, as \<^verbatim>\<open>setZoom(int)\<close>, has the suffix \<^verbatim>\<open>_value\<close>.
\<close>

abbreviation "KEY_JPEG_QUALITY \<equiv> FW ''KEY_JPEG_QUALITY''"
abbreviation "KEY_JPEG_THUMBNAIL_QUALITY \<equiv> FW ''KEY_JPEG_THUMBNAIL_QUALITY''"
abbreviation "KEY_ROTATION \<equiv> FW ''KEY_ROTATION''"
abbreviation "KEY_EFFECT \<equiv> FW ''KEY_EFFECT''"
abbreviation "KEY_FOCUS_MODE \<equiv> FW ''KEY_FOCUS_MODE''"
abbreviation "KEY_FOCUS_DISTANCES \<equiv> FW ''KEY_FOCUS_DISTANCES''"
abbreviation "KEY_FLASH_MODE \<equiv> FW ''KEY_FLASH_MODE''"
abbreviation "KEY_WHITE_BALANCE \<equiv> FW ''KEY_WHITE_BALANCE''"
abbreviation "KEY_ANTIBANDING \<equiv> FW ''KEY_ANTIBANDING''"
abbreviation "KEY_SCENE_MODE \<equiv> FW ''KEY_SCENE_MODE''"
abbreviation "KEY_EXPOSURE_COMPENSATION \<equiv> FW ''KEY_EXPOSURE_COMPENSATION''"
abbreviation "KEY_ZOOM \<equiv> FW ''KEY_ZOOM''"
abbreviation "KEY_GPS_PROCESSING_METHOD \<equiv> FW ''KEY_GPS_PROCESSING_METHOD''"
abbreviation "KEY_GPS_LATITUDE \<equiv> FW ''KEY_GPS_LATITUDE''"
abbreviation "KEY_GPS_LONGITUDE \<equiv> FW ''KEY_GPS_LONGITUDE''"
abbreviation "KEY_GPS_ALTITUDE \<equiv> FW ''KEY_GPS_ALTITUDE''"
abbreviation "KEY_GPS_TIMESTAMP \<equiv> FW ''KEY_GPS_TIMESTAMP''"
abbreviation "KEY_QC_GPS_LATITUDE_REF \<equiv> QC ''gps-latitude-ref''"
abbreviation "KEY_QC_GPS_LONGITUDE_REF \<equiv> QC ''gps-longitude-ref''"
abbreviation "KEY_QC_GPS_ALTITUDE_REF \<equiv> QC ''gps-altitude-ref''"
abbreviation "KEY_QC_GPS_STATUS \<equiv> QC ''gps-status''"
abbreviation "KEY_QC_ORIENTATION \<equiv> QC ''orientation''"
abbreviation "KEY_QC_BRIGHTNESS \<equiv> QC ''luma-adaptation''"
abbreviation "KEY_QC_SHARPNESS \<equiv> QC ''sharpness''"
abbreviation "KEY_QC_SATURATION \<equiv> QC ''saturation''"
abbreviation "KEY_QC_CONTRAST \<equiv> QC ''contrast''"
abbreviation "KEY_QC_SCE_FACTOR \<equiv> QC ''skinToneEnhancement''"
abbreviation "KEY_QC_SCENE_DETECT \<equiv> QC ''scene-detect''"
abbreviation "KEY_QC_FACE_RECOGNITION \<equiv> QC ''face-recognition''"
abbreviation "KEY_QC_HDR_NEED_1X \<equiv> QC ''hdr-need-1x''"
abbreviation "KEY_QC_CAPTURE_BURST_EXPOSURE \<equiv> QC ''capture-burst-exposures''"
abbreviation "KEY_QC_AE_BRACKET_HDR \<equiv> QC ''ae-bracket-hdr''"
abbreviation "KEY_QC_NUM_SNAPSHOT_PER_SHUTTER \<equiv> QC ''num-snaps-per-shutter''"
abbreviation "KEY_QC_SNAPSHOT_BURST_NUM \<equiv> QC ''snapshot-burst-num''"
abbreviation "KEY_QC_DENOISE \<equiv> QC ''denoise''"
abbreviation "KEY_QC_ZSL_BURST_INTERVAL \<equiv> QC ''capture-burst-interval''"
abbreviation "KEY_QC_ZSL_BURST_LOOKBACK \<equiv> QC ''capture-burst-retroactive''"
abbreviation "KEY_QC_ZSL_QUEUE_DEPTH \<equiv> QC ''capture-burst-queue-depth''"

section \<open>Modes\<close>

definition setEffect_value :: "parm_env \<Rightarrow> parm_string \<Rightarrow> parameters \<Rightarrow> parameters \<times> i32" where
  "setEffect_value e = set_mode KEY_EFFECT (EFFECT_MODES_MAP (pe_fw e)) CAM_INTF_PARM_EFFECT"

definition setEffect :: "parm_env \<Rightarrow> parm_map \<Rightarrow> parameters \<Rightarrow> parameters \<times> i32" where
  "setEffect e params p =
     (case params KEY_EFFECT of
        None \<Rightarrow> (p, NO_ERROR)
      | Some str \<Rightarrow> if p_map p KEY_EFFECT \<noteq> Some str \<or> m_bUpdateEffects p
                    then setEffect_value e str (p\<lparr>m_bUpdateEffects := False\<rparr>) else (p, NO_ERROR))"

definition setWhiteBalance_value :: "parm_env \<Rightarrow> parm_string \<Rightarrow> parameters \<Rightarrow> parameters \<times> i32" where
  "setWhiteBalance_value e = set_mode KEY_WHITE_BALANCE (WHITE_BALANCE_MODES_MAP (pe_fw e)) CAM_INTF_PARM_WHITE_BALANCE"

definition setWhiteBalance :: "parm_env \<Rightarrow> parm_map \<Rightarrow> parameters \<Rightarrow> parameters \<times> i32" where
  "setWhiteBalance e = if_changed KEY_WHITE_BALANCE (setWhiteBalance_value e)"

definition setAntibanding_value :: "parm_env \<Rightarrow> parm_string \<Rightarrow> parameters \<Rightarrow> parameters \<times> i32" where
  "setAntibanding_value e = set_mode KEY_ANTIBANDING (ANTIBANDING_MODES_MAP (pe_fw e)) CAM_INTF_PARM_ANTIBANDING"

definition setAntibanding :: "parm_env \<Rightarrow> parm_map \<Rightarrow> parameters \<Rightarrow> parameters \<times> i32" where
  "setAntibanding e = if_changed KEY_ANTIBANDING (setAntibanding_value e)"

definition setFlash_value :: "parm_env \<Rightarrow> parm_string \<Rightarrow> parameters \<Rightarrow> parameters \<times> i32" where
  "setFlash_value e = set_mode KEY_FLASH_MODE (FLASH_MODES_MAP (pe_fw e)) CAM_INTF_PARM_LED_MODE"

definition setFlash :: "parm_env \<Rightarrow> parm_map \<Rightarrow> parameters \<Rightarrow> parameters \<times> i32" where
  "setFlash e = if_changed KEY_FLASH_MODE (setFlash_value e)"

definition setSceneDetect_value :: "parm_string \<Rightarrow> parameters \<Rightarrow> parameters \<times> i32" where
  "setSceneDetect_value = set_mode KEY_QC_SCENE_DETECT ON_OFF_MODES_MAP CAM_INTF_PARM_ASD_ENABLE"

definition setSceneDetect :: "parm_map \<Rightarrow> parameters \<Rightarrow> parameters \<times> i32" where
  "setSceneDetect = if_changed KEY_QC_SCENE_DETECT setSceneDetect_value"

definition setFocusMode_value :: "parm_env \<Rightarrow> parm_string \<Rightarrow> parameters \<Rightarrow> parameters \<times> i32" where
  "setFocusMode_value e focusMode p =
     (let value = lookupAttr (FOCUS_MODES_MAP (pe_fw e)) (Some focusMode) in
      if value \<noteq> NAME_NOT_FOUND then
        (let p = updateParamEntry KEY_FOCUS_MODE focusMode
               (p\<lparr>mFocusMode := unat value, m_bNeedLockCAF := False, m_bCAFLocked := False, m_bAFRunning := False\<rparr>);
             (p, rc) = add_parm CAM_INTF_PARM_FOCUS_MODE (le_bytes value) p in
         (if focusMode = ''infinity'' then set_parm KEY_FOCUS_DISTANCES ''Infinity,Infinity,Infinity'' p else p, rc))
      else (p, BAD_VALUE))"

definition setFocusMode :: "parm_env \<Rightarrow> parm_map \<Rightarrow> parameters \<Rightarrow> parameters \<times> i32" where
  "setFocusMode e = if_changed KEY_FOCUS_MODE (setFocusMode_value e)"

section \<open>Numbers\<close>

definition set_number :: "parm_key \<Rightarrow> nat \<Rightarrow> i32 \<Rightarrow> parameters \<Rightarrow> parameters \<times> i32" where
  "set_number k t v p = add_parm t (le_bytes v) (updateParamEntry k (fit 16 (show_i32 v)) p)"

definition number_if_changed :: "parm_env \<Rightarrow> parm_key \<Rightarrow> i32 \<Rightarrow> i32 \<Rightarrow> (i32 \<Rightarrow> parameters \<Rightarrow> parameters \<times> i32) \<Rightarrow>
    parm_map \<Rightarrow> parameters \<Rightarrow> parameters \<times> i32" where
  "number_if_changed e k lo hi f params p =
     (let v = getInt e params k in
      if getInt e (p_map p) k \<noteq> v then
        (if sint lo \<le> sint v \<and> sint v \<le> sint hi then f v p else (p, BAD_VALUE))
      else (p, NO_ERROR))"

definition setBrightness_value :: "i32 \<Rightarrow> parameters \<Rightarrow> parameters \<times> i32" where
  "setBrightness_value = set_number KEY_QC_BRIGHTNESS CAM_INTF_PARM_BRIGHTNESS"

definition setBrightness :: "parm_env \<Rightarrow> parm_map \<Rightarrow> parameters \<Rightarrow> parameters \<times> i32" where
  "setBrightness e = (let c = brightness_ctrl (pe_cap e) in
     number_if_changed e KEY_QC_BRIGHTNESS (min_value c) (max_value c) setBrightness_value)"

definition setSharpness_value :: "i32 \<Rightarrow> parameters \<Rightarrow> parameters \<times> i32" where
  "setSharpness_value = set_number KEY_QC_SHARPNESS CAM_INTF_PARM_SHARPNESS"

definition setSharpness :: "parm_env \<Rightarrow> parm_map \<Rightarrow> parameters \<Rightarrow> parameters \<times> i32" where
  "setSharpness e = (let c = sharpness_ctrl (pe_cap e) in
     number_if_changed e KEY_QC_SHARPNESS (min_value c) (max_value c) setSharpness_value)"

definition setSkinToneEnhancement_value :: "i32 \<Rightarrow> parameters \<Rightarrow> parameters \<times> i32" where
  "setSkinToneEnhancement_value = set_number KEY_QC_SCE_FACTOR CAM_INTF_PARM_SCE_FACTOR"

definition setSkinToneEnhancement :: "parm_env \<Rightarrow> parm_map \<Rightarrow> parameters \<Rightarrow> parameters \<times> i32" where
  "setSkinToneEnhancement e = (let c = sce_ctrl (pe_cap e) in
     number_if_changed e KEY_QC_SCE_FACTOR (min_value c) (max_value c) setSkinToneEnhancement_value)"

definition setSaturation_value :: "i32 \<Rightarrow> parameters \<Rightarrow> parameters \<times> i32" where
  "setSaturation_value = set_number KEY_QC_SATURATION CAM_INTF_PARM_SATURATION"

definition setSaturation :: "parm_env \<Rightarrow> parm_map \<Rightarrow> parameters \<Rightarrow> parameters \<times> i32" where
  "setSaturation e = (let c = saturation_ctrl (pe_cap e) in
     number_if_changed e KEY_QC_SATURATION (min_value c) (max_value c) setSaturation_value)"

definition setContrast_value :: "i32 \<Rightarrow> parameters \<Rightarrow> parameters \<times> i32" where
  "setContrast_value = set_number KEY_QC_CONTRAST CAM_INTF_PARM_CONTRAST"

definition setContrast :: "parm_env \<Rightarrow> parm_map \<Rightarrow> parameters \<Rightarrow> parameters \<times> i32" where
  "setContrast e = (let c = contrast_ctrl (pe_cap e) in
     number_if_changed e KEY_QC_CONTRAST (min_value c) (max_value c) setContrast_value)"

definition setExposureCompensation_value :: "i32 \<Rightarrow> parameters \<Rightarrow> parameters \<times> i32" where
  "setExposureCompensation_value = set_number KEY_EXPOSURE_COMPENSATION CAM_INTF_PARM_EXPOSURE_COMPENSATION"

definition setExposureCompensation :: "parm_env \<Rightarrow> parm_map \<Rightarrow> parameters \<Rightarrow> parameters \<times> i32" where
  "setExposureCompensation e = number_if_changed e KEY_EXPOSURE_COMPENSATION
     (exposure_compensation_min (pe_cap e)) (exposure_compensation_max (pe_cap e)) setExposureCompensation_value"

definition setZoom_value :: "i32 \<Rightarrow> parameters \<Rightarrow> parameters \<times> i32" where
  "setZoom_value = set_number KEY_ZOOM CAM_INTF_PARM_ZOOM"

definition setZoom :: "parm_env \<Rightarrow> parm_map \<Rightarrow> parameters \<Rightarrow> parameters \<times> i32" where
  "setZoom e params p =
     (if \<not> zoom_supported (pe_cap e) \<or> zoom_ratio_tbl (pe_cap e) = [] then (p, NO_ERROR)
      else
        (let zoomLevel = getInt e params KEY_ZOOM in
         if sint zoomLevel < 0 \<or> int (length (zoom_ratio_tbl (pe_cap e))) \<le> sint zoomLevel then (p, BAD_VALUE)
         else if getInt e (p_map p) KEY_ZOOM = zoomLevel then (p, NO_ERROR)
         else setZoom_value zoomLevel p))"

definition setJpegQuality :: "parm_env \<Rightarrow> parm_map \<Rightarrow> parameters \<Rightarrow> parameters \<times> i32" where
  "setJpegQuality e params p =
     (let q = getInt e params KEY_JPEG_QUALITY;
          (p, rc) = (if 0 \<le> sint q \<and> sint q \<le> 100 then (set_parm KEY_JPEG_QUALITY (fw_show_int e q) p, NO_ERROR) else (p, BAD_VALUE));
          q = getInt e params KEY_JPEG_THUMBNAIL_QUALITY in
      if 0 \<le> sint q \<and> sint q \<le> 100 then (set_parm KEY_JPEG_THUMBNAIL_QUALITY (fw_show_int e q) p, rc) else (p, BAD_VALUE))"

definition setRotation :: "parm_env \<Rightarrow> parm_map \<Rightarrow> parameters \<Rightarrow> parameters \<times> i32" where
  "setRotation e params p =
     (let rotation = getInt e params KEY_ROTATION in
      if rotation = - 1 then (p, NO_ERROR)
      else if rotation \<in> {0, 90, 180, 270} then (set_parm KEY_ROTATION (fw_show_int e rotation) p, NO_ERROR)
      else (p, BAD_VALUE))"

definition setOrientation :: "parm_map \<Rightarrow> parameters \<Rightarrow> parameters \<times> i32" where
  "setOrientation params p =
     (case params KEY_QC_ORIENTATION of
        None \<Rightarrow> (p, NO_ERROR)
      | Some str \<Rightarrow> if str = ''portrait'' \<or> str = ''landscape'' then (set_parm KEY_QC_ORIENTATION str p, NO_ERROR) else (p, BAD_VALUE))"

section \<open>Scene modes, HDR and bracketing\<close>

definition isHDREnabled :: "parameters \<Rightarrow> bool" where
  "isHDREnabled p \<longleftrightarrow> m_bHDREnabled p \<or> m_HDRSceneEnabled p"

definition setSceneMode_value :: "parm_env \<Rightarrow> parm_string \<Rightarrow> parameters \<Rightarrow> parameters \<times> i32" where
  "setSceneMode_value e = set_mode KEY_SCENE_MODE (SCENE_MODES_MAP (pe_fw e)) CAM_INTF_PARM_BESTSHOT_MODE"

definition setSceneMode_hdr :: "parm_map \<Rightarrow> parameters \<Rightarrow> parameters" where
  "setSceneMode_hdr params p =
     (let p = p\<lparr>m_bNeedRestart := True\<rparr>;
          p = (case params KEY_QC_HDR_NEED_1X of
                 None \<Rightarrow> p
               | Some s \<Rightarrow> updateParamEntry KEY_QC_HDR_NEED_1X s (p\<lparr>m_bHDR1xFrameEnabled := (s = ''true'')\<rparr>)) in
      fst (add_parm CAM_INTF_PARM_HDR_NEED_1X [if m_bHDR1xFrameEnabled p then 1 else 0] p))"

definition setSceneMode :: "parm_env \<Rightarrow> parm_map \<Rightarrow> parameters \<Rightarrow> parameters \<times> i32" where
  "setSceneMode e params p =
     (let prev = p_map p KEY_SCENE_MODE in
      if_changed KEY_SCENE_MODE (\<lambda>str p.
        (let p = (if str = pe_fw e ''SCENE_MODE_AUTO'' then p\<lparr>m_bSceneTransitionAuto := True\<rparr> else p);
             p = p\<lparr>m_bHDREnabled := (str = ''hdr'')\<rparr>;
             p = (if m_bHDREnabled p \<or> prev = Some ''hdr'' then setSceneMode_hdr params p else p) in
         setSceneMode_value e str p)) params p)"

definition MAX_EXP_BRACKETING_LENGTH :: nat where "MAX_EXP_BRACKETING_LENGTH = 32"

text \<open>The characters of a string in an array of \<^verbatim>\<open>n\<close> bytes that was zero before.\<close>

definition in_array :: "nat \<Rightarrow> string \<Rightarrow> u8 list" where
  "in_array n s = (let bs = map of_char s in bs @ replicate (n - length bs) 0)"

definition setAEBracket_value :: "parm_string \<Rightarrow> parameters \<Rightarrow> parameters \<times> i32" where
  "setAEBracket_value str p =
     (let off = \<lparr>eb_mode = 0, eb_values = in_array MAX_EXP_BRACKETING_LENGTH []\<rparr>;
          expBracket =
            (if lookupAttr BRACKETING_MODES_MAP (Some str) = 1 then
               (case p_map p KEY_QC_CAPTURE_BURST_EXPOSURE of
                  None \<Rightarrow> off
                | Some s \<Rightarrow> if s = [] then off
                            else \<lparr>eb_mode = 1, eb_values = in_array MAX_EXP_BRACKETING_LENGTH (fit MAX_EXP_BRACKETING_LENGTH s)\<rparr>)
             else off) in
      add_parm CAM_INTF_PARM_HDR (bracket_bytes expBracket)
        (updateParamEntry KEY_QC_AE_BRACKET_HDR str (p\<lparr>m_AEBracketingClient := expBracket\<rparr>)))"

definition setAEBracket :: "parm_env \<Rightarrow> parm_map \<Rightarrow> parameters \<Rightarrow> parameters \<times> i32" where
  "setAEBracket e params p =
     (if isHDREnabled p then setAEBracket_value ''Off'' p
      else
        (let exps = (case params KEY_QC_CAPTURE_BURST_EXPOSURE of None \<Rightarrow> [] | Some s \<Rightarrow> s);
             exps = (if exps = [] then property_get e ''persist.capture.burst.exposures'' [] else exps);
             p = (if exps = [] then remove_parm KEY_QC_CAPTURE_BURST_EXPOSURE p
                  else set_parm KEY_QC_CAPTURE_BURST_EXPOSURE exps p) in
         if_changed KEY_QC_AE_BRACKET_HDR setAEBracket_value params p))"

text \<open>The number of additional buffers for HDR, computed in a \<^verbatim>\<open>uint8_t\<close> and returned as one.\<close>

definition getNumOfExtraHDRInBufsIfNeeded :: "parm_env \<Rightarrow> parameters \<Rightarrow> u8" where
  "getNumOfExtraHDRInBufsIfNeeded e p =
     (let n = (if isHDREnabled p then
                 ucast (hdr_num_frames (pe_cap e)) + (if m_bHDR1xFrameEnabled p \<and> m_bHDR1xExtraBufferNeeded p then 1 else 0) - 1
               else 0) in
      n * ucast (m_nBurstNum p))"

definition getNumOfExtraHDROutBufsIfNeeded :: "parameters \<Rightarrow> u8" where
  "getNumOfExtraHDROutBufsIfNeeded p =
     (if isHDREnabled p \<and> m_bHDR1xFrameEnabled p then 1 else 0) * ucast (m_nBurstNum p)"

definition setNumOfSnapshot :: "parm_env \<Rightarrow> parameters \<Rightarrow> parameters \<times> i32" where
  "setNumOfSnapshot e p =
     (let nExpnum :: u8 =
        (case p_map p KEY_QC_AE_BRACKET_HDR of
           None \<Rightarrow> 0
         | Some bracket_str \<Rightarrow>
             if bracket_str = [] then 0
             else if lookupAttr BRACKETING_MODES_MAP (Some bracket_str) = 1 then
               (let exps = (case p_map p KEY_QC_CAPTURE_BURST_EXPOSURE of None \<Rightarrow> [] | Some s \<Rightarrow> s);
                    n = of_nat (count_tokens CHR '','' False (fit (pe_prop_max e) exps)) in
                if n = 0 then 1 else n)
             else 1 + getNumOfExtraHDROutBufsIfNeeded p) in
      (set_parm KEY_QC_NUM_SNAPSHOT_PER_SHUTTER (fw_show_int e (m_nBurstNum p * ucast nExpnum)) p, NO_ERROR))"

definition setBurstNum :: "parm_env \<Rightarrow> parm_map \<Rightarrow> parameters \<Rightarrow> parameters \<times> i32" where
  "setBurstNum e params p =
     (let nBurstNum = getInt e params KEY_QC_SNAPSHOT_BURST_NUM in
      if sint nBurstNum \<le> 0 then
        (let n = atoi (property_get e ''persist.camera.snapshot.number'' ''0'') in
         (p\<lparr>m_nBurstNum := (if sint n \<le> 0 then 1 else n)\<rparr>, NO_ERROR))
      else ((set_parm KEY_QC_SNAPSHOT_BURST_NUM (fw_show_int e nBurstNum) p)\<lparr>m_nBurstNum := nBurstNum\<rparr>, NO_ERROR))"

section \<open>Location, ZSL attributes, denoise, faces\<close>

definition set_or_remove :: "parm_map \<Rightarrow> parm_key \<Rightarrow> parameters \<Rightarrow> parameters" where
  "set_or_remove params k p = (case params k of None \<Rightarrow> remove_parm k p | Some s \<Rightarrow> set_parm k s p)"

definition gps_keys :: "parm_key list" where
  "gps_keys = [KEY_GPS_PROCESSING_METHOD, KEY_GPS_LATITUDE, KEY_QC_GPS_LATITUDE_REF, KEY_GPS_LONGITUDE, KEY_QC_GPS_LONGITUDE_REF,
     KEY_QC_GPS_ALTITUDE_REF, KEY_GPS_ALTITUDE, KEY_QC_GPS_STATUS, KEY_GPS_TIMESTAMP]"

definition setGpsLocation :: "parm_map \<Rightarrow> parameters \<Rightarrow> parameters \<times> i32" where
  "setGpsLocation params p = (fold (set_or_remove params) gps_keys p, NO_ERROR)"

definition set_or_prop :: "parm_env \<Rightarrow> parm_map \<Rightarrow> parm_key \<Rightarrow> string \<Rightarrow> parm_string \<Rightarrow> parameters \<Rightarrow> parameters" where
  "set_or_prop e params k prop d p =
     set_parm k (case params k of Some s \<Rightarrow> s | None \<Rightarrow> property_get e prop d) p"

definition setZslAttributes :: "parm_env \<Rightarrow> parm_map \<Rightarrow> parameters \<Rightarrow> parameters \<times> i32" where
  "setZslAttributes e params p =
     (let p = set_or_prop e params KEY_QC_ZSL_BURST_INTERVAL ''persist.camera.zsl.interval'' ''1'' p;
          p = set_or_prop e params KEY_QC_ZSL_BURST_LOOKBACK ''persist.camera.zsl.backlookcnt'' ''2'' p;
          p = set_or_prop e params KEY_QC_ZSL_QUEUE_DEPTH ''persist.camera.zsl.queuedepth'' ''2'' p in
      (p, NO_ERROR))"

definition getWaveletDenoiseProcessPlate :: "parm_env \<Rightarrow> i32" where
  "getWaveletDenoiseProcessPlate e =
     (let processPlate = sint (atoi (property_get e ''persist.denoise.process.plates'' ''0'')) in
      if processPlate = 0 then 0 else if processPlate = 1 then 1 else if processPlate = 2 then 2
      else if processPlate = 3 then 3 else 2)"

definition setWaveletDenoise_value :: "parm_env \<Rightarrow> parm_string \<Rightarrow> parameters \<Rightarrow> parameters \<times> i32" where
  "setWaveletDenoise_value e wnrStr p =
     (let value = lookupAttr DENOISE_ON_OFF_MODES_MAP (Some wnrStr) in
      if value \<noteq> NAME_NOT_FOUND then
        (let p = (updateParamEntry KEY_QC_DENOISE wnrStr p)\<lparr>m_bWNROn := (value \<noteq> 0)\<rparr>;
             plates = (if m_bWNROn p then getWaveletDenoiseProcessPlate e else 0) in
         add_parm CAM_INTF_PARM_WAVELET_DENOISE (le_bytes value @ le_bytes plates) p)
      else (p, BAD_VALUE))"

definition setWaveletDenoise :: "parm_env \<Rightarrow> parm_map \<Rightarrow> parameters \<Rightarrow> parameters \<times> i32" where
  "setWaveletDenoise e = if_changed KEY_QC_DENOISE (setWaveletDenoise_value e)"

definition CAM_FACE_PROCESS_MASK_RECOGNITION :: i32 where "CAM_FACE_PROCESS_MASK_RECOGNITION = 2"

text \<open>The mask is changed before the entry is accepted by the camera, and an unchanged mask sends nothing.\<close>

definition setFaceRecognition_value :: "parm_string \<Rightarrow> i32 \<Rightarrow> parameters \<Rightarrow> parameters \<times> i32" where
  "setFaceRecognition_value faceRecog maxFaces p =
     (let value = lookupAttr ON_OFF_MODES_MAP (Some faceRecog) in
      if value \<noteq> NAME_NOT_FOUND then
        (let p = updateParamEntry KEY_QC_FACE_RECOGNITION faceRecog p;
             faceProcMask = (if 0 < sint value then m_nFaceProcMask p OR CAM_FACE_PROCESS_MASK_RECOGNITION
                             else m_nFaceProcMask p AND NOT CAM_FACE_PROCESS_MASK_RECOGNITION) in
         if m_nFaceProcMask p = faceProcMask then (p, NO_ERROR)
         else add_parm CAM_INTF_PARM_FD (le_bytes faceProcMask @ le_bytes maxFaces) (p\<lparr>m_nFaceProcMask := faceProcMask\<rparr>))
      else (p, BAD_VALUE))"

definition setFaceRecognition :: "parm_env \<Rightarrow> parm_map \<Rightarrow> parameters \<Rightarrow> parameters \<times> i32" where
  "setFaceRecognition e params =
     if_changed KEY_QC_FACE_RECOGNITION (\<lambda>str. setFaceRecognition_value str (getInt e params KEY_QC_MAX_NUM_REQUESTED_FACES)) params"

end
