(* ===== verification/ParmArea.thy ===== *)
theory ParmArea
  imports ParmControl
begin

text \<open>
  Focus and metering areas of \<^verbatim>\<open>QCameraParameters.cpp\<close>: the parser of lists of areas, with the buffer of 32 bytes that
  it copies each area into, the validation, and the two setters that turn areas into regions of the preview.
  \<^verbatim>\<open>None\<close> is undefined behaviour: a write past the buffer, or past the array that the caller allocated.
\<close>

abbreviation "KEY_FOCUS_AREAS \<equiv> FW ''KEY_FOCUS_AREAS''"
abbreviation "KEY_METERING_AREAS \<equiv> FW ''KEY_METERING_AREAS''"
abbreviation "KEY_MAX_NUM_FOCUS_AREAS \<equiv> FW ''KEY_MAX_NUM_FOCUS_AREAS''"
abbreviation "KEY_MAX_NUM_METERING_AREAS \<equiv> FW ''KEY_MAX_NUM_METERING_AREAS''"

record cam_area =
  area_left :: i32
  area_top :: i32
  area_width :: i32
  area_height :: i32
  area_weight :: i32

section \<open>Parsing\<close>

text \<open>The loop of \<^verbatim>\<open>parseNDimVector\<close>: the numbers, or the error.  After the last number any character may follow.\<close>

fun read_vector :: "char \<Rightarrow> nat \<Rightarrow> string \<Rightarrow> i32 list option" where
  "read_vector delim 0 s = Some []"
| "read_vector delim (Suc n) s =
     (let (v, end) = strtol10 s in
      if n = 0 then Some [v]
      else (case end of
              [] \<Rightarrow> None
            | c # r \<Rightarrow> if c = delim then map_option (\<lambda>vs. v # vs) (read_vector delim n r) else None))"

definition parseNDimVector :: "string \<Rightarrow> nat \<Rightarrow> i32 + i32 list" where
  "parseNDimVector str N =
     (if str = [] \<or> hd str \<noteq> CHR ''('' \<or> last str \<noteq> CHR '')'' then Inl BAD_VALUE
      else (case read_vector CHR '','' N (tl str) of None \<Rightarrow> Inl (- 1) | Some vs \<Rightarrow> Inr vs))"

definition AREA_STR_SIZE :: nat where "AREA_STR_SIZE = 32"

definition area_of :: "i32 list \<Rightarrow> cam_area" where
  "area_of v = \<lparr>area_left = v ! 0, area_top = v ! 1, area_width = v ! 2 - v ! 0, area_height = v ! 3 - v ! 1, area_weight = v ! 4\<rparr>"

text \<open>One area: the text from the parenthesis to the next closing one is copied with a terminating zero.  The result is the
  values and the string from the closing parenthesis on.\<close>

definition next_area :: "string \<Rightarrow> (i32 + i32 list \<times> string) option" where
  "next_area start =
     (case start of
        [] \<Rightarrow> Some (Inl BAD_VALUE)
      | c # _ \<Rightarrow>
        if c \<noteq> CHR ''('' then Some (Inl BAD_VALUE)
        else (case strchr CHR '')'' start of
          None \<Rightarrow> Some (Inl BAD_VALUE)
        | Some end \<Rightarrow>
            (let area_str = take (length start - length end + 1) start in
             if AREA_STR_SIZE < length area_str + 1 then None
             else (case parseNDimVector area_str 5 of
                     Inl _ \<Rightarrow> Some (Inl BAD_VALUE)
                   | Inr values \<Rightarrow> Some (Inr (values, end))))))"

lemma next_area_shorter:
  assumes "next_area s = Some (Inr (v, r))" "strchr CHR ''('' r = Some t"
  shows "length t < length s"
proof -
  obtain u where s: "s = CHR ''('' # u" "strchr CHR '')'' s = Some r"
    using assms(1) by (auto simp: next_area_def Let_def split: list.splits if_splits option.splits sum.splits)
  have "length r \<le> length u" using strchr_Some [OF s(2)] s(1) by (auto simp: Cons_eq_append_conv)
  with strchr_shorter [OF assms(2)] s(1) show ?thesis by simp
qed

function parse_areas :: "string \<Rightarrow> nat \<Rightarrow> cam_area list \<Rightarrow> (i32 + cam_area list) option" where
  "parse_areas start max_num_areas areas =
     (case next_area start of
        None \<Rightarrow> None
      | Some (Inl rc) \<Rightarrow> Some (Inl rc)
      | Some (Inr (values, end)) \<Rightarrow>
          if max_num_areas \<le> length areas then Some (Inl BAD_VALUE)
          else (case strchr CHR ''('' end of
                  None \<Rightarrow> Some (Inr (areas @ [area_of values]))
                | Some start' \<Rightarrow> parse_areas start' max_num_areas (areas @ [area_of values])))"
  by pat_completeness auto
termination by (relation "measure (\<lambda>(s, _, _). length s)") (auto intro: next_area_shorter)

declare parse_areas.simps [simp del]

definition parseCameraAreaString :: "string \<Rightarrow> nat \<Rightarrow> (i32 + cam_area list) option" where
  "parseCameraAreaString str max_num_areas = parse_areas str max_num_areas []"

section \<open>Validation\<close>

definition is_default_area :: "cam_area list \<Rightarrow> bool" where
  "is_default_area areas \<longleftrightarrow> areas = [\<lparr>area_left = 0, area_top = 0, area_width = 0, area_height = 0, area_weight = 0\<rparr>]"

definition area_ok :: "cam_area \<Rightarrow> bool" where
  "area_ok a \<longleftrightarrow> - 1000 \<le> sint (area_left a) \<and> - 1000 \<le> sint (area_top a) \<and> 0 < sint (area_width a) \<and> 0 < sint (area_height a) \<and>
     sint (area_left a + area_width a) \<le> 1000 \<and> sint (area_top a + area_height a) \<le> 1000 \<and>
     1 \<le> sint (area_weight a) \<and> sint (area_weight a) \<le> 1000"

definition validateCameraAreas :: "cam_area list \<Rightarrow> bool" where
  "validateCameraAreas areas \<longleftrightarrow> is_default_area areas \<or> list_all area_ok areas"

section \<open>Regions\<close>

definition MAX_ROI :: nat where "MAX_ROI = 5"

text \<open>\<^verbatim>\<open>float\<close> arithmetic on the coordinates, in the order of the code.\<close>

definition roi_pos :: "parm_env \<Rightarrow> i32 \<Rightarrow> i32 \<Rightarrow> i32" where
  "roi_pos e v extent =
     conv_int (pe_flt e (pe_flt e (pe_flt e (of_i32 v) + 1000) * pe_flt e (pe_flt e (of_i32 extent) / 2000)))"

definition roi_len :: "parm_env \<Rightarrow> i32 \<Rightarrow> i32 \<Rightarrow> i32" where
  "roi_len e v extent = conv_int (pe_flt e (pe_flt e (of_i32 (v * extent)) / 2000))"

definition roi_bytes :: "parm_env \<Rightarrow> cam_dimension \<Rightarrow> cam_area \<Rightarrow> u8 list" where
  "roi_bytes e pv a = le_bytes (roi_pos e (area_left a) (dim_width pv)) @ le_bytes (roi_pos e (area_top a) (dim_height pv)) @
     le_bytes (roi_len e (area_width a) (dim_width pv)) @ le_bytes (roi_len e (area_height a) (dim_height pv))"

definition zeros :: "nat \<Rightarrow> u8 list" where
  "zeros n = replicate n 0"

text \<open>\<^verbatim>\<open>cam_roi_info_t\<close>: the frame id, the number of regions with its padding, the regions, the weights, and the flag of
  multiple windows with its padding.\<close>

definition roi_info_bytes :: "parm_env \<Rightarrow> cam_dimension \<Rightarrow> cam_area list \<Rightarrow> u8 list" where
  "roi_info_bytes e pv areas =
     (let rest = MAX_ROI - length areas in
      le_bytes 0 @ of_nat (length areas) # zeros 3 @
      concat (map (roi_bytes e pv) areas) @ zeros (16 * rest) @
      concat (map (\<lambda>a. le_bytes (area_weight a)) areas) @ zeros (4 * rest) @ zeros 4)"

text \<open>The centre of an area, \<^verbatim>\<open>cam_coordinate_type_t\<close>.\<close>

definition centre :: "parm_env \<Rightarrow> i32 \<Rightarrow> i32 \<Rightarrow> i32 \<Rightarrow> i32" where
  "centre e v len extent =
     conv_int (pe_flt e (pe_flt e (pe_flt e (pe_flt e (of_i32 (v + i32_div len 2)) + 1000) * pe_flt e (of_i32 extent)) / 2000))"

definition centre_bytes :: "parm_env \<Rightarrow> cam_dimension \<Rightarrow> cam_area \<Rightarrow> u8 list" where
  "centre_bytes e pv a = le_bytes (centre e (area_left a) (area_width a) (dim_width pv)) @
     le_bytes (centre e (area_top a) (area_height a) (dim_height pv))"

text \<open>\<^verbatim>\<open>cam_set_aec_roi_t\<close>: \<^verbatim>\<open>CAM_AEC_ROI_ON\<close> and \<^verbatim>\<open>CAM_AEC_ROI_BY_COORDINATE\<close> are \<^verbatim>\<open>1\<close>.\<close>

definition aec_roi_bytes :: "parm_env \<Rightarrow> cam_dimension \<Rightarrow> cam_area list \<Rightarrow> u8 list" where
  "aec_roi_bytes e pv areas =
     (if areas = [] then zeros 48
      else le_bytes 1 @ le_bytes 1 @ concat (map (centre_bytes e pv) areas) @ zeros (8 * (MAX_ROI - length areas)))"

section \<open>Setters\<close>

text \<open>The two setters share everything but the keys and the value that they send.  Regions beyond \<^verbatim>\<open>MAX_ROI\<close> would be
  written past the value; the capability is clamped to it when the parameters are initialised.\<close>

definition set_areas :: "parm_env \<Rightarrow> nat \<Rightarrow> parm_key \<Rightarrow> nat \<Rightarrow> (cam_dimension \<Rightarrow> cam_area list \<Rightarrow> u8 list) \<Rightarrow> parm_string \<Rightarrow>
    parameters \<Rightarrow> (parameters \<times> i32) option" where
  "set_areas e max_num k t bytes str p =
     (if max_num = 0 then Some (p, NO_ERROR)
      else if \<not> pe_malloc e (20 * max_num) then Some (p, NO_MEMORY)
      else (case parseCameraAreaString str max_num of
        None \<Rightarrow> None
      | Some (Inl _) \<Rightarrow> Some (p, BAD_VALUE)
      | Some (Inr areas) \<Rightarrow>
          if \<not> validateCameraAreas areas then Some (p, BAD_VALUE)
          else
            (let p = updateParamEntry k str p;
                 areas = (if is_default_area areas then [] else areas) in
             if MAX_ROI < length areas then None
             else Some (add_parm t (bytes (getSize e (p_map p) KEY_PREVIEW_SIZE) areas) p))))"

definition setFocusAreas_value :: "parm_env \<Rightarrow> parm_string \<Rightarrow> parameters \<Rightarrow> (parameters \<times> i32) option" where
  "setFocusAreas_value e =
     set_areas e (max_num_focus_areas (pe_cap e)) KEY_FOCUS_AREAS CAM_INTF_PARM_AF_ROI (roi_info_bytes e)"

definition setMeteringAreas_value :: "parm_env \<Rightarrow> parm_string \<Rightarrow> parameters \<Rightarrow> (parameters \<times> i32) option" where
  "setMeteringAreas_value e =
     set_areas e (max_num_metering_areas (pe_cap e)) KEY_METERING_AREAS CAM_INTF_PARM_AEC_ROI (aec_roi_bytes e)"

definition areas_if_changed :: "parm_env \<Rightarrow> parm_key \<Rightarrow> parm_key \<Rightarrow> (parm_string \<Rightarrow> parameters \<Rightarrow> (parameters \<times> i32) option) \<Rightarrow>
    parm_map \<Rightarrow> parameters \<Rightarrow> (parameters \<times> i32) option" where
  "areas_if_changed e k kmax f params p =
     (case params k of
        None \<Rightarrow> Some (p, NO_ERROR)
      | Some str \<Rightarrow>
          if getInt e (p_map p) kmax = 0 then Some (p, BAD_VALUE)
          else if p_map p k = Some str then Some (p, NO_ERROR) else f str p)"

definition setFocusAreas :: "parm_env \<Rightarrow> parm_map \<Rightarrow> parameters \<Rightarrow> (parameters \<times> i32) option" where
  "setFocusAreas e = areas_if_changed e KEY_FOCUS_AREAS KEY_MAX_NUM_FOCUS_AREAS (setFocusAreas_value e)"

definition setMeteringAreas :: "parm_env \<Rightarrow> parm_map \<Rightarrow> parameters \<Rightarrow> (parameters \<times> i32) option" where
  "setMeteringAreas e = areas_if_changed e KEY_METERING_AREAS KEY_MAX_NUM_METERING_AREAS (setMeteringAreas_value e)"

end
