(* ===== verification/ParmUpdate.thy ===== *)
theory ParmUpdate
  imports ParmArea
begin

text \<open>
  \<^verbatim>\<open>updateParameters\<close> of \<^verbatim>\<open>QCameraParameters.cpp\<close>, which hands a request to every setter in turn, and the
  methods that the HAL reads the parameters with: formats, dimensions and flips of the streams, the attributes of the
  ZSL channel, numbers of snapshots and buffers.
\<close>

section \<open>A request\<close>

text \<open>A setter that writes past a buffer leaves the mark \<^verbatim>\<open>m_overrun\<close>.\<close>

definition or_overrun :: "(parm_map \<Rightarrow> parameters \<Rightarrow> (parameters \<times> i32) option) \<Rightarrow> parm_map \<Rightarrow> parameters \<Rightarrow> parameters \<times> i32" where
  "or_overrun f params p = (case f params p of Some r \<Rightarrow> r | None \<Rightarrow> (p\<lparr>m_overrun := True\<rparr>, BAD_VALUE))"

fun run_setter :: "parm_env \<Rightarrow> setter \<Rightarrow> parm_map \<Rightarrow> parameters \<Rightarrow> parameters \<times> i32" where
  "run_setter e SetPreviewSize = setPreviewSize e"
| "run_setter e SetVideoSize = setVideoSize e"
| "run_setter e SetPictureSize = setPictureSize e"
| "run_setter e SetPreviewFormat = setPreviewFormat e"
| "run_setter e SetPictureFormat = setPictureFormat e"
| "run_setter e SetJpegThumbnailSize = setJpegThumbnailSize e"
| "run_setter e SetJpegQuality = setJpegQuality e"
| "run_setter e SetOrientation = setOrientation"
| "run_setter e SetRotation = setRotation e"
| "run_setter e SetNoDisplayMode = setNoDisplayMode"
| "run_setter e SetZslMode = setZslMode"
| "run_setter e SetZslAttributes = setZslAttributes e"
| "run_setter e SetCameraMode = setCameraMode"
| "run_setter e SetRecordingHint = setRecordingHint"
| "run_setter e SetPreviewFrameRate = setPreviewFrameRate"
| "run_setter e SetPreviewFpsRange = setPreviewFpsRange e"
| "run_setter e SetAutoExposure = setAutoExposure"
| "run_setter e SetEffect = setEffect e"
| "run_setter e SetBrightness = setBrightness e"
| "run_setter e SetZoom = setZoom e"
| "run_setter e SetSharpness = setSharpness e"
| "run_setter e SetSaturation = setSaturation e"
| "run_setter e SetContrast = setContrast e"
| "run_setter e SetFocusMode = setFocusMode e"
| "run_setter e SetISOValue = setISOValue"
| "run_setter e SetSkinToneEnhancement = setSkinToneEnhancement e"
| "run_setter e SetFlash = setFlash e"
| "run_setter e SetAecLock = setAecLock"
| "run_setter e SetAwbLock = setAwbLock"
| "run_setter e SetLensShadeValue = setLensShadeValue"
| "run_setter e SetMCEValue = setMCEValue"
| "run_setter e SetDISValue = setDISValue"
| "run_setter e SetHighFrameRate = setHighFrameRate"
| "run_setter e SetAntibanding = setAntibanding e"
| "run_setter e SetExposureCompensation = setExposureCompensation e"
| "run_setter e SetWhiteBalance = setWhiteBalance e"
| "run_setter e SetSceneMode = setSceneMode e"
| "run_setter e SetFocusAreas = or_overrun (setFocusAreas e)"
| "run_setter e SetMeteringAreas = or_overrun (setMeteringAreas e)"
| "run_setter e SetSelectableZoneAf = setSelectableZoneAf"
| "run_setter e SetRedeyeReduction = setRedeyeReduction"
| "run_setter e SetAEBracket = setAEBracket e"
| "run_setter e SetGpsLocation = setGpsLocation"
| "run_setter e SetWaveletDenoise = setWaveletDenoise e"
| "run_setter e SetFaceRecognition = setFaceRecognition e"
| "run_setter e SetFlip = setFlip e"
| "run_setter e SetVideoHDR = setVideoHDR"
| "run_setter e SetBurstNum = setBurstNum e"
| "run_setter e SetLiveSnapshotSize = setLiveSnapshotSize e"

definition setter_order :: "setter list" where
  "setter_order = [SetPreviewSize, SetVideoSize, SetPictureSize, SetPreviewFormat, SetPictureFormat,
     SetJpegThumbnailSize, SetJpegQuality, SetOrientation, SetRotation, SetNoDisplayMode, SetZslMode,
     SetZslAttributes, SetCameraMode, SetRecordingHint, SetPreviewFrameRate, SetPreviewFpsRange, SetAutoExposure,
     SetEffect, SetBrightness, SetZoom, SetSharpness, SetSaturation, SetContrast, SetFocusMode, SetISOValue,
     SetSkinToneEnhancement, SetFlash, SetAecLock, SetAwbLock, SetLensShadeValue, SetMCEValue, SetDISValue,
     SetHighFrameRate, SetAntibanding, SetExposureCompensation, SetWhiteBalance, SetSceneMode, SetFocusAreas,
     SetMeteringAreas, SetSelectableZoneAf, SetRedeyeReduction, SetAEBracket, SetGpsLocation, SetWaveletDenoise,
     SetFaceRecognition, SetFlip, SetVideoHDR, SetBurstNum, SetLiveSnapshotSize]"

fun run_setters :: "parm_env \<Rightarrow> setter list \<Rightarrow> parm_map \<Rightarrow> parameters \<times> i32 \<Rightarrow> parameters \<times> i32" where
  "run_setters e [] params (p, final_rc) = (p, final_rc)"
| "run_setters e (c # cs) params (p, final_rc) =
     (let (p', rc) = run_setter e c params p in run_setters e cs params (p', if rc \<noteq> NO_ERROR then rc else final_rc))"

text \<open>The result: the parameters, the last status of a setter that failed, and whether a restart is needed.\<close>

definition parms_update :: "parm_env \<Rightarrow> parm_map \<Rightarrow> parameters \<Rightarrow> parameters \<times> i32 \<times> bool" where
  "parms_update e params p =
     (let (p', final_rc) = run_setters e setter_order params (initBatchUpdate (p\<lparr>m_bNeedRestart := False\<rparr>), NO_ERROR) in
      (p', final_rc, m_bNeedRestart p'))"

section \<open>Streams\<close>

definition FMT_YUV_420_NV12 :: nat where "FMT_YUV_420_NV12 = 1"
definition FMT_YUV_420_NV21 :: nat where "FMT_YUV_420_NV21 = 2"
definition FMT_YUV_422_NV16 :: nat where "FMT_YUV_422_NV16 = 5"
definition FMT_YUV_422_NV61 :: nat where "FMT_YUV_422_NV61 = 6"
definition FMT_YUV_RAW_8BIT_YUYV :: nat where "FMT_YUV_RAW_8BIT_YUYV = 8"
definition FMT_MAX :: nat where "FMT_MAX = 78"

definition getStreamFormat :: "parm_env \<Rightarrow> cam_stream_type \<Rightarrow> parameters \<Rightarrow> nat \<times> i32" where
  "getStreamFormat e streamType p =
     (case streamType of
        CAM_STREAM_TYPE_PREVIEW \<Rightarrow> (mPreviewFormat p, NO_ERROR)
      | CAM_STREAM_TYPE_POSTVIEW \<Rightarrow> (mPreviewFormat p, NO_ERROR)
      | CAM_STREAM_TYPE_SNAPSHOT \<Rightarrow>
          (if mPictureFormat p = FMT_YUV_422_NV16 then (FMT_YUV_422_NV16, NO_ERROR)
           else if atoi (property_get e ''persist.camera.snap.format'' ''0'') = 1 then (FMT_YUV_422_NV61, NO_ERROR)
           else (FMT_YUV_420_NV21, NO_ERROR))
      | CAM_STREAM_TYPE_VIDEO \<Rightarrow> (FMT_YUV_420_NV12, NO_ERROR)
      | CAM_STREAM_TYPE_RAW \<Rightarrow>
          (if FMT_YUV_RAW_8BIT_YUYV \<le> mPictureFormat p then (mPictureFormat p, NO_ERROR) else (FMT_MAX, BAD_VALUE))
      | _ \<Rightarrow> (FMT_MAX, NO_ERROR))"

definition getFlipMode :: "cam_stream_type \<Rightarrow> parameters \<Rightarrow> i32" where
  "getFlipMode type p =
     (let str = (case type of
                   CAM_STREAM_TYPE_PREVIEW \<Rightarrow> p_map p KEY_QC_PREVIEW_FLIP
                 | CAM_STREAM_TYPE_VIDEO \<Rightarrow> p_map p KEY_QC_VIDEO_FLIP
                 | CAM_STREAM_TYPE_SNAPSHOT \<Rightarrow> p_map p KEY_QC_SNAPSHOT_PICTURE_FLIP
                 | CAM_STREAM_TYPE_POSTVIEW \<Rightarrow> p_map p KEY_QC_SNAPSHOT_PICTURE_FLIP
                 | _ \<Rightarrow> None);
          value = lookupAttr FLIP_MODES_MAP str in
      if value \<noteq> NAME_NOT_FOUND then value else 0)"

text \<open>\<^verbatim>\<open>meta_size\<close> is the size of the metadata structure.\<close>

definition getStreamDimension :: "parm_env \<Rightarrow> i32 \<Rightarrow> cam_stream_type \<Rightarrow> parameters \<Rightarrow> cam_dimension \<times> i32" where
  "getStreamDimension e meta_size streamType p =
     (let none = \<lparr>dim_width = 0, dim_height = 0\<rparr> in
      case streamType of
        CAM_STREAM_TYPE_PREVIEW \<Rightarrow> (getSize e (p_map p) KEY_PREVIEW_SIZE, NO_ERROR)
      | CAM_STREAM_TYPE_POSTVIEW \<Rightarrow> (getSize e (p_map p) KEY_PREVIEW_SIZE, NO_ERROR)
      | CAM_STREAM_TYPE_SNAPSHOT \<Rightarrow>
          (if m_bRecordingHint p then m_LiveSnapshotSize p else getSize e (p_map p) KEY_PICTURE_SIZE, NO_ERROR)
      | CAM_STREAM_TYPE_VIDEO \<Rightarrow> (getSize e (p_map p) KEY_VIDEO_SIZE, NO_ERROR)
      | CAM_STREAM_TYPE_RAW \<Rightarrow> (raw_dim (pe_cap e), NO_ERROR)
      | CAM_STREAM_TYPE_METADATA \<Rightarrow> (\<lparr>dim_width = meta_size, dim_height = 1\<rparr>, NO_ERROR)
      | CAM_STREAM_TYPE_OFFLINE_PROC \<Rightarrow> (none, NO_ERROR)
      | _ \<Rightarrow> (none, BAD_VALUE))"

text \<open>The pixel formats of the display are constants of the platform: this is the format of \<^verbatim>\<open>cam_format_t\<close> that the result
  stands for.\<close>

definition getPreviewHalPixelFormat :: "parameters \<Rightarrow> nat" where
  "getPreviewHalPixelFormat p = (if mPreviewFormat p \<in> {1, 2, 3, 4, 7} then mPreviewFormat p else FMT_YUV_420_NV21)"

section \<open>Numbers\<close>

definition default_if_negative :: "i32 \<Rightarrow> i32 \<Rightarrow> i32" where
  "default_if_negative d v = (if sint v < 0 then d else v)"

definition getThumbnailSize :: "parm_env \<Rightarrow> parameters \<Rightarrow> i32 \<times> i32" where
  "getThumbnailSize e p = (getInt e (p_map p) KEY_JPEG_THUMBNAIL_WIDTH, getInt e (p_map p) KEY_JPEG_THUMBNAIL_HEIGHT)"

definition getZSLBurstInterval :: "parm_env \<Rightarrow> parameters \<Rightarrow> i32" where
  "getZSLBurstInterval e p = default_if_negative 1 (getInt e (p_map p) KEY_QC_ZSL_BURST_INTERVAL)"

definition getZSLQueueDepth :: "parm_env \<Rightarrow> parameters \<Rightarrow> i32" where
  "getZSLQueueDepth e p = default_if_negative 2 (getInt e (p_map p) KEY_QC_ZSL_QUEUE_DEPTH)"

definition getZSLBackLookCount :: "parm_env \<Rightarrow> parameters \<Rightarrow> i32" where
  "getZSLBackLookCount e p = default_if_negative 2 (getInt e (p_map p) KEY_QC_ZSL_BURST_LOOKBACK)"

definition getMaxUnmatchedFramesInQueue :: "parm_env \<Rightarrow> parameters \<Rightarrow> i32" where
  "getMaxUnmatchedFramesInQueue e p = scast (min_num_pp_bufs (pe_cap e)) + i32_div (m_nBurstNum p) 10"

definition getNumOfSnapshots :: "parm_env \<Rightarrow> parameters \<Rightarrow> u8" where
  "getNumOfSnapshots e p =
     (let n = getInt e (p_map p) KEY_QC_NUM_SNAPSHOT_PER_SHUTTER in ucast (if sint n \<le> 0 then 1 else n))"

definition getJpegQuality :: "parm_env \<Rightarrow> parameters \<Rightarrow> i32" where
  "getJpegQuality e p = default_if_negative 85 (getInt e (p_map p) KEY_JPEG_QUALITY)"

definition getJpegRotation :: "parm_env \<Rightarrow> parameters \<Rightarrow> i32" where
  "getJpegRotation e p = default_if_negative 0 (getInt e (p_map p) KEY_ROTATION)"

text \<open>\<^verbatim>\<open>getFlashValue\<close> passes the number of entries of the ISO table with the flash table.\<close>

definition getFlashValue :: "parm_env \<Rightarrow> parameters \<Rightarrow> i32 option" where
  "getFlashValue e p = lookupAttr_len (FLASH_MODES_MAP (pe_fw e)) (length ISO_MODES_MAP) (p_map p KEY_FLASH_MODE)"

definition FLASH_FUNC_PRESENT :: i32 where "FLASH_FUNC_PRESENT = 0"
definition NO_FLASH_FUNC :: i32 where "NO_FLASH_FUNC = 0x20"

definition getSupportedFlashModes :: "parameters \<Rightarrow> i32" where
  "getSupportedFlashModes p = (if p_map p (FW ''KEY_SUPPORTED_FLASH_MODES'') \<noteq> None then FLASH_FUNC_PRESENT else NO_FLASH_FUNC)"

definition getRedEyeValue :: "parameters \<Rightarrow> i32" where
  "getRedEyeValue p = lookupAttr ENABLE_DISABLE_MODES_MAP (p_map p KEY_QC_REDEYE_REDUCTION)"

section \<open>Touch positions and the rest\<close>

abbreviation "KEY_QC_TOUCH_INDEX_AEC \<equiv> QC ''touch-index-aec''"
abbreviation "KEY_QC_TOUCH_INDEX_AF \<equiv> QC ''touch-index-af''"
abbreviation "KEY_QC_PREVIEW_FRAME_RATE_MODE \<equiv> QC ''preview-frame-rate-mode''"

definition read_touch :: "parm_string option \<Rightarrow> i32 \<times> i32" where
  "read_touch str =
     (case str of
        None \<Rightarrow> (- 1, - 1)
      | Some s \<Rightarrow> (case parse_pair s CHR ''x'' of Inl _ \<Rightarrow> (- 1, - 1) | Inr (x, y, _) \<Rightarrow> (x, y)))"

definition setTouchIndexAec :: "i32 \<Rightarrow> i32 \<Rightarrow> parameters \<Rightarrow> parameters" where
  "setTouchIndexAec x y = set_parm KEY_QC_TOUCH_INDEX_AEC (print_pair [] ''x'' [] x y)"

definition getTouchIndexAec :: "parameters \<Rightarrow> i32 \<times> i32" where
  "getTouchIndexAec p = read_touch (p_map p KEY_QC_TOUCH_INDEX_AEC)"

definition setTouchIndexAf :: "i32 \<Rightarrow> i32 \<Rightarrow> parameters \<Rightarrow> parameters" where
  "setTouchIndexAf x y = set_parm KEY_QC_TOUCH_INDEX_AF (print_pair [] ''x'' [] x y)"

definition getTouchIndexAf :: "parameters \<Rightarrow> i32 \<times> i32" where
  "getTouchIndexAf p = read_touch (p_map p KEY_QC_TOUCH_INDEX_AF)"

definition setPreviewFrameRateMode :: "parm_string \<Rightarrow> parameters \<Rightarrow> parameters" where
  "setPreviewFrameRateMode = set_parm KEY_QC_PREVIEW_FRAME_RATE_MODE"

definition getPreviewFrameRateMode :: "parameters \<Rightarrow> parm_string option" where
  "getPreviewFrameRateMode p = p_map p KEY_QC_PREVIEW_FRAME_RATE_MODE"

end
