(* ===== verification/HalHwi.thy ===== *)
theory HalHwi
  imports ParmUpdate
begin

text \<open>
  The operations of the HAL on its channels, parameters and helpers: \<^verbatim>\<open>QCameraChannel.cpp\<close>, the life of a
  stream in \<^verbatim>\<open>QCameraStream.cpp\<close>, and the methods of \<^verbatim>\<open>QCamera2HWI.cpp\<close> that the state machine calls.  A
  channel is a value while it is built, and an entry of \<^verbatim>\<open>m_channels\<close> afterwards.  The callbacks that are registered
  with a stream are not part of the model, so the two branches of \<^verbatim>\<open>isNoDisplayMode()\<close> in the \<^verbatim>\<open>add\<close> methods are
  one.
\<close>

section \<open>Streams\<close>

text \<open>\<^verbatim>\<open>QCameraStream::init\<close>: the handle, which is zero when the stream could not be set up, and the status.\<close>

definition hal_stream_init :: "hal_env \<Rightarrow> u32 \<Rightarrow> cam_stream_type \<Rightarrow> hal \<Rightarrow> hal \<times> u32 \<times> i32" where
  "hal_stream_init e ch ty s =
     (let (s, h) = dev e (Add_stream ch) s in
      if h = 0 then (s, 0, UNKNOWN_ERROR)
      else
        (let (s, rc) = dev e (Map_stream_info ch h) s in
         if sint rc < 0 then (dev' e (Delete_stream ch h) s, 0, rc)
         else
           (let (s, rc) = dev e (Config_stream ch h ty) s in
            if sint rc < 0 then (dev' e (Delete_stream ch h) (dev' e (Unmap_stream_info ch h) s), 0, rc)
            else (s, h, 0))))"

definition hal_stream_delete :: "hal_env \<Rightarrow> u32 \<Rightarrow> hal_stream \<Rightarrow> hal \<Rightarrow> hal" where
  "hal_stream_delete e ch st s = dev' e (Delete_stream ch (fst st)) (dev' e (Unmap_stream_info ch (fst st)) s)"

definition hal_stream_start :: "hal_env \<Rightarrow> u32 \<Rightarrow> hal_stream \<Rightarrow> hal \<Rightarrow> hal" where
  "hal_stream_start e ch st s = dev' e (Stream_thread_start ch (fst st)) s"

definition hal_stream_stop :: "hal_env \<Rightarrow> u32 \<Rightarrow> hal_stream \<Rightarrow> hal \<Rightarrow> hal" where
  "hal_stream_stop e ch st s = dev' e (Stream_thread_stop ch (fst st)) s"

section \<open>Channels\<close>

definition ch_stop :: "hal_env \<Rightarrow> hal_channel \<Rightarrow> hal \<Rightarrow> hal \<times> hal_channel \<times> i32" where
  "ch_stop e c s =
     (let (s, rc) = dev e (Stop_channel (hc_handle c)) (fold (hal_stream_stop e (hc_handle c)) (hc_streams c) s) in
      (s, c\<lparr>hc_active := False\<rparr>, rc))"

definition ch_delete :: "hal_env \<Rightarrow> hal_channel \<Rightarrow> hal \<Rightarrow> hal" where
  "ch_delete e c s =
     (let s = (if hc_active c then fst (ch_stop e c s) else s) in
      dev' e (Delete_channel (hc_handle c)) (fold (hal_stream_delete e (hc_handle c)) (hc_streams c) s))"

definition ch_init :: "hal_env \<Rightarrow> mm_camera_channel_attr option \<Rightarrow> hal \<Rightarrow> hal \<times> hal_channel \<times> i32" where
  "ch_init e attr s =
     (let (s, h) = dev e (Add_channel attr) s in
      (s, \<lparr>hc_handle = h, hc_active = False, hc_streams = []\<rparr>, if h = 0 then UNKNOWN_ERROR else NO_ERROR))"

definition ch_addStream :: "hal_env \<Rightarrow> cam_stream_type \<Rightarrow> hal_channel \<Rightarrow> hal \<Rightarrow> hal \<times> hal_channel \<times> i32" where
  "ch_addStream e ty c s =
     (if MAX_STREAM_NUM_IN_BUNDLE \<le> length (hc_streams c) then (s, c, BAD_VALUE)
      else if he_new_fails e (hal_trace s) then (s, c, NO_MEMORY)
      else
        (let (s, h, rc) = hal_stream_init e (hc_handle c) ty s in
         (s, if rc = 0 then c\<lparr>hc_streams := hc_streams c @ [(h, ty)]\<rparr> else c, rc)))"

text \<open>The bundle is announced stream by stream, except to the metadata stream, until one refuses it.\<close>

fun set_bundle :: "hal_env \<Rightarrow> hal_channel \<Rightarrow> nat list \<Rightarrow> hal \<Rightarrow> hal \<times> i32" where
  "set_bundle e c [] s = (s, NO_ERROR)"
| "set_bundle e c (i # is) s =
     (if i < length (hc_streams c) \<and> snd (hc_streams c ! i) \<noteq> CAM_STREAM_TYPE_METADATA then
        (let (s, rc) = dev e (Stream_set_bundle (hc_handle c) (fst (hc_streams c ! i))) s in
         if rc \<noteq> NO_ERROR then (s, rc) else set_bundle e c is s)
      else set_bundle e c is s)"

definition announce_bundle :: "hal_env \<Rightarrow> hal_channel \<Rightarrow> hal \<Rightarrow> hal \<times> i32" where
  "announce_bundle e c s =
     (if 1 < length (hc_streams c) then
        (let bundle = he_bundle e (hal_trace s);
             (s, rc) = dev e (Get_bundle_info (hc_handle c)) s in
         if rc \<noteq> NO_ERROR then (s, rc)
         else if 1 < length bundle then set_bundle e c bundle s
         else (s, NO_ERROR))
      else (s, NO_ERROR))"

definition ch_start :: "hal_env \<Rightarrow> hal_channel \<Rightarrow> hal \<Rightarrow> hal \<times> hal_channel \<times> i32" where
  "ch_start e c s =
     (let (s, rc) = announce_bundle e c s in
      if rc \<noteq> NO_ERROR then (s, c, rc)
      else
        (let (s, rc) = dev e (Start_channel (hc_handle c)) (fold (hal_stream_start e (hc_handle c)) (hc_streams c) s) in
         if rc \<noteq> NO_ERROR then (fold (hal_stream_stop e (hc_handle c)) (hc_streams c) s, c, rc)
         else (s, c\<lparr>hc_active := True\<rparr>, rc)))"

definition ch_takePicture :: "hal_env \<Rightarrow> u8 \<Rightarrow> hal_channel \<Rightarrow> hal \<Rightarrow> hal \<times> i32" where
  "ch_takePicture e n c s = dev e (Request_super_buf (hc_handle c) n) s"

definition ch_cancelPicture :: "hal_env \<Rightarrow> hal_channel \<Rightarrow> hal \<Rightarrow> hal \<times> i32" where
  "ch_cancelPicture e c s = dev e (Cancel_super_buf_request (hc_handle c)) s"

definition ch_releaseFrame :: "hal_env \<Rightarrow> addr \<Rightarrow> bool \<Rightarrow> hal_channel \<Rightarrow> hal \<Rightarrow> hal \<times> i32" where
  "ch_releaseFrame e opaque isMetaData c s =
     (case find (\<lambda>st. snd st = CAM_STREAM_TYPE_VIDEO) (hc_streams c) of
        None \<Rightarrow> (s, BAD_VALUE)
      | Some st \<Rightarrow> dev e (Stream_buf_done (hc_handle c) (fst st) opaque isMetaData) s)"

definition ch_processZoomDone :: "hal_env \<Rightarrow> addr \<Rightarrow> hal_channel \<Rightarrow> hal \<times> i32 \<Rightarrow> hal \<times> i32" where
  "ch_processZoomDone e crop c = (\<lambda>(s, _).
     fold (\<lambda>st (s, rc). dev e (Stream_zoom_done (hc_handle c) (fst st) crop) s) (hc_streams c) (s, NO_ERROR))"

definition flip_streams :: "hal_env \<Rightarrow> bool \<Rightarrow> cam_stream_type list \<Rightarrow> hal_channel \<Rightarrow> hal \<Rightarrow> hal" where
  "flip_streams e changed tys c s =
     (if changed then
        fold (\<lambda>st s. dev' e (Stream_set_flip (hc_handle c) (fst st)) s)
          (filter (\<lambda>st. snd st \<in> set tys) (hc_streams c)) s
      else s)"

definition UpdateStreamBasedParameters :: "hal_env \<Rightarrow> parameters \<Rightarrow> hal_channel \<Rightarrow> hal \<Rightarrow> hal" where
  "UpdateStreamBasedParameters e p c s =
     flip_streams e (m_bSnapshotFlipChanged p) [CAM_STREAM_TYPE_SNAPSHOT, CAM_STREAM_TYPE_POSTVIEW] c
       (flip_streams e (m_bVideoFlipChanged p) [CAM_STREAM_TYPE_VIDEO] c
         (flip_streams e (m_bPreviewFlipChanged p) [CAM_STREAM_TYPE_PREVIEW] c s))"

section \<open>The channels of the HAL\<close>

text \<open>The order of the array \<^verbatim>\<open>m_channels\<close>.\<close>

definition all_ch_types :: "ch_type list" where
  "all_ch_types = [QCAMERA_CH_TYPE_ZSL, QCAMERA_CH_TYPE_CAPTURE, QCAMERA_CH_TYPE_PREVIEW, QCAMERA_CH_TYPE_VIDEO,
     QCAMERA_CH_TYPE_SNAPSHOT, QCAMERA_CH_TYPE_RAW, QCAMERA_CH_TYPE_METADATA]"

definition put_channel :: "ch_type \<Rightarrow> hal_channel option \<Rightarrow> hal \<Rightarrow> hal" where
  "put_channel ty c s = s\<lparr>m_channels := (m_channels s)(ty := c)\<rparr>"

definition delChannel :: "hal_env \<Rightarrow> ch_type \<Rightarrow> hal \<Rightarrow> hal \<times> i32" where
  "delChannel e ty s =
     (case m_channels s ty of
        None \<Rightarrow> (s, NO_ERROR)
      | Some c \<Rightarrow> (put_channel ty None (ch_delete e c s), NO_ERROR))"

definition startChannel :: "hal_env \<Rightarrow> ch_type \<Rightarrow> hal \<Rightarrow> hal \<times> i32" where
  "startChannel e ty s =
     (case m_channels s ty of
        None \<Rightarrow> (s, UNKNOWN_ERROR)
      | Some c \<Rightarrow> (let (s, c, rc) = ch_start e c s in (put_channel ty (Some c) s, rc)))"

definition stopChannel :: "hal_env \<Rightarrow> ch_type \<Rightarrow> hal \<Rightarrow> hal \<times> i32" where
  "stopChannel e ty s =
     (case m_channels s ty of
        None \<Rightarrow> (s, UNKNOWN_ERROR)
      | Some c \<Rightarrow> (let (s, c, rc) = ch_stop e c s in (put_channel ty (Some c) s, rc)))"

definition addStreamToChannel :: "hal_env \<Rightarrow> cam_stream_type \<Rightarrow> hal_channel \<Rightarrow> hal \<Rightarrow> hal \<times> hal_channel \<times> i32" where
  "addStreamToChannel e ty c s =
     (let (s, failed) = dev e (Stream_info_buf ty) s in
      if failed \<noteq> 0 then (s, c, NO_MEMORY) else ch_addStream e ty c s)"

text \<open>The streams are added one after the other; a failure deletes the channel.\<close>

fun add_streams :: "hal_env \<Rightarrow> cam_stream_type list \<Rightarrow> hal_channel \<Rightarrow> hal \<Rightarrow> hal \<times> hal_channel \<times> i32" where
  "add_streams e [] c s = (s, c, NO_ERROR)"
| "add_streams e (ty # tys) c s =
     (let (s, c, rc) = addStreamToChannel e ty c s in
      if rc \<noteq> NO_ERROR then (ch_delete e c s, c, rc) else add_streams e tys c s)"

definition add_channel_with :: "hal_env \<Rightarrow> ch_type \<Rightarrow> (parameters \<Rightarrow> mm_camera_channel_attr option) \<Rightarrow> cam_stream_type list
    \<Rightarrow> hal \<Rightarrow> hal \<times> i32" where
  "add_channel_with e ty attr tys s =
     (let s = fst (delChannel e ty s) in
      if he_new_fails e (hal_trace s) then (s, NO_MEMORY)
      else
        (let (s, c, rc) = ch_init e (attr (mParameters s)) s in
         if rc \<noteq> NO_ERROR then (ch_delete e c s, rc)
         else
           (let (s, c, rc) = add_streams e tys c s in
            if rc \<noteq> NO_ERROR then (s, rc) else (put_channel ty (Some c) s, rc))))"

definition addPreviewChannel :: "hal_env \<Rightarrow> hal \<Rightarrow> hal \<times> i32" where
  "addPreviewChannel e = add_channel_with e QCAMERA_CH_TYPE_PREVIEW (\<lambda>_. None)
     [CAM_STREAM_TYPE_METADATA, CAM_STREAM_TYPE_PREVIEW]"

definition addVideoChannel :: "hal_env \<Rightarrow> hal \<Rightarrow> hal \<times> i32" where
  "addVideoChannel e = add_channel_with e QCAMERA_CH_TYPE_VIDEO (\<lambda>_. None) [CAM_STREAM_TYPE_VIDEO]"

definition addSnapshotChannel :: "hal_env \<Rightarrow> hal \<Rightarrow> hal \<times> i32" where
  "addSnapshotChannel e = add_channel_with e QCAMERA_CH_TYPE_SNAPSHOT (\<lambda>_. None) [CAM_STREAM_TYPE_SNAPSHOT]"

definition addRawChannel :: "hal_env \<Rightarrow> hal \<Rightarrow> hal \<times> i32" where
  "addRawChannel e = add_channel_with e QCAMERA_CH_TYPE_RAW (\<lambda>_. None)
     [CAM_STREAM_TYPE_METADATA, CAM_STREAM_TYPE_RAW]"

definition zsl_attr :: "parm_env \<Rightarrow> parameters \<Rightarrow> mm_camera_channel_attr" where
  "zsl_attr e p = \<lparr>notify_mode = MM_CAMERA_SUPER_BUF_NOTIFY_BURST, water_mark = ucast (getZSLQueueDepth e p),
     look_back = ucast (getZSLBackLookCount e p), post_frame_skip = ucast (getZSLBurstInterval e p),
     max_unmatched_frames = ucast (getMaxUnmatchedFramesInQueue e p)\<rparr>"

definition capture_attr :: "parm_env \<Rightarrow> parameters \<Rightarrow> mm_camera_channel_attr" where
  "capture_attr e p = \<lparr>notify_mode = MM_CAMERA_SUPER_BUF_NOTIFY_CONTINUOUS, water_mark = 0, look_back = 0, post_frame_skip = 0,
     max_unmatched_frames = ucast (getMaxUnmatchedFramesInQueue e p)\<rparr>"

definition addZSLChannel :: "hal_env \<Rightarrow> hal \<Rightarrow> hal \<times> i32" where
  "addZSLChannel e = add_channel_with e QCAMERA_CH_TYPE_ZSL (\<lambda>p. Some (zsl_attr (he_parm e) p))
     [CAM_STREAM_TYPE_METADATA, CAM_STREAM_TYPE_PREVIEW, CAM_STREAM_TYPE_SNAPSHOT]"

definition addCaptureChannel :: "hal_env \<Rightarrow> hal \<Rightarrow> hal \<times> i32" where
  "addCaptureChannel e = add_channel_with e QCAMERA_CH_TYPE_CAPTURE (\<lambda>p. Some (capture_attr (he_parm e) p))
     [CAM_STREAM_TYPE_METADATA, CAM_STREAM_TYPE_POSTVIEW, CAM_STREAM_TYPE_SNAPSHOT]"

definition addMetaDataChannel :: "hal_env \<Rightarrow> hal \<Rightarrow> hal \<times> i32" where
  "addMetaDataChannel e = add_channel_with e QCAMERA_CH_TYPE_METADATA (\<lambda>_. None) [CAM_STREAM_TYPE_METADATA]"

fun addChannel :: "hal_env \<Rightarrow> ch_type \<Rightarrow> hal \<Rightarrow> hal \<times> i32" where
  "addChannel e QCAMERA_CH_TYPE_ZSL = addZSLChannel e"
| "addChannel e QCAMERA_CH_TYPE_CAPTURE = addCaptureChannel e"
| "addChannel e QCAMERA_CH_TYPE_PREVIEW = addPreviewChannel e"
| "addChannel e QCAMERA_CH_TYPE_VIDEO = addVideoChannel e"
| "addChannel e QCAMERA_CH_TYPE_SNAPSHOT = addSnapshotChannel e"
| "addChannel e QCAMERA_CH_TYPE_RAW = addRawChannel e"
| "addChannel e QCAMERA_CH_TYPE_METADATA = addMetaDataChannel e"

section \<open>Preview and recording\<close>

definition preparePreview :: "hal_env \<Rightarrow> hal \<Rightarrow> hal \<times> i32" where
  "preparePreview e s =
     (if m_bZslMode (mParameters s) \<and> \<not> m_bRecordingHint (mParameters s) then addChannel e QCAMERA_CH_TYPE_ZSL s
      else
        (let recordingHint = m_bRecordingHint (mParameters s);
             (s, rc) =
               (if recordingHint then
                  (let (s, rc) = addChannel e QCAMERA_CH_TYPE_SNAPSHOT s in
                   if rc \<noteq> NO_ERROR then (s, rc)
                   else
                     (let (s, rc) = addChannel e QCAMERA_CH_TYPE_VIDEO s in
                      if rc \<noteq> NO_ERROR then (fst (delChannel e QCAMERA_CH_TYPE_SNAPSHOT s), rc) else (s, rc)))
                else (s, NO_ERROR)) in
         if rc \<noteq> NO_ERROR then (s, rc)
         else
           (let (s, rc) = addChannel e QCAMERA_CH_TYPE_PREVIEW s in
            if rc \<noteq> NO_ERROR \<and> recordingHint then
              (fst (delChannel e QCAMERA_CH_TYPE_VIDEO (fst (delChannel e QCAMERA_CH_TYPE_SNAPSHOT s))), rc)
            else (s, rc))))"

definition unpreparePreview :: "hal_env \<Rightarrow> hal \<Rightarrow> hal" where
  "unpreparePreview e s =
     (let s = fst (delChannel e QCAMERA_CH_TYPE_ZSL s);
          s = fst (delChannel e QCAMERA_CH_TYPE_PREVIEW s);
          s = fst (delChannel e QCAMERA_CH_TYPE_VIDEO s) in
      fst (delChannel e QCAMERA_CH_TYPE_SNAPSHOT s))"

definition startPreview :: "hal_env \<Rightarrow> hal \<Rightarrow> hal \<times> i32" where
  "startPreview e s =
     (if m_bZslMode (mParameters s) \<and> \<not> m_bRecordingHint (mParameters s) then startChannel e QCAMERA_CH_TYPE_ZSL s
      else startChannel e QCAMERA_CH_TYPE_PREVIEW s)"

definition stopPreview :: "hal_env \<Rightarrow> hal \<Rightarrow> hal \<times> i32" where
  "stopPreview e s =
     (let s = fst (stopChannel e QCAMERA_CH_TYPE_ZSL s);
          s = fst (stopChannel e QCAMERA_CH_TYPE_PREVIEW s) in
      (unpreparePreview e s, NO_ERROR))"

definition startRecording :: "hal_env \<Rightarrow> hal \<Rightarrow> hal \<times> i32" where
  "startRecording e s =
     (let (s, rc) =
        (if \<not> m_bRecordingHint (mParameters s) then
           (let s = fst (stopPreview e s);
                s = fst (updateRecordingHintValue e 1 s);
                (s, rc) = preparePreview e s in
            if rc = NO_ERROR then startChannel e QCAMERA_CH_TYPE_PREVIEW s else (s, rc))
         else (s, NO_ERROR)) in
      if rc = NO_ERROR then startChannel e QCAMERA_CH_TYPE_VIDEO s else (s, rc))"

definition stopRecording :: "hal_env \<Rightarrow> hal \<Rightarrow> hal \<times> i32" where
  "stopRecording e s = stopChannel e QCAMERA_CH_TYPE_VIDEO s"

definition releaseRecordingFrame :: "hal_env \<Rightarrow> addr \<Rightarrow> hal \<Rightarrow> hal \<times> i32" where
  "releaseRecordingFrame e opaque s =
     (case m_channels s QCAMERA_CH_TYPE_VIDEO of
        None \<Rightarrow> (s, UNKNOWN_ERROR)
      | Some c \<Rightarrow> ch_releaseFrame e opaque (0 < sint (mStoreMetaDataInFrame s)) c s)"

end
