(* ===== verification/HalOps.thy ===== *)
theory HalOps
  imports HalHwi
begin

text \<open>
  The remaining methods of \<^verbatim>\<open>QCamera2HWI.cpp\<close> that the state machine calls: taking pictures, focus, parameters,
  callbacks and messages, thermal events, and the release of all channels.
  \<^verbatim>\<open>registerFaceImage\<close>, \<^verbatim>\<open>processFaceDetectionResult\<close>, \<^verbatim>\<open>processHistogramStats\<close>, the postprocessor and the
  notifier are calls to the environment.
\<close>

section \<open>Pictures\<close>

definition CAM_FORMAT_JPEG :: nat where "CAM_FORMAT_JPEG = 0"
definition CAM_FORMAT_YUV_422_NV16 :: nat where "CAM_FORMAT_YUV_422_NV16 = 5"

definition jpeg_or_nv16 :: "parameters \<Rightarrow> bool" where
  "jpeg_or_nv16 p \<longleftrightarrow> mPictureFormat p = CAM_FORMAT_JPEG \<or> mPictureFormat p = CAM_FORMAT_YUV_422_NV16"

definition channel_handle :: "ch_type \<Rightarrow> hal \<Rightarrow> u32" where
  "channel_handle ty s = (case m_channels s ty of None \<Rightarrow> 0 | Some c \<Rightarrow> hc_handle c)"

text \<open>The bracketing of HDR: the exposure values of the camera as text, each with a comma, a zero for the picture without
  compensation, and the last comma cut off.  Text that does not fit leaves the values empty.\<close>

definition hdr_values :: "cam_capability \<Rightarrow> parameters \<Rightarrow> string" where
  "hdr_values cap p =
     (let hdrFrameCount = unat (ucast (hdr_num_frames cap) :: u8) in
      concat (map (\<lambda>i. show_int (sint (eb_values (hdr_exp_val cap) ! i)) @ '','') [0..<hdrFrameCount]) @
      (if m_bHDR1xFrameEnabled p \<and> m_bHDR1xExtraBufferNeeded p then ''0,'' else []))"

definition hdr_bracket :: "cam_capability \<Rightarrow> parameters \<Rightarrow> cam_exp_bracketing" where
  "hdr_bracket cap p =
     (let tmp = hdr_values cap p in
      \<lparr>eb_mode = eb_mode (hdr_exp_val cap),
       eb_values = in_array MAX_EXP_BRACKETING_LENGTH
         (if tmp \<noteq> [] \<and> length tmp < MAX_EXP_BRACKETING_LENGTH then butlast tmp else [])\<rparr>)"

text \<open>The two captures of \<^verbatim>\<open>takePicture\<close> that are not ZSL: add the channel, start the postprocessor on it, start it.\<close>

definition capture_on :: "hal_env \<Rightarrow> ch_type \<Rightarrow> hal \<Rightarrow> hal \<times> i32" where
  "capture_on e ty s =
     (let (s, rc) = addChannel e ty s in
      if rc = NO_ERROR then
        (let s = dev' e (Postproc_start (channel_handle ty s)) s;
             (s, rc) = startChannel e ty s in
         if rc \<noteq> NO_ERROR then (fst (delChannel e ty (dev' e Postproc_stop s)), rc) else (s, rc))
      else (s, rc))"

definition takePicture :: "hal_env \<Rightarrow> hal \<Rightarrow> hal \<times> i32" where
  "takePicture e s =
     (if m_bZslMode (mParameters s) then
        (case m_channels s QCAMERA_CH_TYPE_ZSL of
           None \<Rightarrow> (s, UNKNOWN_ERROR)
         | Some c \<Rightarrow>
             (let s = dev' e (Postproc_start (hc_handle c)) s;
                  (s, rc) = ch_takePicture e (getNumOfSnapshots (he_parm e) (mParameters s)) c s in
              if rc \<noteq> NO_ERROR then (dev' e Postproc_stop s, rc) else (s, rc)))
      else
        (let s = fst (stopChannel e QCAMERA_CH_TYPE_PREVIEW s);
             s = fst (delChannel e QCAMERA_CH_TYPE_PREVIEW s);
             (s, rc) = (if isHDREnabled (mParameters s)
                        then setHDRAEBracket e (hdr_bracket (pe_cap (he_parm e)) (mParameters s)) s else (s, NO_ERROR)) in
         if rc \<noteq> NO_ERROR then (s, rc)
         else if jpeg_or_nv16 (mParameters s) then capture_on e QCAMERA_CH_TYPE_CAPTURE s
         else capture_on e QCAMERA_CH_TYPE_RAW s))"

definition cancelPicture :: "hal_env \<Rightarrow> hal \<Rightarrow> hal \<times> i32" where
  "cancelPicture e s =
     (let s = dev' e Postproc_stop s in
      if m_bZslMode (mParameters s) then
        (case m_channels s QCAMERA_CH_TYPE_ZSL of
           None \<Rightarrow> (s, NO_ERROR)
         | Some c \<Rightarrow> (fst (ch_cancelPicture e c s), NO_ERROR))
      else
        (let s = (if isHDREnabled (mParameters s) then fst (restoreAEBracket e s) else s);
             ty = (if jpeg_or_nv16 (mParameters s) then QCAMERA_CH_TYPE_CAPTURE else QCAMERA_CH_TYPE_RAW) in
         (fst (delChannel e ty (fst (stopChannel e ty s))), NO_ERROR)))"

definition takeLiveSnapshot :: "hal_env \<Rightarrow> hal \<Rightarrow> hal \<times> i32" where
  "takeLiveSnapshot e s =
     (let (s, rc) = dev e (Postproc_start (channel_handle QCAMERA_CH_TYPE_SNAPSHOT s)) s in
      if rc = NO_ERROR then startChannel e QCAMERA_CH_TYPE_SNAPSHOT s else (s, rc))"

definition cancelLiveSnapshot :: "hal_env \<Rightarrow> hal \<Rightarrow> hal \<times> i32" where
  "cancelLiveSnapshot e s = stopChannel e QCAMERA_CH_TYPE_SNAPSHOT (dev' e Postproc_stop s)"

definition prepareHardwareForSnapshot :: "hal_env \<Rightarrow> i32 \<Rightarrow> hal \<Rightarrow> hal \<times> i32" where
  "prepareHardwareForSnapshot e afNeeded s = dev e (Prepare_snapshot afNeeded) s"

text \<open>\<^verbatim>\<open>processPrepSnapshotDoneEvent\<close> only writes a log line.\<close>

definition processPrepSnapshotDoneEvent :: "cam_prep_snapshot_state \<Rightarrow> hal \<Rightarrow> hal \<times> i32" where
  "processPrepSnapshotDoneEvent st s = (s, NO_ERROR)"

definition processJpegNotify :: "hal_env \<Rightarrow> addr \<Rightarrow> hal \<Rightarrow> hal \<times> i32" where
  "processJpegNotify e job s = dev e (Postproc_jpeg_evt job) s"

section \<open>Focus\<close>

definition CAM_FOCUS_MODE_AUTO :: nat where "CAM_FOCUS_MODE_AUTO = 0"
definition CAM_FOCUS_MODE_MACRO :: nat where "CAM_FOCUS_MODE_MACRO = 2"
definition CAM_FOCUS_MODE_CONTINOUS_VIDEO :: nat where "CAM_FOCUS_MODE_CONTINOUS_VIDEO = 5"
definition CAM_FOCUS_MODE_CONTINOUS_PICTURE :: nat where "CAM_FOCUS_MODE_CONTINOUS_PICTURE = 6"
definition CAMERA_MSG_ERROR :: i32 where "CAMERA_MSG_ERROR = 1"
definition CAMERA_MSG_FOCUS :: i32 where "CAMERA_MSG_FOCUS = 4"
definition CAMERA_MSG_FOCUS_MOVE :: i32 where "CAMERA_MSG_FOCUS_MOVE = 0x800"
definition CAMERA_ERROR_SERVER_DIED :: i32 where "CAMERA_ERROR_SERVER_DIED = 100"

definition sendEvtNotify :: "hal_env \<Rightarrow> i32 \<Rightarrow> i32 \<Rightarrow> i32 \<Rightarrow> hal \<Rightarrow> hal \<times> i32" where
  "sendEvtNotify e msg_type ext1 ext2 s = dev e (Notify_callback msg_type ext1 ext2) s"

definition set_af_running :: "bool \<Rightarrow> hal \<Rightarrow> hal" where
  "set_af_running b s = s\<lparr>mParameters := (mParameters s)\<lparr>m_bAFRunning := b\<rparr>\<rparr>"

definition set_lock_caf_needed :: "bool \<Rightarrow> hal \<Rightarrow> hal" where
  "set_lock_caf_needed b s = s\<lparr>mParameters := (mParameters s)\<lparr>m_bNeedLockCAF := b\<rparr>\<rparr>"

definition autoFocus :: "hal_env \<Rightarrow> hal \<Rightarrow> hal \<times> i32" where
  "autoFocus e s =
     (let focusMode = mFocusMode (mParameters s);
          focused = (if m_currentFocusState s = CAM_AF_FOCUSED then 1 else 0) in
      if focusMode = CAM_FOCUS_MODE_AUTO \<or> focusMode = CAM_FOCUS_MODE_MACRO then
        (let (s, rc) = dev e Do_auto_focus s in
         if rc = NO_ERROR then (set_af_running True s, rc) else (s, rc))
      else if focusMode = CAM_FOCUS_MODE_CONTINOUS_VIDEO then
        (let (s, rc) = setLockCAF e True s in (fst (sendEvtNotify e CAMERA_MSG_FOCUS focused 0 s), rc))
      else if focusMode = CAM_FOCUS_MODE_CONTINOUS_PICTURE then
        (if m_currentFocusState s \<noteq> CAM_AF_SCANNING then
           (let (s, rc) = setLockCAF e True s in (fst (sendEvtNotify e CAMERA_MSG_FOCUS focused 0 s), rc))
         else (set_lock_caf_needed True s, NO_ERROR))
      else sendEvtNotify e CAMERA_MSG_FOCUS 1 0 s)"

definition cancelAutoFocus :: "hal_env \<Rightarrow> hal \<Rightarrow> hal \<times> i32" where
  "cancelAutoFocus e s =
     (let focusMode = mFocusMode (mParameters s) in
      if focusMode = CAM_FOCUS_MODE_AUTO \<or> focusMode = CAM_FOCUS_MODE_MACRO then
        (if m_bAFRunning (mParameters s) then
           (let (s, rc) = dev e Cancel_auto_focus s in
            if rc = NO_ERROR then (set_af_running False s, rc) else (s, rc))
         else (s, NO_ERROR))
      else if focusMode = CAM_FOCUS_MODE_CONTINOUS_VIDEO \<or> focusMode = CAM_FOCUS_MODE_CONTINOUS_PICTURE then
        (if m_bCAFLocked (mParameters s) then
           (let (s, rc) = setLockCAF e False s in (set_lock_caf_needed False s, rc))
         else (s, NO_ERROR))
      else (s, NO_ERROR))"

text \<open>The focus distances, \<^verbatim>\<open>updateFocusDistances\<close>, are strings that nothing in the model reads.\<close>

definition processAutoFocusEvent :: "hal_env \<Rightarrow> cam_focus_state \<Rightarrow> hal \<Rightarrow> hal \<times> i32" where
  "processAutoFocusEvent e fs s =
     (let s = s\<lparr>m_currentFocusState := fs\<rparr>;
          focusMode = mFocusMode (mParameters s);
          focused = (if fs = CAM_AF_FOCUSED then 1 else 0) in
      if focusMode = CAM_FOCUS_MODE_AUTO \<or> focusMode = CAM_FOCUS_MODE_MACRO then
        (if m_bAFRunning (mParameters s) then
           (if fs = CAM_AF_SCANNING then (s, NO_ERROR)
            else (let (s, rc) = sendEvtNotify e CAMERA_MSG_FOCUS focused 0 s in (set_af_running False s, rc)))
         else (s, UNKNOWN_ERROR))
      else if focusMode = CAM_FOCUS_MODE_CONTINOUS_VIDEO \<or> focusMode = CAM_FOCUS_MODE_CONTINOUS_PICTURE then
        (let s = (if fs \<noteq> CAM_AF_SCANNING then
                    (let s = (if m_bNeedLockCAF (mParameters s) then fst (setLockCAF e True (set_lock_caf_needed False s)) else s) in
                     fst (sendEvtNotify e CAMERA_MSG_FOCUS focused 0 s))
                  else s) in
         sendEvtNotify e CAMERA_MSG_FOCUS_MOVE (if fs = CAM_AF_SCANNING then 1 else 0) 0 s)
      else (s, NO_ERROR))"

section \<open>Parameters\<close>

definition hwi_updateParameters :: "hal_env \<Rightarrow> (parm_key \<times> parm_string) list \<Rightarrow> hal \<Rightarrow> hal \<times> i32 \<times> bool" where
  "hwi_updateParameters e parms s =
     (let (p, rc, needRestart) = parms_update (adjusting e s) (map_of parms) (mParameters s);
          s = s\<lparr>mParameters := p\<rparr>;
          s = fold (\<lambda>ty s. case m_channels s ty of None \<Rightarrow> s | Some c \<Rightarrow> UpdateStreamBasedParameters e p c s) all_ch_types s in
      (s, rc, needRestart))"

definition commitParameterChanges :: "hal_env \<Rightarrow> hal \<Rightarrow> hal \<times> i32" where
  "commitParameterChanges e s =
     (let (s, rc) = commitParameters e s in
      if rc = NO_ERROR then
        (let (p, rc) = setNumOfSnapshot (he_parm e) (mParameters s) in (s\<lparr>mParameters := p\<rparr>, rc))
      else (s, rc))"

definition getParameters :: "hal_env \<Rightarrow> hal \<Rightarrow> hal \<times> addr" where
  "getParameters e s = (let (s, r) = dev e Get_params_string s in (s, unat r))"

definition putParameters :: "hal_env \<Rightarrow> addr \<Rightarrow> hal \<Rightarrow> hal \<times> i32" where
  "putParameters e parms s = (dev' e (Free_params_string parms) s, NO_ERROR)"

definition sendCommand :: "hal_env \<Rightarrow> i32 \<Rightarrow> hal \<Rightarrow> hal \<times> i32" where
  "sendCommand e command s =
     (case he_cmd e command of
        CAMERA_CMD_HISTOGRAM_ON \<Rightarrow> parms_setHistogram e True s
      | CAMERA_CMD_HISTOGRAM_OFF \<Rightarrow> parms_setHistogram e False s
      | CAMERA_CMD_START_FACE_DETECTION \<Rightarrow> parms_setFaceDetection e True s
      | CAMERA_CMD_STOP_FACE_DETECTION \<Rightarrow> parms_setFaceDetection e False s
      | CAMERA_CMD_OTHER \<Rightarrow> (s, NO_ERROR))"

definition updateThermalLevel :: "hal_env \<Rightarrow> thermal_level \<Rightarrow> hal \<Rightarrow> hal \<times> i32" where
  "updateThermalLevel e level s =
     (let (minFPS, maxFPS) = getRange (he_parm e) (p_map (mParameters s)) KEY_PREVIEW_FPS_RANGE;
          (adjustedRange, skipPattern) = calcThermalLevel (he_parm e) level minFPS maxFPS;
          s = s\<lparr>mThermalLevel := level\<rparr> in
      case m_ThermalMode (mParameters s) of
        QCAMERA_THERMAL_ADJUST_FPS \<Rightarrow> adjustPreviewFpsRange e adjustedRange s
      | QCAMERA_THERMAL_ADJUST_FRAMESKIP \<Rightarrow> setFrameSkip e (he_skip_pattern e skipPattern) s)"

section \<open>The rest\<close>

definition setPreviewWindow :: "addr \<Rightarrow> hal \<Rightarrow> hal \<times> i32" where
  "setPreviewWindow window s = (s\<lparr>mPreviewWindow := window\<rparr>, NO_ERROR)"

definition setCallBacks :: "hal_env \<Rightarrow> hal_callbacks \<Rightarrow> hal \<Rightarrow> hal \<times> i32" where
  "setCallBacks e cbs s = (dev' e (Notify_set_callbacks cbs) (s\<lparr>m_callbacks := cbs\<rparr>), NO_ERROR)"

definition enableMsgType :: "i32 \<Rightarrow> hal \<Rightarrow> hal \<times> i32" where
  "enableMsgType msg_type s = (s\<lparr>mMsgEnabled := mMsgEnabled s OR msg_type\<rparr>, NO_ERROR)"

definition disableMsgType :: "i32 \<Rightarrow> hal \<Rightarrow> hal \<times> i32" where
  "disableMsgType msg_type s = (s\<lparr>mMsgEnabled := mMsgEnabled s AND NOT msg_type\<rparr>, NO_ERROR)"

definition msgTypeEnabled :: "i32 \<Rightarrow> hal \<Rightarrow> i32" where
  "msgTypeEnabled msg_type s = mMsgEnabled s AND msg_type"

definition storeMetaDataInBuffers :: "i32 \<Rightarrow> hal \<Rightarrow> hal \<times> i32" where
  "storeMetaDataInBuffers enable s = (s\<lparr>mStoreMetaDataInFrame := enable\<rparr>, NO_ERROR)"

definition hwi_dump :: "i32 \<Rightarrow> hal \<Rightarrow> hal \<times> i32" where
  "hwi_dump fd s = (s, INVALID_OPERATION)"

text \<open>\<^verbatim>\<open>registerFaceImage\<close> answers the face id through its reference argument.\<close>

definition registerFaceImage :: "hal_env \<Rightarrow> addr \<Rightarrow> addr \<Rightarrow> hal \<Rightarrow> hal \<times> i32 \<times> i32" where
  "registerFaceImage e img config s =
     (if img = 0 \<or> config = 0 then (s, BAD_VALUE, - 1)
      else (let faceID = he_face_id e (hal_trace s); (s, rc) = dev e (Register_face_image img config) s in (s, rc, faceID)))"

definition processFaceDetectionResult :: "hal_env \<Rightarrow> addr \<Rightarrow> hal \<Rightarrow> hal \<times> i32" where
  "processFaceDetectionResult e fd s = dev e (Send_face_detect fd) s"

definition processHistogramStats :: "hal_env \<Rightarrow> addr \<Rightarrow> hal \<Rightarrow> hal \<times> i32" where
  "processHistogramStats e st s = dev e (Send_histogram st) s"

definition processZoomEvent :: "hal_env \<Rightarrow> addr \<Rightarrow> hal \<Rightarrow> hal \<times> i32" where
  "processZoomEvent e crop s =
     fold (\<lambda>ty (s, ret). case m_channels s ty of None \<Rightarrow> (s, ret) | Some c \<Rightarrow> ch_processZoomDone e crop c (s, ret))
       all_ch_types (s, NO_ERROR)"

definition hwi_release :: "hal_env \<Rightarrow> hal \<Rightarrow> hal \<times> i32" where
  "hwi_release e s =
     (fold (\<lambda>ty s. case m_channels s ty of None \<Rightarrow> s | Some _ \<Rightarrow> fst (delChannel e ty (fst (stopChannel e ty s))))
        all_ch_types s, NO_ERROR)"

end
