(* ===== verification/HalSM.thy ===== *)
theory HalSM
  imports HalOps
begin

text \<open>
  The state machine of the HAL, \<^verbatim>\<open>camera/QCamera2/HAL/QCameraStateMachine.cpp\<close>: one function per state, with one
  equation per event.  A function answers the new state of the HAL and the status that the handler returns; the
  results that it signals to the waiting API call (\<^verbatim>\<open>signalAPIResult\<close>) and to the waiting event
  (\<^verbatim>\<open>signalEvtResult\<close>) are recorded in \<^verbatim>\<open>api_signals\<close> and \<^verbatim>\<open>evt_signals\<close>.
\<close>

definition to_state :: "qcamera_state \<Rightarrow> hal \<Rightarrow> hal" where
  "to_state st s = s\<lparr>m_state := st\<rparr>"

section \<open>Results\<close>

definition reply_value :: "sm_evt \<Rightarrow> result_type \<Rightarrow> hal \<times> i32 \<Rightarrow> hal \<times> i32" where
  "reply_value evt v r =
     (signalAPIResult \<lparr>ar_status = snd r, request_api = evt_code evt, ar_value = v\<rparr> (fst r), snd r)"

definition reply :: "sm_evt \<Rightarrow> hal \<times> i32 \<Rightarrow> hal \<times> i32" where
  "reply evt r = reply_value evt RESULT_DEF r"

definition reply_evt :: "sm_evt \<Rightarrow> hal \<times> i32 \<Rightarrow> hal \<times> i32" where
  "reply_evt evt r =
     (signalEvtResult \<lparr>ar_status = snd r, request_api = evt_code evt, ar_value = RESULT_DEF\<rparr> (fst r), snd r)"

section \<open>Handlers that several states share\<close>

definition sm_get_params :: "hal_env \<Rightarrow> hal \<Rightarrow> hal \<times> i32" where
  "sm_get_params e s = (let (s, a) = getParameters e s in reply_value GET_PARAMS (RESULT_PARAMS a) (s, NO_ERROR))"

definition sm_reg_face :: "hal_env \<Rightarrow> addr \<Rightarrow> addr \<Rightarrow> hal \<Rightarrow> hal \<times> i32" where
  "sm_reg_face e img cfg s =
     (let (s, rc, faceID) = registerFaceImage e img cfg s in
      reply_value (REG_FACE_IMAGE img cfg) (RESULT_HANDLE faceID) (s, rc))"

definition sm_daemon_died :: "hal_env \<Rightarrow> u32 \<Rightarrow> hal \<Rightarrow> hal" where
  "sm_daemon_died e ty s =
     (if ty = CAM_EVENT_TYPE_DAEMON_DIED then fst (sendEvtNotify e CAMERA_MSG_ERROR CAMERA_ERROR_SERVER_DIED 0 s) else s)"

text \<open>Events from the metadata while a preview runs.\<close>

fun sm_internal :: "hal_env \<Rightarrow> internal_evt \<Rightarrow> hal \<Rightarrow> hal \<times> i32" where
  "sm_internal e (QCAMERA_INTERNAL_EVT_FOCUS_UPDATE fs) s = processAutoFocusEvent e fs s"
| "sm_internal e (QCAMERA_INTERNAL_EVT_PREP_SNAPSHOT_DONE st) s = (s, NO_ERROR)"
| "sm_internal e (QCAMERA_INTERNAL_EVT_FACE_DETECT_RESULT fd) s = processFaceDetectionResult e fd s"
| "sm_internal e (QCAMERA_INTERNAL_EVT_HISTOGRAM_STATS st) s = processHistogramStats e st s"
| "sm_internal e (QCAMERA_INTERNAL_EVT_CROP_INFO crop) s = processZoomEvent e crop s"
| "sm_internal e QCAMERA_INTERNAL_EVT_MAX s = (s, NO_ERROR)"

fun sm_prepare_internal :: "hal_env \<Rightarrow> internal_evt \<Rightarrow> hal \<Rightarrow> hal \<times> i32" where
  "sm_prepare_internal e (QCAMERA_INTERNAL_EVT_FOCUS_UPDATE fs) s = processAutoFocusEvent e fs s"
| "sm_prepare_internal e (QCAMERA_INTERNAL_EVT_PREP_SNAPSHOT_DONE st) s =
     (let s = fst (processPrepSnapshotDoneEvent st s) in
      reply PREPARE_SNAPSHOT (to_state QCAMERA_SM_STATE_PREVIEWING s, NO_ERROR))"
| "sm_prepare_internal e (QCAMERA_INTERNAL_EVT_FACE_DETECT_RESULT fd) s = processFaceDetectionResult e fd s"
| "sm_prepare_internal e (QCAMERA_INTERNAL_EVT_HISTOGRAM_STATS st) s = processHistogramStats e st s"
| "sm_prepare_internal e (QCAMERA_INTERNAL_EVT_CROP_INFO crop) s = processZoomEvent e crop s"
| "sm_prepare_internal e QCAMERA_INTERNAL_EVT_MAX s = (s, NO_ERROR)"

fun sm_pic_internal :: "hal_env \<Rightarrow> internal_evt \<Rightarrow> hal \<Rightarrow> hal \<times> i32" where
  "sm_pic_internal e (QCAMERA_INTERNAL_EVT_FOCUS_UPDATE fs) s = processAutoFocusEvent e fs s"
| "sm_pic_internal e (QCAMERA_INTERNAL_EVT_CROP_INFO crop) s = processZoomEvent e crop s"
| "sm_pic_internal e _ s = (s, NO_ERROR)"

section \<open>Parameters\<close>

definition sm_set_params_plain :: "hal_env \<Rightarrow> (parm_key \<times> parm_string) list \<Rightarrow> hal \<Rightarrow> hal \<times> i32" where
  "sm_set_params_plain e ps s =
     (let (s, rc, needRestart) = hwi_updateParameters e ps s in
      reply (SET_PARAMS ps) (if rc = NO_ERROR then commitParameterChanges e s else (s, rc)))"

definition sm_ready_set_params :: "hal_env \<Rightarrow> (parm_key \<times> parm_string) list \<Rightarrow> hal \<Rightarrow> hal \<times> i32" where
  "sm_ready_set_params e ps s =
     (let (s, rc, needRestart) = hwi_updateParameters e ps s in
      reply (SET_PARAMS ps)
        (if rc = NO_ERROR then
           (if needRestart then
              (let s = unpreparePreview e s;
                   s = fst (commitParameterChanges e s);
                   (s, rc) = preparePreview e s in
               if rc \<noteq> NO_ERROR then (to_state QCAMERA_SM_STATE_PREVIEW_STOPPED s, rc) else (s, rc))
            else commitParameterChanges e s)
         else (s, rc)))"

text \<open>With a running preview, the state to go to when the preview cannot be restarted is the argument \<^verbatim>\<open>st\<close>.\<close>

definition sm_restart_set_params :: "hal_env \<Rightarrow> qcamera_state \<Rightarrow> (parm_key \<times> parm_string) list \<Rightarrow> hal \<Rightarrow> hal \<times> i32" where
  "sm_restart_set_params e st ps s =
     (let (s, rc, needRestart) = hwi_updateParameters e ps s in
      reply (SET_PARAMS ps)
        (if rc = NO_ERROR then
           (if needRestart then
              (let s = fst (stopPreview e s);
                   s = fst (commitParameterChanges e s);
                   (s, rc) = preparePreview e s;
                   (s, rc) = (if rc = NO_ERROR then
                                (let (s, rc) = startPreview e s in
                                 if rc \<noteq> NO_ERROR then (unpreparePreview e s, rc) else (s, rc))
                              else (s, rc)) in
               if rc \<noteq> NO_ERROR then (to_state st s, rc) else (s, rc))
            else commitParameterChanges e s)
         else (s, rc)))"

definition sm_recording_set_params :: "hal_env \<Rightarrow> (parm_key \<times> parm_string) list \<Rightarrow> hal \<Rightarrow> hal \<times> i32" where
  "sm_recording_set_params e ps s =
     (let (s, rc, needRestart) = hwi_updateParameters e ps s in
      reply (SET_PARAMS ps)
        (if rc = NO_ERROR then (if needRestart then (s, BAD_VALUE) else commitParameterChanges e s) else (s, rc)))"

section \<open>Preview, recording, pictures\<close>

definition prepare_and_start :: "hal_env \<Rightarrow> hal \<Rightarrow> hal \<times> i32" where
  "prepare_and_start e s =
     (let (s, rc) = preparePreview e s in
      if rc = NO_ERROR then
        (let (s, rc) = startPreview e s in
         if rc \<noteq> NO_ERROR then (unpreparePreview e s, rc) else (to_state QCAMERA_SM_STATE_PREVIEWING s, rc))
      else (s, rc))"

definition sm_start_preview :: "hal_env \<Rightarrow> hal \<Rightarrow> hal \<times> i32" where
  "sm_start_preview e s =
     reply START_PREVIEW
       (if mPreviewWindow s = 0 then
          (let (s, rc) = preparePreview e s in
           if rc = NO_ERROR then (to_state QCAMERA_SM_STATE_PREVIEW_READY s, rc) else (s, rc))
        else prepare_and_start e s)"

definition sm_start_nodisplay :: "hal_env \<Rightarrow> hal \<Rightarrow> hal \<times> i32" where
  "sm_start_nodisplay e s = reply START_NODISPLAY_PREVIEW (prepare_and_start e s)"

definition sm_ready_window :: "hal_env \<Rightarrow> addr \<Rightarrow> hal \<Rightarrow> hal \<times> i32" where
  "sm_ready_window e w s =
     reply (SET_PREVIEW_WINDOW w)
       (let s = fst (setPreviewWindow w s) in
        if mPreviewWindow s \<noteq> 0 then
          (let (s, rc) = startPreview e s in
           if rc \<noteq> NO_ERROR then (to_state QCAMERA_SM_STATE_PREVIEW_STOPPED (unpreparePreview e s), rc)
           else (to_state QCAMERA_SM_STATE_PREVIEWING s, rc))
        else (s, NO_ERROR))"

definition sm_stop_preview :: "hal_env \<Rightarrow> hal \<Rightarrow> hal \<times> i32" where
  "sm_stop_preview e s = (let (s, rc) = stopPreview e s in (to_state QCAMERA_SM_STATE_PREVIEW_STOPPED s, rc))"

definition sm_start_recording :: "hal_env \<Rightarrow> qcamera_state \<Rightarrow> hal \<Rightarrow> hal \<times> i32" where
  "sm_start_recording e st s =
     (let (s, rc) = startRecording e s in if rc = NO_ERROR then (to_state st s, rc) else (s, rc))"

text \<open>An accepted \<^verbatim>\<open>PREPARE_SNAPSHOT\<close> is answered later, when the metadata says that the hardware is ready.\<close>

definition sm_prepare_snapshot :: "hal_env \<Rightarrow> hal \<Rightarrow> hal \<times> i32" where
  "sm_prepare_snapshot e s =
     (let (s, rc) = prepareHardwareForSnapshot e 0 s in
      if rc = NO_ERROR then (to_state QCAMERA_SM_STATE_PREPARE_SNAPSHOT s, rc) else reply PREPARE_SNAPSHOT (s, rc))"

definition sm_live_snapshot :: "hal_env \<Rightarrow> qcamera_state \<Rightarrow> qcamera_state \<Rightarrow> hal \<Rightarrow> hal \<times> i32" where
  "sm_live_snapshot e st back s =
     (let (s, rc) = takeLiveSnapshot e (to_state st s) in
      if rc \<noteq> NO_ERROR then (to_state back s, rc) else (s, rc))"

definition sm_take_picture :: "hal_env \<Rightarrow> hal \<Rightarrow> hal \<times> i32" where
  "sm_take_picture e s =
     reply TAKE_PICTURE
       (if \<not> m_bRecordingHint (mParameters s) then
          (if m_bZslMode (mParameters s) then
             (let (s, rc) = takePicture e (to_state QCAMERA_SM_STATE_PREVIEW_PIC_TAKING s) in
              if rc \<noteq> NO_ERROR then (to_state QCAMERA_SM_STATE_PREVIEWING s, rc) else (s, rc))
           else
             (let (s, rc) = takePicture e (to_state QCAMERA_SM_STATE_PIC_TAKING s) in
              if rc \<noteq> NO_ERROR then (to_state QCAMERA_SM_STATE_PREVIEW_STOPPED s, rc) else (s, rc)))
        else sm_live_snapshot e QCAMERA_SM_STATE_PREVIEW_PIC_TAKING QCAMERA_SM_STATE_PREVIEWING s)"

definition sm_cancel_to :: "hal_env \<Rightarrow> qcamera_state \<Rightarrow> hal \<Rightarrow> hal \<times> i32" where
  "sm_cancel_to e st s = (let (s, rc) = cancelPicture e s in (to_state st s, rc))"

definition sm_cancel_live :: "hal_env \<Rightarrow> qcamera_state \<Rightarrow> hal \<Rightarrow> hal \<times> i32" where
  "sm_cancel_live e st s = (let (s, rc) = cancelLiveSnapshot e s in (to_state st s, rc))"

definition sm_stop_recording :: "hal_env \<Rightarrow> qcamera_state \<Rightarrow> hal \<Rightarrow> hal \<times> i32" where
  "sm_stop_recording e st s = (let (s, rc) = stopRecording e s in (to_state st s, rc))"

text \<open>\<^verbatim>\<open>STOP_PREVIEW\<close> while recording: only the status of the last step is kept.\<close>

definition sm_recording_stop_preview :: "hal_env \<Rightarrow> hal \<Rightarrow> hal \<times> i32" where
  "sm_recording_stop_preview e s = sm_stop_preview e (fst (sm_stop_recording e QCAMERA_SM_STATE_PREVIEWING s))"

definition sm_video_pic_stop_preview :: "hal_env \<Rightarrow> hal \<Rightarrow> hal \<times> i32" where
  "sm_video_pic_stop_preview e s = sm_recording_stop_preview e (fst (sm_cancel_live e QCAMERA_SM_STATE_RECORDING s))"

definition sm_cancel_zsl_or_live :: "hal_env \<Rightarrow> hal \<Rightarrow> hal \<times> i32" where
  "sm_cancel_zsl_or_live e s =
     (if m_bZslMode (mParameters s) then sm_cancel_to e QCAMERA_SM_STATE_PREVIEWING s
      else sm_cancel_live e QCAMERA_SM_STATE_PREVIEWING s)"

definition sm_preview_pic_stop :: "hal_env \<Rightarrow> hal \<Rightarrow> hal \<times> i32" where
  "sm_preview_pic_stop e s =
     (let (s, rc) =
        (if m_bZslMode (mParameters s) then
           (let (s, rc) = cancelPicture e s in (fst (stopChannel e QCAMERA_CH_TYPE_ZSL s), rc))
         else
           (let (s, rc) = cancelLiveSnapshot e s in (fst (stopChannel e QCAMERA_CH_TYPE_PREVIEW s), rc))) in
      (to_state QCAMERA_SM_STATE_PREVIEW_STOPPED (unpreparePreview e s), rc))"

definition sm_preview_pic_start_recording :: "hal_env \<Rightarrow> hal \<Rightarrow> hal \<times> i32" where
  "sm_preview_pic_start_recording e s =
     (if m_bZslMode (mParameters s) then (s, INVALID_OPERATION)
      else sm_start_recording e QCAMERA_SM_STATE_VIDEO_PIC_TAKING s)"

section \<open>The states\<close>

fun procEvtPreviewStoppedState :: "hal_env \<Rightarrow> sm_evt \<Rightarrow> hal \<Rightarrow> hal \<times> i32" where
  "procEvtPreviewStoppedState e (SET_PREVIEW_WINDOW w) s = reply (SET_PREVIEW_WINDOW w) (setPreviewWindow w s)"
| "procEvtPreviewStoppedState e (SET_CALLBACKS cbs) s = reply (SET_CALLBACKS cbs) (setCallBacks e cbs s)"
| "procEvtPreviewStoppedState e (ENABLE_MSG_TYPE m) s = reply (ENABLE_MSG_TYPE m) (enableMsgType m s)"
| "procEvtPreviewStoppedState e (DISABLE_MSG_TYPE m) s = reply (DISABLE_MSG_TYPE m) (disableMsgType m s)"
| "procEvtPreviewStoppedState e (MSG_TYPE_ENABLED m) s = reply_value (MSG_TYPE_ENABLED m) (RESULT_ENABLE_FLAG (msgTypeEnabled m s)) (s, NO_ERROR)"
| "procEvtPreviewStoppedState e (SET_PARAMS ps) s = sm_set_params_plain e ps s"
| "procEvtPreviewStoppedState e GET_PARAMS s = sm_get_params e s"
| "procEvtPreviewStoppedState e (PUT_PARAMS a) s = reply (PUT_PARAMS a) (putParameters e a s)"
| "procEvtPreviewStoppedState e START_PREVIEW s = sm_start_preview e s"
| "procEvtPreviewStoppedState e START_NODISPLAY_PREVIEW s = sm_start_nodisplay e s"
| "procEvtPreviewStoppedState e STOP_PREVIEW s = reply STOP_PREVIEW (s, NO_ERROR)"
| "procEvtPreviewStoppedState e PREVIEW_ENABLED s = reply_value PREVIEW_ENABLED (RESULT_ENABLE_FLAG 0) (s, NO_ERROR)"
| "procEvtPreviewStoppedState e (STORE_METADATA_IN_BUFS n) s = reply (STORE_METADATA_IN_BUFS n) (storeMetaDataInBuffers n s)"
| "procEvtPreviewStoppedState e START_RECORDING s = reply START_RECORDING (s, INVALID_OPERATION)"
| "procEvtPreviewStoppedState e STOP_RECORDING s = reply STOP_RECORDING (s, INVALID_OPERATION)"
| "procEvtPreviewStoppedState e RECORDING_ENABLED s = reply_value RECORDING_ENABLED (RESULT_ENABLE_FLAG 0) (s, NO_ERROR)"
| "procEvtPreviewStoppedState e (RELEASE_RECORIDNG_FRAME a) s = reply (RELEASE_RECORIDNG_FRAME a) (s, INVALID_OPERATION)"
| "procEvtPreviewStoppedState e PREPARE_SNAPSHOT s = reply PREPARE_SNAPSHOT (s, INVALID_OPERATION)"
| "procEvtPreviewStoppedState e TAKE_PICTURE s = reply TAKE_PICTURE (s, INVALID_OPERATION)"
| "procEvtPreviewStoppedState e CANCEL_PICTURE s = reply CANCEL_PICTURE (s, NO_ERROR)"
| "procEvtPreviewStoppedState e START_AUTO_FOCUS s = reply START_AUTO_FOCUS (s, INVALID_OPERATION)"
| "procEvtPreviewStoppedState e STOP_AUTO_FOCUS s = reply STOP_AUTO_FOCUS (cancelAutoFocus e s)"
| "procEvtPreviewStoppedState e (SEND_COMMAND c x y) s = reply (SEND_COMMAND c x y) (sendCommand e c s)"
| "procEvtPreviewStoppedState e RELEASE s = reply RELEASE (hwi_release e s)"
| "procEvtPreviewStoppedState e (DUMP fd) s = reply (DUMP fd) (hwi_dump fd s)"
| "procEvtPreviewStoppedState e (REG_FACE_IMAGE img cfg) s = sm_reg_face e img cfg s"
| "procEvtPreviewStoppedState e (EVT_INTERNAL ie) s = (s, NO_ERROR)"
| "procEvtPreviewStoppedState e (EVT_NOTIFY ty) s = (sm_daemon_died e ty s, NO_ERROR)"
| "procEvtPreviewStoppedState e (JPEG_EVT_NOTIFY a) s = (s, NO_ERROR)"
| "procEvtPreviewStoppedState e SNAPSHOT_DONE s = reply_evt SNAPSHOT_DONE (s, NO_ERROR)"
| "procEvtPreviewStoppedState e (THERMAL_NOTIFY lv) s = updateThermalLevel e lv s"

fun procEvtPreviewReadyState :: "hal_env \<Rightarrow> sm_evt \<Rightarrow> hal \<Rightarrow> hal \<times> i32" where
  "procEvtPreviewReadyState e (SET_PREVIEW_WINDOW w) s = sm_ready_window e w s"
| "procEvtPreviewReadyState e (SET_CALLBACKS cbs) s = reply (SET_CALLBACKS cbs) (setCallBacks e cbs s)"
| "procEvtPreviewReadyState e (ENABLE_MSG_TYPE m) s = reply (ENABLE_MSG_TYPE m) (enableMsgType m s)"
| "procEvtPreviewReadyState e (DISABLE_MSG_TYPE m) s = reply (DISABLE_MSG_TYPE m) (disableMsgType m s)"
| "procEvtPreviewReadyState e (MSG_TYPE_ENABLED m) s = reply_value (MSG_TYPE_ENABLED m) (RESULT_ENABLE_FLAG (msgTypeEnabled m s)) (s, NO_ERROR)"
| "procEvtPreviewReadyState e (SET_PARAMS ps) s = sm_ready_set_params e ps s"
| "procEvtPreviewReadyState e GET_PARAMS s = sm_get_params e s"
| "procEvtPreviewReadyState e (PUT_PARAMS a) s = reply (PUT_PARAMS a) (putParameters e a s)"
| "procEvtPreviewReadyState e START_PREVIEW s = reply START_PREVIEW (s, NO_ERROR)"
| "procEvtPreviewReadyState e START_NODISPLAY_PREVIEW s = reply START_NODISPLAY_PREVIEW (s, INVALID_OPERATION)"
| "procEvtPreviewReadyState e STOP_PREVIEW s = reply STOP_PREVIEW (to_state QCAMERA_SM_STATE_PREVIEW_STOPPED (unpreparePreview e s), NO_ERROR)"
| "procEvtPreviewReadyState e PREVIEW_ENABLED s = reply_value PREVIEW_ENABLED (RESULT_ENABLE_FLAG 1) (s, NO_ERROR)"
| "procEvtPreviewReadyState e (STORE_METADATA_IN_BUFS n) s = reply (STORE_METADATA_IN_BUFS n) (storeMetaDataInBuffers n s)"
| "procEvtPreviewReadyState e START_RECORDING s = reply START_RECORDING (s, INVALID_OPERATION)"
| "procEvtPreviewReadyState e STOP_RECORDING s = reply STOP_RECORDING (s, INVALID_OPERATION)"
| "procEvtPreviewReadyState e RECORDING_ENABLED s = reply_value RECORDING_ENABLED (RESULT_ENABLE_FLAG 0) (s, NO_ERROR)"
| "procEvtPreviewReadyState e (RELEASE_RECORIDNG_FRAME a) s = reply (RELEASE_RECORIDNG_FRAME a) (s, INVALID_OPERATION)"
| "procEvtPreviewReadyState e PREPARE_SNAPSHOT s = reply PREPARE_SNAPSHOT (s, INVALID_OPERATION)"
| "procEvtPreviewReadyState e TAKE_PICTURE s = reply TAKE_PICTURE (s, INVALID_OPERATION)"
| "procEvtPreviewReadyState e CANCEL_PICTURE s = reply CANCEL_PICTURE (s, INVALID_OPERATION)"
| "procEvtPreviewReadyState e START_AUTO_FOCUS s = reply START_AUTO_FOCUS (autoFocus e s)"
| "procEvtPreviewReadyState e STOP_AUTO_FOCUS s = reply STOP_AUTO_FOCUS (cancelAutoFocus e s)"
| "procEvtPreviewReadyState e (SEND_COMMAND c x y) s = reply (SEND_COMMAND c x y) (sendCommand e c s)"
| "procEvtPreviewReadyState e RELEASE s = reply RELEASE (s, INVALID_OPERATION)"
| "procEvtPreviewReadyState e (DUMP fd) s = reply (DUMP fd) (hwi_dump fd s)"
| "procEvtPreviewReadyState e (REG_FACE_IMAGE img cfg) s = sm_reg_face e img cfg s"
| "procEvtPreviewReadyState e (EVT_INTERNAL ie) s = (s, NO_ERROR)"
| "procEvtPreviewReadyState e (EVT_NOTIFY ty) s = (sm_daemon_died e ty s, NO_ERROR)"
| "procEvtPreviewReadyState e (JPEG_EVT_NOTIFY a) s = (s, NO_ERROR)"
| "procEvtPreviewReadyState e SNAPSHOT_DONE s = reply_evt SNAPSHOT_DONE (s, NO_ERROR)"
| "procEvtPreviewReadyState e (THERMAL_NOTIFY lv) s = (s, NO_ERROR)"

fun procEvtPreviewingState :: "hal_env \<Rightarrow> sm_evt \<Rightarrow> hal \<Rightarrow> hal \<times> i32" where
  "procEvtPreviewingState e (SET_PREVIEW_WINDOW w) s = reply (SET_PREVIEW_WINDOW w) (s, INVALID_OPERATION)"
| "procEvtPreviewingState e (SET_CALLBACKS cbs) s = reply (SET_CALLBACKS cbs) (setCallBacks e cbs s)"
| "procEvtPreviewingState e (ENABLE_MSG_TYPE m) s = reply (ENABLE_MSG_TYPE m) (enableMsgType m s)"
| "procEvtPreviewingState e (DISABLE_MSG_TYPE m) s = reply (DISABLE_MSG_TYPE m) (disableMsgType m s)"
| "procEvtPreviewingState e (MSG_TYPE_ENABLED m) s = reply_value (MSG_TYPE_ENABLED m) (RESULT_ENABLE_FLAG (msgTypeEnabled m s)) (s, NO_ERROR)"
| "procEvtPreviewingState e (SET_PARAMS ps) s = sm_restart_set_params e QCAMERA_SM_STATE_PREVIEW_STOPPED ps s"
| "procEvtPreviewingState e GET_PARAMS s = sm_get_params e s"
| "procEvtPreviewingState e (PUT_PARAMS a) s = reply (PUT_PARAMS a) (putParameters e a s)"
| "procEvtPreviewingState e START_PREVIEW s = reply START_PREVIEW (s, NO_ERROR)"
| "procEvtPreviewingState e START_NODISPLAY_PREVIEW s = reply START_NODISPLAY_PREVIEW (s, NO_ERROR)"
| "procEvtPreviewingState e STOP_PREVIEW s = reply STOP_PREVIEW (sm_stop_preview e s)"
| "procEvtPreviewingState e PREVIEW_ENABLED s = reply_value PREVIEW_ENABLED (RESULT_ENABLE_FLAG 1) (s, NO_ERROR)"
| "procEvtPreviewingState e (STORE_METADATA_IN_BUFS n) s = reply (STORE_METADATA_IN_BUFS n) (storeMetaDataInBuffers n s)"
| "procEvtPreviewingState e START_RECORDING s = reply START_RECORDING (sm_start_recording e QCAMERA_SM_STATE_RECORDING s)"
| "procEvtPreviewingState e STOP_RECORDING s = reply STOP_RECORDING (s, INVALID_OPERATION)"
| "procEvtPreviewingState e RECORDING_ENABLED s = reply_value RECORDING_ENABLED (RESULT_ENABLE_FLAG 0) (s, NO_ERROR)"
| "procEvtPreviewingState e (RELEASE_RECORIDNG_FRAME a) s = reply (RELEASE_RECORIDNG_FRAME a) (s, INVALID_OPERATION)"
| "procEvtPreviewingState e PREPARE_SNAPSHOT s = sm_prepare_snapshot e s"
| "procEvtPreviewingState e TAKE_PICTURE s = sm_take_picture e s"
| "procEvtPreviewingState e CANCEL_PICTURE s = reply CANCEL_PICTURE (s, INVALID_OPERATION)"
| "procEvtPreviewingState e START_AUTO_FOCUS s = reply START_AUTO_FOCUS (autoFocus e s)"
| "procEvtPreviewingState e STOP_AUTO_FOCUS s = reply STOP_AUTO_FOCUS (cancelAutoFocus e s)"
| "procEvtPreviewingState e (SEND_COMMAND c x y) s = reply (SEND_COMMAND c x y) (sendCommand e c s)"
| "procEvtPreviewingState e RELEASE s = reply RELEASE (s, INVALID_OPERATION)"
| "procEvtPreviewingState e (DUMP fd) s = reply (DUMP fd) (hwi_dump fd s)"
| "procEvtPreviewingState e (REG_FACE_IMAGE img cfg) s = sm_reg_face e img cfg s"
| "procEvtPreviewingState e (EVT_INTERNAL ie) s = sm_internal e ie s"
| "procEvtPreviewingState e (EVT_NOTIFY ty) s = (sm_daemon_died e ty s, NO_ERROR)"
| "procEvtPreviewingState e (JPEG_EVT_NOTIFY a) s = (s, NO_ERROR)"
| "procEvtPreviewingState e SNAPSHOT_DONE s = reply_evt SNAPSHOT_DONE (s, NO_ERROR)"
| "procEvtPreviewingState e (THERMAL_NOTIFY lv) s = updateThermalLevel e lv s"

fun procEvtPrepareSnapshotState :: "hal_env \<Rightarrow> sm_evt \<Rightarrow> hal \<Rightarrow> hal \<times> i32" where
  "procEvtPrepareSnapshotState e (SET_PREVIEW_WINDOW w) s = reply (SET_PREVIEW_WINDOW w) (s, INVALID_OPERATION)"
| "procEvtPrepareSnapshotState e (SET_CALLBACKS cbs) s = reply (SET_CALLBACKS cbs) (s, INVALID_OPERATION)"
| "procEvtPrepareSnapshotState e (ENABLE_MSG_TYPE m) s = reply (ENABLE_MSG_TYPE m) (s, INVALID_OPERATION)"
| "procEvtPrepareSnapshotState e (DISABLE_MSG_TYPE m) s = reply (DISABLE_MSG_TYPE m) (s, INVALID_OPERATION)"
| "procEvtPrepareSnapshotState e (MSG_TYPE_ENABLED m) s = reply (MSG_TYPE_ENABLED m) (s, INVALID_OPERATION)"
| "procEvtPrepareSnapshotState e (SET_PARAMS ps) s = reply (SET_PARAMS ps) (s, INVALID_OPERATION)"
| "procEvtPrepareSnapshotState e GET_PARAMS s = reply GET_PARAMS (s, INVALID_OPERATION)"
| "procEvtPrepareSnapshotState e (PUT_PARAMS a) s = reply (PUT_PARAMS a) (s, INVALID_OPERATION)"
| "procEvtPrepareSnapshotState e START_PREVIEW s = reply START_PREVIEW (s, INVALID_OPERATION)"
| "procEvtPrepareSnapshotState e START_NODISPLAY_PREVIEW s = reply START_NODISPLAY_PREVIEW (s, INVALID_OPERATION)"
| "procEvtPrepareSnapshotState e STOP_PREVIEW s = reply STOP_PREVIEW (s, INVALID_OPERATION)"
| "procEvtPrepareSnapshotState e PREVIEW_ENABLED s = reply PREVIEW_ENABLED (s, INVALID_OPERATION)"
| "procEvtPrepareSnapshotState e (STORE_METADATA_IN_BUFS n) s = reply (STORE_METADATA_IN_BUFS n) (s, INVALID_OPERATION)"
| "procEvtPrepareSnapshotState e START_RECORDING s = reply START_RECORDING (s, INVALID_OPERATION)"
| "procEvtPrepareSnapshotState e STOP_RECORDING s = reply STOP_RECORDING (s, INVALID_OPERATION)"
| "procEvtPrepareSnapshotState e RECORDING_ENABLED s = reply RECORDING_ENABLED (s, INVALID_OPERATION)"
| "procEvtPrepareSnapshotState e (RELEASE_RECORIDNG_FRAME a) s = reply (RELEASE_RECORIDNG_FRAME a) (s, INVALID_OPERATION)"
| "procEvtPrepareSnapshotState e PREPARE_SNAPSHOT s = reply PREPARE_SNAPSHOT (s, INVALID_OPERATION)"
| "procEvtPrepareSnapshotState e TAKE_PICTURE s = reply TAKE_PICTURE (s, INVALID_OPERATION)"
| "procEvtPrepareSnapshotState e CANCEL_PICTURE s = reply CANCEL_PICTURE (s, INVALID_OPERATION)"
| "procEvtPrepareSnapshotState e START_AUTO_FOCUS s = reply START_AUTO_FOCUS (s, INVALID_OPERATION)"
| "procEvtPrepareSnapshotState e STOP_AUTO_FOCUS s = reply STOP_AUTO_FOCUS (s, INVALID_OPERATION)"
| "procEvtPrepareSnapshotState e (SEND_COMMAND c x y) s = reply (SEND_COMMAND c x y) (s, INVALID_OPERATION)"
| "procEvtPrepareSnapshotState e RELEASE s = reply RELEASE (s, INVALID_OPERATION)"
| "procEvtPrepareSnapshotState e (DUMP fd) s = reply (DUMP fd) (s, INVALID_OPERATION)"
| "procEvtPrepareSnapshotState e (REG_FACE_IMAGE img cfg) s = (s, NO_ERROR)"
| "procEvtPrepareSnapshotState e (EVT_INTERNAL ie) s = sm_prepare_internal e ie s"
| "procEvtPrepareSnapshotState e (EVT_NOTIFY ty) s = (sm_daemon_died e ty s, NO_ERROR)"
| "procEvtPrepareSnapshotState e (JPEG_EVT_NOTIFY a) s = (s, NO_ERROR)"
| "procEvtPrepareSnapshotState e SNAPSHOT_DONE s = reply_evt SNAPSHOT_DONE (s, NO_ERROR)"
| "procEvtPrepareSnapshotState e (THERMAL_NOTIFY lv) s = (s, NO_ERROR)"

fun procEvtPicTakingState :: "hal_env \<Rightarrow> sm_evt \<Rightarrow> hal \<Rightarrow> hal \<times> i32" where
  "procEvtPicTakingState e (SET_PREVIEW_WINDOW w) s = reply (SET_PREVIEW_WINDOW w) (s, INVALID_OPERATION)"
| "procEvtPicTakingState e (SET_CALLBACKS cbs) s = reply (SET_CALLBACKS cbs) (setCallBacks e cbs s)"
| "procEvtPicTakingState e (ENABLE_MSG_TYPE m) s = reply (ENABLE_MSG_TYPE m) (enableMsgType m s)"
| "procEvtPicTakingState e (DISABLE_MSG_TYPE m) s = reply (DISABLE_MSG_TYPE m) (disableMsgType m s)"
| "procEvtPicTakingState e (MSG_TYPE_ENABLED m) s = reply_value (MSG_TYPE_ENABLED m) (RESULT_ENABLE_FLAG (msgTypeEnabled m s)) (s, NO_ERROR)"
| "procEvtPicTakingState e (SET_PARAMS ps) s = sm_set_params_plain e ps s"
| "procEvtPicTakingState e GET_PARAMS s = sm_get_params e s"
| "procEvtPicTakingState e (PUT_PARAMS a) s = reply (PUT_PARAMS a) (putParameters e a s)"
| "procEvtPicTakingState e START_PREVIEW s = reply START_PREVIEW (s, INVALID_OPERATION)"
| "procEvtPicTakingState e START_NODISPLAY_PREVIEW s = reply START_NODISPLAY_PREVIEW (s, INVALID_OPERATION)"
| "procEvtPicTakingState e STOP_PREVIEW s = reply STOP_PREVIEW (sm_cancel_to e QCAMERA_SM_STATE_PREVIEW_STOPPED s)"
| "procEvtPicTakingState e PREVIEW_ENABLED s = reply_value PREVIEW_ENABLED (RESULT_ENABLE_FLAG 0) (s, NO_ERROR)"
| "procEvtPicTakingState e (STORE_METADATA_IN_BUFS n) s = reply (STORE_METADATA_IN_BUFS n) (storeMetaDataInBuffers n s)"
| "procEvtPicTakingState e START_RECORDING s = reply START_RECORDING (s, INVALID_OPERATION)"
| "procEvtPicTakingState e STOP_RECORDING s = reply STOP_RECORDING (s, INVALID_OPERATION)"
| "procEvtPicTakingState e RECORDING_ENABLED s = reply_value RECORDING_ENABLED (RESULT_ENABLE_FLAG 0) (s, NO_ERROR)"
| "procEvtPicTakingState e (RELEASE_RECORIDNG_FRAME a) s = reply (RELEASE_RECORIDNG_FRAME a) (s, INVALID_OPERATION)"
| "procEvtPicTakingState e PREPARE_SNAPSHOT s = reply PREPARE_SNAPSHOT (s, INVALID_OPERATION)"
| "procEvtPicTakingState e TAKE_PICTURE s = reply TAKE_PICTURE (s, INVALID_OPERATION)"
| "procEvtPicTakingState e CANCEL_PICTURE s = reply CANCEL_PICTURE (sm_cancel_to e QCAMERA_SM_STATE_PREVIEW_STOPPED s)"
| "procEvtPicTakingState e START_AUTO_FOCUS s = reply START_AUTO_FOCUS (autoFocus e s)"
| "procEvtPicTakingState e STOP_AUTO_FOCUS s = reply STOP_AUTO_FOCUS (cancelAutoFocus e s)"
| "procEvtPicTakingState e (SEND_COMMAND c x y) s = reply (SEND_COMMAND c x y) (sendCommand e c s)"
| "procEvtPicTakingState e RELEASE s = reply RELEASE (s, INVALID_OPERATION)"
| "procEvtPicTakingState e (DUMP fd) s = reply (DUMP fd) (hwi_dump fd s)"
| "procEvtPicTakingState e (REG_FACE_IMAGE img cfg) s = sm_reg_face e img cfg s"
| "procEvtPicTakingState e (EVT_INTERNAL ie) s = sm_pic_internal e ie s"
| "procEvtPicTakingState e (EVT_NOTIFY ty) s = (sm_daemon_died e ty s, NO_ERROR)"
| "procEvtPicTakingState e (JPEG_EVT_NOTIFY a) s = processJpegNotify e a s"
| "procEvtPicTakingState e SNAPSHOT_DONE s = reply_evt SNAPSHOT_DONE (sm_cancel_to e QCAMERA_SM_STATE_PREVIEW_STOPPED s)"
| "procEvtPicTakingState e (THERMAL_NOTIFY lv) s = updateThermalLevel e lv s"

fun procEvtRecordingState :: "hal_env \<Rightarrow> sm_evt \<Rightarrow> hal \<Rightarrow> hal \<times> i32" where
  "procEvtRecordingState e (SET_PREVIEW_WINDOW w) s = reply (SET_PREVIEW_WINDOW w) (s, NO_ERROR)"
| "procEvtRecordingState e (SET_CALLBACKS cbs) s = reply (SET_CALLBACKS cbs) (setCallBacks e cbs s)"
| "procEvtRecordingState e (ENABLE_MSG_TYPE m) s = reply (ENABLE_MSG_TYPE m) (enableMsgType m s)"
| "procEvtRecordingState e (DISABLE_MSG_TYPE m) s = reply (DISABLE_MSG_TYPE m) (disableMsgType m s)"
| "procEvtRecordingState e (MSG_TYPE_ENABLED m) s = reply_value (MSG_TYPE_ENABLED m) (RESULT_ENABLE_FLAG (msgTypeEnabled m s)) (s, NO_ERROR)"
| "procEvtRecordingState e (SET_PARAMS ps) s = sm_recording_set_params e ps s"
| "procEvtRecordingState e GET_PARAMS s = sm_get_params e s"
| "procEvtRecordingState e (PUT_PARAMS a) s = reply (PUT_PARAMS a) (putParameters e a s)"
| "procEvtRecordingState e START_PREVIEW s = reply START_PREVIEW (s, NO_ERROR)"
| "procEvtRecordingState e START_NODISPLAY_PREVIEW s = reply START_NODISPLAY_PREVIEW (s, INVALID_OPERATION)"
| "procEvtRecordingState e STOP_PREVIEW s = reply STOP_PREVIEW (sm_recording_stop_preview e s)"
| "procEvtRecordingState e PREVIEW_ENABLED s = reply_value PREVIEW_ENABLED (RESULT_ENABLE_FLAG 0) (s, NO_ERROR)"
| "procEvtRecordingState e (STORE_METADATA_IN_BUFS n) s = reply (STORE_METADATA_IN_BUFS n) (storeMetaDataInBuffers n s)"
| "procEvtRecordingState e START_RECORDING s = reply START_RECORDING (s, NO_ERROR)"
| "procEvtRecordingState e STOP_RECORDING s = reply STOP_RECORDING (sm_stop_recording e QCAMERA_SM_STATE_PREVIEWING s)"
| "procEvtRecordingState e RECORDING_ENABLED s = reply_value RECORDING_ENABLED (RESULT_ENABLE_FLAG 1) (s, NO_ERROR)"
| "procEvtRecordingState e (RELEASE_RECORIDNG_FRAME a) s = reply (RELEASE_RECORIDNG_FRAME a) (releaseRecordingFrame e a s)"
| "procEvtRecordingState e PREPARE_SNAPSHOT s = reply PREPARE_SNAPSHOT (s, NO_ERROR)"
| "procEvtRecordingState e TAKE_PICTURE s = reply TAKE_PICTURE (sm_live_snapshot e QCAMERA_SM_STATE_VIDEO_PIC_TAKING QCAMERA_SM_STATE_RECORDING s)"
| "procEvtRecordingState e CANCEL_PICTURE s = reply CANCEL_PICTURE (s, INVALID_OPERATION)"
| "procEvtRecordingState e START_AUTO_FOCUS s = reply START_AUTO_FOCUS (autoFocus e s)"
| "procEvtRecordingState e STOP_AUTO_FOCUS s = reply STOP_AUTO_FOCUS (cancelAutoFocus e s)"
| "procEvtRecordingState e (SEND_COMMAND c x y) s = reply (SEND_COMMAND c x y) (sendCommand e c s)"
| "procEvtRecordingState e RELEASE s = reply RELEASE (s, INVALID_OPERATION)"
| "procEvtRecordingState e (DUMP fd) s = reply (DUMP fd) (hwi_dump fd s)"
| "procEvtRecordingState e (REG_FACE_IMAGE img cfg) s = sm_reg_face e img cfg s"
| "procEvtRecordingState e (EVT_INTERNAL ie) s = sm_internal e ie s"
| "procEvtRecordingState e (EVT_NOTIFY ty) s = (sm_daemon_died e ty s, NO_ERROR)"
| "procEvtRecordingState e (JPEG_EVT_NOTIFY a) s = (s, NO_ERROR)"
| "procEvtRecordingState e SNAPSHOT_DONE s = reply_evt SNAPSHOT_DONE (s, NO_ERROR)"
| "procEvtRecordingState e (THERMAL_NOTIFY lv) s = updateThermalLevel e lv s"

fun procEvtVideoPicTakingState :: "hal_env \<Rightarrow> sm_evt \<Rightarrow> hal \<Rightarrow> hal \<times> i32" where
  "procEvtVideoPicTakingState e (SET_PREVIEW_WINDOW w) s = reply (SET_PREVIEW_WINDOW w) (s, INVALID_OPERATION)"
| "procEvtVideoPicTakingState e (SET_CALLBACKS cbs) s = reply (SET_CALLBACKS cbs) (setCallBacks e cbs s)"
| "procEvtVideoPicTakingState e (ENABLE_MSG_TYPE m) s = reply (ENABLE_MSG_TYPE m) (enableMsgType m s)"
| "procEvtVideoPicTakingState e (DISABLE_MSG_TYPE m) s = reply (DISABLE_MSG_TYPE m) (disableMsgType m s)"
| "procEvtVideoPicTakingState e (MSG_TYPE_ENABLED m) s = reply_value (MSG_TYPE_ENABLED m) (RESULT_ENABLE_FLAG (msgTypeEnabled m s)) (s, NO_ERROR)"
| "procEvtVideoPicTakingState e (SET_PARAMS ps) s = sm_recording_set_params e ps s"
| "procEvtVideoPicTakingState e GET_PARAMS s = sm_get_params e s"
| "procEvtVideoPicTakingState e (PUT_PARAMS a) s = reply (PUT_PARAMS a) (putParameters e a s)"
| "procEvtVideoPicTakingState e START_PREVIEW s = reply START_PREVIEW (s, INVALID_OPERATION)"
| "procEvtVideoPicTakingState e START_NODISPLAY_PREVIEW s = reply START_NODISPLAY_PREVIEW (s, INVALID_OPERATION)"
| "procEvtVideoPicTakingState e STOP_PREVIEW s = reply STOP_PREVIEW (sm_video_pic_stop_preview e s)"
| "procEvtVideoPicTakingState e PREVIEW_ENABLED s = reply_value PREVIEW_ENABLED (RESULT_ENABLE_FLAG 1) (s, NO_ERROR)"
| "procEvtVideoPicTakingState e (STORE_METADATA_IN_BUFS n) s = reply (STORE_METADATA_IN_BUFS n) (storeMetaDataInBuffers n s)"
| "procEvtVideoPicTakingState e START_RECORDING s = reply START_RECORDING (s, INVALID_OPERATION)"
| "procEvtVideoPicTakingState e STOP_RECORDING s = reply STOP_RECORDING (sm_stop_recording e QCAMERA_SM_STATE_PREVIEW_PIC_TAKING s)"
| "procEvtVideoPicTakingState e RECORDING_ENABLED s = reply_value RECORDING_ENABLED (RESULT_ENABLE_FLAG 1) (s, NO_ERROR)"
| "procEvtVideoPicTakingState e (RELEASE_RECORIDNG_FRAME a) s = reply (RELEASE_RECORIDNG_FRAME a) (releaseRecordingFrame e a s)"
| "procEvtVideoPicTakingState e PREPARE_SNAPSHOT s = reply PREPARE_SNAPSHOT (s, INVALID_OPERATION)"
| "procEvtVideoPicTakingState e TAKE_PICTURE s = reply TAKE_PICTURE (s, INVALID_OPERATION)"
| "procEvtVideoPicTakingState e CANCEL_PICTURE s = reply CANCEL_PICTURE (sm_cancel_live e QCAMERA_SM_STATE_RECORDING s)"
| "procEvtVideoPicTakingState e START_AUTO_FOCUS s = reply START_AUTO_FOCUS (autoFocus e s)"
| "procEvtVideoPicTakingState e STOP_AUTO_FOCUS s = reply STOP_AUTO_FOCUS (cancelAutoFocus e s)"
| "procEvtVideoPicTakingState e (SEND_COMMAND c x y) s = reply (SEND_COMMAND c x y) (sendCommand e c s)"
| "procEvtVideoPicTakingState e RELEASE s = reply RELEASE (s, INVALID_OPERATION)"
| "procEvtVideoPicTakingState e (DUMP fd) s = reply (DUMP fd) (hwi_dump fd s)"
| "procEvtVideoPicTakingState e (REG_FACE_IMAGE img cfg) s = sm_reg_face e img cfg s"
| "procEvtVideoPicTakingState e (EVT_INTERNAL ie) s = sm_internal e ie s"
| "procEvtVideoPicTakingState e (EVT_NOTIFY ty) s = (sm_daemon_died e ty s, NO_ERROR)"
| "procEvtVideoPicTakingState e (JPEG_EVT_NOTIFY a) s = processJpegNotify e a s"
| "procEvtVideoPicTakingState e SNAPSHOT_DONE s = reply_evt SNAPSHOT_DONE (sm_cancel_live e QCAMERA_SM_STATE_RECORDING s)"
| "procEvtVideoPicTakingState e (THERMAL_NOTIFY lv) s = updateThermalLevel e lv s"

fun procEvtPreviewPicTakingState :: "hal_env \<Rightarrow> sm_evt \<Rightarrow> hal \<Rightarrow> hal \<times> i32" where
  "procEvtPreviewPicTakingState e (SET_PREVIEW_WINDOW w) s = reply (SET_PREVIEW_WINDOW w) (s, INVALID_OPERATION)"
| "procEvtPreviewPicTakingState e (SET_CALLBACKS cbs) s = reply (SET_CALLBACKS cbs) (setCallBacks e cbs s)"
| "procEvtPreviewPicTakingState e (ENABLE_MSG_TYPE m) s = reply (ENABLE_MSG_TYPE m) (enableMsgType m s)"
| "procEvtPreviewPicTakingState e (DISABLE_MSG_TYPE m) s = reply (DISABLE_MSG_TYPE m) (disableMsgType m s)"
| "procEvtPreviewPicTakingState e (MSG_TYPE_ENABLED m) s = reply_value (MSG_TYPE_ENABLED m) (RESULT_ENABLE_FLAG (msgTypeEnabled m s)) (s, NO_ERROR)"
| "procEvtPreviewPicTakingState e (SET_PARAMS ps) s = sm_restart_set_params e QCAMERA_SM_STATE_PIC_TAKING ps s"
| "procEvtPreviewPicTakingState e GET_PARAMS s = sm_get_params e s"
| "procEvtPreviewPicTakingState e (PUT_PARAMS a) s = reply (PUT_PARAMS a) (putParameters e a s)"
| "procEvtPreviewPicTakingState e START_PREVIEW s = reply START_PREVIEW (s, INVALID_OPERATION)"
| "procEvtPreviewPicTakingState e START_NODISPLAY_PREVIEW s = reply START_NODISPLAY_PREVIEW (s, INVALID_OPERATION)"
| "procEvtPreviewPicTakingState e STOP_PREVIEW s = reply STOP_PREVIEW (sm_preview_pic_stop e s)"
| "procEvtPreviewPicTakingState e PREVIEW_ENABLED s = reply_value PREVIEW_ENABLED (RESULT_ENABLE_FLAG 1) (s, NO_ERROR)"
| "procEvtPreviewPicTakingState e (STORE_METADATA_IN_BUFS n) s = reply (STORE_METADATA_IN_BUFS n) (storeMetaDataInBuffers n s)"
| "procEvtPreviewPicTakingState e START_RECORDING s = reply START_RECORDING (sm_preview_pic_start_recording e s)"
| "procEvtPreviewPicTakingState e STOP_RECORDING s = reply STOP_RECORDING (s, INVALID_OPERATION)"
| "procEvtPreviewPicTakingState e RECORDING_ENABLED s = reply_value RECORDING_ENABLED (RESULT_ENABLE_FLAG 0) (s, NO_ERROR)"
| "procEvtPreviewPicTakingState e (RELEASE_RECORIDNG_FRAME a) s = reply (RELEASE_RECORIDNG_FRAME a) (releaseRecordingFrame e a s)"
| "procEvtPreviewPicTakingState e PREPARE_SNAPSHOT s = reply PREPARE_SNAPSHOT (s, INVALID_OPERATION)"
| "procEvtPreviewPicTakingState e TAKE_PICTURE s = reply TAKE_PICTURE (s, INVALID_OPERATION)"
| "procEvtPreviewPicTakingState e CANCEL_PICTURE s = reply CANCEL_PICTURE (sm_cancel_zsl_or_live e s)"
| "procEvtPreviewPicTakingState e START_AUTO_FOCUS s = reply START_AUTO_FOCUS (autoFocus e s)"
| "procEvtPreviewPicTakingState e STOP_AUTO_FOCUS s = reply STOP_AUTO_FOCUS (cancelAutoFocus e s)"
| "procEvtPreviewPicTakingState e (SEND_COMMAND c x y) s = reply (SEND_COMMAND c x y) (sendCommand e c s)"
| "procEvtPreviewPicTakingState e RELEASE s = reply RELEASE (s, INVALID_OPERATION)"
| "procEvtPreviewPicTakingState e (DUMP fd) s = reply (DUMP fd) (hwi_dump fd s)"
| "procEvtPreviewPicTakingState e (REG_FACE_IMAGE img cfg) s = sm_reg_face e img cfg s"
| "procEvtPreviewPicTakingState e (EVT_INTERNAL ie) s = sm_internal e ie s"
| "procEvtPreviewPicTakingState e (EVT_NOTIFY ty) s = (sm_daemon_died e ty s, NO_ERROR)"
| "procEvtPreviewPicTakingState e (JPEG_EVT_NOTIFY a) s = processJpegNotify e a s"
| "procEvtPreviewPicTakingState e SNAPSHOT_DONE s = reply_evt SNAPSHOT_DONE (sm_cancel_zsl_or_live e s)"
| "procEvtPreviewPicTakingState e (THERMAL_NOTIFY lv) s = updateThermalLevel e lv s"
fun stateMachine :: "hal_env \<Rightarrow> sm_evt \<Rightarrow> hal \<Rightarrow> hal \<times> i32" where
  "stateMachine e evt s =
     (case m_state s of
        QCAMERA_SM_STATE_PREVIEW_STOPPED \<Rightarrow> procEvtPreviewStoppedState e evt s
      | QCAMERA_SM_STATE_PREVIEW_READY \<Rightarrow> procEvtPreviewReadyState e evt s
      | QCAMERA_SM_STATE_PREVIEWING \<Rightarrow> procEvtPreviewingState e evt s
      | QCAMERA_SM_STATE_PREPARE_SNAPSHOT \<Rightarrow> procEvtPrepareSnapshotState e evt s
      | QCAMERA_SM_STATE_PIC_TAKING \<Rightarrow> procEvtPicTakingState e evt s
      | QCAMERA_SM_STATE_RECORDING \<Rightarrow> procEvtRecordingState e evt s
      | QCAMERA_SM_STATE_VIDEO_PIC_TAKING \<Rightarrow> procEvtVideoPicTakingState e evt s
      | QCAMERA_SM_STATE_PREVIEW_PIC_TAKING \<Rightarrow> procEvtPreviewPicTakingState e evt s)"

fun isPreviewRunning :: "qcamera_state \<Rightarrow> bool" where
  "isPreviewRunning QCAMERA_SM_STATE_PREVIEWING = True"
| "isPreviewRunning QCAMERA_SM_STATE_RECORDING = True"
| "isPreviewRunning QCAMERA_SM_STATE_VIDEO_PIC_TAKING = True"
| "isPreviewRunning QCAMERA_SM_STATE_PREVIEW_PIC_TAKING = True"
| "isPreviewRunning QCAMERA_SM_STATE_PREPARE_SNAPSHOT = True"
| "isPreviewRunning _ = False"

end
