(* ===== verification/HalFrames.thy ===== *)
theory HalFrames
  imports HalSM
begin

text \<open>
  What the operations of the HAL leave alone, and what they do to the channels: the lemmas from which the theories
  \<^verbatim>\<open>HalAnswers\<close>, \<^verbatim>\<open>HalDevice\<close> and \<^verbatim>\<open>HalFaults\<close> prove the properties of the state machine.
\<close>

named_theorems hal_keeps \<open>operations that change neither the state of the machine, nor the results signalled, nor the channels\<close>

definition keeps :: "hal \<Rightarrow> hal \<Rightarrow> bool" where
  "keeps s s' \<longleftrightarrow> m_state s' = m_state s \<and> api_signals s' = api_signals s \<and> evt_signals s' = evt_signals s \<and>
     mPreviewWindow s' = mPreviewWindow s"

definition keeps_ch :: "hal \<Rightarrow> hal \<Rightarrow> bool" where
  "keeps_ch s s' \<longleftrightarrow> keeps s s' \<and> m_channels s' = m_channels s"

lemma keeps_refl [simp]: "keeps s s" "keeps_ch s s"
  by (simp_all add: keeps_def keeps_ch_def)

lemma keeps_trans: "keeps s s' \<Longrightarrow> keeps s' s'' \<Longrightarrow> keeps s s''"
  by (simp add: keeps_def)

lemma keeps_ch_trans: "keeps_ch s s' \<Longrightarrow> keeps_ch s' s'' \<Longrightarrow> keeps_ch s s''"
  by (simp add: keeps_def keeps_ch_def)

lemma keeps_chD: "keeps_ch s s' \<Longrightarrow> keeps s s'"
  by (simp add: keeps_ch_def)

lemma keeps_ch_fold:
  assumes "\<And>x s. x \<in> set xs \<Longrightarrow> keeps_ch s (f x s)"
  shows "keeps_ch s (fold f xs s)"
  using assms by (induction xs arbitrary: s) (auto intro: keeps_ch_trans)

lemma keeps_ch_fold_res:
  assumes "\<And>x s r. keeps_ch s (fst (f x (s, r)))"
  shows "keeps_ch s (fst (fold f xs (s, r)))"
proof (induction xs arbitrary: s r)
  case (Cons x xs)
  obtain s1 r1 where "f x (s, r) = (s1, r1)" by force
  then show ?case using keeps_ch_trans [OF _ Cons.IH [of s1 r1]] assms [of s x r] by simp
qed simp

lemma keeps_ch_fst: "keeps_ch s (fst r) \<Longrightarrow> r = (s', x) \<Longrightarrow> keeps_ch s s'"
  by simp

lemma keeps_ch_update [simp]:
  "keeps_ch s (s\<lparr>mParameters := p\<rparr>)" "keeps_ch s (s\<lparr>m_currentFocusState := fs\<rparr>)"
  "keeps_ch s (s\<lparr>mThermalLevel := lv\<rparr>)" "keeps_ch s (s\<lparr>mStoreMetaDataInFrame := n\<rparr>)" "keeps_ch s (s\<lparr>mMsgEnabled := m\<rparr>)"
  "keeps_ch s (s\<lparr>m_callbacks := cb\<rparr>)"
  by (simp_all add: keeps_def keeps_ch_def)

lemma dev_keeps [hal_keeps]: "dev e c s = (s', rc) \<Longrightarrow> keeps_ch s s'"
  by (auto simp: dev_def keeps_def keeps_ch_def)

lemma dev'_keeps: "keeps_ch s (dev' e c s)"
  by (simp add: dev'_def dev_def keeps_def keeps_ch_def)

lemmas keep_defs = keeps_def keeps_ch_def

lemma commitSetBatch_keeps [hal_keeps]: "commitSetBatch e s = (s', rc) \<Longrightarrow> keeps_ch s s'"
  by (auto simp: commitSetBatch_def keep_defs split: prod.splits if_splits dest!: hal_keeps)

lemma send_parm_keeps [hal_keeps]: "send_parm e t v s = (s', rc) \<Longrightarrow> keeps_ch s s'"
  by (auto simp: send_parm_def keep_defs Let_def split: prod.splits if_splits dest!: hal_keeps)

lemma updateRecordingHintValue_keeps [hal_keeps]: "updateRecordingHintValue e v s = (s', rc) \<Longrightarrow> keeps_ch s s'"
  by (auto simp: updateRecordingHintValue_def keep_defs Let_def split: prod.splits if_splits dest!: hal_keeps)

lemma parms_setHistogram_keeps [hal_keeps]: "parms_setHistogram e b s = (s', rc) \<Longrightarrow> keeps_ch s s'"
  by (auto simp: parms_setHistogram_def keep_defs split: prod.splits if_splits dest!: hal_keeps)

lemma parms_setFaceDetection_keeps [hal_keeps]: "parms_setFaceDetection e b s = (s', rc) \<Longrightarrow> keeps_ch s s'"
  by (auto simp: parms_setFaceDetection_def keep_defs Let_def split: prod.splits if_splits dest!: hal_keeps)

lemma setLockCAF_keeps [hal_keeps]: "setLockCAF e b s = (s', rc) \<Longrightarrow> keeps_ch s s'"
  by (auto simp: setLockCAF_def keep_defs split: prod.splits if_splits dest!: hal_keeps)

lemma setHDRAEBracket_keeps [hal_keeps]: "setHDRAEBracket e v s = (s', rc) \<Longrightarrow> keeps_ch s s'"
  by (auto simp: setHDRAEBracket_def dest: hal_keeps)

lemma restoreAEBracket_keeps [hal_keeps]: "restoreAEBracket e s = (s', rc) \<Longrightarrow> keeps_ch s s'"
  by (auto simp: restoreAEBracket_def dest: hal_keeps)

lemma commitParameterChanges_keeps [hal_keeps]: "commitParameterChanges e s = (s', rc) \<Longrightarrow> keeps_ch s s'"
  by (auto simp: commitParameterChanges_def commitParameters_def keep_defs split: prod.splits if_splits dest!: hal_keeps)

lemma autoFocus_keeps [hal_keeps]: "autoFocus e s = (s', rc) \<Longrightarrow> keeps_ch s s'"
  by (auto simp: autoFocus_def sendEvtNotify_def set_af_running_def set_lock_caf_needed_def keep_defs Let_def fst_def
      split: prod.splits if_splits dest!: hal_keeps)

lemma cancelAutoFocus_keeps [hal_keeps]: "cancelAutoFocus e s = (s', rc) \<Longrightarrow> keeps_ch s s'"
  by (auto simp: cancelAutoFocus_def set_af_running_def set_lock_caf_needed_def keep_defs Let_def
      split: prod.splits if_splits dest!: hal_keeps)

lemma processAutoFocusEvent_keeps [hal_keeps]: "processAutoFocusEvent e fs s = (s', rc) \<Longrightarrow> keeps_ch s s'"
  by (auto simp: processAutoFocusEvent_def sendEvtNotify_def set_af_running_def set_lock_caf_needed_def keep_defs Let_def fst_def
      split: prod.splits if_splits dest!: hal_keeps)

lemma sendCommand_keeps [hal_keeps]: "sendCommand e c s = (s', rc) \<Longrightarrow> keeps_ch s s'"
  by (auto simp: sendCommand_def split: hal_cmd.splits dest: hal_keeps)

lemma updateThermalLevel_keeps [hal_keeps]: "updateThermalLevel e lv s = (s', rc) \<Longrightarrow> keeps_ch s s'"
proof -
  assume a: "updateThermalLevel e lv s = (s', rc)"
  have "keeps_ch (s\<lparr>mThermalLevel := lv\<rparr>) s'" using a
    by (auto simp: updateThermalLevel_def adjustPreviewFpsRange_def setFrameSkip_def Let_def
        split: thermal_mode.splits prod.splits if_splits dest!: hal_keeps)
  then show ?thesis by (simp add: keep_defs)
qed

lemma registerFaceImage_keeps [hal_keeps]: "registerFaceImage e img cfg s = (s', rc, f) \<Longrightarrow> keeps_ch s s'"
  by (auto simp: registerFaceImage_def split: prod.splits if_splits dest!: hal_keeps)

lemma simple_calls_keep [hal_keeps]:
  "processFaceDetectionResult e a s = (s', rc) \<Longrightarrow> keeps_ch s s'"
  "processHistogramStats e a s = (s', rc) \<Longrightarrow> keeps_ch s s'"
  "processJpegNotify e a s = (s', rc) \<Longrightarrow> keeps_ch s s'"
  "prepareHardwareForSnapshot e n s = (s', rc) \<Longrightarrow> keeps_ch s s'"
  "sendEvtNotify e m x y s = (s', rc) \<Longrightarrow> keeps_ch s s'"
  by (auto simp: processFaceDetectionResult_def processHistogramStats_def processJpegNotify_def
      prepareHardwareForSnapshot_def sendEvtNotify_def dest: hal_keeps)

lemma getParameters_keeps [hal_keeps]: "getParameters e s = (s', a) \<Longrightarrow> keeps_ch s s'"
  by (auto simp: getParameters_def split: prod.splits dest!: hal_keeps)

lemma value_ops_keep [hal_keeps]:
  "putParameters e a s = (s', rc) \<Longrightarrow> keeps_ch s s'" "setCallBacks e cbs s = (s', rc) \<Longrightarrow> keeps_ch s s'"
  "enableMsgType m s = (s', rc) \<Longrightarrow> keeps_ch s s'" "disableMsgType m s = (s', rc) \<Longrightarrow> keeps_ch s s'"
  "storeMetaDataInBuffers n s = (s', rc) \<Longrightarrow> keeps_ch s s'" "hwi_dump n s = (s', rc) \<Longrightarrow> keeps_ch s s'"
  using dev'_keeps
  by (auto simp: putParameters_def setCallBacks_def enableMsgType_def disableMsgType_def storeMetaDataInBuffers_def
      hwi_dump_def keep_defs)

lemma zoom_keeps: "keeps_ch s (fst (ch_processZoomDone e crop c (s, r)))"
  by (auto simp: ch_processZoomDone_def intro!: keeps_ch_fold_res)
    (metis dev_keeps keeps_ch_fst prod.collapse)

lemma processZoomEvent_keeps [hal_keeps]: "processZoomEvent e crop s = (s', rc) \<Longrightarrow> keeps_ch s s'"
  unfolding processZoomEvent_def
  by (erule keeps_ch_fst [rotated], rule keeps_ch_fold_res) (simp add: zoom_keeps split: option.split)

lemma flip_keeps: "keeps_ch s (flip_streams e b tys c s)"
  by (auto simp: flip_streams_def intro!: keeps_ch_fold dev'_keeps)

lemma update_streams_keeps: "keeps_ch s (UpdateStreamBasedParameters e p c s)"
  unfolding UpdateStreamBasedParameters_def by (meson flip_keeps keeps_ch_trans)

lemma hwi_updateParameters_keeps [hal_keeps]:
  assumes "hwi_updateParameters e ps s = (s', rc, b)"
  shows "keeps_ch s s'"
proof -
  have "keeps_ch s (fold (\<lambda>ty s. case m_channels s ty of None \<Rightarrow> s | Some c \<Rightarrow> UpdateStreamBasedParameters e p c s) tys s)"
    for s p tys by (rule keeps_ch_fold) (simp add: update_streams_keeps split: option.split)
  then show ?thesis using assms
    by (auto simp: hwi_updateParameters_def split: prod.splits intro: keeps_ch_trans [OF keeps_ch_update(1)])
qed

section \<open>Channels\<close>

text \<open>What matters of a channel: whether it exists, and whether it runs.\<close>

definition chan_view :: "hal \<Rightarrow> ch_type \<rightharpoonup> bool" where
  "chan_view s = (\<lambda>ty. map_option hc_active (m_channels s ty))"

text \<open>\<^verbatim>\<open>keeps_dev\<close> holds when only calls below were made; \<^verbatim>\<open>keeps_par\<close> when also channels changed.\<close>

definition keeps_par :: "hal \<Rightarrow> hal \<Rightarrow> bool" where
  "keeps_par s s' \<longleftrightarrow> keeps s s' \<and> mParameters s' = mParameters s"

definition keeps_dev :: "hal \<Rightarrow> hal \<Rightarrow> bool" where
  "keeps_dev s s' \<longleftrightarrow> keeps_par s s' \<and> m_channels s' = m_channels s"

lemmas dev_defs = keeps_def keeps_par_def keeps_dev_def

lemma keeps_dev_refl [simp]: "keeps_dev s s"
  by (simp add: dev_defs)

lemma keeps_dev_trans: "keeps_dev s s' \<Longrightarrow> keeps_dev s' s'' \<Longrightarrow> keeps_dev s s''"
  by (simp add: dev_defs)

lemma keeps_dev_fold:
  assumes "\<And>x s. x \<in> set xs \<Longrightarrow> keeps_dev s (f x s)"
  shows "keeps_dev s (fold f xs s)"
  using assms by (induction xs arbitrary: s) (auto intro: keeps_dev_trans)

named_theorems hal_dev \<open>operations that only make calls below\<close>

lemma dev_dev [hal_dev]: "dev e c s = (s', rc) \<Longrightarrow> keeps_dev s s'"
  by (auto simp: dev_def dev_defs)

lemma dev'_dev: "keeps_dev s (dev' e c s)"
  by (simp add: dev'_def dev_def dev_defs)

lemma streams_dev:
  "keeps_dev s (fold (hal_stream_start e ch) sts s)" "keeps_dev s (fold (hal_stream_stop e ch) sts s)"
  "keeps_dev s (fold (hal_stream_delete e ch) sts s)"
  by (rule keeps_dev_fold, simp add: hal_stream_start_def hal_stream_stop_def hal_stream_delete_def dev'_dev
      keeps_dev_trans [OF dev'_dev dev'_dev])+

lemma stream_init_dev [hal_dev]:
  assumes "hal_stream_init e ch ty s = (s', h, rc)"
  shows "keeps_dev s s'"
proof -
  obtain s1 h1 where 1: "dev e (Add_stream ch) s = (s1, h1)" by force
  obtain s2 rc2 where 2: "dev e (Map_stream_info ch h1) s1 = (s2, rc2)" by force
  obtain s3 rc3 where 3: "dev e (Config_stream ch h1 ty) s2 = (s3, rc3)" by force
  have "keeps_dev s s1" "keeps_dev s s2" "keeps_dev s s3"
    using dev_dev [OF 1] dev_dev [OF 2] dev_dev [OF 3] by (blast intro: keeps_dev_trans)+
  then show ?thesis
    using assms keeps_dev_trans [OF _ dev'_dev]
    by (auto simp: hal_stream_init_def 1 2 3 split: if_splits)
qed

lemma ch_stop_dev: "ch_stop e c s = (s', c', rc) \<Longrightarrow> keeps_dev s s' \<and> c' = c\<lparr>hc_active := False\<rparr>"
  using streams_dev(2) [of s e "hc_handle c" "hc_streams c"]
  by (auto simp: ch_stop_def split: prod.splits dest!: hal_dev intro: keeps_dev_trans)

lemma ch_delete_dev: "keeps_dev s (ch_delete e c s)"
proof -
  have "keeps_dev s (fst (ch_stop e c s))" using ch_stop_dev by (metis prod.collapse)
  then show ?thesis unfolding ch_delete_def Let_def
    by (auto intro: keeps_dev_trans [OF _ dev'_dev] keeps_dev_trans [OF _ streams_dev(3)] streams_dev(3))
qed

lemma ch_init_dev: "ch_init e attr s = (s', c, rc) \<Longrightarrow> keeps_dev s s' \<and> \<not> hc_active c"
  by (auto simp: ch_init_def split: prod.splits dest!: hal_dev)

lemma ch_addStream_dev: "ch_addStream e ty c s = (s', c', rc) \<Longrightarrow> keeps_dev s s' \<and> hc_active c' = hc_active c"
  by (auto simp: ch_addStream_def split: prod.splits if_splits dest!: hal_dev)

lemma set_bundle_dev [hal_dev]: "set_bundle e c is s = (s', rc) \<Longrightarrow> keeps_dev s s'"
  by (induction "is" arbitrary: s) (auto split: prod.splits if_splits dest!: dev_dev intro: keeps_dev_trans)

lemma announce_bundle_dev: "announce_bundle e c s = (s', rc) \<Longrightarrow> keeps_dev s s'"
  by (auto simp: announce_bundle_def Let_def split: if_splits prod.splits dest!: hal_dev intro: keeps_dev_trans)

lemma ch_start_dev:
  assumes "ch_start e c s = (s', c', rc)"
  shows "keeps_dev s s' \<and> c' = (if rc = NO_ERROR then c\<lparr>hc_active := True\<rparr> else c)"
proof -
  obtain s1 rc1 where 1: "announce_bundle e c s = (s1, rc1)" by force
  obtain s2 rc2 where
    2: "dev e (Start_channel (hc_handle c)) (fold (hal_stream_start e (hc_handle c)) (hc_streams c) s1) = (s2, rc2)" by force
  then have "keeps_dev s1 s2" using dev_dev keeps_dev_trans streams_dev(1) by blast
  with announce_bundle_dev [OF 1] have "keeps_dev s s2" by (rule keeps_dev_trans)
  then show ?thesis
    using assms announce_bundle_dev [OF 1] keeps_dev_trans [OF _ streams_dev(2) [of s2 e "hc_handle c" "hc_streams c"]]
    by (auto simp: ch_start_def 1 2 split: if_splits)
qed

lemma addStreamToChannel_dev:
  "addStreamToChannel e ty c s = (s', c', rc) \<Longrightarrow> keeps_dev s s' \<and> hc_active c' = hc_active c"
  by (auto simp: addStreamToChannel_def split: prod.splits if_splits dest!: hal_dev ch_addStream_dev intro: keeps_dev_trans)

lemma add_streams_dev:
  "add_streams e tys c s = (s', c', rc) \<Longrightarrow> keeps_dev s s' \<and> hc_active c' = hc_active c"
proof (induction tys arbitrary: c s)
  case (Cons ty tys)
  obtain s1 c1 rc1 where 1: "addStreamToChannel e ty c s = (s1, c1, rc1)" by (metis prod.exhaust)
  show ?case
    using Cons.prems Cons.IH [of c1 s1] addStreamToChannel_dev [OF 1] ch_delete_dev [of s1 e c1]
    by (auto simp: 1 split: if_splits intro: keeps_dev_trans)
qed simp

text \<open>The operations on an entry of \<^verbatim>\<open>m_channels\<close>.\<close>

lemma delChannel_view:
  "delChannel e ty s = (s', rc) \<Longrightarrow> keeps_par s s' \<and> chan_view s' = (chan_view s)(ty := None) \<and> rc = NO_ERROR"
  using ch_delete_dev [of s e]
  by (auto simp: delChannel_def put_channel_def chan_view_def dev_defs fun_eq_iff split: option.splits)

lemma startChannel_view:
  assumes "startChannel e ty s = (s', rc)"
  shows "keeps_par s s' \<and> chan_view s' = (if rc = NO_ERROR then (chan_view s)(ty \<mapsto> True) else chan_view s) \<and>
    (chan_view s ty = None \<longrightarrow> rc = UNKNOWN_ERROR)"
proof (cases "m_channels s ty")
  case None
  then show ?thesis using assms
    by (simp add: startChannel_def chan_view_def dev_defs NO_ERROR_def UNKNOWN_ERROR_def)
next
  case (Some c)
  obtain s1 c1 rc1 where "ch_start e c s = (s1, c1, rc1)" by (metis prod.exhaust)
  with Some assms ch_start_dev [OF this] show ?thesis
    by (auto simp: startChannel_def put_channel_def chan_view_def dev_defs fun_eq_iff)
qed

lemma stopChannel_view:
  assumes "stopChannel e ty s = (s', rc)"
  shows "keeps_par s s' \<and> chan_view s' = (if chan_view s ty = None then chan_view s else (chan_view s)(ty \<mapsto> False))"
proof (cases "m_channels s ty")
  case None
  then show ?thesis using assms by (simp add: stopChannel_def chan_view_def dev_defs)
next
  case (Some c)
  obtain s1 c1 rc1 where "ch_stop e c s = (s1, c1, rc1)" by (metis prod.exhaust)
  with Some assms ch_stop_dev [OF this] show ?thesis
    by (auto simp: stopChannel_def put_channel_def chan_view_def dev_defs fun_eq_iff)
qed

lemma add_channel_with_view:
  assumes "add_channel_with e ty attr tys s = (s', rc)"
  shows "keeps_par s s' \<and> chan_view s' = (chan_view s)(ty := if rc = NO_ERROR then Some False else None)"
proof -
  obtain s1 rc1 where 1: "delChannel e ty s = (s1, rc1)" by force
  note del = delChannel_view [OF 1]
  obtain s2 c2 rc2 where 2: "ch_init e (attr (mParameters s1)) s1 = (s2, c2, rc2)" by (metis prod.exhaust)
  obtain s3 c3 rc3 where 3: "add_streams e tys c2 s2 = (s3, c3, rc3)" by (metis prod.exhaust)
  have res: "(s', rc) = (if he_new_fails e (hal_trace s1) then (s1, NO_MEMORY) else if rc2 \<noteq> NO_ERROR then (ch_delete e c2 s2, rc2)
      else if rc3 \<noteq> NO_ERROR then (s3, rc3) else (put_channel ty (Some c3) s3, rc3))"
    using assms by (simp add: add_channel_with_def 1 2 3 cong: if_cong)
  have dev: "keeps_dev s1 s2" "\<not> hc_active c2" "keeps_dev s1 s3" "\<not> hc_active c3" "keeps_dev s1 (ch_delete e c2 s2)"
    using ch_init_dev [OF 2] add_streams_dev [OF 3] ch_delete_dev [of s2 e c2] by (auto intro: keeps_dev_trans)
  have view: "chan_view s'' = chan_view s1" if "keeps_dev s1 s''" for s''
    using that by (simp add: chan_view_def dev_defs)
  have par: "keeps_par s s''" if "keeps_dev s1 s''" for s''
    using that del by (simp add: dev_defs)
  have new: "chan_view (put_channel ty (Some c3) s3) = (chan_view s)(ty \<mapsto> False)" "keeps_par s (put_channel ty (Some c3) s3)"
    using view [OF dev(3)] par [OF dev(3)] del dev(4) by (auto simp: chan_view_def put_channel_def dev_defs fun_eq_iff)
  show ?thesis
    using res new del par [OF dev(3)] par [OF dev(5)] view [OF dev(3)] view [OF dev(5)]
    by (simp add: NO_ERROR_def NO_MEMORY_def split: if_splits)
qed

lemma addChannel_view:
  "addChannel e ty s = (s', rc) \<Longrightarrow> keeps_par s s' \<and> chan_view s' = (chan_view s)(ty := if rc = NO_ERROR then Some False else None)"
  by (cases ty) (auto simp: addZSLChannel_def addCaptureChannel_def addPreviewChannel_def addVideoChannel_def
      addSnapshotChannel_def addRawChannel_def addMetaDataChannel_def dest: add_channel_with_view)

section \<open>Preview, recording and pictures\<close>

lemma fst_view:
  "keeps_par s (fst (delChannel e ty s))" "chan_view (fst (delChannel e ty s)) = (chan_view s)(ty := None)"
  "keeps_par s (fst (stopChannel e ty s))"
  "chan_view (fst (stopChannel e ty s)) = (if chan_view s ty = None then chan_view s else (chan_view s)(ty \<mapsto> False))"
  using delChannel_view [of e ty s] stopChannel_view [of e ty s] by (metis prod.collapse)+

lemma keeps_par_refl [simp]: "keeps_par s s"
  by (simp add: dev_defs)

lemma keeps_par_trans: "keeps_par s s' \<Longrightarrow> keeps_par s' s'' \<Longrightarrow> keeps_par s s''"
  by (simp add: dev_defs)

lemma keeps_par_keeps: "keeps_par s s' \<Longrightarrow> keeps s s'"
  by (simp add: keeps_par_def)

definition no_preview_channels :: "(ch_type \<rightharpoonup> bool) \<Rightarrow> (ch_type \<rightharpoonup> bool)" where
  "no_preview_channels v = v(QCAMERA_CH_TYPE_ZSL := None, QCAMERA_CH_TYPE_PREVIEW := None, QCAMERA_CH_TYPE_VIDEO := None,
     QCAMERA_CH_TYPE_SNAPSHOT := None)"

lemma unpreparePreview_view:
  "keeps_par s (unpreparePreview e s) \<and> chan_view (unpreparePreview e s) = no_preview_channels (chan_view s)"
  unfolding unpreparePreview_def Let_def no_preview_channels_def
  by (intro conjI) (blast intro: keeps_par_trans fst_view(1), simp add: fst_view(2))

lemma stopPreview_view:
  "stopPreview e s = (s', rc) \<Longrightarrow> keeps_par s s' \<and> chan_view s' = no_preview_channels (chan_view s) \<and> rc = NO_ERROR"
  using unpreparePreview_view [of "fst (stopChannel e QCAMERA_CH_TYPE_PREVIEW (fst (stopChannel e QCAMERA_CH_TYPE_ZSL s)))" e]
  by (auto simp: stopPreview_def no_preview_channels_def fst_view(4) fun_eq_iff
      intro: keeps_par_trans [OF fst_view(3) keeps_par_trans [OF fst_view(3)]] split: if_splits)

text \<open>The channel that carries the preview.\<close>

definition preview_type :: "parameters \<Rightarrow> ch_type" where
  "preview_type p = (if m_bZslMode p \<and> \<not> m_bRecordingHint p then QCAMERA_CH_TYPE_ZSL else QCAMERA_CH_TYPE_PREVIEW)"

lemma preparePreview_view:
  assumes "preparePreview e s = (s', rc)"
  shows "keeps_par s s'" "rc = NO_ERROR \<Longrightarrow> chan_view s' (preview_type (mParameters s)) = Some False"
    "ty \<notin> {QCAMERA_CH_TYPE_ZSL, QCAMERA_CH_TYPE_PREVIEW, QCAMERA_CH_TYPE_VIDEO, QCAMERA_CH_TYPE_SNAPSHOT} \<Longrightarrow>
      chan_view s' ty = chan_view s ty"
    "rc \<noteq> NO_ERROR \<Longrightarrow> chan_view s' ty = None \<or> chan_view s' ty = chan_view s ty"
proof -
  let ?zsl = "m_bZslMode (mParameters s) \<and> \<not> m_bRecordingHint (mParameters s)"
  have zsl: "keeps_par s s' \<and> chan_view s' = (chan_view s)(QCAMERA_CH_TYPE_ZSL := if rc = NO_ERROR then Some False else None)"
    if ?zsl
    using assms that addChannel_view [of e QCAMERA_CH_TYPE_ZSL s s' rc] by (simp add: preparePreview_def)
  obtain s1 rc1 where 1: "addChannel e QCAMERA_CH_TYPE_SNAPSHOT s = (s1, rc1)" by force
  obtain s2 rc2 where 2: "addChannel e QCAMERA_CH_TYPE_VIDEO s1 = (s2, rc2)" by force
  obtain s3 rc3 where 3: "addChannel e QCAMERA_CH_TYPE_PREVIEW s2 = (s3, rc3)" by force
  obtain s4 rc4 where 4: "addChannel e QCAMERA_CH_TYPE_PREVIEW s = (s4, rc4)" by force
  note v = addChannel_view [OF 1] addChannel_view [OF 2] addChannel_view [OF 3] addChannel_view [OF 4]
  have hint: "(s', rc) = (if rc1 \<noteq> NO_ERROR then (s1, rc1)
      else if rc2 \<noteq> NO_ERROR then (fst (delChannel e QCAMERA_CH_TYPE_SNAPSHOT s2), rc2)
      else if rc3 \<noteq> NO_ERROR then
        (fst (delChannel e QCAMERA_CH_TYPE_VIDEO (fst (delChannel e QCAMERA_CH_TYPE_SNAPSHOT s3))), rc3)
      else (s3, rc3))" if "\<not> ?zsl" "m_bRecordingHint (mParameters s)"
    using assms that by (auto simp: preparePreview_def 1 2 3 simp del: addChannel.simps split: if_splits)
  have plain: "(s', rc) = (s4, rc4)" if "\<not> ?zsl" "\<not> m_bRecordingHint (mParameters s)"
    using assms that by (auto simp: preparePreview_def 4 simp del: addChannel.simps split: if_splits)
  show "keeps_par s s'"
    using zsl hint plain v fst_view(1) [of s2 e QCAMERA_CH_TYPE_SNAPSHOT] fst_view(1) [of s3 e QCAMERA_CH_TYPE_SNAPSHOT]
      fst_view(1) [of "fst (delChannel e QCAMERA_CH_TYPE_SNAPSHOT s3)" e QCAMERA_CH_TYPE_VIDEO]
    by (cases ?zsl; cases "m_bRecordingHint (mParameters s)") (auto simp: dev_defs split: if_splits)
  show "chan_view s' (preview_type (mParameters s)) = Some False" if "rc = NO_ERROR"
    using that zsl hint plain v
    by (cases ?zsl; cases "m_bRecordingHint (mParameters s)") (auto simp: preview_type_def split: if_splits)
  show "chan_view s' ty = chan_view s ty"
    if "ty \<notin> {QCAMERA_CH_TYPE_ZSL, QCAMERA_CH_TYPE_PREVIEW, QCAMERA_CH_TYPE_VIDEO, QCAMERA_CH_TYPE_SNAPSHOT}"
    using that zsl hint plain v
    by (cases ?zsl; cases "m_bRecordingHint (mParameters s)") (auto simp: fst_view(2) split: if_splits)
  show "chan_view s' ty = None \<or> chan_view s' ty = chan_view s ty" if "rc \<noteq> NO_ERROR"
    using that zsl hint plain v
    by (cases ?zsl; cases "m_bRecordingHint (mParameters s)") (auto simp: fst_view(2) split: if_splits)
qed

lemma startPreview_view:
  "startPreview e s = (s', rc) \<Longrightarrow> keeps_par s s' \<and>
     chan_view s' = (if rc = NO_ERROR then (chan_view s)(preview_type (mParameters s) \<mapsto> True) else chan_view s)"
  using startChannel_view [of e "preview_type (mParameters s)" s s' rc] by (auto simp: startPreview_def preview_type_def)

lemma startRecording_view:
  assumes "startRecording e s = (s', rc)"
  shows "keeps s s'" "rc = NO_ERROR \<Longrightarrow> chan_view s' QCAMERA_CH_TYPE_VIDEO = Some True"
    "m_bRecordingHint (mParameters s) \<Longrightarrow> ty \<noteq> QCAMERA_CH_TYPE_VIDEO \<Longrightarrow> chan_view s' ty = chan_view s ty"
    "\<not> m_bRecordingHint (mParameters s) \<Longrightarrow> rc = NO_ERROR \<Longrightarrow> chan_view s' QCAMERA_CH_TYPE_PREVIEW = Some True"
proof -
  obtain s1 rc1 where 1: "stopPreview e s = (s1, rc1)" by force
  obtain s2 rc2 where 2: "updateRecordingHintValue e 1 s1 = (s2, rc2)" by force
  obtain s3 rc3 where 3: "preparePreview e s2 = (s3, rc3)" by force
  obtain s4 rc4 where 4: "startChannel e QCAMERA_CH_TYPE_PREVIEW s3 = (s4, rc4)" by force
  obtain s5 rc5 where 5: "startChannel e QCAMERA_CH_TYPE_VIDEO s4 = (s5, rc5)" by force
  obtain s6 rc6 where 6: "startChannel e QCAMERA_CH_TYPE_VIDEO s = (s6, rc6)" by force
  note v = startChannel_view [OF 4] startChannel_view [OF 5] startChannel_view [OF 6]
  have k3: "keeps s s3"
    using stopPreview_view [OF 1] updateRecordingHintValue_keeps [OF 2] preparePreview_view(1) [OF 3]
    by (simp add: dev_defs keep_defs)
  have hint: "(s', rc) = (s6, rc6)" if "m_bRecordingHint (mParameters s)"
    using assms that 6 by (simp add: startRecording_def)
  have plain: "(s', rc) = (if rc3 \<noteq> NO_ERROR then (s3, rc3) else if rc4 \<noteq> NO_ERROR then (s4, rc4) else (s5, rc5))"
    if "\<not> m_bRecordingHint (mParameters s)"
    using assms that by (auto simp: startRecording_def 1 2 3 4 5 split: if_splits)
  show "keeps s s'" using hint plain v k3
    by (cases "m_bRecordingHint (mParameters s)") (auto simp: dev_defs split: if_splits)
  show "chan_view s' QCAMERA_CH_TYPE_VIDEO = Some True" if "rc = NO_ERROR"
    using that hint plain v by (cases "m_bRecordingHint (mParameters s)") (auto split: if_splits)
  show "chan_view s' ty = chan_view s ty" if "m_bRecordingHint (mParameters s)" "ty \<noteq> QCAMERA_CH_TYPE_VIDEO"
    using that hint v by (auto split: if_splits)
  show "chan_view s' QCAMERA_CH_TYPE_PREVIEW = Some True" if "\<not> m_bRecordingHint (mParameters s)" "rc = NO_ERROR"
    using that plain v by (auto split: if_splits)
qed

lemma dev'_par: "keeps_par s (dev' e c s)" "chan_view (dev' e c s) = chan_view s"
  by (simp_all add: dev'_def dev_def dev_defs chan_view_def)

lemma capture_on_keeps:
  assumes "capture_on e ty s = (s', rc)"
  shows "keeps s s'"
proof -
  obtain s1 rc1 where 1: "addChannel e ty s = (s1, rc1)" by force
  let ?s2 = "dev' e (Postproc_start (channel_handle ty s1)) s1"
  obtain s3 rc3 where 3: "startChannel e ty ?s2 = (s3, rc3)" by force
  show ?thesis
    using assms addChannel_view [OF 1] startChannel_view [OF 3] dev'_par(1) [of s1 e "Postproc_start (channel_handle ty s1)"]
      dev'_par(1) [of s3 e Postproc_stop] fst_view(1) [of "dev' e Postproc_stop s3" e ty]
    by (auto simp: capture_on_def 1 3 dev_defs simp del: addChannel.simps split: if_splits)
qed

lemma takePicture_view:
  assumes "takePicture e s = (s', rc)"
  shows "keeps s s'" "m_bZslMode (mParameters s) \<Longrightarrow> chan_view s' = chan_view s"
proof -
  have zsl: "keeps s s' \<and> chan_view s' = chan_view s" if "m_bZslMode (mParameters s)"
  proof (cases "m_channels s QCAMERA_CH_TYPE_ZSL")
    case None
    then show ?thesis using assms that by (simp add: takePicture_def)
  next
    case (Some c)
    then show ?thesis using assms that
      by (auto simp: takePicture_def ch_takePicture_def dev'_def dev_def dev_defs chan_view_def Let_def split: if_splits)
  qed
  have "keeps s s'" if "\<not> m_bZslMode (mParameters s)"
  proof -
    let ?s1 = "fst (delChannel e QCAMERA_CH_TYPE_PREVIEW (fst (stopChannel e QCAMERA_CH_TYPE_PREVIEW s)))"
    obtain s2 rc2 where 2: "setHDRAEBracket e (hdr_bracket (pe_cap (he_parm e)) (mParameters ?s1)) ?s1 = (s2, rc2)" by force
    have "keeps_par s ?s1" by (blast intro: keeps_par_trans fst_view(1,3))
    then have "keeps s ?s1" "keeps s s2"
      using setHDRAEBracket_keeps [OF 2] by (auto simp: dev_defs keep_defs)
    then show ?thesis using assms that
      by (auto simp: takePicture_def 2 Let_def split: if_splits dest: capture_on_keeps intro: keeps_trans)
  qed
  with zsl show "keeps s s'" by blast
  show "m_bZslMode (mParameters s) \<Longrightarrow> chan_view s' = chan_view s" using zsl by blast
qed

lemma cancelPicture_view:
  assumes "cancelPicture e s = (s', rc)"
  shows "keeps s s'" "rc = NO_ERROR"
    "ty \<notin> {QCAMERA_CH_TYPE_CAPTURE, QCAMERA_CH_TYPE_RAW} \<Longrightarrow> chan_view s' ty = chan_view s ty"
proof -
  let ?s1 = "dev' e Postproc_stop s"
  let ?s2 = "if isHDREnabled (mParameters ?s1) then fst (restoreAEBracket e ?s1) else ?s1"
  let ?t = "if jpeg_or_nv16 (mParameters ?s2) then QCAMERA_CH_TYPE_CAPTURE else QCAMERA_CH_TYPE_RAW"
  let ?s3 = "fst (delChannel e ?t (fst (stopChannel e ?t ?s2)))"
  have s1: "keeps_ch s ?s1" by (rule dev'_keeps)
  have "keeps_ch ?s1 (fst (restoreAEBracket e ?s1))" using restoreAEBracket_keeps by (metis prod.collapse)
  with s1 have s2: "keeps_ch s ?s2" by (auto intro: keeps_ch_trans)
  have "keeps_par ?s2 ?s3" by (rule keeps_par_trans [OF fst_view(3) fst_view(1)])
  then have s3: "keeps s ?s3" using s2 by (simp add: keep_defs keeps_par_def)
  have v2: "chan_view ?s2 = chan_view s" using s2 by (simp add: keep_defs chan_view_def)
  have v3: "chan_view ?s3 ty = chan_view s ty" if "ty \<notin> {QCAMERA_CH_TYPE_CAPTURE, QCAMERA_CH_TYPE_RAW}" for ty
    using that v2 by (auto simp: fst_view(2,4))
  have zsl: "keeps s s' \<and> rc = NO_ERROR \<and> chan_view s' = chan_view s" if "m_bZslMode (mParameters ?s1)"
    using assms that
    by (auto simp: cancelPicture_def ch_cancelPicture_def dev'_def dev_def keep_defs chan_view_def Let_def split: option.splits)
  have plain: "s' = ?s3 \<and> rc = NO_ERROR" if "\<not> m_bZslMode (mParameters ?s1)"
    using assms that by (auto simp: cancelPicture_def Let_def)
  show "keeps s s'" "rc = NO_ERROR" using zsl plain s3 by blast+
  show "chan_view s' ty = chan_view s ty" if "ty \<notin> {QCAMERA_CH_TYPE_CAPTURE, QCAMERA_CH_TYPE_RAW}"
    using that zsl plain v3 by metis
qed

lemma takeLiveSnapshot_view:
  assumes "takeLiveSnapshot e s = (s', rc)"
  shows "keeps_par s s'" "ty \<noteq> QCAMERA_CH_TYPE_SNAPSHOT \<Longrightarrow> chan_view s' ty = chan_view s ty"
proof -
  obtain s1 rc1 where 1: "dev e (Postproc_start (channel_handle QCAMERA_CH_TYPE_SNAPSHOT s)) s = (s1, rc1)" by force
  obtain s2 rc2 where 2: "startChannel e QCAMERA_CH_TYPE_SNAPSHOT s1 = (s2, rc2)" by force
  have "keeps_par s s1" "chan_view s1 = chan_view s" using dev_dev [OF 1] by (simp_all add: keeps_dev_def chan_view_def)
  then show "keeps_par s s'" "ty \<noteq> QCAMERA_CH_TYPE_SNAPSHOT \<Longrightarrow> chan_view s' ty = chan_view s ty"
    using assms startChannel_view [OF 2] by (auto simp: takeLiveSnapshot_def 1 2 intro: keeps_par_trans split: if_splits)
qed

lemma cancelLiveSnapshot_view:
  assumes "cancelLiveSnapshot e s = (s', rc)"
  shows "keeps_par s s'" "ty \<noteq> QCAMERA_CH_TYPE_SNAPSHOT \<Longrightarrow> chan_view s' ty = chan_view s ty"
  using stopChannel_view [of e _ "dev' e Postproc_stop s" s' rc] assms dev'_par(1) [of s e Postproc_stop] dev'_par(2) [of e Postproc_stop s]
  by (auto simp: cancelLiveSnapshot_def intro: keeps_par_trans split: if_splits)

lemma stopRecording_view:
  assumes "stopRecording e s = (s', rc)"
  shows "keeps_par s s'" "ty \<noteq> QCAMERA_CH_TYPE_VIDEO \<Longrightarrow> chan_view s' ty = chan_view s ty"
  using stopChannel_view [of e _ s s' rc] assms by (auto simp: stopRecording_def split: if_splits)

lemma releaseRecordingFrame_keeps [hal_keeps]: "releaseRecordingFrame e a s = (s', rc) \<Longrightarrow> keeps_ch s s'"
  by (auto simp: releaseRecordingFrame_def ch_releaseFrame_def split: option.splits dest: hal_keeps)

lemma hwi_release_keeps: "hwi_release e s = (s', rc) \<Longrightarrow> keeps s s'"
proof -
  have step: "keeps s (fst (delChannel e ty (fst (stopChannel e ty s))))" for ty s
    using fst_view(1,3) by (blast intro: keeps_trans keeps_par_keeps)
  have "keeps s (fold (\<lambda>ty s. case m_channels s ty of None \<Rightarrow> s
      | Some _ \<Rightarrow> fst (delChannel e ty (fst (stopChannel e ty s)))) tys s)" for tys s
  proof (induction tys arbitrary: s)
    case (Cons ty tys)
    show ?case using Cons.IH step [of s ty] by (auto split: option.split intro: keeps_trans)
  qed simp
  then show "hwi_release e s = (s', rc) \<Longrightarrow> keeps s s'" by (auto simp: hwi_release_def)
qed

end
