(* ===== verification/HalAnswers.thy ===== *)
theory HalAnswers
  imports HalFrames
begin

text \<open>
  Which results the state machine signals.  An API call of the framework blocks until the result with its
  number is signalled, so every handler of every state has to signal exactly one; the theorem at the end gives the
  whole table.
\<close>

definition same_signals :: "hal \<Rightarrow> hal \<Rightarrow> bool" where
  "same_signals s s' \<longleftrightarrow> api_signals s' = api_signals s \<and> evt_signals s' = evt_signals s"

definition emits :: "hal \<Rightarrow> (nat \<times> i32) list \<Rightarrow> (nat \<times> i32) list \<Rightarrow> hal \<times> i32 \<Rightarrow> bool" where
  "emits s as vs r \<longleftrightarrow> (\<exists>xs ys. api_signals (fst r) = api_signals s @ xs \<and> evt_signals (fst r) = evt_signals s @ ys \<and>
     map (\<lambda>x. (request_api x, ar_status x)) xs = as \<and> map (\<lambda>x. (request_api x, ar_status x)) ys = vs)"

lemma same_signals_refl [simp]: "same_signals s s"
  by (simp add: same_signals_def)

lemma same_signals_trans: "same_signals s s' \<Longrightarrow> same_signals s' s'' \<Longrightarrow> same_signals s s''"
  by (simp add: same_signals_def)

lemma same_signals_to_state [simp]: "same_signals s (to_state st s') = same_signals s s'"
  "same_signals (to_state st s) s' = same_signals s s'"
  by (simp_all add: same_signals_def to_state_def)

lemma keeps_signals: "keeps s s' \<Longrightarrow> same_signals s s'" "keeps_par s s' \<Longrightarrow> same_signals s s'" "keeps_ch s s' \<Longrightarrow> same_signals s s'"
  by (simp_all add: same_signals_def keep_defs keeps_par_def)

lemma emits_reply_value: "same_signals s (fst r) \<Longrightarrow> emits s [(evt_code evt, snd r)] [] (reply_value evt v r)"
  by (simp add: emits_def reply_value_def signalAPIResult_def same_signals_def)

lemma emits_reply: "same_signals s (fst r) \<Longrightarrow> emits s [(evt_code evt, snd r)] [] (reply evt r)"
  by (simp add: reply_def emits_reply_value)

lemma emits_reply_evt: "same_signals s (fst r) \<Longrightarrow> emits s [] [(evt_code evt, snd r)] (reply_evt evt r)"
  by (simp add: emits_def reply_evt_def signalEvtResult_def same_signals_def)

lemma emits_nothing: "same_signals s (fst r) \<Longrightarrow> emits s [] [] r"
  by (simp add: emits_def same_signals_def)

lemma snd_reply [simp]: "snd (reply_value evt v r) = snd r" "snd (reply evt r) = snd r" "snd (reply_evt evt r) = snd r"
  by (simp_all add: reply_value_def reply_def reply_evt_def)

section \<open>Operations signal nothing\<close>

lemma fst_sig: "(\<And>s' x. r = (s', x) \<Longrightarrow> same_signals s s') \<Longrightarrow> same_signals s (fst r)"
  by (cases r) simp

lemmas hal_keeps_fst = autoFocus_keeps cancelAutoFocus_keeps processAutoFocusEvent_keeps sendCommand_keeps
  updateThermalLevel_keeps simple_calls_keep value_ops_keep processZoomEvent_keeps commitParameterChanges_keeps
  releaseRecordingFrame_keeps getParameters_keeps

lemmas keeps_ops = hal_keeps_fst [OF prod.collapse [symmetric]]

lemmas sig_ops [simp] = keeps_ops [THEN keeps_signals(3)]

lemma sig_plain [simp]: "same_signals s (fst (setPreviewWindow w s))" "same_signals s (sm_daemon_died e ty s)"
  by (auto simp: setPreviewWindow_def same_signals_def sm_daemon_died_def dest: simple_calls_keep simp: sendEvtNotify_def dev_def)

lemma sig_internal [simp]: "same_signals s (fst (sm_internal e ie s))" "same_signals s (fst (sm_pic_internal e ie s))"
  by (cases ie; simp)+

lemma sig_views [simp]:
  "same_signals s (unpreparePreview e s)"
  "same_signals s (fst (stopPreview e s))"
  "same_signals s (fst (preparePreview e s))"
  "same_signals s (fst (startPreview e s))"
  "same_signals s (fst (startRecording e s))"
  "same_signals s (fst (stopRecording e s))"
  "same_signals s (fst (takePicture e s))"
  "same_signals s (fst (cancelPicture e s))"
  "same_signals s (fst (takeLiveSnapshot e s))"
  "same_signals s (fst (cancelLiveSnapshot e s))"
  "same_signals s (fst (stopChannel e ty s))"
  "same_signals s (fst (hwi_release e s))"
  using unpreparePreview_view [of s e]
  by (auto intro!: fst_sig dest!: stopPreview_view preparePreview_view(1) startPreview_view startRecording_view(1)
      stopRecording_view(1) takePicture_view(1) cancelPicture_view(1) takeLiveSnapshot_view(1) cancelLiveSnapshot_view(1)
      stopChannel_view hwi_release_keeps intro: keeps_signals)

text \<open>A chain of operations, read from the inside.\<close>

lemma sig_chain:
  "same_signals s (unpreparePreview e s') = same_signals s s'"
  "same_signals s (fst (stopPreview e s')) = same_signals s s'"
  "same_signals s (fst (preparePreview e s')) = same_signals s s'"
  "same_signals s (fst (startPreview e s')) = same_signals s s'"
  "same_signals s (fst (startRecording e s')) = same_signals s s'"
  "same_signals s (fst (stopRecording e s')) = same_signals s s'"
  "same_signals s (fst (takePicture e s')) = same_signals s s'"
  "same_signals s (fst (cancelPicture e s')) = same_signals s s'"
  "same_signals s (fst (takeLiveSnapshot e s')) = same_signals s s'"
  "same_signals s (fst (cancelLiveSnapshot e s')) = same_signals s s'"
  "same_signals s (fst (stopChannel e ty s')) = same_signals s s'"
  "same_signals s (fst (commitParameterChanges e s')) = same_signals s s'"
  "same_signals s (fst (setPreviewWindow w s')) = same_signals s s'"
  using sig_views [of s' e] commitParameterChanges_keeps [of e s', OF prod.collapse [symmetric]] sig_plain(1) [of s' w]
  by (simp_all add: same_signals_def keep_defs)

lemma sig_update [simp]:
  "same_signals s (fst (hwi_updateParameters e ps s))" "same_signals s (fst (registerFaceImage e img cfg s))"
  using keeps_signals(3) [OF hwi_updateParameters_keeps [of e ps s]] keeps_signals(3) [OF registerFaceImage_keeps [of e img cfg s]]
  by (metis prod.collapse)+

section \<open>The handlers\<close>

lemmas sm_defs = sm_set_params_plain_def sm_ready_set_params_def sm_restart_set_params_def sm_recording_set_params_def
  prepare_and_start_def sm_start_preview_def sm_start_nodisplay_def sm_ready_window_def sm_stop_preview_def
  sm_start_recording_def sm_live_snapshot_def sm_take_picture_def sm_cancel_to_def sm_cancel_live_def
  sm_stop_recording_def sm_recording_stop_preview_def sm_video_pic_stop_preview_def sm_cancel_zsl_or_live_def
  sm_preview_pic_stop_def sm_preview_pic_start_recording_def

lemma sig_handlers [simp]:
  "same_signals s (fst (prepare_and_start e s))"
  "same_signals s (fst (sm_stop_preview e s))"
  "same_signals s (fst (sm_start_recording e st s))"
  "same_signals s (fst (sm_live_snapshot e st back s))"
  "same_signals s (fst (sm_cancel_to e st s))"
  "same_signals s (fst (sm_cancel_live e st s))"
  "same_signals s (fst (sm_stop_recording e st s))"
  "same_signals s (fst (sm_recording_stop_preview e s))"
  "same_signals s (fst (sm_video_pic_stop_preview e s))"
  "same_signals s (fst (sm_cancel_zsl_or_live e s))"
  "same_signals s (fst (sm_preview_pic_stop e s))"
  "same_signals s (fst (sm_preview_pic_start_recording e s))"
  by (simp_all add: sm_defs split_beta Let_def sig_chain)

lemma emits_handlers:
  "emits s [(evt_code GET_PARAMS, snd (sm_get_params e s))] [] (sm_get_params e s)"
  "emits s [(evt_code (REG_FACE_IMAGE img cfg), snd (sm_reg_face e img cfg s))] [] (sm_reg_face e img cfg s)"
  "emits s [(evt_code (SET_PARAMS ps), snd (sm_set_params_plain e ps s))] [] (sm_set_params_plain e ps s)"
  "emits s [(evt_code (SET_PARAMS ps), snd (sm_ready_set_params e ps s))] [] (sm_ready_set_params e ps s)"
  "emits s [(evt_code (SET_PARAMS ps), snd (sm_restart_set_params e st ps s))] [] (sm_restart_set_params e st ps s)"
  "emits s [(evt_code (SET_PARAMS ps), snd (sm_recording_set_params e ps s))] [] (sm_recording_set_params e ps s)"
  "emits s [(evt_code START_PREVIEW, snd (sm_start_preview e s))] [] (sm_start_preview e s)"
  "emits s [(evt_code START_NODISPLAY_PREVIEW, snd (sm_start_nodisplay e s))] [] (sm_start_nodisplay e s)"
  "emits s [(evt_code (SET_PREVIEW_WINDOW w), snd (sm_ready_window e w s))] [] (sm_ready_window e w s)"
  "emits s [(evt_code TAKE_PICTURE, snd (sm_take_picture e s))] [] (sm_take_picture e s)"
  unfolding sm_get_params_def sm_reg_face_def sm_set_params_plain_def sm_ready_set_params_def sm_restart_set_params_def
    sm_recording_set_params_def sm_start_preview_def sm_start_nodisplay_def sm_ready_window_def sm_take_picture_def
    Let_def split_beta snd_reply
  by (rule emits_reply emits_reply_value; simp add: split_beta sig_chain)+

text \<open>The answers of a handler are determined, which turns the rules above into rewrite rules.\<close>

lemma emits_unique: "emits s as vs r \<Longrightarrow> emits s as' vs' r \<longleftrightarrow> as' = as \<and> vs' = vs"
  by (auto simp: emits_def)

lemmas emits_eqs = emits_reply [THEN emits_unique] emits_reply_value [THEN emits_unique] emits_reply_evt [THEN emits_unique]
  emits_handlers [THEN emits_unique]

lemma emits_prepare_snapshot:
  "emits s (if snd (sm_prepare_snapshot e s) = NO_ERROR then [] else [(evt_code PREPARE_SNAPSHOT, snd (sm_prepare_snapshot e s))])
    [] (sm_prepare_snapshot e s)"
  by (simp add: sm_prepare_snapshot_def split_beta emits_eqs emits_nothing)

lemma emits_prepare_internal:
  "emits s (case ie of QCAMERA_INTERNAL_EVT_PREP_SNAPSHOT_DONE st \<Rightarrow> [(evt_code PREPARE_SNAPSHOT, NO_ERROR)] | _ \<Rightarrow> []) []
    (sm_prepare_internal e ie s)"
  by (cases ie) (simp_all add: processPrepSnapshotDoneEvent_def emits_eqs emits_nothing)

section \<open>The table of answers\<close>

definition sm_answers :: "hal_env \<Rightarrow> sm_evt \<Rightarrow> hal \<Rightarrow> (nat \<times> i32) list \<times> (nat \<times> i32) list" where
  "sm_answers e evt s =
     (let s' = fst (stateMachine e evt s); show = (\<lambda>x. (request_api x, ar_status x)) in
      (map show (drop (length (api_signals s)) (api_signals s')), map show (drop (length (evt_signals s)) (evt_signals s'))))"

text \<open>The expected answers, from the state and the status that the handler returns.  An accepted
  \<^verbatim>\<open>PREPARE_SNAPSHOT\<close> is answered by the metadata event that ends it; \<^verbatim>\<open>REG_FACE_IMAGE\<close> is missing in the list of
  the state \<^verbatim>\<open>PREPARE_SNAPSHOT\<close>.\<close>

definition expected_answers :: "qcamera_state \<Rightarrow> sm_evt \<Rightarrow> i32 \<Rightarrow> (nat \<times> i32) list \<times> (nat \<times> i32) list" where
  "expected_answers st evt rc =
     (case (st, evt) of
        (QCAMERA_SM_STATE_PREVIEWING, PREPARE_SNAPSHOT) \<Rightarrow> if rc = NO_ERROR then [] else [(evt_code evt, rc)]
      | (QCAMERA_SM_STATE_PREPARE_SNAPSHOT, EVT_INTERNAL (QCAMERA_INTERNAL_EVT_PREP_SNAPSHOT_DONE _)) \<Rightarrow>
          [(evt_code PREPARE_SNAPSHOT, NO_ERROR)]
      | (QCAMERA_SM_STATE_PREPARE_SNAPSHOT, REG_FACE_IMAGE _ _) \<Rightarrow> []
      | _ \<Rightarrow> if is_api evt then [(evt_code evt, rc)] else [],
      if evt = SNAPSHOT_DONE then [(evt_code evt, rc)] else [])"

lemma emits_answers: "emits s as vs r \<Longrightarrow> r = stateMachine e evt s \<Longrightarrow> sm_answers e evt s = (as, vs)"
  by (auto simp: emits_def sm_answers_def Let_def)

lemma procEvt_emits:
  assumes "r = stateMachine e evt s"
  shows "emits s (fst (expected_answers (m_state s) evt (snd r))) (snd (expected_answers (m_state s) evt (snd r))) r"
proof (cases "m_state s")
  case QCAMERA_SM_STATE_PREVIEW_STOPPED
  then show ?thesis using assms
    by (cases evt) (simp_all add: expected_answers_def is_api_def emits_eqs emits_nothing)
next
  case QCAMERA_SM_STATE_PREVIEW_READY
  then show ?thesis using assms
    by (cases evt) (simp_all add: expected_answers_def is_api_def emits_eqs emits_nothing)
next
  case QCAMERA_SM_STATE_PREVIEWING
  then show ?thesis using assms emits_prepare_snapshot [of s e]
    by (cases evt) (simp_all add: expected_answers_def is_api_def emits_eqs emits_nothing)
next
  case QCAMERA_SM_STATE_PREPARE_SNAPSHOT
  then show ?thesis using assms emits_prepare_internal [of s _ e]
    by (cases evt) (auto simp add: expected_answers_def is_api_def emits_eqs emits_nothing split: internal_evt.splits)
next
  case QCAMERA_SM_STATE_PIC_TAKING
  then show ?thesis using assms
    by (cases evt) (simp_all add: expected_answers_def is_api_def emits_eqs emits_nothing)
next
  case QCAMERA_SM_STATE_RECORDING
  then show ?thesis using assms
    by (cases evt) (simp_all add: expected_answers_def is_api_def emits_eqs emits_nothing)
next
  case QCAMERA_SM_STATE_VIDEO_PIC_TAKING
  then show ?thesis using assms
    by (cases evt) (simp_all add: expected_answers_def is_api_def emits_eqs emits_nothing)
next
  case QCAMERA_SM_STATE_PREVIEW_PIC_TAKING
  then show ?thesis using assms
    by (cases evt) (simp_all add: expected_answers_def is_api_def emits_eqs emits_nothing)
qed

text \<open>C32: Every event in every state is answered as the table says: an API request gets exactly one result, under its
  own number and with the status the handler returns, with two exceptions.  An accepted \<^verbatim>\<open>PREPARE_SNAPSHOT\<close> gets
  none, and its result comes with the event \<^verbatim>\<open>PREP_SNAPSHOT_DONE\<close> in the state \<^verbatim>\<open>PREPARE_SNAPSHOT\<close>; and
  \<^verbatim>\<open>REG_FACE_IMAGE\<close> in that state gets none at all, so that its caller waits for ever.  \<^verbatim>\<open>SNAPSHOT_DONE\<close> gets exactly
  one event result, and no other event gets any.\<close>

theorem every_request_is_answered:
  "sm_answers e evt s = expected_answers (m_state s) evt (snd (stateMachine e evt s))"
  using emits_answers [OF procEvt_emits [OF refl] refl, of e evt s] by simp

end
