(* ===== verification/ParmInit.thy ===== *)
theory ParmInit
  imports ParmUpdate
begin

text \<open>
  The life of the parameters of \<^verbatim>\<open>QCameraParameters.cpp\<close>: the constructor, \<^verbatim>\<open>init\<close> with
  \<^verbatim>\<open>initDefaultParameters\<close>, which writes what the camera supports and the default of every setting into the map and
  sends the defaults as the first batch, and \<^verbatim>\<open>deinit\<close>.  The two macros that choose defaults, \<^verbatim>\<open>DEFAULT_DENOISE_MODE_ON\<close>
  and \<^verbatim>\<open>DEFAULT_ZSL_MODE_ON\<close>, are not defined by the build.
\<close>

section \<open>Construction\<close>

definition zero_bracket :: cam_exp_bracketing where
  "zero_bracket = \<lparr>eb_mode = 0, eb_values = replicate 32 0\<rparr>"

definition CAM_FOCUS_MODE_MAX :: nat where "CAM_FOCUS_MODE_MAX = 7"

text \<open>The constructor does not write \<^verbatim>\<open>m_AEBracketingClient\<close>; zero stands for what the memory holds.\<close>

definition parameters_new :: "parm_env \<Rightarrow> parameters" where
  "parameters_new e = \<lparr>p_map = Map.empty, m_tempMap = Map.empty, m_pParamBuf = [], m_bZslMode = False, m_bZslMode_new = False,
     m_bRecordingHint = False, m_bRecordingHint_new = False, m_bNeedRestart = False, m_bNoDisplayMode = False,
     m_bHistogramEnabled = False, m_nFaceProcMask = 0, m_bNeedLockCAF = False, m_bCAFLocked = False, m_bAFRunning = False,
     m_bPreviewFlipChanged = False, m_bVideoFlipChanged = False, m_bSnapshotFlipChanged = False, m_bUpdateEffects = False,
     m_bSceneTransitionAuto = False, m_bHDREnabled = False, m_HDRSceneEnabled = False, m_bHDR1xFrameEnabled = True,
     m_bHDR1xExtraBufferNeeded = True, m_bHDRThumbnailProcessNeeded = True, mPreviewFormat = FMT_YUV_420_NV21,
     mPictureFormat = 0, mFocusMode = CAM_FOCUS_MODE_MAX, m_bWNROn = False,
     m_bDebugFps = 0 < sint (atoi (property_get e ''persist.debug.sf.showfps'' ''0'')), m_bInited = False,
     m_bFixedFrameRateSet = False, m_nBurstNum = 1, m_AEBracketingClient = zero_bracket,
     m_LiveSnapshotSize = \<lparr>dim_width = 0, dim_height = 0\<rparr>,
     m_ThermalMode = (if property_get e ''persist.camera.thermal.mode'' ''fps'' = ''frameskip''
                      then QCAMERA_THERMAL_ADJUST_FRAMESKIP else QCAMERA_THERMAL_ADJUST_FPS),
     m_pParamHeap = False, m_overrun = False\<rparr>"

section \<open>Defaults\<close>

definition MAX_SIZES_CNT :: nat where "MAX_SIZES_CNT = 24"
definition CAM_QCOM_FEATURE_VIDEO_HDR :: u32 where "CAM_QCOM_FEATURE_VIDEO_HDR = 0x100"
definition DEFAULT_CAMERA_AREA :: string where "DEFAULT_CAMERA_AREA = ''(0, 0, 0, 0, 0)''"

definition true_false :: "bool \<Rightarrow> parm_string" where
  "true_false b = (if b then ''true'' else ''false'')"

text \<open>\<^verbatim>\<open>set(key, int)\<close> of \<^verbatim>\<open>CameraParameters\<close>.\<close>

definition set_int :: "parm_env \<Rightarrow> parm_key \<Rightarrow> i32 \<Rightarrow> parameters \<Rightarrow> parameters" where
  "set_int e k v = set_parm k (fw_show_int e v)"

text \<open>The code writes the defaults one after the other; a group of assignments is a list of steps.\<close>

definition run_steps :: "(parameters \<Rightarrow> parameters) list \<Rightarrow> parameters \<Rightarrow> parameters" where
  "run_steps fs p = fold (\<lambda>f. f) fs p"

definition init_read_only :: "parm_env \<Rightarrow> parameters \<Rightarrow> parameters" where
  "init_read_only e = (let cap = pe_cap e in run_steps
     [set_parm (FW ''KEY_SMOOTH_ZOOM_SUPPORTED'') (true_false (smooth_zoom_supported cap)),
      set_parm (FW ''KEY_ZOOM_SUPPORTED'') (true_false (zoom_supported cap)),
      set_parm (FW ''KEY_VIDEO_SNAPSHOT_SUPPORTED'') (true_false (video_snapshot_supported cap)),
      set_parm (FW ''KEY_VIDEO_STABILIZATION_SUPPORTED'') (true_false (video_stablization_supported cap)),
      set_parm (FW ''KEY_AUTO_EXPOSURE_LOCK_SUPPORTED'') (true_false (auto_exposure_lock_supported cap)),
      set_parm (FW ''KEY_AUTO_WHITEBALANCE_LOCK_SUPPORTED'') (true_false (auto_wb_lock_supported cap)),
      set_int e (QC ''qc-camera-features'') (qcom_supported_feature_mask cap),
      set_int e (FW ''KEY_MAX_NUM_DETECTED_FACES_HW'') (of_nat (max_num_roi cap)),
      set_int e (FW ''KEY_MAX_NUM_DETECTED_FACES_SW'') (of_nat (max_num_roi cap)),
      set_int e KEY_QC_MAX_NUM_REQUESTED_FACES (of_nat (max_num_roi cap)),
      set_parm (FW ''KEY_FOCAL_LENGTH'') (fw_show_float e (focal_length cap)),
      set_parm (FW ''KEY_HORIZONTAL_VIEW_ANGLE'') (fw_show_float e (hor_view_angle cap)),
      set_parm (FW ''KEY_VERTICAL_VIEW_ANGLE'') (fw_show_float e (ver_view_angle cap)),
      set_parm KEY_FOCUS_DISTANCES ''Infinity,Infinity,Infinity''])"

definition sizes_step :: "cam_dimension list \<Rightarrow> (parameters \<Rightarrow> parameters) list \<Rightarrow> parameters \<Rightarrow> parameters" where
  "sizes_step tbl fs p = (if 0 < length tbl \<and> length tbl \<le> MAX_SIZES_CNT then run_steps fs p else p)"

text \<open>The first preview and video sizes are the defaults, the last picture size, and the last live snapshot size.\<close>

definition init_sizes :: "parm_env \<Rightarrow> parameters \<Rightarrow> parameters" where
  "init_sizes e = (let cap = pe_cap e; pv = preview_sizes_tbl cap; vd = video_sizes_tbl cap;
       pic = picture_sizes_tbl cap; live = livesnapshot_sizes_tbl cap in run_steps
     [sizes_step pv
        [set_parm (FW ''KEY_SUPPORTED_PREVIEW_SIZES'') (createSizesString pv),
         set_parm KEY_PREVIEW_SIZE (fw_show_size e (hd pv))],
      sizes_step vd
        [set_parm (FW ''KEY_SUPPORTED_VIDEO_SIZES'') (createSizesString vd),
         set_parm KEY_VIDEO_SIZE (fw_show_size e (hd vd)),
         set_parm (FW ''KEY_PREFERRED_PREVIEW_SIZE_FOR_VIDEO'') (createSizesString [hd vd])],
      sizes_step pic
        [set_parm (FW ''KEY_SUPPORTED_PICTURE_SIZES'') (createSizesString pic),
         set_parm KEY_PICTURE_SIZE (fw_show_size e (last pic))],
      set_parm (FW ''KEY_SUPPORTED_JPEG_THUMBNAIL_SIZES'') (createSizesString THUMBNAIL_SIZES_MAP),
      set_int e KEY_JPEG_THUMBNAIL_WIDTH (dim_width (hd THUMBNAIL_SIZES_MAP)),
      set_int e KEY_JPEG_THUMBNAIL_HEIGHT (dim_height (hd THUMBNAIL_SIZES_MAP)),
      sizes_step live
        [set_parm (QC ''supported-live-snapshot-sizes'') (createSizesString live),
         m_LiveSnapshotSize_update (\<lambda>_. last live)]])"

definition init_formats :: "parm_env \<Rightarrow> parameters \<Rightarrow> parameters" where
  "init_formats e = (let cap = pe_cap e; fw = pe_fw e in run_steps
     [set_parm (FW ''KEY_SUPPORTED_PREVIEW_FORMATS'') (createValuesString (supported_preview_fmts cap) (PREVIEW_FORMATS_MAP fw)),
      set_parm KEY_PREVIEW_FORMAT (fw ''PIXEL_FORMAT_YUV420SP''),
      set_parm (FW ''KEY_VIDEO_FRAME_FORMAT'') (fw ''PIXEL_FORMAT_YUV420SP''),
      set_parm (FW ''KEY_SUPPORTED_PICTURE_FORMATS'')
        (fw ''PIXEL_FORMAT_JPEG'' @ '','' @ createValuesString (supported_raw_fmts cap) (PICTURE_TYPES_MAP fw)),
      set_parm KEY_PICTURE_FORMAT (fw ''PIXEL_FORMAT_JPEG''),
      set_parm (QC ''raw-size'') (print_size [] (raw_dim cap)),
      set_int e KEY_JPEG_QUALITY 85,
      set_int e KEY_JPEG_THUMBNAIL_QUALITY 85])"

definition init_fps :: "parm_env \<Rightarrow> parameters \<Rightarrow> parameters" where
  "init_fps e p =
     (let tbl = fps_ranges_tbl (pe_cap e) in
      if 0 < length tbl \<and> length tbl \<le> MAX_SIZES_CNT then
        (let (values, i) = createFpsRangeString e tbl 0; r = tbl ! i in run_steps
           [set_parm (FW ''KEY_SUPPORTED_PREVIEW_FPS_RANGE'') values,
            \<lambda>p. fst (setPreviewFpsRange_value e (milli e (min_fps r)) (milli e (max_fps r)) p),
            set_parm (FW ''KEY_SUPPORTED_PREVIEW_FRAME_RATES'') (createFpsString r),
            set_int e KEY_PREVIEW_FRAME_RATE (conv_int (max_fps r))] p)
      else p)"

text \<open>A setter whose status is ignored.\<close>

definition init_focus :: "parm_env \<Rightarrow> parameters \<Rightarrow> parameters" where
  "init_focus e p =
     (let modes = supported_focus_modes (pe_cap e); fw = pe_fw e in
      if modes \<noteq> [] then run_steps
        [set_parm (FW ''KEY_SUPPORTED_FOCUS_MODES'') (createValuesString modes (FOCUS_MODES_MAP fw)),
         \<lambda>p. fst (setFocusMode_value e (case lookupNameByValue (FOCUS_MODES_MAP fw) (hd modes) of
                    Some focusMode \<Rightarrow> focusMode | None \<Rightarrow> fw ''FOCUS_MODE_FIXED'') p)] p
      else p)"

definition init_areas :: "parm_env \<Rightarrow> parameters \<Rightarrow> parameters" where
  "init_areas e = (let cap = pe_cap e; default_areas = (\<lambda>f p. fst (or_overrun (\<lambda>_. f DEFAULT_CAMERA_AREA) Map.empty p)) in run_steps
     [set_int e KEY_MAX_NUM_FOCUS_AREAS (of_nat (max_num_focus_areas cap)),
      \<lambda>p. if 0 < max_num_focus_areas cap then default_areas (setFocusAreas_value e) p else p,
      set_int e KEY_MAX_NUM_METERING_AREAS (of_nat (max_num_metering_areas cap)),
      \<lambda>p. if 0 < max_num_metering_areas cap then default_areas (setMeteringAreas_value e) p else p])"

text \<open>The limits and the default of an adjustable number.\<close>

definition init_control :: "parm_env \<Rightarrow> string \<Rightarrow> string \<Rightarrow> string \<Rightarrow> cam_control_range \<Rightarrow> (i32 \<Rightarrow> parameters \<Rightarrow> parameters \<times> i32) \<Rightarrow>
    parameters \<Rightarrow> parameters" where
  "init_control e kmin kmax kstep c f = run_steps
     [set_int e (QC kmin) (min_value c), set_int e (QC kmax) (max_value c), set_int e (QC kstep) (step_value c),
      \<lambda>p. fst (f (def_value c) p)]"

definition init_controls :: "parm_env \<Rightarrow> parameters \<Rightarrow> parameters" where
  "init_controls e = (let cap = pe_cap e in run_steps
     [init_control e ''min-saturation'' ''max-saturation'' ''saturation-step'' (saturation_ctrl cap) setSaturation_value,
      init_control e ''min-sharpness'' ''max-sharpness'' ''sharpness-step'' (sharpness_ctrl cap) setSharpness_value,
      init_control e ''min-contrast'' ''max-contrast'' ''contrast-step'' (contrast_ctrl cap) setContrast_value,
      init_control e ''min-sce-factor'' ''max-sce-factor'' ''sce-factor-step'' (sce_ctrl cap) setSkinToneEnhancement_value,
      init_control e ''min-brightness'' ''max-brightness'' ''brightness-step'' (brightness_ctrl cap) setBrightness_value])"

definition init_modes :: "parm_env \<Rightarrow> parameters \<Rightarrow> parameters" where
  "init_modes e = (let cap = pe_cap e; fw = pe_fw e in run_steps
     [set_parm (QC ''auto-exposure-values'') (createValuesString (supported_aec_modes cap) AUTO_EXPOSURE_MAP),
      \<lambda>p. fst (setAutoExposure_value ''frame-average'' p),
      set_int e (FW ''KEY_MAX_EXPOSURE_COMPENSATION'') (exposure_compensation_max cap),
      set_int e (FW ''KEY_MIN_EXPOSURE_COMPENSATION'') (exposure_compensation_min cap),
      set_parm (FW ''KEY_EXPOSURE_COMPENSATION_STEP'') (fw_show_float e (exposure_compensation_step cap)),
      \<lambda>p. fst (setExposureCompensation_value (exposure_compensation_default cap) p),
      set_parm (FW ''KEY_SUPPORTED_ANTIBANDING'') (createValuesString (supported_antibandings cap) (ANTIBANDING_MODES_MAP fw)),
      \<lambda>p. fst (setAntibanding_value e (fw ''ANTIBANDING_OFF'') p),
      set_parm (FW ''KEY_SUPPORTED_EFFECTS'') (createValuesString (supported_effects cap) (EFFECT_MODES_MAP fw)),
      \<lambda>p. fst (setEffect_value e (fw ''EFFECT_NONE'') p),
      set_parm (FW ''KEY_SUPPORTED_WHITE_BALANCE'')
        (createValuesString (supported_white_balances cap) (WHITE_BALANCE_MODES_MAP fw)),
      \<lambda>p. fst (setWhiteBalance_value e (fw ''WHITE_BALANCE_AUTO'') p),
      set_parm (FW ''KEY_SUPPORTED_FLASH_MODES'') (createValuesString (supported_flash_modes cap) (FLASH_MODES_MAP fw)),
      \<lambda>p. fst (setFlash_value e (fw ''FLASH_MODE_OFF'') p),
      set_parm (FW ''KEY_SUPPORTED_SCENE_MODES'') (createValuesString (supported_scene_modes cap) (SCENE_MODES_MAP fw)),
      \<lambda>p. fst (setSceneMode_value e (fw ''SCENE_MODE_AUTO'') p),
      set_parm (QC ''iso-values'') (createValuesString (supported_iso_modes cap) ISO_MODES_MAP),
      \<lambda>p. fst (setISOValue_value ''auto'' p),
      set_parm (QC ''video-hfr-values'') (createHfrValuesString (hfr_tbl cap) HFR_MODES_MAP),
      set_parm (QC ''hfr-size-values'') (createHfrSizesString (hfr_tbl cap)),
      \<lambda>p. fst (setHighFrameRate_value ''off'' p),
      set_parm (QC ''selectable-zone-af-values'') (createValuesString (supported_focus_algos cap) FOCUS_ALGO_MAP),
      \<lambda>p. fst (setSelectableZoneAf_value ''auto'' p)])"

definition init_zoom :: "parm_env \<Rightarrow> parameters \<Rightarrow> parameters" where
  "init_zoom e p =
     (let cap = pe_cap e in
      if zoom_supported cap then run_steps
        [set_parm (FW ''KEY_ZOOM_RATIOS'') (createZoomRatioValuesString (zoom_ratio_tbl cap)),
         set_int e (FW ''KEY_MAX_ZOOM'') (of_nat (length (zoom_ratio_tbl cap)) - 1),
         \<lambda>p. fst (setZoom_value 0 p)] p
      else p)"

definition init_bracketing :: "parm_env \<Rightarrow> parameters \<Rightarrow> parameters" where
  "init_bracketing e = (let prop = property_get e ''persist.capture.burst.exposures'' [] in run_steps
     [\<lambda>p. if 0 < length prop then set_parm KEY_QC_CAPTURE_BURST_EXPOSURE prop p else p,
      set_parm (QC ''ae-bracket-hdr-values'') (createValuesStringFromMap BRACKETING_MODES_MAP),
      \<lambda>p. fst (setAEBracket_value ''Off'' p),
      set_parm (QC ''denoise-values'') (createValuesStringFromMap DENOISE_ON_OFF_MODES_MAP),
      \<lambda>p. fst (setWaveletDenoise_value e ''denoise-off'' p)])"

definition init_switches :: "parm_env \<Rightarrow> parameters \<Rightarrow> parameters" where
  "init_switches e = (let ed = createValuesStringFromMap ENABLE_DISABLE_MODES_MAP; oo = createValuesStringFromMap ON_OFF_MODES_MAP;
       cap = pe_cap e in run_steps
     [set_parm (QC ''lensshade-values'') ed, \<lambda>p. fst (setLensShadeValue_value ''enable'' p),
      set_parm (QC ''mce-values'') ed, \<lambda>p. fst (setMCEValue_value ''enable'' p),
      set_parm (QC ''dis-values'') ed, \<lambda>p. fst (setDISValue_value ''disable'' p),
      set_parm (QC ''histogram-values'') ed, set_parm (QC ''histogram'') ''disable'',
      set_parm (QC ''redeye-reduction-values'') ed, \<lambda>p. fst (setRedeyeReduction_value ''disable'' p),
      set_parm (QC ''skinToneEnhancement-values'') ed,
      set_parm (QC ''scene-detect-values'') oo, \<lambda>p. fst (setSceneDetect_value ''off'' p),
      m_bHDREnabled_update (\<lambda>_. False), m_bHDR1xFrameEnabled_update (\<lambda>_. True), m_bHDRThumbnailProcessNeeded_update (\<lambda>_. True),
      m_bHDR1xExtraBufferNeeded_update (\<lambda>_. 0 \<notin> set (take (unat (hdr_num_frames cap)) (eb_values (hdr_exp_val cap)))),
      set_parm (QC ''face-detection-values'') oo, set_parm (QC ''face-detection'') ''off'',
      set_parm (QC ''face-recognition-values'') oo, set_parm KEY_QC_FACE_RECOGNITION ''off'',
      set_parm (QC ''zsl-values'') oo, set_parm KEY_QC_ZSL ''off'', m_bZslMode_update (\<lambda>_. False),
      \<lambda>p. p\<lparr>m_bZslMode_new := m_bZslMode p\<rparr>,
      \<lambda>p. if qcom_supported_feature_mask cap AND CAM_QCOM_FEATURE_VIDEO_HDR \<noteq> 0
           then run_steps [set_parm (QC ''video-hdr-values'') oo, set_parm KEY_QC_VIDEO_HDR ''off''] p else p,
      set_parm (QC ''touch-af-aec-values'') (createValuesStringFromMap TOUCH_AF_AEC_MODES_MAP),
      set_parm (QC ''touch-af-aec'') ''touch-off'',
      \<lambda>p. if qcom_supported_feature_mask cap AND CAM_QCOM_FEATURE_FLIP \<noteq> 0
           then run_steps [set_parm (QC ''flip-mode-values'') (createValuesStringFromMap FLIP_MODES_MAP),
                  set_parm KEY_QC_PREVIEW_FLIP ''off'', set_parm KEY_QC_VIDEO_FLIP ''off'',
                  set_parm KEY_QC_SNAPSHOT_PICTURE_FLIP ''off''] p else p,
      \<lambda>p. fst (setAecLock_value ''false'' p), \<lambda>p. fst (setAwbLock_value ''false'' p),
      set_int e KEY_QC_CAMERA_MODE 0])"

text \<open>The numbers of areas are limited to the regions that a parameter can hold.  The code changes the capabilities where it
  sets the areas; no step before reads these numbers.\<close>

definition clamp_areas :: "cam_capability \<Rightarrow> cam_capability" where
  "clamp_areas cap = cap\<lparr>max_num_focus_areas := min MAX_ROI (max_num_focus_areas cap),
     max_num_metering_areas := min MAX_ROI (max_num_metering_areas cap)\<rparr>"

definition clamped :: "parm_env \<Rightarrow> parm_env" where
  "clamped e = e\<lparr>pe_cap := clamp_areas (pe_cap e)\<rparr>"

definition init_parts :: "(parm_env \<Rightarrow> parameters \<Rightarrow> parameters) list" where
  "init_parts = [init_read_only, init_sizes, init_formats, init_fps, init_focus, init_areas, init_controls, init_modes,
     init_zoom, init_bracketing, init_switches]"

text \<open>Everything up to the commit.\<close>

definition init_values :: "parm_env \<Rightarrow> parameters \<Rightarrow> parameters" where
  "init_values e p = run_steps (map (\<lambda>f. f e) init_parts) (initBatchUpdate p)"

section \<open>Initialisation and its end\<close>

definition FAILED_TRANSACTION :: i32 where "FAILED_TRANSACTION = UNKNOWN_ERROR + 2"

definition initDefaultParameters :: "hal_env \<Rightarrow> hal \<Rightarrow> hal \<times> i32" where
  "initDefaultParameters e s =
     (let e' = clamped (adjusting e s);
          (s, rc) = commitParameters e (s\<lparr>mParameters := init_values e' (mParameters s)\<rparr>) in
      if rc = NO_ERROR then
        (let (p, rc) = setNumOfSnapshot e' (mParameters s) in (s\<lparr>mParameters := p\<rparr>, rc))
      else (s, rc))"

text \<open>\<^verbatim>\<open>init\<close> returns what the mapping returned; the status of the defaults is lost.\<close>

definition parms_init :: "hal_env \<Rightarrow> hal \<Rightarrow> hal \<times> i32" where
  "parms_init e s =
     (if he_new_fails e (hal_trace s) then (s\<lparr>mParameters := (mParameters s)\<lparr>m_pParamHeap := False\<rparr>\<rparr>, NO_MEMORY)
      else
        (let (s, rc) = dev e Map_parm_buf s in
         if sint rc < 0 then (s\<lparr>mParameters := (mParameters s)\<lparr>m_pParamHeap := False\<rparr>\<rparr>, FAILED_TRANSACTION)
         else
           (let s = fst (initDefaultParameters e (s\<lparr>mParameters := (mParameters s)\<lparr>m_pParamHeap := True\<rparr>\<rparr>)) in
            (s\<lparr>mParameters := (mParameters s)\<lparr>m_bInited := True\<rparr>\<rparr>, rc))))"

text \<open>The camera operations are there as long as the heap is.\<close>

definition parms_deinit :: "hal_env \<Rightarrow> hal \<Rightarrow> hal" where
  "parms_deinit e s =
     (if \<not> m_bInited (mParameters s) then s
      else
        (let s = (if m_pParamHeap (mParameters s) then dev' e Unmap_parm_buf s else s) in
         s\<lparr>mParameters := (mParameters s)\<lparr>p_map := Map.empty, m_tempMap := Map.empty, m_pParamBuf := [], m_pParamHeap := False\<rparr>\<rparr>))"

end
