(* ===== verification/ParmDemo.thy ===== *)
theory ParmDemo
  imports ParmInit
begin

text \<open>
  A concrete environment of the parameters, in which the hypotheses of the properties are met: the methods of
  \<^verbatim>\<open>CameraParameters\<close> as they are documented, no system property set, arithmetic without rounding, and the
  capabilities of a small camera.
\<close>

definition demo_control :: cam_control_range where
  "demo_control = \<lparr>min_value = 0, max_value = 6, def_value = 3, step_value = 1\<rparr>"

definition dims :: "(i32 \<times> i32) list \<Rightarrow> cam_dimension list" where
  "dims = map (\<lambda>(w, h). \<lparr>dim_width = w, dim_height = h\<rparr>)"

definition demo_cap :: cam_capability where
  "demo_cap = \<lparr>supported_iso_modes = [0, 2], supported_flash_modes = [0, 1], zoom_ratio_tbl = [100, 200],
     supported_effects = [0, 1], supported_scene_modes = [0, 2, 21], supported_aec_modes = [0, 1],
     fps_ranges_tbl = [\<lparr>min_fps = 15 / 2, max_fps = 30\<rparr>, \<lparr>min_fps = 30, max_fps = 30\<rparr>],
     supported_antibandings = [0], supported_white_balances = [0, 5], supported_focus_modes = [0, 6],
     exposure_compensation_min = - 12, exposure_compensation_max = 12, exposure_compensation_default = 0,
     exposure_compensation_step = 1 / 6, video_stablization_supported = False, focal_length = 7 / 2,
     hor_view_angle = 60, ver_view_angle = 45,
     preview_sizes_tbl = dims [(1280, 720), (640, 480)], video_sizes_tbl = dims [(1280, 720), (640, 480)],
     picture_sizes_tbl = dims [(1920, 1080), (640, 480)], livesnapshot_sizes_tbl = dims [(1280, 720), (640, 480)],
     hfr_tbl = [\<lparr>hfr_mode = 1, hfr_dim = \<lparr>dim_width = 640, dim_height = 480\<rparr>, hfr_livesnapshot_sizes_tbl = []\<rparr>],
     supported_preview_fmts = [2, 4], raw_dim = \<lparr>dim_width = 1984, dim_height = 1508\<rparr>, supported_raw_fmts = [16],
     supported_focus_algos = [0, 1, 2], auto_wb_lock_supported = True, zoom_supported = True, smooth_zoom_supported = False,
     auto_exposure_lock_supported = True, video_snapshot_supported = True, max_num_roi = 5, max_num_focus_areas = 5,
     max_num_metering_areas = 5, brightness_ctrl = demo_control, sharpness_ctrl = demo_control, contrast_ctrl = demo_control,
     saturation_ctrl = demo_control, sce_ctrl = demo_control, hdr_num_frames = 3,
     hdr_exp_val = \<lparr>eb_mode = 1, eb_values = [250, 0, 6] @ replicate 29 0\<rparr>,
     qcom_supported_feature_mask = 0x10, min_num_pp_bufs = 2\<rparr>"

definition demo_pair :: "char \<Rightarrow> string \<Rightarrow> i32 \<times> i32" where
  "demo_pair d s = (case parse_pair s d of Inl _ \<Rightarrow> (- 1, - 1) | Inr (a, b, _) \<Rightarrow> (a, b))"

definition demo_env :: parm_env where
  "demo_env = \<lparr>pe_cap = demo_cap, pe_adjust = None, pe_fw = (\<lambda>s. s), fw_int = atoi, fw_show_int = show_i32,
     fw_size = (\<lambda>s. let (w, h) = demo_pair CHR ''x'' s in \<lparr>dim_width = w, dim_height = h\<rparr>),
     fw_show_size = (\<lambda>d. show_i32 (dim_width d) @ ''x'' @ show_i32 (dim_height d)),
     fw_fps_range = demo_pair CHR '','', fw_float = (\<lambda>s. of_i32 (atoi s)), fw_show_float = (\<lambda>r. show_i32 (conv_int r)),
     pe_prop = (\<lambda>_. None), pe_prop_max = 92, pe_flt = (\<lambda>r. r), pe_dbl = (\<lambda>r. r),
     pe_flt_bytes = (\<lambda>r. conv_int (r * 1000)), pe_malloc = (\<lambda>_. True)\<rparr>"

text \<open>The parameters as the constructor leaves them, with the heap of the buffer allocated by \<^verbatim>\<open>init\<close>.\<close>

definition parameters_zero :: parameters where
  "parameters_zero = (parameters_new demo_env)\<lparr>m_pParamHeap := True\<rparr>"

definition a_request :: "(parm_key \<times> parm_string) list" where
  "a_request = [(KEY_PREVIEW_SIZE, ''640x480''), (KEY_PICTURE_SIZE, ''640x480''), (KEY_VIDEO_SIZE, ''640x480''),
     (KEY_PREVIEW_FORMAT, ''PIXEL_FORMAT_YUV420SP''), (KEY_PICTURE_FORMAT, ''PIXEL_FORMAT_JPEG''),
     (KEY_JPEG_THUMBNAIL_WIDTH, ''320''), (KEY_JPEG_THUMBNAIL_HEIGHT, ''240''), (KEY_JPEG_QUALITY, ''85''),
     (KEY_JPEG_THUMBNAIL_QUALITY, ''85''), (KEY_PREVIEW_FPS_RANGE, ''7500,30000''), (KEY_ZOOM, ''0''),
     (KEY_QC_BRIGHTNESS, ''3''), (KEY_QC_SHARPNESS, ''3''), (KEY_QC_SATURATION, ''3''), (KEY_QC_CONTRAST, ''3''),
     (KEY_QC_SCE_FACTOR, ''3''), (KEY_EXPOSURE_COMPENSATION, ''0'')]"

end
