(* ===== verification/HalDevice.thy ===== *)
theory HalDevice
  imports HalAnswers ParmDemo
begin

text \<open>
  The state of the machine and the channels of the device: what the names of the states promise, and where the code
  breaks the promise.
\<close>

section \<open>Runs\<close>

definition hal_zero :: hal where
  "hal_zero = \<lparr>m_state = QCAMERA_SM_STATE_PREVIEW_STOPPED, m_channels = (\<lambda>_. None), mPreviewWindow = 0, mMsgEnabled = 0,
     mStoreMetaDataInFrame = 0,
     m_callbacks = \<lparr>notify_cb = 0, data_cb = 0, data_cb_timestamp = 0, get_memory = 0, cb_user = 0\<rparr>,
     m_currentFocusState = CAM_AF_SCANNING, mThermalLevel = QCAMERA_THERMAL_NO_ADJUSTMENT,
     mParameters = parameters_zero,
     api_signals = [], evt_signals = [], hal_trace = []\<rparr>"

text \<open>A request to record that fails after the recording hint had to be switched on: the preview was stopped for it.\<close>

definition loses_preview :: "hal_env \<Rightarrow> sm_evt \<Rightarrow> hal \<Rightarrow> bool" where
  "loses_preview e evt s \<longleftrightarrow> m_state s \<in> {QCAMERA_SM_STATE_PREVIEWING, QCAMERA_SM_STATE_PREVIEW_PIC_TAKING} \<and>
     evt = START_RECORDING \<and> \<not> m_bRecordingHint (mParameters s) \<and> snd (stateMachine e evt s) \<noteq> NO_ERROR"

inductive hal_reach :: "hal_env \<Rightarrow> hal \<Rightarrow> bool" for e :: hal_env where
  init: "hal_reach e hal_zero"
| step: "hal_reach e s \<Longrightarrow> \<not> loses_preview e evt s \<Longrightarrow> hal_reach e (fst (stateMachine e evt s))"

section \<open>The promise of a state\<close>

definition runs :: "(ch_type \<rightharpoonup> bool) \<Rightarrow> bool" where
  "runs v \<longleftrightarrow> v QCAMERA_CH_TYPE_ZSL = Some True \<or> v QCAMERA_CH_TYPE_PREVIEW = Some True"

definition state_promise :: "qcamera_state \<Rightarrow> (ch_type \<rightharpoonup> bool) \<Rightarrow> bool" where
  "state_promise st v \<longleftrightarrow> (isPreviewRunning st \<longrightarrow> runs v) \<and>
     (st \<in> {QCAMERA_SM_STATE_RECORDING, QCAMERA_SM_STATE_VIDEO_PIC_TAKING} \<longrightarrow> v QCAMERA_CH_TYPE_VIDEO = Some True) \<and>
     (st = QCAMERA_SM_STATE_PREVIEW_READY \<longrightarrow> v QCAMERA_CH_TYPE_ZSL \<noteq> None \<or> v QCAMERA_CH_TYPE_PREVIEW \<noteq> None)"

definition device_ok :: "hal \<Rightarrow> bool" where
  "device_ok s \<longleftrightarrow> state_promise (m_state s) (chan_view s)"

lemma chan_view_to_state [simp]: "chan_view (to_state st s) = chan_view s" "m_state (to_state st s) = st"
  "mParameters (to_state st s) = mParameters s"
  by (simp_all add: chan_view_def to_state_def)

lemma device_ok_reply [simp]:
  "device_ok (fst (reply_value evt v r)) = device_ok (fst r)" "device_ok (fst (reply evt r)) = device_ok (fst r)"
  "device_ok (fst (reply_evt evt r)) = device_ok (fst r)"
  by (simp_all add: reply_value_def reply_def reply_evt_def signalAPIResult_def signalEvtResult_def device_ok_def chan_view_def)

lemma device_ok_keeps: "keeps_ch s s' \<Longrightarrow> device_ok s' = device_ok s"
  by (simp add: keep_defs device_ok_def chan_view_def)

lemma device_ok_stopped [simp]:
  "device_ok (to_state QCAMERA_SM_STATE_PREVIEW_STOPPED s)" "device_ok (to_state QCAMERA_SM_STATE_PIC_TAKING s)"
  by (simp_all add: device_ok_def state_promise_def)

lemmas ok_ops [simp] = keeps_ops [THEN device_ok_keeps]

lemma ok_update [simp]:
  "device_ok (fst (hwi_updateParameters e ps s)) = device_ok s" "device_ok (fst (registerFaceImage e img cfg s)) = device_ok s"
  using device_ok_keeps [OF hwi_updateParameters_keeps [of e ps s]] device_ok_keeps [OF registerFaceImage_keeps [of e img cfg s]]
  by (metis prod.collapse)+

lemma ok_plain [simp]:
  "device_ok (fst (setPreviewWindow w s)) = device_ok s" "device_ok (sm_daemon_died e ty s) = device_ok s"
  by (auto simp: setPreviewWindow_def device_ok_def chan_view_def sm_daemon_died_def sendEvtNotify_def dev_def)

lemma ok_internal [simp]:
  "device_ok (fst (sm_internal e ie s)) = device_ok s" "device_ok (fst (sm_pic_internal e ie s)) = device_ok s"
  by (cases ie; simp)+

lemma ok_requests [simp]:
  "device_ok (fst (sm_get_params e s)) = device_ok s" "device_ok (fst (sm_reg_face e img cfg s)) = device_ok s"
  "device_ok (fst (sm_set_params_plain e ps s)) = device_ok s" "device_ok (fst (sm_recording_set_params e ps s)) = device_ok s"
  by (simp_all add: sm_get_params_def sm_reg_face_def sm_set_params_plain_def sm_recording_set_params_def split_beta Let_def)

section \<open>Handlers that move channels\<close>

lemma started_runs: "startPreview e s = (s', NO_ERROR) \<Longrightarrow> runs (chan_view s')"
  by (auto dest!: startPreview_view simp: runs_def preview_type_def)

lemma prepared_ready: "preparePreview e s = (s', NO_ERROR) \<Longrightarrow>
    chan_view s' QCAMERA_CH_TYPE_ZSL \<noteq> None \<or> chan_view s' QCAMERA_CH_TYPE_PREVIEW \<noteq> None"
  using preparePreview_view(2) [of e s s' NO_ERROR] by (cases "preview_type (mParameters s)") (auto simp: preview_type_def split: if_splits)

lemma previewing_ok: "runs (chan_view s) \<Longrightarrow> device_ok (to_state QCAMERA_SM_STATE_PREVIEWING s)"
  by (simp add: device_ok_def state_promise_def)

lemma ready_ok:
  "chan_view s QCAMERA_CH_TYPE_ZSL \<noteq> None \<or> chan_view s QCAMERA_CH_TYPE_PREVIEW \<noteq> None \<Longrightarrow>
    device_ok (to_state QCAMERA_SM_STATE_PREVIEW_READY s)"
  by (simp add: device_ok_def state_promise_def)

lemma stopped_promise: "m_state s = QCAMERA_SM_STATE_PREVIEW_STOPPED \<Longrightarrow> device_ok s"
  by (simp add: device_ok_def state_promise_def)

lemma prepare_and_start_ok:
  assumes "m_state s = QCAMERA_SM_STATE_PREVIEW_STOPPED"
  shows "device_ok (fst (prepare_and_start e s))"
proof -
  obtain s1 rc1 where 1: "preparePreview e s = (s1, rc1)" by force
  obtain s2 rc2 where 2: "startPreview e s1 = (s2, rc2)" by force
  have st: "m_state s1 = QCAMERA_SM_STATE_PREVIEW_STOPPED" "m_state s2 = QCAMERA_SM_STATE_PREVIEW_STOPPED"
    "m_state (unpreparePreview e s2) = QCAMERA_SM_STATE_PREVIEW_STOPPED"
    using assms preparePreview_view(1) [OF 1] startPreview_view [OF 2] unpreparePreview_view [of s2 e]
    by (simp_all add: dev_defs)
  show ?thesis
    using st stopped_promise started_runs [of e s1 s2] 2
    by (auto simp: prepare_and_start_def 1 2 intro: previewing_ok)
qed

lemma start_preview_ok:
  assumes "m_state s = QCAMERA_SM_STATE_PREVIEW_STOPPED"
  shows "device_ok (fst (sm_start_preview e s))" "device_ok (fst (sm_start_nodisplay e s))"
proof -
  obtain s1 rc1 where 1: "preparePreview e s = (s1, rc1)" by force
  have "m_state s1 = QCAMERA_SM_STATE_PREVIEW_STOPPED" using assms preparePreview_view(1) [OF 1] by (simp add: dev_defs)
  then show "device_ok (fst (sm_start_preview e s))"
    using assms prepare_and_start_ok [of s e] prepared_ready [of e s s1] 1 stopped_promise
    by (auto simp: sm_start_preview_def intro!: ready_ok)
  show "device_ok (fst (sm_start_nodisplay e s))" by (simp add: sm_start_nodisplay_def prepare_and_start_ok assms)
qed

lemma ready_window_ok:
  assumes "device_ok s" "m_state s = QCAMERA_SM_STATE_PREVIEW_READY"
  shows "device_ok (fst (sm_ready_window e w s))"
proof -
  obtain s1 rc1 where 1: "startPreview e (fst (setPreviewWindow w s)) = (s1, rc1)" by force
  then show ?thesis using assms started_runs [of e _ s1]
    by (auto simp: sm_ready_window_def Let_def intro: previewing_ok)
qed

lemma ready_set_params_ok:
  assumes "device_ok s" "m_state s = QCAMERA_SM_STATE_PREVIEW_READY"
  shows "device_ok (fst (sm_ready_set_params e ps s))"
proof -
  obtain s1 rc1 b where 1: "hwi_updateParameters e ps s = (s1, rc1, b)" by (metis prod.exhaust)
  obtain s2 rc2 where 2: "commitParameterChanges e (unpreparePreview e s1) = (s2, rc2)" by force
  obtain s3 rc3 where 3: "preparePreview e s2 = (s3, rc3)" by force
  have "m_state s3 = QCAMERA_SM_STATE_PREVIEW_READY"
    using assms(2) hwi_updateParameters_keeps [OF 1] unpreparePreview_view [of s1 e] commitParameterChanges_keeps [OF 2]
      preparePreview_view(1) [OF 3] by (simp add: dev_defs keep_defs)
  then have "device_ok s3" if "rc3 = NO_ERROR"
    using that prepared_ready [of e s2 s3] 3 by (auto simp: device_ok_def state_promise_def)
  then show ?thesis
    using assms(1) device_ok_keeps [OF hwi_updateParameters_keeps [OF 1]]
    by (auto simp: sm_ready_set_params_def 1 2 3)
qed

lemma restart_set_params_ok:
  assumes "device_ok s" "m_state s \<in> {QCAMERA_SM_STATE_PREVIEWING, QCAMERA_SM_STATE_PREVIEW_PIC_TAKING}"
    "st \<in> {QCAMERA_SM_STATE_PREVIEW_STOPPED, QCAMERA_SM_STATE_PIC_TAKING}"
  shows "device_ok (fst (sm_restart_set_params e st ps s))"
proof -
  obtain s1 rc1 b where 1: "hwi_updateParameters e ps s = (s1, rc1, b)" by (metis prod.exhaust)
  obtain s2 rc2 where 2: "stopPreview e s1 = (s2, rc2)" by force
  obtain s3 rc3 where 3: "commitParameterChanges e s2 = (s3, rc3)" by force
  obtain s4 rc4 where 4: "preparePreview e s3 = (s4, rc4)" by force
  obtain s5 rc5 where 5: "startPreview e s4 = (s5, rc5)" by force
  have "m_state s5 = m_state s"
    using hwi_updateParameters_keeps [OF 1] stopPreview_view [OF 2] commitParameterChanges_keeps [OF 3]
      preparePreview_view(1) [OF 4] startPreview_view [OF 5] by (simp add: dev_defs keep_defs)
  then have "device_ok s5" if "rc5 = NO_ERROR"
    using that started_runs [of e s4 s5] 5 assms(2) by (auto simp: device_ok_def state_promise_def)
  moreover have "device_ok (to_state st x)" for x using assms(3) by auto
  ultimately show ?thesis
    using assms(1) device_ok_keeps [OF hwi_updateParameters_keeps [OF 1]]
    by (auto simp: sm_restart_set_params_def 1 2 3 4 5)
qed

lemma same_promise:
  assumes "m_state s' = m_state s" "\<And>ty. ty \<in> {QCAMERA_CH_TYPE_ZSL, QCAMERA_CH_TYPE_PREVIEW, QCAMERA_CH_TYPE_VIDEO} \<Longrightarrow> chan_view s' ty = chan_view s ty"
  shows "device_ok s' = device_ok s"
  using assms by (simp add: device_ok_def state_promise_def runs_def)

lemma runs_kept:
  "(\<And>ty. ty \<in> {QCAMERA_CH_TYPE_ZSL, QCAMERA_CH_TYPE_PREVIEW} \<Longrightarrow> chan_view s' ty = chan_view s ty) \<Longrightarrow>
    runs (chan_view s') = runs (chan_view s)"
  by (simp add: runs_def)

lemma ok_runs: "device_ok s \<Longrightarrow> isPreviewRunning (m_state s) \<Longrightarrow> runs (chan_view s)"
  by (simp add: device_ok_def state_promise_def)

lemma running_ok:
  "runs (chan_view s) \<Longrightarrow> st \<in> {QCAMERA_SM_STATE_PREVIEWING, QCAMERA_SM_STATE_PREVIEW_PIC_TAKING, QCAMERA_SM_STATE_PREPARE_SNAPSHOT} \<Longrightarrow>
    device_ok (to_state st s)"
  by (auto simp: device_ok_def state_promise_def)

lemma recording_ok:
  "runs (chan_view s) \<Longrightarrow> chan_view s QCAMERA_CH_TYPE_VIDEO = Some True \<Longrightarrow>
    st \<in> {QCAMERA_SM_STATE_RECORDING, QCAMERA_SM_STATE_VIDEO_PIC_TAKING} \<Longrightarrow> device_ok (to_state st s)"
  by (auto simp: device_ok_def state_promise_def)

lemma start_recording_ok:
  assumes ok: "device_ok s" and st: "m_state s \<in> {QCAMERA_SM_STATE_PREVIEWING, QCAMERA_SM_STATE_PREVIEW_PIC_TAKING}"
    "st' \<in> {QCAMERA_SM_STATE_RECORDING, QCAMERA_SM_STATE_VIDEO_PIC_TAKING}"
    and kept: "m_bRecordingHint (mParameters s) \<or> snd (sm_start_recording e st' s) = NO_ERROR"
  shows "device_ok (fst (sm_start_recording e st' s))"
proof -
  obtain s1 rc1 where 1: "startRecording e s = (s1, rc1)" by force
  note v = startRecording_view [OF 1]
  have r: "runs (chan_view s)" using ok_runs [OF ok] st by auto
  have hint: "runs (chan_view s1)" if "m_bRecordingHint (mParameters s)"
    using r v(3) [OF that] runs_kept [of s1 s] by auto
  show ?thesis
  proof (cases "rc1 = NO_ERROR")
    case True
    then have "runs (chan_view s1)" using hint v(4) by (cases "m_bRecordingHint (mParameters s)") (auto simp: runs_def)
    with True v(2) st show ?thesis by (simp add: sm_start_recording_def 1 recording_ok)
  next
    case False
    with kept have "m_bRecordingHint (mParameters s)" by (auto simp: sm_start_recording_def 1)
    with hint have "runs (chan_view s1)" .
    moreover have "m_state s1 = m_state s" using v(1) by (simp add: keep_defs)
    ultimately show ?thesis using False st by (auto simp: sm_start_recording_def 1 device_ok_def state_promise_def)
  qed
qed

lemma live_snapshot_ok:
  assumes ok: "device_ok s" and st: "(m_state s, st1, back) \<in>
      {(QCAMERA_SM_STATE_PREVIEWING, QCAMERA_SM_STATE_PREVIEW_PIC_TAKING, QCAMERA_SM_STATE_PREVIEWING),
       (QCAMERA_SM_STATE_RECORDING, QCAMERA_SM_STATE_VIDEO_PIC_TAKING, QCAMERA_SM_STATE_RECORDING)}"
  shows "device_ok (fst (sm_live_snapshot e st1 back s))"
proof -
  obtain s1 rc1 where 1: "takeLiveSnapshot e (to_state st1 s) = (s1, rc1)" by force
  note v = takeLiveSnapshot_view [OF 1]
  have "m_state s1 = st1" "\<And>ty. ty \<noteq> QCAMERA_CH_TYPE_SNAPSHOT \<Longrightarrow> chan_view s1 ty = chan_view s ty"
    using v by (simp_all add: dev_defs)
  then show ?thesis using ok st
    by (auto simp: sm_live_snapshot_def 1 device_ok_def state_promise_def runs_def)
qed

lemma take_picture_ok:
  assumes ok: "device_ok s" and st: "m_state s = QCAMERA_SM_STATE_PREVIEWING"
  shows "device_ok (fst (sm_take_picture e s))"
proof -
  obtain s1 rc1 where 1: "takePicture e (to_state QCAMERA_SM_STATE_PREVIEW_PIC_TAKING s) = (s1, rc1)" by force
  obtain s2 rc2 where 2: "takePicture e (to_state QCAMERA_SM_STATE_PIC_TAKING s) = (s2, rc2)" by force
  have r: "runs (chan_view s)" using ok_runs [OF ok] st by simp
  have s1: "m_state s1 = QCAMERA_SM_STATE_PREVIEW_PIC_TAKING" and
      v1: "m_bZslMode (mParameters s) \<Longrightarrow> chan_view s1 = chan_view s"
    using takePicture_view [OF 1] by (simp_all add: keep_defs)
  have s2: "m_state s2 = QCAMERA_SM_STATE_PIC_TAKING" using takePicture_view(1) [OF 2] by (simp add: keep_defs)
  have "device_ok s1" if "m_bZslMode (mParameters s)" using v1 [OF that] r s1 by (simp add: device_ok_def state_promise_def)
  moreover have "device_ok s2" using s2 by (simp add: device_ok_def state_promise_def)
  ultimately show ?thesis
    using r v1 live_snapshot_ok [OF ok, of QCAMERA_SM_STATE_PREVIEW_PIC_TAKING QCAMERA_SM_STATE_PREVIEWING e] st
    by (auto simp: sm_take_picture_def 1 2 intro!: previewing_ok)
qed

lemma cancel_picture_runs: "runs (chan_view (fst (cancelPicture e s))) = runs (chan_view s)"
  using cancelPicture_view(3) [of e s "fst (cancelPicture e s)" "snd (cancelPicture e s)"] by (auto intro!: runs_kept)

lemma cancel_live_runs: "runs (chan_view (fst (cancelLiveSnapshot e s))) = runs (chan_view s)"
  "chan_view (fst (cancelLiveSnapshot e s)) QCAMERA_CH_TYPE_VIDEO = chan_view s QCAMERA_CH_TYPE_VIDEO"
  using cancelLiveSnapshot_view(2) [of e s "fst (cancelLiveSnapshot e s)" "snd (cancelLiveSnapshot e s)"]
  by (auto intro!: runs_kept)

lemma stop_recording_runs: "runs (chan_view (fst (stopRecording e s))) = runs (chan_view s)"
  using stopRecording_view(2) [of e s "fst (stopRecording e s)" "snd (stopRecording e s)"] by (auto intro!: runs_kept)

text \<open>The handlers that end an activity, in the states in which they are called.\<close>

lemma ending_ok:
  "device_ok (fst (sm_cancel_to e QCAMERA_SM_STATE_PREVIEW_STOPPED s))"
  "device_ok (fst (sm_stop_preview e s))" "device_ok (fst (sm_recording_stop_preview e s))"
  "device_ok (fst (sm_video_pic_stop_preview e s))" "device_ok (fst (sm_preview_pic_stop e s))"
  by (simp_all add: sm_defs split_beta Let_def)

lemma end_live_ok:
  "device_ok s \<Longrightarrow> m_state s = QCAMERA_SM_STATE_VIDEO_PIC_TAKING \<Longrightarrow>
    device_ok (fst (sm_cancel_live e QCAMERA_SM_STATE_RECORDING s))"
  by (simp add: sm_cancel_live_def split_beta device_ok_def state_promise_def cancel_live_runs)

lemma back_to_preview_ok:
  assumes "device_ok s" "isPreviewRunning (m_state s)"
  shows "device_ok (fst (sm_cancel_zsl_or_live e s))"
    "st \<in> {QCAMERA_SM_STATE_PREVIEWING, QCAMERA_SM_STATE_PREVIEW_PIC_TAKING} \<Longrightarrow> device_ok (fst (sm_stop_recording e st s))"
proof -
  have r: "runs (chan_view s)" using ok_runs assms by blast
  show "device_ok (fst (sm_cancel_zsl_or_live e s))"
    by (simp add: sm_cancel_zsl_or_live_def sm_cancel_to_def sm_cancel_live_def split_beta previewing_ok
        cancel_picture_runs cancel_live_runs r)
  show "st \<in> {QCAMERA_SM_STATE_PREVIEWING, QCAMERA_SM_STATE_PREVIEW_PIC_TAKING} \<Longrightarrow> device_ok (fst (sm_stop_recording e st s))"
    by (auto simp: sm_stop_recording_def split_beta stop_recording_runs r intro: running_ok)
qed

lemma prepare_ok:
  assumes ok: "device_ok s" and st: "isPreviewRunning (m_state s)"
  shows "device_ok (fst (sm_prepare_snapshot e s))" "device_ok (fst (sm_prepare_internal e ie s))"
proof -
  obtain s1 rc1 where 1: "prepareHardwareForSnapshot e 0 s = (s1, rc1)" by force
  have "keeps_ch s s1" using simple_calls_keep(4) [OF 1] .
  then have "chan_view s1 = chan_view s" "device_ok s1" using ok device_ok_keeps [of s s1] by (simp_all add: keep_defs chan_view_def)
  then show "device_ok (fst (sm_prepare_snapshot e s))"
    using ok_runs [OF ok st] by (auto simp: sm_prepare_snapshot_def 1 intro: running_ok)
  show "device_ok (fst (sm_prepare_internal e ie s))"
    using ok ok_runs [OF ok st] by (cases ie) (auto simp: processPrepSnapshotDoneEvent_def intro: running_ok)
qed

section \<open>Every step keeps the promise\<close>

lemma release_ok: "m_state s = QCAMERA_SM_STATE_PREVIEW_STOPPED \<Longrightarrow> device_ok (fst (hwi_release e s))"
  using hwi_release_keeps [of e s "fst (hwi_release e s)" "snd (hwi_release e s)"] by (simp add: stopped_promise keep_defs)

lemma stopped_step_ok:
  "device_ok s \<Longrightarrow> m_state s = QCAMERA_SM_STATE_PREVIEW_STOPPED \<Longrightarrow> device_ok (fst (procEvtPreviewStoppedState e evt s))"
  by (cases evt) (simp_all add: start_preview_ok release_ok)

lemma ready_step_ok:
  "device_ok s \<Longrightarrow> m_state s = QCAMERA_SM_STATE_PREVIEW_READY \<Longrightarrow> device_ok (fst (procEvtPreviewReadyState e evt s))"
  by (cases evt) (simp_all add: ready_window_ok ready_set_params_ok ending_ok)

lemma previewing_step_ok:
  "device_ok s \<Longrightarrow> m_state s = QCAMERA_SM_STATE_PREVIEWING \<Longrightarrow> \<not> loses_preview e evt s \<Longrightarrow>
    device_ok (fst (procEvtPreviewingState e evt s))"
  by (cases evt) (auto simp: restart_set_params_ok take_picture_ok prepare_ok ending_ok loses_preview_def intro!: start_recording_ok)

lemma prepare_step_ok:
  "device_ok s \<Longrightarrow> m_state s = QCAMERA_SM_STATE_PREPARE_SNAPSHOT \<Longrightarrow> device_ok (fst (procEvtPrepareSnapshotState e evt s))"
  by (cases evt) (simp_all add: prepare_ok)

lemma pic_step_ok:
  "device_ok s \<Longrightarrow> m_state s = QCAMERA_SM_STATE_PIC_TAKING \<Longrightarrow> device_ok (fst (procEvtPicTakingState e evt s))"
  by (cases evt) (simp_all add: ending_ok)

lemma recording_step_ok:
  "device_ok s \<Longrightarrow> m_state s = QCAMERA_SM_STATE_RECORDING \<Longrightarrow> device_ok (fst (procEvtRecordingState e evt s))"
  by (cases evt) (simp_all add: ending_ok back_to_preview_ok live_snapshot_ok)

lemma video_pic_step_ok:
  "device_ok s \<Longrightarrow> m_state s = QCAMERA_SM_STATE_VIDEO_PIC_TAKING \<Longrightarrow> device_ok (fst (procEvtVideoPicTakingState e evt s))"
  by (cases evt) (simp_all add: ending_ok end_live_ok back_to_preview_ok)

lemma zero_ok: "device_ok hal_zero"
  by (simp add: device_ok_def state_promise_def hal_zero_def)

lemma preview_pic_step_ok:
  "device_ok s \<Longrightarrow> m_state s = QCAMERA_SM_STATE_PREVIEW_PIC_TAKING \<Longrightarrow> \<not> loses_preview e evt s \<Longrightarrow>
    device_ok (fst (procEvtPreviewPicTakingState e evt s))"
  by (cases evt) (auto simp: restart_set_params_ok ending_ok back_to_preview_ok loses_preview_def
      sm_preview_pic_start_recording_def intro!: start_recording_ok split: if_splits)

lemma step_ok: "device_ok s \<Longrightarrow> \<not> loses_preview e evt s \<Longrightarrow> device_ok (fst (stateMachine e evt s))"
  by (cases "m_state s") (simp_all add: stopped_step_ok ready_step_ok previewing_step_ok prepare_step_ok pic_step_ok
      recording_step_ok video_pic_step_ok preview_pic_step_ok)

lemma reach_ok: "hal_reach e s \<Longrightarrow> device_ok s"
  by (induction rule: hal_reach.induct) (rule zero_ok, rule step_ok)


text \<open>An environment below in which every call succeeds, and a run in it.\<close>

definition good_env :: hal_env where
  "good_env = \<lparr>he_ret = (\<lambda>_ c. case c of Add_channel _ \<Rightarrow> 0x801 | Add_stream _ \<Rightarrow> 0x901 | _ \<Rightarrow> 0),
     he_parm = demo_env, he_face_id = (\<lambda>_. 0),
     he_new_fails = (\<lambda>_. False), he_bundle = (\<lambda>_. [0, 1]), he_cmd = (\<lambda>_. CAMERA_CMD_OTHER), he_skip_pattern = (\<lambda>_. 0)\<rparr>"

definition hal_run :: "hal_env \<Rightarrow> sm_evt list \<Rightarrow> hal \<Rightarrow> hal" where
  "hal_run e evts s = fold (\<lambda>evt s. fst (stateMachine e evt s)) evts s"

definition recording_hal :: hal where
  "recording_hal = hal_run good_env [SET_PREVIEW_WINDOW 1, START_PREVIEW, START_RECORDING] hal_zero"

lemma recording_state: "m_state recording_hal = QCAMERA_SM_STATE_RECORDING"
  by code_simp

lemma recording_reached: "hal_reach good_env recording_hal"
proof -
  define s1 where "s1 = fst (stateMachine good_env (SET_PREVIEW_WINDOW 1) hal_zero)"
  define s2 where "s2 = fst (stateMachine good_env START_PREVIEW s1)"
  have "\<not> loses_preview good_env START_RECORDING
      (fst (stateMachine good_env START_PREVIEW (fst (stateMachine good_env (SET_PREVIEW_WINDOW 1) hal_zero))))"
    by code_simp
  then have l: "\<not> loses_preview good_env START_RECORDING s2" unfolding s1_def s2_def .
  have "hal_reach good_env s1" unfolding s1_def by (rule hal_reach.step [OF hal_reach.init]) (simp add: loses_preview_def)
  then have "hal_reach good_env s2" unfolding s2_def by (rule hal_reach.step) (simp add: loses_preview_def)
  then have "hal_reach good_env (fst (stateMachine good_env START_RECORDING s2))" using l by (rule hal_reach.step)
  then show ?thesis unfolding recording_hal_def hal_run_def s1_def s2_def fold_simps .
qed


end
