(* ===== verification/HalFaults.thy ===== *)
theory HalFaults
  imports HalDevice
begin

text \<open>
  Requests that fail, and what they leave behind: a parameter request that is rejected keeps the part that
  \<^verbatim>\<open>QCameraParameters\<close> applied at once, and a failed start of a recording leaves the state without its preview.
\<close>

section \<open>The ZSL mode\<close>

lemmas plain_setters = setAutoExposure_def setISOValue_def setAecLock_def setAwbLock_def setLensShadeValue_def setMCEValue_def
  setDISValue_def setSelectableZoneAf_def setRedeyeReduction_def setVideoHDR_def
lemmas plain_values = setAutoExposure_value_def setISOValue_value_def setAecLock_value_def setAwbLock_value_def
  setLensShadeValue_value_def setMCEValue_value_def setDISValue_value_def setSelectableZoneAf_value_def
  setRedeyeReduction_value_def setVideoHDR_value_def

text \<open>The fields that decide where the preview runs.\<close>

definition mode_fields :: "parameters \<Rightarrow> parm_string option \<times> bool \<times> bool \<times> bool \<times> bool" where
  "mode_fields p = (p_map p KEY_QC_ZSL, m_bZslMode_new p, m_bZslMode p, m_bRecordingHint p, m_bRecordingHint_new p)"

lemma mode_fields_update [simp]:
  "mode_fields (updateParamEntry k v p) = mode_fields p" "mode_fields (p\<lparr>m_bNeedRestart := b\<rparr>) = mode_fields p"
  "mode_fields (p\<lparr>m_pParamBuf := l\<rparr>) = mode_fields p" "mode_fields (p\<lparr>m_tempMap := m\<rparr>) = mode_fields p"
  "mode_fields (p\<lparr>m_bNoDisplayMode := b\<rparr>) = mode_fields p" "mode_fields (p\<lparr>m_bPreviewFlipChanged := b\<rparr>) = mode_fields p"
  "mode_fields (p\<lparr>m_bVideoFlipChanged := b\<rparr>) = mode_fields p" "mode_fields (p\<lparr>m_bSnapshotFlipChanged := b\<rparr>) = mode_fields p"
  "mode_fields (p\<lparr>m_LiveSnapshotSize := d\<rparr>) = mode_fields p" "mode_fields (p\<lparr>mPreviewFormat := n\<rparr>) = mode_fields p"
  "mode_fields (p\<lparr>mPictureFormat := n\<rparr>) = mode_fields p" "mode_fields (p\<lparr>m_bFixedFrameRateSet := b\<rparr>) = mode_fields p"
  "mode_fields (p\<lparr>m_bUpdateEffects := b\<rparr>) = mode_fields p" "mode_fields (p\<lparr>mFocusMode := n\<rparr>) = mode_fields p"
  "mode_fields (p\<lparr>m_bNeedLockCAF := b\<rparr>) = mode_fields p" "mode_fields (p\<lparr>m_bCAFLocked := b\<rparr>) = mode_fields p"
  "mode_fields (p\<lparr>m_bAFRunning := b\<rparr>) = mode_fields p" "mode_fields (p\<lparr>m_bSceneTransitionAuto := b\<rparr>) = mode_fields p"
  "mode_fields (p\<lparr>m_bHDREnabled := b\<rparr>) = mode_fields p" "mode_fields (p\<lparr>m_bHDR1xFrameEnabled := b\<rparr>) = mode_fields p"
  "mode_fields (p\<lparr>m_nBurstNum := i\<rparr>) = mode_fields p" "mode_fields (p\<lparr>m_bWNROn := b\<rparr>) = mode_fields p"
  "mode_fields (p\<lparr>m_nFaceProcMask := i\<rparr>) = mode_fields p" "mode_fields (p\<lparr>m_overrun := b\<rparr>) = mode_fields p"
  "mode_fields (p\<lparr>m_AEBracketingClient := eb\<rparr>) = mode_fields p"
  "k \<noteq> KEY_QC_ZSL \<Longrightarrow> mode_fields (set_parm k v' p) = mode_fields p"
  "k \<noteq> KEY_QC_ZSL \<Longrightarrow> mode_fields (remove_parm k p) = mode_fields p"
  by (simp_all add: mode_fields_def updateParamEntry_def set_parm_def remove_parm_def)

lemma add_parm_fields [simp]: "mode_fields (fst (add_parm t v p)) = mode_fields p" "snd (add_parm t v p) = NO_ERROR"
  by (simp_all add: add_parm_def)

lemma if_changed_fields: "(\<And>v. mode_fields (fst (f v p)) = mode_fields p) \<Longrightarrow> mode_fields (fst (if_changed k f params p)) = mode_fields p"
  by (auto simp: if_changed_def split: option.split)

lemma set_mode_fields [simp]: "mode_fields (fst (set_mode k tbl t v p)) = mode_fields p"
  by (simp add: set_mode_def Let_def)

lemma set_size_fields [simp]: "k \<noteq> KEY_QC_ZSL \<Longrightarrow> mode_fields (fst (set_size e k tbl r d p)) = mode_fields p"
  by (simp add: set_size_def Let_def)

lemma set_number_fields [simp]: "mode_fields (fst (set_number k t i p)) = mode_fields p"
  by (simp add: set_number_def)

lemma number_fields [simp]: "mode_fields (fst (number_if_changed e k lo hi (set_number k t) params p)) = mode_fields p"
  by (simp add: number_if_changed_def Let_def)

lemma flip_fields:
  "k \<noteq> KEY_QC_ZSL \<Longrightarrow> (\<And>p. mode_fields (mark p) = mode_fields p) \<Longrightarrow> mode_fields (set_flip k mark params p) = mode_fields p"
  by (simp add: set_flip_def split: option.split)

lemma gps_fields: "KEY_QC_ZSL \<notin> set ks \<Longrightarrow> mode_fields (fold (set_or_remove params) ks p) = mode_fields p"
  by (induction ks arbitrary: p) (auto simp: set_or_remove_def split: option.split)

lemma set_areas_fields: "set_areas e n k t bytes s p = Some r \<Longrightarrow> mode_fields (fst r) = mode_fields p"
  by (auto simp: set_areas_def Let_def split: if_splits option.splits sum.splits)

lemmas setter_defs = plain_setters plain_values setPreviewSize_def setVideoSize_def setPictureSize_def setPreviewFormat_def
  setPictureFormat_def setJpegThumbnailSize_def setJpegQuality_def setOrientation_def setRotation_def setNoDisplayMode_def
  setZslAttributes_def set_or_prop_def setCameraMode_def setPreviewFrameRate_def setPreviewFpsRange_def use_range_def
  setPreviewFpsRange_value_def setEffect_def setEffect_value_def setBrightness_def setBrightness_value_def setZoom_def
  setZoom_value_def setSharpness_def setSharpness_value_def setSaturation_def setSaturation_value_def setContrast_def
  setContrast_value_def setFocusMode_def setFocusMode_value_def setSkinToneEnhancement_def setSkinToneEnhancement_value_def
  setFlash_def setFlash_value_def setHighFrameRate_def setHighFrameRate_value_def setAntibanding_def setAntibanding_value_def
  setExposureCompensation_def setExposureCompensation_value_def setWhiteBalance_def setWhiteBalance_value_def setSceneMode_def
  setSceneMode_value_def setSceneMode_hdr_def setAEBracket_def setGpsLocation_def setWaveletDenoise_def
  setWaveletDenoise_value_def setFaceRecognition_def setFaceRecognition_value_def setFlip_def setBurstNum_def
  setLiveSnapshotSize_def

lemma run_setter_fields:
  assumes "c \<noteq> SetZslMode" "params KEY_RECORDING_HINT = None"
  shows "mode_fields (fst (run_setter e c params p)) = mode_fields p"
proof -
  have hint: "setRecordingHint params p = (p, NO_ERROR)" using assms(2) by (simp add: setRecordingHint_def if_changed_def)
  have zsl: "KEY_QC_ZSL \<notin> set gps_keys" by (simp add: gps_keys_def)
  have areas: "mode_fields (fst (or_overrun (setFocusAreas e) params p)) = mode_fields p"
    "mode_fields (fst (or_overrun (setMeteringAreas e) params p)) = mode_fields p"
    by (auto simp: or_overrun_def setFocusAreas_def setMeteringAreas_def setFocusAreas_value_def setMeteringAreas_value_def
        areas_if_changed_def split: option.splits if_splits dest!: set_areas_fields)
  have bracket: "mode_fields (fst (setAEBracket_value v p)) = mode_fields p" for v p
    by (simp add: setAEBracket_value_def Let_def)
  show ?thesis using assms
    by (cases c)
      (simp_all add: setter_defs if_changed_def flip_fields hint areas bracket gps_fields zsl Let_def split_beta
        split: option.split)
qed

lemma run_setters_append:
  "run_setters e (cs @ ds) params r = run_setters e ds params (run_setters e cs params r)"
  by (induction cs arbitrary: r) (auto simp: split_beta)

lemma run_setters_fields:
  assumes "SetZslMode \<notin> set cs" "params KEY_RECORDING_HINT = None"
  shows "mode_fields (fst (run_setters e cs params r)) = mode_fields (fst r)"
  using assms(1)
proof (induction cs arbitrary: r)
  case Nil
  then show ?case by (cases r) simp
next
  case (Cons c cs)
  then show ?case using run_setter_fields [of c params e "fst r"] assms(2) by (cases r) (auto simp: Let_def split_beta)
qed

lemma setters_around_zsl:
  "\<exists>xs ys. setter_order = xs @ SetZslMode # ys \<and> SetZslMode \<notin> set xs \<and> SetZslMode \<notin> set ys"
  unfolding setter_order_def
  by (rule exI [of _ "[SetPreviewSize, SetVideoSize, SetPictureSize, SetPreviewFormat, SetPictureFormat,
     SetJpegThumbnailSize, SetJpegQuality, SetOrientation, SetRotation, SetNoDisplayMode]"]) auto

lemma update_zsl_on:
  assumes "params KEY_RECORDING_HINT = None" "params KEY_QC_ZSL = Some ''on''" "p_map p KEY_QC_ZSL = Some ''on'' \<Longrightarrow> m_bZslMode_new p"
  shows "mode_fields (fst (parms_update e params p)) = (Some ''on'', True, m_bZslMode p, m_bRecordingHint p, m_bRecordingHint_new p)"
proof -
  let ?p0 = "initBatchUpdate (p\<lparr>m_bNeedRestart := False\<rparr>)"
  obtain xs ys where o: "setter_order = xs @ SetZslMode # ys" "SetZslMode \<notin> set xs" "SetZslMode \<notin> set ys"
    using setters_around_zsl by blast
  obtain p1 r1 where 1: "run_setters e xs params (?p0, NO_ERROR) = (p1, r1)" by force
  have f1: "mode_fields p1 = mode_fields p"
    using run_setters_fields [of xs params e "(?p0, NO_ERROR)"] o(2) assms(1) 1
    by (simp add: mode_fields_def initBatchUpdate_def)
  have "mode_fields (fst (setZslMode params p1)) = (Some ''on'', True, m_bZslMode p, m_bRecordingHint p, m_bRecordingHint_new p)"
    using assms f1 by (auto simp: setZslMode_def if_changed_def ON_OFF_MODES_MAP_def NAME_NOT_FOUND_def mode_fields_def
        set_parm_def add_parm_def)
  moreover have "fst (parms_update e params p) = fst (run_setters e ys params
      (fst (setZslMode params p1), if snd (setZslMode params p1) \<noteq> NO_ERROR then snd (setZslMode params p1) else r1))"
    by (simp add: parms_update_def o(1) run_setters_append 1 split_beta Let_def)
  ultimately show ?thesis using run_setters_fields [of ys params e] o(3) assms(1) by simp
qed

text \<open>No setter but \<^verbatim>\<open>setZslMode\<close> reads the ZSL mode of a request, and that one does nothing once the map has it.\<close>

definition without_zsl :: "parm_map \<Rightarrow> parm_map" where
  "without_zsl params = params(KEY_QC_ZSL := None)"

lemma without_zsl_other [simp]: "k \<noteq> KEY_QC_ZSL \<Longrightarrow> without_zsl params k = params k"
  by (simp add: without_zsl_def)

lemma getters_without_zsl [simp]:
  "k \<noteq> KEY_QC_ZSL \<Longrightarrow> getInt e (without_zsl params) k = getInt e params k"
  "k \<noteq> KEY_QC_ZSL \<Longrightarrow> getSize e (without_zsl params) k = getSize e params k"
  "k \<noteq> KEY_QC_ZSL \<Longrightarrow> getRange e (without_zsl params) k = getRange e params k"
  "k \<noteq> KEY_QC_ZSL \<Longrightarrow> if_changed k f (without_zsl params) = if_changed k f params"
  by (simp_all add: getInt_def getSize_def getRange_def if_changed_def fun_eq_iff)

lemma parts_without_zsl [simp]:
  "number_if_changed e k lo hi f (without_zsl params) = number_if_changed e k lo hi f params" if "k \<noteq> KEY_QC_ZSL" for e k lo hi f params
  using that by (simp add: number_if_changed_def fun_eq_iff)

lemma gps_without_zsl [simp]: "k \<noteq> KEY_QC_ZSL \<Longrightarrow> set_or_remove (without_zsl params) k = set_or_remove params k"
  by (simp add: set_or_remove_def fun_eq_iff)

lemma livesnapshot_without_zsl: "livesnapshot_size e (without_zsl params) = livesnapshot_size e params"
proof -
  have "livesnapshot_tbl e (without_zsl params) = livesnapshot_tbl e params" by (simp add: livesnapshot_tbl_def)
  then show ?thesis unfolding livesnapshot_size_def by (simp only: getters_without_zsl parm_key.simps list.simps char.inject simp_thms not_False_eq_True)
qed

lemma text_setters_without_zsl:
  "setPreviewSize e (without_zsl params) p = setPreviewSize e params p" "setVideoSize e (without_zsl params) p = setVideoSize e params p"
  "setPictureSize e (without_zsl params) p = setPictureSize e params p" "setPreviewFormat e (without_zsl params) p = setPreviewFormat e params p"
  "setPictureFormat e (without_zsl params) p = setPictureFormat e params p" "setJpegQuality e (without_zsl params) p = setJpegQuality e params p"
  "setJpegThumbnailSize e (without_zsl params) p = setJpegThumbnailSize e params p" "setRotation e (without_zsl params) p = setRotation e params p"
  "setOrientation (without_zsl params) p = setOrientation params p" "setNoDisplayMode (without_zsl params) p = setNoDisplayMode params p"
  "setZslAttributes e (without_zsl params) p = setZslAttributes e params p" "setCameraMode (without_zsl params) p = setCameraMode params p"
  "setPreviewFrameRate (without_zsl params) p = setPreviewFrameRate params p" "setPreviewFpsRange e (without_zsl params) p = setPreviewFpsRange e params p"
  by (simp_all add: setPreviewSize_def setVideoSize_def setPictureSize_def setPreviewFormat_def setPictureFormat_def setJpegQuality_def
      setJpegThumbnailSize_def setRotation_def setOrientation_def setNoDisplayMode_def setZslAttributes_def set_or_prop_def
      setCameraMode_def setPreviewFrameRate_def setPreviewFpsRange_def Let_def cong: if_cong)

lemma mode_setters_without_zsl:
  "setEffect e (without_zsl params) p = setEffect e params p" "setBrightness e (without_zsl params) p = setBrightness e params p"
  "setZoom e (without_zsl params) p = setZoom e params p" "setSharpness e (without_zsl params) p = setSharpness e params p"
  "setSaturation e (without_zsl params) p = setSaturation e params p" "setContrast e (without_zsl params) p = setContrast e params p"
  "setFocusMode e (without_zsl params) p = setFocusMode e params p" "setFlash e (without_zsl params) p = setFlash e params p"
  "setSkinToneEnhancement e (without_zsl params) p = setSkinToneEnhancement e params p"
  "setHighFrameRate (without_zsl params) p = setHighFrameRate params p" "setAntibanding e (without_zsl params) p = setAntibanding e params p"
  "setExposureCompensation e (without_zsl params) p = setExposureCompensation e params p"
  "setWhiteBalance e (without_zsl params) p = setWhiteBalance e params p" "setWaveletDenoise e (without_zsl params) p = setWaveletDenoise e params p"
  "setRecordingHint (without_zsl params) p = setRecordingHint params p"
  by (simp_all add: setEffect_def setBrightness_def setZoom_def setSharpness_def setSaturation_def setContrast_def setFocusMode_def
      setFlash_def setSkinToneEnhancement_def setHighFrameRate_def setAntibanding_def setExposureCompensation_def
      setWhiteBalance_def setWaveletDenoise_def setRecordingHint_def Let_def)

lemma scene_without_zsl: "setSceneMode e (without_zsl params) p = setSceneMode e params p"
proof -
  have "setSceneMode_hdr (without_zsl params) = setSceneMode_hdr params" by (simp add: setSceneMode_hdr_def fun_eq_iff)
  then show ?thesis by (simp add: setSceneMode_def cong: if_cong)
qed

lemma other_setters_without_zsl:
  "or_overrun (setFocusAreas e) (without_zsl params) p = or_overrun (setFocusAreas e) params p"
  "or_overrun (setMeteringAreas e) (without_zsl params) p = or_overrun (setMeteringAreas e) params p"
  "setAEBracket e (without_zsl params) p = setAEBracket e params p"
  "setGpsLocation (without_zsl params) p = setGpsLocation params p" "setFaceRecognition e (without_zsl params) p = setFaceRecognition e params p"
  "setFlip e (without_zsl params) p = setFlip e params p" "setBurstNum e (without_zsl params) p = setBurstNum e params p"
  "setLiveSnapshotSize e (without_zsl params) p = setLiveSnapshotSize e params p"
  by (simp_all add: or_overrun_def setFocusAreas_def setMeteringAreas_def areas_if_changed_def setAEBracket_def setGpsLocation_def
      gps_keys_def setFaceRecognition_def setFlip_def set_flip_def setBurstNum_def setLiveSnapshotSize_def
      livesnapshot_without_zsl cong: if_cong)

lemma run_setter_without_zsl: "c \<noteq> SetZslMode \<Longrightarrow> run_setter e c (without_zsl params) p = run_setter e c params p"
  by (cases c) (simp_all only: run_setter.simps text_setters_without_zsl mode_setters_without_zsl scene_without_zsl
      other_setters_without_zsl, simp_all add: plain_setters)

lemma zsl_retry_setter:
  assumes "params KEY_QC_ZSL = Some ''on''" "params KEY_RECORDING_HINT = None" "p_map p KEY_QC_ZSL = Some ''on''"
  shows "run_setter e c params p = run_setter e c (without_zsl params) p"
    "p_map (fst (run_setter e c params p)) KEY_QC_ZSL = Some ''on''"
proof -
  show "run_setter e c params p = run_setter e c (without_zsl params) p"
    using run_setter_without_zsl [of c e params p] assms
    by (cases "c = SetZslMode") (auto simp: setZslMode_def if_changed_def without_zsl_def)
  show "p_map (fst (run_setter e c params p)) KEY_QC_ZSL = Some ''on''"
    using run_setter_fields [of c params e p] assms
    by (cases "c = SetZslMode") (auto simp: setZslMode_def if_changed_def mode_fields_def)
qed

lemma zsl_retry_setters:
  assumes "params KEY_QC_ZSL = Some ''on''" "params KEY_RECORDING_HINT = None" "p_map (fst r) KEY_QC_ZSL = Some ''on''"
  shows "run_setters e cs params r = run_setters e cs (without_zsl params) r"
  using assms(3)
proof (induction cs arbitrary: r)
  case Nil
  then show ?case by (cases r) simp
next
  case (Cons c cs)
  then show ?case using zsl_retry_setter [OF assms(1) assms(2), of "fst r"] by (cases r) (simp add: split_beta Let_def)
qed

lemma zsl_retry_update:
  assumes "params KEY_QC_ZSL = Some ''on''" "params KEY_RECORDING_HINT = None" "p_map p KEY_QC_ZSL = Some ''on''"
  shows "parms_update e params p = parms_update e (without_zsl params) p"
  using zsl_retry_setters [OF assms(1) assms(2), of "(initBatchUpdate (p\<lparr>m_bNeedRestart := False\<rparr>), NO_ERROR)"] assms(3)
  by (simp add: parms_update_def initBatchUpdate_def)

lemma hwi_update_parts:
  "mParameters (fst (hwi_updateParameters e ps s)) = fst (parms_update (adjusting e s) (map_of ps) (mParameters s))"
  "snd (hwi_updateParameters e ps s) = snd (parms_update (adjusting e s) (map_of ps) (mParameters s))"
proof -
  have flip: "mParameters (flip_streams e b tys c s) = mParameters s" for b tys c s
    using keeps_dev_fold [of _ "\<lambda>st s. dev' e (Stream_set_flip (hc_handle c) (fst st)) s" s] dev'_dev
    by (auto simp: flip_streams_def dev_defs)
  have streams: "mParameters (fold (\<lambda>ty s. case m_channels s ty of None \<Rightarrow> s | Some c \<Rightarrow> UpdateStreamBasedParameters e p c s) tys s)
      = mParameters s" for p tys s
    by (induction tys arbitrary: s) (simp_all add: UpdateStreamBasedParameters_def flip split: option.split)
  then show "mParameters (fst (hwi_updateParameters e ps s)) = fst (parms_update (adjusting e s) (map_of ps) (mParameters s))"
    "snd (hwi_updateParameters e ps s) = snd (parms_update (adjusting e s) (map_of ps) (mParameters s))"
    by (simp_all add: hwi_updateParameters_def split_beta Let_def)
qed

lemma stateMachine_previewing:
  "m_state s = QCAMERA_SM_STATE_PREVIEWING \<Longrightarrow> stateMachine e evt s = procEvtPreviewingState e evt s"
  by simp

lemma reply_state: "m_state (fst (reply evt r)) = m_state (fst r)" "m_channels (fst (reply evt r)) = m_channels (fst r)"
  "mParameters (fst (reply evt r)) = mParameters (fst r)"
  by (simp_all add: reply_def reply_value_def signalAPIResult_def)

lemma rejected_update:
  assumes "m_state s = QCAMERA_SM_STATE_PREVIEWING" "fst (snd (parms_update (adjusting e s) (map_of ps) (mParameters s))) \<noteq> NO_ERROR"
    "s1 = fst (stateMachine e (SET_PARAMS ps) s)"
  shows "m_state s1 = QCAMERA_SM_STATE_PREVIEWING" "m_channels s1 = m_channels s"
    "mParameters s1 = fst (parms_update (adjusting e s) (map_of ps) (mParameters s))"
proof -
  obtain s0 rc b where 0: "hwi_updateParameters e ps s = (s0, rc, b)" by (metis prod.exhaust)
  have "rc \<noteq> NO_ERROR" "mParameters s0 = fst (parms_update (adjusting e s) (map_of ps) (mParameters s))"
    using hwi_update_parts [of e ps s] assms(2) 0 by (metis fst_conv snd_conv)+
  moreover have "m_state s0 = m_state s" "m_channels s0 = m_channels s"
    using hwi_updateParameters_keeps [OF 0] by (simp_all add: keep_defs)
  ultimately show "m_state s1 = QCAMERA_SM_STATE_PREVIEWING" "m_channels s1 = m_channels s"
    "mParameters s1 = fst (parms_update (adjusting e s) (map_of ps) (mParameters s))"
    using assms(1) by (simp_all add: assms(3) stateMachine_previewing [OF assms(1)] sm_restart_set_params_def 0 reply_state
        del: stateMachine.simps)
qed

lemma zsl_retry:
  assumes "m_state s = QCAMERA_SM_STATE_PREVIEWING" "\<forall>tr b. he_ret e tr (Set_parms b) = 0"
    "map_of ps KEY_QC_ZSL = Some ''on''" "map_of ps KEY_RECORDING_HINT = None"
    "snd (parms_update (adjusting e s) (without_zsl (map_of ps)) (mParameters s)) = (NO_ERROR, False)"
    "mode_fields (mParameters s) = (Some ''on'', True, False, False, False)"
    "(s1, rc) = stateMachine e (SET_PARAMS ps) s"
  shows "rc = NO_ERROR" "m_state s1 = QCAMERA_SM_STATE_PREVIEWING" "m_channels s1 = m_channels s"
    "m_bZslMode (mParameters s1)" "\<not> m_bRecordingHint (mParameters s1)"
proof -
  have on: "p_map (mParameters s) KEY_QC_ZSL = Some ''on''" using assms(6) by (simp add: mode_fields_def)
  obtain s0 rc0 b where 0: "hwi_updateParameters e ps s = (s0, rc0, b)" by (metis prod.exhaust)
  have r: "rc0 = NO_ERROR" "\<not> b" and p: "mParameters s0 = fst (parms_update (adjusting e s) (map_of ps) (mParameters s))"
    using hwi_update_parts [of e ps s] zsl_retry_update [OF assms(3) assms(4) on, of "adjusting e s"] assms(5) unfolding 0 by auto
  have k: "m_state s0 = m_state s" "m_channels s0 = m_channels s"
    using hwi_updateParameters_keeps [OF 0] by (simp_all add: keep_defs)
  have f: "mode_fields (mParameters s0) = (Some ''on'', True, False, False, False)"
    using update_zsl_on [OF assms(4) assms(3), of "mParameters s" "adjusting e s"] assms(6) p by (simp add: mode_fields_def)
  obtain s2 rc2 where 2: "commitParameterChanges e s0 = (s2, rc2)" by force
  have c: "rc2 = NO_ERROR" "m_bZslMode (mParameters s2)" "\<not> m_bRecordingHint (mParameters s2)"
    using 2 f assms(2)
    by (auto simp: commitParameterChanges_def commitParameters_def commitSetBatch_def dev_def commitParamChanges_def
        mode_fields_def NO_ERROR_def setNumOfSnapshot_def set_parm_def Let_def split: if_splits)
  have k2: "m_state s2 = m_state s0" "m_channels s2 = m_channels s0"
    using commitParameterChanges_keeps [OF 2] by (simp_all add: keep_defs)
  have "stateMachine e (SET_PARAMS ps) s = reply (SET_PARAMS ps) (s2, rc2)"
    using r by (simp add: stateMachine_previewing [OF assms(1)] sm_restart_set_params_def 0 2 del: stateMachine.simps)
  with assms(7) have "s1 = fst (reply (SET_PARAMS ps) (s2, rc2))" "rc = rc2" by (metis fst_conv, metis snd_conv snd_reply(2))
  then show "rc = NO_ERROR" "m_state s1 = QCAMERA_SM_STATE_PREVIEWING" "m_channels s1 = m_channels s"
    "m_bZslMode (mParameters s1)" "\<not> m_bRecordingHint (mParameters s1)"
    using c k k2 assms(1) by (simp_all add: reply_state)
qed

lemma zsl_picture_fails:
  "m_state s = QCAMERA_SM_STATE_PREVIEWING \<Longrightarrow> m_bZslMode (mParameters s) \<Longrightarrow> \<not> m_bRecordingHint (mParameters s) \<Longrightarrow>
    m_channels s QCAMERA_CH_TYPE_ZSL = None \<Longrightarrow> snd (stateMachine e TAKE_PICTURE s) = UNKNOWN_ERROR"
  by (simp add: sm_take_picture_def takePicture_def to_state_def UNKNOWN_ERROR_def NO_ERROR_def)

text \<open>C40: A rejected parameter request takes effect later, without the restart that it needs.  The preview runs without
  ZSL, and a request switches ZSL on together with a value that some setter rejects: the answer is the error, nothing is
  sent to the camera, but \<^verbatim>\<open>setZslMode\<close> has already written the new mode into the parameter map.  When the
  application repeats the request with the value corrected, and nothing else in it needs a restart, the map says that the
  mode has not changed: the request is answered with success, the preview is not restarted, the HAL is in ZSL mode with no
  ZSL channel, and the next picture fails.\<close>

theorem rejected_zsl_request_sticks:
  assumes "m_state s = QCAMERA_SM_STATE_PREVIEWING" "m_channels s QCAMERA_CH_TYPE_ZSL = None"
    "p_map (mParameters s) KEY_QC_ZSL \<noteq> Some ''on''" "\<not> m_bZslMode (mParameters s)"
    "\<not> m_bRecordingHint (mParameters s)" "\<not> m_bRecordingHint_new (mParameters s)"
    and "\<forall>tr b. he_ret e tr (Set_parms b) = 0"
    and "map_of ps KEY_QC_ZSL = Some ''on''" "map_of ps KEY_RECORDING_HINT = None"
    and "fst (snd (parms_update (adjusting e s) (map_of ps) (mParameters s))) \<noteq> NO_ERROR"
    and "s1 = fst (stateMachine e (SET_PARAMS ps) s)"
    and "map_of ps' KEY_QC_ZSL = Some ''on''" "map_of ps' KEY_RECORDING_HINT = None"
    and "snd (parms_update (adjusting e s1) (without_zsl (map_of ps')) (mParameters s1)) = (NO_ERROR, False)"
    and "(s2, rc) = stateMachine e (SET_PARAMS ps') s1"
  shows "rc = NO_ERROR \<and> m_bZslMode (mParameters s2) \<and> m_channels s2 QCAMERA_CH_TYPE_ZSL = None \<and>
    snd (stateMachine e TAKE_PICTURE s2) = UNKNOWN_ERROR"
proof -
  note r = rejected_update [OF assms(1) assms(10) assms(11)]
  have "mode_fields (mParameters s1) = (Some ''on'', True, False, False, False)"
    using update_zsl_on [OF assms(9) assms(8), of "mParameters s" "adjusting e s"] assms(3-6) r(3) by simp
  note z = zsl_retry [OF r(1) assms(7) assms(12-14) this assms(15)]
  with assms(2) r(2) have "m_channels s2 QCAMERA_CH_TYPE_ZSL = None" by simp
  with z zsl_picture_fails [OF z(2) z(4) z(5), of e] show ?thesis by simp
qed

definition previewing_hal :: hal where
  "previewing_hal = hal_run good_env [SET_PREVIEW_WINDOW 1, START_PREVIEW] hal_zero"

text \<open>The request with an unknown ISO mode, and the corrected one.\<close>

definition bad_request :: "(parm_key \<times> parm_string) list" where
  "bad_request = [(KEY_QC_ZSL, ''on''), (KEY_QC_ISO_MODE, ''ISO50'')] @ a_request"

definition good_request :: "(parm_key \<times> parm_string) list" where
  "good_request = [(KEY_QC_ZSL, ''on''), (KEY_QC_ISO_MODE, ''ISO100'')] @ a_request"

lemma previewing_facts:
  "m_state previewing_hal = QCAMERA_SM_STATE_PREVIEWING"
  "m_channels previewing_hal QCAMERA_CH_TYPE_ZSL = None"
  "p_map (mParameters previewing_hal) KEY_QC_ZSL = None"
  "\<not> m_bZslMode (mParameters previewing_hal)"
  "\<not> m_bRecordingHint (mParameters previewing_hal)"
  "\<not> m_bRecordingHint_new (mParameters previewing_hal)"
  by code_simp+

lemma bad_request_rejected:
  "fst (snd (parms_update (adjusting good_env previewing_hal) (map_of bad_request) (mParameters previewing_hal))) \<noteq> NO_ERROR"
  by code_simp

lemma good_request_accepted:
  "(let s1 = fst (stateMachine good_env (SET_PARAMS bad_request) previewing_hal) in
    snd (parms_update (adjusting good_env s1) (without_zsl (map_of good_request)) (mParameters s1))) = (NO_ERROR, False)"
  by code_simp

theorem rejected_zsl_request_sticks_witness:
  "(let s1 = fst (stateMachine good_env (SET_PARAMS bad_request) previewing_hal);
        r = stateMachine good_env (SET_PARAMS good_request) s1 in
    snd r = NO_ERROR \<and> m_bZslMode (mParameters (fst r)) \<and> m_channels (fst r) QCAMERA_CH_TYPE_ZSL = None \<and>
    snd (stateMachine good_env TAKE_PICTURE (fst r)) = UNKNOWN_ERROR)"
proof -
  have "\<forall>tr b. he_ret good_env tr (Set_parms b) = 0" "map_of bad_request KEY_QC_ZSL = Some ''on''"
    "map_of bad_request KEY_RECORDING_HINT = None" "map_of good_request KEY_QC_ZSL = Some ''on''"
    "map_of good_request KEY_RECORDING_HINT = None"
    by (simp_all add: good_env_def NO_ERROR_def bad_request_def good_request_def a_request_def)
  with previewing_facts bad_request_rejected good_request_accepted show ?thesis
    unfolding Let_def
    by (intro rejected_zsl_request_sticks [of previewing_hal good_env bad_request _ good_request]) (simp_all del: stateMachine.simps)
qed

section \<open>Recording\<close>

definition preview_enabled_answer :: "hal_env \<Rightarrow> hal \<Rightarrow> result_type" where
  "preview_enabled_answer e s = ar_value (last (api_signals (fst (stateMachine e PREVIEW_ENABLED s))))"

lemma last_reply_value: "ar_value (last (api_signals (fst (reply_value evt v r)))) = v"
  by (simp add: reply_value_def signalAPIResult_def)

text \<open>A request to record that fails can leave the HAL in the state \<^verbatim>\<open>PREVIEWING\<close> with no preview: without the
  recording hint \<^verbatim>\<open>startRecording\<close> stops the preview before it builds the channels for recording, and when they cannot
  be built it returns without restoring it.  No preview or ZSL channel runs, and \<^verbatim>\<open>PREVIEW_ENABLED\<close> still says yes.\<close>

theorem failed_recording_loses_preview:
  assumes "m_state s = QCAMERA_SM_STATE_PREVIEWING" "\<not> m_bRecordingHint (mParameters s)"
    and "snd (preparePreview e (fst (updateRecordingHintValue e 1 (fst (stopPreview e s))))) \<noteq> NO_ERROR"
    and "s1 = fst (stateMachine e START_RECORDING s)"
  shows "m_state s1 = QCAMERA_SM_STATE_PREVIEWING \<and> \<not> runs (chan_view s1) \<and>
    preview_enabled_answer e s1 = RESULT_ENABLE_FLAG 1"
proof -
  obtain t1 r1 where 1: "stopPreview e s = (t1, r1)" by force
  obtain t2 r2 where 2: "updateRecordingHintValue e 1 t1 = (t2, r2)" by force
  obtain t3 r3 where 3: "preparePreview e t2 = (t3, r3)" by force
  have r3: "r3 \<noteq> NO_ERROR" using assms(3) by (simp add: 1 2 3)
  have rec: "startRecording e s = (t3, r3)" using assms(2) r3 by (simp add: startRecording_def 1 2 3)
  have "chan_view t2 = no_preview_channels (chan_view s)"
    using stopPreview_view [OF 1] updateRecordingHintValue_keeps [OF 2] by (simp add: keep_defs chan_view_def)
  then have "\<not> runs (chan_view t3)"
    using preparePreview_view(4) [OF 3 r3] by (auto simp: runs_def no_preview_channels_def) (metis fun_upd_apply option.distinct(1))+
  moreover have "m_state t3 = QCAMERA_SM_STATE_PREVIEWING"
    using startRecording_view(1) [OF rec] assms(1) by (simp add: keep_defs)
  moreover have "s1 = fst (reply START_RECORDING (t3, r3))"
    using r3 by (simp add: assms(4) stateMachine_previewing [OF assms(1)] sm_start_recording_def rec del: stateMachine.simps)
  ultimately show ?thesis
    by (simp add: reply_state preview_enabled_answer_def last_reply_value chan_view_def)
qed

text \<open>An environment whose allocations fail, as they may.\<close>

definition no_memory_env :: hal_env where
  "no_memory_env = good_env\<lparr>he_new_fails := (\<lambda>_. True)\<rparr>"

theorem failed_recording_loses_preview_witness:
  "(let s1 = fst (stateMachine no_memory_env START_RECORDING previewing_hal) in
    m_state s1 = QCAMERA_SM_STATE_PREVIEWING \<and> \<not> runs (chan_view s1) \<and>
    preview_enabled_answer no_memory_env s1 = RESULT_ENABLE_FLAG 1)"
proof -
  have "snd (preparePreview no_memory_env (fst (updateRecordingHintValue no_memory_env 1
      (fst (stopPreview no_memory_env previewing_hal))))) \<noteq> NO_ERROR" by code_simp
  then show ?thesis unfolding Let_def
    by (intro failed_recording_loses_preview [of previewing_hal no_memory_env])
      (simp_all add: previewing_facts del: stateMachine.simps)
qed

text \<open>While recording, \<^verbatim>\<open>PREVIEW_ENABLED\<close> says no, although the preview runs: \<^verbatim>\<open>isPreviewRunning\<close> counts the
  state, and the device shows it.\<close>

theorem recording_reports_preview_off:
  assumes "hal_reach e s" "m_state s = QCAMERA_SM_STATE_RECORDING"
  shows "runs (chan_view s) \<and> isPreviewRunning (m_state s) \<and> preview_enabled_answer e s = RESULT_ENABLE_FLAG 0"
  using ok_runs [OF reach_ok [OF assms(1)]] assms(2) by (simp add: preview_enabled_answer_def last_reply_value)

theorem recording_reports_preview_off_witness:
  "m_state recording_hal = QCAMERA_SM_STATE_RECORDING \<and> runs (chan_view recording_hal) \<and>
    preview_enabled_answer good_env recording_hal = RESULT_ENABLE_FLAG 0"
  using recording_reports_preview_off [OF recording_reached recording_state] recording_state by simp

end
