(* ===== verification/HalApi.thy ===== *)
theory HalApi
  imports HalFaults
begin

text \<open>
  How an API call of the framework reaches the state machine and gets its answer: the entry points of
  \<^verbatim>\<open>QCamera2HWI.cpp\<close>, its lock and condition variable (\<^verbatim>\<open>lockAPI\<close>, \<^verbatim>\<open>waitAPIResult\<close>, \<^verbatim>\<open>signalAPIResult\<close>),
  and the two queues and the thread of \<^verbatim>\<open>QCameraStateMachine\<close>.  The protocol is a step function over all
  interleavings of the callers with the thread; the entry points are written against the sequential reading of a call,
  and the first theorem shows that a lone call through the protocol is such a sequential call.
\<close>

declare stateMachine.simps [simp del]

section \<open>The protocol\<close>

text \<open>A caller has the lock in \<^verbatim>\<open>C_locked\<close> and \<^verbatim>\<open>C_posted\<close>; it carries the requests of its call that are still to be
  made.  \<^verbatim>\<open>W_signal\<close> holds the results that the handler signals, which needs the lock.\<close>

datatype caller_pc = C_out | C_locked "sm_evt list" | C_posted "sm_evt list" | C_waiting "sm_evt list" | C_woken "sm_evt list"
  | C_returned api_result | C_failed i32

datatype sm_thread_pc = W_wait | W_signal "api_result list"

record api_sys =
  as_hal :: hal
  as_lock :: "nat option"
  as_result :: api_result
  as_api_queue :: "sm_evt list"
  as_evt_queue :: "sm_evt list"
  as_sem :: nat
  as_worker :: sm_thread_pc
  as_waiters :: "nat list"
  as_pc :: "nat \<Rightarrow> caller_pc"

datatype api_label = L_call nat "sm_evt list" | L_post nat | L_post_fail nat i32 | L_wait nat | L_wake nat | L_relock nat
  | L_worker | L_signal "nat option" | L_event sm_evt

definition set_pc :: "nat \<Rightarrow> caller_pc \<Rightarrow> api_sys \<Rightarrow> api_sys" where
  "set_pc n c s = s\<lparr>as_pc := (as_pc s)(n := c)\<rparr>"

text \<open>The state of a new object, in the constructors of the HAL and of the state machine.\<close>

definition api_idle :: "hal \<Rightarrow> api_sys" where
  "api_idle h = \<lparr>as_hal = h, as_lock = None, as_result = api_result_zero, as_api_queue = [], as_evt_queue = [], as_sem = 0,
     as_worker = W_wait, as_waiters = [], as_pc = (\<lambda>_. C_out)\<rparr>"

text \<open>\<^verbatim>\<open>procAPI\<close> and \<^verbatim>\<open>procEvt\<close>.\<close>

definition procAPI :: "sm_evt \<Rightarrow> api_sys \<Rightarrow> api_sys" where
  "procAPI evt s = s\<lparr>as_api_queue := as_api_queue s @ [evt], as_sem := as_sem s + 1\<rparr>"

definition procEvt :: "sm_evt \<Rightarrow> api_sys \<Rightarrow> api_sys" where
  "procEvt evt s = s\<lparr>as_evt_queue := as_evt_queue s @ [evt], as_sem := as_sem s + 1\<rparr>"

text \<open>After a request, the next request of the call, or the end of the call with \<^verbatim>\<open>unlockAPI\<close>.\<close>

definition after_request :: "nat \<Rightarrow> sm_evt list \<Rightarrow> caller_pc \<Rightarrow> api_sys \<Rightarrow> api_sys" where
  "after_request n evts c s =
     (if evts = [] then (set_pc n c s)\<lparr>as_lock := None\<rparr> else (set_pc n (C_locked evts) s)\<lparr>as_lock := Some n\<rparr>)"

definition new_signals :: "hal \<Rightarrow> hal \<Rightarrow> api_result list" where
  "new_signals h h' = drop (length (api_signals h)) (api_signals h')"

definition handle_evt :: "hal_env \<Rightarrow> sm_evt \<Rightarrow> api_sys \<Rightarrow> api_sys" where
  "handle_evt e evt s =
     (let h = fst (stateMachine e evt (as_hal s)); rs = new_signals (as_hal s) h in
      s\<lparr>as_hal := h, as_worker := (if rs = [] then W_wait else W_signal rs)\<rparr>)"

text \<open>One turn of the loop of \<^verbatim>\<open>smEvtProcRoutine\<close> after its semaphore: an API request first, then an event.\<close>

definition smEvtProcRoutine :: "hal_env \<Rightarrow> api_sys \<Rightarrow> api_sys" where
  "smEvtProcRoutine e s =
     (let s = s\<lparr>as_sem := as_sem s - 1\<rparr> in
      case as_api_queue s of
        evt # q \<Rightarrow> handle_evt e evt (s\<lparr>as_api_queue := q\<rparr>)
      | [] \<Rightarrow> (case as_evt_queue s of evt # q \<Rightarrow> handle_evt e evt (s\<lparr>as_evt_queue := q\<rparr>) | [] \<Rightarrow> s))"

text \<open>\<^verbatim>\<open>pthread_cond_wait\<close> gives the lock back; \<^verbatim>\<open>pthread_cond_signal\<close> wakes one of the waiting callers, any of them,
  and does nothing when none waits.\<close>

definition cond_wait :: "nat \<Rightarrow> sm_evt list \<Rightarrow> api_sys \<Rightarrow> api_sys" where
  "cond_wait n evts s = (set_pc n (C_waiting evts) s)\<lparr>as_lock := None, as_waiters := as_waiters s @ [n]\<rparr>"

definition wake_one :: "nat option \<Rightarrow> api_sys \<Rightarrow> api_sys option" where
  "wake_one w s =
     (case w of
        None \<Rightarrow> if as_waiters s = [] then Some s else None
      | Some n \<Rightarrow>
          (if n \<notin> set (as_waiters s) then None
           else (case as_pc s n of
                   C_waiting evts \<Rightarrow> Some ((set_pc n (C_woken evts) s)\<lparr>as_waiters := remove1 n (as_waiters s)\<rparr>)
                 | _ \<Rightarrow> None)))"

fun api_step :: "hal_env \<Rightarrow> api_label \<Rightarrow> api_sys \<Rightarrow> api_sys option" where
  "api_step e (L_call n evts) s =
     (if as_pc s n = C_out \<and> as_lock s = None \<and> evts \<noteq> [] then Some ((set_pc n (C_locked evts) s)\<lparr>as_lock := Some n\<rparr>) else None)"
| "api_step e (L_post n) s =
     (case as_pc s n of C_locked evts \<Rightarrow> Some (set_pc n (C_posted evts) (procAPI (hd evts) s)) | _ \<Rightarrow> None)"
| "api_step e (L_post_fail n rc) s =
     (case as_pc s n of
        C_locked evts \<Rightarrow> if rc \<in> {NO_MEMORY, UNKNOWN_ERROR} then Some (after_request n (tl evts) (C_failed rc) s) else None
      | _ \<Rightarrow> None)"
| "api_step e (L_wait n) s =
     (case as_pc s n of
        C_posted evts \<Rightarrow> Some (cond_wait n evts (s\<lparr>as_result := api_result_zero\<rparr>))
      | _ \<Rightarrow> None)"
| "api_step e (L_wake n) s = wake_one (Some n) s"
| "api_step e (L_relock n) s =
     (case as_pc s n of
        C_woken evts \<Rightarrow>
          if as_lock s \<noteq> None then None
          else if request_api (as_result s) = evt_code (hd evts) then
            Some (after_request n (tl evts) (C_returned (as_result s)) s)
          else Some (cond_wait n evts s)
      | _ \<Rightarrow> None)"
| "api_step e L_worker s = (if as_worker s = W_wait \<and> 0 < as_sem s then Some (smEvtProcRoutine e s) else None)"
| "api_step e (L_signal w) s =
     (case as_worker s of
        W_signal (r # rs) \<Rightarrow>
          if as_lock s \<noteq> None then None
          else wake_one w (s\<lparr>as_result := r, as_worker := (if rs = [] then W_wait else W_signal rs)\<rparr>)
      | _ \<Rightarrow> None)"
| "api_step e (L_event evt) s = (if is_api evt then None else Some (procEvt evt s))"

fun api_run :: "hal_env \<Rightarrow> api_label list \<Rightarrow> api_sys \<Rightarrow> api_sys option" where
  "api_run e [] s = Some s"
| "api_run e (l # ls) s = (case api_step e l s of None \<Rightarrow> None | Some s' \<Rightarrow> api_run e ls s')"

section \<open>A lone call\<close>

text \<open>The sequential reading of a request: the state machine handles it, and then the events \<^verbatim>\<open>arr\<close> that arrive, until a
  result with the number of the request is signalled; \<^verbatim>\<open>None\<close> when none is, so that the caller waits for ever.\<close>

definition find_result :: "sm_evt \<Rightarrow> hal \<Rightarrow> hal \<Rightarrow> api_result option" where
  "find_result evt h h' = find (\<lambda>r. request_api r = evt_code evt) (new_signals h h')"

fun await_result :: "hal_env \<Rightarrow> sm_evt \<Rightarrow> sm_evt list \<Rightarrow> hal \<Rightarrow> (hal \<times> api_result) option" where
  "await_result e evt [] h = None"
| "await_result e evt (ev # arr) h =
     (let h' = fst (stateMachine e ev h) in
      case find_result evt h h' of Some r \<Rightarrow> Some (h', r) | None \<Rightarrow> await_result e evt arr h')"

definition sync_request :: "hal_env \<Rightarrow> sm_evt list \<Rightarrow> sm_evt \<Rightarrow> hal \<Rightarrow> (hal \<times> api_result) option" where
  "sync_request e arr evt h = await_result e evt (evt # arr) h"

text \<open>Nobody uses the protocol, and caller \<^verbatim>\<open>n\<close> has not called yet.  Nothing is assumed of the last result.\<close>

definition quiet :: "nat \<Rightarrow> api_sys \<Rightarrow> bool" where
  "quiet n s \<longleftrightarrow> as_lock s = None \<and> as_api_queue s = [] \<and> as_evt_queue s = [] \<and> as_sem s = 0 \<and> as_worker s = W_wait \<and>
     as_waiters s = [] \<and> as_pc s n = C_out"

text \<open>The steps of the protocol itself for the caller: no failing allocation, no spurious wakeup, no other call or event.\<close>

fun own_step :: "nat \<Rightarrow> api_label \<Rightarrow> bool" where
  "own_step n (L_post m) = (m = n)"
| "own_step n (L_wait m) = (m = n)"
| "own_step n (L_relock m) = (m = n)"
| "own_step n L_worker = True"
| "own_step n (L_signal w) = True"
| "own_step n _ = False"

text \<open>The states of a lone call, with the number of steps made.\<close>

inductive lone :: "hal_env \<Rightarrow> nat \<Rightarrow> sm_evt \<Rightarrow> hal \<Rightarrow> api_result \<Rightarrow> nat \<Rightarrow> api_sys \<Rightarrow> bool" for e n evt h r where
  locked: "as_pc s n = C_locked [evt] \<Longrightarrow> as_lock s = Some n \<Longrightarrow> as_hal s = h \<Longrightarrow> as_api_queue s = [] \<Longrightarrow> as_evt_queue s = [] \<Longrightarrow>
    as_sem s = 0 \<Longrightarrow> as_worker s = W_wait \<Longrightarrow> as_waiters s = [] \<Longrightarrow> lone e n evt h r 0 s"
| posted: "as_pc s n = C_posted [evt] \<Longrightarrow> as_lock s = Some n \<Longrightarrow> as_hal s = h \<Longrightarrow> as_api_queue s = [evt] \<Longrightarrow> as_evt_queue s = [] \<Longrightarrow>
    as_sem s = 1 \<Longrightarrow> as_worker s = W_wait \<Longrightarrow> as_waiters s = [] \<Longrightarrow> lone e n evt h r 1 s"
| waiting: "as_pc s n = C_waiting [evt] \<Longrightarrow> as_lock s = None \<Longrightarrow> as_hal s = h \<Longrightarrow> as_api_queue s = [evt] \<Longrightarrow> as_evt_queue s = [] \<Longrightarrow>
    as_sem s = 1 \<Longrightarrow> as_worker s = W_wait \<Longrightarrow> as_waiters s = [n] \<Longrightarrow> lone e n evt h r 2 s"
| handled: "as_pc s n = C_posted [evt] \<Longrightarrow> as_lock s = Some n \<Longrightarrow> as_hal s = fst (stateMachine e evt h) \<Longrightarrow> as_api_queue s = [] \<Longrightarrow>
    as_evt_queue s = [] \<Longrightarrow> as_sem s = 0 \<Longrightarrow> as_worker s = W_signal [r] \<Longrightarrow> as_waiters s = [] \<Longrightarrow> lone e n evt h r 2 s"
| ready: "as_pc s n = C_waiting [evt] \<Longrightarrow> as_lock s = None \<Longrightarrow> as_hal s = fst (stateMachine e evt h) \<Longrightarrow> as_api_queue s = [] \<Longrightarrow>
    as_evt_queue s = [] \<Longrightarrow> as_sem s = 0 \<Longrightarrow> as_worker s = W_signal [r] \<Longrightarrow> as_waiters s = [n] \<Longrightarrow> lone e n evt h r 3 s"
| woken: "as_pc s n = C_woken [evt] \<Longrightarrow> as_lock s = None \<Longrightarrow> as_hal s = fst (stateMachine e evt h) \<Longrightarrow> as_result s = r \<Longrightarrow>
    as_api_queue s = [] \<Longrightarrow> as_evt_queue s = [] \<Longrightarrow> as_sem s = 0 \<Longrightarrow> as_worker s = W_wait \<Longrightarrow> as_waiters s = [] \<Longrightarrow> lone e n evt h r 4 s"
| returned: "as_pc s n = C_returned r \<Longrightarrow> as_hal s = fst (stateMachine e evt h) \<Longrightarrow> as_lock s = None \<Longrightarrow>
    as_sem s = 0 \<Longrightarrow> as_worker s = W_wait \<Longrightarrow> lone e n evt h r 5 s"

lemma lone_step:
  assumes "lone e n evt h r k s" "own_step n l" "api_step e l s = Some s'"
    and "new_signals h (fst (stateMachine e evt h)) = [r]" "request_api r = evt_code evt"
  shows "lone e n evt h r (Suc k) s'"
  using assms
proof (cases rule: lone.cases)
  case locked
  then show ?thesis using assms(2,3)
    by (cases l) (auto simp: set_pc_def procAPI_def eval_nat_numeral intro!: lone.posted [unfolded One_nat_def])
next
  case posted
  then consider "l = L_wait n" | "l = L_worker" using assms(2,3) by (cases l) auto
  then show ?thesis
  proof cases
    case 1
    then have "lone e n evt h r 2 s'" using posted assms(3)
      by (intro lone.waiting) (auto simp: set_pc_def cond_wait_def)
    then show ?thesis using posted by (simp add: eval_nat_numeral)
  next
    case 2
    then have "lone e n evt h r 2 s'" using posted assms(3,4)
      by (intro lone.handled) (auto simp: smEvtProcRoutine_def handle_evt_def Let_def)
    then show ?thesis using posted by (simp add: eval_nat_numeral)
  qed
next
  case waiting
  then have "l = L_worker" using assms(2,3) by (cases l) (auto split: option.splits)
  then have "lone e n evt h r 3 s'" using waiting assms(3,4)
    by (intro lone.ready) (auto simp: smEvtProcRoutine_def handle_evt_def Let_def)
  then show ?thesis using waiting by (simp add: eval_nat_numeral)
next
  case handled
  then have "l = L_wait n" using assms(2,3) by (cases l) auto
  then have "lone e n evt h r 3 s'" using handled assms(3)
    by (intro lone.ready) (auto simp: set_pc_def cond_wait_def)
  then show ?thesis using handled by (simp add: eval_nat_numeral)
next
  case ready
  then have "l = L_signal (Some n)" using assms(2,3) by (cases l) (auto simp: wake_one_def split: option.splits if_splits)
  then have "lone e n evt h r 4 s'" using ready assms(3)
    by (intro lone.woken) (auto simp: set_pc_def wake_one_def)
  then show ?thesis using ready by (simp add: eval_nat_numeral)
next
  case woken
  then have "l = L_relock n" using assms(2,3) by (cases l) auto
  then have "lone e n evt h r 5 s'" using woken assms(3,5)
    by (intro lone.returned) (auto simp: set_pc_def after_request_def)
  then show ?thesis using woken by (simp add: eval_nat_numeral)
next
  case returned
  then show ?thesis using assms(2,3) by (cases l) auto
qed

lemma lone_run:
  assumes "lone e n evt h r k s" "list_all (own_step n) ls" "api_run e ls s = Some s'"
    and "new_signals h (fst (stateMachine e evt h)) = [r]" "request_api r = evt_code evt"
  shows "lone e n evt h r (k + length ls) s'"
  using assms(1-3)
proof (induction ls arbitrary: k s)
  case (Cons l ls)
  then obtain s1 where "api_step e l s = Some s1" "api_run e ls s1 = Some s'" by (auto split: option.splits)
  then show ?case using Cons lone_step [OF Cons.prems(1) _ _ assms(4,5), of l s1] by fastforce
qed simp

text \<open>Some step is possible until the call has returned.\<close>

lemma lone_progress:
  assumes "lone e n evt h r k s" "request_api r = evt_code evt"
  shows "k \<le> 5" "k = 5 \<longrightarrow> as_pc s n = C_returned r \<and> as_hal s = fst (stateMachine e evt h)"
    "k < 5 \<longrightarrow> (\<exists>l. own_step n l \<and> api_step e l s \<noteq> None)"
proof -
  show "k \<le> 5" "k = 5 \<longrightarrow> as_pc s n = C_returned r \<and> as_hal s = fst (stateMachine e evt h)"
    using assms(1) by (cases; simp)+
  have labels: "own_step n (L_post n)" "own_step n (L_wait n)" "own_step n (L_signal (Some n))" "own_step n (L_relock n)" "own_step n L_worker"
    by simp_all
  show "k < 5 \<longrightarrow> (\<exists>l. own_step n l \<and> api_step e l s \<noteq> None)"
    using assms(1)
  proof (cases rule: lone.cases)
    case locked
    then have "api_step e (L_post n) s \<noteq> None" by simp
    with labels show ?thesis by blast
  next
    case posted
    then have "api_step e (L_wait n) s \<noteq> None" by simp
    with labels show ?thesis by blast
  next
    case waiting
    then have "api_step e L_worker s \<noteq> None" by simp
    with labels show ?thesis by blast
  next
    case handled
    then have "api_step e (L_wait n) s \<noteq> None" by simp
    with labels show ?thesis by blast
  next
    case ready
    then have "api_step e (L_signal (Some n)) s \<noteq> None" by (simp add: wake_one_def)
    with labels show ?thesis by blast
  next
    case woken
    then have "api_step e (L_relock n) s \<noteq> None" by simp
    with labels show ?thesis by blast
  qed simp
qed

lemma find_single: "new_signals h h' = [r] \<Longrightarrow> request_api r = evt_code evt \<Longrightarrow> find_result evt h h' = Some r"
  by (simp add: find_result_def)

text \<open>An event that is answered at once.\<close>

definition answered :: "hal_env \<Rightarrow> sm_evt \<Rightarrow> hal \<Rightarrow> bool" where
  "answered e evt h \<longleftrightarrow> fst (expected_answers (m_state h) evt (snd (stateMachine e evt h))) = [(evt_code evt, snd (stateMachine e evt h))]"

lemma map_single: "map f xs = [y] \<Longrightarrow> \<exists>x. xs = [x] \<and> f x = y"
  by (cases xs) simp_all

lemma emitsD:
  "emits s as vs r \<Longrightarrow> \<exists>xs. api_signals (fst r) = api_signals s @ xs \<and> map (\<lambda>x. (request_api x, ar_status x)) xs = as"
  unfolding emits_def by (elim exE conjE) (intro exI conjI)

lemma answered_signal:
  assumes "answered e evt h"
  obtains r where "new_signals h (fst (stateMachine e evt h)) = [r]" "request_api r = evt_code evt"
    "ar_status r = snd (stateMachine e evt h)"
proof -
  have "emits h [(evt_code evt, snd (stateMachine e evt h))] (snd (expected_answers (m_state h) evt (snd (stateMachine e evt h))))
      (stateMachine e evt h)"
    using procEvt_emits [OF refl, where s = h and e = e and evt = evt] assms by (simp add: answered_def)
  from emitsD [OF this] obtain xs where xs: "api_signals (fst (stateMachine e evt h)) = api_signals h @ xs \<and>
      map (\<lambda>x. (request_api x, ar_status x)) xs = [(evt_code evt, snd (stateMachine e evt h))]" ..
  from map_single [OF xs [THEN conjunct2]] obtain r where r: "xs = [r]"
      "request_api r = evt_code evt" "ar_status r = snd (stateMachine e evt h)" by auto
  show ?thesis by (rule that [of r]) (use xs r in \<open>simp_all add: new_signals_def\<close>)
qed

definition called :: "nat \<Rightarrow> sm_evt \<Rightarrow> api_sys \<Rightarrow> api_sys" where
  "called n evt s = (set_pc n (C_locked [evt]) s)\<lparr>as_lock := Some n\<rparr>"

lemma called_lone: "quiet n s \<Longrightarrow> lone e n evt (as_hal s) r 0 (called n evt s)"
  by (rule lone.locked) (simp_all add: called_def quiet_def set_pc_def)


lemma idle_quiet: "quiet n (api_idle h)"
  by (simp add: quiet_def api_idle_def)


section \<open>Two calls at a time\<close>

lemma evt_code_pos: "0 < evt_code evt"
  by (cases evt) simp_all

text \<open>The thread signals results for the request it handles, and for \<^verbatim>\<open>PREPARE_SNAPSHOT\<close>.\<close>

lemma signals_of:
  assumes "r \<in> set (new_signals h (fst (stateMachine e evt h)))"
  shows "request_api r \<in> (if is_api evt then {evt_code evt} else {evt_code PREPARE_SNAPSHOT})"
proof -
  from emitsD [OF procEvt_emits [OF refl, where s = h and e = e and evt = evt]] obtain xs where
    xs: "api_signals (fst (stateMachine e evt h)) = api_signals h @ xs \<and> map (\<lambda>x. (request_api x, ar_status x)) xs =
      fst (expected_answers (m_state h) evt (snd (stateMachine e evt h)))" ..
  then have "request_api r \<in> fst ` set (fst (expected_answers (m_state h) evt (snd (stateMachine e evt h))))"
    using assms by (simp add: new_signals_def image_image flip: xs [THEN conjunct2])
  moreover have "fst ` set (fst (expected_answers (m_state h) evt rc)) \<subseteq>
      (if is_api evt then {evt_code evt} else {evt_code PREPARE_SNAPSHOT})" for rc
    by (auto simp: expected_answers_def is_api_def split: qcamera_state.splits sm_evt.splits internal_evt.splits if_splits)
  ultimately show ?thesis by blast
qed

fun pc_other :: "nat \<Rightarrow> caller_pc \<Rightarrow> bool" where
  "pc_other c (C_locked evts) = (evts \<noteq> [] \<and> (\<forall>ev\<in>set evts. evt_code ev \<noteq> c))"
| "pc_other c (C_posted evts) = (evts \<noteq> [] \<and> (\<forall>ev\<in>set evts. evt_code ev \<noteq> c))"
| "pc_other c (C_waiting evts) = (evts \<noteq> [] \<and> (\<forall>ev\<in>set evts. evt_code ev \<noteq> c))"
| "pc_other c (C_woken evts) = (evts \<noteq> [] \<and> (\<forall>ev\<in>set evts. evt_code ev \<noteq> c))"
| "pc_other c _ = True"

fun label_other :: "nat \<Rightarrow> api_label \<Rightarrow> bool" where
  "label_other c (L_call m evts) = (\<forall>ev\<in>set evts. evt_code ev \<noteq> c)"
| "label_other c _ = True"

definition worker_other :: "nat \<Rightarrow> sm_thread_pc \<Rightarrow> bool" where
  "worker_other c w \<longleftrightarrow> (case w of W_wait \<Rightarrow> True | W_signal rs \<Rightarrow> \<forall>r\<in>set rs. request_api r \<noteq> c)"

text \<open>Caller \<^verbatim>\<open>n\<close> waits for a result that nobody will signal.\<close>

definition deaf :: "nat \<Rightarrow> sm_evt \<Rightarrow> api_sys \<Rightarrow> bool" where
  "deaf n evt s \<longleftrightarrow> is_api evt \<and> as_pc s n \<in> {C_waiting [evt], C_woken [evt]} \<and> request_api (as_result s) \<noteq> evt_code evt \<and>
     (\<forall>ev\<in>set (as_api_queue s). evt_code ev \<noteq> evt_code evt) \<and> (\<forall>ev\<in>set (as_evt_queue s). \<not> is_api ev) \<and>
     worker_other (evt_code evt) (as_worker s) \<and> (\<forall>m. m \<noteq> n \<longrightarrow> pc_other (evt_code evt) (as_pc s m))"

lemma other_pc: "deaf n evt s \<Longrightarrow> m \<noteq> n \<Longrightarrow> pc_other (evt_code evt) (as_pc s m)"
  by (simp add: deaf_def)

lemma handle_other:
  assumes "evt_code ev \<noteq> c" "c \<noteq> evt_code PREPARE_SNAPSHOT"
  shows "worker_other c (as_worker (handle_evt e ev s))"
  using assms signals_of [of _ "as_hal s" e ev]
  by (fastforce simp: handle_evt_def worker_other_def Let_def split: if_splits)

lemma deaf_after:
  assumes "deaf n evt s" "m \<noteq> n" "\<forall>ev\<in>set evts. evt_code ev \<noteq> evt_code evt" "c \<in> range C_returned \<union> range C_failed"
  shows "deaf n evt (after_request m evts c s)"
  using assms by (auto simp: after_request_def deaf_def set_pc_def)

lemma deaf_wake: "deaf n evt s \<Longrightarrow> wake_one w s = Some s' \<Longrightarrow> deaf n evt s'"
  by (auto simp: wake_one_def deaf_def set_pc_def split: option.splits if_splits caller_pc.splits)
    (metis pc_other.simps(3) pc_other.simps(4))+

lemma deaf_loop:
  assumes "deaf n evt s" "evt \<noteq> PREPARE_SNAPSHOT"
  shows "deaf n evt (smEvtProcRoutine e s)"
proof -
  have c: "evt_code evt \<noteq> evt_code PREPARE_SNAPSHOT" using assms(2) by (cases evt) simp_all
  have handle: "deaf n evt (handle_evt e ev t)" if "deaf n evt t" "evt_code ev \<noteq> evt_code evt" for ev t
    using that handle_other [OF that(2) c, of e t] by (auto simp: deaf_def handle_evt_def Let_def)
  have plain: "deaf n evt (s\<lparr>as_sem := k\<rparr>)" for k using assms(1) by (simp add: deaf_def)
  show ?thesis
  proof (cases "as_api_queue s")
    case (Cons ev q)
    then show ?thesis using assms(1) unfolding smEvtProcRoutine_def Let_def
      by (auto intro!: handle) (auto simp: deaf_def)
  next
    case Nil
    show ?thesis
    proof (cases "as_evt_queue s")
      case (Cons ev q)
      moreover have "evt_code ev \<noteq> evt_code evt" using assms(1) Cons by (auto simp: deaf_def is_api_def)
      ultimately show ?thesis using assms(1) Nil unfolding smEvtProcRoutine_def Let_def
        by (auto intro!: handle) (auto simp: deaf_def)
    qed (use Nil plain in \<open>simp add: smEvtProcRoutine_def\<close>)
  qed
qed

lemma deaf_step:
  assumes "deaf n evt s" "evt \<noteq> PREPARE_SNAPSHOT" "label_other (evt_code evt) l" "api_step e l s = Some s'"
  shows "deaf n evt s'"
proof (cases l)
  case (L_call m evts)
  then show ?thesis using assms by (auto simp: deaf_def set_pc_def split: if_splits)
next
  case (L_post m)
  then obtain evts where evts: "as_pc s m = C_locked evts" "s' = set_pc m (C_posted evts) (procAPI (hd evts) s)"
    using assms(4) by (auto split: caller_pc.splits)
  then have "m \<noteq> n" using assms(1) by (auto simp: deaf_def)
  with other_pc [OF assms(1) this] evts(1) have "evts \<noteq> []" "\<forall>ev\<in>set evts. evt_code ev \<noteq> evt_code evt" by simp_all
  with evts(2) assms(1) \<open>m \<noteq> n\<close> show ?thesis by (auto simp: deaf_def set_pc_def procAPI_def)
next
  case (L_post_fail m rc)
  then obtain evts where evts: "as_pc s m = C_locked evts" "s' = after_request m (tl evts) (C_failed rc) s"
    using assms(4) by (auto split: caller_pc.splits if_splits)
  then have "m \<noteq> n" using assms(1) by (auto simp: deaf_def)
  moreover from other_pc [OF assms(1) this] evts(1) have "\<forall>ev\<in>set (tl evts). evt_code ev \<noteq> evt_code evt"
    by (auto dest: list.set_sel(2))
  ultimately show ?thesis using deaf_after [OF assms(1)] evts(2) by simp
next
  case (L_wait m)
  then obtain evts where evts: "as_pc s m = C_posted evts" "s' = cond_wait m evts (s\<lparr>as_result := api_result_zero\<rparr>)"
    using assms(4) by (auto split: caller_pc.splits)
  then have "m \<noteq> n" using assms(1) by (auto simp: deaf_def)
  with other_pc [OF assms(1) this] evts(1) have "evts \<noteq> []" "\<forall>ev\<in>set evts. evt_code ev \<noteq> evt_code evt" by simp_all
  with evts(2) assms(1) \<open>m \<noteq> n\<close> evt_code_pos [of evt] show ?thesis
    by (auto simp: deaf_def set_pc_def cond_wait_def api_result_zero_def)
next
  case (L_wake m)
  then show ?thesis using assms deaf_wake by (auto simp del: api_run.simps)
next
  case (L_relock m)
  then obtain evts where evts: "as_pc s m = C_woken evts"
    and s': "s' = (if request_api (as_result s) = evt_code (hd evts) then after_request m (tl evts) (C_returned (as_result s)) s
      else cond_wait m evts s)"
    using assms(4) by (auto split: caller_pc.splits if_splits)
  show ?thesis
  proof (cases "m = n")
    case True
    then show ?thesis using assms(1) evts s' by (auto simp: deaf_def cond_wait_def set_pc_def)
  next
    case False
    from other_pc [OF assms(1) this] evts have o: "evts \<noteq> []" "\<forall>ev\<in>set evts. evt_code ev \<noteq> evt_code evt" by simp_all
    then have "\<forall>ev\<in>set (tl evts). evt_code ev \<noteq> evt_code evt" by (auto dest: list.set_sel(2))
    then have "deaf n evt (after_request m (tl evts) (C_returned (as_result s)) s)"
      using deaf_after [OF assms(1) False] by simp
    moreover have "deaf n evt (cond_wait m evts s)"
      using assms(1) False o by (auto simp: deaf_def cond_wait_def set_pc_def)
    ultimately show ?thesis by (simp add: s')
  qed
next
  case L_worker
  then show ?thesis using assms deaf_loop by (auto split: if_splits)
next
  case (L_signal w)
  then obtain r rs where w: "as_worker s = W_signal (r # rs)"
    "wake_one w (s\<lparr>as_result := r, as_worker := (if rs = [] then W_wait else W_signal rs)\<rparr>) = Some s'"
    using assms(4) by (auto split: sm_thread_pc.splits list.splits if_splits)
  then have "deaf n evt (s\<lparr>as_result := r, as_worker := (if rs = [] then W_wait else W_signal rs)\<rparr>)"
    using assms(1) by (auto simp: deaf_def worker_other_def)
  then show ?thesis using deaf_wake w(2) by blast
next
  case (L_event ev)
  then show ?thesis using assms by (auto simp: deaf_def procEvt_def split: if_splits)
qed

lemma deaf_run:
  "deaf n evt s \<Longrightarrow> evt \<noteq> PREPARE_SNAPSHOT \<Longrightarrow> list_all (label_other (evt_code evt)) ls \<Longrightarrow> api_run e ls s = Some s' \<Longrightarrow>
    deaf n evt s'"
  by (induction ls arbitrary: s) (auto split: option.splits dest: deaf_step)

text \<open>The schedule: caller \<^verbatim>\<open>n\<close> waits, its result is signalled and wakes it; before it has the lock again, caller \<^verbatim>\<open>m\<close>
  makes its own call and \<^verbatim>\<open>waitAPIResult\<close> clears the result.\<close>

definition lost_schedule :: "nat \<Rightarrow> nat \<Rightarrow> sm_evt \<Rightarrow> sm_evt \<Rightarrow> api_label list" where
  "lost_schedule n m evt1 evt2 =
     [L_call n [evt1], L_post n, L_wait n, L_worker, L_signal (Some n),
      L_call m [evt2], L_post m, L_wait m, L_relock n, L_worker, L_signal (Some m), L_relock m]"

lemma lost_schedule_runs:
  assumes "n \<noteq> m" "evt_code evt1 \<noteq> evt_code evt2" "is_api evt1"
    and r1: "new_signals h (fst (stateMachine e evt1 h)) = [r1]"
    and r2: "new_signals (fst (stateMachine e evt1 h)) (fst (stateMachine e evt2 (fst (stateMachine e evt1 h)))) = [r2]"
      "request_api r2 = evt_code evt2"
  shows "\<exists>s. api_run e (lost_schedule n m evt1 evt2) (api_idle h) = Some s \<and> deaf n evt1 s \<and> as_pc s m = C_returned r2 \<and>
    as_pc s n = C_waiting [evt1] \<and> as_waiters s = [n] \<and> as_lock s = None"
  using assms evt_code_pos [of evt1]
  by (simp add: lost_schedule_def api_idle_def set_pc_def procAPI_def smEvtProcRoutine_def handle_evt_def cond_wait_def
      wake_one_def after_request_def Let_def api_result_zero_def deaf_def worker_other_def)

lemma answered_api: "answered e evt h \<Longrightarrow> is_api evt"
  by (auto simp: answered_def expected_answers_def is_api_def split: qcamera_state.splits sm_evt.splits internal_evt.splits if_splits)

text \<open>C39: Two API calls at a time can lose an answer.  The lock is given back while a call waits, and the result is one
  variable, which every call clears before it waits.  Whatever two different requests two callers make, when each would be
  answered alone: there is a schedule after which the second call has its answer, the first answer has been signalled
  and is gone, and the first caller never returns, whatever calls of other kinds, events and wakeups follow.\<close>

theorem concurrent_call_loses_its_answer:
  assumes "n \<noteq> m" "evt_code evt1 \<noteq> evt_code evt2" "evt1 \<noteq> PREPARE_SNAPSHOT"
    and "answered e evt1 h" "answered e evt2 (fst (stateMachine e evt1 h))"
  shows "\<exists>s. api_run e (lost_schedule n m evt1 evt2) (api_idle h) = Some s \<and> as_pc s m \<in> range C_returned \<and>
    (\<forall>ls s'. list_all (label_other (evt_code evt1)) ls \<and> api_run e ls s = Some s' \<longrightarrow>
      as_pc s' n \<in> {C_waiting [evt1], C_woken [evt1]})"
proof -
  obtain r1 where r1: "new_signals h (fst (stateMachine e evt1 h)) = [r1]" using answered_signal [OF assms(4)] by metis
  obtain r2 where r2: "new_signals (fst (stateMachine e evt1 h)) (fst (stateMachine e evt2 (fst (stateMachine e evt1 h)))) = [r2]"
    "request_api r2 = evt_code evt2" using answered_signal [OF assms(5)] by metis
  from lost_schedule_runs [OF assms(1,2) answered_api [OF assms(4)] r1 r2]
  obtain s where s: "api_run e (lost_schedule n m evt1 evt2) (api_idle h) = Some s" "deaf n evt1 s" "as_pc s m = C_returned r2" by metis
  have "as_pc s' n \<in> {C_waiting [evt1], C_woken [evt1]}"
    if "list_all (label_other (evt_code evt1)) ls" "api_run e ls s = Some s'" for ls s'
    using deaf_run [OF s(2) assms(3) that] by (simp add: deaf_def)
  with s show ?thesis by blast
qed

theorem concurrent_call_loses_its_answer_witness:
  "(let s = the (api_run good_env (lost_schedule 1 2 PREVIEW_ENABLED RECORDING_ENABLED) (api_idle recording_hal));
        s' = the (api_run good_env [L_wake 1, L_relock 1] s) in
    as_pc s 2 \<in> range C_returned \<and> as_pc s' 1 \<in> {C_waiting [PREVIEW_ENABLED], C_woken [PREVIEW_ENABLED]})"
proof -
  let ?h = "fst (stateMachine good_env PREVIEW_ENABLED recording_hal)"
  have h: "m_state ?h = QCAMERA_SM_STATE_RECORDING"
    by (simp add: stateMachine.simps recording_state reply_value_def signalAPIResult_def)
  have a: "answered good_env PREVIEW_ENABLED recording_hal" "answered good_env RECORDING_ENABLED ?h"
    by (simp_all add: answered_def expected_answers_def is_api_def recording_state h)
  from concurrent_call_loses_its_answer [of 1 2 PREVIEW_ENABLED RECORDING_ENABLED, OF _ _ _ a]
  obtain s where s: "api_run good_env (lost_schedule 1 2 PREVIEW_ENABLED RECORDING_ENABLED) (api_idle recording_hal) = Some s"
    "as_pc s 2 \<in> range C_returned" and
    stuck: "\<And>ls s'. list_all (label_other (evt_code PREVIEW_ENABLED)) ls \<Longrightarrow> api_run good_env ls s = Some s' \<Longrightarrow>
      as_pc s' 1 \<in> {C_waiting [PREVIEW_ENABLED], C_woken [PREVIEW_ENABLED]}"
    by auto
  obtain r1 where r1: "new_signals recording_hal ?h = [r1]" using answered_signal [OF a(1)] by metis
  obtain r2 where r2: "new_signals ?h (fst (stateMachine good_env RECORDING_ENABLED ?h)) = [r2]"
    "request_api r2 = evt_code RECORDING_ENABLED" using answered_signal [OF a(2)] by metis
  have "as_pc s 1 = C_waiting [PREVIEW_ENABLED]" "as_waiters s = [1]" "as_lock s = None" "deaf 1 PREVIEW_ENABLED s"
    using lost_schedule_runs [OF _ _ _ r1 r2, of 1 2] s(1) by (auto simp: is_api_def)
  then have "api_run good_env [L_wake 1, L_relock 1] s \<noteq> None"
    by (auto simp: wake_one_def set_pc_def deaf_def)
  then obtain s' where "api_run good_env [L_wake 1, L_relock 1] s = Some s'" by blast
  with stuck [of "[L_wake 1, L_relock 1]" s'] s show ?thesis by (simp add: Let_def)
qed

section \<open>The entry points\<close>

text \<open>The values of a result are one union in the code, cleared before it is filled: \<^verbatim>\<open>enabled\<close> and \<^verbatim>\<open>handle\<close> are the
  same word.\<close>

fun result_enabled :: "api_result \<Rightarrow> i32" where
  "result_enabled r = (case ar_value r of RESULT_ENABLE_FLAG v \<Rightarrow> v | RESULT_HANDLE v \<Rightarrow> v | RESULT_PARAMS a \<Rightarrow> of_nat a | RESULT_DEF \<Rightarrow> 0)"

fun result_params :: "api_result \<Rightarrow> addr" where
  "result_params r = (case ar_value r of RESULT_PARAMS a \<Rightarrow> a | RESULT_ENABLE_FLAG v \<Rightarrow> unat v | RESULT_HANDLE v \<Rightarrow> unat v | RESULT_DEF \<Rightarrow> 0)"

text \<open>The pattern of an entry point: a null object, a request that cannot be posted (\<^verbatim>\<open>post\<close> is what \<^verbatim>\<open>processAPI\<close>
  returns), or the answer.  \<^verbatim>\<open>None\<close> is a caller that never returns.\<close>

definition entry :: "hal_env \<Rightarrow> i32 \<Rightarrow> sm_evt \<Rightarrow> (api_result \<Rightarrow> 'a) \<Rightarrow> (i32 \<Rightarrow> 'a) \<Rightarrow> 'a \<Rightarrow> hal option \<Rightarrow> (hal option \<times> 'a) option" where
  "entry e post evt answer failure null hw =
     (case hw of
        None \<Rightarrow> Some (None, null)
      | Some h \<Rightarrow>
          (if post \<noteq> NO_ERROR then Some (Some h, failure post)
           else map_option (\<lambda>(h', r). (Some h', answer r)) (sync_request e [] evt h)))"

definition entry_status :: "hal_env \<Rightarrow> i32 \<Rightarrow> sm_evt \<Rightarrow> hal option \<Rightarrow> (hal option \<times> i32) option" where
  "entry_status e post evt = entry e post evt ar_status (\<lambda>rc. rc) BAD_VALUE"

definition entry_enabled :: "hal_env \<Rightarrow> i32 \<Rightarrow> sm_evt \<Rightarrow> hal option \<Rightarrow> (hal option \<times> i32) option" where
  "entry_enabled e post evt = entry e post evt result_enabled (\<lambda>rc. rc) BAD_VALUE"

definition entry_void :: "hal_env \<Rightarrow> i32 \<Rightarrow> sm_evt \<Rightarrow> hal option \<Rightarrow> (hal option \<times> unit) option" where
  "entry_void e post evt = entry e post evt (\<lambda>_. ()) (\<lambda>_. ()) ()"

definition set_preview_window :: "hal_env \<Rightarrow> i32 \<Rightarrow> addr \<Rightarrow> hal option \<Rightarrow> (hal option \<times> i32) option" where
  "set_preview_window e post w = entry_status e post (SET_PREVIEW_WINDOW w)"

definition set_CallBacks :: "hal_env \<Rightarrow> i32 \<Rightarrow> hal_callbacks \<Rightarrow> hal option \<Rightarrow> (hal option \<times> unit) option" where
  "set_CallBacks e post cbs = entry_void e post (SET_CALLBACKS cbs)"

definition enable_msg_type :: "hal_env \<Rightarrow> i32 \<Rightarrow> i32 \<Rightarrow> hal option \<Rightarrow> (hal option \<times> unit) option" where
  "enable_msg_type e post m = entry_void e post (ENABLE_MSG_TYPE m)"

definition disable_msg_type :: "hal_env \<Rightarrow> i32 \<Rightarrow> i32 \<Rightarrow> hal option \<Rightarrow> (hal option \<times> unit) option" where
  "disable_msg_type e post m = entry_void e post (DISABLE_MSG_TYPE m)"

definition msg_type_enabled :: "hal_env \<Rightarrow> i32 \<Rightarrow> i32 \<Rightarrow> hal option \<Rightarrow> (hal option \<times> i32) option" where
  "msg_type_enabled e post m = entry_enabled e post (MSG_TYPE_ENABLED m)"

definition stop_preview :: "hal_env \<Rightarrow> i32 \<Rightarrow> hal option \<Rightarrow> (hal option \<times> unit) option" where
  "stop_preview e post = entry_void e post STOP_PREVIEW"

definition preview_enabled :: "hal_env \<Rightarrow> i32 \<Rightarrow> hal option \<Rightarrow> (hal option \<times> i32) option" where
  "preview_enabled e post = entry_enabled e post PREVIEW_ENABLED"

definition store_meta_data_in_buffers :: "hal_env \<Rightarrow> i32 \<Rightarrow> i32 \<Rightarrow> hal option \<Rightarrow> (hal option \<times> i32) option" where
  "store_meta_data_in_buffers e post n = entry_status e post (STORE_METADATA_IN_BUFS n)"

definition start_recording :: "hal_env \<Rightarrow> i32 \<Rightarrow> hal option \<Rightarrow> (hal option \<times> i32) option" where
  "start_recording e post = entry_status e post START_RECORDING"

definition stop_recording :: "hal_env \<Rightarrow> i32 \<Rightarrow> hal option \<Rightarrow> (hal option \<times> unit) option" where
  "stop_recording e post = entry_void e post STOP_RECORDING"

definition recording_enabled :: "hal_env \<Rightarrow> i32 \<Rightarrow> hal option \<Rightarrow> (hal option \<times> i32) option" where
  "recording_enabled e post = entry_enabled e post RECORDING_ENABLED"

definition release_recording_frame :: "hal_env \<Rightarrow> i32 \<Rightarrow> addr \<Rightarrow> hal option \<Rightarrow> (hal option \<times> unit) option" where
  "release_recording_frame e post opaque = entry_void e post (RELEASE_RECORIDNG_FRAME opaque)"

definition auto_focus :: "hal_env \<Rightarrow> i32 \<Rightarrow> hal option \<Rightarrow> (hal option \<times> i32) option" where
  "auto_focus e post = entry_status e post START_AUTO_FOCUS"

definition cancel_auto_focus :: "hal_env \<Rightarrow> i32 \<Rightarrow> hal option \<Rightarrow> (hal option \<times> i32) option" where
  "cancel_auto_focus e post = entry_status e post STOP_AUTO_FOCUS"

definition cancel_picture :: "hal_env \<Rightarrow> i32 \<Rightarrow> hal option \<Rightarrow> (hal option \<times> i32) option" where
  "cancel_picture e post = entry_status e post CANCEL_PICTURE"

definition set_parameters :: "hal_env \<Rightarrow> i32 \<Rightarrow> (parm_key \<times> parm_string) list \<Rightarrow> hal option \<Rightarrow> (hal option \<times> i32) option" where
  "set_parameters e post parms = entry_status e post (SET_PARAMS parms)"

definition put_parameters :: "hal_env \<Rightarrow> i32 \<Rightarrow> addr \<Rightarrow> hal option \<Rightarrow> (hal option \<times> unit) option" where
  "put_parameters e post parm = entry_void e post (PUT_PARAMS parm)"

definition send_command :: "hal_env \<Rightarrow> i32 \<Rightarrow> i32 \<Rightarrow> i32 \<Rightarrow> i32 \<Rightarrow> hal option \<Rightarrow> (hal option \<times> i32) option" where
  "send_command e post cmd arg1 arg2 = entry_status e post (SEND_COMMAND cmd arg1 arg2)"

definition release_camera :: "hal_env \<Rightarrow> i32 \<Rightarrow> hal option \<Rightarrow> (hal option \<times> unit) option" where
  "release_camera e post = entry_void e post RELEASE"

definition dump_camera :: "hal_env \<Rightarrow> i32 \<Rightarrow> i32 \<Rightarrow> hal option \<Rightarrow> (hal option \<times> i32) option" where
  "dump_camera e post fd = entry_status e post (DUMP fd)"

definition register_face_image :: "hal_env \<Rightarrow> i32 \<Rightarrow> addr \<Rightarrow> addr \<Rightarrow> hal option \<Rightarrow> (hal option \<times> i32) option" where
  "register_face_image e post img_ptr config = entry_enabled e post (REG_FACE_IMAGE img_ptr config)"

definition get_parameters :: "hal_env \<Rightarrow> i32 \<Rightarrow> hal option \<Rightarrow> (hal option \<times> addr) option" where
  "get_parameters e post = entry e post GET_PARAMS result_params (\<lambda>_. 0) 0"

definition start_preview :: "hal_env \<Rightarrow> i32 \<Rightarrow> hal option \<Rightarrow> (hal option \<times> i32) option" where
  "start_preview e post hw =
     (case hw of
        None \<Rightarrow> Some (None, BAD_VALUE)
      | Some h \<Rightarrow>
          entry_status e post (if m_bNoDisplayMode (mParameters h) then START_NODISPLAY_PREVIEW else START_PREVIEW) (Some h))"

text \<open>\<^verbatim>\<open>take_picture\<close> makes two requests under one lock, and ignores the status of the first; \<^verbatim>\<open>arr\<close> are the events that
  arrive while it waits for the first answer.\<close>

definition take_picture :: "hal_env \<Rightarrow> i32 \<Rightarrow> i32 \<Rightarrow> sm_evt list \<Rightarrow> hal option \<Rightarrow> (hal option \<times> i32) option" where
  "take_picture e post1 post2 arr hw =
     (case hw of
        None \<Rightarrow> Some (None, BAD_VALUE)
      | Some h \<Rightarrow>
          (case (if post1 = NO_ERROR then map_option fst (sync_request e arr PREPARE_SNAPSHOT h) else Some h) of
             None \<Rightarrow> None
           | Some h' \<Rightarrow> entry_status e post2 TAKE_PICTURE (Some h')))"

end
