(* ===== verification/ParmFrame.thy ===== *)
theory ParmFrame
  imports ParmUpdate
begin

text \<open>
  What a setter may do.  One relation, \<^verbatim>\<open>sets_ok\<close>, covers all of them: a string that is set or left pending is one that
  the camera supports, only strings without such a check are removed, and every entry that is added to the batch has the
  size of the parameter.  The properties of requests in theory \<^verbatim>\<open>ParmProps\<close> rest on the lemma \<^verbatim>\<open>run_setter_ok\<close>.
\<close>

section \<open>Supported values\<close>

definition mode_tables :: "parm_env \<Rightarrow> (parm_key \<times> name_table) list" where
  "mode_tables e =
     [(KEY_QC_ZSL, ON_OFF_MODES_MAP), (KEY_RECORDING_HINT, TRUE_FALSE_MODES_MAP), (KEY_QC_AUTO_EXPOSURE, AUTO_EXPOSURE_MAP),
      (KEY_QC_ISO_MODE, ISO_MODES_MAP), (KEY_AUTO_EXPOSURE_LOCK, TRUE_FALSE_MODES_MAP),
      (KEY_AUTO_WHITEBALANCE_LOCK, TRUE_FALSE_MODES_MAP), (KEY_QC_MEMORY_COLOR_ENHANCEMENT, ENABLE_DISABLE_MODES_MAP),
      (KEY_QC_DIS, ENABLE_DISABLE_MODES_MAP), (KEY_QC_VIDEO_HIGH_FRAME_RATE, HFR_MODES_MAP),
      (KEY_QC_LENSSHADE, ENABLE_DISABLE_MODES_MAP), (KEY_QC_SELECTABLE_ZONE_AF, FOCUS_ALGO_MAP),
      (KEY_QC_REDEYE_REDUCTION, ENABLE_DISABLE_MODES_MAP), (KEY_QC_VIDEO_HDR, ON_OFF_MODES_MAP),
      (KEY_QC_PREVIEW_FLIP, FLIP_MODES_MAP), (KEY_QC_VIDEO_FLIP, FLIP_MODES_MAP),
      (KEY_QC_SNAPSHOT_PICTURE_FLIP, FLIP_MODES_MAP), (KEY_QC_SCENE_DETECT, ON_OFF_MODES_MAP),
      (KEY_QC_DENOISE, DENOISE_ON_OFF_MODES_MAP), (KEY_QC_FACE_RECOGNITION, ON_OFF_MODES_MAP),
      (KEY_EFFECT, EFFECT_MODES_MAP (pe_fw e)), (KEY_WHITE_BALANCE, WHITE_BALANCE_MODES_MAP (pe_fw e)),
      (KEY_ANTIBANDING, ANTIBANDING_MODES_MAP (pe_fw e)), (KEY_FLASH_MODE, FLASH_MODES_MAP (pe_fw e)),
      (KEY_FOCUS_MODE, FOCUS_MODES_MAP (pe_fw e)), (KEY_SCENE_MODE, SCENE_MODES_MAP (pe_fw e)),
      (KEY_PREVIEW_FORMAT, PREVIEW_FORMATS_MAP (pe_fw e)), (KEY_PICTURE_FORMAT, PICTURE_TYPES_MAP (pe_fw e))]"

definition size_tables :: "parm_env \<Rightarrow> (parm_key \<times> cam_dimension list) list" where
  "size_tables e = [(KEY_PREVIEW_SIZE, preview_sizes_tbl (pe_cap e)), (KEY_VIDEO_SIZE, video_sizes_tbl (pe_cap e)),
     (KEY_PICTURE_SIZE, picture_sizes_tbl (pe_cap e))]"

definition control_range :: "cam_control_range \<Rightarrow> int \<times> int" where
  "control_range c = (sint (min_value c), sint (max_value c))"

definition number_ranges :: "parm_env \<Rightarrow> (parm_key \<times> int \<times> int) list" where
  "number_ranges e = (let cap = pe_cap e in
     [(KEY_QC_BRIGHTNESS, control_range (brightness_ctrl cap)), (KEY_QC_SHARPNESS, control_range (sharpness_ctrl cap)),
      (KEY_QC_SATURATION, control_range (saturation_ctrl cap)), (KEY_QC_CONTRAST, control_range (contrast_ctrl cap)),
      (KEY_QC_SCE_FACTOR, control_range (sce_ctrl cap)),
      (KEY_EXPOSURE_COMPENSATION, sint (exposure_compensation_min cap), sint (exposure_compensation_max cap)),
      (KEY_ZOOM, 0, int (length (zoom_ratio_tbl cap)) - 1)])"

text \<open>A string that the camera supports as the value of a key; every string for a key without a table.\<close>

definition value_ok :: "parm_env \<Rightarrow> parm_key \<Rightarrow> parm_string \<Rightarrow> bool" where
  "value_ok e k s \<longleftrightarrow>
     (case map_of (mode_tables e) k of None \<Rightarrow> True | Some tbl \<Rightarrow> lookupAttr tbl (Some s) \<noteq> NAME_NOT_FOUND) \<and>
     (case map_of (size_tables e) k of None \<Rightarrow> True | Some tbl \<Rightarrow> s \<in> fw_show_size e ` set tbl) \<and>
     (case map_of (number_ranges e) k of None \<Rightarrow> True
      | Some (lo, hi) \<Rightarrow> \<exists>v. lo \<le> sint v \<and> sint v \<le> hi \<and> s = show_i32 v)"

definition checked_key :: "parm_env \<Rightarrow> parm_key \<Rightarrow> bool" where
  "checked_key e k \<longleftrightarrow> k \<in> set (map fst (mode_tables e)) \<union> set (map fst (size_tables e)) \<union> set (map fst (number_ranges e))"

section \<open>Sizes of entries\<close>

text \<open>The type that \<^verbatim>\<open>cam_intf.h\<close> declares for a parameter, as its size.\<close>

definition declared_size :: "nat \<Rightarrow> nat" where
  "declared_size t =
     (if t = CAM_INTF_PARM_FPS_RANGE then 8 else if t = CAM_INTF_PARM_FOCUS_MODE then 1 else if t = CAM_INTF_PARM_AEC_ROI then 48
      else if t = CAM_INTF_PARM_AF_ROI then 112 else if t = CAM_INTF_PARM_FD then 8 else if t = CAM_INTF_PARM_WAVELET_DENOISE then 8
      else if t = CAM_INTF_PARM_HDR then 12 else 4)"

text \<open>Three parameters are sent with another type than the declared one: the focus mode as an \<^verbatim>\<open>int32_t\<close>, the bracketing as
  \<^verbatim>\<open>cam_exp_bracketing_t\<close>, and the request of a picture without compensation as a \<^verbatim>\<open>bool\<close>.\<close>

definition sent_size :: "nat \<Rightarrow> nat" where
  "sent_size t =
     (if t = CAM_INTF_PARM_FOCUS_MODE then 4 else if t = CAM_INTF_PARM_HDR then 36 else if t = CAM_INTF_PARM_HDR_NEED_1X then 1
      else declared_size t)"

definition entry_typed :: "nat \<times> u8 list \<Rightarrow> bool" where
  "entry_typed = (\<lambda>(t, v). t \<le> CAM_INTF_PARM_VIDEO_HDR \<and> length v = sent_size t)"

section \<open>The relation\<close>

definition map_ok :: "(parm_key \<Rightarrow> parm_string option \<Rightarrow> bool) \<Rightarrow> parm_map \<Rightarrow> parm_map \<Rightarrow> bool" where
  "map_ok C m m' \<longleftrightarrow> (\<forall>k. m' k = m k \<or> C k (m' k))"

lemma map_ok_refl [simp]: "map_ok C m m"
  by (simp add: map_ok_def)

lemma map_ok_trans: "map_ok C m m' \<Longrightarrow> map_ok C m' m'' \<Longrightarrow> map_ok C m m''"
  unfolding map_ok_def by metis

lemma map_ok_upd: "map_ok C m m' \<Longrightarrow> C k v \<Longrightarrow> map_ok C m (m'(k := v))"
  by (simp add: map_ok_def)

definition now_ok :: "parm_env \<Rightarrow> parm_key \<Rightarrow> parm_string option \<Rightarrow> bool" where
  "now_ok e k v = (case v of None \<Rightarrow> \<not> checked_key e k | Some s \<Rightarrow> value_ok e k s)"

definition later_ok :: "parm_env \<Rightarrow> parm_key \<Rightarrow> parm_string option \<Rightarrow> bool" where
  "later_ok e k v = (case v of None \<Rightarrow> False | Some s \<Rightarrow> value_ok e k s)"

definition sets_ok :: "parm_env \<Rightarrow> parameters \<Rightarrow> parameters \<Rightarrow> bool" where
  "sets_ok e p p' \<longleftrightarrow> map_ok (now_ok e) (p_map p) (p_map p') \<and> map_ok (later_ok e) (m_tempMap p) (m_tempMap p') \<and>
     (\<exists>es. m_pParamBuf p' = m_pParamBuf p @ es \<and> list_all entry_typed es) \<and>
     (eb_values (m_AEBracketingClient p') = eb_values (m_AEBracketingClient p) \<or>
      length (eb_values (m_AEBracketingClient p')) = MAX_EXP_BRACKETING_LENGTH)"

lemma sets_ok_refl [simp]: "sets_ok e p p"
  by (simp add: sets_ok_def)

text \<open>Building a chain from its start: one rule per assignment.\<close>

lemma sets_ok_set: "sets_ok e p q \<Longrightarrow> value_ok e k s \<Longrightarrow> sets_ok e p (set_parm k s q)"
  by (simp add: sets_ok_def set_parm_def now_ok_def map_ok_upd)

lemma sets_ok_remove: "sets_ok e p q \<Longrightarrow> \<not> checked_key e k \<Longrightarrow> sets_ok e p (remove_parm k q)"
  by (simp add: sets_ok_def remove_parm_def now_ok_def map_ok_upd)

lemma sets_ok_pending: "sets_ok e p q \<Longrightarrow> value_ok e k s \<Longrightarrow> sets_ok e p (updateParamEntry k s q)"
  by (simp add: sets_ok_def updateParamEntry_def later_ok_def map_ok_upd)

lemma sets_ok_add: "sets_ok e p q \<Longrightarrow> entry_typed (t, v) \<Longrightarrow> sets_ok e p (fst (add_parm t v q))"
  by (auto simp: sets_ok_def add_parm_def)

lemma sets_ok_add': "sets_ok e p q \<Longrightarrow> entry_typed (t, v) \<Longrightarrow> add_parm t v q = (q', rc) \<Longrightarrow> sets_ok e p q'"
  using sets_ok_add by fastforce

lemma sets_ok_field [simp]:
  "sets_ok e p (m_bNeedRestart_update f1 q) \<longleftrightarrow> sets_ok e p q"
  "sets_ok e p (m_LiveSnapshotSize_update f2 q) \<longleftrightarrow> sets_ok e p q"
  "sets_ok e p (mPreviewFormat_update f3 q) \<longleftrightarrow> sets_ok e p q"
  "sets_ok e p (mPictureFormat_update f4 q) \<longleftrightarrow> sets_ok e p q"
  "sets_ok e p (m_bFixedFrameRateSet_update f5 q) \<longleftrightarrow> sets_ok e p q"
  "sets_ok e p (m_bUpdateEffects_update f6 q) \<longleftrightarrow> sets_ok e p q"
  "sets_ok e p (mFocusMode_update f7 q) \<longleftrightarrow> sets_ok e p q"
  "sets_ok e p (m_bNeedLockCAF_update f8 q) \<longleftrightarrow> sets_ok e p q"
  "sets_ok e p (m_bCAFLocked_update f9 q) \<longleftrightarrow> sets_ok e p q"
  "sets_ok e p (m_bAFRunning_update f10 q) \<longleftrightarrow> sets_ok e p q"
  "sets_ok e p (m_bSceneTransitionAuto_update f11 q) \<longleftrightarrow> sets_ok e p q"
  "sets_ok e p (m_bHDREnabled_update f12 q) \<longleftrightarrow> sets_ok e p q"
  "sets_ok e p (m_bHDR1xFrameEnabled_update f13 q) \<longleftrightarrow> sets_ok e p q"
  "sets_ok e p (m_nBurstNum_update f14 q) \<longleftrightarrow> sets_ok e p q"
  "sets_ok e p (m_bWNROn_update f15 q) \<longleftrightarrow> sets_ok e p q"
  "sets_ok e p (m_nFaceProcMask_update f16 q) \<longleftrightarrow> sets_ok e p q"
  "sets_ok e p (m_bNoDisplayMode_update f17 q) \<longleftrightarrow> sets_ok e p q"
  "sets_ok e p (m_bZslMode_new_update f18 q) \<longleftrightarrow> sets_ok e p q"
  "sets_ok e p (m_bRecordingHint_new_update f19 q) \<longleftrightarrow> sets_ok e p q"
  "sets_ok e p (m_bPreviewFlipChanged_update f20 q) \<longleftrightarrow> sets_ok e p q"
  "sets_ok e p (m_bVideoFlipChanged_update f21 q) \<longleftrightarrow> sets_ok e p q"
  "sets_ok e p (m_bSnapshotFlipChanged_update f22 q) \<longleftrightarrow> sets_ok e p q"
  "sets_ok e p (m_overrun_update f23 q) \<longleftrightarrow> sets_ok e p q"
  by (simp_all add: sets_ok_def)

lemma sets_ok_client:
  "sets_ok e p q \<Longrightarrow> length (eb_values b) = MAX_EXP_BRACKETING_LENGTH \<Longrightarrow> sets_ok e p (q\<lparr>m_AEBracketingClient := b\<rparr>)"
  by (simp add: sets_ok_def)

lemma sets_ok_trans: "sets_ok e p q \<Longrightarrow> sets_ok e q r \<Longrightarrow> sets_ok e p r"
  unfolding sets_ok_def by (elim conjE exE, intro conjI) (erule (1) map_ok_trans, erule (1) map_ok_trans, simp, elim disjE, simp_all)

lemma if_changed_ok: "(\<And>s. sets_ok e p (fst (f s p))) \<Longrightarrow> sets_ok e p (fst (if_changed k f params p))"
  by (auto simp: if_changed_def split: option.split)

lemma absent: "k \<notin> set (map fst xs) \<Longrightarrow> map_of xs k = None"
  by (simp add: map_of_eq_None_iff)

lemma value_free: "\<not> checked_key e k \<Longrightarrow> value_ok e k s"
  unfolding checked_key_def value_ok_def Un_iff de_Morgan_disj by (elim conjE) (simp only: absent option.case simp_thms)

lemma mode_value_ok:
  assumes "map_of (mode_tables e) k = Some tbl" "map_of (size_tables e) k = None" "map_of (number_ranges e) k = None"
    "lookupAttr tbl (Some s) \<noteq> NAME_NOT_FOUND"
  shows "value_ok e k s"
  using assms by (simp add: value_ok_def)

lemma size_value_ok:
  assumes "map_of (size_tables e) k = Some tbl" "map_of (mode_tables e) k = None" "map_of (number_ranges e) k = None" "d \<in> set tbl"
  shows "value_ok e k (fw_show_size e d)"
  using assms by (simp add: value_ok_def)

lemma number_value_ok:
  assumes "map_of (number_ranges e) k = Some (lo, hi)" "map_of (mode_tables e) k = None" "map_of (size_tables e) k = None"
    "lo \<le> sint v" "sint v \<le> hi"
  shows "value_ok e k (show_i32 v)"
  using assms by (auto simp: value_ok_def)

lemmas key_lists = mode_tables_def size_tables_def number_ranges_def Let_def

lemmas parm_ids = CAM_INTF_PARM_VIDEO_HDR_def CAM_INTF_PARM_ANTIBANDING_def CAM_INTF_PARM_EXPOSURE_COMPENSATION_def
  CAM_INTF_PARM_WHITE_BALANCE_def CAM_INTF_PARM_EFFECT_def CAM_INTF_PARM_BESTSHOT_MODE_def CAM_INTF_PARM_LED_MODE_def
  CAM_INTF_PARM_SHARPNESS_def CAM_INTF_PARM_CONTRAST_def CAM_INTF_PARM_SATURATION_def CAM_INTF_PARM_BRIGHTNESS_def
  CAM_INTF_PARM_ZOOM_def CAM_INTF_PARM_AEC_ROI_def CAM_INTF_PARM_AF_ROI_def CAM_INTF_PARM_FOCUS_MODE_def
  CAM_INTF_PARM_SCE_FACTOR_def CAM_INTF_PARM_WAVELET_DENOISE_def CAM_INTF_PARM_ASD_ENABLE_def CAM_INTF_PARM_HDR_NEED_1X_def
  CAM_INTF_PARM_AEC_LOCK_def CAM_INTF_PARM_FPS_RANGE_def CAM_INTF_PARM_AWB_LOCK_def CAM_INTF_PARM_DIS_ENABLE_def
  CAM_INTF_PARM_ISO_def CAM_INTF_PARM_ROLLOFF_def CAM_INTF_PARM_AEC_ALGO_TYPE_def CAM_INTF_PARM_FOCUS_ALGO_TYPE_def
  CAM_INTF_PARM_FD_def CAM_INTF_PARM_MCE_def CAM_INTF_PARM_HFR_def CAM_INTF_PARM_REDEYE_REDUCTION_def
  CAM_INTF_PARM_HISTOGRAM_def CAM_INTF_PARM_RECORDING_HINT_def CAM_INTF_PARM_HDR_def CAM_INTF_PARM_FRAMESKIP_def
  CAM_INTF_PARM_ZSL_MODE_def CAM_INTF_PARM_LOCK_CAF_def CAM_INTF_PARM_HAL_VERSION_def

lemma le_bytes_length [simp]: "length (le_bytes v) = 4"
  by (simp add: le_bytes_def)

lemma int_entry: "t \<le> CAM_INTF_PARM_VIDEO_HDR \<Longrightarrow> sent_size t = 4 \<Longrightarrow> entry_typed (t, le_bytes v)"
  by (simp add: entry_typed_def)

lemma sets_ok_mode:
  assumes "sets_ok e p q" "map_of (mode_tables e) k = Some tbl" "map_of (size_tables e) k = None" "map_of (number_ranges e) k = None"
    "t \<le> CAM_INTF_PARM_VIDEO_HDR" "sent_size t = 4"
  shows "sets_ok e p (fst (set_mode k tbl t s q))"
  using assms by (auto simp: set_mode_def Let_def intro!: sets_ok_add int_entry sets_ok_pending mode_value_ok)

section \<open>The setters\<close>

lemma set_size_ok:
  assumes "map_of (size_tables e) k = Some tbl" "map_of (mode_tables e) k = None" "map_of (number_ranges e) k = None"
  shows "sets_ok e p (fst (set_size e k tbl restart d p))"
  using assms by (auto simp: set_size_def Let_def intro!: sets_ok_set size_value_ok)

lemma free_set: "\<not> checked_key e k \<Longrightarrow> sets_ok e p q \<Longrightarrow> sets_ok e p (set_parm k s q)"
  by (blast intro: sets_ok_set value_free)

lemma free_pending: "\<not> checked_key e k \<Longrightarrow> sets_ok e p q \<Longrightarrow> sets_ok e p (updateParamEntry k s q)"
  by (blast intro: sets_ok_pending value_free)

lemma number_text: "fit 16 (show_i32 v) = show_i32 v"
  using show_i32_length [of v] by (simp add: fit_def)

lemma set_number_ok:
  assumes "map_of (number_ranges e) k = Some (lo, hi)" "map_of (mode_tables e) k = None" "map_of (size_tables e) k = None"
    "lo \<le> sint v" "sint v \<le> hi" "t \<le> CAM_INTF_PARM_VIDEO_HDR" "sent_size t = 4"
  shows "sets_ok e p (fst (set_number k t v p))"
  using assms by (auto simp: set_number_def number_text intro!: sets_ok_add int_entry sets_ok_pending number_value_ok)

lemma number_if_changed_ok:
  "(\<And>v. sint lo \<le> sint v \<Longrightarrow> sint v \<le> sint hi \<Longrightarrow> sets_ok e p (fst (f v p))) \<Longrightarrow>
    sets_ok e p (fst (number_if_changed e k lo hi f params p))"
  by (auto simp: number_if_changed_def Let_def)

lemma size_setters_ok:
  "sets_ok e p (fst (setPreviewSize e params p))" "sets_ok e p (fst (setVideoSize e params p))"
  "sets_ok e p (fst (setPictureSize e params p))"
  by (simp_all add: setPreviewSize_def setVideoSize_def setPictureSize_def Let_def set_size_ok key_lists)

lemma format_setters_ok:
  "sets_ok e p (fst (setPreviewFormat e params p))" "sets_ok e p (fst (setPictureFormat e params p))"
proof -
  have "lookupAttr tbl v \<noteq> NAME_NOT_FOUND \<Longrightarrow> \<exists>s. v = Some s" for tbl v by (cases v) auto
  then show "sets_ok e p (fst (setPreviewFormat e params p))" "sets_ok e p (fst (setPictureFormat e params p))"
    by (fastforce simp: setPreviewFormat_def setPictureFormat_def Let_def key_lists intro!: sets_ok_set mode_value_ok)+
qed

lemma free_keys [simp]:
  "\<not> checked_key e KEY_JPEG_THUMBNAIL_WIDTH" "\<not> checked_key e KEY_JPEG_THUMBNAIL_HEIGHT" "\<not> checked_key e KEY_JPEG_QUALITY"
  "\<not> checked_key e KEY_JPEG_THUMBNAIL_QUALITY" "\<not> checked_key e KEY_ROTATION" "\<not> checked_key e KEY_QC_ORIENTATION"
  "\<not> checked_key e KEY_PREVIEW_FPS_RANGE" "\<not> checked_key e KEY_PREVIEW_FRAME_RATE" "\<not> checked_key e KEY_FOCUS_DISTANCES"
  "\<not> checked_key e KEY_QC_NO_DISPLAY_MODE" "\<not> checked_key e KEY_QC_CAMERA_MODE" "\<not> checked_key e KEY_QC_HDR_NEED_1X"
  "\<not> checked_key e KEY_QC_CAPTURE_BURST_EXPOSURE" "\<not> checked_key e KEY_QC_AE_BRACKET_HDR" "\<not> checked_key e KEY_FOCUS_AREAS"
  "\<not> checked_key e KEY_METERING_AREAS" "\<not> checked_key e KEY_QC_SNAPSHOT_BURST_NUM" "\<not> checked_key e KEY_QC_ZSL_BURST_INTERVAL"
  "\<not> checked_key e KEY_QC_ZSL_BURST_LOOKBACK" "\<not> checked_key e KEY_QC_ZSL_QUEUE_DEPTH" "\<not> checked_key e KEY_QC_NUM_SNAPSHOT_PER_SHUTTER"
  by (simp_all add: checked_key_def key_lists)

lemma free_gps_keys: "k \<in> set gps_keys \<Longrightarrow> \<not> checked_key e k"
  by (auto simp: gps_keys_def checked_key_def key_lists)

lemma size_ids [simp]: "sent_size CAM_INTF_PARM_FPS_RANGE = 8" "sent_size CAM_INTF_PARM_HDR = 36" "sent_size CAM_INTF_PARM_HDR_NEED_1X = 1"
  "sent_size CAM_INTF_PARM_AF_ROI = 112" "sent_size CAM_INTF_PARM_AEC_ROI = 48" "sent_size CAM_INTF_PARM_FD = 8"
  "sent_size CAM_INTF_PARM_WAVELET_DENOISE = 8"
  by (simp_all add: sent_size_def declared_size_def parm_ids)

lemma id_bounds [simp]: "CAM_INTF_PARM_FPS_RANGE \<le> CAM_INTF_PARM_VIDEO_HDR" "CAM_INTF_PARM_HDR \<le> CAM_INTF_PARM_VIDEO_HDR"
  "CAM_INTF_PARM_HDR_NEED_1X \<le> CAM_INTF_PARM_VIDEO_HDR" "CAM_INTF_PARM_AF_ROI \<le> CAM_INTF_PARM_VIDEO_HDR"
  "CAM_INTF_PARM_AEC_ROI \<le> CAM_INTF_PARM_VIDEO_HDR" "CAM_INTF_PARM_FD \<le> CAM_INTF_PARM_VIDEO_HDR"
  "CAM_INTF_PARM_WAVELET_DENOISE \<le> CAM_INTF_PARM_VIDEO_HDR"
  by (simp_all add: parm_ids)

lemma fps_ok: "sets_ok e p q \<Longrightarrow> sets_ok e p (fst (setPreviewFpsRange_value e lo hi q))"
  by (auto simp: setPreviewFpsRange_value_def Let_def entry_typed_def fps_bytes_def intro!: sets_ok_add free_pending)

lemma rate_setters_ok:
  "sets_ok e p (fst (setPreviewFpsRange e params p))" "sets_ok e p (fst (setPreviewFrameRate params p))"
  by (auto simp: setPreviewFpsRange_def use_range_def setPreviewFrameRate_def Let_def intro!: fps_ok free_pending
      split: option.split prod.split)

lemma mode_if_changed_ok:
  assumes "map_of (mode_tables e) k = Some tbl" "map_of (size_tables e) k = None" "map_of (number_ranges e) k = None"
    "t \<le> CAM_INTF_PARM_VIDEO_HDR" "sent_size t = 4"
  shows "sets_ok e p (fst (if_changed k (set_mode k tbl t) params p))"
  using assms by (intro if_changed_ok sets_ok_mode) simp_all

lemmas id_facts = parm_ids sent_size_def declared_size_def

lemma plain_setters_ok:
  "sets_ok e p (fst (setAutoExposure params p))" "sets_ok e p (fst (setISOValue params p))" "sets_ok e p (fst (setAecLock params p))"
  "sets_ok e p (fst (setAwbLock params p))" "sets_ok e p (fst (setLensShadeValue params p))" "sets_ok e p (fst (setMCEValue params p))"
  "sets_ok e p (fst (setDISValue params p))" "sets_ok e p (fst (setSelectableZoneAf params p))"
  "sets_ok e p (fst (setRedeyeReduction params p))" "sets_ok e p (fst (setVideoHDR params p))"
  by (simp_all add: setAutoExposure_def setISOValue_def setAecLock_def setAwbLock_def setLensShadeValue_def setMCEValue_def
      setDISValue_def setSelectableZoneAf_def setRedeyeReduction_def setVideoHDR_def
      setAutoExposure_value_def setISOValue_value_def setAecLock_value_def setAwbLock_value_def setLensShadeValue_value_def
      setMCEValue_value_def setDISValue_value_def setSelectableZoneAf_value_def setRedeyeReduction_value_def setVideoHDR_value_def
      mode_if_changed_ok key_lists id_facts)

lemma fw_setters_ok:
  "sets_ok e p (fst (setWhiteBalance e params p))" "sets_ok e p (fst (setAntibanding e params p))" "sets_ok e p (fst (setFlash e params p))"
  by (simp_all add: setWhiteBalance_def setAntibanding_def setFlash_def setWhiteBalance_value_def setAntibanding_value_def
      setFlash_value_def mode_if_changed_ok key_lists id_facts)

lemma mode_set_ok:
  assumes "map_of (mode_tables e) k \<noteq> None" "map_of (size_tables e) k = None" "map_of (number_ranges e) k = None"
    "lookupAttr (the (map_of (mode_tables e) k)) (Some s) \<noteq> NAME_NOT_FOUND" "sets_ok e p q"
  shows "sets_ok e p (set_parm k s q)" "sets_ok e p (updateParamEntry k s q)"
proof -
  obtain tbl where "map_of (mode_tables e) k = Some tbl" using assms(1) by auto
  then have "value_ok e k s" using assms by (intro mode_value_ok) auto
  with assms(5) show "sets_ok e p (set_parm k s q)" "sets_ok e p (updateParamEntry k s q)"
    by (auto intro: sets_ok_set sets_ok_pending)
qed

lemma int_add_ok: "sets_ok e p q \<Longrightarrow> t \<le> CAM_INTF_PARM_VIDEO_HDR \<Longrightarrow> sent_size t = 4 \<Longrightarrow> sets_ok e p (fst (add_parm t (le_bytes v) q))"
  by (blast intro: sets_ok_add int_entry)

lemma mode_setters_ok:
  "sets_ok e p (fst (setZslMode params p))" "sets_ok e p (fst (setRecordingHint params p))" "sets_ok e p (fst (setHighFrameRate params p))"
  by (auto simp: setZslMode_def setRecordingHint_def setRecordingHintValue_def setHighFrameRate_def setHighFrameRate_value_def Let_def
      key_lists id_facts intro!: if_changed_ok int_add_ok mode_set_ok)

lemma effect_ok: "sets_ok e p (fst (setEffect e params p))"
  by (auto simp: setEffect_def setEffect_value_def key_lists id_facts intro!: sets_ok_mode split: option.split)

lemma focus_ok: "sets_ok e p (fst (setFocusMode e params p))"
  by (auto simp: setFocusMode_def setFocusMode_value_def Let_def split_beta key_lists id_facts
      intro!: if_changed_ok free_set int_add_ok mode_set_ok)

lemma denoise_ok: "sets_ok e p (fst (setWaveletDenoise e params p))"
  by (auto simp: setWaveletDenoise_def setWaveletDenoise_value_def Let_def key_lists entry_typed_def
      intro!: if_changed_ok sets_ok_add mode_set_ok)

lemma faces_ok: "sets_ok e p (fst (setFaceRecognition e params p))"
  by (auto simp: setFaceRecognition_def setFaceRecognition_value_def Let_def key_lists entry_typed_def
      intro!: if_changed_ok sets_ok_add mode_set_ok)

lemma number_setters_ok:
  "sets_ok e p (fst (setBrightness e params p))" "sets_ok e p (fst (setSharpness e params p))" "sets_ok e p (fst (setSaturation e params p))"
  "sets_ok e p (fst (setContrast e params p))" "sets_ok e p (fst (setSkinToneEnhancement e params p))"
  "sets_ok e p (fst (setExposureCompensation e params p))"
  unfolding setBrightness_def setSharpness_def setSaturation_def setContrast_def setSkinToneEnhancement_def setExposureCompensation_def
    setBrightness_value_def setSharpness_value_def setSaturation_value_def setContrast_value_def setSkinToneEnhancement_value_def
    setExposureCompensation_value_def Let_def
  by (rule number_if_changed_ok, rule set_number_ok; simp add: key_lists control_range_def id_facts)+

lemma zoom_ok: "sets_ok e p (fst (setZoom e params p))"
  by (auto simp: setZoom_def setZoom_value_def Let_def key_lists id_facts intro!: set_number_ok)

lemma text_setters_ok:
  "sets_ok e p (fst (setJpegThumbnailSize e params p))" "sets_ok e p (fst (setJpegQuality e params p))"
  "sets_ok e p (fst (setOrientation params p))" "sets_ok e p (fst (setRotation e params p))" "sets_ok e p (fst (setNoDisplayMode params p))"
  "sets_ok e p (fst (setCameraMode params p))" "sets_ok e p (fst (setZslAttributes e params p))" "sets_ok e p (fst (setBurstNum e params p))"
  "sets_ok e p (fst (setLiveSnapshotSize e params p))"
  by (auto simp: setJpegThumbnailSize_def setJpegQuality_def setOrientation_def setRotation_def setNoDisplayMode_def setCameraMode_def
      setZslAttributes_def set_or_prop_def setBurstNum_def setLiveSnapshotSize_def Let_def intro!: free_set sets_ok_remove split: option.split)

lemma scene_ok: "sets_ok e p (fst (setSceneMode e params p))"
proof -
  have hdr: "sets_ok e p q \<Longrightarrow> sets_ok e p (setSceneMode_hdr params q)" for q
    by (auto simp: setSceneMode_hdr_def Let_def entry_typed_def intro!: sets_ok_add free_pending split: option.split)
  show ?thesis
    by (auto simp: setSceneMode_def setSceneMode_value_def Let_def key_lists id_facts intro!: if_changed_ok sets_ok_mode hdr)
qed

lemma flip_ok: "sets_ok e p (fst (setFlip e params p))"
proof -
  have "sets_ok e p (set_flip k mark params q)"
    if "sets_ok e p q" "k \<in> {KEY_QC_PREVIEW_FLIP, KEY_QC_VIDEO_FLIP, KEY_QC_SNAPSHOT_PICTURE_FLIP}"
      "\<And>q. sets_ok e p q \<Longrightarrow> sets_ok e p (mark q)" for k mark q
  proof -
    have "sets_ok e p (set_parm k s q)" if "lookupAttr FLIP_MODES_MAP (Some s) \<noteq> NAME_NOT_FOUND" for s
      using \<open>sets_ok e p q\<close> \<open>k \<in> _\<close> that by (intro mode_set_ok) (auto simp: key_lists)
    with that(1) that(3) show ?thesis by (auto simp: set_flip_def split: option.split)
  qed
  then show ?thesis by (auto simp: setFlip_def Let_def)
qed

lemma in_array_length: "length s \<le> n \<Longrightarrow> length (in_array n s) = n"
  by (simp add: in_array_def)

lemma bracket_value_ok: "sets_ok e p q \<Longrightarrow> sets_ok e p (fst (setAEBracket_value s q))"
  by (auto simp: setAEBracket_value_def Let_def entry_typed_def bracket_bytes_def in_array_length MAX_EXP_BRACKETING_LENGTH_def fit_def
      intro!: sets_ok_add free_pending sets_ok_client split: option.split)

lemma if_changed_chain: "(\<And>s. sets_ok e p (fst (f s q))) \<Longrightarrow> sets_ok e p q \<Longrightarrow> sets_ok e p (fst (if_changed k f params q))"
  by (auto simp: if_changed_def split: option.split)

lemma bracket_ok: "sets_ok e p (fst (setAEBracket e params p))"
  by (auto simp: setAEBracket_def Let_def intro!: bracket_value_ok if_changed_chain free_set sets_ok_remove split: option.split)

lemma gps_ok: "sets_ok e p (fst (setGpsLocation params p))"
proof -
  have "sets_ok e p q \<Longrightarrow> (\<And>k. k \<in> set ks \<Longrightarrow> \<not> checked_key e k) \<Longrightarrow> sets_ok e p (fold (set_or_remove params) ks q)" for ks q
    by (induction ks arbitrary: q) (auto simp: set_or_remove_def intro!: free_set sets_ok_remove split: option.split)
  then show ?thesis using free_gps_keys by (simp add: setGpsLocation_def)
qed

lemma zeros_length [simp]: "length (zeros n) = n"
  by (simp add: zeros_def)

lemma concat_length: "(\<And>x. length (f x) = n) \<Longrightarrow> length (concat (map f xs)) = n * length xs"
  by (induction xs) auto

lemma region_lengths: "length as \<le> MAX_ROI \<Longrightarrow> length (roi_info_bytes e pv as) = 112"
  "length as \<le> MAX_ROI \<Longrightarrow> length (aec_roi_bytes e pv as) = 48"
proof -
  have r: "length (roi_bytes e pv a) = 16" "length (centre_bytes e pv a) = 8" for a by (simp_all add: roi_bytes_def centre_bytes_def)
  show "length as \<le> MAX_ROI \<Longrightarrow> length (roi_info_bytes e pv as) = 112"
    by (simp add: roi_info_bytes_def Let_def concat_length [OF r(1)] concat_length [of _ 4] MAX_ROI_def)
  show "length as \<le> MAX_ROI \<Longrightarrow> length (aec_roi_bytes e pv as) = 48"
    by (simp add: aec_roi_bytes_def concat_length [OF r(2)] MAX_ROI_def) arith
qed

lemma set_areas_ok:
  assumes "\<And>as. length as \<le> MAX_ROI \<Longrightarrow> length (bytes (getSize e (p_map (updateParamEntry k s p)) KEY_PREVIEW_SIZE) as) = sent_size t"
    "t \<le> CAM_INTF_PARM_VIDEO_HDR" "\<not> checked_key e k" "set_areas e n k t bytes s p = Some r"
  shows "sets_ok e p (fst r)"
  using assms by (auto simp: set_areas_def Let_def entry_typed_def split: if_splits option.splits sum.splits
      intro!: sets_ok_add free_pending)

lemma areas_ok: "sets_ok e p (fst (or_overrun (setFocusAreas e) params p))" "sets_ok e p (fst (or_overrun (setMeteringAreas e) params p))"
  by (auto simp: or_overrun_def setFocusAreas_def setMeteringAreas_def areas_if_changed_def setFocusAreas_value_def
      setMeteringAreas_value_def region_lengths split: option.splits if_splits dest!: set_areas_ok [rotated 3])

lemmas setters_ok = size_setters_ok format_setters_ok rate_setters_ok plain_setters_ok fw_setters_ok mode_setters_ok effect_ok focus_ok
  denoise_ok faces_ok number_setters_ok zoom_ok text_setters_ok scene_ok flip_ok bracket_ok gps_ok areas_ok

lemma run_setter_ok: "sets_ok e p (fst (run_setter e c params p))"
  by (cases c) (simp_all add: setters_ok)

lemma run_setters_ok: "sets_ok e (fst r) (fst (run_setters e cs params r))"
proof (induction cs arbitrary: r)
  case (Cons c cs)
  obtain p rc where r: "r = (p, rc)" by force
  obtain q rc' where q: "run_setter e c params p = (q, rc')" by force
  have "sets_ok e p q" using run_setter_ok [of e p c params] q by simp
  moreover have "sets_ok e q (fst (run_setters e cs params (q, x)))" for x using Cons.IH [of "(q, x)"] by simp
  ultimately show ?case by (auto simp: r q intro: sets_ok_trans)
next
  case Nil
  then show ?case by (cases r) simp
qed

end
