(* ===== verification/ParmProps.thy ===== *)
theory ParmProps
  imports ParmFrame ParmDemo
begin

text \<open>
  What a request promises: the strings that the application can read are values that the camera supports, whatever it
  asked for, and every entry of a batch has the size that the camera expects.
\<close>

section \<open>The defaults\<close>

definition step_ok :: "parm_env \<Rightarrow> (parameters \<Rightarrow> parameters) \<Rightarrow> bool" where
  "step_ok e f \<longleftrightarrow> (\<forall>p q. sets_ok e p q \<longrightarrow> sets_ok e p (f q))"

lemma run_steps_ok: "list_all (step_ok e) fs \<Longrightarrow> step_ok e (run_steps fs)"
proof -
  have "list_all (step_ok e) fs \<Longrightarrow> sets_ok e p q \<Longrightarrow> sets_ok e p (fold (\<lambda>f. f) fs q)" for p q
    by (induction fs arbitrary: q) (auto simp: step_ok_def)
  then show "list_all (step_ok e) fs \<Longrightarrow> step_ok e (run_steps fs)" by (simp add: step_ok_def run_steps_def)
qed

lemma step_set: "value_ok e k s \<Longrightarrow> step_ok e (set_parm k s)"
  by (simp add: step_ok_def sets_ok_set)

lemma step_free: "\<not> checked_key e k \<Longrightarrow> step_ok e (set_parm k s)"
  by (simp add: step_ok_def free_set)

lemma step_int: "\<not> checked_key e k \<Longrightarrow> step_ok e (set_int e k v)"
  by (simp add: set_int_def step_free)

lemma step_sizes: "list_all (step_ok e) fs \<Longrightarrow> step_ok e (sizes_step tbl fs)"
  using run_steps_ok [of e fs] by (simp add: step_ok_def sizes_step_def)

lemma step_mode:
  assumes "map_of (mode_tables e) k = Some tbl" "map_of (size_tables e) k = None" "map_of (number_ranges e) k = None"
    "t \<le> CAM_INTF_PARM_VIDEO_HDR" "sent_size t = 4"
  shows "step_ok e (\<lambda>p. fst (set_mode k tbl t s p))"
  using assms by (simp add: step_ok_def sets_ok_mode)

lemma step_number:
  assumes "map_of (number_ranges e) k = Some (lo, hi)" "map_of (mode_tables e) k = None" "map_of (size_tables e) k = None"
    "lo \<le> sint v" "sint v \<le> hi" "t \<le> CAM_INTF_PARM_VIDEO_HDR" "sent_size t = 4"
  shows "step_ok e (\<lambda>p. fst (set_number k t v p))"
  using assms by (auto simp: step_ok_def set_number_def number_text intro!: sets_ok_add int_entry sets_ok_pending number_value_ok)

text \<open>The defaults that the camera declares lie in its own ranges.\<close>

definition control_ok :: "cam_control_range \<Rightarrow> bool" where
  "control_ok c \<longleftrightarrow> sint (min_value c) \<le> sint (def_value c) \<and> sint (def_value c) \<le> sint (max_value c)"

definition defaults_ok :: "cam_capability \<Rightarrow> bool" where
  "defaults_ok cap \<longleftrightarrow> control_ok (brightness_ctrl cap) \<and> control_ok (sharpness_ctrl cap) \<and> control_ok (contrast_ctrl cap) \<and>
     control_ok (saturation_ctrl cap) \<and> control_ok (sce_ctrl cap) \<and>
     sint (exposure_compensation_min cap) \<le> sint (exposure_compensation_default cap) \<and>
     sint (exposure_compensation_default cap) \<le> sint (exposure_compensation_max cap) \<and>
     (zoom_supported cap \<longrightarrow> zoom_ratio_tbl cap \<noteq> [])"

lemma init_read_only_ok: "step_ok e (init_read_only e)"
  unfolding init_read_only_def Let_def
  by (rule run_steps_ok) (simp add: step_free step_int checked_key_def key_lists)

lemma init_sizes_ok: "step_ok e (init_sizes e)"
proof -
  have size: "sets_ok e p q \<Longrightarrow> d \<in> set tbl \<Longrightarrow> map_of (size_tables e) k = Some tbl \<Longrightarrow> map_of (mode_tables e) k = None \<Longrightarrow>
      map_of (number_ranges e) k = None \<Longrightarrow> sets_ok e p (set_parm k (fw_show_size e d) q)" for p q d tbl k
    by (intro sets_ok_set size_value_ok)
  have first: "step_ok e (sizes_step tbl (f # set_parm k (fw_show_size e d) # fs))"
    if "map_of (size_tables e) k = Some tbl" "map_of (mode_tables e) k = None" "map_of (number_ranges e) k = None"
      "tbl \<noteq> [] \<longrightarrow> d \<in> set tbl" "list_all (step_ok e) (f # fs)" for tbl f k d fs
  proof (cases "tbl = []")
    case True
    then show ?thesis by (simp add: step_ok_def sizes_step_def)
  next
    case False
    with that show ?thesis by (intro step_sizes) (auto simp: step_ok_def size)
  qed
  have live: "step_ok e (m_LiveSnapshotSize_update g)" for g by (simp add: step_ok_def)
  show ?thesis unfolding init_sizes_def Let_def
    by (rule run_steps_ok) (simp add: first step_sizes live step_free step_int checked_key_def key_lists)
qed

lemma init_formats_ok: "step_ok e (init_formats e)"
proof -
  have "value_ok e KEY_PREVIEW_FORMAT (pe_fw e ''PIXEL_FORMAT_YUV420SP'')" "value_ok e KEY_PICTURE_FORMAT (pe_fw e ''PIXEL_FORMAT_JPEG'')"
    by (simp_all add: value_ok_def key_lists PREVIEW_FORMATS_MAP_def PICTURE_TYPES_MAP_def NAME_NOT_FOUND_def)
  then show ?thesis unfolding init_formats_def Let_def
    by (intro run_steps_ok) (simp add: step_set step_free step_int checked_key_def key_lists)
qed

lemma init_fps_ok: "step_ok e (init_fps e)"
proof -
  have "step_ok e (\<lambda>p. fst (setPreviewFpsRange_value e lo hi p))" for lo hi by (simp add: step_ok_def fps_ok)
  then have "step_ok e (run_steps [set_parm (FW ''KEY_SUPPORTED_PREVIEW_FPS_RANGE'') a,
      \<lambda>p. fst (setPreviewFpsRange_value e lo hi p), set_parm (FW ''KEY_SUPPORTED_PREVIEW_FRAME_RATES'') b,
      set_int e KEY_PREVIEW_FRAME_RATE c])" for a lo hi b c
    by (intro run_steps_ok) (simp add: step_free step_int checked_key_def key_lists)
  then show ?thesis by (simp add: step_ok_def init_fps_def Let_def split_beta)
qed

lemma init_focus_ok: "step_ok e (init_focus e)"
proof -
  have "sets_ok e p q \<Longrightarrow> sets_ok e p (fst (setFocusMode_value e s q))" for s p q
    by (auto simp: setFocusMode_value_def Let_def split_beta key_lists id_facts intro!: free_set int_add_ok mode_set_ok)
  then have "step_ok e (run_steps [set_parm (FW ''KEY_SUPPORTED_FOCUS_MODES'') a, \<lambda>p. fst (setFocusMode_value e s p)])" for a s
    by (intro run_steps_ok) (simp add: step_ok_def free_set checked_key_def key_lists)
  then show ?thesis by (simp add: step_ok_def init_focus_def Let_def)
qed

lemma init_areas_ok: "step_ok e (init_areas e)"
proof -
  have "sets_ok e q (fst (or_overrun (\<lambda>_. setFocusAreas_value e s) Map.empty q))"
    "sets_ok e q (fst (or_overrun (\<lambda>_. setMeteringAreas_value e s) Map.empty q))" for s q
    by (auto simp: or_overrun_def setFocusAreas_value_def setMeteringAreas_value_def region_lengths split: option.splits
        dest!: set_areas_ok [rotated 3])
  then have "step_ok e (\<lambda>p. if c then fst (or_overrun (\<lambda>_. setFocusAreas_value e s) Map.empty p) else p)"
    "step_ok e (\<lambda>p. if c then fst (or_overrun (\<lambda>_. setMeteringAreas_value e s) Map.empty p) else p)" for c s
    by (auto simp: step_ok_def intro: sets_ok_trans)
  then show ?thesis unfolding init_areas_def Let_def
    by (intro run_steps_ok) (simp add: step_int checked_key_def key_lists)
qed

lemma init_controls_ok:
  assumes "defaults_ok (pe_cap e)" shows "step_ok e (init_controls e)"
proof -
  have "step_ok e (init_control e a b s c f)"
    if "\<not> checked_key e (QC a)" "\<not> checked_key e (QC b)" "\<not> checked_key e (QC s)" "step_ok e (\<lambda>p. fst (f (def_value c) p))" for a b s c f
    unfolding init_control_def using that by (intro run_steps_ok) (simp add: step_int)
  moreover have "step_ok e (\<lambda>p. fst (setSaturation_value (def_value (saturation_ctrl (pe_cap e))) p))"
    "step_ok e (\<lambda>p. fst (setSharpness_value (def_value (sharpness_ctrl (pe_cap e))) p))"
    "step_ok e (\<lambda>p. fst (setContrast_value (def_value (contrast_ctrl (pe_cap e))) p))"
    "step_ok e (\<lambda>p. fst (setSkinToneEnhancement_value (def_value (sce_ctrl (pe_cap e))) p))"
    "step_ok e (\<lambda>p. fst (setBrightness_value (def_value (brightness_ctrl (pe_cap e))) p))"
    using assms
    unfolding setSaturation_value_def setSharpness_value_def setContrast_value_def setSkinToneEnhancement_value_def
      setBrightness_value_def defaults_ok_def control_ok_def
    by (auto intro!: step_number simp: key_lists control_range_def id_facts)
  ultimately show ?thesis unfolding init_controls_def Let_def
    by (intro run_steps_ok) (simp add: checked_key_def key_lists)
qed

lemma init_modes_ok:
  assumes "defaults_ok (pe_cap e)" shows "step_ok e (init_modes e)"
proof -
  have modes: "step_ok e (\<lambda>p. fst (setAutoExposure_value s p))" "step_ok e (\<lambda>p. fst (setAntibanding_value e s p))"
    "step_ok e (\<lambda>p. fst (setEffect_value e s p))" "step_ok e (\<lambda>p. fst (setWhiteBalance_value e s p))"
    "step_ok e (\<lambda>p. fst (setFlash_value e s p))" "step_ok e (\<lambda>p. fst (setSceneMode_value e s p))"
    "step_ok e (\<lambda>p. fst (setISOValue_value s p))" "step_ok e (\<lambda>p. fst (setSelectableZoneAf_value s p))" for s
    by (simp_all add: setAutoExposure_value_def setAntibanding_value_def setEffect_value_def setWhiteBalance_value_def
        setFlash_value_def setSceneMode_value_def setISOValue_value_def setSelectableZoneAf_value_def step_mode key_lists id_facts)
  have hfr: "step_ok e (\<lambda>p. fst (setHighFrameRate_value s p))" for s
    by (auto simp: step_ok_def setHighFrameRate_value_def Let_def key_lists id_facts intro!: int_add_ok mode_set_ok)
  have comp: "step_ok e (\<lambda>p. fst (setExposureCompensation_value (exposure_compensation_default (pe_cap e)) p))"
    using assms unfolding setExposureCompensation_value_def defaults_ok_def
    by (auto intro!: step_number simp: key_lists id_facts)
  show ?thesis unfolding init_modes_def Let_def
    by (rule run_steps_ok) (simp add: modes hfr comp step_free step_int checked_key_def key_lists)
qed

lemma init_zoom_ok:
  assumes "defaults_ok (pe_cap e)" shows "step_ok e (init_zoom e)"
proof (cases "zoom_supported (pe_cap e)")
  case True
  then have "zoom_ratio_tbl (pe_cap e) \<noteq> []" using assms by (simp add: defaults_ok_def)
  then have "step_ok e (\<lambda>p. fst (setZoom_value 0 p))"
    unfolding setZoom_value_def by (auto intro!: step_number simp: key_lists id_facts Suc_le_eq)
  then have "step_ok e (run_steps [set_parm (FW ''KEY_ZOOM_RATIOS'') a, set_int e (FW ''KEY_MAX_ZOOM'') b,
      \<lambda>p. fst (setZoom_value 0 p)])" for a b
    by (intro run_steps_ok) (simp add: step_free step_int checked_key_def key_lists)
  with True show ?thesis by (simp add: step_ok_def init_zoom_def Let_def)
next
  case False
  then show ?thesis by (simp add: step_ok_def init_zoom_def Let_def)
qed

lemma step_if: "step_ok e f \<Longrightarrow> step_ok e (\<lambda>p. if c then f p else p)"
  by (simp add: step_ok_def)

lemma init_bracketing_ok: "step_ok e (init_bracketing e)"
proof -
  have "step_ok e (\<lambda>p. fst (setAEBracket_value s p))" for s by (simp add: step_ok_def bracket_value_ok)
  moreover have "step_ok e (\<lambda>p. fst (setWaveletDenoise_value e s p))" for s
    by (auto simp: step_ok_def setWaveletDenoise_value_def Let_def key_lists entry_typed_def intro!: sets_ok_add mode_set_ok)
  moreover have "step_ok e (\<lambda>p. if c then set_parm KEY_QC_CAPTURE_BURST_EXPOSURE s p else p)" for c s by (simp add: step_if step_free)
  ultimately show ?thesis unfolding init_bracketing_def Let_def
    by (intro run_steps_ok) (simp add: step_free checked_key_def key_lists)
qed

lemma init_switches_ok: "step_ok e (init_switches e)"
proof -
  have modes: "step_ok e (\<lambda>p. fst (setLensShadeValue_value s p))" "step_ok e (\<lambda>p. fst (setMCEValue_value s p))"
    "step_ok e (\<lambda>p. fst (setDISValue_value s p))" "step_ok e (\<lambda>p. fst (setRedeyeReduction_value s p))"
    "step_ok e (\<lambda>p. fst (setSceneDetect_value s p))" "step_ok e (\<lambda>p. fst (setAecLock_value s p))"
    "step_ok e (\<lambda>p. fst (setAwbLock_value s p))" for s
    by (simp_all add: setLensShadeValue_value_def setMCEValue_value_def setDISValue_value_def setRedeyeReduction_value_def
        setSceneDetect_value_def setAecLock_value_def setAwbLock_value_def step_mode key_lists id_facts)
  have off: "step_ok e (set_parm KEY_QC_FACE_RECOGNITION ''off'')" "step_ok e (set_parm KEY_QC_ZSL ''off'')"
    "step_ok e (set_parm KEY_QC_VIDEO_HDR ''off'')" "step_ok e (set_parm KEY_QC_PREVIEW_FLIP ''off'')"
    "step_ok e (set_parm KEY_QC_VIDEO_FLIP ''off'')" "step_ok e (set_parm KEY_QC_SNAPSHOT_PICTURE_FLIP ''off'')"
    by (rule step_set; simp add: value_ok_def key_lists ON_OFF_MODES_MAP_def FLIP_MODES_MAP_def NAME_NOT_FOUND_def)+
  have fields: "step_ok e (m_bHDREnabled_update f)" "step_ok e (m_bHDR1xFrameEnabled_update f)"
    "step_ok e (m_bHDRThumbnailProcessNeeded_update f)" "step_ok e (m_bHDR1xExtraBufferNeeded_update f)"
    "step_ok e (m_bZslMode_update f)" "step_ok e (\<lambda>p. p\<lparr>m_bZslMode_new := m_bZslMode p\<rparr>)" for f
    by (simp_all add: step_ok_def) (simp_all add: sets_ok_def)
  have groups: "step_ok e (\<lambda>p. if c then run_steps [set_parm (QC ''video-hdr-values'') s, set_parm KEY_QC_VIDEO_HDR ''off''] p else p)"
    "step_ok e (\<lambda>p. if c then run_steps [set_parm (QC ''flip-mode-values'') s, set_parm KEY_QC_PREVIEW_FLIP ''off'',
       set_parm KEY_QC_VIDEO_FLIP ''off'', set_parm KEY_QC_SNAPSHOT_PICTURE_FLIP ''off''] p else p)" for c s
    by (rule step_if, rule run_steps_ok, simp add: off step_free checked_key_def key_lists)+
  show ?thesis unfolding init_switches_def Let_def
    by (rule run_steps_ok) (simp add: modes off fields groups step_free step_int checked_key_def key_lists)
qed

lemma init_values_ok:
  assumes "defaults_ok (pe_cap e)" shows "sets_ok e (initBatchUpdate p) (init_values e p)"
proof -
  have "step_ok e (run_steps (map (\<lambda>f. f e) init_parts))"
    using assms
    by (intro run_steps_ok) (simp add: init_parts_def init_read_only_ok init_sizes_ok init_formats_ok init_fps_ok init_focus_ok
        init_areas_ok init_controls_ok init_modes_ok init_zoom_ok init_bracketing_ok init_switches_ok)
  then show ?thesis by (simp add: step_ok_def init_values_def)
qed

section \<open>Reachable parameters\<close>

definition supported :: "parm_env \<Rightarrow> parm_map \<Rightarrow> bool" where
  "supported e m \<longleftrightarrow> (\<forall>k s. m k = Some s \<longrightarrow> value_ok e k s)"

lemma supported_now: "map_ok (now_ok e) m m' \<Longrightarrow> supported e m \<Longrightarrow> supported e m'"
  unfolding map_ok_def supported_def now_ok_def by (metis option.case(2))

lemma supported_later: "map_ok (later_ok e) m m' \<Longrightarrow> supported e m \<Longrightarrow> supported e m'"
  unfolding map_ok_def supported_def later_ok_def by (metis option.case(2))

lemma sets_ok_supported:
  assumes "sets_ok e p q" "supported e (p_map p)" "supported e (m_tempMap p)"
  shows "supported e (p_map q)" "supported e (m_tempMap q)"
  using assms supported_now supported_later by (simp_all add: sets_ok_def) blast+

text \<open>The thermal level changes between requests; what is supported does not depend on it.\<close>

definition at_level :: "thermal_level option \<Rightarrow> parm_env \<Rightarrow> parm_env" where
  "at_level l e = e\<lparr>pe_adjust := l\<rparr>"

lemma value_ok_level: "value_ok (at_level l e) k s = value_ok e k s"
  by (simp add: value_ok_def mode_tables_def size_tables_def number_ranges_def at_level_def)

lemma supported_level: "supported (at_level l e) m = supported e m"
  by (simp add: supported_def value_ok_level)

text \<open>The parameters from their initialisation on: any request at any thermal level, whatever its status, any commit of what
  is pending, and the operations that leave both maps alone.\<close>

inductive parm_reach :: "parm_env \<Rightarrow> parameters \<Rightarrow> bool" for e where
  initial: "p_map p = Map.empty \<Longrightarrow> parm_reach e (init_values (at_level l e) p)"
| request: "parm_reach e p \<Longrightarrow> parm_reach e (fst (parms_update (at_level l e) params p))"
| commit: "parm_reach e p \<Longrightarrow> parm_reach e (commitParamChanges p)"
| snapshots: "parm_reach e p \<Longrightarrow> parm_reach e (fst (setNumOfSnapshot e p))"
| batch: "parm_reach e p \<Longrightarrow> parm_reach e (initBatchUpdate p)"
| other: "parm_reach e p \<Longrightarrow> p_map q = p_map p \<Longrightarrow> m_tempMap q = m_tempMap p \<Longrightarrow> parm_reach e q"

lemma supported_empty [simp]: "supported e Map.empty"
  by (simp add: supported_def)

lemma supported_add: "supported e m \<Longrightarrow> supported e m' \<Longrightarrow> supported e (m ++ m')"
  by (auto simp: supported_def)

lemma initBatch_maps [simp]: "p_map (initBatchUpdate p) = p_map p" "m_tempMap (initBatchUpdate p) = Map.empty"
  by (simp_all add: initBatchUpdate_def)

lemma parms_update_ok:
  "sets_ok e (initBatchUpdate (p\<lparr>m_bNeedRestart := False\<rparr>)) (fst (parms_update e params p))"
  using run_setters_ok [of e "(initBatchUpdate (p\<lparr>m_bNeedRestart := False\<rparr>), NO_ERROR)" setter_order params]
  by (simp add: parms_update_def split_beta)

lemma parm_reach_supported:
  assumes "defaults_ok (pe_cap e)"
  shows "parm_reach e p \<Longrightarrow> supported e (p_map p) \<and> supported e (m_tempMap p)"
proof (induction rule: parm_reach.induct)
  case (initial p l)
  have "defaults_ok (pe_cap (at_level l e))" using assms by (simp add: at_level_def)
  from sets_ok_supported [OF init_values_ok [OF this]] initial show ?case by (simp add: supported_level)
next
  case (request p l params)
  then show ?case using sets_ok_supported [OF parms_update_ok [of "at_level l e" p params]]
    by (simp add: supported_level initBatchUpdate_def)
next
  case (commit p)
  then show ?case by (simp add: commitParamChanges_def supported_add)
next
  case (snapshots p)
  have "value_ok e KEY_QC_NUM_SNAPSHOT_PER_SHUTTER s" for s by (rule value_free) simp
  with snapshots show ?case by (simp add: setNumOfSnapshot_def Let_def set_parm_def supported_def)
next
  case (batch p)
  then show ?case by simp
next
  case (other p q)
  then show ?case by simp
qed

section \<open>Properties\<close>


definition demo_parms :: parameters where
  "demo_parms = init_values demo_env parameters_zero"

lemma demo_reach: "parm_reach demo_env demo_parms"
proof -
  have "p_map parameters_zero = Map.empty" by (simp add: parameters_zero_def parameters_new_def)
  from parm_reach.initial [OF this, of demo_env None] show ?thesis by (simp add: at_level_def demo_env_def demo_parms_def)
qed

lemma mode_map [simp]: "p_map (fst (set_mode k tbl t s p)) = p_map p"
  by (simp add: set_mode_def Let_def add_parm_def updateParamEntry_def)

lemma initial_zsl: "p_map (init_values e p) KEY_QC_ZSL = Some ''off''"
  by (simp add: init_values_def init_parts_def run_steps_def init_switches_def Let_def set_int_def set_parm_def
      setAecLock_value_def setAwbLock_value_def)



lemma sent_size_le: "sent_size t \<le> 112"
  by (simp add: sent_size_def declared_size_def)

lemma typed_fits: "entry_typed tv \<Longrightarrow> 112 \<le> sz \<Longrightarrow> (\<lambda>(t, v). t < CAM_INTF_PARM_MAX \<and> length v \<le> sz) tv"
  using sent_size_le [of "fst tv"]
  by (auto simp: entry_typed_def CAM_INTF_PARM_VIDEO_HDR_def CAM_INTF_PARM_MAX_def split: prod.splits)

text \<open>C12: The list of entries that stands for the batch in the model of the setters is what the table shared with the
  camera holds after the same calls: for any request, none of them is refused or leaves the table, as long as an entry
  has room for the largest value, 112 bytes.\<close>

theorem request_batch_refines_table:
  assumes "112 \<le> sz"
  shows "\<exists>es t t'. m_pParamBuf (fst (parms_update e params p)) = (CAM_INTF_PARM_HAL_VERSION, le_bytes CAM_HAL_V1) # es \<and>
    init_batch sz = Some t \<and> add_all sz es t = Some t' \<and>
    batch_refines sz t' (fold (map_add_parm sz) (m_pParamBuf (fst (parms_update e params p))) Map.empty)"
proof -
  from parms_update_ok [of e p params] obtain es where
    es: "m_pParamBuf (fst (parms_update e params p)) = (CAM_INTF_PARM_HAL_VERSION, le_bytes CAM_HAL_V1) # es" "list_all entry_typed es"
    by (auto simp: sets_ok_def initBatchUpdate_def)
  have fits: "list_all (\<lambda>(t, v). t < CAM_INTF_PARM_MAX \<and> length v \<le> sz) es"
    using es(2) by (rule list.pred_mono_strong) (rule typed_fits [OF _ assms])
  from assms init_batch_refines [of sz] obtain t where t: "init_batch sz = Some t"
    "batch_refines sz t (map_add_parm sz (CAM_INTF_PARM_HAL_VERSION, le_bytes CAM_HAL_V1) Map.empty)" by auto
  from add_all_refines [OF t(2) fits] es(1) t(1) show ?thesis by auto
qed

theorem request_batch_refines_table_witness:
  "\<exists>es t t'. m_pParamBuf (fst (parms_update demo_env (map_of a_request) parameters_zero)) =
      (CAM_INTF_PARM_HAL_VERSION, le_bytes CAM_HAL_V1) # es \<and>
    init_batch 112 = Some t \<and> add_all 112 es t = Some t' \<and>
    batch_refines 112 t' (fold (map_add_parm 112) (m_pParamBuf (fst (parms_update demo_env (map_of a_request) parameters_zero))) Map.empty)"
  by (rule request_batch_refines_table) simp

lemma lookupAttr_in: "lookupAttr tbl (Some s) \<noteq> NAME_NOT_FOUND \<Longrightarrow> s \<in> fst ` set tbl"
  by (induction tbl "Some s" rule: lookupAttr.induct) (auto split: if_splits)

text \<open>\<^verbatim>\<open>getFlashValue\<close> looks the flash mode up in its table with the length of the longer table of ISO modes.  It still
  never reads past the table: the mode that the parameters hold is always found before.\<close>

theorem getFlashValue_in_bounds:
  assumes "defaults_ok (pe_cap e)" "parm_reach e p"
  shows "getFlashValue e p \<noteq> None"
proof (cases "p_map p KEY_FLASH_MODE")
  case None
  then show ?thesis by (simp add: getFlashValue_def lookupAttr_len_def)
next
  case (Some s)
  then have "value_ok e KEY_FLASH_MODE s" using parm_reach_supported [OF assms] by (simp add: supported_def)
  moreover have "map_of (mode_tables e) KEY_FLASH_MODE = Some (FLASH_MODES_MAP (pe_fw e))" by (simp add: key_lists)
  ultimately have "s \<in> set (map fst (FLASH_MODES_MAP (pe_fw e)))" by (simp add: value_ok_def lookupAttr_in)
  moreover have "take (length ISO_MODES_MAP) (FLASH_MODES_MAP (pe_fw e)) = FLASH_MODES_MAP (pe_fw e)"
    by (simp add: ISO_MODES_MAP_def FLASH_MODES_MAP_def)
  ultimately show ?thesis using Some by (simp add: getFlashValue_def lookupAttr_len_def)
qed

theorem getFlashValue_in_bounds_witness: "getFlashValue demo_env demo_parms \<noteq> None"
proof -
  have "defaults_ok (pe_cap demo_env)" by code_simp
  from getFlashValue_in_bounds [OF this demo_reach] show ?thesis .
qed

end
