(* ===== verification/ParmText.thy ===== *)
theory ParmText
  imports ParmDemo
begin

text \<open>
  The texts that \<^verbatim>\<open>QCameraParameters.cpp\<close> prints and parses: lists of sizes are read back as they were printed, focus
  and metering areas are read as they are written in the format of the framework, longer texts leave the buffer of the
  parser, and numbers of exposures are counted as a list of texts between commas.
\<close>

section \<open>Sizes\<close>

lemma print_pair_fits:
  "length pre + length mid + length post < 10 \<Longrightarrow> print_pair pre mid post a b = pre @ show_i32 a @ mid @ show_i32 b @ post"
  using show_i32_length [of a] show_i32_length [of b] by (simp add: print_pair_def fit_def)

lemma print_size_fits: "length pre < 9 \<Longrightarrow> print_size pre d = pre @ show_i32 (dim_width d) @ CHR ''x'' # show_i32 (dim_height d)"
  by (simp add: print_size_def print_pair_fits)

lemma parse_pair_show:
  assumes "\<not> is_digit c" "r = [] \<or> \<not> is_digit (hd r)"
  shows "parse_pair (show_i32 a @ c # show_i32 b @ r) c = Inr (a, b, r)"
  using assms strtol10_show [of "c # show_i32 b @ r" a] strtol10_show [of r b] by (simp add: parse_pair_def)

lemma parse_size_list:
  "parseSizesList (show_i32 (dim_width d) @ CHR ''x'' # show_i32 (dim_height d) @ concat (map (print_size '','') ds)) = map Some (d # ds)"
proof (induction ds arbitrary: d)
  case Nil
  show ?case using parse_pair_show [of "CHR ''x''" "[]" "dim_width d" "dim_height d"]
    by (subst parseSizesList.simps) simp
next
  case (Cons d' ds)
  let ?r = "concat (map (print_size '','') (d' # ds))"
  have r: "?r = CHR '','' # show_i32 (dim_width d') @ CHR ''x'' # show_i32 (dim_height d') @ concat (map (print_size '','') ds)"
    by (simp add: print_size_fits)
  have "parse_pair (show_i32 (dim_width d) @ CHR ''x'' # show_i32 (dim_height d) @ ?r) CHR ''x'' = Inr (dim_width d, dim_height d, ?r)"
    by (rule parse_pair_show) (simp_all only: r list.sel not_digit_chars simp_thms)
  then show ?case unfolding r using Cons [of d'] by (subst parseSizesList.simps) simp
qed

text \<open>A list of sizes that the HAL prints for the application is parsed back by its own parser to exactly the same
  sizes, whatever they are, so that the sizes for high frame rates that it advertises are those that it looks up.\<close>

theorem sizes_parse_back:
  assumes "ds \<noteq> []"
  shows "parseSizesList (createSizesString ds) = map Some ds"
proof (cases ds)
  case (Cons d ds')
  then show ?thesis using parse_size_list [of d ds'] by (simp add: print_size_fits)
qed (use assms in simp)

theorem sizes_parse_back_witness:
  "(let ds = [\<lparr>dim_width = 1280, dim_height = 720\<rparr>, \<lparr>dim_width = 640, dim_height = 480\<rparr>] in
    parseSizesList (createSizesString ds) = map Some ds)"
  unfolding Let_def by (rule sizes_parse_back) simp

section \<open>Areas\<close>

text \<open>The areas of the framework: a rectangle of the square from \<^verbatim>\<open>-1000\<close> to \<^verbatim>\<open>1000\<close> with a weight, over the integers.\<close>

definition area_legal :: "cam_area \<Rightarrow> bool" where
  "area_legal a \<longleftrightarrow> - 1000 \<le> sint (area_left a) \<and> - 1000 \<le> sint (area_top a) \<and> 0 < sint (area_width a) \<and> 0 < sint (area_height a) \<and>
     sint (area_left a) + sint (area_width a) \<le> 1000 \<and> sint (area_top a) + sint (area_height a) \<le> 1000 \<and>
     1 \<le> sint (area_weight a) \<and> sint (area_weight a) \<le> 1000"

text \<open>An area and a list of areas in the framework's format.\<close>

definition show_area :: "cam_area \<Rightarrow> string" where
  "show_area a = ''('' @ show_i32 (area_left a) @ '','' @ show_i32 (area_top a) @ '','' @
     show_i32 (area_left a + area_width a) @ '','' @ show_i32 (area_top a + area_height a) @ '','' @ show_i32 (area_weight a) @ '')''"

fun show_areas :: "cam_area list \<Rightarrow> string" where
  "show_areas [] = []"
| "show_areas [a] = show_area a"
| "show_areas (a # as) = show_area a @ '','' @ show_areas as"

lemma sint_add_small: "- 2147483648 \<le> sint a + sint b \<Longrightarrow> sint a + sint b < 2147483648 \<Longrightarrow> sint (a + b :: i32) = sint a + sint b"
  by (simp add: sint_word_ariths(1) signed_take_bit_int_eq_self)

lemma legal_edges:
  assumes "area_legal a"
  shows "sint (area_left a + area_width a) = sint (area_left a) + sint (area_width a)"
    "sint (area_top a + area_height a) = sint (area_top a) + sint (area_height a)"
  using assms by (auto intro!: sint_add_small simp: area_legal_def)

lemma legal_ok: "area_legal a \<Longrightarrow> area_ok a"
  using legal_edges [of a] by (simp add: area_ok_def area_legal_def)

lemma show_small: "\<bar>sint v\<bar> \<le> 1000 \<Longrightarrow> length (show_i32 v) \<le> 5"
  using show_pos_length [of "\<bar>sint v\<bar>" 4] by (auto simp: show_i32_def show_int_def)

lemma legal_length:
  assumes "area_legal a" shows "length (show_area a) \<le> 31"
proof -
  have "length (show_i32 v) \<le> 5" if "v \<in> {area_left a, area_top a, area_left a + area_width a, area_top a + area_height a, area_weight a}" for v
    using that assms legal_edges [OF assms] by (intro show_small) (auto simp: area_legal_def)
  from this [of "area_left a"] this [of "area_top a"] this [of "area_left a + area_width a"]
    this [of "area_top a + area_height a"] this [of "area_weight a"]
  show ?thesis by (simp add: show_area_def)
qed

lemma show_i32_chars: "c \<in> set (show_i32 v) \<Longrightarrow> is_digit c \<or> c = CHR ''-''"
  using show_pos_digits [of "\<bar>sint v\<bar>" c] by (auto simp: show_i32_def show_int_def split: if_splits)

lemma no_paren [simp]: "CHR '')'' \<notin> set (show_i32 v)" "CHR ''('' \<notin> set (show_i32 v)"
  using show_i32_chars by fastforce+

lemma read_show_area:
  "parseNDimVector (show_area a) 5 =
     Inr [area_left a, area_top a, area_left a + area_width a, area_top a + area_height a, area_weight a]"
  by (simp add: parseNDimVector_def show_area_def numeral_eq_Suc strtol10_show)

lemma next_show_area:
  assumes "area_legal a" "r = [] \<or> hd r = CHR '',''"
  shows "next_area (show_area a @ r) =
    Some (Inr ([area_left a, area_top a, area_left a + area_width a, area_top a + area_height a, area_weight a], CHR '')'' # r))"
proof -
  define u where "u = ''('' @ show_i32 (area_left a) @ '','' @ show_i32 (area_top a) @ '','' @
     show_i32 (area_left a + area_width a) @ '','' @ show_i32 (area_top a + area_height a) @ '','' @ show_i32 (area_weight a)"
  have s: "show_area a = u @ '')''" "CHR '')'' \<notin> set u" by (simp_all add: show_area_def u_def)
  have c: "strchr CHR '')'' (show_area a @ r) = Some (CHR '')'' # r)" using s strchr_append [OF s(2), of r] by simp
  obtain v where v: "show_area a @ r = CHR ''('' # v" by (simp add: show_area_def)
  have t: "take (length (show_area a @ r) - length (CHR '')'' # r) + 1) (show_area a @ r) = show_area a"
    by (simp add: s(1))
  have "length (show_area a) < 32" using legal_length [OF assms(1)] by simp
  then show ?thesis using c t read_show_area [of a] unfolding next_area_def v list.case Let_def
    by (simp add: AREA_STR_SIZE_def)
qed

lemma parse_show_areas:
  assumes "list_all area_legal as" "as \<noteq> []" "length acc + length as \<le> n"
  shows "parse_areas (show_areas as) n acc = Some (Inr (acc @ as))"
  using assms
proof (induction "as" arbitrary: acc rule: show_areas.induct)
  case (2 a)
  have "strchr CHR ''('' '')'' = None" by (simp add: strchr_None)
  then show ?case using 2 next_show_area [of a "[]"] by (subst parse_areas.simps) (simp add: area_of_def)
next
  case (3 a b as)
  obtain v where v: "show_areas (b # as) = CHR ''('' # v" by (cases "as") (simp_all add: show_area_def)
  have "strchr CHR ''('' ('')'' @ '','' @ show_areas (b # as)) = Some (show_areas (b # as))"
    unfolding v by (simp add: strchr_def)
  then show ?case using 3 next_show_area [of a "'','' @ show_areas (b # as)"]
    by (subst parse_areas.simps) (simp add: area_of_def)
qed simp

text \<open>C28: Every list of legal areas in the format of the framework, with no more areas than the camera has, is parsed
  without leaving the buffer for one area, and to exactly those areas, which the validation then accepts.\<close>

theorem areas_parse_back:
  assumes "list_all area_legal as" "as \<noteq> []" "length as \<le> n"
  shows "parseCameraAreaString (show_areas as) n = Some (Inr as) \<and> validateCameraAreas as"
  using parse_show_areas [OF assms(1,2), of "[]" n] assms(1,3) legal_ok
  by (auto simp: parseCameraAreaString_def validateCameraAreas_def list_all_iff)

definition corner_area :: cam_area where
  "corner_area = \<lparr>area_left = - 1000, area_top = - 1000, area_width = 2000, area_height = 2000, area_weight = 1000\<rparr>"

theorem areas_parse_back_witness:
  "parseCameraAreaString (show_areas [corner_area, corner_area]) 5 = Some (Inr [corner_area, corner_area]) \<and>
    validateCameraAreas [corner_area, corner_area]"
  by (rule areas_parse_back) (simp_all add: area_legal_def corner_area_def)

text \<open>The buffer for one area holds 31 characters, and the text between the parentheses is copied without a check: a
  longer one, as a legal area with blanks after its commas, writes past it, in the setter of the focus areas as in that of
  the metering areas.\<close>

theorem long_area_overflows:
  assumes "s = ''('' @ u @ '')'' @ r" "CHR '')'' \<notin> set u" "30 \<le> length u"
    and "max_num_focus_areas (pe_cap e) \<noteq> 0" "\<And>n. pe_malloc e n"
  shows "setFocusAreas_value e s p = None"
proof -
  have c: "strchr CHR '')'' s = Some (CHR '')'' # r)" using assms(1,2) strchr_append [of "CHR '')''" "''('' @ u" r] by simp
  have "next_area s = None"
    using c assms(1,3) by (simp add: next_area_def Let_def AREA_STR_SIZE_def)
  then show ?thesis using assms(4,5)
    by (simp add: setFocusAreas_value_def set_areas_def parseCameraAreaString_def parse_areas.simps)
qed

theorem long_area_overflows_witness:
  "setFocusAreas_value demo_env ''(-1000, -1000, 1000, 1000, 1000)'' parameters_zero = None"
  by (rule long_area_overflows [of _ "''-1000, -1000, 1000, 1000, 1000''" "[]"])
    (simp_all add: demo_env_def demo_cap_def)

text \<open>The validation computes the right and bottom edges of an area in 32 bits: a text with a right edge far to the left
  of the left edge makes a width that has wrapped around, and is accepted.\<close>

definition reversed_area :: string where
  "reversed_area = ''(5,5,-2147483644,-2147483644,1)''"

theorem reversed_area_accepted:
  "\<exists>a. parseCameraAreaString reversed_area 5 = Some (Inr [a]) \<and> validateCameraAreas [a] \<and>
    sint (area_left a + area_width a) < sint (area_left a)"
proof -
  have "parseCameraAreaString reversed_area 5 =
      Some (Inr [\<lparr>area_left = 5, area_top = 5, area_width = 2147483647, area_height = 2147483647, area_weight = 1\<rparr>])"
    by code_simp
  moreover have "validateCameraAreas [\<lparr>area_left = 5, area_top = 5, area_width = 2147483647, area_height = 2147483647, area_weight = 1\<rparr>]"
    by code_simp
  moreover have "sint (5 + 2147483647 :: i32) < sint (5 :: i32)" by simp
  ultimately show ?thesis by force
qed

section \<open>Counting exposures\<close>

text \<open>The texts between delimiters, as a reference for the count.\<close>

fun split_on :: "char \<Rightarrow> string \<Rightarrow> string list" where
  "split_on d [] = [[]]"
| "split_on d (c # s) = (if c = d then [] # split_on d s else (c # hd (split_on d s)) # tl (split_on d s))"

lemma split_on_not_Nil [simp]: "split_on d s \<noteq> []"
  by (cases s) auto

definition exposure_texts :: "string \<Rightarrow> string list" where
  "exposure_texts s = filter (\<lambda>t. t \<noteq> []) (split_on CHR '','' s)"

lemma count_tokens_split:
  "count_tokens d inside s = (if inside then 1 + length (filter (\<lambda>t. t \<noteq> []) (tl (split_on d s)))
     else length (filter (\<lambda>t. t \<noteq> []) (split_on d s)))"
proof (induction s arbitrary: inside)
  case (Cons c s)
  have "split_on d s = hd (split_on d s) # tl (split_on d s)" by simp
  with Cons show ?case by (cases inside) (auto simp: Suc_length_conv)
qed simp

text \<open>C30: With exposure bracketing on, the number of snapshots that the HAL announces is the burst number times the number of
  exposures, the non-empty texts between commas, or one when there are none; the loop over the tokens and the arithmetic
  in eight bits agree with that as long as the text fits the buffer of a property and there are at most 255 exposures.\<close>

theorem snapshots_match_exposures:
  assumes "p_map p KEY_QC_AE_BRACKET_HDR = Some ''AE-Bracket''" "p_map p KEY_QC_CAPTURE_BURST_EXPOSURE = Some s"
    "length s < pe_prop_max e" "length (exposure_texts s) < 256"
  shows "p_map (fst (setNumOfSnapshot e p)) KEY_QC_NUM_SNAPSHOT_PER_SHUTTER =
    Some (fw_show_int e (m_nBurstNum p * of_nat (max 1 (length (exposure_texts s)))))"
proof -
  let ?n = "length (exposure_texts s)"
  have fit: "fit (pe_prop_max e) s = s" using assms(3) by (simp add: fit_def)
  have n: "count_tokens CHR '','' False s = ?n" by (simp add: count_tokens_split exposure_texts_def)
  have w: "unat (of_nat ?n :: u8) = ?n" using assms(4) by (simp add: unat_of_nat)
  then have "of_nat ?n = (0 :: u8) \<longleftrightarrow> ?n = 0" using unat_eq_0 [of "of_nat ?n :: u8"] by auto
  moreover have "ucast (of_nat ?n :: u8) = (of_nat ?n :: i32)"
    using w assms(4) by (simp add: word_unat_eq_iff unsigned_ucast_eq unat_of_nat take_bit_nat_eq_self)
  ultimately have "of_nat ?n = (0 :: u8) \<Longrightarrow> of_nat (max 1 ?n) = (1 :: i32)"
    "of_nat ?n \<noteq> (0 :: u8) \<Longrightarrow> ucast (of_nat ?n :: u8) = (of_nat (max 1 ?n) :: i32)"
    by (cases ?n; auto simp: max_def)+
  then show ?thesis using assms(1,2)
    by (auto simp: setNumOfSnapshot_def Let_def set_parm_def fit n BRACKETING_MODES_MAP_def)
qed

definition bracketing :: parameters where
  "bracketing = set_parm KEY_QC_CAPTURE_BURST_EXPOSURE ''-6,0,6'' (set_parm KEY_QC_AE_BRACKET_HDR ''AE-Bracket'' parameters_zero)"

theorem snapshots_match_exposures_witness:
  "p_map (fst (setNumOfSnapshot demo_env bracketing)) KEY_QC_NUM_SNAPSHOT_PER_SHUTTER =
    Some (fw_show_int demo_env (m_nBurstNum bracketing * of_nat (max 1 (length (exposure_texts ''-6,0,6'')))))"
proof -
  have "length (exposure_texts ''-6,0,6'') = 3" by (simp add: exposure_texts_def)
  then show ?thesis
    by (intro snapshots_match_exposures) (simp_all add: bracketing_def set_parm_def demo_env_def)
qed

end
