(* ===== verification/ParmRegion.thy ===== *)
theory ParmRegion
  imports ParmText
begin

text \<open>
  What the parameters compute: the default range of frame rates, the regions of the preview that areas become, with the
  rounding of \<^verbatim>\<open>float\<close> arithmetic, the frame rates that are sent at a thermal level; and two settings that a rejected
  request changes although it is rejected.
\<close>

section \<open>The default range of frame rates\<close>

definition fps_width :: "parm_env \<Rightarrow> cam_fps_range \<Rightarrow> int" where
  "fps_width e r = sint (milli e (max_fps r) - milli e (min_fps r))"

lemma fps_ranges_widest:
  "fps_ranges e i rs m idx = (str, k) \<Longrightarrow>
    k = idx \<and> (\<forall>r \<in> set rs. fps_width e r \<le> sint m) \<or>
    i \<le> k \<and> k - i < length rs \<and> sint m < fps_width e (rs ! (k - i)) \<and> (\<forall>r \<in> set rs. fps_width e r \<le> fps_width e (rs ! (k - i)))"
proof (induction rs arbitrary: i m idx str)
  case (Cons r rs)
  let ?w = "milli e (max_fps r) - milli e (min_fps r)"
  have w: "sint ?w = fps_width e r" by (simp add: fps_width_def)
  obtain m' idx' where mi: "(m', idx') = (if sint m < sint ?w then (?w, i) else (m, idx))" by (metis prod.exhaust)
  obtain str' where "fps_ranges e (Suc i) rs m' idx' = (str', k)"
    using Cons.prems mi by (auto simp: Let_def split: prod.splits if_splits)
  from Cons.IH [OF this] consider "k = idx'" "\<forall>q \<in> set rs. fps_width e q \<le> sint m'"
    | "Suc i \<le> k" "k - Suc i < length rs" "sint m' < fps_width e (rs ! (k - Suc i))"
      "\<forall>q \<in> set rs. fps_width e q \<le> fps_width e (rs ! (k - Suc i))" by blast
  then show ?case
  proof cases
    case 1
    then show ?thesis using mi w by (cases "sint m < sint ?w") auto
  next
    case 2
    then have "(r # rs) ! (k - i) = rs ! (k - Suc i)" by (simp add: nth_Cons' Suc_diff_le [symmetric])
    with 2 show ?thesis using mi w by (cases "sint m < sint ?w") auto
  qed
qed simp

text \<open>The range of frame rates that a camera starts with is the widest one that it supports.\<close>

theorem default_fps_range_widest:
  assumes "tbl \<noteq> []" "i = snd (createFpsRangeString e tbl d)"
  shows "i < length tbl \<and> (\<forall>r \<in> set tbl. fps_width e r \<le> fps_width e (tbl ! i))"
proof (cases tbl)
  case (Cons r rs)
  obtain str where "fps_ranges e 1 rs (milli e (max_fps r) - milli e (min_fps r)) 0 = (str, i)"
    using assms(2) Cons by (auto simp: Let_def split: prod.splits)
  from fps_ranges_widest [OF this] show ?thesis
    unfolding Cons fps_width_def [of e r, symmetric] by (cases i) auto
qed (use assms in simp)

theorem default_fps_range_widest_witness:
  "(let tbl = [\<lparr>min_fps = 30, max_fps = 30\<rparr>, \<lparr>min_fps = 15 / 2, max_fps = 30\<rparr>];
        i = snd (createFpsRangeString demo_env tbl 0) in
    i < length tbl \<and> (\<forall>r \<in> set tbl. fps_width demo_env r \<le> fps_width demo_env (tbl ! i)))"
  unfolding Let_def by (rule default_fps_range_widest) simp_all

section \<open>Rounding\<close>

text \<open>What IEEE 754 says of \<^verbatim>\<open>float\<close>: integers of up to 24 bits are exact, and a number of the normal range is rounded
  with a relative error of at most \<^verbatim>\<open>2^-24\<close>.\<close>

definition rounds_single :: "parm_env \<Rightarrow> bool" where
  "rounds_single e \<longleftrightarrow> (\<forall>n. \<bar>n\<bar> \<le> 16777216 \<longrightarrow> pe_flt e (of_int n) = of_int n) \<and>
     (\<forall>r. 1 / 10 ^ 37 \<le> \<bar>r\<bar> \<and> \<bar>r\<bar> \<le> 10 ^ 38 \<longrightarrow> \<bar>pe_flt e r - r\<bar> \<le> \<bar>r\<bar> / 16777216)"

lemma flt_int: "rounds_single e \<Longrightarrow> \<bar>n\<bar> \<le> 16777216 \<Longrightarrow> pe_flt e (of_int n) = of_int n"
  by (simp add: rounds_single_def)

lemma flt_near:
  assumes "rounds_single e" "r = 0 \<or> 1 / 10 ^ 37 \<le> r" "0 \<le> r" "r \<le> b" "b \<le> 10 ^ 38"
  shows "\<bar>pe_flt e r - r\<bar> \<le> b / 16777216"
proof (cases "r = 0")
  case True
  then show ?thesis using flt_int [OF assms(1), of 0] assms(3,4) by simp
next
  case False
  then have "1 / 10 ^ 37 \<le> \<bar>r\<bar> \<and> \<bar>r\<bar> \<le> 10 ^ 38" using assms(2-5) by linarith
  then have "\<bar>pe_flt e r - r\<bar> \<le> \<bar>r\<bar> / 16777216" using assms(1) unfolding rounds_single_def by blast
  then show ?thesis using assms(3,4) by simp
qed

lemma conv_int_floor: "0 \<le> r \<Longrightarrow> r < 2147483648 \<Longrightarrow> sint (conv_int r) = \<lfloor>r\<rfloor>"
proof -
  assume r: "0 \<le> r" "r < 2147483648"
  then have "0 \<le> \<lfloor>r\<rfloor>" "\<lfloor>r\<rfloor> < 2147483648" by (simp_all add: floor_less_iff)
  then show ?thesis using r by (simp add: conv_int_def trunc_int_def sint_sbintrunc' signed_take_bit_int_eq_self)
qed

lemma flt_nonneg:
  assumes "rounds_single e" "r = 0 \<or> 1 / 10 ^ 37 \<le> r" "r \<le> 10 ^ 38"
  shows "0 \<le> pe_flt e r"
proof (cases "r = 0")
  case True
  then show ?thesis using flt_int [OF assms(1), of 0] by simp
next
  case False
  then have r: "1 / 10 ^ 37 \<le> r" "0 \<le> r" using assms(2) by (auto intro: order_trans [of _ "1 / 10 ^ 37"])
  with flt_near [OF assms(1), of r r] assms(3) show ?thesis by linarith
qed

lemma flt_of_i32: "rounds_single e \<Longrightarrow> \<bar>sint v\<bar> \<le> 16777216 \<Longrightarrow> pe_flt e (of_i32 v) = of_int (sint v)"
  using flt_int [of e "sint v"] by (simp add: of_i32_def)

section \<open>Regions\<close>

text \<open>The scale of the preview, and a position on it.\<close>

lemma scaled:
  fixes L :: int
  assumes "rounds_single e" "0 \<le> L" "L \<le> 2000" "0 < w" "w \<le> 8192"
  defines "f \<equiv> pe_flt e (of_int w / 2000)"
  shows "0 \<le> pe_flt e (of_int L * f)" "\<bar>pe_flt e (of_int L * f) - of_int (L * w) / 2000\<bar> < 1 / 4"
proof -
  have w: "1 / 2000 \<le> of_int w / (2000 :: rat)" "of_int w / 2000 \<le> (5 :: rat)" using assms(4,5) by (simp_all add: field_simps)
  have f: "\<bar>f - of_int w / 2000\<bar> \<le> 5 / 16777216"
    unfolding f_def by (rule flt_near [OF assms(1)]) (use w in \<open>simp_all add: field_simps\<close>)
  then have fb: "1 / 4000 \<le> f" "f \<le> 6" using w by linarith+
  have L: "0 \<le> (of_int L :: rat)" "of_int L \<le> (2000 :: rat)" using assms(2,3) by simp_all
  have "\<bar>of_int L * f - of_int L * (of_int w / 2000)\<bar> = of_int L * \<bar>f - of_int w / 2000\<bar>"
    unfolding right_diff_distrib [symmetric] abs_mult using L(1) by simp
  also have "\<dots> \<le> 2000 * (5 / 16777216)" using L f by (intro mult_mono) simp_all
  finally have 1: "\<bar>of_int L * f - of_int (L * w) / 2000\<bar> \<le> 10000 / 16777216" by simp
  have p: "of_int L * f \<le> 2000 * 6" "0 \<le> of_int L * f" using L fb by (intro mult_mono; simp) (use L fb in simp)
  have low: "of_int L * f = 0 \<or> 1 / 10 ^ 37 \<le> of_int L * f"
  proof (cases "L = 0")
    case False
    then have "1 * (1 / 4000) \<le> of_int L * f" using assms(2) fb by (intro mult_mono) simp_all
    then show ?thesis by simp
  qed simp
  have "\<bar>pe_flt e (of_int L * f) - of_int L * f\<bar> \<le> 12000 / 16777216"
    using flt_near [OF assms(1) low p(2), of 12000] p(1) by simp
  with 1 show "\<bar>pe_flt e (of_int L * f) - of_int (L * w) / 2000\<bar> < 1 / 4" by linarith
  show "0 \<le> pe_flt e (of_int L * f)" using flt_nonneg [OF assms(1) low] p(1) by simp
qed

lemma scaled_length:
  fixes n w :: int
  assumes "rounds_single e" "0 < n" "n \<le> 2000" "0 < w" "w \<le> 8192"
  shows "0 \<le> pe_flt e (of_int (n * w) / 2000)" "\<bar>pe_flt e (of_int (n * w) / 2000) - of_int (n * w) / 2000\<bar> < 1 / 4"
proof -
  have "1 \<le> n * w" using assms(2,4) by (simp add: int_one_le_iff_zero_less)
  moreover have "n * w \<le> 2000 * 8192" using assms(2-5) by (intro mult_mono) simp_all
  ultimately have r: "1 / 2000 \<le> of_int (n * w) / (2000 :: rat)" "of_int (n * w) / 2000 \<le> (8192 :: rat)"
    by (simp_all add: field_simps del: of_int_mult)
  from flt_near [OF assms(1) _ _ r(2)] r(1) show "\<bar>pe_flt e (of_int (n * w) / 2000) - of_int (n * w) / 2000\<bar> < 1 / 4"
    by (simp add: field_simps)
  show "0 \<le> pe_flt e (of_int (n * w) / 2000)" using r by (intro flt_nonneg [OF assms(1)]) simp_all
qed

lemma region_inside:
  assumes "rounds_single e" "- 1000 \<le> sint l" "0 < sint n" "sint l + sint n \<le> 1000" "0 < sint w" "sint w \<le> 8192"
  shows "0 \<le> sint (roi_pos e l w)" "0 \<le> sint (roi_len e n w)" "sint (roi_pos e l w) + sint (roi_len e n w) \<le> sint w"
proof -
  let ?L = "sint l + 1000"
  have L: "0 \<le> ?L" "?L \<le> 2000" "sint n \<le> 2000" using assms(2-4) by simp_all
  define P where "P = pe_flt e (of_int ?L * pe_flt e (of_int (sint w) / 2000))"
  define Q where "Q = pe_flt e (of_int (sint n * sint w) / 2000)"
  note p = scaled [OF assms(1) L(1,2) assms(5,6), folded P_def]
  note q = scaled_length [OF assms(1,3) L(3) assms(5,6), folded Q_def]
  have "of_int (?L * sint w) + of_int (sint n * sint w) \<le> (of_int (2000 * sint w) :: rat)"
    unfolding of_int_add [symmetric] of_int_le_iff using assms(4,5) by (simp add: distrib_right [symmetric])
  then have sum: "P + Q < of_int (sint w) + 1 / 2" using p(2) q(2) unfolding of_int_mult by (simp add: field_simps abs_less_iff)
  have "\<bar>sint l + 1000\<bar> \<le> 16777216" "\<bar>sint l\<bar> \<le> 16777216" "\<bar>sint w\<bar> \<le> 16777216" using L assms(5,6) by simp_all
  then have pos: "roi_pos e l w = conv_int P"
    using flt_int [OF assms(1), of "sint l + 1000"] by (simp add: roi_pos_def P_def flt_of_i32 [OF assms(1)])
  have "sint n * sint w \<le> 2000 * 8192" "0 \<le> sint n * sint w"
    using L(3) assms(3,5,6) by (intro mult_mono; simp) (use assms(3,5) in simp)
  then have "sint (n * w) = sint n * sint w" by (simp add: sint_word_ariths(3) signed_take_bit_int_eq_self)
  then have len: "roi_len e n w = conv_int Q"
    using \<open>sint n * sint w \<le> 2000 * 8192\<close> \<open>0 \<le> sint n * sint w\<close>
    by (simp add: roi_len_def Q_def flt_of_i32 [OF assms(1)] del: of_int_mult)
  have b: "P < 2147483648" "Q < 2147483648" using sum p(1) q(1) assms(6) by linarith+
  have "\<lfloor>P\<rfloor> + \<lfloor>Q\<rfloor> \<le> \<lfloor>P + Q\<rfloor>" by (simp add: le_floor_add)
  also have "\<lfloor>P + Q\<rfloor> \<le> sint w" using sum by (simp add: floor_le_iff)
  finally show "sint (roi_pos e l w) + sint (roi_len e n w) \<le> sint w"
    using b p(1) q(1) by (simp add: pos len conv_int_floor)
  show "0 \<le> sint (roi_pos e l w)" "0 \<le> sint (roi_len e n w)" using b p(1) q(1) by (simp_all add: pos len conv_int_floor)
qed

definition region_in :: "parm_env \<Rightarrow> cam_dimension \<Rightarrow> cam_area \<Rightarrow> bool" where
  "region_in e pv a \<longleftrightarrow>
     0 \<le> sint (roi_pos e (area_left a) (dim_width pv)) \<and> 0 \<le> sint (roi_pos e (area_top a) (dim_height pv)) \<and>
     0 \<le> sint (roi_len e (area_width a) (dim_width pv)) \<and> 0 \<le> sint (roi_len e (area_height a) (dim_height pv)) \<and>
     sint (roi_pos e (area_left a) (dim_width pv)) + sint (roi_len e (area_width a) (dim_width pv)) \<le> sint (dim_width pv) \<and>
     sint (roi_pos e (area_top a) (dim_height pv)) + sint (roi_len e (area_height a) (dim_height pv)) \<le> sint (dim_height pv)"

lemma exact_rounds: "(\<And>r. pe_flt e r = r) \<Longrightarrow> rounds_single e"
  by (simp add: rounds_single_def)

text \<open>C29: The region of the preview that a legal focus area becomes lies inside the preview, with every step of the
  computation rounded as \<^verbatim>\<open>float\<close> arithmetic rounds, for previews of up to 8192 pixels.\<close>

theorem focus_regions_inside_preview:
  assumes "rounds_single e" "area_legal a"
    and "0 < sint (dim_width pv)" "sint (dim_width pv) \<le> 8192" "0 < sint (dim_height pv)" "sint (dim_height pv) \<le> 8192"
  shows "region_in e pv a"
proof -
  note a = assms(2) [unfolded area_legal_def]
  show ?thesis
    using region_inside [OF assms(1), of "area_left a" "area_width a" "dim_width pv"]
      region_inside [OF assms(1), of "area_top a" "area_height a" "dim_height pv"] a assms(3-6)
    by (simp add: region_in_def)
qed

theorem focus_regions_inside_preview_witness:
  "region_in demo_env \<lparr>dim_width = 640, dim_height = 480\<rparr> corner_area"
proof -
  have "rounds_single demo_env" by (rule exact_rounds) (simp add: demo_env_def)
  then show ?thesis by (rule focus_regions_inside_preview) (simp_all add: area_legal_def corner_area_def)
qed

section \<open>Frame rates\<close>

lemma thousandth_floor:
  assumes "rounds_single e" "0 \<le> sint v" "sint v \<le> 1000000"
  shows "conv_int (thousandth e v) = word_of_int (sint v div 1000)"
proof -
  define q r where "q = sint v div 1000" and "r = sint v mod 1000"
  have v: "sint v = 1000 * q + r" "0 \<le> r" "r < 1000" "0 \<le> q" "q \<le> 1000" using assms(2,3) by (auto simp: q_def r_def)
  have t: "thousandth e v = pe_flt e (of_int (sint v) / 1000)"
    using assms(2,3) by (simp add: thousandth_def flt_of_i32 [OF assms(1)])
  have "0 \<le> thousandth e v \<and> \<lfloor>thousandth e v\<rfloor> = q"
  proof (cases "r = 0")
    case True
    then have "of_int (sint v) / (1000 :: rat) = of_int q" by (simp add: v(1) del: signed_of_int)
    then show ?thesis using flt_int [OF assms(1), of q] v(4,5) by (simp add: t)
  next
    case False
    then have r: "1 \<le> r" "r \<le> 999" using v(2,3) by simp_all
    have x: "of_int (sint v) / (1000 :: rat) = of_int q + of_int r / 1000" unfolding v(1) by (simp add: add_divide_distrib)
    have rq: "1 / 1000 \<le> of_int r / (1000 :: rat)" "of_int r / 1000 \<le> (999 / 1000 :: rat)" "0 \<le> (of_int q :: rat)" "of_int q \<le> (1000 :: rat)"
      using r v(4,5) by simp_all
    have "\<bar>pe_flt e (of_int q + of_int r / 1000) - (of_int q + of_int r / 1000)\<bar> \<le> 1001 / 16777216"
    proof (rule flt_near [OF assms(1)])
      have "1 / 10 ^ 37 \<le> (1 / 1000 :: rat)" by simp
      with rq show "of_int q + of_int r / (1000 :: rat) = 0 \<or> 1 / 10 ^ 37 \<le> of_int q + of_int r / (1000 :: rat)" by linarith
    qed (use rq in \<open>linarith, linarith, simp\<close>)
    then show ?thesis unfolding t x using rq by (intro conjI floor_unique) linarith+
  qed
  then show ?thesis by (simp add: conv_int_def trunc_int_def q_def)
qed

text \<open>The range of frame rates passes through the HAL's thermal adjustment even when nothing is to be adjusted, and loses
  its fraction there: what the camera gets are whole frames per second, so that a range from 7.5 frames is sent as one
  from 7, below what the application asked for.\<close>

theorem unadjusted_rates_lose_fraction:
  assumes "rounds_single e" "pe_adjust e = Some QCAMERA_THERMAL_NO_ADJUSTMENT"
    and "0 \<le> sint lo" "sint lo \<le> 1000000" "0 \<le> sint hi" "sint hi \<le> 1000000"
  shows "m_pParamBuf (fst (setPreviewFpsRange_value e lo hi p)) = m_pParamBuf p @
    [(CAM_INTF_PARM_FPS_RANGE, fps_bytes e \<lparr>min_fps = of_int (sint lo div 1000), max_fps = of_int (sint hi div 1000)\<rparr>)]"
proof -
  have rate: "pe_flt e (of_i32 (conv_int (thousandth e v))) = of_int (sint v div 1000)" if "0 \<le> sint v" "sint v \<le> 1000000" for v
  proof -
    have "sint (word_of_int (sint v div 1000) :: i32) = sint v div 1000"
      using that by (simp add: sint_sbintrunc' signed_take_bit_int_eq_self)
    moreover have "\<bar>sint v div 1000\<bar> \<le> 16777216" using that by simp
    ultimately show ?thesis using thousandth_floor [OF assms(1) that] flt_of_i32 [OF assms(1)] by metis
  qed
  show ?thesis using rate [OF assms(3,4)] rate [OF assms(5,6)] assms(2)
    by (simp add: setPreviewFpsRange_value_def recalcFPSRange_def calcThermalLevel_def add_parm_def updateParamEntry_def Let_def)
qed

theorem unadjusted_rates_lose_fraction_witness:
  "(let e = demo_env\<lparr>pe_adjust := Some QCAMERA_THERMAL_NO_ADJUSTMENT\<rparr> in
    m_pParamBuf (fst (setPreviewFpsRange_value e 7500 30000 parameters_zero)) = m_pParamBuf parameters_zero @
      [(CAM_INTF_PARM_FPS_RANGE, fps_bytes e \<lparr>min_fps = of_int (sint (7500 :: i32) div 1000), max_fps = of_int (sint (30000 :: i32) div 1000)\<rparr>)])"
  unfolding Let_def
proof (rule unadjusted_rates_lose_fraction)
  show "rounds_single (demo_env\<lparr>pe_adjust := Some QCAMERA_THERMAL_NO_ADJUSTMENT\<rparr>)"
    by (rule exact_rounds) (simp add: demo_env_def)
qed simp_all

section \<open>Rejected requests\<close>

text \<open>A rejected scene mode switches HDR off for good.  With the scene mode \<^verbatim>\<open>hdr\<close> in use, a request for a scene
  mode that the HAL does not know is answered with the error and the map still says \<^verbatim>\<open>hdr\<close>, but HDR is off; asking for
  \<^verbatim>\<open>hdr\<close> again is no change and does nothing.\<close>

theorem rejected_scene_mode_disables_hdr:
  assumes "p_map p KEY_SCENE_MODE = Some ''hdr''" "m_bHDREnabled p"
    and "params KEY_SCENE_MODE = Some s" "lookupAttr (SCENE_MODES_MAP (pe_fw e)) (Some s) = NAME_NOT_FOUND"
    and "setSceneMode e params p = (q, rc)" "params' KEY_SCENE_MODE = Some ''hdr''"
  shows "rc = BAD_VALUE \<and> p_map q KEY_SCENE_MODE = Some ''hdr'' \<and> \<not> m_bHDREnabled q \<and> setSceneMode e params' q = (q, NO_ERROR)"
proof -
  have "s \<noteq> ''hdr''" using assms(4) by (auto simp: SCENE_MODES_MAP_def NAME_NOT_FOUND_def split: if_splits)
  moreover have hdr: "p_map (setSceneMode_hdr params r) = p_map r" "m_bHDREnabled (setSceneMode_hdr params r) = m_bHDREnabled r" for r
    by (simp_all add: setSceneMode_hdr_def Let_def add_parm_def updateParamEntry_def split: option.split)
  ultimately have "rc = BAD_VALUE" "p_map q KEY_SCENE_MODE = Some ''hdr''" "\<not> m_bHDREnabled q"
    using assms(1,3-5)
    by (auto simp: setSceneMode_def if_changed_def setSceneMode_value_def set_mode_def Let_def)
  with assms(6) show ?thesis by (simp add: setSceneMode_def if_changed_def)
qed

definition hdr_parms :: parameters where
  "hdr_parms = (set_parm KEY_SCENE_MODE ''hdr'' parameters_zero)\<lparr>m_bHDREnabled := True\<rparr>"

theorem rejected_scene_mode_disables_hdr_witness:
  "(let (q, rc) = setSceneMode demo_env [KEY_SCENE_MODE \<mapsto> ''moonlight''] hdr_parms in
    rc = BAD_VALUE \<and> p_map q KEY_SCENE_MODE = Some ''hdr'' \<and> \<not> m_bHDREnabled q \<and>
    setSceneMode demo_env [KEY_SCENE_MODE \<mapsto> ''hdr''] q = (q, NO_ERROR))"
proof -
  obtain q rc where r: "setSceneMode demo_env [KEY_SCENE_MODE \<mapsto> ''moonlight''] hdr_parms = (q, rc)" by force
  have "lookupAttr (SCENE_MODES_MAP (pe_fw demo_env)) (Some ''moonlight'') = NAME_NOT_FOUND" by code_simp
  moreover have "p_map hdr_parms KEY_SCENE_MODE = Some ''hdr''" "m_bHDREnabled hdr_parms" by (simp_all add: hdr_parms_def set_parm_def)
  ultimately show ?thesis unfolding r Let_def prod.case by (intro rejected_scene_mode_disables_hdr [OF _ _ _ _ r]) simp_all
qed

text \<open>Face recognition that was switched on by a request which failed afterwards is never sent to the camera: the mask of
  the HAL keeps the bit, and the next request for it adds nothing to its batch.\<close>

theorem failed_face_recognition_not_resent:
  assumes "lookupAttr ON_OFF_MODES_MAP (Some s) \<noteq> NAME_NOT_FOUND" "p_map p KEY_QC_FACE_RECOGNITION \<noteq> Some s"
    and "params KEY_QC_FACE_RECOGNITION = Some s" "params' KEY_QC_FACE_RECOGNITION = Some s"
    and "q = initBatchUpdate (fst (setFaceRecognition e params p))"
  shows "m_pParamBuf (fst (setFaceRecognition e params' q)) = m_pParamBuf q \<and> snd (setFaceRecognition e params' q) = NO_ERROR"
  using assms
  by (auto simp: setFaceRecognition_def if_changed_def setFaceRecognition_value_def Let_def add_parm_def updateParamEntry_def
      initBatchUpdate_def bit.conj_disj_distrib2 ac_simps)

theorem failed_face_recognition_not_resent_witness:
  "(let ps = [KEY_QC_FACE_RECOGNITION \<mapsto> ''on'']; q = initBatchUpdate (fst (setFaceRecognition demo_env ps parameters_zero)) in
    m_pParamBuf (fst (setFaceRecognition demo_env ps q)) = m_pParamBuf q \<and> snd (setFaceRecognition demo_env ps q) = NO_ERROR)"
  unfolding Let_def
  by (rule failed_face_recognition_not_resent [OF _ _ _ _ refl, of "''on''"])
    (simp_all add: ON_OFF_MODES_MAP_def NAME_NOT_FOUND_def parameters_zero_def parameters_new_def)

end
