(* ===== verification/HalQueue.thy ===== *)
theory HalQueue
  imports CamQueue
begin

text \<open>
  \<^verbatim>\<open>camera/QCamera2/util/QCameraQueue.cpp\<close>: the queue of the HAL's classes, with insertion at both ends, removal from
  both ends, and two flushes that release the payloads, on the heap of theory \<^verbatim>\<open>CamQueue\<close>.  \<^verbatim>\<open>m_dataFn\<close> says whether
  a release function is set; its calls are returned as the list of their arguments.  Each operation is one
  critical section.
\<close>

record qcamera_queue =
  m_head :: addr
  m_size :: i32
  m_dataFn :: bool

section \<open>Operations\<close>

definition QCameraQueue_new :: "bool \<Rightarrow> qcamera_queue \<Rightarrow> qworld \<Rightarrow> (qcamera_queue \<times> qworld) option" where
  "QCameraQueue_new data_rel_fn q w = do {
     m \<leftarrow> cam_list_init (nodes w) (m_head q);
     Some (q\<lparr>m_size := 0, m_dataFn := data_rel_fn\<rparr>, w\<lparr>nodes := m\<rparr>)
   }"

definition isEmpty :: "qcamera_queue \<Rightarrow> bool" where
  "isEmpty q \<longleftrightarrow> \<not> 0 <s m_size q"

definition enqueue :: "addr option \<Rightarrow> addr \<Rightarrow> qcamera_queue \<Rightarrow> qworld \<Rightarrow> (qcamera_queue \<times> qworld \<times> bool) option" where
  "enqueue malloc data q w = (case malloc of
     None \<Rightarrow> Some (q, w, False)
   | Some node \<Rightarrow> do {
       m \<leftarrow> cam_list_add_tail_node ((nodes w)(node \<mapsto> node_zero\<lparr>node_data := data\<rparr>)) node (m_head q);
       Some (q\<lparr>m_size := m_size q + 1\<rparr>, w\<lparr>nodes := m\<rparr>, True)
     })"

definition enqueueWithPriority :: "addr option \<Rightarrow> addr \<Rightarrow> qcamera_queue \<Rightarrow> qworld \<Rightarrow> (qcamera_queue \<times> qworld \<times> bool) option" where
  "enqueueWithPriority malloc data q w = (case malloc of
     None \<Rightarrow> Some (q, w, False)
   | Some node \<Rightarrow> do {
       let m = (nodes w)(node \<mapsto> node_zero\<lparr>node_data := data\<rparr>);
       p_next \<leftarrow> get_next m (m_head q);
       m \<leftarrow> set_next m (m_head q) node;
       m \<leftarrow> set_prev m p_next node;
       m \<leftarrow> set_next m node p_next;
       m \<leftarrow> set_prev m node (m_head q);
       Some (q\<lparr>m_size := m_size q + 1\<rparr>, w\<lparr>nodes := m\<rparr>, True)
     })"

definition dequeue :: "bool \<Rightarrow> qcamera_queue \<Rightarrow> qworld \<Rightarrow> (qcamera_queue \<times> qworld \<times> addr) option" where
  "dequeue bFromHead q w = do {
     pos \<leftarrow> (if bFromHead then get_next (nodes w) (m_head q) else get_prev (nodes w) (m_head q));
     if pos \<noteq> m_head q then do {
       m \<leftarrow> cam_list_del_node (nodes w) pos;
       data \<leftarrow> get_data m pos;
       m \<leftarrow> free_node m pos;
       Some (q\<lparr>m_size := m_size q - 1\<rparr>, w\<lparr>nodes := m\<rparr>, data)
     } else Some (q, w, 0)
   }"

text \<open>One turn of a flush loop: unlink the node, release and free its payload, free the node.\<close>

definition drop_node :: "addr \<Rightarrow> qcamera_queue \<Rightarrow> qworld \<Rightarrow> (qcamera_queue \<times> qworld \<times> addr list) option" where
  "drop_node pos q w = do {
     m \<leftarrow> cam_list_del_node (nodes w) pos;
     data \<leftarrow> get_data m pos;
     B \<leftarrow> (if data \<noteq> 0 then free_block (blocks w) data else Some (blocks w));
     m \<leftarrow> free_node m pos;
     Some (q\<lparr>m_size := m_size q - 1\<rparr>, w\<lparr>nodes := m, blocks := B\<rparr>, if data \<noteq> 0 \<and> m_dataFn q then [data] else [])
   }"

partial_function (option) flush_nodes_loop :: "(addr \<Rightarrow> bool) \<Rightarrow> addr \<Rightarrow> qcamera_queue \<Rightarrow> qworld \<Rightarrow>
    (qcamera_queue \<times> qworld \<times> addr list) option" where
  "flush_nodes_loop match pos q w =
     (if pos \<noteq> m_head q then do {
        next \<leftarrow> get_next (nodes w) pos;
        data \<leftarrow> get_data (nodes w) pos;
        (q, w, rs) \<leftarrow> (if match data then drop_node pos q w else Some (q, w, []));
        (q, w, rs') \<leftarrow> flush_nodes_loop match next q w;
        Some (q, w, rs @ rs')
      } else Some (q, w, []))"

text \<open>\<^verbatim>\<open>flush\<close> is the same loop without the test, and sets the size at its end.  \<^verbatim>\<open>flushNodes\<close> without a
  match function does nothing.\<close>

definition flush :: "qcamera_queue \<Rightarrow> qworld \<Rightarrow> (qcamera_queue \<times> qworld \<times> addr list) option" where
  "flush q w = do {
     pos \<leftarrow> get_next (nodes w) (m_head q);
     (q, w, rs) \<leftarrow> flush_nodes_loop (\<lambda>_. True) pos q w;
     Some (q\<lparr>m_size := 0\<rparr>, w, rs)
   }"

definition flushNodes :: "(addr \<Rightarrow> bool) option \<Rightarrow> qcamera_queue \<Rightarrow> qworld \<Rightarrow> (qcamera_queue \<times> qworld \<times> addr list) option" where
  "flushNodes match q w = (case match of
     None \<Rightarrow> Some (q, w, [])
   | Some match \<Rightarrow> do {
       pos \<leftarrow> get_next (nodes w) (m_head q);
       flush_nodes_loop match pos q w
     })"

section \<open>The list that a queue represents\<close>

text \<open>Payloads in the queue are distinct allocated blocks, or null.\<close>

definition payloads_ok :: "addr list \<Rightarrow> addr set \<Rightarrow> bool" where
  "payloads_ok ds B \<longleftrightarrow> distinct (filter (\<lambda>d. d \<noteq> 0) ds) \<and> set ds - {0} \<subseteq> B \<and> 0 \<notin> B"

definition qq_nodes :: "qcamera_queue \<Rightarrow> qworld \<Rightarrow> addr list \<Rightarrow> addr list \<Rightarrow> bool" where
  "qq_nodes q w ns ds \<longleftrightarrow> finite (dom (nodes w)) \<and> m_size q = of_nat (length ds) \<and>
     clist (nodes w) (m_head q) ns \<and> map (get_data (nodes w)) ns = map Some ds"

definition qq_of :: "qcamera_queue \<Rightarrow> qworld \<Rightarrow> addr list \<Rightarrow> bool" where
  "qq_of q w ds \<longleftrightarrow> (\<exists>ns. qq_nodes q w ns ds)"

lemma qq_ofI: "qq_nodes q w ns ds \<Longrightarrow> qq_of q w ds"
  by (auto simp: qq_of_def)

lemma qq_new:
  assumes "finite (dom (nodes w))" "m_head q \<in> dom (nodes w)"
  shows "\<exists>q' w'. QCameraQueue_new f q w = Some (q', w') \<and> qq_of q' w' [] \<and> m_dataFn q' = f \<and> blocks w' = blocks w"
  using clist_init [OF assms(2)] assms(1) dom_more
  by (fastforce simp: QCameraQueue_new_def qq_of_def qq_nodes_def)

text \<open>A new node in the ring, wherever it was linked.\<close>

lemma qq_added:
  assumes "qq_nodes q w (ns @ ms) (ds @ es)" "length ns = length ds" "a \<notin> dom (nodes w)"
    and "clist m' (m_head q) (ns @ a # ms)" "get_more m' = get_more ((nodes w)(a \<mapsto> node_zero\<lparr>node_data := d\<rparr>))"
  shows "qq_nodes (q\<lparr>m_size := m_size q + 1\<rparr>) (w\<lparr>nodes := m'\<rparr>) (ns @ a # ms) (ds @ d # es)"
proof -
  have "get_data m' = (get_data (nodes w))(a \<mapsto> d)"
    using get_data_more [OF assms(5)] by (auto simp: get_data_def fun_eq_iff)
  moreover have "a \<notin> set (ns @ ms)" using assms(1,3) clist_dom [of "nodes w" "m_head q" "ns @ ms"] by (auto simp: qq_nodes_def)
  ultimately show ?thesis using assms dom_more [OF assms(5)] by (auto simp: qq_nodes_def)
qed

lemma qq_enqueue:
  assumes "qq_of q w ds" "a \<notin> dom (nodes w)"
  shows "\<exists>q' w'. enqueue (Some a) d q w = Some (q', w', True) \<and> qq_of q' w' (ds @ [d]) \<and> blocks w' = blocks w \<and> m_dataFn q' = m_dataFn q"
proof -
  let ?m = "(nodes w)(a \<mapsto> node_zero\<lparr>node_data := d\<rparr>)"
  obtain ns where ns: "qq_nodes q w ns ds" using assms(1) by (auto simp: qq_of_def)
  then have "clist (nodes w) (m_head q) ns" by (simp add: qq_nodes_def)
  moreover from clist_dom [OF this] assms(2) have a: "a \<notin> set (m_head q # ns)" by auto
  ultimately have "clist ?m (m_head q) ns" by (subst clist_cong [of _ _ _ "nodes w"]) auto
  from clist_add_tail [OF this _ a] obtain m' where m': "cam_list_add_tail_node ?m a (m_head q) = Some m'"
    "clist m' (m_head q) (ns @ [a])" "get_more m' = get_more ?m" by auto
  have len: "length ns = length ds" using ns by (auto simp: qq_nodes_def dest: map_eq_imp_length_eq)
  from qq_added [of q w ns "[]" ds "[]" a m' d] ns len assms(2) m' show ?thesis
    by (auto simp: enqueue_def intro!: qq_ofI)
qed

lemma qq_enqueueWithPriority:
  assumes "qq_of q w ds" "a \<notin> dom (nodes w)"
  shows "\<exists>q' w'. enqueueWithPriority (Some a) d q w = Some (q', w', True) \<and> qq_of q' w' (d # ds) \<and> blocks w' = blocks w \<and>
    m_dataFn q' = m_dataFn q"
proof -
  let ?m = "(nodes w)(a \<mapsto> node_zero\<lparr>node_data := d\<rparr>)"
  obtain ns where ns: "qq_nodes q w ns ds" using assms(1) by (auto simp: qq_of_def)
  then have c0: "clist (nodes w) (m_head q) ns" by (simp add: qq_nodes_def)
  from clist_dom [OF this] assms(2) have a: "a \<notin> set (m_head q # [] @ ns)" by auto
  have c: "clist ?m (m_head q) ([] @ ns)" using c0 a by (subst clist_cong [of _ _ _ "nodes w"]) auto
  let ?h = "m_head q" and ?n = "hd (ns @ [m_head q])"
  have e: "get_prev ?m ?n = Some ?h" "get_next ?m ?h = Some ?n" using clist_edge [OF c] by simp_all
  have n: "?h \<in> dom ?m" "?n \<in> dom ?m" "a \<in> dom ?m" using get_next_dom [OF e(2)] get_prev_dom [OF e(1)] by simp_all
  let ?m' = "put_prev (put_next (put_prev (put_next ?m ?h a) ?n a) a ?n) a ?h"
  have "enqueueWithPriority (Some a) d q w = Some (q\<lparr>m_size := m_size q + 1\<rparr>, w\<lparr>nodes := ?m'\<rparr>, True)"
    using e(2) n by (simp add: enqueueWithPriority_def Let_def heap_simps)
  moreover have "?n \<noteq> a" "?h \<noteq> a" using a by (cases ns; auto)+
  then have "get_next ?m' = (get_next ?m)(a \<mapsto> ?n, ?h \<mapsto> a)" "get_prev ?m' = (get_prev ?m)(a \<mapsto> ?h, ?n \<mapsto> a)"
    using n by (auto simp: heap_simps fun_upd_twist)
  moreover from this have "clist ?m' ?h ([] @ a # ns)" using clist_add_node [OF c a, of ?m'] by simp
  moreover have "get_more ?m' = get_more ?m" by (simp add: heap_simps)
  ultimately show ?thesis using qq_added [of q w "[]" ns "[]" ds a ?m' d] ns assms(2) by (auto intro!: qq_ofI)
qed

text \<open>A node that leaves the ring, wherever it was.\<close>

lemma qq_removed:
  assumes "qq_nodes q w (ns @ n # ms) (ds @ d # es)" "length ns = length ds"
  shows "\<exists>m' m1. n \<noteq> m_head q \<and> get_next (nodes w) n = Some (hd (ms @ [m_head q])) \<and> get_data (nodes w) n = Some d \<and>
    cam_list_del_node (nodes w) n = Some m' \<and> get_data m' n = Some d \<and> free_node m' n = Some m1 \<and>
    qq_nodes (q\<lparr>m_size := m_size q - 1\<rparr>) (w\<lparr>nodes := m1\<rparr>) (ns @ ms) (ds @ es)"
proof -
  have c: "clist (nodes w) (m_head q) (ns @ n # ms)" and f: "finite (dom (nodes w))" and
    d: "map (get_data (nodes w)) ns = map Some ds" "get_data (nodes w) n = Some d" "map (get_data (nodes w)) ms = map Some es"
    using assms by (auto simp: qq_nodes_def)
  have e: "get_next (nodes w) n = Some (hd (ms @ [m_head q]))" using clist_edge(2) [of "nodes w" "m_head q" "ns @ [n]" ms] c by simp
  obtain m' where m': "cam_list_del_node (nodes w) n = Some m'" "clist m' (m_head q) (ns @ ms)" "get_more m' = get_more (nodes w)"
    using clist_del [OF c] by blast
  have gd: "get_data m' = get_data (nodes w)" and dm: "dom m' = dom (nodes w)"
    using get_data_more [OF m'(3)] dom_more [OF m'(3)] by auto
  have n: "n \<notin> set (m_head q # ns @ ms)" "n \<in> dom m'" using c clist_dom [OF c] dm by (auto simp: clist_def)
  have c': "clist (m'(n := None)) (m_head q) (ns @ ms)" using m'(2) n by (subst clist_cong [of _ _ _ m']) auto
  have "get_data (m'(n := None)) = (get_data (nodes w))(n := None)" using gd by (auto simp: get_data_def fun_eq_iff)
  then have "map (get_data (m'(n := None))) (ns @ ms) = map Some (ds @ es)" using d n by simp
  with c' f dm assms(1) have "qq_nodes (q\<lparr>m_size := m_size q - 1\<rparr>) (w\<lparr>nodes := m'(n := None)\<rparr>) (ns @ ms) (ds @ es)"
    by (simp add: qq_nodes_def)
  moreover have "free_node m' n = Some (m'(n := None))" "n \<noteq> m_head q" using n by (auto simp: free_node_def)
  ultimately show ?thesis using m'(1) gd d(2) e by auto
qed

lemma qq_lengths: "qq_nodes q w ns ds \<Longrightarrow> length ns = length ds"
  by (auto simp: qq_nodes_def dest: map_eq_imp_length_eq)

lemma qq_dequeue:
  assumes "qq_of q w ds"
  shows "\<exists>q' w'. dequeue b q w = Some (q', w', if ds = [] then 0 else if b then hd ds else last ds) \<and>
    qq_of q' w' (if b then tl ds else butlast ds) \<and> blocks w' = blocks w \<and> m_dataFn q' = m_dataFn q"
proof -
  obtain ns where ns: "qq_nodes q w ns ds" using assms by (auto simp: qq_of_def)
  note len = qq_lengths [OF ns]
  have c: "clist (nodes w) (m_head q) ns" using ns by (simp add: qq_nodes_def)
  have first: "get_next (nodes w) (m_head q) = Some (hd (ns @ [m_head q]))"
    using clist_edge(2) [of "nodes w" "m_head q" "[]" ns] c by simp
  have final: "get_prev (nodes w) (m_head q) = Some (last (m_head q # ns))"
    using clist_edge(1) [of "nodes w" "m_head q" ns "[]"] c by simp
  show ?thesis
  proof (cases "ds = []")
    case True
    then have "ns = []" using len by simp
    with True first final assms show ?thesis by (simp add: dequeue_def)
  next
    case False
    show ?thesis
    proof (cases b)
      case True
      obtain d es n ms where "ds = d # es" "ns = n # ms" using False len by (cases ds; cases ns) auto
      with qq_removed [of q w "[]" n ms "[]" d es] ns first True show ?thesis
        by (auto simp: dequeue_def intro!: qq_ofI)
    next
      case b: False
      have "ns = butlast ns @ [last ns]" "ds = butlast ds @ [last ds]" "length (butlast ns) = length (butlast ds)"
        using False len by (cases "ns = []"; simp)+
      with qq_removed [of q w "butlast ns" "last ns" "[]" "butlast ds" "last ds" "[]"] ns have
        "\<exists>m' m1. last ns \<noteq> m_head q \<and> cam_list_del_node (nodes w) (last ns) = Some m' \<and> get_data m' (last ns) = Some (last ds) \<and>
          free_node m' (last ns) = Some m1 \<and> qq_nodes (q\<lparr>m_size := m_size q - 1\<rparr>) (w\<lparr>nodes := m1\<rparr>) (butlast ns) (butlast ds)"
        by (metis append_Nil2)
      moreover have "get_prev (nodes w) (m_head q) = Some (last ns)" using final False len by auto
      ultimately show ?thesis using b False by (auto simp: dequeue_def intro!: qq_ofI)
    qed
  qed
qed

text \<open>A flush: the payloads that match leave the queue and are freed once each.\<close>

definition nonnull :: "addr list \<Rightarrow> addr list" where
  "nonnull ds = filter (\<lambda>d. d \<noteq> 0) ds"

lemma flush_loop:
  assumes "qq_nodes q w (ns @ ms) (ds @ es)" "length ns = length ds" "payloads_ok (ds @ es) (blocks w)"
  shows "\<exists>q' w'. flush_nodes_loop match (hd (ms @ [m_head q])) q w =
      Some (q', w', if m_dataFn q then nonnull (filter match es) else []) \<and>
    qq_of q' w' (ds @ filter (\<lambda>d. \<not> match d) es) \<and> blocks w' = blocks w - set (filter match es) \<and>
    m_dataFn q' = m_dataFn q \<and> m_head q' = m_head q"
  using assms
proof (induction ms arbitrary: q w ns ds es)
  case Nil
  then have "es = []" using qq_lengths [OF Nil.prems(1)] by simp
  with Nil show ?case by (subst flush_nodes_loop.simps) (auto simp: nonnull_def intro!: qq_ofI)
next
  case (Cons n ms)
  obtain d es' where es: "es = d # es'" using qq_lengths [OF Cons.prems(1)] Cons.prems(2) by (cases es) auto
  obtain m' m1 where r: "n \<noteq> m_head q" "get_next (nodes w) n = Some (hd (ms @ [m_head q]))" "get_data (nodes w) n = Some d"
    "cam_list_del_node (nodes w) n = Some m'" "get_data m' n = Some d" "free_node m' n = Some m1"
    "qq_nodes (q\<lparr>m_size := m_size q - 1\<rparr>) (w\<lparr>nodes := m1\<rparr>) (ns @ ms) (ds @ es')"
    using qq_removed [of q w ns n ms ds d es'] Cons.prems(1,2) es by blast
  show ?case
  proof (cases "match d")
    case True
    let ?q = "q\<lparr>m_size := m_size q - 1\<rparr>" and ?w = "w\<lparr>nodes := m1, blocks := blocks w - {d}\<rparr>"
    have "(if d \<noteq> 0 then free_block (blocks w) d else Some (blocks w)) = Some (blocks w - {d})"
      using Cons.prems(3) es by (auto simp: payloads_ok_def free_block_def)
    then have drop: "drop_node n q w = Some (?q, ?w, if d \<noteq> 0 \<and> m_dataFn q then [d] else [])"
      using r(4-6) by (simp add: drop_node_def)
    have "qq_nodes ?q ?w (ns @ ms) (ds @ es')" using r(7) by (simp add: qq_nodes_def)
    moreover have "payloads_ok (ds @ es') (blocks ?w)"
      using Cons.prems(3) es by (auto simp: payloads_ok_def split: if_splits)
    ultimately obtain q' w' where "flush_nodes_loop match (hd (ms @ [m_head q])) ?q ?w =
        Some (q', w', if m_dataFn q then nonnull (filter match es') else [])"
      "qq_of q' w' (ds @ filter (\<lambda>d. \<not> match d) es')" "blocks w' = blocks ?w - set (filter match es')"
      "m_dataFn q' = m_dataFn q" "m_head q' = m_head q"
      using Cons.IH [of ?q ?w ns ds es'] Cons.prems(2) by auto
    then show ?thesis using r(1-3) drop True es
      by (subst flush_nodes_loop.simps) (auto simp: nonnull_def)
  next
    case False
    from Cons.IH [of q w "ns @ [n]" "ds @ [d]" es'] Cons.prems es show ?thesis
      using r(1-3) False by (subst flush_nodes_loop.simps) auto
  qed
qed

lemma qq_first: "qq_nodes q w ns ds \<Longrightarrow> get_next (nodes w) (m_head q) = Some (hd (ns @ [m_head q]))"
  using clist_edge(2) [of "nodes w" "m_head q" "[]" ns] by (simp add: qq_nodes_def)

lemma qq_flushNodes:
  assumes "qq_of q w ds" "payloads_ok ds (blocks w)"
  shows "\<exists>q' w'. flushNodes (Some match) q w = Some (q', w', if m_dataFn q then nonnull (filter match ds) else []) \<and>
    qq_of q' w' (filter (\<lambda>d. \<not> match d) ds) \<and> blocks w' = blocks w - set (filter match ds) \<and> m_dataFn q' = m_dataFn q"
proof -
  obtain ns where ns: "qq_nodes q w ns ds" using assms(1) by (auto simp: qq_of_def)
  from flush_loop [of q w "[]" ns "[]" ds match] ns assms(2) qq_first [OF ns] show ?thesis
    by (auto simp: flushNodes_def)
qed

lemma qq_flush:
  assumes "qq_of q w ds" "payloads_ok ds (blocks w)"
  shows "\<exists>q' w'. flush q w = Some (q', w', if m_dataFn q then nonnull ds else []) \<and> qq_of q' w' [] \<and>
    blocks w' = blocks w - set ds \<and> m_dataFn q' = m_dataFn q"
proof -
  obtain ns where ns: "qq_nodes q w ns ds" using assms(1) by (auto simp: qq_of_def)
  from flush_loop [of q w "[]" ns "[]" ds "\<lambda>_. True"] ns assms(2) qq_first [OF ns] show ?thesis
    by (auto simp: flush_def qq_of_def qq_nodes_def)
qed

text \<open>The emptiness test reads the signed size.\<close>

lemma qq_isEmpty:
  assumes "qq_of q w ds" "length ds < 2 ^ 31"
  shows "isEmpty q \<longleftrightarrow> ds = []"
proof -
  have "sint (m_size q) = int (length ds)"
    using assms by (auto simp: qq_of_def qq_nodes_def signed_of_nat intro!: signed_take_bit_int_eq_self)
  then show ?thesis by (simp add: isEmpty_def word_sless_alt)
qed

section \<open>Sequences of calls\<close>

text \<open>One call on the queue; the flag of the two insertions says whether \<^verbatim>\<open>malloc\<close> succeeds.\<close>

datatype deque_op = Put bool addr | PutFirst bool addr | Take bool | Clear | ClearIf "addr \<Rightarrow> bool"

datatype deque_res = Done bool | Got addr | Freed "addr list"

fun deque_run :: "(qworld \<Rightarrow> addr) \<Rightarrow> deque_op list \<Rightarrow> qcamera_queue \<Rightarrow> qworld \<Rightarrow>
    (qcamera_queue \<times> qworld \<times> deque_res list) option" where
  "deque_run new [] q w = Some (q, w, [])"
| "deque_run new (op # ops) q w = do {
     (q, w, r) \<leftarrow> (case op of
        Put ok d \<Rightarrow> map_option (\<lambda>(q, w, r). (q, w, Done r)) (enqueue (if ok then Some (new w) else None) d q w)
      | PutFirst ok d \<Rightarrow> map_option (\<lambda>(q, w, r). (q, w, Done r)) (enqueueWithPriority (if ok then Some (new w) else None) d q w)
      | Take b \<Rightarrow> map_option (\<lambda>(q, w, r). (q, w, Got r)) (dequeue b q w)
      | Clear \<Rightarrow> map_option (\<lambda>(q, w, r). (q, w, Freed r)) (flush q w)
      | ClearIf m \<Rightarrow> map_option (\<lambda>(q, w, r). (q, w, Freed r)) (flushNodes (Some m) q w));
     (q, w, rs) \<leftarrow> deque_run new ops q w;
     Some (q, w, r # rs)
   }"

text \<open>The same calls on a list of payloads and the set of the allocated blocks.\<close>

fun deque_step :: "bool \<Rightarrow> deque_op \<Rightarrow> addr list \<Rightarrow> addr set \<Rightarrow> addr list \<times> addr set \<times> deque_res" where
  "deque_step rel (Put ok d) ds B = (if ok then ds @ [d] else ds, B, Done ok)"
| "deque_step rel (PutFirst ok d) ds B = (if ok then d # ds else ds, B, Done ok)"
| "deque_step rel (Take b) ds B =
     (if b then tl ds else butlast ds, B, Got (if ds = [] then 0 else if b then hd ds else last ds))"
| "deque_step rel Clear ds B = ([], B - set ds, Freed (if rel then nonnull ds else []))"
| "deque_step rel (ClearIf m) ds B =
     (filter (\<lambda>d. \<not> m d) ds, B - set (filter m ds), Freed (if rel then nonnull (filter m ds) else []))"

fun deque_spec :: "bool \<Rightarrow> deque_op list \<Rightarrow> addr list \<Rightarrow> addr set \<Rightarrow> addr list \<times> addr set \<times> deque_res list" where
  "deque_spec rel [] ds B = (ds, B, [])"
| "deque_spec rel (op # ops) ds B = (let (ds, B, r) = deque_step rel op ds B; (ds, B, rs) = deque_spec rel ops ds B
     in (ds, B, r # rs))"

text \<open>What the caller owes: a payload that enters is null, or allocated and not already in the queue.\<close>

fun owned :: "deque_op \<Rightarrow> addr list \<Rightarrow> addr set \<Rightarrow> bool" where
  "owned (Put ok d) ds B \<longleftrightarrow> ok \<longrightarrow> d = 0 \<or> d \<in> B - set ds"
| "owned (PutFirst ok d) ds B \<longleftrightarrow> ok \<longrightarrow> d = 0 \<or> d \<in> B - set ds"
| "owned _ ds B \<longleftrightarrow> True"

fun all_owned :: "bool \<Rightarrow> deque_op list \<Rightarrow> addr list \<Rightarrow> addr set \<Rightarrow> bool" where
  "all_owned rel [] ds B \<longleftrightarrow> True"
| "all_owned rel (op # ops) ds B \<longleftrightarrow> owned op ds B \<and>
     (let (ds, B, r) = deque_step rel op ds B in all_owned rel ops ds B)"

lemma payloads_filter: "payloads_ok ds B \<Longrightarrow> payloads_ok (filter (\<lambda>d. \<not> m d) ds) (B - set (filter m ds))"
  using distinct_filter [of "filter (\<lambda>d. d \<noteq> 0) ds" "\<lambda>d. \<not> m d"] by (auto simp: payloads_ok_def conj_commute)

lemma payloads_sub: "payloads_ok (xs @ ds @ ys) B \<Longrightarrow> payloads_ok ds B"
  by (auto simp: payloads_ok_def)

lemma payloads_step: "payloads_ok ds B \<Longrightarrow> owned op ds B \<Longrightarrow> deque_step rel op ds B = (ds', B', r) \<Longrightarrow> payloads_ok ds' B'"
proof (cases op)
  case (Take b)
  assume "payloads_ok ds B" "deque_step rel op ds B = (ds', B', r)"
  moreover have "payloads_ok (tl ds) B" "payloads_ok (butlast ds) B" if "payloads_ok ds B"
    using that payloads_sub [of "[hd ds]" "tl ds" "[]" B] payloads_sub [of "[]" "butlast ds" "[last ds]" B]
    by (cases "ds = []"; simp)+
  ultimately show ?thesis using Take by (auto split: if_splits)
next
  case (ClearIf m)
  assume "payloads_ok ds B" "deque_step rel op ds B = (ds', B', r)"
  then show ?thesis using ClearIf payloads_filter [of ds B m] by auto
qed (auto simp: payloads_ok_def split: if_splits)

lemma deque_run_refines:
  assumes "\<And>w. finite (dom (nodes w)) \<Longrightarrow> new w \<notin> dom (nodes w)"
    and "qq_of q w ds" "payloads_ok ds (blocks w)" "all_owned (m_dataFn q) ops ds (blocks w)"
  shows "\<exists>q' w'. deque_run new ops q w = Some (q', w', snd (snd (deque_spec (m_dataFn q) ops ds (blocks w)))) \<and>
    qq_of q' w' (fst (deque_spec (m_dataFn q) ops ds (blocks w))) \<and>
    blocks w' = fst (snd (deque_spec (m_dataFn q) ops ds (blocks w)))"
  using assms(2-)
proof (induction ops arbitrary: q w ds)
  case (Cons op ops)
  obtain ds1 B1 r where st: "deque_step (m_dataFn q) op ds (blocks w) = (ds1, B1, r)" by (metis prod_cases3)
  have new: "new w \<notin> dom (nodes w)" using assms(1) Cons.prems(1) by (auto simp: qq_of_def qq_nodes_def)
  obtain q1 w1 where s1: "(case op of
        Put ok d \<Rightarrow> map_option (\<lambda>(q, w, r). (q, w, Done r)) (enqueue (if ok then Some (new w) else None) d q w)
      | PutFirst ok d \<Rightarrow> map_option (\<lambda>(q, w, r). (q, w, Done r)) (enqueueWithPriority (if ok then Some (new w) else None) d q w)
      | Take b \<Rightarrow> map_option (\<lambda>(q, w, r). (q, w, Got r)) (dequeue b q w)
      | Clear \<Rightarrow> map_option (\<lambda>(q, w, r). (q, w, Freed r)) (flush q w)
      | ClearIf m \<Rightarrow> map_option (\<lambda>(q, w, r). (q, w, Freed r)) (flushNodes (Some m) q w)) = Some (q1, w1, r)"
      "qq_of q1 w1 ds1" "blocks w1 = B1" "m_dataFn q1 = m_dataFn q"
  proof (cases op)
    case (Put ok d)
    then show thesis using that st qq_enqueue [OF Cons.prems(1) new, of d] Cons.prems(1)
      by (cases ok) (auto simp: enqueue_def)
  next
    case (PutFirst ok d)
    then show thesis using that st qq_enqueueWithPriority [OF Cons.prems(1) new, of d] Cons.prems(1)
      by (cases ok) (auto simp: enqueueWithPriority_def)
  next
    case (Take b)
    then show thesis using that st qq_dequeue [OF Cons.prems(1), of b] by auto
  next
    case Clear
    then show thesis using that st qq_flush [OF Cons.prems(1,2)] by auto
  next
    case (ClearIf m)
    then show thesis using that st qq_flushNodes [OF Cons.prems(1,2), of m] by auto
  qed
  have "payloads_ok ds1 B1" "all_owned (m_dataFn q) ops ds1 B1"
    using payloads_step [OF Cons.prems(2) _ st] Cons.prems(3) st by auto
  from Cons.IH [of q1 w1 ds1] this s1(2-4) show ?case
    by (auto simp: s1(1) st split_beta)
qed auto

text \<open>C18: any sequence of insertions at either end, removals from either end and flushes on the pointer-level
  queue of the HAL classes, with any pattern of allocation failures, never touches unallocated memory,
  returns what the same calls on a list return, releases and frees every matching payload of a flush exactly once
  and no other block, and leaves a heap that represents the resulting list, as long as the payloads inserted
  are null, or allocated and not already in the queue.\<close>

theorem qcamera_queue_is_deque:
  assumes "\<And>w. finite (dom (nodes w)) \<Longrightarrow> new w \<notin> dom (nodes w)"
    and "qq_of q w ds" "payloads_ok ds (blocks w)" "all_owned (m_dataFn q) ops ds (blocks w)"
  shows "\<exists>q' w'. deque_run new ops q w = Some (q', w', snd (snd (deque_spec (m_dataFn q) ops ds (blocks w)))) \<and>
    qq_of q' w' (fst (deque_spec (m_dataFn q) ops ds (blocks w))) \<and>
    blocks w' = fst (snd (deque_spec (m_dataFn q) ops ds (blocks w)))"
  using deque_run_refines [OF assms] .

definition ex_qq :: qcamera_queue where
  "ex_qq = \<lparr>m_head = 10, m_size = 2, m_dataFn = True\<rparr>"

definition fresh_node :: "qworld \<Rightarrow> addr" where
  "fresh_node w = Suc (Max (insert 0 (dom (nodes w))))"

lemma fresh_node_new: "finite (dom (nodes w)) \<Longrightarrow> fresh_node w \<notin> dom (nodes w)"
  unfolding fresh_node_def by (metis Max_ge Suc_n_not_le_n finite.insertI insertCI)

lemma ex_qq_of: "qq_of ex_qq ex_world [5, 7]"
  unfolding qq_of_def qq_nodes_def using ex_clist ex_data
  by (intro exI [of _ "[20, 30]"]) (simp add: ex_qq_def, simp add: ex_world_def)

theorem qcamera_queue_is_deque_witness:
  "\<exists>q' w'. deque_run fresh_node [PutFirst True 9, Put False 3, Take False, ClearIf (\<lambda>d. d = 9), Take True, Take True]
      ex_qq ex_world = Some (q', w', [Done True, Done False, Got 7, Freed [9], Got 5, Got 0]) \<and>
    qq_of q' w' [] \<and> blocks w' = {5, 7}"
proof -
  have "payloads_ok [5, 7] (blocks ex_world)" "m_dataFn ex_qq" "blocks ex_world = {5, 7, 9}"
    by (simp_all add: payloads_ok_def ex_world_def ex_qq_def)
  with qcamera_queue_is_deque [OF fresh_node_new ex_qq_of, where
      ops = "[PutFirst True 9, Put False 3, Take False, ClearIf (\<lambda>d. d = 9), Take True, Take True]"] show ?thesis
    by (simp add: nonnull_def insert_Diff_if del: deque_run.simps)
qed

section \<open>The queue as a FIFO\<close>

text \<open>Where only \<^verbatim>\<open>enqueue\<close> and \<^verbatim>\<open>dequeue\<close> are used, the queue provides the interface of theory \<^verbatim>\<open>Fifo\<close>.\<close>

definition hal_enq :: "addr option \<Rightarrow> addr \<Rightarrow> qcamera_queue \<times> qworld \<Rightarrow> ((qcamera_queue \<times> qworld) \<times> i32) option" where
  "hal_enq malloc d s = map_option (\<lambda>(q, w, r). ((q, w), if r then 0 else -1)) (enqueue malloc d (fst s) (snd s))"

definition hal_deq :: "qcamera_queue \<times> qworld \<Rightarrow> ((qcamera_queue \<times> qworld) \<times> addr) option" where
  "hal_deq s = map_option (\<lambda>(q, w, r). ((q, w), r)) (dequeue True (fst s) (snd s))"

definition qq_holds :: "qcamera_queue \<times> qworld \<Rightarrow> addr list \<Rightarrow> bool" where
  "qq_holds s ds = qq_of (fst s) (snd s) ds"

definition qq_fresh :: "qcamera_queue \<times> qworld \<Rightarrow> addr \<Rightarrow> bool" where
  "qq_fresh s a = (a \<notin> dom (nodes (snd s)))"

interpretation hq: fifo_queue qq_holds qq_fresh hal_enq hal_deq
proof
  fix s xs a d assume "qq_holds s xs" "qq_fresh s a"
  then show "\<exists>s'. hal_enq (Some a) d s = Some (s', 0) \<and> qq_holds s' (xs @ [d])"
    using qq_enqueue [of "fst s" "snd s" xs a d] by (auto simp: qq_holds_def qq_fresh_def hal_enq_def)
next
  fix s x xs assume "qq_holds s (x # xs)"
  then show "\<exists>s'. hal_deq s = Some (s', x) \<and> qq_holds s' xs"
    using qq_dequeue [of "fst s" "snd s" "x # xs" True] by (auto simp: qq_holds_def hal_deq_def)
next
  fix s :: "qcamera_queue \<times> qworld" assume h: "qq_holds s []"
  then obtain ns where ns: "qq_nodes (fst s) (snd s) ns []" by (auto simp: qq_holds_def qq_of_def)
  then show "hal_deq s = Some (s, 0)"
    using qq_first [OF ns] qq_lengths [OF ns] by (simp add: hal_deq_def dequeue_def)
qed (simp add: hal_enq_def enqueue_def)

text \<open>A worker that empties such a queue, as the postprocessor does with its jpeg jobs when it stops, sees every
  entry once and in order.\<close>

lemma hal_queue_drain:
  "qq_of q w xs \<Longrightarrow> 0 \<notin> set xs \<Longrightarrow> \<exists>q' w'. queue_drain hal_deq (q, w) = Some ((q', w'), xs) \<and> qq_of q' w' []"
  using hq.drain_all [of "(q, w)" xs] by (auto simp: qq_holds_def)

end
