(* ===== verification/HalThread.thy ===== *)
theory HalThread
  imports HalQueue ParmBatch
begin

text \<open>
  \<^verbatim>\<open>camera/QCamera2/util/QCameraCmdThread.cpp\<close>: the command thread of the HAL's classes.  Its queue holds command
  cells that only the thread reads, so it is the list of their commands (theory \<^verbatim>\<open>HalQueue\<close> relates the
  pointer-level queue to the list).  \<^verbatim>\<open>sendCmd\<close> allocates two blocks, the cell and the queue's node; the arguments
  \<^verbatim>\<open>cell\<close> and \<^verbatim>\<open>node\<close> say which of them succeed.
\<close>

datatype camera_cmd_type_t = CAMERA_CMD_TYPE_NONE | CAMERA_CMD_TYPE_START_DATA_PROC | CAMERA_CMD_TYPE_STOP_DATA_PROC
  | CAMERA_CMD_TYPE_DO_NEXT_JOB | CAMERA_CMD_TYPE_EXIT | CAMERA_CMD_TYPE_MAX

record hal_cmd_thread =
  cmd_queue :: "camera_cmd_type_t list"
  cmd_pid :: addr
  cmd_sem :: nat
  sync_sem :: nat

section \<open>Operations\<close>

definition QCameraCmdThread_new :: hal_cmd_thread where
  "QCameraCmdThread_new = \<lparr>cmd_queue = [], cmd_pid = 0, cmd_sem = 0, sync_sem = 0\<rparr>"

definition cmd_launch :: "addr \<Rightarrow> hal_cmd_thread \<Rightarrow> hal_cmd_thread \<times> i32" where
  "cmd_launch pid t = (t\<lparr>cmd_pid := pid\<rparr>, NO_ERROR)"

text \<open>\<^verbatim>\<open>sendCmd\<close> up to the wait of a synchronous call.  The result of the enqueue is not looked at.\<close>

definition sendCmd :: "bool \<Rightarrow> bool \<Rightarrow> camera_cmd_type_t \<Rightarrow> bool \<Rightarrow> hal_cmd_thread \<Rightarrow> hal_cmd_thread \<times> i32" where
  "sendCmd cell node cmd priority t =
     (if \<not> cell then (t, NO_MEMORY)
      else
        (let t = (if \<not> node then t
                  else if priority then t\<lparr>cmd_queue := cmd # cmd_queue t\<rparr>
                  else t\<lparr>cmd_queue := cmd_queue t @ [cmd]\<rparr>) in
         (t\<lparr>cmd_sem := cmd_sem t + 1\<rparr>, NO_ERROR)))"

text \<open>The rest of a synchronous call: it goes on when the thread has posted the second semaphore.\<close>

definition sync_wait :: "hal_cmd_thread \<Rightarrow> hal_cmd_thread option" where
  "sync_wait t = (if sync_sem t = 0 then None else Some (t\<lparr>sync_sem := sync_sem t - 1\<rparr>))"

definition getCmd :: "hal_cmd_thread \<Rightarrow> hal_cmd_thread \<times> camera_cmd_type_t" where
  "getCmd t = (case cmd_queue t of
     [] \<Rightarrow> (t, CAMERA_CMD_TYPE_NONE)
   | cmd # q \<Rightarrow> (t\<lparr>cmd_queue := q\<rparr>, cmd))"

text \<open>The head of every thread routine: wait for the semaphore, then take a command.\<close>

definition next_cmd :: "hal_cmd_thread \<Rightarrow> (hal_cmd_thread \<times> camera_cmd_type_t) option" where
  "next_cmd t = (if cmd_sem t = 0 then None else Some (getCmd (t\<lparr>cmd_sem := cmd_sem t - 1\<rparr>)))"

definition sync_post :: "hal_cmd_thread \<Rightarrow> hal_cmd_thread" where
  "sync_post t = t\<lparr>sync_sem := sync_sem t + 1\<rparr>"

text \<open>\<^verbatim>\<open>exit\<close> up to the join; \<^verbatim>\<open>pthread_join\<close> returns when the routine has ended.\<close>

definition cmd_exit :: "bool \<Rightarrow> bool \<Rightarrow> hal_cmd_thread \<Rightarrow> hal_cmd_thread \<times> i32" where
  "cmd_exit cell node t =
     (if cmd_pid t = 0 then (t, NO_ERROR) else sendCmd cell node CAMERA_CMD_TYPE_EXIT True t)"

definition cmd_join :: "hal_cmd_thread \<Rightarrow> hal_cmd_thread" where
  "cmd_join t = t\<lparr>cmd_pid := 0\<rparr>"

section \<open>Facts\<close>

text \<open>There are at least as many posts as commands, so a command in the queue never waits for a post.\<close>

definition posted :: "hal_cmd_thread \<Rightarrow> bool" where
  "posted t \<longleftrightarrow> length (cmd_queue t) \<le> cmd_sem t"

lemma posted_new: "posted QCameraCmdThread_new"
  by (simp add: posted_def QCameraCmdThread_new_def)

lemma posted_send: "posted t \<Longrightarrow> posted (fst (sendCmd cell node cmd priority t))"
  by (simp add: posted_def sendCmd_def Let_def)

lemma posted_next: "posted t \<Longrightarrow> next_cmd t = Some (t', cmd) \<Longrightarrow> posted t'"
  by (auto simp: posted_def next_cmd_def getCmd_def split: if_splits list.splits)

lemma posted_sync [simp]: "posted (sync_post t) = posted t"
  by (simp add: posted_def sync_post_def)

lemma next_cmd_ready: "posted t \<Longrightarrow> cmd_queue t = cmd # q \<Longrightarrow> next_cmd t = Some (t\<lparr>cmd_sem := cmd_sem t - 1, cmd_queue := q\<rparr>, cmd)"
  by (simp add: posted_def next_cmd_def getCmd_def)

lemma sendCmd_simps [simp]:
  "sendCmd False node cmd pr t = (t, NO_MEMORY)"
  "sendCmd True False cmd pr t = (t\<lparr>cmd_sem := cmd_sem t + 1\<rparr>, NO_ERROR)"
  "sendCmd True True cmd True t = (t\<lparr>cmd_queue := cmd # cmd_queue t, cmd_sem := cmd_sem t + 1\<rparr>, NO_ERROR)"
  "sendCmd True True cmd False t = (t\<lparr>cmd_queue := cmd_queue t @ [cmd], cmd_sem := cmd_sem t + 1\<rparr>, NO_ERROR)"
  by (simp_all add: sendCmd_def)

end
