(* ===== verification/PostBase.thy ===== *)
theory PostBase
  imports HalThread HalOps
begin

text \<open>
  The state that the postprocessor (\<^verbatim>\<open>camera/QCamera2/HAL/QCameraPostProc.cpp\<close>) and the callback notifier
  (\<^verbatim>\<open>QCameraCbNotifier\<close> of \<^verbatim>\<open>QCamera2HWICallbacks.cpp\<close>) share with the HAL, the release functions that give memory
  back, and the notifier.

  \<^verbatim>\<open>frames\<close> is the heap of the copies of super buffers that the callbacks allocate; \<^verbatim>\<open>mems\<close> are the blocks of the
  framework's allocator that are not released yet.  Reading, freeing or releasing a frame or a block that is not there
  is undefined behaviour (\<^verbatim>\<open>None\<close>).  Jobs and callback arguments belong to the queue they are in and are values.
  Calls to other components are recorded in \<^verbatim>\<open>ptrace\<close>, as is every call of \<^verbatim>\<open>malloc\<close>; what they return is the
  environment's choice and may depend on everything before.
\<close>

section \<open>Data\<close>

record pp_buf =
  pb_stream :: u32
  pb_idx :: u32
  pb_type :: cam_stream_type
  pb_mem :: bool

record pp_super =
  ps_ch :: u32
  ps_bufs :: "pp_buf list"

record qcamera_jpeg_data =
  jobId :: u32
  src_frame :: addr
  src_reproc_frame :: addr

text \<open>What \<^verbatim>\<open>releaseNotifyData\<close> gives back: a block, a frame, the buffers of a stream.\<close>

record qcamera_release_data =
  rel_data :: addr
  rel_frame :: addr
  rel_bufs :: u32

datatype cb_release = No_release | Notify_data qcamera_release_data | Camera_memory addr | Stream_buffer u32 u32 u32

datatype cb_kind = QCAMERA_NOTIFY_CALLBACK | QCAMERA_DATA_CALLBACK | QCAMERA_DATA_TIMESTAMP_CALLBACK
  | QCAMERA_DATA_SNAPSHOT_CALLBACK

record callback_arg =
  cb_type :: cb_kind
  cb_msg :: i32
  cb_ext1 :: i32
  cb_ext2 :: i32
  cb_data :: addr
  cb_release :: cb_release

record notifier =
  mNotifyCb :: addr
  mDataCb :: addr
  mDataCbTimestamp :: addr
  mCallbackCookie :: addr
  mActive :: bool
  mDataQ :: "callback_arg list"
  mProcTh :: hal_cmd_thread
  isSnapshotActive :: bool
  numOfSnapshotExpected :: u32
  numOfSnapshotRcvd :: u32
  nf_running :: bool

text \<open>A reprocess channel: the source of every stream (handle and type), the features asked of it, and the source
  channel.\<close>

record reproc_channel =
  rc_chan :: hal_channel
  rc_src :: "(u32 \<times> cam_stream_type) list"
  rc_masks :: "u32 list"
  rc_src_chan :: hal_channel

record postproc =
  pp_inited :: bool
  mJpegClientHandle :: u32
  mJpegSessionId :: u32
  m_pJpegOutputMem :: bool
  m_pJpegExifObj :: bool
  m_bThumbnailNeeded :: bool
  m_pReprocChannel :: "reproc_channel option"
  m_inputPPQ :: "addr list"
  m_ongoingPPQ :: "addr list"
  m_inputJpegQ :: "qcamera_jpeg_data list"
  m_ongoingJpegQ :: "qcamera_jpeg_data list"
  m_inputRawQ :: "addr list"
  m_dataProcTh :: hal_cmd_thread
  mRawBurstCount :: u32
  is_active :: bool
  needNewSess :: bool
  pp_running :: bool

text \<open>The parameters of an encoding session: whether a thumbnail is encoded, the color formats of the picture and the
  thumbnail, the quality, and how many source, thumbnail and destination buffers were filled in.\<close>

record jpeg_config =
  jc_thumbnail :: bool
  jc_color :: mm_jpeg_color_format
  jc_thumb_color :: mm_jpeg_color_format
  jc_quality :: u32
  jc_src_bufs :: nat
  jc_tmb_bufs :: nat
  jc_dst_bufs :: nat

text \<open>The fields of an encoding job that the postprocessor fills in.\<close>

record jpeg_encode_job =
  ej_session :: u32
  ej_src_index :: u32
  ej_src_dim :: cam_dimension
  ej_dst_dim :: cam_dimension
  ej_thumb :: "(u32 \<times> cam_dimension \<times> cam_dimension) option"
  ej_rotation :: i32
  ej_meta :: bool

datatype post_call =
    Malloc
  | Buf_done u32 u32 u32
  | Dealloc_bufs u32
  | Jpeg_open
  | Jpeg_close u32
  | Alloc_output u32
  | Create_session u32 jpeg_config
  | Destroy_session u32
  | Start_job jpeg_encode_job
  | Abort_job u32
  | Do_reprocess u32 u32 "(u32 \<times> u32) option"
  | Get_output_crop u32
  | App_notify i32 i32 i32
  | App_data i32 addr
  | App_data_timestamp i32 addr
  | Snapshot_done_event
  | Display_buffer u32 u32
  | Process_evt sm_evt

record pworld =
  parent :: hal
  m_bShutterSoundPlayed :: bool
  post :: postproc
  nf :: notifier
  frames :: "addr \<rightharpoonup> pp_super"
  mems :: "addr set"
  next_addr :: addr
  ptrace :: "post_call list"

text \<open>\<^verbatim>\<open>pv_crop\<close>, \<^verbatim>\<open>pv_dim\<close>, \<^verbatim>\<open>pv_fmt\<close>, \<^verbatim>\<open>pv_bufs\<close> and \<^verbatim>\<open>pv_buf_size\<close> are the size of the crop, the dimension, the
  format, the number of buffers and the size of a buffer of a stream, which \<^verbatim>\<open>hal_stream\<close> does not keep; \<^verbatim>\<open>pv_min_pp_mask\<close> is the field
  \<^verbatim>\<open>min_required_pp_mask\<close> of the capabilities.  \<^verbatim>\<open>pv_session\<close> is what \<^verbatim>\<open>create_session\<close> writes to its last argument, if it
  writes it: the encoder answers most of its own failures with success and the session 0.\<close>

record post_env =
  pv_hal :: hal_env
  pv_malloc :: "post_call list \<Rightarrow> bool"
  pv_ret :: "post_call list \<Rightarrow> post_call \<Rightarrow> i32"
  pv_session :: "post_call list \<Rightarrow> u32 option"
  pv_crop :: "u32 \<Rightarrow> cam_dimension"
  pv_dim :: "u32 \<Rightarrow> cam_dimension"
  pv_fmt :: "u32 \<Rightarrow> nat"
  pv_bufs :: "u32 \<Rightarrow> nat option"
  pv_buf_size :: "u32 \<Rightarrow> i32"
  pv_min_pp_mask :: u32

definition CAMERA_MSG_SHUTTER :: i32 where "CAMERA_MSG_SHUTTER = 2"
definition CAMERA_MSG_PREVIEW_FRAME :: i32 where "CAMERA_MSG_PREVIEW_FRAME = 0x10"
definition CAMERA_MSG_VIDEO_FRAME :: i32 where "CAMERA_MSG_VIDEO_FRAME = 0x20"
definition CAMERA_MSG_RAW_IMAGE :: i32 where "CAMERA_MSG_RAW_IMAGE = 0x80"
definition CAMERA_MSG_COMPRESSED_IMAGE :: i32 where "CAMERA_MSG_COMPRESSED_IMAGE = 0x100"
definition CAMERA_MSG_RAW_IMAGE_NOTIFY :: i32 where "CAMERA_MSG_RAW_IMAGE_NOTIFY = 0x200"

section \<open>Calls and memory\<close>

definition post_do :: "post_env \<Rightarrow> post_call \<Rightarrow> pworld \<Rightarrow> pworld \<times> i32" where
  "post_do e c w = (w\<lparr>ptrace := ptrace w @ [c]\<rparr>, pv_ret e (ptrace w) c)"

definition post_do' :: "post_env \<Rightarrow> post_call \<Rightarrow> pworld \<Rightarrow> pworld" where
  "post_do' e c w = fst (post_do e c w)"

definition post_malloc :: "post_env \<Rightarrow> pworld \<Rightarrow> pworld \<times> bool" where
  "post_malloc e w = (w\<lparr>ptrace := ptrace w @ [Malloc]\<rparr>, pv_malloc e (ptrace w))"

text \<open>A call to the layers of the HAL.\<close>

definition on_parent :: "(hal \<Rightarrow> hal) \<Rightarrow> pworld \<Rightarrow> pworld" where
  "on_parent f w = w\<lparr>parent := f (parent w)\<rparr>"

definition on_post :: "(postproc \<Rightarrow> postproc) \<Rightarrow> pworld \<Rightarrow> pworld" where
  "on_post f w = w\<lparr>post := f (post w)\<rparr>"

definition on_nf :: "(notifier \<Rightarrow> notifier) \<Rightarrow> pworld \<Rightarrow> pworld" where
  "on_nf f w = w\<lparr>nf := f (nf w)\<rparr>"

definition free_frame :: "addr \<Rightarrow> pworld \<Rightarrow> pworld option" where
  "free_frame p w = (if p \<in> dom (frames w) then Some (w\<lparr>frames := (frames w)(p := None)\<rparr>) else None)"

definition free_mem :: "addr \<Rightarrow> pworld \<Rightarrow> pworld option" where
  "free_mem p w = (if p \<in> mems w then Some (w\<lparr>mems := mems w - {p}\<rparr>) else None)"

section \<open>Giving buffers back\<close>

text \<open>\<^verbatim>\<open>getChannelByHandle\<close>, then the reprocess channel.\<close>

definition getChannelByHandle :: "u32 \<Rightarrow> hal \<Rightarrow> hal_channel option" where
  "getChannelByHandle h s =
     (case filter (\<lambda>c. hc_handle c = h) (List.map_filter (m_channels s) all_ch_types) of [] \<Rightarrow> None | c # _ \<Rightarrow> Some c)"

text \<open>The streams of a channel, with the types each of them counts as (\<^verbatim>\<open>isTypeOf\<close>, \<^verbatim>\<open>isOrignalTypeOf\<close>): a reprocess
  stream counts as its source too.\<close>

definition reproc_views :: "reproc_channel \<Rightarrow> (u32 \<times> cam_stream_type list) list" where
  "reproc_views r = map (\<lambda>((h, ty), (_, orig)). (h, [ty, orig])) (zip (hc_streams (rc_chan r)) (rc_src r))"

definition pp_channel :: "u32 \<Rightarrow> pworld \<Rightarrow> (hal_channel \<times> (u32 \<times> cam_stream_type list) list) option" where
  "pp_channel h w = (case getChannelByHandle h (parent w) of
     Some c \<Rightarrow> Some (c, map (\<lambda>(h, ty). (h, [ty])) (hc_streams c))
   | None \<Rightarrow> (case m_pReprocChannel (post w) of
       None \<Rightarrow> None
     | Some r \<Rightarrow> if hc_handle (rc_chan r) = h then Some (rc_chan r, reproc_views r) else None))"

definition ch_bufDone :: "post_env \<Rightarrow> hal_channel \<Rightarrow> pp_super \<Rightarrow> pworld \<Rightarrow> pworld" where
  "ch_bufDone e c sb w =
     fold (\<lambda>b w. if list_ex (\<lambda>st. fst st = pb_stream b) (hc_streams c)
                 then post_do' e (Buf_done (hc_handle c) (pb_stream b) (pb_idx b)) w else w)
       (ps_bufs sb) w"

definition releaseSuperBuf :: "post_env \<Rightarrow> addr \<Rightarrow> pworld \<Rightarrow> pworld option" where
  "releaseSuperBuf e p w =
     (if p = 0 then Some w
      else case frames w p of
        None \<Rightarrow> None
      | Some sb \<Rightarrow> Some (case pp_channel (ps_ch sb) w of None \<Rightarrow> w | Some (c, _) \<Rightarrow> ch_bufDone e c sb w))"

text \<open>Every caller frees the frame right after.\<close>

definition release_and_free :: "post_env \<Rightarrow> addr \<Rightarrow> pworld \<Rightarrow> pworld option" where
  "release_and_free e p w = (if p = 0 then Some w else do { w \<leftarrow> releaseSuperBuf e p w; free_frame p w })"

definition releaseJpegJobData :: "post_env \<Rightarrow> qcamera_jpeg_data \<Rightarrow> pworld \<Rightarrow> pworld option" where
  "releaseJpegJobData e job w = do {
     w \<leftarrow> release_and_free e (src_reproc_frame job) w;
     release_and_free e (src_frame job) w
   }"

definition releaseNotifyData :: "post_env \<Rightarrow> qcamera_release_data \<Rightarrow> pworld \<Rightarrow> pworld option" where
  "releaseNotifyData e rd w = do {
     w \<leftarrow> (if rel_data rd \<noteq> 0 then free_mem (rel_data rd) w else Some w);
     w \<leftarrow> release_and_free e (rel_frame rd) w;
     Some (if rel_bufs rd \<noteq> 0 then post_do' e (Dealloc_bufs (rel_bufs rd)) w else w)
   }"

definition run_release :: "post_env \<Rightarrow> cb_release \<Rightarrow> pworld \<Rightarrow> pworld option" where
  "run_release e r w = (case r of
     No_release \<Rightarrow> Some w
   | Notify_data rd \<Rightarrow> releaseNotifyData e rd w
   | Camera_memory p \<Rightarrow> (if p = 0 then Some w else free_mem p w)
   | Stream_buffer ch st i \<Rightarrow> Some (post_do' e (Buf_done ch st i) w))"

text \<open>The release function of a queue, called on the payloads of a flush in their order.\<close>

fun release_list :: "('a \<Rightarrow> pworld \<Rightarrow> pworld option) \<Rightarrow> 'a list \<Rightarrow> pworld \<Rightarrow> pworld option" where
  "release_list rel [] w = Some w"
| "release_list rel (d # ds) w = do { w \<leftarrow> rel d w; release_list rel ds w }"

section \<open>The notifier\<close>

definition notify_cmd :: "post_env \<Rightarrow> camera_cmd_type_t \<Rightarrow> bool \<Rightarrow> pworld \<Rightarrow> pworld \<times> i32" where
  "notify_cmd e cmd pr w =
     (let (w, cell) = post_malloc e w in
      if \<not> cell then (w, NO_MEMORY)
      else
        (let (w, node) = post_malloc e w in
         (on_nf (\<lambda>n. n\<lparr>mProcTh := fst (sendCmd True node cmd pr (mProcTh n))\<rparr>) w, NO_ERROR)))"

definition notifyCallback :: "post_env \<Rightarrow> callback_arg \<Rightarrow> pworld \<Rightarrow> pworld \<times> i32" where
  "notifyCallback e cb w =
     (if \<not> mActive (nf w) then (w, UNKNOWN_ERROR)
      else
        (let (w, cell) = post_malloc e w in
         if \<not> cell then (w, NO_MEMORY)
         else
           (let (w, node) = post_malloc e w in
            if node then notify_cmd e CAMERA_CMD_TYPE_DO_NEXT_JOB False (on_nf (\<lambda>n. n\<lparr>mDataQ := mDataQ n @ [cb]\<rparr>) w)
            else (w, UNKNOWN_ERROR))))"

definition notifier_setCallbacks :: "hal_callbacks \<Rightarrow> addr \<Rightarrow> pworld \<Rightarrow> pworld" where
  "notifier_setCallbacks cbs pid w =
     (if mNotifyCb (nf w) = 0 \<and> mDataCb (nf w) = 0 \<and> mDataCbTimestamp (nf w) = 0 \<and> mCallbackCookie (nf w) = 0 then
        on_nf (\<lambda>n. n\<lparr>mNotifyCb := notify_cb cbs, mDataCb := data_cb cbs, mDataCbTimestamp := data_cb_timestamp cbs,
          mCallbackCookie := cb_user cbs, mActive := True, mProcTh := fst (cmd_launch pid (mProcTh n))\<rparr>) w
      else w)"

definition startSnapshots :: "post_env \<Rightarrow> pworld \<Rightarrow> pworld \<times> i32" where
  "startSnapshots e w = notify_cmd e CAMERA_CMD_TYPE_START_DATA_PROC True w"

definition stopSnapshots :: "post_env \<Rightarrow> pworld \<Rightarrow> pworld" where
  "stopSnapshots e w = fst (notify_cmd e CAMERA_CMD_TYPE_STOP_DATA_PROC True w)"

definition notifier_exit :: "post_env \<Rightarrow> pworld \<Rightarrow> pworld" where
  "notifier_exit e w =
     (let w = on_nf (\<lambda>n. n\<lparr>mActive := False\<rparr>) w in
      if cmd_pid (mProcTh (nf w)) = 0 then w else fst (notify_cmd e CAMERA_CMD_TYPE_EXIT True w))"

definition matchSnapshotNotifications :: "callback_arg \<Rightarrow> bool" where
  "matchSnapshotNotifications cb \<longleftrightarrow> cb_type cb = QCAMERA_DATA_SNAPSHOT_CALLBACK"

definition releaseNotifications :: "post_env \<Rightarrow> callback_arg \<Rightarrow> pworld \<Rightarrow> pworld option" where
  "releaseNotifications e cb = run_release e (cb_release cb)"

text \<open>The delivery of one argument to the application.\<close>

definition deliver :: "post_env \<Rightarrow> callback_arg \<Rightarrow> pworld \<Rightarrow> pworld" where
  "deliver e cb w =
     (if mMsgEnabled (parent w) AND cb_msg cb = 0 then w
      else case cb_type cb of
        QCAMERA_NOTIFY_CALLBACK \<Rightarrow>
          (if mNotifyCb (nf w) \<noteq> 0 then post_do' e (App_notify (cb_msg cb) (cb_ext1 cb) (cb_ext2 cb)) w else w)
      | QCAMERA_DATA_CALLBACK \<Rightarrow>
          (if mDataCb (nf w) \<noteq> 0 then post_do' e (App_data (cb_msg cb) (cb_data cb)) w else w)
      | QCAMERA_DATA_TIMESTAMP_CALLBACK \<Rightarrow>
          (if mDataCbTimestamp (nf w) \<noteq> 0 then post_do' e (App_data_timestamp (cb_msg cb) (cb_data cb)) w else w)
      | QCAMERA_DATA_SNAPSHOT_CALLBACK \<Rightarrow>
          (if isSnapshotActive (nf w) \<and> mDataCb (nf w) \<noteq> 0 then
             (let w = on_nf (\<lambda>n. n\<lparr>numOfSnapshotRcvd := numOfSnapshotRcvd n + 1\<rparr>) w;
                  w = (if 0 < numOfSnapshotExpected (nf w) \<and> numOfSnapshotExpected (nf w) = numOfSnapshotRcvd (nf w)
                       then post_do' e Snapshot_done_event w else w) in
              post_do' e (App_data (cb_msg cb) (cb_data cb)) w)
           else w))"

definition cbNotify_cmd :: "post_env \<Rightarrow> camera_cmd_type_t \<Rightarrow> pworld \<Rightarrow> pworld option" where
  "cbNotify_cmd e cmd w = (case cmd of
     CAMERA_CMD_TYPE_START_DATA_PROC \<Rightarrow>
       Some (on_nf (\<lambda>n. n\<lparr>isSnapshotActive := True,
         numOfSnapshotExpected := ucast (getNumOfSnapshots (he_parm (pv_hal e)) (mParameters (parent w))),
         numOfSnapshotRcvd := 0\<rparr>) w)
   | CAMERA_CMD_TYPE_STOP_DATA_PROC \<Rightarrow> do {
       let gone = filter matchSnapshotNotifications (mDataQ (nf w));
       w \<leftarrow> release_list (releaseNotifications e) gone
              (on_nf (\<lambda>n. n\<lparr>mDataQ := filter (\<lambda>cb. \<not> matchSnapshotNotifications cb) (mDataQ n)\<rparr>) w);
       Some (on_nf (\<lambda>n. n\<lparr>isSnapshotActive := False, numOfSnapshotExpected := 0, numOfSnapshotRcvd := 0\<rparr>) w)
     }
   | CAMERA_CMD_TYPE_DO_NEXT_JOB \<Rightarrow> (case mDataQ (nf w) of
       [] \<Rightarrow> Some w
     | cb # q \<Rightarrow> run_release e (cb_release cb) (deliver e cb (on_nf (\<lambda>n. n\<lparr>mDataQ := q\<rparr>) w)))
   | CAMERA_CMD_TYPE_EXIT \<Rightarrow>
       release_list (releaseNotifications e) (mDataQ (nf w)) (on_nf (\<lambda>n. n\<lparr>nf_running := False, mDataQ := []\<rparr>) w)
   | _ \<Rightarrow> Some w)"

text \<open>One turn of \<^verbatim>\<open>cbNotifyRoutine\<close>; it makes none while its semaphore is zero or after it has ended.\<close>

definition cbNotifyRoutine :: "post_env \<Rightarrow> pworld \<Rightarrow> pworld option" where
  "cbNotifyRoutine e w = (case next_cmd (mProcTh (nf w)) of
     None \<Rightarrow> Some w
   | Some (t, cmd) \<Rightarrow> if nf_running (nf w) then cbNotify_cmd e cmd (on_nf (\<lambda>n. n\<lparr>mProcTh := t\<rparr>) w) else Some w)"

section \<open>Events of the HAL\<close>

definition hwi_sendEvtNotify :: "post_env \<Rightarrow> i32 \<Rightarrow> i32 \<Rightarrow> i32 \<Rightarrow> pworld \<Rightarrow> pworld \<times> i32" where
  "hwi_sendEvtNotify e msg ext1 ext2 w =
     notifyCallback e \<lparr>cb_type = QCAMERA_NOTIFY_CALLBACK, cb_msg = msg, cb_ext1 = ext1, cb_ext2 = ext2, cb_data = 0,
       cb_release = No_release\<rparr> w"

definition playShutter :: "post_env \<Rightarrow> pworld \<Rightarrow> pworld" where
  "playShutter e w =
     (if notify_cb (m_callbacks (parent w)) = 0 \<or> mMsgEnabled (parent w) AND CAMERA_MSG_SHUTTER = 0 then w
      else
        (let w = (if \<not> m_bShutterSoundPlayed w then fst (hwi_sendEvtNotify e CAMERA_MSG_SHUTTER 0 1 w) else w);
             w = fst (hwi_sendEvtNotify e CAMERA_MSG_SHUTTER 0 0 w) in
         w\<lparr>m_bShutterSoundPlayed := False\<rparr>))"

end
