(* ===== verification/PostProc.thy ===== *)
theory PostProc
  imports PostBase ParmInit StreamOffset
begin

text \<open>
  The postprocessor, \<^verbatim>\<open>camera/QCamera2/HAL/QCameraPostProc.cpp\<close>, with the reprocess channel of
  \<^verbatim>\<open>QCameraChannel.cpp\<close> and the questions it asks of \<^verbatim>\<open>QCamera2HWI.cpp\<close>.  Three threads call it: the one of the
  camera stack hands over frames (\<^verbatim>\<open>processData\<close>, \<^verbatim>\<open>processRawData\<close>, \<^verbatim>\<open>processPPData\<close>), the state machine's starts and stops
  it and reports finished pictures (\<^verbatim>\<open>processJpegEvt\<close>), and its own takes commands (\<^verbatim>\<open>dataProcessRoutine\<close>).  A call, or one turn
  of the thread, is one step here.  Debugging dumps of frames are left out.
\<close>

section \<open>What the HAL needs of a picture\<close>

definition CAM_QCOM_FEATURE_DENOISE2D :: u32 where "CAM_QCOM_FEATURE_DENOISE2D = 2"
definition CAM_QCOM_FEATURE_HDR :: u32 where "CAM_QCOM_FEATURE_HDR = 0x20"
definition CAM_QCOM_FEATURE_SHARPNESS :: u32 where "CAM_QCOM_FEATURE_SHARPNESS = 0x80"
definition CAM_QCOM_FEATURE_CAC :: u32 where "CAM_QCOM_FEATURE_CAC = 0x200"

definition isCACEnabled :: "parm_env \<Rightarrow> bool" where
  "isCACEnabled e \<longleftrightarrow> atoi (property_get e ''persist.camera.feature.cac'' ''0'') = 1"

definition can_rotate :: "parm_env \<Rightarrow> parameters \<Rightarrow> bool" where
  "can_rotate e p \<longleftrightarrow>
     qcom_supported_feature_mask (pe_cap e) AND CAM_QCOM_FEATURE_ROTATION \<noteq> 0 \<and> 0 <s getJpegRotation e p"

definition needReprocess :: "post_env \<Rightarrow> parameters \<Rightarrow> bool" where
  "needReprocess e p =
     (let pe = he_parm (pv_hal e) in
      if mPictureFormat p \<noteq> CAM_FORMAT_JPEG then False
      else if isHDREnabled p then True
      else if m_bZslMode p then
        0 < pv_min_pp_mask e \<or> m_bWNROn p \<or> isCACEnabled pe \<or> 0 <s getFlipMode CAM_STREAM_TYPE_SNAPSHOT p \<or> can_rotate pe p
      else False)"

definition needRotationReprocess :: "post_env \<Rightarrow> parameters \<Rightarrow> bool" where
  "needRotationReprocess e p \<longleftrightarrow> mPictureFormat p = CAM_FORMAT_JPEG \<and> m_bZslMode p \<and> can_rotate (he_parm (pv_hal e)) p"

definition msg_on :: "i32 \<Rightarrow> pworld \<Rightarrow> bool" where
  "msg_on msg w \<longleftrightarrow> mMsgEnabled (parent w) AND msg \<noteq> 0"

section \<open>The reprocess channel\<close>

text \<open>The features asked of the reprocess channel, and of each of its streams.\<close>

definition online_features :: "post_env \<Rightarrow> parameters \<Rightarrow> u32" where
  "online_features e p =
     (let m = (if m_bZslMode p \<and> pv_min_pp_mask e AND CAM_QCOM_FEATURE_SHARPNESS \<noteq> 0 then CAM_QCOM_FEATURE_SHARPNESS else 0);
          m = (if m_bZslMode p \<and> m_bWNROn p then m OR CAM_QCOM_FEATURE_DENOISE2D else m);
          m = (if isCACEnabled (he_parm (pv_hal e)) then m OR CAM_QCOM_FEATURE_CAC else m);
          m = (if needRotationReprocess e p then m OR CAM_QCOM_FEATURE_ROTATION else m) in
      if isHDREnabled p then m OR CAM_QCOM_FEATURE_HDR else m AND NOT CAM_QCOM_FEATURE_HDR)"

definition stream_features :: "parameters \<Rightarrow> cam_stream_type \<Rightarrow> u32 \<Rightarrow> u32" where
  "stream_features p ty m =
     (let m = (if ty = CAM_STREAM_TYPE_SNAPSHOT then m else m AND NOT CAM_QCOM_FEATURE_CAC) in
      if m_bZslMode p \<and> ty = CAM_STREAM_TYPE_SNAPSHOT \<and> 0 <s getFlipMode ty p then m OR CAM_QCOM_FEATURE_FLIP else m)"

definition skips_thumbnail :: "parameters \<Rightarrow> cam_stream_type \<Rightarrow> bool" where
  "skips_thumbnail p ty \<longleftrightarrow> isHDREnabled p \<and> \<not> m_bHDRThumbnailProcessNeeded p \<and>
     (ty = CAM_STREAM_TYPE_PREVIEW \<or> ty = CAM_STREAM_TYPE_POSTVIEW)"

text \<open>One reprocess stream for every stream of the source but the metadata, and under HDR but the thumbnails.  Of the
  stream information the source and the feature mask are kept; the format, the dimension, the length of the burst and the
  arguments of the features are not.\<close>

fun addReprocStreamsFromSource :: "hal_env \<Rightarrow> u32 \<Rightarrow> hal_stream list \<Rightarrow> reproc_channel \<Rightarrow> hal \<Rightarrow> hal \<times> reproc_channel \<times> i32" where
  "addReprocStreamsFromSource e m [] r s = (s, r, NO_ERROR)"
| "addReprocStreamsFromSource e m (st # sts) r s =
     (if snd st = CAM_STREAM_TYPE_METADATA \<or> skips_thumbnail (mParameters s) (snd st) then
        addReprocStreamsFromSource e m sts r s
      else
        (let (s, failed) = dev e (Stream_info_buf CAM_STREAM_TYPE_OFFLINE_PROC) s in
         if failed \<noteq> 0 then (s, r, NO_MEMORY)
         else
           (let (s, c, rc) = ch_addStream e CAM_STREAM_TYPE_OFFLINE_PROC (rc_chan r) s;
                r' = r\<lparr>rc_chan := c, rc_src := rc_src r @ [st],
                        rc_masks := rc_masks r @ [stream_features (mParameters s) (snd st) m]\<rparr> in
            if rc \<noteq> NO_ERROR then (s, r, rc) else addReprocStreamsFromSource e m sts r' s)))"

definition reproc_attr :: "parm_env \<Rightarrow> parameters \<Rightarrow> mm_camera_channel_attr" where
  "reproc_attr e p = \<lparr>notify_mode = MM_CAMERA_SUPER_BUF_NOTIFY_CONTINUOUS, water_mark = 0, look_back = 0, post_frame_skip = 0,
     max_unmatched_frames = ucast (getMaxUnmatchedFramesInQueue e p)\<rparr>"

definition addOnlineReprocChannel :: "post_env \<Rightarrow> hal_channel \<Rightarrow> hal \<Rightarrow> hal \<times> reproc_channel option" where
  "addOnlineReprocChannel pe src s =
     (let e = pv_hal pe in
      if he_new_fails e (hal_trace s) then (s, None)
      else
        (let (s, c, rc) = ch_init e (Some (reproc_attr (he_parm e) (mParameters s))) s in
         if rc \<noteq> NO_ERROR then (ch_delete e c s, None)
         else
           (let (s, r, rc) = addReprocStreamsFromSource e (online_features pe (mParameters s)) (hc_streams src)
                  \<lparr>rc_chan = c, rc_src = [], rc_masks = [], rc_src_chan = src\<rparr> s in
            if rc \<noteq> NO_ERROR then (ch_delete e (rc_chan r) s, None) else (s, Some r))))"

text \<open>\<^verbatim>\<open>getStreamBySrouceHandle\<close>: the reprocess stream of a source stream.\<close>

definition getStreamBySrouceHandle :: "u32 \<Rightarrow> reproc_channel \<Rightarrow> hal_stream option" where
  "getStreamBySrouceHandle h r = map_of (zip (map fst (rc_src r)) (hc_streams (rc_chan r))) h"

text \<open>The metadata sent along: the stream and the index of the first metadata buffer.\<close>

definition reproc_meta :: "reproc_channel \<Rightarrow> pp_super \<Rightarrow> (u32 \<times> u32) option" where
  "reproc_meta r sb = map_option (\<lambda>b. (pb_stream b, pb_idx b))
     (find (\<lambda>b. map_of (hc_streams (rc_src_chan r)) (pb_stream b) = Some CAM_STREAM_TYPE_METADATA) (ps_bufs sb))"

fun reproc_bufs :: "post_env \<Rightarrow> reproc_channel \<Rightarrow> (u32 \<times> u32) option \<Rightarrow> pp_buf list \<Rightarrow> pworld \<Rightarrow> pworld \<times> i32" where
  "reproc_bufs e r meta [] w = (w, 0)"
| "reproc_bufs e r meta (b # bs) w =
     (case getStreamBySrouceHandle (pb_stream b) r of
        None \<Rightarrow> reproc_bufs e r meta bs w
      | Some st \<Rightarrow>
          (if snd st = CAM_STREAM_TYPE_METADATA then reproc_bufs e r meta bs w
           else
             (let (w, rc) = post_do e (Do_reprocess (fst st) (pb_idx b) meta) w in
              if rc \<noteq> NO_ERROR then (w, rc) else reproc_bufs e r meta bs w)))"

definition doReprocess :: "post_env \<Rightarrow> reproc_channel \<Rightarrow> pp_super \<Rightarrow> pworld \<Rightarrow> pworld \<times> i32" where
  "doReprocess e r sb w = (if hc_streams (rc_chan r) = [] then (w, -1) else reproc_bufs e r (reproc_meta r sb) (ps_bufs sb) w)"

section \<open>Starting and stopping\<close>

definition post_cmd :: "post_env \<Rightarrow> camera_cmd_type_t \<Rightarrow> bool \<Rightarrow> pworld \<Rightarrow> pworld \<times> i32" where
  "post_cmd e cmd pr w =
     (let (w, cell) = post_malloc e w in
      if \<not> cell then (w, NO_MEMORY)
      else
        (let (w, node) = post_malloc e w in
         (on_post (\<lambda>p. p\<lparr>m_dataProcTh := fst (sendCmd True node cmd pr (m_dataProcTh p))\<rparr>) w, NO_ERROR)))"

text \<open>The thread's local variables are set when it is launched.\<close>

definition pp_init :: "post_env \<Rightarrow> addr \<Rightarrow> pworld \<Rightarrow> pworld \<times> i32" where
  "pp_init e pid w =
     (let (w, h) = post_do e Jpeg_open w in
      if h = 0 then (on_post (\<lambda>p. p\<lparr>mJpegClientHandle := 0\<rparr>) w, UNKNOWN_ERROR)
      else (on_post (\<lambda>p. p\<lparr>mJpegClientHandle := h, m_dataProcTh := fst (cmd_launch pid (m_dataProcTh p)),
              is_active := False, needNewSess := True, pp_running := True, pp_inited := True\<rparr>) w, NO_ERROR))"

definition delete_reproc :: "post_env \<Rightarrow> pworld \<Rightarrow> pworld" where
  "delete_reproc e w = (case m_pReprocChannel (post w) of
     None \<Rightarrow> w
   | Some r \<Rightarrow> on_post (\<lambda>p. p\<lparr>m_pReprocChannel := None\<rparr>) (on_parent (ch_delete (pv_hal e) (rc_chan r)) w))"

definition start_reproc :: "post_env \<Rightarrow> hal_channel option \<Rightarrow> pworld \<Rightarrow> pworld \<times> i32" where
  "start_reproc e src w =
     (if \<not> needReprocess e (mParameters (parent w)) then (w, NO_ERROR)
      else
        (let w = delete_reproc e w;
             (s, r) = (case src of None \<Rightarrow> (parent w, None) | Some c \<Rightarrow> addOnlineReprocChannel e c (parent w));
             w = w\<lparr>parent := s\<rparr> in
         case r of
           None \<Rightarrow> (w, UNKNOWN_ERROR)
         | Some r \<Rightarrow>
             (let (s, c, rc) = ch_start (pv_hal e) (rc_chan r) (parent w) in
              if rc \<noteq> 0 then (w\<lparr>parent := ch_delete (pv_hal e) c s\<rparr>, rc)
              else (on_post (\<lambda>p. p\<lparr>m_pReprocChannel := Some (r\<lparr>rc_chan := c\<rparr>)\<rparr>) (w\<lparr>parent := s\<rparr>), rc))))"

definition pp_start :: "post_env \<Rightarrow> hal_channel option \<Rightarrow> pworld \<Rightarrow> pworld \<times> i32" where
  "pp_start e src w =
     (if \<not> pp_inited (post w) then (w, UNKNOWN_ERROR)
      else
        (let (w, rc) = start_reproc e src w in
         if rc \<noteq> NO_ERROR then (w, rc)
         else
           (let w = fst (post_cmd e CAMERA_CMD_TYPE_START_DATA_PROC False w);
                w = fst (startSnapshots e w) in
            (on_post (\<lambda>p. p\<lparr>mRawBurstCount := ucast (getNumOfSnapshots (he_parm (pv_hal e)) (mParameters (parent w)))\<rparr>) w, rc))))"

text \<open>\<^verbatim>\<open>stop\<close> up to the wait for the thread; the flag says whether there is something to wait for.  When the cell cannot be
  allocated the call does not wait.\<close>

definition pp_stop :: "post_env \<Rightarrow> pworld \<Rightarrow> pworld \<times> bool" where
  "pp_stop e w =
     (if pp_inited (post w) then
        (let (w, rc) = post_cmd e CAMERA_CMD_TYPE_STOP_DATA_PROC True (stopSnapshots e w) in (w, rc = NO_ERROR))
      else (w, False))"

text \<open>\<^verbatim>\<open>deinit\<close> up to the join of the thread, and after it.\<close>

definition pp_deinit :: "post_env \<Rightarrow> pworld \<Rightarrow> pworld" where
  "pp_deinit e w =
     (if pp_inited (post w) \<and> cmd_pid (m_dataProcTh (post w)) \<noteq> 0 then fst (post_cmd e CAMERA_CMD_TYPE_EXIT True w) else w)"

definition pp_deinit_joined :: "post_env \<Rightarrow> pworld \<Rightarrow> pworld" where
  "pp_deinit_joined e w =
     (if pp_inited (post w) then
        (let h = mJpegClientHandle (post w);
             w = (if 0 < h then post_do' e (Jpeg_close h) w else w) in
         on_post (\<lambda>p. p\<lparr>m_dataProcTh := cmd_join (m_dataProcTh p), mJpegClientHandle := 0, pp_inited := False\<rparr>) w)
      else w)"

section \<open>Frames from the camera stack\<close>

text \<open>\<^verbatim>\<open>QCameraQueue::enqueue\<close> without a look at its result: when the node cannot be allocated the payload is lost.\<close>

definition pp_enqueue :: "post_env \<Rightarrow> (postproc \<Rightarrow> postproc) \<Rightarrow> pworld \<Rightarrow> pworld" where
  "pp_enqueue e f w = (let (w, node) = post_malloc e w in if node then on_post f w else w)"

definition next_job :: "post_env \<Rightarrow> pworld \<Rightarrow> pworld" where
  "next_job e w = fst (post_cmd e CAMERA_CMD_TYPE_DO_NEXT_JOB False w)"

definition processRawData :: "post_env \<Rightarrow> addr \<Rightarrow> pworld \<Rightarrow> pworld \<times> i32" where
  "processRawData e frame w =
     (if \<not> pp_inited (post w) then (w, UNKNOWN_ERROR)
      else (next_job e (pp_enqueue e (\<lambda>p. p\<lparr>m_inputRawQ := m_inputRawQ p @ [frame]\<rparr>) w), NO_ERROR))"

definition processData :: "post_env \<Rightarrow> addr \<Rightarrow> pworld \<Rightarrow> pworld \<times> i32" where
  "processData e frame w =
     (if \<not> pp_inited (post w) then (w, UNKNOWN_ERROR)
      else if needReprocess e (mParameters (parent w)) then
        (next_job e (pp_enqueue e (\<lambda>p. p\<lparr>m_inputPPQ := m_inputPPQ p @ [frame]\<rparr>) (playShutter e w)), NO_ERROR)
      else if mPictureFormat (mParameters (parent w)) = CAM_FORMAT_YUV_422_NV16 then
        (next_job e (fst (processRawData e frame w)), NO_ERROR)
      else
        (let (w, job) = post_malloc e (playShutter e w) in
         if \<not> job then (w, NO_MEMORY)
         else (next_job e (pp_enqueue e (\<lambda>p. p\<lparr>m_inputJpegQ := m_inputJpegQ p @
                 [\<lparr>jobId = 0, src_frame = frame, src_reproc_frame = 0\<rparr>]\<rparr>) w), NO_ERROR)))"

text \<open>A reprocessed frame; the source frame is the one that was sent first.\<close>

definition processPPData :: "post_env \<Rightarrow> addr \<Rightarrow> pworld \<Rightarrow> (pworld \<times> i32) option" where
  "processPPData e frame w =
     (if \<not> pp_inited (post w) then Some (w, UNKNOWN_ERROR)
      else case m_ongoingPPQ (post w) of
        [] \<Rightarrow> Some (w, BAD_VALUE)
      | src # q \<Rightarrow>
          (let w = on_post (\<lambda>p. p\<lparr>m_ongoingPPQ := q\<rparr>) w in
           if src = 0 then Some (w, BAD_VALUE)
           else if mPictureFormat (mParameters (parent w)) = CAM_FORMAT_YUV_422_NV16 then do {
             w \<leftarrow> release_and_free e src w;
             Some (processRawData e frame w)
           }
           else
             (let (w, job) = post_malloc e w in
              if \<not> job then Some (w, NO_MEMORY)
              else Some (next_job e (pp_enqueue e (\<lambda>p. p\<lparr>m_inputJpegQ := m_inputJpegQ p @
                     [\<lparr>jobId = 0, src_frame = frame, src_reproc_frame = src\<rparr>]\<rparr>) w), NO_ERROR))))"

section \<open>Finished pictures\<close>

definition sendDataNotify :: "post_env \<Rightarrow> i32 \<Rightarrow> addr \<Rightarrow> qcamera_release_data \<Rightarrow> pworld \<Rightarrow> (pworld \<times> i32) option" where
  "sendDataNotify e msg data rd w =
     (let (w, arg) = post_malloc e w in
      if \<not> arg then Some (w, NO_MEMORY)
      else
        (let (w, rc) = notifyCallback e \<lparr>cb_type = QCAMERA_DATA_SNAPSHOT_CALLBACK, cb_msg = msg, cb_ext1 = 0, cb_ext2 = 0,
                 cb_data = data, cb_release = Notify_data rd\<rparr> w in
         if rc \<noteq> NO_ERROR then do { w \<leftarrow> releaseNotifyData e rd w; Some (w, UNKNOWN_ERROR) }
         else Some (w, rc)))"

text \<open>The event of the encoder: job and success.  The identifier is not compared: the head of the queue is taken.\<close>

definition findJpegJobByJobId :: "u32 \<Rightarrow> pworld \<Rightarrow> pworld \<times> qcamera_jpeg_data option" where
  "findJpegJobByJobId i w =
     (if i = 0 then (w, None)
      else case m_ongoingJpegQ (post w) of
        [] \<Rightarrow> (w, None)
      | job # q \<Rightarrow> (on_post (\<lambda>p. p\<lparr>m_ongoingJpegQ := q\<rparr>) w, Some job))"

definition jpeg_result :: "post_env \<Rightarrow> bool \<Rightarrow> qcamera_jpeg_data option \<Rightarrow> pworld \<Rightarrow> (pworld \<times> i32 \<times> addr) option" where
  "jpeg_result e ok job w =
     (if job = None then Some (w, BAD_VALUE, 0)
      else if data_cb (m_callbacks (parent w)) = 0 \<or> \<not> msg_on CAMERA_MSG_COMPRESSED_IMAGE w then Some (w, NO_ERROR, 0)
      else if \<not> ok then Some (w, FAILED_TRANSACTION, 0)
      else
        (let (w, got) = post_malloc e w in
         if \<not> got then Some (w, NO_MEMORY, 0)
         else
           (let mem = next_addr w; w = w\<lparr>mems := insert mem (mems w), next_addr := Suc mem\<rparr> in
            do { (w, rc) \<leftarrow> sendDataNotify e CAMERA_MSG_COMPRESSED_IMAGE mem
                              \<lparr>rel_data = mem, rel_frame = 0, rel_bufs = 0\<rparr> w;
                 Some (w, rc, mem) })))"

definition processJpegEvt :: "post_env \<Rightarrow> u32 \<Rightarrow> bool \<Rightarrow> pworld \<Rightarrow> (pworld \<times> i32) option" where
  "processJpegEvt e i ok w =
     (if \<not> pp_inited (post w) then Some (w, UNKNOWN_ERROR)
      else
        (let (w, job) = findJpegJobByJobId i w in
         do { (w, rc, mem) \<leftarrow> jpeg_result e ok job w;
              w \<leftarrow> (if rc \<noteq> NO_ERROR then
                      (let w = fst (hwi_sendEvtNotify e CAMERA_MSG_ERROR UNKNOWN_ERROR 0 w) in
                       if mem \<noteq> 0 then free_mem mem w else Some w)
                    else Some w);
              w \<leftarrow> (case job of None \<Rightarrow> Some w | Some job \<Rightarrow> releaseJpegJobData e job w);
              Some (next_job e w, rc) }))"

section \<open>Encoding a picture\<close>

definition FMT_YUV_420_NV21_ADRENO :: nat where "FMT_YUV_420_NV21_ADRENO = 3"
definition FMT_YUV_420_YV12 :: nat where "FMT_YUV_420_YV12 = 4"

definition getColorfmtFromImgFmt :: "nat \<Rightarrow> mm_jpeg_color_format" where
  "getColorfmtFromImgFmt f =
     (if f = FMT_YUV_420_NV21 then MM_JPEG_COLOR_FORMAT_YCRCBLP_H2V2
      else if f = FMT_YUV_420_NV21_ADRENO then MM_JPEG_COLOR_FORMAT_YCRCBLP_H2V2
      else if f = FMT_YUV_420_NV12 then MM_JPEG_COLOR_FORMAT_YCBCRLP_H2V2
      else if f = FMT_YUV_420_YV12 then MM_JPEG_COLOR_FORMAT_YCBCRLP_H2V2
      else if f = FMT_YUV_422_NV61 then MM_JPEG_COLOR_FORMAT_YCRCBLP_H2V1
      else if f = FMT_YUV_422_NV16 then MM_JPEG_COLOR_FORMAT_YCBCRLP_H2V1
      else MM_JPEG_COLOR_FORMAT_YCRCBLP_H2V2)"

definition hwi_getThumbnailSize :: "parm_env \<Rightarrow> parameters \<Rightarrow> cam_dimension" where
  "hwi_getThumbnailSize e p =
     \<lparr>dim_width = getInt e (p_map p) KEY_JPEG_THUMBNAIL_WIDTH, dim_height = getInt e (p_map p) KEY_JPEG_THUMBNAIL_HEIGHT\<rparr>"

text \<open>The output buffer is allocated anew for every session; any failure leaves none.\<close>

definition jpeg_output :: "post_env \<Rightarrow> u32 \<Rightarrow> jpeg_config \<Rightarrow> pworld \<Rightarrow> pworld \<times> jpeg_config \<times> i32" where
  "jpeg_output e st cfg w =
     (let (w, obj) = post_malloc e (on_post (\<lambda>p. p\<lparr>m_pJpegOutputMem := False\<rparr>) w) in
      if \<not> obj then (w, cfg, NO_MEMORY)
      else
        (let (w, rc) = post_do e (Alloc_output st) w in
         if rc \<noteq> 0 then (w, cfg, NO_MEMORY)
         else (on_post (\<lambda>p. p\<lparr>m_pJpegOutputMem := True\<rparr>) w, cfg\<lparr>jc_dst_bufs := 1\<rparr>, NO_ERROR)))"

definition getJpegEncodingConfig :: "post_env \<Rightarrow> u32 \<Rightarrow> u32 option \<Rightarrow> pworld \<Rightarrow> pworld \<times> jpeg_config \<times> i32" where
  "getJpegEncodingConfig e main thumb w =
     (let pe = he_parm (pv_hal e); par = mParameters (parent w);
          sz = hwi_getThumbnailSize pe par;
          needed = (dim_width sz \<noteq> 0 \<and> dim_height sz \<noteq> 0);
          q = getJpegQuality pe par;
          w = on_post (\<lambda>p. p\<lparr>m_bThumbnailNeeded := needed\<rparr>) w;
          cfg = \<lparr>jc_thumbnail = needed, jc_color = getColorfmtFromImgFmt (pv_fmt e main),
                 jc_thumb_color = MM_JPEG_COLOR_FORMAT_YCRCBLP_H2V2, jc_quality = (if q = 0 then 85 else q),
                 jc_src_bufs = 0, jc_tmb_bufs = 0, jc_dst_bufs = 0\<rparr>;
          fail = (\<lambda>cfg. (on_post (\<lambda>p. p\<lparr>m_pJpegOutputMem := False\<rparr>) w, cfg, BAD_VALUE)) in
      case pv_bufs e main of
        None \<Rightarrow> fail cfg
      | Some n \<Rightarrow>
          (let cfg = cfg\<lparr>jc_src_bufs := n\<rparr> in
           if \<not> needed then jpeg_output e main cfg w
           else
             (let t = (case thumb of None \<Rightarrow> main | Some t \<Rightarrow> t) in
              case pv_bufs e t of
                None \<Rightarrow> fail cfg
              | Some m \<Rightarrow>
                  jpeg_output e main
                    (cfg\<lparr>jc_tmb_bufs := m, jc_thumb_color := getColorfmtFromImgFmt (pv_fmt e t)\<rparr>) w)))"

text \<open>The picture and the thumbnail among the buffers of a frame: the last of each kind.  \<^verbatim>\<open>views\<close> lists the streams of
  the channel with the types each counts as.\<close>

definition kind_in :: "(u32 \<times> cam_stream_type list) list \<Rightarrow> cam_stream_type list \<Rightarrow> pp_buf \<Rightarrow> bool" where
  "kind_in views tys b \<longleftrightarrow> (case map_of views (pb_stream b) of
     None \<Rightarrow> False
   | Some ks \<Rightarrow> list_ex (\<lambda>k. k \<in> set tys) ks)"

definition last_of :: "('a \<Rightarrow> bool) \<Rightarrow> 'a list \<Rightarrow> 'a option" where
  "last_of P xs = find P (rev xs)"

definition main_of :: "(u32 \<times> cam_stream_type list) list \<Rightarrow> pp_super \<Rightarrow> pp_buf option" where
  "main_of views sb = last_of (kind_in views [CAM_STREAM_TYPE_SNAPSHOT]) (ps_bufs sb)"

definition thumb_of :: "(u32 \<times> cam_stream_type list) list \<Rightarrow> pp_super \<Rightarrow> pp_buf option" where
  "thumb_of views sb = last_of (\<lambda>b. kind_in views [CAM_STREAM_TYPE_PREVIEW, CAM_STREAM_TYPE_POSTVIEW] b \<and>
     \<not> kind_in views [CAM_STREAM_TYPE_SNAPSHOT] b) (ps_bufs sb)"

definition raw_callbacks :: "post_env \<Rightarrow> addr \<Rightarrow> pworld \<Rightarrow> pworld" where
  "raw_callbacks e mem w =
     (let w = (if data_cb (m_callbacks (parent w)) \<noteq> 0 \<and> msg_on CAMERA_MSG_RAW_IMAGE w then
                 fst (notifyCallback e \<lparr>cb_type = QCAMERA_DATA_CALLBACK, cb_msg = CAMERA_MSG_RAW_IMAGE, cb_ext1 = 0, cb_ext2 = 0,
                   cb_data = mem, cb_release = No_release\<rparr> w) else w) in
      if notify_cb (m_callbacks (parent w)) \<noteq> 0 \<and> msg_on CAMERA_MSG_RAW_IMAGE_NOTIFY w then
        fst (notifyCallback e \<lparr>cb_type = QCAMERA_NOTIFY_CALLBACK, cb_msg = CAMERA_MSG_RAW_IMAGE_NOTIFY, cb_ext1 = 0,
          cb_ext2 = 0, cb_data = 0, cb_release = No_release\<rparr> w)
      else w)"

definition has_meta :: "pp_super \<Rightarrow> bool" where
  "has_meta sb \<longleftrightarrow> list_ex (\<lambda>b. pb_type b = CAM_STREAM_TYPE_METADATA) (ps_bufs sb)"

definition encode_job :: "post_env \<Rightarrow> pp_buf \<Rightarrow> pp_buf option \<Rightarrow> bool \<Rightarrow> pworld \<Rightarrow> jpeg_encode_job" where
  "encode_job e main thumb meta w =
     (let pe = he_parm (pv_hal e); par = mParameters (parent w);
          crop = pv_crop e (pb_stream main); src = pv_dim e (pb_stream main);
          rot = getJpegRotation pe par;
          t = (case thumb of None \<Rightarrow> main | Some b \<Rightarrow> b);
          sz = hwi_getThumbnailSize pe par in
      \<lparr>ej_session = mJpegSessionId (post w), ej_src_index = pb_idx main, ej_src_dim = src,
       ej_dst_dim = \<lparr>dim_width = (if dim_width crop \<noteq> 0 then dim_width crop else dim_width src),
                     dim_height = (if dim_height crop \<noteq> 0 then dim_height crop else dim_height src)\<rparr>,
       ej_thumb = (if m_bThumbnailNeeded (post w) then
           Some (pb_idx t, pv_dim e (pb_stream t),
             if rot = 90 \<or> rot = 270 then \<lparr>dim_width = dim_height sz, dim_height = dim_width sz\<rparr> else sz)
         else None),
       ej_rotation = (if needRotationReprocess e par then 0 else rot),
       ej_meta = meta\<rparr>)"

text \<open>A session is created when one is needed.  Whether the configuration is complete is not looked at, and neither is the
  session the encoder gives.\<close>

definition encode_session :: "post_env \<Rightarrow> u32 \<Rightarrow> u32 option \<Rightarrow> pworld \<Rightarrow> pworld \<times> i32" where
  "encode_session e main thumb w =
     (if needNewSess (post w) then
        (let (w, cfg, _) = getJpegEncodingConfig e main thumb w;
             h = pv_session e (ptrace w);
             (w, rc) = post_do e (Create_session (mJpegClientHandle (post w)) cfg) w;
             w = on_post (\<lambda>p. p\<lparr>mJpegSessionId := (case h of None \<Rightarrow> mJpegSessionId p | Some h \<Rightarrow> h)\<rparr>) w in
         if rc \<noteq> NO_ERROR then (w, rc) else (on_post (\<lambda>p. p\<lparr>needNewSess := False\<rparr>) w, NO_ERROR))
      else (w, NO_ERROR))"

definition set_last_id :: "u32 \<Rightarrow> qcamera_jpeg_data list \<Rightarrow> qcamera_jpeg_data list" where
  "set_last_id i q = (if q = [] then [] else butlast q @ [(last q)\<lparr>jobId := i\<rparr>])"

text \<open>The job is the last of the ongoing jobs, and learns its identifier when the encoder has taken it: a positive
  result of \<^verbatim>\<open>start_job\<close> stands for success and the identifier, any other for the failure.\<close>

definition encodeData :: "post_env \<Rightarrow> qcamera_jpeg_data \<Rightarrow> pworld \<Rightarrow> (pworld \<times> i32) option" where
  "encodeData e job w = (case frames w (src_frame job) of
     None \<Rightarrow> None
   | Some sb \<Rightarrow> (case pp_channel (ps_ch sb) w of
       None \<Rightarrow> Some (w, BAD_VALUE)
     | Some (c, views) \<Rightarrow> (case main_of views sb of
         None \<Rightarrow> Some (w, BAD_VALUE)
       | Some main \<Rightarrow>
           if \<not> pb_mem main then Some (w, NO_MEMORY)
           else
             (let w = raw_callbacks e (unat (pb_idx main)) w; thumb = thumb_of views sb in
              if mJpegClientHandle (post w) = 0 then Some (w, UNKNOWN_ERROR)
              else
                (let (w, rc) = encode_session e (pb_stream main) (map_option pb_stream thumb) w in
                 if rc \<noteq> NO_ERROR then Some (w, rc)
                 else do {
                   meta \<leftarrow> (if has_meta sb then Some True
                            else if src_reproc_frame job = 0 then Some False
                            else map_option has_meta (frames w (src_reproc_frame job)));
                   let w = on_post (\<lambda>p. p\<lparr>m_pJpegExifObj := True\<rparr>) w;
                       (w, i) = post_do e (Start_job (encode_job e main thumb meta w)) w in
                   if 0 <s i then
                     Some (on_post (\<lambda>p. p\<lparr>m_ongoingJpegQ := set_last_id i (m_ongoingJpegQ p)\<rparr>) w, NO_ERROR)
                   else Some (w, if i = 0 then -1 else i)
                 })))))"

section \<open>Raw pictures\<close>

text \<open>The last picture of a burst carries the buffers of its stream (\<^verbatim>\<open>acquireStreamBufs\<close>), the others their frame.\<close>

definition raw_release :: "addr \<Rightarrow> u32 \<Rightarrow> pworld \<Rightarrow> pworld \<times> qcamera_release_data" where
  "raw_release frame st w =
     (let w = on_post (\<lambda>p. p\<lparr>mRawBurstCount := mRawBurstCount p - 1\<rparr>) w in
      (w, if mRawBurstCount (post w) = 0 then \<lparr>rel_data = 0, rel_frame = 0, rel_bufs = st\<rparr>
          else \<lparr>rel_data = 0, rel_frame = frame, rel_bufs = 0\<rparr>))"

definition processRawImageImpl :: "post_env \<Rightarrow> addr \<Rightarrow> pworld \<Rightarrow> (pworld \<times> i32) option" where
  "processRawImageImpl e frame w = (case frames w frame of
     None \<Rightarrow> None
   | Some sb \<Rightarrow> (case find (\<lambda>b. pb_type b = CAM_STREAM_TYPE_SNAPSHOT \<or> pb_type b = CAM_STREAM_TYPE_RAW) (ps_bufs sb) of
       None \<Rightarrow> Some (w, BAD_VALUE)
     | Some b \<Rightarrow> (case getChannelByHandle (ps_ch sb) (parent w) of
         None \<Rightarrow> Some (w, BAD_VALUE)
       | Some c \<Rightarrow>
           if \<not> list_ex (\<lambda>st. fst st = pb_stream b) (hc_streams c) then Some (w, BAD_VALUE)
           else if \<not> pb_mem b then Some (w, UNKNOWN_ERROR)
           else
             (let w = raw_callbacks e (unat (pb_idx b)) w in
              if data_cb (m_callbacks (parent w)) \<noteq> 0 \<and> msg_on CAMERA_MSG_COMPRESSED_IMAGE w then
                (let (w, rd) = raw_release frame (pb_stream b) w in
                 sendDataNotify e CAMERA_MSG_COMPRESSED_IMAGE (unat (pb_idx b)) rd w)
              else Some (w, NO_ERROR)))))"

section \<open>The thread\<close>

definition error_event :: "post_env \<Rightarrow> pworld \<Rightarrow> pworld" where
  "error_event e w = fst (hwi_sendEvtNotify e CAMERA_MSG_ERROR UNKNOWN_ERROR 0 w)"

text \<open>The first part of \<^verbatim>\<open>DO_NEXT_JOB\<close>: a jpeg job, when none is ongoing.\<close>

definition jpeg_next :: "post_env \<Rightarrow> pworld \<Rightarrow> pworld option" where
  "jpeg_next e w =
     (if m_ongoingJpegQ (post w) \<noteq> [] then Some w
      else case m_inputJpegQ (post w) of
        [] \<Rightarrow> Some w
      | job # q \<Rightarrow> do {
          let w = pp_enqueue e (\<lambda>p. p\<lparr>m_ongoingJpegQ := m_ongoingJpegQ p @ [job]\<rparr>) (on_post (\<lambda>p. p\<lparr>m_inputJpegQ := q\<rparr>) w);
          (w, ret) \<leftarrow> encodeData e job w;
          if ret \<noteq> NO_ERROR then do {
            w \<leftarrow> releaseJpegJobData e job (on_post (\<lambda>p. p\<lparr>m_ongoingJpegQ := butlast (m_ongoingJpegQ p)\<rparr>) w);
            Some (error_event e w)
          } else Some w
        })"

text \<open>The second part: a raw picture.\<close>

definition raw_next :: "post_env \<Rightarrow> pworld \<Rightarrow> pworld option" where
  "raw_next e w = (case m_inputRawQ (post w) of
     [] \<Rightarrow> Some w
   | frame # q \<Rightarrow> do {
       (w, ret) \<leftarrow> processRawImageImpl e frame (playShutter e (on_post (\<lambda>p. p\<lparr>m_inputRawQ := q\<rparr>) w));
       if ret \<noteq> NO_ERROR then map_option (error_event e) (release_and_free e frame w) else Some w
     })"

text \<open>The third part: a frame for the reprocess channel.\<close>

definition pp_next :: "post_env \<Rightarrow> pworld \<Rightarrow> pworld option" where
  "pp_next e w = (case m_inputPPQ (post w) of
     [] \<Rightarrow> Some w
   | frame # q \<Rightarrow>
       (let (w, job) = post_malloc e (on_post (\<lambda>p. p\<lparr>m_inputPPQ := q\<rparr>) w);
            fail = (\<lambda>w. map_option (error_event e) (release_and_free e frame w)) in
        if \<not> job then fail w
        else case m_pReprocChannel (post w) of
          None \<Rightarrow> fail w
        | Some r \<Rightarrow> (case frames w frame of
            None \<Rightarrow> None
          | Some sb \<Rightarrow>
              (let w = pp_enqueue e (\<lambda>p. p\<lparr>m_ongoingPPQ := m_ongoingPPQ p @ [frame]\<rparr>) w;
                   (w, ret) = doReprocess e r sb w in
               if ret \<noteq> NO_ERROR then fail (on_post (\<lambda>p. p\<lparr>m_ongoingPPQ := butlast (m_ongoingPPQ p)\<rparr>) w)
               else Some w))))"

text \<open>What is done instead while the thread is not active: give back one entry of every input queue.\<close>

definition drop_inputs :: "post_env \<Rightarrow> pworld \<Rightarrow> pworld option" where
  "drop_inputs e w = do {
     w \<leftarrow> (case m_inputJpegQ (post w) of [] \<Rightarrow> Some w
          | job # q \<Rightarrow> releaseJpegJobData e job (on_post (\<lambda>p. p\<lparr>m_inputJpegQ := q\<rparr>) w));
     w \<leftarrow> (case m_inputRawQ (post w) of [] \<Rightarrow> Some w
          | frame # q \<Rightarrow> release_and_free e frame (on_post (\<lambda>p. p\<lparr>m_inputRawQ := q\<rparr>) w));
     (case m_inputPPQ (post w) of [] \<Rightarrow> Some w
      | frame # q \<Rightarrow> release_and_free e frame (on_post (\<lambda>p. p\<lparr>m_inputPPQ := q\<rparr>) w))
   }"

text \<open>\<^verbatim>\<open>STOP_DATA_PROC\<close>: abort the ongoing jobs, end the session, drop the buffers and the reprocess channel, flush the
  queues in the order of the code, and let the caller of \<^verbatim>\<open>stop\<close> go on.\<close>

definition abort_job :: "post_env \<Rightarrow> qcamera_jpeg_data \<Rightarrow> pworld \<Rightarrow> pworld option" where
  "abort_job e job w = releaseJpegJobData e job (post_do' e (Abort_job (jobId job)) w)"

definition stop_reproc :: "post_env \<Rightarrow> pworld \<Rightarrow> pworld" where
  "stop_reproc e w = (case m_pReprocChannel (post w) of
     None \<Rightarrow> w
   | Some r \<Rightarrow>
       (let (s, c, _) = ch_stop (pv_hal e) (rc_chan r) (parent w) in
        on_post (\<lambda>p. p\<lparr>m_pReprocChannel := None\<rparr>) (w\<lparr>parent := ch_delete (pv_hal e) c s\<rparr>)))"

definition stop_data_proc :: "post_env \<Rightarrow> pworld \<Rightarrow> pworld option" where
  "stop_data_proc e w = do {
     let w = on_post (\<lambda>p. p\<lparr>is_active := False\<rparr>) w;
     w \<leftarrow> release_list (abort_job e) (m_ongoingJpegQ (post w)) (on_post (\<lambda>p. p\<lparr>m_ongoingJpegQ := []\<rparr>) w);
     let w = (if 0 < mJpegSessionId (post w)
              then on_post (\<lambda>p. p\<lparr>mJpegSessionId := 0\<rparr>) (post_do' e (Destroy_session (mJpegSessionId (post w))) w) else w);
     let w = on_post (\<lambda>p. p\<lparr>m_pJpegOutputMem := False, m_pJpegExifObj := False, needNewSess := True\<rparr>) w;
     let w = stop_reproc e w;
     w \<leftarrow> release_list (release_and_free e) (m_ongoingPPQ (post w)) (on_post (\<lambda>p. p\<lparr>m_ongoingPPQ := []\<rparr>) w);
     w \<leftarrow> release_list (releaseJpegJobData e) (m_inputJpegQ (post w)) (on_post (\<lambda>p. p\<lparr>m_inputJpegQ := []\<rparr>) w);
     w \<leftarrow> release_list (release_and_free e) (m_inputPPQ (post w)) (on_post (\<lambda>p. p\<lparr>m_inputPPQ := []\<rparr>) w);
     w \<leftarrow> release_list (release_and_free e) (m_inputRawQ (post w)) (on_post (\<lambda>p. p\<lparr>m_inputRawQ := []\<rparr>) w);
     Some (on_post (\<lambda>p. p\<lparr>m_dataProcTh := sync_post (m_dataProcTh p)\<rparr>) w)
   }"

definition dataProcess_cmd :: "post_env \<Rightarrow> camera_cmd_type_t \<Rightarrow> pworld \<Rightarrow> pworld option" where
  "dataProcess_cmd e cmd w = (case cmd of
     CAMERA_CMD_TYPE_START_DATA_PROC \<Rightarrow> Some (on_post (\<lambda>p. p\<lparr>is_active := True, needNewSess := True\<rparr>) w)
   | CAMERA_CMD_TYPE_STOP_DATA_PROC \<Rightarrow> stop_data_proc e w
   | CAMERA_CMD_TYPE_DO_NEXT_JOB \<Rightarrow>
       (if is_active (post w) then do { w \<leftarrow> jpeg_next e w; w \<leftarrow> raw_next e w; pp_next e w }
        else drop_inputs e w)
   | CAMERA_CMD_TYPE_EXIT \<Rightarrow> Some (on_post (\<lambda>p. p\<lparr>pp_running := False\<rparr>) w)
   | _ \<Rightarrow> Some w)"

text \<open>One turn of \<^verbatim>\<open>dataProcessRoutine\<close>.\<close>

definition dataProcessRoutine :: "post_env \<Rightarrow> pworld \<Rightarrow> pworld option" where
  "dataProcessRoutine e w = (case next_cmd (m_dataProcTh (post w)) of
     None \<Rightarrow> Some w
   | Some (t, cmd) \<Rightarrow> if pp_running (post w) then dataProcess_cmd e cmd (on_post (\<lambda>p. p\<lparr>m_dataProcTh := t\<rparr>) w) else Some w)"

end
