(* ===== verification/PostMem.thy ===== *)
theory PostMem
  imports PostProc "HOL-Library.Multiset"
begin

text \<open>
  Ownership in the postprocessor: every frame that the callbacks have allocated, and every block of the framework's
  allocator, belongs to exactly one queue entry.  \<^verbatim>\<open>owns w X Y\<close> says that the frames and blocks on the heap are
  those that the queues refer to, once each, together with the frames \<^verbatim>\<open>X\<close> and the blocks \<^verbatim>\<open>Y\<close>, which are in the hands of
  the operation that is running, or lost.
\<close>

named_theorems owning \<open>operations that give memory back\<close>

section \<open>References\<close>

definition nz :: "addr \<Rightarrow> addr multiset" where
  "nz p = (if p = 0 then {#} else {#p#})"

lemma nz_simps [simp]: "nz 0 = {#}" "0 < p \<Longrightarrow> nz p = {#p#}"
  by (simp_all add: nz_def)

definition job_refs :: "qcamera_jpeg_data \<Rightarrow> addr multiset" where
  "job_refs j = nz (src_frame j) + nz (src_reproc_frame j)"

definition jobs_refs :: "qcamera_jpeg_data list \<Rightarrow> addr multiset" where
  "jobs_refs js = sum_list (map job_refs js)"

lemma jobs_refs_simps [simp]:
  "jobs_refs [] = {#}" "jobs_refs (j # js) = job_refs j + jobs_refs js" "jobs_refs (js @ ks) = jobs_refs js + jobs_refs ks"
  by (simp_all add: jobs_refs_def)

definition release_frames :: "cb_release \<Rightarrow> addr multiset" where
  "release_frames r = (case r of Notify_data rd \<Rightarrow> nz (rel_frame rd) | _ \<Rightarrow> {#})"

definition release_mems :: "cb_release \<Rightarrow> addr multiset" where
  "release_mems r = (case r of Notify_data rd \<Rightarrow> nz (rel_data rd) | Camera_memory p \<Rightarrow> nz p | _ \<Rightarrow> {#})"

lemma release_refs_simps [simp]:
  "release_frames No_release = {#}" "release_mems No_release = {#}"
  "release_frames (Notify_data rd) = nz (rel_frame rd)" "release_mems (Notify_data rd) = nz (rel_data rd)"
  "release_frames (Camera_memory p) = {#}" "release_mems (Camera_memory p) = nz p"
  "release_frames (Stream_buffer ch st i) = {#}" "release_mems (Stream_buffer ch st i) = {#}"
  by (simp_all add: release_frames_def release_mems_def)

definition args_frames :: "callback_arg list \<Rightarrow> addr multiset" where
  "args_frames cbs = sum_list (map (\<lambda>cb. release_frames (cb_release cb)) cbs)"

definition args_mems :: "callback_arg list \<Rightarrow> addr multiset" where
  "args_mems cbs = sum_list (map (\<lambda>cb. release_mems (cb_release cb)) cbs)"

lemma args_simps [simp]:
  "args_frames [] = {#}" "args_mems [] = {#}"
  "args_frames (cb # cbs) = release_frames (cb_release cb) + args_frames cbs"
  "args_mems (cb # cbs) = release_mems (cb_release cb) + args_mems cbs"
  "args_frames (cbs @ ds) = args_frames cbs + args_frames ds" "args_mems (cbs @ ds) = args_mems cbs + args_mems ds"
  by (simp_all add: args_frames_def args_mems_def)

lemma args_split:
  "args_frames cbs = args_frames (filter P cbs) + args_frames (filter (\<lambda>cb. \<not> P cb) cbs)"
  "args_mems cbs = args_mems (filter P cbs) + args_mems (filter (\<lambda>cb. \<not> P cb) cbs)"
  by (induction cbs) auto

definition post_refs :: "postproc \<Rightarrow> addr multiset" where
  "post_refs p = mset (m_inputPPQ p) + mset (m_ongoingPPQ p) + mset (m_inputRawQ p) +
     jobs_refs (m_inputJpegQ p) + jobs_refs (m_ongoingJpegQ p)"

definition heap_ok :: "(addr \<rightharpoonup> pp_super) \<Rightarrow> addr set \<Rightarrow> addr \<Rightarrow> addr multiset \<Rightarrow> addr multiset \<Rightarrow> bool" where
  "heap_ok F M n A B \<longleftrightarrow> finite (dom F) \<and> mset_set (dom F) = A \<and> finite M \<and> mset_set M = B \<and>
     0 < n \<and> 0 \<notin> dom F \<and> 0 \<notin> M \<and> (\<forall>a\<in>dom F \<union> M. a < n)"

definition owns :: "pworld \<Rightarrow> addr multiset \<Rightarrow> addr multiset \<Rightarrow> bool" where
  "owns w X Y \<longleftrightarrow> heap_ok (frames w) (mems w) (next_addr w) (X + post_refs (post w) + args_frames (mDataQ (nf w)))
     (Y + args_mems (mDataQ (nf w)))"

text \<open>The operations that only record a call or touch the other parts of the state.\<close>

definition same_heap :: "pworld \<Rightarrow> pworld \<Rightarrow> bool" where
  "same_heap w w' \<longleftrightarrow> frames w' = frames w \<and> mems w' = mems w \<and> next_addr w' = next_addr w"

definition same_state :: "pworld \<Rightarrow> pworld \<Rightarrow> bool" where
  "same_state w w' \<longleftrightarrow> parent w' = parent w \<and> post w' = post w \<and> nf w' = nf w"

lemma same_state_refl [simp]: "same_state w w" by (simp add: same_state_def)

lemma same_state_trans: "same_state a b \<Longrightarrow> same_state b c \<Longrightarrow> same_state a c" by (simp add: same_state_def)

lemma post_do_simps [simp]:
  "frames (fst (post_do e c w)) = frames w" "mems (fst (post_do e c w)) = mems w"
  "next_addr (fst (post_do e c w)) = next_addr w" "post (fst (post_do e c w)) = post w"
  "nf (fst (post_do e c w)) = nf w" "parent (fst (post_do e c w)) = parent w"
  "frames (post_do' e c w) = frames w" "mems (post_do' e c w) = mems w" "next_addr (post_do' e c w) = next_addr w"
  "post (post_do' e c w) = post w" "nf (post_do' e c w) = nf w" "parent (post_do' e c w) = parent w"
  by (simp_all add: post_do_def post_do'_def)

lemma malloc_simps [simp]:
  "frames (fst (post_malloc e w)) = frames w" "mems (fst (post_malloc e w)) = mems w"
  "next_addr (fst (post_malloc e w)) = next_addr w" "post (fst (post_malloc e w)) = post w"
  "nf (fst (post_malloc e w)) = nf w" "parent (fst (post_malloc e w)) = parent w"
  by (simp_all add: post_malloc_def)

lemma on_simps [simp]:
  "frames (on_post f w) = frames w" "mems (on_post f w) = mems w" "next_addr (on_post f w) = next_addr w"
  "post (on_post f w) = f (post w)" "nf (on_post f w) = nf w" "parent (on_post f w) = parent w"
  "frames (on_nf g w) = frames w" "mems (on_nf g w) = mems w" "next_addr (on_nf g w) = next_addr w"
  "post (on_nf g w) = post w" "nf (on_nf g w) = g (nf w)" "parent (on_nf g w) = parent w"
  "frames (on_parent h w) = frames w" "mems (on_parent h w) = mems w" "next_addr (on_parent h w) = next_addr w"
  "post (on_parent h w) = post w" "nf (on_parent h w) = nf w" "parent (on_parent h w) = h (parent w)"
  by (simp_all add: on_post_def on_nf_def on_parent_def)

text \<open>Ownership only looks at the heap and the queues.\<close>

lemma owns_move:
  assumes "owns w X Y" "frames w' = frames w" "mems w' = mems w" "next_addr w' = next_addr w"
    and "X' + post_refs (post w') + args_frames (mDataQ (nf w')) = X + post_refs (post w) + args_frames (mDataQ (nf w))"
    and "Y' + args_mems (mDataQ (nf w')) = Y + args_mems (mDataQ (nf w))"
  shows "owns w' X' Y'"
  using assms by (simp add: owns_def)

lemma owns_same: "owns w X Y \<Longrightarrow> same_heap w w' \<Longrightarrow> post w' = post w \<Longrightarrow> mDataQ (nf w') = mDataQ (nf w) \<Longrightarrow> owns w' X Y"
  by (simp add: owns_def same_heap_def)

section \<open>Giving back\<close>

lemma heap_take:
  assumes "heap_ok F M n (add_mset p A) B"
  shows "p \<in> dom F" "p \<noteq> 0" "heap_ok (F(p := None)) M n A B"
proof -
  have "p \<in># mset_set (dom F)" using assms by (simp add: heap_ok_def)
  moreover have "finite (dom F)" using assms by (simp add: heap_ok_def)
  ultimately show p: "p \<in> dom F" by (metis elem_mset_set)
  then show "p \<noteq> 0" using assms by (auto simp: heap_ok_def)
  have "mset_set (dom F - {p}) = A" using p assms mset_set_Diff [of "dom F" "{p}"] by (simp add: heap_ok_def)
  then show "heap_ok (F(p := None)) M n A B" using assms by (auto simp: heap_ok_def)
qed

lemma heap_take_mem:
  assumes "heap_ok F M n A (add_mset p B)"
  shows "p \<in> M" "p \<noteq> 0" "heap_ok F (M - {p}) n A B"
proof -
  have "p \<in># mset_set M" using assms by (simp add: heap_ok_def)
  moreover have "finite M" using assms by (simp add: heap_ok_def)
  ultimately show p: "p \<in> M" by (metis elem_mset_set)
  then show "p \<noteq> 0" using assms by (auto simp: heap_ok_def)
  have "mset_set (M - {p}) = B" using p assms mset_set_Diff [of M "{p}"] by (simp add: heap_ok_def)
  then show "heap_ok F (M - {p}) n A B" using assms by (auto simp: heap_ok_def)
qed

lemma ch_bufDone_same: "same_heap w (ch_bufDone e c sb w) \<and> same_state w (ch_bufDone e c sb w)"
proof -
  have "same_heap w (fold (\<lambda>b w. if P b then post_do' e (f b) w else w) bs w) \<and>
    same_state w (fold (\<lambda>b w. if P b then post_do' e (f b) w else w) bs w)" for P f bs
    by (induction bs arbitrary: w) (auto simp: same_heap_def same_state_def)
  then show ?thesis by (simp add: ch_bufDone_def)
qed

lemma owns_release [owning]:
  assumes "owns w (nz p + X) Y"
  shows "\<exists>w'. release_and_free e p w = Some w' \<and> owns w' X Y \<and> same_state w w'"
proof (cases "p = 0")
  case False
  with assms have "heap_ok (frames w) (mems w) (next_addr w) (add_mset p (X + post_refs (post w) + args_frames (mDataQ (nf w))))
     (Y + args_mems (mDataQ (nf w)))"
    by (simp add: owns_def nz_def)
  note h = heap_take [OF this]
  obtain sb where sb: "frames w p = Some sb" using h(1) by auto
  define w1 where "w1 = (case pp_channel (ps_ch sb) w of None \<Rightarrow> w | Some (c, _) \<Rightarrow> ch_bufDone e c sb w)"
  have s: "same_heap w w1" "same_state w w1"
    using ch_bufDone_same by (auto simp: w1_def same_heap_def same_state_def split: option.splits prod.splits)
  have "releaseSuperBuf e p w = Some w1" using False sb by (simp add: releaseSuperBuf_def w1_def)
  moreover have "p \<in> dom (frames w1)" using h(1) s by (simp add: same_heap_def)
  ultimately have "release_and_free e p w = Some (w1\<lparr>frames := (frames w1)(p := None)\<rparr>)"
    using False by (simp add: release_and_free_def free_frame_def)
  moreover have "owns (w1\<lparr>frames := (frames w1)(p := None)\<rparr>) X Y"
    using h(3) s by (simp add: owns_def same_heap_def same_state_def)
  ultimately show ?thesis using s(2) by (simp add: same_state_def)
qed (use assms in \<open>simp add: release_and_free_def\<close>)

lemma owns_free_mem:
  assumes "owns w X (nz p + Y)" "p \<noteq> 0"
  shows "\<exists>w'. free_mem p w = Some w' \<and> owns w' X Y \<and> same_state w w'"
proof -
  have "heap_ok (frames w) (mems w) (next_addr w) (X + post_refs (post w) + args_frames (mDataQ (nf w)))
     (add_mset p (Y + args_mems (mDataQ (nf w))))"
    using assms by (simp add: owns_def nz_def)
  note h = heap_take_mem [OF this]
  from h(1,3) show ?thesis by (simp add: free_mem_def owns_def same_state_def)
qed

lemma owns_releaseJob [owning]:
  assumes "owns w (job_refs j + X) Y"
  shows "\<exists>w'. releaseJpegJobData e j w = Some w' \<and> owns w' X Y \<and> same_state w w'"
proof -
  have "owns w (nz (src_reproc_frame j) + (nz (src_frame j) + X)) Y" using assms by (simp add: job_refs_def ac_simps)
  from owns_release [OF this, of e] obtain w1 where w1: "release_and_free e (src_reproc_frame j) w = Some w1"
    "owns w1 (nz (src_frame j) + X) Y" "same_state w w1" by blast
  from owns_release [OF w1(2), of e] w1 show ?thesis
    by (auto simp: releaseJpegJobData_def intro: same_state_trans)
qed

lemma owns_notifyData [owning]:
  assumes "owns w (nz (rel_frame rd) + X) (nz (rel_data rd) + Y)"
  shows "\<exists>w'. releaseNotifyData e rd w = Some w' \<and> owns w' X Y \<and> same_state w w'"
proof -
  obtain w1 where w1: "(if rel_data rd \<noteq> 0 then free_mem (rel_data rd) w else Some w) = Some w1"
    "owns w1 (nz (rel_frame rd) + X) Y" "same_state w w1"
    using owns_free_mem [OF assms] assms by (cases "rel_data rd = 0") auto
  from owns_release [OF w1(2), of e] obtain w2 where w2: "release_and_free e (rel_frame rd) w1 = Some w2"
    "owns w2 X Y" "same_state w1 w2" by blast
  let ?w = "if rel_bufs rd \<noteq> 0 then post_do' e (Dealloc_bufs (rel_bufs rd)) w2 else w2"
  have "owns ?w X Y" "same_state w2 ?w" using w2(2) by (auto simp: owns_def same_state_def)
  then show ?thesis using w1 w2 by (auto simp: releaseNotifyData_def intro: same_state_trans)
qed

lemma owns_run_release [owning]:
  assumes "owns w (release_frames r + X) (release_mems r + Y)"
  shows "\<exists>w'. run_release e r w = Some w' \<and> owns w' X Y \<and> same_state w w'"
proof (cases r)
  case (Notify_data rd)
  then show ?thesis using assms owns_notifyData [of w rd X Y e] by (simp add: run_release_def)
next
  case (Camera_memory p)
  then show ?thesis using assms owns_free_mem [of w X p Y] by (cases "p = 0") (auto simp: run_release_def)
qed (use assms in \<open>simp_all add: run_release_def owns_def same_state_def\<close>)

lemma owns_release_list:
  assumes "\<And>d w X Y. owns w (RF d + X) (RM d + Y) \<Longrightarrow> \<exists>w'. rel d w = Some w' \<and> owns w' X Y \<and> same_state w w'"
    and "owns w (sum_list (map RF ds) + X) (sum_list (map RM ds) + Y)"
  shows "\<exists>w'. release_list rel ds w = Some w' \<and> owns w' X Y \<and> same_state w w'"
  using assms(2)
proof (induction ds arbitrary: w)
  case (Cons d ds)
  then have "owns w (RF d + (sum_list (map RF ds) + X)) (RM d + (sum_list (map RM ds) + Y))" by (simp add: ac_simps)
  from assms(1) [OF this] obtain w1 where w1: "rel d w = Some w1"
    "owns w1 (sum_list (map RF ds) + X) (sum_list (map RM ds) + Y)" "same_state w w1" by blast
  from Cons.IH [OF w1(2)] w1 show ?case by (auto intro: same_state_trans)
qed (simp add: assms)

end
