(* ===== verification/PostOwn.thy ===== *)
theory PostOwn
  imports PostMem
begin

text \<open>
  Ownership through the operations of the postprocessor: each of them is defined from a state in which every frame and
  block has one owner, and leaves such a state.  The relation \<^verbatim>\<open>calm\<close> collects the operations that only send
  commands and record calls, \<^verbatim>\<open>tame\<close> what no operation of the thread changes.
\<close>

section \<open>Steps that only send commands and record calls\<close>

definition post_view where
  "post_view p = (m_inputPPQ p, m_ongoingPPQ p, m_inputRawQ p, m_inputJpegQ p,
     map (\<lambda>j. (src_frame j, src_reproc_frame j)) (m_ongoingJpegQ p), pp_inited p)"

definition calm :: "pworld \<Rightarrow> pworld \<Rightarrow> bool" where
  "calm w w' \<longleftrightarrow> same_heap w w' \<and> parent w' = parent w \<and> mActive (nf w') = mActive (nf w) \<and>
     args_frames (mDataQ (nf w')) = args_frames (mDataQ (nf w)) \<and> args_mems (mDataQ (nf w')) = args_mems (mDataQ (nf w)) \<and>
     post_view (post w') = post_view (post w)"

lemma calm_refl [simp]: "calm w w" by (simp add: calm_def same_heap_def)

lemma calm_trans: "calm a b \<Longrightarrow> calm b c \<Longrightarrow> calm a c" by (simp add: calm_def same_heap_def)

lemma jobs_refs_view: "jobs_refs js = sum_list (map (\<lambda>(a, b). nz a + nz b) (map (\<lambda>j. (src_frame j, src_reproc_frame j)) js))"
  by (induction js) (auto simp: jobs_refs_def job_refs_def)

lemma refs_view: "post_view p' = post_view p \<Longrightarrow> post_refs p' = post_refs p"
  by (simp add: post_view_def post_refs_def jobs_refs_view)

lemma ongoing_view: "post_view p' = post_view p \<Longrightarrow> length (m_ongoingJpegQ p') = length (m_ongoingJpegQ p)"
  unfolding post_view_def prod.inject by (metis length_map)

lemma owns_calm: "calm w w' \<Longrightarrow> owns w' X Y = owns w X Y"
  using refs_view [of "post w'" "post w"] by (auto simp: calm_def same_heap_def owns_def)

lemma calm_eq: "calm v v' \<Longrightarrow> calm w v' = calm w v"
  by (auto simp: calm_def same_heap_def)

lemma view_simps [simp]:
  "post_view (p\<lparr>m_pJpegOutputMem := b\<rparr>) = post_view p" "post_view (p\<lparr>m_bThumbnailNeeded := b\<rparr>) = post_view p"
  "post_view (p\<lparr>mJpegSessionId := h\<rparr>) = post_view p" "post_view (p\<lparr>needNewSess := b\<rparr>) = post_view p"
  "post_view (p\<lparr>m_pJpegExifObj := b\<rparr>) = post_view p" "post_view (p\<lparr>m_dataProcTh := t\<rparr>) = post_view p"
  "post_view (p\<lparr>is_active := b\<rparr>) = post_view p" "post_view (p\<lparr>mRawBurstCount := n\<rparr>) = post_view p"
  "post_view (p\<lparr>m_pReprocChannel := r\<rparr>) = post_view p" "post_view (p\<lparr>pp_running := b\<rparr>) = post_view p"
  "post_view (p\<lparr>mJpegClientHandle := h\<rparr>) = post_view p"
  by (simp_all add: post_view_def)

lemma calm_on_post [simp]: "post_view (f (post v)) = post_view (post v) \<Longrightarrow> calm w (on_post f v) = calm w v"
  by (simp add: calm_def same_heap_def)

lemma calm_post_do [simp]:
  "calm w (post_do' e c v) = calm w v" "calm w (fst (post_do e c v)) = calm w v" "calm w (fst (post_malloc e v)) = calm w v"
  by (simp_all add: calm_def same_heap_def)

lemma calm_notify_cmd [simp]: "calm w (fst (notify_cmd e cmd pr v)) = calm w v"
proof (rule calm_eq)
  show "calm v (fst (notify_cmd e cmd pr v))"
    by (auto simp: notify_cmd_def calm_def same_heap_def split_beta Let_def)
qed

lemma calm_post_cmd [simp]: "calm w (fst (post_cmd e cmd pr v)) = calm w v"
  by (simp add: post_cmd_def split_beta Let_def)

lemma calm_next_job [simp]: "calm w (next_job e v) = calm w v"
  by (simp add: next_job_def)

lemma calm_notifyCallback:
  assumes "cb_release cb = No_release"
  shows "calm w (fst (notifyCallback e cb v)) = calm w v"
proof -
  have "calm w (on_nf (\<lambda>n. n\<lparr>mDataQ := mDataQ n @ [cb]\<rparr>) u) = calm w u" for u
    using assms by (simp add: calm_def same_heap_def)
  then show ?thesis by (simp add: notifyCallback_def split_beta Let_def)
qed

lemma calm_sendEvt [simp]:
  "calm w (fst (hwi_sendEvtNotify e msg a b v)) = calm w v" "calm w (error_event e v) = calm w v"
  by (simp_all add: hwi_sendEvtNotify_def error_event_def calm_notifyCallback)

lemma calm_sound [simp]: "calm w (v\<lparr>m_bShutterSoundPlayed := b\<rparr>) = calm w v"
  by (simp add: calm_def same_heap_def)

lemma calm_playShutter [simp]: "calm w (playShutter e v) = calm w v"
  by (simp add: playShutter_def Let_def)

lemma calm_raw_callbacks [simp]: "calm w (raw_callbacks e m v) = calm w v"
  by (simp add: raw_callbacks_def Let_def calm_notifyCallback)

lemma calm_jpeg_output [simp]: "calm w (fst (jpeg_output e st cfg v)) = calm w v"
  by (simp add: jpeg_output_def Let_def split_beta)

lemma calm_config [simp]: "calm w (fst (getJpegEncodingConfig e main thumb v)) = calm w v"
  by (simp add: getJpegEncodingConfig_def Let_def split: option.splits)

lemma calm_session [simp]: "calm w (fst (encode_session e main thumb v)) = calm w v"
  by (simp add: encode_session_def Let_def split_beta)

lemma set_last_id_view:
  "map (\<lambda>j. (src_frame j, src_reproc_frame j)) (set_last_id i q) = map (\<lambda>j. (src_frame j, src_reproc_frame j)) q"
  by (cases q rule: rev_cases) (auto simp: set_last_id_def)

lemma set_last_id_calm [simp]:
  "calm w (on_post (\<lambda>p. p\<lparr>m_ongoingJpegQ := set_last_id i (m_ongoingJpegQ p)\<rparr>) v) = calm w v"
  by (rule calm_on_post) (simp add: post_view_def set_last_id_view)

lemma calm_encodeData:
  assumes "src_frame job \<in> dom (frames w)" "src_reproc_frame job = 0 \<or> src_reproc_frame job \<in> dom (frames w)"
  shows "\<exists>w' rc. encodeData e job w = Some (w', rc) \<and> calm w w'"
proof -
  obtain sb where sb: "frames w (src_frame job) = Some sb" using assms(1) by auto
  show ?thesis
  proof (cases "pp_channel (ps_ch sb) w")
    case None
    then show ?thesis using sb by (simp add: encodeData_def)
  next
    case (Some cv)
    obtain c views where cv: "cv = (c, views)" by force
    show ?thesis
    proof (cases "main_of views sb")
      case None
      then show ?thesis using sb Some cv by (simp add: encodeData_def)
    next
      case (Some main)
      define w1 where "w1 = raw_callbacks e (unat (pb_idx main)) w"
      define w2 where "w2 = fst (encode_session e (pb_stream main) (map_option pb_stream (thumb_of views sb)) w1)"
      have q1: "calm w w1" unfolding w1_def by simp
      have q2: "calm w w2" unfolding w2_def w1_def by simp
      have fr: "frames w2 = frames w" using q2 by (simp add: calm_def same_heap_def)
      have re: "src_reproc_frame job = 0 \<or> (\<exists>sb'. frames w2 (src_reproc_frame job) = Some sb')" using assms(2) fr by auto
      obtain rc where s: "encode_session e (pb_stream main) (map_option pb_stream (thumb_of views sb)) w1 = (w2, rc)"
        by (metis w2_def prod.collapse)
      show ?thesis
        unfolding encodeData_def using sb \<open>pp_channel _ _ = _\<close> cv Some
        by (cases "src_reproc_frame job = 0"; use re in \<open>auto simp: w1_def [symmetric] Let_def split_beta s q1 q2\<close>)
    qed
  qed
qed

section \<open>The reprocess channel only calls the camera stack\<close>

definition traced :: "hal \<Rightarrow> hal \<Rightarrow> bool" where
  "traced s s' \<longleftrightarrow> s'\<lparr>hal_trace := []\<rparr> = s\<lparr>hal_trace := []\<rparr>"

lemma traced_refl [simp]: "traced s s" by (simp add: traced_def)

lemma traced_eq: "traced v v' \<Longrightarrow> traced s v' = traced s v" by (simp add: traced_def)

lemma traced_dev [simp]: "traced s (fst (dev e c v)) = traced s v" "traced s (dev' e c v) = traced s v"
  by (simp_all add: traced_def dev_def dev'_def)

lemma tracedD: "traced s s' \<Longrightarrow> m_callbacks s' = m_callbacks s" "traced s s' \<Longrightarrow> mParameters s' = mParameters s"
  "traced s s' \<Longrightarrow> m_channels s' = m_channels s"
  unfolding traced_def by (drule arg_cong [where f = m_callbacks], simp) (drule arg_cong [where f = mParameters], simp,
    drule arg_cong [where f = m_channels], simp)

lemma traced_fold: "(\<And>x v. traced s (f x v) = traced s v) \<Longrightarrow> traced s (fold f xs v) = traced s v"
  by (induction xs arbitrary: v) auto

lemma traced_ch [simp]:
  "traced s (fst (ch_stop e c v)) = traced s v" "traced s (ch_delete e c v) = traced s v"
  "traced s (fst (ch_init e a v)) = traced s v"
proof -
  show stop: "traced s (fst (ch_stop e c v)) = traced s v" for v
    by (simp add: ch_stop_def hal_stream_stop_def split_beta traced_fold)
  show "traced s (ch_delete e c v) = traced s v"
    using stop by (simp add: ch_delete_def hal_stream_delete_def Let_def traced_fold)
  show "traced s (fst (ch_init e a v)) = traced s v" by (simp add: ch_init_def split_beta)
qed

lemma traced_set_bundle: "traced s (fst (set_bundle e c is v)) = traced s v"
  by (induction "is" arbitrary: v) (simp_all add: split_beta)

lemma traced_start [simp]: "traced s (fst (ch_start e c v)) = traced s v"
proof -
  have "traced s (fst (announce_bundle e c v)) = traced s v"
    by (simp add: announce_bundle_def Let_def split_beta traced_set_bundle)
  then show ?thesis by (simp add: ch_start_def hal_stream_start_def hal_stream_stop_def split_beta traced_fold)
qed

lemma traced_addStream [simp]: "traced s (fst (ch_addStream e ty c v)) = traced s v"
  by (simp add: ch_addStream_def hal_stream_init_def split_beta)

lemma traced_addReproc: "traced s (fst (addReprocStreamsFromSource e m sts r v)) = traced s v"
  by (induction sts arbitrary: r v) (simp_all add: split_beta Let_def)

lemma traced_online [simp]: "traced s (fst (addOnlineReprocChannel e src v)) = traced s v"
  by (simp add: addOnlineReprocChannel_def split_beta Let_def traced_addReproc)

section \<open>The operations keep ownership\<close>

text \<open>Memory suffices: \<^verbatim>\<open>malloc\<close> never fails.\<close>

definition mallocs_ok :: "post_env \<Rightarrow> bool" where
  "mallocs_ok e \<longleftrightarrow> (\<forall>t. pv_malloc e t)"

lemma malloc_ok [simp]: "mallocs_ok e \<Longrightarrow> snd (post_malloc e w)"
  by (simp add: mallocs_ok_def post_malloc_def)

definition tame :: "pworld \<Rightarrow> pworld \<Rightarrow> bool" where
  "tame w w' \<longleftrightarrow> m_callbacks (parent w') = m_callbacks (parent w) \<and> mActive (nf w') = mActive (nf w) \<and>
     pp_inited (post w') = pp_inited (post w) \<and> set (m_inputRawQ (post w')) \<subseteq> set (m_inputRawQ (post w)) \<and>
     set (m_inputJpegQ (post w')) \<subseteq> set (m_inputJpegQ (post w)) \<and>
     (length (m_ongoingJpegQ (post w)) \<le> 1 \<longrightarrow> length (m_ongoingJpegQ (post w')) \<le> 1)"

lemma tame_refl [simp]: "tame w w" by (simp add: tame_def)

lemma tame_trans: "tame a b \<Longrightarrow> tame b c \<Longrightarrow> tame a c" unfolding tame_def by (metis subset_trans)

lemma tame_calm: "calm w w' \<Longrightarrow> tame w w'"
  using ongoing_view [of "post w'" "post w"] by (simp add: calm_def tame_def post_view_def)

lemma tame_quiet_eq: "calm v v' \<Longrightarrow> tame w v' = tame w v"
  using ongoing_view [of "post v'" "post v"] by (auto simp: calm_def tame_def post_view_def)

lemma calm_ops [simp]:
  "owns (error_event e w) X Y = owns w X Y" "tame v (error_event e w) = tame v w"
  "owns (next_job e w) X Y = owns w X Y" "tame v (next_job e w) = tame v w"
  "owns (playShutter e w) X Y = owns w X Y" "tame v (playShutter e w) = tame v w"
  "owns (post_do' e c w) X Y = owns w X Y" "tame v (post_do' e c w) = tame v w"
  "owns (raw_callbacks e m w) X Y = owns w X Y" "tame v (raw_callbacks e m w) = tame v w"
  "owns (fst (post_malloc e w)) X Y = owns w X Y" "tame v (fst (post_malloc e w)) = tame v w"
  "owns (fst (hwi_sendEvtNotify e msg a b w)) X Y = owns w X Y" "tame v (fst (hwi_sendEvtNotify e msg a b w)) = tame v w"
  "owns (fst (notify_cmd e cmd pr w)) X Y = owns w X Y" "tame v (fst (notify_cmd e cmd pr w)) = tame v w"
  "owns (fst (post_cmd e cmd pr w)) X Y = owns w X Y" "tame v (fst (post_cmd e cmd pr w)) = tame v w"
  by (rule owns_calm tame_quiet_eq, simp)+

lemma on_post_same [simp]:
  "post_view (f (post v)) = post_view (post v) \<Longrightarrow> owns (on_post f v) X Y = owns v X Y"
  "post_view (f (post v)) = post_view (post v) \<Longrightarrow> tame w (on_post f v) = tame w v"
  by (rule owns_calm tame_quiet_eq, simp)+

lemma tame_same: "same_state w w' \<Longrightarrow> tame w w'"
  by (simp add: same_state_def tame_def)

lemma owns_mem:
  assumes "owns w X Y" "p \<in># X + post_refs (post w) + args_frames (mDataQ (nf w))"
  shows "p \<in> dom (frames w)"
  using assms elem_mset_set [of "dom (frames w)" p] by (auto simp: owns_def heap_ok_def)

lemma job_in_heap:
  assumes "owns w X Y" "job_refs job \<subseteq># X + post_refs (post w)" "src_frame job \<noteq> 0"
  shows "src_frame job \<in> dom (frames w) \<and> (src_reproc_frame job = 0 \<or> src_reproc_frame job \<in> dom (frames w))"
proof -
  have "p \<in> dom (frames w)" if "p \<in># job_refs job" for p
    using that assms(2) by (intro owns_mem [OF assms(1)]) (auto dest: mset_subset_eqD)
  from this [of "src_frame job"] this [of "src_reproc_frame job"] assms(3) show ?thesis
    by (auto simp: job_refs_def nz_def)
qed

text \<open>A flag and a clean-up behave like the code's error paths: the frame in flight is given back.\<close>

lemma owns_fail:
  assumes "owns w (nz p + X) Y"
  shows "\<exists>w'. map_option (error_event e) (release_and_free e p w) = Some w' \<and> owns w' X Y \<and> tame w w'"
proof -
  obtain w1 where w1: "release_and_free e p w = Some w1" "owns w1 X Y" "same_state w w1" using owns_release [OF assms] by blast
  then show ?thesis using tame_same by simp
qed

lemma jpeg_next_owns:
  assumes "mallocs_ok e" "owns w X Y" "\<forall>j\<in>set (m_inputJpegQ (post w)). src_frame j \<noteq> 0"
  shows "\<exists>w'. jpeg_next e w = Some w' \<and> owns w' X Y \<and> tame w w'"
proof (cases "m_ongoingJpegQ (post w) \<noteq> [] \<or> m_inputJpegQ (post w) = []")
  case True
  then show ?thesis using assms(2) by (auto simp: jpeg_next_def)
next
  case False
  then obtain job q where q: "m_inputJpegQ (post w) = job # q" and o: "m_ongoingJpegQ (post w) = []" by (cases "m_inputJpegQ (post w)") auto
  define w1 where "w1 = pp_enqueue e (\<lambda>p. p\<lparr>m_ongoingJpegQ := m_ongoingJpegQ p @ [job]\<rparr>) (on_post (\<lambda>p. p\<lparr>m_inputJpegQ := q\<rparr>) w)"
  have w1: "owns w1 X Y" "m_ongoingJpegQ (post w1) = [job]" "tame w w1" "m_inputJpegQ (post w1) = q"
    using assms(1,2) q o
    by (auto simp: w1_def pp_enqueue_def split_beta Let_def tame_def post_refs_def ac_simps elim!: owns_move)
  have "src_frame job \<in> dom (frames w1)" "src_reproc_frame job = 0 \<or> src_reproc_frame job \<in> dom (frames w1)"
    using job_in_heap [OF w1(1), of job] w1(2) assms(3) q by (auto simp: post_refs_def)
  then obtain w2 rc where w2: "encodeData e job w1 = Some (w2, rc)" "calm w1 w2" using calm_encodeData by blast
  have v: "owns w2 X Y" "tame w w2" using w1 w2(2) owns_calm tame_trans tame_calm by blast+
  show ?thesis
  proof (cases "rc = NO_ERROR")
    case True
    then show ?thesis using q o w2(1) v by (simp add: jpeg_next_def w1_def [symmetric])
  next
    case False
    obtain j' where j': "m_ongoingJpegQ (post w2) = [j']" "job_refs j' = job_refs job"
      using w2(2) w1(2) by (auto simp: calm_def post_view_def job_refs_def)
    define w3 where "w3 = on_post (\<lambda>p. p\<lparr>m_ongoingJpegQ := butlast (m_ongoingJpegQ p)\<rparr>) w2"
    have "owns w3 (job_refs job + X) Y" "tame w2 w3"
      using v(1) j' by (auto simp: w3_def tame_def post_refs_def ac_simps elim!: owns_move)
    with owns_releaseJob [of w3 job X Y e] obtain w4 where w4: "releaseJpegJobData e job w3 = Some w4" "owns w4 X Y" "tame w2 w4"
      using tame_trans [OF _ tame_same] by blast
    have "tame w w4" using w4 v(2) tame_trans by blast
    with w4(2) show ?thesis using q o w2(1) w4(1) False by (simp add: jpeg_next_def w1_def [symmetric] w3_def [symmetric])
  qed
qed

text \<open>A notifier that is active takes every argument.\<close>

lemma notify_ok:
  assumes "mallocs_ok e" "mActive (nf w)"
  shows "\<exists>w'. notifyCallback e cb w = (w', NO_ERROR) \<and> tame w w' \<and>
    owns w' X Y = owns w (release_frames (cb_release cb) + X) (release_mems (cb_release cb) + Y)"
proof -
  define w1 where "w1 = on_nf (\<lambda>n. n\<lparr>mDataQ := mDataQ n @ [cb]\<rparr>) (fst (post_malloc e (fst (post_malloc e w))))"
  define w2 where "w2 = fst (notify_cmd e CAMERA_CMD_TYPE_DO_NEXT_JOB False w1)"
  have "notifyCallback e cb w = (w2, NO_ERROR)"
    using assms by (simp add: notifyCallback_def split_beta Let_def w2_def w1_def notify_cmd_def)
  moreover have "owns w1 X Y = owns w (release_frames (cb_release cb) + X) (release_mems (cb_release cb) + Y)"
    by (simp add: w1_def owns_def ac_simps)
  moreover have "tame w w1" by (simp add: w1_def tame_def)
  ultimately show ?thesis by (simp add: w2_def)
qed

lemma sendDataNotify_ok:
  assumes "mallocs_ok e" "mActive (nf w)" "owns w (nz (rel_frame rd) + X) (nz (rel_data rd) + Y)"
  shows "\<exists>w'. sendDataNotify e msg data rd w = Some (w', NO_ERROR) \<and> owns w' X Y \<and> tame w w'"
proof -
  let ?cb = "\<lparr>cb_type = QCAMERA_DATA_SNAPSHOT_CALLBACK, cb_msg = msg, cb_ext1 = 0, cb_ext2 = 0, cb_data = data,
    cb_release = Notify_data rd\<rparr>"
  let ?w = "fst (post_malloc e w)"
  obtain w' where w': "notifyCallback e ?cb ?w = (w', NO_ERROR)" "tame ?w w'"
    "owns w' X Y = owns ?w (nz (rel_frame rd) + X) (nz (rel_data rd) + Y)"
    using notify_ok [OF assms(1), of ?w ?cb X Y] assms(2) by auto
  moreover have "tame w ?w" by simp
  ultimately show ?thesis using assms tame_trans by (fastforce simp: sendDataNotify_def split_beta Let_def)
qed

text \<open>A raw picture is handed on, given back by the caller, or lost.\<close>

lemma raw_image_owns:
  assumes "mallocs_ok e" "data_cb (m_callbacks (parent w)) \<noteq> 0 \<longrightarrow> mActive (nf w)" "owns w (nz p + X) Y" "p \<noteq> 0"
  shows "\<exists>w' rc X'. processRawImageImpl e p w = Some (w', rc) \<and> tame w w' \<and> owns w' (if rc = NO_ERROR then X' else nz p + X) Y"
proof -
  have "p \<in> dom (frames w)" using assms(3,4) by (intro owns_mem [OF assms(3)]) simp
  then obtain sb where sb: "frames w p = Some sb" by auto
  note defs = processRawImageImpl_def sb
  show ?thesis
  proof (cases "find (\<lambda>b. pb_type b = CAM_STREAM_TYPE_SNAPSHOT \<or> pb_type b = CAM_STREAM_TYPE_RAW) (ps_bufs sb)")
    case None
    then show ?thesis using assms(3) by (simp add: defs NO_ERROR_def BAD_VALUE_def)
  next
    case b: (Some b)
    show ?thesis
    proof (cases "getChannelByHandle (ps_ch sb) (parent w)")
      case None
      then show ?thesis using assms(3) b by (simp add: defs NO_ERROR_def BAD_VALUE_def)
    next
      case c: (Some c)
      define w1 where "w1 = raw_callbacks e (unat (pb_idx b)) w"
      have w1: "owns w1 (nz p + X) Y" "tame w w1" using assms(3) by (simp_all add: w1_def)
      define w2 where "w2 = fst (raw_release p (pb_stream b) w1)"
      define rd where "rd = snd (raw_release p (pb_stream b) w1)"
      have r: "raw_release p (pb_stream b) w1 = (w2, rd)" by (simp add: w2_def rd_def)
      have w2: "owns w2 (nz p + X) Y" "tame w w2"
        using w1 by (auto simp: w2_def raw_release_def Let_def tame_def post_refs_def elim: owns_move)
      have rd: "rel_data rd = 0" "rel_frame rd = p \<or> rel_frame rd = 0" by (auto simp: rd_def raw_release_def Let_def)
      define Z where "Z = (if rel_frame rd = 0 then nz p + X else X)"
      have "owns w2 (nz (rel_frame rd) + Z) (nz (rel_data rd) + Y)" using w2(1) rd assms(4) by (auto simp: Z_def)
      moreover have "data_cb (m_callbacks (parent w1)) \<noteq> 0 \<Longrightarrow> mActive (nf w2)"
        using assms(2) w1(2) w2(2) by (auto simp: tame_def)
      ultimately have sent: "data_cb (m_callbacks (parent w1)) \<noteq> 0 \<Longrightarrow>
          \<exists>w'. sendDataNotify e CAMERA_MSG_COMPRESSED_IMAGE (unat (pb_idx b)) rd w2 = Some (w', NO_ERROR) \<and> owns w' Z Y \<and> tame w w'"
        using sendDataNotify_ok [OF assms(1)] w2(2) tame_trans by blast
      show ?thesis
        using sent w1 b c assms(3)
        by (auto simp: defs w1_def [symmetric] r NO_ERROR_def BAD_VALUE_def UNKNOWN_ERROR_def)
    qed
  qed
qed

lemma raw_next_owns:
  assumes "mallocs_ok e" "data_cb (m_callbacks (parent w)) \<noteq> 0 \<longrightarrow> mActive (nf w)" "owns w X Y"
  shows "\<exists>w' X'. raw_next e w = Some w' \<and> owns w' X' Y \<and> tame w w' \<and> (m_inputRawQ (post w) = [] \<longrightarrow> X' = X)"
proof (cases "m_inputRawQ (post w)")
  case Nil
  then show ?thesis using assms(3) by (auto simp: raw_next_def)
next
  case (Cons p q)
  define w1 where "w1 = playShutter e (on_post (\<lambda>p. p\<lparr>m_inputRawQ := q\<rparr>) w)"
  have p: "p \<in> dom (frames w)" using Cons by (intro owns_mem [OF assms(3)]) (simp add: post_refs_def)
  then have p0: "p \<noteq> 0" using assms(3) by (auto simp: owns_def heap_ok_def)
  have "owns (on_post (\<lambda>p. p\<lparr>m_inputRawQ := q\<rparr>) w) (nz p + X) Y" "tame w (on_post (\<lambda>p. p\<lparr>m_inputRawQ := q\<rparr>) w)"
    using assms(3) Cons p0 by (auto simp: tame_def post_refs_def ac_simps elim!: owns_move)
  then have w1: "owns w1 (nz p + X) Y" "tame w w1" by (simp_all add: w1_def)
  then have "data_cb (m_callbacks (parent w1)) \<noteq> 0 \<longrightarrow> mActive (nf w1)" using assms(2) by (simp add: tame_def)
  from raw_image_owns [OF assms(1) this w1(1) p0] obtain w2 rc X' where w2: "processRawImageImpl e p w1 = Some (w2, rc)"
    "tame w1 w2" "owns w2 (if rc = NO_ERROR then X' else nz p + X) Y" by blast
  have t: "tame w w2" using w1(2) w2(2) tame_trans by blast
  show ?thesis
  proof (cases "rc = NO_ERROR")
    case True
    then show ?thesis using w2 t Cons by (auto simp: raw_next_def w1_def [symmetric])
  next
    case False
    with owns_fail [of w2 p X Y e] w2 t Cons tame_trans show ?thesis
      by (fastforce simp: raw_next_def w1_def [symmetric])
  qed
qed

lemma doReprocess_calm: "calm w (fst (doReprocess e r sb v)) = calm w v"
proof -
  have "calm w (fst (reproc_bufs e r m bs v)) = calm w v" for m bs v
    by (induction bs arbitrary: v) (simp_all add: split_beta split: option.split)
  then show ?thesis by (simp add: doReprocess_def)
qed

lemma pp_next_owns:
  assumes "mallocs_ok e" "owns w X Y"
  shows "\<exists>w'. pp_next e w = Some w' \<and> owns w' X Y \<and> tame w w'"
proof (cases "m_inputPPQ (post w)")
  case Nil
  then show ?thesis using assms(2) by (simp add: pp_next_def)
next
  case (Cons p q)
  define w1 where "w1 = fst (post_malloc e (on_post (\<lambda>p. p\<lparr>m_inputPPQ := q\<rparr>) w))"
  obtain b where m: "post_malloc e (on_post (\<lambda>p. p\<lparr>m_inputPPQ := q\<rparr>) w) = (w1, True)"
    using assms(1) by (metis malloc_ok prod.collapse w1_def)
  have p: "p \<in> dom (frames w)" using Cons by (intro owns_mem [OF assms(2)]) (simp add: post_refs_def)
  then obtain sb where sb: "frames w1 p = Some sb" by (auto simp: w1_def)
  have p0: "p \<noteq> 0" using p assms(2) by (auto simp: owns_def heap_ok_def)
  have w1: "owns w1 (nz p + X) Y" "tame w w1"
    using assms(2) Cons p0 by (auto simp: w1_def tame_def post_refs_def ac_simps elim!: owns_move)
  have fail: "\<exists>w'. map_option (error_event e) (release_and_free e p v) = Some w' \<and> owns w' X Y \<and> tame w w'"
    if "owns v (nz p + X) Y" "tame w v" for v
    using owns_fail [OF that(1)] that(2) tame_trans by blast
  show ?thesis
  proof (cases "m_pReprocChannel (post w1)")
    case None
    then show ?thesis using fail [OF w1] Cons m by (simp add: pp_next_def)
  next
    case (Some r)
    define w2 where "w2 = pp_enqueue e (\<lambda>s. s\<lparr>m_ongoingPPQ := m_ongoingPPQ s @ [p]\<rparr>) w1"
    define w3 where "w3 = fst (doReprocess e r sb w2)"
    obtain rc where rc: "doReprocess e r sb w2 = (w3, rc)" by (metis w3_def prod.collapse)
    have w2: "owns w2 X Y" "tame w w2"
      using w1 assms(1) p0 by (auto simp: w2_def pp_enqueue_def split_beta Let_def tame_def post_refs_def ac_simps elim!: owns_move)
    have q3: "calm w2 w3" by (simp add: w3_def doReprocess_calm)
    then have w3: "owns w3 X Y" "tame w w3" using w2 owns_calm tame_quiet_eq by blast+
    have "m_ongoingPPQ (post w2) = m_ongoingPPQ (post w1) @ [p]"
      using assms(1) by (simp add: w2_def pp_enqueue_def split_beta Let_def)
    with q3 have o: "m_ongoingPPQ (post w3) = m_ongoingPPQ (post w1) @ [p]" by (simp add: calm_def post_view_def)
    have "owns (on_post (\<lambda>s. s\<lparr>m_ongoingPPQ := butlast (m_ongoingPPQ s)\<rparr>) w3) (nz p + X) Y"
      using w3(1) o p0 by (auto simp: post_refs_def ac_simps elim!: owns_move)
    moreover have "tame w (on_post (\<lambda>s. s\<lparr>m_ongoingPPQ := butlast (m_ongoingPPQ s)\<rparr>) w3)"
      using w3(2) by (simp add: tame_def)
    ultimately show ?thesis
      using fail w3 Cons m Some sb rc by (simp add: pp_next_def w2_def [symmetric] Let_def)
  qed
qed

text \<open>A frame or a job that leaves its queue is given back.\<close>

lemma frame_gone:
  assumes "owns w X Y" "post_refs (post w) = add_mset p (post_refs (f (post w)))" "tame w (on_post f w)"
  shows "\<exists>w'. release_and_free e p (on_post f w) = Some w' \<and> owns w' X Y \<and> tame w w'"
proof -
  have "p \<in> dom (frames w)" using assms(2) by (intro owns_mem [OF assms(1)]) simp
  then have "p \<noteq> 0" using assms(1) by (auto simp: owns_def heap_ok_def)
  then have "owns (on_post f w) (nz p + X) Y" using assms(2) by (auto simp: ac_simps intro: owns_move [OF assms(1)])
  from owns_release [OF this, of e] assms(3) show ?thesis using tame_same tame_trans by blast
qed

lemma job_gone:
  assumes "owns w X Y" "post_refs (post w) = job_refs j + post_refs (f (post w))" "tame w (on_post f w)"
  shows "\<exists>w'. releaseJpegJobData e j (on_post f w) = Some w' \<and> owns w' X Y \<and> tame w w'"
proof -
  have "owns (on_post f w) (job_refs j + X) Y" using assms(2) by (auto simp: ac_simps intro: owns_move [OF assms(1)])
  from owns_releaseJob [OF this, of e] assms(3) show ?thesis using tame_same tame_trans by blast
qed

lemma tame_pop [simp]:
  "m_inputJpegQ (post w) = j # q \<Longrightarrow> tame w (on_post (\<lambda>p. p\<lparr>m_inputJpegQ := q\<rparr>) w)"
  "m_inputRawQ (post w) = p # r \<Longrightarrow> tame w (on_post (\<lambda>p. p\<lparr>m_inputRawQ := r\<rparr>) w)"
  "tame w (on_post (\<lambda>p. p\<lparr>m_inputPPQ := r\<rparr>) w)" "tame w (on_post (\<lambda>p. p\<lparr>m_ongoingPPQ := r\<rparr>) w)"
  by (auto simp: tame_def)

lemma drop_inputs_owns:
  assumes "owns w X Y"
  shows "\<exists>w'. drop_inputs e w = Some w' \<and> owns w' X Y \<and> tame w w'"
proof -
  have 1: "\<exists>w'. (case m_inputJpegQ (post w) of [] \<Rightarrow> Some w
      | job # q \<Rightarrow> releaseJpegJobData e job (on_post (\<lambda>p. p\<lparr>m_inputJpegQ := q\<rparr>) w)) = Some w' \<and> owns w' X Y \<and> tame w w'"
    using assms by (cases "m_inputJpegQ (post w)") (auto intro!: job_gone [OF assms] simp: post_refs_def)
  have 2: "\<exists>w'. (case m_inputRawQ (post w) of [] \<Rightarrow> Some w
      | p # q \<Rightarrow> release_and_free e p (on_post (\<lambda>p. p\<lparr>m_inputRawQ := q\<rparr>) w)) = Some w' \<and> owns w' X Y \<and> tame w w'"
    if "owns w X Y" for w
    using that by (cases "m_inputRawQ (post w)") (auto intro!: frame_gone [OF that] simp: post_refs_def)
  have 3: "\<exists>w'. (case m_inputPPQ (post w) of [] \<Rightarrow> Some w
      | p # q \<Rightarrow> release_and_free e p (on_post (\<lambda>p. p\<lparr>m_inputPPQ := q\<rparr>) w)) = Some w' \<and> owns w' X Y \<and> tame w w'"
    if "owns w X Y" for w
    using that by (cases "m_inputPPQ (post w)") (auto intro!: frame_gone [OF that] simp: post_refs_def)
  obtain w1 where w1: "(case m_inputJpegQ (post w) of [] \<Rightarrow> Some w
      | job # q \<Rightarrow> releaseJpegJobData e job (on_post (\<lambda>p. p\<lparr>m_inputJpegQ := q\<rparr>) w)) = Some w1" "owns w1 X Y" "tame w w1"
    using 1 by blast
  obtain w2 where w2: "(case m_inputRawQ (post w1) of [] \<Rightarrow> Some w1
      | p # q \<Rightarrow> release_and_free e p (on_post (\<lambda>p. p\<lparr>m_inputRawQ := q\<rparr>) w1)) = Some w2" "owns w2 X Y" "tame w1 w2"
    using 2 [OF w1(2)] by blast
  obtain w3 where w3: "(case m_inputPPQ (post w2) of [] \<Rightarrow> Some w2
      | p # q \<Rightarrow> release_and_free e p (on_post (\<lambda>p. p\<lparr>m_inputPPQ := q\<rparr>) w2)) = Some w3" "owns w3 X Y" "tame w2 w3"
    using 3 [OF w2(2)] by blast
  have "tame w w3" using w1(3) w2(3) w3(3) tame_trans by blast
  then show ?thesis using w1(1) w2(1) w3(1,2) by (simp add: drop_inputs_def)
qed

text \<open>The stop gives back all that the queues of the postprocessor hold.\<close>

lemma flush_frames:
  assumes "owns w (mset ps + X) Y"
  shows "\<exists>w'. release_list (release_and_free e) ps w = Some w' \<and> owns w' X Y \<and> same_state w w'"
proof -
  have nz: "0 \<notin> set ps" using owns_mem [OF assms, of 0] assms by (auto simp: owns_def heap_ok_def)
  then have "sum_list (map nz ps) = mset ps" by (induction ps) auto
  moreover have "sum_list (map (\<lambda>_. {#}) ps) = ({#} :: addr multiset)" by (induction ps) auto
  ultimately show ?thesis using assms owns_release
    by (intro owns_release_list [where RF = nz and RM = "\<lambda>_. {#}"]) simp_all
qed

lemma flush_jobs:
  assumes "owns w (jobs_refs js + X) Y"
    and "\<And>j w X Y. owns w (job_refs j + X) Y \<Longrightarrow> \<exists>w'. rel j w = Some w' \<and> owns w' X Y \<and> same_state w w'"
  shows "\<exists>w'. release_list rel js w = Some w' \<and> owns w' X Y \<and> same_state w w'"
proof -
  have "sum_list (map (\<lambda>_. {#}) js) = ({#} :: addr multiset)" by (induction js) auto
  then show ?thesis using assms
    by (intro owns_release_list [where RF = job_refs and RM = "\<lambda>_. {#}"]) (simp_all add: jobs_refs_def)
qed

lemma abort_job_owns:
  "owns w (job_refs j + X) Y \<Longrightarrow> \<exists>w'. abort_job e j w = Some w' \<and> owns w' X Y \<and> same_state w w'"
  using owns_releaseJob [of "post_do' e (Abort_job (jobId j)) w" j X Y e] by (auto simp: abort_job_def same_state_def)

lemma stop_reproc_simps [simp]:
  "nf (stop_reproc e w) = nf w" "frames (stop_reproc e w) = frames w" "mems (stop_reproc e w) = mems w"
  "next_addr (stop_reproc e w) = next_addr w" "post (stop_reproc e w) = (post w)\<lparr>m_pReprocChannel := None\<rparr>"
  "m_callbacks (parent (stop_reproc e w)) = m_callbacks (parent w)"
proof -
  have "(post w)\<lparr>m_pReprocChannel := None\<rparr> = post w" if "m_pReprocChannel (post w) = None"
    using that by (cases "post w") simp
  then show "post (stop_reproc e w) = (post w)\<lparr>m_pReprocChannel := None\<rparr>"
    by (simp add: stop_reproc_def split_beta split: option.split)
  have "traced (parent w) (parent (stop_reproc e w))" by (simp add: stop_reproc_def split_beta split: option.split)
  then show "m_callbacks (parent (stop_reproc e w)) = m_callbacks (parent w)" by (rule tracedD)
qed (simp_all add: stop_reproc_def split_beta split: option.split)

definition end_session :: "post_env \<Rightarrow> pworld \<Rightarrow> pworld" where
  "end_session e w = (if 0 < mJpegSessionId (post w)
     then on_post (\<lambda>p. p\<lparr>mJpegSessionId := 0\<rparr>) (post_do' e (Destroy_session (mJpegSessionId (post w))) w) else w)"

lemma end_session_simps [simp]:
  "nf (end_session e w) = nf w" "frames (end_session e w) = frames w" "mems (end_session e w) = mems w"
  "next_addr (end_session e w) = next_addr w" "post (end_session e w) = (post w)\<lparr>mJpegSessionId := 0\<rparr>"
  "parent (end_session e w) = parent w"
proof -
  have "(post w)\<lparr>mJpegSessionId := 0\<rparr> = post w" if "\<not> 0 < mJpegSessionId (post w)"
  proof -
    have "mJpegSessionId (post w) = 0" using that word_gt_0 [of "mJpegSessionId (post w)"] by argo
    then show ?thesis by (cases "post w") simp
  qed
  then show "post (end_session e w) = (post w)\<lparr>mJpegSessionId := 0\<rparr>" by (simp add: end_session_def)
qed (simp_all add: end_session_def)

lemma stop_data_proc_owns:
  assumes "owns w X Y"
  shows "\<exists>w'. stop_data_proc e w = Some w' \<and> owns w' X Y \<and> tame w w' \<and> post_refs (post w') = {#} \<and>
    mJpegSessionId (post w') = 0 \<and> m_pReprocChannel (post w') = None \<and> \<not> is_active (post w') \<and>
    sync_sem (m_dataProcTh (post w')) = sync_sem (m_dataProcTh (post w)) + 1"
proof -
  define w0 where "w0 = on_post (\<lambda>p. p\<lparr>m_ongoingJpegQ := []\<rparr>) (on_post (\<lambda>p. p\<lparr>is_active := False\<rparr>) w)"
  let ?p = "post w"
  have "owns w0 (jobs_refs (m_ongoingJpegQ ?p) + X) Y"
    using assms by (auto simp: w0_def post_refs_def ac_simps elim!: owns_move)
  from flush_jobs [OF this, where rel = "abort_job e"] abort_job_owns obtain w1 where
    w1: "release_list (abort_job e) (m_ongoingJpegQ ?p) w0 = Some w1" "owns w1 X Y" "same_state w0 w1" by blast
  define w3 where "w3 = stop_reproc e (on_post (\<lambda>p. p\<lparr>m_pJpegOutputMem := False, m_pJpegExifObj := False, needNewSess := True\<rparr>)
    (end_session e w1))"
  have p1: "post w1 = ?p\<lparr>is_active := False, m_ongoingJpegQ := []\<rparr>" "nf w1 = nf w" "parent w1 = parent w"
    using w1(3) by (simp_all add: same_state_def w0_def)
  then have p3: "m_inputPPQ (post w3) = m_inputPPQ ?p" "m_ongoingPPQ (post w3) = m_ongoingPPQ ?p" "m_inputRawQ (post w3) = m_inputRawQ ?p"
    "m_inputJpegQ (post w3) = m_inputJpegQ ?p" "m_ongoingJpegQ (post w3) = []" "nf w3 = nf w" "mJpegSessionId (post w3) = 0"
    "m_pReprocChannel (post w3) = None" "\<not> is_active (post w3)" "pp_inited (post w3) = pp_inited ?p"
    "m_dataProcTh (post w3) = m_dataProcTh ?p" "m_callbacks (parent w3) = m_callbacks (parent w)"
    by (simp_all add: w3_def)
  have o3: "owns w3 X Y" by (rule owns_move [OF w1(2)]) (simp_all add: w3_def post_refs_def)
  have "owns (on_post (\<lambda>p. p\<lparr>m_ongoingPPQ := []\<rparr>) w3) (mset (m_ongoingPPQ ?p) + X) Y"
    by (rule owns_move [OF o3]) (simp_all add: p3 post_refs_def ac_simps)
  from flush_frames [OF this, of e] obtain w4 where w4: "release_list (release_and_free e) (m_ongoingPPQ ?p) (on_post (\<lambda>p. p\<lparr>m_ongoingPPQ := []\<rparr>) w3) = Some w4"
    "owns w4 X Y" "same_state (on_post (\<lambda>p. p\<lparr>m_ongoingPPQ := []\<rparr>) w3) w4" by blast
  then have p4: "post w4 = (post w3)\<lparr>m_ongoingPPQ := []\<rparr>" "nf w4 = nf w" "parent w4 = parent w3"
    by (simp_all add: same_state_def p3)
  have "owns (on_post (\<lambda>p. p\<lparr>m_inputJpegQ := []\<rparr>) w4) (jobs_refs (m_inputJpegQ ?p) + X) Y"
    by (rule owns_move [OF w4(2)]) (simp_all add: p4 p3 post_refs_def ac_simps)
  from flush_jobs [OF this, where rel = "releaseJpegJobData e"] owns_releaseJob obtain w5 where w5: "release_list (releaseJpegJobData e) (m_inputJpegQ ?p) (on_post (\<lambda>p. p\<lparr>m_inputJpegQ := []\<rparr>) w4) = Some w5"
    "owns w5 X Y" "same_state (on_post (\<lambda>p. p\<lparr>m_inputJpegQ := []\<rparr>) w4) w5" by blast
  then have p5: "post w5 = (post w4)\<lparr>m_inputJpegQ := []\<rparr>" "nf w5 = nf w" "parent w5 = parent w4"
    by (simp_all add: same_state_def p4 p3)
  have "owns (on_post (\<lambda>p. p\<lparr>m_inputPPQ := []\<rparr>) w5) (mset (m_inputPPQ ?p) + X) Y"
    by (rule owns_move [OF w5(2)]) (simp_all add: p5 p4 p3 post_refs_def ac_simps)
  from flush_frames [OF this, of e] obtain w6 where w6: "release_list (release_and_free e) (m_inputPPQ ?p) (on_post (\<lambda>p. p\<lparr>m_inputPPQ := []\<rparr>) w5) = Some w6"
    "owns w6 X Y" "same_state (on_post (\<lambda>p. p\<lparr>m_inputPPQ := []\<rparr>) w5) w6" by blast
  then have p6: "post w6 = (post w5)\<lparr>m_inputPPQ := []\<rparr>" "nf w6 = nf w" "parent w6 = parent w5"
    by (simp_all add: same_state_def p5 p4 p3)
  have "owns (on_post (\<lambda>p. p\<lparr>m_inputRawQ := []\<rparr>) w6) (mset (m_inputRawQ ?p) + X) Y"
    by (rule owns_move [OF w6(2)]) (simp_all add: p6 p5 p4 p3 post_refs_def ac_simps)
  from flush_frames [OF this, of e] obtain w7 where w7: "release_list (release_and_free e) (m_inputRawQ ?p) (on_post (\<lambda>p. p\<lparr>m_inputRawQ := []\<rparr>) w6) = Some w7"
    "owns w7 X Y" "same_state (on_post (\<lambda>p. p\<lparr>m_inputRawQ := []\<rparr>) w6) w7" by blast
  then have p7: "post w7 = (post w6)\<lparr>m_inputRawQ := []\<rparr>" "nf w7 = nf w" "parent w7 = parent w6"
    by (simp_all add: same_state_def p6 p5 p4 p3)
  let ?w = "on_post (\<lambda>p. p\<lparr>m_dataProcTh := sync_post (m_dataProcTh p)\<rparr>) w7"
  have "stop_data_proc e w = Some ?w"
    using w1(1) w4(1) w5(1) w6(1) w7(1) unfolding stop_data_proc_def Let_def end_session_def [symmetric]
    by (simp add: w0_def [symmetric] w3_def [symmetric] p1 p3 p4 p5 p6)
  moreover have "owns ?w X Y" using w7(2) by simp
  moreover have "tame w ?w" "post_refs (post ?w) = {#}" "mJpegSessionId (post ?w) = 0" "m_pReprocChannel (post ?w) = None"
    "\<not> is_active (post ?w)" "sync_sem (m_dataProcTh (post ?w)) = sync_sem (m_dataProcTh (post w)) + 1"
    by (simp_all add: tame_def post_refs_def sync_post_def p3 p4 p5 p6 p7)
  ultimately show ?thesis by blast
qed

section \<open>The threads\<close>

definition active_ok :: "pworld \<Rightarrow> bool" where
  "active_ok w \<longleftrightarrow> (data_cb (m_callbacks (parent w)) \<noteq> 0 \<longrightarrow> mActive (nf w))"

text \<open>The invariant; without losses the heap is what the queues refer to.\<close>

definition sys_ok :: "bool \<Rightarrow> pworld \<Rightarrow> bool" where
  "sys_ok lossy w \<longleftrightarrow> (\<exists>X. owns w X {#} \<and> (\<not> lossy \<longrightarrow> X = {#} \<and> m_inputRawQ (post w) = [])) \<and> active_ok w \<and>
     length (m_ongoingJpegQ (post w)) \<le> 1 \<and> (\<forall>j\<in>set (m_inputJpegQ (post w)). src_frame j \<noteq> 0)"

lemma sys_ok_tame:
  assumes "sys_ok lossy w" "tame w w'" "owns w' X {#}" "\<not> lossy \<longrightarrow> X = {#}"
  shows "sys_ok lossy w'"
proof -
  have "m_inputRawQ (post w') = []" if "\<not> lossy" using that assms(1,2) by (auto simp: sys_ok_def tame_def)
  then show ?thesis using assms by (fastforce simp: sys_ok_def tame_def active_ok_def)
qed

lemma dataProcess_cmd_owns:
  assumes "mallocs_ok e" "owns w X Y" "active_ok w" "\<forall>j\<in>set (m_inputJpegQ (post w)). src_frame j \<noteq> 0"
  shows "\<exists>w' X'. dataProcess_cmd e cmd w = Some w' \<and> owns w' X' Y \<and> tame w w' \<and> (m_inputRawQ (post w) = [] \<longrightarrow> X' = X)"
proof (cases cmd)
  case CAMERA_CMD_TYPE_START_DATA_PROC
  then show ?thesis using assms(2) by (simp add: dataProcess_cmd_def) blast
next
  case CAMERA_CMD_TYPE_STOP_DATA_PROC
  then show ?thesis using stop_data_proc_owns [OF assms(2), of e] by (auto simp: dataProcess_cmd_def)
next
  case CAMERA_CMD_TYPE_EXIT
  then show ?thesis using assms(2) by (simp add: dataProcess_cmd_def) blast
next
  case CAMERA_CMD_TYPE_DO_NEXT_JOB
  show ?thesis
  proof (cases "is_active (post w)")
    case True
    obtain w1 where w1: "jpeg_next e w = Some w1" "owns w1 X Y" "tame w w1" using jpeg_next_owns [OF assms(1,2,4)] by blast
    have "data_cb (m_callbacks (parent w1)) \<noteq> 0 \<longrightarrow> mActive (nf w1)" using assms(3) w1(3) by (simp add: active_ok_def tame_def)
    from raw_next_owns [OF assms(1) this w1(2)] obtain w2 X' where w2: "raw_next e w1 = Some w2" "owns w2 X' Y" "tame w1 w2"
      "m_inputRawQ (post w1) = [] \<longrightarrow> X' = X" by blast
    obtain w3 where w3: "pp_next e w2 = Some w3" "owns w3 X' Y" "tame w2 w3" using pp_next_owns [OF assms(1) w2(2)] by blast
    have t: "tame w w3" using w1(3) w2(3) w3(3) tame_trans by blast
    have "m_inputRawQ (post w) = [] \<longrightarrow> m_inputRawQ (post w1) = []" using w1(3) by (auto simp: tame_def)
    with t True CAMERA_CMD_TYPE_DO_NEXT_JOB w1 w2 w3 show ?thesis by (auto simp: dataProcess_cmd_def)
  next
    case False
    then show ?thesis using CAMERA_CMD_TYPE_DO_NEXT_JOB drop_inputs_owns [OF assms(2), of e] by (auto simp: dataProcess_cmd_def)
  qed
qed (use assms(2) in \<open>simp_all add: dataProcess_cmd_def, blast+\<close>)

lemma dataProcessRoutine_ok:
  assumes "mallocs_ok e" "sys_ok lossy w"
  shows "\<exists>w'. dataProcessRoutine e w = Some w' \<and> sys_ok lossy w'"
proof (cases "next_cmd (m_dataProcTh (post w))")
  case None
  then show ?thesis using assms(2) by (simp add: dataProcessRoutine_def)
next
  case (Some tc)
  obtain t cmd where tc: "tc = (t, cmd)" by force
  let ?w = "on_post (\<lambda>p. p\<lparr>m_dataProcTh := t\<rparr>) w"
  obtain X where X: "owns w X {#}" "\<not> lossy \<longrightarrow> X = {#} \<and> m_inputRawQ (post w) = []" using assms(2) by (auto simp: sys_ok_def)
  have "owns ?w X {#}" "tame w ?w" using X(1) by simp_all
  moreover have "active_ok ?w" "\<forall>j\<in>set (m_inputJpegQ (post ?w)). src_frame j \<noteq> 0" "m_inputRawQ (post ?w) = m_inputRawQ (post w)"
    using assms(2) by (simp_all add: sys_ok_def active_ok_def)
  ultimately obtain w' X' where w': "dataProcess_cmd e cmd ?w = Some w'" "owns w' X' {#}" "tame w w'"
    "m_inputRawQ (post w) = [] \<longrightarrow> X' = X"
    using dataProcess_cmd_owns [OF assms(1), of ?w X "{#}" cmd] tame_trans by metis
  then have "sys_ok lossy w'" using sys_ok_tame [OF assms(2)] X(2) by blast
  then show ?thesis using w'(1) Some tc assms(2) by (simp add: dataProcessRoutine_def)
qed

end
