(* ===== verification/PostCallbacks.thy ===== *)
theory PostCallbacks
  imports PostProc HalSM
begin

text \<open>
  The callbacks of the camera stack, \<^verbatim>\<open>camera/QCamera2/HAL/QCamera2HWICallbacks.cpp\<close>.  A channel callback is handed a super
  buffer that belongs to the stack and makes its own copy; a stream callback is handed a copy, which it has to free.
  \<^verbatim>\<open>mine\<close> says whether the frame comes from the camera of this HAL.  Debugging dumps and frame rates are left out, and so
  are the crop regions that the reprocess callback forwards to the source streams.
\<close>

section \<open>Channels\<close>

text \<open>\<^verbatim>\<open>malloc\<close> and copy; zero when the memory is short.\<close>

definition copy_frame :: "post_env \<Rightarrow> pp_super \<Rightarrow> pworld \<Rightarrow> pworld \<times> addr" where
  "copy_frame e sb w =
     (let (w, ok) = post_malloc e w in
      if ok then (w\<lparr>frames := (frames w)(next_addr w \<mapsto> sb), next_addr := Suc (next_addr w)\<rparr>, next_addr w) else (w, 0))"

definition channel_cb :: "post_env \<Rightarrow> ch_type \<Rightarrow> bool \<Rightarrow> pp_super \<Rightarrow> pworld \<Rightarrow> pworld" where
  "channel_cb e ty mine sb w =
     (if \<not> mine then w
      else case m_channels (parent w) ty of
        None \<Rightarrow> w
      | Some c \<Rightarrow>
          if hc_handle c \<noteq> ps_ch sb then w
          else
            (let (w, frame) = copy_frame e sb w in
             if frame = 0 then ch_bufDone e c sb w else fst (processData e frame w)))"

definition zsl_channel_cb :: "post_env \<Rightarrow> bool \<Rightarrow> pp_super \<Rightarrow> pworld \<Rightarrow> pworld" where
  "zsl_channel_cb e = channel_cb e QCAMERA_CH_TYPE_ZSL"

definition capture_channel_cb_routine :: "post_env \<Rightarrow> bool \<Rightarrow> pp_super \<Rightarrow> pworld \<Rightarrow> pworld" where
  "capture_channel_cb_routine e = channel_cb e QCAMERA_CH_TYPE_CAPTURE"

text \<open>When the bundle has a picture and a thumbnail, both also as reprocessed buffers, the driver is asked for their output
  crops.  What it answers becomes the crop of the streams, which \<^verbatim>\<open>pv_crop\<close> stands for.\<close>

definition find_stream :: "(u32 \<times> cam_stream_type list) list \<Rightarrow> bool \<Rightarrow> cam_stream_type list \<Rightarrow> pp_super \<Rightarrow> u32 option" where
  "find_stream views offline tys sb = map_option pb_stream
     (find (\<lambda>b. (offline \<longrightarrow> pb_type b = CAM_STREAM_TYPE_OFFLINE_PROC) \<and> kind_in views tys b) (ps_bufs sb))"

definition output_crops :: "post_env \<Rightarrow> reproc_channel \<Rightarrow> pp_super \<Rightarrow> pworld \<Rightarrow> pworld" where
  "output_crops e r sb w =
     (let views = reproc_views r; thumbs = [CAM_STREAM_TYPE_PREVIEW, CAM_STREAM_TYPE_POSTVIEW] in
      case (find_stream views True [CAM_STREAM_TYPE_SNAPSHOT] sb, find_stream views True thumbs sb) of
        (Some main, Some thumb) \<Rightarrow>
          (if find_stream views False [CAM_STREAM_TYPE_SNAPSHOT] sb \<noteq> None \<and> find_stream views False thumbs sb \<noteq> None
           then post_do' e (Get_output_crop thumb) (post_do' e (Get_output_crop main) w) else w)
      | _ \<Rightarrow> w)"

text \<open>The copy is made before the channel is looked up, and is not freed when the channel is another one.\<close>

definition postproc_channel_cb_routine :: "post_env \<Rightarrow> bool \<Rightarrow> pp_super \<Rightarrow> pworld \<Rightarrow> pworld option" where
  "postproc_channel_cb_routine e mine sb w =
     (if \<not> mine then Some w
      else
        (let (w, frame) = copy_frame e sb w in
         if frame = 0 then Some w
         else case m_pReprocChannel (post w) of
           None \<Rightarrow> Some w
         | Some r \<Rightarrow>
             if hc_handle (rc_chan r) \<noteq> ps_ch sb then Some w
             else map_option fst (processPPData e frame (output_crops e r sb w))))"

section \<open>Streams\<close>

text \<open>A stream callback: the frame, and the channel and handle of the stream.\<close>

definition stream_bufDone :: "post_env \<Rightarrow> u32 \<Rightarrow> u32 \<Rightarrow> u32 \<Rightarrow> pworld \<Rightarrow> pworld" where
  "stream_bufDone e ch st i w = post_do' e (Buf_done ch st i) w"

definition snapshot_stream_cb_routine :: "post_env \<Rightarrow> bool \<Rightarrow> addr \<Rightarrow> pworld \<Rightarrow> pworld option" where
  "snapshot_stream_cb_routine e mine frame w =
     (if \<not> mine then free_frame frame w else Some (fst (processData e frame w)))"

definition raw_stream_cb_routine :: "post_env \<Rightarrow> bool \<Rightarrow> addr \<Rightarrow> pworld \<Rightarrow> pworld option" where
  "raw_stream_cb_routine e mine frame w =
     (if \<not> mine then free_frame frame w else Some (fst (processRawData e frame w)))"

definition reprocess_stream_cb_routine :: "post_env \<Rightarrow> bool \<Rightarrow> addr \<Rightarrow> pworld \<Rightarrow> pworld option" where
  "reprocess_stream_cb_routine e mine frame w =
     (if \<not> mine then free_frame frame w else map_option fst (processPPData e frame w))"

text \<open>The first buffer of a frame; every stream callback reads it.\<close>

definition first_buf :: "addr \<Rightarrow> pworld \<Rightarrow> pp_buf option" where
  "first_buf frame w = (case frames w frame of None \<Rightarrow> None | Some sb \<Rightarrow> (case ps_bufs sb of [] \<Rightarrow> None | b # _ \<Rightarrow> Some b))"

definition postview_stream_cb_routine :: "post_env \<Rightarrow> u32 \<Rightarrow> u32 \<Rightarrow> addr \<Rightarrow> pworld \<Rightarrow> pworld option" where
  "postview_stream_cb_routine e ch st frame w = do {
     b \<leftarrow> first_buf frame w;
     free_frame frame (if pb_mem b then stream_bufDone e ch st (pb_idx b) w else w)
   }"

text \<open>The size of the buffer for the application, in the arithmetic of \<^verbatim>\<open>int\<close>.\<close>

definition preview_buf_size :: "nat \<Rightarrow> cam_dimension \<Rightarrow> i32" where
  "preview_buf_size fmt d =
     (let w = dim_width d; h = dim_height d in
      if fmt = FMT_YUV_420_YV12 then
        i32_div (w + 15) 16 * 16 * h + i32_div (i32_div w 2 + 15) 16 * 16 * h
      else i32_div (w * h * 3) 2)"

definition preview_formats :: "nat list" where
  "preview_formats = [FMT_YUV_420_NV21, FMT_YUV_420_NV12, FMT_YUV_420_YV12]"

text \<open>The memory for the application: the buffer itself, or a block of its own when the sizes differ (zero: none).\<close>

definition preview_memory :: "post_env \<Rightarrow> u32 \<Rightarrow> pworld \<Rightarrow> pworld \<times> addr" where
  "preview_memory e st w =
     (if pv_fmt e st \<in> set preview_formats \<and> preview_buf_size (pv_fmt e st) (pv_dim e st) \<noteq> pv_buf_size e st then
        (let (w, ok) = post_malloc e w in
         if ok then (w\<lparr>mems := insert (next_addr w) (mems w), next_addr := Suc (next_addr w)\<rparr>, next_addr w) else (w, 0))
      else (w, 0))"

definition preview_callback :: "post_env \<Rightarrow> u32 \<Rightarrow> u32 \<Rightarrow> pworld \<Rightarrow> pworld option" where
  "preview_callback e st i w =
     (if data_cb (m_callbacks (parent w)) \<noteq> 0 \<and> msg_on CAMERA_MSG_PREVIEW_FRAME w then
        (let (w, mem) = preview_memory e st w;
             (w, rc) = notifyCallback e \<lparr>cb_type = QCAMERA_DATA_CALLBACK, cb_msg = CAMERA_MSG_PREVIEW_FRAME, cb_ext1 = 0,
               cb_ext2 = 0, cb_data = (if mem \<noteq> 0 then mem else unat i),
               cb_release = (if mem \<noteq> 0 then Camera_memory mem else No_release)\<rparr> w in
         if rc \<noteq> NO_ERROR \<and> mem \<noteq> 0 then free_mem mem w else Some w)
      else Some w)"

text \<open>The buffer goes to the display, which hands another one back; \<^verbatim>\<open>pv_bufs\<close> bounds its index.\<close>

definition preview_stream_cb_routine :: "post_env \<Rightarrow> u32 \<Rightarrow> u32 \<Rightarrow> addr \<Rightarrow> pworld \<Rightarrow> pworld option" where
  "preview_stream_cb_routine e ch st frame w = do {
     b \<leftarrow> first_buf frame w;
     if \<not> pb_mem b then free_frame frame w
     else if \<not> isPreviewRunning (m_state (parent w)) then free_frame frame (stream_bufDone e ch st (pb_idx b) w)
     else do {
       let (w, i) = post_do e (Display_buffer st (pb_idx b)) w;
       let w = (if sint i < 0 \<or> int (case pv_bufs e st of None \<Rightarrow> 0 | Some n \<Rightarrow> n) \<le> sint i then w
                else stream_bufDone e ch st i w);
       w \<leftarrow> preview_callback e st (pb_idx b) w;
       free_frame frame w
     }
   }"

definition nodisplay_preview_stream_cb_routine :: "post_env \<Rightarrow> bool \<Rightarrow> u32 \<Rightarrow> u32 \<Rightarrow> addr \<Rightarrow> pworld \<Rightarrow> pworld option" where
  "nodisplay_preview_stream_cb_routine e mine ch st frame w =
     (if \<not> mine then free_frame frame w
      else do {
        b \<leftarrow> first_buf frame w;
        if \<not> isPreviewRunning (m_state (parent w)) then free_frame frame (stream_bufDone e ch st (pb_idx b) w)
        else if \<not> pb_mem b then free_frame frame w
        else if data_cb (m_callbacks (parent w)) \<noteq> 0 \<and> msg_on CAMERA_MSG_PREVIEW_FRAME w then
          (let (w, rc) = notifyCallback e \<lparr>cb_type = QCAMERA_DATA_CALLBACK, cb_msg = CAMERA_MSG_PREVIEW_FRAME, cb_ext1 = 0,
             cb_ext2 = 0, cb_data = unat (pb_idx b), cb_release = Stream_buffer ch st (pb_idx b)\<rparr> w in
           free_frame frame (if rc \<noteq> NO_ERROR then stream_bufDone e ch st (pb_idx b) w else w))
        else free_frame frame (stream_bufDone e ch st (pb_idx b) w)
      })"

text \<open>A recorded frame goes back when the application releases it, so its argument has no release function.\<close>

definition video_stream_cb_routine :: "post_env \<Rightarrow> bool \<Rightarrow> u32 \<Rightarrow> u32 \<Rightarrow> addr \<Rightarrow> pworld \<Rightarrow> pworld option" where
  "video_stream_cb_routine e mine ch st frame w =
     (if \<not> mine then free_frame frame w
      else do {
        b \<leftarrow> first_buf frame w;
        if pb_mem b \<and> data_cb_timestamp (m_callbacks (parent w)) \<noteq> 0 \<and> msg_on CAMERA_MSG_VIDEO_FRAME w then
          (let (w, rc) = notifyCallback e \<lparr>cb_type = QCAMERA_DATA_TIMESTAMP_CALLBACK, cb_msg = CAMERA_MSG_VIDEO_FRAME,
             cb_ext1 = 0, cb_ext2 = 0, cb_data = unat (pb_idx b), cb_release = No_release\<rparr> w in
           free_frame frame (if rc \<noteq> NO_ERROR then stream_bufDone e ch st (pb_idx b) w else w))
        else free_frame frame w
      })"

section \<open>Metadata\<close>

text \<open>The valid parts of a metadata buffer.  Payloads that the state machine only passes on are addresses.\<close>

record hal_metadata =
  md_faces :: "(nat \<times> addr) option"
  md_stats :: "addr option"
  md_focus :: "cam_focus_state option"
  md_crop :: "(nat \<times> addr) option"
  md_prep :: "cam_prep_snapshot_state option"
  md_hdr :: "(bool \<times> rat) option"

definition MAX_NUM_STREAMS :: nat where "MAX_NUM_STREAMS = 8"
definition HDR_CONFIDENCE_THRESHOLD :: rat where "HDR_CONFIDENCE_THRESHOLD = 4 / 10"

text \<open>The payload is a block of its own, freed here when the state machine does not take the event.\<close>

definition send_internal :: "post_env \<Rightarrow> internal_evt \<Rightarrow> pworld \<Rightarrow> pworld" where
  "send_internal e evt w = (let (w, ok) = post_malloc e w in if ok then post_do' e (Process_evt (EVT_INTERNAL evt)) w else w)"

definition metadata_events :: "hal_metadata \<Rightarrow> internal_evt list" where
  "metadata_events m =
     (case md_faces m of Some (n, a) \<Rightarrow> if MAX_ROI < n then [] else [QCAMERA_INTERNAL_EVT_FACE_DETECT_RESULT a] | None \<Rightarrow> []) @
     (case md_stats m of Some a \<Rightarrow> [QCAMERA_INTERNAL_EVT_HISTOGRAM_STATS a] | None \<Rightarrow> []) @
     (case md_focus m of Some f \<Rightarrow> [QCAMERA_INTERNAL_EVT_FOCUS_UPDATE f] | None \<Rightarrow> []) @
     (case md_crop m of Some (n, a) \<Rightarrow> if MAX_NUM_STREAMS < n then [] else [QCAMERA_INTERNAL_EVT_CROP_INFO a] | None \<Rightarrow> []) @
     (case md_prep m of Some p \<Rightarrow> [QCAMERA_INTERNAL_EVT_PREP_SNAPSHOT_DONE p] | None \<Rightarrow> [])"

definition processHDRData :: "bool \<Rightarrow> rat \<Rightarrow> hal \<Rightarrow> hal" where
  "processHDRData is_hdr confidence s =
     s\<lparr>mParameters := (mParameters s)\<lparr>m_HDRSceneEnabled := is_hdr \<and> HDR_CONFIDENCE_THRESHOLD < confidence\<rparr>\<rparr>"

definition metadata_stream_cb_routine :: "post_env \<Rightarrow> bool \<Rightarrow> u32 \<Rightarrow> u32 \<Rightarrow> hal_metadata \<Rightarrow> addr \<Rightarrow> pworld \<Rightarrow> pworld option" where
  "metadata_stream_cb_routine e mine ch st m frame w =
     (if \<not> mine then free_frame frame w
      else do {
        b \<leftarrow> first_buf frame w;
        let w = fold (send_internal e) (metadata_events m) w;
        let w = (case md_hdr m of Some (h, c) \<Rightarrow> on_parent (processHDRData h c) w | None \<Rightarrow> w);
        free_frame frame (stream_bufDone e ch st (pb_idx b) w)
      })"

end
