(* ===== verification/PostProps.thy ===== *)
theory PostProps
  imports PostOwn PostCallbacks
begin

text \<open>
  The postprocessor and the notifier as a system of threads: the steps of each, the ownership of frames and blocks as
  an invariant of all of them, and what the code gets wrong at its edges.
\<close>

section \<open>The other steps keep ownership\<close>

lemma deliver_calm:
  "frames (deliver e cb w) = frames w" "mems (deliver e cb w) = mems w" "next_addr (deliver e cb w) = next_addr w"
  "post (deliver e cb w) = post w" "parent (deliver e cb w) = parent w" "mDataQ (nf (deliver e cb w)) = mDataQ (nf w)"
  "mActive (nf (deliver e cb w)) = mActive (nf w)"
  by (auto simp: deliver_def Let_def split: cb_kind.split)

text \<open>The arguments of the notifier are released once each.\<close>

lemma flush_args:
  assumes "owns w (args_frames cbs + X) (args_mems cbs + Y)"
  shows "\<exists>w'. release_list (releaseNotifications e) cbs w = Some w' \<and> owns w' X Y \<and> same_state w w'"
  using assms owns_run_release
  by (intro owns_release_list [where RF = "\<lambda>cb. release_frames (cb_release cb)" and RM = "\<lambda>cb. release_mems (cb_release cb)"])
    (simp_all add: releaseNotifications_def args_frames_def args_mems_def)

lemma tame_on_nf: "mActive (f (nf w)) = mActive (nf w) \<Longrightarrow> tame w (on_nf f w)"
  by (simp add: tame_def)

lemma cbNotify_cmd_owns:
  assumes "owns w X Y"
  shows "\<exists>w'. cbNotify_cmd e cmd w = Some w' \<and> owns w' X Y \<and> tame w w'"
proof (cases cmd)
  case CAMERA_CMD_TYPE_START_DATA_PROC
  then show ?thesis using assms by (auto simp: cbNotify_cmd_def owns_def intro: tame_on_nf)
next
  case CAMERA_CMD_TYPE_STOP_DATA_PROC
  let ?w = "on_nf (\<lambda>n. n\<lparr>mDataQ := filter (\<lambda>cb. \<not> matchSnapshotNotifications cb) (mDataQ n)\<rparr>) w"
    and ?g = "filter matchSnapshotNotifications (mDataQ (nf w))"
  have "owns ?w (args_frames ?g + X) (args_mems ?g + Y)"
    using args_split [of "mDataQ (nf w)" matchSnapshotNotifications] by (auto simp: ac_simps intro: owns_move [OF assms])
  from flush_args [OF this, of e] obtain w1 where w1: "release_list (releaseNotifications e) ?g ?w = Some w1" "owns w1 X Y"
    "same_state ?w w1" by blast
  let ?w1 = "on_nf (\<lambda>n. n\<lparr>isSnapshotActive := False, numOfSnapshotExpected := 0, numOfSnapshotRcvd := 0\<rparr>) w1"
  have "owns ?w1 X Y" "tame w ?w1" using w1(2,3) by (simp_all add: owns_def tame_def same_state_def)
  then show ?thesis using CAMERA_CMD_TYPE_STOP_DATA_PROC w1(1) by (simp add: cbNotify_cmd_def)
next
  case CAMERA_CMD_TYPE_EXIT
  let ?w = "on_nf (\<lambda>n. n\<lparr>nf_running := False, mDataQ := []\<rparr>) w"
  have "owns ?w (args_frames (mDataQ (nf w)) + X) (args_mems (mDataQ (nf w)) + Y)"
    by (auto simp: ac_simps intro: owns_move [OF assms])
  from flush_args [OF this, of e] obtain w1 where "release_list (releaseNotifications e) (mDataQ (nf w)) ?w = Some w1" "owns w1 X Y"
    "same_state ?w w1" by blast
  then show ?thesis using CAMERA_CMD_TYPE_EXIT by (auto simp: cbNotify_cmd_def tame_def same_state_def)
next
  case CAMERA_CMD_TYPE_DO_NEXT_JOB
  show ?thesis
  proof (cases "mDataQ (nf w)")
    case Nil
    then show ?thesis using assms CAMERA_CMD_TYPE_DO_NEXT_JOB by (simp add: cbNotify_cmd_def)
  next
    case (Cons cb q)
    let ?w = "deliver e cb (on_nf (\<lambda>n. n\<lparr>mDataQ := q\<rparr>) w)"
    have "owns ?w (release_frames (cb_release cb) + X) (release_mems (cb_release cb) + Y)"
      by (rule owns_move [OF assms]) (simp_all add: deliver_calm Cons ac_simps)
    from owns_run_release [OF this, of e] obtain w1 where "run_release e (cb_release cb) ?w = Some w1" "owns w1 X Y"
      "same_state ?w w1" by blast
    then show ?thesis using CAMERA_CMD_TYPE_DO_NEXT_JOB Cons
      by (simp add: cbNotify_cmd_def) (simp add: tame_def same_state_def deliver_calm)
  qed
qed (use assms in \<open>simp_all add: cbNotify_cmd_def\<close>)

lemma cbNotifyRoutine_ok:
  assumes "sys_ok lossy w"
  shows "\<exists>w'. cbNotifyRoutine e w = Some w' \<and> sys_ok lossy w'"
proof (cases "next_cmd (mProcTh (nf w))")
  case None
  then show ?thesis using assms by (simp add: cbNotifyRoutine_def)
next
  case (Some tc)
  obtain t cmd where tc: "tc = (t, cmd)" by force
  let ?w = "on_nf (\<lambda>n. n\<lparr>mProcTh := t\<rparr>) w"
  obtain X where X: "owns w X {#}" "\<not> lossy \<longrightarrow> X = {#}" using assms by (auto simp: sys_ok_def)
  have "owns ?w X {#}" using X(1) by (simp add: owns_def)
  moreover have "tame w ?w" by (rule tame_on_nf) simp
  ultimately obtain w' where w': "cbNotify_cmd e cmd ?w = Some w'" "owns w' X {#}" "tame w w'"
    using cbNotify_cmd_owns [of ?w X "{#}" e cmd] tame_trans by blast
  then have "sys_ok lossy w'" using sys_ok_tame [OF assms] X(2) by blast
  then show ?thesis using w'(1) Some tc assms by (simp add: cbNotifyRoutine_def)
qed

section \<open>Frames that come in\<close>

text \<open>The invariant while one frame is in flight.\<close>

definition sys_in :: "bool \<Rightarrow> addr \<Rightarrow> pworld \<Rightarrow> bool" where
  "sys_in lossy p w \<longleftrightarrow> (\<exists>X. owns w (nz p + X) {#} \<and> (\<not> lossy \<longrightarrow> X = {#} \<and> m_inputRawQ (post w) = [])) \<and> active_ok w \<and>
     length (m_ongoingJpegQ (post w)) \<le> 1 \<and> (\<forall>j\<in>set (m_inputJpegQ (post w)). src_frame j \<noteq> 0)"

lemma sys_calm:
  assumes "calm w w'"
  shows "sys_ok lossy w' = sys_ok lossy w" "sys_in lossy p w' = sys_in lossy p w"
proof -
  have v: "m_inputRawQ (post w') = m_inputRawQ (post w)" "m_inputJpegQ (post w') = m_inputJpegQ (post w)"
    "length (m_ongoingJpegQ (post w')) = length (m_ongoingJpegQ (post w))" "active_ok w' = active_ok w"
    using assms ongoing_view [of "post w'" "post w"] by (auto simp: calm_def post_view_def active_ok_def)
  then show "sys_ok lossy w' = sys_ok lossy w" by (simp add: sys_ok_def owns_calm [OF assms])
  show "sys_in lossy p w' = sys_in lossy p w" using v by (simp add: sys_in_def owns_calm [OF assms])
qed

lemma sys_calm_ops [simp]:
  "sys_ok l (next_job e w) = sys_ok l w" "sys_in l p (next_job e w) = sys_in l p w"
  "sys_in l p (playShutter e w) = sys_in l p w" "sys_in l p (fst (post_malloc e w)) = sys_in l p w"
  "sys_ok l (fst (post_malloc e w)) = sys_ok l w" "sys_ok l (fst (post_cmd e c pr w)) = sys_ok l w"
  "sys_ok l (fst (notify_cmd e c pr w)) = sys_ok l w" "sys_ok l (post_do' e cl w) = sys_ok l w"
  "sys_ok l (fst (post_do e cl w)) = sys_ok l w" "sys_in l p (post_do' e cl w) = sys_in l p w"
  by (rule sys_calm, simp)+

lemma sys_okI:
  assumes "owns w X {#}" "\<not> lossy \<longrightarrow> X = {#} \<and> m_inputRawQ (post w) = []" "active_ok w"
    and "length (m_ongoingJpegQ (post w)) \<le> 1" "\<forall>j\<in>set (m_inputJpegQ (post w)). src_frame j \<noteq> 0"
  shows "sys_ok lossy w"
  using assms by (auto simp: sys_ok_def)

text \<open>A frame that nobody takes is lost; a lossy system allows that.\<close>

lemma sys_lost: "sys_in True p w \<Longrightarrow> sys_ok True w"
  by (auto simp: sys_in_def sys_ok_def)

lemma sys_push:
  assumes "sys_in lossy p w" "post_refs (f (post w)) = nz p + post_refs (post w)"
    and "m_ongoingJpegQ (f (post w)) = m_ongoingJpegQ (post w)" "lossy \<or> m_inputRawQ (f (post w)) = m_inputRawQ (post w)"
    and "\<forall>j\<in>set (m_inputJpegQ (f (post w))). src_frame j = p \<and> p \<noteq> 0 \<or> j \<in> set (m_inputJpegQ (post w))"
  shows "sys_ok lossy (on_post f w)"
proof -
  obtain X where X: "owns w (nz p + X) {#}" "\<not> lossy \<longrightarrow> X = {#} \<and> m_inputRawQ (post w) = []" using assms(1) by (auto simp: sys_in_def)
  have "owns (on_post f w) X {#}" using assms(2) by (intro owns_move [OF X(1)]) (simp_all add: ac_simps)
  then show ?thesis using assms X(2) by (fastforce simp: sys_in_def sys_ok_def active_ok_def)
qed

lemma copy_frame_in:
  assumes "mallocs_ok e" "sys_ok lossy w"
  shows "\<exists>w' p. copy_frame e sb w = (w', p) \<and> p \<noteq> 0 \<and> sys_in lossy p w' \<and> same_state w w' \<and> frames w' p = Some sb"
proof -
  obtain X where X: "owns w X {#}" "\<not> lossy \<longrightarrow> X = {#} \<and> m_inputRawQ (post w) = []" using assms(2) by (auto simp: sys_ok_def)
  let ?w1 = "fst (post_malloc e w)"
  let ?w' = "?w1\<lparr>frames := (frames ?w1)(next_addr ?w1 \<mapsto> sb), next_addr := Suc (next_addr ?w1)\<rparr>" and ?p = "next_addr w"
  have h: "heap_ok (frames w) (mems w) ?p (X + post_refs (post w) + args_frames (mDataQ (nf w))) (args_mems (mDataQ (nf w)))"
    using X(1) by (simp add: owns_def)
  then have n: "?p \<notin> dom (frames w)" "0 < ?p" by (auto simp: heap_ok_def)
  then have "heap_ok ((frames w)(?p \<mapsto> sb)) (mems w) (Suc ?p)
     (add_mset ?p (X + post_refs (post w) + args_frames (mDataQ (nf w)))) (args_mems (mDataQ (nf w)))"
    using h by (auto simp: heap_ok_def less_Suc_eq)
  then have "owns ?w' (nz ?p + X) {#}" using n by (simp add: owns_def)
  then have "sys_in lossy ?p ?w'" using assms(2) X(2) by (auto simp: sys_in_def sys_ok_def active_ok_def)
  moreover have "copy_frame e sb w = (?w', ?p)" using assms(1) by (simp add: copy_frame_def split_beta)
  ultimately show ?thesis using n by (simp add: same_state_def)
qed

lemma pp_enqueue_ok: "mallocs_ok e \<Longrightarrow> pp_enqueue e f w = on_post f (fst (post_malloc e w))"
  by (simp add: pp_enqueue_def split_beta)

lemma processRawData_in: "mallocs_ok e \<Longrightarrow> sys_in True p w \<Longrightarrow> p \<noteq> 0 \<Longrightarrow> sys_ok True (fst (processRawData e p w))"
  by (auto simp: processRawData_def pp_enqueue_ok sys_lost post_refs_def nz_def intro!: sys_push)

lemma processData_in:
  assumes "mallocs_ok e" "sys_in lossy p w" "p \<noteq> 0"
    and "lossy \<or> pp_inited (post w) \<and> mPictureFormat (mParameters (parent w)) \<noteq> CAM_FORMAT_YUV_422_NV16"
  shows "sys_ok lossy (fst (processData e p w))"
proof -
  have pp: "sys_ok lossy (on_post (\<lambda>s. s\<lparr>m_inputPPQ := m_inputPPQ s @ [p]\<rparr>) v)" if "sys_in lossy p v" for v
    using assms(3) by (intro sys_push [OF that]) (auto simp: post_refs_def nz_def)
  have jpeg: "sys_ok lossy (on_post (\<lambda>s. s\<lparr>m_inputJpegQ := m_inputJpegQ s @
      [\<lparr>jobId = 0, src_frame = p, src_reproc_frame = 0\<rparr>]\<rparr>) v)" if "sys_in lossy p v" for v
    using assms(3) by (intro sys_push [OF that]) (auto simp: post_refs_def nz_def job_refs_def)
  show ?thesis
  proof (cases "pp_inited (post w) \<and> (needReprocess e (mParameters (parent w)) \<or>
      mPictureFormat (mParameters (parent w)) \<noteq> CAM_FORMAT_YUV_422_NV16)")
    case True
    then show ?thesis using assms(1,2) pp jpeg by (auto simp: processData_def pp_enqueue_ok split_beta Let_def)
  next
    case False
    then have lossy using assms(4) by auto
    then show ?thesis using False assms(1-3) processRawData_in [OF assms(1), of p w] sys_lost
      by (auto simp: processData_def)
  qed
qed

lemma processPPData_in:
  assumes "mallocs_ok e" "sys_in lossy p w" "p \<noteq> 0"
    and "lossy \<or> pp_inited (post w) \<and> m_ongoingPPQ (post w) \<noteq> [] \<and>
      mPictureFormat (mParameters (parent w)) \<noteq> CAM_FORMAT_YUV_422_NV16"
  shows "\<exists>w' rc. processPPData e p w = Some (w', rc) \<and> sys_ok lossy w'"
proof (cases "pp_inited (post w) \<and> m_ongoingPPQ (post w) \<noteq> []")
  case False
  then have lossy using assms(4) by auto
  then have "sys_ok lossy w" using sys_lost [of p w] assms(2) by simp
  then show ?thesis using False by (cases "m_ongoingPPQ (post w)") (auto simp: processPPData_def)
next
  case True
  then obtain q qs where q: "m_ongoingPPQ (post w) = q # qs" and i: "pp_inited (post w)" by (cases "m_ongoingPPQ (post w)") auto
  let ?w = "on_post (\<lambda>s. s\<lparr>m_ongoingPPQ := qs\<rparr>) w"
  obtain X where X: "owns w (nz p + X) {#}" "\<not> lossy \<longrightarrow> X = {#} \<and> m_inputRawQ (post w) = []" using assms(2) by (auto simp: sys_in_def)
  have "q \<in> dom (frames w)" using q by (intro owns_mem [OF X(1)]) (simp add: post_refs_def)
  then have q0: "q \<noteq> 0" using X(1) by (auto simp: owns_def heap_ok_def)
  have o: "owns ?w (nz q + (nz p + X)) {#}" using q0 q by (intro owns_move [OF X(1)]) (simp_all add: post_refs_def ac_simps)
  show ?thesis
  proof (cases "mPictureFormat (mParameters (parent w)) = CAM_FORMAT_YUV_422_NV16")
    case True
    then have lossy using assms(4) by auto
    obtain w1 where w1: "release_and_free e q ?w = Some w1" "owns w1 (nz p + X) {#}" "same_state ?w w1"
      using owns_release [OF o] by blast
    have "active_ok w1" "length (m_ongoingJpegQ (post w1)) \<le> 1" "\<forall>j\<in>set (m_inputJpegQ (post w1)). src_frame j \<noteq> 0"
      using assms(2) w1(3) by (simp_all add: sys_in_def same_state_def active_ok_def)
    then have "sys_in True p w1" using w1(2) unfolding sys_in_def by blast
    then have "sys_ok lossy (fst (processRawData e p w1))" using processRawData_in [OF assms(1) _ assms(3)] \<open>lossy\<close> by simp
    moreover have "processPPData e p w = Some (processRawData e p w1)" using True q i q0 w1(1) by (simp add: processPPData_def Let_def)
    ultimately show ?thesis by (metis prod.collapse)
  next
    case False
    let ?j = "\<lparr>jobId = 0, src_frame = p, src_reproc_frame = q\<rparr>"
    let ?w2 = "on_post (\<lambda>s. s\<lparr>m_inputJpegQ := m_inputJpegQ s @ [?j]\<rparr>) (fst (post_malloc e (fst (post_malloc e ?w))))"
    have "owns ?w2 X {#}" by (rule owns_move [OF o]) (simp_all add: post_refs_def job_refs_def ac_simps)
    moreover have "active_ok ?w2" using assms(2) by (simp add: sys_in_def active_ok_def)
    moreover have "length (m_ongoingJpegQ (post ?w2)) \<le> 1" "\<forall>j\<in>set (m_inputJpegQ (post ?w2)). src_frame j \<noteq> 0"
      "m_inputRawQ (post ?w2) = m_inputRawQ (post w)" using assms(2,3) by (auto simp: sys_in_def)
    ultimately have "sys_ok lossy ?w2" using X(2) by (intro sys_okI [where X = X]) simp_all
    then show ?thesis using False q i q0 assms(1)
      by (simp add: processPPData_def pp_enqueue_ok split_beta Let_def)
  qed
qed

section \<open>Finished pictures, start and stop\<close>

lemma jpeg_result_owns:
  assumes "mallocs_ok e" "owns w X {#}" "active_ok w"
  shows "\<exists>w' rc mem. jpeg_result e ok job w = Some (w', rc, mem) \<and> owns w' X {#} \<and> tame w w' \<and> (rc \<noteq> NO_ERROR \<longrightarrow> mem = 0)"
proof (cases "job = None \<or> data_cb (m_callbacks (parent w)) = 0 \<or> \<not> msg_on CAMERA_MSG_COMPRESSED_IMAGE w \<or> \<not> ok")
  case True
  then show ?thesis using assms(2) by (auto simp: jpeg_result_def)
next
  case False
  let ?w1 = "fst (post_malloc e w)" and ?m = "next_addr w"
  let ?w2 = "?w1\<lparr>mems := insert ?m (mems w), next_addr := Suc ?m\<rparr>"
  have h: "heap_ok (frames w) (mems w) ?m (X + post_refs (post w) + args_frames (mDataQ (nf w))) (args_mems (mDataQ (nf w)))"
    using assms(2) by (simp add: owns_def)
  then have n: "?m \<notin> mems w" "0 < ?m" by (auto simp: heap_ok_def)
  then have "heap_ok (frames w) (insert ?m (mems w)) (Suc ?m) (X + post_refs (post w) + args_frames (mDataQ (nf w)))
     (add_mset ?m (args_mems (mDataQ (nf w))))"
    using h by (auto simp: heap_ok_def less_Suc_eq)
  then have "owns ?w2 ({#} + X) (nz ?m + {#})" using n by (simp add: owns_def)
  moreover have "mActive (nf ?w2)" "tame w ?w2" using False assms(3) by (simp_all add: active_ok_def tame_def)
  ultimately obtain w3 where "sendDataNotify e CAMERA_MSG_COMPRESSED_IMAGE ?m \<lparr>rel_data = ?m, rel_frame = 0, rel_bufs = 0\<rparr> ?w2 =
      Some (w3, NO_ERROR)" "owns w3 X {#}" "tame w w3"
    using sendDataNotify_ok [OF assms(1), of ?w2 "\<lparr>rel_data = ?m, rel_frame = 0, rel_bufs = 0\<rparr>" X "{#}"] tame_trans by fastforce
  then show ?thesis using False assms(1) by (auto simp: jpeg_result_def Let_def split_beta)
qed

lemma processJpegEvt_ok:
  assumes "mallocs_ok e" "sys_ok lossy w"
  shows "\<exists>w' rc. processJpegEvt e i ok w = Some (w', rc) \<and> sys_ok lossy w'"
proof (cases "pp_inited (post w)")
  case False
  then show ?thesis using assms(2) by (simp add: processJpegEvt_def)
next
  case True
  obtain X where X: "owns w X {#}" "\<not> lossy \<longrightarrow> X = {#} \<and> m_inputRawQ (post w) = []" using assms(2) by (auto simp: sys_ok_def)
  define J where "J = (\<lambda>job. case job of None \<Rightarrow> {#} | Some j \<Rightarrow> job_refs j)"
  obtain w1 job where f: "findJpegJobByJobId i w = (w1, job)" by force
  have 1: "owns w1 (J job + X) {#}"
    using f by (intro owns_move [OF X(1)]) (auto simp: findJpegJobByJobId_def J_def post_refs_def ac_simps split: if_splits list.splits)
  have t1: "tame w w1" using f by (auto simp: findJpegJobByJobId_def tame_def split: if_splits list.splits)
  have a1: "active_ok w1" using t1 assms(2) by (simp add: tame_def active_ok_def sys_ok_def)
  obtain w2 rc mem where 2: "jpeg_result e ok job w1 = Some (w2, rc, mem)" "owns w2 (J job + X) {#}" "tame w1 w2"
    "rc \<noteq> NO_ERROR \<longrightarrow> mem = 0" using jpeg_result_owns [OF assms(1) 1 a1] by blast
  define w3 where "w3 = (if rc \<noteq> NO_ERROR then fst (hwi_sendEvtNotify e CAMERA_MSG_ERROR UNKNOWN_ERROR 0 w2) else w2)"
  have 3: "owns w3 (J job + X) {#}" "tame w w3" using 2 tame_trans [OF t1] by (auto simp: w3_def)
  obtain w4 where 4: "(case job of None \<Rightarrow> Some w3 | Some job \<Rightarrow> releaseJpegJobData e job w3) = Some w4" "owns w4 X {#}" "tame w w4"
  proof (cases job)
    case (Some j)
    then show thesis using that owns_releaseJob [of w3 j X "{#}" e] 3 tame_trans tame_same by (force simp: J_def)
  qed (use that 3 in \<open>simp add: J_def\<close>)
  have "sys_ok lossy (next_job e w4)" using sys_ok_tame [OF assms(2) 4(3,2)] X(2) by simp
  moreover have "processJpegEvt e i ok w = Some (next_job e w4, rc)"
  proof (cases "rc = NO_ERROR")
    case t: True
    then have "w3 = w2" by (simp add: w3_def)
    then show ?thesis using True t f 2(1) 4(1) [unfolded \<open>w3 = w2\<close>] by (simp add: processJpegEvt_def)
  next
    case t: False
    then have w3: "w3 = fst (hwi_sendEvtNotify e CAMERA_MSG_ERROR UNKNOWN_ERROR 0 w2)" "mem = 0" using 2(4) by (simp_all add: w3_def)
    then show ?thesis using True t f 2(1) 4(1) [unfolded w3(1)] by (simp add: processJpegEvt_def Let_def)
  qed
  ultimately show ?thesis by blast
qed

lemma sys_traced: "sys_ok lossy w \<Longrightarrow> m_callbacks s = m_callbacks (parent w) \<Longrightarrow> sys_ok lossy (w\<lparr>parent := s\<rparr>)"
  by (auto simp: sys_ok_def owns_def active_ok_def)

lemma sys_on_post [simp]: "post_view (f (post w)) = post_view (post w) \<Longrightarrow> sys_ok lossy (on_post f w) = sys_ok lossy w"
  by (rule sys_calm) simp

lemma view_inited: "post_refs (p\<lparr>pp_inited := b\<rparr>) = post_refs p"
  by (simp add: post_refs_def)

lemma sys_inited: "sys_ok lossy (on_post (\<lambda>p. f p\<lparr>pp_inited := b\<rparr>) w) = sys_ok lossy (on_post f w)"
  by (simp add: sys_ok_def owns_def active_ok_def view_inited)

lemma delete_reproc_ok: "sys_ok lossy w \<Longrightarrow> sys_ok lossy (delete_reproc e w)"
proof (cases "m_pReprocChannel (post w)")
  case (Some r)
  assume w: "sys_ok lossy w"
  have "traced (parent w) (ch_delete (pv_hal e) (rc_chan r) (parent w))" by simp
  from sys_traced [OF w tracedD(1) [OF this]] Some show ?thesis by (simp add: delete_reproc_def on_parent_def)
qed (simp add: delete_reproc_def)

lemma reproc_chan_traced:
  "traced s (fst (case src of None \<Rightarrow> (s, None) | Some c \<Rightarrow> addOnlineReprocChannel e c s))"
  using traced_online [of s e _ s] by (cases src) simp_all

lemma ch_start_callbacks: "ch_start h c s = (s', c', rc) \<Longrightarrow> m_callbacks s' = m_callbacks s"
  by (rule tracedD(1)) (use traced_start [of s h c s] in simp)

lemma ch_delete_callbacks: "m_callbacks (ch_delete h c s) = m_callbacks s"
  by (rule tracedD(1)) simp

definition reproc_started :: "post_env \<Rightarrow> reproc_channel option \<Rightarrow> pworld \<Rightarrow> pworld \<times> i32" where
  "reproc_started e r w = (case r of None \<Rightarrow> (w, UNKNOWN_ERROR)
     | Some r \<Rightarrow>
         (let (s, c, rc) = ch_start (pv_hal e) (rc_chan r) (parent w) in
          if rc \<noteq> 0 then (w\<lparr>parent := ch_delete (pv_hal e) c s\<rparr>, rc)
          else (on_post (\<lambda>p. p\<lparr>m_pReprocChannel := Some (r\<lparr>rc_chan := c\<rparr>)\<rparr>) (w\<lparr>parent := s\<rparr>), rc)))"

lemma start_reproc_split:
  "start_reproc e src w = (if \<not> needReprocess e (mParameters (parent w)) then (w, NO_ERROR)
     else (let w = delete_reproc e w;
               x = (case src of None \<Rightarrow> (parent w, None) | Some c \<Rightarrow> addOnlineReprocChannel e c (parent w)) in
           reproc_started e (snd x) (w\<lparr>parent := fst x\<rparr>)))"
  unfolding start_reproc_def reproc_started_def Let_def split_beta by (rule refl)

lemma reproc_started_ok:
  assumes "sys_ok lossy w"
  shows "sys_ok lossy (fst (reproc_started e r w))"
proof (cases r)
  case (Some r)
  obtain s c rc where c: "ch_start (pv_hal e) (rc_chan r) (parent w) = (s, c, rc)" by (rule prod_cases3)
  note k = ch_start_callbacks [OF c]
  have "sys_ok lossy (w\<lparr>parent := s\<rparr>)" "sys_ok lossy (w\<lparr>parent := ch_delete (pv_hal e) c s\<rparr>)"
    using sys_traced [OF assms k] sys_traced [OF assms, of "ch_delete (pv_hal e) c s"] k by (simp_all add: ch_delete_callbacks)
  then show ?thesis using Some c by (simp add: reproc_started_def)
qed (use assms in \<open>simp add: reproc_started_def\<close>)

lemma start_reproc_ok:
  assumes "sys_ok lossy w"
  shows "sys_ok lossy (fst (start_reproc e src w))"
proof (cases "needReprocess e (mParameters (parent w))")
  case True
  show ?thesis unfolding start_reproc_split Let_def
    using reproc_started_ok [OF sys_traced [OF delete_reproc_ok [OF assms] tracedD(1) [OF reproc_chan_traced]]] True
    by (simp only: not_True_eq_False if_False)
qed (use assms in \<open>simp add: start_reproc_def\<close>)

lemma pp_start_ok: "sys_ok lossy w \<Longrightarrow> sys_ok lossy (fst (pp_start e src w))"
  using start_reproc_ok [of lossy w e src] by (simp add: pp_start_def startSnapshots_def split_beta Let_def)

lemma pp_stop_ok: "sys_ok lossy w \<Longrightarrow> sys_ok lossy (fst (pp_stop e w))"
  by (simp add: pp_stop_def stopSnapshots_def split_beta)

lemma pp_init_ok: "sys_ok lossy w \<Longrightarrow> sys_ok lossy (fst (pp_init e pid w))"
  by (simp add: pp_init_def split_beta sys_inited)

lemma pp_deinit_ok: "sys_ok lossy w \<Longrightarrow> sys_ok lossy (pp_deinit e w)" "sys_ok lossy w \<Longrightarrow> sys_ok lossy (pp_deinit_joined e w)"
  by (simp_all add: pp_deinit_def pp_deinit_joined_def Let_def sys_inited)

lemma set_callbacks_ok:
  assumes "sys_ok lossy w" "mActive (nf (notifier_setCallbacks cbs pid w))"
  shows "sys_ok lossy (notifier_setCallbacks cbs pid (on_parent (\<lambda>s. s\<lparr>m_callbacks := cbs\<rparr>) w))"
  using assms by (auto simp: sys_ok_def owns_def active_ok_def notifier_setCallbacks_def split: if_splits)

end
