(* ===== verification/PostSystem.thy ===== *)
theory PostSystem
  imports PostProps HalFaults
begin

text \<open>
  The postprocessor, the notifier and everybody who calls them, as a step relation: in which order the threads run is
  open, and the rest of the HAL changes its state in between as it likes.  The theorems say what holds in every state
  that can be reached while the notifier is active, and what happens at the edges: when the notifier has been switched
  off, after a failed encode, and to the last picture of a burst of raw pictures.
\<close>

section \<open>The system\<close>

definition QCameraPostProcessor_new :: postproc where
  "QCameraPostProcessor_new = \<lparr>pp_inited = False, mJpegClientHandle = 0, mJpegSessionId = 0, m_pJpegOutputMem = False,
     m_pJpegExifObj = False, m_bThumbnailNeeded = True, m_pReprocChannel = None, m_inputPPQ = [], m_ongoingPPQ = [],
     m_inputJpegQ = [], m_ongoingJpegQ = [], m_inputRawQ = [], m_dataProcTh = QCameraCmdThread_new, mRawBurstCount = 0,
     is_active = False, needNewSess = True, pp_running = False\<rparr>"

definition QCameraCbNotifier_new :: notifier where
  "QCameraCbNotifier_new = \<lparr>mNotifyCb = 0, mDataCb = 0, mDataCbTimestamp = 0, mCallbackCookie = 0, mActive = False,
     mDataQ = [], mProcTh = QCameraCmdThread_new, isSnapshotActive = False, numOfSnapshotExpected = 0,
     numOfSnapshotRcvd = 0, nf_running = True\<rparr>"

definition post_new :: "hal \<Rightarrow> pworld" where
  "post_new s = \<lparr>parent = s, m_bShutterSoundPlayed = False, post = QCameraPostProcessor_new, nf = QCameraCbNotifier_new,
     frames = Map.empty, mems = {}, next_addr = 1, ptrace = []\<rparr>"

text \<open>A turn of a thread; \<^verbatim>\<open>None\<close> is a use of freed memory.\<close>

datatype post_turn = Worker | Notifier | Jpeg_event u32 bool

fun run_turn :: "post_env \<Rightarrow> post_turn \<Rightarrow> pworld \<Rightarrow> pworld option" where
  "run_turn e Worker w = dataProcessRoutine e w"
| "run_turn e Notifier w = cbNotifyRoutine e w"
| "run_turn e (Jpeg_event i ok) w = map_option fst (processJpegEvt e i ok w)"

text \<open>A frame is taken when the postprocessor is there to process it, and, when it comes from the reprocess channel,
  when its source is waiting.  In a lossy system frames also arrive when they are not, and raw pictures are taken.\<close>

definition taken :: "bool \<Rightarrow> pworld \<Rightarrow> bool" where
  "taken lossy w \<longleftrightarrow> lossy \<or> pp_inited (post w) \<and> mPictureFormat (mParameters (parent w)) \<noteq> CAM_FORMAT_YUV_422_NV16"

definition taken_back :: "bool \<Rightarrow> pp_super \<Rightarrow> pworld \<Rightarrow> bool" where
  "taken_back lossy sb w \<longleftrightarrow> lossy \<or> taken lossy w \<and> m_ongoingPPQ (post w) \<noteq> [] \<and>
     (case m_pReprocChannel (post w) of None \<Rightarrow> False | Some r \<Rightarrow> hc_handle (rc_chan r) = ps_ch sb)"

inductive post_step :: "bool \<Rightarrow> post_env \<Rightarrow> pworld \<Rightarrow> pworld \<Rightarrow> bool" for lossy e where
  turn: "run_turn e t w = Some w' \<Longrightarrow> post_step lossy e w w'"
| zsl: "taken lossy w \<Longrightarrow> post_step lossy e w (zsl_channel_cb e mine sb w)"
| capture: "taken lossy w \<Longrightarrow> post_step lossy e w (capture_channel_cb_routine e mine sb w)"
| reprocessed: "taken_back lossy sb w \<Longrightarrow> postproc_channel_cb_routine e mine sb w = Some w' \<Longrightarrow> post_step lossy e w w'"
| snapshot: "taken lossy w \<Longrightarrow> copy_frame e sb w = (w1, p) \<Longrightarrow> p \<noteq> 0 \<Longrightarrow> snapshot_stream_cb_routine e mine p w1 = Some w' \<Longrightarrow>
    post_step lossy e w w'"
| raw: "lossy \<Longrightarrow> copy_frame e sb w = (w1, p) \<Longrightarrow> p \<noteq> 0 \<Longrightarrow> raw_stream_cb_routine e mine p w1 = Some w' \<Longrightarrow>
    post_step lossy e w w'"
| reprocess: "taken_back lossy sb w \<Longrightarrow> copy_frame e sb w = (w1, p) \<Longrightarrow> p \<noteq> 0 \<Longrightarrow>
    reprocess_stream_cb_routine e mine p w1 = Some w' \<Longrightarrow> post_step lossy e w w'"
| start: "post_step lossy e w (fst (pp_start e src w))"
| stop: "post_step lossy e w (fst (pp_stop e w))"
| wait: "sync_wait (m_dataProcTh (post w)) = Some t \<Longrightarrow> post_step lossy e w (on_post (\<lambda>p. p\<lparr>m_dataProcTh := t\<rparr>) w)"
| init: "post_step lossy e w (fst (pp_init e pid w))"
| deinit: "post_step lossy e w (pp_deinit e w)"
| joined: "post_step lossy e w (pp_deinit_joined e w)"
| callbacks: "mActive (nf (notifier_setCallbacks cbs pid w)) \<Longrightarrow>
    post_step lossy e w (notifier_setCallbacks cbs pid (on_parent (\<lambda>s. s\<lparr>m_callbacks := cbs\<rparr>) w))"
| hal: "m_callbacks s = m_callbacks (parent w) \<Longrightarrow> post_step lossy e w (w\<lparr>parent := s\<rparr>)"

inductive post_reach :: "bool \<Rightarrow> post_env \<Rightarrow> pworld \<Rightarrow> bool" for lossy e where
  new: "data_cb (m_callbacks s) = 0 \<Longrightarrow> post_reach lossy e (post_new s)"
| step: "post_reach lossy e w \<Longrightarrow> post_step lossy e w w' \<Longrightarrow> post_reach lossy e w'"

section \<open>The invariant\<close>

lemma new_ok: "data_cb (m_callbacks s) = 0 \<Longrightarrow> sys_ok lossy (post_new s)"
  by (simp add: sys_ok_def owns_def heap_ok_def post_new_def QCameraPostProcessor_new_def QCameraCbNotifier_new_def
      post_refs_def active_ok_def)

lemma turn_ok:
  assumes "mallocs_ok e" "sys_ok lossy w"
  shows "\<exists>w'. run_turn e t w = Some w' \<and> sys_ok lossy w'"
proof (cases t)
  case (Jpeg_event i ok)
  then show ?thesis using processJpegEvt_ok [OF assms, of i ok] by fastforce
qed (use dataProcessRoutine_ok [OF assms] cbNotifyRoutine_ok [OF assms(2)] in simp_all)

lemma copied:
  assumes "mallocs_ok e" "sys_ok lossy w" "copy_frame e sb w = (w1, p)"
  shows "sys_in lossy p w1" "p \<noteq> 0" "same_state w w1"
  using copy_frame_in [OF assms(1,2), of sb] assms(3) by auto

lemma taken_same: "same_state w w1 \<Longrightarrow> taken lossy w \<Longrightarrow>
    lossy \<or> pp_inited (post w1) \<and> mPictureFormat (mParameters (parent w1)) \<noteq> CAM_FORMAT_YUV_422_NV16"
  by (auto simp: taken_def same_state_def)

lemma back_same: "same_state w w1 \<Longrightarrow> taken_back lossy sb w \<Longrightarrow>
    lossy \<or> pp_inited (post w1) \<and> m_ongoingPPQ (post w1) \<noteq> [] \<and>
      mPictureFormat (mParameters (parent w1)) \<noteq> CAM_FORMAT_YUV_422_NV16"
  by (auto simp: taken_back_def taken_def same_state_def)

lemma discarded:
  assumes "sys_in lossy p w" "p \<noteq> 0"
  shows "\<exists>w'. free_frame p w = Some w' \<and> sys_ok lossy w'"
proof -
  obtain X where X: "owns w (nz p + X) {#}" "\<not> lossy \<longrightarrow> X = {#} \<and> m_inputRawQ (post w) = []" using assms(1) by (auto simp: sys_in_def)
  then have h: "heap_ok (frames w) (mems w) (next_addr w) (add_mset p (X + post_refs (post w) + args_frames (mDataQ (nf w))))
     (args_mems (mDataQ (nf w)))"
    using assms(2) by (simp add: owns_def)
  let ?w = "w\<lparr>frames := (frames w)(p := None)\<rparr>"
  have "owns ?w X {#}" using heap_take(3) [OF h] by (simp add: owns_def)
  then have "sys_ok lossy ?w" using assms(1) X(2) by (intro sys_okI) (auto simp: sys_in_def active_ok_def)
  then show ?thesis using heap_take(1) [OF h] by (simp add: free_frame_def)
qed

lemma channel_cb_ok:
  assumes "mallocs_ok e" "sys_ok lossy w" "taken lossy w"
  shows "sys_ok lossy (channel_cb e ty mine sb w)"
proof (cases "mine \<and> (\<exists>c. m_channels (parent w) ty = Some c \<and> hc_handle c = ps_ch sb)")
  case True
  obtain w1 p where c: "copy_frame e sb w = (w1, p)" by force
  note i = copied [OF assms(1,2) c]
  have "sys_ok lossy (fst (processData e p w1))" by (rule processData_in [OF assms(1) i(1,2) taken_same [OF i(3) assms(3)]])
  then show ?thesis using True c i(2) by (auto simp: channel_cb_def)
qed (use assms(2) in \<open>auto simp: channel_cb_def split: option.split\<close>)

lemma output_crops_calm [simp]: "calm w (output_crops e r sb v) = calm w v"
  by (simp add: output_crops_def Let_def split: option.split)

lemma output_crops_simps [simp]: "post (output_crops e r sb w) = post w" "parent (output_crops e r sb w) = parent w"
  by (simp_all add: output_crops_def Let_def split: option.split)

lemma postproc_cb_ok:
  assumes "mallocs_ok e" "sys_ok lossy w" "taken_back lossy sb w"
  shows "\<exists>w'. postproc_channel_cb_routine e mine sb w = Some w' \<and> sys_ok lossy w'"
proof (cases mine)
  case False
  then show ?thesis using assms(2) by (simp add: postproc_channel_cb_routine_def)
next
  case mine: True
  obtain w1 p where c: "copy_frame e sb w = (w1, p)" by force
  note i = copied [OF assms(1,2) c]
  have same: "post w1 = post w" "parent w1 = parent w" using i(3) by (simp_all add: same_state_def)
  show ?thesis
  proof (cases "\<exists>r. m_pReprocChannel (post w) = Some r \<and> hc_handle (rc_chan r) = ps_ch sb")
    case True
    then obtain r where r: "m_pReprocChannel (post w) = Some r" "hc_handle (rc_chan r) = ps_ch sb" by blast
    let ?w = "output_crops e r sb w1"
    have "sys_in lossy p ?w" using i(1) sys_calm(2) [of w1 ?w lossy p] by simp
    from processPPData_in [OF assms(1) this i(2)] back_same [OF i(3) assms(3)]
    show ?thesis using mine c i(2) r same by (fastforce simp: postproc_channel_cb_routine_def)
  next
    case False
    then have lossy using assms(3) by (auto simp: taken_back_def split: option.splits)
    then have "sys_ok lossy w1" using i(1) sys_lost by simp
    then show ?thesis using False mine c i(2) same by (auto simp: postproc_channel_cb_routine_def split: option.split)
  qed
qed

lemma stream_cbs_ok:
  assumes "mallocs_ok e" "sys_ok lossy w" "copy_frame e sb w = (w1, p)"
  shows "taken lossy w \<Longrightarrow> \<exists>w'. snapshot_stream_cb_routine e mine p w1 = Some w' \<and> sys_ok lossy w'"
    and "lossy \<Longrightarrow> \<exists>w'. raw_stream_cb_routine e mine p w1 = Some w' \<and> sys_ok lossy w'"
    and "taken_back lossy sb w \<Longrightarrow> \<exists>w'. reprocess_stream_cb_routine e mine p w1 = Some w' \<and> sys_ok lossy w'"
proof -
  note i = copied [OF assms] and d = discarded [OF copied(1,2) [OF assms]]
  show "taken lossy w \<Longrightarrow> \<exists>w'. snapshot_stream_cb_routine e mine p w1 = Some w' \<and> sys_ok lossy w'"
    using d processData_in [OF assms(1) i(1,2) taken_same [OF i(3)]] by (simp add: snapshot_stream_cb_routine_def)
  show "lossy \<Longrightarrow> \<exists>w'. raw_stream_cb_routine e mine p w1 = Some w' \<and> sys_ok lossy w'"
    using d processRawData_in [OF assms(1), of p w1] i by (simp add: raw_stream_cb_routine_def)
  show "taken_back lossy sb w \<Longrightarrow> \<exists>w'. reprocess_stream_cb_routine e mine p w1 = Some w' \<and> sys_ok lossy w'"
    using d processPPData_in [OF assms(1) i(1,2) back_same [OF i(3)]] by (fastforce simp: reprocess_stream_cb_routine_def)
qed

lemma step_ok':
  assumes "post_step lossy e w w'" "mallocs_ok e" "sys_ok lossy w"
  shows "sys_ok lossy w'"
  using assms
proof cases
  case (turn t)
  then show ?thesis using turn_ok [OF assms(2,3), of t] by auto
next
  case (reprocessed sb mine)
  then show ?thesis using postproc_cb_ok [OF assms(2,3), of sb mine] by auto
next
  case (snapshot sb w1 p mine)
  then show ?thesis using stream_cbs_ok(1) [OF assms(2,3), of sb w1 p mine] by auto
next
  case (raw sb w1 p mine)
  then show ?thesis using stream_cbs_ok(2) [OF assms(2,3), of sb w1 p mine] by auto
next
  case (reprocess sb w1 p mine)
  then show ?thesis using stream_cbs_ok(3) [OF assms(2,3), of sb w1 p mine] by auto
qed (simp_all add: channel_cb_ok zsl_channel_cb_def capture_channel_cb_routine_def pp_start_ok pp_stop_ok pp_init_ok pp_deinit_ok
      set_callbacks_ok sys_traced)

lemma post_reach_ok:
  assumes "post_reach lossy e w" "mallocs_ok e"
  shows "sys_ok lossy w"
  using assms by (induction rule: post_reach.induct) (auto simp: new_ok step_ok')

section \<open>What holds in every reachable state\<close>

definition owned_refs :: "pworld \<Rightarrow> addr multiset" where
  "owned_refs w = post_refs (post w) + args_frames (mDataQ (nf w))"

lemma owns_refs: "owns w X Y \<Longrightarrow> mset_set (dom (frames w)) = X + owned_refs w"
  by (simp add: owns_def heap_ok_def owned_refs_def ac_simps)

text \<open>C17: Frames are owned.  In every state that the threads can reach, the frames that the queues of the
  postprocessor and of the notifier refer to are allocated, and no frame is referred to twice.\<close>

theorem frames_owned_once:
  assumes "mallocs_ok e" "post_reach lossy e w"
  shows "owned_refs w \<subseteq># mset_set (dom (frames w))"
proof -
  obtain X where "owns w X {#}" using post_reach_ok [OF assms(2,1)] by (auto simp: sys_ok_def)
  from owns_refs [OF this] show ?thesis by simp
qed

text \<open>C6: No frame is lost.  As long as the postprocessor is there to take the frames, and no raw pictures are taken, the
  frames on the heap are exactly those that some queue refers to.\<close>

theorem frames_never_lost:
  assumes "mallocs_ok e" "post_reach False e w"
  shows "mset_set (dom (frames w)) = owned_refs w"
proof -
  have "owns w {#} {#}" using post_reach_ok [OF assms(2,1)] by (auto simp: sys_ok_def)
  from owns_refs [OF this] show ?thesis by simp
qed


text \<open>C16: Stopping.  When the thread takes the command that \<^verbatim>\<open>stop\<close> has sent, it leaves every queue of the
  postprocessor empty, ends the encoding session, gives up the reprocess channel, and lets the caller of \<^verbatim>\<open>stop\<close> go on.\<close>

theorem stop_empties_postprocessor:
  assumes "mallocs_ok e" "post_reach lossy e w" "pp_running (post w)"
    and "next_cmd (m_dataProcTh (post w)) = Some (t, CAMERA_CMD_TYPE_STOP_DATA_PROC)"
  shows "\<exists>w'. dataProcessRoutine e w = Some w' \<and> post_refs (post w') = {#} \<and> mJpegSessionId (post w') = 0 \<and>
    m_pReprocChannel (post w') = None \<and> sync_wait (m_dataProcTh (post w')) \<noteq> None"
proof -
  obtain X where X: "owns w X {#}" using post_reach_ok [OF assms(2,1)] by (auto simp: sys_ok_def)
  let ?w = "on_post (\<lambda>p. p\<lparr>m_dataProcTh := t\<rparr>) w"
  have "owns ?w X {#}" using X by simp
  from stop_data_proc_owns [OF this, of e] obtain w' where "stop_data_proc e ?w = Some w'" "post_refs (post w') = {#}"
    "mJpegSessionId (post w') = 0" "m_pReprocChannel (post w') = None"
    "sync_sem (m_dataProcTh (post w')) = sync_sem (m_dataProcTh (post ?w)) + 1" by blast
  then show ?thesis using assms(3,4) by (simp add: dataProcessRoutine_def dataProcess_cmd_def sync_wait_def)
qed

section \<open>At the edges\<close>

lemma notify_keeps [simp]:
  "post (fst (notifyCallback e cb w)) = post w" "parent (fst (notifyCallback e cb w)) = parent w"
  "frames (fst (notifyCallback e cb w)) = frames w"
  by (simp_all add: notifyCallback_def notify_cmd_def split_beta Let_def)

lemma callbacks_keep [simp]:
  "post (raw_callbacks e m w) = post w" "parent (raw_callbacks e m w) = parent w" "frames (raw_callbacks e m w) = frames w"
  "post (playShutter e w) = post w" "parent (playShutter e w) = parent w" "frames (playShutter e w) = frames w"
  "post (error_event e w) = post w"
  by (simp_all add: raw_callbacks_def playShutter_def hwi_sendEvtNotify_def error_event_def Let_def)

lemma pp_channel_keeps:
  "parent w' = parent w \<Longrightarrow> m_pReprocChannel (post w') = m_pReprocChannel (post w) \<Longrightarrow> pp_channel h w' = pp_channel h w"
  by (simp add: pp_channel_def cong: option.case_cong)

lemma inactive_notify: "\<not> mActive (nf w) \<Longrightarrow> notifyCallback e cb w = (w, UNKNOWN_ERROR)"
  by (simp add: notifyCallback_def)

lemma inactive_callbacks: "\<not> mActive (nf w) \<Longrightarrow> raw_callbacks e m w = w"
  by (simp add: raw_callbacks_def inactive_notify Let_def)

lemma release_and_free_frame:
  assumes "p \<noteq> 0" "frames w p = Some sb"
  shows "\<exists>w'. release_and_free e p w = Some w' \<and> frames w' = (frames w)(p := None)"
proof -
  define w1 where "w1 = (case pp_channel (ps_ch sb) w of None \<Rightarrow> w | Some (c, _) \<Rightarrow> ch_bufDone e c sb w)"
  have "frames w1 = frames w"
    using ch_bufDone_same by (auto simp: w1_def same_heap_def split: option.splits prod.splits)
  then show ?thesis using assms by (simp add: release_and_free_def releaseSuperBuf_def w1_def [symmetric] free_frame_def domIff)
qed

text \<open>What \<^verbatim>\<open>processRawImageImpl\<close> wants of a picture before it passes it on.\<close>

definition raw_usable :: "addr \<Rightarrow> pworld \<Rightarrow> bool" where
  "raw_usable p w \<longleftrightarrow> (case frames w p of None \<Rightarrow> False | Some sb \<Rightarrow>
     (case find (\<lambda>b. pb_type b = CAM_STREAM_TYPE_SNAPSHOT \<or> pb_type b = CAM_STREAM_TYPE_RAW) (ps_bufs sb) of None \<Rightarrow> False | Some b \<Rightarrow>
       (case getChannelByHandle (ps_ch sb) (parent w) of None \<Rightarrow> False | Some c \<Rightarrow>
          list_ex (\<lambda>st. fst st = pb_stream b) (hc_streams c) \<and> pb_mem b)))"

lemma raw_usableE:
  assumes "raw_usable p w"
  obtains sb b c where "frames w p = Some sb"
    "find (\<lambda>b. pb_type b = CAM_STREAM_TYPE_SNAPSHOT \<or> pb_type b = CAM_STREAM_TYPE_RAW) (ps_bufs sb) = Some b"
    "getChannelByHandle (ps_ch sb) (parent w) = Some c" "list_ex (\<lambda>st. fst st = pb_stream b) (hc_streams c)" "pb_mem b"
  using assms that by (auto simp: raw_usable_def split: option.splits)

lemma shutter_inactive:
  assumes "\<not> mActive (nf w)"
  shows "\<exists>b. playShutter e w = w\<lparr>m_bShutterSoundPlayed := b\<rparr>"
proof (cases "notify_cb (m_callbacks (parent w)) = 0 \<or> mMsgEnabled (parent w) AND CAMERA_MSG_SHUTTER = 0")
  case True
  then have "playShutter e w = w\<lparr>m_bShutterSoundPlayed := m_bShutterSoundPlayed w\<rparr>" by (simp add: playShutter_def)
  then show ?thesis by blast
qed (use assms in \<open>auto simp: playShutter_def hwi_sendEvtNotify_def inactive_notify Let_def\<close>)

lemma refused_release:
  assumes "mallocs_ok e" "\<not> mActive (nf w)" "rel_data rd = 0" "rel_bufs rd = 0" "rel_frame rd \<noteq> 0" "frames w (rel_frame rd) = Some sb"
  shows "\<exists>w'. sendDataNotify e msg d rd w = Some (w', UNKNOWN_ERROR) \<and> frames w' (rel_frame rd) = None"
proof -
  obtain w1 where w1: "post_malloc e w = (w1, True)" "frames w1 = frames w" "mActive (nf w1) = mActive (nf w)"
    using assms(1) by (simp add: post_malloc_def mallocs_ok_def)
  then have "frames w1 (rel_frame rd) = Some sb" using assms(6) by simp
  from release_and_free_frame [OF assms(5) this, of e] obtain w' where
    "release_and_free e (rel_frame rd) w1 = Some w'" "frames w' = (frames w1)(rel_frame rd := None)" by blast
  then show ?thesis using w1 assms(2-4) by (simp add: sendDataNotify_def inactive_notify releaseNotifyData_def UNKNOWN_ERROR_def NO_ERROR_def)
qed

text \<open>A double free.  \<^verbatim>\<open>closeCamera\<close> switches the notifier off before it stops the postprocessor.  A raw picture that
  the thread takes in between is released by the failing notification and once more by the thread: a use of freed
  memory.  (The last picture of a burst carries no frame and is spared.)\<close>

theorem raw_picture_released_twice:
  assumes "mallocs_ok e" "\<not> mActive (nf w)" "m_inputRawQ (post w) = p # q" "p \<noteq> 0" "raw_usable p w"
    and "data_cb (m_callbacks (parent w)) \<noteq> 0" "msg_on CAMERA_MSG_COMPRESSED_IMAGE w" "mRawBurstCount (post w) \<noteq> 1"
  shows "raw_next e w = None"
proof -
  obtain sb b c where f: "frames w p = Some sb"
    "find (\<lambda>b. pb_type b = CAM_STREAM_TYPE_SNAPSHOT \<or> pb_type b = CAM_STREAM_TYPE_RAW) (ps_bufs sb) = Some b"
    "getChannelByHandle (ps_ch sb) (parent w) = Some c" "list_ex (\<lambda>st. fst st = pb_stream b) (hc_streams c)" "pb_mem b"
    using assms(5) by (rule raw_usableE)
  let ?w0 = "on_post (\<lambda>p. p\<lparr>m_inputRawQ := q\<rparr>) w"
  obtain sh where sh: "playShutter e ?w0 = ?w0\<lparr>m_bShutterSoundPlayed := sh\<rparr>" using shutter_inactive [of ?w0 e] assms(2) by auto
  define w2 where "w2 = on_post (\<lambda>p. p\<lparr>mRawBurstCount := mRawBurstCount p - 1\<rparr>) (?w0\<lparr>m_bShutterSoundPlayed := sh\<rparr>)"
  have w2: "\<not> mActive (nf w2)" "frames w2 p = Some sb" using assms(2) f(1) by (simp_all add: w2_def)
  let ?rd = "\<lparr>rel_data = 0, rel_frame = p, rel_bufs = 0\<rparr>"
  obtain w3 where w3: "sendDataNotify e CAMERA_MSG_COMPRESSED_IMAGE (unat (pb_idx b)) ?rd w2 = Some (w3, UNKNOWN_ERROR)" "frames w3 p = None"
    using refused_release [OF assms(1) w2(1), of ?rd sb] w2(2) assms(4) by auto
  have "raw_release p (pb_stream b) (?w0\<lparr>m_bShutterSoundPlayed := sh\<rparr>) = (w2, ?rd)"
    using assms(8) by (simp add: raw_release_def w2_def Let_def)
  then have "processRawImageImpl e p (?w0\<lparr>m_bShutterSoundPlayed := sh\<rparr>) = Some (w3, UNKNOWN_ERROR)"
    using f assms(2,6,7) w3(1) by (simp add: processRawImageImpl_def inactive_callbacks msg_on_def Let_def)
  moreover have "release_and_free e p w3 = None" using w3(2) assms(4) by (simp add: release_and_free_def releaseSuperBuf_def)
  ultimately show ?thesis using assms(3) by (simp add: raw_next_def sh UNKNOWN_ERROR_def NO_ERROR_def)
qed

text \<open>Another one.  A finished picture that the notifier refuses is released by the notification that failed, and once
  more by \<^verbatim>\<open>processJpegEvt\<close>, which only clears its own pointer.\<close>

theorem jpeg_memory_released_twice:
  assumes "mallocs_ok e" "\<not> mActive (nf w)" "pp_inited (post w)" "i \<noteq> 0" "m_ongoingJpegQ (post w) = job # q" "0 < next_addr w"
    and "data_cb (m_callbacks (parent w)) \<noteq> 0" "msg_on CAMERA_MSG_COMPRESSED_IMAGE w"
  shows "processJpegEvt e i True w = None"
proof -
  let ?w = "on_post (\<lambda>p. p\<lparr>m_ongoingJpegQ := q\<rparr>) w"
  have j: "findJpegJobByJobId i w = (?w, Some job)" using assms(4,5) by (simp add: findJpegJobByJobId_def)
  show ?thesis using assms unfolding processJpegEvt_def j
    by (simp add: jpeg_result_def sendDataNotify_def inactive_notify hwi_sendEvtNotify_def releaseNotifyData_def free_mem_def
        release_and_free_def msg_on_def post_malloc_def mallocs_ok_def UNKNOWN_ERROR_def NO_ERROR_def Let_def split_beta)
qed

lemma count_once: "finite A \<Longrightarrow> mset_set A = add_mset p X + R \<Longrightarrow> p \<in> A \<and> p \<notin># R"
proof -
  assume f: "finite A" and m: "mset_set A = add_mset p X + R"
  then have "p \<in># mset_set A" by simp
  then have p: "p \<in> A" using f by (metis elem_mset_set)
  have "count (mset_set A) p = 1" using f p by simp
  then show ?thesis using p m by (simp add: not_in_iff)
qed

text \<open>A leak.  The last raw picture of a burst carries the buffers of its stream instead of its frame, and nobody
  frees the frame: after the turn it is still allocated, and no queue refers to it.\<close>

theorem last_raw_picture_leaks:
  assumes "mallocs_ok e" "post_reach True e w" "mActive (nf w)" "m_inputRawQ (post w) = p # q" "p \<noteq> 0" "raw_usable p w"
    and "data_cb (m_callbacks (parent w)) \<noteq> 0" "msg_on CAMERA_MSG_COMPRESSED_IMAGE w" "mRawBurstCount (post w) = 1"
  shows "\<exists>w'. raw_next e w = Some w' \<and> p \<in> dom (frames w') \<and> p \<notin># owned_refs w'"
proof -
  obtain X where X: "owns w X {#}" using post_reach_ok [OF assms(2,1)] by (auto simp: sys_ok_def)
  let ?w0 = "on_post (\<lambda>p. p\<lparr>m_inputRawQ := q\<rparr>) w"
  obtain sb b c where f: "frames w p = Some sb"
    "find (\<lambda>b. pb_type b = CAM_STREAM_TYPE_SNAPSHOT \<or> pb_type b = CAM_STREAM_TYPE_RAW) (ps_bufs sb) = Some b"
    "getChannelByHandle (ps_ch sb) (parent w) = Some c" "list_ex (\<lambda>st. fst st = pb_stream b) (hc_streams c)" "pb_mem b"
    using assms(6) by (rule raw_usableE)
  define ws where "ws = playShutter e ?w0"
  define w2 where "w2 = raw_callbacks e (unat (pb_idx b)) ws"
  define w3 where "w3 = on_post (\<lambda>p. p\<lparr>mRawBurstCount := mRawBurstCount p - 1\<rparr>) w2"
  have "owns ?w0 (nz p + X) {#}" using assms(4,5) by (intro owns_move [OF X]) (simp_all add: post_refs_def ac_simps)
  then have o: "owns w3 (nz p + X) {#}" by (simp add: w3_def w2_def ws_def)
  have t: "tame ?w0 w2" by (simp add: w2_def ws_def)
  have same: "frames ws = frames w" "parent ws = parent w" "parent w2 = parent w" "mRawBurstCount (post w2) = mRawBurstCount (post w)"
    by (simp_all add: ws_def w2_def)
  let ?rd = "\<lparr>rel_data = 0, rel_frame = 0, rel_bufs = pb_stream b\<rparr>"
  have act: "mActive (nf w3)" using t assms(3) by (simp add: w3_def tame_def)
  have "owns w3 (nz (rel_frame ?rd) + (nz p + X)) (nz (rel_data ?rd) + {#})" using o by simp
  note sent = sendDataNotify_ok [OF assms(1) act this, of CAMERA_MSG_COMPRESSED_IMAGE "unat (pb_idx b)"]
  obtain w' where w': "sendDataNotify e CAMERA_MSG_COMPRESSED_IMAGE (unat (pb_idx b)) ?rd w3 = Some (w', NO_ERROR)"
    "owns w' (nz p + X) {#}"
    using sent by (elim exE conjE)
  have "raw_release p (pb_stream b) w2 = (w3, \<lparr>rel_data = 0, rel_frame = 0, rel_bufs = pb_stream b\<rparr>)"
    using assms(9) same by (simp add: raw_release_def w3_def Let_def)
  then have "processRawImageImpl e p ws = Some (w', NO_ERROR)"
    using f assms(7,8) same w'(1) by (simp add: processRawImageImpl_def w2_def [symmetric] msg_on_def Let_def)
  then have "raw_next e w = Some w'" using assms(4) by (simp add: raw_next_def ws_def)
  moreover have "finite (dom (frames w'))" using w'(2) unfolding owns_def heap_ok_def by blast
  then have "p \<in> dom (frames w') \<and> p \<notin># owned_refs w'"
    by (rule count_once [where X = X]) (use owns_refs [OF w'(2)] assms(5) in \<open>simp add: nz_def\<close>)
  ultimately show ?thesis by blast
qed

text \<open>Pictures left behind.  When an encode fails, the thread drops the job and tells the application, but does not look
  at the next job: if that was the last command, the pictures behind it wait in the queue with the encoder idle, until
  somebody sends another command.\<close>

theorem failed_encode_strands_pictures:
  assumes "mallocs_ok e" "post_reach lossy e w" "pp_running (post w)" "is_active (post w)"
    and "next_cmd (m_dataProcTh (post w)) = Some (t, CAMERA_CMD_TYPE_DO_NEXT_JOB)" "cmd_queue t = []"
    and "m_ongoingJpegQ (post w) = []" "m_inputJpegQ (post w) = job # js" "m_inputRawQ (post w) = []" "m_inputPPQ (post w) = []"
    and "frames w (src_frame job) = Some sb" "pp_channel (ps_ch sb) w = None"
  shows "\<exists>w'. dataProcessRoutine e w = Some w' \<and> m_inputJpegQ (post w') = js \<and> m_ongoingJpegQ (post w') = [] \<and>
    is_active (post w') \<and> cmd_queue (m_dataProcTh (post w')) = []"
proof -
  obtain X where X: "owns w X {#}" using post_reach_ok [OF assms(2,1)] by (auto simp: sys_ok_def)
  let ?w = "on_post (\<lambda>p. p\<lparr>m_dataProcTh := t\<rparr>) w"
  define w1 where "w1 = fst (post_malloc e (on_post (\<lambda>p. p\<lparr>m_inputJpegQ := js\<rparr>) ?w))"
  define w2 where "w2 = on_post (\<lambda>p. p\<lparr>m_ongoingJpegQ := [job]\<rparr>) w1"
  define w3 where "w3 = on_post (\<lambda>p. p\<lparr>m_ongoingJpegQ := []\<rparr>) w2"
  have e1: "pp_enqueue e (\<lambda>p. p\<lparr>m_ongoingJpegQ := m_ongoingJpegQ p @ [job]\<rparr>) (on_post (\<lambda>p. p\<lparr>m_inputJpegQ := js\<rparr>) ?w) = w2"
    using assms(1,7) by (simp add: pp_enqueue_ok w1_def w2_def on_post_def post_malloc_def)
  have e2: "encodeData e job w2 = Some (w2, BAD_VALUE)"
    using assms(11,12) pp_channel_keeps [of w2 w] by (simp add: encodeData_def w2_def w1_def)
  have e3: "on_post (\<lambda>p. p\<lparr>m_ongoingJpegQ := butlast (m_ongoingJpegQ p)\<rparr>) w2 = w3" by (simp add: w3_def w2_def on_post_def)
  have "owns w3 (job_refs job + X) {#}"
    using assms(7,8) by (intro owns_move [OF X]) (simp_all add: w3_def w2_def w1_def post_refs_def ac_simps)
  from owns_releaseJob [OF this, of e] obtain w4 where w4: "releaseJpegJobData e job w3 = Some w4" "same_state w3 w4" by blast
  have j: "jpeg_next e ?w = Some (error_event e w4)"
    using assms(7,8) e1 e2 e3 w4(1) by (simp add: jpeg_next_def NO_ERROR_def BAD_VALUE_def)
  have p: "post (error_event e w4) = (post w)\<lparr>m_dataProcTh := t, m_inputJpegQ := js, m_ongoingJpegQ := []\<rparr>"
    using w4(2) by (simp add: same_state_def w3_def w2_def w1_def)
  have "dataProcessRoutine e w = Some (error_event e w4)"
    using assms(3-5) j p assms(9,10) by (simp add: dataProcessRoutine_def dataProcess_cmd_def raw_next_def pp_next_def)
  then show ?thesis using p assms(4,6) by simp
qed

definition given_back :: "u32 \<Rightarrow> u32 \<Rightarrow> u32 \<Rightarrow> pworld \<Rightarrow> nat" where
  "given_back ch st i w = length (filter (\<lambda>c. c = Buf_done ch st i) (ptrace w)) +
     length (filter (\<lambda>cb. cb_release cb = Stream_buffer ch st i) (mDataQ (nf w)))"

lemma given_back_notify:
  assumes "mallocs_ok e" "cb_release cb = Stream_buffer ch st i"
  shows "\<exists>w'. notifyCallback e cb w = (w', if mActive (nf w) then NO_ERROR else UNKNOWN_ERROR) \<and> frames w' = frames w \<and>
    given_back ch st i w' = given_back ch st i w + (if mActive (nf w) then 1 else 0)"
  using assms by (simp add: notifyCallback_def notify_cmd_def mallocs_ok_def post_malloc_def given_back_def on_nf_def)

lemma given_back_done: "given_back ch st i (stream_bufDone e ch st i w) = given_back ch st i w + 1"
  by (simp add: given_back_def stream_bufDone_def post_do'_def post_do_def)

lemma given_back_free:
  "frames w p = Some sb \<Longrightarrow> \<exists>w'. free_frame p w = Some w' \<and> given_back ch st i w' = given_back ch st i w"
  by (simp add: free_frame_def given_back_def domIff)


section \<open>Runs\<close>

text \<open>An environment in which every call succeeds, the camera after its callbacks have been set, a started postprocessor,
  and a picture that has arrived and is being encoded.\<close>

definition ex_cbs :: hal_callbacks where
  "ex_cbs = \<lparr>notify_cb = 1, data_cb = 2, data_cb_timestamp = 3, get_memory = 4, cb_user = 5\<rparr>"

definition ex_penv :: post_env where
  "ex_penv = \<lparr>pv_hal = good_env, pv_malloc = (\<lambda>_. True),
     pv_ret = (\<lambda>_ c. case c of Jpeg_open \<Rightarrow> 1 | Start_job _ \<Rightarrow> 5 | _ \<Rightarrow> 0),
     pv_session = (\<lambda>_. Some 7), pv_crop = (\<lambda>_. \<lparr>dim_width = 0, dim_height = 0\<rparr>), pv_dim = (\<lambda>_. \<lparr>dim_width = 640, dim_height = 480\<rparr>), pv_fmt = (\<lambda>_. FMT_YUV_420_NV21),
     pv_bufs = (\<lambda>_. Some 2), pv_buf_size = (\<lambda>_. 460800), pv_min_pp_mask = 0\<rparr>"

definition ex_phal :: hal where
  "ex_phal = hal_zero\<lparr>mMsgEnabled := 0x100, m_channels := (\<lambda>_. None)(QCAMERA_CH_TYPE_CAPTURE :=
     Some \<lparr>hc_handle = 0x801, hc_active = True, hc_streams = [(0x901, CAM_STREAM_TYPE_SNAPSHOT)]\<rparr>)\<rparr>"

definition ex_frame :: "u32 \<Rightarrow> pp_super" where
  "ex_frame ch = \<lparr>ps_ch = ch, ps_bufs = [\<lparr>pb_stream = 0x901, pb_idx = 0, pb_type = CAM_STREAM_TYPE_SNAPSHOT, pb_mem = True\<rparr>]\<rparr>"

definition ex_with_callbacks :: pworld where
  "ex_with_callbacks = notifier_setCallbacks ex_cbs 1 (on_parent (\<lambda>s. s\<lparr>m_callbacks := ex_cbs\<rparr>) (post_new ex_phal))"

definition ex_started :: pworld where
  "ex_started = the (run_turn ex_penv Worker (fst (pp_start ex_penv None (fst (pp_init ex_penv 2 ex_with_callbacks)))))"

definition ex_arrived :: pworld where
  "ex_arrived = capture_channel_cb_routine ex_penv True (ex_frame 0x801) ex_started"

definition ex_encoding :: pworld where
  "ex_encoding = the (run_turn ex_penv Worker ex_arrived)"

lemma ex_env_mallocs: "mallocs_ok ex_penv"
  by (simp add: mallocs_ok_def ex_penv_def)

lemma reach_turn: "mallocs_ok e \<Longrightarrow> post_reach lossy e w \<Longrightarrow> post_reach lossy e (the (run_turn e t w))"
proof -
  assume e: "mallocs_ok e" and r: "post_reach lossy e w"
  obtain w' where "run_turn e t w = Some w'" using turn_ok [OF e post_reach_ok [OF r e]] by blast
  then show ?thesis using post_reach.step [OF r post_step.turn] by simp
qed

lemma ex_callbacks_reached: "post_reach lossy ex_penv ex_with_callbacks"
  unfolding ex_with_callbacks_def
  by (rule post_reach.step [OF post_reach.new post_step.callbacks]) (simp_all add: ex_phal_def hal_zero_def ex_cbs_def
      notifier_setCallbacks_def post_new_def QCameraCbNotifier_new_def)

lemma ex_started_reached: "post_reach lossy ex_penv ex_started"
  unfolding ex_started_def
  by (intro reach_turn ex_env_mallocs post_reach.step [OF post_reach.step [OF ex_callbacks_reached post_step.init] post_step.start])

lemma ex_started_takes: "pp_inited (post ex_started) \<and> mPictureFormat (mParameters (parent ex_started)) \<noteq> CAM_FORMAT_YUV_422_NV16"
  by code_simp

lemma ex_arrived_reached: "post_reach lossy ex_penv ex_arrived"
  unfolding ex_arrived_def
  by (rule post_reach.step [OF ex_started_reached post_step.capture]) (simp add: taken_def ex_started_takes)

lemma ex_encoding_reached: "post_reach lossy ex_penv ex_encoding"
  unfolding ex_encoding_def by (intro reach_turn ex_env_mallocs ex_arrived_reached)

lemma ex_encoding_job: "m_ongoingJpegQ (post ex_encoding) = [\<lparr>jobId = 5, src_frame = 1, src_reproc_frame = 0\<rparr>]"
  by code_simp

lemma ex_arrived_job: "m_inputJpegQ (post ex_arrived) = [\<lparr>jobId = 0, src_frame = 1, src_reproc_frame = 0\<rparr>]"
  by code_simp

theorem frames_owned_once_witness:
  "m_inputJpegQ (post ex_arrived) \<noteq> [] \<and> owned_refs ex_arrived \<subseteq># mset_set (dom (frames ex_arrived))"
  using frames_owned_once [OF ex_env_mallocs ex_arrived_reached [of True]] by (simp add: ex_arrived_job)

theorem frames_never_lost_witness:
  "m_ongoingJpegQ (post ex_encoding) \<noteq> [] \<and> mset_set (dom (frames ex_encoding)) = owned_refs ex_encoding"
  using frames_never_lost [OF ex_env_mallocs ex_encoding_reached] by (simp add: ex_encoding_job)


definition ex_stopping :: pworld where
  "ex_stopping = fst (pp_stop ex_penv ex_encoding)"

theorem stop_empties_postprocessor_witness:
  "m_ongoingJpegQ (post ex_stopping) \<noteq> [] \<and> (\<exists>w'. dataProcessRoutine ex_penv ex_stopping = Some w' \<and> post_refs (post w') = {#} \<and>
    mJpegSessionId (post w') = 0 \<and> m_pReprocChannel (post w') = None \<and> sync_wait (m_dataProcTh (post w')) \<noteq> None)"
proof -
  have r: "post_reach True ex_penv ex_stopping"
    unfolding ex_stopping_def by (rule post_reach.step [OF ex_encoding_reached post_step.stop])
  have n: "map_option snd (next_cmd (m_dataProcTh (post ex_stopping))) = Some CAMERA_CMD_TYPE_STOP_DATA_PROC" by code_simp
  have p: "pp_running (post ex_stopping)" by code_simp
  have j: "m_ongoingJpegQ (post ex_stopping) \<noteq> []" by code_simp
  obtain t where "next_cmd (m_dataProcTh (post ex_stopping)) = Some (t, CAMERA_CMD_TYPE_STOP_DATA_PROC)" using n by auto
  from stop_empties_postprocessor [OF ex_env_mallocs r p this] j show ?thesis by blast
qed

text \<open>A raw picture; and the camera being closed, with the notifier switched off, while a raw picture of a burst of three
  or an encoded picture is on its way.\<close>

definition ex_raw :: pworld where
  "ex_raw = the (raw_stream_cb_routine ex_penv True 1 (fst (copy_frame ex_penv (ex_frame 0x801) ex_started)))"

definition ex_closing :: pworld where
  "ex_closing = notifier_exit ex_penv (on_post (\<lambda>p. p\<lparr>mRawBurstCount := 3\<rparr>) ex_raw)"

definition ex_closing_jpeg :: pworld where
  "ex_closing_jpeg = notifier_exit ex_penv ex_encoding"

lemma ex_closing_facts:
  "\<not> mActive (nf ex_closing)" "m_inputRawQ (post ex_closing) = [1]" "raw_usable 1 ex_closing"
  "data_cb (m_callbacks (parent ex_closing)) \<noteq> 0" "msg_on CAMERA_MSG_COMPRESSED_IMAGE ex_closing" "mRawBurstCount (post ex_closing) \<noteq> 1"
  by code_simp+

theorem raw_picture_released_twice_witness: "raw_next ex_penv ex_closing = None"
  by (rule raw_picture_released_twice [OF ex_env_mallocs ex_closing_facts(1,2) _ ex_closing_facts(3-6)]) simp

lemma ex_closing_jpeg_facts:
  "\<not> mActive (nf ex_closing_jpeg)" "pp_inited (post ex_closing_jpeg)" "0 < next_addr ex_closing_jpeg"
  "m_ongoingJpegQ (post ex_closing_jpeg) = [\<lparr>jobId = 5, src_frame = 1, src_reproc_frame = 0\<rparr>]"
  "data_cb (m_callbacks (parent ex_closing_jpeg)) \<noteq> 0" "msg_on CAMERA_MSG_COMPRESSED_IMAGE ex_closing_jpeg"
  by code_simp+

theorem jpeg_memory_released_twice_witness: "processJpegEvt ex_penv 5 True ex_closing_jpeg = None"
  by (rule jpeg_memory_released_twice [OF ex_env_mallocs ex_closing_jpeg_facts(1,2) _ ex_closing_jpeg_facts(4,3,5,6)]) simp

text \<open>The last raw picture of a burst of one.\<close>

lemma ex_raw_facts:
  "mActive (nf ex_raw)" "m_inputRawQ (post ex_raw) = [1]" "raw_usable 1 ex_raw" "data_cb (m_callbacks (parent ex_raw)) \<noteq> 0"
  "msg_on CAMERA_MSG_COMPRESSED_IMAGE ex_raw" "mRawBurstCount (post ex_raw) = 1"
  by code_simp+

lemma ex_raw_reached: "post_reach True ex_penv ex_raw"
proof -
  obtain w1 p where c: "copy_frame ex_penv (ex_frame 0x801) ex_started = (w1, p)" by force
  have "next_addr ex_started = 1" by code_simp
  then have p: "p = 1" using c using ex_env_mallocs by (simp add: copy_frame_def post_malloc_def mallocs_ok_def)
  have "raw_stream_cb_routine ex_penv True p w1 = Some ex_raw"
    using c p by (simp add: ex_raw_def raw_stream_cb_routine_def)
  then show ?thesis using post_step.raw [of True ex_penv, OF _ c] p by (intro post_reach.step [OF ex_started_reached]) simp
qed

theorem last_raw_picture_leaks_witness:
  "\<exists>w'. raw_next ex_penv ex_raw = Some w' \<and> 1 \<in> dom (frames w') \<and> 1 \<notin># owned_refs w'"
  by (rule last_raw_picture_leaks [OF ex_env_mallocs ex_raw_reached ex_raw_facts(1,2) _ ex_raw_facts(3-6)]) simp

text \<open>Three pictures arrive, the first is encoded and the commands of the others find the encoder busy; then the channel is
  deleted, and the first picture is finished.\<close>

definition ex_three :: pworld where
  "ex_three = capture_channel_cb_routine ex_penv True (ex_frame 0x801) (capture_channel_cb_routine ex_penv True (ex_frame 0x801) ex_arrived)"

definition ex_busy :: pworld where
  "ex_busy = the (run_turn ex_penv Worker (the (run_turn ex_penv Worker (the (run_turn ex_penv Worker ex_three)))))"

definition ex_finished :: pworld where
  "ex_finished = the (run_turn ex_penv (Jpeg_event 5 True) (ex_busy\<lparr>parent := (parent ex_busy)\<lparr>m_channels := (\<lambda>_. None)\<rparr>\<rparr>))"

lemma ex_finished_facts:
  "pp_running (post ex_finished)" "is_active (post ex_finished)" "m_ongoingJpegQ (post ex_finished) = []"
  "m_inputJpegQ (post ex_finished) = [\<lparr>jobId = 0, src_frame = 2, src_reproc_frame = 0\<rparr>, \<lparr>jobId = 0, src_frame = 3, src_reproc_frame = 0\<rparr>]"
  "m_inputRawQ (post ex_finished) = []" "m_inputPPQ (post ex_finished) = []" "frames ex_finished 2 = Some (ex_frame 0x801)"
  "pp_channel (ps_ch (ex_frame 0x801)) ex_finished = None"
  "map_option (\<lambda>(t, c). (cmd_queue t, c)) (next_cmd (m_dataProcTh (post ex_finished))) = Some ([], CAMERA_CMD_TYPE_DO_NEXT_JOB)"
  by code_simp+

lemma ex_finished_reached: "post_reach lossy ex_penv ex_finished"
proof -
  let ?cb = "capture_channel_cb_routine ex_penv True (ex_frame 0x801)"
  have t: "taken lossy ex_arrived" "taken lossy (?cb ex_arrived)" unfolding taken_def by (rule disjI2, code_simp)+
  have "post_reach lossy ex_penv ex_three" unfolding ex_three_def
    by (rule post_reach.step [OF post_reach.step [OF ex_arrived_reached post_step.capture [OF t(1)]] post_step.capture [OF t(2)]])
  then have "post_reach lossy ex_penv ex_busy" unfolding ex_busy_def by (intro reach_turn ex_env_mallocs)
  then have "post_reach lossy ex_penv (ex_busy\<lparr>parent := (parent ex_busy)\<lparr>m_channels := (\<lambda>_. None)\<rparr>\<rparr>)"
    by (rule post_reach.step [OF _ post_step.hal]) simp
  then show ?thesis unfolding ex_finished_def by (intro reach_turn ex_env_mallocs)
qed

theorem failed_encode_strands_pictures_witness:
  "\<exists>w'. dataProcessRoutine ex_penv ex_finished = Some w' \<and> length (m_inputJpegQ (post w')) = 1 \<and> m_ongoingJpegQ (post w') = [] \<and>
    is_active (post w') \<and> cmd_queue (m_dataProcTh (post w')) = []"
proof -
  obtain t where t: "next_cmd (m_dataProcTh (post ex_finished)) = Some (t, CAMERA_CMD_TYPE_DO_NEXT_JOB)" "cmd_queue t = []"
    using ex_finished_facts(9) by auto
  show ?thesis
    using failed_encode_strands_pictures [OF ex_env_mallocs ex_finished_reached [of True] ex_finished_facts(1,2) t ex_finished_facts(3,4,5,6)
        _ ex_finished_facts(8)] ex_finished_facts(7) by auto
qed

text \<open>A preview frame while the preview does not run.\<close>

definition ex_preview :: pworld where
  "ex_preview = ex_started\<lparr>frames := [1 \<mapsto> ex_frame 0x801]\<rparr>"


end
