(* ===== verification/JpegBase.thy ===== *)
theory JpegBase
  imports StreamOffset Handle
begin

text \<open>
  \<^verbatim>\<open>camera/QCamera2/stack/mm-jpeg-interface\<close>, first part: the data of \<^verbatim>\<open>mm_jpeg.h\<close>, the calls of the OMX component that
  encodes or decodes, the callbacks it makes, the queues of jobs and the small functions of \<^verbatim>\<open>mm_jpeg_inlines.h\<close>.

  Every call of the component is recorded with its arguments and answered by the environment.  The component makes its
  callbacks from a thread of its own: the environment chooses which of them run after a call and while a thread waits,
  but a callback of a session never runs while the lock of the session is held.  A wait that no callback ends is
  \<^verbatim>\<open>None\<close>.  The flag \<^verbatim>\<open>j_bad\<close> is raised where the code has no defined behaviour: the use of a component that was not
  obtained or was given back, an index outside an array, a null pointer, memory read after it was freed.
\<close>

section \<open>Data\<close>

definition MM_JPEG_MAX_BUF :: nat where "MM_JPEG_MAX_BUF = 24"
definition MM_JPEG_MAX_SESSION :: nat where "MM_JPEG_MAX_SESSION = 10"
definition MAX_JPEG_CLIENT_NUM :: nat where "MAX_JPEG_CLIENT_NUM = 8"
definition NUM_MAX_JPEG_CNCURRENT_JOBS :: nat where "NUM_MAX_JPEG_CNCURRENT_JOBS = 1"
definition JOB_ID_MAGICVAL :: u32 where "JOB_ID_MAGICVAL = 1"
definition JOB_HIST_MAX :: i32 where "JOB_HIST_MAX = 10000"

datatype omx_error = OMX_ErrorNone | OMX_ErrorHardware | OMX_ErrorBadParameter | OMX_ErrorIncorrectStateTransition
  | OMX_ErrorUndefined | OMX_ErrorInvalidComponent | OMX_ErrorInsufficientResources | OMX_ErrorOther nat

datatype omx_state = OMX_StateLoaded | OMX_StateIdle | OMX_StateExecuting | OMX_StatePause | OMX_StateOther

datatype mm_jpeg_abort_state = MM_JPEG_ABORT_NONE | MM_JPEG_ABORT_INIT | MM_JPEG_ABORT_DONE

datatype jpeg_job_status = JPEG_JOB_STATUS_DONE | JPEG_JOB_STATUS_ERROR

record cam_rect =
  rect_left :: i32
  rect_top :: i32
  rect_width :: i32
  rect_height :: i32

text \<open>Of the planes of a buffer the code reads the first three; of the arrays of buffers it may ask for any entry.\<close>

record mm_jpeg_buf =
  jb_size :: u32
  jb_fd :: i32
  jb_mp :: "nat \<Rightarrow> cam_mp_len_offset"

record mm_jpeg_dim =
  jd_src :: cam_dimension
  jd_dst :: cam_dimension
  jd_crop :: cam_rect

record mm_jpeg_encode_params =
  num_src_bufs :: u32
  num_tmb_bufs :: u32
  num_dst_bufs :: u32
  encode_thumbnail :: bool
  src_main_buf :: "nat \<Rightarrow> mm_jpeg_buf"
  src_thumb_buf :: "nat \<Rightarrow> mm_jpeg_buf"
  dest_buf :: "nat \<Rightarrow> mm_jpeg_buf"
  color_format :: mm_jpeg_color_format
  thumb_color_format :: mm_jpeg_color_format
  jp_quality :: u32
  has_jpeg_cb :: bool

record mm_jpeg_decode_params =
  dp_num_src_bufs :: u32
  dp_num_dst_bufs :: u32
  dp_src_main_buf :: "nat \<Rightarrow> mm_jpeg_buf"
  dp_dest_buf :: "nat \<Rightarrow> mm_jpeg_buf"
  dp_color_format :: mm_jpeg_color_format
  dp_has_jpeg_cb :: bool

text \<open>\<^verbatim>\<open>je_metadata\<close> says whether there is a metadata buffer, \<^verbatim>\<open>je_exif\<close> how many entries the caller gives.\<close>

record mm_jpeg_encode_job =
  je_src_index :: u32
  je_dst_index :: u32
  je_thumb_index :: u32
  je_thumb_dim :: mm_jpeg_dim
  je_rotation :: i32
  je_main_dim :: mm_jpeg_dim
  je_session_id :: u32
  je_metadata :: bool
  je_exif :: u32

record mm_jpeg_decode_job =
  jd_src_index :: u32
  jd_dst_index :: u32
  jd_main_dim :: mm_jpeg_dim
  jd_session_id :: u32

datatype omx_event = OMX_EventCmdComplete | OMX_EventError | OMX_EventPortSettingsChanged | OMX_EventOther

text \<open>\<^verbatim>\<open>js_obj\<close> says that the pointer to the object is set.\<close>

record jpeg_session =
  js_client_hdl :: u32
  js_jobId :: u32
  js_sessionId :: u32
  js_params :: mm_jpeg_encode_params
  js_dec_params :: mm_jpeg_decode_params
  js_encode_job :: mm_jpeg_encode_job
  js_decode_job :: mm_jpeg_decode_job
  js_obj :: bool
  js_job_status :: jpeg_job_status
  state_change_pending :: bool
  error_flag :: omx_error
  abort_state :: mm_jpeg_abort_state
  omx_handle :: addr
  exif_count_local :: nat
  ebd_count :: i32
  fbd_count :: i32
  js_active :: bool
  js_config :: bool
  job_hist :: i32
  js_encoding :: bool
  js_event :: omx_event
  event_pending :: bool

record jpeg_client =
  jc_is_used :: bool
  jc_handle :: u32
  jc_session :: "jpeg_session list"

text \<open>An entry of the queue of jobs: what \<^verbatim>\<open>mm_jpeg_job_q_node_t\<close> holds, with the identifiers of the job and the client.\<close>

datatype jpeg_node = Encode_node mm_jpeg_encode_job u32 u32 | Decode_node mm_jpeg_decode_job u32 u32 | Exit_node

datatype omx_color = OMX_QCOM_IMG_COLOR_FormatYVU420SemiPlanar | OMX_COLOR_FormatYUV420SemiPlanar
  | OMX_QCOM_IMG_COLOR_FormatYVU422SemiPlanar | OMX_COLOR_FormatYUV422SemiPlanar
  | OMX_QCOM_IMG_COLOR_FormatYVU422SemiPlanar_h1v2 | OMX_QCOM_IMG_COLOR_FormatYUV422SemiPlanar_h1v2
  | OMX_QCOM_IMG_COLOR_FormatYVU444SemiPlanar | OMX_QCOM_IMG_COLOR_FormatYUV444SemiPlanar

fun map_jpeg_format :: "mm_jpeg_color_format \<Rightarrow> omx_color" where
  "map_jpeg_format MM_JPEG_COLOR_FORMAT_YCRCBLP_H2V2 = OMX_QCOM_IMG_COLOR_FormatYVU420SemiPlanar"
| "map_jpeg_format MM_JPEG_COLOR_FORMAT_YCBCRLP_H2V2 = OMX_COLOR_FormatYUV420SemiPlanar"
| "map_jpeg_format MM_JPEG_COLOR_FORMAT_YCRCBLP_H2V1 = OMX_QCOM_IMG_COLOR_FormatYVU422SemiPlanar"
| "map_jpeg_format MM_JPEG_COLOR_FORMAT_YCBCRLP_H2V1 = OMX_COLOR_FormatYUV422SemiPlanar"
| "map_jpeg_format MM_JPEG_COLOR_FORMAT_YCRCBLP_H1V2 = OMX_QCOM_IMG_COLOR_FormatYVU422SemiPlanar_h1v2"
| "map_jpeg_format MM_JPEG_COLOR_FORMAT_YCBCRLP_H1V2 = OMX_QCOM_IMG_COLOR_FormatYUV422SemiPlanar_h1v2"
| "map_jpeg_format MM_JPEG_COLOR_FORMAT_YCRCBLP_H1V1 = OMX_QCOM_IMG_COLOR_FormatYVU444SemiPlanar"
| "map_jpeg_format MM_JPEG_COLOR_FORMAT_YCBCRLP_H1V1 = OMX_QCOM_IMG_COLOR_FormatYUV444SemiPlanar"
| "map_jpeg_format _ = OMX_QCOM_IMG_COLOR_FormatYVU420SemiPlanar"

text \<open>The fields of a port definition and of the descriptions of a frame and of a thumbnail that the code writes.\<close>

record omx_port =
  pt_width :: i32
  pt_height :: i32
  pt_stride :: i32
  pt_slice :: i32
  pt_color :: omx_color
  pt_size :: u32
  pt_count :: u32

record frame_info =
  fi_cbcr_start :: "u32 \<times> u32"
  fi_y :: u32
  fi_cbcr :: "u32 \<times> u32"

record thumb_info =
  ti_in :: cam_dimension
  ti_crop :: cam_rect
  ti_out :: cam_dimension
  ti_frame :: frame_info

datatype omx_ext = QOMX_IMAGE_EXT_BUFFER_OFFSET | QOMX_IMAGE_EXT_ENCODING_MODE | QOMX_IMAGE_EXT_THUMBNAIL
  | QOMX_IMAGE_EXT_EXIF | QOMX_IMAGE_EXT_WORK_BUFFER

text \<open>The calls of a component.\<close>

datatype omx_call =
    Get_state
  | Set_state omx_state
  | Port_enable nat
  | Port_disable nat
  | Get_port nat
  | Set_port nat omx_port
  | Set_output u32 u32
  | Use_buffer nat nat "i32 option" u32
  | Free_buffer nat nat
  | Get_extension omx_ext
  | Set_offset frame_info
  | Set_parallel
  | Set_rotation i32
  | Set_exif nat
  | Set_crop_in cam_rect
  | Set_crop_out cam_dimension
  | Set_quality u32
  | Set_thumbnail thumb_info
  | Set_work_buffer
  | Empty_this_buffer nat nat
  | Fill_this_buffer nat

datatype jpeg_call =
    Omx addr omx_call
  | Get_handle addr
  | Free_handle addr
  | Jpeg_cb jpeg_job_status u32 u32
  | Release_exif nat
  | Cond_wait
  | Sem_wait
  | Node_malloc
  | Alloc_ion
  | Dealloc_ion
  | Omx_init
  | Omx_deinit

datatype omx_callback = Empty_done | Fill_done | Event omx_event

type_synonym slot = "nat \<times> nat"

text \<open>\<^verbatim>\<open>j_live\<close> are the components that were obtained and not given back, \<^verbatim>\<open>j_next\<close> names the next.  \<^verbatim>\<open>j_decoder\<close> tells the
  object of the decoder from that of the encoder.\<close>

record jpeg_obj =
  j_decoder :: bool
  num_clients :: i32
  clnt_mgr :: "jpeg_client list"
  job_queue :: "jpeg_node list"
  job_sem :: nat
  jm_running :: bool
  ongoing_job_q :: "jpeg_node list"
  j_live :: "addr set"
  j_next :: addr
  j_bad :: bool
  j_trace :: "jpeg_call list"

text \<open>\<^verbatim>\<open>je_state\<close> is the state that \<^verbatim>\<open>OMX_GetState\<close> writes, \<^verbatim>\<open>je_meta\<close> the number of EXIF entries found in the metadata.\<close>

record jpeg_env =
  je_ret :: "jpeg_call list \<Rightarrow> jpeg_call \<Rightarrow> omx_error"
  je_state :: "jpeg_call list \<Rightarrow> omx_state"
  je_events :: "jpeg_call list \<Rightarrow> (slot \<times> omx_callback) list"
  je_meta :: "jpeg_call list \<Rightarrow> nat"
  je_malloc :: "jpeg_call list \<Rightarrow> bool"

section \<open>Sessions and calls\<close>

definition jpeg_call :: "jpeg_call \<Rightarrow> jpeg_obj \<Rightarrow> jpeg_obj" where
  "jpeg_call c ob = ob\<lparr>j_trace := j_trace ob @ [c]\<rparr>"

definition require :: "bool \<Rightarrow> jpeg_obj \<Rightarrow> jpeg_obj" where
  "require b ob = ob\<lparr>j_bad := j_bad ob \<or> \<not> b\<rparr>"

text \<open>A session is named by the indices of its client and of itself.\<close>

definition in_range :: "slot \<Rightarrow> bool" where
  "in_range k \<longleftrightarrow> fst k < MAX_JPEG_CLIENT_NUM \<and> snd k < MM_JPEG_MAX_SESSION"

definition sess :: "slot \<Rightarrow> jpeg_obj \<Rightarrow> jpeg_session" where
  "sess k ob = jc_session (clnt_mgr ob ! fst k) ! snd k"

definition upd_sess :: "slot \<Rightarrow> (jpeg_session \<Rightarrow> jpeg_session) \<Rightarrow> jpeg_obj \<Rightarrow> jpeg_obj" where
  "upd_sess k f ob = ob\<lparr>clnt_mgr := (clnt_mgr ob)[fst k := (clnt_mgr ob ! fst k)
     \<lparr>jc_session := (jc_session (clnt_mgr ob ! fst k))[snd k := f (sess k ob)]\<rparr>]\<rparr>"

definition jpeg_malloc :: "jpeg_env \<Rightarrow> jpeg_obj \<Rightarrow> jpeg_obj \<times> bool" where
  "jpeg_malloc e ob = (jpeg_call Node_malloc ob, je_malloc e (j_trace ob))"

section \<open>Queues of jobs\<close>

text \<open>The entries of the linked list, in its order; that the list is one is shown for \<^verbatim>\<open>mm_jpeg_queue.c\<close> in
  \<^verbatim>\<open>CamQueue\<close>.\<close>

fun remove_first :: "('a \<Rightarrow> bool) \<Rightarrow> 'a list \<Rightarrow> 'a option \<times> 'a list" where
  "remove_first P [] = (None, [])"
| "remove_first P (x # xs) = (if P x then (Some x, xs) else let (y, ys) = remove_first P xs in (y, x # ys))"

text \<open>What the encoder's view of the union reads.  The fields \<^verbatim>\<open>job_id\<close> and \<^verbatim>\<open>client_handle\<close> of \<^verbatim>\<open>enc_info\<close>, and
  \<^verbatim>\<open>encode_job.session_id\<close> at offset 80 of it, lie behind the 60 bytes of \<^verbatim>\<open>dec_info\<close>, in the part of the node
  that \<^verbatim>\<open>memset\<close> cleared.\<close>

fun enc_session_id :: "jpeg_node \<Rightarrow> u32" where
  "enc_session_id (Encode_node j i c) = je_session_id j"
| "enc_session_id (Decode_node j i c) = 0"
| "enc_session_id Exit_node = 0"

fun enc_job_id :: "jpeg_node \<Rightarrow> u32" where
  "enc_job_id (Encode_node j i c) = i"
| "enc_job_id (Decode_node j i c) = 0"
| "enc_job_id Exit_node = 0"

fun enc_client_handle :: "jpeg_node \<Rightarrow> u32" where
  "enc_client_handle (Encode_node j i c) = c"
| "enc_client_handle (Decode_node j i c) = 0"
| "enc_client_handle Exit_node = 0"

fun node_job_id :: "jpeg_node \<Rightarrow> u32" where
  "node_job_id (Encode_node j i c) = i"
| "node_job_id (Decode_node j i c) = i"
| "node_job_id Exit_node = 0"

definition mm_jpeg_queue_remove_job_by_client_id :: "u32 \<Rightarrow> jpeg_node list \<Rightarrow> jpeg_node option \<times> jpeg_node list" where
  "mm_jpeg_queue_remove_job_by_client_id hdl = remove_first (\<lambda>n. enc_client_handle n = hdl)"

definition mm_jpeg_queue_remove_job_by_session_id :: "u32 \<Rightarrow> jpeg_node list \<Rightarrow> jpeg_node option \<times> jpeg_node list" where
  "mm_jpeg_queue_remove_job_by_session_id i = remove_first (\<lambda>n. enc_session_id n = i)"

definition mm_jpeg_queue_remove_job_by_job_id :: "u32 \<Rightarrow> jpeg_node list \<Rightarrow> jpeg_node option \<times> jpeg_node list" where
  "mm_jpeg_queue_remove_job_by_job_id i = remove_first (\<lambda>n. node_job_id n = i)"

definition mm_jpeg_queue_remove_job_unlk :: "u32 \<Rightarrow> jpeg_node list \<Rightarrow> jpeg_node option \<times> jpeg_node list" where
  "mm_jpeg_queue_remove_job_unlk i = remove_first (\<lambda>n. enc_job_id n = i)"

lemma remove_first_length: "remove_first P xs = (Some x, ys) \<Longrightarrow> length ys < length xs"
  by (induction xs arbitrary: ys) (auto split: if_splits prod.splits)

text \<open>The loops that remove the jobs of a session.\<close>

function remove_session_jobs :: "u32 \<Rightarrow> jpeg_node list \<Rightarrow> jpeg_node list" where
  "remove_session_jobs i q = (case mm_jpeg_queue_remove_job_by_session_id i q of
     (None, q) \<Rightarrow> q
   | (Some n, q) \<Rightarrow> remove_session_jobs i q)"
  by pat_completeness auto
termination by (relation "measure (length \<circ> snd)") (auto simp: mm_jpeg_queue_remove_job_by_session_id_def dest: remove_first_length [OF sym])

declare remove_session_jobs.simps [simp del]

lemma remove_first_None: "remove_first P xs = (None, ys) \<Longrightarrow> ys = xs \<and> filter (\<lambda>x. \<not> P x) xs = xs"
  by (induction xs arbitrary: ys) (auto split: if_splits prod.splits)

lemma remove_first_Some: "remove_first P xs = (Some x, ys) \<Longrightarrow> filter (\<lambda>x. \<not> P x) ys = filter (\<lambda>x. \<not> P x) xs"
  by (induction xs arbitrary: ys) (auto split: if_splits prod.splits)

lemma remove_first_set: "set (snd (remove_first P xs)) \<subseteq> set xs"
  by (induction xs) (auto split: prod.splits)

lemma remove_session_jobs_filter: "remove_session_jobs i q = filter (\<lambda>n. enc_session_id n \<noteq> i) q"
proof (induction i q rule: remove_session_jobs.induct)
  case (1 i q)
  obtain o' q' where e: "mm_jpeg_queue_remove_job_by_session_id i q = (o', q')" by fastforce
  show ?case
  proof (cases o')
    case None
    then show ?thesis using e remove_first_None [of "\<lambda>n. enc_session_id n = i" q q']
      by (subst remove_session_jobs.simps) (simp add: mm_jpeg_queue_remove_job_by_session_id_def)
  next
    case (Some n)
    then show ?thesis using e "1.IH" [OF e [symmetric] Some] remove_first_Some [of "\<lambda>n. enc_session_id n = i" q n q']
      by (subst remove_session_jobs.simps) (simp add: mm_jpeg_queue_remove_job_by_session_id_def)
  qed
qed

section \<open>Identifiers\<close>

definition GET_CLIENT_IDX :: "u32 \<Rightarrow> nat" where
  "GET_CLIENT_IDX x = unat (x AND 0xff)"

definition GET_SESSION_IDX :: "u32 \<Rightarrow> nat" where
  "GET_SESSION_IDX x = unat (drop_bit 8 x AND 0xff)"

definition session_id_of :: "slot \<Rightarrow> u32" where
  "session_id_of k = push_bit 24 JOB_ID_MAGICVAL OR push_bit 8 (of_nat (snd k)) OR of_nat (fst k)"

text \<open>The remainder of C keeps the sign of the history.\<close>

definition job_id_of :: "u32 \<Rightarrow> i32 \<Rightarrow> u32" where
  "job_id_of i hist = i OR push_bit 16 (hist - JOB_HIST_MAX * i32_div hist JOB_HIST_MAX)"

section \<open>\<^verbatim>\<open>mm_jpeg_inlines.h\<close>\<close>

definition mm_jpeg_get_session :: "u32 \<Rightarrow> slot option" where
  "mm_jpeg_get_session i =
     (let client_idx = GET_CLIENT_IDX i; session_idx = GET_SESSION_IDX i in
      if session_idx \<ge> MM_JPEG_MAX_SESSION \<or> client_idx \<ge> MAX_JPEG_CLIENT_NUM then None
      else Some (client_idx, session_idx))"

definition mm_jpeg_job_done :: "slot \<Rightarrow> jpeg_obj \<Rightarrow> jpeg_obj" where
  "mm_jpeg_job_done k ob =
     (let ob = require (js_obj (sess k ob)) ob;
          ob = ob\<lparr>ongoing_job_q := snd (mm_jpeg_queue_remove_job_by_job_id (js_jobId (sess k ob)) (ongoing_job_q ob))\<rparr>;
          ob = upd_sess k (\<lambda>s. s\<lparr>js_encoding := False\<rparr>) ob in
      ob\<lparr>job_sem := job_sem ob + 1\<rparr>)"

definition mm_jpeg_get_new_session_idx :: "nat \<Rightarrow> jpeg_obj \<Rightarrow> jpeg_obj \<times> slot option" where
  "mm_jpeg_get_new_session_idx c ob =
     (case filter (\<lambda>i. \<not> js_active (sess (c, i) ob)) [0..<MM_JPEG_MAX_SESSION] of
        [] \<Rightarrow> (ob, None)
      | i # _ \<Rightarrow> (upd_sess (c, i) (\<lambda>s. s\<lparr>js_active := True\<rparr>) ob, Some (c, i)))"

definition mm_jpeg_remove_session_idx :: "u32 \<Rightarrow> jpeg_obj \<Rightarrow> jpeg_obj" where
  "mm_jpeg_remove_session_idx i ob =
     (let k = (GET_CLIENT_IDX i, GET_SESSION_IDX i) in
      upd_sess k (\<lambda>s. s\<lparr>js_active := False\<rparr>) (require (in_range k) ob))"

section \<open>Callbacks of the component\<close>

definition session_cb :: "slot \<Rightarrow> jpeg_obj \<Rightarrow> bool" where
  "session_cb k ob = (if j_decoder ob then dp_has_jpeg_cb (js_dec_params (sess k ob)) else has_jpeg_cb (js_params (sess k ob)))"

definition send_status :: "slot \<Rightarrow> jpeg_job_status \<Rightarrow> jpeg_obj \<Rightarrow> jpeg_obj" where
  "send_status k st ob =
     (let ob = upd_sess k (\<lambda>s. s\<lparr>js_job_status := st\<rparr>) ob; s = sess k ob in
      jpeg_call (Jpeg_cb st (js_client_hdl s) (js_jobId s)) ob)"

definition mm_jpeg_ebd :: "slot \<Rightarrow> jpeg_obj \<Rightarrow> jpeg_obj" where
  "mm_jpeg_ebd k = upd_sess k (\<lambda>s. s\<lparr>ebd_count := ebd_count s + 1\<rparr>)"

text \<open>The client sees no picture of a session that is being aborted.  The decoder's callback is the same.\<close>

definition mm_jpeg_fbd :: "slot \<Rightarrow> jpeg_obj \<Rightarrow> jpeg_obj" where
  "mm_jpeg_fbd k ob =
     (if abort_state (sess k ob) \<noteq> MM_JPEG_ABORT_NONE then ob
      else
        (let ob = upd_sess k (\<lambda>s. s\<lparr>fbd_count := fbd_count s + 1\<rparr>) ob in
         if session_cb k ob then mm_jpeg_job_done k (send_status k JPEG_JOB_STATUS_DONE ob) else ob))"

definition event_error :: "slot \<Rightarrow> jpeg_obj \<Rightarrow> jpeg_obj" where
  "event_error k ob =
     (let ob = upd_sess k (\<lambda>s. s\<lparr>error_flag := OMX_ErrorHardware\<rparr>) ob in
      if js_encoding (sess k ob)
      then mm_jpeg_job_done k (if session_cb k ob then send_status k JPEG_JOB_STATUS_ERROR ob else ob)
      else ob)"

text \<open>The flag of the result says whether the condition of the session is signalled.\<close>

definition mm_jpeg_event_handler :: "slot \<Rightarrow> omx_event \<Rightarrow> jpeg_obj \<Rightarrow> jpeg_obj \<times> bool" where
  "mm_jpeg_event_handler k ev ob =
     (if abort_state (sess k ob) = MM_JPEG_ABORT_INIT then (upd_sess k (\<lambda>s. s\<lparr>abort_state := MM_JPEG_ABORT_DONE\<rparr>) ob, True)
      else (case ev of
        OMX_EventError \<Rightarrow> (event_error k ob, True)
      | OMX_EventCmdComplete \<Rightarrow>
          if state_change_pending (sess k ob) then (upd_sess k (\<lambda>s. s\<lparr>state_change_pending := False\<rparr>) ob, True) else (ob, False)
      | _ \<Rightarrow> (ob, False)))"

definition mm_jpegdec_event_handler :: "slot \<Rightarrow> omx_event \<Rightarrow> jpeg_obj \<Rightarrow> jpeg_obj \<times> bool" where
  "mm_jpegdec_event_handler k ev ob =
     (let ob = upd_sess k (\<lambda>s. s\<lparr>js_event := ev\<rparr>) ob in
      if abort_state (sess k ob) = MM_JPEG_ABORT_INIT then (upd_sess k (\<lambda>s. s\<lparr>abort_state := MM_JPEG_ABORT_DONE\<rparr>) ob, True)
      else (case ev of
        OMX_EventError \<Rightarrow> (event_error k ob, True)
      | OMX_EventCmdComplete \<Rightarrow> (upd_sess k (\<lambda>s. s\<lparr>state_change_pending := False, event_pending := False\<rparr>) ob, True)
      | OMX_EventPortSettingsChanged \<Rightarrow> (ob, True)
      | _ \<Rightarrow> (ob, False)))"

text \<open>A component calls back with the session it was obtained for.\<close>

fun component_callback :: "slot \<times> omx_callback \<Rightarrow> jpeg_obj \<Rightarrow> jpeg_obj \<times> bool" where
  "component_callback (k, Empty_done) ob = (mm_jpeg_ebd k ob, False)"
| "component_callback (k, Fill_done) ob = (mm_jpeg_fbd k ob, False)"
| "component_callback (k, Event ev) ob = (if j_decoder ob then mm_jpegdec_event_handler k ev ob else mm_jpeg_event_handler k ev ob)"

text \<open>The callbacks that run one after the other, and the sessions they signal.\<close>

fun run_callbacks :: "(slot \<times> omx_callback) list \<Rightarrow> jpeg_obj \<Rightarrow> jpeg_obj \<times> slot list" where
  "run_callbacks [] ob = (ob, [])"
| "run_callbacks (c # cs) ob =
     (let (ob, b) = (if in_range (fst c) then component_callback c ob else (ob, False)); (ob, ks) = run_callbacks cs ob in
      (ob, if b then fst c # ks else ks))"

section \<open>Calls of the component\<close>

text \<open>The callbacks that run after a call made with the lock of the session \<^verbatim>\<open>lk\<close> held, or with none.\<close>

definition callbacks_after :: "jpeg_env \<Rightarrow> slot option \<Rightarrow> jpeg_obj \<Rightarrow> jpeg_obj" where
  "callbacks_after e lk ob = fst (run_callbacks (filter (\<lambda>c. Some (fst c) \<noteq> lk) (je_events e (j_trace ob))) ob)"

definition omx :: "jpeg_env \<Rightarrow> slot option \<Rightarrow> addr \<Rightarrow> omx_call \<Rightarrow> jpeg_obj \<Rightarrow> jpeg_obj \<times> omx_error" where
  "omx e lk h c ob =
     (let r = je_ret e (j_trace ob) (Omx h c) in (callbacks_after e lk (jpeg_call (Omx h c) (require (h \<in> j_live ob) ob)), r))"

definition omx_sess :: "jpeg_env \<Rightarrow> slot option \<Rightarrow> slot \<Rightarrow> omx_call \<Rightarrow> jpeg_obj \<Rightarrow> jpeg_obj \<times> omx_error" where
  "omx_sess e lk k c ob = omx e lk (omx_handle (sess k ob)) c ob"

definition OMX_GetHandle :: "jpeg_env \<Rightarrow> slot \<Rightarrow> jpeg_obj \<Rightarrow> jpeg_obj \<times> omx_error" where
  "OMX_GetHandle e k ob =
     (let h = j_next ob; r = je_ret e (j_trace ob) (Get_handle h); ob = jpeg_call (Get_handle h) ob in
      if r \<noteq> OMX_ErrorNone then (ob, r)
      else (callbacks_after e None (upd_sess k (\<lambda>s. s\<lparr>omx_handle := h\<rparr>) (ob\<lparr>j_live := insert h (j_live ob), j_next := h + 1\<rparr>)), r))"

definition OMX_FreeHandle :: "addr \<Rightarrow> jpeg_obj \<Rightarrow> jpeg_obj" where
  "OMX_FreeHandle h ob = jpeg_call (Free_handle h) ((require (h \<in> j_live ob) ob)\<lparr>j_live := j_live ob - {h}\<rparr>)"

text \<open>\<^verbatim>\<open>pthread_cond_wait\<close>: callbacks run, and the wait ends if one of them signals the session.  A signal that came before
  the wait is lost.\<close>

definition cond_wait_session :: "jpeg_env \<Rightarrow> slot \<Rightarrow> jpeg_obj \<Rightarrow> jpeg_obj option" where
  "cond_wait_session e k ob =
     (let ob = jpeg_call Cond_wait ob; (ob, ks) = run_callbacks (je_events e (j_trace ob)) ob in
      if k \<in> set ks then Some ob else None)"

text \<open>One step after the other, up to the first that fails.\<close>

fun try_all :: "(jpeg_obj \<Rightarrow> jpeg_obj \<times> omx_error) list \<Rightarrow> jpeg_obj \<Rightarrow> jpeg_obj \<times> omx_error" where
  "try_all [] ob = (ob, OMX_ErrorNone)"
| "try_all (f # fs) ob = (let (ob, r) = f ob in if r \<noteq> OMX_ErrorNone then (ob, r) else try_all fs ob)"

text \<open>An entry of one of the arrays of \<^verbatim>\<open>MM_JPEG_MAX_BUF\<close> buffers is read before a step.\<close>

definition with_buf :: "nat \<Rightarrow> (jpeg_obj \<Rightarrow> jpeg_obj \<times> omx_error) \<Rightarrow> jpeg_obj \<Rightarrow> jpeg_obj \<times> omx_error" where
  "with_buf i f ob = f (require (i < MM_JPEG_MAX_BUF) ob)"

section \<open>Change of state\<close>

definition mm_jpeg_session_change_state :: "jpeg_env \<Rightarrow> slot \<Rightarrow> omx_state \<Rightarrow> (jpeg_obj \<Rightarrow> jpeg_obj \<times> omx_error) option \<Rightarrow>
    jpeg_obj \<Rightarrow> (jpeg_obj \<times> omx_error) option" where
  "mm_jpeg_session_change_state e k new_state p_exec ob =
     (let current_state = je_state e (j_trace ob);
          (ob, ret) = omx_sess e (Some k) k Get_state ob in
      if ret \<noteq> OMX_ErrorNone then Some (ob, ret)
      else if current_state = new_state then Some (ob, OMX_ErrorNone)
      else
        (let ob = upd_sess k (\<lambda>s. s\<lparr>state_change_pending := True\<rparr>) ob;
             (ob, ret) = omx_sess e (Some k) k (Set_state new_state) ob in
         if ret \<noteq> OMX_ErrorNone then Some (ob, OMX_ErrorIncorrectStateTransition)
         else if error_flag (sess k ob) \<noteq> OMX_ErrorNone then Some (ob, error_flag (sess k ob))
         else
           (let (ob, ret) = (case p_exec of None \<Rightarrow> (ob, ret) | Some f \<Rightarrow> f ob) in
            if ret \<noteq> OMX_ErrorNone then Some (ob, ret)
            else if state_change_pending (sess k ob) then map_option (\<lambda>ob. (ob, ret)) (cond_wait_session e k ob)
            else Some (ob, ret))))"

section \<open>Abort\<close>

definition mm_jpeg_destroy_job :: "slot \<Rightarrow> jpeg_obj \<Rightarrow> jpeg_obj" where
  "mm_jpeg_destroy_job k ob =
     upd_sess k (\<lambda>s. s\<lparr>exif_count_local := 0\<rparr>)
       (fold (\<lambda>i. jpeg_call (Release_exif i)) [0..<exif_count_local (sess k ob)] ob)"

text \<open>The flag of the result is what the code returns: true when the command was refused.\<close>

definition mm_jpeg_session_abort :: "jpeg_env \<Rightarrow> slot \<Rightarrow> jpeg_obj \<Rightarrow> (jpeg_obj \<times> bool) option" where
  "mm_jpeg_session_abort e k ob =
     (let finish = (\<lambda>ob. (upd_sess k (\<lambda>s. s\<lparr>abort_state := MM_JPEG_ABORT_DONE\<rparr>) ob, False)) in
      if abort_state (sess k ob) \<noteq> MM_JPEG_ABORT_NONE then Some (ob, False)
      else
        (let ob = upd_sess k (\<lambda>s. s\<lparr>abort_state := MM_JPEG_ABORT_INIT\<rparr>) ob in
         if js_encoding (sess k ob) then
           (let ob = upd_sess k (\<lambda>s. s\<lparr>state_change_pending := True\<rparr>) ob;
                (ob, ret) = omx_sess e None k (Set_state OMX_StateIdle) ob in
            if ret \<noteq> OMX_ErrorNone then Some (ob, True)
            else
              (let ob = mm_jpeg_destroy_job k ob in
               if abort_state (sess k ob) = MM_JPEG_ABORT_INIT then map_option finish (cond_wait_session e k ob)
               else Some (finish ob)))
         else Some (finish ob)))"

end
