(* ===== verification/JpegEnc.thy ===== *)
theory JpegEnc
  imports JpegBase
begin

text \<open>
  \<^verbatim>\<open>camera/QCamera2/stack/mm-jpeg-interface/src/mm_jpeg.c\<close>, the session of an encoder: how its component is obtained,
  configured, driven through its states, given the buffers of a job, and given back.
\<close>

section \<open>Buffers\<close>

definition use_buffer :: "jpeg_env \<Rightarrow> slot \<Rightarrow> nat \<Rightarrow> bool \<Rightarrow> (nat \<Rightarrow> mm_jpeg_buf) \<Rightarrow> nat \<Rightarrow> jpeg_obj \<Rightarrow> jpeg_obj \<times> omx_error" where
  "use_buffer e k port with_fd bufs i = with_buf i
     (omx_sess e (Some k) k (Use_buffer port i (if with_fd then Some (jb_fd (bufs i)) else None) (jb_size (bufs i))))"

definition free_buffer :: "jpeg_env \<Rightarrow> slot \<Rightarrow> nat \<Rightarrow> nat \<Rightarrow> jpeg_obj \<Rightarrow> jpeg_obj \<times> omx_error" where
  "free_buffer e k port i = with_buf i (omx_sess e (Some k) k (Free_buffer port i))"

definition mm_jpeg_session_send_buffers :: "jpeg_env \<Rightarrow> slot \<Rightarrow> jpeg_obj \<Rightarrow> jpeg_obj \<times> omx_error" where
  "mm_jpeg_session_send_buffers e k ob =
     (let p = js_params (sess k ob) in
      try_all (map (use_buffer e k 0 True (src_main_buf p)) [0..<unat (num_src_bufs p)] @
               map (use_buffer e k 2 True (src_thumb_buf p)) [0..<unat (num_tmb_bufs p)] @
               map (use_buffer e k 1 False (dest_buf p)) [0..<unat (num_dst_bufs p)]) ob)"

definition mm_jpeg_session_free_buffers :: "jpeg_env \<Rightarrow> slot \<Rightarrow> jpeg_obj \<Rightarrow> jpeg_obj \<times> omx_error" where
  "mm_jpeg_session_free_buffers e k ob =
     (let p = js_params (sess k ob) in
      try_all (map (free_buffer e k 0) [0..<unat (num_src_bufs p)] @
               map (free_buffer e k 2) [0..<unat (num_tmb_bufs p)] @
               map (free_buffer e k 1) [0..<unat (num_dst_bufs p)]) ob)"

section \<open>Creation and destruction\<close>

definition mm_jpeg_session_create :: "jpeg_env \<Rightarrow> slot \<Rightarrow> jpeg_obj \<Rightarrow> jpeg_obj \<times> omx_error" where
  "mm_jpeg_session_create e k ob = OMX_GetHandle e k (upd_sess k (\<lambda>s. s\<lparr>state_change_pending := False,
     abort_state := MM_JPEG_ABORT_NONE, error_flag := OMX_ErrorNone, ebd_count := 0, fbd_count := 0, js_config := False,
     exif_count_local := 0\<rparr>) ob)"

text \<open>The state is asked for twice; a failing \<^verbatim>\<open>OMX_GetState\<close> leaves it undetermined.\<close>

definition mm_jpeg_session_destroy :: "jpeg_env \<Rightarrow> slot \<Rightarrow> jpeg_obj \<Rightarrow> jpeg_obj option" where
  "mm_jpeg_session_destroy e k ob =
     (if omx_handle (sess k ob) = 0 then Some ob
      else
        (let state = je_state e (j_trace ob); (ob, _) = omx_sess e None k Get_state ob in do {
           ob \<leftarrow> (if state = OMX_StateExecuting \<or> state = OMX_StatePause
                  then map_option fst (mm_jpeg_session_change_state e k OMX_StateIdle None ob) else Some ob);
           let state = je_state e (j_trace ob);
           let ob = fst (omx_sess e None k Get_state ob);
           ob \<leftarrow> (if state = OMX_StateIdle
                  then map_option fst (mm_jpeg_session_change_state e k OMX_StateLoaded (Some (mm_jpeg_session_free_buffers e k)) ob)
                  else Some ob);
           Some (upd_sess k (\<lambda>s. s\<lparr>omx_handle := 0\<rparr>) (OMX_FreeHandle (omx_handle (sess k ob)) ob))
         }))"

section \<open>Configuration\<close>

definition frame_info_of :: "mm_jpeg_buf \<Rightarrow> frame_info" where
  "frame_info_of b = \<lparr>fi_cbcr_start = (mp_len (jb_mp b 0), mp_len (jb_mp b 1)), fi_y = mp_offset (jb_mp b 0),
     fi_cbcr = (mp_offset (jb_mp b 1), mp_offset (jb_mp b 2))\<rparr>"

definition mm_jpeg_session_config_main_buffer_offset :: "jpeg_env \<Rightarrow> slot \<Rightarrow> jpeg_obj \<Rightarrow> jpeg_obj \<times> omx_error" where
  "mm_jpeg_session_config_main_buffer_offset e k ob =
     (let s = sess k ob; i = unat (je_src_index (js_encode_job s)) in
      with_buf i (try_all [omx_sess e None k (Get_extension QOMX_IMAGE_EXT_BUFFER_OFFSET),
                           omx_sess e None k (Set_offset (frame_info_of (src_main_buf (js_params s) i)))]) ob)"

definition mm_jpeg_encoding_mode :: "jpeg_env \<Rightarrow> slot \<Rightarrow> jpeg_obj \<Rightarrow> jpeg_obj \<times> omx_error" where
  "mm_jpeg_encoding_mode e k = try_all [omx_sess e None k (Get_extension QOMX_IMAGE_EXT_ENCODING_MODE), omx_sess e None k Set_parallel]"

definition port_of :: "cam_dimension \<Rightarrow> mm_jpeg_buf \<Rightarrow> mm_jpeg_color_format \<Rightarrow> u32 \<Rightarrow> omx_port" where
  "port_of dim b fmt n = \<lparr>pt_width = dim_width dim, pt_height = dim_height dim, pt_stride = mp_stride (jb_mp b 0),
     pt_slice = mp_scanline (jb_mp b 0), pt_color = map_jpeg_format fmt, pt_size = jb_size b, pt_count = n\<rparr>"

text \<open>Port 0 takes the picture, port 2 the thumbnail, and port 1 gives the result.  Of the output port only the size and
  the number of the buffers are written; the rest is what the component answers.\<close>

definition mm_jpeg_session_config_ports :: "jpeg_env \<Rightarrow> slot \<Rightarrow> jpeg_obj \<Rightarrow> jpeg_obj \<times> omx_error" where
  "mm_jpeg_session_config_ports e k ob =
     (let s = sess k ob; p = js_params s; j = js_encode_job s;
          src = unat (je_src_index j); tmb = unat (je_thumb_index j); dst = unat (je_dst_index j) in
      try_all ([omx_sess e None k (Get_port 0), omx_sess e None k (Get_port 2), omx_sess e None k (Get_port 1),
          with_buf src (omx_sess e None k (Set_port 0 (port_of (jd_src (je_main_dim j)) (src_main_buf p src) (color_format p)
            (num_src_bufs p))))] @
        (if encode_thumbnail p then
           [with_buf tmb (omx_sess e None k (Set_port 2 (port_of (jd_src (je_thumb_dim j)) (src_thumb_buf p tmb) (thumb_color_format p)
              (num_tmb_bufs p)))),
            omx_sess e None k (Port_enable 2)]
         else [omx_sess e None k (Port_disable 2)]) @
        [with_buf dst (omx_sess e None k (Set_output (jb_size (dest_buf p dst)) (num_dst_bufs p)))]) ob)"

text \<open>A crop without extent is the whole source.\<close>

definition full_crop :: "mm_jpeg_dim \<Rightarrow> mm_jpeg_dim" where
  "full_crop d = (if rect_width (jd_crop d) = 0 \<or> rect_height (jd_crop d) = 0
     then d\<lparr>jd_crop := (jd_crop d)\<lparr>rect_width := dim_width (jd_src d), rect_height := dim_height (jd_src d)\<rparr>\<rparr> else d)"

definition crop_outside :: "mm_jpeg_dim \<Rightarrow> bool" where
  "crop_outside d \<longleftrightarrow> dim_width (jd_src d) <s rect_width (jd_crop d) + rect_left (jd_crop d) \<or>
     dim_height (jd_src d) <s rect_height (jd_crop d) + rect_top (jd_crop d)"

definition thumb_output :: "mm_jpeg_dim \<Rightarrow> cam_dimension" where
  "thumb_output d = (if dim_width (jd_src d) <s dim_width (jd_dst d) \<or> dim_height (jd_src d) <s dim_height (jd_dst d)
     then jd_src d else jd_dst d)"

definition mm_jpeg_session_config_thumbnail :: "jpeg_env \<Rightarrow> slot \<Rightarrow> jpeg_obj \<Rightarrow> jpeg_obj \<times> omx_error" where
  "mm_jpeg_session_config_thumbnail e k ob =
     (let s = sess k ob; p = js_params s; d = je_thumb_dim (js_encode_job s); i = unat (je_thumb_index (js_encode_job s)) in
      if \<not> encode_thumbnail p then (ob, OMX_ErrorNone)
      else if dim_width (jd_dst d) = 0 \<or> dim_height (jd_dst d) = 0 then (ob, OMX_ErrorBadParameter)
      else if dim_width (jd_src d) = 0 \<or> dim_height (jd_src d) = 0 then (ob, OMX_ErrorBadParameter)
      else
        (let d = full_crop d; ob = upd_sess k (\<lambda>s. s\<lparr>js_encode_job := (js_encode_job s)\<lparr>je_thumb_dim := d\<rparr>\<rparr>) ob in
         if crop_outside d then (ob, OMX_ErrorBadParameter)
         else try_all [omx_sess e None k (Get_extension QOMX_IMAGE_EXT_THUMBNAIL),
           with_buf i (omx_sess e None k (Set_thumbnail \<lparr>ti_in = jd_src d, ti_crop = jd_crop d, ti_out = thumb_output d,
             ti_frame = frame_info_of (src_thumb_buf p i)\<rparr>))] ob))"

definition CEILING2 :: "i32 \<Rightarrow> i32" where
  "CEILING2 x = (x + 1) AND 0xFFFE"

definition rect_zero :: cam_rect where
  "rect_zero = \<lparr>rect_left = 0, rect_top = 0, rect_width = 0, rect_height = 0\<rparr>"

text \<open>The two rectangles the scaler is given: nothing when the picture is neither cropped nor scaled.\<close>

definition scaler_rects :: "mm_jpeg_dim \<Rightarrow> cam_rect \<times> cam_dimension" where
  "scaler_rects d =
     (let src = jd_src d; dst = jd_dst d; c = jd_crop d in
      if dim_width src \<noteq> rect_width c \<or> dim_height src \<noteq> rect_height c \<or> dim_width src \<noteq> dim_width dst \<or> dim_height src \<noteq> dim_height dst
      then (c\<lparr>rect_width := CEILING2 (rect_width c), rect_height := CEILING2 (rect_height c)\<rparr>,
            if dim_width dst \<noteq> 0 \<and> dim_height dst \<noteq> 0 then dst else \<lparr>dim_width = 0, dim_height = 0\<rparr>)
      else (rect_zero, \<lparr>dim_width = 0, dim_height = 0\<rparr>))"

definition mm_jpeg_session_config_main_crop :: "jpeg_env \<Rightarrow> slot \<Rightarrow> jpeg_obj \<Rightarrow> jpeg_obj \<times> omx_error" where
  "mm_jpeg_session_config_main_crop e k ob =
     (let d = full_crop (je_main_dim (js_encode_job (sess k ob)));
          ob = upd_sess k (\<lambda>s. s\<lparr>js_encode_job := (js_encode_job s)\<lparr>je_main_dim := d\<rparr>\<rparr>) ob in
      if crop_outside d then (ob, OMX_ErrorBadParameter)
      else try_all [omx_sess e None k (Set_crop_in (fst (scaler_rects d))), omx_sess e None k (Set_crop_out (snd (scaler_rects d)))] ob)"

text \<open>That the encoding mode could not be set is not looked at.\<close>

definition mm_jpeg_session_config_main :: "jpeg_env \<Rightarrow> slot \<Rightarrow> jpeg_obj \<Rightarrow> jpeg_obj \<times> omx_error" where
  "mm_jpeg_session_config_main e k =
     try_all [mm_jpeg_session_config_ports e k, mm_jpeg_session_config_main_buffer_offset e k,
       (\<lambda>ob. (fst (mm_jpeg_encoding_mode e k ob), OMX_ErrorNone))]"

text \<open>The entries made of the metadata replace those of the job before, whose memory is not released.\<close>

definition metadata_exif :: "jpeg_env \<Rightarrow> slot \<Rightarrow> jpeg_obj \<Rightarrow> jpeg_obj \<times> omx_error" where
  "metadata_exif e k ob =
     (let n = je_meta e (j_trace ob); ob = upd_sess k (\<lambda>s. s\<lparr>exif_count_local := n\<rparr>) ob in
      if 0 < n then omx_sess e None k (Set_exif n) ob else (ob, OMX_ErrorNone))"

definition mm_jpeg_session_config_common :: "jpeg_env \<Rightarrow> slot \<Rightarrow> jpeg_obj \<Rightarrow> jpeg_obj \<times> omx_error" where
  "mm_jpeg_session_config_common e k ob =
     (let j = js_encode_job (sess k ob) in
      try_all ([omx_sess e None k (Set_rotation (je_rotation j)), omx_sess e None k (Get_extension QOMX_IMAGE_EXT_EXIF)] @
        (if 0 < je_exif j then [omx_sess e None k (Set_exif (unat (je_exif j)))] else []) @
        (if je_metadata j then [metadata_exif e k] else [])) ob)"

text \<open>That the common configuration failed is not looked at.\<close>

definition mm_jpeg_configure_job_params :: "jpeg_env \<Rightarrow> slot \<Rightarrow> jpeg_obj \<Rightarrow> jpeg_obj \<times> omx_error" where
  "mm_jpeg_configure_job_params e k ob =
     try_all [(\<lambda>ob. (fst (mm_jpeg_session_config_common e k ob), OMX_ErrorNone)),
       mm_jpeg_session_config_main_crop e k,
       omx_sess e None k (Set_quality (jp_quality (js_params (sess k ob)))),
       mm_jpeg_session_config_thumbnail e k,
       omx_sess e None k (Get_extension QOMX_IMAGE_EXT_WORK_BUFFER),
       omx_sess e None k Set_work_buffer] ob"

definition mm_jpeg_session_configure :: "jpeg_env \<Rightarrow> slot \<Rightarrow> jpeg_obj \<Rightarrow> (jpeg_obj \<times> omx_error) option" where
  "mm_jpeg_session_configure e k ob =
     (if abort_state (sess k ob) = MM_JPEG_ABORT_INIT then Some (ob, OMX_ErrorNone)
      else
        (let (ob, ret) = mm_jpeg_session_config_main e k ob in
         if ret \<noteq> OMX_ErrorNone then Some (ob, ret)
         else do {
           (ob, ret) \<leftarrow> mm_jpeg_session_change_state e k OMX_StateIdle (Some (mm_jpeg_session_send_buffers e k)) ob;
           if ret \<noteq> OMX_ErrorNone then Some (ob, ret)
           else mm_jpeg_session_change_state e k OMX_StateExecuting None ob
         }))"

section \<open>Jobs\<close>

text \<open>The component is handed the buffers of the job.  Between the two the job counts as being encoded.\<close>

definition encode_buffers :: "jpeg_env \<Rightarrow> slot \<Rightarrow> jpeg_obj \<Rightarrow> jpeg_obj \<times> omx_error" where
  "encode_buffers e k ob =
     (let s = sess k ob; j = js_encode_job s in
      try_all ([with_buf (unat (je_src_index j)) (omx_sess e None k (Empty_this_buffer 0 (unat (je_src_index j))))] @
        (if encode_thumbnail (js_params s)
         then [with_buf (unat (je_thumb_index j)) (omx_sess e None k (Empty_this_buffer 2 (unat (je_thumb_index j))))] else []) @
        [with_buf (unat (je_dst_index j)) (omx_sess e None k (Fill_this_buffer (unat (je_dst_index j))))]) ob)"

definition start_encoding :: "jpeg_env \<Rightarrow> slot \<Rightarrow> jpeg_obj \<Rightarrow> jpeg_obj \<times> omx_error" where
  "start_encoding e k ob =
     (let ob = upd_sess k (\<lambda>s. s\<lparr>js_encoding := True\<rparr>) ob in
      if abort_state (sess k ob) = MM_JPEG_ABORT_INIT then (ob, OMX_ErrorNone) else encode_buffers e k ob)"

text \<open>The session is configured by its first job that can be.\<close>

definition configure_once :: "(jpeg_obj \<Rightarrow> (jpeg_obj \<times> omx_error) option) \<Rightarrow> slot \<Rightarrow> jpeg_obj \<Rightarrow> (jpeg_obj \<times> omx_error) option" where
  "configure_once conf k ob =
     (if \<not> js_config (sess k ob) then do {
        (ob, ret) \<leftarrow> conf ob;
        Some (if ret \<noteq> OMX_ErrorNone then ob else upd_sess k (\<lambda>s. s\<lparr>js_config := True\<rparr>) ob, ret)
      } else Some (ob, OMX_ErrorNone))"

definition mm_jpeg_session_encode :: "jpeg_env \<Rightarrow> slot \<Rightarrow> jpeg_obj \<Rightarrow> (jpeg_obj \<times> omx_error) option" where
  "mm_jpeg_session_encode e k ob = do {
     (ob, ret) \<leftarrow> configure_once (mm_jpeg_session_configure e k) k
       (upd_sess k (\<lambda>s. s\<lparr>abort_state := MM_JPEG_ABORT_NONE, js_encoding := False\<rparr>) ob);
     Some (if ret \<noteq> OMX_ErrorNone then (ob, ret) else try_all [mm_jpeg_configure_job_params e k, start_encoding e k] ob)
   }"

text \<open>A job that cannot be started is reported to the client and counted as done.\<close>

definition job_failed :: "slot \<Rightarrow> omx_error \<Rightarrow> jpeg_obj \<Rightarrow> jpeg_obj" where
  "job_failed k ret ob =
     mm_jpeg_job_done k (if ret \<noteq> OMX_ErrorNone \<and> session_cb k ob then send_status k JPEG_JOB_STATUS_ERROR ob else ob)"

definition mm_jpeg_process_encoding_job :: "jpeg_env \<Rightarrow> mm_jpeg_encode_job \<Rightarrow> u32 \<Rightarrow> u32 \<Rightarrow> jpeg_obj \<Rightarrow> (jpeg_obj \<times> i32) option" where
  "mm_jpeg_process_encoding_job e j i c ob = (case mm_jpeg_get_session i of
     None \<Rightarrow> Some (ob, -1)
   | Some k \<Rightarrow>
       (let (ob, ok) = jpeg_malloc e ob in
        if \<not> ok then Some (job_failed k OMX_ErrorNone ob, -1)
        else
          (let ob = ob\<lparr>ongoing_job_q := ongoing_job_q ob @ [Encode_node j i c]\<rparr>;
               ob = upd_sess k (\<lambda>s. s\<lparr>js_encode_job := j, js_jobId := i\<rparr>) ob in do {
             (ob, ret) \<leftarrow> mm_jpeg_session_encode e k ob;
             Some (if ret \<noteq> OMX_ErrorNone then job_failed k ret ob else ob, 0)
           })))"

end
