(* ===== verification/JpegDec.thy ===== *)
theory JpegDec
  imports JpegEnc
begin

text \<open>
  \<^verbatim>\<open>camera/QCamera2/stack/mm-jpeg-interface/src/mm_jpegdec.c\<close>, the session of a decoder.  The component tells with an
  event that it has read the header of the picture; only then are the buffers of the result set up.
\<close>

section \<open>Buffers, creation and destruction\<close>

definition mm_jpegdec_session_send_buffers :: "jpeg_env \<Rightarrow> slot \<Rightarrow> jpeg_obj \<Rightarrow> jpeg_obj \<times> omx_error" where
  "mm_jpegdec_session_send_buffers e k ob =
     (let p = js_dec_params (sess k ob) in try_all (map (use_buffer e k 0 True (dp_src_main_buf p)) [0..<unat (dp_num_src_bufs p)]) ob)"

definition mm_jpegdec_session_free_buffers :: "jpeg_env \<Rightarrow> slot \<Rightarrow> jpeg_obj \<Rightarrow> jpeg_obj \<times> omx_error" where
  "mm_jpegdec_session_free_buffers e k ob =
     (let p = js_dec_params (sess k ob) in
      try_all (map (free_buffer e k 0) [0..<unat (dp_num_src_bufs p)] @ map (free_buffer e k 1) [0..<unat (dp_num_dst_bufs p)]) ob)"

definition mm_jpegdec_session_create :: "jpeg_env \<Rightarrow> slot \<Rightarrow> jpeg_obj \<Rightarrow> jpeg_obj \<times> omx_error" where
  "mm_jpegdec_session_create e k ob = OMX_GetHandle e k (upd_sess k (\<lambda>s. s\<lparr>state_change_pending := False,
     abort_state := MM_JPEG_ABORT_NONE, error_flag := OMX_ErrorNone, ebd_count := 0, fbd_count := 0, js_config := False\<rparr>) ob)"

definition mm_jpegdec_session_destroy :: "jpeg_env \<Rightarrow> slot \<Rightarrow> jpeg_obj \<Rightarrow> jpeg_obj option" where
  "mm_jpegdec_session_destroy e k ob =
     (if omx_handle (sess k ob) = 0 then Some ob
      else do {
        (ob, _) \<leftarrow> mm_jpeg_session_change_state e k OMX_StateIdle None ob;
        (ob, _) \<leftarrow> mm_jpeg_session_change_state e k OMX_StateLoaded (Some (mm_jpegdec_session_free_buffers e k)) ob;
        Some (upd_sess k (\<lambda>s. s\<lparr>omx_handle := 0\<rparr>) (OMX_FreeHandle (omx_handle (sess k ob)) ob))
      })"

section \<open>Configuration\<close>

definition mm_jpegdec_session_config_ports :: "jpeg_env \<Rightarrow> slot \<Rightarrow> jpeg_obj \<Rightarrow> jpeg_obj \<times> omx_error" where
  "mm_jpegdec_session_config_ports e k ob =
     (let s = sess k ob; p = js_dec_params s; j = js_decode_job s; src = unat (jd_src_index j) in
      try_all [omx_sess e None k (Get_port 0), omx_sess e None k (Get_port 1),
        with_buf src (omx_sess e None k (Set_port 0 (port_of (jd_src (jd_main_dim j)) (dp_src_main_buf p src) (dp_color_format p)
          (dp_num_src_bufs p))))] ob)"

definition mm_jpegdec_session_config_main :: "jpeg_env \<Rightarrow> slot \<Rightarrow> jpeg_obj \<Rightarrow> jpeg_obj \<times> omx_error" where
  "mm_jpegdec_session_config_main e k ob = mm_jpegdec_session_config_ports e k ob"

definition mm_jpegdec_session_configure :: "jpeg_env \<Rightarrow> slot \<Rightarrow> jpeg_obj \<Rightarrow> (jpeg_obj \<times> omx_error) option" where
  "mm_jpegdec_session_configure e k ob =
     (if abort_state (sess k ob) = MM_JPEG_ABORT_INIT then Some (ob, OMX_ErrorNone)
      else
        (let (ob, ret) = mm_jpegdec_session_config_main e k ob in
         if ret \<noteq> OMX_ErrorNone then Some (ob, ret)
         else do {
           (ob, ret) \<leftarrow> mm_jpeg_session_change_state e k OMX_StateIdle (Some (mm_jpegdec_session_send_buffers e k)) ob;
           if ret \<noteq> OMX_ErrorNone then Some (ob, ret)
           else mm_jpeg_session_change_state e k OMX_StateExecuting None ob
         }))"

section \<open>Waiting for events\<close>

definition wait_event :: "jpeg_env \<Rightarrow> slot \<Rightarrow> jpeg_obj \<Rightarrow> jpeg_obj option" where
  "wait_event e k ob = (if event_pending (sess k ob) then cond_wait_session e k ob else Some ob)"

definition mm_jpeg_session_port_enable :: "jpeg_env \<Rightarrow> slot \<Rightarrow> nat \<Rightarrow> bool \<Rightarrow> jpeg_obj \<Rightarrow> (jpeg_obj \<times> omx_error) option" where
  "mm_jpeg_session_port_enable e k port wait ob =
     (let ob = upd_sess k (\<lambda>s. s\<lparr>event_pending := True\<rparr>) ob; (ob, ret) = omx_sess e None k (Port_enable port) ob in
      if ret \<noteq> OMX_ErrorNone then Some (ob, ret)
      else if wait then do {
        ob \<leftarrow> wait_event e k ob;
        Some (ob, if js_event (sess k ob) \<noteq> OMX_EventCmdComplete then OMX_ErrorUndefined else OMX_ErrorNone)
      }
      else Some (ob, OMX_ErrorNone))"

definition mm_jpeg_session_port_disable :: "jpeg_env \<Rightarrow> slot \<Rightarrow> nat \<Rightarrow> bool \<Rightarrow> jpeg_obj \<Rightarrow> (jpeg_obj \<times> omx_error) option" where
  "mm_jpeg_session_port_disable e k port wait ob =
     (let ob = upd_sess k (\<lambda>s. s\<lparr>event_pending := True\<rparr>) ob; (ob, ret) = omx_sess e None k (Port_disable port) ob in
      if ret \<noteq> OMX_ErrorNone then Some (ob, ret)
      else if wait then do {
        ob \<leftarrow> wait_event e k ob;
        Some (ob, if js_event (sess k ob) \<noteq> OMX_EventCmdComplete then OMX_ErrorUndefined else OMX_ErrorNone)
      }
      else Some (ob, OMX_ErrorNone))"

section \<open>Jobs\<close>

text \<open>After the header: the output port is switched off and given its buffers, and the component fills the one of the
  job.  An event other than the expected one ends the job without an error.\<close>

definition use_output :: "jpeg_env \<Rightarrow> slot \<Rightarrow> mm_jpeg_decode_params \<Rightarrow> nat \<Rightarrow> jpeg_obj \<Rightarrow> jpeg_obj \<times> omx_error" where
  "use_output e k p i = with_buf i (omx_sess e None k (Use_buffer 1 i (Some (jb_fd (dp_dest_buf p i))) (jb_size (dp_dest_buf p i))))"

definition decode_output :: "jpeg_env \<Rightarrow> slot \<Rightarrow> jpeg_obj \<Rightarrow> (jpeg_obj \<times> omx_error) option" where
  "decode_output e k ob =
     (let p = js_dec_params (sess k ob); dst = unat (jd_dst_index (js_decode_job (sess k ob))) in do {
        (ob, _) \<leftarrow> mm_jpeg_session_port_disable e k 1 True ob;
        let (ob, ret) = try_all [omx_sess e None k (Get_port 1),
          with_buf dst (omx_sess e None k (Set_output (jb_size (dp_dest_buf p dst)) (dp_num_dst_bufs p)))] ob;
        if ret \<noteq> OMX_ErrorNone then Some (ob, ret)
        else do {
          (ob, _) \<leftarrow> mm_jpeg_session_port_enable e k 1 False ob;
          let (ob, ret) = try_all (map (use_output e k p) [0..<unat (dp_num_dst_bufs p)]) ob;
          if ret \<noteq> OMX_ErrorNone then Some (ob, ret)
          else do {
            ob \<leftarrow> wait_event e k ob;
            Some (if js_event (sess k ob) \<noteq> OMX_EventCmdComplete then (ob, OMX_ErrorNone)
                  else with_buf dst (omx_sess e None k (Fill_this_buffer dst)) ob)
          }
        }
      })"

definition decode_input :: "jpeg_env \<Rightarrow> slot \<Rightarrow> jpeg_obj \<Rightarrow> (jpeg_obj \<times> omx_error) option" where
  "decode_input e k ob =
     (let ob = upd_sess k (\<lambda>s. s\<lparr>js_encoding := True\<rparr>) ob; src = unat (jd_src_index (js_decode_job (sess k ob))) in
      if abort_state (sess k ob) = MM_JPEG_ABORT_INIT then Some (ob, OMX_ErrorNone)
      else
        (let (ob, ret) = with_buf src (omx_sess e None k (Empty_this_buffer 0 src)) (upd_sess k (\<lambda>s. s\<lparr>event_pending := True\<rparr>) ob) in
         if ret \<noteq> OMX_ErrorNone then Some (ob, ret)
         else do {
           ob \<leftarrow> wait_event e k ob;
           if js_event (sess k ob) \<noteq> OMX_EventPortSettingsChanged then Some (ob, OMX_ErrorNone) else decode_output e k ob
         }))"

definition mm_jpegdec_session_decode :: "jpeg_env \<Rightarrow> slot \<Rightarrow> jpeg_obj \<Rightarrow> (jpeg_obj \<times> omx_error) option" where
  "mm_jpegdec_session_decode e k ob = do {
     (ob, ret) \<leftarrow> configure_once (mm_jpegdec_session_configure e k) k
       (upd_sess k (\<lambda>s. s\<lparr>abort_state := MM_JPEG_ABORT_NONE, js_encoding := False\<rparr>) ob);
     if ret \<noteq> OMX_ErrorNone then Some (ob, ret) else decode_input e k ob
   }"

definition mm_jpegdec_process_decoding_job :: "jpeg_env \<Rightarrow> mm_jpeg_decode_job \<Rightarrow> u32 \<Rightarrow> u32 \<Rightarrow> jpeg_obj \<Rightarrow> (jpeg_obj \<times> i32) option" where
  "mm_jpegdec_process_decoding_job e j i c ob = (case mm_jpeg_get_session i of
     None \<Rightarrow> Some (ob, -1)
   | Some k \<Rightarrow>
       (let (ob, ok) = jpeg_malloc e ob in
        if \<not> ok then Some (job_failed k OMX_ErrorNone ob, -1)
        else
          (let ob = ob\<lparr>ongoing_job_q := ongoing_job_q ob @ [Decode_node j i c]\<rparr>;
               ob = upd_sess k (\<lambda>s. s\<lparr>js_decode_job := j, js_jobId := i\<rparr>) ob in do {
             (ob, ret) \<leftarrow> mm_jpegdec_session_decode e k ob;
             Some (if ret \<noteq> OMX_ErrorNone then job_failed k ret ob else ob, 0)
           })))"

end
