(* ===== verification/JpegObj.thy ===== *)
theory JpegObj
  imports JpegDec
begin

text \<open>
  The objects of \<^verbatim>\<open>mm_jpeg.c\<close> and \<^verbatim>\<open>mm_jpegdec.c\<close>: their clients and sessions, the jobs that clients start and abort, and
  the job manager thread that hands one job after the other to a component.  An operation of an object runs under the
  lock of the interface, the work of the thread under \<^verbatim>\<open>job_lock\<close>.
\<close>

section \<open>The job manager\<close>

text \<open>One turn of the thread, from the semaphore back to it.  A node that is no job stops it.\<close>

definition mm_jpeg_jobmgr_turn :: "jpeg_env \<Rightarrow> jpeg_obj \<Rightarrow> jpeg_obj option" where
  "mm_jpeg_jobmgr_turn e ob =
     (let ob = ob\<lparr>job_sem := job_sem ob - 1\<rparr> in
      if NUM_MAX_JPEG_CNCURRENT_JOBS \<le> length (ongoing_job_q ob) then Some ob
      else (case job_queue ob of
        [] \<Rightarrow> Some ob
      | n # q \<Rightarrow>
          (let ob = ob\<lparr>job_queue := q\<rparr> in
           case n of
             Encode_node j i c \<Rightarrow> map_option fst (mm_jpeg_process_encoding_job e j i c ob)
           | Decode_node j i c \<Rightarrow> map_option fst (mm_jpegdec_process_decoding_job e j i c ob)
           | Exit_node \<Rightarrow> Some (ob\<lparr>jm_running := False\<rparr>))))"

text \<open>\<^verbatim>\<open>pthread_join\<close>: the thread runs until it stops.  Where it waits for the semaphore callbacks may run; a thread that
  nobody wakes is waited for for ever.\<close>

partial_function (option) jobmgr_join :: "jpeg_env \<Rightarrow> jpeg_obj \<Rightarrow> jpeg_obj option" where
  "jobmgr_join e ob =
     (if \<not> jm_running ob then Some ob
      else
        (let ob = callbacks_after e None (jpeg_call Sem_wait ob) in
         if job_sem ob = 0 then None else do { ob \<leftarrow> mm_jpeg_jobmgr_turn e ob; jobmgr_join e ob }))"

definition mm_jpeg_jobmgr_thread_launch :: "jpeg_obj \<Rightarrow> jpeg_obj" where
  "mm_jpeg_jobmgr_thread_launch ob = ob\<lparr>job_sem := 0, job_queue := [], jm_running := True\<rparr>"

text \<open>Flushing a queue reads an entry after freeing it, which \<^verbatim>\<open>CamQueue\<close> shows, unless the queue is empty.\<close>

definition deinit_ongoing :: "jpeg_obj \<Rightarrow> jpeg_obj" where
  "deinit_ongoing ob = (require (ongoing_job_q ob = []) ob)\<lparr>ongoing_job_q := []\<rparr>"

definition mm_jpeg_jobmgr_thread_release :: "jpeg_env \<Rightarrow> jpeg_obj \<Rightarrow> (jpeg_obj \<times> i32) option" where
  "mm_jpeg_jobmgr_thread_release e ob =
     (let (ob, ok) = jpeg_malloc e ob in
      if \<not> ok then Some (ob, -1)
      else
        (let (ob, ok) = jpeg_malloc e ob;
             ob = (if ok then ob\<lparr>job_queue := job_queue ob @ [Exit_node]\<rparr> else ob);
             ob = ob\<lparr>job_sem := job_sem ob + 1\<rparr> in do {
           ob \<leftarrow> jobmgr_join e ob;
           Some ((require (job_queue ob = []) ob)\<lparr>job_queue := [], job_sem := 0\<rparr>, 0)
         }))"

section \<open>Initialization\<close>

definition call_ok :: "jpeg_env \<Rightarrow> jpeg_call \<Rightarrow> jpeg_obj \<Rightarrow> jpeg_obj \<times> bool" where
  "call_ok e c ob = (jpeg_call c ob, je_ret e (j_trace ob) c = OMX_ErrorNone)"

text \<open>That \<^verbatim>\<open>OMX_Init\<close> failed is not reported, although everything is undone.\<close>

definition mm_jpeg_init :: "jpeg_env \<Rightarrow> jpeg_obj \<Rightarrow> (jpeg_obj \<times> i32) option" where
  "mm_jpeg_init e ob =
     (let ob = mm_jpeg_jobmgr_thread_launch (ob\<lparr>ongoing_job_q := []\<rparr>);
          (ob, ok) = call_ok e Alloc_ion ob in
      if \<not> ok then do { (ob, _) \<leftarrow> mm_jpeg_jobmgr_thread_release e ob; Some (deinit_ongoing ob, -1) }
      else
        (let (ob, ok) = call_ok e Omx_init ob in
         if \<not> ok then do { (ob, _) \<leftarrow> mm_jpeg_jobmgr_thread_release e (jpeg_call Dealloc_ion ob); Some (deinit_ongoing ob, 0) }
         else Some (ob, 0)))"

text \<open>The result is that of releasing the buffer, or that of the queue, which is zero.\<close>

definition mm_jpeg_deinit :: "jpeg_env \<Rightarrow> jpeg_obj \<Rightarrow> (jpeg_obj \<times> i32) option" where
  "mm_jpeg_deinit e ob = do {
     (ob, _) \<leftarrow> mm_jpeg_jobmgr_thread_release e ob;
     let ob = deinit_ongoing (jpeg_call Omx_deinit ob);
     let (ob, ok) = call_ok e Dealloc_ion ob;
     Some (ob, if ok then 0 else -1)
   }"

definition mm_jpegdec_init :: "jpeg_env \<Rightarrow> jpeg_obj \<Rightarrow> (jpeg_obj \<times> i32) option" where
  "mm_jpegdec_init e ob =
     (let ob = mm_jpeg_jobmgr_thread_launch (ob\<lparr>ongoing_job_q := []\<rparr>);
          (ob, ok) = call_ok e Omx_init ob in
      if \<not> ok then do { (ob, _) \<leftarrow> mm_jpeg_jobmgr_thread_release e ob; Some (deinit_ongoing ob, 0) }
      else Some (ob, 0))"

definition mm_jpegdec_deinit :: "jpeg_env \<Rightarrow> jpeg_obj \<Rightarrow> (jpeg_obj \<times> i32) option" where
  "mm_jpegdec_deinit e ob = do {
     (ob, _) \<leftarrow> mm_jpeg_jobmgr_thread_release e ob;
     Some (deinit_ongoing (jpeg_call Omx_deinit ob), 0)
   }"

section \<open>Clients\<close>

definition dim_zero :: mm_jpeg_dim where
  "dim_zero = \<lparr>jd_src = \<lparr>dim_width = 0, dim_height = 0\<rparr>, jd_dst = \<lparr>dim_width = 0, dim_height = 0\<rparr>, jd_crop = rect_zero\<rparr>"

definition buf_zero :: mm_jpeg_buf where
  "buf_zero = \<lparr>jb_size = 0, jb_fd = 0, jb_mp = (\<lambda>_. plane 0 0 0 0 0 0 0 0)\<rparr>"

definition jpeg_session_zero :: jpeg_session where
  "jpeg_session_zero = \<lparr>js_client_hdl = 0, js_jobId = 0, js_sessionId = 0,
     js_params = \<lparr>num_src_bufs = 0, num_tmb_bufs = 0, num_dst_bufs = 0, encode_thumbnail = False, src_main_buf = (\<lambda>_. buf_zero),
       src_thumb_buf = (\<lambda>_. buf_zero), dest_buf = (\<lambda>_. buf_zero), color_format = MM_JPEG_COLOR_FORMAT_YCRCBLP_H2V2,
       thumb_color_format = MM_JPEG_COLOR_FORMAT_YCRCBLP_H2V2, jp_quality = 0, has_jpeg_cb = False\<rparr>,
     js_dec_params = \<lparr>dp_num_src_bufs = 0, dp_num_dst_bufs = 0, dp_src_main_buf = (\<lambda>_. buf_zero), dp_dest_buf = (\<lambda>_. buf_zero),
       dp_color_format = MM_JPEG_COLOR_FORMAT_YCRCBLP_H2V2, dp_has_jpeg_cb = False\<rparr>,
     js_encode_job = \<lparr>je_src_index = 0, je_dst_index = 0, je_thumb_index = 0, je_thumb_dim = dim_zero, je_rotation = 0,
       je_main_dim = dim_zero, je_session_id = 0, je_metadata = False, je_exif = 0\<rparr>,
     js_decode_job = \<lparr>jd_src_index = 0, jd_dst_index = 0, jd_main_dim = dim_zero, jd_session_id = 0\<rparr>,
     js_obj = False, js_job_status = JPEG_JOB_STATUS_DONE, state_change_pending = False, error_flag = OMX_ErrorNone,
     abort_state = MM_JPEG_ABORT_NONE, omx_handle = 0, exif_count_local = 0, ebd_count = 0, fbd_count = 0, js_active = False,
     js_config = False, job_hist = 0, js_encoding = False, js_event = OMX_EventCmdComplete, event_pending = False\<rparr>"

definition jpeg_client_zero :: jpeg_client where
  "jpeg_client_zero = \<lparr>jc_is_used = False, jc_handle = 0, jc_session = replicate MM_JPEG_MAX_SESSION jpeg_session_zero\<rparr>"

definition mm_jpeg_new_client :: "u16 \<Rightarrow> jpeg_obj \<Rightarrow> u16 \<times> jpeg_obj \<times> u32" where
  "mm_jpeg_new_client cnt ob =
     (if of_nat MAX_JPEG_CLIENT_NUM \<le>s num_clients ob then (cnt, ob, 0)
      else (case filter (\<lambda>i. \<not> jc_is_used (clnt_mgr ob ! i)) [0..<MAX_JPEG_CLIENT_NUM] of
        [] \<Rightarrow> (cnt, ob, 0)
      | idx # _ \<Rightarrow>
          (let (cnt, client_hdl) = mm_jpeg_util_generate_handler cnt (of_nat idx) in
           (cnt, ob\<lparr>clnt_mgr := (clnt_mgr ob)[idx := jpeg_client_zero\<lparr>jc_is_used := True, jc_handle := client_hdl\<rparr>],
                    num_clients := num_clients ob + 1\<rparr>, client_hdl))))"

section \<open>Jobs\<close>

text \<open>A checked job becomes an entry of the queue.  Its identifier is given out, and the history counted, even if the entry
  cannot be linked.\<close>

definition submit_job :: "jpeg_env \<Rightarrow> slot \<Rightarrow> u32 \<Rightarrow> (u32 \<Rightarrow> u32 \<Rightarrow> jpeg_node) \<Rightarrow> jpeg_obj \<Rightarrow> jpeg_obj \<times> i32 \<times> u32" where
  "submit_job e k session_id node ob =
     (let (ob, ok) = jpeg_malloc e ob in
      if \<not> ok then (ob, -1, 0)
      else
        (let job_id = job_id_of session_id (job_hist (sess k ob));
             ob = upd_sess k (\<lambda>s. s\<lparr>job_hist := job_hist s + 1\<rparr>) ob;
             (ob, ok) = jpeg_malloc e ob in
         if \<not> ok then (ob, -1, job_id)
         else (ob\<lparr>job_queue := job_queue ob @ [node job_id (js_client_hdl (sess k ob))], job_sem := job_sem ob + 1\<rparr>, 0, job_id)))"

definition mm_jpeg_start_job :: "jpeg_env \<Rightarrow> mm_jpeg_encode_job \<Rightarrow> jpeg_obj \<Rightarrow> jpeg_obj \<times> i32 \<times> u32" where
  "mm_jpeg_start_job e job ob =
     (case mm_jpeg_get_session (je_session_id job) of
        None \<Rightarrow> (ob, -1, 0)
      | Some k \<Rightarrow>
          (let s = sess k ob in
           if \<not> js_active s then (ob, -1, 0)
           else if je_src_index job \<ge> num_src_bufs (js_params s) \<or> je_dst_index job \<ge> num_dst_bufs (js_params s) then (ob, -1, 0)
           else submit_job e k (je_session_id job) (Encode_node job) ob))"

definition mm_jpegdec_start_decode_job :: "jpeg_env \<Rightarrow> mm_jpeg_decode_job \<Rightarrow> jpeg_obj \<Rightarrow> jpeg_obj \<times> i32 \<times> u32" where
  "mm_jpegdec_start_decode_job e job ob =
     (case mm_jpeg_get_session (jd_session_id job) of
        None \<Rightarrow> (ob, -1, 0)
      | Some k \<Rightarrow>
          (let s = sess k ob in
           if \<not> js_active s then (ob, -1, 0)
           else if jd_src_index job \<ge> dp_num_src_bufs (js_dec_params s) \<or> jd_dst_index job \<ge> dp_num_dst_bufs (js_dec_params s)
             then (ob, -1, 0)
           else submit_job e k (jd_session_id job) (Decode_node job) ob))"

text \<open>The result is a failure whatever was found.  \<^verbatim>\<open>mm_jpegdec_abort_job\<close> is the same function.\<close>

definition mm_jpeg_abort_job :: "jpeg_env \<Rightarrow> u32 \<Rightarrow> jpeg_obj \<Rightarrow> (jpeg_obj \<times> i32) option" where
  "mm_jpeg_abort_job e jobId ob =
     (case mm_jpeg_queue_remove_job_by_job_id jobId (job_queue ob) of
        (Some _, q) \<Rightarrow> Some (ob\<lparr>job_queue := q\<rparr>, -1)
      | (None, _) \<Rightarrow> (case mm_jpeg_queue_remove_job_by_job_id jobId (ongoing_job_q ob) of
          (None, _) \<Rightarrow> Some (ob, -1)
        | (Some n, q) \<Rightarrow>
            (let ob = ob\<lparr>ongoing_job_q := q\<rparr> in
             case mm_jpeg_get_session (node_job_id n) of
               None \<Rightarrow> Some (ob, -1)
             | Some k \<Rightarrow> map_option (\<lambda>r. (fst r, -1)) (mm_jpeg_session_abort e k ob))))"

section \<open>Sessions\<close>

text \<open>Whatever goes wrong, the result is success; then the session is 0.\<close>

definition mm_jpeg_create_session :: "jpeg_env \<Rightarrow> u32 \<Rightarrow> mm_jpeg_encode_params \<Rightarrow> jpeg_obj \<Rightarrow> jpeg_obj \<times> i32 \<times> u32" where
  "mm_jpeg_create_session e client_hdl p ob =
     (let clnt_idx = unat (mm_jpeg_util_get_index_by_handler client_hdl) in
      if unat (num_src_bufs p) > MM_JPEG_MAX_BUF \<or> unat (num_dst_bufs p) > MM_JPEG_MAX_BUF then (ob, 0, 0)
      else if clnt_idx \<ge> MAX_JPEG_CLIENT_NUM then (ob, 0, 0)
      else (case mm_jpeg_get_new_session_idx clnt_idx ob of
        (ob, None) \<Rightarrow> (ob, 0, 0)
      | (ob, Some k) \<Rightarrow>
          (let (ob, ret) = mm_jpeg_session_create e k ob in
           if ret \<noteq> OMX_ErrorNone then (upd_sess k (\<lambda>s. s\<lparr>js_active := False\<rparr>) ob, 0, 0)
           else (upd_sess k (\<lambda>s. s\<lparr>js_params := p, js_client_hdl := client_hdl, js_sessionId := session_id_of k, js_obj := True\<rparr>) ob,
                 0, session_id_of k))))"

definition mm_jpegdec_create_session :: "jpeg_env \<Rightarrow> u32 \<Rightarrow> mm_jpeg_decode_params \<Rightarrow> jpeg_obj \<Rightarrow> jpeg_obj \<times> i32 \<times> u32" where
  "mm_jpegdec_create_session e client_hdl p ob =
     (let clnt_idx = unat (mm_jpeg_util_get_index_by_handler client_hdl) in
      if unat (dp_num_src_bufs p) > MM_JPEG_MAX_BUF \<or> unat (dp_num_dst_bufs p) > MM_JPEG_MAX_BUF then (ob, 0, 0)
      else if clnt_idx \<ge> MAX_JPEG_CLIENT_NUM then (ob, 0, 0)
      else (case mm_jpeg_get_new_session_idx clnt_idx ob of
        (ob, None) \<Rightarrow> (ob, 0, 0)
      | (ob, Some k) \<Rightarrow>
          (let (ob, ret) = mm_jpegdec_session_create e k ob in
           if ret \<noteq> OMX_ErrorNone then (upd_sess k (\<lambda>s. s\<lparr>js_active := False\<rparr>) ob, 0, 0)
           else (upd_sess k (\<lambda>s. s\<lparr>js_dec_params := p, js_client_hdl := client_hdl, js_sessionId := session_id_of k, js_obj := True\<rparr>) ob,
                 0, session_id_of k))))"

text \<open>The jobs of a session leave both queues.\<close>

definition drop_jobs :: "u32 \<Rightarrow> jpeg_obj \<Rightarrow> jpeg_obj" where
  "drop_jobs i ob = ob\<lparr>job_queue := remove_session_jobs i (job_queue ob), ongoing_job_q := remove_session_jobs i (ongoing_job_q ob)\<rparr>"

definition mm_jpeg_destroy_session :: "jpeg_env \<Rightarrow> slot option \<Rightarrow> jpeg_obj \<Rightarrow> (jpeg_obj \<times> i32) option" where
  "mm_jpeg_destroy_session e k ob = (case k of
     None \<Rightarrow> Some (ob, 0)
   | Some k \<Rightarrow>
       (let session_id = js_sessionId (sess k ob) in do {
          (ob, _) \<leftarrow> mm_jpeg_session_abort e k (drop_jobs session_id ob);
          ob \<leftarrow> mm_jpeg_session_destroy e k ob;
          let ob = mm_jpeg_remove_session_idx session_id ob;
          Some (ob\<lparr>job_sem := job_sem ob + 1\<rparr>, 0)
        }))"

text \<open>The session is not destroyed, and nobody is woken.\<close>

definition mm_jpeg_destroy_session_unlocked :: "jpeg_env \<Rightarrow> slot \<Rightarrow> jpeg_obj \<Rightarrow> jpeg_obj option" where
  "mm_jpeg_destroy_session_unlocked e k ob =
     (let session_id = js_sessionId (sess k ob) in do {
        (ob, _) \<leftarrow> mm_jpeg_session_abort e k (drop_jobs session_id ob);
        Some (mm_jpeg_remove_session_idx session_id ob)
      })"

definition mm_jpeg_destroy_session_by_id :: "jpeg_env \<Rightarrow> u32 \<Rightarrow> jpeg_obj \<Rightarrow> (jpeg_obj \<times> i32) option" where
  "mm_jpeg_destroy_session_by_id e session_id = mm_jpeg_destroy_session e (mm_jpeg_get_session session_id)"

text \<open>The identifier is read before the pointer is looked at.\<close>

definition mm_jpegdec_destroy_session :: "jpeg_env \<Rightarrow> slot option \<Rightarrow> jpeg_obj \<Rightarrow> (jpeg_obj \<times> i32) option" where
  "mm_jpegdec_destroy_session e k ob = (case k of
     None \<Rightarrow> Some (require False ob, 0)
   | Some k \<Rightarrow>
       (let session_id = js_sessionId (sess k ob) in do {
          (ob, _) \<leftarrow> mm_jpeg_session_abort e k (drop_jobs session_id ob);
          ob \<leftarrow> mm_jpegdec_session_destroy e k ob;
          let ob = mm_jpeg_remove_session_idx session_id ob;
          Some (ob\<lparr>job_sem := job_sem ob + 1\<rparr>, 0)
        }))"

definition mm_jpegdec_destroy_session_by_id :: "jpeg_env \<Rightarrow> u32 \<Rightarrow> jpeg_obj \<Rightarrow> (jpeg_obj \<times> i32) option" where
  "mm_jpegdec_destroy_session_by_id e session_id = mm_jpegdec_destroy_session e (mm_jpeg_get_session session_id)"

text \<open>Closing a client looks at nothing but the index in its handle.\<close>

fun close_sessions :: "jpeg_env \<Rightarrow> nat \<Rightarrow> nat list \<Rightarrow> jpeg_obj \<Rightarrow> jpeg_obj option" where
  "close_sessions e c [] ob = Some ob"
| "close_sessions e c (i # is) ob = do {
     ob \<leftarrow> (if js_active (sess (c, i) ob) then mm_jpeg_destroy_session_unlocked e (c, i) ob else Some ob);
     close_sessions e c is ob
   }"

definition mm_jpeg_close :: "jpeg_env \<Rightarrow> u32 \<Rightarrow> jpeg_obj \<Rightarrow> (jpeg_obj \<times> i32) option" where
  "mm_jpeg_close e client_hdl ob =
     (let clnt_idx = unat (mm_jpeg_util_get_index_by_handler client_hdl) in
      if clnt_idx \<ge> MAX_JPEG_CLIENT_NUM then Some (ob, -1)
      else do {
        ob \<leftarrow> close_sessions e clnt_idx [0..<MM_JPEG_MAX_SESSION] ob;
        Some (ob\<lparr>clnt_mgr := (clnt_mgr ob)[clnt_idx := jpeg_client_zero]\<rparr>, 0)
      })"

end
