(* ===== verification/JpegIntf.thy ===== *)
theory JpegIntf
  imports JpegObj
begin

text \<open>
  \<^verbatim>\<open>mm_jpeg_interface.c\<close> and \<^verbatim>\<open>mm_jpegdec_interface.c\<close>: the functions the camera HAL gets from \<^verbatim>\<open>jpeg_open\<close> and
  \<^verbatim>\<open>jpegdec_open\<close>.  There is one object for all clients of the encoder and one for those of the decoder, made for the
  first client and given up with the last; every function runs under the lock of its interface.
\<close>

record jpeg_lib =
  g_handler_history_count :: u16
  g_jpeg_obj :: "jpeg_obj option"
  g_jpegdec_obj :: "jpeg_obj option"

definition jpeg_lib_start :: jpeg_lib where
  "jpeg_lib_start = \<lparr>g_handler_history_count = 0, g_jpeg_obj = None, g_jpegdec_obj = None\<rparr>"

text \<open>The memory of a new object is cleared.\<close>

definition jpeg_obj_zero :: "bool \<Rightarrow> jpeg_obj" where
  "jpeg_obj_zero dec = \<lparr>j_decoder = dec, num_clients = 0, clnt_mgr = replicate MAX_JPEG_CLIENT_NUM jpeg_client_zero, job_queue = [],
     job_sem = 0, jm_running = False, ongoing_job_q = [], j_live = {}, j_next = 1, j_bad = False, j_trace = []\<rparr>"

section \<open>The encoder\<close>

text \<open>A null pointer among the arguments is \<^verbatim>\<open>None\<close>.\<close>

definition mm_jpeg_intf_start_job :: "jpeg_env \<Rightarrow> mm_jpeg_encode_job option \<Rightarrow> jpeg_lib \<Rightarrow> jpeg_lib \<times> i32 \<times> u32" where
  "mm_jpeg_intf_start_job e job l = (case job of
     None \<Rightarrow> (l, -1, 0)
   | Some j \<Rightarrow> (case g_jpeg_obj l of
       None \<Rightarrow> (l, -1, 0)
     | Some ob \<Rightarrow> (let (ob, r) = mm_jpeg_start_job e j ob in (l\<lparr>g_jpeg_obj := Some ob\<rparr>, r))))"

definition mm_jpeg_intf_create_session :: "jpeg_env \<Rightarrow> u32 \<Rightarrow> mm_jpeg_encode_params option \<Rightarrow> jpeg_lib \<Rightarrow> jpeg_lib \<times> i32 \<times> u32" where
  "mm_jpeg_intf_create_session e client_hdl p l =
     (if client_hdl = 0 then (l, -1, 0)
      else (case p of
        None \<Rightarrow> (l, -1, 0)
      | Some p \<Rightarrow> (case g_jpeg_obj l of
          None \<Rightarrow> (l, -1, 0)
        | Some ob \<Rightarrow> (let (ob, r) = mm_jpeg_create_session e client_hdl p ob in (l\<lparr>g_jpeg_obj := Some ob\<rparr>, r)))))"

definition mm_jpeg_intf_destroy_session :: "jpeg_env \<Rightarrow> u32 \<Rightarrow> jpeg_lib \<Rightarrow> (jpeg_lib \<times> i32) option" where
  "mm_jpeg_intf_destroy_session e session_id l =
     (if session_id = 0 then Some (l, -1)
      else (case g_jpeg_obj l of
        None \<Rightarrow> Some (l, -1)
      | Some ob \<Rightarrow> map_option (\<lambda>(ob, r). (l\<lparr>g_jpeg_obj := Some ob\<rparr>, r)) (mm_jpeg_destroy_session_by_id e session_id ob)))"

definition mm_jpeg_intf_abort_job :: "jpeg_env \<Rightarrow> u32 \<Rightarrow> jpeg_lib \<Rightarrow> (jpeg_lib \<times> i32) option" where
  "mm_jpeg_intf_abort_job e job_id l =
     (if job_id = 0 then Some (l, -1)
      else (case g_jpeg_obj l of
        None \<Rightarrow> Some (l, -1)
      | Some ob \<Rightarrow> map_option (\<lambda>(ob, r). (l\<lparr>g_jpeg_obj := Some ob\<rparr>, r)) (mm_jpeg_abort_job e job_id ob)))"

text \<open>The client is counted out even if it could not be closed.\<close>

definition mm_jpeg_intf_close :: "jpeg_env \<Rightarrow> u32 \<Rightarrow> jpeg_lib \<Rightarrow> (jpeg_lib \<times> i32) option" where
  "mm_jpeg_intf_close e client_hdl l =
     (if client_hdl = 0 then Some (l, -1)
      else (case g_jpeg_obj l of
        None \<Rightarrow> Some (l, -1)
      | Some ob \<Rightarrow> do {
          (ob, rc) \<leftarrow> mm_jpeg_close e client_hdl ob;
          let ob = ob\<lparr>num_clients := num_clients ob - 1\<rparr>;
          if rc = 0 \<and> num_clients ob = 0
          then map_option (\<lambda>(_, rc). (l\<lparr>g_jpeg_obj := None\<rparr>, rc)) (mm_jpeg_deinit e ob)
          else Some (l\<lparr>g_jpeg_obj := Some ob\<rparr>, rc)
        }))"

text \<open>The first client finds no object; \<^verbatim>\<open>got\<close> says whether there is memory for one.\<close>

definition jpeg_object :: "jpeg_env \<Rightarrow> bool \<Rightarrow> jpeg_lib \<Rightarrow> jpeg_obj option option" where
  "jpeg_object e got l = (case g_jpeg_obj l of
     Some ob \<Rightarrow> Some (Some ob)
   | None \<Rightarrow>
       if \<not> got then Some None
       else map_option (\<lambda>(ob, rc). if rc \<noteq> 0 then None else Some ob) (mm_jpeg_init e (jpeg_obj_zero False)))"

definition jpeg_open :: "jpeg_env \<Rightarrow> bool \<Rightarrow> jpeg_lib \<Rightarrow> (jpeg_lib \<times> u32) option" where
  "jpeg_open e got l = do {
     ob \<leftarrow> jpeg_object e got l;
     case ob of
       None \<Rightarrow> Some (l, 0)
     | Some ob \<Rightarrow>
         (let (cnt, ob, clnt_hdl) = mm_jpeg_new_client (g_handler_history_count l) ob;
              l = l\<lparr>g_handler_history_count := cnt, g_jpeg_obj := Some ob\<rparr> in
          if 0 < clnt_hdl then Some (l, clnt_hdl)
          else if num_clients ob = 0 then map_option (\<lambda>_. (l\<lparr>g_jpeg_obj := None\<rparr>, clnt_hdl)) (mm_jpeg_deinit e ob)
          else Some (l, clnt_hdl))
   }"

section \<open>The decoder\<close>

definition mm_jpegdec_intf_start_job :: "jpeg_env \<Rightarrow> mm_jpeg_decode_job option \<Rightarrow> jpeg_lib \<Rightarrow> jpeg_lib \<times> i32 \<times> u32" where
  "mm_jpegdec_intf_start_job e job l = (case job of
     None \<Rightarrow> (l, -1, 0)
   | Some j \<Rightarrow> (case g_jpegdec_obj l of
       None \<Rightarrow> (l, -1, 0)
     | Some ob \<Rightarrow> (let (ob, r) = mm_jpegdec_start_decode_job e j ob in (l\<lparr>g_jpegdec_obj := Some ob\<rparr>, r))))"

definition mm_jpegdec_intf_create_session :: "jpeg_env \<Rightarrow> u32 \<Rightarrow> mm_jpeg_decode_params option \<Rightarrow> jpeg_lib \<Rightarrow> jpeg_lib \<times> i32 \<times> u32" where
  "mm_jpegdec_intf_create_session e client_hdl p l =
     (if client_hdl = 0 then (l, -1, 0)
      else (case p of
        None \<Rightarrow> (l, -1, 0)
      | Some p \<Rightarrow> (case g_jpegdec_obj l of
          None \<Rightarrow> (l, -1, 0)
        | Some ob \<Rightarrow> (let (ob, r) = mm_jpegdec_create_session e client_hdl p ob in (l\<lparr>g_jpegdec_obj := Some ob\<rparr>, r)))))"

definition mm_jpegdec_intf_destroy_session :: "jpeg_env \<Rightarrow> u32 \<Rightarrow> jpeg_lib \<Rightarrow> (jpeg_lib \<times> i32) option" where
  "mm_jpegdec_intf_destroy_session e session_id l =
     (if session_id = 0 then Some (l, -1)
      else (case g_jpegdec_obj l of
        None \<Rightarrow> Some (l, -1)
      | Some ob \<Rightarrow> map_option (\<lambda>(ob, r). (l\<lparr>g_jpegdec_obj := Some ob\<rparr>, r)) (mm_jpegdec_destroy_session_by_id e session_id ob)))"

definition mm_jpegdec_intf_abort_job :: "jpeg_env \<Rightarrow> u32 \<Rightarrow> jpeg_lib \<Rightarrow> (jpeg_lib \<times> i32) option" where
  "mm_jpegdec_intf_abort_job e job_id l =
     (if job_id = 0 then Some (l, -1)
      else (case g_jpegdec_obj l of
        None \<Rightarrow> Some (l, -1)
      | Some ob \<Rightarrow> map_option (\<lambda>(ob, r). (l\<lparr>g_jpegdec_obj := Some ob\<rparr>, r)) (mm_jpeg_abort_job e job_id ob)))"

definition mm_jpegdec_intf_close :: "jpeg_env \<Rightarrow> u32 \<Rightarrow> jpeg_lib \<Rightarrow> (jpeg_lib \<times> i32) option" where
  "mm_jpegdec_intf_close e client_hdl l =
     (if client_hdl = 0 then Some (l, -1)
      else (case g_jpegdec_obj l of
        None \<Rightarrow> Some (l, -1)
      | Some ob \<Rightarrow> do {
          (ob, rc) \<leftarrow> mm_jpeg_close e client_hdl ob;
          let ob = ob\<lparr>num_clients := num_clients ob - 1\<rparr>;
          if rc = 0 \<and> num_clients ob = 0
          then map_option (\<lambda>(_, rc). (l\<lparr>g_jpegdec_obj := None\<rparr>, rc)) (mm_jpegdec_deinit e ob)
          else Some (l\<lparr>g_jpegdec_obj := Some ob\<rparr>, rc)
        }))"

definition jpegdec_object :: "jpeg_env \<Rightarrow> bool \<Rightarrow> jpeg_lib \<Rightarrow> jpeg_obj option option" where
  "jpegdec_object e got l = (case g_jpegdec_obj l of
     Some ob \<Rightarrow> Some (Some ob)
   | None \<Rightarrow>
       if \<not> got then Some None
       else map_option (\<lambda>(ob, rc). if rc \<noteq> 0 then None else Some ob) (mm_jpegdec_init e (jpeg_obj_zero True)))"

definition jpegdec_open :: "jpeg_env \<Rightarrow> bool \<Rightarrow> jpeg_lib \<Rightarrow> (jpeg_lib \<times> u32) option" where
  "jpegdec_open e got l = do {
     ob \<leftarrow> jpegdec_object e got l;
     case ob of
       None \<Rightarrow> Some (l, 0)
     | Some ob \<Rightarrow>
         (let (cnt, ob, clnt_hdl) = mm_jpeg_new_client (g_handler_history_count l) ob;
              l = l\<lparr>g_handler_history_count := cnt, g_jpegdec_obj := Some ob\<rparr> in
          if 0 < clnt_hdl then Some (l, clnt_hdl)
          else if num_clients ob = 0 then map_option (\<lambda>_. (l\<lparr>g_jpegdec_obj := None\<rparr>, clnt_hdl)) (mm_jpegdec_deinit e ob)
          else Some (l, clnt_hdl))
   }"

end
