(* ===== verification/JpegOwn.thy ===== *)
theory JpegOwn
  imports JpegIntf
begin

text \<open>
  What the calls of a component and its callbacks leave alone.  \<^verbatim>\<open>quiet\<close> relates two states of an object between which
  only callbacks ran and only fields changed that tell the progress of a session; \<^verbatim>\<open>ready k\<close> is what makes the calls of
  session \<^verbatim>\<open>k\<close> well defined.  Every function of a session is shown to be quiet once, and the invariants of \<^verbatim>\<open>JpegProps\<close>
  rest on that.
\<close>

declare split_paired_All [simp del]

section \<open>Sessions\<close>

definition shape :: "jpeg_obj \<Rightarrow> bool" where
  "shape ob \<longleftrightarrow> length (clnt_mgr ob) = MAX_JPEG_CLIENT_NUM \<and> (\<forall>c \<in> set (clnt_mgr ob). length (jc_session c) = MM_JPEG_MAX_SESSION)"

lemma shape_upd [simp]: "shape (upd_sess k f ob)" if "shape ob"
proof (cases "fst k < length (clnt_mgr ob)")
  case True
  then show ?thesis using that by (auto simp: shape_def upd_sess_def dest!: set_update_subset_insert [THEN subsetD])
next
  case False
  then show ?thesis using that by (simp add: shape_def upd_sess_def list_update_beyond)
qed

lemma sess_upd_same: "shape ob \<Longrightarrow> in_range k \<Longrightarrow> sess k (upd_sess k f ob) = f (sess k ob)"
  by (simp add: shape_def in_range_def upd_sess_def sess_def)

lemma sess_upd_other: "j \<noteq> k \<Longrightarrow> sess j (upd_sess k f ob) = sess j ob"
  by (cases "fst k < length (clnt_mgr ob)"; cases "fst j = fst k") (auto simp: upd_sess_def sess_def prod_eq_iff list_update_beyond)

lemma sess_upd: "shape ob \<Longrightarrow> in_range k \<Longrightarrow> sess j (upd_sess k f ob) = (if j = k then f (sess k ob) else sess j ob)"
  by (simp add: sess_upd_same sess_upd_other)

lemma upd_sess_fields [simp]:
  "j_decoder (upd_sess k f ob) = j_decoder ob" "num_clients (upd_sess k f ob) = num_clients ob"
  "job_queue (upd_sess k f ob) = job_queue ob" "job_sem (upd_sess k f ob) = job_sem ob"
  "jm_running (upd_sess k f ob) = jm_running ob" "ongoing_job_q (upd_sess k f ob) = ongoing_job_q ob"
  "j_live (upd_sess k f ob) = j_live ob" "j_next (upd_sess k f ob) = j_next ob" "j_bad (upd_sess k f ob) = j_bad ob"
  "j_trace (upd_sess k f ob) = j_trace ob"
  by (simp_all add: upd_sess_def)

lemma jpeg_call_fields [simp]:
  "j_decoder (jpeg_call c ob) = j_decoder ob" "num_clients (jpeg_call c ob) = num_clients ob" "clnt_mgr (jpeg_call c ob) = clnt_mgr ob"
  "job_queue (jpeg_call c ob) = job_queue ob" "job_sem (jpeg_call c ob) = job_sem ob"
  "jm_running (jpeg_call c ob) = jm_running ob" "ongoing_job_q (jpeg_call c ob) = ongoing_job_q ob"
  "j_live (jpeg_call c ob) = j_live ob" "j_next (jpeg_call c ob) = j_next ob" "j_bad (jpeg_call c ob) = j_bad ob"
  by (simp_all add: jpeg_call_def)

lemma require_fields [simp]:
  "j_decoder (require b ob) = j_decoder ob" "num_clients (require b ob) = num_clients ob" "clnt_mgr (require b ob) = clnt_mgr ob"
  "job_queue (require b ob) = job_queue ob" "job_sem (require b ob) = job_sem ob"
  "jm_running (require b ob) = jm_running ob" "ongoing_job_q (require b ob) = ongoing_job_q ob"
  "j_live (require b ob) = j_live ob" "j_next (require b ob) = j_next ob" "j_bad (require b ob) = (j_bad ob \<or> \<not> b)"
  "j_trace (require b ob) = j_trace ob"
  by (simp_all add: require_def)

lemma require_True [simp]: "require True ob = ob"
  by (simp add: require_def)

lemma sess_cong: "clnt_mgr ob' = clnt_mgr ob \<Longrightarrow> sess k ob' = sess k ob" "clnt_mgr ob' = clnt_mgr ob \<Longrightarrow> shape ob' = shape ob"
  by (simp_all add: sess_def shape_def)

lemma sess_other_fields [simp]:
  "sess k (jpeg_call c ob) = sess k ob" "sess k (require b ob) = sess k ob" "sess k (ob\<lparr>job_queue := q\<rparr>) = sess k ob"
  "sess k (ob\<lparr>ongoing_job_q := q\<rparr>) = sess k ob" "sess k (ob\<lparr>job_sem := n\<rparr>) = sess k ob" "sess k (ob\<lparr>jm_running := b\<rparr>) = sess k ob"
  "sess k (ob\<lparr>j_live := L\<rparr>) = sess k ob" "sess k (ob\<lparr>j_next := h\<rparr>) = sess k ob" "sess k (ob\<lparr>num_clients := c'\<rparr>) = sess k ob"
  by (rule sess_cong; simp)+

lemma shape_other_fields [simp]:
  "shape (jpeg_call c ob) = shape ob" "shape (require b ob) = shape ob" "shape (ob\<lparr>job_queue := q\<rparr>) = shape ob"
  "shape (ob\<lparr>ongoing_job_q := q\<rparr>) = shape ob" "shape (ob\<lparr>job_sem := n\<rparr>) = shape ob" "shape (ob\<lparr>jm_running := b\<rparr>) = shape ob"
  "shape (ob\<lparr>j_live := L\<rparr>) = shape ob" "shape (ob\<lparr>j_next := h\<rparr>) = shape ob" "shape (ob\<lparr>num_clients := c'\<rparr>) = shape ob"
  by (rule sess_cong; simp)+

section \<open>Quiet changes\<close>

text \<open>What a session keeps: who it belongs to, what it was created with, its component, and the buffers of its jobs.\<close>

definition kept :: "jpeg_session \<Rightarrow> u32 \<times> u32 \<times> u32 \<times> mm_jpeg_encode_params \<times> mm_jpeg_decode_params \<times> bool \<times> addr \<times> bool \<times> i32 \<times>
    (u32 \<times> u32 \<times> u32) \<times> (u32 \<times> u32)" where
  "kept s = (js_client_hdl s, js_jobId s, js_sessionId s, js_params s, js_dec_params s, js_obj s, omx_handle s, js_active s, job_hist s,
     (je_src_index (js_encode_job s), je_dst_index (js_encode_job s), je_thumb_index (js_encode_job s)),
     (jd_src_index (js_decode_job s), jd_dst_index (js_decode_job s)))"

lemma kept_eqD:
  assumes "kept s' = kept s"
  shows "js_client_hdl s' = js_client_hdl s" "js_jobId s' = js_jobId s" "js_sessionId s' = js_sessionId s" "js_params s' = js_params s"
    "js_dec_params s' = js_dec_params s" "js_obj s' = js_obj s" "omx_handle s' = omx_handle s" "js_active s' = js_active s"
    "job_hist s' = job_hist s" "je_src_index (js_encode_job s') = je_src_index (js_encode_job s)"
    "je_dst_index (js_encode_job s') = je_dst_index (js_encode_job s)" "je_thumb_index (js_encode_job s') = je_thumb_index (js_encode_job s)"
    "jd_src_index (js_decode_job s') = jd_src_index (js_decode_job s)" "jd_dst_index (js_decode_job s') = jd_dst_index (js_decode_job s)"
  using assms by (simp_all add: kept_def)

text \<open>A session without an object has no callback and encodes nothing.\<close>

definition idle_unmade :: "jpeg_obj \<Rightarrow> bool" where
  "idle_unmade ob \<longleftrightarrow> (\<forall>k. in_range k \<longrightarrow> \<not> js_obj (sess k ob) \<longrightarrow>
     \<not> has_jpeg_cb (js_params (sess k ob)) \<and> \<not> dp_has_jpeg_cb (js_dec_params (sess k ob)) \<and> \<not> js_encoding (sess k ob))"

lemma idle_unmadeD:
  "idle_unmade ob \<Longrightarrow> in_range k \<Longrightarrow> \<not> js_obj (sess k ob) \<Longrightarrow>
     \<not> has_jpeg_cb (js_params (sess k ob)) \<and> \<not> dp_has_jpeg_cb (js_dec_params (sess k ob)) \<and> \<not> js_encoding (sess k ob)"
  by (simp add: idle_unmade_def)

definition same_owner :: "jpeg_obj \<Rightarrow> jpeg_obj \<Rightarrow> bool" where
  "same_owner ob ob' \<longleftrightarrow> j_decoder ob' = j_decoder ob \<and> num_clients ob' = num_clients ob \<and> job_queue ob' = job_queue ob \<and>
     jm_running ob' = jm_running ob \<and> j_live ob' = j_live ob \<and> j_next ob' = j_next ob \<and>
     (\<forall>c < MAX_JPEG_CLIENT_NUM. jc_is_used (clnt_mgr ob' ! c) = jc_is_used (clnt_mgr ob ! c) \<and> jc_handle (clnt_mgr ob' ! c) = jc_handle (clnt_mgr ob ! c))"

text \<open>A job that leaves the ongoing ones wakes the job manager.\<close>

definition quiet :: "jpeg_obj \<Rightarrow> jpeg_obj \<Rightarrow> bool" where
  "quiet ob ob' \<longleftrightarrow> same_owner ob ob' \<and> shape ob' \<and> idle_unmade ob' \<and> (\<forall>k. in_range k \<longrightarrow> kept (sess k ob') = kept (sess k ob)) \<and>
     j_bad ob' = j_bad ob \<and> job_sem ob \<le> job_sem ob' \<and> set (ongoing_job_q ob') \<subseteq> set (ongoing_job_q ob) \<and>
     length (ongoing_job_q ob') \<le> length (ongoing_job_q ob) \<and> (ongoing_job_q ob' \<noteq> ongoing_job_q ob \<longrightarrow> 0 < job_sem ob')"

definition sound :: "jpeg_obj \<Rightarrow> bool" where
  "sound ob \<longleftrightarrow> shape ob \<and> idle_unmade ob"

lemma quiet_refl: "sound ob \<Longrightarrow> quiet ob ob"
  by (simp add: quiet_def sound_def same_owner_def)

lemma quiet_sound: "quiet ob ob' \<Longrightarrow> sound ob'"
  by (simp add: quiet_def sound_def)

lemma same_owner_trans: "same_owner a b \<Longrightarrow> same_owner b c \<Longrightarrow> same_owner a c"
  by (simp add: same_owner_def)

lemma quietD:
  assumes "quiet ob ob'"
  shows "same_owner ob ob'" "shape ob'" "idle_unmade ob'" "\<And>k. in_range k \<Longrightarrow> kept (sess k ob') = kept (sess k ob)"
    "j_bad ob' = j_bad ob" "job_sem ob \<le> job_sem ob'" "set (ongoing_job_q ob') \<subseteq> set (ongoing_job_q ob)"
    "length (ongoing_job_q ob') \<le> length (ongoing_job_q ob)" "ongoing_job_q ob' \<noteq> ongoing_job_q ob \<Longrightarrow> 0 < job_sem ob'"
  using assms unfolding quiet_def by (elim conjE; simp)+

lemma quietI:
  assumes "same_owner ob ob'" "shape ob'" "idle_unmade ob'" "\<And>k. in_range k \<Longrightarrow> kept (sess k ob') = kept (sess k ob)"
    "j_bad ob' = j_bad ob" "job_sem ob \<le> job_sem ob'" "set (ongoing_job_q ob') \<subseteq> set (ongoing_job_q ob)"
    "length (ongoing_job_q ob') \<le> length (ongoing_job_q ob)" "ongoing_job_q ob' \<noteq> ongoing_job_q ob \<Longrightarrow> 0 < job_sem ob'"
  shows "quiet ob ob'"
  using assms unfolding quiet_def by simp

lemma quiet_trans:
  assumes "quiet a b" "quiet b c"
  shows "quiet a c"
proof (rule quietI)
  note ab = quietD [OF assms(1)] and bc = quietD [OF assms(2)]
  show "same_owner a c" by (rule same_owner_trans [OF ab(1) bc(1)])
  show "shape c" "idle_unmade c" by (fact bc(2), fact bc(3))
  show "kept (sess k c) = kept (sess k a)" if "in_range k" for k by (rule trans [OF bc(4) [OF that] ab(4) [OF that]])
  show "j_bad c = j_bad a" by (rule trans [OF bc(5) ab(5)])
  show "job_sem a \<le> job_sem c" by (rule le_trans [OF ab(6) bc(6)])
  show "set (ongoing_job_q c) \<subseteq> set (ongoing_job_q a)" by (rule subset_trans [OF bc(7) ab(7)])
  show "length (ongoing_job_q c) \<le> length (ongoing_job_q a)" by (rule le_trans [OF bc(8) ab(8)])
  show "0 < job_sem c" if "ongoing_job_q c \<noteq> ongoing_job_q a"
  proof (cases "ongoing_job_q c = ongoing_job_q b")
    case True
    then show ?thesis using that ab(9) bc(6) by simp
  next
    case False
    then show ?thesis by (rule bc(9))
  qed
qed

lemma quiet_call: "sound ob \<Longrightarrow> quiet ob (jpeg_call c ob)"
  by (simp add: quiet_def sound_def same_owner_def idle_unmade_def)

lemma clients_upd [simp]:
  "jc_is_used (clnt_mgr (upd_sess k f ob) ! c) = jc_is_used (clnt_mgr ob ! c)" "jc_handle (clnt_mgr (upd_sess k f ob) ! c) = jc_handle (clnt_mgr ob ! c)"
  by (cases "fst k < length (clnt_mgr ob)"; simp add: upd_sess_def nth_list_update list_update_beyond)+

lemma quiet_upd:
  assumes "sound ob" "in_range k" "kept (f (sess k ob)) = kept (sess k ob)" "js_encoding (f (sess k ob)) \<Longrightarrow> js_encoding (sess k ob) \<or> js_obj (sess k ob)"
  shows "quiet ob (upd_sess k f ob)"
proof -
  have s: "shape ob" "idle_unmade ob" using assms(1) by (simp_all add: sound_def)
  have "\<not> has_jpeg_cb (js_params (sess j (upd_sess k f ob))) \<and> \<not> dp_has_jpeg_cb (js_dec_params (sess j (upd_sess k f ob))) \<and>
      \<not> js_encoding (sess j (upd_sess k f ob))" if j: "in_range j" "\<not> js_obj (sess j (upd_sess k f ob))" for j
  proof (cases "j = k")
    case True
    then have "\<not> js_obj (sess k ob)" using j kept_eqD(6) [OF assms(3)] by (simp add: sess_upd s(1) assms(2))
    then show ?thesis using True idle_unmadeD [OF s(2) assms(2)] assms(4) kept_eqD(4,5) [OF assms(3)]
      by (auto simp: sess_upd s(1) assms(2))
  next
    case False
    then show ?thesis using idle_unmadeD [OF s(2) j(1)] j(2) by (simp add: sess_upd_other)
  qed
  then have "idle_unmade (upd_sess k f ob)" unfolding idle_unmade_def by blast
  then show ?thesis using s assms(2,3) by (simp add: quiet_def same_owner_def sess_upd)
qed

lemma sound_other_fields [simp]:
  "sound (jpeg_call c ob) = sound ob" "sound (require b ob) = sound ob" "sound (ob\<lparr>job_queue := q\<rparr>) = sound ob"
  "sound (ob\<lparr>ongoing_job_q := q\<rparr>) = sound ob" "sound (ob\<lparr>job_sem := n\<rparr>) = sound ob" "sound (ob\<lparr>jm_running := b\<rparr>) = sound ob"
  by (simp_all add: sound_def idle_unmade_def)

section \<open>Callbacks are quiet\<close>

lemma quiet_send_status:
  assumes "sound ob" "in_range k"
  shows "quiet ob (send_status k st ob)"
proof -
  have q: "quiet ob (upd_sess k (\<lambda>s. s\<lparr>js_job_status := st\<rparr>) ob)" by (rule quiet_upd [OF assms]) (simp_all add: kept_def)
  show ?thesis unfolding send_status_def Let_def by (rule quiet_trans [OF q quiet_call [OF quiet_sound [OF q]]])
qed

lemma quiet_job_done:
  assumes "sound ob" "in_range k" "js_obj (sess k ob)"
  shows "quiet ob (mm_jpeg_job_done k ob)"
proof -
  let ?q = "snd (mm_jpeg_queue_remove_job_by_job_id (js_jobId (sess k ob)) (ongoing_job_q ob))"
  let ?ob = "ob\<lparr>ongoing_job_q := ?q, job_sem := job_sem ob + 1\<rparr>"
  have len: "length (snd (remove_first P xs)) \<le> length xs" for P and xs :: "jpeg_node list"
    by (induction xs) (auto split: prod.splits)
  have q: "quiet ob ?ob" using assms(1) len remove_first_set
    by (simp add: quiet_def sound_def same_owner_def idle_unmade_def mm_jpeg_queue_remove_job_by_job_id_def)
  have "mm_jpeg_job_done k ob = upd_sess k (\<lambda>s. s\<lparr>js_encoding := False\<rparr>) ?ob"
    using assms(3) by (simp add: mm_jpeg_job_done_def Let_def upd_sess_def sess_def)
  moreover have "quiet ?ob (upd_sess k (\<lambda>s. s\<lparr>js_encoding := False\<rparr>) ?ob)"
    by (rule quiet_upd [OF quiet_sound [OF q] assms(2)]) (simp_all add: kept_def)
  ultimately show ?thesis using q by (metis quiet_trans)
qed

lemma quiet_ebd: "sound ob \<Longrightarrow> in_range k \<Longrightarrow> quiet ob (mm_jpeg_ebd k ob)"
  unfolding mm_jpeg_ebd_def by (rule quiet_upd) (simp_all add: kept_def)

lemma quiet_obj: "quiet ob ob' \<Longrightarrow> in_range k \<Longrightarrow> js_obj (sess k ob') = js_obj (sess k ob)"
  by (rule kept_eqD [OF quietD(4)])

lemma session_cb_obj: "sound ob \<Longrightarrow> in_range k \<Longrightarrow> session_cb k ob \<Longrightarrow> js_obj (sess k ob)"
  using idle_unmadeD [of ob k] by (auto simp: sound_def session_cb_def split: if_splits)

lemma quiet_fbd:
  assumes "sound ob" "in_range k"
  shows "quiet ob (mm_jpeg_fbd k ob)"
proof -
  let ?ob = "upd_sess k (\<lambda>s. s\<lparr>fbd_count := fbd_count s + 1\<rparr>) ob"
  let ?st = "send_status k JPEG_JOB_STATUS_DONE ?ob"
  have q: "quiet ob ?ob" by (rule quiet_upd [OF assms]) (simp_all add: kept_def)
  have "quiet ?ob (mm_jpeg_job_done k ?st)" if cb: "session_cb k ?ob"
  proof -
    have qs: "quiet ?ob ?st" by (rule quiet_send_status [OF quiet_sound [OF q] assms(2)])
    have "js_obj (sess k ?st)" using session_cb_obj [OF quiet_sound [OF q] assms(2) cb] quiet_obj [OF qs assms(2)] by simp
    from quiet_trans [OF qs quiet_job_done [OF quiet_sound [OF qs] assms(2) this]] show ?thesis .
  qed
  then show ?thesis using q quiet_refl [OF assms(1)] by (auto simp: mm_jpeg_fbd_def Let_def intro: quiet_trans)
qed

lemma quiet_event_error:
  assumes "sound ob" "in_range k"
  shows "quiet ob (event_error k ob)"
proof -
  let ?ob = "upd_sess k (\<lambda>s. s\<lparr>error_flag := OMX_ErrorHardware\<rparr>) ob"
  let ?st = "if session_cb k ?ob then send_status k JPEG_JOB_STATUS_ERROR ?ob else ?ob"
  have q: "quiet ob ?ob" by (rule quiet_upd [OF assms]) (simp_all add: kept_def)
  have "quiet ?ob (mm_jpeg_job_done k ?st)" if enc: "js_encoding (sess k ?ob)"
  proof -
    have qs: "quiet ?ob ?st" using quiet_send_status [OF quiet_sound [OF q] assms(2)] quiet_refl [OF quiet_sound [OF q]] by simp
    have "js_obj (sess k ?ob)" using enc idle_unmadeD [OF quietD(3) [OF q] assms(2)] by blast
    then have "js_obj (sess k ?st)" using quiet_obj [OF qs assms(2)] by simp
    from quiet_trans [OF qs quiet_job_done [OF quiet_sound [OF qs] assms(2) this]] show ?thesis .
  qed
  then show ?thesis using q quiet_trans unfolding event_error_def Let_def by simp
qed

lemma quiet_callback:
  assumes "sound ob" "in_range (fst c)"
  shows "quiet ob (fst (component_callback c ob))"
proof -
  obtain k cb where c: "c = (k, cb)" by fastforce
  have k: "in_range k" using assms(2) c by simp
  have ab: "quiet ob (upd_sess k (\<lambda>s. s\<lparr>abort_state := a\<rparr>) ob)" if "sound ob" for a ob by (rule quiet_upd [OF that k]) (simp_all add: kept_def)
  have pd: "quiet ob (upd_sess k (\<lambda>s. s\<lparr>state_change_pending := a\<rparr>) ob)" if "sound ob" for a ob by (rule quiet_upd [OF that k]) (simp_all add: kept_def)
  have pe: "quiet ob (upd_sess k (\<lambda>s. s\<lparr>state_change_pending := a, event_pending := b\<rparr>) ob)" if "sound ob" for a b ob
    by (rule quiet_upd [OF that k]) (simp_all add: kept_def)
  have ev: "quiet ob (upd_sess k (\<lambda>s. s\<lparr>js_event := v\<rparr>) ob)" for v by (rule quiet_upd [OF assms(1) k]) (simp_all add: kept_def)
  show ?thesis
  proof (cases cb)
    case (Event v)
    let ?ob = "upd_sess k (\<lambda>s. s\<lparr>js_event := v\<rparr>) ob"
    have "quiet ob (fst (mm_jpeg_event_handler k v ob))"
      by (cases v) (simp_all add: mm_jpeg_event_handler_def ab pd assms(1) quiet_refl quiet_event_error k)
    moreover have "quiet ?ob (fst (mm_jpegdec_event_handler k v ob))"
      using quiet_sound [OF ev] by (cases v) (simp_all add: mm_jpegdec_event_handler_def Let_def ab pe quiet_refl quiet_event_error k)
    ultimately show ?thesis using quiet_trans [OF ev] by (simp add: c Event)
  qed (simp_all add: c quiet_ebd quiet_fbd assms(1) k)
qed

lemma quiet_callbacks: "sound ob \<Longrightarrow> quiet ob (fst (run_callbacks cs ob))"
proof (induction cs arbitrary: ob)
  case (Cons c cs)
  let ?ob = "fst (if in_range (fst c) then component_callback c ob else (ob, False))"
  have q: "quiet ob ?ob" using quiet_callback [OF Cons.prems] quiet_refl [OF Cons.prems] by simp
  show ?case using quiet_trans [OF q Cons.IH [OF quiet_sound [OF q]]] by (simp add: Let_def split_beta)
qed (simp add: quiet_refl)

lemma quiet_callbacks_after: "sound ob \<Longrightarrow> quiet ob (callbacks_after e lk ob)"
  unfolding callbacks_after_def by (rule quiet_callbacks)

section \<open>Calls of a session are quiet\<close>

text \<open>The session has a component, an object, and jobs whose buffers exist.\<close>

definition ready :: "slot \<Rightarrow> jpeg_obj \<Rightarrow> bool" where
  "ready k ob \<longleftrightarrow> sound ob \<and> in_range k \<and> js_obj (sess k ob) \<and> omx_handle (sess k ob) \<in> j_live ob \<and>
     unat (num_src_bufs (js_params (sess k ob))) \<le> MM_JPEG_MAX_BUF \<and> unat (num_dst_bufs (js_params (sess k ob))) \<le> MM_JPEG_MAX_BUF \<and>
     unat (num_tmb_bufs (js_params (sess k ob))) \<le> MM_JPEG_MAX_BUF"

definition job_ready :: "slot \<Rightarrow> jpeg_obj \<Rightarrow> bool" where
  "job_ready k ob \<longleftrightarrow> ready k ob \<and> unat (je_src_index (js_encode_job (sess k ob))) < MM_JPEG_MAX_BUF \<and>
     unat (je_dst_index (js_encode_job (sess k ob))) < MM_JPEG_MAX_BUF \<and> unat (je_thumb_index (js_encode_job (sess k ob))) < MM_JPEG_MAX_BUF"

lemma ready_quiet:
  assumes "quiet ob ob'"
  shows "ready k ob \<Longrightarrow> ready k ob'" "job_ready k ob \<Longrightarrow> job_ready k ob'"
proof -
  show r: "ready k ob \<Longrightarrow> ready k ob'"
    using quiet_sound [OF assms] kept_eqD [OF quietD(4) [OF assms]] quietD(1) [OF assms] by (auto simp: ready_def same_owner_def)
  show "job_ready k ob \<Longrightarrow> job_ready k ob'"
    using r kept_eqD [OF quietD(4) [OF assms]] by (auto simp: job_ready_def ready_def)
qed

lemma quiet_omx:
  assumes "ready k ob"
  shows "quiet ob (fst (omx_sess e lk k c ob))"
proof -
  have s: "sound ob" "omx_handle (sess k ob) \<in> j_live ob" using assms by (simp_all add: ready_def)
  note q = quiet_call [OF s(1), of "Omx (omx_handle (sess k ob)) c"]
  show ?thesis using quiet_trans [OF q quiet_callbacks_after [OF quiet_sound [OF q]]] s(2)
    by (simp add: omx_sess_def omx_def Let_def)
qed

text \<open>Steps that are quiet wherever a condition holds that quiet steps keep.\<close>

definition keeps :: "(jpeg_obj \<Rightarrow> bool) \<Rightarrow> (jpeg_obj \<Rightarrow> jpeg_obj \<times> omx_error) \<Rightarrow> bool" where
  "keeps R f \<longleftrightarrow> (\<forall>ob. R ob \<longrightarrow> quiet ob (fst (f ob)))"

lemma keepsI: "(\<And>ob. R ob \<Longrightarrow> quiet ob (fst (f ob))) \<Longrightarrow> keeps R f"
  by (simp add: keeps_def)

lemma keepsD: "keeps R f \<Longrightarrow> R ob \<Longrightarrow> quiet ob (fst (f ob))"
  by (simp add: keeps_def)

lemma keeps_try_all:
  assumes "\<And>ob. R ob \<Longrightarrow> sound ob" "\<And>ob ob'. quiet ob ob' \<Longrightarrow> R ob \<Longrightarrow> R ob'" "\<forall>f \<in> set fs. keeps R f"
  shows "keeps R (try_all fs)"
  using assms(3)
proof (induction fs)
  case Nil
  show ?case by (rule keepsI) (simp add: quiet_refl assms(1))
next
  case (Cons f fs)
  show ?case
  proof (rule keepsI)
    fix ob assume R: "R ob"
    have q: "quiet ob (fst (f ob))" using keepsD [of R f, OF _ R] Cons.prems by simp
    show "quiet ob (fst (try_all (f # fs) ob))"
      using quiet_trans [OF q] keepsD [OF Cons.IH assms(2) [OF q R]] Cons.prems q by (simp add: Let_def split_beta)
  qed
qed

declare try_all.simps [simp del]

lemma job_ready_ready: "job_ready k ob \<Longrightarrow> ready k ob"
  by (simp add: job_ready_def)

lemma ready_sound: "ready k ob \<Longrightarrow> sound ob" "job_ready k ob \<Longrightarrow> sound ob" "ready k ob \<Longrightarrow> in_range k" "job_ready k ob \<Longrightarrow> in_range k"
  by (simp_all add: ready_def job_ready_def)

lemma keeps_job: "keeps (ready k) f \<Longrightarrow> keeps (job_ready k) f"
  by (simp add: keeps_def job_ready_ready)

lemma keeps_omx: "keeps (ready k) (omx_sess e lk k c)"
  by (rule keepsI) (rule quiet_omx)

lemma keeps_with_buf: "i < MM_JPEG_MAX_BUF \<Longrightarrow> keeps R f \<Longrightarrow> keeps R (with_buf i f)"
  by (simp add: keeps_def with_buf_def)

lemma keeps_tries:
  "\<forall>f \<in> set fs. keeps (ready k) f \<Longrightarrow> keeps (ready k) (try_all fs)"
  "\<forall>f \<in> set fs. keeps (job_ready k) f \<Longrightarrow> keeps (job_ready k) (try_all fs)"
  by (rule keeps_try_all; simp add: ready_sound ready_quiet)+

lemma ready_bound:
  "i < unat (num_src_bufs (js_params (sess k ob))) \<Longrightarrow> ready k ob \<Longrightarrow> i < MM_JPEG_MAX_BUF"
  "i < unat (num_dst_bufs (js_params (sess k ob))) \<Longrightarrow> ready k ob \<Longrightarrow> i < MM_JPEG_MAX_BUF"
  "i < unat (num_tmb_bufs (js_params (sess k ob))) \<Longrightarrow> ready k ob \<Longrightarrow> i < MM_JPEG_MAX_BUF"
  by (simp_all add: ready_def)

lemma job_bound:
  "job_ready k ob \<Longrightarrow> unat (je_src_index (js_encode_job (sess k ob))) < MM_JPEG_MAX_BUF"
  "job_ready k ob \<Longrightarrow> unat (je_dst_index (js_encode_job (sess k ob))) < MM_JPEG_MAX_BUF"
  "job_ready k ob \<Longrightarrow> unat (je_thumb_index (js_encode_job (sess k ob))) < MM_JPEG_MAX_BUF"
  by (simp_all add: job_ready_def)

lemmas keeps_calls = keeps_omx keeps_job [OF keeps_omx] keeps_with_buf

lemma quiet_upd_ready:
  assumes "ready k ob" "kept (f (sess k ob)) = kept (sess k ob)"
  shows "quiet ob (upd_sess k f ob)"
  using assms by (auto simp: ready_def intro: quiet_upd)

lemma quiet_send_buffers: "ready k ob \<Longrightarrow> quiet ob (fst (mm_jpeg_session_send_buffers e k ob))"
  unfolding mm_jpeg_session_send_buffers_def Let_def use_buffer_def
  by (rule keepsD [OF keeps_tries(1), rotated]) (auto intro!: keeps_calls intro: ready_bound)

lemma quiet_free_buffers: "ready k ob \<Longrightarrow> quiet ob (fst (mm_jpeg_session_free_buffers e k ob))"
  unfolding mm_jpeg_session_free_buffers_def Let_def free_buffer_def
  by (rule keepsD [OF keeps_tries(1), rotated]) (auto intro!: keeps_calls intro: ready_bound)

lemma quiet_cond_wait:
  assumes "sound ob" "cond_wait_session e k ob = Some ob'"
  shows "quiet ob ob'"
proof -
  note q = quiet_call [OF assms(1), of Cond_wait]
  show ?thesis using assms(2) quiet_trans [OF q quiet_callbacks [OF quiet_sound [OF q]]]
    by (auto simp: cond_wait_session_def Let_def split_beta split: if_splits)
qed

lemma quiet_change_state:
  assumes "ready k ob" "\<And>f ob. p = Some f \<Longrightarrow> ready k ob \<Longrightarrow> quiet ob (fst (f ob))"
    "mm_jpeg_session_change_state e k st p ob = Some (ob', r)"
  shows "quiet ob ob'"
proof -
  define ob1 where "ob1 = fst (omx_sess e (Some k) k Get_state ob)"
  define ob2 where "ob2 = upd_sess k (\<lambda>s. s\<lparr>state_change_pending := True\<rparr>) ob1"
  define ob3 where "ob3 = fst (omx_sess e (Some k) k (Set_state st) ob2)"
  define ob4 where "ob4 = (case p of None \<Rightarrow> ob3 | Some f \<Rightarrow> fst (f ob3))"
  have q1: "quiet ob ob1" unfolding ob1_def by (rule quiet_omx [OF assms(1)])
  have r1: "ready k ob1" by (rule ready_quiet(1) [OF q1 assms(1)])
  have q2: "quiet ob1 ob2" unfolding ob2_def by (rule quiet_upd_ready [OF r1]) (simp add: kept_def)
  have q3: "quiet ob2 ob3" unfolding ob3_def by (rule quiet_omx [OF ready_quiet(1) [OF q2 r1]])
  have r3: "ready k ob3" by (rule ready_quiet(1) [OF q3 ready_quiet(1) [OF q2 r1]])
  have q4: "quiet ob3 ob4" using assms(2) [OF _ r3] quiet_refl [OF ready_sound(1) [OF r3]] by (simp add: ob4_def split: option.split)
  have q: "quiet ob ob3" "quiet ob ob4" using quiet_trans [OF quiet_trans [OF q1 q2] q3] quiet_trans [OF _ q4] by blast+
  have "ob' = ob1 \<or> ob' = ob3 \<or> ob' = ob4 \<or> cond_wait_session e k ob4 = Some ob'"
    using assms(3) unfolding mm_jpeg_session_change_state_def Let_def split_beta
    by (auto simp: ob1_def ob2_def ob3_def ob4_def split: if_splits option.splits)
  then show ?thesis using q q1 quiet_cond_wait [OF quiet_sound [OF q(2)]] quiet_trans [OF q(2)] by blast
qed

section \<open>The encoder is quiet\<close>

lemma quiet_ports: "job_ready k ob \<Longrightarrow> quiet ob (fst (mm_jpeg_session_config_ports e k ob))"
  unfolding mm_jpeg_session_config_ports_def Let_def
  by (rule keepsD [OF keeps_tries(2), rotated]) (auto intro!: keeps_calls intro: job_bound split: if_splits)

lemma quiet_offset: "job_ready k ob \<Longrightarrow> quiet ob (fst (mm_jpeg_session_config_main_buffer_offset e k ob))"
  unfolding mm_jpeg_session_config_main_buffer_offset_def Let_def
  by (rule keepsD [OF keeps_with_buf [OF job_bound(1) keeps_tries(2)]]) (auto intro!: keeps_calls)

lemma quiet_encoding_mode: "job_ready k ob \<Longrightarrow> quiet ob (fst (mm_jpeg_encoding_mode e k ob))"
  unfolding mm_jpeg_encoding_mode_def by (rule keepsD [OF keeps_tries(2)]) (auto intro!: keeps_calls)

lemma quiet_main: "job_ready k ob \<Longrightarrow> quiet ob (fst (mm_jpeg_session_config_main e k ob))"
  unfolding mm_jpeg_session_config_main_def
  by (rule keepsD [OF keeps_tries(2), rotated]) (auto intro!: keepsI quiet_ports quiet_offset quiet_encoding_mode)

lemma quiet_dims:
  assumes "job_ready k ob"
  shows "quiet ob (upd_sess k (\<lambda>s. s\<lparr>js_encode_job := (js_encode_job s)\<lparr>je_thumb_dim := d\<rparr>\<rparr>) ob)"
    "quiet ob (upd_sess k (\<lambda>s. s\<lparr>js_encode_job := (js_encode_job s)\<lparr>je_main_dim := d\<rparr>\<rparr>) ob)"
  by (rule quiet_upd_ready [OF job_ready_ready [OF assms]], simp add: kept_def)+

lemma quiet_thumbnail:
  assumes "job_ready k ob"
  shows "quiet ob (fst (mm_jpeg_session_config_thumbnail e k ob))"
proof -
  note d = quiet_dims(1) [OF assms]
  have i: "unat (je_thumb_index (js_encode_job (sess k ob))) < MM_JPEG_MAX_BUF" using assms by (simp add: job_ready_def)
  have "quiet ob (fst (try_all [omx_sess e None k c, with_buf (unat (je_thumb_index (js_encode_job (sess k ob)))) (omx_sess e None k c')]
      (upd_sess k (\<lambda>s. s\<lparr>js_encode_job := (js_encode_job s)\<lparr>je_thumb_dim := v\<rparr>\<rparr>) ob)))" for c c' v
    by (rule quiet_trans [OF d keepsD [OF keeps_tries(2) ready_quiet(2) [OF d assms]]]) (auto intro!: keeps_calls i)
  then show ?thesis using d quiet_refl [OF ready_sound(2) [OF assms]] unfolding mm_jpeg_session_config_thumbnail_def Let_def by simp
qed

lemma quiet_crop:
  assumes "job_ready k ob"
  shows "quiet ob (fst (mm_jpeg_session_config_main_crop e k ob))"
proof -
  note d = quiet_dims(2) [OF assms]
  have "quiet ob (fst (try_all [omx_sess e None k c, omx_sess e None k c']
      (upd_sess k (\<lambda>s. s\<lparr>js_encode_job := (js_encode_job s)\<lparr>je_main_dim := v\<rparr>\<rparr>) ob)))" for c c' v
    by (rule quiet_trans [OF d keepsD [OF keeps_tries(2) ready_quiet(2) [OF d assms]]]) (auto intro!: keeps_calls)
  then show ?thesis using d unfolding mm_jpeg_session_config_main_crop_def Let_def by simp
qed

lemma quiet_metadata_exif:
  assumes "job_ready k ob"
  shows "quiet ob (fst (metadata_exif e k ob))"
proof -
  have q: "quiet ob (upd_sess k (\<lambda>s. s\<lparr>exif_count_local := n\<rparr>) ob)" for n
    by (rule quiet_upd_ready [OF job_ready_ready [OF assms]]) (simp add: kept_def)
  show ?thesis using q quiet_trans [OF q quiet_omx [OF ready_quiet(1) [OF q job_ready_ready [OF assms]]]]
    by (simp add: metadata_exif_def Let_def)
qed

lemma quiet_common: "job_ready k ob \<Longrightarrow> quiet ob (fst (mm_jpeg_session_config_common e k ob))"
  unfolding mm_jpeg_session_config_common_def Let_def
  by (rule keepsD [OF keeps_tries(2), rotated]) (auto intro!: keeps_calls keepsI [OF quiet_metadata_exif] split: if_splits)

lemma quiet_job_params: "job_ready k ob \<Longrightarrow> quiet ob (fst (mm_jpeg_configure_job_params e k ob))"
  unfolding mm_jpeg_configure_job_params_def
  by (rule keepsD [OF keeps_tries(2), rotated])
    (auto intro!: keeps_calls keepsI quiet_common quiet_crop quiet_thumbnail quiet_omx job_ready_ready)

lemma quiet_configure:
  assumes "job_ready k ob" "mm_jpeg_session_configure e k ob = Some (ob', r)"
  shows "quiet ob ob'"
proof (cases "abort_state (sess k ob) = MM_JPEG_ABORT_INIT")
  case True
  then show ?thesis using assms(2) quiet_refl [OF ready_sound(2) [OF assms(1)]] by (simp add: mm_jpeg_session_configure_def)
next
  case False
  obtain ob1 r1 where m: "mm_jpeg_session_config_main e k ob = (ob1, r1)" by fastforce
  have q1: "quiet ob ob1" using quiet_main [OF assms(1), of e] m by simp
  have r1: "ready k ob1" by (rule ready_quiet(1) [OF q1 job_ready_ready [OF assms(1)]])
  have q2: "quiet ob1 ob2" "ready k ob2"
    if "mm_jpeg_session_change_state e k OMX_StateIdle (Some (mm_jpeg_session_send_buffers e k)) ob1 = Some (ob2, r2)" for ob2 r2
    using quiet_change_state [OF r1 _ that] quiet_send_buffers ready_quiet(1) [OF _ r1] by (metis option.inject)+
  have q3: "quiet ob2 ob3" if "ready k ob2" "mm_jpeg_session_change_state e k OMX_StateExecuting None ob2 = Some (ob3, r3)" for ob2 ob3 r3
    by (rule quiet_change_state [OF that(1) _ that(2)]) simp
  show ?thesis
    using assms(2) False q1 q2 q3 quiet_trans unfolding mm_jpeg_session_configure_def m Let_def
    by (simp add: bind_Some_iff split_beta split: if_splits prod.splits) (metis (no_types, opaque_lifting) quiet_trans)
qed

lemma quiet_flags:
  assumes "ready k ob"
  shows "quiet ob (upd_sess k (\<lambda>s. s\<lparr>abort_state := a, js_encoding := b\<rparr>) ob)" "quiet ob (upd_sess k (\<lambda>s. s\<lparr>js_config := b\<rparr>) ob)"
    "quiet ob (upd_sess k (\<lambda>s. s\<lparr>js_encoding := b\<rparr>) ob)" "quiet ob (upd_sess k (\<lambda>s. s\<lparr>abort_state := a\<rparr>) ob)"
    "quiet ob (upd_sess k (\<lambda>s. s\<lparr>state_change_pending := b\<rparr>) ob)"
  by (rule quiet_upd_ready [OF assms], simp add: kept_def)+

lemma quiet_encode_buffers: "job_ready k ob \<Longrightarrow> quiet ob (fst (encode_buffers e k ob))"
  unfolding encode_buffers_def Let_def
  by (rule keepsD [OF keeps_tries(2), rotated]) (auto intro!: keeps_calls intro: job_bound split: if_splits)

lemma quiet_start_encoding:
  assumes "job_ready k ob"
  shows "quiet ob (fst (start_encoding e k ob))"
proof -
  note q = quiet_flags(3) [OF job_ready_ready [OF assms], where b = True]
  show ?thesis using q quiet_trans [OF q quiet_encode_buffers [OF ready_quiet(2) [OF q assms]]] by (simp add: start_encoding_def Let_def)
qed

lemma quiet_configure_once:
  assumes "ready k ob" "\<And>ob1 r1. conf ob = Some (ob1, r1) \<Longrightarrow> quiet ob ob1" "configure_once conf k ob = Some (ob', r)"
  shows "quiet ob ob'"
proof (cases "js_config (sess k ob)")
  case False
  then obtain ob1 r1 where c: "conf ob = Some (ob1, r1)" "ob' = ob1 \<or> ob' = upd_sess k (\<lambda>s. s\<lparr>js_config := True\<rparr>) ob1"
    using assms(3) by (cases "conf ob") (auto simp: configure_once_def split: if_splits)
  have q: "quiet ob ob1" by (rule assms(2) [OF c(1)])
  show ?thesis using c(2) q quiet_trans [OF q quiet_flags(2) [OF ready_quiet(1) [OF q assms(1)]]] by blast
qed (use assms(3) quiet_refl [OF ready_sound(1) [OF assms(1)]] in \<open>simp add: configure_once_def\<close>)

lemma quiet_encode:
  assumes "job_ready k ob" "mm_jpeg_session_encode e k ob = Some (ob', r)"
  shows "quiet ob ob'"
proof -
  let ?ob = "upd_sess k (\<lambda>s. s\<lparr>abort_state := MM_JPEG_ABORT_NONE, js_encoding := False\<rparr>) ob"
  note q0 = quiet_flags(1) [OF job_ready_ready [OF assms(1)], where a = MM_JPEG_ABORT_NONE and b = False]
  have r0: "job_ready k ?ob" by (rule ready_quiet(2) [OF q0 assms(1)])
  obtain ob1 r1 where c: "configure_once (mm_jpeg_session_configure e k) k ?ob = Some (ob1, r1)"
      "(if r1 \<noteq> OMX_ErrorNone then (ob1, r1) else try_all [mm_jpeg_configure_job_params e k, start_encoding e k] ob1) = (ob', r)"
    using assms(2) unfolding mm_jpeg_session_encode_def bind_Some_iff by auto
  have q1: "quiet ?ob ob1" by (rule quiet_configure_once [OF job_ready_ready [OF r0] quiet_configure [OF r0] c(1)])
  have "quiet ob1 (fst (try_all [mm_jpeg_configure_job_params e k, start_encoding e k] ob1))"
    by (rule keepsD [OF keeps_tries(2) ready_quiet(2) [OF q1 r0]]) (auto intro!: keepsI quiet_job_params quiet_start_encoding)
  then have "quiet ob1 ob'" using c(2) quiet_refl [OF quiet_sound [OF q1]] by (cases "r1 = OMX_ErrorNone") simp_all
  with q0 q1 show ?thesis by (blast intro: quiet_trans)
qed

lemma quiet_destroy_job:
  assumes "ready k ob"
  shows "quiet ob (mm_jpeg_destroy_job k ob)"
proof -
  have q: "quiet ob (fold (\<lambda>i. jpeg_call (Release_exif i)) is ob)" if "sound ob" for ob "is"
    using that
  proof (induction "is" arbitrary: ob)
    case (Cons i "is")
    show ?case using quiet_trans [OF quiet_call [OF Cons.prems] Cons.IH] Cons.prems by simp
  qed (simp add: quiet_refl)
  note q1 = q [OF ready_sound(1) [OF assms], of "[0..<exif_count_local (sess k ob)]"]
  show ?thesis unfolding mm_jpeg_destroy_job_def
    by (rule quiet_trans [OF q1 quiet_upd_ready [OF ready_quiet(1) [OF q1 assms]]]) (simp add: kept_def)
qed

lemma quiet_abort:
  assumes "ready k ob" "mm_jpeg_session_abort e k ob = Some (ob', r)"
  shows "quiet ob ob'"
proof -
  define ob1 where "ob1 = upd_sess k (\<lambda>s. s\<lparr>abort_state := MM_JPEG_ABORT_INIT\<rparr>) ob"
  define ob2 where "ob2 = upd_sess k (\<lambda>s. s\<lparr>state_change_pending := True\<rparr>) ob1"
  define ob3 where "ob3 = fst (omx_sess e None k (Set_state OMX_StateIdle) ob2)"
  define ob4 where "ob4 = mm_jpeg_destroy_job k ob3"
  have q1: "quiet ob ob1" unfolding ob1_def by (rule quiet_flags(4) [OF assms(1)])
  have q2: "quiet ob1 ob2" unfolding ob2_def by (rule quiet_flags(5) [OF ready_quiet(1) [OF q1 assms(1)]])
  note q2' = quiet_trans [OF q1 q2]
  have q3: "quiet ob2 ob3" unfolding ob3_def by (rule quiet_omx [OF ready_quiet(1) [OF q2' assms(1)]])
  note q3' = quiet_trans [OF q2' q3]
  have q4: "quiet ob3 ob4" unfolding ob4_def by (rule quiet_destroy_job [OF ready_quiet(1) [OF q3' assms(1)]])
  note q4' = quiet_trans [OF q3' q4]
  have fin: "quiet ob (upd_sess k (\<lambda>s. s\<lparr>abort_state := MM_JPEG_ABORT_DONE\<rparr>) v)" if "quiet ob v" for v
    by (rule quiet_trans [OF that quiet_flags(4) [OF ready_quiet(1) [OF that assms(1)]]])
  have w: "quiet ob v" if "cond_wait_session e k ob4 = Some v" for v
    by (rule quiet_trans [OF q4' quiet_cond_wait [OF quiet_sound [OF q4'] that]])
  have "ob' = ob \<or> ob' = ob3 \<or> (\<exists>v. (v = ob1 \<or> v = ob4 \<or> cond_wait_session e k ob4 = Some v) \<and>
      ob' = upd_sess k (\<lambda>s. s\<lparr>abort_state := MM_JPEG_ABORT_DONE\<rparr>) v)"
    using assms(2) unfolding mm_jpeg_session_abort_def Let_def split_beta
    by (auto simp: ob1_def ob2_def ob3_def ob4_def split: if_splits)
  then show ?thesis using q1 q3' q4' fin w quiet_refl [OF ready_sound(1) [OF assms(1)]] by blast
qed

lemma session_destroyed:
  assumes "ready k ob" "omx_handle (sess k ob) \<noteq> 0" "mm_jpeg_session_destroy e k ob = Some ob'"
  shows "\<exists>v. quiet ob v \<and> ob' = upd_sess k (\<lambda>s. s\<lparr>omx_handle := 0\<rparr>) (OMX_FreeHandle (omx_handle (sess k ob)) v)"
proof -
  define ob1 where "ob1 = fst (omx_sess e None k Get_state ob)"
  have q1: "quiet ob ob1" unfolding ob1_def by (rule quiet_omx [OF assms(1)])
  have r1: "ready k ob1" by (rule ready_quiet(1) [OF q1 assms(1)])
  obtain ob2 v where ob2: "ob2 = ob1 \<or> (\<exists>r. mm_jpeg_session_change_state e k OMX_StateIdle None ob1 = Some (ob2, r))"
    and v: "v = fst (omx_sess e None k Get_state ob2) \<or>
      (\<exists>r. mm_jpeg_session_change_state e k OMX_StateLoaded (Some (mm_jpeg_session_free_buffers e k)) (fst (omx_sess e None k Get_state ob2)) = Some (v, r))"
    and ob': "ob' = upd_sess k (\<lambda>s. s\<lparr>omx_handle := 0\<rparr>) (OMX_FreeHandle (omx_handle (sess k v)) v)"
    using assms(2,3) unfolding mm_jpeg_session_destroy_def Let_def split_beta ob1_def
    by (auto simp: bind_Some_iff split: if_splits)
  have q2: "quiet ob1 ob2" using ob2 quiet_refl [OF ready_sound(1) [OF r1]] quiet_change_state [OF r1] by blast
  have r2: "ready k ob2" by (rule ready_quiet(1) [OF q2 r1])
  let ?v = "fst (omx_sess e None k Get_state ob2)"
  have q3: "quiet ob2 ?v" by (rule quiet_omx [OF r2])
  have "quiet ?v v" using v quiet_refl [OF quiet_sound [OF q3]] quiet_change_state [OF ready_quiet(1) [OF q3 r2] _]
    by (metis option.inject quiet_free_buffers)
  then have q: "quiet ob v" using q1 q2 q3 by (blast intro: quiet_trans)
  then show ?thesis using ob' kept_eqD(7) [OF quietD(4) [OF q ready_sound(3) [OF assms(1)]]] by auto
qed

end
