(* ===== verification/JpegSystem.thy ===== *)
theory JpegSystem
  imports JpegOwn
begin

text \<open>
  The encoder with its clients, its job manager and its components: the actions of all of them in any order, and the
  invariants that hold whatever the order.  The identifiers of sessions and jobs, the safety of every action, that the
  encoder works on one job at a time, and that a job is never left waiting.
\<close>

declare split_paired_All [simp del] split_paired_Ex [simp del]

section \<open>Identifiers\<close>

lemma client_idx_or: "GET_CLIENT_IDX (i OR push_bit 16 x) = GET_CLIENT_IDX i"
proof -
  have "(i OR push_bit 16 x) AND 0xff = i AND 0xff"
    unfolding low_byte_mask by (rule bit_word_eqI) (auto simp: bit_simps)
  then show ?thesis by (simp add: GET_CLIENT_IDX_def)
qed

lemma session_idx_or: "GET_SESSION_IDX (i OR push_bit 16 x) = GET_SESSION_IDX i"
proof -
  have "drop_bit 8 (i OR push_bit 16 x) AND 0xff = drop_bit 8 i AND 0xff"
    unfolding low_byte_mask by (rule bit_word_eqI) (auto simp: bit_simps)
  then show ?thesis by (simp add: GET_SESSION_IDX_def)
qed

lemma of_nat_byte: "c < 256 \<Longrightarrow> (of_nat c :: u32) = ucast (of_nat c :: u8) \<and> unat (of_nat c :: u8) = c"
proof -
  assume c: "c < 256"
  then have u: "unat (of_nat c :: u8) = c" by (simp add: unat_of_nat)
  have "(of_nat c :: u32) = of_nat (unat (of_nat c :: u8))" by (simp only: u)
  also have "\<dots> = ucast (of_nat c :: u8)" by (simp only: of_nat_unat)
  finally show ?thesis using u by simp
qed

lemma idx_session [simp]: "in_range k \<Longrightarrow> GET_CLIENT_IDX (session_id_of k) = fst k" "in_range k \<Longrightarrow> GET_SESSION_IDX (session_id_of k) = snd k"
proof -
  assume "in_range k"
  then have b: "fst k < 256" "snd k < 256" by (simp_all add: in_range_def MAX_JPEG_CLIENT_NUM_def MM_JPEG_MAX_SESSION_def)
  define c s where "c = (of_nat (fst k) :: u8)" and "s = (of_nat (snd k) :: u8)"
  have i: "session_id_of k = push_bit 24 JOB_ID_MAGICVAL OR push_bit 8 (ucast s) OR ucast c"
    using b [THEN of_nat_byte] by (simp add: session_id_of_def c_def s_def)
  have "session_id_of k AND 0xff = ucast c"
    unfolding i low_byte_mask by (rule bit_word_eqI) (auto simp: bit_simps dest: bit_imp_le_length)
  then show "GET_CLIENT_IDX (session_id_of k) = fst k" using b(1) by (simp add: GET_CLIENT_IDX_def c_def unsigned_ucast_eq unat_of_nat take_bit_nat_eq_self)
  have "drop_bit 8 (session_id_of k) AND 0xff = ucast s"
    unfolding i low_byte_mask by (rule bit_word_eqI) (auto simp: bit_simps dest: bit_imp_le_length)
  then show "GET_SESSION_IDX (session_id_of k) = snd k" using b(2) by (simp add: GET_SESSION_IDX_def s_def unsigned_ucast_eq unat_of_nat take_bit_nat_eq_self)
qed

lemma session_id_inj: "in_range k \<Longrightarrow> in_range k' \<Longrightarrow> session_id_of k = session_id_of k' \<Longrightarrow> k = k'"
  using idx_session by (metis prod_eqI)

lemma get_session_of [simp]: "in_range k \<Longrightarrow> mm_jpeg_get_session (session_id_of k) = Some k"
  by (simp add: mm_jpeg_get_session_def Let_def) (simp add: in_range_def)

lemma get_session_job [simp]: "in_range k \<Longrightarrow> mm_jpeg_get_session (job_id_of (session_id_of k) h) = Some k"
  using get_session_of by (simp add: mm_jpeg_get_session_def job_id_of_def client_idx_or session_idx_or)

lemma get_session_range: "mm_jpeg_get_session i = Some k \<Longrightarrow> in_range k"
  by (auto simp: mm_jpeg_get_session_def Let_def in_range_def split: if_splits)

lemma remove_first_mem: "remove_first P xs = (Some x, ys) \<Longrightarrow> x \<in> set xs"
  by (induction xs arbitrary: ys) (auto split: if_splits prod.splits)

section \<open>The invariant of the object\<close>

text \<open>A waiting or ongoing job names an active session, carries an identifier of it, and its buffers exist.\<close>

fun job_ok :: "jpeg_obj \<Rightarrow> jpeg_node \<Rightarrow> bool" where
  "job_ok ob (Encode_node j i c) \<longleftrightarrow> (\<exists>k h. in_range k \<and> js_active (sess k ob) \<and> je_session_id j = session_id_of k \<and>
     i = job_id_of (session_id_of k) h \<and> unat (je_src_index j) < MM_JPEG_MAX_BUF \<and> unat (je_dst_index j) < MM_JPEG_MAX_BUF \<and>
     unat (je_thumb_index j) < MM_JPEG_MAX_BUF)"
| "job_ok ob (Decode_node j i c) \<longleftrightarrow> False"
| "job_ok ob Exit_node \<longleftrightarrow> False"

definition session_ok :: "slot \<Rightarrow> jpeg_obj \<Rightarrow> bool" where
  "session_ok k ob \<longleftrightarrow> js_obj (sess k ob) \<and> js_sessionId (sess k ob) = session_id_of k \<and> omx_handle (sess k ob) \<noteq> 0 \<and>
     omx_handle (sess k ob) \<in> j_live ob \<and> jc_is_used (clnt_mgr ob ! fst k) \<and>
     unat (num_src_bufs (js_params (sess k ob))) \<le> MM_JPEG_MAX_BUF \<and> unat (num_dst_bufs (js_params (sess k ob))) \<le> MM_JPEG_MAX_BUF \<and>
     unat (num_tmb_bufs (js_params (sess k ob))) \<le> MM_JPEG_MAX_BUF"

definition actives :: "jpeg_obj \<Rightarrow> slot set" where
  "actives ob = {k. in_range k \<and> js_active (sess k ob)}"

definition jpeg_ok :: "jpeg_obj \<Rightarrow> bool" where
  "jpeg_ok ob \<longleftrightarrow> sound ob \<and> \<not> j_decoder ob \<and> \<not> j_bad ob \<and> length (ongoing_job_q ob) \<le> 1 \<and>
     (\<forall>n \<in> set (job_queue ob) \<union> set (ongoing_job_q ob). job_ok ob n) \<and>
     (\<forall>k \<in> actives ob. session_ok k ob) \<and> inj_on (\<lambda>k. omx_handle (sess k ob)) (actives ob) \<and>
     (\<forall>h \<in> j_live ob. h < j_next ob) \<and> 0 < j_next ob"

lemma jpeg_okD:
  assumes "jpeg_ok ob"
  shows "sound ob" "shape ob" "\<not> j_decoder ob" "\<not> j_bad ob" "length (ongoing_job_q ob) \<le> 1"
    "\<And>n. n \<in> set (job_queue ob) \<Longrightarrow> job_ok ob n" "\<And>n. n \<in> set (ongoing_job_q ob) \<Longrightarrow> job_ok ob n"
    "\<And>k. k \<in> actives ob \<Longrightarrow> session_ok k ob" "inj_on (\<lambda>k. omx_handle (sess k ob)) (actives ob)"
    "\<And>h. h \<in> j_live ob \<Longrightarrow> h < j_next ob" "0 < j_next ob"
  using assms unfolding jpeg_ok_def sound_def by blast+

lemma jpeg_okI:
  assumes "sound ob" "\<not> j_decoder ob" "\<not> j_bad ob" "length (ongoing_job_q ob) \<le> 1"
    "\<And>n. n \<in> set (job_queue ob) \<union> set (ongoing_job_q ob) \<Longrightarrow> job_ok ob n"
    "\<And>k. k \<in> actives ob \<Longrightarrow> session_ok k ob" "inj_on (\<lambda>k. omx_handle (sess k ob)) (actives ob)"
    "\<And>h. h \<in> j_live ob \<Longrightarrow> h < j_next ob" "0 < j_next ob"
  shows "jpeg_ok ob"
  using assms unfolding jpeg_ok_def by blast

lemma job_ok_actives: "job_ok ob n \<Longrightarrow> actives ob \<subseteq> actives ob' \<Longrightarrow> job_ok ob' n"
  by (cases n) (fastforce simp: actives_def subset_iff)+

lemma active_ready: "jpeg_ok ob \<Longrightarrow> k \<in> actives ob \<Longrightarrow> ready k ob"
  using jpeg_okD(1,8) [of ob] by (auto simp: ready_def session_ok_def actives_def)

lemma actives_cong: "(\<And>k. in_range k \<Longrightarrow> js_active (sess k ob') = js_active (sess k ob)) \<Longrightarrow> actives ob' = actives ob"
  by (auto simp: actives_def)

lemma quiet_actives: "quiet ob ob' \<Longrightarrow> actives ob' = actives ob"
  by (rule actives_cong) (rule kept_eqD(8) [OF quietD(4)])

lemma ok_quiet:
  assumes "quiet ob ob'" "jpeg_ok ob"
  shows "jpeg_ok ob'"
proof (rule jpeg_okI)
  note q = quietD [OF assms(1)] and k = jpeg_okD [OF assms(2)] and a = quiet_actives [OF assms(1)]
  have o: "j_live ob' = j_live ob" "j_next ob' = j_next ob" "j_decoder ob' = j_decoder ob" "job_queue ob' = job_queue ob"
    "\<And>c. c < MAX_JPEG_CLIENT_NUM \<Longrightarrow> jc_is_used (clnt_mgr ob' ! c) = jc_is_used (clnt_mgr ob ! c)"
    using q(1) by (simp_all add: same_owner_def)
  show "sound ob'" using assms(1) by (rule quiet_sound)
  show "\<not> j_decoder ob'" "\<not> j_bad ob'" "0 < j_next ob'" using k q(5) o by simp_all
  show "length (ongoing_job_q ob') \<le> 1" using q(8) k(5) by (rule le_trans)
  show "job_ok ob' n" if "n \<in> set (job_queue ob') \<union> set (ongoing_job_q ob')" for n
    using that job_ok_actives [OF k(6), of n] job_ok_actives [OF k(7), of n] q(7) o(4) a by auto
  show "session_ok j ob'" if j: "j \<in> actives ob'" for j
  proof -
    have "j \<in> actives ob" using j a by simp
    then have "in_range j" "session_ok j ob" using k(8) [of j] by (simp_all add: actives_def)
    then show ?thesis using kept_eqD [OF q(4)] o by (simp add: session_ok_def in_range_def)
  qed
  have h: "omx_handle (sess j ob') = omx_handle (sess j ob)" if "j \<in> actives ob" for j
    using that kept_eqD(7) [OF q(4)] by (simp add: actives_def)
  show "inj_on (\<lambda>k. omx_handle (sess k ob')) (actives ob')"
    unfolding a using k(9) h by (simp add: inj_on_def)
  show "h < j_next ob'" if "h \<in> j_live ob'" for h using that k(10) o by simp
qed

text \<open>A change of one session that its invariant does not see.\<close>

lemma ok_upd:
  assumes "jpeg_ok ob" "in_range k" "js_active (f (sess k ob)) = js_active (sess k ob)" "js_obj (f (sess k ob)) = js_obj (sess k ob)"
    "js_sessionId (f (sess k ob)) = js_sessionId (sess k ob)" "omx_handle (f (sess k ob)) = omx_handle (sess k ob)"
    "js_params (f (sess k ob)) = js_params (sess k ob)" "js_dec_params (f (sess k ob)) = js_dec_params (sess k ob)"
    "js_encoding (f (sess k ob)) = js_encoding (sess k ob)"
  shows "jpeg_ok (upd_sess k f ob)"
proof (rule jpeg_okI)
  note ok = jpeg_okD [OF assms(1)]
  have s: "sess j (upd_sess k f ob) = (if j = k then f (sess k ob) else sess j ob)" for j by (rule sess_upd [OF ok(2) assms(2)])
  have a: "actives (upd_sess k f ob) = actives ob" by (rule actives_cong) (simp add: s assms(3))
  show "sound (upd_sess k f ob)"
    using ok(1,2) assms(2,4,7-9) unfolding sound_def idle_unmade_def by (simp add: s)
  show "job_ok (upd_sess k f ob) n" if "n \<in> set (job_queue (upd_sess k f ob)) \<union> set (ongoing_job_q (upd_sess k f ob))" for n
    using that job_ok_actives [OF ok(6), of n] job_ok_actives [OF ok(7), of n] a by auto
  show "session_ok j (upd_sess k f ob)" if "j \<in> actives (upd_sess k f ob)" for j
    using that ok(8) [of j] a assms by (cases "j = k") (simp_all add: session_ok_def s)
  have h: "omx_handle (sess j (upd_sess k f ob)) = omx_handle (sess j ob)" for j by (simp add: s assms(6))
  show "inj_on (\<lambda>j. omx_handle (sess j (upd_sess k f ob))) (actives (upd_sess k f ob))"
    unfolding a using ok(9) by (simp add: h)
qed (use jpeg_okD [OF assms(1)] in simp_all)

text \<open>The clients that are in use.\<close>

definition used :: "jpeg_obj \<Rightarrow> nat set" where
  "used ob = {c. c < MAX_JPEG_CLIENT_NUM \<and> jc_is_used (clnt_mgr ob ! c)}"

definition same_clients :: "jpeg_obj \<Rightarrow> jpeg_obj \<Rightarrow> bool" where
  "same_clients ob ob' \<longleftrightarrow> num_clients ob' = num_clients ob \<and> jm_running ob' = jm_running ob \<and>
     (\<forall>c < MAX_JPEG_CLIENT_NUM. jc_is_used (clnt_mgr ob' ! c) = jc_is_used (clnt_mgr ob ! c) \<and> jc_handle (clnt_mgr ob' ! c) = jc_handle (clnt_mgr ob ! c))"

lemma same_clients_refl [simp]: "same_clients ob ob"
  by (simp add: same_clients_def)

lemma same_clients_trans: "same_clients a b \<Longrightarrow> same_clients b c \<Longrightarrow> same_clients a c"
  by (simp add: same_clients_def)

lemma quiet_clients: "quiet ob ob' \<Longrightarrow> same_clients ob ob'"
  using quietD(1) by (simp add: same_owner_def same_clients_def)

lemma same_clients_upd [simp]: "same_clients v (upd_sess k f ob) = same_clients v ob" "same_clients (upd_sess k f v) ob = same_clients v ob"
  by (simp_all add: same_clients_def)

lemma used_same: "same_clients ob ob' \<Longrightarrow> used ob' = used ob"
  by (auto simp: used_def same_clients_def)

lemma same_clients_fields [simp]:
  "same_clients v (jpeg_call c ob) = same_clients v ob" "same_clients v (require b ob) = same_clients v ob"
  "same_clients v (ob\<lparr>job_queue := q\<rparr>) = same_clients v ob" "same_clients v (ob\<lparr>ongoing_job_q := q\<rparr>) = same_clients v ob"
  "same_clients v (ob\<lparr>job_sem := n\<rparr>) = same_clients v ob" "same_clients v (drop_jobs i ob) = same_clients v ob"
  "same_clients v (OMX_FreeHandle h ob) = same_clients v ob" "same_clients (jpeg_call c ob) v = same_clients ob v"
  "same_clients (ob\<lparr>ongoing_job_q := q\<rparr>) v = same_clients ob v"
  by (simp_all add: same_clients_def drop_jobs_def OMX_FreeHandle_def)

section \<open>The job manager\<close>

lemma quiet_job_failed:
  assumes "sound ob" "in_range k" "js_obj (sess k ob)"
  shows "quiet ob (job_failed k r ob)"
proof -
  let ?ob = "if r \<noteq> OMX_ErrorNone \<and> session_cb k ob then send_status k JPEG_JOB_STATUS_ERROR ob else ob"
  have q: "quiet ob ?ob" using quiet_send_status [OF assms(1,2)] quiet_refl [OF assms(1)] by simp
  have "js_obj (sess k ?ob)" using quiet_obj [OF q assms(2)] assms(3) by simp
  from quiet_trans [OF q quiet_job_done [OF quiet_sound [OF q] assms(2) this]] show ?thesis by (simp add: job_failed_def)
qed

lemma ok_append_ongoing:
  assumes "jpeg_ok ob" "job_ok ob n" "ongoing_job_q ob = []"
  shows "jpeg_ok (ob\<lparr>ongoing_job_q := [n]\<rparr>)"
proof (rule jpeg_okI)
  let ?ob = "ob\<lparr>ongoing_job_q := [n]\<rparr>"
  have a: "actives ?ob = actives ob" by (rule actives_cong) simp
  show "job_ok ?ob m" if "m \<in> set (job_queue ?ob) \<union> set (ongoing_job_q ?ob)" for m
    using that job_ok_actives [OF assms(2)] job_ok_actives [OF jpeg_okD(6) [OF assms(1)]] a by auto
  show "session_ok j ?ob" if "j \<in> actives ?ob" for j
    using jpeg_okD(8) [OF assms(1), of j] that a by (simp add: session_ok_def)
  show "inj_on (\<lambda>j. omx_handle (sess j ?ob)) (actives ?ob)" unfolding a using jpeg_okD(9) [OF assms(1)] by simp
qed (use jpeg_okD [OF assms(1)] in simp_all)

text \<open>What the turn of the job manager does with the next job: it is ongoing, and the component runs.\<close>

lemma process_ok:
  assumes "jpeg_ok ob" "job_ok ob (Encode_node j i c)" "ongoing_job_q ob = []"
    "mm_jpeg_process_encoding_job e j i c ob = Some (ob', r)"
  shows "jpeg_ok ob' \<and> job_queue ob' = job_queue ob \<and> same_clients ob ob' \<and> job_sem ob \<le> job_sem ob' \<and>
    (ongoing_job_q ob' = [] \<longrightarrow> 0 < job_sem ob')"
proof -
  obtain k h where k: "in_range k" "js_active (sess k ob)" "je_session_id j = session_id_of k" "i = job_id_of (session_id_of k) h"
      "unat (je_src_index j) < MM_JPEG_MAX_BUF" "unat (je_dst_index j) < MM_JPEG_MAX_BUF" "unat (je_thumb_index j) < MM_JPEG_MAX_BUF"
    using assms(2) by auto
  let ?m = "jpeg_call Node_malloc ob"
  have qm: "quiet ob ?m" by (rule quiet_call [OF jpeg_okD(1) [OF assms(1)]])
  have okm: "jpeg_ok ?m" by (rule ok_quiet [OF qm assms(1)])
  have am: "k \<in> actives ?m" using k(1,2) by (simp add: actives_def)
  have obm: "js_obj (sess k ?m)" using jpeg_okD(8) [OF okm am] by (simp add: session_ok_def)
  have failed: "jpeg_ok (job_failed k r1 v) \<and> quiet v (job_failed k r1 v) \<and> 0 < job_sem (job_failed k r1 v)"
    if "jpeg_ok v" "js_obj (sess k v)" for v r1
    using quiet_job_failed [OF jpeg_okD(1) [OF that(1)] k(1) that(2)] ok_quiet [OF _ that(1)]
    by (auto simp: job_failed_def mm_jpeg_job_done_def Let_def)
  show ?thesis
  proof (cases "je_malloc e (j_trace ob)")
    case False
    then have "ob' = job_failed k OMX_ErrorNone ?m" using assms(4) k(1,4) by (simp add: mm_jpeg_process_encoding_job_def jpeg_malloc_def)
    then show ?thesis using failed [OF okm obm, of OMX_ErrorNone] quietD [of ?m ob'] quiet_clients [of ?m ob']
      by (auto simp: same_owner_def same_clients_def)
  next
    case True
    define a where "a = ?m\<lparr>ongoing_job_q := [Encode_node j i c]\<rparr>"
    define b where "b = upd_sess k (\<lambda>s. s\<lparr>js_encode_job := j, js_jobId := i\<rparr>) a"
    have oka: "jpeg_ok a" unfolding a_def
      by (rule ok_append_ongoing [OF okm _]) (use assms(3) job_ok_actives [OF assms(2), of ?m] in \<open>simp_all add: actives_def\<close>)
    have okb: "jpeg_ok b" unfolding b_def by (rule ok_upd [OF oka k(1)]) simp_all
    have sb: "sess k b = (sess k a)\<lparr>js_encode_job := j, js_jobId := i\<rparr>" unfolding b_def
      by (rule sess_upd_same [OF jpeg_okD(2) [OF oka] k(1)])
    have ab: "k \<in> actives b" using k(1,2) by (simp add: actives_def sb a_def)
    have jb: "job_ready k b" using active_ready [OF okb ab] k(5-7) by (simp add: job_ready_def sb)
    obtain d r1 where d: "mm_jpeg_session_encode e k b = Some (d, r1)" "ob' = (if r1 \<noteq> OMX_ErrorNone then job_failed k r1 d else d)"
      using assms(3,4) True k(1,4) by (auto simp: mm_jpeg_process_encoding_job_def jpeg_malloc_def bind_Some_iff a_def b_def)
    have qd: "quiet b d" by (rule quiet_encode [OF jb d(1)])
    have okd: "jpeg_ok d" by (rule ok_quiet [OF qd okb])
    have "js_obj (sess k d)" using quiet_obj [OF qd k(1)] jpeg_okD(8) [OF okb ab] by (simp add: session_ok_def)
    then have f: "quiet d ob'" "r1 \<noteq> OMX_ErrorNone \<Longrightarrow> 0 < job_sem ob'"
      using failed [OF okd] quiet_refl [OF jpeg_okD(1) [OF okd]] d(2) by simp_all
    have q: "quiet b ob'" by (rule quiet_trans [OF qd f(1)])
    have "jpeg_ok ob'" by (rule ok_quiet [OF q okb])
    moreover have "same_clients ob b" by (simp add: b_def a_def)
    ultimately show ?thesis using quietD(1,6,9) [OF q] quiet_clients [OF q] same_clients_trans
      by (auto simp: b_def a_def same_owner_def same_clients_trans)
  qed
qed

text \<open>A waiting job has been announced to the job manager, unless one is ongoing.\<close>

definition announced :: "jpeg_obj \<Rightarrow> bool" where
  "announced ob \<longleftrightarrow> jm_running ob \<and> (job_queue ob \<noteq> [] \<and> ongoing_job_q ob = [] \<longrightarrow> 0 < job_sem ob)"

lemma announced_quiet: "quiet ob ob' \<Longrightarrow> announced ob \<Longrightarrow> announced ob'"
  using quietD(1,6,9) [of ob ob'] by (cases "ongoing_job_q ob' = ongoing_job_q ob") (auto simp: announced_def same_owner_def intro: less_le_trans)

lemma ok_less_jobs:
  assumes "jpeg_ok ob" "set q \<subseteq> set (job_queue ob)" "set q' \<subseteq> set (ongoing_job_q ob)" "length q' \<le> length (ongoing_job_q ob)"
  shows "jpeg_ok (ob\<lparr>job_queue := q, ongoing_job_q := q', job_sem := n\<rparr>)"
proof (rule jpeg_okI)
  let ?ob = "ob\<lparr>job_queue := q, ongoing_job_q := q', job_sem := n\<rparr>"
  have a: "actives ?ob = actives ob" by (rule actives_cong) simp
  show "job_ok ?ob m" if "m \<in> set (job_queue ?ob) \<union> set (ongoing_job_q ?ob)" for m
    using that assms(2,3) job_ok_actives [OF jpeg_okD(7) [OF assms(1)]] job_ok_actives [OF jpeg_okD(6) [OF assms(1)]] a by auto
  show "session_ok j ?ob" if "j \<in> actives ?ob" for j
    using jpeg_okD(8) [OF assms(1), of j] that a by (simp add: session_ok_def)
  show "inj_on (\<lambda>j. omx_handle (sess j ?ob)) (actives ?ob)" unfolding a using jpeg_okD(9) [OF assms(1)] by simp
qed (use jpeg_okD [OF assms(1)] assms(4) in simp_all)

lemma ok_sem: "jpeg_ok ob \<Longrightarrow> jpeg_ok (ob\<lparr>job_sem := n\<rparr>)"
  using ok_less_jobs [of ob "job_queue ob" "ongoing_job_q ob" n] by simp

lemma ok_num_clients: "jpeg_ok ob \<Longrightarrow> jpeg_ok (ob\<lparr>num_clients := n\<rparr>)"
proof (rule jpeg_okI)
  assume ok: "jpeg_ok ob"
  let ?ob = "ob\<lparr>num_clients := n\<rparr>"
  have a: "actives ?ob = actives ob" by (rule actives_cong) simp
  show "sound ?ob" using jpeg_okD(1) [OF ok] by (simp add: sound_def idle_unmade_def)
  show "job_ok ?ob m" if "m \<in> set (job_queue ?ob) \<union> set (ongoing_job_q ?ob)" for m
    using that job_ok_actives [OF jpeg_okD(7) [OF ok], of m] job_ok_actives [OF jpeg_okD(6) [OF ok], of m] a by auto
  show "session_ok j ?ob" if "j \<in> actives ?ob" for j using jpeg_okD(8) [OF ok, of j] that a by (simp add: session_ok_def)
  show "inj_on (\<lambda>j. omx_handle (sess j ?ob)) (actives ?ob)" unfolding a using jpeg_okD(9) [OF ok] by simp
qed (use jpeg_okD [of ob] in simp_all)

lemma jobmgr_turn_ok:
  assumes "jpeg_ok ob" "mm_jpeg_jobmgr_turn e ob = Some ob'"
  shows "jpeg_ok ob' \<and> same_clients ob ob' \<and> (announced ob \<longrightarrow> 0 < job_sem ob \<longrightarrow> announced ob')"
proof (cases "ongoing_job_q ob = []")
  case False
  then have "ob' = ob\<lparr>job_sem := job_sem ob - 1\<rparr>" using assms(2) by (cases "ongoing_job_q ob") (simp_all add: mm_jpeg_jobmgr_turn_def NUM_MAX_JPEG_CNCURRENT_JOBS_def)
  then show ?thesis using False ok_sem [OF assms(1)] by (simp add: announced_def)
next
  case empty: True
  show ?thesis
  proof (cases "job_queue ob")
    case Nil
    then have "ob' = ob\<lparr>job_sem := job_sem ob - 1\<rparr>" using assms(2) empty by (simp add: mm_jpeg_jobmgr_turn_def NUM_MAX_JPEG_CNCURRENT_JOBS_def)
    then show ?thesis using Nil empty ok_sem [OF assms(1)] by (simp add: announced_def)
  next
    case (Cons n q)
    have jn: "job_ok ob n" using jpeg_okD(6) [OF assms(1)] Cons by simp
    then obtain j i c where n: "n = Encode_node j i c" by (cases n) auto
    let ?a = "ob\<lparr>job_sem := job_sem ob - 1, job_queue := q\<rparr>"
    have e: "?a = ob\<lparr>job_queue := q, ongoing_job_q := [], job_sem := job_sem ob - 1\<rparr>" using empty by simp
    have oka: "jpeg_ok ?a" unfolding e by (rule ok_less_jobs [OF assms(1)]) (use Cons in auto)
    obtain r where p: "mm_jpeg_process_encoding_job e j i c ?a = Some (ob', r)"
      using assms(2) empty Cons n by (auto simp: mm_jpeg_jobmgr_turn_def NUM_MAX_JPEG_CNCURRENT_JOBS_def)
    have "job_ok ?a (Encode_node j i c)" using job_ok_actives [OF jn] n by (simp add: actives_def)
    from process_ok [OF oka this _ p] show ?thesis using empty by (simp add: announced_def same_clients_def)
  qed
qed

section \<open>The operations of clients\<close>

definition encode_bounds :: "mm_jpeg_encode_job \<Rightarrow> bool" where
  "encode_bounds j \<longleftrightarrow> unat (je_thumb_index j) < MM_JPEG_MAX_BUF"

lemma start_ok:
  assumes "jpeg_ok ob" "in_range k" "je_session_id j = session_id_of k" "encode_bounds j" "mm_jpeg_start_job e j ob = (ob', r)"
  shows "jpeg_ok ob' \<and> same_clients ob ob' \<and> (announced ob \<longrightarrow> announced ob')"
proof -
  define ob1 where "ob1 = jpeg_call Node_malloc ob"
  define ob2 where "ob2 = upd_sess k (\<lambda>s. s\<lparr>job_hist := job_hist s + 1\<rparr>) ob1"
  define ob3 where "ob3 = jpeg_call Node_malloc ob2"
  define i where "i = job_id_of (session_id_of k) (job_hist (sess k ob))"
  have ok1: "jpeg_ok ob1" unfolding ob1_def by (rule ok_quiet [OF quiet_call [OF jpeg_okD(1) [OF assms(1)]] assms(1)])
  have ok2: "jpeg_ok ob2" unfolding ob2_def by (rule ok_upd [OF ok1 assms(2)]) simp_all
  have ok3: "jpeg_ok ob3" unfolding ob3_def by (rule ok_quiet [OF quiet_call [OF jpeg_okD(1) [OF ok2]] ok2])
  have s3: "js_active (sess k ob3) = js_active (sess k ob)" "js_client_hdl (sess k ob2) = js_client_hdl (sess k ob)"
    using jpeg_okD(2) [OF ok1] assms(2) by (simp_all add: ob3_def ob2_def ob1_def sess_upd_same)
  have f: "announced ob3 = announced ob" "announced ob1 = announced ob" "job_queue ob3 = job_queue ob" "ongoing_job_q ob3 = ongoing_job_q ob" "jm_running ob3 = jm_running ob"
      "same_clients ob ob1" "same_clients ob ob3"
    by (simp_all add: announced_def ob3_def ob2_def ob1_def)
  define c where "c = js_client_hdl (sess k ob)"
  define ob4 where "ob4 = ob3\<lparr>job_queue := job_queue ob3 @ [Encode_node j i c], job_sem := job_sem ob3 + 1\<rparr>"
  have new: "jpeg_ok ob4" if act: "js_active (sess k ob)" and b: "unat (je_src_index j) < MM_JPEG_MAX_BUF" "unat (je_dst_index j) < MM_JPEG_MAX_BUF"
  proof (rule jpeg_okI)
    have a: "actives ob4 = actives ob3" by (rule actives_cong) (simp add: ob4_def)
    have n: "job_ok ob4 (Encode_node j i c)" using act b assms(2-4) s3 by (auto simp: i_def encode_bounds_def ob4_def)
    show "job_ok ob4 n" if "n \<in> set (job_queue ob4) \<union> set (ongoing_job_q ob4)" for n
      using that n job_ok_actives [OF jpeg_okD(6) [OF ok3], of n ob4] job_ok_actives [OF jpeg_okD(7) [OF ok3], of n ob4] a
      by (auto simp: ob4_def simp del: job_ok.simps)
    show "session_ok k ob4" if "k \<in> actives ob4" for k using jpeg_okD(8) [OF ok3, of k] that a by (simp add: session_ok_def ob4_def)
    show "inj_on (\<lambda>k. omx_handle (sess k ob4)) (actives ob4)" unfolding a using jpeg_okD(9) [OF ok3] by (simp add: ob4_def)
  qed (use jpeg_okD [OF ok3] in \<open>simp_all add: ob4_def\<close>)
  have bound: "x < n \<Longrightarrow> unat n \<le> MM_JPEG_MAX_BUF \<Longrightarrow> unat x < MM_JPEG_MAX_BUF" for x n :: u32
    using less_le_trans word_less_nat_alt by blast
  have "ob' = ob \<or> ob' = ob1 \<or> ob' = ob3 \<or> (ob' = ob4 \<and> js_active (sess k ob) \<and>
      je_src_index j < num_src_bufs (js_params (sess k ob)) \<and> je_dst_index j < num_dst_bufs (js_params (sess k ob)))"
    using assms(5) assms(2,3) s3(2)
    by (auto simp: mm_jpeg_start_job_def submit_job_def jpeg_malloc_def Let_def ob1_def ob2_def ob3_def ob4_def i_def c_def not_le split: if_splits)
  then show ?thesis
  proof (elim disjE conjE)
    assume o: "ob' = ob4" and act: "js_active (sess k ob)"
      and b: "je_src_index j < num_src_bufs (js_params (sess k ob))" "je_dst_index j < num_dst_bufs (js_params (sess k ob))"
    have "session_ok k ob" using jpeg_okD(8) [OF assms(1)] act assms(2) by (simp add: actives_def)
    then have "jpeg_ok ob4" using bound [OF b(1)] bound [OF b(2)] by (intro new act) (simp_all add: session_ok_def)
    then show ?thesis using o f by (simp add: ob4_def announced_def)
  qed (use assms(1) ok1 ok3 f in simp_all)
qed

lemma abort_ok:
  assumes "jpeg_ok ob" "mm_jpeg_abort_job e i ob = Some (ob', r)"
  shows "jpeg_ok ob' \<and> same_clients ob ob'"
proof -
  have len: "length (snd (remove_first P xs)) \<le> length xs" for P and xs :: "jpeg_node list"
    by (induction xs) (auto split: prod.splits)
  obtain m q where mq: "mm_jpeg_queue_remove_job_by_job_id i (job_queue ob) = (m, q)" by fastforce
  obtain n q' where nq: "mm_jpeg_queue_remove_job_by_job_id i (ongoing_job_q ob) = (n, q')" by fastforce
  have sub: "set q \<subseteq> set (job_queue ob)" "set q' \<subseteq> set (ongoing_job_q ob)" "length q' \<le> length (ongoing_job_q ob)"
    using mq nq remove_first_set len unfolding mm_jpeg_queue_remove_job_by_job_id_def by (metis snd_conv)+
  have q: "jpeg_ok (ob\<lparr>job_queue := q\<rparr>)"
    using ok_less_jobs [OF assms(1) sub(1), of "ongoing_job_q ob" "job_sem ob"] by simp
  have q': "jpeg_ok (ob\<lparr>ongoing_job_q := q'\<rparr>)"
    using ok_less_jobs [OF assms(1) _ sub(2,3), of "job_queue ob" "job_sem ob"] by simp
  show ?thesis
  proof (cases m)
    case (Some x)
    then show ?thesis using assms(2) mq q by (auto simp: mm_jpeg_abort_job_def)
  next
    case m: None
    show ?thesis
    proof (cases n)
      case None
      then show ?thesis using assms m mq nq by (auto simp: mm_jpeg_abort_job_def)
    next
      case (Some x)
      have "x \<in> set (ongoing_job_q ob)" using nq Some unfolding mm_jpeg_queue_remove_job_by_job_id_def
        by (metis remove_first_mem)
      then have "job_ok ob x" by (rule jpeg_okD(7) [OF assms(1)])
      then obtain k h where k: "k \<in> actives ob" "in_range k" "node_job_id x = job_id_of (session_id_of k) h"
        by (cases x) (auto simp: actives_def)
      have "actives (ob\<lparr>ongoing_job_q := q'\<rparr>) = actives ob" by (rule actives_cong) simp
      then have "ready k (ob\<lparr>ongoing_job_q := q'\<rparr>)" using k by (intro active_ready [OF q']) simp
      moreover obtain b where "mm_jpeg_session_abort e k (ob\<lparr>ongoing_job_q := q'\<rparr>) = Some (ob', b)"
        using assms(2) m mq nq Some k(2,3) by (auto simp: mm_jpeg_abort_job_def Let_def)
      ultimately have "quiet (ob\<lparr>ongoing_job_q := q'\<rparr>) ob'" by (rule quiet_abort)
      then show ?thesis using ok_quiet [OF _ q'] quiet_clients by (fastforce simp: same_clients_def)
    qed
  qed
qed

text \<open>A session that is being destroyed: its jobs are dropped, it is aborted, and given up.\<close>

lemma remove_session_idx_of:
  "in_range k \<Longrightarrow> mm_jpeg_remove_session_idx (session_id_of k) ob = upd_sess k (\<lambda>s. s\<lparr>js_active := False\<rparr>) ob"
  by (simp add: mm_jpeg_remove_session_idx_def Let_def)

lemma drop_jobs_ok: "jpeg_ok ob \<Longrightarrow> jpeg_ok (drop_jobs i ob)"
  using ok_less_jobs [of ob "remove_session_jobs i (job_queue ob)" "remove_session_jobs i (ongoing_job_q ob)" "job_sem ob"]
  by (auto simp: drop_jobs_def remove_session_jobs_filter)

lemma job_ok_session: "job_ok ob n \<Longrightarrow> \<exists>k. k \<in> actives ob \<and> enc_session_id n = session_id_of k"
  by (cases n) (auto simp: actives_def)

text \<open>Giving up a session without jobs, with its component or without.\<close>

lemma ok_deactivate:
  assumes "jpeg_ok ob" "k \<in> actives ob" "\<And>n. n \<in> set (job_queue ob) \<union> set (ongoing_job_q ob) \<Longrightarrow> enc_session_id n \<noteq> session_id_of k"
    "ob' = upd_sess k (\<lambda>s. s\<lparr>js_active := False\<rparr>) v" "v = ob \<or> v = upd_sess k (\<lambda>s. s\<lparr>omx_handle := 0\<rparr>) (OMX_FreeHandle (omx_handle (sess k ob)) ob)"
  shows "jpeg_ok ob' \<and> actives ob' = actives ob - {k}"
proof
  note ok = jpeg_okD [OF assms(1)]
  have k: "in_range k" "session_ok k ob" using assms(2) ok(8) by (simp_all add: actives_def)
  have v: "shape v" "sess k v = sess k ob \<or> sess k v = (sess k ob)\<lparr>omx_handle := 0\<rparr>" "\<And>j. j \<noteq> k \<Longrightarrow> sess j v = sess j ob"
      "job_queue v = job_queue ob" "ongoing_job_q v = ongoing_job_q ob" "j_decoder v = j_decoder ob" "j_bad v = j_bad ob" "j_next v = j_next ob"
      "j_live ob - {omx_handle (sess k ob)} \<subseteq> j_live v" "j_live v \<subseteq> j_live ob" "\<And>c. jc_is_used (clnt_mgr v ! c) = jc_is_used (clnt_mgr ob ! c)"
    using assms(5) ok(2) k by (auto simp: OMX_FreeHandle_def sess_upd session_ok_def)
  have s: "sess j ob' = (if j = k then (sess k v)\<lparr>js_active := False\<rparr> else sess j ob)" for j
    using v(3) by (simp add: assms(4) sess_upd v(1) k(1))
  show a: "actives ob' = actives ob - {k}" by (auto simp: actives_def s)
  show "jpeg_ok ob'"
  proof (rule jpeg_okI)
    have "js_obj (sess j ob') = js_obj (sess j ob)" "js_params (sess j ob') = js_params (sess j ob)"
        "js_dec_params (sess j ob') = js_dec_params (sess j ob)" "js_encoding (sess j ob') = js_encoding (sess j ob)" for j
      using v(2) by (auto simp: s)
    then show "sound ob'" using ok(1) v(1) assms(4) by (simp add: sound_def idle_unmade_def)
    show "job_ok ob' n" if "n \<in> set (job_queue ob') \<union> set (ongoing_job_q ob')" for n
    proof -
      have n: "n \<in> set (job_queue ob) \<union> set (ongoing_job_q ob)" using that v(4,5) by (simp add: assms(4))
      then have jn: "job_ok ob n" using ok(6,7) by blast
      obtain j i c where e: "n = Encode_node j i c" using jn by (cases n) auto
      then show ?thesis using jn assms(3) [OF n] by (auto simp: s)
    qed
    show "session_ok j ob'" if "j \<in> actives ob'" for j
    proof -
      have j: "j \<noteq> k" "j \<in> actives ob" "session_ok j ob" using that a ok(8) by auto
      then have "omx_handle (sess j ob) \<noteq> omx_handle (sess k ob)" using ok(9) assms(2) by (auto simp: inj_on_def)
      then show ?thesis using j(1,3) v(9,11) by (auto simp: session_ok_def s) (auto simp: assms(4))
    qed
    show "inj_on (\<lambda>j. omx_handle (sess j ob')) (actives ob')"
      unfolding a using ok(9) by (auto simp: inj_on_def s)
    show "h < j_next ob'" if "h \<in> j_live ob'" for h using that v(8,10) ok(10) by (auto simp: assms(4))
  qed (use ok v in \<open>simp_all add: assms(4)\<close>)
qed

lemma dropped:
  assumes "jpeg_ok ob" "k \<in> actives ob" "mm_jpeg_session_abort e k (drop_jobs (session_id_of k) ob) = Some (v, b)"
  shows "jpeg_ok v \<and> k \<in> actives v \<and> quiet (drop_jobs (session_id_of k) ob) v \<and>
    (\<forall>n \<in> set (job_queue v) \<union> set (ongoing_job_q v). enc_session_id n \<noteq> session_id_of k)"
proof -
  let ?d = "drop_jobs (session_id_of k) ob"
  have ok: "jpeg_ok ?d" by (rule drop_jobs_ok [OF assms(1)])
  have "actives ?d = actives ob" by (rule actives_cong) (simp add: drop_jobs_def)
  then have k: "k \<in> actives ?d" using assms(2) by simp
  have q: "quiet ?d v" by (rule quiet_abort [OF active_ready [OF ok k] assms(3)])
  have "\<forall>n \<in> set (job_queue ?d) \<union> set (ongoing_job_q ?d). enc_session_id n \<noteq> session_id_of k"
    by (auto simp: drop_jobs_def remove_session_jobs_filter)
  then show ?thesis using ok_quiet [OF q ok] quiet_actives [OF q] k q quietD(1,7) [OF q] by (auto simp: same_owner_def)
qed

lemma destroy_ok:
  assumes "jpeg_ok ob" "k \<in> actives ob" "mm_jpeg_destroy_session_by_id e (session_id_of k) ob = Some (ob', r)"
  shows "jpeg_ok ob' \<and> (announced ob \<longrightarrow> announced ob') \<and> actives ob' = actives ob - {k} \<and> same_clients ob ob'"
proof -
  have k: "in_range k" "js_sessionId (sess k ob) = session_id_of k" using assms(2) jpeg_okD(8) [OF assms(1,2)] by (simp_all add: actives_def session_ok_def)
  obtain v b w where v: "mm_jpeg_session_abort e k (drop_jobs (session_id_of k) ob) = Some (v, b)"
      and w: "mm_jpeg_session_destroy e k v = Some w"
      and ob': "ob' = (upd_sess k (\<lambda>s. s\<lparr>js_active := False\<rparr>) w)\<lparr>job_sem := job_sem w + 1\<rparr>"
    using assms(3) k by (auto simp: mm_jpeg_destroy_session_by_id_def mm_jpeg_destroy_session_def bind_Some_iff Let_def remove_session_idx_of)
  note d = dropped [OF assms(1,2) v]
  have okv: "jpeg_ok v" "k \<in> actives v" using d by simp_all
  have "omx_handle (sess k v) \<noteq> 0" using jpeg_okD(8) [OF okv] by (simp add: session_ok_def)
  then obtain x where x: "quiet v x" "w = upd_sess k (\<lambda>s. s\<lparr>omx_handle := 0\<rparr>) (OMX_FreeHandle (omx_handle (sess k v)) x)"
    using session_destroyed [OF active_ready [OF okv] _ w] by blast
  have okx: "jpeg_ok x" "k \<in> actives x" using ok_quiet [OF x(1) okv(1)] quiet_actives [OF x(1)] okv(2) by simp_all
  have hx: "omx_handle (sess k x) = omx_handle (sess k v)" by (rule kept_eqD(7) [OF quietD(4) [OF x(1) k(1)]])
  have "jpeg_ok (upd_sess k (\<lambda>s. s\<lparr>js_active := False\<rparr>) w) \<and> actives (upd_sess k (\<lambda>s. s\<lparr>js_active := False\<rparr>) w) = actives x - {k}"
    by (rule ok_deactivate [OF okx _ refl]) (use d quietD(1,7) [OF x(1)] x(2) hx in \<open>auto simp: same_owner_def\<close>)
  then have a: "jpeg_ok ob'" "actives ob' = actives x - {k}"
    using ok_sem actives_cong [of ob' "upd_sess k (\<lambda>s. s\<lparr>js_active := False\<rparr>) w"] by (simp_all add: ob')
  have "actives x = actives ob"
    using quiet_actives [OF x(1)] quiet_actives [of "drop_jobs (session_id_of k) ob" v] d actives_cong [of "drop_jobs (session_id_of k) ob" ob]
    by (simp add: drop_jobs_def)
  moreover have "same_clients ob ob'"
    using quiet_clients [OF x(1)] quiet_clients [of "drop_jobs (session_id_of k) ob" v] d
    by (simp add: ob' x(2)) (simp add: same_clients_def drop_jobs_def)
  ultimately show ?thesis using a by (simp add: announced_def ob' same_clients_def)
qed

lemma unlocked_ok:
  assumes "jpeg_ok ob" "k \<in> actives ob" "mm_jpeg_destroy_session_unlocked e k ob = Some ob'"
  shows "jpeg_ok ob' \<and> actives ob' = actives ob - {k} \<and> same_clients ob ob'"
proof -
  have k: "in_range k" "js_sessionId (sess k ob) = session_id_of k" using assms(2) jpeg_okD(8) [OF assms(1,2)] by (simp_all add: actives_def session_ok_def)
  obtain v b where v: "mm_jpeg_session_abort e k (drop_jobs (session_id_of k) ob) = Some (v, b)"
      and ob': "ob' = upd_sess k (\<lambda>s. s\<lparr>js_active := False\<rparr>) v"
    using assms(3) k by (auto simp: mm_jpeg_destroy_session_unlocked_def bind_Some_iff Let_def remove_session_idx_of)
  note d = dropped [OF assms(1,2) v]
  have "actives v = actives ob"
    using quiet_actives [of "drop_jobs (session_id_of k) ob" v] d actives_cong [of "drop_jobs (session_id_of k) ob" ob] by (simp add: drop_jobs_def)
  moreover have "jpeg_ok ob' \<and> actives ob' = actives v - {k}" by (rule ok_deactivate [OF _ _ _ ob']) (use d in auto)
  moreover have "same_clients ob v" using quiet_clients [of "drop_jobs (session_id_of k) ob" v] d by (simp add: same_clients_def drop_jobs_def)
  ultimately show ?thesis by (simp add: ob')
qed

lemma close_sessions_ok:
  assumes "jpeg_ok ob" "c < MAX_JPEG_CLIENT_NUM" "\<forall>i \<in> set is. i < MM_JPEG_MAX_SESSION" "close_sessions e c is ob = Some ob'"
  shows "jpeg_ok ob' \<and> actives ob' = actives ob - Pair c ` set is \<and> same_clients ob ob'"
  using assms
proof (induction "is" arbitrary: ob)
  case (Cons i "is")
  have r: "in_range (c, i)" using Cons.prems by (simp add: in_range_def)
  obtain v where v: "(if js_active (sess (c, i) ob) then mm_jpeg_destroy_session_unlocked e (c, i) ob else Some ob) = Some v"
      "close_sessions e c is v = Some ob'" using Cons.prems(4) by (auto simp: bind_Some_iff)
  have o: "jpeg_ok v \<and> actives v = actives ob - {(c, i)} \<and> same_clients ob v"
  proof (cases "js_active (sess (c, i) ob)")
    case True
    then show ?thesis using unlocked_ok [OF Cons.prems(1), of "(c, i)" e v] v(1) r by (simp add: actives_def)
  qed (use v(1) Cons.prems(1) in \<open>auto simp: actives_def\<close>)
  from Cons.IH [OF _ Cons.prems(2) _ v(2)] o Cons.prems(3) show ?case by (auto intro: same_clients_trans)
qed simp

lemma shape_client: "shape ob \<Longrightarrow> length (jc_session c') = MM_JPEG_MAX_SESSION \<Longrightarrow> shape (ob\<lparr>clnt_mgr := (clnt_mgr ob)[c := c']\<rparr>)"
  by (auto simp: shape_def dest!: set_update_subset_insert [THEN subsetD])

lemma sess_client:
  "shape ob \<Longrightarrow> c < MAX_JPEG_CLIENT_NUM \<Longrightarrow> in_range j \<Longrightarrow> jc_session c' = replicate MM_JPEG_MAX_SESSION jpeg_session_zero \<Longrightarrow>
     sess j (ob\<lparr>clnt_mgr := (clnt_mgr ob)[c := c']\<rparr>) = (if fst j = c then jpeg_session_zero else sess j ob)"
  by (simp add: sess_def shape_def nth_list_update in_range_def)

text \<open>A client whose sessions are inactive may be replaced by one with cleared sessions.\<close>

lemma ok_client:
  assumes "jpeg_ok ob" "c < MAX_JPEG_CLIENT_NUM" "\<forall>k \<in> actives ob. fst k \<noteq> c" "jc_session c' = replicate MM_JPEG_MAX_SESSION jpeg_session_zero"
  shows "jpeg_ok (ob\<lparr>clnt_mgr := (clnt_mgr ob)[c := c'], num_clients := n\<rparr>)" (is "jpeg_ok ?ob")
proof (rule jpeg_okI)
  note ok = jpeg_okD [OF assms(1)]
  note s = sess_client [OF ok(2) assms(2) _ assms(4)]
  have z: "\<not> js_active jpeg_session_zero" by (simp add: jpeg_session_zero_def)
  have a: "actives ?ob = actives ob" using assms(3) z by (auto simp: actives_def s split: if_splits)
  have sa: "sess j ?ob = sess j ob" if "j \<in> actives ob" for j using assms(3) that s [of j] by (simp add: actives_def)
  have "shape (ob\<lparr>clnt_mgr := (clnt_mgr ob)[c := c']\<rparr>)" using ok(2) by (rule shape_client) (simp add: assms(4))
  moreover have "idle_unmade ?ob" using ok(1) by (simp add: sound_def idle_unmade_def s) (simp add: jpeg_session_zero_def)
  ultimately show "sound ?ob" by (simp add: sound_def shape_def)
  show "job_ok ?ob n" if "n \<in> set (job_queue ?ob) \<union> set (ongoing_job_q ?ob)" for n
    using that job_ok_actives [OF ok(6), of n] job_ok_actives [OF ok(7), of n] a by auto
  show "session_ok j ?ob" if "j \<in> actives ?ob" for j
    using ok(8) [of j] that a sa [of j] bspec [OF assms(3), of j] by (simp add: session_ok_def)
  show "inj_on (\<lambda>j. omx_handle (sess j ?ob)) (actives ?ob)" unfolding a using ok(9) sa by (simp add: inj_on_def)
qed (use jpeg_okD [OF assms(1)] in simp_all)

lemma close_ok:
  assumes "jpeg_ok ob" "mm_jpeg_close e h ob = Some (ob', r)"
  shows "jpeg_ok ob' \<and> num_clients ob' = num_clients ob \<and> used ob' = used ob - {unat (mm_jpeg_util_get_index_by_handler h)}"
proof (cases "unat (mm_jpeg_util_get_index_by_handler h) < MAX_JPEG_CLIENT_NUM")
  case True
  let ?c = "unat (mm_jpeg_util_get_index_by_handler h)"
  obtain v where v: "close_sessions e ?c [0..<MM_JPEG_MAX_SESSION] ob = Some v" "ob' = v\<lparr>clnt_mgr := (clnt_mgr v)[?c := jpeg_client_zero]\<rparr>"
    using assms(2) True by (auto simp: mm_jpeg_close_def Let_def bind_Some_iff)
  have o: "jpeg_ok v" "actives v = actives ob - Pair ?c ` {0..<MM_JPEG_MAX_SESSION}" "same_clients ob v"
    using close_sessions_ok [OF assms(1) True _ v(1)] by simp_all
  have "\<forall>k \<in> actives v. fst k \<noteq> ?c" using o(2) by (auto simp: actives_def in_range_def image_iff)
  from ok_client [OF o(1) True this, of jpeg_client_zero "num_clients v"] have "jpeg_ok ob'"
    by (simp add: v(2) jpeg_client_zero_def)
  moreover have "used ob' = used v - {?c}"
    using jpeg_okD(2) [OF o(1)] True by (auto simp: v(2) used_def nth_list_update shape_def jpeg_client_zero_def split: if_splits)
  moreover have "num_clients ob' = num_clients ob" using o(3) by (simp add: v(2) same_clients_def)
  ultimately show ?thesis using used_same [OF o(3)] by simp
qed (use assms in \<open>auto simp: mm_jpeg_close_def not_less used_def\<close>)

lemma new_client_ok:
  assumes "jpeg_ok ob" "mm_jpeg_new_client cnt ob = (cnt', ob', h)"
  shows "jpeg_ok ob' \<and> (announced ob \<longrightarrow> announced ob')"
proof (cases "ob' = ob")
  case False
  then obtain c cs where c: "filter (\<lambda>i. \<not> jc_is_used (clnt_mgr ob ! i)) [0..<MAX_JPEG_CLIENT_NUM] = c # cs"
      and ob': "ob' = ob\<lparr>clnt_mgr := (clnt_mgr ob)[c := jpeg_client_zero\<lparr>jc_is_used := True, jc_handle := h\<rparr>], num_clients := num_clients ob + 1\<rparr>"
    using assms(2) by (auto simp: mm_jpeg_new_client_def Let_def split: if_splits list.splits prod.splits)
  have cc: "c < MAX_JPEG_CLIENT_NUM" "\<not> jc_is_used (clnt_mgr ob ! c)"
    using arg_cong [OF c, of set] by auto
  have "\<forall>k \<in> actives ob. fst k \<noteq> c" using jpeg_okD(8) [OF assms(1)] cc(2) by (auto simp: session_ok_def)
  from ok_client [OF assms(1) cc(1) this] show ?thesis by (simp add: ob' jpeg_client_zero_def announced_def)
qed (use assms in simp)

text \<open>A new session: until it is made, its slot is active and nothing else.\<close>

definition taken_slot :: "jpeg_session \<Rightarrow> jpeg_session" where
  "taken_slot s = s\<lparr>js_active := True, state_change_pending := False, abort_state := MM_JPEG_ABORT_NONE, error_flag := OMX_ErrorNone,
     ebd_count := 0, fbd_count := 0, js_config := False, exif_count_local := 0\<rparr>"

lemma sound_upd:
  assumes "sound ob" "in_range k" "js_obj (sess k ob) \<Longrightarrow> js_obj (f (sess k ob))"
    "\<not> js_obj (f (sess k ob)) \<Longrightarrow> js_params (f (sess k ob)) = js_params (sess k ob) \<and> js_dec_params (f (sess k ob)) = js_dec_params (sess k ob) \<and>
      js_encoding (f (sess k ob)) = js_encoding (sess k ob)"
  shows "sound (upd_sess k f ob)"
  using assms unfolding sound_def idle_unmade_def by (auto simp: sess_upd)

lemma upd_sess_twice: "shape ob \<Longrightarrow> in_range k \<Longrightarrow> upd_sess k g (upd_sess k f ob) = upd_sess k (\<lambda>s. g (f s)) ob"
  by (simp add: upd_sess_def sess_def shape_def in_range_def)

text \<open>Only one session changed, and it is active only if it is in order.\<close>

lemma ok_session_change:
  assumes "jpeg_ok ob" "sound ob'" "in_range k" "\<And>j. in_range j \<Longrightarrow> j \<noteq> k \<Longrightarrow> kept (sess j ob') = kept (sess j ob)" "k \<notin> actives ob"
    "js_active (sess k ob') \<Longrightarrow> session_ok k ob' \<and> omx_handle (sess k ob') \<notin> j_live ob"
    "job_queue ob' = job_queue ob" "set (ongoing_job_q ob') \<subseteq> set (ongoing_job_q ob)" "length (ongoing_job_q ob') \<le> length (ongoing_job_q ob)"
    "j_live ob \<subseteq> j_live ob'" "\<And>h. h \<in> j_live ob' \<Longrightarrow> h < j_next ob'" "0 < j_next ob'" "j_bad ob' = j_bad ob" "j_decoder ob' = j_decoder ob"
    "same_clients ob ob'"
  shows "jpeg_ok ob'"
proof (rule jpeg_okI)
  note ok = jpeg_okD [OF assms(1)]
  have j: "j \<noteq> k \<and> in_range j \<and> kept (sess j ob') = kept (sess j ob)" if "j \<in> actives ob" for j
    using that assms(4) [of j] assms(5) by (cases "j = k") (simp_all add: actives_def)
  have act: "js_active (sess j ob') = js_active (sess j ob)" if "in_range j" "j \<noteq> k" for j
    by (rule kept_eqD(8) [OF assms(4) [OF that]])
  have sub: "actives ob \<subseteq> actives ob'" using j act by (auto simp: actives_def)
  have old: "j \<in> actives ob" if "j \<in> actives ob'" "j \<noteq> k" for j
    using that act [OF _ that(2)] by (simp add: actives_def)
  show "job_ok ob' n" if "n \<in> set (job_queue ob') \<union> set (ongoing_job_q ob')" for n
    using that job_ok_actives [OF ok(6) sub, of n] job_ok_actives [OF ok(7) sub, of n] assms(7,8) by auto
  show "session_ok j ob'" if "j \<in> actives ob'" for j
  proof (cases "j = k")
    case True
    then show ?thesis using that assms(6) by (simp add: actives_def)
  next
    case False
    note q = old [OF that False]
    note e = kept_eqD [OF conjunct2 [OF conjunct2 [OF j [OF q]]]]
    show ?thesis using ok(8) [OF q] j [OF q] assms(10,15) unfolding session_ok_def e by (auto simp: in_range_def same_clients_def)
  qed
  have h: "omx_handle (sess j ob') = omx_handle (sess j ob)" "omx_handle (sess j ob) \<in> j_live ob" if "j \<in> actives ob" for j
    using kept_eqD(7) [OF conjunct2 [OF conjunct2 [OF j [OF that]]]] ok(8) [OF that] by (simp_all add: session_ok_def)
  show "inj_on (\<lambda>j. omx_handle (sess j ob')) (actives ob')"
  proof (rule inj_onI)
    fix x y assume xy: "x \<in> actives ob'" "y \<in> actives ob'" "omx_handle (sess x ob') = omx_handle (sess y ob')"
    have n: False if "u = k" "v \<noteq> k" "u \<in> actives ob'" "v \<in> actives ob'" "omx_handle (sess u ob') = omx_handle (sess v ob')" for u v
      using that assms(6) h [OF old [OF that(4,2)]] by (simp add: actives_def)
    show "x = y"
    proof (cases "x = k \<or> y = k")
      case False
      then have "x \<in> actives ob" "y \<in> actives ob" using old xy by simp_all
      then show ?thesis using xy(3) h ok(9) by (simp add: inj_on_def)
    next
      case True
      then show ?thesis using n [of x y] n [of y x] xy by argo
    qed
  qed
qed (use assms jpeg_okD [OF assms(1)] in simp_all)

lemma create_ok:
  assumes "jpeg_ok ob" "c < MAX_JPEG_CLIENT_NUM" "jc_is_used (clnt_mgr ob ! c)" "mm_jpeg_util_get_index_by_handler h = of_nat c"
    "unat (num_tmb_bufs p) \<le> MM_JPEG_MAX_BUF" "mm_jpeg_create_session e h p ob = (ob', r)"
  shows "jpeg_ok ob' \<and> (announced ob \<longrightarrow> announced ob') \<and> same_clients ob ob'"
proof (cases "ob' = ob")
  case False
  note ok = jpeg_okD [OF assms(1)]
  have cidx: "unat (mm_jpeg_util_get_index_by_handler h) = c" using assms(2,4) by (simp add: MAX_JPEG_CLIENT_NUM_def unat_of_nat)
  obtain i cs where free: "filter (\<lambda>i. \<not> js_active (sess (c, i) ob)) [0..<MM_JPEG_MAX_SESSION] = i # cs"
      and bufs: "unat (num_src_bufs p) \<le> MM_JPEG_MAX_BUF" "unat (num_dst_bufs p) \<le> MM_JPEG_MAX_BUF"
    using assms(6) False by (auto simp: mm_jpeg_create_session_def cidx Let_def mm_jpeg_get_new_session_idx_def not_less split: if_splits list.splits)
  define k where "k = (c, i)"
  have k: "in_range k" "k \<notin> actives ob"
    using arg_cong [OF free, of set] assms(2) by (auto simp: k_def in_range_def actives_def)
  define a where "a = upd_sess k taken_slot ob"
  have a': "upd_sess k (\<lambda>s. s\<lparr>state_change_pending := False, abort_state := MM_JPEG_ABORT_NONE, error_flag := OMX_ErrorNone, ebd_count := 0,
      fbd_count := 0, js_config := False, exif_count_local := 0\<rparr>) (upd_sess k (\<lambda>s. s\<lparr>js_active := True\<rparr>) ob) = a"
    using ok(2) k(1) unfolding a_def by (simp add: upd_sess_twice taken_slot_def [abs_def])
  define g where "g = jpeg_call (Get_handle (j_next ob)) a"
  define y where "y = upd_sess k (\<lambda>s. s\<lparr>omx_handle := j_next ob\<rparr>) (g\<lparr>j_live := insert (j_next ob) (j_live g), j_next := j_next ob + 1\<rparr>)"
  define x where "x = callbacks_after e None y"
  have na: "j_next a = j_next ob" by (simp add: a_def)
  have out: "ob' = upd_sess k (\<lambda>s. s\<lparr>js_active := False\<rparr>) g \<or>
      ob' = upd_sess k (\<lambda>s. s\<lparr>js_params := p, js_client_hdl := h, js_sessionId := session_id_of k, js_obj := True\<rparr>) x"
    using assms(6) bufs assms(2) free
    by (auto simp: mm_jpeg_create_session_def cidx Let_def mm_jpeg_get_new_session_idx_def mm_jpeg_session_create_def OMX_GetHandle_def
      k_def [symmetric] a' na x_def y_def g_def split: if_splits)
  have sa: "sound g" "sess k g = taken_slot (sess k ob)" "\<And>j. j \<noteq> k \<Longrightarrow> sess j g = sess j ob"
    using sound_upd [OF ok(1) k(1), of taken_slot] ok(2) k(1) by (simp_all add: g_def a_def taken_slot_def sess_upd_same sess_upd_other)
  have fg: "job_queue g = job_queue ob" "ongoing_job_q g = ongoing_job_q ob" "j_live g = j_live ob" "j_next g = j_next ob" "j_bad g = j_bad ob"
      "j_decoder g = j_decoder ob" "same_clients ob g" "job_sem g = job_sem ob"
    by (simp_all add: g_def a_def same_clients_def)
  from out show ?thesis
  proof
    assume ob': "ob' = upd_sess k (\<lambda>s. s\<lparr>js_active := False\<rparr>) g"
    have "jpeg_ok ob'"
      by (rule ok_session_change [OF assms(1) _ k(1) _ k(2)])
        (use sa fg ok k(1) in \<open>auto simp: ob' sess_upd_other sess_upd_same sound_def [of g] intro: sound_upd\<close>)
    then show ?thesis using fg by (simp add: ob' announced_def same_clients_def)
  next
    assume ob': "ob' = upd_sess k (\<lambda>s. s\<lparr>js_params := p, js_client_hdl := h, js_sessionId := session_id_of k, js_obj := True\<rparr>) x"
    let ?g = "g\<lparr>j_live := insert (j_next ob) (j_live g), j_next := j_next ob + 1\<rparr>"
    have sg: "sound ?g" using sa(1) by (simp add: sound_def idle_unmade_def)
    have sy: "sound y" unfolding y_def by (rule sound_upd [OF sg k(1)]) simp_all
    have q: "quiet y x" unfolding x_def by (rule quiet_callbacks_after [OF sy])
    have y: "sess k y = (taken_slot (sess k ob))\<lparr>omx_handle := j_next ob\<rparr>" "\<And>j. j \<noteq> k \<Longrightarrow> sess j y = sess j ob"
        "j_live y = insert (j_next ob) (j_live ob)" "j_next y = j_next ob + 1" "job_queue y = job_queue ob" "ongoing_job_q y = ongoing_job_q ob"
        "j_bad y = j_bad ob" "j_decoder y = j_decoder ob" "same_clients ob y" "job_sem y = job_sem ob"
      using sg sa fg k(1) by (simp_all add: y_def sess_upd_same sess_upd_other sound_def same_clients_def)
    have x: "sound x" "shape x" "j_live x = j_live y" "j_next x = j_next y" "job_queue x = job_queue y" "j_decoder x = j_decoder y"
        "same_clients y x" "jm_running x = jm_running y"
      using quiet_sound [OF q] quietD(1,2) [OF q] quiet_clients [OF q] by (simp_all add: same_owner_def)
    have hk: "omx_handle (sess k x) = j_next ob" using kept_eqD(7) [OF quietD(4) [OF q k(1)]] y(1) by simp
    have cl: "same_clients ob x" by (rule same_clients_trans [OF y(9) x(7)])
    have s: "sess k ob' = (sess k x)\<lparr>js_params := p, js_client_hdl := h, js_sessionId := session_id_of k, js_obj := True\<rparr>"
        "\<And>j. j \<noteq> k \<Longrightarrow> sess j ob' = sess j x"
      using x(2) k(1) by (simp_all add: ob' sess_upd_same sess_upd_other)
    have "jpeg_ok ob'"
    proof (rule ok_session_change [OF assms(1) _ k(1) _ k(2)])
      show "sound ob'" unfolding ob' by (rule sound_upd [OF x(1) k(1)]) simp_all
      show "kept (sess j ob') = kept (sess j ob)" if "in_range j" "j \<noteq> k" for j using quietD(4) [OF q that(1)] y(2) [OF that(2)] s(2) [OF that(2)] by simp
      have "jc_is_used (clnt_mgr ob' ! fst k)" using cl assms(2,3) by (simp add: ob' same_clients_def k_def)
      then show "session_ok k ob' \<and> omx_handle (sess k ob') \<notin> j_live ob"
        using s(1) hk ok(10,11) x(3) y(3) bufs assms(5) by (auto simp: session_ok_def ob')
      show "h < j_next ob'" if "h \<in> j_live ob'" for h using that x(3,4) y(3,4) ok(10) [of h] by (auto simp: ob')
    qed (use x y quietD(5-8) [OF q] cl in \<open>auto simp: ob'\<close>)
    moreover have "announced y = announced ob" using y by (simp add: announced_def same_clients_def)
    then have "announced ob \<longrightarrow> announced ob'" using announced_quiet [OF q] by (simp add: announced_def ob')
    ultimately show ?thesis using cl by (simp add: ob')
  qed
qed (use assms(1) in simp)

section \<open>The system\<close>

text \<open>What the clients do through the interface, a turn of the job manager, and callbacks that run between the two.\<close>

datatype jpeg_action = A_open bool | A_create u32 "mm_jpeg_encode_params option" | A_start "mm_jpeg_encode_job option" | A_abort u32
  | A_destroy u32 | A_close u32 | A_turn | A_callbacks "(slot \<times> omx_callback) list"

definition jpeg_do :: "jpeg_env \<Rightarrow> jpeg_action \<Rightarrow> jpeg_lib \<Rightarrow> jpeg_lib option" where
  "jpeg_do e a l = (case a of
     A_open got \<Rightarrow> map_option fst (jpeg_open e got l)
   | A_create h p \<Rightarrow> Some (fst (mm_jpeg_intf_create_session e h p l))
   | A_start j \<Rightarrow> Some (fst (mm_jpeg_intf_start_job e j l))
   | A_abort i \<Rightarrow> map_option fst (mm_jpeg_intf_abort_job e i l)
   | A_destroy i \<Rightarrow> map_option fst (mm_jpeg_intf_destroy_session e i l)
   | A_close h \<Rightarrow> map_option fst (mm_jpeg_intf_close e h l)
   | A_turn \<Rightarrow> (case g_jpeg_obj l of
       None \<Rightarrow> None
     | Some ob \<Rightarrow> if jm_running ob \<and> 0 < job_sem ob then map_option (\<lambda>ob. l\<lparr>g_jpeg_obj := Some ob\<rparr>) (mm_jpeg_jobmgr_turn e ob) else None)
   | A_callbacks cs \<Rightarrow> Some (l\<lparr>g_jpeg_obj := map_option (\<lambda>ob. fst (run_callbacks cs ob)) (g_jpeg_obj l)\<rparr>))"

text \<open>What the interface expects of its clients and does not check: handles of open clients, identifiers of sessions that
  were not destroyed, and thumbnails within the arrays.\<close>

definition open_handle :: "u32 \<Rightarrow> jpeg_obj \<Rightarrow> bool" where
  "open_handle h ob \<longleftrightarrow> (\<exists>c \<in> used ob. mm_jpeg_util_get_index_by_handler h = of_nat c \<and> jc_handle (clnt_mgr ob ! c) = h)"

fun expected :: "jpeg_obj \<Rightarrow> jpeg_action \<Rightarrow> bool" where
  "expected ob (A_create h p) \<longleftrightarrow> open_handle h ob \<and> (\<forall>p'. p = Some p' \<longrightarrow> unat (num_tmb_bufs p') \<le> MM_JPEG_MAX_BUF)"
| "expected ob (A_start j) \<longleftrightarrow> (\<forall>j'. j = Some j' \<longrightarrow> (\<exists>k. in_range k \<and> je_session_id j' = session_id_of k) \<and> encode_bounds j')"
| "expected ob (A_destroy i) \<longleftrightarrow> (\<exists>k \<in> actives ob. i = session_id_of k)"
| "expected ob (A_close h) \<longleftrightarrow> open_handle h ob"
| "expected ob _ \<longleftrightarrow> True"

inductive jpeg_reach :: "jpeg_env \<Rightarrow> (jpeg_action \<Rightarrow> bool) \<Rightarrow> jpeg_lib \<Rightarrow> bool" for e A where
  start: "jpeg_reach e A jpeg_lib_start"
| step: "jpeg_reach e A l \<Longrightarrow> A a \<Longrightarrow> (\<And>ob. g_jpeg_obj l = Some ob \<Longrightarrow> expected ob a) \<Longrightarrow> jpeg_do e a l = Some l' \<Longrightarrow> jpeg_reach e A l'"

definition omx_loads :: "jpeg_env \<Rightarrow> bool" where
  "omx_loads e \<longleftrightarrow> (\<forall>t. je_ret e t Omx_init = OMX_ErrorNone)"

definition counted :: "jpeg_obj \<Rightarrow> bool" where
  "counted ob \<longleftrightarrow> num_clients ob = of_nat (card (used ob)) \<and> used ob \<noteq> {}"

definition lib_ok :: "jpeg_lib \<Rightarrow> bool" where
  "lib_ok l \<longleftrightarrow> (\<forall>ob. g_jpeg_obj l = Some ob \<longrightarrow> jpeg_ok ob \<and> counted ob)"

lemma counted_same: "same_clients ob ob' \<Longrightarrow> counted ob \<Longrightarrow> counted ob'"
  by (simp add: counted_def used_same) (simp add: same_clients_def)

lemma used_bounds: "finite (used ob)" "card (used ob) \<le> 8"
proof -
  have s: "used ob \<subseteq> {..<8}" by (auto simp: used_def MAX_JPEG_CLIENT_NUM_def)
  then show "finite (used ob)" by (rule finite_subset) simp
  show "card (used ob) \<le> 8" using card_mono [OF _ s] by simp
qed

text \<open>The first client makes the object.\<close>

lemma jpeg_ok_new: "jpeg_ok (mm_jpeg_jobmgr_thread_launch (jpeg_obj_zero False))" (is "jpeg_ok ?ob")
proof (rule jpeg_okI)
  have s: "sess k ?ob = jpeg_session_zero" if "in_range k" for k
    using that by (simp add: sess_def jpeg_obj_zero_def mm_jpeg_jobmgr_thread_launch_def jpeg_client_zero_def in_range_def)
  have n: "actives ?ob = {}" using s by (auto simp: actives_def jpeg_session_zero_def)
  have "shape ?ob" by (simp add: shape_def jpeg_obj_zero_def mm_jpeg_jobmgr_thread_launch_def jpeg_client_zero_def)
  moreover have "idle_unmade ?ob" by (simp add: idle_unmade_def s jpeg_session_zero_def)
  ultimately show "sound ?ob" by (simp add: sound_def)
  show "session_ok k ?ob" if "k \<in> actives ?ob" for k using that n by simp
  show "inj_on (\<lambda>k. omx_handle (sess k ?ob)) (actives ?ob)" using n by simp
qed (simp_all add: jpeg_obj_zero_def mm_jpeg_jobmgr_thread_launch_def)

lemma init_ok:
  assumes "omx_loads e" "mm_jpeg_init e (jpeg_obj_zero False) = Some (ob, 0)"
  shows "jpeg_ok ob \<and> announced ob \<and> num_clients ob = 0 \<and> used ob = {}"
proof -
  let ?n = "mm_jpeg_jobmgr_thread_launch (jpeg_obj_zero False)"
  have z: "(jpeg_obj_zero False)\<lparr>ongoing_job_q := []\<rparr> = jpeg_obj_zero False" by (simp add: jpeg_obj_zero_def)
  have ob: "ob = jpeg_call Omx_init (jpeg_call Alloc_ion ?n)"
    using assms by (auto simp: mm_jpeg_init_def z call_ok_def Let_def omx_loads_def bind_Some_iff split: if_splits)
  have "jpeg_ok ?n" by (rule jpeg_ok_new)
  then have "jpeg_ok ob" using ok_quiet [OF quiet_call] jpeg_okD(1) unfolding ob by blast
  then show ?thesis
    by (simp add: ob announced_def used_def) (simp add: mm_jpeg_jobmgr_thread_launch_def jpeg_obj_zero_def jpeg_client_zero_def)
qed

lemma handle_positive: "mm_jpeg_util_generate_handler cnt i = (cnt', h) \<Longrightarrow> 0 < h"
proof -
  assume a: "mm_jpeg_util_generate_handler cnt i = (cnt', h)"
  have "cnt + 1 = 0 \<longrightarrow> cnt + 1 + 1 \<noteq> 0" for cnt :: u16 by simp
  then have c: "cnt' \<noteq> 0" using a by (auto simp: mm_jpeg_util_generate_handler_def Let_def split: if_splits)
  have h: "h = push_bit 8 (ucast cnt') OR ucast i" using a by (auto simp: mm_jpeg_util_generate_handler_def Let_def split: if_splits)
  have "drop_bit 8 h = ucast cnt'" unfolding h by (rule hdl_count)
  moreover have "(ucast cnt' :: u32) \<noteq> 0" using c ucast_u16_inj [of cnt' 0] by simp
  ultimately show "0 < h" by (metis drop_bit_of_0 word_neq_0_conv)
qed

lemma new_client_counted:
  assumes "num_clients ob = of_nat (card (used ob))" "mm_jpeg_new_client cnt ob = (cnt', ob', h)" "used ob \<noteq> {} \<or> 0 < h" "shape ob"
  shows "counted ob'"
proof (cases "ob' = ob")
  case False
  then obtain c cs where c: "filter (\<lambda>i. \<not> jc_is_used (clnt_mgr ob ! i)) [0..<MAX_JPEG_CLIENT_NUM] = c # cs"
      and ob': "ob' = ob\<lparr>clnt_mgr := (clnt_mgr ob)[c := jpeg_client_zero\<lparr>jc_is_used := True, jc_handle := h\<rparr>], num_clients := num_clients ob + 1\<rparr>"
    using assms(2) by (auto simp: mm_jpeg_new_client_def Let_def split: if_splits list.splits prod.splits)
  have cc: "c < MAX_JPEG_CLIENT_NUM" "c \<notin> used ob" using arg_cong [OF c, of set] by (auto simp: used_def)
  have "used ob' = insert c (used ob)" using cc(1) assms(4) by (auto simp: used_def ob' nth_list_update shape_def)
  then show ?thesis using assms(1) cc(2) used_bounds(1) by (simp add: counted_def ob')
next
  case True
  show ?thesis
  proof (cases "used ob = {}")
    case True
    have "filter (\<lambda>i. \<not> jc_is_used (clnt_mgr ob ! i)) [0..<MAX_JPEG_CLIENT_NUM] = [0..<MAX_JPEG_CLIENT_NUM]"
      using True by (auto simp: used_def filter_id_conv)
    then have "num_clients ob' = num_clients ob + 1"
      using assms(1,2) True by (auto simp: mm_jpeg_new_client_def Let_def MAX_JPEG_CLIENT_NUM_def upt_conv_Cons word_sle_eq split: prod.splits)
    then show ?thesis using \<open>ob' = ob\<close> by simp
  qed (use assms(1) \<open>ob' = ob\<close> in \<open>simp add: counted_def\<close>)
qed

text \<open>Every action keeps the object in order, and, except for aborting and closing, every waiting job announced.\<close>

definition lib_announced :: "jpeg_lib \<Rightarrow> bool" where
  "lib_announced l \<longleftrightarrow> (\<forall>ob. g_jpeg_obj l = Some ob \<longrightarrow> announced ob)"

fun announces :: "jpeg_action \<Rightarrow> bool" where
  "announces (A_abort i) \<longleftrightarrow> False"
| "announces (A_close h) \<longleftrightarrow> False"
| "announces _ \<longleftrightarrow> True"

lemma open_ok:
  assumes "omx_loads e" "lib_ok l" "jpeg_open e got l = Some (l', h)"
  shows "lib_ok l' \<and> (lib_announced l \<longrightarrow> lib_announced l')"
proof -
  obtain q where q: "jpeg_object e got l = Some q" using assms(3) by (auto simp: jpeg_open_def bind_Some_iff)
  show ?thesis
  proof (cases q)
    case None
    then show ?thesis using assms q by (auto simp: jpeg_open_def)
  next
    case (Some ob)
    have ob: "jpeg_ok ob" "num_clients ob = of_nat (card (used ob))" "lib_announced l \<longrightarrow> announced ob"
      using q Some init_ok [OF assms(1), of ob] assms(2)
      by (auto simp: jpeg_object_def lib_ok_def counted_def lib_announced_def split: option.splits if_splits)
    obtain cnt ob1 h1 where n: "mm_jpeg_new_client (g_handler_history_count l) ob = (cnt, ob1, h1)" by (metis prod_cases3)
    note new = new_client_ok [OF ob(1) n]
    let ?l = "l\<lparr>g_handler_history_count := cnt, g_jpeg_obj := Some ob1\<rparr>"
    have "l' = ?l \<and> (used ob \<noteq> {} \<or> 0 < h1) \<or> g_jpeg_obj l' = None"
    proof (cases "0 < h1")
      case False
      then have h0: "h1 = 0" using word_gt_0 by blast
      show ?thesis
      proof (cases "num_clients ob1 = 0")
        case nz: False
        have "used ob \<noteq> {}"
        proof
          assume u: "used ob = {}"
          have "filter (\<lambda>i. \<not> jc_is_used (clnt_mgr ob ! i)) [0..<MAX_JPEG_CLIENT_NUM] = [0..<MAX_JPEG_CLIENT_NUM]"
            using u by (auto simp: used_def filter_id_conv)
          then have "0 < h1" using n ob(2) u handle_positive
            by (auto simp: mm_jpeg_new_client_def Let_def MAX_JPEG_CLIENT_NUM_def upt_conv_Cons word_sle_eq split: prod.splits)
          then show False using False by simp
        qed
        then show ?thesis using assms(3) q Some n h0 nz by (simp add: jpeg_open_def)
      qed (use assms(3) q Some n h0 in \<open>auto simp: jpeg_open_def\<close>)
    qed (use assms(3) q Some n in \<open>simp add: jpeg_open_def\<close>)
    moreover have "counted ob1" if "used ob \<noteq> {} \<or> 0 < h1" by (rule new_client_counted [OF ob(2) n that jpeg_okD(2) [OF ob(1)]])
    ultimately show ?thesis using new ob(3) by (elim disjE conjE) (simp_all add: lib_ok_def lib_announced_def)
  qed
qed

lemma action_ok:
  assumes "omx_loads e" "lib_ok l" "\<And>ob. g_jpeg_obj l = Some ob \<Longrightarrow> expected ob a" "jpeg_do e a l = Some l'"
  shows "lib_ok l' \<and> (lib_announced l \<longrightarrow> announces a \<longrightarrow> lib_announced l')"
proof (cases "g_jpeg_obj l")
  case None
  show ?thesis
  proof (cases a)
    case (A_open got)
    then show ?thesis using assms(4) open_ok [OF assms(1,2)] by (auto simp: jpeg_do_def)
  qed (use assms(2,4) None in \<open>auto simp: jpeg_do_def mm_jpeg_intf_create_session_def mm_jpeg_intf_start_job_def mm_jpeg_intf_abort_job_def
    mm_jpeg_intf_destroy_session_def mm_jpeg_intf_close_def lib_ok_def lib_announced_def split: option.splits if_splits\<close>)
next
  case (Some ob)
  have ok: "jpeg_ok ob" "counted ob" using assms(2) Some by (simp_all add: lib_ok_def)
  note ex = assms(3) [OF Some]
  have step: "lib_ok l' \<and> (lib_announced l \<longrightarrow> announces a \<longrightarrow> lib_announced l')"
    if "l' = l \<or> (\<exists>ob'. g_jpeg_obj l' = Some ob' \<and> jpeg_ok ob' \<and> same_clients ob ob' \<and> (announced ob \<longrightarrow> announces a \<longrightarrow> announced ob'))"
    using that Some assms(2) counted_same [OF _ ok(2)] by (auto simp: lib_ok_def lib_announced_def)
  show ?thesis
  proof (cases a)
    case (A_open got)
    then show ?thesis using assms(4) open_ok [OF assms(1,2)] by (auto simp: jpeg_do_def)
  next
    case (A_create h p)
    show ?thesis
    proof (cases "h = 0 \<or> p = None")
      case False
      then obtain p' where p: "p = Some p'" "h \<noteq> 0" by auto
      obtain ob' r where c: "mm_jpeg_create_session e h p' ob = (ob', r)" by fastforce
      obtain i where "i < MAX_JPEG_CLIENT_NUM" "jc_is_used (clnt_mgr ob ! i)" "mm_jpeg_util_get_index_by_handler h = of_nat i"
        using ex A_create by (auto simp: open_handle_def used_def)
      from create_ok [OF ok(1) this _ c] have "jpeg_ok ob' \<and> (announced ob \<longrightarrow> announced ob') \<and> same_clients ob ob'"
        using ex A_create p by simp
      then show ?thesis using assms(4) Some A_create p c by (intro step) (auto simp: jpeg_do_def mm_jpeg_intf_create_session_def)
    qed (use assms(4) A_create in \<open>intro step, auto simp: jpeg_do_def mm_jpeg_intf_create_session_def split: option.splits\<close>)
  next
    case (A_start j)
    show ?thesis
    proof (cases j)
      case (Some j')
      obtain ob' r where c: "mm_jpeg_start_job e j' ob = (ob', r)" by fastforce
      obtain k where "in_range k" "je_session_id j' = session_id_of k" "encode_bounds j'" using ex A_start Some by auto
      from start_ok [OF ok(1) this c] show ?thesis
        using assms(4) \<open>g_jpeg_obj l = Some ob\<close> A_start Some c by (intro step) (auto simp: jpeg_do_def mm_jpeg_intf_start_job_def)
    qed (use assms(4) A_start in \<open>intro step, simp add: jpeg_do_def mm_jpeg_intf_start_job_def\<close>)
  next
    case (A_abort i)
    then have "l' = l \<or> (\<exists>ob' r. mm_jpeg_abort_job e i ob = Some (ob', r) \<and> g_jpeg_obj l' = Some ob')"
      using assms(4) Some by (auto simp: jpeg_do_def mm_jpeg_intf_abort_job_def split: if_splits)
    then show ?thesis using abort_ok [OF ok(1)] A_abort by (intro step) auto
  next
    case (A_destroy i)
    then obtain k where k: "k \<in> actives ob" "i = session_id_of k" using ex by auto
    have "l' = l \<or> (\<exists>ob' r. mm_jpeg_destroy_session_by_id e i ob = Some (ob', r) \<and> g_jpeg_obj l' = Some ob')"
      using assms(4) Some A_destroy by (auto simp: jpeg_do_def mm_jpeg_intf_destroy_session_def split: if_splits)
    then show ?thesis using destroy_ok [OF ok(1) k(1)] k(2) by (intro step) auto
  next
    case (A_close h)
    then obtain c where c: "c \<in> used ob" "mm_jpeg_util_get_index_by_handler h = of_nat c" using ex by (auto simp: open_handle_def)
    have cidx: "unat (mm_jpeg_util_get_index_by_handler h) = c" using c by (simp add: used_def MAX_JPEG_CLIENT_NUM_def unat_of_nat)
    show ?thesis
    proof (cases "h = 0")
      case False
      obtain ob' rc where cl: "mm_jpeg_close e h ob = Some (ob', rc)"
          and l': "g_jpeg_obj l' = None \<or> g_jpeg_obj l' = Some (ob'\<lparr>num_clients := num_clients ob' - 1\<rparr>) \<and> (rc = 0 \<longrightarrow> num_clients ob' \<noteq> 1)"
        using assms(4) Some A_close False by (auto simp: jpeg_do_def mm_jpeg_intf_close_def bind_Some_iff Let_def split: if_splits)
      have rc: "rc = 0" using cl c cidx by (auto simp: mm_jpeg_close_def Let_def used_def bind_Some_iff)
      note k = close_ok [OF ok(1) cl, unfolded cidx]
      let ?ob = "ob'\<lparr>num_clients := num_clients ob' - 1\<rparr>"
      have u: "used ?ob = used ob - {c}" using k by (simp add: used_def)
      define m where "m = card (used ob - {c})"
      have "card (used ob) = Suc m" unfolding m_def using card_Suc_Diff1 [OF used_bounds(1) c(1)] by simp
      then have nob: "num_clients ob = 1 + of_nat m" using ok(2) by (simp add: counted_def)
      have n: "num_clients ?ob = of_nat m" "num_clients ob' = 1 + of_nat m" using k by (simp_all add: nob)
      have "jpeg_ok ?ob" using ok_num_clients k by blast
      moreover have "counted ?ob" if "num_clients ob' \<noteq> 1"
      proof -
        have "used ob - {c} \<noteq> {}"
        proof
          assume "used ob - {c} = {}"
          then have "m = 0" unfolding m_def by (simp only: card.empty)
          then show False using that n(2) by simp
        qed
        then show ?thesis unfolding counted_def u n(1) m_def by simp
      qed
      ultimately show ?thesis using l' rc A_close by (auto simp: lib_ok_def)
    qed (use assms(4) A_close in \<open>intro step, simp add: jpeg_do_def mm_jpeg_intf_close_def\<close>)
  next
    case A_turn
    then obtain ob' where "mm_jpeg_jobmgr_turn e ob = Some ob'" "0 < job_sem ob" "g_jpeg_obj l' = Some ob'"
      using assms(4) Some by (auto simp: jpeg_do_def split: if_splits)
    then show ?thesis using jobmgr_turn_ok [OF ok(1)] by (intro step) auto
  next
    case (A_callbacks cs)
    note q = quiet_callbacks [OF jpeg_okD(1) [OF ok(1)], of cs]
    show ?thesis using assms(4) Some A_callbacks ok_quiet [OF q ok(1)] quiet_clients [OF q] announced_quiet [OF q]
      by (intro step) (auto simp: jpeg_do_def)
  qed
qed

lemma jpeg_reach_ok:
  assumes "jpeg_reach e A l" "omx_loads e"
  shows "lib_ok l \<and> ((\<forall>a. A a \<longrightarrow> announces a) \<longrightarrow> lib_announced l)"
  using assms(1)
proof induction
  case start
  show ?case by (simp add: lib_ok_def lib_announced_def jpeg_lib_start_def)
next
  case (step l a l')
  then show ?case using action_ok [OF assms(2)] by blast
qed

end
