(* ===== verification/JpegProps.thy ===== *)
theory JpegProps
  imports JpegSystem
begin

text \<open>
  The properties of the jpeg library, each followed by a run of a small encoder or decoder at which it applies.
\<close>

section \<open>A small encoder\<close>

text \<open>Every call succeeds, the component is in the state it was last told to take, and a wait ends with the completion of
  the command.\<close>

definition told_state :: "jpeg_call list \<Rightarrow> omx_state" where
  "told_state t = foldl (\<lambda>s c. case c of Omx _ (Set_state s') \<Rightarrow> s' | _ \<Rightarrow> s) OMX_StateLoaded t"

definition ex_jenv :: jpeg_env where
  "ex_jenv = \<lparr>je_ret = (\<lambda>_ _. OMX_ErrorNone), je_state = told_state,
     je_events = (\<lambda>t. if t \<noteq> [] \<and> last t = Cond_wait then [((0, 0), Event OMX_EventCmdComplete)] else []),
     je_meta = (\<lambda>_. 2), je_malloc = (\<lambda>_. True)\<rparr>"

definition ex_params :: mm_jpeg_encode_params where
  "ex_params = \<lparr>num_src_bufs = 1, num_tmb_bufs = 0, num_dst_bufs = 1, encode_thumbnail = False, src_main_buf = (\<lambda>_. buf_zero),
     src_thumb_buf = (\<lambda>_. buf_zero), dest_buf = (\<lambda>_. buf_zero), color_format = MM_JPEG_COLOR_FORMAT_YCRCBLP_H2V2,
     thumb_color_format = MM_JPEG_COLOR_FORMAT_YCRCBLP_H2V2, jp_quality = 85, has_jpeg_cb = True\<rparr>"

definition ex_job :: mm_jpeg_encode_job where
  "ex_job = \<lparr>je_src_index = 0, je_dst_index = 0, je_thumb_index = 0, je_thumb_dim = dim_zero, je_rotation = 90,
     je_main_dim = dim_zero\<lparr>jd_src := \<lparr>dim_width = 640, dim_height = 480\<rparr>\<rparr>, je_session_id = 0x1000000, je_metadata = True, je_exif = 3\<rparr>"

definition ex_opened :: jpeg_lib where
  "ex_opened = the (jpeg_do ex_jenv (A_open True) jpeg_lib_start)"

definition ex_created :: jpeg_lib where
  "ex_created = the (jpeg_do ex_jenv (A_create 0x100 (Some ex_params)) ex_opened)"

definition ex_submitted :: jpeg_lib where
  "ex_submitted = the (jpeg_do ex_jenv (A_start (Some ex_job)) ex_created)"

definition ex_encoding1 :: jpeg_lib where
  "ex_encoding1 = the (jpeg_do ex_jenv A_turn ex_submitted)"

text \<open>A second job comes, and the job manager finds the first one ongoing.\<close>

definition ex_waiting :: jpeg_lib where
  "ex_waiting = the (jpeg_do ex_jenv A_turn (the (jpeg_do ex_jenv (A_start (Some ex_job)) ex_encoding1)))"

lemma ex_jopen_facts: "case jpeg_do ex_jenv (A_open True) jpeg_lib_start of
    Some l \<Rightarrow> (case g_jpeg_obj l of Some ob \<Rightarrow> jc_is_used (clnt_mgr ob ! 0) \<and> jc_handle (clnt_mgr ob ! 0) = 0x100 | None \<Rightarrow> False)
  | None \<Rightarrow> False"
  by code_simp

lemma ex_waiting_facts: "case jpeg_do ex_jenv A_turn ex_submitted of
    Some l \<Rightarrow> (case jpeg_do ex_jenv A_turn (the (jpeg_do ex_jenv (A_start (Some ex_job)) l)) of
      Some l \<Rightarrow> (case g_jpeg_obj l of
        Some ob \<Rightarrow> map node_job_id (job_queue ob) = [0x1010000] \<and> map node_job_id (ongoing_job_q ob) = [0x1000000] \<and> job_sem ob = 0 \<and>
          mm_jpeg_abort_job ex_jenv 0x1000000 ob \<noteq> None
      | None \<Rightarrow> False)
    | None \<Rightarrow> False)
  | None \<Rightarrow> False"
  by code_simp

lemma ex_waiting_obj:
  obtains ob where "g_jpeg_obj ex_waiting = Some ob" "map node_job_id (job_queue ob) = [0x1010000]"
    "map node_job_id (ongoing_job_q ob) = [0x1000000]" "job_sem ob = 0" "mm_jpeg_abort_job ex_jenv 0x1000000 ob \<noteq> None"
  using ex_waiting_facts by (auto simp: ex_waiting_def ex_encoding1_def split: option.splits)

lemma ex_loads: "omx_loads ex_jenv"
  by (simp add: omx_loads_def ex_jenv_def)

lemma ex_job_expected: "expected ob (A_start (Some ex_job))"
proof -
  have "session_id_of (0, 0) = 0x1000000" by code_simp
  then have "in_range (0, 0) \<and> je_session_id ex_job = session_id_of (0, 0)"
    by (simp add: in_range_def ex_job_def MAX_JPEG_CLIENT_NUM_def MM_JPEG_MAX_SESSION_def)
  then show ?thesis by (auto simp: encode_bounds_def ex_job_def MM_JPEG_MAX_BUF_def)
qed

lemma ex_waiting_reached: "jpeg_reach ex_jenv announces ex_waiting"
proof -
  note step = jpeg_reach.step [of ex_jenv announces]
  have open1: "jpeg_do ex_jenv (A_open True) jpeg_lib_start = Some ex_opened"
    using ex_jopen_facts by (auto simp: ex_opened_def split: option.splits)
  have r1: "jpeg_reach ex_jenv announces ex_opened"
    by (rule step [OF jpeg_reach.start _ _ open1]) simp_all
  have e2: "expected ob (A_create 0x100 (Some ex_params))" if "g_jpeg_obj ex_opened = Some ob" for ob
  proof -
    have "0 \<in> used ob \<and> jc_handle (clnt_mgr ob ! 0) = 0x100"
      using ex_jopen_facts that by (auto simp: ex_opened_def used_def MAX_JPEG_CLIENT_NUM_def split: option.splits)
    then show ?thesis by (auto simp: open_handle_def mm_jpeg_util_get_index_by_handler_def ex_params_def MM_JPEG_MAX_BUF_def intro!: bexI [of _ 0])
  qed
  have "jpeg_reach ex_jenv announces ex_created"
    by (rule step [OF r1 _ e2]) (simp_all add: jpeg_do_def ex_created_def)
  then have r3: "jpeg_reach ex_jenv announces ex_submitted"
    by (rule step [OF _ _ ex_job_expected]) (simp_all add: jpeg_do_def ex_submitted_def)
  have t: "jpeg_do ex_jenv A_turn ex_submitted = Some ex_encoding1"
    "jpeg_do ex_jenv A_turn (the (jpeg_do ex_jenv (A_start (Some ex_job)) ex_encoding1)) = Some ex_waiting"
    using ex_waiting_facts by (auto simp: ex_waiting_def ex_encoding1_def split: option.splits)
  have "jpeg_reach ex_jenv announces ex_encoding1" by (rule step [OF r3 _ _ t(1)]) simp_all
  then have r4: "jpeg_reach ex_jenv announces (the (jpeg_do ex_jenv (A_start (Some ex_job)) ex_encoding1))"
    by (rule step [OF _ _ ex_job_expected]) (simp_all add: jpeg_do_def)
  show ?thesis by (rule step [OF r4 _ _ t(2)]) simp_all
qed

section \<open>The encoder\<close>

text \<open>C7: Whatever clients that use the interface as it is meant, the job manager and the components do, in whatever order:
  the encoder never uses a component it does not have, an index outside an array or a session without an object; it works
  on at most one job; every waiting or ongoing job names an active session whose component exists; and the clients counted
  are those that are open.\<close>

theorem encoder_stays_safe:
  assumes "omx_loads e" "jpeg_reach e A l" "g_jpeg_obj l = Some ob"
  shows "\<not> j_bad ob \<and> length (ongoing_job_q ob) \<le> 1 \<and> unat (num_clients ob) = card (used ob) \<and> used ob \<noteq> {} \<and>
    (\<forall>n \<in> set (job_queue ob @ ongoing_job_q ob). \<exists>k. mm_jpeg_get_session (node_job_id n) = Some k \<and> js_active (sess k ob) \<and>
       omx_handle (sess k ob) \<in> j_live ob)"
proof (intro conjI ballI)
  have ok: "jpeg_ok ob" and c: "counted ob" using jpeg_reach_ok [OF assms(2,1)] assms(3) by (simp_all add: lib_ok_def)
  show "\<not> j_bad ob" "length (ongoing_job_q ob) \<le> 1" using jpeg_okD [OF ok] by simp_all
  show "unat (num_clients ob) = card (used ob)" "used ob \<noteq> {}"
    using c used_bounds(2) [of ob] by (simp_all add: counted_def unat_of_nat take_bit_nat_eq_self)
  fix n assume "n \<in> set (job_queue ob @ ongoing_job_q ob)"
  then have n: "job_ok ob n" using jpeg_okD(6,7) [OF ok] by auto
  then obtain k h where k: "in_range k" "js_active (sess k ob)" "node_job_id n = job_id_of (session_id_of k) h" by (cases n) auto
  then have "session_ok k ob" using jpeg_okD(8) [OF ok] by (simp add: actives_def)
  then show "\<exists>k. mm_jpeg_get_session (node_job_id n) = Some k \<and> js_active (sess k ob) \<and> omx_handle (sess k ob) \<in> j_live ob"
    using k by (auto simp: session_ok_def)
qed

theorem encoder_stays_safe_witness:
  "\<exists>ob. g_jpeg_obj ex_waiting = Some ob \<and> \<not> j_bad ob \<and> ongoing_job_q ob \<noteq> [] \<and> job_queue ob \<noteq> []"
proof -
  obtain ob where ob: "g_jpeg_obj ex_waiting = Some ob" "map node_job_id (job_queue ob) = [0x1010000]"
    "map node_job_id (ongoing_job_q ob) = [0x1000000]" by (rule ex_waiting_obj)
  show ?thesis using encoder_stays_safe [OF ex_loads ex_waiting_reached ob(1)] ob by auto
qed

text \<open>C14: As long as no job is aborted and no client closed, a job that waits is never forgotten: the job manager runs, and
  either a job is ongoing, whose end wakes it, or it has been woken.\<close>

theorem waiting_job_is_announced:
  assumes "omx_loads e" "jpeg_reach e A l" "\<forall>a. A a \<longrightarrow> announces a" "g_jpeg_obj l = Some ob" "job_queue ob \<noteq> []"
  shows "jm_running ob \<and> (ongoing_job_q ob \<noteq> [] \<or> 0 < job_sem ob)"
proof -
  have "announced ob" using jpeg_reach_ok [OF assms(2,1)] assms(3,4) by (simp add: lib_announced_def)
  then show ?thesis using assms(5) by (simp add: announced_def)
qed

theorem waiting_job_is_announced_witness:
  "\<exists>ob. g_jpeg_obj ex_waiting = Some ob \<and> job_sem ob = 0 \<and> jm_running ob \<and> ongoing_job_q ob \<noteq> []"
proof -
  obtain ob where ob: "g_jpeg_obj ex_waiting = Some ob" "map node_job_id (job_queue ob) = [0x1010000]" "job_sem ob = 0" by (rule ex_waiting_obj)
  then show ?thesis using waiting_job_is_announced [OF ex_loads ex_waiting_reached _ ob(1)] by auto
qed

text \<open>Callbacks that report completed commands wake nobody.\<close>

definition unwoken :: "jpeg_obj \<Rightarrow> jpeg_obj \<Rightarrow> bool" where
  "unwoken ob ob' \<longleftrightarrow> job_queue ob' = job_queue ob \<and> ongoing_job_q ob' = ongoing_job_q ob \<and> job_sem ob' = job_sem ob \<and>
     j_decoder ob' = j_decoder ob"

definition only_completions :: "jpeg_env \<Rightarrow> bool" where
  "only_completions e \<longleftrightarrow> (\<forall>t. \<forall>x \<in> set (je_events e t). snd x = Event OMX_EventCmdComplete)"

lemma unwoken_upd [simp]: "unwoken v (upd_sess k f ob) = unwoken v ob" "unwoken v (jpeg_call c ob) = unwoken v ob"
  "unwoken v (require b ob) = unwoken v ob" "unwoken v v"
  by (simp_all add: unwoken_def)

lemma unwoken_callbacks:
  "\<forall>x \<in> set cs. snd x = Event OMX_EventCmdComplete \<Longrightarrow> \<not> j_decoder ob \<Longrightarrow> unwoken ob (fst (run_callbacks cs ob))"
proof (induction cs arbitrary: ob)
  case (Cons c cs)
  let ?ob = "fst (if in_range (fst c) then component_callback c ob else (ob, False))"
  have c: "c = (fst c, Event OMX_EventCmdComplete)" using Cons.prems(1) by (simp add: prod_eq_iff)
  have "unwoken ob (fst (component_callback c ob))"
    using Cons.prems(2) by (subst c) (simp add: mm_jpeg_event_handler_def)
  then have q: "unwoken ob ?ob" by simp
  then have "unwoken ?ob (fst (run_callbacks cs ?ob))" using Cons.IH [of ?ob] Cons.prems by (simp add: unwoken_def)
  with q show ?case by (simp add: Let_def split_beta unwoken_def)
qed simp

lemma unwoken_after:
  assumes "only_completions e" "\<not> j_decoder ob"
  shows "unwoken ob (callbacks_after e lk ob)"
  unfolding callbacks_after_def by (rule unwoken_callbacks [OF _ assms(2)]) (use assms(1) in \<open>auto simp: only_completions_def\<close>)

lemma unwoken_trans: "unwoken a b \<Longrightarrow> unwoken b c \<Longrightarrow> unwoken a c"
  by (simp add: unwoken_def)

lemma unwoken_omx:
  assumes "only_completions e" "\<not> j_decoder ob"
  shows "unwoken ob (fst (omx_sess e lk k c ob))"
  using unwoken_after [OF assms(1)] assms(2) unfolding omx_sess_def omx_def Let_def fst_conv
  by (intro unwoken_trans [OF _ unwoken_after [OF assms(1)]]) simp_all

lemma unwoken_wait:
  assumes "only_completions e" "\<not> j_decoder ob" "cond_wait_session e k ob = Some ob'"
  shows "unwoken ob ob'"
proof -
  let ?c = "jpeg_call Cond_wait ob"
  have "unwoken ?c (fst (run_callbacks (je_events e (j_trace ?c)) ?c))"
    by (rule unwoken_callbacks) (use assms in \<open>auto simp: only_completions_def\<close>)
  then show ?thesis using assms(3) by (auto simp: cond_wait_session_def Let_def split_beta unwoken_def split: if_splits)
qed

lemma unwoken_abort:
  assumes "only_completions e" "\<not> j_decoder ob" "mm_jpeg_session_abort e k ob = Some (ob', r)"
  shows "unwoken ob ob'"
proof -
  define ob2 where "ob2 = upd_sess k (\<lambda>s. s\<lparr>state_change_pending := True\<rparr>) (upd_sess k (\<lambda>s. s\<lparr>abort_state := MM_JPEG_ABORT_INIT\<rparr>) ob)"
  define ob3 where "ob3 = fst (omx_sess e None k (Set_state OMX_StateIdle) ob2)"
  define ob4 where "ob4 = mm_jpeg_destroy_job k ob3"
  have d2: "unwoken ob ob2" "\<not> j_decoder ob2" using assms(2) by (simp_all add: ob2_def)
  have u3: "unwoken ob ob3" "\<not> j_decoder ob3" using unwoken_omx [OF assms(1) d2(2)] d2 by (auto simp: ob3_def unwoken_def)
  have f: "unwoken ob (fold (\<lambda>i. jpeg_call (Release_exif i)) is v)" if "unwoken ob v" for "is" v
    using that by (induction "is" arbitrary: v) simp_all
  have u4: "unwoken ob ob4" "\<not> j_decoder ob4" using f [OF u3(1)] assms(2) by (simp_all add: ob4_def mm_jpeg_destroy_job_def) (simp add: unwoken_def)
  have w: "unwoken ob v" if "cond_wait_session e k ob4 = Some v" for v
    by (rule unwoken_trans [OF u4(1) unwoken_wait [OF assms(1) u4(2) that]])
  show ?thesis
    using assms(3) w u3 u4 unfolding mm_jpeg_session_abort_def Let_def split_beta
    by (auto simp: ob2_def [symmetric] ob3_def [symmetric] ob4_def [symmetric] split: if_splits)
qed

text \<open>C36: Aborting the ongoing job always answers a failure, and does not wake the job manager: if it was asleep, the jobs
  that wait stay where they are although none is ongoing, until something else posts the semaphore.\<close>

theorem abort_leaves_jobs_waiting:
  assumes "only_completions e" "g_jpeg_obj l = Some ob" "\<not> j_decoder ob" "ongoing_job_q ob = [n]"
    "\<forall>m \<in> set (job_queue ob). node_job_id m \<noteq> node_job_id n" "job_sem ob = 0" "node_job_id n \<noteq> 0"
    "mm_jpeg_intf_abort_job e (node_job_id n) l = Some (l', r)"
  shows "r = -1 \<and> jpeg_do e A_turn l' = None \<and>
    (\<exists>ob'. g_jpeg_obj l' = Some ob' \<and> job_queue ob' = job_queue ob \<and> ongoing_job_q ob' = [] \<and> job_sem ob' = 0)"
proof -
  have none: "remove_first P q = (None, q)" if "\<forall>m \<in> set q. \<not> P m" for P and q :: "jpeg_node list"
    using that by (induction q) auto
  have todo: "mm_jpeg_queue_remove_job_by_job_id (node_job_id n) (job_queue ob) = (None, job_queue ob)"
    unfolding mm_jpeg_queue_remove_job_by_job_id_def by (rule none) (use assms(5) in simp)
  have ongoing: "mm_jpeg_queue_remove_job_by_job_id (node_job_id n) (ongoing_job_q ob) = (Some n, [])"
    by (simp add: mm_jpeg_queue_remove_job_by_job_id_def assms(4))
  let ?ob = "ob\<lparr>ongoing_job_q := []\<rparr>"
  obtain ob' where ab: "mm_jpeg_abort_job e (node_job_id n) ob = Some (ob', r)" and l': "l' = l\<lparr>g_jpeg_obj := Some ob'\<rparr>"
    using assms(2,7,8) by (auto simp: mm_jpeg_intf_abort_job_def)
  have l'': "r = -1 \<and> (ob' = ?ob \<or> (\<exists>k b. mm_jpeg_session_abort e k ?ob = Some (ob', b)))"
  proof (cases "mm_jpeg_get_session (node_job_id n)")
    case None
    then show ?thesis using ab todo ongoing by (simp add: mm_jpeg_abort_job_def Let_def)
  next
    case (Some k)
    then obtain b where "mm_jpeg_session_abort e k ?ob = Some (ob', b)" "r = -1"
      using ab todo ongoing by (auto simp: mm_jpeg_abort_job_def Let_def)
    then show ?thesis by blast
  qed
  have "unwoken ?ob ob'" using l'' unwoken_abort [OF assms(1), of ?ob] assms(3) by auto
  then have "job_queue ob' = job_queue ob" "ongoing_job_q ob' = []" "job_sem ob' = 0" using assms(6) by (simp_all add: unwoken_def)
  then show ?thesis using l' l'' by (simp add: jpeg_do_def)
qed

theorem abort_leaves_jobs_waiting_witness:
  "\<exists>l' ob'. mm_jpeg_intf_abort_job ex_jenv 0x1000000 ex_waiting = Some (l', -1) \<and> jpeg_do ex_jenv A_turn l' = None \<and>
     g_jpeg_obj l' = Some ob' \<and> map node_job_id (job_queue ob') = [0x1010000] \<and> ongoing_job_q ob' = []"
proof -
  obtain ob where ob: "g_jpeg_obj ex_waiting = Some ob" "map node_job_id (job_queue ob) = [0x1010000]"
    "map node_job_id (ongoing_job_q ob) = [0x1000000]" "job_sem ob = 0" "mm_jpeg_abort_job ex_jenv 0x1000000 ob \<noteq> None" by (rule ex_waiting_obj)
  obtain n where n: "ongoing_job_q ob = [n]" "node_job_id n = 0x1000000" using ob(3) by auto
  obtain l' r where a: "mm_jpeg_intf_abort_job ex_jenv (node_job_id n) ex_waiting = Some (l', r)"
    using ob(1,5) n(2) by (auto simp: mm_jpeg_intf_abort_job_def)
  have "\<not> j_decoder ob" using jpeg_reach_ok [OF ex_waiting_reached ex_loads] ob(1) jpeg_okD(3) by (simp add: lib_ok_def)
  moreover have "only_completions ex_jenv" by (simp add: only_completions_def ex_jenv_def)
  moreover have "\<forall>m \<in> set (job_queue ob). node_job_id m \<noteq> node_job_id n" using ob(2) n(2) by auto
  ultimately show ?thesis
    using abort_leaves_jobs_waiting [OF _ ob(1) _ n(1) _ ob(4) _ a] n(2) a ob(2) by auto
qed

section \<open>Identifiers of jobs\<close>

lemma hist_rem: "unat h < 2 ^ 31 \<Longrightarrow> unat (h - JOB_HIST_MAX * i32_div h JOB_HIST_MAX) = unat h mod 10000"
proof -
  assume h: "unat h < 2 ^ 31"
  have q: "unat (i32_div h JOB_HIST_MAX) = unat h div 10000" using i32_div_nat [OF h, of 10000] by (simp add: JOB_HIST_MAX_def)
  have m: "unat (JOB_HIST_MAX * i32_div h JOB_HIST_MAX) = 10000 * (unat h div 10000)"
    using unat_u32_mult [of JOB_HIST_MAX "i32_div h JOB_HIST_MAX"] q h by (simp add: JOB_HIST_MAX_def)
  then have "JOB_HIST_MAX * i32_div h JOB_HIST_MAX \<le> h" by (simp add: word_le_nat_alt)
  then have "unat (h - JOB_HIST_MAX * i32_div h JOB_HIST_MAX) = unat h - 10000 * (unat h div 10000)" using m by (simp add: unat_sub)
  then show ?thesis by (simp add: minus_mult_div_eq_mod)
qed

text \<open>The identifier of the session covers one bit of the history, bit 24 of the identifier.\<close>

lemma session_id_high:
  assumes "in_range k" "16 \<le> n" "n \<noteq> 24"
  shows "\<not> bit (session_id_of k) n"
proof -
  have b: "fst k < 256" "snd k < 256" using assms(1) by (simp_all add: in_range_def MAX_JPEG_CLIENT_NUM_def MM_JPEG_MAX_SESSION_def)
  have "session_id_of k = push_bit 24 1 OR push_bit 8 (ucast (of_nat (snd k) :: u8)) OR ucast (of_nat (fst k) :: u8)"
    using b [THEN of_nat_byte] by (simp add: session_id_of_def JOB_ID_MAGICVAL_def)
  then have i: "session_id_of k = 0x1000000 OR push_bit 8 (ucast (of_nat (snd k) :: u8)) OR ucast (of_nat (fst k) :: u8)" by simp
  have "bit (0x1000000 :: u32) n \<longleftrightarrow> n = 24" using bit_exp_iff [of 24 n, where 'a = "32 word"] by auto
  then show ?thesis unfolding i using assms(2,3) by (auto simp: bit_simps dest: bit_imp_le_length)
qed

lemma job_id_bits:
  assumes "in_range k" "job_id_of (session_id_of k) h = job_id_of (session_id_of k) h'" "unat h < 2 ^ 31" "unat h' < 2 ^ 31"
  shows "(unat h mod 10000) mod 256 = (unat h' mod 10000) mod 256 \<and> (unat h mod 10000) div 512 = (unat h' mod 10000) div 512"
proof -
  define x y where "x = h - JOB_HIST_MAX * i32_div h JOB_HIST_MAX" and "y = h' - JOB_HIST_MAX * i32_div h' JOB_HIST_MAX"
  have u: "unat x = unat h mod 10000" "unat y = unat h' mod 10000" using hist_rem assms(3,4) by (simp_all add: x_def y_def)
  then have small: "unat x < 2 ^ 14" "unat y < 2 ^ 14" by (simp_all add: less_trans [OF mod_less_divisor])
  have eq: "bit (unat x) n \<longleftrightarrow> bit (unat y) n" if "n \<noteq> 8" for n
  proof (cases "n < 16")
    case True
    have "bit (job_id_of (session_id_of k) h) (n + 16) \<longleftrightarrow> bit (job_id_of (session_id_of k) h') (n + 16)" using assms(2) by simp
    then show ?thesis using True that session_id_high [OF assms(1), of "n + 16"]
      by (simp add: job_id_of_def x_def [symmetric] y_def [symmetric] bit_simps)
  next
    case False
    have "\<not> bit m n" if "m < 2 ^ 14" for m :: nat
    proof -
      have "take_bit 14 m = m" using that by (rule take_bit_nat_eq_self)
      then show ?thesis using False bit_take_bit_iff [of 14 m n] by simp
    qed
    then show ?thesis using small by simp
  qed
  have "take_bit 8 (unat x) = take_bit 8 (unat y)" by (rule bit_eqI) (auto simp: bit_take_bit_iff eq)
  moreover have "drop_bit 9 (unat x) = drop_bit 9 (unat y)" by (rule bit_eqI) (simp add: bit_drop_bit_eq eq)
  ultimately show ?thesis by (simp add: u take_bit_eq_mod drop_bit_eq_div)
qed

lemma window:
  fixes a d :: nat
  assumes "(a mod 10000) mod 256 = ((a + d) mod 10000) mod 256" "(a mod 10000) div 512 = ((a + d) mod 10000) div 512" "0 < d" "d < 256"
  shows False
proof (cases "a mod 10000 + d < 10000")
  case True
  then have e: "(a + d) mod 10000 = a mod 10000 + d" by (metis mod_add_left_eq mod_less)
  define x where "x = a mod 10000"
  have "(x + d) mod 256 = x mod 256" using assms(1) unfolding e x_def by (rule sym)
  then have "256 dvd (x + d) - x" by (rule mod_eq_dvd_iff_nat [THEN iffD1, rotated]) simp
  then show False using assms(3,4) by (auto dest: dvd_imp_le)
next
  case False
  define x where "x = a mod 10000"
  have x: "x < 10000" "10000 \<le> x + d" using False by (simp_all add: x_def)
  have "(a + d) mod 10000 = (x + d) mod 10000" by (simp add: x_def mod_add_left_eq)
  also have "\<dots> = x + d - 10000" using x assms(4) by (simp add: le_mod_geq)
  finally have "x div 512 = (x + d - 10000) div 512" using assms(2) by (simp add: x_def)
  moreover have "(x + d - 10000) div 512 = 0" using x assms(4) by simp
  moreover have "19 \<le> x div 512" using x assms(4) by (simp add: less_eq_div_iff_mult_less_eq)
  ultimately show False by simp
qed

text \<open>C24: The identifier of a job leads back to its session, whatever the history; and among any 256 jobs that a session
  starts one after the other no two have the same identifier, although the number of the job is only or-ed into that of the
  session.\<close>

theorem job_ids_distinct:
  assumes "in_range k" "unat h + d < 2 ^ 31" "0 < d" "d < 256"
  shows "mm_jpeg_get_session (job_id_of (session_id_of k) h) = Some k \<and>
    job_id_of (session_id_of k) h \<noteq> job_id_of (session_id_of k) (h + of_nat d)"
proof
  show "mm_jpeg_get_session (job_id_of (session_id_of k) h) = Some k" using assms(1) by simp
  have d: "unat (h + of_nat d) = unat h + d"
    using unat_u32_add [of h "of_nat d"] assms(2) by (simp add: unat_of_nat take_bit_nat_eq_self)
  show "job_id_of (session_id_of k) h \<noteq> job_id_of (session_id_of k) (h + of_nat d)"
    using job_id_bits [OF assms(1), of h "h + of_nat d"] window [of "unat h" d] assms(2-4) d by auto
qed

theorem job_ids_distinct_witness:
  "mm_jpeg_get_session (job_id_of (session_id_of (7, 9)) 9990) = Some (7, 9) \<and>
   job_id_of (session_id_of (7, 9)) 9990 \<noteq> job_id_of (session_id_of (7, 9)) (9990 + of_nat 16)"
  by (rule job_ids_distinct) (simp_all add: in_range_def MAX_JPEG_CLIENT_NUM_def MM_JPEG_MAX_SESSION_def)

end
