(* ===== verification/JpegDecProps.thy ===== *)
theory JpegDecProps
  imports JpegSystem
begin

text \<open>
  The decoder's properties: what becomes of its jobs when their session is destroyed, and of an event that comes before the
  decoder waits for it, each with a run at which it applies.
\<close>

section \<open>Nothing in a session touches the waiting jobs\<close>

definition same_queue :: "jpeg_obj \<Rightarrow> jpeg_obj \<Rightarrow> bool" where
  "same_queue ob ob' \<longleftrightarrow> job_queue ob' = job_queue ob \<and> (shape ob \<longrightarrow> shape ob')"

lemma same_queue_refl: "same_queue ob ob"
  by (simp add: same_queue_def)

lemma same_queue_trans: "same_queue a b \<Longrightarrow> same_queue b c \<Longrightarrow> same_queue a c"
  by (simp add: same_queue_def)

lemma same_queue_steps:
  "same_queue a b \<Longrightarrow> same_queue a (upd_sess k f b)" "same_queue a b \<Longrightarrow> same_queue a (jpeg_call c b)"
  "same_queue a b \<Longrightarrow> same_queue a (require p b)" "same_queue a b \<Longrightarrow> same_queue a (b\<lparr>ongoing_job_q := q\<rparr>)"
  "same_queue a b \<Longrightarrow> same_queue a (b\<lparr>job_sem := n\<rparr>)" "same_queue a b \<Longrightarrow> same_queue a (b\<lparr>j_live := L\<rparr>)"
  by (simp_all add: same_queue_def)

lemma same_queue_job_done: "same_queue a b \<Longrightarrow> same_queue a (mm_jpeg_job_done k b)"
  unfolding mm_jpeg_job_done_def Let_def by (intro same_queue_steps)

lemma same_queue_status: "same_queue a b \<Longrightarrow> same_queue a (send_status k st b)"
  unfolding send_status_def Let_def by (intro same_queue_steps)

lemma same_queue_error: "same_queue a b \<Longrightarrow> same_queue a (event_error k b)"
  unfolding event_error_def Let_def by (auto intro!: same_queue_steps same_queue_job_done same_queue_status)

lemma same_queue_callback: "same_queue ob (fst (component_callback (k, c) ob))"
  by (cases c)
    (auto simp: mm_jpeg_ebd_def mm_jpeg_fbd_def mm_jpeg_event_handler_def mm_jpegdec_event_handler_def Let_def
       intro!: same_queue_refl same_queue_steps same_queue_job_done same_queue_status same_queue_error split: omx_event.split)

lemma same_queue_callbacks: "same_queue ob (fst (run_callbacks cs ob))"
proof (induction cs arbitrary: ob)
  case (Cons c cs)
  define ob1 where "ob1 = fst (if in_range (fst c) then component_callback c ob else (ob, False))"
  have "same_queue ob ob1" using same_queue_callback [of ob "fst c" "snd c"] same_queue_refl by (simp add: ob1_def)
  then show ?case using same_queue_trans [OF _ Cons.IH [of ob1]] by (simp add: ob1_def Let_def split_beta)
qed (simp add: same_queue_refl)

lemma same_queue_omx: "same_queue ob (fst (omx_sess e lk k c ob))"
  unfolding omx_sess_def omx_def Let_def callbacks_after_def
  using same_queue_trans [OF same_queue_steps(2) [OF same_queue_steps(3) [OF same_queue_refl]] same_queue_callbacks] by simp

lemma same_queue_with_buf: "(\<And>ob. same_queue ob (fst (f ob))) \<Longrightarrow> same_queue ob (fst (with_buf i f ob))"
  unfolding with_buf_def using same_queue_trans [OF same_queue_steps(3) [OF same_queue_refl]] by blast

lemma same_queue_tries:
  assumes "\<forall>f \<in> set fs. \<forall>ob. same_queue ob (fst (f ob))"
  shows "same_queue ob (fst (try_all fs ob))"
  using assms
proof (induction fs arbitrary: ob)
  case (Cons f fs)
  then show ?case using same_queue_trans by (fastforce simp: try_all.simps Let_def split_beta)
qed (simp add: try_all.simps same_queue_refl)

lemma same_queue_free: "same_queue ob (fst (mm_jpegdec_session_free_buffers e k ob))"
  unfolding mm_jpegdec_session_free_buffers_def Let_def free_buffer_def by (rule same_queue_tries) (auto intro: same_queue_with_buf same_queue_omx)

lemma same_queue_wait: "cond_wait_session e k ob = Some ob' \<Longrightarrow> same_queue ob ob'"
  using same_queue_trans [OF same_queue_steps(2) [OF same_queue_refl] same_queue_callbacks]
  by (auto simp: cond_wait_session_def Let_def split_beta split: if_splits)

lemma same_queue_change:
  assumes "\<And>f ob. p = Some f \<Longrightarrow> same_queue ob (fst (f ob))" "mm_jpeg_session_change_state e k st p ob = Some (ob', r)"
  shows "same_queue ob ob'"
proof -
  define ob1 where "ob1 = fst (omx_sess e (Some k) k Get_state ob)"
  define ob3 where "ob3 = fst (omx_sess e (Some k) k (Set_state st) (upd_sess k (\<lambda>s. s\<lparr>state_change_pending := True\<rparr>) ob1))"
  define ob4 where "ob4 = (case p of None \<Rightarrow> ob3 | Some f \<Rightarrow> fst (f ob3))"
  have q1: "same_queue ob ob1" unfolding ob1_def by (rule same_queue_omx)
  have q3: "same_queue ob ob3" unfolding ob3_def by (rule same_queue_trans [OF same_queue_steps(1) [OF q1] same_queue_omx])
  have q4: "same_queue ob ob4" using q3 same_queue_trans [OF q3 assms(1)] by (simp add: ob4_def split: option.split)
  have "ob' = ob1 \<or> ob' = ob3 \<or> ob' = ob4 \<or> cond_wait_session e k ob4 = Some ob'"
    using assms(2) unfolding mm_jpeg_session_change_state_def Let_def split_beta
    by (auto simp: ob1_def ob3_def ob4_def split: if_splits option.splits)
  then show ?thesis using q1 q3 q4 same_queue_trans [OF q4 same_queue_wait] by blast
qed

lemma same_queue_fold: "same_queue a b \<Longrightarrow> same_queue a (fold (\<lambda>i. jpeg_call (Release_exif i)) xs b)"
  by (induction xs arbitrary: b) (auto intro: same_queue_steps)

lemma same_queue_abort:
  assumes "mm_jpeg_session_abort e k ob = Some (ob', r)"
  shows "same_queue ob ob'"
proof -
  define ob1 where "ob1 = upd_sess k (\<lambda>s. s\<lparr>abort_state := MM_JPEG_ABORT_INIT\<rparr>) ob"
  define ob3 where "ob3 = fst (omx_sess e None k (Set_state OMX_StateIdle) (upd_sess k (\<lambda>s. s\<lparr>state_change_pending := True\<rparr>) ob1))"
  define ob4 where "ob4 = mm_jpeg_destroy_job k ob3"
  have q1: "same_queue ob ob1" unfolding ob1_def by (rule same_queue_steps(1) [OF same_queue_refl])
  have q3: "same_queue ob ob3" unfolding ob3_def by (rule same_queue_trans [OF same_queue_steps(1) [OF q1] same_queue_omx])
  have q4: "same_queue ob ob4" unfolding ob4_def mm_jpeg_destroy_job_def by (intro same_queue_steps same_queue_fold q3)
  have "ob' = ob \<or> ob' = ob3 \<or> (\<exists>v. (v = ob1 \<or> v = ob4 \<or> cond_wait_session e k ob4 = Some v) \<and>
      ob' = upd_sess k (\<lambda>s. s\<lparr>abort_state := MM_JPEG_ABORT_DONE\<rparr>) v)"
    using assms unfolding mm_jpeg_session_abort_def Let_def split_beta
    by (auto simp: ob1_def ob3_def ob4_def split: if_splits)
  then show ?thesis
    using q1 q3 q4 same_queue_refl same_queue_trans [OF q4 same_queue_wait] same_queue_steps(1) by blast
qed

lemma decoder_destroyed:
  assumes "mm_jpegdec_session_destroy e k ob = Some ob'"
  shows "same_queue ob ob' \<and> (shape ob \<longrightarrow> in_range k \<longrightarrow> omx_handle (sess k ob') = 0)"
proof (cases "omx_handle (sess k ob) = 0")
  case True
  then show ?thesis using assms by (simp add: mm_jpegdec_session_destroy_def same_queue_refl)
next
  case False
  obtain ob1 r1 ob2 r2 where c: "mm_jpeg_session_change_state e k OMX_StateIdle None ob = Some (ob1, r1)"
      "mm_jpeg_session_change_state e k OMX_StateLoaded (Some (mm_jpegdec_session_free_buffers e k)) ob1 = Some (ob2, r2)"
      "ob' = upd_sess k (\<lambda>s. s\<lparr>omx_handle := 0\<rparr>) (OMX_FreeHandle (omx_handle (sess k ob2)) ob2)"
    using assms False unfolding mm_jpegdec_session_destroy_def by (auto simp: bind_Some_iff)
  have "same_queue ob ob2"
    by (rule same_queue_trans [OF same_queue_change [OF _ c(1)] same_queue_change [OF _ c(2)]]) (auto simp: same_queue_free)
  then have q: "same_queue ob (OMX_FreeHandle (omx_handle (sess k ob2)) ob2)"
    unfolding OMX_FreeHandle_def by (intro same_queue_steps)
  then show ?thesis using same_queue_steps(1) [OF q] by (auto simp: c(3) same_queue_def sess_upd_same)
qed

section \<open>Jobs of a destroyed session\<close>

text \<open>C37: Destroying a session of the decoder takes none of its waiting jobs out of the queue: the loop that does so reads
  the session in the encoder's view of the node, where it is 0.  The jobs are still there when the session has become
  inactive and its component is gone, and the job manager is woken for them.\<close>

theorem decoder_jobs_outlive_session:
  assumes "shape ob" "mm_jpeg_get_session i = Some k" "js_sessionId (sess k ob) = i" "i \<noteq> 0"
    "mm_jpegdec_destroy_session_by_id e i ob = Some (ob', r)" "Decode_node j jid c \<in> set (job_queue ob)"
  shows "Decode_node j jid c \<in> set (job_queue ob') \<and> \<not> js_active (sess k ob') \<and> omx_handle (sess k ob') = 0 \<and> 0 < job_sem ob' \<and> r = 0"
proof -
  obtain ob1 b ob2 where s: "mm_jpeg_session_abort e k (drop_jobs i ob) = Some (ob1, b)" "mm_jpegdec_session_destroy e k ob1 = Some ob2"
    and ob': "ob' = (mm_jpeg_remove_session_idx i ob2)\<lparr>job_sem := job_sem (mm_jpeg_remove_session_idx i ob2) + 1\<rparr>" "r = 0"
    using assms(2,3,5) unfolding mm_jpegdec_destroy_session_by_id_def mm_jpegdec_destroy_session_def by (auto simp: bind_Some_iff Let_def)
  have k: "in_range k" "(GET_CLIENT_IDX i, GET_SESSION_IDX i) = k"
    using assms(2) by (auto simp: mm_jpeg_get_session_def in_range_def Let_def split: if_splits)
  have d: "shape (drop_jobs i ob)" "Decode_node j jid c \<in> set (job_queue (drop_jobs i ob))"
    using assms(1,4,6) by (simp_all add: drop_jobs_def remove_session_jobs_filter)
  have q: "same_queue (drop_jobs i ob) ob1" "same_queue ob1 ob2" "shape ob1 \<longrightarrow> in_range k \<longrightarrow> omx_handle (sess k ob2) = 0"
    using same_queue_abort [OF s(1)] decoder_destroyed [OF s(2)] by simp_all
  then have o2: "shape ob2" "Decode_node j jid c \<in> set (job_queue ob2)" "omx_handle (sess k ob2) = 0"
    using d k(1) by (simp_all add: same_queue_def)
  show ?thesis using o2 k unfolding ob' by (simp add: mm_jpeg_remove_session_idx_def sess_upd_same)
qed

section \<open>An event that comes early\<close>

text \<open>C38: The decoder hands the picture to the component and then waits to be told that its header was read.  If the component
  does that while the picture is being handed over, the decoder waits for ever: the event is noted but does not end the
  state of waiting, as the end of a command does.  If it comes during the wait, the decoder goes on to the output.\<close>

theorem decoder_misses_early_event:
  assumes "shape ob" "in_range k" "j_decoder ob" "abort_state (sess k ob) \<noteq> MM_JPEG_ABORT_INIT"
    "c = Omx (omx_handle (sess k ob)) (Empty_this_buffer 0 (unat (jd_src_index (js_decode_job (sess k ob)))))"
    "je_ret e (j_trace ob) c = OMX_ErrorNone" "early @ late = [(k, Event OMX_EventPortSettingsChanged)]"
    "je_events e (j_trace ob @ [c]) = early" "je_events e (j_trace ob @ [c, Cond_wait]) = late"
  shows "(early \<noteq> [] \<longrightarrow> decode_input e k ob = None) \<and>
    (early = [] \<longrightarrow> (\<exists>ob'. js_event (sess k ob') = OMX_EventPortSettingsChanged \<and> decode_input e k ob = decode_output e k ob'))"
proof -
  define ob1 where "ob1 = upd_sess k (\<lambda>s. s\<lparr>event_pending := True\<rparr>) (upd_sess k (\<lambda>s. s\<lparr>js_encoding := True\<rparr>) ob)"
  define src where "src = unat (jd_src_index (js_decode_job (sess k ob)))"
  define ob2 where "ob2 = jpeg_call c (require (omx_handle (sess k ob) \<in> j_live ob) (require (src < MM_JPEG_MAX_BUF) ob1))"
  have s1: "sess k ob1 = (sess k ob)\<lparr>js_encoding := True, event_pending := True\<rparr>" "shape ob1" "j_trace ob1 = j_trace ob" "j_live ob1 = j_live ob"
    using assms(1,2) by (simp_all add: ob1_def sess_upd_same)
  have s2: "sess k ob2 = sess k ob1" "shape ob2" "j_decoder ob2" "j_trace ob2 = j_trace ob @ [c]"
    using s1(2,3) assms(3) by (simp add: ob2_def, simp add: ob2_def, simp add: ob2_def ob1_def, simp add: ob2_def jpeg_call_def)
  have c: "Omx (omx_handle (sess k ob)) (Empty_this_buffer 0 src) = c" by (simp add: assms(5) src_def)
  have in': "decode_input e k ob = (do {
      ob \<leftarrow> wait_event e k (fst (run_callbacks early ob2));
      if js_event (sess k ob) \<noteq> OMX_EventPortSettingsChanged then Some (ob, OMX_ErrorNone) else decode_output e k ob })"
    using assms(1,2,4,6,8) s1 s2(4)
    by (simp add: c decode_input_def with_buf_def omx_sess_def omx_def callbacks_after_def sess_upd_same Let_def ob1_def [symmetric]
      src_def [symmetric] ob2_def [symmetric])
  define told where "told = (\<lambda>ob. upd_sess k (\<lambda>s. s\<lparr>js_event := OMX_EventPortSettingsChanged\<rparr>) ob)"
  have run: "run_callbacks [(k, Event OMX_EventPortSettingsChanged)] ob = (told ob, [k])"
    if "shape ob" "j_decoder ob" "abort_state (sess k ob) \<noteq> MM_JPEG_ABORT_INIT" for ob
    using that assms(2) by (simp add: told_def mm_jpegdec_event_handler_def sess_upd_same Let_def)
  have a: "abort_state (sess k ob2) \<noteq> MM_JPEG_ABORT_INIT" "event_pending (sess k ob2)" using assms(4) s1 s2 by simp_all
  have t: "j_trace (jpeg_call Cond_wait ob) = j_trace ob @ [Cond_wait]" for ob by (simp add: jpeg_call_def)
  show ?thesis
  proof (cases early)
    case Nil
    then have late: "late = [(k, Event OMX_EventPortSettingsChanged)]" using assms(7) by simp
    have "run_callbacks (je_events e (j_trace (jpeg_call Cond_wait ob2))) (jpeg_call Cond_wait ob2) = (told (jpeg_call Cond_wait ob2), [k])"
      using a(1) s2 assms(9) late run [of "jpeg_call Cond_wait ob2"] by (simp add: t del: run_callbacks.simps)
    then have "wait_event e k ob2 = Some (told (jpeg_call Cond_wait ob2))"
      using a(2) by (simp add: wait_event_def cond_wait_session_def Let_def del: run_callbacks.simps)
    then have "decode_input e k ob = decode_output e k (told (jpeg_call Cond_wait ob2))"
      using Nil in' s2(2) assms(2) by (simp add: told_def sess_upd_same)
    moreover have "js_event (sess k (told (jpeg_call Cond_wait ob2))) = OMX_EventPortSettingsChanged"
      using s2(2) assms(2) by (simp add: told_def sess_upd_same)
    ultimately show ?thesis using Nil by blast
  next
    case (Cons x xs)
    then have early: "early = [(k, Event OMX_EventPortSettingsChanged)]" "late = []" using assms(7) by simp_all
    have "wait_event e k (told ob2) = None"
      using a(2) s2(2,4) assms(2,9) early(2) by (simp add: wait_event_def cond_wait_session_def told_def sess_upd_same t Let_def)
    then have "decode_input e k ob = None" using in' run [OF s2(2,3) a(1)] early(1) by simp
    then show ?thesis using Cons by simp
  qed
qed

section \<open>A small decoder\<close>

text \<open>Every call succeeds, the component is in the state it was last told to take, and a wait ends with the completion of
  the command.\<close>

definition ex_denv :: jpeg_env where
  "ex_denv = \<lparr>je_ret = (\<lambda>_ _. OMX_ErrorNone), je_state = (\<lambda>t. foldl (\<lambda>s c. case c of Omx _ (Set_state s') \<Rightarrow> s' | _ \<Rightarrow> s) OMX_StateLoaded t),
     je_events = (\<lambda>t. if t \<noteq> [] \<and> last t = Cond_wait then [((0, 0), Event OMX_EventCmdComplete)] else []),
     je_meta = (\<lambda>_. 0), je_malloc = (\<lambda>_. True)\<rparr>"

definition ex_dparams :: mm_jpeg_decode_params where
  "ex_dparams = \<lparr>dp_num_src_bufs = 1, dp_num_dst_bufs = 1, dp_src_main_buf = (\<lambda>_. buf_zero), dp_dest_buf = (\<lambda>_. buf_zero),
     dp_color_format = MM_JPEG_COLOR_FORMAT_YCRCBLP_H2V2, dp_has_jpeg_cb = True\<rparr>"

definition ex_djob :: mm_jpeg_decode_job where
  "ex_djob = \<lparr>jd_src_index = 0, jd_dst_index = 0, jd_main_dim = dim_zero, jd_session_id = 0x1000000\<rparr>"

text \<open>A client is open, has a session, and its job waits.\<close>

definition ex_dqueued :: jpeg_obj where
  "ex_dqueued =
     (let l = fst (the (jpegdec_open ex_denv True jpeg_lib_start));
          l = fst (mm_jpegdec_intf_create_session ex_denv 0x100 (Some ex_dparams) l) in
      the (g_jpegdec_obj (fst (mm_jpegdec_intf_start_job ex_denv (Some ex_djob) l))))"

text \<open>The session is destroyed, and the job manager takes the job: it uses a component that is gone.\<close>

lemma ex_dqueued_facts: "case ex_dqueued of ob \<Rightarrow>
    length (clnt_mgr ob) = MAX_JPEG_CLIENT_NUM \<and> list_all (\<lambda>c. length (jc_session c) = MM_JPEG_MAX_SESSION) (clnt_mgr ob) \<and>
    js_sessionId (sess (0, 0) ob) = 0x1000000 \<and> map node_job_id (job_queue ob) = [0x1000000] \<and>
    list_all (\<lambda>n. case n of Decode_node j i c \<Rightarrow> True | _ \<Rightarrow> False) (job_queue ob) \<and>
    (case mm_jpegdec_destroy_session_by_id ex_denv 0x1000000 ob of
      Some (ob', r) \<Rightarrow> \<not> j_bad ob' \<and> (case mm_jpeg_jobmgr_turn ex_denv ob' of Some ob'' \<Rightarrow> j_bad ob'' | None \<Rightarrow> False)
    | None \<Rightarrow> False)"
  by code_simp

theorem decoder_jobs_outlive_session_witness:
  "\<exists>ob' ob'' j jid c. mm_jpegdec_destroy_session_by_id ex_denv 0x1000000 ex_dqueued = Some (ob', 0) \<and> Decode_node j jid c \<in> set (job_queue ob') \<and>
     \<not> js_active (sess (0, 0) ob') \<and> \<not> j_bad ob' \<and> mm_jpeg_jobmgr_turn ex_denv ob' = Some ob'' \<and> j_bad ob''"
proof -
  note f = ex_dqueued_facts
  obtain ob' r ob'' where d: "mm_jpegdec_destroy_session_by_id ex_denv 0x1000000 ex_dqueued = Some (ob', r)" "\<not> j_bad ob'"
      "mm_jpeg_jobmgr_turn ex_denv ob' = Some ob''" "j_bad ob''"
    using f by (auto split: option.splits)
  obtain n where n: "job_queue ex_dqueued = [n]" using f by auto
  then obtain j i c where m: "n = Decode_node j i c" using f by (cases n) auto
  have s: "shape ex_dqueued" using f by (simp add: shape_def list_all_iff)
  have g: "mm_jpeg_get_session 0x1000000 = Some (0, 0)" by code_simp
  have "js_sessionId (sess (0, 0) ex_dqueued) = 0x1000000" using f by simp
  from decoder_jobs_outlive_session [OF s g this _ d(1), of j i c] show ?thesis using d n m by auto
qed

text \<open>A component that reads the header at once.\<close>

definition ex_early :: jpeg_env where
  "ex_early = ex_denv\<lparr>je_events := (\<lambda>t. if t = [] then [] else case last t of
     Omx _ (Empty_this_buffer _ _) \<Rightarrow> [((0, 0), Event OMX_EventPortSettingsChanged)] | _ \<Rightarrow> [])\<rparr>"

theorem decoder_misses_early_event_witness: "decode_input ex_early (0, 0) ex_dqueued = None"
proof -
  have f: "j_decoder ex_dqueued \<and> abort_state (sess (0, 0) ex_dqueued) \<noteq> MM_JPEG_ABORT_INIT \<and> shape ex_dqueued"
    by code_simp
  let ?c = "Omx (omx_handle (sess (0, 0) ex_dqueued)) (Empty_this_buffer 0 (unat (jd_src_index (js_decode_job (sess (0, 0) ex_dqueued)))))"
  have "in_range (0, 0)" by (simp add: in_range_def MAX_JPEG_CLIENT_NUM_def MM_JPEG_MAX_SESSION_def)
  moreover have "je_ret ex_early t ?c = OMX_ErrorNone" "je_events ex_early (t @ [?c]) = [((0, 0), Event OMX_EventPortSettingsChanged)]"
      "je_events ex_early (t @ [?c, Cond_wait]) = []" for t
    by (simp_all add: ex_early_def ex_denv_def)
  ultimately show ?thesis
    using f decoder_misses_early_event [of ex_dqueued "(0, 0)" ?c ex_early "[((0, 0), Event OMX_EventPortSettingsChanged)]" "[]"] by simp
qed

end
