(* ===== verification/OmxCore.thy ===== *)
theory OmxCore
  imports JpegBase
begin

text \<open>
  \<^verbatim>\<open>camera/mm-image-codec/qomx_core/qomx_core.c\<close>, the core from which the jpeg library gets its components.  It knows two
  components by name, loads the library of a component for its first instance, and unloads it after the last.

  What the dynamic linker and the libraries answer is the environment.  \<^verbatim>\<open>None\<close> is undefined behaviour: the use of a core
  that is not there, or a call through a pointer that is null or into a library that is not loaded.
\<close>

section \<open>Data\<close>

definition OMX_COMP_MAX_INSTANCES :: nat where "OMX_COMP_MAX_INSTANCES = 3"
definition OMX_COMP_MAX_NUM :: nat where "OMX_COMP_MAX_NUM = 3"

definition g_comp_info :: "(string \<times> string) list" where
  "g_comp_info = [(''OMX.qcom.image.jpeg.encoder'', ''libqomx_jpegenc.so''), (''OMX.qcom.image.jpeg.decoder'', ''libqomx_jpegdec.so'')]"

text \<open>A null handle is 0; of the other pointers only whether they are set matters.\<close>

record omx_core_component =
  oc_handle :: "addr list"
  oc_open :: bool
  oc_lib_handle :: bool
  oc_get_instance :: bool
  oc_create_comp_func :: bool
  oc_comp_name :: string
  oc_lib_name :: string

record omx_core =
  oc_component :: "omx_core_component list"
  oc_comp_cnt :: nat

datatype core_call = Core_malloc | Dlopen string | Dlsym string string | Dlclose string | Get_instance string
  | Create_component_fns string addr | Set_callbacks addr | Component_deinit addr

text \<open>\<^verbatim>\<open>cw_loaded\<close> counts how often a library was opened more than closed.\<close>

record core_world =
  g_omxcore :: "omx_core option"
  cw_loaded :: "string \<Rightarrow> nat"
  cw_trace :: "core_call list"

record core_env =
  ce_malloc :: "core_call list \<Rightarrow> bool"
  ce_dlopen :: "core_call list \<Rightarrow> string \<Rightarrow> bool"
  ce_dlsym :: "core_call list \<Rightarrow> string \<Rightarrow> string \<Rightarrow> bool"
  ce_dlclose :: "core_call list \<Rightarrow> string \<Rightarrow> omx_error"
  ce_instance :: "core_call list \<Rightarrow> string \<Rightarrow> addr"
  ce_create :: "core_call list \<Rightarrow> string \<Rightarrow> addr \<Rightarrow> addr"
  ce_deinit :: "core_call list \<Rightarrow> addr \<Rightarrow> omx_error"

definition core_call :: "core_call \<Rightarrow> core_world \<Rightarrow> core_world" where
  "core_call c w = w\<lparr>cw_trace := cw_trace w @ [c]\<rparr>"

section \<open>Initialization\<close>

definition component_zero :: omx_core_component where
  "component_zero = \<lparr>oc_handle = replicate OMX_COMP_MAX_INSTANCES 0, oc_open = False, oc_lib_handle = False, oc_get_instance = False,
     oc_create_comp_func = False, oc_comp_name = [], oc_lib_name = []\<rparr>"

text \<open>The memory of the core is cleared, then the names are entered.\<close>

definition core_zero :: omx_core where
  "core_zero = \<lparr>oc_component = map (\<lambda>i. if i < length g_comp_info
     then component_zero\<lparr>oc_comp_name := fst (g_comp_info ! i), oc_lib_name := snd (g_comp_info ! i)\<rparr> else component_zero)
     [0..<OMX_COMP_MAX_NUM], oc_comp_cnt = length g_comp_info\<rparr>"

definition OMX_Init :: "core_env \<Rightarrow> core_world \<Rightarrow> core_world \<times> omx_error" where
  "OMX_Init e w = (case g_omxcore w of
     Some _ \<Rightarrow> (w, OMX_ErrorNone)
   | None \<Rightarrow>
       if length g_comp_info > OMX_COMP_MAX_NUM then (w, OMX_ErrorUndefined)
       else
         (let ok = ce_malloc e (cw_trace w); w = core_call Core_malloc w in
          if ok then (w\<lparr>g_omxcore := Some core_zero\<rparr>, OMX_ErrorNone) else (w, OMX_ErrorInsufficientResources)))"

text \<open>Nobody is asked whether there are instances.\<close>

definition OMX_Deinit :: "core_world \<Rightarrow> core_world" where
  "OMX_Deinit w = w\<lparr>g_omxcore := None\<rparr>"

section \<open>Instances\<close>

definition get_comp_from_list :: "string \<Rightarrow> omx_core \<Rightarrow> nat option" where
  "get_comp_from_list n core = find (\<lambda>i. oc_comp_name (oc_component core ! i) = n) [0..<oc_comp_cnt core]"

definition get_free_inst_idx :: "omx_core_component \<Rightarrow> nat option" where
  "get_free_inst_idx c = find (\<lambda>i. oc_handle c ! i = 0) [0..<OMX_COMP_MAX_INSTANCES]"

definition is_comp_active :: "omx_core_component \<Rightarrow> bool" where
  "is_comp_active c \<longleftrightarrow> (\<exists>i \<in> {0..<OMX_COMP_MAX_INSTANCES}. oc_handle c ! i \<noteq> 0)"

definition get_idx_from_handle :: "addr \<Rightarrow> omx_core \<Rightarrow> (nat \<times> nat) option" where
  "get_idx_from_handle h core = find (\<lambda>(i, j). oc_handle (oc_component core ! i) ! j = h)
     (List.product [0..<oc_comp_cnt core] [0..<OMX_COMP_MAX_INSTANCES])"

text \<open>Loading the library of a component that is not open.  The last part of the result says whether the error path closes
  the library.\<close>

definition open_library :: "core_env \<Rightarrow> omx_core_component \<Rightarrow> core_world \<Rightarrow> omx_core_component \<times> core_world \<times> omx_error \<times> bool" where
  "open_library e c w =
     (if oc_open c then (c, w, OMX_ErrorNone, False)
      else
        (let n = oc_lib_name c; ok = ce_dlopen e (cw_trace w) n; w = core_call (Dlopen n) w in
         if \<not> ok then (c\<lparr>oc_lib_handle := False\<rparr>, w, OMX_ErrorInvalidComponent, False)
         else
           (let w = w\<lparr>cw_loaded := (cw_loaded w)(n := cw_loaded w n + 1)\<rparr>;
                f = ce_dlsym e (cw_trace w) n ''create_component_fns''; w = core_call (Dlsym n ''create_component_fns'') w;
                g = ce_dlsym e (cw_trace w) n ''getInstance''; w = core_call (Dlsym n ''getInstance'') w;
                c = c\<lparr>oc_lib_handle := True, oc_open := True, oc_create_comp_func := f, oc_get_instance := g\<rparr> in
            (c, w, if \<not> f \<or> \<not> g then OMX_ErrorInvalidComponent else OMX_ErrorNone, True))))"

text \<open>The object and its component; 0 if there is none.\<close>

definition create_instance :: "core_env \<Rightarrow> omx_core_component \<Rightarrow> core_world \<Rightarrow> (core_world \<times> addr) option" where
  "create_instance e c w =
     (let n = oc_lib_name c in
      if \<not> oc_get_instance c \<or> cw_loaded w n = 0 then None
      else
        (let p = ce_instance e (cw_trace w) n; w = core_call (Get_instance n) w in
         if p = 0 then Some (w, 0)
         else if \<not> oc_create_comp_func c then None
         else Some (core_call (Create_component_fns n p) w, ce_create e (cw_trace w) n p)))"

definition dlclose_library :: "core_env \<Rightarrow> omx_core_component \<Rightarrow> core_world \<Rightarrow> (core_world \<times> omx_error) option" where
  "dlclose_library e c w =
     (let n = oc_lib_name c in
      if \<not> oc_lib_handle c then None
      else Some (core_call (Dlclose n) (w\<lparr>cw_loaded := (cw_loaded w)(n := cw_loaded w n - 1)\<rparr>), ce_dlclose e (cw_trace w) n))"

definition set_component :: "nat \<Rightarrow> omx_core_component \<Rightarrow> omx_core \<Rightarrow> core_world \<Rightarrow> core_world" where
  "set_component i c core w = w\<lparr>g_omxcore := Some (core\<lparr>oc_component := (oc_component core)[i := c]\<rparr>)\<rparr>"

text \<open>The error path does not take back that the component is open.\<close>

definition get_handle_error :: "core_env \<Rightarrow> nat \<Rightarrow> omx_core_component \<Rightarrow> omx_core \<Rightarrow> bool \<Rightarrow> core_world \<Rightarrow>
    (core_world \<times> omx_error \<times> addr option) option" where
  "get_handle_error e i c core close_handle w =
     (if close_handle then do {
        (w, _) \<leftarrow> dlclose_library e c w;
        Some (set_component i (c\<lparr>oc_lib_handle := False\<rparr>) core w, OMX_ErrorInvalidComponent, Some 0)
      } else Some (set_component i c core w, OMX_ErrorInvalidComponent, Some 0))"

text \<open>\<^verbatim>\<open>handle\<close> says whether the caller passes a place for the result; the last part of the result is what is written there.\<close>

definition OMX_GetHandle_core :: "core_env \<Rightarrow> bool \<Rightarrow> string option \<Rightarrow> core_world \<Rightarrow> (core_world \<times> omx_error \<times> addr option) option" where
  "OMX_GetHandle_core e handle name w = (case name of
     None \<Rightarrow> Some (w, OMX_ErrorInvalidComponent, None)
   | Some n \<Rightarrow> do {
       core \<leftarrow> g_omxcore w;
       case get_comp_from_list n core of
         None \<Rightarrow> Some (w, OMX_ErrorInvalidComponent, None)
       | Some i \<Rightarrow>
           if \<not> handle then Some (w, OMX_ErrorBadParameter, None)
           else
             (let c = oc_component core ! i in
              case get_free_inst_idx c of
                None \<Rightarrow> get_handle_error e i c core False w
              | Some j \<Rightarrow>
                  (let (c, w, rc, close_handle) = open_library e c w in
                   if rc \<noteq> OMX_ErrorNone then get_handle_error e i c core close_handle w
                   else do {
                     (w, h) \<leftarrow> create_instance e c w;
                     if h = 0 then get_handle_error e i c core close_handle w
                     else Some (core_call (Set_callbacks h) (set_component i (c\<lparr>oc_handle := (oc_handle c)[j := h]\<rparr>) core w),
                                OMX_ErrorNone, Some h)
                   }))
     })"

definition OMX_FreeHandle_core :: "core_env \<Rightarrow> addr \<Rightarrow> core_world \<Rightarrow> (core_world \<times> omx_error) option" where
  "OMX_FreeHandle_core e h w =
     (if h = 0 then Some (w, OMX_ErrorBadParameter)
      else do {
        core \<leftarrow> g_omxcore w;
        case get_idx_from_handle h core of
          None \<Rightarrow> Some (w, OMX_ErrorInvalidComponent)
        | Some (i, j) \<Rightarrow>
            (let c = oc_component core ! i in
             if cw_loaded w (oc_lib_name c) = 0 then None
             else
               (let rc = ce_deinit e (cw_trace w) h; w = core_call (Component_deinit h) w in
                if rc \<noteq> OMX_ErrorNone then Some (w, OMX_ErrorInvalidComponent)
                else
                  (let c = c\<lparr>oc_handle := (oc_handle c)[j := 0]\<rparr> in
                   if is_comp_active c then Some (set_component i c core w, OMX_ErrorNone)
                   else do {
                     (w, rc) \<leftarrow> dlclose_library e c w;
                     Some (set_component i (c\<lparr>oc_lib_handle := False, oc_get_instance := False, oc_create_comp_func := False,
                       oc_open := False\<rparr>) core w, rc)
                   })))
      })"

end
