(* ===== verification/OmxProps.thy ===== *)
theory OmxProps
  imports OmxCore
begin

text \<open>
  The core of the components: a library is loaded exactly as long as it has an instance, every use of the core is then well
  defined, and obtaining and freeing an instance leaves no trace; and what one failing library does to the core.
\<close>

section \<open>The invariant\<close>

text \<open>When the first instance of a component cannot be created, the error path closes the library but leaves the component
  marked as open.\<close>

definition left_open :: "omx_core_component \<Rightarrow> bool" where
  "left_open c \<longleftrightarrow> oc_open c \<and> \<not> oc_lib_handle c"

definition component_ok :: "core_world \<Rightarrow> omx_core_component \<Rightarrow> bool" where
  "component_ok w c \<longleftrightarrow> length (oc_handle c) = OMX_COMP_MAX_INSTANCES \<and>
     (if left_open c then \<not> is_comp_active c
      else (oc_open c \<longleftrightarrow> is_comp_active c) \<and> oc_lib_handle c = oc_open c \<and> oc_get_instance c = oc_open c \<and> oc_create_comp_func c = oc_open c) \<and>
     cw_loaded w (oc_lib_name c) = (if oc_lib_handle c then 1 else 0)"

lemma component_okD:
  assumes "component_ok w c" "\<not> left_open c"
  shows "length (oc_handle c) = OMX_COMP_MAX_INSTANCES" "oc_open c \<longleftrightarrow> is_comp_active c" "oc_lib_handle c = oc_open c"
    "oc_get_instance c = oc_open c" "oc_create_comp_func c = oc_open c" "cw_loaded w (oc_lib_name c) = (if oc_open c then 1 else 0)"
  using assms by (simp_all add: component_ok_def)

lemma component_ok_loaded: "component_ok w c \<Longrightarrow> cw_loaded w (oc_lib_name c) = (if is_comp_active c then 1 else 0)"
  by (cases "left_open c") (auto simp: component_ok_def left_open_def)

lemma active_not_left: "component_ok w c \<Longrightarrow> is_comp_active c \<Longrightarrow> \<not> left_open c"
  by (auto simp: component_ok_def)

definition core_ok :: "core_world \<Rightarrow> bool" where
  "core_ok w \<longleftrightarrow> (case g_omxcore w of
     None \<Rightarrow> \<forall>n. cw_loaded w n = 0
   | Some core \<Rightarrow> oc_comp_cnt core = length g_comp_info \<and> length (oc_component core) = OMX_COMP_MAX_NUM \<and>
       (\<forall>i < length g_comp_info. component_ok w (oc_component core ! i) \<and> oc_lib_name (oc_component core ! i) = snd (g_comp_info ! i)) \<and>
       (\<forall>n. n \<notin> snd ` set g_comp_info \<longrightarrow> cw_loaded w n = 0))"

lemma core_okD:
  assumes "core_ok w" "g_omxcore w = Some core"
  shows "oc_comp_cnt core = length g_comp_info" "length (oc_component core) = OMX_COMP_MAX_NUM"
    "\<And>i. i < length g_comp_info \<Longrightarrow> component_ok w (oc_component core ! i)"
    "\<And>i. i < length g_comp_info \<Longrightarrow> oc_lib_name (oc_component core ! i) = snd (g_comp_info ! i)"
    "\<And>n. n \<notin> snd ` set g_comp_info \<Longrightarrow> cw_loaded w n = 0"
  using assms by (auto simp: core_ok_def)

lemma lib_names: "i < length g_comp_info \<Longrightarrow> j < length g_comp_info \<Longrightarrow> snd (g_comp_info ! i) = snd (g_comp_info ! j) \<longleftrightarrow> i = j"
  by (auto simp: g_comp_info_def less_Suc_eq)

lemma few_components: "i < length g_comp_info \<Longrightarrow> i < OMX_COMP_MAX_NUM"
  by (simp add: g_comp_info_def OMX_COMP_MAX_NUM_def)

lemma core_ok_set:
  assumes "core_ok w" "g_omxcore w = Some core" "i < length g_comp_info" "component_ok w' c"
    "oc_lib_name c = oc_lib_name (oc_component core ! i)" "\<And>n. n \<noteq> oc_lib_name c \<Longrightarrow> cw_loaded w' n = cw_loaded w n"
    "g_omxcore w' = Some (core\<lparr>oc_component := (oc_component core)[i := c]\<rparr>)"
  shows "core_ok w'"
proof -
  note ok = core_okD [OF assms(1,2)]
  have n: "oc_lib_name c = snd (g_comp_info ! i)" using ok(4) [OF assms(3)] assms(5) by simp
  have "component_ok w' (oc_component core ! j)" if "j < length g_comp_info" "j \<noteq> i" for j
    using ok(3,4) [OF that(1)] assms(6) n lib_names [OF that(1) assms(3)] that(2) by (simp add: component_ok_def)
  moreover have "cw_loaded w' m = 0" if "m \<notin> snd ` set g_comp_info" for m
    using ok(5) [OF that] assms(6) [of m] that n nth_mem [OF assms(3)] by (metis image_eqI)
  ultimately show ?thesis using ok(1,2,4) assms(3,4,7) n few_components [OF assms(3)] by (auto simp: core_ok_def nth_list_update)
qed

lemma call_fields [simp]: "g_omxcore (core_call c w) = g_omxcore w" "cw_loaded (core_call c w) = cw_loaded w"
  by (simp_all add: core_call_def)

section \<open>Obtaining and freeing\<close>

definition opened :: "omx_core_component \<Rightarrow> omx_core_component" where
  "opened c = c\<lparr>oc_lib_handle := True, oc_open := True, oc_create_comp_func := True, oc_get_instance := True\<rparr>"

definition same_core :: "core_world \<Rightarrow> core_world \<Rightarrow> bool" where
  "same_core w w' \<longleftrightarrow> g_omxcore w' = g_omxcore w \<and> cw_loaded w' = cw_loaded w"

lemma core_ok_same: "core_ok w \<Longrightarrow> same_core w w' \<Longrightarrow> core_ok w'"
proof -
  assume "core_ok w" "same_core w w'"
  then have "component_ok w' c = component_ok w c" for c by (simp add: component_ok_def same_core_def)
  then show "core_ok w'" using \<open>core_ok w\<close> \<open>same_core w w'\<close> by (auto simp: core_ok_def same_core_def split: option.splits)
qed

text \<open>Opening the library of a component that is not left open: it fails and changes nothing, it succeeds, or a function is
  missing.\<close>

lemma open_cases:
  assumes "component_ok w c" "\<not> left_open c"
  obtains (failed) w1 rc where "open_library e c w = (c, w1, rc, False)" "rc \<noteq> OMX_ErrorNone" "same_core w w1"
  | (loaded) w1 where "open_library e c w = (opened c, w1, OMX_ErrorNone, \<not> oc_open c)" "g_omxcore w1 = g_omxcore w"
      "cw_loaded w1 = (cw_loaded w)(oc_lib_name c := 1)"
  | (missing) w1 f g where "open_library e c w = ((opened c)\<lparr>oc_create_comp_func := f, oc_get_instance := g\<rparr>, w1, OMX_ErrorInvalidComponent, True)"
      "\<not> oc_open c" "g_omxcore w1 = g_omxcore w" "cw_loaded w1 = (cw_loaded w)(oc_lib_name c := 1)"
proof (cases "oc_open c")
  case True
  then have "opened c = c" "(cw_loaded w)(oc_lib_name c := 1) = cw_loaded w"
    using component_okD [OF assms] by (simp_all add: opened_def fun_upd_idem)
  then show ?thesis using True loaded [of w] by (simp add: open_library_def)
next
  case closed: False
  then have c: "c\<lparr>oc_lib_handle := False\<rparr> = c" "cw_loaded w (oc_lib_name c) = 0" using component_okD [OF assms] by simp_all
  show ?thesis
  proof (cases "ce_dlopen e (cw_trace w) (oc_lib_name c)")
    case False
    then show ?thesis using closed c(1) failed [of "core_call (Dlopen (oc_lib_name c)) w"]
      by (simp add: open_library_def Let_def same_core_def)
  next
    case True
    obtain d w1 rc b where o: "open_library e c w = (d, w1, rc, b)" by (metis prod_cases4)
    then have w1: "g_omxcore w1 = g_omxcore w" "cw_loaded w1 = (cw_loaded w)(oc_lib_name c := 1)" "b"
      using True closed c(2) by (auto simp: open_library_def Let_def)
    show ?thesis
    proof (cases "rc = OMX_ErrorNone")
      case True
      then have "d = opened c" using o \<open>ce_dlopen e _ _\<close> closed by (auto simp: open_library_def Let_def opened_def split: if_splits)
      then show ?thesis using loaded [of w1] o w1 True closed by simp
    next
      case False
      then have "rc = OMX_ErrorInvalidComponent" "d = (opened c)\<lparr>oc_create_comp_func := oc_create_comp_func d, oc_get_instance := oc_get_instance d\<rparr>"
        using o \<open>ce_dlopen e _ _\<close> closed by (auto simp: open_library_def Let_def opened_def split: if_splits)
      then show ?thesis using missing [of "oc_get_instance d" "oc_create_comp_func d" w1] missing [of "oc_create_comp_func d" "oc_get_instance d" w1] o w1 closed by simp
    qed
  qed
qed

lemma create_opened:
  assumes "cw_loaded w (oc_lib_name c) = 1"
  shows "\<exists>w' h. create_instance e (opened c) w = Some (w', h) \<and> same_core w w'"
  using assms by (simp add: create_instance_def opened_def Let_def same_core_def)

lemma create_left_open: "component_ok w c \<Longrightarrow> left_open c \<Longrightarrow> create_instance e c w = None"
  by (simp add: create_instance_def component_ok_def left_open_def)

lemma set_same: "g_omxcore w = Some core \<Longrightarrow> same_core v w \<Longrightarrow> same_core v (set_component i (oc_component core ! i) core w)"
  by (simp add: set_component_def same_core_def)

text \<open>A handle is given out, or nothing changes.\<close>

definition handed :: "core_world \<Rightarrow> omx_core \<Rightarrow> nat \<Rightarrow> nat \<Rightarrow> addr \<Rightarrow> core_world \<Rightarrow> bool" where
  "handed w core i j h w' \<longleftrightarrow> (let c = oc_component core ! i in
     h \<noteq> 0 \<and> i < length g_comp_info \<and> j < OMX_COMP_MAX_INSTANCES \<and> oc_handle c ! j = 0 \<and> cw_loaded w' = (cw_loaded w)(oc_lib_name c := 1) \<and>
     g_omxcore w' = Some (core\<lparr>oc_component := (oc_component core)[i := (opened c)\<lparr>oc_handle := (oc_handle c)[j := h]\<rparr>]\<rparr>))"

lemma handedD:
  assumes "handed w core i j h w'" "c = oc_component core ! i"
  shows "h \<noteq> 0" "i < length g_comp_info" "j < OMX_COMP_MAX_INSTANCES" "oc_handle c ! j = 0" "cw_loaded w' = (cw_loaded w)(oc_lib_name c := 1)"
    "g_omxcore w' = Some (core\<lparr>oc_component := (oc_component core)[i := (opened c)\<lparr>oc_handle := (oc_handle c)[j := h]\<rparr>]\<rparr>)"
  using assms by (simp_all add: handed_def Let_def)

text \<open>A component whose first instance failed is left open.\<close>

definition poisoned :: "core_world \<Rightarrow> omx_core \<Rightarrow> nat \<Rightarrow> core_world \<Rightarrow> bool" where
  "poisoned w core i w' \<longleftrightarrow> (\<exists>c. i < length g_comp_info \<and> left_open c \<and> oc_handle c = oc_handle (oc_component core ! i) \<and>
     oc_lib_name c = oc_lib_name (oc_component core ! i) \<and> \<not> oc_open (oc_component core ! i) \<and> \<not> left_open (oc_component core ! i) \<and>
     cw_loaded w' = cw_loaded w \<and> g_omxcore w' = Some (core\<lparr>oc_component := (oc_component core)[i := c]\<rparr>))"

lemma close_after_error:
  assumes "core_ok w" "g_omxcore w = Some core" "i < length g_comp_info" "c = oc_component core ! i" "\<not> oc_open c" "\<not> left_open c"
    and "d = (opened c)\<lparr>oc_create_comp_func := f, oc_get_instance := g\<rparr>" "cw_loaded v = (cw_loaded w)(oc_lib_name c := 1)"
  shows "\<exists>w'. get_handle_error e i d core True v = Some (w', OMX_ErrorInvalidComponent, Some 0) \<and> poisoned w core i w'"
proof -
  have c: "component_ok w c" using core_okD(3) [OF assms(1-3)] by (simp add: assms(4))
  have "cw_loaded w (oc_lib_name c) = 0" using component_okD(6) [OF c assms(6)] assms(5) by simp
  then have l: "(cw_loaded v)(oc_lib_name c := cw_loaded v (oc_lib_name c) - 1) = cw_loaded w" using assms(8) by (simp add: fun_upd_idem)
  have "left_open (d\<lparr>oc_lib_handle := False\<rparr>)" using assms(7) by (simp add: left_open_def opened_def)
  then show ?thesis using l assms(3-7)
    by (auto simp: get_handle_error_def dlclose_library_def set_component_def poisoned_def Let_def opened_def
        intro!: exI [of _ "d\<lparr>oc_lib_handle := False\<rparr>"])
qed

text \<open>The requests that run into a component left open.\<close>

definition hits_left_open :: "omx_core \<Rightarrow> bool \<Rightarrow> string option \<Rightarrow> bool" where
  "hits_left_open core p n \<longleftrightarrow> p \<and> (\<exists>m i. n = Some m \<and> get_comp_from_list m core = Some i \<and> left_open (oc_component core ! i))"

lemma get_left_open:
  assumes "core_ok w" "g_omxcore w = Some core" "hits_left_open core p n"
  shows "OMX_GetHandle_core e p n w = None"
proof -
  obtain m i where n: "n = Some m" "get_comp_from_list m core = Some i" "p" "left_open (oc_component core ! i)"
    using assms(3) by (auto simp: hits_left_open_def)
  define c where "c = oc_component core ! i"
  have "i < length g_comp_info" using n(2) core_okD(1) [OF assms(1,2)] by (auto simp: get_comp_from_list_def find_Some_iff)
  then have c: "component_ok w c" using core_okD(3) [OF assms(1,2)] by (simp add: c_def)
  have "\<not> is_comp_active c" using c n(4) by (simp add: component_ok_def c_def)
  then have "oc_handle c ! 0 = 0" "0 \<in> set [0..<OMX_COMP_MAX_INSTANCES]" by (auto simp: is_comp_active_def OMX_COMP_MAX_INSTANCES_def)
  then have "get_free_inst_idx c \<noteq> None" unfolding get_free_inst_idx_def find_None_iff by blast
  then obtain j where "get_free_inst_idx c = Some j" by auto
  moreover have "open_library e c w = (c, w, OMX_ErrorNone, False)" using n(4) by (simp add: open_library_def left_open_def c_def)
  ultimately show ?thesis
    using n assms(2) create_left_open [OF c, of e] by (simp add: OMX_GetHandle_core_def c_def [symmetric])
qed

lemma get_cases:
  assumes "core_ok w" "g_omxcore w = Some core" "\<not> hits_left_open core p n"
  shows "\<exists>w' rc out. OMX_GetHandle_core e p n w = Some (w', rc, out) \<and>
    (rc \<noteq> OMX_ErrorNone \<and> same_core w w' \<or> rc \<noteq> OMX_ErrorNone \<and> (\<exists>i m. p \<and> n = Some m \<and> get_comp_from_list m core = Some i \<and> poisoned w core i w') \<or>
     (\<exists>i j h. rc = OMX_ErrorNone \<and> out = Some h \<and> handed w core i j h w' \<and> \<not> left_open (oc_component core ! i)))"
    (is "?goal")
proof (cases "n = None \<or> get_comp_from_list (the n) core = None \<or> \<not> p")
  case True
  then show ?thesis using assms(2) by (auto simp: OMX_GetHandle_core_def same_core_def split: option.split)
next
  case False
  then obtain m i where n: "n = Some m" "get_comp_from_list m core = Some i" "p" by auto
  have i: "i < length g_comp_info" using n(2) core_okD(1) [OF assms(1,2)] by (auto simp: get_comp_from_list_def find_Some_iff)
  define c where "c = oc_component core ! i"
  have c: "component_ok w c" "\<not> left_open c" using core_okD(3) [OF assms(1,2) i] n assms(3) by (simp_all add: c_def hits_left_open_def)
  have err: "get_handle_error e i c core False v = Some (set_component i c core v, OMX_ErrorInvalidComponent, Some 0)" for v
    by (simp add: get_handle_error_def)
  show ?goal
  proof (cases "get_free_inst_idx c")
    case None
    then show ?thesis using n assms(2) set_same [OF assms(2), of w i] err by (simp add: OMX_GetHandle_core_def c_def [symmetric] same_core_def)
  next
    case (Some j)
    then have j: "j < OMX_COMP_MAX_INSTANCES" "oc_handle c ! j = 0" by (auto simp: get_free_inst_idx_def find_Some_iff)
    from c show ?thesis
    proof (cases rule: open_cases [where e = e])
      case (failed w1 rc)
      then show ?thesis using n Some assms(2) err
        by (simp add: OMX_GetHandle_core_def c_def [symmetric] same_core_def set_component_def) (simp add: c_def)
    next
      case (missing w1 f g)
      obtain w' where "get_handle_error e i ((opened c)\<lparr>oc_create_comp_func := f, oc_get_instance := g\<rparr>) core True w1 =
          Some (w', OMX_ErrorInvalidComponent, Some 0)" "poisoned w core i w'"
        using close_after_error [OF assms(1,2) i c_def missing(2) c(2) refl missing(4)] by blast
      then show ?thesis using n Some assms(2) missing(1) by (auto simp: OMX_GetHandle_core_def c_def [symmetric])
    next
      case (loaded w1)
      obtain w2 h where w2: "create_instance e (opened c) w1 = Some (w2, h)" "same_core w1 w2"
        using create_opened [of w1 c e] loaded(3) by auto
      have step: "OMX_GetHandle_core e p n w = (if h = 0 then get_handle_error e i (opened c) core (\<not> oc_open c) w2
          else Some (core_call (Set_callbacks h) (set_component i ((opened c)\<lparr>oc_handle := (oc_handle c)[j := h]\<rparr>) core w2), OMX_ErrorNone, Some h))"
        using n Some assms(2) loaded(1) w2(1) by (simp add: OMX_GetHandle_core_def c_def [symmetric]) (simp add: opened_def)
      consider (some) "h \<noteq> 0" | (first) "h = 0" "\<not> oc_open c" | (further) "h = 0" "oc_open c" by blast
      then show ?thesis
      proof cases
        case some
        have "handed w core i j h (core_call (Set_callbacks h) (set_component i ((opened c)\<lparr>oc_handle := (oc_handle c)[j := h]\<rparr>) core w2))"
          using i j loaded(3) w2 some by (simp add: handed_def c_def same_core_def set_component_def)
        then show ?thesis using step some c(2) c_def by auto
      next
        case first
        have "opened c = (opened c)\<lparr>oc_create_comp_func := True, oc_get_instance := True\<rparr>" by (simp add: opened_def)
        note close_after_error [OF assms(1,2) i c_def first(2) c(2) this, of w2 e]
        obtain w' where w': "get_handle_error e i (opened c) core True w2 = Some (w', OMX_ErrorInvalidComponent, Some 0)" "poisoned w core i w'"
          using \<open>cw_loaded w2 = (cw_loaded w)(oc_lib_name c := 1) \<Longrightarrow> _\<close> loaded(3) w2(2) by (auto simp: same_core_def)
        then have "OMX_GetHandle_core e p n w = Some (w', OMX_ErrorInvalidComponent, Some 0)" using step first by simp
        then show ?thesis using w'(2) n by auto
      next
        case further
        then have "opened c = c" "(cw_loaded w)(oc_lib_name c := 1) = cw_loaded w"
          using component_okD [OF c] by (simp_all add: opened_def fun_upd_idem)
        moreover have "set_component i c core w2 = w2"
          using w2(2) loaded(2) assms(2) c_def by (simp add: set_component_def same_core_def)
        ultimately show ?thesis using step further err w2(2) loaded(2,3) by (simp add: same_core_def)
      qed
    qed
  qed
qed

text \<open>What freeing the instance \<^verbatim>\<open>j\<close> leaves of a component: without instances it is as it was before it was opened.\<close>

definition freed :: "omx_core_component \<Rightarrow> nat \<Rightarrow> omx_core_component" where
  "freed c j = (let c = c\<lparr>oc_handle := (oc_handle c)[j := 0]\<rparr>; b = is_comp_active c in
     c\<lparr>oc_lib_handle := b, oc_get_instance := b, oc_create_comp_func := b, oc_open := b\<rparr>)"

lemma active_handles: "is_comp_active c \<longleftrightarrow> (\<exists>j < OMX_COMP_MAX_INSTANCES. oc_handle c ! j \<noteq> 0)"
  by (auto simp: is_comp_active_def)

lemma idx_cases:
  assumes "get_idx_from_handle h core = Some (i, j)"
  shows "i < oc_comp_cnt core" "j < OMX_COMP_MAX_INSTANCES" "oc_handle (oc_component core ! i) ! j = h"
proof -
  have "(i, j) \<in> set (List.product [0..<oc_comp_cnt core] [0..<OMX_COMP_MAX_INSTANCES]) \<and> oc_handle (oc_component core ! i) ! j = h"
    using assms unfolding get_idx_from_handle_def find_Some_iff by (metis (mono_tags, lifting) case_prod_conv nth_mem)
  then show "i < oc_comp_cnt core" "j < OMX_COMP_MAX_INSTANCES" "oc_handle (oc_component core ! i) ! j = h" by auto
qed

lemma free_found:
  assumes "core_ok w" "g_omxcore w = Some core" "h \<noteq> 0" "get_idx_from_handle h core = Some (i, j)" "c = oc_component core ! i"
    "ce_deinit e (cw_trace w) h = OMX_ErrorNone"
  shows "\<exists>w' rc. OMX_FreeHandle_core e h w = Some (w', rc) \<and> g_omxcore w' = Some (core\<lparr>oc_component := (oc_component core)[i := freed c j]\<rparr>) \<and>
    cw_loaded w' = (cw_loaded w)(oc_lib_name c := if is_comp_active (c\<lparr>oc_handle := (oc_handle c)[j := 0]\<rparr>) then 1 else 0)"
proof -
  note idx = idx_cases [OF assms(4)]
  have i: "i < length g_comp_info" using idx(1) core_okD(1) [OF assms(1,2)] by simp
  have c: "component_ok w c" using core_okD(3) [OF assms(1,2) i] by (simp add: assms(5))
  have act: "is_comp_active c" using idx(2,3) assms(3,5) by (auto simp: active_handles)
  note ok = component_okD [OF c active_not_left [OF c act]]
  have o: "oc_open c" using ok(2) act by simp
  have l: "cw_loaded w (oc_lib_name c) = 1" "oc_lib_handle c" "oc_get_instance c" "oc_create_comp_func c"
    using ok o by simp_all
  let ?c = "c\<lparr>oc_handle := (oc_handle c)[j := 0]\<rparr>"
  have call: "OMX_FreeHandle_core e h w = (let w = core_call (Component_deinit h) w in
      if is_comp_active ?c then Some (set_component i ?c core w, OMX_ErrorNone)
      else do {
        (w, rc) \<leftarrow> dlclose_library e ?c w;
        Some (set_component i (?c\<lparr>oc_lib_handle := False, oc_get_instance := False, oc_create_comp_func := False, oc_open := False\<rparr>) core w, rc)
      })"
    using assms(2-4,6) l(1) by (simp add: OMX_FreeHandle_core_def assms(5) [symmetric] Let_def)
  show ?thesis
  proof (cases "is_comp_active ?c")
    case True
    then have "freed c j = ?c" using o l by (simp add: freed_def)
    then show ?thesis using call True l(1) by (simp add: set_component_def fun_upd_idem)
  next
    case False
    then show ?thesis using call l by (simp add: set_component_def dlclose_library_def freed_def Let_def)
  qed
qed

lemma freed_ok:
  assumes "component_ok w c" "cw_loaded w' (oc_lib_name c) = (if is_comp_active (c\<lparr>oc_handle := (oc_handle c)[j := 0]\<rparr>) then 1 else 0)"
  shows "component_ok w' (freed c j)"
  using assms by (auto simp: component_ok_def freed_def Let_def is_comp_active_def left_open_def)

lemma free_ok:
  assumes "core_ok w" "g_omxcore w = Some core"
  shows "\<exists>w' rc. OMX_FreeHandle_core e h w = Some (w', rc) \<and> core_ok w' \<and> g_omxcore w' \<noteq> None"
proof (cases "h = 0 \<or> get_idx_from_handle h core = None")
  case True
  then show ?thesis using assms by (auto simp: OMX_FreeHandle_core_def)
next
  case False
  then obtain i j where idx: "h \<noteq> 0" "get_idx_from_handle h core = Some (i, j)" by auto
  define c where "c = oc_component core ! i"
  note f = idx_cases [OF idx(2)]
  have i: "i < length g_comp_info" using f(1) core_okD(1) [OF assms] by simp
  have c: "component_ok w c" using core_okD(3) [OF assms i] by (simp add: c_def)
  have "is_comp_active c" using f(2,3) idx(1) by (auto simp: active_handles c_def)
  then have l: "cw_loaded w (oc_lib_name c) = 1" using component_ok_loaded [OF c] by simp
  show ?thesis
  proof (cases "ce_deinit e (cw_trace w) h = OMX_ErrorNone")
    case True
    obtain w' rc where w': "OMX_FreeHandle_core e h w = Some (w', rc)" "g_omxcore w' = Some (core\<lparr>oc_component := (oc_component core)[i := freed c j]\<rparr>)"
      "cw_loaded w' = (cw_loaded w)(oc_lib_name c := if is_comp_active (c\<lparr>oc_handle := (oc_handle c)[j := 0]\<rparr>) then 1 else 0)"
      using free_found [OF assms idx c_def True] by blast
    have n: "oc_lib_name (freed c j) = oc_lib_name c" by (simp add: freed_def Let_def)
    have "core_ok w'"
      by (rule core_ok_set [OF assms i freed_ok [OF c] _ _ w'(2)]) (use w'(3) n in \<open>simp_all add: c_def\<close>)
    then show ?thesis using w'(1,2) by simp
  next
    case False
    then have "OMX_FreeHandle_core e h w = Some (core_call (Component_deinit h) w, OMX_ErrorInvalidComponent)"
      using assms(2) idx l by (simp add: OMX_FreeHandle_core_def c_def [symmetric] Let_def)
    moreover have "core_ok (core_call (Component_deinit h) w)" by (rule core_ok_same [OF assms(1)]) (simp add: same_core_def)
    ultimately show ?thesis using assms(2) by simp
  qed
qed

lemma handed_ok:
  assumes "core_ok w" "g_omxcore w = Some core" "handed w core i j h w'"
  shows "core_ok w'"
proof -
  define c where "c = oc_component core ! i"
  note s = handedD [OF assms(3) c_def]
  have c: "component_ok w c" using core_okD(3) [OF assms(1,2) s(2)] by (simp add: c_def)
  have l: "length (oc_handle c) = OMX_COMP_MAX_INSTANCES" using c by (simp add: component_ok_def)
  have "is_comp_active ((opened c)\<lparr>oc_handle := (oc_handle c)[j := h]\<rparr>)"
    unfolding active_handles by (rule exI [of _ j]) (use l s(1,3) in simp)
  then have "component_ok w' ((opened c)\<lparr>oc_handle := (oc_handle c)[j := h]\<rparr>)"
    using l s(5) by (simp add: component_ok_def opened_def left_open_def)
  then show ?thesis
    by (rule core_ok_set [OF assms(1,2) s(2) _ _ _ s(6)]) (use s(5) in \<open>simp_all add: opened_def c_def\<close>)
qed

lemma poisoned_ok:
  assumes "core_ok w" "g_omxcore w = Some core" "poisoned w core i w'"
  shows "core_ok w'" "g_omxcore w' \<noteq> None"
proof -
  obtain c where p: "i < length g_comp_info" "left_open c" "oc_handle c = oc_handle (oc_component core ! i)"
    "oc_lib_name c = oc_lib_name (oc_component core ! i)" "\<not> oc_open (oc_component core ! i)" "\<not> left_open (oc_component core ! i)"
    "cw_loaded w' = cw_loaded w" "g_omxcore w' = Some (core\<lparr>oc_component := (oc_component core)[i := c]\<rparr>)"
    using assms(3) by (auto simp: poisoned_def)
  note ok = component_okD [OF core_okD(3) [OF assms(1,2) p(1)] p(6)]
  have "\<not> is_comp_active c" using ok(2) p(3,5) by (simp add: is_comp_active_def)
  then have "component_ok w' c" using ok(1,6) p by (simp add: component_ok_def left_open_def)
  then show "core_ok w'" by (rule core_ok_set [OF assms(1,2) p(1) _ p(4) _ p(8)]) (simp add: p(7))
  show "g_omxcore w' \<noteq> None" using p(8) by simp
qed

lemma get_ok:
  assumes "core_ok w" "g_omxcore w = Some core" "\<not> hits_left_open core p n"
  shows "\<exists>w' r. OMX_GetHandle_core e p n w = Some (w', r) \<and> core_ok w' \<and> g_omxcore w' \<noteq> None"
proof -
  obtain w' rc out where g: "OMX_GetHandle_core e p n w = Some (w', rc, out)"
    "same_core w w' \<or> (\<exists>i. poisoned w core i w') \<or> (\<exists>i j h. handed w core i j h w')"
    using get_cases [OF assms, of e] by (elim exE conjE) blast+
  from g(2) have "core_ok w' \<and> g_omxcore w' \<noteq> None"
  proof (elim disjE exE)
    assume "same_core w w'"
    then show ?thesis using core_ok_same [OF assms(1), of w'] assms(2) by (simp add: same_core_def)
  next
    fix i assume "poisoned w core i w'"
    then show ?thesis using poisoned_ok [OF assms(1,2)] by simp
  next
    fix i j h assume h: "handed w core i j h w'"
    show ?thesis using handed_ok [OF assms(1,2) h] handedD(6) [OF h refl] by simp
  qed
  then show ?thesis using g(1) by auto
qed

section \<open>Users of the core\<close>

datatype core_action = C_init | C_get bool "string option" | C_free addr | C_deinit

definition core_do :: "core_env \<Rightarrow> core_action \<Rightarrow> core_world \<Rightarrow> core_world option" where
  "core_do e a w = (case a of
     C_init \<Rightarrow> Some (fst (OMX_Init e w))
   | C_get p n \<Rightarrow> map_option fst (OMX_GetHandle_core e p n w)
   | C_free h \<Rightarrow> map_option fst (OMX_FreeHandle_core e h w)
   | C_deinit \<Rightarrow> Some (OMX_Deinit w))"

text \<open>The core is used between its initialization and its end, and ends when nobody has an instance.\<close>

fun core_expected :: "core_world \<Rightarrow> core_action \<Rightarrow> bool" where
  "core_expected w C_init \<longleftrightarrow> True"
| "core_expected w C_deinit \<longleftrightarrow> (\<forall>core i. g_omxcore w = Some core \<longrightarrow> i < length g_comp_info \<longrightarrow> \<not> is_comp_active (oc_component core ! i))"
| "core_expected w _ \<longleftrightarrow> g_omxcore w \<noteq> None"

definition core_start :: core_world where
  "core_start = \<lparr>g_omxcore = None, cw_loaded = (\<lambda>_. 0), cw_trace = []\<rparr>"

inductive core_reach :: "core_env \<Rightarrow> core_world \<Rightarrow> bool" for e where
  start: "core_reach e core_start"
| step: "core_reach e w \<Longrightarrow> core_expected w a \<Longrightarrow> core_do e a w = Some w' \<Longrightarrow> core_reach e w'"

lemma init_core_ok: "core_ok w \<Longrightarrow> core_ok (fst (OMX_Init e w))"
proof (cases "g_omxcore w")
  case None
  assume "core_ok w"
  then have l: "cw_loaded w n = 0" for n using None by (simp add: core_ok_def)
  have "length (oc_component core_zero) = OMX_COMP_MAX_NUM" "oc_comp_cnt core_zero = length g_comp_info"
    by (simp_all add: core_zero_def)
  moreover have "component_ok w' (oc_component core_zero ! i) \<and> oc_lib_name (oc_component core_zero ! i) = snd (g_comp_info ! i)"
    if "i < length g_comp_info" "\<And>n. cw_loaded w' n = 0" for i w'
    using that few_components [OF that(1)]
    by (simp add: core_zero_def component_ok_def component_zero_def is_comp_active_def left_open_def)
  ultimately show ?thesis using None l by (auto simp: OMX_Init_def core_ok_def Let_def)
qed (simp add: OMX_Init_def)

lemma deinit_core_ok: "core_ok w \<Longrightarrow> core_expected w C_deinit \<Longrightarrow> core_ok (OMX_Deinit w)"
proof (cases "g_omxcore w")
  case (Some core)
  assume w: "core_ok w" "core_expected w C_deinit"
  note ok = core_okD [OF w(1) Some]
  have "cw_loaded w n = 0" for n
  proof (cases "n \<in> snd ` set g_comp_info")
    case True
    then obtain i where i: "i < length g_comp_info" "n = snd (g_comp_info ! i)" by (auto simp: set_conv_nth)
    then show ?thesis using component_ok_loaded [OF ok(3) [OF i(1)]] ok(4) [OF i(1)] w(2) Some by simp
  qed (rule ok(5))
  then show ?thesis by (simp add: OMX_Deinit_def core_ok_def)
qed (simp add: OMX_Deinit_def core_ok_def)

text \<open>A use of the core that has no defined behaviour.\<close>

definition undefined_use :: "core_world \<Rightarrow> core_action \<Rightarrow> bool" where
  "undefined_use w a \<longleftrightarrow> (\<exists>core p n. g_omxcore w = Some core \<and> a = C_get p n \<and> hits_left_open core p n)"

lemma core_do_ok:
  assumes "core_ok w" "core_expected w a" "\<not> undefined_use w a"
  shows "\<exists>w'. core_do e a w = Some w' \<and> core_ok w'"
proof (cases a)
  case (C_get p n)
  then obtain core where c: "g_omxcore w = Some core" using assms(2) by auto
  then have "\<not> hits_left_open core p n" using assms(3) C_get by (simp add: undefined_use_def)
  from get_ok [OF assms(1) c this, of e] show ?thesis by (auto simp: core_do_def C_get)
next
  case (C_free h)
  then obtain core where "g_omxcore w = Some core" using assms(2) by auto
  from free_ok [OF assms(1) this, of e h] show ?thesis by (auto simp: core_do_def C_free)
qed (use assms in \<open>simp_all add: core_do_def init_core_ok deinit_core_ok del: core_expected.simps\<close>)

lemma core_do_undefined: "core_ok w \<Longrightarrow> undefined_use w a \<Longrightarrow> core_do e a w = None"
  by (auto simp: undefined_use_def core_do_def get_left_open)

lemma core_reach_ok: "core_reach e w \<Longrightarrow> core_ok w"
proof (induction rule: core_reach.induct)
  case start
  show ?case by (simp add: core_start_def core_ok_def)
next
  case (step w a w')
  have "\<not> undefined_use w a" using core_do_undefined [OF step.IH, of a e] step.hyps(3) by auto
  then show ?case using core_do_ok [OF step.IH step.hyps(2), of e] step.hyps(3) by auto
qed

lemma find_unique:
  assumes "x \<in> set xs" "P x" "\<And>y. y \<in> set xs \<Longrightarrow> P y \<Longrightarrow> y = x"
  shows "find P xs = Some x"
proof (cases "find P xs")
  case None
  then show ?thesis using assms(1,2) by (simp add: find_None_iff)
next
  case (Some y)
  then have "y \<in> set xs" "P y" by (auto simp: find_Some_iff)
  then have "y = x" by (rule assms(3))
  then show ?thesis using Some by simp
qed

lemma freed_opened:
  assumes "component_ok w c" "\<not> left_open c" "oc_handle c ! j = 0"
  shows "freed ((opened c)\<lparr>oc_handle := (oc_handle c)[j := h]\<rparr>) j = c"
proof -
  have "(oc_handle c)[j := 0] = oc_handle c" using list_update_id [of "oc_handle c" j] assms(3) by simp
  then have "is_comp_active ((opened c)\<lparr>oc_handle := (oc_handle c)[j := h, j := 0]\<rparr>) = oc_open c"
    using component_okD [OF assms(1,2)] by (simp add: is_comp_active_def)
  then show ?thesis using component_okD [OF assms(1,2)] \<open>(oc_handle c)[j := 0] = oc_handle c\<close>
    by (simp add: freed_def opened_def Let_def)
qed

section \<open>Properties\<close>

lemma free_left_open:
  assumes "core_ok w" "g_omxcore w = Some core" "OMX_FreeHandle_core e h w = Some (w', rc)" "g_omxcore w' = Some core'"
    and "i < length g_comp_info" "left_open (oc_component core' ! i)"
  shows "left_open (oc_component core ! i)"
proof (cases "h = 0 \<or> get_idx_from_handle h core = None")
  case True
  then have "w' = w" using assms(2,3) by (cases "h = 0") (auto simp: OMX_FreeHandle_core_def)
  then show ?thesis using assms by simp
next
  case False
  then obtain a j where idx: "h \<noteq> 0" "get_idx_from_handle h core = Some (a, j)" by auto
  show ?thesis
  proof (cases "ce_deinit e (cw_trace w) h = OMX_ErrorNone")
    case True
    have "core' = core\<lparr>oc_component := (oc_component core)[a := freed (oc_component core ! a) j]\<rparr>"
      using free_found [OF assms(1,2) idx refl True] assms(3,4) by auto
    moreover have "\<not> left_open (freed c j)" for c by (simp add: freed_def Let_def left_open_def)
    moreover have "i < length (oc_component core)" using core_okD(2) [OF assms(1,2)] few_components [OF assms(5)] by simp
    ultimately show ?thesis using assms(6) by (cases "i = a") auto
  next
    case False
    then show ?thesis using assms(2-4,6) idx by (auto simp: OMX_FreeHandle_core_def Let_def split: if_splits)
  qed
qed

lemma get_left_open_only:
  assumes "core_ok w" "g_omxcore w = Some core" "OMX_GetHandle_core e p n w = Some (w', rc, out)" "g_omxcore w' = Some core'"
    and "i < length g_comp_info" "left_open (oc_component core' ! i)"
  shows "left_open (oc_component core ! i) \<or>
    (\<exists>m. p \<and> n = Some m \<and> get_comp_from_list m core = Some i \<and> \<not> is_comp_active (oc_component core ! i))"
proof -
  have "\<not> hits_left_open core p n" using get_left_open [OF assms(1,2)] assms(3) by auto
  note g = get_cases [OF assms(1,2) this, of e]
  have i: "i < length (oc_component core)" using core_okD(2) [OF assms(1,2)] few_components [OF assms(5)] by simp
  from g assms(3) consider (same) "same_core w w'"
    | (poison) a m where "p" "n = Some m" "get_comp_from_list m core = Some a" "poisoned w core a w'"
    | (hand) a j h where "handed w core a j h w'" by auto
  then show ?thesis
  proof cases
    case same
    then show ?thesis using assms(2,4,6) by (simp add: same_core_def)
  next
    case (poison a m)
    obtain c where c: "g_omxcore w' = Some (core\<lparr>oc_component := (oc_component core)[a := c]\<rparr>)" "a < length g_comp_info"
      "\<not> oc_open (oc_component core ! a)" "\<not> left_open (oc_component core ! a)" using poison(4) by (auto simp: poisoned_def)
    have "\<not> is_comp_active (oc_component core ! a)" using component_okD(2) [OF core_okD(3) [OF assms(1,2) c(2)] c(4)] c(3) by simp
    then show ?thesis using poison(1-3) c(1) assms(4,6) by (cases "i = a") auto
  next
    case (hand a j h)
    have "\<not> left_open ((opened c)\<lparr>oc_handle := x\<rparr>)" for c x by (simp add: left_open_def opened_def)
    then show ?thesis using handedD(6) [OF hand refl] assms(4,6) i by (cases "i = a") auto
  qed
qed

lemma core_do_left_open:
  assumes "core_ok w" "core_expected w a" "core_do e a w = Some w'" "g_omxcore w' = Some core'"
    and "i < length g_comp_info" "left_open (oc_component core' ! i)"
  shows "\<exists>core. g_omxcore w = Some core \<and> (left_open (oc_component core ! i) \<or>
    (\<exists>n. a = C_get True (Some n) \<and> get_comp_from_list n core = Some i \<and> \<not> is_comp_active (oc_component core ! i)))"
proof (cases a)
  case C_init
  have "\<not> left_open (oc_component core_zero ! i)" using few_components [OF assms(5)]
    by (simp add: core_zero_def component_zero_def left_open_def)
  then show ?thesis using C_init assms(3,4,6) by (auto simp: core_do_def OMX_Init_def Let_def split: option.splits if_splits)
next
  case (C_get p n)
  then obtain core where c: "g_omxcore w = Some core" using assms(2) by auto
  obtain rc out where "OMX_GetHandle_core e p n w = Some (w', rc, out)" using C_get assms(3) by (auto simp: core_do_def)
  from get_left_open_only [OF assms(1) c this assms(4-6)] show ?thesis using C_get c by auto
next
  case (C_free h)
  then obtain core where c: "g_omxcore w = Some core" using assms(2) by auto
  obtain rc where "OMX_FreeHandle_core e h w = Some (w', rc)" using C_free assms(3) by (auto simp: core_do_def)
  from free_left_open [OF assms(1) c this assms(4-6)] show ?thesis using c by auto
next
  case C_deinit
  then show ?thesis using assms(3,4) by (auto simp: core_do_def OMX_Deinit_def)
qed


text \<open>C26: Freeing an instance that was just obtained leaves the core and the loaded libraries as they were before, even if
  unloading is reported to have failed.\<close>

theorem omx_get_free_roundtrip:
  assumes "core_reach e w" "g_omxcore w = Some core" "get_idx_from_handle h core = None"
    "OMX_GetHandle_core e p n w = Some (w', OMX_ErrorNone, Some h)" "ce_deinit e (cw_trace w') h = OMX_ErrorNone"
  shows "\<exists>w'' rc. OMX_FreeHandle_core e h w' = Some (w'', rc) \<and> g_omxcore w'' = g_omxcore w \<and> cw_loaded w'' = cw_loaded w"
proof -
  have ok: "core_ok w" by (rule core_reach_ok [OF assms(1)])
  have hit: "\<not> hits_left_open core p n" using get_left_open [OF ok assms(2), of p n e] assms(4) by auto
  obtain i j where "handed w core i j h w'" and left: "\<not> left_open (oc_component core ! i)" using get_cases [OF ok assms(2) hit, of e] assms(4) by auto
  define c where "c = oc_component core ! i"
  note s = handedD [OF \<open>handed w core i j h w'\<close> c_def]
  let ?c = "(opened c)\<lparr>oc_handle := (oc_handle c)[j := h]\<rparr>"
  let ?core = "core\<lparr>oc_component := (oc_component core)[i := ?c]\<rparr>"
  have c: "component_ok w c" using core_okD(3) [OF ok assms(2) s(2)] by (simp add: c_def)
  note cnt = core_okD(1,2) [OF ok assms(2)]
  have i: "i < length (oc_component core)" using few_components [OF s(2)] cnt by simp
  have l: "length (oc_handle c) = OMX_COMP_MAX_INSTANCES" using c by (simp add: component_ok_def)
  have absent: "oc_handle (oc_component core ! a) ! b \<noteq> h" if "a < oc_comp_cnt core" "b < OMX_COMP_MAX_INSTANCES" for a b
    using assms(3) that by (fastforce simp: get_idx_from_handle_def find_None_iff)
  have idx: "get_idx_from_handle h ?core = Some (i, j)" unfolding get_idx_from_handle_def
  proof (rule find_unique)
    fix y assume y: "y \<in> set (List.product [0..<oc_comp_cnt ?core] [0..<OMX_COMP_MAX_INSTANCES])"
      "case y of (a, b) \<Rightarrow> oc_handle (oc_component ?core ! a) ! b = h"
    obtain a b where ab: "y = (a, b)" "a < oc_comp_cnt core" "b < OMX_COMP_MAX_INSTANCES" "oc_handle (oc_component ?core ! a) ! b = h"
      using y by auto
    show "y = (i, j)" using absent [OF ab(2,3)] ab i l s(3) c_def by (cases "a = i"; cases "b = j") auto
  qed (use i l s(2,3) cnt in simp_all)
  have ok': "core_ok w'" using get_ok [OF ok assms(2) hit, of e] assms(4) by auto
  have n: "oc_lib_name ?c = oc_lib_name c" by (simp add: opened_def)
  have f: "freed ?c j = c" by (rule freed_opened [OF c _ s(4)]) (use left in \<open>simp add: c_def\<close>)
  have "(oc_handle c)[j := h, j := 0] = oc_handle c" using s(4) list_update_id [of "oc_handle c" j] by simp
  then have a: "is_comp_active (?c\<lparr>oc_handle := (oc_handle ?c)[j := 0]\<rparr>) = oc_open c"
    using component_okD(2) [OF c] left by (simp add: c_def is_comp_active_def)
  obtain w'' rc where w'': "OMX_FreeHandle_core e h w' = Some (w'', rc)"
      "g_omxcore w'' = Some (?core\<lparr>oc_component := (oc_component ?core)[i := freed ?c j]\<rparr>)"
      "cw_loaded w'' = (cw_loaded w')(oc_lib_name ?c := if is_comp_active (?c\<lparr>oc_handle := (oc_handle ?c)[j := 0]\<rparr>) then 1 else 0)"
    using free_found [OF ok' s(6,1) idx _ assms(5), of ?c] i by auto
  have "g_omxcore w'' = g_omxcore w" using w''(2) assms(2) f by (simp add: c_def)
  moreover have "cw_loaded w'' = cw_loaded w" using w''(3) s(5) component_okD(6) [OF c] left unfolding a n by (simp add: c_def fun_upd_idem)
  ultimately show ?thesis using w''(1) by blast
qed

text \<open>An instance that cannot be created the first time a library is loaded: the library is unloaded, but the component
  stays open, so that the next call for it runs code that is not there.\<close>

theorem failed_instance_poisons_library:
  assumes "g_omxcore w = Some core" "get_comp_from_list n core = Some i" "i < length (oc_component core)" "c = oc_component core ! i"
    "get_free_inst_idx c \<noteq> None" "\<not> oc_open c" "cw_loaded w (oc_lib_name c) = 0" "ce_dlopen e (cw_trace w) (oc_lib_name c)"
    "\<forall>t l f. ce_dlsym e t l f" "\<forall>t l. ce_instance e t l = 0"
  shows "\<exists>w'. OMX_GetHandle_core e True (Some n) w = Some (w', OMX_ErrorInvalidComponent, Some 0) \<and>
    (\<forall>e'. OMX_GetHandle_core e' True (Some n) w' = None)"
proof -
  obtain j where j: "get_free_inst_idx c = Some j" using assms(5) by auto
  let ?c = "(opened c)\<lparr>oc_lib_handle := False\<rparr>"
  have "\<exists>w'. OMX_GetHandle_core e True (Some n) w = Some (w', OMX_ErrorInvalidComponent, Some 0) \<and> cw_loaded w' = cw_loaded w \<and>
      g_omxcore w' = Some (core\<lparr>oc_component := (oc_component core)[i := ?c]\<rparr>)"
    using assms(1,2,6-10) j
    by (simp add: OMX_GetHandle_core_def assms(4) [symmetric] open_library_def Let_def create_instance_def get_handle_error_def
      dlclose_library_def set_component_def opened_def fun_upd_idem)
  then obtain w' where w': "OMX_GetHandle_core e True (Some n) w = Some (w', OMX_ErrorInvalidComponent, Some 0)"
      "cw_loaded w' = cw_loaded w" "g_omxcore w' = Some (core\<lparr>oc_component := (oc_component core)[i := ?c]\<rparr>)" by blast
  have "get_comp_from_list n (core\<lparr>oc_component := (oc_component core)[i := ?c]\<rparr>) = Some i"
  proof -
    have "oc_comp_name ((oc_component core)[i := ?c] ! k) = oc_comp_name (oc_component core ! k)" for k
      using assms(3) by (cases "k = i") (simp_all add: opened_def assms(4))
    then show ?thesis using assms(2) by (simp add: get_comp_from_list_def)
  qed
  moreover have "get_free_inst_idx ?c = Some j" using j by (simp add: get_free_inst_idx_def opened_def)
  ultimately have "OMX_GetHandle_core e' True (Some n) w' = None" for e'
    using w'(2,3) assms(3,7) by (simp add: OMX_GetHandle_core_def open_library_def opened_def create_instance_def)
  then show ?thesis using w'(1) by blast
qed

section \<open>A core in use\<close>

text \<open>Every library can be loaded, and every instance is at an address of its own.\<close>

definition ex_cenv :: core_env where
  "ex_cenv = \<lparr>ce_malloc = (\<lambda>_. True), ce_dlopen = (\<lambda>_ _. True), ce_dlsym = (\<lambda>_ _ _. True), ce_dlclose = (\<lambda>_ _. OMX_ErrorNone),
     ce_instance = (\<lambda>t _. 1000 + length t), ce_create = (\<lambda>t _ _. 2000 + length t), ce_deinit = (\<lambda>_ _. OMX_ErrorNone)\<rparr>"

definition ex_inited :: core_world where
  "ex_inited = fst (OMX_Init ex_cenv core_start)"

definition ex_encoder :: core_world where
  "ex_encoder = the (core_do ex_cenv (C_get True (Some ''OMX.qcom.image.jpeg.encoder'')) ex_inited)"

lemma ex_inited_core: "g_omxcore ex_inited = Some core_zero"
  by (simp add: ex_inited_def OMX_Init_def core_start_def g_comp_info_def OMX_COMP_MAX_NUM_def Let_def ex_cenv_def)

lemma ex_inited_reached: "core_reach ex_cenv ex_inited"
  by (rule core_reach.step [OF core_reach.start, of C_init]) (simp_all add: core_do_def ex_inited_def)

lemma ex_encoder_facts: "case core_do ex_cenv (C_get True (Some ''OMX.qcom.image.jpeg.encoder'')) ex_inited of
    Some w \<Rightarrow> (case g_omxcore w of
      Some core \<Rightarrow> is_comp_active (oc_component core ! 0) \<and> \<not> is_comp_active (oc_component core ! 1) \<and>
        get_comp_from_list ''OMX.qcom.image.jpeg.decoder'' core = Some 1 \<and> \<not> oc_open (oc_component core ! 1)
    | None \<Rightarrow> False)
  | None \<Rightarrow> False"
  by code_simp

lemma ex_encoder_reached: "core_reach ex_cenv ex_encoder"
  using ex_encoder_facts core_reach.step [OF ex_inited_reached, of "C_get True (Some ''OMX.qcom.image.jpeg.encoder'')" ex_encoder]
  by (auto simp: ex_inited_core ex_encoder_def split: option.splits)

text \<open>The first instance of the encoder cannot be created.\<close>

definition ex_fenv :: core_env where
  "ex_fenv = ex_cenv\<lparr>ce_instance := (\<lambda>_ _. 0)\<rparr>"

definition ex_poisoned :: core_world where
  "ex_poisoned = the (core_do ex_fenv (C_get True (Some ''OMX.qcom.image.jpeg.encoder'')) (fst (OMX_Init ex_fenv core_start)))"

lemma ex_poisoned_facts: "case core_do ex_fenv (C_get True (Some ''OMX.qcom.image.jpeg.encoder'')) (fst (OMX_Init ex_fenv core_start)) of
    Some w \<Rightarrow> (case g_omxcore w of
      Some core \<Rightarrow> get_comp_from_list ''OMX.qcom.image.jpeg.encoder'' core = Some 0 \<and>
        oc_open (oc_component core ! 0) \<and> \<not> oc_lib_handle (oc_component core ! 0)
    | None \<Rightarrow> False)
  | None \<Rightarrow> False"
  by code_simp

lemma ex_poisoned_reached: "core_reach ex_fenv ex_poisoned"
proof -
  have "core_reach ex_fenv (fst (OMX_Init ex_fenv core_start))"
    by (rule core_reach.step [OF core_reach.start, of C_init]) (simp_all add: core_do_def)
  moreover have "g_omxcore (fst (OMX_Init ex_fenv core_start)) \<noteq> None" by code_simp
  ultimately show ?thesis
    using ex_poisoned_facts core_reach.step [of ex_fenv "fst (OMX_Init ex_fenv core_start)" "C_get True (Some ''OMX.qcom.image.jpeg.encoder'')" ex_poisoned]
    by (auto simp: ex_poisoned_def split: option.splits)
qed


lemma ex_get_facts:
  "map_option snd (OMX_GetHandle_core ex_cenv True (Some ''OMX.qcom.image.jpeg.encoder'') ex_inited) = Some (OMX_ErrorNone, Some 2005) \<and>
   get_idx_from_handle 2005 core_zero = None"
  by code_simp

theorem omx_get_free_roundtrip_witness:
  "\<exists>w' h w'' rc. OMX_GetHandle_core ex_cenv True (Some ''OMX.qcom.image.jpeg.encoder'') ex_inited = Some (w', OMX_ErrorNone, Some h) \<and>
     OMX_FreeHandle_core ex_cenv h w' = Some (w'', rc) \<and> g_omxcore w'' = Some core_zero \<and> cw_loaded w'' = cw_loaded ex_inited"
proof -
  define h :: addr where "h = 2005"
  obtain w' where g: "OMX_GetHandle_core ex_cenv True (Some ''OMX.qcom.image.jpeg.encoder'') ex_inited = Some (w', OMX_ErrorNone, Some h)"
      "get_idx_from_handle h core_zero = None"
    using ex_get_facts by (auto simp: h_def)
  have "ce_deinit ex_cenv (cw_trace w') h = OMX_ErrorNone" by (simp add: ex_cenv_def)
  from omx_get_free_roundtrip [OF ex_inited_reached ex_inited_core g(2,1) this] g(1) show ?thesis by (auto simp: ex_inited_core)
qed

text \<open>A library without instances.\<close>

theorem failed_instance_poisons_library_witness:
  "\<exists>w'. OMX_GetHandle_core (ex_cenv\<lparr>ce_instance := (\<lambda>_ _. 0)\<rparr>) True (Some ''OMX.qcom.image.jpeg.encoder'') ex_inited =
     Some (w', OMX_ErrorInvalidComponent, Some 0) \<and> OMX_GetHandle_core ex_cenv True (Some ''OMX.qcom.image.jpeg.encoder'') w' = None"
proof -
  have f: "get_comp_from_list ''OMX.qcom.image.jpeg.encoder'' core_zero = Some 0" "get_free_inst_idx (oc_component core_zero ! 0) \<noteq> None"
      "\<not> oc_open (oc_component core_zero ! 0)" "0 < length (oc_component core_zero)"
      "cw_loaded ex_inited (oc_lib_name (oc_component core_zero ! 0)) = 0"
    by code_simp+
  have "ce_dlopen (ex_cenv\<lparr>ce_instance := (\<lambda>_ _. 0)\<rparr>) (cw_trace ex_inited) (oc_lib_name (oc_component core_zero ! 0))"
      "\<forall>t l f. ce_dlsym (ex_cenv\<lparr>ce_instance := (\<lambda>_ _. 0)\<rparr>) t l f" "\<forall>t l. ce_instance (ex_cenv\<lparr>ce_instance := (\<lambda>_ _. 0)\<rparr>) t l = 0"
    by (simp_all add: ex_cenv_def)
  from failed_instance_poisons_library [OF ex_inited_core f(1,4) refl f(2,3,5) this] show ?thesis by blast
qed

end
