(* ===== verification/Spec2Isabelle.thy ===== *)
theory Spec2Isabelle
  imports ChannelStart CameraProps CamQueue HalApi ParmProps ParmRegion PostSystem JpegProps JpegDecProps OmxProps
begin

text \<open>
  The camera of \<^verbatim>\<open>camera/QCamera2\<close>: the C library between the camera HAL and the kernel driver
  (\<^verbatim>\<open>camera/QCamera2/stack\<close>), and the core of the HAL above it (\<^verbatim>\<open>camera/QCamera2/HAL\<close>).

  The program.  The library \<^verbatim>\<open>mm-camera-interface\<close> gives the HAL a table of cameras (\<^verbatim>\<open>mm_camera_interface.c\<close>).  A camera
  object (\<^verbatim>\<open>mm_camera.c\<close>) has channels, a channel (\<^verbatim>\<open>mm_camera_channel.c\<close>) has up to four streams, and a stream
  (\<^verbatim>\<open>mm_camera_stream.c\<close>) is a video device with its buffers.  A poll thread per channel (\<^verbatim>\<open>mm_camera_thread.c\<close>) waits
  for frames of its streams; a frame goes to the stream's own callbacks through the stream's command thread, and, when the
  channel bundles its streams, through the channel's command thread into the super-buffer queue, where frames with the same
  index wait for each other until the complete bundle is handed to the application by the channel's callback thread.  A buffer
  carries a reference count; the last holder gives it back to the driver.  The library \<^verbatim>\<open>mm-jpeg-interface\<close> encodes pictures
  and decodes them: a client opens sessions, each with an OMX component of its own, and starts jobs, which a job manager
  thread hands to the components one at a time (\<^verbatim>\<open>mm_jpeg.c\<close>, \<^verbatim>\<open>mm_jpegdec.c\<close>).  The components come from a core that
  loads and unloads their libraries (\<^verbatim>\<open>camera/mm-image-codec/qomx_core\<close>).

  The HAL object (\<^verbatim>\<open>QCamera2HWI.cpp\<close>) is called by the framework.  Each entry point posts a request to the queue of a
  state machine (\<^verbatim>\<open>QCameraStateMachine.cpp\<close>) and waits for its result; the thread of the state machine handles requests, and
  events from the camera, the jpeg library and the thermal daemon, one at a time.  A handler depends on the state (eight
  states) and calls methods of the HAL that add, start, stop and delete channels (\<^verbatim>\<open>QCameraChannel.cpp\<close>,
  \<^verbatim>\<open>QCameraStream.cpp\<close>) and change parameters (\<^verbatim>\<open>QCameraParameters.cpp\<close>), which are sent to the camera as one batch.
  Pictures come back as frames of the capture or the ZSL channel: callbacks (\<^verbatim>\<open>QCamera2HWICallbacks.cpp\<close>) copy them into the
  queues of the postprocessor (\<^verbatim>\<open>QCameraPostProc.cpp\<close>), whose thread has them reprocessed and encoded, one at a time, and
  the notifier's thread passes results to the application and releases them afterwards.

  The theories.
  \<^item> \<^verbatim>\<open>Prelude\<close>: C integers, options, words; \<^verbatim>\<open>CamTypes\<close>: the shared types (\<^verbatim>\<open>cam_types.h\<close>, \<^verbatim>\<open>cam_intf.h\<close>,
    \<^verbatim>\<open>mm_camera_interface.h\<close>, \<^verbatim>\<open>mm_camera.h\<close>); \<^verbatim>\<open>World\<close>: system calls, allocation and callbacks as values, the
    trace of the calls made, and the environment that answers them.
  \<^item> \<^verbatim>\<open>CamList\<close>, \<^verbatim>\<open>Fifo\<close>, \<^verbatim>\<open>CamQueue\<close>: the intrusive list and the two queues on an explicit heap; the contract
    of a queue is the locale \<^verbatim>\<open>fifo_queue\<close>, interpreted for both.
  \<^item> \<^verbatim>\<open>Handle\<close>: object handles.  \<^verbatim>\<open>PollThread\<close>, \<^verbatim>\<open>CmdThread\<close>: the two kinds of threads; the command thread is a step
    relation over all interleavings of its worker with the producers.
  \<^item> \<^verbatim>\<open>StreamOffset\<close>: the layout of a frame, on 32-bit words.  \<^verbatim>\<open>Stream\<close>: the operations, state machine and driver calls
    of a stream.  \<^verbatim>\<open>StreamBufs\<close>: the protocol of buffer references between driver, stream, channel and holders, as a step
    relation.
  \<^item> \<^verbatim>\<open>Superbuf\<close>, \<^verbatim>\<open>SuperbufProps\<close>: the super-buffer queue; what it asks of its channel is the record \<^verbatim>\<open>chan_ops\<close> with the
    locales \<^verbatim>\<open>buffer_sink\<close> and \<^verbatim>\<open>ops_keep\<close>, interpreted for the channel.
  \<^item> \<^verbatim>\<open>Channel\<close>, \<^verbatim>\<open>ChannelProps\<close>, \<^verbatim>\<open>ChannelStart\<close>: the channel, its threads' callbacks and its state machine.
  \<^item> \<^verbatim>\<open>Camera\<close>, \<^verbatim>\<open>CameraIntf\<close>, \<^verbatim>\<open>CameraProps\<close>: the camera object, the domain socket, the table of cameras with every
    entry of \<^verbatim>\<open>mm_camera_ops\<close>, and sequences of calls of the interface.
  \<^item> \<^verbatim>\<open>ParmBatch\<close>: the linked table of parameters that the HAL shares with the camera.  \<^verbatim>\<open>HalBase\<close>: the state of the HAL,
    its events, and its calls to the layers below, which are recorded and answered by an environment.
  \<^item> The parameters (\<^verbatim>\<open>QCameraParameters.cpp\<close>).  \<^verbatim>\<open>CString\<close>: what the code uses of the C string functions;
    \<^verbatim>\<open>ParmTypes\<close>: keys, capabilities, and the record \<^verbatim>\<open>parm_env\<close> of what is not in the repository (the class
    \<^verbatim>\<open>CameraParameters\<close>, system properties, \<^verbatim>\<open>float\<close> rounding); \<^verbatim>\<open>ParmTables\<close>: tables of names, printing and parsing of
    lists; \<^verbatim>\<open>HalParams\<close>: batch, commit and plain settings; \<^verbatim>\<open>ParmSize\<close>, \<^verbatim>\<open>ParmControl\<close>, \<^verbatim>\<open>ParmArea\<close>: the setters;
    \<^verbatim>\<open>ParmUpdate\<close>: \<^verbatim>\<open>updateParameters\<close> and the getters; \<^verbatim>\<open>ParmInit\<close>: construction, defaults, end; \<^verbatim>\<open>ParmDemo\<close>: a
    concrete camera.  \<^verbatim>\<open>ParmFrame\<close>, \<^verbatim>\<open>ParmProps\<close>: what every setter may do, and the invariant that follows;
    \<^verbatim>\<open>ParmText\<close>: texts that parse back; \<^verbatim>\<open>ParmRegion\<close>: computed values, and settings that rejected requests change.
  \<^item> \<^verbatim>\<open>HalHwi\<close>: channels, preview and recording; \<^verbatim>\<open>HalOps\<close>: the other methods; \<^verbatim>\<open>HalSM\<close>: the state machine, one
    equation for each event in each state.
  \<^item> \<^verbatim>\<open>HalFrames\<close>: what the methods leave alone and what they do to the channels.  \<^verbatim>\<open>HalAnswers\<close>: the results signalled.
    \<^verbatim>\<open>HalDevice\<close>: the channels that the states promise.  \<^verbatim>\<open>HalFaults\<close>: requests that fail and what they leave behind.
    \<^verbatim>\<open>HalApi\<close>: the entry points and the protocol between callers and the thread, over all interleavings.
  \<^item> \<^verbatim>\<open>HalQueue\<close>, \<^verbatim>\<open>HalThread\<close>: the queue and the command thread of the HAL's classes (\<^verbatim>\<open>util/QCameraQueue.cpp\<close>,
    \<^verbatim>\<open>util/QCameraCmdThread.cpp\<close>), the queue on an explicit heap and as a provider of \<^verbatim>\<open>fifo_queue\<close>.
  \<^item> \<^verbatim>\<open>PostBase\<close>: frames, jobs and callback arguments on a heap, how they are given back, and the notifier of
    \<^verbatim>\<open>QCamera2HWICallbacks.cpp\<close>; \<^verbatim>\<open>PostProc\<close>: the postprocessor (\<^verbatim>\<open>QCameraPostProc.cpp\<close>) with its thread, and the reprocess
    channel; \<^verbatim>\<open>PostCallbacks\<close>: the callbacks of channels and streams.  \<^verbatim>\<open>PostMem\<close>, \<^verbatim>\<open>PostOwn\<close>, \<^verbatim>\<open>PostProps\<close>: which queue owns
    which frame, and that every operation keeps it; \<^verbatim>\<open>PostSystem\<close>: all of them as a step relation, and its properties.
  \<^item> The jpeg library.  \<^verbatim>\<open>JpegBase\<close>: clients, sessions, jobs, the calls and callbacks of a component, its changes of state
    and the abort of a session; \<^verbatim>\<open>JpegEnc\<close>, \<^verbatim>\<open>JpegDec\<close>: a session of the encoder and of the decoder; \<^verbatim>\<open>JpegObj\<close>: the job
    manager, clients, jobs and the life of sessions; \<^verbatim>\<open>JpegIntf\<close>: the functions the HAL calls.  \<^verbatim>\<open>JpegOwn\<close>: what a
    session's calls and the callbacks in between leave alone (\<^verbatim>\<open>quiet\<close>); \<^verbatim>\<open>JpegSystem\<close>: the invariant of the encoder
    under clients, job manager and callbacks in any order; \<^verbatim>\<open>JpegProps\<close>, \<^verbatim>\<open>JpegDecProps\<close>: the properties of both.
  \<^item> \<^verbatim>\<open>OmxCore\<close>, \<^verbatim>\<open>OmxProps\<close>: the core of the components with its table of instances, and its properties.

  How state is represented.  A C structure is a record, an enumeration or a tagged union a datatype, an integer a word of its
  width.  Fixed arrays are lists of the array's length.  An operation takes the objects it can reach and the trace and
  returns them updated; a back pointer (stream to channel, channel to camera) is a context argument or a copied member that
  never changes while the object lives.  Errors are the result codes of the code.  A step that would dereference a null
  pointer or index past an array adds the mark \<^verbatim>\<open>UndefinedBehaviour\<close> to the trace (\<^verbatim>\<open>None\<close> on the explicit heap), and
  a wait that never ends the mark \<^verbatim>\<open>BlockedForever\<close>.

  Interleaving.  Threads interact through command queues and buffers.  The command thread and the buffer references are proved
  over all interleavings (\<^verbatim>\<open>cmd_step\<close>, \<^verbatim>\<open>proto_step\<close>).  The operations of channel and camera, which the code runs
  under a mutex, are functions; the mutexes of the interface are recorded and checked (\<^verbatim>\<open>lock_run\<close>).  The handlers of
  the HAL run on one thread and are functions; the protocol of requests and results around them is a step function on
  labels, one for each place where a caller, the thread, or a wakeup can come in (\<^verbatim>\<open>api_step\<close>).  The postprocessor, the
  notifier and their callers take turns, one operation each, in any order (\<^verbatim>\<open>post_step\<close>); a turn that would use freed
  memory is \<^verbatim>\<open>None\<close>.  The component of a jpeg session calls back from a thread of its own: the environment
  (\<^verbatim>\<open>jpeg_env\<close>) chooses which callbacks run after each call and during each wait, except that none runs while the lock of
  its session is held; there a wait that nothing ends is \<^verbatim>\<open>None\<close>, and undefined behaviour raises \<^verbatim>\<open>j_bad\<close>.

  What the properties show.
  \<^item> Buffers: references are counted exactly, the last one requeues, a frame passing through the channel is neither lost nor
    duplicated, and the paths on which this fails (failed allocation, frame index 0, refused frames).
  \<^item> Bundles: the queue keeps its structure and counters, a dequeued bundle is complete, draining ends, waiting bundles are
    bounded, requests dispatch in order.
  \<^item> Threads: commands are handled in order in every interleaving, an exit always ends the worker, a descriptor runs its own
    callback.
  \<^item> State machines of stream and channel follow their diagrams; starting and stopping run over the streams in the
    right order; what a failed start and a stop leave behind.
  \<^item> The interface: mutexes nest in one order, camera references are exact, closed handles are dead, operations stay in their
    channel, failed opens close what they opened, event callbacks register and unregister; deleting an active channel, and
    opening without a subscription.
  \<^item> Queues and layout: the camera queue refines a list under any allocation failures, its flush frees everything once, the
    jpeg queue's flush reads freed memory; a frame layout has room for its planes without wrap-around.
  \<^item> The HAL: the batch of parameters refines a map; every event in every state gets the results of one table; the channels
    that a state promises exist and run in every reachable state; a lone call through the protocol is a sequential call;
    and where it goes wrong: two calls at a time, a rejected request that takes effect later, a recording that fails to
    start, a preview reported off.
  \<^item> The parameters: what the application reads back is always supported, a batch has the sizes of its parameters and fits the
    shared table, sizes and areas parse back, regions lie inside the preview; and area texts that leave a buffer, reversed
    areas, lost fractions of frame rates, and settings that survive a rejected request.

  \<^item> Pictures: the frames on the heap are those that the queues refer to, once each; no turn of a thread frees twice; a stop
    empties every queue; the queue of the HAL refines a list with two ends; a preview frame goes back exactly once.  And the
    edges: pictures released twice while the camera closes, the last raw picture of a burst that leaks, pictures that a
    failed encode leaves behind.
  \<^item> The jpeg library: the encoder stays within its components, arrays and sessions and encodes one job at a time, no job
    is forgotten as long as none is aborted, and the identifiers of a session's jobs differ.  And where it goes wrong: an
    abort wakes nobody, jobs of a decoder outlive their session, a decoder waits for an event that has come.
  \<^item> The core: a library is loaded exactly while it has instances, obtaining and freeing one leaves no trace; an instance
    that cannot be created makes the next call run unloaded code.

  Bounds and fuel. Recursion is structural or has a measure (the dispatch loop: the length of the queue). The draining loops of
  the super-buffer queue and the flush loops are \<^verbatim>\<open>partial_function\<close>s; that they return is proved.
  Waiting for the jpeg job manager to end is one, too; it has no result when the thread never gets the command to exit. The
  retry loops of opening a camera count down from \<^verbatim>\<open>MM_CAMERA_DEV_OPEN_TRIES\<close>.

  Not modelled. The kernel driver, the camera server and the applications are the environment. The Venus frame macros
  (\<^verbatim>\<open>media/msm_media_info.h\<close>) are not in the repository and are an argument. Of the jpeg library the
  EXIF entries built from the metadata (their number is an answer of the environment) and the ION buffers are left out, and
  condition variables do not wake without a signal. Of the HAL, the EXIF values of the parameters, the memory classes, dumps to
  files, and opening and closing are not modelled; frames that the postprocessor gives back are calls, as are the functions of
  the encoder it calls. That every allocation succeeds is an assumption of the properties about the postprocessor
  (\<^verbatim>\<open>mallocs_ok\<close>); the definitions have the failing branches. The older stack
  \<^verbatim>\<open>camera/QCamera\<close>, the test programs, bluetooth and the small device daemons are not.
\<close>

end
